(* ===== verification/Prelude.thy ===== *)
theory Prelude
  imports Complex_Main "HOL-Library.AList" "HOL-Library.Sublist"
begin

text \<open>
  Shared vocabulary of the development: Python exceptions as values, the sum type of fallible
  operations, operations that change a state and may raise, Python's list slices and indices,
  dictionaries in insertion order, and the string operations the sources use.

  Strings are lists of characters. Python's strings are sequences of code points, an Isabelle
  \<^typ>\<open>char\<close> is one byte; the two agree on ASCII text, and a non-ASCII literal is written as
  its UTF-8 bytes. Python's floats (costs, budgets, clock values) are exact rationals: no
  rounding is modelled.
\<close>

named_theorems py_simps \<open>evaluation rules of the Python primitives\<close>

section \<open>Exceptions as values\<close>

text \<open>
  The classes of \<open>litellm.exceptions\<close> are third-party code. An exception raised by the
  language model client is therefore a record of what the sources read of it: its class name,
  its text, the classes it is an instance of (as \<open>isinstance\<close> answers), and the two
  attributes the retry decorator may have set.
\<close>

datatype llm_class =
    APIConnectionError | APIError | AuthenticationError | BadGatewayError | BadRequestError
  | ContentPolicyViolationError | ContextWindowExceededError | InternalServerError
  | NotFoundError | OpenAIError | RateLimitError | ServiceUnavailableError | Timeout

record llm_exn =
  llm_name :: string
  llm_text :: string
  llm_instance_of :: "llm_class list"
  llm_retry_attempt :: "int option"
  llm_max_retries :: "int option"

datatype exn =
    ValueError string
  | TypeError string
  | KeyError string
  | IndexError
  | AssertionError
  | AttributeError string
  | FileNotFoundError string
  | RuntimeError string
  | PlainException string
  | AgentStuckInLoopError string
  | LLMMalformedActionError string
  | LLMNoActionError string
  | LLMResponseError string
  | LLMContextWindowExceedError string
  | FunctionCallValidationError string
  | FunctionCallNotExistsError string
  | FunctionCallConversionError string
  | LLMNoResponseError string
  | OtherException string string
  | LLMExn llm_exn

type_synonym 'a result = "exn + 'a"

definition bindE :: "'a result \<Rightarrow> ('a \<Rightarrow> 'b result) \<Rightarrow> 'b result" where
  "bindE m f = (case m of Inl e \<Rightarrow> Inl e | Inr x \<Rightarrow> f x)"

lemma bindE_simps [simp, py_simps]:
  "bindE (Inl e) f = Inl e"
  "bindE (Inr x) f = f x"
  by (simp_all add: bindE_def)

lemma bindE_Inr_iff: "bindE m f = Inr y \<longleftrightarrow> (\<exists>x. m = Inr x \<and> f x = Inr y)"
  by (cases m) auto

lemma bindE_assoc: "bindE (bindE m f) g = bindE m (\<lambda>x. bindE (f x) g)"
  by (cases m) simp_all

section \<open>Operations on a state that may raise\<close>

text \<open>
  The state reached when an exception leaves the operation is part of the result: what was
  assigned before the raise stays assigned.
\<close>

type_synonym ('s, 'a) op = "'s \<Rightarrow> 'a result \<times> 's"

definition retS :: "'a \<Rightarrow> ('s, 'a) op" where
  "retS x s = (Inr x, s)"

definition raiseS :: "exn \<Rightarrow> ('s, 'a) op" where
  "raiseS e s = (Inl e, s)"

definition modS :: "('s \<Rightarrow> 's) \<Rightarrow> ('s, unit) op" where
  "modS f s = (Inr (), f s)"

definition bindS :: "('s, 'a) op \<Rightarrow> ('a \<Rightarrow> ('s, 'b) op) \<Rightarrow> ('s, 'b) op" where
  "bindS m f s = (case m s of (Inl e, s') \<Rightarrow> (Inl e, s') | (Inr x, s') \<Rightarrow> f x s')"

text \<open>\<open>try: m except Exception as e: h e\<close>.\<close>

definition tryS :: "('s, 'a) op \<Rightarrow> (exn \<Rightarrow> ('s, 'a) op) \<Rightarrow> ('s, 'a) op" where
  "tryS m h s = (case m s of (Inl e, s') \<Rightarrow> h e s' | (Inr x, s') \<Rightarrow> (Inr x, s'))"

lemma op_simps [simp, py_simps]:
  "retS x s = (Inr x, s)"
  "raiseS e s = (Inl e, s)"
  "modS f s = (Inr (), f s)"
  by (simp_all add: retS_def raiseS_def modS_def)

text \<open>Two states in relation \<open>R\<close> whenever the operation leads from one to the other.\<close>

locale op_relation =
  fixes R :: "'s \<Rightarrow> 's \<Rightarrow> bool"
  assumes same: "R s s" and trans: "R s t \<Longrightarrow> R t u \<Longrightarrow> R s u"
begin

definition keeps :: "('s, 'a) op \<Rightarrow> bool" where
  "keeps m \<longleftrightarrow> (\<forall>s. R s (snd (m s)))"

lemma keepsD: "keeps m \<Longrightarrow> R s (snd (m s))"
  unfolding keeps_def by blast

lemma keepsI: "(\<And>s. R s (snd (m s))) \<Longrightarrow> keeps m"
  by (simp add: keeps_def)

lemma keeps_ret: "keeps (retS x)" "keeps (raiseS e)"
  by (simp_all add: keeps_def same)

lemma keeps_bind: "keeps m \<Longrightarrow> (\<And>x. keeps (f x)) \<Longrightarrow> keeps (bindS m f)"
proof (rule keepsI)
  fix s
  assume k: "keeps m" "\<And>x. keeps (f x)"
  obtain r t where m: "m s = (r, t)" by (cases "m s")
  have 1: "R s t" using keepsD [OF k(1), of s] m by simp
  show "R s (snd (bindS m f s))"
  proof (cases r)
    case (Inl e)
    with 1 m show ?thesis by (simp add: bindS_def)
  next
    case (Inr x)
    with m have "bindS m f s = f x t" by (simp add: bindS_def)
    with trans [OF 1 keepsD [OF k(2)]] show ?thesis by simp
  qed
qed

lemma keeps_try: "keeps m \<Longrightarrow> (\<And>e. keeps (h e)) \<Longrightarrow> keeps (tryS m h)"
proof (rule keepsI)
  fix s
  assume k: "keeps m" "\<And>e. keeps (h e)"
  obtain r t where m: "m s = (r, t)" by (cases "m s")
  have 1: "R s t" using keepsD [OF k(1), of s] m by simp
  with trans [OF 1 keepsD [OF k(2)]] m show "R s (snd (tryS m h s))"
    by (cases r) (simp_all add: tryS_def)
qed

lemma keeps_if: "keeps m \<Longrightarrow> keeps n \<Longrightarrow> keeps (if b then m else n)"
  by simp

lemma keeps_mod: "(\<And>s. R s (f s)) \<Longrightarrow> keeps (modS f)"
  by (rule keepsI) simp

end

section \<open>Lists with Python's indices\<close>

definition slice_index :: "nat \<Rightarrow> int \<Rightarrow> nat" where
  "slice_index n i = (if i < 0 then nat (max 0 (int n + i)) else min n (nat i))"

definition slice_from :: "'a list \<Rightarrow> int \<Rightarrow> 'a list" where
  "slice_from xs i = drop (slice_index (length xs) i) xs"

definition slice_to :: "'a list \<Rightarrow> int \<Rightarrow> 'a list" where
  "slice_to xs j = take (slice_index (length xs) j) xs"

definition py_slice :: "'a list \<Rightarrow> int \<Rightarrow> int \<Rightarrow> 'a list" where
  "py_slice xs i j =
     (let a = slice_index (length xs) i; b = slice_index (length xs) j
      in take (b - a) (drop a xs))"

definition py_get :: "'a list \<Rightarrow> int \<Rightarrow> 'a result" where
  "py_get xs i =
     (if i < - int (length xs) \<or> int (length xs) \<le> i then Inl IndexError
      else if i < 0 then Inr (xs ! (length xs - nat (- i)))
      else Inr (xs ! nat i))"

definition py_insert :: "'a list \<Rightarrow> int \<Rightarrow> 'a \<Rightarrow> 'a list" where
  "py_insert xs i x = (let k = slice_index (length xs) i in take k xs @ x # drop k xs)"

lemma slice_index_nat [simp]: "slice_index n (int k) = min n k"
  by (simp add: slice_index_def)

lemma slice_index_le: "slice_index n i \<le> n"
  by (auto simp: slice_index_def)

lemma slice_to_nat [simp]: "slice_to xs (int k) = take k xs"
  by (simp add: slice_to_def min_def)

lemma slice_from_nat [simp]: "slice_from xs (int k) = drop k xs"
  by (simp add: slice_from_def min_def)

lemma slice_from_neg:
  "0 < k \<Longrightarrow> slice_from xs (- int k) = drop (length xs - k) xs"
  by (auto simp: slice_from_def slice_index_def nat_diff_distrib' max_def)

lemma slice_from_zero [simp]: "slice_from xs 0 = xs"
  by (simp add: slice_from_def slice_index_def)

lemma py_slice_nat: "py_slice xs (int a) (int b) = take (b - a) (drop a xs)"
  by (auto simp: py_slice_def min_def)

lemma py_slice_neg_end:
  "0 < k \<Longrightarrow> py_slice xs (int a) (- int k) = take (length xs - k - a) (drop a xs)"
  by (auto simp: py_slice_def slice_index_def nat_diff_distrib' max_def min_def Let_def)

lemma length_py_insert [simp]: "length (py_insert xs i x) = Suc (length xs)"
  by (simp add: py_insert_def Let_def)

lemma set_py_insert [simp]: "set (py_insert xs i x) = insert x (set xs)"
proof -
  have "set (take k xs) \<union> set (drop k xs) = set xs" for k
    by (metis append_take_drop_id set_append)
  then show ?thesis by (auto simp: py_insert_def Let_def)
qed

text \<open>\<open>next((x for x in xs if p(x)), None)\<close> is \<^const>\<open>List.find\<close>; \<open>enumerate\<close> is
  \<^const>\<open>List.enumerate\<close>; the first index at which a test holds:\<close>

fun index_where :: "('a \<Rightarrow> bool) \<Rightarrow> 'a list \<Rightarrow> nat option" where
  "index_where p [] = None"
| "index_where p (x # xs) = (if p x then Some 0 else map_option Suc (index_where p xs))"

lemma index_where_Some:
  "index_where p xs = Some i \<Longrightarrow> i < length xs \<and> p (xs ! i) \<and> (\<forall>j < i. \<not> p (xs ! j))"
proof (induction xs arbitrary: i)
  case Nil
  then show ?case by simp
next
  case (Cons x xs)
  then show ?case
    by (auto split: if_splits simp: less_Suc_eq_0_disj nth_Cons split: nat.splits)
qed

lemma index_where_None: "index_where p xs = None \<longleftrightarrow> (\<forall>x \<in> set xs. \<not> p x)"
  by (induction xs) auto

section \<open>Dictionaries in insertion order\<close>

text \<open>
  A dictionary whose order is read is an association list with distinct keys:
  \<open>d[k] = v\<close> is \<^const>\<open>AList.update\<close> (which keeps the place of a present key and appends
  a new one), \<open>del d[k]\<close> is \<^const>\<open>AList.delete\<close>, \<open>d.get(k)\<close> is \<^const>\<open>map_of\<close>.
\<close>

type_synonym ('k, 'v) dict = "('k \<times> 'v) list"

definition has_key :: "('k, 'v) dict \<Rightarrow> 'k \<Rightarrow> bool" where
  "has_key d k \<longleftrightarrow> k \<in> fst ` set d"

definition dict_update :: "('k, 'v) dict \<Rightarrow> ('k, 'v) dict \<Rightarrow> ('k, 'v) dict" where
  "dict_update d e = foldl (\<lambda>acc (k, v). AList.update k v acc) d e"

lemma has_key_map_of: "has_key d k \<longleftrightarrow> map_of d k \<noteq> None"
  by (simp add: has_key_def map_of_eq_None_iff)

lemma map_of_dict_update: "map_of (dict_update d e) = map_of d ++ map_of (rev e)"
  by (induction e arbitrary: d)
    (auto simp: dict_update_def update_conv' map_add_def fun_eq_iff split: option.splits)

lemma map_of_rev: "distinct (map fst d) \<Longrightarrow> map_of (rev d) = map_of d"
  by (subst map_of_inject_set) (simp_all add: rev_map [symmetric])

lemma distinct_dict_update:
  "distinct (map fst d) \<Longrightarrow> distinct (map fst (dict_update d e))"
  by (induction e arbitrary: d) (auto simp: dict_update_def distinct_update)

section \<open>Strings\<close>

definition is_space :: "char \<Rightarrow> bool" where
  "is_space c \<longleftrightarrow> (let n = of_char c :: nat in n = 32 \<or> (9 \<le> n \<and> n \<le> 13) \<or> (28 \<le> n \<and> n \<le> 31))"

definition py_strip :: "string \<Rightarrow> string" where
  "py_strip s = rev (dropWhile is_space (rev (dropWhile is_space s)))"

fun split_on :: "'a \<Rightarrow> 'a list \<Rightarrow> 'a list list" where
  "split_on c [] = [[]]"
| "split_on c (x # xs) =
     (if x = c then [] # split_on c xs
      else (case split_on c xs of [] \<Rightarrow> [[x]] | y # ys \<Rightarrow> (x # y) # ys))"

lemma split_on_nonempty [simp]: "split_on c xs \<noteq> []"
  by (induction xs) (auto split: list.splits)

fun py_join :: "string \<Rightarrow> string list \<Rightarrow> string" where
  "py_join sep [] = []"
| "py_join sep [s] = s"
| "py_join sep (s # t # ss) = s @ sep @ py_join sep (t # ss)"

lemma join_split: "concat (map (\<lambda>l. c # l) (split_on c xs)) = c # xs"
  by (induction xs) (auto split: list.splits)

text \<open>\<open>sub in s\<close>.\<close>

fun occurs_in :: "string \<Rightarrow> string \<Rightarrow> bool" where
  "occurs_in sub [] = (sub = [])"
| "occurs_in sub (c # s) = (prefix sub (c # s) \<or> occurs_in sub s)"

lemma occurs_in_iff: "occurs_in sub s \<longleftrightarrow> (\<exists>a b. s = a @ sub @ b)"
proof (induction s)
  case Nil
  then show ?case by auto
next
  case (Cons c s)
  have "(\<exists>a b. c # s = a @ sub @ b) \<longleftrightarrow> prefix sub (c # s) \<or> (\<exists>a b. s = a @ sub @ b)"
    by (auto simp: prefix_def append_eq_Cons_conv Cons_eq_append_conv)
  with Cons show ?case by simp
qed

definition lower_char :: "char \<Rightarrow> char" where
  "lower_char c = (let n = of_char c :: nat in if 65 \<le> n \<and> n \<le> 90 then char_of (n + 32) else c)"

definition py_lower :: "string \<Rightarrow> string" where
  "py_lower s = map lower_char s"

fun digits :: "nat \<Rightarrow> string" where
  "digits n = (if n < 10 then [char_of (48 + n)] else digits (n div 10) @ [char_of (48 + n mod 10)])"

declare digits.simps [simp del]

definition str_of_int :: "int \<Rightarrow> string" where
  "str_of_int i = (if i < 0 then ''-'' @ digits (nat (- i)) else digits (nat i))"

text \<open>\<open>f'{x:.2f}'\<close>: two decimals of the exact value, ties to the even digit.\<close>

definition round_half_even :: "rat \<Rightarrow> int" where
  "round_half_even q =
     (let f = \<lfloor>q\<rfloor>; d = q - of_int f
      in if d < 1/2 then f else if d > 1/2 then f + 1 else if even f then f else f + 1)"

definition fixed2 :: "rat \<Rightarrow> string" where
  "fixed2 q =
     (let h = round_half_even (\<bar>q\<bar> * 100); c = nat (h mod 100)
      in (if q < 0 then ''-'' else []) @ str_of_int (h div 100) @ ''.'' @
         [char_of (48 + c div 10), char_of (48 + c mod 10)])"

end
