(* ===== verification/Metrics.thy ===== *)
theory Metrics
  imports Prelude
begin

text \<open>
  The cost and token accounting of language model calls (\<open>openhands/llm/metrics.py\<close>). The
  clock reading that \<open>Cost\<close> takes as its default timestamp is an argument of
  \<open>add_cost\<close>. Every attribute the class guards with \<open>hasattr\<close> for old pickles is present in
  the record.
\<close>

record cost =
  cost_model :: string
  cost_value :: rat
  cost_timestamp :: rat

record response_latency =
  latency_model :: string
  latency :: rat
  latency_response_id :: string

record token_usage =
  usage_model :: string
  prompt_tokens :: int
  completion_tokens :: int
  cache_read_tokens :: int
  cache_write_tokens :: int
  context_window :: int
  per_turn_token :: int
  usage_response_id :: string

record metrics =
  accumulated_cost :: rat
  max_budget_per_task :: "rat option"
  costs :: "cost list"
  response_latencies :: "response_latency list"
  metrics_model_name :: string
  token_usages :: "token_usage list"
  accumulated_token_usage :: token_usage

definition token_usage_add :: "token_usage \<Rightarrow> token_usage \<Rightarrow> token_usage" where
  "token_usage_add u v =
     \<lparr>usage_model = usage_model u,
      prompt_tokens = prompt_tokens u + prompt_tokens v,
      completion_tokens = completion_tokens u + completion_tokens v,
      cache_read_tokens = cache_read_tokens u + cache_read_tokens v,
      cache_write_tokens = cache_write_tokens u + cache_write_tokens v,
      context_window = max (context_window u) (context_window v),
      per_turn_token = per_turn_token v,
      usage_response_id = usage_response_id u\<rparr>"

definition empty_usage :: "string \<Rightarrow> token_usage" where
  "empty_usage m =
     \<lparr>usage_model = m, prompt_tokens = 0, completion_tokens = 0, cache_read_tokens = 0,
      cache_write_tokens = 0, context_window = 0, per_turn_token = 0, usage_response_id = []\<rparr>"

definition new_metrics :: "string \<Rightarrow> metrics" where
  "new_metrics m =
     \<lparr>accumulated_cost = 0, max_budget_per_task = None, costs = [], response_latencies = [],
      metrics_model_name = m, token_usages = [], accumulated_token_usage = empty_usage m\<rparr>"

definition default_metrics :: metrics where
  "default_metrics = new_metrics ''default''"

definition set_accumulated_cost :: "rat \<Rightarrow> metrics \<Rightarrow> metrics result" where
  "set_accumulated_cost v m =
     (if v < 0 then Inl (ValueError ''Total cost cannot be negative.'')
      else Inr (m\<lparr>accumulated_cost := v\<rparr>))"

definition add_cost :: "rat \<Rightarrow> rat \<Rightarrow> metrics \<Rightarrow> metrics result" where
  "add_cost now v m =
     (if v < 0 then Inl (ValueError ''Added cost cannot be negative.'')
      else Inr (m\<lparr>accumulated_cost := accumulated_cost m + v,
                  costs := costs m @ [\<lparr>cost_model = metrics_model_name m, cost_value = v,
                                       cost_timestamp = now\<rparr>]\<rparr>))"

definition add_response_latency :: "rat \<Rightarrow> string \<Rightarrow> metrics \<Rightarrow> metrics" where
  "add_response_latency v rid m =
     m\<lparr>response_latencies := response_latencies m @
        [\<lparr>latency_model = metrics_model_name m, latency = max 0 v, latency_response_id = rid\<rparr>]\<rparr>"

definition add_token_usage ::
  "int \<Rightarrow> int \<Rightarrow> int \<Rightarrow> int \<Rightarrow> int \<Rightarrow> string \<Rightarrow> metrics \<Rightarrow> metrics" where
  "add_token_usage pt ct cr cw win rid m =
     (let turn = pt + ct;
          usage = \<lparr>usage_model = metrics_model_name m, prompt_tokens = pt, completion_tokens = ct,
                   cache_read_tokens = cr, cache_write_tokens = cw, context_window = win,
                   per_turn_token = turn, usage_response_id = rid\<rparr>
      in m\<lparr>token_usages := token_usages m @ [usage],
           accumulated_token_usage :=
             token_usage_add (accumulated_token_usage m) (usage\<lparr>usage_response_id := []\<rparr>)\<rparr>)"

definition merge_metrics :: "metrics \<Rightarrow> metrics \<Rightarrow> metrics" where
  "merge_metrics m other =
     m\<lparr>accumulated_cost := accumulated_cost m + accumulated_cost other,
       max_budget_per_task :=
         (if max_budget_per_task m = None \<and> max_budget_per_task other \<noteq> None
          then max_budget_per_task other else max_budget_per_task m),
       costs := costs m @ costs other,
       token_usages := token_usages m @ token_usages other,
       response_latencies := response_latencies m @ response_latencies other,
       accumulated_token_usage :=
         token_usage_add (accumulated_token_usage m) (accumulated_token_usage other)\<rparr>"

definition diff_metrics :: "metrics \<Rightarrow> metrics \<Rightarrow> metrics" where
  "diff_metrics m baseline =
     (let cu = accumulated_token_usage m; bu = accumulated_token_usage baseline in
      (new_metrics (metrics_model_name m))
        \<lparr>accumulated_cost := accumulated_cost m - accumulated_cost baseline,
         costs := (case rev (costs baseline) of
             [] \<Rightarrow> costs m
           | c # _ \<Rightarrow> filter (\<lambda>d. cost_timestamp d > cost_timestamp c) (costs m)),
         response_latencies := drop (length (response_latencies baseline)) (response_latencies m),
         token_usages := drop (length (token_usages baseline)) (token_usages m),
         accumulated_token_usage :=
           \<lparr>usage_model = metrics_model_name m,
            prompt_tokens = prompt_tokens cu - prompt_tokens bu,
            completion_tokens = completion_tokens cu - completion_tokens bu,
            cache_read_tokens = cache_read_tokens cu - cache_read_tokens bu,
            cache_write_tokens = cache_write_tokens cu - cache_write_tokens bu,
            context_window = context_window cu,
            per_turn_token = 0, usage_response_id = []\<rparr>\<rparr>)"

section \<open>Consistency of the running totals\<close>

text \<open>
  The accumulators agree with the lists they summarise. The accumulated cost may exceed the sum
  of the recorded costs, because the property setter and \<open>event_from_dict\<close> assign it directly;
  between the recording operations the two move together.
\<close>

definition usage_totals :: "token_usage list \<Rightarrow> int \<times> int \<times> int \<times> int \<times> int" where
  "usage_totals us =
     (sum_list (map prompt_tokens us), sum_list (map completion_tokens us),
      sum_list (map cache_read_tokens us), sum_list (map cache_write_tokens us),
      fold max (map context_window us) 0)"

definition metrics_consistent :: "metrics \<Rightarrow> bool" where
  "metrics_consistent m \<longleftrightarrow>
     accumulated_cost m = sum_list (map cost_value (costs m)) \<and>
     (\<forall>c \<in> set (costs m). 0 \<le> cost_value c) \<and>
     (\<forall>l \<in> set (response_latencies m). 0 \<le> latency l) \<and>
     (let u = accumulated_token_usage m in
      usage_totals (token_usages m) =
        (prompt_tokens u, completion_tokens u, cache_read_tokens u, cache_write_tokens u,
         context_window u))"

lemma fold_max_init: "fold max xs (max a b) = max (a::int) (fold max xs b)"
  by (induction xs arbitrary: b) (simp_all, metis max.left_commute)

lemma fold_max_append: "fold max (xs @ ys) 0 = max (fold max xs 0) (fold max ys (0::int))"
proof -
  have "0 \<le> fold max xs (0::int)"
    using fold_max_init [of xs 0 0] by linarith
  then show ?thesis
    using fold_max_init [of ys "fold max xs 0" 0] by (simp add: max_def split: if_splits)
qed

lemma usage_totals_append:
  "usage_totals (us @ vs) =
     (let (a, b, c, d, e) = usage_totals us; (a', b', c', d', e') = usage_totals vs
      in (a + a', b + b', c + c', d + d', max e e'))"
  by (simp add: usage_totals_def fold_max_append del: fold_append)

lemma consistent_new: "metrics_consistent (new_metrics m)"
  by (simp add: metrics_consistent_def new_metrics_def empty_usage_def usage_totals_def)

lemma consistent_cost_nonneg: "metrics_consistent m \<Longrightarrow> 0 \<le> accumulated_cost m"
  by (auto simp: metrics_consistent_def intro!: sum_list_nonneg)

lemma consistent_add_cost:
  "metrics_consistent m \<Longrightarrow> add_cost now v m = Inr m' \<Longrightarrow> metrics_consistent m'"
  by (auto simp: metrics_consistent_def add_cost_def split: if_splits)

lemma consistent_add_response_latency:
  "metrics_consistent m \<Longrightarrow> metrics_consistent (add_response_latency v rid m)"
  by (auto simp: metrics_consistent_def add_response_latency_def)

lemma consistent_add_token_usage:
  assumes "metrics_consistent m" and "0 \<le> win"
  shows "metrics_consistent (add_token_usage pt ct cr cw win rid m)"
  using assms
  by (auto simp: metrics_consistent_def add_token_usage_def usage_totals_append token_usage_add_def
      Let_def) (simp_all add: usage_totals_def)

lemma consistent_merge:
  "metrics_consistent m \<Longrightarrow> metrics_consistent n \<Longrightarrow> metrics_consistent (merge_metrics m n)"
  by (auto simp: metrics_consistent_def merge_metrics_def usage_totals_append token_usage_add_def
      Let_def)

section \<open>Differences against a snapshot\<close>

text \<open>
  A sequence of recorded calls, as a list of commands run from a snapshot. The clock never goes
  back; the difference to the snapshot recovers what was recorded after it when every later
  cost has a clock reading after the last one of the snapshot.
\<close>

datatype metrics_event =
    CostRecorded rat rat
  | LatencyRecorded rat string
  | UsageRecorded int int int int int string

fun record_event :: "metrics_event \<Rightarrow> metrics \<Rightarrow> metrics result" where
  "record_event (CostRecorded now v) m = add_cost now v m"
| "record_event (LatencyRecorded v rid) m = Inr (add_response_latency v rid m)"
| "record_event (UsageRecorded pt ct cr cw win rid) m = Inr (add_token_usage pt ct cr cw win rid m)"

fun record_events :: "metrics_event list \<Rightarrow> metrics \<Rightarrow> metrics result" where
  "record_events [] m = Inr m"
| "record_events (e # es) m = bindE (record_event e m) (record_events es)"

lemmas recording_defs = add_cost_def add_response_latency_def add_token_usage_def
  token_usage_add_def Let_def

fun event_cost :: "metrics_event \<Rightarrow> rat" where
  "event_cost (CostRecorded now v) = v"
| "event_cost _ = 0"

fun event_time :: "metrics_event \<Rightarrow> rat option" where
  "event_time (CostRecorded now v) = Some now"
| "event_time _ = None"

lemma record_events_extend:
  "record_events es m = Inr m' \<Longrightarrow>
     metrics_model_name m' = metrics_model_name m \<and>
     max_budget_per_task m' = max_budget_per_task m \<and>
     accumulated_cost m' = accumulated_cost m + sum_list (map event_cost es) \<and>
     (\<exists>cs. costs m' = costs m @ cs \<and> map cost_timestamp cs = List.map_filter event_time es) \<and>
     (\<exists>ls. response_latencies m' = response_latencies m @ ls) \<and>
     (\<exists>us. token_usages m' = token_usages m @ us)"
proof (induction es arbitrary: m)
  case Nil
  then show ?case by simp
next
  case (Cons e es)
  from Cons.prems obtain m1 where m1: "record_event e m = Inr m1" and r: "record_events es m1 = Inr m'"
    by (auto simp: bindE_Inr_iff)
  show ?case
    using Cons.IH [OF r] m1
    by (cases e) (auto simp: recording_defs map_filter_def split: if_splits)
qed

lemma diff_recovers_costs:
  assumes "record_events es base = Inr m"
    and "\<forall>c \<in> set (costs base). \<forall>t \<in> set (List.map_filter event_time es). cost_timestamp c < t"
    and "sorted (map cost_timestamp (costs base))"
  shows "costs m = costs base @ costs (diff_metrics m base)"
proof -
  obtain cs where cs: "costs m = costs base @ cs"
    and times: "map cost_timestamp cs = List.map_filter event_time es"
    using record_events_extend [OF assms(1)] by blast
  have late: "cost_timestamp c < cost_timestamp d" if "c \<in> set (costs base)" and "d \<in> set cs" for c d
  proof -
    have "cost_timestamp d \<in> set (List.map_filter event_time es)"
      using that(2) times by (metis image_eqI list.set_map)
    with assms(2) that(1) show ?thesis by blast
  qed
  show ?thesis
  proof (cases "rev (costs base)")
    case Nil
    then show ?thesis by (simp add: diff_metrics_def Let_def new_metrics_def cs)
  next
    case (Cons c rest)
    then have base: "costs base = rev rest @ [c]" by (metis rev.simps(2) rev_rev_ident)
    have "filter (\<lambda>d. cost_timestamp c < cost_timestamp d) (costs base) = []"
      using assms(3) by (auto simp: base sorted_append filter_empty_conv)
    moreover have "filter (\<lambda>d. cost_timestamp c < cost_timestamp d) cs = cs"
      using late base by (auto simp: filter_id_conv)
    ultimately show ?thesis using Cons by (simp add: diff_metrics_def Let_def cs)
  qed
qed

lemma diff_accumulated_cost:
  "record_events es base = Inr m \<Longrightarrow>
     accumulated_cost (diff_metrics m base) = sum_list (map event_cost es)"
  using record_events_extend [of es base m] by (simp add: diff_metrics_def Let_def)

lemma diff_lists:
  assumes "record_events es base = Inr m"
  shows "response_latencies m = response_latencies base @ response_latencies (diff_metrics m base)"
    and "token_usages m = token_usages base @ token_usages (diff_metrics m base)"
  using record_events_extend [OF assms] by (auto simp: diff_metrics_def Let_def)

end
