(* ===== verification/Events.thy ===== *)
theory Events
  imports Metrics "HOL-Library.List_Lexorder" "HOL-Library.Char_ord"
begin

text \<open>
  The events of a conversation (\<open>openhands/events\<close>). An event is an action or an observation
  (the dataclass with its fields, here the \<open>payload\<close>) together with the attributes the event
  stream and the controller set on the object (\<open>_id\<close>, \<open>_source\<close>, \<open>_cause\<close> and so on, here
  the other fields of the record). The dataclass equality compares the fields of the class only.

  Free-form dictionaries (\<open>outputs\<close>, \<open>inputs\<close>, \<open>arguments\<close>) hold JSON values.
\<close>

section \<open>JSON values\<close>

datatype json =
    JNull
  | JBool bool
  | JInt int
  | JFloat rat
  | JStr string
  | JList "json list"
  | JDict "(string \<times> json) list"

fun json_number :: "json \<Rightarrow> rat option" where
  "json_number (JBool b) = Some (if b then 1 else 0)"
| "json_number (JInt i) = Some (of_int i)"
| "json_number (JFloat q) = Some q"
| "json_number _ = None"

text \<open>Python's \<open>==\<close>: numbers by value (\<open>True == 1\<close>), dictionaries in any order.\<close>

fun json_eq :: "json \<Rightarrow> json \<Rightarrow> bool" where
  "json_eq (JStr s) v = (v = JStr s)"
| "json_eq JNull v = (v = JNull)"
| "json_eq (JList xs) v = (case v of JList ys \<Rightarrow> list_all2 json_eq xs ys | _ \<Rightarrow> False)"
| "json_eq (JDict d) v = (case v of
     JDict e \<Rightarrow> length d = length e \<and>
       (\<forall>kv \<in> set d. case map_of e (fst kv) of None \<Rightarrow> False | Some w \<Rightarrow> json_eq (snd kv) w)
   | _ \<Rightarrow> False)"
| "json_eq (JBool b) v = (json_number v = Some (if b then 1 else 0))"
| "json_eq (JInt i) v = (json_number v = Some (of_int i))"
| "json_eq (JFloat q) v = (json_number v = Some q)"

type_synonym json_dict = "(string \<times> json) list"

section \<open>Enumerations\<close>

datatype event_source = AGENT | USER | ENVIRONMENT

datatype file_edit_source = LLM_BASED_EDIT | EDIT_OH_ACI

datatype file_read_source = READ_OH_ACI | READ_DEFAULT

datatype recall_type = WORKSPACE_CONTEXT | KNOWLEDGE

datatype confirmation_status = CONFIRMED | CONF_REJECTED | AWAITING_CONFIRMATION

datatype security_risk = RISK_UNKNOWN | RISK_LOW | RISK_MEDIUM | RISK_HIGH

fun risk_value :: "security_risk \<Rightarrow> int" where
  "risk_value RISK_UNKNOWN = -1"
| "risk_value RISK_LOW = 0"
| "risk_value RISK_MEDIUM = 1"
| "risk_value RISK_HIGH = 2"

text \<open>\<open>ActionSecurityRisk\<close> is an \<open>int\<close> enumeration: its members are ordered by value.\<close>

instantiation security_risk :: linorder
begin

definition less_eq_security_risk :: "security_risk \<Rightarrow> security_risk \<Rightarrow> bool" where
  "less_eq_security_risk a b = (risk_value a \<le> risk_value b)"

definition less_security_risk :: "security_risk \<Rightarrow> security_risk \<Rightarrow> bool" where
  "less_security_risk a b = (risk_value a < risk_value b)"

instance
proof
  fix x y z :: security_risk
  show "x < y \<longleftrightarrow> x \<le> y \<and> \<not> y \<le> x"
    by (auto simp: less_eq_security_risk_def less_security_risk_def)
  show "x \<le> x"
    by (simp add: less_eq_security_risk_def)
  show "x \<le> y \<Longrightarrow> y \<le> z \<Longrightarrow> x \<le> z"
    by (simp add: less_eq_security_risk_def)
  show "x \<le> y \<Longrightarrow> y \<le> x \<Longrightarrow> x = y"
    by (cases x; cases y) (simp_all add: less_eq_security_risk_def)
  show "x \<le> y \<or> y \<le> x"
    by (auto simp: less_eq_security_risk_def)
qed

end

datatype agent_state =
    LOADING | RUNNING | AWAITING_USER_INPUT | PAUSED | STOPPED | FINISHED | REJECTED | ERROR
  | AWAITING_USER_CONFIRMATION | USER_CONFIRMED | USER_REJECTED | RATE_LIMITED

section \<open>Actions\<close>

text \<open>Fields shared by several classes share a selector; \<open>a_thought\<close> and the like are only
  meaningful on the classes that declare the field.\<close>

datatype action =
    NullAction
  | CmdRunAction (a_command: string) (a_is_input: bool) (a_thought: string) (a_blocking: bool)
      (a_is_static: bool) (a_cwd: "string option") (a_hidden: bool)
      (a_confirmation: confirmation_status) (a_risk: security_risk)
  | IPythonRunCellAction (a_code: string) (a_thought: string) (a_include_extra: bool)
      (a_confirmation: confirmation_status) (a_risk: security_risk) (a_kernel_init_code: string)
  | BrowseURLAction (a_url: string) (a_thought: string) (a_risk: security_risk) (a_return_axtree: bool)
  | BrowseInteractiveAction (a_browser_actions: string) (a_thought: string)
      (a_send_msg_to_user: string) (a_risk: security_risk) (a_return_axtree: bool)
  | FileReadAction (a_path: string) (a_start: int) (a_end: int) (a_thought: string)
      (a_risk: security_risk) (a_read_source: file_read_source) (a_view_range: "int list option")
  | FileWriteAction (a_path: string) (a_content: string) (a_start: int) (a_end: int)
      (a_thought: string) (a_risk: security_risk)
  | FileEditAction (a_path: string) (a_command: string) (a_file_text: "string option")
      (a_old_str: "string option") (a_new_str: "string option") (a_insert_line: "int option")
      (a_content: string) (a_start: int) (a_end: int) (a_thought: string) (a_risk: security_risk)
      (a_edit_source: file_edit_source)
  | AgentThinkAction (a_thought: string)
  | AgentFinishAction (a_final_thought: string) (a_outputs: json_dict) (a_thought: string)
  | AgentRejectAction (a_outputs: json_dict) (a_thought: string)
  | AgentDelegateAction (a_agent: string) (a_inputs: json_dict) (a_thought: string)
  | RecallAction (a_recall_type: recall_type) (a_query: string) (a_thought: string)
  | ChangeAgentStateAction (a_agent_state: agent_state) (a_thought: string)
  | MessageAction (a_content: string) (a_file_urls: "string list option")
      (a_image_urls: "string list option") (a_wait_for_response: bool) (a_risk: security_risk)
  | SystemMessageAction (a_content: string) (a_tools: "json list option")
      (a_openhands_version: "string option") (a_agent_class: "string option")
  | CondensationAction (a_forgotten_event_ids: "int list option")
      (a_forgotten_start_id: "int option") (a_forgotten_end_id: "int option")
      (a_summary: "string option") (a_summary_offset: "int option")
  | CondensationRequestAction
  | MCPAction (a_name: string) (a_arguments: json_dict) (a_thought: string) (a_risk: security_risk)
  | TaskTrackingAction (a_command: string) (a_task_list: "json list") (a_thought: string)
  | LoopRecoveryAction (a_option: int)

definition runnable :: "action \<Rightarrow> bool" where
  "runnable a = (case a of
     CmdRunAction _ _ _ _ _ _ _ _ _ \<Rightarrow> True
   | IPythonRunCellAction _ _ _ _ _ _ \<Rightarrow> True
   | BrowseURLAction _ _ _ _ \<Rightarrow> True
   | BrowseInteractiveAction _ _ _ _ _ \<Rightarrow> True
   | FileReadAction _ _ _ _ _ _ _ \<Rightarrow> True
   | FileWriteAction _ _ _ _ _ _ \<Rightarrow> True
   | FileEditAction _ _ _ _ _ _ _ _ _ _ _ _ \<Rightarrow> True
   | MCPAction _ _ _ _ \<Rightarrow> True
   | _ \<Rightarrow> False)"

text \<open>\<open>hasattr(action, 'security_risk')\<close> with its value, and the assignment (which, on a class
  without the field, is never reached in the sources).\<close>

definition risk_of :: "action \<Rightarrow> security_risk option" where
  "risk_of a = (case a of
     CmdRunAction _ _ _ _ _ _ _ _ r \<Rightarrow> Some r
   | IPythonRunCellAction _ _ _ _ r _ \<Rightarrow> Some r
   | BrowseURLAction _ _ r _ \<Rightarrow> Some r
   | BrowseInteractiveAction _ _ _ r _ \<Rightarrow> Some r
   | FileReadAction _ _ _ _ r _ _ \<Rightarrow> Some r
   | FileWriteAction _ _ _ _ _ r \<Rightarrow> Some r
   | FileEditAction _ _ _ _ _ _ _ _ _ _ r _ \<Rightarrow> Some r
   | MessageAction _ _ _ _ r \<Rightarrow> Some r
   | MCPAction _ _ _ r \<Rightarrow> Some r
   | _ \<Rightarrow> None)"

definition set_risk :: "security_risk \<Rightarrow> action \<Rightarrow> action" where
  "set_risk r a = (case a of
     CmdRunAction c i t b s w h f _ \<Rightarrow> CmdRunAction c i t b s w h f r
   | IPythonRunCellAction c t e f _ k \<Rightarrow> IPythonRunCellAction c t e f r k
   | BrowseURLAction u t _ x \<Rightarrow> BrowseURLAction u t r x
   | BrowseInteractiveAction u t m _ x \<Rightarrow> BrowseInteractiveAction u t m r x
   | FileReadAction p s e t _ i v \<Rightarrow> FileReadAction p s e t r i v
   | FileWriteAction p c s e t _ \<Rightarrow> FileWriteAction p c s e t r
   | FileEditAction p c ft os ns il x s e t _ i \<Rightarrow> FileEditAction p c ft os ns il x s e t r i
   | MessageAction c f i w _ \<Rightarrow> MessageAction c f i w r
   | MCPAction n x t _ \<Rightarrow> MCPAction n x t r
   | _ \<Rightarrow> a)"

text \<open>\<open>if hasattr(action, 'thought'): action.thought = t\<close>.\<close>

definition set_thought :: "string \<Rightarrow> action \<Rightarrow> action" where
  "set_thought t a = (case a of
     CmdRunAction c i _ b s w h f r \<Rightarrow> CmdRunAction c i t b s w h f r
   | IPythonRunCellAction c _ e f r k \<Rightarrow> IPythonRunCellAction c t e f r k
   | BrowseURLAction u _ r x \<Rightarrow> BrowseURLAction u t r x
   | BrowseInteractiveAction u _ m r x \<Rightarrow> BrowseInteractiveAction u t m r x
   | FileReadAction p s e _ r i v \<Rightarrow> FileReadAction p s e t r i v
   | FileWriteAction p c s e _ r \<Rightarrow> FileWriteAction p c s e t r
   | FileEditAction p c ft os ns il x s e _ r i \<Rightarrow> FileEditAction p c ft os ns il x s e t r i
   | AgentThinkAction _ \<Rightarrow> AgentThinkAction t
   | AgentFinishAction f x _ \<Rightarrow> AgentFinishAction f x t
   | AgentRejectAction x _ \<Rightarrow> AgentRejectAction x t
   | AgentDelegateAction g x _ \<Rightarrow> AgentDelegateAction g x t
   | RecallAction y q _ \<Rightarrow> RecallAction y q t
   | ChangeAgentStateAction g _ \<Rightarrow> ChangeAgentStateAction g t
   | MCPAction n x _ r \<Rightarrow> MCPAction n x t r
   | TaskTrackingAction c l _ \<Rightarrow> TaskTrackingAction c l t
   | _ \<Rightarrow> a)"

lemma risk_of_set_risk: "risk_of (set_risk r a) = map_option (\<lambda>_. r) (risk_of a)"
  by (cases a) (simp_all add: risk_of_def set_risk_def)

lemma runnable_set_risk [simp]: "runnable (set_risk r a) = runnable a"
  by (cases a) (simp_all add: runnable_def set_risk_def)

lemma runnable_has_risk: "runnable a \<Longrightarrow> risk_of a \<noteq> None"
  by (cases a) (simp_all add: runnable_def risk_of_def)

lemma set_thought_frame [simp]:
  "runnable (set_thought t a) = runnable a" "risk_of (set_thought t a) = risk_of a"
  by (cases a; simp add: runnable_def risk_of_def set_thought_def)+

section \<open>Condensation actions\<close>

definition condensation_valid :: "int list option \<Rightarrow> int option \<Rightarrow> int option \<Rightarrow> string option \<Rightarrow> int option \<Rightarrow> bool" where
  "condensation_valid ids start_id end_id summary offset =
     (let using_event_ids = (ids \<noteq> None);
          using_event_range = (start_id \<noteq> None \<and> end_id \<noteq> None);
          forgotten_event_configuration = (using_event_ids \<noteq> using_event_range);
          summary_configuration =
            ((summary = None \<and> offset = None) \<or> (summary \<noteq> None \<and> offset \<noteq> None))
      in forgotten_event_configuration \<and> summary_configuration)"

text \<open>The constructor with its \<open>__post_init__\<close> check.\<close>

definition new_condensation :: "int list option \<Rightarrow> int option \<Rightarrow> int option \<Rightarrow> string option \<Rightarrow> int option \<Rightarrow> action result" where
  "new_condensation ids start_id end_id summary offset =
     (if condensation_valid ids start_id end_id summary offset
      then Inr (CondensationAction ids start_id end_id summary offset)
      else Inl (ValueError ''Invalid configuration of the optional fields.''))"

fun forgotten :: "action \<Rightarrow> int list result" where
  "forgotten (CondensationAction ids start_id end_id summary offset) =
     (if \<not> condensation_valid ids start_id end_id summary offset
      then Inl (ValueError ''Invalid configuration of the optional fields.'')
      else case ids of
        Some is \<Rightarrow> Inr is
      | None \<Rightarrow> (case (start_id, end_id) of
          (Some s, Some e) \<Rightarrow> Inr [s..e]
        | _ \<Rightarrow> Inl AssertionError))"
| "forgotten _ = Inl (TypeError ''forgotten'')"

lemma forgotten_new:
  "new_condensation ids s e sm off = Inr a \<Longrightarrow> \<exists>is. forgotten a = Inr is"
  by (auto simp: new_condensation_def condensation_valid_def Let_def split: if_splits option.splits)

section \<open>Observations\<close>

record cmd_metadata =
  md_exit_code :: int
  md_pid :: int
  md_username :: "string option"
  md_hostname :: "string option"
  md_working_dir :: "string option"
  md_py_interpreter_path :: "string option"
  md_prefix :: string
  md_suffix :: string

record microagent_knowledge =
  mk_name :: string
  mk_trigger :: string
  mk_content :: string

record recall_fields =
  rc_recall_type :: recall_type
  rc_repo_name :: string
  rc_repo_directory :: string
  rc_repo_branch :: string
  rc_repo_instructions :: string
  rc_runtime_hosts :: "(string \<times> int) list"
  rc_additional_agent_instructions :: string
  rc_date :: string
  rc_custom_secrets_descriptions :: "(string \<times> string) list"
  rc_conversation_instructions :: string
  rc_working_dir :: string
  rc_microagent_knowledge :: "microagent_knowledge list"

record browser_fields =
  br_url :: string
  br_trigger_by_action :: string
  br_screenshot :: string
  br_screenshot_path :: "string option"
  br_set_of_marks :: string
  br_error :: bool
  br_goal_image_urls :: "string list"
  br_open_pages_urls :: "string list"
  br_active_page_index :: int
  br_dom_object :: json_dict
  br_axtree_object :: json_dict
  br_extra_element_properties :: json_dict
  br_last_browser_action :: string
  br_last_browser_action_error :: string
  br_focused_element_bid :: string
  br_filter_visible_only :: bool

datatype observation =
    NullObservation (o_content: string)
  | CmdOutputObservation (o_content: string) (o_command: string) (o_metadata: cmd_metadata) (o_hidden: bool)
  | IPythonRunCellObservation (o_content: string) (o_code: string) (o_image_urls: "string list option")
  | BrowserOutputObservation (o_content: string) (o_browser: browser_fields)
  | FileReadObservation (o_content: string) (o_path: string) (o_read_source: file_read_source)
  | FileWriteObservation (o_content: string) (o_path: string)
  | FileEditObservation (o_content: string) (o_path: string) (o_prev_exist: bool)
      (o_old_content: "string option") (o_new_content: "string option")
      (o_edit_source: file_edit_source) (o_diff: "string option") (o_diff_cache: "string option")
  | AgentDelegateObservation (o_content: string) (o_outputs: json_dict)
  | SuccessObservation (o_content: string)
  | ErrorObservation (o_content: string) (o_error_id: string)
  | AgentStateChangedObservation (o_content: string) (o_agent_state: agent_state) (o_reason: string)
  | UserRejectObservation (o_content: string)
  | AgentCondensationObservation (o_content: string)
  | AgentThinkObservation (o_content: string)
  | RecallObservation (o_content: string) (o_recall: recall_fields)
  | MCPObservation (o_content: string) (o_name: string) (o_arguments: json_dict)
  | FileDownloadObservation (o_content: string) (o_file_path: string)
  | TaskTrackingObservation (o_content: string) (o_command: string) (o_task_list: "json list")
  | LoopDetectionObservation (o_content: string)

section \<open>Events\<close>

record tool_call_metadata =
  function_name :: string
  tool_call_id :: string
  model_response :: json
  total_calls_in_response :: int

datatype payload = Act (act_of: action) | Obs (obs_of: observation)

record event =
  raw_id :: "int option"
  raw_timestamp :: "string option"
  raw_source :: "event_source option"
  raw_cause :: "int option"
  raw_timeout :: "rat option"
  raw_llm_metrics :: "metrics option"
  raw_tool_call_metadata :: "tool_call_metadata option"
  raw_response_id :: "string option"
  raw_confirmation :: "confirmation_status option"
  payload :: payload

text \<open>
  \<open>raw_confirmation\<close> is the attribute \<open>confirmation_state\<close> when the controller sets it on an
  action whose class does not declare it. A new event has none of the attributes set.
\<close>

definition fresh_event :: "payload \<Rightarrow> event" where
  "fresh_event p =
     \<lparr>raw_id = None, raw_timestamp = None, raw_source = None, raw_cause = None,
      raw_timeout = None, raw_llm_metrics = None, raw_tool_call_metadata = None,
      raw_response_id = None, raw_confirmation = None, payload = p\<rparr>"

definition INVALID_ID :: int where
  "INVALID_ID = -1"

definition event_id :: "event \<Rightarrow> int" where
  "event_id e = (case raw_id e of None \<Rightarrow> INVALID_ID | Some i \<Rightarrow> i)"

abbreviation event_source :: "event \<Rightarrow> event_source option" where
  "event_source e \<equiv> raw_source e"

abbreviation event_cause :: "event \<Rightarrow> int option" where
  "event_cause e \<equiv> raw_cause e"

definition set_hard_timeout :: "rat option \<Rightarrow> bool \<Rightarrow> event \<Rightarrow> event" where
  "set_hard_timeout v blk e =
     e\<lparr>raw_timeout := v,
       payload := (case payload e of
          Act (CmdRunAction c i t b s w h f r) \<Rightarrow> Act (CmdRunAction c i t blk s w h f r)
        | p \<Rightarrow> p)\<rparr>"

definition confirmation_of :: "event \<Rightarrow> confirmation_status option" where
  "confirmation_of e = (case payload e of
     Act (CmdRunAction _ _ _ _ _ _ _ f _) \<Rightarrow> Some f
   | Act (IPythonRunCellAction _ _ _ f _ _) \<Rightarrow> Some f
   | _ \<Rightarrow> raw_confirmation e)"

definition set_confirmation :: "confirmation_status \<Rightarrow> event \<Rightarrow> event" where
  "set_confirmation f e = (case payload e of
     Act (CmdRunAction c i t b s w h _ r) \<Rightarrow> e\<lparr>payload := Act (CmdRunAction c i t b s w h f r)\<rparr>
   | Act (IPythonRunCellAction c t x _ r k) \<Rightarrow> e\<lparr>payload := Act (IPythonRunCellAction c t x f r k)\<rparr>
   | _ \<Rightarrow> e\<lparr>raw_confirmation := Some f\<rparr>)"

lemma confirmation_set [simp]: "confirmation_of (set_confirmation f e) = Some f"
  by (auto simp: confirmation_of_def set_confirmation_def split: payload.splits action.splits)

lemma set_confirmation_frame [simp]:
  "raw_id (set_confirmation f e) = raw_id e"
  "raw_source (set_confirmation f e) = raw_source e"
  "raw_tool_call_metadata (set_confirmation f e) = raw_tool_call_metadata e"
  by (auto simp: set_confirmation_def split: payload.splits action.splits)

definition hidden_event :: "event \<Rightarrow> bool" where
  "hidden_event e = (case payload e of
     Act (CmdRunAction _ _ _ _ _ _ h _ _) \<Rightarrow> h
   | Obs (CmdOutputObservation _ _ _ h) \<Rightarrow> h
   | _ \<Rightarrow> False)"

section \<open>Class tests and equality\<close>

definition is_action :: "event \<Rightarrow> bool" where
  "is_action e = is_Act (payload e)"

definition is_observation :: "event \<Rightarrow> bool" where
  "is_observation e = (\<not> is_Act (payload e))"

definition is_message :: "event \<Rightarrow> bool" where
  "is_message e = (case payload e of Act (MessageAction _ _ _ _ _) \<Rightarrow> True | _ \<Rightarrow> False)"

definition is_user_message :: "event \<Rightarrow> bool" where
  "is_user_message e \<longleftrightarrow> is_message e \<and> event_source e = Some USER"

definition is_agent_message :: "event \<Rightarrow> bool" where
  "is_agent_message e \<longleftrightarrow> is_message e \<and> event_source e = Some AGENT"

definition is_null_action :: "event \<Rightarrow> bool" where
  "is_null_action e \<longleftrightarrow> payload e = Act NullAction"

definition is_null_observation :: "event \<Rightarrow> bool" where
  "is_null_observation e = (case payload e of Obs (NullObservation _) \<Rightarrow> True | _ \<Rightarrow> False)"

definition is_change_state_action :: "event \<Rightarrow> bool" where
  "is_change_state_action e = (case payload e of Act (ChangeAgentStateAction _ _) \<Rightarrow> True | _ \<Rightarrow> False)"

definition is_state_changed_observation :: "event \<Rightarrow> bool" where
  "is_state_changed_observation e =
     (case payload e of Obs (AgentStateChangedObservation _ _ _) \<Rightarrow> True | _ \<Rightarrow> False)"

definition is_condensation :: "event \<Rightarrow> bool" where
  "is_condensation e = (case payload e of Act (CondensationAction _ _ _ _ _) \<Rightarrow> True | _ \<Rightarrow> False)"

definition is_condensation_request :: "event \<Rightarrow> bool" where
  "is_condensation_request e \<longleftrightarrow> payload e = Act CondensationRequestAction"

definition is_condensation_observation :: "event \<Rightarrow> bool" where
  "is_condensation_observation e =
     (case payload e of Obs (AgentCondensationObservation _) \<Rightarrow> True | _ \<Rightarrow> False)"

definition is_delegate_action :: "event \<Rightarrow> bool" where
  "is_delegate_action e = (case payload e of Act (AgentDelegateAction _ _ _) \<Rightarrow> True | _ \<Rightarrow> False)"

definition is_delegate_observation :: "event \<Rightarrow> bool" where
  "is_delegate_observation e =
     (case payload e of Obs (AgentDelegateObservation _ _) \<Rightarrow> True | _ \<Rightarrow> False)"

definition is_system_message :: "event \<Rightarrow> bool" where
  "is_system_message e = (case payload e of Act (SystemMessageAction _ _ _ _) \<Rightarrow> True | _ \<Rightarrow> False)"

lemmas class_defs = is_action_def is_observation_def is_message_def is_null_action_def
  is_null_observation_def is_change_state_action_def is_state_changed_observation_def
  is_condensation_def is_condensation_request_def is_condensation_observation_def
  is_delegate_action_def is_delegate_observation_def is_system_message_def

lemma observation_not_action: "is_observation e \<longleftrightarrow> \<not> is_action e"
  by (simp add: is_observation_def is_action_def)

lemma class_kind:
  "is_message e \<Longrightarrow> is_action e"
  "is_null_action e \<Longrightarrow> is_action e"
  "is_change_state_action e \<Longrightarrow> is_action e"
  "is_condensation e \<Longrightarrow> is_action e"
  "is_condensation_request e \<Longrightarrow> is_action e"
  "is_delegate_action e \<Longrightarrow> is_action e"
  "is_system_message e \<Longrightarrow> is_action e"
  "is_null_observation e \<Longrightarrow> \<not> is_action e"
  "is_state_changed_observation e \<Longrightarrow> \<not> is_action e"
  "is_condensation_observation e \<Longrightarrow> \<not> is_action e"
  "is_delegate_observation e \<Longrightarrow> \<not> is_action e"
  by (auto simp: class_defs split: payload.splits)

text \<open>
  The generated \<open>__eq__\<close>: same class and equal fields, where the free-form dictionaries compare
  as dictionaries. The attributes of the stream (id, source, cause, timestamp) do not count.
\<close>

definition action_eq :: "action \<Rightarrow> action \<Rightarrow> bool" where
  "action_eq a b = (case (a, b) of
     (AgentFinishAction f x t, AgentFinishAction f' x' t') \<Rightarrow> f = f' \<and> json_eq (JDict x) (JDict x') \<and> t = t'
   | (AgentRejectAction x t, AgentRejectAction x' t') \<Rightarrow> json_eq (JDict x) (JDict x') \<and> t = t'
   | (AgentDelegateAction g x t, AgentDelegateAction g' x' t') \<Rightarrow>
       g = g' \<and> json_eq (JDict x) (JDict x') \<and> t = t'
   | (MCPAction n x t r, MCPAction n' x' t' r') \<Rightarrow>
       n = n' \<and> json_eq (JDict x) (JDict x') \<and> t = t' \<and> r = r'
   | (TaskTrackingAction c l t, TaskTrackingAction c' l' t') \<Rightarrow>
       c = c' \<and> json_eq (JList l) (JList l') \<and> t = t'
   | _ \<Rightarrow> a = b)"

definition observation_eq :: "observation \<Rightarrow> observation \<Rightarrow> bool" where
  "observation_eq a b = (case (a, b) of
     (AgentDelegateObservation c x, AgentDelegateObservation c' x') \<Rightarrow>
       c = c' \<and> json_eq (JDict x) (JDict x')
   | (MCPObservation c n x, MCPObservation c' n' x') \<Rightarrow>
       c = c' \<and> n = n' \<and> json_eq (JDict x) (JDict x')
   | (TaskTrackingObservation c k l, TaskTrackingObservation c' k' l') \<Rightarrow>
       c = c' \<and> k = k' \<and> json_eq (JList l) (JList l')
   | (BrowserOutputObservation c x, BrowserOutputObservation c' x') \<Rightarrow>
       c = c' \<and> json_eq (JDict (br_dom_object x)) (JDict (br_dom_object x')) \<and>
       json_eq (JDict (br_axtree_object x)) (JDict (br_axtree_object x')) \<and>
       json_eq (JDict (br_extra_element_properties x)) (JDict (br_extra_element_properties x')) \<and>
       x\<lparr>br_dom_object := [], br_axtree_object := [], br_extra_element_properties := []\<rparr> =
       x'\<lparr>br_dom_object := [], br_axtree_object := [], br_extra_element_properties := []\<rparr>
   | _ \<Rightarrow> a = b)"

definition event_eq :: "event \<Rightarrow> event \<Rightarrow> bool" where
  "event_eq e f \<longleftrightarrow> payload e = payload f \<or> (case (payload e, payload f) of
     (Act a, Act b) \<Rightarrow> action_eq a b
   | (Obs a, Obs b) \<Rightarrow> observation_eq a b
   | _ \<Rightarrow> False)"

lemma event_eq_refl [simp]: "event_eq e e"
  by (simp add: event_eq_def)

lemma event_eq_kind: "event_eq e f \<Longrightarrow> is_action e = is_action f"
  by (auto simp: event_eq_def is_action_def split: payload.splits)

end
