(* ===== verification/View.thy ===== *)
theory View
  imports Events
begin

text \<open>
  The view of a history that is sent to the language model (\<open>openhands/memory/view.py\<close>): the
  events that no condensation has forgotten, with the latest summary put in at its offset.
\<close>

record view =
  view_events :: "event list"
  unhandled_condensation_request :: bool
  forgotten_event_ids :: "int list"

definition plain_view :: "event list \<Rightarrow> view" where
  "plain_view es =
     \<lparr>view_events = es, unhandled_condensation_request = False, forgotten_event_ids = []\<rparr>"

text \<open>The loop that collects the ids to leave out; \<open>forgotten\<close> may raise.\<close>

fun forgotten_ids :: "event list \<Rightarrow> int list result" where
  "forgotten_ids [] = Inr []"
| "forgotten_ids (e # es) =
     bindE (case payload e of
        Act (CondensationAction ids s t sm off) \<Rightarrow>
          bindE (forgotten (CondensationAction ids s t sm off)) (\<lambda>is. Inr (is @ [event_id e]))
      | Act CondensationRequestAction \<Rightarrow> Inr [event_id e]
      | _ \<Rightarrow> Inr [])
     (\<lambda>is. bindE (forgotten_ids es) (\<lambda>rest. Inr (is @ rest)))"

definition summary_of :: "event \<Rightarrow> (string \<times> int) option" where
  "summary_of e = (case payload e of
     Act (CondensationAction _ _ _ (Some s) (Some off)) \<Rightarrow> Some (s, off)
   | _ \<Rightarrow> None)"

fun last_summary :: "event list \<Rightarrow> (string \<times> int) option" where
  "last_summary [] = None"
| "last_summary (e # es) =
     (case last_summary es of Some r \<Rightarrow> Some r | None \<Rightarrow> summary_of e)"

fun unhandled_request :: "event list \<Rightarrow> bool" where
  "unhandled_request [] = False"
| "unhandled_request (e # rest) =
     (if is_condensation e then False
      else if is_condensation_request e then True else unhandled_request rest)"

definition summary_event :: "string \<Rightarrow> event" where
  "summary_event s = fresh_event (Obs (AgentCondensationObservation s))"

definition from_events :: "event list \<Rightarrow> view result" where
  "from_events events =
     bindE (forgotten_ids events) (\<lambda>ids.
       let kept = filter (\<lambda>e. event_id e \<notin> set ids) events
       in Inr \<lparr>view_events = (case last_summary events of
                 None \<Rightarrow> kept | Some (s, off) \<Rightarrow> py_insert kept off (summary_event s)),
               unhandled_condensation_request = unhandled_request (rev events),
               forgotten_event_ids = ids\<rparr>)"

section \<open>Condensation events and what they leave\<close>

lemma summary_event_simps [simp]:
  "event_id (summary_event s) = -1"
  "is_condensation_observation (summary_event s)"
  "payload (summary_event s) = Obs (AgentCondensationObservation s)"
  by (simp_all add: summary_event_def fresh_event_def event_id_def INVALID_ID_def
      is_condensation_observation_def)

lemma forgotten_ids_append:
  "forgotten_ids (es @ fs) =
     bindE (forgotten_ids es) (\<lambda>is. bindE (forgotten_ids fs) (\<lambda>js. Inr (is @ js)))"
  by (induction es) (auto simp: bindE_def split: sum.splits)

lemma last_summary_append:
  "last_summary (es @ fs) = (case last_summary fs of Some r \<Rightarrow> Some r | None \<Rightarrow> last_summary es)"
  by (induction es) (auto split: option.splits)

lemma summary_of_condensation: "summary_of e = Some r \<Longrightarrow> is_condensation e"
  by (auto simp: summary_of_def is_condensation_def split: payload.splits action.splits)

lemma last_summary_Some:
  "last_summary es = Some r \<Longrightarrow> \<exists>e \<in> set es. summary_of e = Some r \<and> is_condensation e"
  by (induction es) (auto dest: summary_of_condensation split: option.splits)

lemma condensation_forgets_itself:
  "forgotten_ids es = Inr is \<Longrightarrow> e \<in> set es \<Longrightarrow> is_condensation e \<or> is_condensation_request e \<Longrightarrow>
     event_id e \<in> set is"
proof (induction es arbitrary: "is")
  case Nil
  then show ?case by simp
next
  case (Cons x xs)
  then show ?case
    by (auto simp: bindE_Inr_iff is_condensation_def is_condensation_request_def
        split: payload.splits action.splits)
qed

text \<open>What a view shows: events of the history that are not forgotten, and at most one summary.\<close>

lemma from_events_events:
  assumes "from_events es = Inr v"
  shows "forgotten_ids es = Inr (forgotten_event_ids v)"
    and "view_events v = (let kept = filter (\<lambda>e. event_id e \<notin> set (forgotten_event_ids v)) es in
           (case last_summary es of None \<Rightarrow> kept | Some (s, off) \<Rightarrow> py_insert kept off (summary_event s)))"
  using assms by (cases "last_summary es"; auto simp: from_events_def bindE_Inr_iff Let_def)+

lemma view_event_origin:
  assumes "from_events es = Inr v" and "e \<in> set (view_events v)"
  shows "(e \<in> set es \<and> event_id e \<notin> set (forgotten_event_ids v) \<and>
            \<not> is_condensation e \<and> \<not> is_condensation_request e) \<or>
         (\<exists>s off. last_summary es = Some (s, off) \<and> e = summary_event s)"
proof -
  have ids: "forgotten_ids es = Inr (forgotten_event_ids v)"
    by (rule from_events_events [OF assms(1)])
  have "(e \<in> set es \<and> event_id e \<notin> set (forgotten_event_ids v)) \<or>
      (\<exists>s off. last_summary es = Some (s, off) \<and> e = summary_event s)"
    using assms by (auto simp: from_events_def bindE_Inr_iff Let_def split: option.splits)
  with condensation_forgets_itself [OF ids] show ?thesis by blast
qed

lemma view_keeps:
  assumes "from_events es = Inr v" and "e \<in> set es"
    and "event_id e \<notin> set (forgotten_event_ids v)"
  shows "e \<in> set (view_events v)"
  using assms by (auto simp: from_events_def bindE_Inr_iff Let_def split: option.splits)

lemma unhandled_snoc:
  "unhandled_request (rev (es @ [e])) =
     (if is_condensation e then False
      else is_condensation_request e \<or> unhandled_request (rev es))"
  by simp

lemma from_events_plain:
  assumes "\<forall>e \<in> set es. \<not> is_condensation e \<and> \<not> is_condensation_request e"
  shows "from_events es = Inr (plain_view es)"
proof -
  have ids: "forgotten_ids es = Inr []"
    using assms by (induction es)
      (auto simp: is_condensation_def is_condensation_request_def split: payload.splits action.splits)
  have sum: "last_summary es = None"
    using last_summary_Some [of es] assms by (cases "last_summary es") auto
  have req: "\<not> unhandled_request fs" if "\<forall>e \<in> set fs. \<not> is_condensation_request e" for fs
    using that by (induction fs) auto
  show ?thesis
    using assms by (simp add: from_events_def ids sum plain_view_def req Let_def)
qed

text \<open>
  Adding a condensation at the end of a history: its ids leave the view, its summary (or, if it
  has none, the earlier one) is put in, and no request is left unhandled.
\<close>

lemma from_events_condense:
  assumes v: "from_events es = Inr v" and a: "payload c = Act a" and "forgotten a = Inr is"
    and "event_id c \<notin> event_id ` set es"
  shows "from_events (es @ [c]) = Inr
    \<lparr>view_events =
       (let kept = filter (\<lambda>e. event_id e \<notin> set (forgotten_event_ids v) \<and> event_id e \<notin> set is) es
        in case (case summary_of c of Some r \<Rightarrow> Some r | None \<Rightarrow> last_summary es) of
             None \<Rightarrow> kept | Some (s, off) \<Rightarrow> py_insert kept off (summary_event s)),
     unhandled_condensation_request = False,
     forgotten_event_ids = forgotten_event_ids v @ is @ [event_id c]\<rparr>"
proof -
  obtain x1 x2 x3 x4 x5 where a': "a = CondensationAction x1 x2 x3 x4 x5"
    using assms(3) by (cases a) auto
  have old: "forgotten_ids es = Inr (forgotten_event_ids v)"
    by (rule from_events_events [OF v])
  have ids: "forgotten_ids (es @ [c]) = Inr (forgotten_event_ids v @ is @ [event_id c])"
    using a a' assms(3) by (simp add: forgotten_ids_append old del: forgotten.simps)
  have kept: "filter (\<lambda>e. event_id e \<notin> set (forgotten_event_ids v @ is @ [event_id c])) (es @ [c]) =
      filter (\<lambda>e. event_id e \<notin> set (forgotten_event_ids v) \<and> event_id e \<notin> set is) es"
    using assms(4) by (auto intro!: filter_cong) (metis image_eqI)+
  have con: "is_condensation c"
    using a a' by (simp add: is_condensation_def)
  show ?thesis
    unfolding from_events_def ids bindE_simps kept Let_def
    using con by (simp add: last_summary_append split: option.splits)
qed

end
