(* ===== verification/Condensers.thy ===== *)
theory Condensers
  imports View
begin

text \<open>
  The condensers (\<open>openhands/memory/condenser\<close>): functions from a view of the history to either
  a smaller view or a condensation action that is appended to the history. The language model is
  an argument: its answers are functions of what it is asked about (the prompts are built from
  exactly these events), and the dumps of its response and metrics are JSON values.
\<close>

section \<open>Metadata\<close>

definition CONDENSER_METADATA_KEY :: string where
  "CONDENSER_METADATA_KEY = ''condenser_meta''"

definition get_condensation_metadata :: "json_dict \<Rightarrow> json list" where
  "get_condensation_metadata extra_data =
     (case map_of extra_data CONDENSER_METADATA_KEY of Some (JList bs) \<Rightarrow> bs | _ \<Rightarrow> [])"

definition add_metadata :: "string \<Rightarrow> json \<Rightarrow> json_dict \<Rightarrow> json_dict" where
  "add_metadata key value batch = AList.update key value batch"

text \<open>The batch goes to the list under the key and is cleared; an empty batch only makes sure
  that the list exists. The result is the new extra data and the new batch.\<close>

definition write_metadata :: "json_dict \<Rightarrow> json_dict \<Rightarrow> json_dict \<times> json_dict" where
  "write_metadata batch extra_data =
     (let extra1 = (if has_key extra_data CONDENSER_METADATA_KEY then extra_data
                    else AList.update CONDENSER_METADATA_KEY (JList []) extra_data);
          extra2 = (if batch = [] then extra1
                    else AList.update CONDENSER_METADATA_KEY
                      (JList (get_condensation_metadata extra1 @ [JDict batch])) extra1)
      in (extra2, []))"

lemma get_write_metadata:
  "has_key extra CONDENSER_METADATA_KEY \<Longrightarrow>
     get_condensation_metadata (fst (write_metadata batch extra)) =
     get_condensation_metadata extra @ (if batch = [] then [] else [JDict batch])"
  by (simp add: write_metadata_def get_condensation_metadata_def update_conv' Let_def)

section \<open>The language model\<close>

record state_summary =
  user_context :: string
  completed_tasks :: string
  pending_tasks :: string
  current_state :: string
  files_modified :: string
  function_changes :: string
  data_structures :: string
  tests_written :: string
  tests_passing :: string
  failing_tests :: string
  error_messages :: string
  branch_created :: string
  branch_name :: string
  commits_made :: string
  pr_created :: string
  pr_status :: string
  dependencies :: string
  other_relevant_context :: string

definition empty_state_summary :: state_summary where
  "empty_state_summary =
     \<lparr>user_context = [], completed_tasks = [], pending_tasks = [], current_state = [],
      files_modified = [], function_changes = [], data_structures = [], tests_written = [],
      tests_passing = [], failing_tests = [], error_messages = [], branch_created = [],
      branch_name = [], commits_made = [], pr_created = [], pr_status = [], dependencies = [],
      other_relevant_context = []\<rparr>"

definition newline :: string where
  "newline = [CHR 0x0A]"

definition state_summary_str :: "state_summary \<Rightarrow> string" where
  "state_summary_str s = py_join (newline @ newline)
     [''# State Summary'',
      ''## Core Information'',
      ''**User Context**: '' @ user_context s,
      ''**Completed Tasks**: '' @ completed_tasks s,
      ''**Pending Tasks**: '' @ pending_tasks s,
      ''**Current State**: '' @ current_state s,
      ''## Code Changes'',
      ''**Files Modified**: '' @ files_modified s,
      ''**Function Changes**: '' @ function_changes s,
      ''**Data Structures**: '' @ data_structures s,
      ''**Dependencies**: '' @ dependencies s,
      ''## Testing Status'',
      ''**Tests Written**: '' @ tests_written s,
      ''**Tests Passing**: '' @ tests_passing s,
      ''**Failing Tests**: '' @ failing_tests s,
      ''**Error Messages**: '' @ error_messages s,
      ''## Version Control'',
      ''**Branch Created**: '' @ branch_created s,
      ''**Branch Name**: '' @ branch_name s,
      ''**Commits Made**: '' @ commits_made s,
      ''**PR Created**: '' @ pr_created s,
      ''**PR Status**: '' @ pr_status s,
      ''## Additional Context'',
      ''**Other Relevant Context**: '' @ other_relevant_context s]"

text \<open>
  \<open>ask_structured\<close> gives the parsed arguments of the tool call, or \<open>None\<close> where no usable call
  comes back; \<open>ask_summary\<close> gives the content of the reply, which may be absent.
\<close>

record llm_oracle =
  ask_ranking :: "event list \<Rightarrow> int list result"
  ask_summary :: "event \<Rightarrow> event list \<Rightarrow> string option result"
  ask_structured :: "event \<Rightarrow> event list \<Rightarrow> state_summary option result"
  supports_response_schema :: bool
  is_function_calling_active :: bool
  response_dump :: json
  metrics_dump :: json

section \<open>The strategies\<close>

datatype condense_result = Kept view | Condensed action

text \<open>\<open>RollingCondenser.condense\<close>.\<close>

definition rolling :: "(view \<Rightarrow> bool) \<Rightarrow> (view \<Rightarrow> action result) \<Rightarrow> view \<Rightarrow> condense_result result" where
  "rolling should_condense get_condensation v =
     (if should_condense v then bindE (get_condensation v) (\<lambda>a. Inr (Condensed a)) else Inr (Kept v))"

definition size_exceeded :: "int \<Rightarrow> view \<Rightarrow> bool" where
  "size_exceeded max_size v \<longleftrightarrow>
     int (length (view_events v)) > max_size \<or> unhandled_condensation_request v"

definition py_min :: "int list \<Rightarrow> int result" where
  "py_min xs = (case xs of [] \<Rightarrow> Inl (ValueError ''min() arg is an empty sequence'')
                | y # ys \<Rightarrow> Inr (fold min ys y))"

definition py_max :: "int list \<Rightarrow> int result" where
  "py_max xs = (case xs of [] \<Rightarrow> Inl (ValueError ''max() arg is an empty sequence'')
                | y # ys \<Rightarrow> Inr (fold max ys y))"

definition mask_observations :: "int \<Rightarrow> view \<Rightarrow> view" where
  "mask_observations window v =
     plain_view (map (\<lambda>(i, e).
       if is_observation e \<and> int i < int (length (view_events v)) - window
       then summary_event ''<MASKED>'' else e) (enumerate 0 (view_events v)))"

definition browser_url :: "event \<Rightarrow> string option" where
  "browser_url e = (case payload e of Obs (BrowserOutputObservation _ b) \<Rightarrow> Some (br_url b) | _ \<Rightarrow> None)"

text \<open>The loop runs over the reversed view; \<open>cnt\<close> counts the browser outputs kept so far.\<close>

fun mask_browser_rev :: "int \<Rightarrow> int \<Rightarrow> event list \<Rightarrow> event list" where
  "mask_browser_rev window cnt [] = []"
| "mask_browser_rev window cnt (e # es) =
     (case browser_url e of
        Some url \<Rightarrow>
          if cnt \<ge> window
          then summary_event (''Visited URL '' @ url @ newline @ ''Content omitted'') #
               mask_browser_rev window cnt es
          else e # mask_browser_rev window (cnt + 1) es
      | None \<Rightarrow> e # mask_browser_rev window cnt es)"

definition mask_browser :: "int \<Rightarrow> view \<Rightarrow> view" where
  "mask_browser window v = plain_view (rev (mask_browser_rev window 0 (rev (view_events v))))"

definition recent_events :: "int \<Rightarrow> int \<Rightarrow> view \<Rightarrow> view" where
  "recent_events keep_first max_events v =
     (let head = slice_to (view_events v) keep_first;
          tail_length = max 0 (max_events - int (length head));
          tail = slice_from (view_events v) (- tail_length)
      in plain_view (head @ tail))"

definition amortized_condensation :: "int \<Rightarrow> int \<Rightarrow> view \<Rightarrow> action result" where
  "amortized_condensation max_size keep_first v =
     (let target_size = max_size div 2;
          head = slice_to (view_events v) keep_first;
          events_from_tail = target_size - int (length head);
          tail = slice_from (view_events v) (- events_from_tail);
          to_keep = map event_id (head @ tail);
          to_forget = filter (\<lambda>i. i \<notin> set to_keep) (map event_id (view_events v))
      in bindE (py_min to_forget) (\<lambda>lo. bindE (py_max to_forget) (\<lambda>hi.
           new_condensation None (Some lo) (Some hi) None None)))"

text \<open>The loop that fills the ranking up from the end of the view.\<close>

fun fill_ids :: "int \<Rightarrow> int list \<Rightarrow> event list \<Rightarrow> int list" where
  "fill_ids n ids [] = ids"
| "fill_ids n ids (e # es) =
     (if int (length ids) \<ge> n then ids
      else if event_id e \<notin> set ids then fill_ids n (ids @ [event_id e]) es
      else fill_ids n ids es)"

definition attention_condensation :: "llm_oracle \<Rightarrow> int \<Rightarrow> int \<Rightarrow> view \<Rightarrow> action result" where
  "attention_condensation llm max_size keep_first v =
     (let target_size = max_size div 2;
          head_event_ids = map event_id (slice_to (view_events v) keep_first);
          events_from_tail = target_size - int (length head_event_ids)
      in bindE (ask_ranking llm (view_events v)) (\<lambda>ranked.
           let first_ids = slice_to (filter (\<lambda>i. i \<notin> set head_event_ids) ranked) events_from_tail;
               response_ids = fill_ids events_from_tail first_ids (rev (view_events v))
           in new_condensation (Some (map event_id (filter (\<lambda>e.
                event_id e \<notin> set response_ids \<and> event_id e \<notin> set head_event_ids) (view_events v))))
                None None None None))"

text \<open>The two summarising strategies share everything but the question to the model.\<close>

definition summarizing_input :: "int \<Rightarrow> int \<Rightarrow> view \<Rightarrow> (event \<times> event list) result" where
  "summarizing_input max_size keep_first v =
     (let head = slice_to (view_events v) keep_first;
          target_size = max_size div 2;
          events_from_tail = target_size - int (length head) - 1
      in bindE (py_get (view_events v) keep_first) (\<lambda>e.
           Inr (if is_condensation_observation e then e else summary_event ''No events summarized'',
                filter (\<lambda>e. \<not> is_condensation_observation e)
                  (py_slice (view_events v) keep_first (- events_from_tail)))))"

definition summarizing_result :: "int \<Rightarrow> event list \<Rightarrow> string option \<Rightarrow> action result" where
  "summarizing_result keep_first forgotten_events summary =
     bindE (py_min (map event_id forgotten_events)) (\<lambda>lo.
     bindE (py_max (map event_id forgotten_events)) (\<lambda>hi.
       new_condensation None (Some lo) (Some hi) summary (Some keep_first)))"

definition summarizing_condensation :: "llm_oracle \<Rightarrow> int \<Rightarrow> int \<Rightarrow> view \<Rightarrow> action result" where
  "summarizing_condensation llm max_size keep_first v =
     bindE (summarizing_input max_size keep_first v) (\<lambda>(old_summary, forgotten_events).
     bindE (ask_summary llm old_summary forgotten_events) (\<lambda>summary.
       summarizing_result keep_first forgotten_events summary))"

definition structured_condensation :: "llm_oracle \<Rightarrow> int \<Rightarrow> int \<Rightarrow> view \<Rightarrow> action result" where
  "structured_condensation llm max_size keep_first v =
     bindE (summarizing_input max_size keep_first v) (\<lambda>(old_summary, forgotten_events).
     bindE (ask_structured llm old_summary forgotten_events) (\<lambda>reply.
       summarizing_result keep_first forgotten_events
         (Some (state_summary_str (case reply of None \<Rightarrow> empty_state_summary | Some s \<Rightarrow> s)))))"

definition is_recall_of :: "string \<Rightarrow> event \<Rightarrow> bool" where
  "is_recall_of text e = (case payload e of Act (RecallAction _ q _) \<Rightarrow> q = text | _ \<Rightarrow> False)"

definition message_content :: "event \<Rightarrow> string" where
  "message_content e = (case payload e of Act (MessageAction c _ _ _ _) \<Rightarrow> c | _ \<Rightarrow> [])"

definition essential_events :: "event list \<Rightarrow> nat \<Rightarrow> event list" where
  "essential_events events i =
     (let first_user_msg = events ! i;
          later = drop (Suc i) events;
          recall_index = index_where (is_recall_of (message_content first_user_msg)) later;
          recall = (case recall_index of None \<Rightarrow> [] | Some j \<Rightarrow>
             (let r = later ! j in
              r # (case find (\<lambda>o'. is_observation o' \<and> event_cause o' = Some (event_id r))
                     (drop (Suc j) later) of None \<Rightarrow> [] | Some o' \<Rightarrow> [o'])))
      in (case find is_system_message events of None \<Rightarrow> [] | Some s \<Rightarrow> [s]) @ first_user_msg # recall)"

definition first_kept_index :: "event list \<Rightarrow> nat \<Rightarrow> nat" where
  "first_kept_index events num_essential =
     (let total = int (length events);
          num_recent_to_keep = max 1 ((total - int num_essential) div 2);
          slice_start_index = nat (max 0 (total - num_recent_to_keep));
          recent_events_slice = drop slice_start_index events;
          first_valid = (case index_where (\<lambda>e. \<not> is_observation e) recent_events_slice of
             Some k \<Rightarrow> k | None \<Rightarrow> length recent_events_slice)
      in slice_start_index + first_valid)"

definition window_condensation :: "view \<Rightarrow> action result" where
  "window_condensation v =
     (let events = view_events v in
      case index_where is_user_message events of
        None \<Rightarrow> new_condensation (Some []) None None None None
      | Some i \<Rightarrow>
        let essential = map event_id (essential_events events i);
            events_to_keep = essential @ map event_id (drop (first_kept_index events (length essential)) events);
            forgotten_ids = sort (remdups (filter (\<lambda>k. k \<notin> set events_to_keep) (map event_id events)))
        in if length forgotten_ids > 1 \<and>
              last forgotten_ids - hd forgotten_ids = int (length forgotten_ids) - 1
           then new_condensation None (Some (hd forgotten_ids)) (Some (last forgotten_ids)) None None
           else new_condensation (Some forgotten_ids) None None None None)"

section \<open>Condensers as values\<close>

datatype condenser =
    NoOpCondenser
  | ObservationMaskingCondenser int
  | BrowserOutputCondenser int
  | RecentEventsCondenser int int
  | AmortizedForgettingCondenser int int
  | LLMAttentionCondenser int int
  | LLMSummarizingCondenser int int
  | StructuredSummaryCondenser int int
  | ConversationWindowCondenser
  | CondenserPipeline "condenser list"

fun condense :: "llm_oracle \<Rightarrow> condenser \<Rightarrow> view \<Rightarrow> condense_result result"
  and condense_all :: "llm_oracle \<Rightarrow> condenser list \<Rightarrow> view \<Rightarrow> condense_result result" where
  "condense llm NoOpCondenser v = Inr (Kept v)"
| "condense llm (ObservationMaskingCondenser w) v = Inr (Kept (mask_observations w v))"
| "condense llm (BrowserOutputCondenser w) v = Inr (Kept (mask_browser w v))"
| "condense llm (RecentEventsCondenser k n) v = Inr (Kept (recent_events k n v))"
| "condense llm (AmortizedForgettingCondenser m k) v =
     rolling (size_exceeded m) (amortized_condensation m k) v"
| "condense llm (LLMAttentionCondenser m k) v =
     rolling (size_exceeded m) (attention_condensation llm m k) v"
| "condense llm (LLMSummarizingCondenser m k) v =
     rolling (size_exceeded m) (summarizing_condensation llm m k) v"
| "condense llm (StructuredSummaryCondenser m k) v =
     rolling (size_exceeded m) (structured_condensation llm m k) v"
| "condense llm ConversationWindowCondenser v =
     rolling unhandled_condensation_request window_condensation v"
| "condense llm (CondenserPipeline cs) v = condense_all llm cs v"
| "condense_all llm [] v = Inr (Kept v)"
| "condense_all llm (c # cs) v =
     bindE (condense llm c v) (\<lambda>r. case r of
       Condensed a \<Rightarrow> Inr (Condensed a) | Kept w \<Rightarrow> condense_all llm cs w)"

text \<open>The constructors' checks; the third is written with \<open>keep_first\<close> in its text in two of the
  four classes, which is the argument \<open>shown\<close>.\<close>

definition check_sizes :: "int \<Rightarrow> int \<Rightarrow> int \<Rightarrow> unit result" where
  "check_sizes max_size keep_first shown =
     (if keep_first \<ge> max_size div 2
      then Inl (ValueError (''keep_first ('' @ str_of_int keep_first @
        '') must be less than half of max_size ('' @ str_of_int max_size @ '')''))
      else if keep_first < 0
      then Inl (ValueError (''keep_first ('' @ str_of_int keep_first @ '') cannot be negative''))
      else if max_size < 1
      then Inl (ValueError (''max_size ('' @ str_of_int shown @ '') cannot be non-positive''))
      else Inr ())"

definition new_amortized :: "int \<Rightarrow> int \<Rightarrow> condenser result" where
  "new_amortized max_size keep_first =
     bindE (check_sizes max_size keep_first keep_first) (\<lambda>_.
       Inr (AmortizedForgettingCondenser max_size keep_first))"

definition new_attention :: "llm_oracle \<Rightarrow> int \<Rightarrow> int \<Rightarrow> condenser result" where
  "new_attention llm max_size keep_first =
     bindE (check_sizes max_size keep_first keep_first) (\<lambda>_.
       if supports_response_schema llm then Inr (LLMAttentionCondenser max_size keep_first)
       else Inl (ValueError (''The LLM model must support the '' @ [CHR 0x27] @ ''response_schema'' @
         [CHR 0x27] @ '' parameter to use the LLMAttentionCondenser.'')))"

definition new_summarizing :: "int \<Rightarrow> int \<Rightarrow> condenser result" where
  "new_summarizing max_size keep_first =
     bindE (check_sizes max_size keep_first max_size) (\<lambda>_.
       Inr (LLMSummarizingCondenser max_size keep_first))"

definition new_structured :: "llm_oracle \<Rightarrow> int \<Rightarrow> int \<Rightarrow> condenser result" where
  "new_structured llm max_size keep_first =
     bindE (check_sizes max_size keep_first max_size) (\<lambda>_.
       if is_function_calling_active llm then Inr (StructuredSummaryCondenser max_size keep_first)
       else Inl (ValueError ''LLM must support function calling to use StructuredSummaryCondenser''))"

text \<open>
  The metadata one run leaves in the batch of a condenser: what the code adds after the model
  answered. \<open>condensed_history\<close> writes the batch whether or not the run raises; a pipeline
  writes the batch of each of its members instead of its own.
\<close>

definition run_metadata :: "llm_oracle \<Rightarrow> condenser \<Rightarrow> view \<Rightarrow> json_dict" where
  "run_metadata llm c v = (case c of
     LLMAttentionCondenser m k \<Rightarrow>
       (if size_exceeded m v \<and> \<not> isl (ask_ranking llm (view_events v))
        then add_metadata ''metrics'' (metrics_dump llm) [] else [])
   | LLMSummarizingCondenser m k \<Rightarrow>
       (if size_exceeded m v \<and>
           \<not> isl (bindE (summarizing_input m k v) (\<lambda>(s, f). ask_summary llm s f))
        then add_metadata ''metrics'' (metrics_dump llm)
          (add_metadata ''response'' (response_dump llm) []) else [])
   | StructuredSummaryCondenser m k \<Rightarrow>
       (if size_exceeded m v \<and>
           \<not> isl (bindE (summarizing_input m k v) (\<lambda>(s, f). ask_structured llm s f))
        then add_metadata ''metrics'' (metrics_dump llm)
          (add_metadata ''response'' (response_dump llm) []) else [])
   | _ \<Rightarrow> [])"

fun pipeline_metadata :: "llm_oracle \<Rightarrow> condenser list \<Rightarrow> view \<Rightarrow> json_dict list" where
  "pipeline_metadata llm [] v = []"
| "pipeline_metadata llm (c # cs) v =
     run_metadata llm c v #
     (case condense llm c v of Inr (Kept w) \<Rightarrow> pipeline_metadata llm cs w | _ \<Rightarrow> map (\<lambda>_. []) cs)"

definition condensed_history ::
  "llm_oracle \<Rightarrow> condenser \<Rightarrow> json_dict \<Rightarrow> view \<Rightarrow> condense_result result \<times> json_dict" where
  "condensed_history llm c extra_data v =
     (condense llm c v,
      fold (\<lambda>batch extra. fst (write_metadata batch extra))
        (case c of CondenserPipeline cs \<Rightarrow> pipeline_metadata llm cs v | _ \<Rightarrow> [run_metadata llm c v])
        extra_data)"

section \<open>Lists of events in the order of their ids\<close>

definition ascending :: "event list \<Rightarrow> bool" where
  "ascending es \<longleftrightarrow> sorted_wrt (<) (map event_id es)"

lemma ascending_append:
  "ascending (xs @ ys) \<longleftrightarrow>
     ascending xs \<and> ascending ys \<and> (\<forall>x \<in> set xs. \<forall>y \<in> set ys. event_id x < event_id y)"
  by (auto simp: ascending_def sorted_wrt_append)

lemma ascending_sorted: "ascending es \<Longrightarrow> sorted (map event_id es)"
  and ascending_distinct: "ascending es \<Longrightarrow> distinct (map event_id es)"
  by (simp_all add: ascending_def strict_sorted_iff)

lemma ascending_filter: "ascending es \<Longrightarrow> ascending (filter p es)"
  by (simp add: ascending_def sorted_wrt_map sorted_wrt_filter)

lemma py_min_ascending: "ascending es \<Longrightarrow> es \<noteq> [] \<Longrightarrow> py_min (map event_id es) = Inr (event_id (hd es))"
proof -
  have "fold min ys y = y" if "\<forall>z \<in> set ys. y \<le> z" for y :: int and ys
    using that by (induction ys) (auto simp: min_def)
  then show "ascending es \<Longrightarrow> es \<noteq> [] \<Longrightarrow> py_min (map event_id es) = Inr (event_id (hd es))"
    by (cases es) (auto simp: py_min_def ascending_def less_imp_le)
qed

lemma py_max_ascending: "ascending es \<Longrightarrow> es \<noteq> [] \<Longrightarrow> py_max (map event_id es) = Inr (event_id (last es))"
proof -
  have "fold max ys y = last (y # ys)" if "sorted (y # ys)" for y :: int and ys
    using that by (induction ys arbitrary: y) (auto simp: max_def)
  then show "ascending es \<Longrightarrow> es \<noteq> [] \<Longrightarrow> py_max (map event_id es) = Inr (event_id (last es))"
    using ascending_sorted [of es] last_map [of es event_id]
    by (cases es) (simp_all add: py_max_def del: last.simps)
qed

lemma filter_outside_middle:
  assumes "ascending (h @ m @ t)" and "m \<noteq> []"
  shows "filter (\<lambda>e. event_id e \<notin> {event_id (hd m)..event_id (last m)}) (h @ m @ t) = h @ t"
proof -
  have hd: "event_id (hd m) \<le> event_id e" and last: "event_id e \<le> event_id (last m)"
    if "e \<in> set m" for e
  proof -
    from that obtain i where i: "i < length m" "e = m ! i" by (auto simp: in_set_conv_nth)
    have s: "sorted (map event_id m)"
      using assms by (simp add: ascending_append ascending_sorted)
    show "event_id (hd m) \<le> event_id e"
      using sorted_nth_mono [OF s, of 0 i] i assms(2) by (simp add: hd_conv_nth)
    show "event_id e \<le> event_id (last m)"
      using sorted_nth_mono [OF s, of i "length m - 1"] i assms(2) by (simp add: last_conv_nth)
  qed
  have "\<forall>e \<in> set h. event_id e < event_id (hd m)" "\<forall>e \<in> set t. event_id (last m) < event_id e"
    using assms by (auto simp: ascending_append)
  then have "filter (\<lambda>e. event_id e \<notin> {event_id (hd m)..event_id (last m)}) h = h"
    "filter (\<lambda>e. event_id e \<notin> {event_id (hd m)..event_id (last m)}) t = t"
    by (auto simp: filter_id_conv)
  moreover have "filter (\<lambda>e. event_id e \<notin> {event_id (hd m)..event_id (last m)}) m = []"
    using hd last by (auto simp: filter_empty_conv)
  ultimately show ?thesis by simp
qed

text \<open>A list cut into its first \<open>k\<close> elements, a middle and its last \<open>j\<close> elements.\<close>

lemma cut_middle:
  assumes "k + j < length xs"
  obtains h m t where "xs = h @ m @ t" "length h = k" "length t = j" "m \<noteq> []"
    "h = take k xs" "t = drop (length xs - j) xs"
proof
  show "xs = take k xs @ take (length xs - j - k) (drop k xs) @ drop (length xs - j) xs"
    using assms by (metis add.commute append_take_drop_id diff_add drop_drop le_add_diff_inverse
        less_diff_conv less_imp_le_nat)
qed (use assms in auto)

lemma slices_of_cut:
  assumes "xs = h @ m @ t" and "int (length h) = k" and "int (length t) = j" and "0 < j"
  shows "slice_to xs k = h" "slice_from xs (- j) = t" "py_slice xs k (- j) = m"
proof -
  have l: "k = int (length h)" "j = int (length t)" "0 < length t"
    using assms by auto
  show "slice_to xs k = h" unfolding l slice_to_nat by (simp add: assms(1))
  show "slice_from xs (- j) = t" unfolding l slice_from_neg [OF l(3)] by (simp add: assms(1))
  show "py_slice xs k (- j) = m" unfolding l py_slice_neg_end [OF l(3)] by (simp add: assms(1))
qed

section \<open>Amortized forgetting\<close>

lemma amortized_cut:
  assumes "view_events v = h @ m @ t" and "ascending (view_events v)" and "m \<noteq> []"
    and "int (length h) = keep_first" and "int (length t) = max_size div 2 - keep_first" and "t \<noteq> []"
  shows "amortized_condensation max_size keep_first v =
    Inr (CondensationAction None (Some (event_id (hd m))) (Some (event_id (last m))) None None)"
proof -
  have pos: "0 < max_size div 2 - keep_first"
    using assms(5,6) by (metis length_greater_0_conv of_nat_0_less_iff)
  note sl = slices_of_cut [OF assms(1,4,5) pos]
  have asc: "ascending m" "ascending (h @ m @ t)"
    using assms(1,2) by (simp_all add: ascending_append)
  have "filter (\<lambda>i. i \<notin> set (map event_id (h @ t))) (map event_id (h @ m @ t)) = map event_id m"
  proof -
    have "set (map event_id m) \<inter> set (map event_id (h @ t)) = {}"
      using ascending_distinct [OF asc(2)] by auto
    then have "filter (\<lambda>i. i \<notin> set (map event_id (h @ t))) (map event_id m) = map event_id m"
      by (simp only: filter_id_conv) blast
    then show ?thesis by (simp add: filter_empty_conv)
  qed
  then show ?thesis
    unfolding amortized_condensation_def Let_def sl assms(4) [symmetric]
    using sl py_min_ascending [OF asc(1) assms(3)] py_max_ascending [OF asc(1) assms(3)]
    by (simp add: assms(1,4) new_condensation_def condensation_valid_def)
qed

text \<open>A range without a summary, appended to a history that has none.\<close>

lemma append_range:
  assumes "from_events es = Inr v" and "payload c = Act (CondensationAction None (Some lo) (Some hi) None None)"
    and "event_id c \<notin> event_id ` set es" and "last_summary es = None"
  shows "from_events (es @ [c]) = Inr
    \<lparr>view_events = filter (\<lambda>e. event_id e \<notin> {lo..hi}) (view_events v),
     unhandled_condensation_request = False,
     forgotten_event_ids = forgotten_event_ids v @ [lo..hi] @ [event_id c]\<rparr>"
proof -
  have f: "forgotten (CondensationAction None (Some lo) (Some hi) None None) = Inr [lo..hi]"
    by (simp add: condensation_valid_def)
  have s: "summary_of c = None"
    by (simp add: summary_of_def assms(2))
  show ?thesis
    using from_events_events(2) [OF assms(1)]
    by (simp add: from_events_condense [OF assms(1,2) f assms(3)] s assms(4) Let_def conj_commute)
qed

text \<open>Ascending histories have ascending views where no summary is put in.\<close>

lemma view_ascending:
  assumes "from_events es = Inr v" and "ascending es" and "last_summary es = None"
  shows "ascending (view_events v)"
  using from_events_events(2) [OF assms(1)] assms(2,3) by (simp add: Let_def ascending_filter)

lemma amortized_step:
  assumes v: "from_events es = Inr v" and asc: "ascending es" and none: "last_summary es = None"
    and k: "0 \<le> keep_first" "keep_first < max_size div 2"
    and big: "max_size div 2 < int (length (view_events v))"
  shows "\<exists>lo hi. amortized_condensation max_size keep_first v =
      Inr (CondensationAction None (Some lo) (Some hi) None None) \<and>
    (\<forall>c. payload c = Act (CondensationAction None (Some lo) (Some hi) None None) \<and>
         event_id c \<notin> event_id ` set es \<longrightarrow>
       (\<exists>w. from_events (es @ [c]) = Inr w \<and>
          view_events w = slice_to (view_events v) keep_first @
            slice_from (view_events v) (- (max_size div 2 - keep_first)) \<and>
          int (length (view_events w)) = max_size div 2 \<and> \<not> size_exceeded max_size w))"
proof -
  define j where "j = max_size div 2 - keep_first"
  have j: "0 < j" "int (nat j) = j" "int (nat keep_first) = keep_first" and pos: "0 \<le> max_size div 2"
    using k by (simp_all add: j_def)
  have "nat keep_first + nat j < length (view_events v)"
    using big j k(1) j_def by linarith
  then obtain h m t where cut: "view_events v = h @ m @ t" "length h = nat keep_first"
      "length t = nat j" "m \<noteq> []"
    by (rule cut_middle)
  have lens: "int (length h) = keep_first" "int (length t) = j"
    using cut j by simp_all
  note sl = slices_of_cut [OF cut(1) lens j(1)]
  have ascv: "ascending (view_events v)"
    by (rule view_ascending [OF v asc none])
  have am: "amortized_condensation max_size keep_first v =
      Inr (CondensationAction None (Some (event_id (hd m))) (Some (event_id (last m))) None None)"
    by (rule amortized_cut [OF cut(1) ascv cut(4) lens(1)]) (use lens j in \<open>auto simp: j_def\<close>)
  have len: "int (length (h @ t)) = max_size div 2"
    using lens by (simp add: j_def)
  have small: "int (length (h @ t)) \<le> max_size"
    using len pos by linarith
  have out: "filter (\<lambda>e. event_id e \<notin> {event_id (hd m)..event_id (last m)}) (view_events v) = h @ t"
    using filter_outside_middle [of h m t] ascv cut(1,4) by simp
  show ?thesis
    using am append_range [OF v _ _ none] out sl len small
    by (auto simp: size_exceeded_def j_def [symmetric] simp del: atLeastAtMost_iff)
qed

text \<open>A view that already fits is not a reason to condense by size, but a request is; the range
  is then empty and \<open>min\<close> raises.\<close>

lemma amortized_request_fails:
  assumes "int (length (view_events v)) \<le> max_size div 2" and "0 \<le> keep_first"
    and "keep_first < max_size div 2"
  shows "amortized_condensation max_size keep_first v =
    Inl (ValueError ''min() arg is an empty sequence'')"
proof -
  define n where "n = length (view_events v)"
  have head: "slice_to (view_events v) keep_first = take (nat keep_first) (view_events v)"
    using slice_to_nat [of "view_events v" "nat keep_first"] assms(2) by simp
  have pos: "0 < max_size div 2 - int (min n (nat keep_first))"
    using assms(2,3) by linarith
  have "set (view_events v) \<subseteq> set (take (nat keep_first) (view_events v)) \<union>
      set (slice_from (view_events v) (- (max_size div 2 - int (min n (nat keep_first)))))"
  proof -
    have "slice_index n (- (max_size div 2 - int (min n (nat keep_first)))) \<le> min n (nat keep_first)"
    proof -
      have "int n - (max_size div 2 - int (min n (nat keep_first))) \<le> int (min n (nat keep_first))"
        using assms(1) by (simp add: n_def)
      then show ?thesis
        using pos by (simp add: slice_index_def nat_le_iff del: min.bounded_iff of_nat_min)
    qed
    then have "set (drop (min n (nat keep_first)) (view_events v)) \<subseteq>
        set (slice_from (view_events v) (- (max_size div 2 - int (min n (nat keep_first)))))"
      by (simp add: slice_from_def n_def set_drop_subset_set_drop)
    moreover have "set (view_events v) =
        set (take (min n (nat keep_first)) (view_events v)) \<union> set (drop (min n (nat keep_first)) (view_events v))"
      by (metis append_take_drop_id set_append)
    moreover have "take (min n (nat keep_first)) (view_events v) = take (nat keep_first) (view_events v)"
      by (simp add: n_def min_def)
    ultimately show ?thesis by (metis Un_mono subset_refl)
  qed
  then have "filter (\<lambda>i. i \<notin> set (map event_id (take (nat keep_first) (view_events v) @
      slice_from (view_events v) (- (max_size div 2 - int (min n (nat keep_first)))))))
      (map event_id (view_events v)) = []"
    by (auto simp: filter_empty_conv)
  then show ?thesis
    unfolding amortized_condensation_def Let_def head length_take n_def [symmetric]
    by (simp only: py_min_def list.case bindE_simps)
qed

section \<open>The summarising strategies\<close>

lemma not_condensation_filter:
  "\<forall>e \<in> set es. \<not> is_condensation_observation e \<Longrightarrow> filter (\<lambda>e. \<not> is_condensation_observation e) es = es"
  by (simp add: filter_id_conv)

text \<open>
  What the model is asked about: with the view cut into its first \<open>keep_first\<close> events \<open>h\<close>, at
  most one summary right after them, the events \<open>m\<close> to forget and the tail \<open>t\<close>.
\<close>

lemma summarizing_input_cut:
  assumes "view_events v = h @ s @ m @ t" and "int (length h) = keep_first"
    and "int (length t) = max_size div 2 - keep_first - 1" and "t \<noteq> []" and "m \<noteq> []"
    and "s = [] \<or> (\<exists>x. s = [summary_event x])"
    and "\<forall>e \<in> set m. \<not> is_condensation_observation e"
  shows "summarizing_input max_size keep_first v =
    Inr (case s of [] \<Rightarrow> summary_event ''No events summarized'' | x # _ \<Rightarrow> x, m)"
proof -
  have pos: "0 < max_size div 2 - keep_first - 1"
    using assms(3,4) by (metis length_greater_0_conv of_nat_0_less_iff)
  have cut: "view_events v = h @ (s @ m) @ t" by (simp add: assms(1))
  note sl = slices_of_cut [OF cut assms(2,3) pos]
  have get: "py_get (view_events v) keep_first = Inr (hd (s @ m))"
    using assms(5) by (cases m) (auto simp: py_get_def Let_def assms(1) assms(2) [symmetric] nth_append hd_conv_nth)
  have mm: "filter (\<lambda>e. \<not> is_condensation_observation e) m = m" "\<not> is_condensation_observation (hd m)"
    using assms(5,7) by (simp_all add: not_condensation_filter)
  have len: "max_size div 2 - int (length (slice_to (view_events v) keep_first)) - 1 =
      max_size div 2 - keep_first - 1"
    using sl(1) assms(2) by simp
  show ?thesis
    unfolding summarizing_input_def Let_def len sl(3) get bindE_simps
    using assms(6) mm by (auto simp: hd_append)
qed

lemma summarizing_result_ascending:
  assumes "ascending m" and "m \<noteq> []"
  shows "summarizing_result k m (Some s) =
    Inr (CondensationAction None (Some (event_id (hd m))) (Some (event_id (last m))) (Some s) (Some k))"
    and "summarizing_result k m None = Inl (ValueError ''Invalid configuration of the optional fields.'')"
  by (simp_all add: summarizing_result_def py_min_ascending [OF assms] py_max_ascending [OF assms]
      new_condensation_def condensation_valid_def)

text \<open>The history a summarising condenser works on: ids ascend, no summary is stored in it, and
  the summaries so far were made by the same condenser.\<close>

definition summary_history :: "int \<Rightarrow> event list \<Rightarrow> bool" where
  "summary_history k es \<longleftrightarrow> ascending es \<and> (\<forall>e \<in> set es. \<not> is_condensation_observation e) \<and>
     (case last_summary es of None \<Rightarrow> True | Some (_, off) \<Rightarrow> off = k)"

text \<open>The cut of such a view.\<close>

lemma summary_view_cut:
  assumes v: "from_events es = Inr v" and hist: "summary_history k es"
    and k: "0 \<le> k" "k + 1 < T" and big: "T < int (length (view_events v))"
  obtains h s m t where "view_events v = h @ s @ m @ t" "int (length h) = k"
    "int (length t) = T - k - 1" "t \<noteq> []" "m \<noteq> []" "s = [] \<or> (\<exists>x. s = [summary_event x])"
    "filter (\<lambda>e. event_id e \<notin> set (forgotten_event_ids v)) es = h @ m @ t"
proof -
  define kept where "kept = filter (\<lambda>e. event_id e \<notin> set (forgotten_event_ids v)) es"
  have kk: "int (nat k) = k" "int (nat (T - k - 1)) = T - k - 1" "0 < nat (T - k - 1)"
    using k by simp_all
  have view: "view_events v = (case last_summary es of None \<Rightarrow> kept
      | Some (s, off) \<Rightarrow> py_insert kept off (summary_event s))"
    using from_events_events(2) [OF v] unfolding kept_def Let_def .
  have len: "nat k + nat (T - k - 1) < length kept"
    using big k view by (auto split: option.splits prod.splits)
  then obtain h m t where cut: "kept = h @ m @ t" "length h = nat k" "length t = nat (T - k - 1)"
      "m \<noteq> []"
    by (rule cut_middle)
  have "\<exists>s. view_events v = h @ s @ m @ t \<and> (s = [] \<or> (\<exists>x. s = [summary_event x]))"
  proof (cases "last_summary es")
    case None
    then show ?thesis using view cut(1) by auto
  next
    case (Some r)
    then obtain x where r: "last_summary es = Some (x, k)"
      using hist by (cases r) (auto simp: summary_history_def)
    have "py_insert kept k (summary_event x) = h @ [summary_event x] @ m @ t"
      using cut(1,2) kk(1) k(1) by (simp add: py_insert_def slice_index_def)
    with view r show ?thesis by auto
  qed
  moreover have "int (length h) = k" "int (length t) = T - k - 1" "t \<noteq> []"
    using cut(2,3) kk by auto
  ultimately show thesis
    using that cut(1,4) kept_def by metis
qed

text \<open>
  One summarisation. What is forgotten is exactly \<open>m\<close>, the events the model was shown, and the
  next view is the first \<open>keep_first\<close> events, the new summary, and the last
  \<open>max_size div 2 - keep_first - 1\<close> events; the old summary is replaced.
\<close>

lemma summary_append:
  assumes v: "from_events es = Inr v" and hist: "summary_history k es" and k: "0 \<le> k" "k + 1 < T"
    and cut: "view_events v = h @ s @ m @ t" "int (length h) = k" "int (length t) = T - k - 1"
      "m \<noteq> []" "filter (\<lambda>e. event_id e \<notin> set (forgotten_event_ids v)) es = h @ m @ t"
    and c: "payload c = Act (CondensationAction None (Some (event_id (hd m))) (Some (event_id (last m)))
      (Some x) (Some k))" "event_id c \<notin> event_id ` set es"
  shows "\<exists>w. from_events (es @ [c]) = Inr w \<and> view_events w = h @ summary_event x # t \<and>
    int (length (view_events w)) = T \<and> \<not> unhandled_condensation_request w"
proof -
  have f: "forgotten (CondensationAction None (Some (event_id (hd m))) (Some (event_id (last m)))
      (Some x) (Some k)) = Inr [event_id (hd m)..event_id (last m)]"
    by (simp add: condensation_valid_def)
  have asc: "ascending (h @ m @ t)"
    using ascending_filter [of es] hist unfolding summary_history_def cut(5) [symmetric] by blast
  have kept: "filter (\<lambda>e. event_id e \<notin> set (forgotten_event_ids v) \<and>
      event_id e \<notin> {event_id (hd m)..event_id (last m)}) es = h @ t"
    using filter_outside_middle [OF asc cut(4)] filter_filter [of _ _ es]
    unfolding cut(5) [symmetric] filter_filter by (simp only: conj_commute)
  have s: "summary_of c = Some (x, k)"
    by (simp add: summary_of_def c(1))
  have ins: "py_insert (h @ t) k (summary_event x) = h @ summary_event x # t"
    using cut(2) by (simp add: py_insert_def Let_def slice_index_def cut(2) [symmetric])
  have "from_events (es @ [c]) = Inr \<lparr>view_events = h @ summary_event x # t,
      unhandled_condensation_request = False,
      forgotten_event_ids = forgotten_event_ids v @ [event_id (hd m)..event_id (last m)] @ [event_id c]\<rparr>"
    unfolding from_events_condense [OF v c(1) f c(2)] s Let_def set_upto
    unfolding kept by (simp add: ins)
  then show ?thesis using cut(2,3) by auto
qed

lemma summarizing_step:
  assumes v: "from_events es = Inr v" and hist: "summary_history keep_first es"
    and k: "0 \<le> keep_first" "keep_first + 1 < max_size div 2"
    and big: "max_size div 2 < int (length (view_events v))"
    and reply: "\<And>old m. ask_summary llm old m = Inr (Some (reply old m))"
  shows "\<exists>old m lo hi. summarizing_input max_size keep_first v = Inr (old, m) \<and>
    summarizing_condensation llm max_size keep_first v =
      Inr (CondensationAction None (Some lo) (Some hi) (Some (reply old m)) (Some keep_first)) \<and>
    (\<forall>c. payload c = Act (CondensationAction None (Some lo) (Some hi) (Some (reply old m)) (Some keep_first)) \<and>
         event_id c \<notin> event_id ` set es \<longrightarrow>
       (\<exists>w. from_events (es @ [c]) = Inr w \<and>
          view_events w = slice_to (view_events v) keep_first @ summary_event (reply old m) #
            slice_from (view_events v) (- (max_size div 2 - keep_first - 1)) \<and>
          set (view_events v) \<subseteq> set (view_events w) \<union> set m \<union> {old} \<and>
          int (length (view_events w)) = max_size div 2 \<and> \<not> size_exceeded max_size w))"
proof -
  obtain h s m t where cut: "view_events v = h @ s @ m @ t" "int (length h) = keep_first"
    "int (length t) = max_size div 2 - keep_first - 1" "t \<noteq> []" "m \<noteq> []"
    "s = [] \<or> (\<exists>x. s = [summary_event x])"
    "filter (\<lambda>e. event_id e \<notin> set (forgotten_event_ids v)) es = h @ m @ t"
    by (rule summary_view_cut [OF v hist k big])
  have asc: "ascending m"
    using hist ascending_filter [of es "\<lambda>e. event_id e \<notin> set (forgotten_event_ids v)"]
    by (simp add: cut(7) summary_history_def ascending_append)
  have "set m \<subseteq> set es"
    using filter_is_subset [of "\<lambda>e. event_id e \<notin> set (forgotten_event_ids v)" es] cut(7) by simp
  then have noobs: "\<forall>e \<in> set m. \<not> is_condensation_observation e"
    using hist by (auto simp: summary_history_def)
  define old where "old = (case s of [] \<Rightarrow> summary_event ''No events summarized'' | x # _ \<Rightarrow> x)"
  have inp: "summarizing_input max_size keep_first v = Inr (old, m)"
    unfolding old_def by (rule summarizing_input_cut [OF cut(1-6) noobs])
  have res: "summarizing_condensation llm max_size keep_first v = Inr (CondensationAction None
      (Some (event_id (hd m))) (Some (event_id (last m))) (Some (reply old m)) (Some keep_first))"
    by (simp add: summarizing_condensation_def inp reply summarizing_result_ascending [OF asc cut(5)])
  have pos: "0 < max_size div 2 - keep_first - 1" and le: "max_size div 2 \<le> max_size"
    using k by linarith+
  have cut': "view_events v = h @ (s @ m) @ t" by (simp add: cut(1))
  note sl = slices_of_cut [OF cut' cut(2,3) pos]
  have old: "set s \<subseteq> {old}"
    using cut(6) by (auto simp: old_def)
  have "\<exists>w. from_events (es @ [c]) = Inr w \<and>
      view_events w = h @ summary_event (reply old m) # t \<and>
      set (view_events v) \<subseteq> set (view_events w) \<union> set m \<union> {old} \<and>
      int (length (view_events w)) = max_size div 2 \<and> \<not> size_exceeded max_size w"
    if "payload c = Act (CondensationAction None (Some (event_id (hd m))) (Some (event_id (last m)))
      (Some (reply old m)) (Some keep_first))" "event_id c \<notin> event_id ` set es" for c
    using summary_append [OF v hist k cut(1-3,5,7) that] le old
    by (auto simp: size_exceeded_def cut(1))
  with inp res show ?thesis
    unfolding sl by blast
qed

text \<open>The structured condenser differs only in the text it puts in: a reply without a usable tool
  call becomes the empty summary.\<close>

definition structured_text :: "state_summary option \<Rightarrow> string" where
  "structured_text reply = state_summary_str (case reply of None \<Rightarrow> empty_state_summary | Some s \<Rightarrow> s)"

lemma structured_as_summarizing:
  "structured_condensation llm max_size keep_first v =
     summarizing_condensation
       (llm\<lparr>ask_summary := \<lambda>old m. bindE (ask_structured llm old m) (\<lambda>r. Inr (Some (structured_text r)))\<rparr>)
       max_size keep_first v"
  by (simp add: structured_condensation_def summarizing_condensation_def structured_text_def
      case_prod_unfold bindE_assoc)

text \<open>The constructors accept \<open>keep_first = max_size // 2 - 1\<close>. The tail is then empty and the
  slice \<open>view[keep_first:-0]\<close> too, so nothing is left to take the minimum of.\<close>

lemma summarizing_edge_fails:
  assumes "keep_first = max_size div 2 - 1" and "0 \<le> keep_first"
    and "keep_first < int (length (view_events v))"
    and "\<And>old m. ask_summary llm old m = Inr (reply old m)"
  shows "summarizing_condensation llm max_size keep_first v =
    Inl (ValueError ''min() arg is an empty sequence'')"
proof -
  have head: "int (length (slice_to (view_events v) keep_first)) = keep_first"
    using assms(2,3) by (simp add: slice_to_def slice_index_def)
  have slice: "py_slice (view_events v) keep_first (- (max_size div 2 - keep_first - 1)) = []"
    using assms(1) by (simp add: py_slice_def slice_index_def)
  have get: "py_get (view_events v) keep_first = Inr (view_events v ! nat keep_first)"
    using assms(2,3) by (simp add: py_get_def)
  show ?thesis
    unfolding summarizing_condensation_def summarizing_input_def Let_def head slice get
    by (simp add: assms(4) summarizing_result_def py_min_def)
qed

lemma summarizing_short_fails:
  assumes "int (length (view_events v)) \<le> keep_first"
  shows "summarizing_condensation llm max_size keep_first v = Inl IndexError"
  using assms by (simp add: summarizing_condensation_def summarizing_input_def py_get_def Let_def)

section \<open>Ranking by the model\<close>

lemma fill_ids_length:
  "int (length ids) \<le> n \<Longrightarrow> int (length (fill_ids n ids es)) \<le> n"
  by (induction es arbitrary: ids) auto

lemma length_filter_ids:
  "distinct (map event_id es) \<Longrightarrow> length (filter (\<lambda>e. event_id e \<in> set ids) es) \<le> length ids"
proof -
  assume d: "distinct (map event_id es)"
  let ?k = "filter (\<lambda>e. event_id e \<in> set ids) es"
  have "length ?k = card (set (map event_id ?k))"
    using d distinct_map_filter [of event_id es] by (metis distinct_card length_map)
  also have "\<dots> \<le> card (set ids)"
    by (rule card_mono) auto
  also have "\<dots> \<le> length ids" by (rule card_length)
  finally show ?thesis .
qed

lemma attention_step:
  assumes v: "from_events es = Inr v" and dist: "distinct (map event_id es)"
    and none: "last_summary es = None"
    and k: "0 \<le> keep_first" "keep_first < max_size div 2"
    and rank: "ask_ranking llm (view_events v) = Inr ranked"
  shows "\<exists>is. attention_condensation llm max_size keep_first v =
      Inr (CondensationAction (Some is) None None None None) \<and>
    set is \<subseteq> event_id ` set (view_events v) \<and>
    (\<forall>c. payload c = Act (CondensationAction (Some is) None None None None) \<and>
         event_id c \<notin> event_id ` set es \<longrightarrow>
       (\<exists>w. from_events (es @ [c]) = Inr w \<and>
          set (slice_to (view_events v) keep_first) \<subseteq> set (view_events w) \<and>
          int (length (view_events w)) \<le> max_size div 2 \<and> \<not> size_exceeded max_size w))"
proof -
  let ?vs = "view_events v"
  define H where "H = map event_id (slice_to ?vs keep_first)"
  define n where "n = max_size div 2 - int (length H)"
  define R where "R = fill_ids n (slice_to (filter (\<lambda>i. i \<notin> set H) ranked) n) (rev ?vs)"
  define F where "F = map event_id (filter (\<lambda>e. event_id e \<notin> set R \<and> event_id e \<notin> set H) ?vs)"
  have lH: "int (length H) \<le> keep_first"
    using k(1) by (auto simp: H_def slice_to_def slice_index_def min_def)
  have n0: "0 \<le> n" using lH k(2) by (simp add: n_def)
  have "int (length R) \<le> n"
    unfolding R_def by (rule fill_ids_length) (use n0 in \<open>auto simp: slice_to_def slice_index_def min_def\<close>)
  then have total: "int (length (R @ H)) \<le> max_size div 2" by (simp add: n_def)
  have le: "max_size div 2 \<le> max_size" using k by linarith
  have res: "attention_condensation llm max_size keep_first v =
      Inr (CondensationAction (Some F) None None None None)"
    unfolding attention_condensation_def Let_def H_def [symmetric] rank bindE_simps
    unfolding R_def F_def n_def
    by (simp add: new_condensation_def condensation_valid_def H_def)
  have view: "?vs = filter (\<lambda>e. event_id e \<notin> set (forgotten_event_ids v)) es"
    using from_events_events(2) [OF v] none by (simp add: Let_def)
  have dv: "distinct (map event_id ?vs)"
    unfolding view by (rule distinct_map_filter [OF dist])
  have keep: "event_id e \<notin> set F \<longleftrightarrow> event_id e \<in> set (R @ H)" if "e \<in> set ?vs" for e
  proof -
    have "inj_on event_id (set ?vs)" using dv by (simp add: distinct_map)
    with that show ?thesis unfolding F_def by (auto simp: inj_on_def)
  qed
  have "\<exists>w. from_events (es @ [c]) = Inr w \<and> set (slice_to ?vs keep_first) \<subseteq> set (view_events w) \<and>
      int (length (view_events w)) \<le> max_size div 2 \<and> \<not> size_exceeded max_size w"
    if c: "payload c = Act (CondensationAction (Some F) None None None None)"
      "event_id c \<notin> event_id ` set es" for c
  proof -
    have f: "forgotten (CondensationAction (Some F) None None None None) = Inr F"
      by (simp add: condensation_valid_def)
    have s: "summary_of c = None" by (simp add: summary_of_def c(1))
    have "filter (\<lambda>e. event_id e \<notin> set (forgotten_event_ids v) \<and> event_id e \<notin> set F) es =
        filter (\<lambda>e. event_id e \<notin> set F) ?vs"
      unfolding view filter_filter by (simp only: conj_commute)
    also have "\<dots> = filter (\<lambda>e. event_id e \<in> set (R @ H)) ?vs"
      by (rule filter_cong) (use keep in auto)
    finally have w: "from_events (es @ [c]) = Inr \<lparr>view_events = filter (\<lambda>e. event_id e \<in> set (R @ H)) ?vs,
        unhandled_condensation_request = False,
        forgotten_event_ids = forgotten_event_ids v @ F @ [event_id c]\<rparr>"
      using from_events_condense [OF v c(1) f c(2)] by (simp add: s none Let_def)
    have "set (slice_to ?vs keep_first) \<subseteq> set (filter (\<lambda>e. event_id e \<in> set (R @ H)) ?vs)"
      by (auto simp: H_def slice_to_def dest: in_set_takeD)
    moreover have "int (length (filter (\<lambda>e. event_id e \<in> set (R @ H)) ?vs)) \<le> max_size div 2"
      using length_filter_ids [OF dv, of "R @ H"] total by linarith
    ultimately show ?thesis
      using w le by (auto simp: size_exceeded_def)
  qed
  moreover have "set F \<subseteq> event_id ` set ?vs" by (auto simp: F_def)
  ultimately show ?thesis using res by blast
qed

section \<open>The conversation window\<close>

lemma sorted_gapless:
  assumes "sorted xs" and "distinct xs" and "length xs > 1"
    and "last xs - hd xs = int (length xs) - 1"
  shows "set [hd xs..last xs] = set xs"
proof -
  have ne: "xs \<noteq> []" using assms(3) by auto
  have "set xs \<subseteq> {hd xs..last xs}"
  proof
    fix x assume "x \<in> set xs"
    then obtain i where i: "i < length xs" "x = xs ! i" by (auto simp: in_set_conv_nth)
    show "x \<in> {hd xs..last xs}"
      using sorted_nth_mono [OF assms(1), of 0 i] sorted_nth_mono [OF assms(1), of i "length xs - 1"]
        i ne by (simp add: hd_conv_nth last_conv_nth)
  qed
  moreover have "card (set xs) = card {hd xs..last xs}"
    using assms(2-4) by (simp add: distinct_card)
  ultimately have "set xs = {hd xs..last xs}" by (simp add: card_subset_eq)
  then show ?thesis by simp
qed

lemma find_in_set: "List.find p xs = Some x \<Longrightarrow> x \<in> set xs \<and> p x"
  by (auto simp: find_Some_iff)

lemma essential_subset:
  assumes "i < length events"
  shows "set (essential_events events i) \<subseteq> set events"
    and "events ! i \<in> set (essential_events events i)"
    and "find is_system_message events = Some s \<Longrightarrow> s \<in> set (essential_events events i)"
proof -
  define later where "later = drop (Suc i) events"
  have later: "set later \<subseteq> set events" by (simp add: later_def set_drop_subset)
  have ei: "events ! i \<in> set events" using assms by simp
  have sys: "set (case find is_system_message events of None \<Rightarrow> [] | Some s \<Rightarrow> [s]) \<subseteq> set events"
    using find_in_set [of is_system_message events] by (cases "find is_system_message events") auto
  have recall: "set (case index_where p later of None \<Rightarrow> [] | Some j \<Rightarrow>
      later ! j # (case find (q (later ! j)) (drop (Suc j) later) of None \<Rightarrow> [] | Some x \<Rightarrow> [x])) \<subseteq> set events"
    for p q
  proof (cases "index_where p later")
    case (Some j)
    have "set (drop (Suc j) later) \<subseteq> set events"
      using later set_drop_subset [of "Suc j" later] by blast
    with index_where_Some [OF Some] later show ?thesis
      using find_in_set [of "q (later ! j)" "drop (Suc j) later"]
      by (cases "find (q (later ! j)) (drop (Suc j) later)") (auto simp: Some)
  qed simp
  show "set (essential_events events i) \<subseteq> set events"
    unfolding essential_events_def Let_def later_def [symmetric] set_append list.set
    using sys ei recall [of "\<lambda>r x. is_observation x \<and> event_cause x = Some (event_id r)"
        "is_recall_of (message_content (events ! i))"] by blast
qed (simp_all add: essential_events_def Let_def)

lemma first_kept_bounds:
  assumes "1 \<le> n" and "n \<le> length events"
  shows "first_kept_index events n < length events \<Longrightarrow>
      \<not> is_observation (events ! first_kept_index events n)"
    and "int (length (drop (first_kept_index events n) events)) \<le>
      max 1 ((int (length events) - int n) div 2)"
proof -
  define s where "s = nat (max 0 (int (length events) - max 1 ((int (length events) - int n) div 2)))"
  define f where "f = (case index_where (\<lambda>e. \<not> is_observation e) (drop s events) of
    Some k \<Rightarrow> k | None \<Rightarrow> length (drop s events))"
  have k: "first_kept_index events n = s + f"
    by (simp only: first_kept_index_def s_def f_def Let_def)
  show "\<not> is_observation (events ! first_kept_index events n)" if "first_kept_index events n < length events"
  proof (cases "index_where (\<lambda>e. \<not> is_observation e) (drop s events)")
    case None
    with that k show ?thesis by (simp add: f_def)
  next
    case (Some j)
    with index_where_Some [OF this] k that show ?thesis by (simp add: f_def nth_drop)
  qed
  show "int (length (drop (first_kept_index events n) events)) \<le>
      max 1 ((int (length events) - int n) div 2)"
    by (simp add: k s_def)
qed

text \<open>The position the kept recent events begin at: in the last half of what is not essential, after
  the observations that open it.\<close>

definition recent_start :: "event list \<Rightarrow> int \<Rightarrow> nat \<Rightarrow> bool" where
  "recent_start es num_essential j \<longleftrightarrow>
     (let opening = int (length es) - max 1 ((int (length es) - num_essential) div 2)
      in opening \<le> int j \<and> j \<le> length es \<and>
         (\<forall>l < j. opening \<le> int l \<longrightarrow> is_observation (es ! l)) \<and>
         (j < length es \<longrightarrow> \<not> is_observation (es ! j)))"

lemma first_kept_start: "recent_start es (int n) (first_kept_index es n)"
proof -
  define b where "b = int (length es) - max 1 ((int (length es) - int n) div 2)"
  define s where "s = nat (max 0 b)"
  define f where "f = (case index_where (\<lambda>e. \<not> is_observation e) (drop s es) of
    Some k \<Rightarrow> k | None \<Rightarrow> length (drop s es))"
  have k: "first_kept_index es n = s + f"
    by (simp only: first_kept_index_def b_def s_def f_def Let_def)
  have s: "b \<le> int s" "s \<le> length es" "\<And>l. b \<le> int l \<Longrightarrow> s \<le> l"
    by (auto simp: s_def b_def)
  have f: "f \<le> length es - s \<and> (\<forall>l < f. is_observation (es ! (s + l))) \<and>
      (s + f < length es \<longrightarrow> \<not> is_observation (es ! (s + f)))"
  proof (cases "index_where (\<lambda>e. \<not> is_observation e) (drop s es)")
    case None
    have "is_observation (es ! (s + l))" if "l < length es - s" for l
      using None [unfolded index_where_None] that nth_mem [of l "drop s es"] by (auto simp: nth_drop)
    with None s(2) show ?thesis by (simp add: f_def)
  next
    case (Some j)
    from index_where_Some [OF this] show ?thesis by (auto simp: f_def Some nth_drop)
  qed
  have "is_observation (es ! l)" if "l < s + f" "b \<le> int l" for l
    using f s(3) [OF that(2)] that(1) by (metis add_less_cancel_left le_add_diff_inverse)
  with f s show ?thesis
    unfolding recent_start_def b_def [symmetric] Let_def k by auto
qed

lemma window_result:
  assumes "index_where is_user_message (view_events v) = Some i"
  shows "\<exists>a is. window_condensation v = Inr a \<and> forgotten a = Inr is \<and>
    set is = {event_id e | e. e \<in> set (view_events v) \<and>
      event_id e \<notin> event_id ` set (essential_events (view_events v) i @
        drop (first_kept_index (view_events v) (length (essential_events (view_events v) i))) (view_events v))}
    \<and> (\<exists>ids s e. a = CondensationAction ids s e None None)"
proof -
  let ?vs = "view_events v"
  let ?ess = "essential_events ?vs i"
  let ?keep = "map event_id ?ess @ map event_id (drop (first_kept_index ?vs (length ?ess)) ?vs)"
  define F where "F = sort (remdups (filter (\<lambda>k. k \<notin> set ?keep) (map event_id ?vs)))"
  have F: "set F = {event_id e | e. e \<in> set ?vs \<and> event_id e \<notin> set ?keep}" "sorted F" "distinct F"
    by (auto simp: F_def)
  have keep: "set ?keep = event_id ` set (?ess @ drop (first_kept_index ?vs (length ?ess)) ?vs)"
    by auto
  show ?thesis
  proof (cases "length F > 1 \<and> last F - hd F = int (length F) - 1")
    case True
    have "window_condensation v = Inr (CondensationAction None (Some (hd F)) (Some (last F)) None None)"
      using True by (simp add: window_condensation_def assms Let_def F_def
          new_condensation_def condensation_valid_def)
    moreover have "forgotten (CondensationAction None (Some (hd F)) (Some (last F)) None None) =
        Inr [hd F..last F]"
      by (simp add: condensation_valid_def)
    ultimately show ?thesis
      using sorted_gapless [OF F(2,3)] True F(1) keep by auto
  next
    case False
    have "window_condensation v = Inr (CondensationAction (Some F) None None None None)"
      unfolding window_condensation_def assms Let_def option.case length_map F_def [symmetric]
      using False by (simp add: new_condensation_def condensation_valid_def)
    moreover have "forgotten (CondensationAction (Some F) None None None None) = Inr F"
      by (simp add: condensation_valid_def)
    ultimately show ?thesis
      using F(1) keep by auto
  qed
qed

lemma window_step:
  assumes v: "from_events es = Inr v" and dist: "distinct (map event_id es)"
    and none: "last_summary es = None"
    and i: "index_where is_user_message (view_events v) = Some i"
  shows "\<exists>a. window_condensation v = Inr a \<and>
    (\<forall>c. payload c = Act a \<and> event_id c \<notin> event_id ` set es \<longrightarrow>
       (\<exists>w. from_events (es @ [c]) = Inr w \<and> \<not> unhandled_condensation_request w \<and>
          view_events w = filter (\<lambda>e. e \<in> set (essential_events (view_events v) i @
            drop (first_kept_index (view_events v) (length (essential_events (view_events v) i))) (view_events v)))
              (view_events v)))"
proof -
  let ?vs = "view_events v"
  define K where "K = set (essential_events ?vs i @
    drop (first_kept_index ?vs (length (essential_events ?vs i))) ?vs)"
  obtain a F ids s0 e0 where a: "window_condensation v = Inr a" "forgotten a = Inr F"
      "set F = {event_id e | e. e \<in> set ?vs \<and> event_id e \<notin> event_id ` K}"
      "a = CondensationAction ids s0 e0 None None"
    using window_result [OF i] unfolding K_def by blast
  have view: "?vs = filter (\<lambda>e. event_id e \<notin> set (forgotten_event_ids v)) es"
    using from_events_events(2) [OF v] none by (simp add: Let_def)
  have inj: "inj_on event_id (set ?vs)"
    using distinct_map_filter [OF dist] unfolding view by (metis distinct_map)
  have K: "K \<subseteq> set ?vs"
    unfolding K_def set_append
    using essential_subset(1) [of i ?vs] index_where_Some [OF i] by (simp add: set_drop_subset)
  have keep: "event_id e \<notin> set F \<longleftrightarrow> e \<in> K" if "e \<in> set ?vs" for e
    unfolding a(3) using inj_on_image_mem_iff [OF inj that K] that by auto
  have "\<exists>w. from_events (es @ [c]) = Inr w \<and> \<not> unhandled_condensation_request w \<and>
      view_events w = filter (\<lambda>e. e \<in> K) ?vs"
    if c: "payload c = Act a" "event_id c \<notin> event_id ` set es" for c
  proof -
    have s: "summary_of c = None" by (simp add: summary_of_def c(1) a(4))
    have "filter (\<lambda>e. event_id e \<notin> set (forgotten_event_ids v) \<and> event_id e \<notin> set F) es =
        filter (\<lambda>e. event_id e \<notin> set F) ?vs"
      unfolding view filter_filter by (simp only: conj_commute)
    also have "\<dots> = filter (\<lambda>e. e \<in> K) ?vs"
      by (rule filter_cong) (use keep in auto)
    finally show ?thesis
      using from_events_condense [OF v c(1) a(2) c(2)] by (simp add: s none Let_def)
  qed
  with a(1) show ?thesis unfolding K_def by blast
qed

section \<open>Masks and the recent window\<close>

lemma length_mask_observations [simp]: "length (view_events (mask_observations w v)) = length (view_events v)"
  by (simp add: mask_observations_def plain_view_def)

lemma mask_observations_nth:
  "i < length (view_events v) \<Longrightarrow> view_events (mask_observations w v) ! i =
     (if is_observation (view_events v ! i) \<and> int i < int (length (view_events v)) - w
      then summary_event ''<MASKED>'' else view_events v ! i)"
  by (simp add: mask_observations_def plain_view_def nth_enumerate_eq)

lemma length_mask_browser_rev [simp]: "length (mask_browser_rev w n es) = length es"
  by (induction es arbitrary: n) (auto split: option.splits)

lemma mask_browser_rev_count:
  "int (length (filter (\<lambda>e. browser_url e \<noteq> None) (mask_browser_rev w n es))) =
     min (int (length (filter (\<lambda>e. browser_url e \<noteq> None) es))) (max 0 (w - n))"
proof (induction es arbitrary: n)
  case Nil
  show ?case by simp
next
  case (Cons e es)
  have "browser_url (summary_event s) = None" for s
    by (simp add: browser_url_def)
  with Cons show ?case by (auto split: option.splits)
qed

lemma mask_browser_rev_nth:
  "i < length es \<Longrightarrow> mask_browser_rev w n es ! i =
     (case browser_url (es ! i) of
        None \<Rightarrow> es ! i
      | Some url \<Rightarrow>
          if n + int (length (filter (\<lambda>e. browser_url e \<noteq> None) (take i es))) < w then es ! i
          else summary_event (''Visited URL '' @ url @ newline @ ''Content omitted''))"
proof (induction es arbitrary: n i)
  case Nil
  then show ?case by simp
next
  case (Cons e es)
  show ?case
  proof (cases i)
    case 0
    then show ?thesis by (auto split: option.splits)
  next
    case (Suc j)
    with Cons.prems have j: "j < length es" by simp
    show ?thesis
      unfolding Suc using Cons.IH [OF j, of n] Cons.IH [OF j, of "n + 1"]
      by (cases "browser_url e"; cases "browser_url (es ! j)") (auto simp: algebra_simps)
  qed
qed

lemma recent_events_long:
  assumes "0 \<le> k" and "k < n" and "n \<le> int (length (view_events v))"
  shows "view_events (recent_events k n v) =
      take (nat k) (view_events v) @ drop (length (view_events v) - nat (n - k)) (view_events v)"
    and "int (length (view_events (recent_events k n v))) = n"
proof -
  have k: "int (nat k) = k" "int (nat (n - k)) = n - k" "0 < nat (n - k)" using assms by simp_all
  have head: "slice_to (view_events v) k = take (nat k) (view_events v)"
    using slice_to_nat [of "view_events v" "nat k"] k(1) by simp
  have len: "int (length (take (nat k) (view_events v))) = k"
    using assms by simp
  have tail: "slice_from (view_events v) (- (max 0 (n - k))) =
      drop (length (view_events v) - nat (n - k)) (view_events v)"
    using slice_from_neg [OF k(3), of "view_events v"] k assms by simp
  show v: "view_events (recent_events k n v) =
      take (nat k) (view_events v) @ drop (length (view_events v) - nat (n - k)) (view_events v)"
    unfolding recent_events_def Let_def head len tail by (simp add: plain_view_def)
  show "int (length (view_events (recent_events k n v))) = n"
    unfolding v using assms by simp
qed

lemma recent_events_short:
  assumes "0 \<le> k" and "k < n" and "int (length (view_events v)) \<le> n - k"
  shows "view_events (recent_events k n v) = take (nat k) (view_events v) @ view_events v"
proof -
  have k: "int (nat k) = k" using assms by simp
  have head: "slice_to (view_events v) k = take (nat k) (view_events v)"
    using slice_to_nat [of "view_events v" "nat k"] k by simp
  have "slice_from (view_events v) (- (max 0 (n - int (length (take (nat k) (view_events v)))))) = view_events v"
    using assms by (auto simp: slice_from_def slice_index_def)
  then show ?thesis
    unfolding recent_events_def Let_def head by (simp add: plain_view_def)
qed


text \<open>A mask builds a new view, so a request for condensation is lost behind it.\<close>

lemma masks_drop_request:
  "\<not> unhandled_condensation_request (mask_observations w v)"
  "\<not> unhandled_condensation_request (mask_browser w v)"
  "\<not> unhandled_condensation_request (recent_events k n v)"
  by (simp_all add: mask_observations_def mask_browser_def recent_events_def plain_view_def Let_def)

lemma mask_then_window:
  "condense_all llm [ObservationMaskingCondenser w, ConversationWindowCondenser] v =
     Inr (Kept (mask_observations w v))"
  by (simp add: rolling_def masks_drop_request)

section \<open>The contract of a condenser\<close>

text \<open>
  Whatever a condenser returns as a view is made of events of the view it was given and of
  placeholder or summary events, and whatever it returns as a condensation can be applied.
\<close>

locale condenser_contract =
  fixes run :: "view \<Rightarrow> condense_result result"
  assumes kept_origin: "run v = Inr (Kept w) \<Longrightarrow> e \<in> set (view_events w) \<Longrightarrow>
      e \<in> set (view_events v) \<or> (\<exists>s. e = summary_event s)"
    and condensed_applies: "run v = Inr (Condensed a) \<Longrightarrow> \<exists>is. forgotten a = Inr is"
begin

lemma history_stays_readable:
  assumes "from_events es = Inr v" and "run v = Inr (Condensed a)" and "payload c = Act a"
  shows "\<exists>w. from_events (es @ [c]) = Inr w \<and> \<not> unhandled_condensation_request w"
proof -
  obtain fs where f: "forgotten a = Inr fs"
    using condensed_applies [OF assms(2)] by blast
  then obtain x1 x2 x3 x4 x5 where a: "a = CondensationAction x1 x2 x3 x4 x5"
    by (cases a) auto
  have "forgotten_ids (es @ [c]) = Inr (forgotten_event_ids v @ fs @ [event_id c])"
    using f from_events_events(1) [OF assms(1)]
    by (simp add: forgotten_ids_append assms(3) a del: forgotten.simps)
  moreover have "is_condensation c" by (simp add: is_condensation_def assms(3) a)
  ultimately show ?thesis by (simp add: from_events_def Let_def)
qed

lemma kept_events_from_history:
  assumes "from_events es = Inr v" and "run v = Inr (Kept w)" and "e \<in> set (view_events w)"
  shows "e \<in> set es \<or> (\<exists>s. e = summary_event s)"
  using kept_origin [OF assms(2,3)] view_event_origin [OF assms(1)] by blast

end

text \<open>A rolling condenser keeps the view as it is, or condenses.\<close>

locale rolling_contract =
  fixes should_condense :: "view \<Rightarrow> bool" and get_condensation :: "view \<Rightarrow> action result"
  assumes condensation_applies: "get_condensation v = Inr a \<Longrightarrow> \<exists>is. forgotten a = Inr is"
begin

lemma rolling_keeps: "\<not> should_condense v \<Longrightarrow> rolling should_condense get_condensation v = Inr (Kept v)"
  by (simp add: rolling_def)

lemma rolling_kept_same:
  "rolling should_condense get_condensation v = Inr (Kept w) \<Longrightarrow> w = v \<and> \<not> should_condense v"
  by (cases "get_condensation v") (auto simp: rolling_def split: if_splits)

lemma rolling_condensed:
  "rolling should_condense get_condensation v = Inr (Condensed a) \<longleftrightarrow>
     should_condense v \<and> get_condensation v = Inr a"
  by (cases "get_condensation v") (auto simp: rolling_def)

end

sublocale rolling_contract \<subseteq> rolled: condenser_contract "rolling should_condense get_condensation"
proof
  show "e \<in> set (view_events v) \<or> (\<exists>s. e = summary_event s)"
    if "rolling should_condense get_condensation v = Inr (Kept w)" "e \<in> set (view_events w)" for v w e
    using rolling_kept_same [OF that(1)] that(2) by simp
  show "\<exists>is. forgotten a = Inr is"
    if "rolling should_condense get_condensation v = Inr (Condensed a)" for v a
    by (rule condensation_applies [of v]) (use that in \<open>simp add: rolling_condensed\<close>)
qed

lemma amortized_applies: "amortized_condensation m k v = Inr a \<Longrightarrow> \<exists>is. forgotten a = Inr is"
  by (auto simp: amortized_condensation_def Let_def bindE_Inr_iff dest: forgotten_new)

lemma attention_applies: "attention_condensation llm m k v = Inr a \<Longrightarrow> \<exists>is. forgotten a = Inr is"
  by (auto simp: attention_condensation_def Let_def bindE_Inr_iff dest: forgotten_new)

lemma summarizing_applies: "summarizing_condensation llm m k v = Inr a \<Longrightarrow> \<exists>is. forgotten a = Inr is"
  by (auto simp: summarizing_condensation_def summarizing_result_def bindE_Inr_iff dest: forgotten_new)

lemma structured_applies: "structured_condensation llm m k v = Inr a \<Longrightarrow> \<exists>is. forgotten a = Inr is"
  unfolding structured_as_summarizing by (rule summarizing_applies)

lemma window_applies: "window_condensation v = Inr a \<Longrightarrow> \<exists>is. forgotten a = Inr is"
  by (auto simp: window_condensation_def Let_def split: option.splits if_splits dest: forgotten_new)

interpretation amortized: rolling_contract "size_exceeded m" "amortized_condensation m k" for m k
  by unfold_locales (rule amortized_applies)

interpretation attention: rolling_contract "size_exceeded m" "attention_condensation llm m k" for llm m k
  by unfold_locales (rule attention_applies)

interpretation summarizing: rolling_contract "size_exceeded m" "summarizing_condensation llm m k" for llm m k
  by unfold_locales (rule summarizing_applies)

interpretation structured: rolling_contract "size_exceeded m" "structured_condensation llm m k" for llm m k
  by unfold_locales (rule structured_applies)

interpretation window: rolling_contract unhandled_condensation_request window_condensation
  by unfold_locales (rule window_applies)

lemma mask_observations_origin:
  "e \<in> set (view_events (mask_observations w v)) \<Longrightarrow>
     e \<in> set (view_events v) \<or> (\<exists>s. e = summary_event s)"
  by (auto simp: mask_observations_def plain_view_def in_set_enumerate_eq split: if_splits)

lemma mask_browser_rev_origin:
  "e \<in> set (mask_browser_rev w n es) \<Longrightarrow> e \<in> set es \<or> (\<exists>s. e = summary_event s)"
  by (induction es arbitrary: n) (auto split: option.splits if_splits)

lemma mask_browser_origin:
  "e \<in> set (view_events (mask_browser w v)) \<Longrightarrow>
     e \<in> set (view_events v) \<or> (\<exists>s. e = summary_event s)"
  using mask_browser_rev_origin [of e w 0 "rev (view_events v)"] by (simp add: mask_browser_def plain_view_def)

lemma recent_events_origin: "e \<in> set (view_events (recent_events k n v)) \<Longrightarrow> e \<in> set (view_events v)"
  by (auto simp: recent_events_def plain_view_def Let_def slice_to_def slice_from_def
      dest: in_set_takeD in_set_dropD)

text \<open>Every condenser, pipelines of pipelines included, keeps the contract.\<close>

lemma condense_contract:
  "\<And>r. condense llm c v = Inr r \<Longrightarrow>
     (\<forall>w e. r = Kept w \<and> e \<in> set (view_events w) \<longrightarrow>
        e \<in> set (view_events v) \<or> (\<exists>s. e = summary_event s)) \<and>
     (\<forall>a. r = Condensed a \<longrightarrow> (\<exists>is. forgotten a = Inr is))"
  "\<And>r. condense_all llm cs v = Inr r \<Longrightarrow>
     (\<forall>w e. r = Kept w \<and> e \<in> set (view_events w) \<longrightarrow>
        e \<in> set (view_events v) \<or> (\<exists>s. e = summary_event s)) \<and>
     (\<forall>a. r = Condensed a \<longrightarrow> (\<exists>is. forgotten a = Inr is))"
proof (induction llm c v and llm cs v rule: condense_condense_all.induct)
  case (1 llm v)
  then show ?case by auto
next
  case (2 llm w v)
  then show ?case using mask_observations_origin by auto
next
  case (3 llm w v)
  then show ?case using mask_browser_origin by auto
next
  case (4 llm k n v)
  then show ?case using recent_events_origin by auto
next
  case (5 llm m k v)
  then show ?case
    using amortized.rolled.kept_origin amortized.rolled.condensed_applies by simp blast
next
  case (6 llm m k v)
  then show ?case
    using attention.rolled.kept_origin attention.rolled.condensed_applies by simp blast
next
  case (7 llm m k v)
  then show ?case
    using summarizing.rolled.kept_origin summarizing.rolled.condensed_applies by simp blast
next
  case (8 llm m k v)
  then show ?case
    using structured.rolled.kept_origin structured.rolled.condensed_applies by simp blast
next
  case (9 llm v)
  then show ?case
    using window.rolled.kept_origin window.rolled.condensed_applies by simp blast
next
  case (10 llm cs v)
  from 10(2) have "condense_all llm cs v = Inr r" by simp
  then show ?case by (rule 10(1))
next
  case (11 llm v)
  then show ?case by auto
next
  case (12 llm c cs v)
  show ?case
  proof (cases "condense llm c v")
    case (Inl x)
    with 12(3) show ?thesis by simp
  next
    case (Inr q)
    show ?thesis
    proof (cases q)
      case (Kept w)
      with Inr 12(3) have tail: "condense_all llm cs w = Inr r" by simp
      from 12(2) [OF tail] have w: "(\<forall>x e. r = Kept x \<and> e \<in> set (view_events x) \<longrightarrow>
          e \<in> set (view_events w) \<or> (\<exists>s. e = summary_event s)) \<and>
        (\<forall>a. r = Condensed a \<longrightarrow> (\<exists>is. forgotten a = Inr is))" by blast
      have "\<forall>e. e \<in> set (view_events w) \<longrightarrow> e \<in> set (view_events v) \<or> (\<exists>s. e = summary_event s)"
        using 12(1) [OF Inr] Kept by blast
      with w show ?thesis by blast
    next
      case (Condensed a)
      with 12(3) Inr have "r = Condensed a" by simp
      with 12(1) [OF Inr] Condensed show ?thesis by auto
    qed
  qed
qed

interpretation any: condenser_contract "condense llm c" for llm c
  by unfold_locales (use condense_contract(1) in blast)+

end
