(* ===== verification/Memory_Properties.thy ===== *)
theory Memory_Properties
  imports Condensers
begin

text \<open>
  The properties of the history view and the condensers, with the histories their witnesses run on.
\<close>

text \<open>A message of the agent with a given id; a history of such messages.\<close>

definition remark :: "int \<Rightarrow> event" where
  "remark i = (fresh_event (Act (MessageAction (str_of_int i) None None False RISK_UNKNOWN)))
     \<lparr>raw_id := Some i, raw_source := Some AGENT\<rparr>"

definition remarks :: "nat \<Rightarrow> event list" where
  "remarks n = map (\<lambda>i. remark (int i)) [0..<n]"

definition plain_llm :: llm_oracle where
  "plain_llm = \<lparr>ask_ranking = (\<lambda>es. Inr (map event_id (rev es))),
     ask_summary = (\<lambda>s es. Inr (Some ''short'')), ask_structured = (\<lambda>s es. Inr None),
     supports_response_schema = True, is_function_calling_active = True,
     response_dump = JNull, metrics_dump = JNull\<rparr>"

lemma remark_id [simp]: "event_id (remark i) = i"
  by (simp add: remark_def event_id_def)

lemma remark_class [simp]:
  "\<not> is_condensation (remark i)" "\<not> is_condensation_request (remark i)"
  "\<not> is_condensation_observation (remark i)"
  by (simp_all add: remark_def fresh_event_def is_condensation_def is_condensation_request_def
      is_condensation_observation_def)

lemma remarks_ids [simp]: "map event_id (remarks n) = map int [0..<n]"
  by (simp add: remarks_def)

lemma remarks_history [simp]:
  "from_events (remarks n) = Inr (plain_view (remarks n))" "ascending (remarks n)"
  "length (remarks n) = n" "last_summary (remarks n) = None"
proof -
  have "\<forall>e \<in> set (remarks n). \<not> is_condensation e \<and> \<not> is_condensation_request e"
    by (auto simp: remarks_def)
  then show "from_events (remarks n) = Inr (plain_view (remarks n))" and "last_summary (remarks n) = None"
    using last_summary_Some [of "remarks n"] by (cases "last_summary (remarks n)"; auto intro: from_events_plain)+
  show "ascending (remarks n)"
    by (simp add: ascending_def sorted_wrt_map)
qed (simp add: remarks_def)

lemma remarks_summary_history [simp]: "summary_history k (remarks n)"
  by (auto simp: summary_history_def) (auto simp: remarks_def)

section \<open>Properties\<close>

text \<open>
  Amortized forgetting makes progress: on a view of more than \<open>max_size // 2\<close> events (ids
  ascending, no summary in play, sizes as the constructor accepts them) it returns a range, and
  once that condensation is appended to the history the next view is exactly the first
  \<open>keep_first\<close> events and the last \<open>max_size // 2 - keep_first\<close>, so it has \<open>max_size // 2\<close>
  events and the condenser does not condense again.
\<close>

theorem amortized_makes_room:
  assumes "from_events es = Inr v" and "ascending es" and "last_summary es = None"
    and "0 \<le> keep_first" and "keep_first < max_size div 2"
    and "max_size div 2 < int (length (view_events v))"
  shows "\<exists>lo hi. amortized_condensation max_size keep_first v =
      Inr (CondensationAction None (Some lo) (Some hi) None None) \<and>
    (\<forall>c. payload c = Act (CondensationAction None (Some lo) (Some hi) None None) \<and>
         event_id c \<notin> event_id ` set es \<longrightarrow>
       (\<exists>w. from_events (es @ [c]) = Inr w \<and>
          view_events w = slice_to (view_events v) keep_first @
            slice_from (view_events v) (- (max_size div 2 - keep_first)) \<and>
          int (length (view_events w)) = max_size div 2 \<and> \<not> size_exceeded max_size w))"
  by (rule amortized_step [OF assms])

theorem amortized_makes_room_witness:
  "\<exists>lo hi. amortized_condensation 4 1 (plain_view (remarks 7)) =
      Inr (CondensationAction None (Some lo) (Some hi) None None)"
  using amortized_makes_room [of "remarks 7" "plain_view (remarks 7)" 1 4] by (auto simp: plain_view_def)

text \<open>
  Summarising makes progress and loses nothing silently: on a view of more than
  \<open>max_size // 2\<close> events it asks the model about the old summary and the events \<open>m\<close>, and once its
  condensation is appended to the history the next view is the first \<open>keep_first\<close> events, the new
  summary and the last events, \<open>max_size // 2\<close> in all; every event that left the view was among
  \<open>m\<close> or was the old summary, so the model was shown it.
\<close>

theorem summarizing_makes_room:
  assumes "from_events es = Inr v" and "summary_history keep_first es"
    and "0 \<le> keep_first" and "keep_first + 1 < max_size div 2"
    and "max_size div 2 < int (length (view_events v))"
    and "\<And>old m. ask_summary llm old m = Inr (Some (reply old m))"
  shows "\<exists>old m lo hi. summarizing_input max_size keep_first v = Inr (old, m) \<and>
    summarizing_condensation llm max_size keep_first v =
      Inr (CondensationAction None (Some lo) (Some hi) (Some (reply old m)) (Some keep_first)) \<and>
    (\<forall>c. payload c = Act (CondensationAction None (Some lo) (Some hi) (Some (reply old m)) (Some keep_first)) \<and>
         event_id c \<notin> event_id ` set es \<longrightarrow>
       (\<exists>w. from_events (es @ [c]) = Inr w \<and>
          view_events w = slice_to (view_events v) keep_first @ summary_event (reply old m) #
            slice_from (view_events v) (- (max_size div 2 - keep_first - 1)) \<and>
          set (view_events v) \<subseteq> set (view_events w) \<union> set m \<union> {old} \<and>
          int (length (view_events w)) = max_size div 2 \<and> \<not> size_exceeded max_size w))"
  by (rule summarizing_step [OF assms])

theorem summarizing_makes_room_witness:
  "\<exists>lo hi. summarizing_condensation plain_llm 8 1 (plain_view (remarks 7)) =
      Inr (CondensationAction None (Some lo) (Some hi) (Some ''short'') (Some 1))"
  using summarizing_makes_room [of "remarks 7" "plain_view (remarks 7)" 1 8 plain_llm "\<lambda>old m. ''short''"]
  by (auto simp: plain_view_def plain_llm_def)

text \<open>
  Whatever the model ranks, selecting by attention makes room: for every ranking the condenser
  returns ids of events of the view, and once its condensation is appended the next view still
  shows the first \<open>keep_first\<close> events and has at most \<open>max_size // 2\<close>, so it does not condense again.
\<close>

theorem attention_makes_room:
  assumes "from_events es = Inr v" and "distinct (map event_id es)" and "last_summary es = None"
    and "0 \<le> keep_first" and "keep_first < max_size div 2"
    and "ask_ranking llm (view_events v) = Inr ranked"
  shows "\<exists>is. attention_condensation llm max_size keep_first v =
      Inr (CondensationAction (Some is) None None None None) \<and>
    set is \<subseteq> event_id ` set (view_events v) \<and>
    (\<forall>c. payload c = Act (CondensationAction (Some is) None None None None) \<and>
         event_id c \<notin> event_id ` set es \<longrightarrow>
       (\<exists>w. from_events (es @ [c]) = Inr w \<and>
          set (slice_to (view_events v) keep_first) \<subseteq> set (view_events w) \<and>
          int (length (view_events w)) \<le> max_size div 2 \<and> \<not> size_exceeded max_size w))"
  by (rule attention_step [OF assms])

theorem attention_makes_room_witness:
  "\<exists>is. attention_condensation plain_llm 6 1 (plain_view (remarks 8)) =
      Inr (CondensationAction (Some is) None None None None) \<and> set is \<subseteq> int ` {..<8}"
proof -
  have d: "distinct (map event_id (remarks 8))" by (simp add: distinct_map inj_on_def)
  have i: "event_id ` set (view_events (plain_view (remarks 8))) \<subseteq> int ` {..<8}"
    by (auto simp: plain_view_def remarks_def)
  show ?thesis
    using attention_makes_room [OF _ d, of "plain_view (remarks 8)" 1 6 plain_llm] i
    by (fastforce simp: plain_llm_def)
qed









text \<open>
  The browser mask keeps exactly the last \<open>window\<close> page outputs: as many outputs as fit stay,
  the \<open>i\<close>-th event from the end stays as it is unless it is an output with at least \<open>window\<close> later
  outputs, and such an output becomes a note of its address in the same place.
\<close>

theorem browser_mask_keeps_last:
  assumes "0 \<le> window" and "i < length (view_events v)"
  shows "length (view_events (mask_browser window v)) = length (view_events v) \<and>
    int (length (filter (\<lambda>e. browser_url e \<noteq> None) (view_events (mask_browser window v)))) =
      min (int (length (filter (\<lambda>e. browser_url e \<noteq> None) (view_events v)))) window \<and>
    rev (view_events (mask_browser window v)) ! i =
      (case browser_url (rev (view_events v) ! i) of
         None \<Rightarrow> rev (view_events v) ! i
       | Some url \<Rightarrow>
           if int (length (filter (\<lambda>e. browser_url e \<noteq> None) (take i (rev (view_events v))))) < window
           then rev (view_events v) ! i
           else summary_event (''Visited URL '' @ url @ newline @ ''Content omitted''))"
proof -
  have rev: "filter p (rev xs) = rev (filter p xs)" for p :: "event \<Rightarrow> bool" and xs
    by (simp add: rev_filter)
  show ?thesis
    using assms mask_browser_rev_count [of window 0 "rev (view_events v)"]
      mask_browser_rev_nth [of i "rev (view_events v)" window 0, unfolded add_0]
    by (simp add: mask_browser_def plain_view_def rev)
qed

theorem browser_mask_keeps_last_witness:
  "length (view_events (mask_browser 2 (plain_view (remarks 3)))) = 3"
  using browser_mask_keeps_last [of 2 0 "plain_view (remarks 3)"] by (simp add: plain_view_def)

end
