(* ===== verification/Control_Flags.thy ===== *)
theory Control_Flags
  imports Prelude
begin

text \<open>
  The limits of a conversation (\<open>openhands/controller/state/control_flags.py\<close>): the
  iteration flag counts the agent's steps, the budget flag watches the accumulated cost. Both
  classes have the fields of the abstract \<open>ControlFlag\<close>; here the record is generic in the
  number type, with the iteration flag at \<^typ>\<open>int\<close> and the budget flag at \<^typ>\<open>rat\<close>.
\<close>

record 'n control_flag =
  limit_increase_amount :: 'n
  current_value :: 'n
  max_value :: 'n
  flag_headless_mode :: bool
  hit_limit :: bool

type_synonym iteration_flag = "int control_flag"
type_synonym budget_flag = "rat control_flag"

definition iteration_reached_limit :: "(iteration_flag, bool) op" where
  "iteration_reached_limit f =
     (let b = current_value f \<ge> max_value f in (Inr b, f\<lparr>hit_limit := b\<rparr>))"

definition iteration_increase_limit :: "bool \<Rightarrow> iteration_flag \<Rightarrow> iteration_flag" where
  "iteration_increase_limit headless f =
     (if \<not> headless \<and> hit_limit f
      then f\<lparr>max_value := max_value f + limit_increase_amount f, hit_limit := False\<rparr> else f)"

definition iteration_limit_text :: "iteration_flag \<Rightarrow> string" where
  "iteration_limit_text f =
     ''Agent reached maximum iteration. '' @ ''Current iteration: '' @ str_of_int (current_value f) @
     '', max iteration: '' @ str_of_int (max_value f)"

definition iteration_step :: "(iteration_flag, unit) op" where
  "iteration_step =
     bindS iteration_reached_limit (\<lambda>hit f.
       if hit then raiseS (RuntimeError (iteration_limit_text f)) f
       else (Inr (), f\<lparr>current_value := current_value f + 1\<rparr>))"

definition budget_reached_limit :: "(budget_flag, bool) op" where
  "budget_reached_limit f =
     (let b = current_value f \<ge> max_value f in (Inr b, f\<lparr>hit_limit := b\<rparr>))"

definition budget_increase_limit :: "bool \<Rightarrow> budget_flag \<Rightarrow> budget_flag" where
  "budget_increase_limit headless f =
     (if hit_limit f
      then f\<lparr>max_value := current_value f + limit_increase_amount f, hit_limit := False\<rparr> else f)"

definition budget_limit_text :: "budget_flag \<Rightarrow> string" where
  "budget_limit_text f =
     ''Agent reached maximum budget for conversation.'' @ ''Current budget: '' @
     fixed2 (current_value f) @ '', max budget: '' @ fixed2 (max_value f)"

definition budget_step :: "(budget_flag, unit) op" where
  "budget_step =
     bindS budget_reached_limit (\<lambda>hit f.
       if hit then raiseS (RuntimeError (budget_limit_text f)) f else (Inr (), f))"

section \<open>The contract of a control flag\<close>

text \<open>
  What the state tracker relies on: a step raises exactly when the limit is reached and then
  leaves the values alone; raising the limit is possible only after the limit was hit, never
  lowers it, and (in the modes where it applies) makes the next step possible.
\<close>

locale control_flag_contract =
  fixes step :: "('n::linordered_idom control_flag, unit) op"
    and increase :: "bool \<Rightarrow> 'n control_flag \<Rightarrow> 'n control_flag"
    and tick :: 'n
  assumes tick_nonneg: "0 \<le> tick"
    and step_raises: "max_value f \<le> current_value f \<Longrightarrow>
      \<exists>m. step f = (Inl (RuntimeError m), f\<lparr>hit_limit := True\<rparr>)"
    and step_counts: "current_value f < max_value f \<Longrightarrow>
      step f = (Inr (), f\<lparr>hit_limit := False, current_value := current_value f + tick\<rparr>)"
    and increase_idle: "\<not> hit_limit f \<Longrightarrow> increase h f = f"
    and increase_current: "current_value (increase h f) = current_value f"
    and increase_amount: "limit_increase_amount (increase h f) = limit_increase_amount f"
begin

lemma step_ok_iff: "fst (step f) = Inr () \<longleftrightarrow> current_value f < max_value f"
proof (cases "current_value f < max_value f")
  case True
  then show ?thesis by (simp add: step_counts)
next
  case False
  then obtain m where "step f = (Inl (RuntimeError m), f\<lparr>hit_limit := True\<rparr>)"
    using step_raises [of f] by auto
  with False show ?thesis by simp
qed

lemma step_result:
  "(step f = (Inr (), f\<lparr>hit_limit := False, current_value := current_value f + tick\<rparr>)
     \<and> current_value f < max_value f) \<or>
   ((\<exists>m. step f = (Inl (RuntimeError m), f\<lparr>hit_limit := True\<rparr>)) \<and> max_value f \<le> current_value f)"
  using step_raises [of f] step_counts [of f] by (cases "current_value f < max_value f") auto

lemma step_max_value: "max_value (snd (step f)) = max_value f"
  using step_result [of f] by auto

lemma step_current_mono: "current_value f \<le> current_value (snd (step f))"
  using step_result [of f] tick_nonneg by auto

lemma step_current_le: "current_value (snd (step f)) \<le> current_value f + tick"
  using step_result [of f] tick_nonneg by auto

lemma step_hit_limit: "hit_limit (snd (step f)) \<longleftrightarrow> max_value f \<le> current_value f"
  using step_result [of f] by auto

end

interpretation iter: control_flag_contract iteration_step iteration_increase_limit 1
  by unfold_locales
    (auto simp: iteration_step_def iteration_reached_limit_def bindS_def Let_def
      iteration_increase_limit_def)

interpretation budg: control_flag_contract budget_step budget_increase_limit 0
  by unfold_locales
    (auto simp: budget_step_def budget_reached_limit_def bindS_def Let_def
      budget_increase_limit_def)

section \<open>Running up to the limit\<close>

text \<open>\<open>n\<close> steps in a row, stopping at the first that raises.\<close>

fun iteration_steps :: "nat \<Rightarrow> (iteration_flag, unit) op" where
  "iteration_steps 0 = retS ()"
| "iteration_steps (Suc n) = bindS iteration_step (\<lambda>_. iteration_steps n)"

lemma iteration_steps_ok:
  "fst (iteration_steps n f) = Inr () \<longleftrightarrow> n = 0 \<or> current_value f + int n \<le> max_value f"
proof (induction n arbitrary: f)
  case 0
  then show ?case by simp
next
  case (Suc n)
  show ?case
  proof (cases "current_value f < max_value f")
    case True
    with Suc show ?thesis by (auto simp: bindS_def iter.step_counts)
  next
    case False
    then obtain m where "iteration_step f = (Inl (RuntimeError m), f\<lparr>hit_limit := True\<rparr>)"
      using iter.step_raises [of f] by auto
    with False show ?thesis by (simp add: bindS_def)
  qed
qed

text \<open>After the limit was hit, an interactive extension makes room for exactly
  \<open>limit_increase_amount\<close> further steps when the count stands at the limit.\<close>

lemma iteration_extension:
  assumes "fst (iteration_step f) \<noteq> Inr ()" and "current_value f = max_value f"
    and "0 < limit_increase_amount f"
  shows "fst (iteration_steps n (iteration_increase_limit False (snd (iteration_step f)))) = Inr ()
    \<longleftrightarrow> int n \<le> limit_increase_amount f"
proof -
  from assms(2) obtain m where "iteration_step f = (Inl (RuntimeError m), f\<lparr>hit_limit := True\<rparr>)"
    using iter.step_raises [of f] by auto
  then show ?thesis
    using assms by (auto simp: iteration_steps_ok iteration_increase_limit_def)
qed

lemma budget_extension:
  assumes "max_value f \<le> current_value f" and "0 < limit_increase_amount f"
  shows "fst (budget_step (budget_increase_limit h (snd (budget_step f)))) = Inr ()"
proof -
  from assms(1) obtain m where "budget_step f = (Inl (RuntimeError m), f\<lparr>hit_limit := True\<rparr>)"
    using budg.step_raises [of f] by auto
  with assms(2) show ?thesis by (simp add: budg.step_ok_iff budget_increase_limit_def)
qed

end
