(* ===== verification/Storage.thy ===== *)
theory Storage
  imports Prelude
begin

text \<open>
  File stores (\<open>openhands/storage\<close>): the paths of a conversation's files (\<open>locations.py\<close>), the
  in-memory store (\<open>memory.py\<close>) and the store that batches its updates for a webhook
  (\<open>batched_web_hook.py\<close>). The interface \<open>FileStore\<close> is the locale \<open>file_store\<close>.

  Contents are text: the branches of the sources that accept \<open>bytes\<close> are not modelled. The
  in-memory store is generic in what a file holds, so that a component whose files are the
  pickle or the JSON text of a value can use the value itself.
\<close>

section \<open>Locations\<close>

definition get_conversation_dir :: "string \<Rightarrow> string option \<Rightarrow> string" where
  "get_conversation_dir sid user_id =
     (case user_id of
        Some (c # cs) \<Rightarrow> ''users/'' @ (c # cs) @ ''/conversations/'' @ sid @ ''/''
      | _ \<Rightarrow> ''sessions'' @ ''/'' @ sid @ ''/'')"

definition get_conversation_events_dir :: "string \<Rightarrow> string option \<Rightarrow> string" where
  "get_conversation_events_dir sid user_id = get_conversation_dir sid user_id @ ''events/''"

definition get_conversation_event_filename :: "string \<Rightarrow> int \<Rightarrow> string option \<Rightarrow> string" where
  "get_conversation_event_filename sid i user_id =
     get_conversation_events_dir sid user_id @ str_of_int i @ ''.json''"

definition get_conversation_agent_state_filename :: "string \<Rightarrow> string option \<Rightarrow> string" where
  "get_conversation_agent_state_filename sid user_id =
     get_conversation_dir sid user_id @ ''agent_state.pkl''"

definition get_conversation_stats_filename :: "string \<Rightarrow> string option \<Rightarrow> string" where
  "get_conversation_stats_filename sid user_id =
     get_conversation_dir sid user_id @ ''conversation_stats.pkl''"

section \<open>The interface\<close>

text \<open>
  What the components that persist something use: a write is seen by the next read of the same
  path and by no other, a deleted path is gone, and deleting leaves alone every path that does
  not start with the deleted one.
\<close>

locale file_store =
  fixes fs_write :: "string \<Rightarrow> 'c \<Rightarrow> 's \<Rightarrow> 's"
    and fs_read :: "string \<Rightarrow> 's \<Rightarrow> 'c result"
    and fs_delete :: "string \<Rightarrow> 's \<Rightarrow> 's"
  assumes read_write: "fs_read q (fs_write p c s) = (if q = p then Inr c else fs_read q s)"
    and read_delete_same: "fs_read p (fs_delete p s) = Inl (FileNotFoundError p)"
    and read_delete_other: "\<not> prefix p q \<Longrightarrow> fs_read q (fs_delete p s) = fs_read q s"
    and read_fails: "fs_read p s = Inl e \<Longrightarrow> e = FileNotFoundError p"
begin

lemma read_write_same: "fs_read p (fs_write p c s) = Inr c"
  by (simp add: read_write)

lemma write_commute:
  "p \<noteq> q \<Longrightarrow> fs_read r (fs_write p c (fs_write q d s)) = fs_read r (fs_write q d (fs_write p c s))"
  by (simp add: read_write)

lemma write_twice: "fs_read r (fs_write p c (fs_write p d s)) = fs_read r (fs_write p c s)"
  by (simp add: read_write)

fun write_all :: "(string \<times> 'c) list \<Rightarrow> 's \<Rightarrow> 's" where
  "write_all [] s = s"
| "write_all ((p, c) # pcs) s = write_all pcs (fs_write p c s)"

lemma read_write_all:
  "fs_read q (write_all pcs s) = (case map_of (rev pcs) q of None \<Rightarrow> fs_read q s | Some c \<Rightarrow> Inr c)"
  by (induction pcs s rule: write_all.induct)
    (auto simp: read_write map_add_def split: option.splits)

end

section \<open>The in-memory store\<close>

type_synonym 'c mem_store = "(string, 'c) dict"

definition mem_write :: "string \<Rightarrow> 'c \<Rightarrow> 'c mem_store \<Rightarrow> 'c mem_store" where
  "mem_write path contents files = AList.update path contents files"

definition mem_read :: "string \<Rightarrow> 'c mem_store \<Rightarrow> 'c result" where
  "mem_read path files =
     (case map_of files path of None \<Rightarrow> Inl (FileNotFoundError path) | Some c \<Rightarrow> Inr c)"

text \<open>\<open>os.path.join(path, name)\<close> for a relative \<open>name\<close>.\<close>

definition path_join :: "string \<Rightarrow> string \<Rightarrow> string" where
  "path_join path name =
     (if path = [] \<or> last path = CHR ''/'' then path @ name else path @ ''/'' @ name)"

definition list_entry :: "string \<Rightarrow> string \<Rightarrow> string list \<Rightarrow> string list result" where
  "list_entry path file found =
     (if \<not> prefix path file then Inr found
      else let parts0 = split_on CHR ''/'' (drop (length path) file);
               parts = (if hd parts0 = [] then tl parts0 else parts0)
           in if length parts = 1 then Inr (found @ [file])
              else if parts = [] then Inl IndexError
              else let d0 = path_join path (hd parts);
                       d = (if suffix ''/'' d0 then d0 else d0 @ ''/'')
                   in Inr (if d \<in> set found then found else found @ [d]))"

fun list_entries :: "string \<Rightarrow> string list \<Rightarrow> string list \<Rightarrow> string list result" where
  "list_entries path [] found = Inr found"
| "list_entries path (file # files) found =
     bindE (list_entry path file found) (list_entries path files)"

definition mem_list :: "string \<Rightarrow> 'c mem_store \<Rightarrow> string list result" where
  "mem_list path files = list_entries path (map fst files) []"

definition mem_delete :: "string \<Rightarrow> 'c mem_store \<Rightarrow> 'c mem_store" where
  "mem_delete path files = filter (\<lambda>(k, v). \<not> prefix path k) files"

lemma map_of_mem_delete:
  "map_of (mem_delete p files) q = (if prefix p q then None else map_of files q)"
  by (induction files) (auto simp: mem_delete_def)

interpretation mem: file_store mem_write mem_read mem_delete
  by unfold_locales
    (auto simp: mem_write_def mem_read_def map_of_mem_delete update_conv' split: option.splits)

text \<open>The files directly below a directory (a path that ends in a slash) are listed in order.\<close>

definition direct_child :: "string \<Rightarrow> string \<Rightarrow> bool" where
  "direct_child path file \<longleftrightarrow>
     (\<exists>name. file = path @ name \<and> name \<noteq> [] \<and> CHR ''/'' \<notin> set name)"

lemma split_on_absent: "c \<notin> set xs \<Longrightarrow> split_on c xs = [xs]"
  by (induction xs) auto

lemma list_entry_child:
  "direct_child path file \<Longrightarrow> list_entry path file found = Inr (found @ [file])"
  by (auto simp: direct_child_def list_entry_def split_on_absent)

lemma list_entries_children:
  "\<forall>f \<in> set files. direct_child path f \<or> \<not> prefix path f \<Longrightarrow>
     list_entries path files found = Inr (found @ filter (direct_child path) files)"
proof (induction files arbitrary: found)
  case Nil
  then show ?case by simp
next
  case (Cons f fs)
  show ?case
  proof (cases "direct_child path f")
    case True
    with Cons show ?thesis by (simp add: list_entry_child)
  next
    case False
    with Cons show ?thesis by (simp add: list_entry_def)
  qed
qed

section \<open>The batching webhook store\<close>

datatype hook_operation = OpWrite | OpDelete

type_synonym batch = "(string, hook_operation \<times> string option) dict"

text \<open>
  \<open>sent\<close> is what was handed to \<open>_send_batch\<close>, in order: by the executor, or synchronously by
  \<open>flush\<close>. \<open>timer_armed\<close> says that a \<open>threading.Timer\<close> is pending.
\<close>

record 's hook_store =
  inner_store :: 's
  pending_batch :: batch
  pending_size :: int
  timer_armed :: bool
  batch_size_limit :: int
  sent :: "batch list"

definition WEBHOOK_BATCH_SIZE_LIMIT_BYTES :: int where
  "WEBHOOK_BATCH_SIZE_LIMIT_BYTES = 1048576"

definition new_hook_store :: "'s \<Rightarrow> int option \<Rightarrow> 's hook_store" where
  "new_hook_store fs limit =
     \<lparr>inner_store = fs, pending_batch = [], pending_size = 0, timer_armed = False,
      batch_size_limit = (case limit of None \<Rightarrow> WEBHOOK_BATCH_SIZE_LIMIT_BYTES
                          | Some l \<Rightarrow> if l = 0 then WEBHOOK_BATCH_SIZE_LIMIT_BYTES else l),
      sent = []\<rparr>"

definition content_size :: "string option \<Rightarrow> int" where
  "content_size contents = (case contents of None \<Rightarrow> 0 | Some s \<Rightarrow> int (length s))"

definition enqueue_batch_from_lock :: "'s hook_store \<Rightarrow> 's hook_store" where
  "enqueue_batch_from_lock w =
     w\<lparr>sent := sent w @ [pending_batch w], pending_batch := [], pending_size := 0,
       timer_armed := False\<rparr>"

definition queue_update :: "string \<Rightarrow> hook_operation \<Rightarrow> string option \<Rightarrow> 's hook_store \<Rightarrow> 's hook_store" where
  "queue_update path operation contents w =
     (let previous = (case map_of (pending_batch w) path of
                        None \<Rightarrow> 0 | Some (prev_op, prev_contents) \<Rightarrow> content_size prev_contents);
          w1 = w\<lparr>pending_size := pending_size w - previous + content_size contents,
                 pending_batch := AList.update path (operation, contents) (pending_batch w)\<rparr>
      in if pending_size w1 \<ge> batch_size_limit w1 then enqueue_batch_from_lock w1
         else w1\<lparr>timer_armed := True\<rparr>)"

definition hook_write :: "(string \<Rightarrow> string \<Rightarrow> 's \<Rightarrow> 's) \<Rightarrow> string \<Rightarrow> string \<Rightarrow> 's hook_store \<Rightarrow> 's hook_store" where
  "hook_write write path contents w =
     queue_update path OpWrite (Some contents) (w\<lparr>inner_store := write path contents (inner_store w)\<rparr>)"

definition hook_read :: "(string \<Rightarrow> 's \<Rightarrow> string result) \<Rightarrow> string \<Rightarrow> 's hook_store \<Rightarrow> string result" where
  "hook_read read path w = read path (inner_store w)"

definition hook_delete :: "(string \<Rightarrow> 's \<Rightarrow> 's) \<Rightarrow> string \<Rightarrow> 's hook_store \<Rightarrow> 's hook_store" where
  "hook_delete delete path w =
     queue_update path OpDelete None (w\<lparr>inner_store := delete path (inner_store w)\<rparr>)"

definition enqueue_batch_from_timer :: "'s hook_store \<Rightarrow> 's hook_store" where
  "enqueue_batch_from_timer w = enqueue_batch_from_lock w"

definition hook_flush :: "'s hook_store \<Rightarrow> 's hook_store" where
  "hook_flush w = enqueue_batch_from_lock w"

text \<open>
  The request body of one batch, and the sending with its three attempts. \<open>post n payload\<close> says
  whether the \<open>n\<close>-th attempt to post the payload succeeds: the HTTP client is not modelled. An
  empty batch sends nothing. The result is the number of requests made and whether one succeeded.
\<close>

record hook_item =
  item_method :: string
  item_path :: string
  item_content :: "string option"

definition batch_payload :: "batch \<Rightarrow> hook_item list" where
  "batch_payload b =
     map (\<lambda>(path, operation, contents).
       \<lparr>item_method = (if operation = OpWrite then ''POST'' else ''DELETE''), item_path = path,
        item_content = (if operation = OpWrite then contents else None)\<rparr>) b"

definition send_batch :: "(nat \<Rightarrow> hook_item list \<Rightarrow> bool) \<Rightarrow> batch \<Rightarrow> nat \<times> bool" where
  "send_batch post b =
     (if b = [] then (0, False)
      else let payload = batch_payload b in
        if post 0 payload then (1, True)
        else if post 1 payload then (2, True)
        else if post 2 payload then (3, True) else (3, False))"

lemmas hook_defs = hook_write_def hook_read_def hook_delete_def hook_flush_def
  enqueue_batch_from_timer_def enqueue_batch_from_lock_def queue_update_def

text \<open>Batching does not change what the store answers: the wrapper is again a file store.\<close>

lemma inner_queue_update [simp]: "inner_store (queue_update p x c w) = inner_store w"
  by (simp add: queue_update_def enqueue_batch_from_lock_def Let_def)

locale text_file_store = file_store fs_write fs_read fs_delete
  for fs_write :: "string \<Rightarrow> string \<Rightarrow> 's \<Rightarrow> 's"
    and fs_read :: "string \<Rightarrow> 's \<Rightarrow> string result"
    and fs_delete :: "string \<Rightarrow> 's \<Rightarrow> 's"

sublocale text_file_store \<subseteq> hooked: file_store "hook_write fs_write" "hook_read fs_read" "hook_delete fs_delete"
  by unfold_locales
    (auto simp: hook_write_def hook_read_def hook_delete_def read_write read_delete_same
      read_delete_other read_fails)

interpretation hook_mem: text_file_store mem_write mem_read mem_delete
  by unfold_locales

section \<open>Runs of the batching store\<close>

datatype hook_event = HookWrite string string | HookDelete string | HookTimer | HookFlush

fun hook_step :: "hook_event \<Rightarrow> string mem_store hook_store \<Rightarrow> string mem_store hook_store" where
  "hook_step (HookWrite p c) w = hook_write mem_write p c w"
| "hook_step (HookDelete p) w = hook_delete mem_delete p w"
| "hook_step HookTimer w = (if timer_armed w then enqueue_batch_from_timer w else w)"
| "hook_step HookFlush w = hook_flush w"

definition hook_run :: "hook_event list \<Rightarrow> string mem_store hook_store \<Rightarrow> string mem_store hook_store" where
  "hook_run es w = fold hook_step es w"

fun hook_update :: "hook_event \<Rightarrow> (string \<times> hook_operation \<times> string option) option" where
  "hook_update (HookWrite p c) = Some (p, OpWrite, Some c)"
| "hook_update (HookDelete p) = Some (p, OpDelete, None)"
| "hook_update _ = None"

text \<open>The last entry for a path in everything sent and pending, in sending order.\<close>

definition last_queued :: "'s hook_store \<Rightarrow> string \<Rightarrow> (hook_operation \<times> string option) option" where
  "last_queued w = map_of (rev (concat (sent w) @ pending_batch w))"

text \<open>
  The bookkeeping invariant: one entry per path, the size counter is the size of the pending
  contents and below the limit, and whatever is pending has a timer running.
\<close>

definition hook_ok :: "'s hook_store \<Rightarrow> bool" where
  "hook_ok w \<longleftrightarrow>
     distinct (map fst (pending_batch w)) \<and>
     pending_size w = sum_list (map (\<lambda>(p, x, c). content_size c) (pending_batch w)) \<and>
     pending_size w < batch_size_limit w \<and> 0 < batch_size_limit w \<and>
     (pending_batch w \<noteq> [] \<longrightarrow> timer_armed w)"

lemma content_size_nonneg: "0 \<le> content_size c"
  by (simp add: content_size_def split: option.splits)

lemma sum_update:
  "distinct (map fst b) \<Longrightarrow>
     sum_list (map (\<lambda>(p, x, c). content_size c) (AList.update p (x, c) b)) =
     sum_list (map (\<lambda>(p, x, c). content_size c) b)
       - (case map_of b p of None \<Rightarrow> 0 | Some (x', c') \<Rightarrow> content_size c') + content_size c"
proof (induction b)
  case Nil
  then show ?case by simp
next
  case (Cons e b)
  then show ?case by (cases e) (auto split: option.splits)
qed

lemma map_of_rev_update:
  assumes "distinct (map fst b)"
  shows "map_of (rev (s @ AList.update p x b)) = (map_of (rev (s @ b)))(p \<mapsto> x)"
proof -
  have "map_of (rev b) = map_of b" if "distinct (map fst b)" for b :: "('a \<times> 'b) list"
    using that by (intro map_of_eqI) (auto simp: rev_map [symmetric] map_of_eq_Some_iff)
  with assms show ?thesis
    by (simp add: distinct_update update_conv' map_add_upd)
qed

lemma queue_update_ok:
  assumes "hook_ok w"
  shows "hook_ok (queue_update p x c w)"
  using assms distinct_update [of "pending_batch w" p "(x, c)"]
    sum_update [of "pending_batch w" p x c]
  by (auto simp: hook_ok_def queue_update_def enqueue_batch_from_lock_def Let_def)

lemma queue_update_last:
  assumes "hook_ok w"
  shows "last_queued (queue_update p x c w) = (last_queued w)(p \<mapsto> (x, c))"
  using assms map_of_rev_update [of "pending_batch w" "concat (sent w)" p "(x, c)"]
  by (auto simp: hook_ok_def last_queued_def queue_update_def enqueue_batch_from_lock_def Let_def)

lemma enqueue_ok: "hook_ok w \<Longrightarrow> hook_ok (enqueue_batch_from_lock w)"
  by (simp add: hook_ok_def enqueue_batch_from_lock_def)

lemma enqueue_last: "last_queued (enqueue_batch_from_lock w) = last_queued w"
  by (simp add: last_queued_def enqueue_batch_from_lock_def)

lemma hook_ok_inner: "hook_ok (w\<lparr>inner_store := s\<rparr>) = hook_ok w"
  "last_queued (w\<lparr>inner_store := s\<rparr>) = last_queued w"
  by (simp_all add: hook_ok_def last_queued_def)

lemma hook_step_ok: "hook_ok w \<Longrightarrow> hook_ok (hook_step e w)"
  by (cases e) (auto simp: hook_write_def hook_delete_def hook_flush_def enqueue_batch_from_timer_def
      hook_ok_inner intro!: queue_update_ok enqueue_ok)

lemma hook_step_last:
  "hook_ok w \<Longrightarrow> last_queued (hook_step e w) =
     (case hook_update e of None \<Rightarrow> last_queued w | Some (p, u) \<Rightarrow> (last_queued w)(p \<mapsto> u))"
  by (cases e) (auto simp: hook_write_def hook_delete_def hook_flush_def enqueue_batch_from_timer_def
      hook_ok_inner queue_update_last enqueue_last)

lemma hook_run_ok: "hook_ok w \<Longrightarrow> hook_ok (hook_run es w)"
  by (induction es arbitrary: w) (auto simp: hook_run_def hook_step_ok)

lemma hook_run_last:
  "hook_ok w \<Longrightarrow> last_queued (hook_run es w) =
     last_queued w ++ map_of (rev (List.map_filter hook_update es))"
proof (induction es arbitrary: w)
  case Nil
  then show ?case by (simp add: hook_run_def map_filter_def)
next
  case (Cons e es)
  from Cons.IH [OF hook_step_ok [OF Cons.prems]]
  have "last_queued (hook_run (e # es) w) =
      last_queued (hook_step e w) ++ map_of (rev (List.map_filter hook_update es))"
    by (simp add: hook_run_def)
  then show ?case
    using Cons.prems
    by (auto simp: hook_step_last map_filter_def map_add_def fun_eq_iff split: option.splits)
qed

lemma hook_new_ok: "0 \<le> (case limit of None \<Rightarrow> 0 | Some l \<Rightarrow> l) \<Longrightarrow> hook_ok (new_hook_store fs limit)"
  by (auto simp: hook_ok_def new_hook_store_def WEBHOOK_BATCH_SIZE_LIMIT_BYTES_def split: option.splits)

lemma hook_inner_run:
  "inner_store (hook_run es w) =
     fold (\<lambda>e s. case hook_update e of
        Some (p, OpWrite, Some c) \<Rightarrow> mem_write p c s
      | Some (p, OpDelete, _) \<Rightarrow> mem_delete p s
      | _ \<Rightarrow> s) es (inner_store w)"
proof (induction es arbitrary: w)
  case Nil
  then show ?case by (simp add: hook_run_def)
next
  case (Cons e es)
  then show ?case
    by (cases e) (simp_all add: hook_run_def hook_write_def hook_delete_def hook_flush_def
        enqueue_batch_from_timer_def enqueue_batch_from_lock_def)
qed

end
