(* ===== verification/State.thy ===== *)
theory State
  imports Control_Flags Metrics Storage View
begin

text \<open>
  The running state of an agent (\<open>openhands/controller/state/state.py\<close>), how it is saved with a
  session and restored, its cached view and the questions asked of it.

  \<open>pickle\<close> and \<open>base64\<close> are the identity on the value that is saved: a file of the store holds
  a \<open>saved_file\<close>. The state's \<open>conversation_stats\<close> is a reference to an object that lives
  beside it; the field says whether it is set.
\<close>

definition RESUMABLE_STATES :: "agent_state list" where
  "RESUMABLE_STATES = [RUNNING, PAUSED, AWAITING_USER_INPUT, FINISHED]"

text \<open>The deprecated fields only matter in what is read back; \<open>_history_checksum\<close> is \<open>-1\<close> and
  \<open>_view\<close> absent until the view is first computed.\<close>

record conv_state =
  session_id :: string
  user_id :: "string option"
  iteration_flag :: iteration_flag
  has_conversation_stats :: bool
  budget_flag :: "budget_flag option"
  confirmation_mode :: bool
  history :: "event list"
  inputs :: json_dict
  outputs :: json_dict
  agent_state :: agent_state
  resume_state :: "agent_state option"
  delegate_level :: int
  start_id :: int
  end_id :: int
  parent_metrics_snapshot :: "metrics option"
  parent_iteration :: int
  extra_data :: json_dict
  last_error :: string
  state_metrics :: metrics
  history_checksum :: int
  cached_view :: "view option"

definition new_iteration_flag :: "int \<Rightarrow> iteration_flag" where
  "new_iteration_flag n =
     \<lparr>limit_increase_amount = n, current_value = 0, max_value = n,
      flag_headless_mode = False, hit_limit = False\<rparr>"

definition new_budget_flag :: "rat \<Rightarrow> budget_flag" where
  "new_budget_flag b =
     \<lparr>limit_increase_amount = b, current_value = 0, max_value = b,
      flag_headless_mode = False, hit_limit = False\<rparr>"

definition new_state :: conv_state where
  "new_state =
     \<lparr>session_id = [], user_id = None, iteration_flag = new_iteration_flag 100,
      has_conversation_stats = False, budget_flag = None, confirmation_mode = False,
      history = [], inputs = [], outputs = [], agent_state = LOADING, resume_state = None,
      delegate_level = 0, start_id = -1, end_id = -1, parent_metrics_snapshot = None,
      parent_iteration = 100, extra_data = [], last_error = [],
      state_metrics = default_metrics, history_checksum = -1, cached_view = None\<rparr>"

section \<open>Pickling\<close>

text \<open>
  The pickled dictionary: the fields of the state, and of the deprecated fields those the code
  reads back. A key that may be missing is an option.
\<close>

record pickled_state =
  pk_fields :: conv_state
  pk_iteration_flag :: "iteration_flag option"
  pk_budget_flag :: "budget_flag option option"
  pk_history :: "event list option"
  pk_iteration :: "int option"
  pk_max_iterations :: "int option"

definition getstate :: "conv_state \<Rightarrow> pickled_state" where
  "getstate s =
     \<lparr>pk_fields = s\<lparr>history := [], history_checksum := -1, cached_view := None\<rparr>,
      pk_iteration_flag = Some (iteration_flag s), pk_budget_flag = Some (budget_flag s),
      pk_history = Some [], pk_iteration = None, pk_max_iterations = None\<rparr>"

definition setstate :: "pickled_state \<Rightarrow> conv_state" where
  "setstate p =
     (let flag = (case pk_iteration p of
            Some current_iteration \<Rightarrow>
              let max_iterations = (case pk_max_iterations p of Some m \<Rightarrow> m | None \<Rightarrow> 100)
              in Some ((new_iteration_flag max_iterations)\<lparr>current_value := current_iteration\<rparr>)
          | None \<Rightarrow> pk_iteration_flag p)
      in (pk_fields p)
        \<lparr>history := (case pk_history p of Some h \<Rightarrow> h | None \<Rightarrow> []),
         iteration_flag := (case flag of Some f \<Rightarrow> f | None \<Rightarrow> new_iteration_flag 100),
         budget_flag := (case pk_budget_flag p of Some b \<Rightarrow> b | None \<Rightarrow> None)\<rparr>)"

section \<open>Saving and restoring\<close>

text \<open>What a file of the conversation's store holds.\<close>

datatype saved_file = StateFile pickled_state | StatsFile "(string, metrics) dict"

definition load_state :: "saved_file \<Rightarrow> conv_state result" where
  "load_state f = (case f of StateFile p \<Rightarrow> Inr (setstate p)
     | StatsFile _ \<Rightarrow> Inl (TypeError ''not a pickled state''))"

definition save_to_session ::
  "string \<Rightarrow> string option \<Rightarrow> conv_state \<Rightarrow> saved_file mem_store \<Rightarrow> saved_file mem_store" where
  "save_to_session sid uid s files =
     (let pickled = getstate (s\<lparr>has_conversation_stats := False\<rparr>);
          files1 = mem_write (get_conversation_agent_state_filename sid uid) (StateFile pickled) files
      in if uid \<noteq> None \<and> uid \<noteq> Some []
         then mem_delete (get_conversation_agent_state_filename sid None) files1
         else files1)"

definition restore_from_session ::
  "string \<Rightarrow> string option \<Rightarrow> saved_file mem_store \<Rightarrow> conv_state result" where
  "restore_from_session sid uid files =
     bindE
       (case mem_read (get_conversation_agent_state_filename sid uid) files of
          Inr f \<Rightarrow> load_state f
        | Inl (FileNotFoundError _) \<Rightarrow>
            if uid \<noteq> None \<and> uid \<noteq> Some []
            then bindE (mem_read (get_conversation_agent_state_filename sid None) files) load_state
            else Inl (FileNotFoundError (''Could not restore state from session file for sid: '' @ sid))
        | Inl e \<Rightarrow> Inl e)
       (\<lambda>s. Inr (s\<lparr>resume_state := (if agent_state s \<in> set RESUMABLE_STATES
                                    then Some (agent_state s) else None),
                   agent_state := LOADING\<rparr>))"

section \<open>The view and the questions asked of it\<close>

text \<open>The checksum is set before the view is computed, so it stays set when that raises.\<close>

definition view_of :: "(conv_state, view) op" where
  "view_of s =
     (if int (length (history s)) \<noteq> history_checksum s
      then let s1 = s\<lparr>history_checksum := int (length (history s))\<rparr>
           in case from_events (history s) of
                Inl e \<Rightarrow> (Inl e, s1)
              | Inr v \<Rightarrow> (Inr v, s1\<lparr>cached_view := Some v\<rparr>)
      else case cached_view s of
             Some v \<Rightarrow> (Inr v, s)
           | None \<Rightarrow> (Inl (AttributeError ''_view''), s))"

fun user_intent_loop ::
  "event list \<Rightarrow> string option \<Rightarrow> string list option \<Rightarrow> string option \<times> string list option" where
  "user_intent_loop [] msg urls = (msg, urls)"
| "user_intent_loop (e # es) msg urls =
     (if is_user_message e
      then user_intent_loop es (Some (a_content (act_of (payload e)))) (a_image_urls (act_of (payload e)))
      else case payload e of
        Act (AgentFinishAction _ _ _) \<Rightarrow>
          if msg \<noteq> None then (msg, None) else user_intent_loop es msg urls
      | _ \<Rightarrow> user_intent_loop es msg urls)"

definition get_current_user_intent :: "(conv_state, string option \<times> string list option) op" where
  "get_current_user_intent =
     bindS view_of (\<lambda>v. retS (user_intent_loop (rev (view_events v)) None (Some [])))"

definition get_last_agent_message :: "(conv_state, event option) op" where
  "get_last_agent_message = bindS view_of (\<lambda>v. retS (find is_agent_message (rev (view_events v))))"

definition get_last_user_message :: "(conv_state, event option) op" where
  "get_last_user_message = bindS view_of (\<lambda>v. retS (find is_user_message (rev (view_events v))))"

definition get_local_step :: "conv_state \<Rightarrow> int" where
  "get_local_step s =
     (if parent_iteration s = 0 then current_value (iteration_flag s)
      else current_value (iteration_flag s) - parent_iteration s)"

definition get_local_metrics :: "conv_state \<Rightarrow> metrics" where
  "get_local_metrics s =
     (case parent_metrics_snapshot s of
        None \<Rightarrow> state_metrics s
      | Some b \<Rightarrow> diff_metrics (state_metrics s) b)"

section \<open>Save and restore\<close>

lemma setstate_getstate:
  "setstate (getstate s) = s\<lparr>history := [], history_checksum := -1, cached_view := None\<rparr>"
  by (simp add: setstate_def getstate_def)

lemma state_filenames_differ:
  "u \<noteq> [] \<Longrightarrow> \<not> prefix (get_conversation_agent_state_filename sid None)
     (get_conversation_agent_state_filename sid (Some u))"
  by (cases u) (simp_all add: get_conversation_agent_state_filename_def get_conversation_dir_def)

lemma read_saved:
  "mem_read (get_conversation_agent_state_filename sid uid) (save_to_session sid uid s files) =
     Inr (StateFile (getstate (s\<lparr>has_conversation_stats := False\<rparr>)))"
proof (cases "uid \<noteq> None \<and> uid \<noteq> Some []")
  case True
  then obtain u where "uid = Some u" "u \<noteq> []" by auto
  with state_filenames_differ [of u sid] show ?thesis
    by (simp add: save_to_session_def Let_def mem.read_write_same mem.read_delete_other)
next
  case False
  then show ?thesis by (simp only: save_to_session_def Let_def if_False mem.read_write_same)
qed

text \<open>What comes back of a state: everything but the history, which is in the event stream, the
  cached view and the reference to the statistics; the agent is loading, and remembers the state it
  was in if that state can be resumed.\<close>

definition restored :: "conv_state \<Rightarrow> conv_state" where
  "restored s = s\<lparr>history := [], history_checksum := -1, cached_view := None, has_conversation_stats := False,
     resume_state := (if agent_state s \<in> {RUNNING, PAUSED, AWAITING_USER_INPUT, FINISHED}
                      then Some (agent_state s) else None),
     agent_state := LOADING\<rparr>"

lemma restore_read:
  "mem_read (get_conversation_agent_state_filename sid uid) files =
     Inr (StateFile (getstate (s\<lparr>has_conversation_stats := False\<rparr>))) \<Longrightarrow>
   restore_from_session sid uid files = Inr (restored s)"
  by (simp add: restore_from_session_def load_state_def setstate_getstate RESUMABLE_STATES_def restored_def)

lemma restore_saved: "restore_from_session sid uid (save_to_session sid uid s files) = Inr (restored s)"
  by (rule restore_read [OF read_saved])

lemma restore_legacy_location:
  assumes "u \<noteq> []" and "mem_read (get_conversation_agent_state_filename sid (Some u)) files =
      Inl (FileNotFoundError p)"
  shows "restore_from_session sid (Some u) files = restore_from_session sid None files \<or>
    (\<exists>q. mem_read (get_conversation_agent_state_filename sid None) files = Inl (FileNotFoundError q))"
  using assms mem.read_fails [of "get_conversation_agent_state_filename sid None" files]
  by (cases "mem_read (get_conversation_agent_state_filename sid None) files")
    (auto simp: restore_from_session_def)

section \<open>The cached view\<close>

text \<open>The cache is trusted by length alone. It is right as long as the history has only been
  appended to since the view was computed.\<close>

definition cache_sound :: "conv_state \<Rightarrow> bool" where
  "cache_sound s \<longleftrightarrow> history_checksum s = -1 \<or>
     (\<exists>n \<le> length (history s). history_checksum s = int n \<and>
        (\<exists>v. cached_view s = Some v \<and> from_events (take n (history s)) = Inr v))"

lemma cache_sound_append: "cache_sound s \<Longrightarrow> cache_sound (s\<lparr>history := history s @ es\<rparr>)"
  by (auto simp: cache_sound_def)

lemma view_of_sound:
  assumes "cache_sound s"
  shows "fst (view_of s) = from_events (history s)"
    and "fst (view_of s) = Inr v \<Longrightarrow> cache_sound (snd (view_of s))"
proof -
  show "fst (view_of s) = from_events (history s)"
    using assms by (auto simp: cache_sound_def view_of_def Let_def split: sum.splits)
  show "fst (view_of s) = Inr v \<Longrightarrow> cache_sound (snd (view_of s))"
    using assms by (auto simp: cache_sound_def view_of_def Let_def split: sum.splits if_splits)
qed

lemma view_of_frame:
  "snd (view_of s) = s\<lparr>history_checksum := history_checksum (snd (view_of s)),
                       cached_view := cached_view (snd (view_of s))\<rparr>"
  by (auto simp: view_of_def Let_def split: sum.splits option.splits)

text \<open>Two histories of the same length are the same to the cache.\<close>

lemma view_of_stale:
  assumes "from_events (history s) = Inr v" and "length h = length (history s)"
    and "history_checksum s \<noteq> int (length (history s))"
  shows "fst (view_of ((snd (view_of s))\<lparr>history := h\<rparr>)) = Inr v"
  using assms by (simp add: view_of_def Let_def)

section \<open>The user's intent\<close>

definition is_finish :: "event \<Rightarrow> bool" where
  "is_finish e = (case payload e of Act (AgentFinishAction _ _ _) \<Rightarrow> True | _ \<Rightarrow> False)"

lemma finish_not_user: "is_finish e \<Longrightarrow> \<not> is_user_message e"
  by (auto simp: is_finish_def is_user_message_def is_message_def split: payload.splits action.splits)

lemma user_intent_step:
  "user_intent_loop (e # es) msg urls =
     (if is_user_message e
      then user_intent_loop es (Some (a_content (act_of (payload e)))) (a_image_urls (act_of (payload e)))
      else if is_finish e \<and> msg \<noteq> None then (msg, None) else user_intent_loop es msg urls)"
  by (auto simp: is_finish_def split: payload.splits action.splits)

lemma user_intent_no_finish:
  "\<forall>e \<in> set es. \<not> is_finish e \<Longrightarrow> user_intent_loop es msg urls =
     (case find is_user_message (rev es) of
        None \<Rightarrow> (msg, urls)
      | Some e \<Rightarrow> (Some (a_content (act_of (payload e))), a_image_urls (act_of (payload e))))"
proof (induction es arbitrary: msg urls)
  case Nil
  then show ?case by simp
next
  case (Cons e es)
  have "find is_user_message (xs @ [e]) =
      (case find is_user_message xs of None \<Rightarrow> (if is_user_message e then Some e else None) | Some x \<Rightarrow> Some x)"
    for xs by (induction xs) auto
  with Cons show ?case
    by (auto simp: user_intent_step simp del: user_intent_loop.simps split: option.splits)
qed

text \<open>
  With \<open>u\<close> the first user message after the last finish that a user message follows, the answer
  is its text, without images. \<open>later\<close> may hold further user messages: they are not returned.
\<close>

lemma user_intent_after_finish:
  assumes "is_finish f" and "is_user_message u" and "\<forall>e \<in> set between. \<not> is_user_message e \<and> \<not> is_finish e"
    and "\<forall>e \<in> set later. \<not> is_finish e"
  shows "user_intent_loop (rev (earlier @ f # between @ u # later)) None (Some []) =
    (Some (a_content (act_of (payload u))), None)"
proof -
  have app: "user_intent_loop (xs @ ys) msg urls =
      (let (m, i) = user_intent_loop xs msg urls in user_intent_loop ys m i)"
    if "\<forall>e \<in> set xs. \<not> is_finish e" for xs ys msg urls
    using that
    by (induction xs arbitrary: msg urls) (auto simp: user_intent_step simp del: user_intent_loop.simps(2))
  have skip: "user_intent_loop (xs @ ys) msg urls = user_intent_loop ys msg urls"
    if "\<forall>e \<in> set xs. \<not> is_user_message e \<and> \<not> is_finish e" for xs ys msg urls
    using that by (induction xs) (auto simp: user_intent_step simp del: user_intent_loop.simps(2))
  have split: "rev (earlier @ f # between @ u # later) = rev later @ u # rev between @ f # rev earlier"
    by simp
  show ?thesis
    unfolding split using assms finish_not_user [of f]
    by (auto simp: app skip [of _ "[]", simplified] user_intent_step case_prod_unfold Let_def simp del: user_intent_loop.simps(2))
qed

end
