(* ===== verification/Conversation_Stats.thy ===== *)
theory Conversation_Stats
  imports State
begin

text \<open>
  The metrics of a conversation by service
  (\<open>openhands/server/services/conversation_stats.py\<close>): those of the registered language models
  and those restored from storage for services that have not registered again.

  \<open>service_to_metrics\<close> holds references to the models' own metrics objects; here the entry is the
  object, and a model's call updates it in place. \<open>has_file_store\<close> is the truth of \<open>file_store\<close>.
\<close>

record conversation_stats =
  metrics_path :: string
  has_file_store :: bool
  conversation_id :: string
  service_to_metrics :: "(string, metrics) dict"
  restored_metrics :: "(string, metrics) dict"

definition combined_by_service :: "conversation_stats \<Rightarrow> (string, metrics) dict" where
  "combined_by_service cs = dict_update (restored_metrics cs) (service_to_metrics cs)"

definition save_metrics :: "conversation_stats \<Rightarrow> saved_file mem_store \<Rightarrow> saved_file mem_store" where
  "save_metrics cs files =
     (if has_file_store cs
      then mem_write (metrics_path cs) (StatsFile (combined_by_service cs)) files
      else files)"

definition maybe_restore_metrics ::
  "conversation_stats \<Rightarrow> saved_file mem_store \<Rightarrow> conversation_stats result" where
  "maybe_restore_metrics cs files =
     (if \<not> has_file_store cs \<or> conversation_id cs = [] then Inr cs
      else case mem_read (metrics_path cs) files of
        Inr (StatsFile d) \<Rightarrow> Inr (cs\<lparr>restored_metrics := d\<rparr>)
      | Inr (StateFile _) \<Rightarrow> Inl (TypeError ''not pickled metrics'')
      | Inl (FileNotFoundError _) \<Rightarrow> Inr cs
      | Inl e \<Rightarrow> Inl e)"

definition new_conversation_stats ::
  "bool \<Rightarrow> string \<Rightarrow> string option \<Rightarrow> saved_file mem_store \<Rightarrow> conversation_stats result" where
  "new_conversation_stats with_store cid uid files =
     maybe_restore_metrics
       \<lparr>metrics_path = get_conversation_stats_filename cid uid, has_file_store = with_store,
        conversation_id = cid, service_to_metrics = [], restored_metrics = []\<rparr> files"

definition get_combined_metrics :: "conversation_stats \<Rightarrow> metrics" where
  "get_combined_metrics cs =
     foldl merge_metrics default_metrics (map snd (service_to_metrics cs))"

definition get_metrics_for_service :: "string \<Rightarrow> conversation_stats \<Rightarrow> metrics result" where
  "get_metrics_for_service service_id cs =
     (case map_of (service_to_metrics cs) service_id of
        None \<Rightarrow> Inl (PlainException (''LLM service does not exist '' @ service_id))
      | Some m \<Rightarrow> Inr m)"

text \<open>The metrics the model has after registering come back with the new statistics.\<close>

definition register_llm :: "string \<Rightarrow> metrics \<Rightarrow> conversation_stats \<Rightarrow> metrics \<times> conversation_stats" where
  "register_llm service_id llm_metrics cs =
     (let (m, restored) = (case map_of (restored_metrics cs) service_id of
            Some r \<Rightarrow> (r, AList.delete service_id (restored_metrics cs))
          | None \<Rightarrow> (llm_metrics, restored_metrics cs))
      in (m, cs\<lparr>restored_metrics := restored,
                service_to_metrics := AList.update service_id m (service_to_metrics cs)\<rparr>))"

definition drop_zero_cost :: "(string, metrics) dict \<Rightarrow> (string, metrics) dict" where
  "drop_zero_cost d = filter (\<lambda>(k, v). accumulated_cost v \<noteq> 0) d"

definition merge_and_save ::
  "conversation_stats \<Rightarrow> conversation_stats \<Rightarrow> saved_file mem_store \<Rightarrow>
   conversation_stats \<times> conversation_stats \<times> saved_file mem_store" where
  "merge_and_save cs other files =
     (let other1 = other\<lparr>restored_metrics := drop_zero_cost (restored_metrics other)\<rparr>;
          cs1 = cs\<lparr>restored_metrics :=
            dict_update (drop_zero_cost (restored_metrics cs)) (restored_metrics other1)\<rparr>
      in (cs1, other1, save_metrics cs1 files))"

text \<open>A call of a registered model records its cost in the model's metrics.\<close>

definition stats_ok :: "conversation_stats \<Rightarrow> bool" where
  "stats_ok cs \<longleftrightarrow> distinct (map fst (service_to_metrics cs)) \<and>
     distinct (map fst (restored_metrics cs)) \<and>
     fst ` set (service_to_metrics cs) \<inter> fst ` set (restored_metrics cs) = {}"

section \<open>Totals\<close>

lemma merge_accumulated [simp]:
  "accumulated_cost (merge_metrics m n) = accumulated_cost m + accumulated_cost n"
  by (simp add: merge_metrics_def)

lemma foldl_merge_cost:
  "accumulated_cost (foldl merge_metrics m ms) = accumulated_cost m + sum_list (map accumulated_cost ms)"
  by (induction ms arbitrary: m) simp_all

lemma combined_cost:
  "accumulated_cost (get_combined_metrics cs) = (\<Sum>(k, m) \<leftarrow> service_to_metrics cs. accumulated_cost m)"
  by (simp add: get_combined_metrics_def foldl_merge_cost default_metrics_def new_metrics_def o_def
      case_prod_unfold)

lemma foldl_merge_lists:
  "costs (foldl merge_metrics m ms) = costs m @ concat (map costs ms)"
  "token_usages (foldl merge_metrics m ms) = token_usages m @ concat (map token_usages ms)"
  by (induction ms arbitrary: m) (simp_all add: merge_metrics_def)

lemma combined_lists:
  "costs (get_combined_metrics cs) = concat (map (\<lambda>(k, m). costs m) (service_to_metrics cs))"
  "token_usages (get_combined_metrics cs) = concat (map (\<lambda>(k, m). token_usages m) (service_to_metrics cs))"
  by (simp_all add: get_combined_metrics_def foldl_merge_lists default_metrics_def new_metrics_def o_def
      case_prod_unfold)

section \<open>Registration\<close>

lemma register_ok:
  assumes "stats_ok cs"
  shows "stats_ok (snd (register_llm sid m cs))"
proof (cases "map_of (restored_metrics cs) sid")
  case None
  then have "sid \<notin> fst ` set (restored_metrics cs)" by (simp add: map_of_eq_None_iff)
  with assms None show ?thesis
    by (simp add: stats_ok_def register_llm_def dom_update distinct_update)
next
  case (Some r)
  have "fst ` set (AList.delete sid (restored_metrics cs)) \<subseteq> fst ` set (restored_metrics cs) - {sid}"
    using dom_delete_subset [of sid "restored_metrics cs"] delete_notin_dom [of sid "restored_metrics cs"] by auto
  then have "fst ` set (AList.update sid r (service_to_metrics cs)) \<inter>
      fst ` set (AList.delete sid (restored_metrics cs)) = {}"
    using assms unfolding stats_ok_def dom_update by blast
  with assms Some show ?thesis
    by (simp add: stats_ok_def register_llm_def distinct_update distinct_delete)
qed

text \<open>Registering moves a restored entry over and loses none of the cost that will be saved.\<close>

lemma register_saved:
  assumes "stats_ok cs" and "sid \<notin> fst ` set (service_to_metrics cs)"
  shows "map_of (combined_by_service (snd (register_llm sid m cs))) =
    (case map_of (restored_metrics cs) sid of
       Some r \<Rightarrow> map_of (combined_by_service cs)
     | None \<Rightarrow> (map_of (combined_by_service cs))(sid \<mapsto> m))"
proof -
  have new: "map_of (service_to_metrics cs) sid = None"
    using assms(2) by (simp add: map_of_eq_None_iff)
  show ?thesis
    using assms(1) new
    by (auto simp: combined_by_service_def map_of_dict_update register_llm_def stats_ok_def map_of_rev
        distinct_update update_conv' delete_conv' map_add_def fun_eq_iff split: option.splits)
qed

section \<open>Saving and restoring\<close>

lemma stats_round_trip:
  assumes "has_file_store cs" and "conversation_id cs \<noteq> []"
    and "metrics_path cs' = metrics_path cs" and "has_file_store cs'" and "conversation_id cs' \<noteq> []"
  shows "maybe_restore_metrics cs' (save_metrics cs files) =
    Inr (cs'\<lparr>restored_metrics := combined_by_service cs\<rparr>)"
  using assms by (simp add: maybe_restore_metrics_def save_metrics_def mem.read_write_same)

lemma combined_lookup:
  assumes "stats_ok cs"
  shows "map_of (combined_by_service cs) sid =
    (case map_of (service_to_metrics cs) sid of Some m \<Rightarrow> Some m | None \<Rightarrow> map_of (restored_metrics cs) sid)"
  using assms
  by (auto simp: combined_by_service_def map_of_dict_update stats_ok_def map_of_rev map_add_def
      split: option.splits)

lemma map_of_drop_zero:
  "distinct (map fst d) \<Longrightarrow> map_of (drop_zero_cost d) k =
     (case map_of d k of Some m \<Rightarrow> if accumulated_cost m = 0 then None else Some m | None \<Rightarrow> None)"
  by (induction d) (auto simp: drop_zero_cost_def map_of_eq_None_iff split: option.splits)

lemma distinct_drop_zero: "distinct (map fst d) \<Longrightarrow> distinct (map fst (drop_zero_cost d))"
  by (simp add: drop_zero_cost_def distinct_map_filter)

lemma merge_and_save_lookup:
  assumes "stats_ok cs" and "stats_ok other"
  shows "map_of (restored_metrics (fst (merge_and_save cs other files))) k =
    (case map_of (restored_metrics other) k of
       Some m \<Rightarrow> if accumulated_cost m \<noteq> 0 then Some m
         else (case map_of (restored_metrics cs) k of
                 Some n \<Rightarrow> if accumulated_cost n \<noteq> 0 then Some n else None | None \<Rightarrow> None)
     | None \<Rightarrow> (case map_of (restored_metrics cs) k of
                 Some n \<Rightarrow> if accumulated_cost n \<noteq> 0 then Some n else None | None \<Rightarrow> None))"
  using assms
  by (auto simp: merge_and_save_def Let_def map_of_dict_update stats_ok_def map_of_rev distinct_drop_zero
      map_of_drop_zero map_add_def split: option.splits)

end
