(* ===== verification/Event_Log.thy ===== *)
theory Event_Log
  imports Events
begin

text \<open>
  The event filter (\<open>events/event_filter.py\<close>) and the event stream as its clients see it
  (\<open>events/stream.py\<close>, \<open>events/event_store.py\<close>): a list of events whose ids count from zero,
  a search over a range of ids, and the queue of events not yet delivered to a subscriber (one
  worker thread per callback makes it first in, first out). The files, cache pages and the JSON
  text behind it are not part of this abstract view.
\<close>

section \<open>The event filter\<close>

text \<open>
  A class in \<open>include_types\<close> and \<open>exclude_types\<close> is its \<open>isinstance\<close> test. \<open>render\<close> is the
  text the query is searched in: \<open>json.dumps(event_to_dict(event))\<close>.
\<close>

record event_filter =
  exclude_hidden :: bool
  query :: "string option"
  include_types :: "(event \<Rightarrow> bool) list option"
  exclude_types :: "(event \<Rightarrow> bool) list option"
  source :: "string option"
  start_date :: "string option"
  end_date :: "string option"

definition default_filter :: event_filter where
  "default_filter =
     \<lparr>exclude_hidden = False, query = None, include_types = None, exclude_types = None,
      source = None, start_date = None, end_date = None\<rparr>"

fun source_value :: "event_source \<Rightarrow> string" where
  "source_value AGENT = ''agent''"
| "source_value USER = ''user''"
| "source_value ENVIRONMENT = ''environment''"

text \<open>An optional string that is tested for truth: \<open>None\<close> and the empty string do not count.\<close>

definition truthy :: "string option \<Rightarrow> bool" where
  "truthy s \<longleftrightarrow> s \<noteq> None \<and> s \<noteq> Some []"

definition isinstance_of :: "(event \<Rightarrow> bool) list \<Rightarrow> event \<Rightarrow> bool" where
  "isinstance_of cs e \<longleftrightarrow> (\<exists>c \<in> set cs. c e)"

definition filter_include :: "(event \<Rightarrow> string) \<Rightarrow> event_filter \<Rightarrow> event \<Rightarrow> bool" where
  "filter_include render f e =
     (if include_types f \<noteq> None \<and> include_types f \<noteq> Some [] \<and>
         \<not> isinstance_of (the (include_types f)) e then False
      else if exclude_types f \<noteq> None \<and> isinstance_of (the (exclude_types f)) e then False
      else if truthy (source f) \<and>
         (event_source e = None \<or> Some (source_value (the (event_source e))) \<noteq> source f) then False
      else if truthy (start_date f) \<and> raw_timestamp e \<noteq> None \<and>
         the (raw_timestamp e) < the (start_date f) then False
      else if truthy (end_date f) \<and> raw_timestamp e \<noteq> None \<and>
         the (raw_timestamp e) > the (end_date f) then False
      else if exclude_hidden f \<and> hidden_event e then False
      else if truthy (query f) \<and>
         \<not> occurs_in (py_lower (the (query f))) (py_lower (render e)) then False
      else True)"

definition filter_exclude :: "(event \<Rightarrow> string) \<Rightarrow> event_filter \<Rightarrow> event \<Rightarrow> bool" where
  "filter_exclude render f e = (\<not> filter_include render f e)"

text \<open>The same decision as one conjunction of independent criteria.\<close>

lemma filter_include_iff:
  "filter_include render f e \<longleftrightarrow>
     (\<forall>cs. include_types f = Some cs \<and> cs \<noteq> [] \<longrightarrow> isinstance_of cs e) \<and>
     (\<forall>cs. exclude_types f = Some cs \<longrightarrow> \<not> isinstance_of cs e) \<and>
     (truthy (source f) \<longrightarrow> map_option source_value (event_source e) = source f) \<and>
     (\<forall>d t. start_date f = Some d \<and> d \<noteq> [] \<and> raw_timestamp e = Some t \<longrightarrow> d \<le> t) \<and>
     (\<forall>d t. end_date f = Some d \<and> d \<noteq> [] \<and> raw_timestamp e = Some t \<longrightarrow> t \<le> d) \<and>
     (exclude_hidden f \<longrightarrow> \<not> hidden_event e) \<and>
     (\<forall>q. query f = Some q \<and> q \<noteq> [] \<longrightarrow> occurs_in (py_lower q) (py_lower (render e)))"
proof -
  have 1: "(include_types f \<noteq> None \<and> include_types f \<noteq> Some [] \<and>
      \<not> isinstance_of (the (include_types f)) e) \<longleftrightarrow>
    \<not> (\<forall>cs. include_types f = Some cs \<and> cs \<noteq> [] \<longrightarrow> isinstance_of cs e)"
    by (cases "include_types f") auto
  have 2: "(exclude_types f \<noteq> None \<and> isinstance_of (the (exclude_types f)) e) \<longleftrightarrow>
    \<not> (\<forall>cs. exclude_types f = Some cs \<longrightarrow> \<not> isinstance_of cs e)"
    by (cases "exclude_types f") auto
  have 3: "(truthy (source f) \<and> (event_source e = None \<or>
      Some (source_value (the (event_source e))) \<noteq> source f)) \<longleftrightarrow>
    \<not> (truthy (source f) \<longrightarrow> map_option source_value (event_source e) = source f)"
    by (cases "event_source e") (auto simp: truthy_def)
  have 4: "(truthy (start_date f) \<and> raw_timestamp e \<noteq> None \<and>
      the (raw_timestamp e) < the (start_date f)) \<longleftrightarrow>
    \<not> (\<forall>d t. start_date f = Some d \<and> d \<noteq> [] \<and> raw_timestamp e = Some t \<longrightarrow> d \<le> t)"
    by (cases "start_date f"; cases "raw_timestamp e") (auto simp: truthy_def not_le)
  have 5: "(truthy (end_date f) \<and> raw_timestamp e \<noteq> None \<and>
      the (raw_timestamp e) > the (end_date f)) \<longleftrightarrow>
    \<not> (\<forall>d t. end_date f = Some d \<and> d \<noteq> [] \<and> raw_timestamp e = Some t \<longrightarrow> t \<le> d)"
    by (cases "end_date f"; cases "raw_timestamp e") (auto simp: truthy_def not_le)
  have 6: "(truthy (query f) \<and> \<not> occurs_in (py_lower (the (query f))) (py_lower (render e))) \<longleftrightarrow>
    \<not> (\<forall>q. query f = Some q \<and> q \<noteq> [] \<longrightarrow> occurs_in (py_lower q) (py_lower (render e)))"
    by (cases "query f") (auto simp: truthy_def)
  show ?thesis
    unfolding filter_include_def 1 2 3 4 5 6 by (simp only: not_not split: if_split) blast
qed

section \<open>What the stream keeps of an event\<close>

text \<open>
  An event goes through its dictionary before subscribers and later readers see it. The
  dictionary has no \<open>response_id\<close>, no \<open>confirmation_state\<close> on classes that do not declare
  it and no timeout of an observation; the metrics come back under the default model name.
\<close>

definition stored_form :: "event \<Rightarrow> event" where
  "stored_form e = e\<lparr>raw_response_id := None, raw_confirmation := None,
     raw_timeout := (if is_action e then raw_timeout e else None),
     raw_llm_metrics := map_option (\<lambda>m. m\<lparr>metrics_model_name := ''default''\<rparr>) (raw_llm_metrics e)\<rparr>"

lemma stored_form_simps [simp]:
  "payload (stored_form e) = payload e"
  "raw_id (stored_form e) = raw_id e"
  "raw_source (stored_form e) = raw_source e"
  "raw_cause (stored_form e) = raw_cause e"
  "raw_timestamp (stored_form e) = raw_timestamp e"
  "raw_tool_call_metadata (stored_form e) = raw_tool_call_metadata e"
  by (simp_all add: stored_form_def)

lemma event_id_cong: "raw_id e = raw_id f \<Longrightarrow> event_id e = event_id f"
  by (simp add: event_id_def)

lemma event_id_Some [simp]: "raw_id e = Some i \<Longrightarrow> event_id e = i"
  by (simp add: event_id_def)

lemma stored_form_idem [simp]: "stored_form (stored_form e) = stored_form e"
  by (cases "raw_llm_metrics e") (auto simp: stored_form_def is_action_def)

section \<open>The stream\<close>

record event_log =
  logged :: "event list"
  queued :: "event list"

definition empty_log :: event_log where
  "empty_log = \<lparr>logged = [], queued = []\<rparr>"

definition cur_id :: "event_log \<Rightarrow> int" where
  "cur_id lg = int (length (logged lg))"

text \<open>
  \<open>add_event\<close>: the object passed in gets its id, source and timestamp (the first component of
  the result), the stream keeps and delivers the stored form.
\<close>

definition add_event :: "string \<Rightarrow> event \<Rightarrow> event_source \<Rightarrow> event_log \<Rightarrow> (event \<times> event_log) result" where
  "add_event now e src lg =
     (if event_id e \<noteq> INVALID_ID
      then Inl (ValueError (''Event already has an ID:'' @ str_of_int (event_id e) @
        ''. It was probably added back to the EventStream from inside a handler, triggering a loop.''))
      else let e' = e\<lparr>raw_timestamp := Some now, raw_source := Some src, raw_id := Some (cur_id lg)\<rparr>
           in Inr (e', lg\<lparr>logged := logged lg @ [stored_form e'],
                          queued := queued lg @ [stored_form e']\<rparr>))"

definition search_events ::
  "int \<Rightarrow> int option \<Rightarrow> bool \<Rightarrow> (event \<Rightarrow> bool) option \<Rightarrow> nat option \<Rightarrow> event_log \<Rightarrow> event list" where
  "search_events start_id end_id rev_order flt limit lg =
     (let stop = (case end_id of None \<Rightarrow> cur_id lg | Some i \<Rightarrow> i + 1);
          range = filter (\<lambda>e. start_id \<le> event_id e \<and> event_id e < stop) (logged lg);
          ordered = (if rev_order then rev range else range);
          matching = filter (case flt of None \<Rightarrow> (\<lambda>_. True) | Some p \<Rightarrow> p) ordered
      in case limit of Some (Suc n) \<Rightarrow> take (Suc n) matching | _ \<Rightarrow> matching)"

definition get_latest_event_id :: "event_log \<Rightarrow> int" where
  "get_latest_event_id lg = cur_id lg - 1"

text \<open>Ids are positions.\<close>

definition log_ok :: "event_log \<Rightarrow> bool" where
  "log_ok lg \<longleftrightarrow> (\<forall>i < length (logged lg). raw_id (logged lg ! i) = Some (int i))"

lemma log_ok_empty [simp]: "log_ok empty_log"
  by (simp add: log_ok_def empty_log_def)

lemma log_ok_ids: "log_ok lg \<Longrightarrow> map event_id (logged lg) = map int [0..<length (logged lg)]"
  by (rule nth_equalityI) (auto simp: log_ok_def)

lemma add_event_fresh:
  "raw_id e = None \<Longrightarrow> add_event now e src lg =
     (let e' = e\<lparr>raw_timestamp := Some now, raw_source := Some src, raw_id := Some (cur_id lg)\<rparr>
      in Inr (e', lg\<lparr>logged := logged lg @ [stored_form e'], queued := queued lg @ [stored_form e']\<rparr>))"
  by (simp add: add_event_def event_id_def INVALID_ID_def)

lemma add_event_Inr:
  assumes "add_event now e src lg = Inr (e', lg')"
  shows "event_id e = INVALID_ID"
    and "e' = e\<lparr>raw_timestamp := Some now, raw_source := Some src, raw_id := Some (cur_id lg)\<rparr>"
    and "lg' = lg\<lparr>logged := logged lg @ [stored_form e'], queued := queued lg @ [stored_form e']\<rparr>"
  using assms by (auto simp: add_event_def Let_def split: if_splits)

lemma add_event_ok:
  assumes "log_ok lg" and "add_event now e src lg = Inr (e', lg')"
  shows "log_ok lg'"
proof -
  have "raw_id e' = Some (cur_id lg)"
    using add_event_Inr(2) [OF assms(2)] by simp
  with assms(1) show ?thesis
    by (simp add: log_ok_def nth_append cur_id_def less_Suc_eq add_event_Inr(3) [OF assms(2)])
qed

lemma add_event_id:
  assumes "add_event now e src lg = Inr (e', lg')"
  shows "event_id e' = cur_id lg" and "cur_id lg' = cur_id lg + 1"
proof -
  have "raw_id e' = Some (cur_id lg)"
    using add_event_Inr(2) [OF assms] by simp
  then show "event_id e' = cur_id lg" by simp
  show "cur_id lg' = cur_id lg + 1"
    by (simp add: cur_id_def add_event_Inr(3) [OF assms])
qed

lemma search_all: "log_ok lg \<Longrightarrow> search_events 0 None False None None lg = logged lg"
proof -
  assume ok: "log_ok lg"
  have "\<forall>e \<in> set (logged lg). 0 \<le> event_id e \<and> event_id e < cur_id lg"
    using ok by (auto simp: in_set_conv_nth log_ok_def cur_id_def)
  then show ?thesis by (auto simp: search_events_def Let_def filter_id_conv)
qed

lemma search_in_range:
  "e \<in> set (search_events s t r f l lg) \<Longrightarrow>
     e \<in> set (logged lg) \<and> s \<le> event_id e \<and>
     event_id e < (case t of None \<Rightarrow> cur_id lg | Some i \<Rightarrow> i + 1) \<and> (\<forall>p. f = Some p \<longrightarrow> p e)"
  by (auto simp: search_events_def Let_def split: option.splits nat.splits if_splits
      dest!: in_set_takeD)

lemma search_reverse:
  "search_events s t True f None lg = rev (search_events s t False f None lg)"
  by (simp add: search_events_def Let_def rev_filter)

lemma sorted_log: "log_ok lg \<Longrightarrow> sorted (map event_id (logged lg)) \<and> distinct (map event_id (logged lg))"
  by (simp add: log_ok_ids sorted_map distinct_map inj_on_def)

lemma search_forward_sorted:
  assumes "log_ok lg"
  shows "sorted (map event_id (search_events s t False f None lg))"
    and "distinct (map event_id (search_events s t False f None lg))"
proof -
  have "search_events s t False f None lg =
      filter (\<lambda>e. (case f of None \<Rightarrow> (\<lambda>_. True) | Some p \<Rightarrow> p) e \<and> s \<le> event_id e \<and>
        event_id e < (case t of None \<Rightarrow> cur_id lg | Some i \<Rightarrow> i + 1)) (logged lg)"
    by (simp add: search_events_def Let_def filter_filter conj_commute conj_left_commute)
  then show "sorted (map event_id (search_events s t False f None lg))"
    and "distinct (map event_id (search_events s t False f None lg))"
    using sorted_log [OF assms] by (simp_all add: sorted_filter distinct_map_filter)
qed

text \<open>A run of additions: the ids of a stream that only grows through \<open>add_event\<close>.\<close>

inductive stream_reachable :: "event_log \<Rightarrow> bool" where
  start: "stream_reachable empty_log"
| add: "stream_reachable lg \<Longrightarrow> add_event now e src lg = Inr (e', lg') \<Longrightarrow> stream_reachable lg'"
| deliver: "stream_reachable lg \<Longrightarrow> queued lg = e # q \<Longrightarrow> stream_reachable (lg\<lparr>queued := q\<rparr>)"

lemma reachable_log_ok: "stream_reachable lg \<Longrightarrow> log_ok lg"
proof (induction rule: stream_reachable.induct)
  case start
  show ?case by simp
next
  case (add lg now e src e' lg')
  then show ?case by (blast intro: add_event_ok)
next
  case (deliver lg e q)
  then show ?case by (simp add: log_ok_def)
qed

text \<open>What is still queued is the end of what was logged, in order: no event is lost or
  delivered out of order.\<close>

lemma reachable_queue_suffix: "stream_reachable lg \<Longrightarrow> suffix (queued lg) (logged lg)"
proof (induction rule: stream_reachable.induct)
  case start
  show ?case by (simp add: empty_log_def)
next
  case (add lg now e src e' lg')
  then show ?case by (auto simp: suffix_def dest!: add_event_Inr(3))
next
  case (deliver lg e q)
  then show ?case by (auto simp: suffix_def)
qed

end
