(* ===== verification/State_Tracker.thy ===== *)
theory State_Tracker
  imports Conversation_Stats Event_Log "HOL-Library.Product_Lexorder"
begin

text \<open>
  The tracker of an agent's state (\<open>openhands/controller/state/state_tracker.py\<close>): the filter of
  the agent's history, the history rebuilt from the event stream (without what happened inside a
  delegation), the control flags and saving.
\<close>

record tracker =
  trk_sid :: "string option"
  trk_has_file_store :: bool
  trk_user_id :: "string option"

definition agent_history_filter :: event_filter where
  "agent_history_filter = default_filter
     \<lparr>exclude_types := Some [is_null_action, is_null_observation, is_change_state_action,
                           is_state_changed_observation],
      exclude_hidden := True\<rparr>"

text \<open>The filter has no query, so the text of the event is not looked at.\<close>

definition in_history :: "event \<Rightarrow> bool" where
  "in_history e = filter_include (\<lambda>_. []) agent_history_filter e"

definition remove_suffix :: "string \<Rightarrow> string \<Rightarrow> string" where
  "remove_suffix s suf = (if suf \<noteq> [] \<and> suffix suf s then take (length s - length suf) s else s)"

definition set_initial_state ::
  "string \<Rightarrow> string option \<Rightarrow> conv_state option \<Rightarrow> int \<Rightarrow> rat option \<Rightarrow> bool \<Rightarrow> conv_state" where
  "set_initial_state ident uid st max_iterations max_budget confirmation =
     (case st of
        None \<Rightarrow> new_state
          \<lparr>session_id := remove_suffix ident ''-delegate'', user_id := uid, inputs := [],
           has_conversation_stats := True, iteration_flag := new_iteration_flag max_iterations,
           budget_flag := (case max_budget of
               None \<Rightarrow> None | Some b \<Rightarrow> if b = 0 then None else Some (new_budget_flag b)),
           confirmation_mode := confirmation, start_id := 0\<rparr>
      | Some s \<Rightarrow> s\<lparr>start_id := (if start_id s \<le> -1 then 0 else start_id s),
                    has_conversation_stats := True\<rparr>)"

section \<open>The history\<close>

text \<open>The loop that pairs delegate observations with the latest unmatched delegate action; the
  stack of unmatched ids has its top first.\<close>

fun delegate_ranges :: "event list \<Rightarrow> int list \<Rightarrow> (int \<times> int) list" where
  "delegate_ranges [] stack = []"
| "delegate_ranges (e # es) stack =
     (if is_delegate_action e then delegate_ranges es (event_id e # stack)
      else if is_delegate_observation e
      then (case stack of
              [] \<Rightarrow> delegate_ranges es []
            | a # rest \<Rightarrow> (a, event_id e) # delegate_ranges es rest)
      else delegate_ranges es stack)"

text \<open>The loop over the sorted ranges.\<close>

fun skip_ranges :: "event list \<Rightarrow> nat \<Rightarrow> (int \<times> int) list \<Rightarrow> event list" where
  "skip_ranges events current_idx [] = drop current_idx events"
| "skip_ranges events current_idx ((s, t) # rs) =
     filter (\<lambda>e. event_id e < s) (drop current_idx events) @
     filter (\<lambda>e. event_id e \<in> {s, t}) events @
     skip_ranges events
       (case index_where (\<lambda>e. event_id e > t) events of Some i \<Rightarrow> i | None \<Rightarrow> length events) rs"

definition history_bounds :: "conv_state \<Rightarrow> event_log \<Rightarrow> int \<times> int" where
  "history_bounds s lg =
     (if start_id s \<ge> 0 then start_id s else 0,
      if end_id s \<ge> 0 then end_id s else get_latest_event_id lg)"

text \<open>The names \<open>start_id\<close> and \<open>end_id\<close> of the bounds are also the variables of the loop over the
  ranges, so what is written back at the end is the start of the last range.\<close>

definition init_history :: "event_log \<Rightarrow> conv_state \<Rightarrow> conv_state" where
  "init_history lg s =
     (let (first, final) = history_bounds s lg
      in if first > final + 1 then s\<lparr>history := []\<rparr>
         else let events = search_events first (Some final) False (Some in_history) None lg;
                  ranges = delegate_ranges events []
              in if ranges \<noteq> []
                 then s\<lparr>history := skip_ranges events 0 (sort ranges),
                        start_id := fst (last (sort ranges))\<rparr>
                 else s\<lparr>history := events, start_id := first\<rparr>)"

definition close_history :: "event_log \<Rightarrow> conv_state \<Rightarrow> conv_state" where
  "close_history lg s =
     (let (first, final) = history_bounds s lg
      in s\<lparr>history := search_events first (Some final) False (Some in_history) None lg\<rparr>)"

definition add_history :: "event \<Rightarrow> conv_state \<Rightarrow> conv_state" where
  "add_history e s = (if in_history e then s\<lparr>history := history s @ [e]\<rparr> else s)"

section \<open>The control flags\<close>

definition maybe_increase_control_flags_limits :: "bool \<Rightarrow> conv_state \<Rightarrow> conv_state" where
  "maybe_increase_control_flags_limits headless s =
     s\<lparr>iteration_flag := iteration_increase_limit headless (iteration_flag s),
       budget_flag := map_option (budget_increase_limit headless) (budget_flag s)\<rparr>"

text \<open>The iteration is counted before the budget is looked at.\<close>

definition run_control_flags :: "(conv_state, unit) op" where
  "run_control_flags s =
     (let (r, f) = iteration_step (iteration_flag s); s1 = s\<lparr>iteration_flag := f\<rparr>
      in case r of
           Inl e \<Rightarrow> (Inl e, s1)
         | Inr _ \<Rightarrow> (case budget_flag s1 of
              None \<Rightarrow> (Inr (), s1)
            | Some b \<Rightarrow> (let (r', b') = budget_step b in (r', s1\<lparr>budget_flag := Some b'\<rparr>))))"

definition sync_budget_flag_with_metrics :: "conversation_stats \<Rightarrow> conv_state \<Rightarrow> conv_state" where
  "sync_budget_flag_with_metrics cs s =
     (if budget_flag s \<noteq> None \<and> has_conversation_stats s
      then s\<lparr>budget_flag := map_option
              (\<lambda>b. b\<lparr>current_value := accumulated_cost (get_combined_metrics cs)\<rparr>) (budget_flag s)\<rparr>
      else s)"

definition save_state ::
  "tracker \<Rightarrow> conversation_stats \<Rightarrow> conv_state \<Rightarrow> saved_file mem_store \<Rightarrow> saved_file mem_store" where
  "save_state trk cs s files =
     (let files1 = (case trk_sid trk of
            Some (c # sid) \<Rightarrow> if trk_has_file_store trk
              then save_to_session (c # sid) (trk_user_id trk) s files else files
          | _ \<Rightarrow> files)
      in if has_conversation_stats s then save_metrics cs files1 else files1)"

section \<open>The filter\<close>

lemma in_history_iff:
  "in_history e \<longleftrightarrow> \<not> is_null_action e \<and> \<not> is_null_observation e \<and>
     \<not> is_change_state_action e \<and> \<not> is_state_changed_observation e \<and> \<not> hidden_event e"
  by (auto simp: in_history_def filter_include_iff agent_history_filter_def default_filter_def
      isinstance_of_def truthy_def)

lemma add_history_kept:
  "\<forall>e \<in> set (history s). in_history e \<Longrightarrow> \<forall>x \<in> set (history (add_history e s)). in_history x"
  by (auto simp: add_history_def)

section \<open>Delegations\<close>

text \<open>
  Delegations that do not overlap: between a delegate action and its observation there is no
  other, and after the last pair an unfinished delegation may stand open. The second argument is
  the list of ranges, the third what the history keeps.
\<close>

inductive delegations :: "event list \<Rightarrow> (int \<times> int) list \<Rightarrow> event list \<Rightarrow> bool" where
  none: "\<forall>e \<in> set es. \<not> is_delegate_observation e \<Longrightarrow> delegations es [] es"
| pair: "\<forall>e \<in> set (pre @ mid). \<not> is_delegate_action e \<and> \<not> is_delegate_observation e \<Longrightarrow>
     is_delegate_action a \<Longrightarrow> is_delegate_observation ob \<Longrightarrow> delegations rest rs kept \<Longrightarrow>
     delegations (pre @ a # mid @ ob # rest) ((event_id a, event_id ob) # rs) (pre @ a # ob # kept)"

inductive_cases delegationsE: "delegations es rs kept"

definition inside :: "(int \<times> int) list \<Rightarrow> event \<Rightarrow> bool" where
  "inside rs e \<longleftrightarrow> (\<exists>(s, t) \<in> set rs. s < event_id e \<and> event_id e < t)"

lemma delegate_ranges_plain:
  "\<forall>e \<in> set xs. \<not> is_delegate_action e \<and> \<not> is_delegate_observation e \<Longrightarrow>
     delegate_ranges (xs @ ys) stack = delegate_ranges ys stack"
  by (induction xs) auto

lemma delegate_ranges_open:
  "\<forall>e \<in> set es. \<not> is_delegate_observation e \<Longrightarrow> delegate_ranges es stack = []"
  by (induction es arbitrary: stack) auto

lemma observation_not_delegate_action: "is_delegate_observation e \<Longrightarrow> \<not> is_delegate_action e"
  using class_kind(6,11) by blast

lemma delegations_ranges: "delegations es rs kept \<Longrightarrow> delegate_ranges es [] = rs"
proof (induction rule: delegations.induct)
  case (none es)
  then show ?case by (rule delegate_ranges_open)
next
  case (pair pre mid a ob rest rs kept)
  have "delegate_ranges (pre @ a # mid @ ob # rest) [] = delegate_ranges (a # mid @ ob # rest) []"
    by (rule delegate_ranges_plain) (use pair(1) in auto)
  also have "\<dots> = delegate_ranges (mid @ ob # rest) [event_id a]"
    using pair(2) by simp
  also have "\<dots> = delegate_ranges (ob # rest) [event_id a]"
    by (rule delegate_ranges_plain) (use pair(1) in auto)
  also have "\<dots> = (event_id a, event_id ob) # rs"
    using pair(3,5) observation_not_delegate_action [OF pair(3)] by simp
  finally show ?case .
qed

lemma delegations_bounds:
  "delegations es rs kept \<Longrightarrow> set kept \<subseteq> set es \<and>
     (\<forall>(s, t) \<in> set rs. (\<exists>e \<in> set es. event_id e = s) \<and> (\<exists>e \<in> set es. event_id e = t))"
  by (induction rule: delegations.induct) auto

text \<open>With ascending ids the ranges come out sorted and what is kept is what lies in none.\<close>

lemma ascending_ids_less:
  "sorted_wrt (<) (map event_id (xs @ ys)) \<Longrightarrow> x \<in> set xs \<Longrightarrow> y \<in> set ys \<Longrightarrow> event_id x < event_id y"
  by (auto simp: sorted_wrt_append)

lemma delegations_sorted:
  "delegations es rs kept \<Longrightarrow> sorted_wrt (<) (map event_id es) \<Longrightarrow> sorted rs"
proof (induction rule: delegations.induct)
  case (none es)
  show ?case by simp
next
  case (pair pre mid a ob rest rs kept)
  have "sorted_wrt (<) (map event_id ((pre @ [a]) @ (mid @ ob # rest)))" using pair(6) by simp
  then have "\<forall>e \<in> set rest. event_id a < event_id e"
    using ascending_ids_less [of "pre @ [a]" "mid @ ob # rest" a] by auto
  moreover have "sorted_wrt (<) (map event_id rest)"
    using pair(6) by (simp add: sorted_wrt_append)
  moreover have "(event_id a, event_id ob) \<le> r" if r: "r \<in> set rs" for r
  proof -
    obtain s t where st: "r = (s, t)" by fastforce
    then obtain e where "e \<in> set rest" "event_id e = s"
      using delegations_bounds [OF pair(4)] r by blast
    then have "event_id a < s" using calculation(1) by blast
    then show ?thesis by (simp add: st)
  qed
  ultimately show ?case using pair(5) by simp
qed

lemma delegations_kept:
  "delegations es rs kept \<Longrightarrow> sorted_wrt (<) (map event_id es) \<Longrightarrow>
     kept = filter (\<lambda>e. \<not> inside rs e) es"
proof (induction rule: delegations.induct)
  case (none es)
  show ?case by (simp add: inside_def filter_True)
next
  case (pair pre mid a ob rest rs kept)
  let ?rs = "(event_id a, event_id ob) # rs"
  have srt: "sorted_wrt (<) (map event_id (pre @ a # mid @ ob # rest))" using pair(6) .
  have lt: "\<forall>x \<in> set pre. event_id x < event_id a" "\<forall>x \<in> set mid. event_id a < event_id x"
    "\<forall>x \<in> set mid. event_id x < event_id ob" "event_id a < event_id ob"
    "\<forall>x \<in> set rest. event_id ob < event_id x"
    using srt by (auto simp: sorted_wrt_append)
  have starts: "\<forall>(s, t) \<in> set rs. event_id ob < s"
    using delegations_bounds [OF pair(4)] lt(5) by fastforce
  have "filter (\<lambda>e. \<not> inside ?rs e) pre = pre"
    using lt(1,4) starts by (fastforce simp: filter_id_conv inside_def)
  moreover have "filter (\<lambda>e. \<not> inside ?rs e) mid = []"
    using lt(2,3) by (auto simp: filter_empty_conv inside_def)
  moreover have "\<not> inside ?rs a" "\<not> inside ?rs ob"
    using lt(4) starts by (fastforce simp: inside_def)+
  moreover have "filter (\<lambda>e. \<not> inside ?rs e) rest = filter (\<lambda>e. \<not> inside rs e) rest"
    using lt(4,5) by (intro filter_cong) (auto simp: inside_def)
  moreover have "kept = filter (\<lambda>e. \<not> inside rs e) rest"
    using pair(5) srt by (simp add: sorted_wrt_append)
  ultimately show ?case by simp
qed

lemma index_where_append:
  "\<forall>e \<in> set xs. \<not> p e \<Longrightarrow> index_where p (xs @ ys) = map_option ((+) (length xs)) (index_where p ys)"
  by (induction xs) (auto simp: option.map_comp o_def map_option_case split: option.splits)

lemma skip_delegations:
  "delegations rest rs kept \<Longrightarrow> events = before @ rest \<Longrightarrow> sorted_wrt (<) (map event_id events) \<Longrightarrow>
     skip_ranges events (length before) rs = kept"
proof (induction arbitrary: before rule: delegations.induct)
  case (none es)
  then show ?case by simp
next
  case (pair pre mid a ob rest rs kept)
  have srt: "sorted_wrt (<) (map event_id (before @ pre @ a # mid @ ob # rest))"
    using pair(6,7) by simp
  then have lt: "\<forall>x \<in> set before \<union> set pre. event_id x < event_id a" "\<forall>x \<in> set mid. event_id a < event_id x"
    "\<forall>x \<in> set before \<union> set pre \<union> set mid. event_id x < event_id ob" "event_id a < event_id ob"
    "\<forall>x \<in> set rest. event_id ob < event_id x"
    by (auto simp: sorted_wrt_append)
  then have rest: "\<forall>x \<in> set rest. event_id a < event_id x" by (meson less_trans)
  have 1: "filter (\<lambda>e. event_id e < event_id a) (drop (length before) events) = pre"
  proof -
    have "filter (\<lambda>e. event_id e < event_id a) pre = pre" "filter (\<lambda>e. event_id e < event_id a) mid = []"
      "filter (\<lambda>e. event_id e < event_id a) rest = []"
      using lt rest by (auto simp: filter_id_conv filter_empty_conv dest: less_asym)
    then show ?thesis using lt(4) by (simp add: pair(6))
  qed
  have 2: "filter (\<lambda>e. event_id e \<in> {event_id a, event_id ob}) events = [a, ob]"
  proof -
    have "filter (\<lambda>e. event_id e \<in> {event_id a, event_id ob}) xs = []"
      if "\<forall>x \<in> set xs. event_id x \<noteq> event_id a \<and> event_id x \<noteq> event_id ob" for xs
      using that by (auto simp: filter_empty_conv)
    moreover have "\<forall>x \<in> set xs. event_id x \<noteq> event_id a \<and> event_id x \<noteq> event_id ob"
      if "xs \<in> {before, pre, mid, rest}" for xs
      using that lt(1-3,5) rest by (metis UnI1 UnI2 empty_iff insert_iff less_irrefl)
    ultimately have "filter (\<lambda>e. event_id e \<in> {event_id a, event_id ob}) xs = []"
      if "xs \<in> {before, pre, mid, rest}" for xs
      using that by blast
    then show ?thesis by (simp add: pair(6))
  qed
  have 3: "(case index_where (\<lambda>e. event_id e > event_id ob) events of Some i \<Rightarrow> i | None \<Rightarrow> length events) =
      length (before @ pre @ a # mid @ [ob])"
  proof -
    have "\<forall>e \<in> set (before @ pre @ a # mid @ [ob]). \<not> event_id e > event_id ob"
      using lt by (auto dest: less_asym)
    from index_where_append [OF this, of rest]
    have "index_where (\<lambda>e. event_id e > event_id ob) events =
        map_option ((+) (length (before @ pre @ a # mid @ [ob]))) (index_where (\<lambda>e. event_id e > event_id ob) rest)"
      by (simp add: pair(6))
    then show ?thesis using lt(5) by (cases rest) (simp_all add: pair(6))
  qed
  have 4: "skip_ranges events (length (before @ pre @ a # mid @ [ob])) rs = kept"
    by (rule pair(5)) (use pair(6,7) in simp_all)
  show ?case
    unfolding skip_ranges.simps 1 2 3 4 by simp
qed

lemma init_history_delegations:
  assumes "log_ok lg" and "history_bounds s lg = (first, final)" and "first \<le> final + 1"
    and "search_events first (Some final) False (Some in_history) None lg = events"
    and "delegations events rs kept"
  shows "history (init_history lg s) = filter (\<lambda>e. \<not> inside rs e) events"
    and "start_id (init_history lg s) = (if rs = [] then first else fst (last rs))"
proof -
  have asc: "sorted_wrt (<) (map event_id events)"
    using search_forward_sorted [OF assms(1), of first "Some final" "Some in_history"]
    by (simp add: assms(4) strict_sorted_iff)
  have rs: "delegate_ranges events [] = rs" "sort rs = rs"
    using delegations_ranges [OF assms(5)] delegations_sorted [OF assms(5) asc]
    by (simp_all add: sorted_sort_id)
  have kept: "skip_ranges events 0 rs = filter (\<lambda>e. \<not> inside rs e) events"
    using skip_delegations [OF assms(5), of events "[]"] delegations_kept [OF assms(5) asc] asc by simp
  have empty: "rs = [] \<Longrightarrow> filter (\<lambda>e. \<not> inside rs e) events = events"
    by (simp add: inside_def filter_True)
  show "history (init_history lg s) = filter (\<lambda>e. \<not> inside rs e) events"
    "start_id (init_history lg s) = (if rs = [] then first else fst (last rs))"
    using assms(2,3) kept empty by (auto simp: init_history_def assms(4) rs Let_def)
qed

text \<open>What a second initialisation (after a restart from the saved state) can still see.\<close>

lemma init_history_after_start:
  assumes "e \<in> set (history (init_history lg s))" and "0 \<le> start_id s"
  shows "start_id s \<le> event_id e"
proof -
  have sub: "set (skip_ranges es n rs) \<subseteq> set es" for es n rs
    by (induction es n rs rule: skip_ranges.induct) (auto dest: in_set_dropD)
  obtain first final where b: "history_bounds s lg = (first, final)" by fastforce
  then have first: "first = start_id s" using assms(2) by (simp add: history_bounds_def)
  have "e \<in> set (search_events first (Some final) False (Some in_history) None lg)"
    using assms(1) b sub by (auto simp: init_history_def Let_def split: if_splits)
  from search_in_range [OF this] first show ?thesis by simp
qed

section \<open>The flags\<close>

lemma run_control_flags_result:
  "(fst (run_control_flags s) = Inr () \<longleftrightarrow>
     current_value (iteration_flag s) < max_value (iteration_flag s) \<and>
     (\<forall>b. budget_flag s = Some b \<longrightarrow> current_value b < max_value b))"
proof -
  have it: "fst (iteration_step f) = Inr () \<longleftrightarrow> current_value f < max_value f" for f
    by (rule iter.step_ok_iff)
  have bu: "fst (budget_step f) = Inr () \<longleftrightarrow> current_value f < max_value f" for f
    by (rule budg.step_ok_iff)
  show ?thesis
  proof (cases "fst (iteration_step (iteration_flag s))")
    case (Inl e)
    with it [of "iteration_flag s"] show ?thesis
      by (cases "iteration_step (iteration_flag s)") (simp add: run_control_flags_def)
  next
    case (Inr u)
    with it [of "iteration_flag s"] bu show ?thesis
      by (cases "iteration_step (iteration_flag s)"; cases "budget_flag s")
        (auto simp: run_control_flags_def case_prod_unfold Let_def)
  qed
qed

lemma run_control_flags_values:
  "max_value (iteration_flag (snd (run_control_flags s))) = max_value (iteration_flag s)"
  "current_value (iteration_flag (snd (run_control_flags s))) =
     (if current_value (iteration_flag s) < max_value (iteration_flag s)
      then current_value (iteration_flag s) + 1 else current_value (iteration_flag s))"
proof -
  let ?f = "iteration_flag s"
  have "iteration_flag (snd (run_control_flags s)) = snd (iteration_step ?f)"
    by (cases "iteration_step ?f"; cases "budget_flag s")
      (auto simp: run_control_flags_def case_prod_unfold Let_def split: sum.splits)
  with iter.step_result [of ?f]
  show "max_value (iteration_flag (snd (run_control_flags s))) = max_value ?f"
    "current_value (iteration_flag (snd (run_control_flags s))) =
     (if current_value ?f < max_value ?f then current_value ?f + 1 else current_value ?f)"
    by auto
qed

lemma run_control_flags_frame:
  "snd (run_control_flags s) = s\<lparr>iteration_flag := iteration_flag (snd (run_control_flags s)),
     budget_flag := budget_flag (snd (run_control_flags s))\<rparr>"
  by (auto simp: run_control_flags_def Let_def case_prod_unfold split: sum.splits option.splits)

end
