(* ===== verification/Stuck.thy ===== *)
theory Stuck
  imports Events
begin

text \<open>
  The detector of loops in a history (\<open>openhands/controller/stuck.py\<close>). Everything it does is a
  function of the list of events; the field \<open>stuck_analysis\<close> is passed in and out.
\<close>

record stuck_analysis =
  loop_type :: string
  loop_repeat_times :: int
  loop_start_idx :: int

section \<open>Comparing events\<close>

definition newline_char :: char where
  "newline_char = CHR 0x0A"

definition code_lines :: "string \<Rightarrow> string list" where
  "code_lines s = split_on newline_char s"

definition eq_no_pid :: "event \<Rightarrow> event \<Rightarrow> bool" where
  "eq_no_pid e f = (case (payload e, payload f) of
     (Act (IPythonRunCellAction c _ _ _ _ _), Act (IPythonRunCellAction d _ _ _ _ _)) \<Rightarrow>
       (if occurs_in ''edit_file_by_replace('' c \<and> occurs_in ''edit_file_by_replace('' d
        then length (code_lines c) > 2 \<and> take 3 (code_lines c) = take 3 (code_lines d)
        else event_eq e f)
   | (Obs (CmdOutputObservation _ c m _), Obs (CmdOutputObservation _ d n _)) \<Rightarrow>
       c = d \<and> md_exit_code m = md_exit_code n
   | _ \<Rightarrow> event_eq e f)"

section \<open>The last actions and observations\<close>

text \<open>The loop over the reversed history that stops when both lists are full.\<close>

fun collect_last :: "nat \<Rightarrow> event list \<Rightarrow> event list \<Rightarrow> event list \<Rightarrow> event list \<times> event list" where
  "collect_last n as os [] = (as, os)"
| "collect_last n as os (e # es) =
     (let as' = (if is_action e \<and> length as < n then as @ [e] else as);
          os' = (if \<not> (is_action e \<and> length as < n) \<and> is_observation e \<and> length os < n
                 then os @ [e] else os)
      in if length as' = n \<and> length os' = n then (as', os') else collect_last n as' os' es)"

definition py_index :: "event list \<Rightarrow> event \<Rightarrow> int" where
  "py_index xs x = (case index_where (\<lambda>e. event_eq e x) xs of Some i \<Rightarrow> int i | None \<Rightarrow> -1)"

section \<open>The scenarios\<close>

definition repeating_action_observation ::
  "event list \<Rightarrow> event list \<Rightarrow> event list \<Rightarrow> int \<Rightarrow> stuck_analysis option" where
  "repeating_action_observation last_actions last_observations fh offset =
     (if length last_actions = 4 \<and> length last_observations = 4 \<and>
         list_all (eq_no_pid (last_actions ! 0)) last_actions \<and>
         list_all (eq_no_pid (last_observations ! 0)) last_observations
      then Some \<lparr>loop_type = ''repeating_action_observation'', loop_repeat_times = 4,
                 loop_start_idx = py_index fh (last last_actions) + offset\<rparr>
      else None)"

definition is_error_observation :: "event \<Rightarrow> bool" where
  "is_error_observation e = (case payload e of Obs (ErrorObservation _ _) \<Rightarrow> True | _ \<Rightarrow> False)"

definition is_ipython_observation :: "event \<Rightarrow> bool" where
  "is_ipython_observation e = (case payload e of Obs (IPythonRunCellObservation _ _ _) \<Rightarrow> True | _ \<Rightarrow> False)"

definition obs_content :: "event \<Rightarrow> string" where
  "obs_content e = (case payload e of Obs ob \<Rightarrow> o_content ob | _ \<Rightarrow> [])"

definition content_lines :: "event \<Rightarrow> string list" where
  "content_lines e = code_lines (py_strip (obs_content e))"

text \<open>\<open>lines[-k]\<close> on at least \<open>k\<close> lines.\<close>

definition from_end :: "'a list \<Rightarrow> nat \<Rightarrow> 'a" where
  "from_end xs k = xs ! (length xs - k)"

definition startswith :: "string \<Rightarrow> string \<Rightarrow> bool" where
  "startswith s p = prefix p s"

definition consistent_invalid_syntax :: "event list \<Rightarrow> string \<Rightarrow> bool" where
  "consistent_invalid_syntax observations error_message =
     (if list_ex (\<lambda>ob. length (content_lines ob) < 6 \<or>
           \<not> startswith (py_strip (content_lines ob ! 0)) ''Cell In[1], line'') observations
      then False
      else let first_lines = map (\<lambda>ob. py_strip (content_lines ob ! 0)) observations;
               valid = filter (\<lambda>ob. let lines = content_lines ob in
                 startswith (from_end lines 1) ''[Jupyter Python interpreter:'' \<and>
                 startswith (from_end lines 2) ''[Jupyter current working directory:'' \<and>
                 occurs_in error_message (from_end lines 3)) observations
           in length (remdups first_lines) = 1 \<and> length valid = 3 \<and>
              length (remdups (map (\<lambda>ob. from_end (content_lines ob) 3) valid)) = 1)"

definition consistent_line_error :: "event list \<Rightarrow> string \<Rightarrow> bool" where
  "consistent_line_error observations error_message =
     (if list_ex (\<lambda>ob. let lines = content_lines ob in length lines < 3 \<or>
           \<not> (startswith (from_end lines 2) ''[Jupyter current working directory:'' \<and>
              startswith (from_end lines 1) ''[Jupyter Python interpreter:'')) observations
      then False
      else let error_lines = filter (occurs_in error_message)
                 (map (\<lambda>ob. from_end (content_lines ob) 3) observations)
           in length error_lines = 3 \<and> length (remdups error_lines) = 1)"

definition SYNTAX_ERROR_MESSAGES :: "string list" where
  "SYNTAX_ERROR_MESSAGES =
     [''SyntaxError: unterminated string literal (detected at line'',
      ''SyntaxError: invalid syntax. Perhaps you forgot a comma?'',
      ''SyntaxError: incomplete input'']"

definition syntax_error_loop :: "event list \<Rightarrow> string \<Rightarrow> bool" where
  "syntax_error_loop observations error_message =
     (if startswith error_message ''SyntaxError: unterminated string literal (detected at line''
      then consistent_line_error observations error_message
      else error_message \<in> {''SyntaxError: invalid syntax. Perhaps you forgot a comma?'',
                            ''SyntaxError: incomplete input''} \<and>
           consistent_invalid_syntax observations error_message)"

definition repeating_action_error ::
  "event list \<Rightarrow> event list \<Rightarrow> event list \<Rightarrow> int \<Rightarrow> stuck_analysis option" where
  "repeating_action_error last_actions last_observations fh offset =
     (if length last_actions < 3 \<or> length last_observations < 3 then None
      else if list_all (eq_no_pid (last_actions ! 0)) (take 3 last_actions) \<and>
          (if list_all is_error_observation (take 3 last_observations) then True
           else list_all is_ipython_observation (take 3 last_observations) \<and>
                list_ex (syntax_error_loop (take 3 last_observations)) SYNTAX_ERROR_MESSAGES)
      then Some \<lparr>loop_type = ''repeating_action_error'', loop_repeat_times = 3,
                 loop_start_idx = py_index fh (last last_actions) + offset\<rparr>
      else None)"

definition stuck_monologue :: "event list \<Rightarrow> int \<Rightarrow> stuck_analysis option" where
  "stuck_monologue fh offset =
     (let agent_messages = filter (\<lambda>(i, e). is_agent_message e) (enumerate 0 fh)
      in if length agent_messages \<ge> 3
         then let last3 = drop (length agent_messages - 3) agent_messages;
                  start_index = fst (last3 ! 0); end_index = fst (last3 ! 2)
              in if list_all (\<lambda>(i, e). event_eq (snd (last3 ! 0)) e) last3 \<and>
                    \<not> list_ex is_observation (py_slice fh (int start_index + 1) (int end_index))
                 then Some \<lparr>loop_type = ''monologue'', loop_repeat_times = 3,
                            loop_start_idx = int start_index + offset\<rparr>
                 else None
         else None)"

definition alternating :: "event list \<Rightarrow> bool" where
  "alternating xs \<longleftrightarrow>
     eq_no_pid (xs ! 0) (xs ! 2) \<and> eq_no_pid (xs ! 0) (xs ! 4) \<and>
     eq_no_pid (xs ! 1) (xs ! 3) \<and> eq_no_pid (xs ! 1) (xs ! 5)"

definition action_observation_pattern :: "event list \<Rightarrow> int \<Rightarrow> stuck_analysis option" where
  "action_observation_pattern fh offset =
     (let (actions, observations) = collect_last 6 [] [] (rev fh)
      in if length actions = 6 \<and> length observations = 6 \<and>
            alternating actions \<and> alternating observations
         then Some \<lparr>loop_type = ''repeating_action_observation_pattern'', loop_repeat_times = 3,
                    loop_start_idx = py_index fh (last actions) + offset\<rparr>
         else None)"

text \<open>The loop over the pairs of neighbours among the last ten condensation observations.\<close>

fun adjacent_condensations :: "event list \<Rightarrow> nat list \<Rightarrow> nat option" where
  "adjacent_condensations fh (i # j # is) =
     (if list_ex (\<lambda>e. \<not> is_condensation_observation e) (py_slice fh (int i + 1) (int j))
      then adjacent_condensations fh (j # is) else Some i)"
| "adjacent_condensations fh _ = None"

definition context_window_error :: "event list \<Rightarrow> int \<Rightarrow> stuck_analysis option" where
  "context_window_error fh offset =
     (let condensations = map fst (filter (\<lambda>(i, e). is_condensation_observation e) (enumerate 0 fh))
      in if length condensations < 10 then None
         else map_option (\<lambda>i. \<lparr>loop_type = ''context_window_error'', loop_repeat_times = 2,
                               loop_start_idx = int i + offset\<rparr>)
                (adjacent_condensations fh (drop (length condensations - 10) condensations)))"

section \<open>The detector\<close>

text \<open>The position of the last user message, \<open>-1\<close> if there is none.\<close>

definition last_user_message_index :: "event list \<Rightarrow> int" where
  "last_user_message_index history =
     (case index_where is_user_message (rev history) of
        Some i \<Rightarrow> int (length history) - int i - 1
      | None \<Rightarrow> -1)"

definition filtered_history_offset :: "bool \<Rightarrow> event list \<Rightarrow> int" where
  "filtered_history_offset headless_mode history =
     (if headless_mode then 0 else last_user_message_index history + 1)"

definition filtered_history :: "bool \<Rightarrow> event list \<Rightarrow> event list" where
  "filtered_history headless_mode history =
     filter (\<lambda>e. \<not> (is_user_message e \<or> is_null_action e \<or> is_null_observation e))
       (slice_from history (filtered_history_offset headless_mode history))"

definition or_else :: "'a option \<Rightarrow> 'a option \<Rightarrow> 'a option" where
  "or_else x y = (case x of Some _ \<Rightarrow> x | None \<Rightarrow> y)"

text \<open>The answer and the new value of \<open>stuck_analysis\<close>; a short history leaves it as it was.\<close>

definition is_stuck ::
  "bool \<Rightarrow> event list \<Rightarrow> stuck_analysis option \<Rightarrow> bool \<times> stuck_analysis option" where
  "is_stuck headless_mode history analysis =
     (let offset = filtered_history_offset headless_mode history;
          fh = filtered_history headless_mode history
      in if length fh < 3 then (False, analysis)
         else let (last_actions, last_observations) = collect_last 4 [] [] (rev fh);
                  found =
                    or_else (repeating_action_observation last_actions last_observations fh offset)
                   (or_else (repeating_action_error last_actions last_observations fh offset)
                   (or_else (stuck_monologue fh offset)
                   (or_else (if length fh \<ge> 6 then action_observation_pattern fh offset else None)
                            (if length fh \<ge> 10 then context_window_error fh offset else None))))
              in (found \<noteq> None, found))"

section \<open>What the loops compute\<close>

lemma collect_last_eq:
  "length as \<le> n \<Longrightarrow> length os \<le> n \<Longrightarrow> length as < n \<or> length os < n \<Longrightarrow> collect_last n as os es =
     (take n (as @ filter is_action es), take n (os @ filter is_observation es))"
proof (induction n as os es rule: collect_last.induct)
  case (1 n as os)
  then show ?case by simp
next
  case (2 n as os e es)
  define as' where "as' = (if is_action e \<and> length as < n then as @ [e] else as)"
  define os' where "os' = (if \<not> (is_action e \<and> length as < n) \<and> is_observation e \<and> length os < n
                 then os @ [e] else os)"
  have len: "length as' \<le> n" "length os' \<le> n"
    using 2(2,3) by (auto simp: as'_def os'_def)
  have a: "take n (as' @ filter is_action es) = take n (as @ filter is_action (e # es))"
    using 2(2) by (auto simp: as'_def take_Cons')
  have b: "take n (os' @ filter is_observation es) = take n (os @ filter is_observation (e # es))"
    using 2(3) by (auto simp: os'_def observation_not_action take_Cons')
  have step: "collect_last n as os (e # es) =
      (if length as' = n \<and> length os' = n then (as', os') else collect_last n as' os' es)"
    by (simp only: collect_last.simps Let_def as'_def os'_def)
  show ?case unfolding step
  proof (cases "length as' = n \<and> length os' = n")
    case True
    then have "take n (as' @ filter is_action es) = as'" "take n (os' @ filter is_observation es) = os'"
      by simp_all
    with True a b show "(if length as' = n \<and> length os' = n then (as', os') else collect_last n as' os' es) =
        (take n (as @ filter is_action (e # es)), take n (os @ filter is_observation (e # es)))"
      by (simp only: simp_thms if_True)
  next
    case False
    with len have "length as' < n \<or> length os' < n" by linarith
    from 2(1) [OF as'_def os'_def False len this] False a b
    show "(if length as' = n \<and> length os' = n then (as', os') else collect_last n as' os' es) =
        (take n (as @ filter is_action (e # es)), take n (os @ filter is_observation (e # es)))"
      by (simp only: if_False)
  qed
qed

definition last_actions :: "nat \<Rightarrow> event list \<Rightarrow> event list" where
  "last_actions n fh = take n (filter is_action (rev fh))"

definition last_observations :: "nat \<Rightarrow> event list \<Rightarrow> event list" where
  "last_observations n fh = take n (filter is_observation (rev fh))"

lemma collect_last_of:
  "0 < n \<Longrightarrow> collect_last n [] [] (rev fh) = (last_actions n fh, last_observations n fh)"
  by (simp add: collect_last_eq last_actions_def last_observations_def)

lemma last_actions_in: "set (last_actions n fh) \<subseteq> set fh"
  by (auto simp: last_actions_def dest: in_set_takeD)

lemma py_index_bounds:
  assumes "x \<in> set xs"
  shows "0 \<le> py_index xs x" and "py_index xs x < int (length xs)"
    and "event_eq (xs ! nat (py_index xs x)) x"
proof -
  obtain i where i: "index_where (\<lambda>e. event_eq e x) xs = Some i"
    using assms index_where_None [of "\<lambda>e. event_eq e x" xs] event_eq_refl [of x]
    by (cases "index_where (\<lambda>e. event_eq e x) xs") auto
  from index_where_Some [OF this] i show "0 \<le> py_index xs x" "py_index xs x < int (length xs)"
    "event_eq (xs ! nat (py_index xs x)) x"
    by (simp_all add: py_index_def)
qed

section \<open>The positions of a class of events\<close>

definition positions :: "(event \<Rightarrow> bool) \<Rightarrow> event list \<Rightarrow> nat list" where
  "positions p fh = filter (\<lambda>i. p (fh ! i)) [0..<length fh]"

lemma enumerate_filter:
  "filter (\<lambda>(i, e). p e) (enumerate 0 fh) = map (\<lambda>i. (i, fh ! i)) (positions p fh)"
proof -
  have "enumerate 0 fh = map (\<lambda>i. (i, fh ! i)) [0..<length fh]"
    by (rule nth_equalityI) (simp_all add: nth_enumerate_eq)
  then show ?thesis
    by (simp add: positions_def filter_map o_def)
qed

lemma positions_props [simp]:
  "sorted_wrt (<) (positions p fh)" "set (positions p fh) = {i. i < length fh \<and> p (fh ! i)}"
  by (auto simp: positions_def sorted_wrt_filter)

lemma positions_nth:
  assumes "i < length (positions p fh)"
  shows "positions p fh ! i < length fh" and "p (fh ! (positions p fh ! i))"
  using nth_mem [OF assms] by simp_all

lemma positions_less:
  "i < j \<Longrightarrow> j < length (positions p fh) \<Longrightarrow> positions p fh ! i < positions p fh ! j"
  using sorted_wrt_nth_less [OF positions_props(1)] by blast

lemma list_ex_between:
  "i < j \<Longrightarrow> j \<le> length fh \<Longrightarrow>
     list_ex p (py_slice fh (int i + 1) (int j)) \<longleftrightarrow> (\<exists>k. i < k \<and> k < j \<and> p (fh ! k))"
proof -
  assume ij: "i < j" "j \<le> length fh"
  have "py_slice fh (int i + 1) (int j) = take (j - Suc i) (drop (Suc i) fh)"
    using py_slice_nat [of fh "Suc i" j] by (simp add: add.commute)
  moreover have "list_ex p (take (j - Suc i) (drop (Suc i) fh)) \<longleftrightarrow> (\<exists>m < j - Suc i. p (fh ! (Suc i + m)))"
    using ij by (auto simp: list_ex_length)
  moreover have "(\<exists>m < j - Suc i. p (fh ! (Suc i + m))) \<longleftrightarrow> (\<exists>k. i < k \<and> k < j \<and> p (fh ! k))"
  proof
    assume "\<exists>k. i < k \<and> k < j \<and> p (fh ! k)"
    then obtain k where "i < k" "k < j" "p (fh ! k)" by blast
    then show "\<exists>m < j - Suc i. p (fh ! (Suc i + m))" by (intro exI [of _ "k - Suc i"]) auto
  next
    assume "\<exists>m < j - Suc i. p (fh ! (Suc i + m))"
    then obtain m where "m < j - Suc i" "p (fh ! (Suc i + m))" by blast
    then show "\<exists>k. i < k \<and> k < j \<and> p (fh ! k)" by (intro exI [of _ "Suc i + m"]) auto
  qed
  ultimately show ?thesis by simp
qed

section \<open>The scenarios, stated over positions\<close>

text \<open>The last three messages of the agent are the same and no observation is between them.\<close>

lemma monologue_iff:
  "stuck_monologue fh offset \<noteq> None \<longleftrightarrow>
     (\<exists>i j k. i < j \<and> j < k \<and> k < length fh \<and>
        is_agent_message (fh ! i) \<and> is_agent_message (fh ! j) \<and> is_agent_message (fh ! k) \<and>
        (\<forall>m. i \<le> m \<and> m < length fh \<and> is_agent_message (fh ! m) \<longrightarrow> m \<in> {i, j, k}) \<and>
        event_eq (fh ! i) (fh ! j) \<and> event_eq (fh ! i) (fh ! k) \<and>
        (\<forall>m. i < m \<and> m < k \<longrightarrow> \<not> is_observation (fh ! m)))"
  (is "_ \<longleftrightarrow> ?R")
proof -
  define P where "P = positions is_agent_message fh"
  define n where "n = length P"
  have last3: "map (\<lambda>i. (i, fh ! i)) (drop (n - 3) P) =
      [(P ! (n - 3), fh ! (P ! (n - 3))), (P ! (n - 2), fh ! (P ! (n - 2))), (P ! (n - 1), fh ! (P ! (n - 1)))]"
    if "3 \<le> n"
    using that by (intro nth_equalityI) (auto simp: n_def nth_Cons' numeral_3_eq_3 numeral_2_eq_2 less_Suc_eq)
  have eq: "stuck_monologue fh offset \<noteq> None \<longleftrightarrow> 3 \<le> n \<and>
      event_eq (fh ! (P ! (n - 3))) (fh ! (P ! (n - 2))) \<and>
      event_eq (fh ! (P ! (n - 3))) (fh ! (P ! (n - 1))) \<and>
      \<not> list_ex is_observation (py_slice fh (int (P ! (n - 3)) + 1) (int (P ! (n - 1))))"
    by (cases "3 \<le> n")
      (simp_all add: stuck_monologue_def enumerate_filter P_def [symmetric] n_def [symmetric] Let_def
        drop_map last3 split: if_splits)
  have lt: "P ! a < P ! b" if "a < b" "b < n" for a b
    using positions_less that by (simp add: P_def n_def)
  have el: "P ! a < length fh" "is_agent_message (fh ! (P ! a))" if "a < n" for a
    using positions_nth that by (auto simp: P_def n_def)
  have idx: "\<exists>a < n. m = P ! a" if "m < length fh" "is_agent_message (fh ! m)" for m
  proof -
    have "m \<in> set P" using that by (simp add: P_def)
    then show ?thesis by (auto simp: in_set_conv_nth n_def)
  qed
  show ?thesis
  proof
    assume "stuck_monologue fh offset \<noteq> None"
    then have *: "3 \<le> n" "event_eq (fh ! (P ! (n - 3))) (fh ! (P ! (n - 2)))"
      "event_eq (fh ! (P ! (n - 3))) (fh ! (P ! (n - 1)))"
      "\<not> list_ex is_observation (py_slice fh (int (P ! (n - 3)) + 1) (int (P ! (n - 1))))"
      using eq by auto
    have o1: "P ! (n - 3) < P ! (n - 2)" "P ! (n - 2) < P ! (n - 1)"
      using *(1) by (auto intro!: lt)
    have e1: "P ! (n - 1) < length fh" "is_agent_message (fh ! (P ! (n - 3)))"
      "is_agent_message (fh ! (P ! (n - 2)))" "is_agent_message (fh ! (P ! (n - 1)))"
      using *(1) by (auto intro!: el)
    have all: "m \<in> {P ! (n - 3), P ! (n - 2), P ! (n - 1)}"
      if m: "P ! (n - 3) \<le> m" "m < length fh" "is_agent_message (fh ! m)" for m
    proof -
      obtain a where a: "a < n" "m = P ! a" using idx m(2,3) by blast
      have "n - 3 \<le> a"
      proof (rule ccontr)
        assume "\<not> n - 3 \<le> a"
        then have "P ! a < P ! (n - 3)" using *(1) by (intro lt) auto
        with m(1) a(2) show False by simp
      qed
      with a(1) have "a = n - 3 \<or> a = n - 2 \<or> a = n - 1" by linarith
      with a(2) show ?thesis by auto
    qed
    have "\<forall>m. P ! (n - 3) < m \<and> m < P ! (n - 1) \<longrightarrow> \<not> is_observation (fh ! m)"
      using *(4) list_ex_between [of "P ! (n - 3)" "P ! (n - 1)" fh] o1 e1(1) by auto
    then show ?R using o1 e1 all *(2,3) by blast
  next
    assume ?R
    then obtain i j k where R: "i < j" "j < k" "k < length fh" "is_agent_message (fh ! i)"
      "is_agent_message (fh ! j)" "is_agent_message (fh ! k)"
      "\<And>m. i \<le> m \<Longrightarrow> m < length fh \<Longrightarrow> is_agent_message (fh ! m) \<Longrightarrow> m \<in> {i, j, k}"
      "event_eq (fh ! i) (fh ! j)" "event_eq (fh ! i) (fh ! k)"
      "\<And>m. i < m \<Longrightarrow> m < k \<Longrightarrow> \<not> is_observation (fh ! m)"
      by blast
    have split: "P = positions is_agent_message (take i fh) @ [i, j, k]"
    proof (rule sorted_distinct_set_unique)
      show "sorted P" "distinct P"
        using positions_props(1) by (auto simp: P_def strict_sorted_iff)
      have "sorted_wrt (<) (positions is_agent_message (take i fh) @ [i, j, k])"
        using R(1-3) by (auto simp: sorted_wrt_append)
      then show "sorted (positions is_agent_message (take i fh) @ [i, j, k])"
        "distinct (positions is_agent_message (take i fh) @ [i, j, k])"
        by (auto simp: strict_sorted_iff)
      have "m \<in> {i, j, k} \<or> m < i" if "m < length fh" "is_agent_message (fh ! m)" for m
        using R(7) [of m] that by (cases "i \<le> m") auto
      then have "set P = {m. m < i \<and> is_agent_message (fh ! m)} \<union> {i, j, k}"
        using R(1-6) by (auto simp: P_def)
      moreover have "set (positions is_agent_message (take i fh)) = {m. m < i \<and> is_agent_message (fh ! m)}"
        using R(1-3) by auto
      ultimately show "set P = set (positions is_agent_message (take i fh) @ [i, j, k])"
        by (simp del: positions_props(2))
    qed
    then have n: "n = length (positions is_agent_message (take i fh)) + 3" by (simp add: n_def)
    then have "P ! (n - 3) = i" "P ! (n - 2) = j" "P ! (n - 1) = k"
      by (simp_all add: split nth_append)
    then show "stuck_monologue fh offset \<noteq> None"
      using eq n R(8,9,10) list_ex_between [of i k fh is_observation] R(1-3) by auto
  qed
qed

text \<open>Ten condensation observations, two neighbours of the last ten directly after one another.\<close>

lemma ex_nat_cases: "(\<exists>a. P a) \<longleftrightarrow> P (0 :: nat) \<or> (\<exists>a. P (Suc a))"
  by (metis not0_implies_Suc)

lemma adjacent_iff:
  "sorted_wrt (<) is \<Longrightarrow> \<forall>i \<in> set is. i < length fh \<Longrightarrow>
     adjacent_condensations fh is \<noteq> None \<longleftrightarrow>
       (\<exists>a. Suc a < length is \<and> (\<forall>m. is ! a < m \<and> m < is ! Suc a \<longrightarrow> is_condensation_observation (fh ! m)))"
proof (induction fh "is" rule: adjacent_condensations.induct)
  case (1 fh i j js)
  have here: "list_ex (\<lambda>e. \<not> is_condensation_observation e) (py_slice fh (int i + 1) (int j)) \<longleftrightarrow>
      (\<exists>m. i < m \<and> m < j \<and> \<not> is_condensation_observation (fh ! m))"
    using 1(2,3) by (intro list_ex_between) auto
  have shift: "(\<exists>a. Suc a < length (i # j # js) \<and> (\<forall>m. (i # j # js) ! a < m \<and> m < (i # j # js) ! Suc a \<longrightarrow>
        is_condensation_observation (fh ! m))) \<longleftrightarrow>
      (\<forall>m. i < m \<and> m < j \<longrightarrow> is_condensation_observation (fh ! m)) \<or>
      (\<exists>a. Suc a < length (j # js) \<and> (\<forall>m. (j # js) ! a < m \<and> m < (j # js) ! Suc a \<longrightarrow>
        is_condensation_observation (fh ! m)))"
    by (subst ex_nat_cases) simp
  show ?case
    unfolding shift using 1 here by auto
qed simp_all

lemma adjacent_in: "adjacent_condensations fh is = Some i \<Longrightarrow> i \<in> set is"
  by (induction fh "is" rule: adjacent_condensations.induct) (auto split: if_splits)

lemma context_window_iff:
  "context_window_error fh offset \<noteq> None \<longleftrightarrow>
     (let Q = positions is_condensation_observation fh
      in length Q \<ge> 10 \<and> (\<exists>a. length Q - 10 \<le> a \<and> Suc a < length Q \<and> Q ! Suc a = Suc (Q ! a)))"
proof -
  define Q where "Q = positions is_condensation_observation fh"
  have fst: "map fst (map (\<lambda>i. (i, fh ! i)) Q) = Q" by (simp add: o_def)
  have sorted: "sorted_wrt (<) (drop n Q)" for n
    using positions_props(1) by (simp add: Q_def sorted_wrt_drop)
  have bound: "\<forall>i \<in> set (drop n Q). i < length fh" for n
    by (auto simp: Q_def dest: in_set_dropD)
  have gap: "(\<forall>m. Q ! a < m \<and> m < Q ! Suc a \<longrightarrow> is_condensation_observation (fh ! m)) \<longleftrightarrow>
      Q ! Suc a = Suc (Q ! a)" if a: "Suc a < length Q" for a
  proof
    assume all: "\<forall>m. Q ! a < m \<and> m < Q ! Suc a \<longrightarrow> is_condensation_observation (fh ! m)"
    show "Q ! Suc a = Suc (Q ! a)"
    proof (rule ccontr)
      assume "Q ! Suc a \<noteq> Suc (Q ! a)"
      then have lt: "Suc (Q ! a) < Q ! Suc a"
        using positions_less [of a "Suc a" is_condensation_observation fh] a by (simp add: Q_def)
      then have "Suc (Q ! a) \<in> set Q"
        using all positions_nth(1) [of "Suc a" is_condensation_observation fh] a by (simp add: Q_def)
      then obtain b where b: "b < length Q" "Q ! b = Suc (Q ! a)" by (auto simp: in_set_conv_nth)
      have "\<not> b \<le> a" using b(2) positions_less [of b a is_condensation_observation fh] a
        by (cases "b = a") (auto simp: Q_def)
      moreover have "\<not> Suc a < b" using b lt positions_less [of "Suc a" b is_condensation_observation fh]
        by (auto simp: Q_def)
      moreover have "b \<noteq> Suc a" using b lt by auto
      ultimately show False by linarith
    qed
  qed auto
  have "context_window_error fh offset \<noteq> None \<longleftrightarrow> 10 \<le> length Q \<and>
      adjacent_condensations fh (drop (length Q - 10) Q) \<noteq> None"
    by (simp add: context_window_error_def enumerate_filter Q_def [symmetric] fst Let_def del: map_map)
  also have "\<dots> \<longleftrightarrow> 10 \<le> length Q \<and> (\<exists>b. Suc b < 10 \<and> Q ! Suc (length Q - 10 + b) = Suc (Q ! (length Q - 10 + b)))"
  proof (cases "10 \<le> length Q")
    case True
    have "(\<forall>m. drop (length Q - 10) Q ! b < m \<and> m < drop (length Q - 10) Q ! Suc b \<longrightarrow>
          is_condensation_observation (fh ! m)) \<longleftrightarrow>
        Q ! Suc (length Q - 10 + b) = Suc (Q ! (length Q - 10 + b))" if "Suc b < 10" for b
      using gap [of "length Q - 10 + b"] True that by simp
    moreover have "length (drop (length Q - 10) Q) = 10" using True by simp
    ultimately show ?thesis unfolding adjacent_iff [OF sorted bound] by metis
  qed simp
  also have "\<dots> \<longleftrightarrow> 10 \<le> length Q \<and> (\<exists>a. length Q - 10 \<le> a \<and> Suc a < length Q \<and> Q ! Suc a = Suc (Q ! a))"
  proof (cases "10 \<le> length Q")
    case True
    have "(\<exists>b. Suc b < 10 \<and> Q ! Suc (length Q - 10 + b) = Suc (Q ! (length Q - 10 + b))) \<longleftrightarrow>
        (\<exists>a. length Q - 10 \<le> a \<and> Suc a < length Q \<and> Q ! Suc a = Suc (Q ! a))"
    proof
      assume "\<exists>a. length Q - 10 \<le> a \<and> Suc a < length Q \<and> Q ! Suc a = Suc (Q ! a)"
      then obtain a where "length Q - 10 \<le> a" "Suc a < length Q" "Q ! Suc a = Suc (Q ! a)" by blast
      with True show "\<exists>b. Suc b < 10 \<and> Q ! Suc (length Q - 10 + b) = Suc (Q ! (length Q - 10 + b))"
        by (intro exI [of _ "a - (length Q - 10)"]) auto
    next
      assume "\<exists>b. Suc b < 10 \<and> Q ! Suc (length Q - 10 + b) = Suc (Q ! (length Q - 10 + b))"
      then obtain b where "Suc b < 10" "Q ! Suc (length Q - 10 + b) = Suc (Q ! (length Q - 10 + b))" by blast
      with True show "\<exists>a. length Q - 10 \<le> a \<and> Suc a < length Q \<and> Q ! Suc a = Suc (Q ! a)"
        by (intro exI [of _ "length Q - 10 + b"]) auto
    qed
    then show ?thesis by simp
  qed simp
  finally show ?thesis by (simp add: Q_def Let_def)
qed

section \<open>The answer of the detector\<close>

lemma or_else_None [simp]: "or_else x y = None \<longleftrightarrow> x = None \<and> y = None"
  by (simp add: or_else_def split: option.splits)

lemma or_else_Some: "or_else x y = Some a \<Longrightarrow> x = Some a \<or> y = Some a"
  by (auto simp: or_else_def split: option.splits)

definition found :: "event list \<Rightarrow> int \<Rightarrow> stuck_analysis option" where
  "found fh offset =
     or_else (repeating_action_observation (last_actions 4 fh) (last_observations 4 fh) fh offset)
    (or_else (repeating_action_error (last_actions 4 fh) (last_observations 4 fh) fh offset)
    (or_else (stuck_monologue fh offset)
    (or_else (if length fh \<ge> 6 then action_observation_pattern fh offset else None)
             (if length fh \<ge> 10 then context_window_error fh offset else None))))"

lemma is_stuck_found:
  "is_stuck headless history analysis =
     (let fh = filtered_history headless history;
          f = found fh (filtered_history_offset headless history)
      in if length fh < 3 then (False, analysis) else (f \<noteq> None, f))"
  unfolding is_stuck_def found_def Let_def collect_last_of [OF zero_less_numeral] prod.case by (rule refl)

lemma found_bounds:
  assumes "found fh offset = Some a"
  shows "offset \<le> loop_start_idx a" and "loop_start_idx a < offset + int (length fh)"
proof -
  have last: "last (last_actions n fh) \<in> set fh" if "last_actions n fh \<noteq> []" for n
    using last_actions_in that by (metis last_in_set subsetD)
  have idx: "0 \<le> py_index fh (last (last_actions n fh)) \<and>
      py_index fh (last (last_actions n fh)) < int (length fh)" if "last_actions n fh \<noteq> []" for n
    using py_index_bounds(1,2) [OF last [OF that]] by simp
  have s1: "offset \<le> loop_start_idx a \<and> loop_start_idx a < offset + int (length fh)"
    if "repeating_action_observation (last_actions 4 fh) obs fh offset = Some a" for obs
  proof -
    from that have "last_actions 4 fh \<noteq> []" by (auto simp: repeating_action_observation_def split: if_splits)
    from idx [OF this] that show ?thesis by (auto simp: repeating_action_observation_def split: if_splits)
  qed
  have s2: "offset \<le> loop_start_idx a \<and> loop_start_idx a < offset + int (length fh)"
    if "repeating_action_error (last_actions 4 fh) obs fh offset = Some a" for obs
  proof -
    from that have "last_actions 4 fh \<noteq> []" by (auto simp: repeating_action_error_def split: if_splits)
    from idx [OF this] that show ?thesis by (auto simp: repeating_action_error_def split: if_splits)
  qed
  have s3: "offset \<le> loop_start_idx a \<and> loop_start_idx a < offset + int (length fh)"
    if m: "stuck_monologue fh offset = Some a"
  proof -
    let ?P = "positions is_agent_message fh"
    have "3 \<le> length ?P" "loop_start_idx a = int (?P ! (length ?P - 3)) + offset"
      using m by (auto simp: stuck_monologue_def enumerate_filter Let_def drop_map split: if_splits)
    then show ?thesis
      using positions_nth(1) [of "length ?P - 3" is_agent_message fh] by simp
  qed
  have s4: "offset \<le> loop_start_idx a \<and> loop_start_idx a < offset + int (length fh)"
    if "action_observation_pattern fh offset = Some a"
  proof -
    from that have "last_actions 6 fh \<noteq> []"
      by (auto simp: action_observation_pattern_def collect_last_of split: if_splits)
    from idx [OF this] that show ?thesis
      by (auto simp: action_observation_pattern_def collect_last_of split: if_splits)
  qed
  have s5: "offset \<le> loop_start_idx a \<and> loop_start_idx a < offset + int (length fh)"
    if c: "context_window_error fh offset = Some a"
  proof -
    let ?Q = "positions is_condensation_observation fh"
    obtain i where "adjacent_condensations fh (drop (length ?Q - 10) ?Q) = Some i"
      "loop_start_idx a = int i + offset"
      using c by (auto simp: context_window_error_def enumerate_filter o_def Let_def split: if_splits)
    with adjacent_in [OF this(1)] show ?thesis by (auto dest: in_set_dropD)
  qed
  have "offset \<le> loop_start_idx a \<and> loop_start_idx a < offset + int (length fh)"
  proof -
    have "repeating_action_observation (last_actions 4 fh) (last_observations 4 fh) fh offset = Some a \<or>
        repeating_action_error (last_actions 4 fh) (last_observations 4 fh) fh offset = Some a \<or>
        stuck_monologue fh offset = Some a \<or> action_observation_pattern fh offset = Some a \<or>
        context_window_error fh offset = Some a"
      using assms unfolding found_def by (auto dest!: or_else_Some split: if_splits)
    then show ?thesis using s1 s2 s3 s4 s5 by blast
  qed
  then show "offset \<le> loop_start_idx a" and "loop_start_idx a < offset + int (length fh)" by auto
qed

text \<open>Where the answer points: into the part of the history that was looked at.\<close>

lemma last_user_message_bounds:
  "-1 \<le> last_user_message_index h" "last_user_message_index h < int (length h)"
proof -
  have "i < length h" if "index_where is_user_message (rev h) = Some i" for i
    using index_where_Some [OF that] by simp
  then show "-1 \<le> last_user_message_index h" "last_user_message_index h < int (length h)"
    by (force simp: last_user_message_index_def split: option.splits)+
qed

lemma filtered_history_slice:
  "filtered_history headless h =
     filter (\<lambda>e. \<not> (is_user_message e \<or> is_null_action e \<or> is_null_observation e))
       (drop (nat (filtered_history_offset headless h)) h)"
proof -
  have "0 \<le> filtered_history_offset headless h"
    using last_user_message_bounds(1) [of h] by (simp add: filtered_history_offset_def)
  then show ?thesis
    using slice_from_nat [of h "nat (filtered_history_offset headless h)"]
    by (simp add: filtered_history_def)
qed

lemma stuck_index_in_history:
  assumes "is_stuck headless h analysis = (True, f)"
  shows "\<exists>a. f = Some a \<and> filtered_history_offset headless h \<le> loop_start_idx a \<and>
     loop_start_idx a < int (length h)"
proof -
  let ?fh = "filtered_history headless h" and ?o = "filtered_history_offset headless h"
  have f: "f = found ?fh ?o" "f \<noteq> None"
    using assms by (auto simp: is_stuck_found Let_def split: if_splits)
  then obtain a where a: "f = Some a" by blast
  have o: "0 \<le> ?o"
    using last_user_message_bounds(1) [of h] by (simp add: filtered_history_offset_def)
  have le: "?o \<le> int (length h)"
    using last_user_message_bounds(2) [of h] by (simp add: filtered_history_offset_def)
  have "length ?fh \<le> length (drop (nat ?o) h)"
    unfolding filtered_history_slice by (rule length_filter_le)
  then have "?o + int (length ?fh) \<le> int (length h)"
    using o le by simp
  moreover have fa: "found ?fh ?o = Some a" using f(1) a by simp
  ultimately show ?thesis using found_bounds [OF fa] a by auto
qed

text \<open>In interactive mode a user message starts the detection afresh.\<close>

lemma last_user_message_split:
  assumes "is_user_message u" and "\<forall>e \<in> set post. \<not> is_user_message e"
  shows "last_user_message_index (pre @ u # post) = int (length pre)"
proof -
  have "index_where is_user_message (rev post @ u # rest) = Some (length post)" for rest
  proof -
    have "index_where p (xs @ x # ys) = Some (length xs)" if "p x" "\<forall>e \<in> set xs. \<not> p e"
      for p :: "event \<Rightarrow> bool" and xs x ys
      using that by (induction xs) auto
    then show ?thesis using assms by (metis length_rev set_rev)
  qed
  then show ?thesis by (simp add: last_user_message_index_def)
qed

lemma found_offset_none: "found fh a \<noteq> None \<longleftrightarrow> found fh b \<noteq> None"
proof -
  have "repeating_action_observation as os fh a = None \<longleftrightarrow> repeating_action_observation as os fh b = None"
    "repeating_action_error as os fh a = None \<longleftrightarrow> repeating_action_error as os fh b = None"
    "action_observation_pattern fh a = None \<longleftrightarrow> action_observation_pattern fh b = None" for as os
    by (simp_all add: repeating_action_observation_def repeating_action_error_def
        action_observation_pattern_def case_prod_unfold Let_def)
  moreover have "stuck_monologue fh a = None \<longleftrightarrow> stuck_monologue fh b = None"
    using monologue_iff [of fh a] monologue_iff [of fh b] by argo
  moreover have "context_window_error fh a = None \<longleftrightarrow> context_window_error fh b = None"
    using context_window_iff [of fh a] context_window_iff [of fh b] by argo
  ultimately show ?thesis unfolding found_def or_else_None by (simp del: not_None_eq)
qed

lemma interactive_forgets:
  assumes "is_user_message u" and "\<forall>e \<in> set post. \<not> is_user_message e"
  shows "fst (is_stuck False (pre @ u # post) analysis) = fst (is_stuck True post analysis)"
proof -
  have "nat (filtered_history_offset False (pre @ u # post)) = Suc (length pre)"
    by (simp add: filtered_history_offset_def last_user_message_split [OF assms])
  then have "filtered_history False (pre @ u # post) = filtered_history True post"
    unfolding filtered_history_slice by (simp add: filtered_history_offset_def)
  then show ?thesis
    using found_offset_none by (simp add: is_stuck_found Let_def del: not_None_eq)
qed

text \<open>Without condensation observations three actions are needed.\<close>

lemma stuck_needs_actions:
  assumes "fst (is_stuck headless h analysis)" and "\<forall>e \<in> set h. \<not> is_condensation_observation e"
  shows "3 \<le> length (filter is_action (filtered_history headless h))"
proof (rule ccontr)
  let ?fh = "filtered_history headless h" and ?o = "filtered_history_offset headless h"
  assume few: "\<not> 3 \<le> length (filter is_action ?fh)"
  moreover have "length (filter is_action (rev ?fh)) = length (filter is_action ?fh)"
    by (metis length_rev rev_filter)
  ultimately have len: "length (last_actions n ?fh) < 3" for n
    by (simp add: last_actions_def)
  have "stuck_monologue ?fh ?o = None"
  proof (rule ccontr)
    assume "stuck_monologue ?fh ?o \<noteq> None"
    then obtain i j k where "i < j" "j < k" "k < length ?fh" "is_agent_message (?fh ! i)"
      "is_agent_message (?fh ! j)" "is_agent_message (?fh ! k)"
      unfolding monologue_iff by (elim exE conjE) (rule that)
    then have "{i, j, k} \<subseteq> {m. m < length ?fh \<and> is_action (?fh ! m)}" "card {i, j, k} = 3"
      by (auto simp: is_agent_message_def class_kind(1))
    then have "3 \<le> card {m. m < length ?fh \<and> is_action (?fh ! m)}"
      using card_mono [of "{m. m < length ?fh \<and> is_action (?fh ! m)}" "{i, j, k}"] by simp
    with few show False by (simp add: length_filter_conv_card)
  qed
  moreover have "context_window_error ?fh ?o = None"
  proof -
    have "set ?fh \<subseteq> set h"
      unfolding filtered_history_slice by (auto dest: in_set_dropD)
    then have "\<not> is_condensation_observation (?fh ! m)" if "m < length ?fh" for m
      using assms(2) nth_mem [OF that] by blast
    then have "positions is_condensation_observation ?fh = []"
      by (simp add: positions_def filter_empty_conv)
    then show ?thesis by (simp add: context_window_error_def enumerate_filter)
  qed
  moreover have "repeating_action_observation (last_actions 4 ?fh) (last_observations 4 ?fh) ?fh ?o = None"
    "repeating_action_error (last_actions 4 ?fh) (last_observations 4 ?fh) ?fh ?o = None"
    "action_observation_pattern ?fh ?o = None"
    using len [of 4] len [of 6]
    by (simp_all add: repeating_action_observation_def repeating_action_error_def
        action_observation_pattern_def collect_last_of)
  ultimately have "found ?fh ?o = None" unfolding found_def or_else_None by simp
  with assms(1) show False by (simp add: is_stuck_found Let_def split: if_splits)
qed

end
