(* ===== verification/Replay.thy ===== *)
theory Replay
  imports Events
begin

text \<open>
  The replay of a recorded trajectory (\<open>openhands/controller/replay.py\<close>): the events that are
  neither the environment's nor null observations, with an index that moves over them from one
  action to the next.
\<close>

record replay_manager =
  replay_events :: "event list"
  replay_mode :: bool
  replay_index :: nat

definition replayed :: "event \<Rightarrow> bool" where
  "replayed e \<longleftrightarrow> event_source e \<noteq> Some ENVIRONMENT \<and> \<not> is_null_observation e"

definition without_wait :: "event \<Rightarrow> event" where
  "without_wait e = (case payload e of
     Act (MessageAction c f i True r) \<Rightarrow> e\<lparr>payload := Act (MessageAction c f i False r)\<rparr>
   | _ \<Rightarrow> e)"

text \<open>Every message but the last stops waiting for a response.\<close>

fun ignore_waits :: "event list \<Rightarrow> event list" where
  "ignore_waits [] = []"
| "ignore_waits [e] = [e]"
| "ignore_waits (e # f # es) = without_wait e # ignore_waits (f # es)"

definition new_replay_manager :: "event list option \<Rightarrow> replay_manager" where
  "new_replay_manager events =
     (let es = ignore_waits (filter replayed (case events of None \<Rightarrow> [] | Some xs \<Rightarrow> xs))
      in \<lparr>replay_events = es, replay_mode = (es \<noteq> []), replay_index = 0\<rparr>)"

definition replayable :: "replay_manager \<Rightarrow> bool" where
  "replayable m \<longleftrightarrow> replay_index m < length (replay_events m) \<and>
     is_action (replay_events m ! replay_index m)"

text \<open>The loop that moves the index to the next action.\<close>

function advance :: "replay_manager \<Rightarrow> replay_manager" where
  "advance m =
     (if replay_index m < length (replay_events m) \<and> \<not> replayable m
      then advance (m\<lparr>replay_index := replay_index m + 1\<rparr>) else m)"
  by auto
termination
  by (relation "measure (\<lambda>m. length (replay_events m) - replay_index m)") auto

declare advance.simps [simp del]

definition should_replay :: "replay_manager \<Rightarrow> bool \<times> replay_manager" where
  "should_replay m =
     (if \<not> replay_mode m then (False, m) else let m' = advance m in (replayable m', m'))"

definition replay_step :: "(replay_manager, event) op" where
  "replay_step m =
     (case py_get (replay_events m) (int (replay_index m)) of
        Inl e \<Rightarrow> (Inl e, m)
      | Inr e \<Rightarrow> if is_action e then (Inr e, m\<lparr>replay_index := replay_index m + 1\<rparr>)
                 else (Inl AssertionError, m))"

text \<open>\<open>get_replay_events\<close> on the events parsed from the trajectory: their ids are cleared.\<close>

definition get_replay_events :: "event list \<Rightarrow> event list" where
  "get_replay_events parsed =
     map (\<lambda>e. e\<lparr>raw_id := None\<rparr>) (filter (\<lambda>e. event_source e \<noteq> Some ENVIRONMENT) parsed)"

text \<open>A whole replay: ask, step, ask again; \<open>fuel\<close> bounds the rounds.\<close>

fun replay_all :: "nat \<Rightarrow> replay_manager \<Rightarrow> event list result" where
  "replay_all 0 m = Inr []"
| "replay_all (Suc fuel) m =
     (let (go, m1) = should_replay m
      in if \<not> go then Inr []
         else case replay_step m1 of
           (Inl x, _) \<Rightarrow> Inl x
         | (Inr e, m2) \<Rightarrow> bindE (replay_all fuel m2) (\<lambda>es. Inr (e # es)))"

section \<open>What is replayed\<close>

lemma advance_frame:
  "replay_events (advance m) = replay_events m" "replay_mode (advance m) = replay_mode m"
  by (induction m rule: advance.induct) (subst advance.simps; simp)+

lemma advance_rest:
  "filter is_action (drop (replay_index (advance m)) (replay_events m)) =
     filter is_action (drop (replay_index m) (replay_events m))"
proof (induction m rule: advance.induct)
  case (1 m)
  show ?case
  proof (cases "replay_index m < length (replay_events m) \<and> \<not> replayable m")
    case True
    then have "drop (replay_index m) (replay_events m) =
        replay_events m ! replay_index m # drop (Suc (replay_index m)) (replay_events m)"
      "\<not> is_action (replay_events m ! replay_index m)"
      by (simp_all add: Cons_nth_drop_Suc replayable_def)
    moreover have "advance m = advance (m\<lparr>replay_index := replay_index m + 1\<rparr>)"
      using True by (subst advance.simps) simp
    ultimately show ?thesis using 1 True by simp
  next
    case False
    then have "advance m = m" by (subst advance.simps) auto
    then show ?thesis by simp
  qed
qed

lemma advance_stops:
  "replayable (advance m) \<or> length (replay_events m) \<le> replay_index (advance m)"
proof (induction m rule: advance.induct)
  case (1 m)
  then show ?case by (subst (1 2) advance.simps) (auto simp: replayable_def)
qed

lemma advance_mono: "replay_index m \<le> replay_index (advance m)"
proof (induction m rule: advance.induct)
  case (1 m)
  then show ?case by (subst advance.simps) auto
qed

lemma replay_all_actions:
  "replay_mode m \<Longrightarrow> length (replay_events m) - replay_index m < fuel \<Longrightarrow>
     replay_all fuel m = Inr (filter is_action (drop (replay_index m) (replay_events m)))"
proof (induction fuel arbitrary: m)
  case 0
  then show ?case by simp
next
  case (Suc fuel)
  let ?m = "advance m"
  have rest: "filter is_action (drop (replay_index ?m) (replay_events m)) =
      filter is_action (drop (replay_index m) (replay_events m))"
    by (rule advance_rest)
  show ?case
  proof (cases "replayable ?m")
    case True
    then have i: "replay_index ?m < length (replay_events m)"
      and a: "is_action (replay_events m ! replay_index ?m)"
      by (simp_all add: replayable_def advance_frame)
    let ?n = "?m\<lparr>replay_index := replay_index ?m + 1\<rparr>"
    have step: "replay_step ?m = (Inr (replay_events m ! replay_index ?m), ?n)"
      using i a by (simp add: replay_step_def py_get_def advance_frame)
    have "replay_all fuel ?n = Inr (filter is_action (drop (replay_index ?n) (replay_events ?n)))"
      by (rule Suc.IH) (use Suc.prems i advance_mono [of m] in \<open>auto simp: advance_frame\<close>)
    moreover have "drop (replay_index ?m) (replay_events m) =
        replay_events m ! replay_index ?m # drop (Suc (replay_index ?m)) (replay_events m)"
      using i by (simp add: Cons_nth_drop_Suc)
    ultimately show ?thesis
      using Suc.prems(1) rest True a
      by (simp add: should_replay_def Let_def step advance_frame)
  next
    case False
    with advance_stops [of m] have "drop (replay_index ?m) (replay_events m) = []" by simp
    with rest False Suc.prems(1) show ?thesis by (simp add: should_replay_def Let_def)
  qed
qed

lemma without_wait_class [simp]: "is_action (without_wait e) = is_action e"
  by (auto simp: without_wait_def is_action_def split: payload.splits action.splits bool.splits)

lemma ignore_waits_map:
  "ignore_waits es = (if es = [] then [] else map without_wait (butlast es) @ [last es])"
  by (induction es rule: ignore_waits.induct) auto

lemma filter_action_waits:
  "filter is_action (ignore_waits es) =
     (if es \<noteq> [] \<and> is_action (last es)
      then map without_wait (filter is_action (butlast es)) @ [last es]
      else map without_wait (filter is_action es))"
proof (cases es rule: rev_cases)
  case Nil
  then show ?thesis by simp
next
  case (snoc xs x)
  have "filter is_action (map without_wait xs) = map without_wait (filter is_action xs)"
    by (induction xs) auto
  with snoc show ?thesis by (simp add: ignore_waits_map)
qed

end
