(* ===== verification/State_Properties.thy ===== *)
theory State_Properties
  imports State_Tracker Stuck Replay
begin

text \<open>
  The properties of what lies around the controller: the loop detector, the history that is rebuilt
  from the stream, the questions asked of the state, the statistics, the stores, the stream and
  the replay of a trajectory.
\<close>

definition said :: "int \<Rightarrow> event_source \<Rightarrow> string \<Rightarrow> event" where
  "said i src text = (fresh_event (Act (MessageAction text None None False RISK_UNKNOWN)))
     \<lparr>raw_id := Some i, raw_source := Some src\<rparr>"

lemma said_class [simp]:
  "is_user_message (said i USER t)" "\<not> is_user_message (said i AGENT t)" "event_id (said i src t) = i"
  "\<not> is_finish (said i src t)" "act_of (payload (said i src t)) = MessageAction t None None False RISK_UNKNOWN"
  by (simp_all add: said_def fresh_event_def is_user_message_def is_message_def is_finish_def)

section \<open>The loop detector\<close>

text \<open>An agent that says the same thing three times.\<close>

definition droning :: "event list" where
  "droning = [said 1 AGENT ''hm'', said 2 AGENT ''hm'', said 3 AGENT ''hm'']"

lemma droning_history: "filtered_history True droning = droning"
  unfolding filtered_history_slice
  by (simp add: filtered_history_offset_def droning_def is_null_action_def is_null_observation_def)
    (simp add: said_def fresh_event_def)

lemma droning_stuck: "fst (is_stuck True droning None)"
proof -
  have "stuck_monologue droning 0 \<noteq> None"
    unfolding monologue_iff
    by (intro exI [of _ 0] exI [of _ 1] exI [of _ 2])
      (auto simp: droning_def said_def fresh_event_def is_agent_message_def is_message_def event_eq_def
        is_observation_def less_Suc_eq numeral_2_eq_2 nth_Cons split: nat.splits)
  then have "found droning 0 \<noteq> None" unfolding found_def or_else_None by blast
  then show ?thesis
    unfolding is_stuck_found droning_history Let_def
    by (simp add: filtered_history_offset_def droning_def)
qed

text \<open>
  When the detector reports a loop, the position it reports lies in the history it was given
  and not before the part it looked at, so the recovery that cuts the history there keeps at least
  everything up to the last user message (in interactive mode).
\<close>

theorem loop_start_in_history:
  assumes "is_stuck headless h analysis = (True, f)"
  shows "\<exists>a. f = Some a \<and> filtered_history_offset headless h \<le> loop_start_idx a \<and>
     loop_start_idx a < int (length h)"
  by (rule stuck_index_in_history [OF assms])

theorem loop_start_in_history_witness:
  "\<exists>a. snd (is_stuck True droning None) = Some a \<and> 0 \<le> loop_start_idx a \<and> loop_start_idx a < 3"
proof -
  have "is_stuck True droning None = (True, snd (is_stuck True droning None))"
    using droning_stuck by (simp add: prod_eq_iff)
  from loop_start_in_history [OF this] show ?thesis
    by (simp add: filtered_history_offset_def droning_def)
qed

text \<open>
  A message of the user starts the detection afresh: in interactive mode the answer for a
  history is the headless answer for what comes after the last user message, whatever came before.
\<close>

theorem user_message_resets_detection:
  assumes "is_user_message u" and "\<forall>e \<in> set post. \<not> is_user_message e"
  shows "fst (is_stuck False (pre @ u # post) analysis) = fst (is_stuck True post analysis)"
  by (rule interactive_forgets [OF assms])

theorem user_message_resets_detection_witness:
  "fst (is_stuck False (droning @ said 4 USER ''go on'' # droning) None) \<and>
   fst (is_stuck False (droning @ said 4 USER ''go on'' # []) None) = fst (is_stuck True [] None)"
proof -
  have "\<forall>e \<in> set droning. \<not> is_user_message e" by (simp add: droning_def)
  with droning_stuck show ?thesis
    using user_message_resets_detection [of "said 4 USER ''go on''" droning droning None]
      user_message_resets_detection [of "said 4 USER ''go on''" "[]" droning None] by simp
qed

text \<open>
  No loop without three actions: unless the history has condensation observations, a reported
  loop means at least three actions in the part that was looked at.
\<close>

theorem loop_needs_three_actions:
  assumes "fst (is_stuck headless h analysis)" and "\<forall>e \<in> set h. \<not> is_condensation_observation e"
  shows "3 \<le> length (filter is_action (filtered_history headless h))"
  by (rule stuck_needs_actions [OF assms])

theorem loop_needs_three_actions_witness:
  "3 \<le> length (filter is_action (filtered_history True droning))"
proof -
  have "\<forall>e \<in> set droning. \<not> is_condensation_observation e"
    by (simp add: droning_def said_def fresh_event_def is_condensation_observation_def)
  from loop_needs_three_actions [OF droning_stuck this] show ?thesis .
qed

text \<open>
  When the context window scenario fires: exactly if there are ten condensation observations
  and, among the last ten, some two neighbours stand side by side. Nothing has to repeat.
\<close>

theorem context_window_loop:
  "context_window_error fh offset \<noteq> None \<longleftrightarrow>
     (let Q = positions is_condensation_observation fh
      in length Q \<ge> 10 \<and> (\<exists>a. length Q - 10 \<le> a \<and> Suc a < length Q \<and> Q ! Suc a = Suc (Q ! a)))"
  by (rule context_window_iff)

section \<open>The history and what is asked of it\<close>

text \<open>
  C24. The history that is rebuilt from the stream is what the agent itself saw: for delegations
  that do not overlap it is the filtered part of the stream without the events between a delegate
  action and its observation. But the start that is written back is not the one it was built from:
  it is the id of the last delegate action, so a state saved after this and initialised again has
  nothing from before it.
\<close>

theorem history_without_delegations:
  assumes "log_ok lg" and "history_bounds s lg = (first, final)" and "first \<le> final + 1"
    and "search_events first (Some final) False (Some in_history) None lg = events"
    and "delegations events rs kept"
  shows "history (init_history lg s) = filter (\<lambda>e. \<not> inside rs e) events \<and>
    start_id (init_history lg s) = (if rs = [] then first else fst (last rs)) \<and>
    (\<forall>lg' e. 0 \<le> start_id (init_history lg s) \<and> e \<in> set (history (init_history lg' (init_history lg s))) \<longrightarrow>
       start_id (init_history lg s) \<le> event_id e)"
  using init_history_delegations [OF assms] init_history_after_start by blast

definition delegated_log :: event_log where
  "delegated_log = \<lparr>logged = [said 0 USER ''task'',
      (fresh_event (Act (AgentDelegateAction ''sub'' [] [])))\<lparr>raw_id := Some 1, raw_source := Some AGENT\<rparr>,
      said 2 AGENT ''inside'',
      (fresh_event (Obs (AgentDelegateObservation ''done'' [])))\<lparr>raw_id := Some 3, raw_source := Some AGENT\<rparr>,
      said 4 AGENT ''after''], queued = []\<rparr>"

lemma delegated_log_ok: "log_ok delegated_log"
  by (auto simp: log_ok_def delegated_log_def said_def less_Suc_eq nth_Cons split: nat.splits)

lemma delegated_events:
  "search_events 0 (Some 4) False (Some in_history) None delegated_log = logged delegated_log"
proof -
  have "\<forall>e \<in> set (logged delegated_log). in_history e \<and> 0 \<le> event_id e \<and> event_id e < 4 + 1"
    unfolding delegated_log_def event_log.simps list.set ball_simps
    by (simp add: in_history_iff is_null_action_def is_null_observation_def is_change_state_action_def
        is_state_changed_observation_def hidden_event_def said_def fresh_event_def)
  then show ?thesis by (simp add: search_events_def Let_def filter_id_conv)
qed

lemma delegated_pairs:
  "delegations (logged delegated_log) [(1, 3)] (filter (\<lambda>e. event_id e \<noteq> 2) (logged delegated_log))"
proof -
  have "delegations ([said 0 USER ''task''] @
      (fresh_event (Act (AgentDelegateAction ''sub'' [] [])))\<lparr>raw_id := Some 1, raw_source := Some AGENT\<rparr> #
      [said 2 AGENT ''inside''] @
      (fresh_event (Obs (AgentDelegateObservation ''done'' [])))\<lparr>raw_id := Some 3, raw_source := Some AGENT\<rparr> #
      [said 4 AGENT ''after''])
    ((event_id ((fresh_event (Act (AgentDelegateAction ''sub'' [] [])))\<lparr>raw_id := Some 1, raw_source := Some AGENT\<rparr>),
      event_id ((fresh_event (Obs (AgentDelegateObservation ''done'' [])))\<lparr>raw_id := Some 3, raw_source := Some AGENT\<rparr>)) # [])
    ([said 0 USER ''task''] @
      (fresh_event (Act (AgentDelegateAction ''sub'' [] [])))\<lparr>raw_id := Some 1, raw_source := Some AGENT\<rparr> #
      (fresh_event (Obs (AgentDelegateObservation ''done'' [])))\<lparr>raw_id := Some 3, raw_source := Some AGENT\<rparr> #
      [said 4 AGENT ''after''])"
    by (intro delegations.intros)
      (auto simp: said_def fresh_event_def is_delegate_action_def is_delegate_observation_def)
  then show ?thesis by (simp add: delegated_log_def)
qed

theorem history_without_delegations_witness:
  "map event_id (history (init_history delegated_log (new_state\<lparr>start_id := 0\<rparr>))) = [0, 1, 3, 4] \<and>
   start_id (init_history delegated_log (new_state\<lparr>start_id := 0\<rparr>)) = 1"
proof -
  have b: "history_bounds (new_state\<lparr>start_id := 0\<rparr>) delegated_log = (0, 4)"
    by (simp add: history_bounds_def new_state_def get_latest_event_id_def cur_id_def delegated_log_def)
  have kept: "map event_id (filter (\<lambda>e. \<not> inside [(1, 3)] e) (logged delegated_log)) = [0, 1, 3, 4]"
    by (simp add: inside_def delegated_log_def)
  show ?thesis
    using history_without_delegations [OF delegated_log_ok b _ delegated_events delegated_pairs] kept by simp
qed

text \<open>
  The cached view is right as long as the history has only grown: it is then the view of the
  whole history, and still right after the next question and after further events.
\<close>

theorem cached_view_right:
  assumes "cache_sound s"
  shows "fst (view_of s) = from_events (history s) \<and>
    (\<forall>v es. fst (view_of s) = Inr v \<longrightarrow>
       fst (view_of ((snd (view_of s))\<lparr>history := history s @ es\<rparr>)) = from_events (history s @ es))"
proof -
  have "cache_sound ((snd (view_of s))\<lparr>history := history s @ es\<rparr>)" if "fst (view_of s) = Inr v" for v es
  proof -
    have "history (snd (view_of s)) = history s" by (subst view_of_frame) simp
    with cache_sound_append [OF view_of_sound(2) [OF assms that]] show ?thesis by simp
  qed
  then show ?thesis
    using view_of_sound(1) [OF assms] view_of_sound(1) by fastforce
qed

theorem cached_view_right_witness:
  "fst (view_of (new_state\<lparr>history := droning\<rparr>)) = from_events droning"
proof -
  have "cache_sound (new_state\<lparr>history := droning\<rparr>)" by (simp add: cache_sound_def new_state_def)
  from cached_view_right [OF this] show ?thesis by simp
qed

text \<open>
  The user's current intent after a finish is the first message that follows it, without its
  images, however many messages the user has sent since.
\<close>

theorem intent_is_first_after_finish:
  assumes "view_events v = earlier @ f # between @ u # later" and "fst (view_of s) = Inr v"
    and "is_finish f" and "is_user_message u" and "\<forall>e \<in> set between. \<not> is_user_message e \<and> \<not> is_finish e"
    and "\<forall>e \<in> set later. \<not> is_finish e"
  shows "fst (get_current_user_intent s) = Inr (Some (a_content (act_of (payload u))), None)"
  using user_intent_after_finish [OF assms(3-6), of earlier] assms(1,2)
  by (cases "view_of s") (simp add: get_current_user_intent_def bindS_def)

definition finished_then_asked :: "event list" where
  "finished_then_asked = [said 0 USER ''one'', (fresh_event (Act (AgentFinishAction [] [] [])))\<lparr>raw_id := Some 1\<rparr>,
     said 2 USER ''two'', said 3 USER ''three'']"

theorem intent_is_first_after_finish_witness:
  "fst (get_current_user_intent (new_state\<lparr>history := finished_then_asked\<rparr>)) = Inr (Some ''two'', None)"
proof -
  have "\<forall>e \<in> set finished_then_asked. \<not> is_condensation e \<and> \<not> is_condensation_request e"
    unfolding finished_then_asked_def list.set ball_simps
    by (simp add: said_def fresh_event_def is_condensation_def is_condensation_request_def)
  then have v: "fst (view_of (new_state\<lparr>history := finished_then_asked\<rparr>)) = Inr (plain_view finished_then_asked)"
    by (simp add: view_of_def Let_def from_events_plain new_state_def)
  have cut: "view_events (plain_view finished_then_asked) =
      [said 0 USER ''one''] @ (fresh_event (Act (AgentFinishAction [] [] [])))\<lparr>raw_id := Some 1\<rparr> # [] @
      said 2 USER ''two'' # [said 3 USER ''three'']"
    by (simp add: plain_view_def finished_then_asked_def)
  have "is_finish ((fresh_event (Act (AgentFinishAction [] [] [])))\<lparr>raw_id := Some 1\<rparr>)"
    by (simp add: is_finish_def fresh_event_def)
  from intent_is_first_after_finish [OF cut v this] show ?thesis by simp
qed

section \<open>Statistics\<close>

text \<open>
  The metrics of a conversation survive a restart: with statistics whose services are
  registered or restored but not both, saved and read back under the same path, a model that
  registers under a service gets exactly the metrics that were saved for it, so its costs go on
  from there; a service that was not known starts with the model's own.
\<close>

theorem metrics_survive_restart:
  assumes "stats_ok cs" and "has_file_store cs" and "conversation_id cs \<noteq> []"
    and "metrics_path cs' = metrics_path cs" and "has_file_store cs'" and "conversation_id cs' \<noteq> []"
  shows "\<exists>r. maybe_restore_metrics cs' (save_metrics cs fs) = Inr r \<and>
    (\<forall>sid m. fst (register_llm sid m r) =
      (case map_of (service_to_metrics cs) sid of Some x \<Rightarrow> x
       | None \<Rightarrow> (case map_of (restored_metrics cs) sid of Some x \<Rightarrow> x | None \<Rightarrow> m)))"
proof -
  have "fst (register_llm sid m (cs'\<lparr>restored_metrics := combined_by_service cs\<rparr>)) =
      (case map_of (service_to_metrics cs) sid of Some x \<Rightarrow> x
       | None \<Rightarrow> (case map_of (restored_metrics cs) sid of Some x \<Rightarrow> x | None \<Rightarrow> m))" for sid m
    using combined_lookup [OF assms(1), of sid] by (simp add: register_llm_def split: option.splits)
  with stats_round_trip [OF assms(2-6)] show ?thesis by blast
qed

definition kept_stats :: conversation_stats where
  "kept_stats = \<lparr>metrics_path = ''p'', has_file_store = True, conversation_id = ''c'',
     service_to_metrics = [(''agent'', default_metrics\<lparr>accumulated_cost := 3\<rparr>)], restored_metrics = []\<rparr>"

theorem metrics_survive_restart_witness:
  "\<exists>r. maybe_restore_metrics (kept_stats\<lparr>service_to_metrics := []\<rparr>) (save_metrics kept_stats []) = Inr r \<and>
     accumulated_cost (fst (register_llm ''agent'' default_metrics r)) = 3"
proof -
  have "stats_ok kept_stats" by (simp add: stats_ok_def kept_stats_def)
  from metrics_survive_restart [OF this, of "kept_stats\<lparr>service_to_metrics := []\<rparr>" "[]"]
  show ?thesis by (auto simp: kept_stats_def)
qed

text \<open>
  The snapshot difference recovers what was recorded: for calls recorded after a snapshot, the
  difference to it has exactly their cost, latencies and token usages, and, if no new cost has the
  time stamp of an old one, exactly their cost records.
\<close>

theorem difference_recovers_recording:
  assumes "record_events es base = Inr m"
    and "sorted (map cost_timestamp (costs base))"
  shows "accumulated_cost (diff_metrics m base) = sum_list (map event_cost es) \<and>
    response_latencies m = response_latencies base @ response_latencies (diff_metrics m base) \<and>
    token_usages m = token_usages base @ token_usages (diff_metrics m base) \<and>
    ((\<forall>c \<in> set (costs base). \<forall>t \<in> set (List.map_filter event_time es). cost_timestamp c < t) \<longrightarrow>
       costs m = costs base @ costs (diff_metrics m base))"
  using diff_accumulated_cost [OF assms(1)] diff_lists [OF assms(1)] diff_recovers_costs [OF assms(1) _ assms(2)]
  by blast

theorem difference_recovers_recording_witness:
  "\<exists>m. record_events [CostRecorded 5 2, LatencyRecorded 1 ''r'', CostRecorded 6 1] default_metrics = Inr m \<and>
     accumulated_cost (diff_metrics m default_metrics) = 3"
proof -
  obtain m where m: "record_events [CostRecorded 5 2, LatencyRecorded 1 ''r'', CostRecorded 6 1] default_metrics = Inr m"
    by (simp add: add_cost_def)
  have "sorted (map cost_timestamp (costs default_metrics))" by (simp add: default_metrics_def new_metrics_def)
  from difference_recovers_recording [OF m this] m show ?thesis by auto
qed

section \<open>Stores and the stream\<close>

text \<open>
  C30. The batching store tells the webhook everything: after any run of writes, deletions, timer
  events and flushes, for every path the last update in what was sent or is still pending is the
  last update that was made, what is pending is below the size limit, is counted exactly and has a
  timer running, and reading gives what the inner store has.
\<close>

theorem webhook_told_everything:
  assumes "0 \<le> (case limit of None \<Rightarrow> 0 | Some l \<Rightarrow> l)"
  shows "let w = hook_run es (new_hook_store files limit) in
    last_queued w = map_of (rev (List.map_filter hook_update es)) \<and>
    pending_size w = sum_list (map (\<lambda>(p, x, c). content_size c) (pending_batch w)) \<and>
    pending_size w < batch_size_limit w \<and> (pending_batch w \<noteq> [] \<longrightarrow> timer_armed w)"
proof -
  have ok: "hook_ok (new_hook_store files limit)" by (rule hook_new_ok [OF assms])
  have "last_queued (new_hook_store files limit) = Map.empty"
    by (simp add: last_queued_def new_hook_store_def)
  with hook_run_last [OF ok, of es] hook_run_ok [OF ok, of es] show ?thesis
    by (simp add: hook_ok_def Let_def)
qed

theorem webhook_told_everything_witness:
  "last_queued (hook_run [HookWrite ''a'' ''x'', HookWrite ''a'' ''y'', HookTimer, HookDelete ''b'']
      (new_hook_store [] (Some 100))) ''a'' = Some (OpWrite, Some ''y'')"
  using webhook_told_everything [of "Some 100" "[HookWrite ''a'' ''x'', HookWrite ''a'' ''y'', HookTimer, HookDelete ''b'']" "[]"]
  by (simp add: Let_def map_filter_def)

text \<open>
  The stream loses and reorders nothing: in every reachable state of the stream the ids are the
  positions, and the events not yet delivered are the end of the log, in its order.
\<close>

theorem stream_in_order:
  assumes "stream_reachable lg"
  shows "map event_id (logged lg) = map int [0..<length (logged lg)] \<and> suffix (queued lg) (logged lg)"
  using log_ok_ids [OF reachable_log_ok [OF assms]] reachable_queue_suffix [OF assms] by simp

theorem stream_in_order_witness:
  "\<exists>lg. stream_reachable lg \<and> logged lg \<noteq> [] \<and> suffix (queued lg) (logged lg)"
proof -
  obtain e' lg where a: "add_event ''now'' ((said 0 USER ''a'')\<lparr>raw_id := None\<rparr>) USER empty_log = Inr (e', lg)"
    by (simp add: add_event_fresh Let_def)
  have "stream_reachable lg" by (rule stream_reachable.add [OF stream_reachable.start a])
  with stream_in_order [OF this] add_event_Inr(3) [OF a] show ?thesis by auto
qed

section \<open>Replay\<close>

text \<open>
  A replayed trajectory gives back its actions: asking for the next event until there is none
  returns, for any trajectory, the actions among its events that are not the environment's, in
  order, each but possibly the last with waiting for a response switched off.
\<close>

theorem replay_gives_actions:
  assumes "es = filter replayed trajectory" and "es \<noteq> []" and "length es < fuel"
  shows "replay_all fuel (new_replay_manager (Some trajectory)) =
    Inr (if is_action (last es)
         then map without_wait (filter is_action (butlast es)) @ [last es]
         else map without_wait (filter is_action es))"
proof -
  have m: "replay_events (new_replay_manager (Some trajectory)) = ignore_waits es"
    "replay_mode (new_replay_manager (Some trajectory))" "replay_index (new_replay_manager (Some trajectory)) = 0"
    using assms(1,2) by (simp_all add: new_replay_manager_def Let_def ignore_waits_map)
  have "length (ignore_waits es) = length es" using assms(2) by (simp add: ignore_waits_map)
  then have "replay_all fuel (new_replay_manager (Some trajectory)) = Inr (filter is_action (ignore_waits es))"
    using replay_all_actions [of "new_replay_manager (Some trajectory)" fuel] m assms(3) by simp
  then show ?thesis using filter_action_waits [of es] assms(2) by simp
qed

theorem replay_gives_actions_witness:
  "replay_all 4 (new_replay_manager (Some droning)) = Inr (map without_wait (butlast droning) @ [last droning])"
proof -
  have d: "droning = filter replayed droning" and a: "filter is_action droning = droning" "is_action (last droning)"
    "filter is_action (butlast droning) = butlast droning"
    by (simp_all add: droning_def said_def fresh_event_def replayed_def is_null_observation_def is_action_def)
  have "droning \<noteq> []" "length droning < 4" by (simp_all add: droning_def)
  from replay_gives_actions [OF d this] a show ?thesis by simp
qed

end
