(* ===== verification/Agent_Controller.thy ===== *)
theory Agent_Controller
  imports Stuck State_Tracker Replay
begin

text \<open>
  The agent controller (\<open>openhands/controller/agent_controller.py\<close>): the state machine that
  receives the events of the stream, steps the agent, guards its actions and delegates subtasks.

  The agent and the security analyzer are arguments (\<open>'ag env\<close>): what the agent's \<open>step\<close> returns is a
  function of the agent, the state and the statistics, together with the agent and the
  statistics it leaves. The clock gives the timestamp of the event with a given id. A controller
  is its own fields and its delegate, if any. The iteration flag and the budget flag are objects
  every controller of such a chain shares: after an operation of the delegate the parent's fields
  are set to the delegate's, after one of the parent those of all its delegates are set to its own. Logging is not modelled; calls of \<open>status_callback\<close> are recorded in the
  world.
\<close>

section \<open>Exceptions as the controller reads them\<close>

definition exn_name :: "exn \<Rightarrow> string" where
  "exn_name e = (case e of
     ValueError _ \<Rightarrow> ''ValueError'' | TypeError _ \<Rightarrow> ''TypeError'' | KeyError _ \<Rightarrow> ''KeyError''
   | IndexError \<Rightarrow> ''IndexError'' | AssertionError \<Rightarrow> ''AssertionError''
   | AttributeError _ \<Rightarrow> ''AttributeError''
   | FileNotFoundError _ \<Rightarrow> ''FileNotFoundError'' | RuntimeError _ \<Rightarrow> ''RuntimeError''
   | PlainException _ \<Rightarrow> ''Exception'' | AgentStuckInLoopError _ \<Rightarrow> ''AgentStuckInLoopError''
   | LLMMalformedActionError _ \<Rightarrow> ''LLMMalformedActionError''
   | LLMNoActionError _ \<Rightarrow> ''LLMNoActionError'' | LLMResponseError _ \<Rightarrow> ''LLMResponseError''
   | LLMContextWindowExceedError _ \<Rightarrow> ''LLMContextWindowExceedError''
   | FunctionCallValidationError _ \<Rightarrow> ''FunctionCallValidationError''
   | FunctionCallNotExistsError _ \<Rightarrow> ''FunctionCallNotExistsError''
   | FunctionCallConversionError _ \<Rightarrow> ''FunctionCallConversionError''
   | LLMNoResponseError _ \<Rightarrow> ''LLMNoResponseError''
   | LLMExn x \<Rightarrow> llm_name x)"

definition exn_str :: "exn \<Rightarrow> string" where
  "exn_str e = (case e of
     ValueError s \<Rightarrow> s | TypeError s \<Rightarrow> s | KeyError s \<Rightarrow> [CHR 0x27] @ s @ [CHR 0x27]
   | IndexError \<Rightarrow> ''list index out of range'' | AssertionError \<Rightarrow> [] | AttributeError s \<Rightarrow> s
   | FileNotFoundError s \<Rightarrow> s | RuntimeError s \<Rightarrow> s
   | PlainException s \<Rightarrow> s | AgentStuckInLoopError s \<Rightarrow> s | LLMMalformedActionError s \<Rightarrow> s
   | LLMNoActionError s \<Rightarrow> s | LLMResponseError s \<Rightarrow> s | LLMContextWindowExceedError s \<Rightarrow> s
   | FunctionCallValidationError s \<Rightarrow> s | FunctionCallNotExistsError s \<Rightarrow> s
   | FunctionCallConversionError s \<Rightarrow> s | LLMNoResponseError s \<Rightarrow> s
   | LLMExn x \<Rightarrow> llm_text x)"

definition instance_of :: "exn \<Rightarrow> llm_class \<Rightarrow> bool" where
  "instance_of e c = (case e of LLMExn x \<Rightarrow> c \<in> set (llm_instance_of x) | _ \<Rightarrow> False)"

section \<open>The controller's data\<close>

record agent_config =
  enable_stuck_detection :: bool
  enable_history_truncation :: bool
  cli_mode :: bool

record world =
  stream :: event_log
  files :: "saved_file mem_store"
  stats :: conversation_stats
  notified :: "(string \<times> string) list"

record 'ag core =
  ctl_id :: string
  ctl_user_id :: "string option"
  ctl_has_file_store :: bool
  agent :: 'ag
  agent_name :: string
  agent_cfg :: agent_config
  agent_configs :: "(string, agent_config) dict"
  headless_mode :: bool
  is_delegate :: bool
  ctl_confirmation_mode :: bool
  has_status_callback :: bool
  security_analyzer :: "(action \<Rightarrow> security_risk result) option"
  tracker_of :: tracker
  state :: conv_state
  stuck_analysis_of :: "stuck_analysis option"
  pending_action :: "event option"
  cached_first_user_message :: "event option"
  replay_manager_of :: replay_manager
  initial_max_iterations :: int
  initial_max_budget :: "rat option"
  closed_flag :: bool
  subscribed :: bool

datatype 'ag controller = Controller (core_of: "'ag core") (delegate_of: "'ag controller option")

record 'ag agent_reply =
  reply_action :: "event option result"
  reply_agent :: 'ag
  reply_extra_data :: json_dict
  reply_stats :: conversation_stats

record 'ag env =
  clock :: "int \<Rightarrow> string"
  agent_step :: "'ag \<Rightarrow> conv_state \<Rightarrow> conversation_stats \<Rightarrow> 'ag agent_reply"
  agent_reset :: "'ag \<Rightarrow> 'ag"
  agent_system_message :: "'ag \<Rightarrow> action option"
  get_cls :: "string \<Rightarrow> agent_config \<Rightarrow> ('ag \<times> string) result"
  py_str :: "json \<Rightarrow> string"

type_synonym ('ag, 'a) core_op = "(world \<times> 'ag core, 'a) op"
type_synonym ('ag, 'a) ctl_op = "(world \<times> 'ag controller, 'a) op"

definition upd_core :: "('ag core \<Rightarrow> 'ag core) \<Rightarrow> ('ag, unit) core_op" where
  "upd_core f = modS (\<lambda>(w, c). (w, f c))"

definition upd_state :: "(conv_state \<Rightarrow> conv_state) \<Rightarrow> ('ag, unit) core_op" where
  "upd_state f = upd_core (\<lambda>c. c\<lparr>state := f (state c)\<rparr>)"

text \<open>\<open>event_stream.add_event(e, src)\<close>; the result is the object as the call leaves it.\<close>

definition emit :: "'ag env \<Rightarrow> event \<Rightarrow> event_source \<Rightarrow> ('ag, event) core_op" where
  "emit env e src wc =
     (case add_event (clock env (cur_id (stream (fst wc)))) e src (stream (fst wc)) of
        Inl x \<Rightarrow> (Inl x, wc)
      | Inr (e', lg) \<Rightarrow> (Inr e', ((fst wc)\<lparr>stream := lg\<rparr>, snd wc)))"

definition emit_new :: "'ag env \<Rightarrow> payload \<Rightarrow> event_source \<Rightarrow> ('ag, unit) core_op" where
  "emit_new env p src = bindS (emit env (fresh_event p) src) (\<lambda>_. retS ())"

section \<open>Changing the agent's state\<close>

definition ERROR_ACTION_NOT_EXECUTED_STOPPED_ID :: string where
  "ERROR_ACTION_NOT_EXECUTED_STOPPED_ID = ''AGENT_ERROR$ERROR_ACTION_NOT_EXECUTED_STOPPED''"

definition ERROR_ACTION_NOT_EXECUTED_ERROR_ID :: string where
  "ERROR_ACTION_NOT_EXECUTED_ERROR_ID = ''AGENT_ERROR$ERROR_ACTION_NOT_EXECUTED_ERROR''"

definition ERROR_ACTION_NOT_EXECUTED_STOPPED :: string where
  "ERROR_ACTION_NOT_EXECUTED_STOPPED = ''Stop button pressed. The action has not been executed.''"

definition ERROR_ACTION_NOT_EXECUTED_ERROR :: string where
  "ERROR_ACTION_NOT_EXECUTED_ERROR = ''The action has not been executed due to a runtime error. '' @
     ''The runtime system may have crashed and restarted due to resource constraints. '' @
     ''Any previously established system state, dependencies, or environment variables may have been lost.''"

text \<open>Two tool call metadata are equal; the model's response compares as a dictionary.\<close>

definition same_tool_call :: "tool_call_metadata option \<Rightarrow> tool_call_metadata option \<Rightarrow> bool" where
  "same_tool_call a b = (case (a, b) of
     (None, None) \<Rightarrow> True
   | (Some x, Some y) \<Rightarrow> function_name x = function_name y \<and> tool_call_id x = tool_call_id y \<and>
       json_eq (model_response x) (model_response y) \<and>
       total_calls_in_response x = total_calls_in_response y
   | _ \<Rightarrow> False)"

definition not_executed_observation :: "agent_state \<Rightarrow> event \<Rightarrow> event" where
  "not_executed_observation st p =
     (fresh_event (Obs (if st = STOPPED
        then ErrorObservation ERROR_ACTION_NOT_EXECUTED_STOPPED ERROR_ACTION_NOT_EXECUTED_STOPPED_ID
        else ErrorObservation ERROR_ACTION_NOT_EXECUTED_ERROR ERROR_ACTION_NOT_EXECUTED_ERROR_ID)))
     \<lparr>raw_tool_call_metadata := raw_tool_call_metadata p, raw_cause := Some (event_id p)\<rparr>"

definition reset :: "'ag env \<Rightarrow> ('ag, unit) core_op" where
  "reset env = (\<lambda>(w, c).
     bindS
       (case pending_action c of
          Some p \<Rightarrow>
            if list_ex (\<lambda>e. is_observation e \<and>
                 same_tool_call (raw_tool_call_metadata e) (raw_tool_call_metadata p)) (history (state c))
            then retS ()
            else bindS (emit env (not_executed_observation (agent_state (state c)) p) AGENT) (\<lambda>_. retS ())
        | None \<Rightarrow> retS ())
       (\<lambda>_. upd_core (\<lambda>c. c\<lparr>pending_action := None, agent := agent_reset env (agent c)\<rparr>)) (w, c))"

definition save_controller :: "('ag, unit) core_op" where
  "save_controller = modS (\<lambda>(w, c).
     (w\<lparr>files := save_state (tracker_of c) (stats w) (state c) (files w)\<rparr>, c))"

text \<open>The user's answer to a pending action: it goes back to the stream under a new id.\<close>

definition answer_pending :: "'ag env \<Rightarrow> agent_state \<Rightarrow> ('ag, unit) core_op" where
  "answer_pending env target = (\<lambda>(w, c).
     case pending_action c of
       Some p \<Rightarrow>
         if target = USER_CONFIRMED \<or> target = USER_REJECTED
         then let p1 = (case payload p of Act a \<Rightarrow> p\<lparr>payload := Act (set_thought [] a)\<rparr> | _ \<Rightarrow> p);
                  p2 = set_confirmation (if target = USER_CONFIRMED then CONFIRMED else CONF_REJECTED) p1;
                  p3 = p2\<lparr>raw_id := None\<rparr>
              in bindS (upd_core (\<lambda>c. c\<lparr>pending_action := Some p3\<rparr>)) (\<lambda>_.
                 bindS (emit env p3 AGENT) (\<lambda>p4.
                 upd_core (\<lambda>c. c\<lparr>pending_action := Some p4\<rparr>))) (w, c)
         else (Inr (), w, c)
     | None \<Rightarrow> (Inr (), w, c))"

definition set_agent_state_to :: "'ag env \<Rightarrow> agent_state \<Rightarrow> ('ag, unit) core_op" where
  "set_agent_state_to env target = (\<lambda>(w, c).
     if target = agent_state (state c) then (Inr (), w, c)
     else let old_state = agent_state (state c) in
       bindS (upd_state (\<lambda>s. s\<lparr>agent_state := target\<rparr>)) (\<lambda>_.
       bindS (if target = STOPPED \<or> target = ERROR then reset env else retS ()) (\<lambda>_.
       bindS (if old_state = ERROR \<and> target = RUNNING
              then upd_core (\<lambda>c. c\<lparr>state := maybe_increase_control_flags_limits (headless_mode c) (state c)\<rparr>)
              else retS ()) (\<lambda>_.
       bindS (answer_pending env target) (\<lambda>_.
       bindS (\<lambda>(w, c). emit_new env (Obs (AgentStateChangedObservation [] (agent_state (state c))
                (if target = ERROR then last_error (state c) else []))) ENVIRONMENT (w, c)) (\<lambda>_.
       save_controller))))) (w, c))"

section \<open>Exceptions\<close>

definition notify :: "string \<Rightarrow> ('ag, unit) core_op" where
  "notify status = modS (\<lambda>(w, c). (w\<lparr>notified := notified w @ [(status, last_error (state c))]\<rparr>, c))"

definition set_last_error :: "string \<Rightarrow> ('ag, unit) core_op" where
  "set_last_error m = upd_state (\<lambda>s. s\<lparr>last_error := m\<rparr>)"

definition retries_exhausted :: "exn \<Rightarrow> bool" where
  "retries_exhausted e = (case e of
     LLMExn x \<Rightarrow> (case (llm_retry_attempt x, llm_max_retries x) of
         (Some a, Some m) \<Rightarrow> a \<ge> m | _ \<Rightarrow> False)
   | _ \<Rightarrow> False)"

definition runtime_status_of :: "exn \<Rightarrow> string option" where
  "runtime_status_of e =
     (if instance_of e AuthenticationError then Some ''STATUS$ERROR_LLM_AUTHENTICATION''
      else if instance_of e ServiceUnavailableError \<or> instance_of e APIConnectionError \<or>
              instance_of e APIError then Some ''STATUS$ERROR_LLM_SERVICE_UNAVAILABLE''
      else if instance_of e InternalServerError then Some ''STATUS$ERROR_LLM_INTERNAL_SERVER_ERROR''
      else if instance_of e BadRequestError \<and> occurs_in ''ExceededBudget'' (exn_str e)
      then Some ''STATUS$ERROR_LLM_OUT_OF_CREDITS''
      else if instance_of e ContentPolicyViolationError \<or>
              (instance_of e BadRequestError \<and> occurs_in ''ContentPolicyViolationError'' (exn_str e))
      then Some ''STATUS$ERROR_LLM_CONTENT_POLICY_VIOLATION''
      else None)"

definition react_to_exception :: "'ag env \<Rightarrow> exn \<Rightarrow> ('ag, unit) core_op" where
  "react_to_exception env e =
     bindS (set_last_error (exn_name e @ '': '' @ exn_str e)) (\<lambda>_ (w, c).
       if \<not> has_status_callback c then set_agent_state_to env ERROR (w, c)
       else case runtime_status_of e of
         Some status \<Rightarrow>
           bindS (set_last_error status) (\<lambda>_.
           bindS (notify status) (\<lambda>_. set_agent_state_to env ERROR)) (w, c)
       | None \<Rightarrow>
           if instance_of e RateLimitError
           then if retries_exhausted e
                then bindS (set_last_error ''CHAT_INTERFACE$AGENT_RATE_LIMITED_STOPPED_MESSAGE'') (\<lambda>_.
                     set_agent_state_to env ERROR) (w, c)
                else set_agent_state_to env RATE_LIMITED (w, c)
           else bindS (notify ''STATUS$ERROR'') (\<lambda>_. set_agent_state_to env ERROR) (w, c))"

text \<open>What is reported of an exception that leaves a step.\<close>

definition reported_exception :: "exn \<Rightarrow> exn" where
  "reported_exception e =
     (if instance_of e Timeout \<or> instance_of e APIError \<or> instance_of e BadRequestError \<or>
         instance_of e NotFoundError \<or> instance_of e InternalServerError \<or>
         instance_of e AuthenticationError \<or> instance_of e RateLimitError \<or>
         instance_of e ContentPolicyViolationError \<or>
         (case e of LLMContextWindowExceedError _ \<Rightarrow> True | _ \<Rightarrow> False)
      then e
      else RuntimeError (''There was an unexpected error while running the agent: '' @ exn_name e @
        ''. You can refresh the page or ask the agent to try again.''))"

section \<open>A step\<close>

text \<open>\<open>_handle_security_analyzer\<close>.\<close>

definition analyze_risk :: "(action \<Rightarrow> security_risk result) option \<Rightarrow> action \<Rightarrow> action" where
  "analyze_risk analyzer a =
     (case analyzer of
        Some f \<Rightarrow> if risk_of a = None then a
          else (case f a of Inr r \<Rightarrow> set_risk r a | Inl _ \<Rightarrow> set_risk RISK_UNKNOWN a)
      | None \<Rightarrow> set_risk RISK_UNKNOWN a)"

definition needs_confirmation :: "'ag core \<Rightarrow> action \<Rightarrow> bool" where
  "needs_confirmation c a =
     (let risk = (case risk_of a of Some r \<Rightarrow> r | None \<Rightarrow> RISK_UNKNOWN)
      in if cli_mode (agent_cfg c) then True
         else (risk = RISK_HIGH \<or> (risk = RISK_UNKNOWN \<and> security_analyzer c = None)) \<and>
              ctl_confirmation_mode c)"

text \<open>What a runnable action becomes before it is made pending.\<close>

definition guard_action :: "'ag core \<Rightarrow> event \<Rightarrow> event" where
  "guard_action c e = (case payload e of
     Act a \<Rightarrow>
       if confirmation_mode (state c)
       then let a1 = analyze_risk (security_analyzer c) a; e1 = e\<lparr>payload := Act a1\<rparr>
            in if needs_confirmation c a1 then set_confirmation AWAITING_CONFIRMATION e1 else e1
       else e
   | Obs _ \<Rightarrow> e)"

definition frontend_metrics :: "conversation_stats \<Rightarrow> budget_flag option \<Rightarrow> metrics result" where
  "frontend_metrics cs budget =
     (let m = get_combined_metrics cs
      in bindE (set_accumulated_cost (accumulated_cost m) default_metrics) (\<lambda>clean.
           Inr (clean\<lparr>accumulated_token_usage := accumulated_token_usage m,
                      max_budget_per_task := (case budget of Some b \<Rightarrow> Some (max_value b)
                        | None \<Rightarrow> max_budget_per_task clean)\<rparr>)))"

text \<open>
  The end of a step: the action is guarded and made pending if it is runnable, then sent to the
  stream. The pending action and the action sent are one object.
\<close>

definition send_action :: "'ag env \<Rightarrow> event \<Rightarrow> ('ag, unit) core_op" where
  "send_action env e0 = (\<lambda>(w, c).
     let run = (case payload e0 of Act a \<Rightarrow> runnable a | Obs _ \<Rightarrow> False);
         e1 = (if run then guard_action c e0 else e0);
         keep = (\<lambda>e. if run then upd_core (\<lambda>c. c\<lparr>pending_action := Some e\<rparr>) else retS ())
     in bindS (keep e1) (\<lambda>_.
        if is_null_action e1 then retS ()
        else
          bindS (if confirmation_of e1 = Some AWAITING_CONFIRMATION
                 then set_agent_state_to env AWAITING_USER_CONFIRMATION else retS ()) (\<lambda>_ (w, c).
          case frontend_metrics (stats w) (budget_flag (state c)) of
            Inl x \<Rightarrow> (Inl x, w, c)
          | Inr m \<Rightarrow>
              let e2 = e1\<lparr>raw_llm_metrics := Some m\<rparr> in
              bindS (keep e2) (\<lambda>_.
              case raw_source e2 of
                None \<Rightarrow> raiseS (AttributeError ''_source'')
              | Some src \<Rightarrow> bindS (emit env e2 src) keep) (w, c))) (w, c))"

definition context_window_text :: "exn \<Rightarrow> bool" where
  "context_window_text e =
     (let error_str = py_lower (exn_str e)
      in occurs_in ''contextwindowexceedederror'' error_str \<or>
         occurs_in ''prompt is too long'' error_str \<or>
         occurs_in ''input length and `max_tokens` exceed context limit'' error_str \<or>
         occurs_in ''please reduce the length of'' error_str \<or>
         occurs_in ''the request exceeds the available context size'' error_str \<or>
         occurs_in ''context length exceeded'' error_str \<or>
         (occurs_in ''sambanovaexception'' error_str \<and> occurs_in ''maximum context length'' error_str) \<or>
         instance_of e ContextWindowExceededError)"

definition tool_validation_text :: "exn \<Rightarrow> bool" where
  "tool_validation_text e =
     (let error_str = py_lower (exn_str e)
      in instance_of e BadRequestError \<and> occurs_in ''tool call validation failed'' error_str \<and>
         (occurs_in ''missing properties'' error_str \<or> occurs_in ''missing required'' error_str))"

definition recoverable :: "exn \<Rightarrow> bool" where
  "recoverable e = (case e of
     LLMMalformedActionError _ \<Rightarrow> True | LLMNoActionError _ \<Rightarrow> True | LLMResponseError _ \<Rightarrow> True
   | FunctionCallValidationError _ \<Rightarrow> True | FunctionCallNotExistsError _ \<Rightarrow> True | _ \<Rightarrow> False)"

definition CONTEXT_EXCEEDED :: string where
  "CONTEXT_EXCEEDED = ''Conversation history longer than LLM context window limit. '' @
     ''Consider turning on enable_history_truncation config to avoid this error''"

text \<open>The handlers around the agent's step.\<close>

definition handle_step_error :: "'ag env \<Rightarrow> exn \<Rightarrow> ('ag, unit) core_op" where
  "handle_step_error env e = (\<lambda>(w, c).
     if recoverable e
     then emit_new env (Obs (ErrorObservation (exn_str e) [])) AGENT (w, c)
     else if instance_of e ContextWindowExceededError \<or> instance_of e BadRequestError \<or>
             instance_of e OpenAIError
     then if context_window_text e
          then if enable_history_truncation (agent_cfg c)
               then emit_new env (Act CondensationRequestAction) AGENT (w, c)
               else (Inl (LLMContextWindowExceedError CONTEXT_EXCEEDED), w, c)
          else if tool_validation_text e
          then emit_new env (Obs (ErrorObservation (''Tool call validation failed: '' @ exn_str e @
                 ''. Please check the tool parameters and try again.'') [])) AGENT (w, c)
          else (Inl e, w, c)
     else (Inl e, w, c))"

text \<open>Asking the agent; the answer is an action or an exception.\<close>

definition ask_agent :: "'ag env \<Rightarrow> ('ag, event result) core_op" where
  "ask_agent env = (\<lambda>(w, c).
     let r = agent_step env (agent c) (state c) (stats w);
         w1 = w\<lparr>stats := reply_stats r\<rparr>;
         c1 = c\<lparr>agent := reply_agent r, state := (state c)\<lparr>extra_data := reply_extra_data r\<rparr>\<rparr>
     in (Inr (case reply_action r of
                Inl e \<Rightarrow> Inl e
              | Inr None \<Rightarrow> Inl (LLMNoActionError ''No action was returned'')
              | Inr (Some a) \<Rightarrow> Inr (a\<lparr>raw_source := Some AGENT\<rparr>)), w1, c1))"

text \<open>\<open>_is_stuck\<close>: the delegate is asked first.\<close>

fun controller_is_stuck :: "'ag controller \<Rightarrow> bool \<times> 'ag controller" where
  "controller_is_stuck (Controller c d) =
     (let (delegate_stuck, d') = (case d of
            None \<Rightarrow> (False, None)
          | Some k \<Rightarrow> (let (b, k') = controller_is_stuck k in (b, Some k')))
      in if delegate_stuck then (True, Controller c d')
         else let (b, a) = is_stuck (headless_mode c) (history (state c)) (stuck_analysis_of c)
              in (b, Controller (c\<lparr>stuck_analysis_of := a\<rparr>) d'))"

text \<open>The flag objects handed to a delegate (\<open>start_delegate\<close>), by it to its own delegate and so on:
  one pair of objects for the whole chain, so a write through one controller is seen by all.\<close>

fun push_flags :: "conv_state \<Rightarrow> 'ag controller \<Rightarrow> 'ag controller" where
  "push_flags s (Controller c d) =
     Controller (c\<lparr>state := (state c)\<lparr>iteration_flag := iteration_flag s, budget_flag := budget_flag s\<rparr>\<rparr>)
       (case d of None \<Rightarrow> None | Some k \<Rightarrow> Some (push_flags s k))"

definition with_core :: "'ag core \<Rightarrow> 'ag controller \<Rightarrow> 'ag controller" where
  "with_core c k = Controller c (map_option (push_flags (state c)) (delegate_of k))"

text \<open>An operation of one controller.\<close>

definition lift_core :: "('ag, 'a) core_op \<Rightarrow> ('ag, 'a) ctl_op" where
  "lift_core m = (\<lambda>(w, k). let (r, (w', c')) = m (w, core_of k) in (r, (w', with_core c' k)))"

text \<open>What follows once the limits allow the step.\<close>

definition take_action :: "'ag env \<Rightarrow> ('ag, unit) core_op" where
  "take_action env = (\<lambda>(w, c).
     let (replaying, rm) = should_replay (replay_manager_of c) in
     bindS (upd_core (\<lambda>c. c\<lparr>replay_manager_of := rm\<rparr>)) (\<lambda>_ (w, c).
       if replaying
       then (case replay_step rm of
               (Inl x, rm') \<Rightarrow> (Inl x, w, c\<lparr>replay_manager_of := rm'\<rparr>)
             | (Inr e, rm') \<Rightarrow> send_action env e (w, c\<lparr>replay_manager_of := rm'\<rparr>))
       else bindS (ask_agent env) (\<lambda>answer.
              case answer of Inl e \<Rightarrow> handle_step_error env e | Inr e \<Rightarrow> send_action env e) (w, c)) (w, c))"

definition within_limits :: "'ag env \<Rightarrow> ('ag, unit) core_op" where
  "within_limits env = (\<lambda>(w, c).
     let (r, s) = run_control_flags (state c)
     in case r of
          Inl e \<Rightarrow> react_to_exception env e (w, c\<lparr>state := s\<rparr>)
        | Inr _ \<Rightarrow> take_action env (w, c\<lparr>state := s\<rparr>))"

definition step :: "'ag env \<Rightarrow> ('ag, unit) ctl_op" where
  "step env = (\<lambda>(w, k).
     if agent_state (state (core_of k)) \<noteq> RUNNING then (Inr (), w, k)
     else if pending_action (core_of k) \<noteq> None then (Inr (), w, k)
     else let c1 = (core_of k)\<lparr>state := sync_budget_flag_with_metrics (stats w) (state (core_of k))\<rparr>;
              k1 = with_core c1 k;
              (stuck, k2) = (if enable_stuck_detection (agent_cfg c1) then controller_is_stuck k1
                             else (False, k1))
          in if stuck
             then lift_core (react_to_exception env (AgentStuckInLoopError ''Agent got stuck in a loop'')) (w, k2)
             else lift_core (within_limits env) (w, k2))"

definition step_with_exception_handling :: "'ag env \<Rightarrow> ('ag, unit) ctl_op" where
  "step_with_exception_handling env =
     tryS (step env) (\<lambda>e. lift_core (react_to_exception env (reported_exception e)))"

section \<open>Messages and loop recovery\<close>

text \<open>\<open>_first_user_message()\<close> with its cache.\<close>

definition first_user_message :: "('ag, event option) core_op" where
  "first_user_message = (\<lambda>(w, c).
     case cached_first_user_message c of
       Some e \<Rightarrow> (Inr (Some e), w, c)
     | None \<Rightarrow>
         let m = find is_user_message (search_events (start_id (state c)) None False None None (stream w))
         in (Inr m, w, c\<lparr>cached_first_user_message := m\<rparr>))"

definition handle_message_action :: "'ag env \<Rightarrow> event \<Rightarrow> ('ag, unit) core_op" where
  "handle_message_action env e =
     (if event_source e = Some USER
      then bindS first_user_message (\<lambda>first.
        let is_first = (case first of Some f \<Rightarrow> event_id e = event_id f | None \<Rightarrow> False);
            recall = fresh_event (Act (RecallAction
              (if is_first then WORKSPACE_CONTEXT else KNOWLEDGE) (a_content (act_of (payload e))) []))
        in bindS (upd_core (\<lambda>c. c\<lparr>pending_action := Some recall\<rparr>)) (\<lambda>_.
           bindS (emit env recall USER) (\<lambda>recall'.
           bindS (upd_core (\<lambda>c. c\<lparr>pending_action := Some recall'\<rparr>)) (\<lambda>_ (w, c).
             if agent_state (state c) \<noteq> RUNNING then set_agent_state_to env RUNNING (w, c)
             else (Inr (), w, c)))))
      else if event_source e = Some AGENT \<and> a_wait_for_response (act_of (payload e))
      then set_agent_state_to env AWAITING_USER_INPUT
      else retS ())"

definition truncate_memory_to_point :: "int \<Rightarrow> ('ag, unit) core_op" where
  "truncate_memory_to_point recovery_point = upd_core (\<lambda>c.
     if recovery_point \<ge> int (length (history (state c))) then c
     else let kept = slice_to (history (state c)) recovery_point
          in c\<lparr>state := (state c)\<lparr>history := kept,
                 end_id := (if kept \<noteq> [] then event_id (last kept) else -1)\<rparr>,
               cached_first_user_message := None\<rparr>)"

definition CHECK_MARK :: string where
  "CHECK_MARK = [CHR 0xE2, CHR 0x9C, CHR 0x85]"

definition WARNING_SIGN :: string where
  "WARNING_SIGN = [CHR 0xE2, CHR 0x9A, CHR 0xA0, CHR 0xEF, CHR 0xB8, CHR 0x8F]"

definition nl :: string where
  "nl = [CHR 0x0A]"

definition quoted :: "string \<Rightarrow> string" where
  "quoted s = [CHR 0x27] @ s @ [CHR 0x27]"

definition perform_loop_recovery :: "'ag env \<Rightarrow> stuck_analysis \<Rightarrow> ('ag, unit) core_op" where
  "perform_loop_recovery env a =
     bindS (truncate_memory_to_point (loop_start_idx a)) (\<lambda>_.
     bindS (set_agent_state_to env AWAITING_USER_INPUT) (\<lambda>_.
       emit_new env (Obs (LoopDetectionObservation
         (CHECK_MARK @ '' Loop recovery completed. Agent has been reset to before the loop.'' @ nl @
          ''You can now provide new instructions to continue.'' @ nl))) ENVIRONMENT))"

text \<open>The new message has no id, so it never is the first user message of the stream.\<close>

definition restart_with_last_user_message :: "'ag env \<Rightarrow> stuck_analysis \<Rightarrow> ('ag, unit) core_op" where
  "restart_with_last_user_message env a = (\<lambda>(w, c).
     case find is_user_message (rev (history (state c))) of
       None \<Rightarrow> perform_loop_recovery env a (w, c)
     | Some m \<Rightarrow>
         let text = a_content (act_of (payload m)) in
         bindS (truncate_memory_to_point (loop_start_idx a)) (\<lambda>_.
         bindS (set_agent_state_to env RUNNING) (\<lambda>_.
         bindS (emit_new env (Obs (LoopDetectionObservation
           (nl @ CHECK_MARK @ '' Restarting with your last instruction: '' @ text @ nl @
            ''Agent is now continuing with the same task...'' @ nl))) ENVIRONMENT) (\<lambda>_.
         handle_message_action env
           ((fresh_event (Act (MessageAction text None None False RISK_UNKNOWN)))\<lparr>raw_source := Some USER\<rparr>))))
         (w, c))"

definition handle_loop_recovery_action :: "'ag env \<Rightarrow> int \<Rightarrow> ('ag, unit) core_op" where
  "handle_loop_recovery_action env option = (\<lambda>(w, c).
     case stuck_analysis_of c of
       None \<Rightarrow> (Inr (), w, c)
     | Some a \<Rightarrow>
         (if option = 1 then perform_loop_recovery env a
          else if option = 2 then restart_with_last_user_message env a
          else if option = 3 then set_agent_state_to env STOPPED
          else retS ()) (w, c))"

text \<open>\<open>attempt_loop_recovery\<close>, called by the command line client.\<close>

definition attempt_loop_recovery :: "'ag env \<Rightarrow> ('ag, bool) core_op" where
  "attempt_loop_recovery env = (\<lambda>(w, c).
     case stuck_analysis_of c of
       None \<Rightarrow> (Inr False, w, c)
     | Some a \<Rightarrow>
         bindS (emit_new env (Obs (LoopDetectionObservation
           (WARNING_SIGN @ ''  Agent detected in a loop!'' @ nl @
            ''Loop type: '' @ loop_type a @ nl @
            ''Loop detected at iteration '' @ str_of_int (current_value (iteration_flag (state c))) @ nl @ nl @
            ''Recovery options:'' @ nl @
            ''/resume 1. Restart from before loop (preserves '' @ str_of_int (loop_start_idx a) @ '' events)'' @ nl @
            ''/resume 2. Restart with last user message (reuses your most recent instruction)'' @ nl @
            ''/exit. Quit directly'' @ nl @ nl @
            ''The agent has been paused. Type '' @ quoted ''/resume 1'' @ '', '' @ quoted ''/resume 2'' @
            '', or '' @ quoted ''/exit'' @ '' to choose an option.'' @ nl))) ENVIRONMENT) (\<lambda>_.
         bindS (emit_new env (Act (ChangeAgentStateAction PAUSED [])) ENVIRONMENT) (\<lambda>_.
         retS True)) (w, c))"

section \<open>Sending events\<close>

text \<open>The object and the world after a successful \<open>add_event\<close>.\<close>

definition stamped :: "'ag env \<Rightarrow> event \<Rightarrow> event_source \<Rightarrow> world \<Rightarrow> event" where
  "stamped env e src w = e\<lparr>raw_timestamp := Some (clock env (cur_id (stream w))),
     raw_source := Some src, raw_id := Some (cur_id (stream w))\<rparr>"

definition pushed :: "'ag env \<Rightarrow> event \<Rightarrow> event_source \<Rightarrow> world \<Rightarrow> world" where
  "pushed env e src w = w\<lparr>stream := (stream w)
     \<lparr>logged := logged (stream w) @ [stored_form (stamped env e src w)],
      queued := queued (stream w) @ [stored_form (stamped env e src w)]\<rparr>\<rparr>"

lemma emit_fresh:
  "event_id e = INVALID_ID \<Longrightarrow> emit env e src (w, c) = (Inr (stamped env e src w), (pushed env e src w, c))"
  by (simp add: emit_def add_event_def stamped_def pushed_def Let_def)

lemma fresh_id [simp]: "event_id (fresh_event p) = INVALID_ID"
  by (simp add: event_id_def fresh_event_def)

lemma emit_new_eq:
  "emit_new env p src (w, c) = (Inr (), (pushed env (fresh_event p) src w, c))"
  by (simp add: emit_new_def bindS_def emit_fresh)

lemma pushed_logged [simp]:
  "logged (stream (pushed env e src w)) = logged (stream w) @ [stored_form (stamped env e src w)]"
  "queued (stream (pushed env e src w)) = queued (stream w) @ [stored_form (stamped env e src w)]"
  "files (pushed env e src w) = files w" "stats (pushed env e src w) = stats w"
  "notified (pushed env e src w) = notified w"
  by (simp_all add: pushed_def)

lemma stamped_simps [simp]:
  "payload (stamped env e src w) = payload e" "raw_source (stamped env e src w) = Some src"
  "raw_id (stamped env e src w) = Some (cur_id (stream w))" "raw_cause (stamped env e src w) = raw_cause e"
  "raw_tool_call_metadata (stamped env e src w) = raw_tool_call_metadata e"
  by (simp_all add: stamped_def)

section \<open>Changing the state\<close>

text \<open>The parts of \<open>set_agent_state_to\<close> in closed form: none of them can raise.\<close>

definition reset_world :: "'ag env \<Rightarrow> world \<Rightarrow> 'ag core \<Rightarrow> world" where
  "reset_world env w c = (case pending_action c of
     None \<Rightarrow> w
   | Some p \<Rightarrow>
       if list_ex (\<lambda>e. is_observation e \<and>
            same_tool_call (raw_tool_call_metadata e) (raw_tool_call_metadata p)) (history (state c))
       then w else pushed env (not_executed_observation (agent_state (state c)) p) AGENT w)"

lemma not_executed_id [simp]: "event_id (not_executed_observation st p) = INVALID_ID"
  by (simp add: not_executed_observation_def event_id_def fresh_event_def)

lemma bindS_Inr: "m s = (Inr x, s') \<Longrightarrow> bindS m f s = f x s'"
  by (simp add: bindS_def)

lemma reset_eq:
  "reset env (w, c) =
     (Inr (), (reset_world env w c, c\<lparr>pending_action := None, agent := agent_reset env (agent c)\<rparr>))"
proof (cases "pending_action c")
  case None
  then show ?thesis by (simp add: reset_def bindS_def reset_world_def upd_core_def)
next
  case (Some p)
  show ?thesis
  proof (cases "list_ex (\<lambda>e. is_observation e \<and>
            same_tool_call (raw_tool_call_metadata e) (raw_tool_call_metadata p)) (history (state c))")
    case True
    with Some show ?thesis by (simp add: reset_def bindS_def reset_world_def upd_core_def)
  next
    case False
    with Some show ?thesis by (simp add: reset_def bindS_def reset_world_def upd_core_def emit_fresh)
  qed
qed

definition answered :: "agent_state \<Rightarrow> event \<Rightarrow> event" where
  "answered target p =
     (set_confirmation (if target = USER_CONFIRMED then CONFIRMED else CONF_REJECTED)
        (case payload p of Act a \<Rightarrow> p\<lparr>payload := Act (set_thought [] a)\<rparr> | _ \<Rightarrow> p))
     \<lparr>raw_id := None\<rparr>"

lemma answered_id [simp]: "event_id (answered st p) = INVALID_ID"
  by (simp add: answered_def event_id_def)

lemma answer_pending_eq:
  "answer_pending env target (w, c) =
     (case pending_action c of
        Some p \<Rightarrow> if target = USER_CONFIRMED \<or> target = USER_REJECTED
          then (Inr (), (pushed env (answered target p) AGENT w,
                c\<lparr>pending_action := Some (stamped env (answered target p) AGENT w)\<rparr>))
          else (Inr (), (w, c))
      | None \<Rightarrow> (Inr (), (w, c)))"
  by (cases "pending_action c")
    (simp_all add: answer_pending_def bindS_def upd_core_def emit_fresh Let_def answered_def [symmetric])

text \<open>The controller after the assignments, and the world after the events, of a change of state.\<close>

definition state_core :: "'ag env \<Rightarrow> agent_state \<Rightarrow> 'ag core \<Rightarrow> 'ag core" where
  "state_core env target c =
     (let c1 = c\<lparr>state := (state c)\<lparr>agent_state := target\<rparr>\<rparr>;
          c2 = (if target = STOPPED \<or> target = ERROR
                then c1\<lparr>pending_action := None, agent := agent_reset env (agent c)\<rparr> else c1)
      in if agent_state (state c) = ERROR \<and> target = RUNNING
         then c2\<lparr>state := maybe_increase_control_flags_limits (headless_mode c2) (state c2)\<rparr> else c2)"

definition state_changed :: "agent_state \<Rightarrow> string \<Rightarrow> event" where
  "state_changed target reason = fresh_event (Obs (AgentStateChangedObservation [] target reason))"

definition after_reset :: "'ag env \<Rightarrow> agent_state \<Rightarrow> world \<Rightarrow> 'ag core \<Rightarrow> world" where
  "after_reset env target w c =
     (if target = STOPPED \<or> target = ERROR
      then reset_world env w (c\<lparr>state := (state c)\<lparr>agent_state := target\<rparr>\<rparr>) else w)"

definition saved :: "'ag core \<Rightarrow> world \<Rightarrow> world" where
  "saved c w = w\<lparr>files := save_state (tracker_of c) (stats w) (state c) (files w)\<rparr>"

lemma state_core_simps [simp]:
  "agent_state (state (state_core env target c)) = target"
  "last_error (state (state_core env target c)) = last_error (state c)"
  "history (state (state_core env target c)) = history (state c)"
  "tracker_of (state_core env target c) = tracker_of c"
  "pending_action (state_core env target c) =
     (if target = STOPPED \<or> target = ERROR then None else pending_action c)"
  by (simp_all add: state_core_def Let_def maybe_increase_control_flags_limits_def)

lemma set_agent_state_to_eq:
  fixes c :: "'ag core"
  shows "set_agent_state_to env target (w, c) =
     (if target = agent_state (state c) then (Inr (), (w, c))
      else let c2 = state_core env target c; w1 = after_reset env target w c;
               reason = (if target = ERROR then last_error (state c) else [])
           in case pending_action c2 of
                Some p \<Rightarrow>
                  if target = USER_CONFIRMED \<or> target = USER_REJECTED
                  then let w2 = pushed env (answered target p) AGENT w1;
                           c3 = c2\<lparr>pending_action := Some (stamped env (answered target p) AGENT w1)\<rparr>
                       in (Inr (), (saved c3 (pushed env (state_changed target reason) ENVIRONMENT w2), c3))
                  else (Inr (), (saved c2 (pushed env (state_changed target reason) ENVIRONMENT w1), c2))
              | None \<Rightarrow> (Inr (), (saved c2 (pushed env (state_changed target reason) ENVIRONMENT w1), c2)))"
proof (cases "target = agent_state (state c)")
  case True
  then show ?thesis by (simp add: set_agent_state_to_def)
next
  case False
  define c1 where "c1 = c\<lparr>state := (state c)\<lparr>agent_state := target\<rparr>\<rparr>"
  define rest where "rest = bindS (answer_pending env target) (\<lambda>_.
       bindS (\<lambda>(w, c). emit_new env (Obs (AgentStateChangedObservation [] (agent_state (state c))
                (if target = ERROR then last_error (state c) else []))) ENVIRONMENT (w, c)) (\<lambda>_.
       save_controller))"
  have "set_agent_state_to env target (w, c) = rest (after_reset env target w c, state_core env target c)"
  proof -
    have "bindS (if target = STOPPED \<or> target = ERROR then reset env else retS ())
        (\<lambda>_. bindS (if agent_state (state c) = ERROR \<and> target = RUNNING
              then upd_core (\<lambda>c. c\<lparr>state := maybe_increase_control_flags_limits (headless_mode c) (state c)\<rparr>)
              else retS ()) (\<lambda>_. rest)) (w, c1) =
      rest (after_reset env target w c, state_core env target c)"
      by (cases "target = STOPPED \<or> target = ERROR"; cases "agent_state (state c) = ERROR \<and> target = RUNNING")
        (auto simp: bindS_def reset_eq after_reset_def state_core_def upd_core_def c1_def Let_def)
    moreover have "upd_state (\<lambda>s. s\<lparr>agent_state := target\<rparr>) (w, c) = (Inr (), (w, c1))"
      by (simp add: upd_state_def upd_core_def c1_def)
    ultimately show ?thesis
      unfolding set_agent_state_to_def prod.case if_not_P [OF False] Let_def rest_def
      by (simp only: bindS_Inr)
  qed
  also have "rest (after_reset env target w c, state_core env target c) =
    (let c2 = state_core env target c; w1 = after_reset env target w c;
               reason = (if target = ERROR then last_error (state c) else [])
           in case pending_action c2 of
                Some p \<Rightarrow>
                  if target = USER_CONFIRMED \<or> target = USER_REJECTED
                  then let w2 = pushed env (answered target p) AGENT w1;
                           c3 = c2\<lparr>pending_action := Some (stamped env (answered target p) AGENT w1)\<rparr>
                       in (Inr (), (saved c3 (pushed env (state_changed target reason) ENVIRONMENT w2), c3))
                  else (Inr (), (saved c2 (pushed env (state_changed target reason) ENVIRONMENT w1), c2))
              | None \<Rightarrow> (Inr (), (saved c2 (pushed env (state_changed target reason) ENVIRONMENT w1), c2)))"
    by (cases "pending_action (state_core env target c)")
      (auto simp: rest_def bindS_def answer_pending_eq emit_new_eq save_controller_def saved_def
        state_changed_def Let_def)
  finally show ?thesis using False by simp
qed

lemma set_agent_state_to_total: "fst (set_agent_state_to env target s) = Inr ()"
proof -
  obtain w c where s: "s = (w, c)" by fastforce
  show ?thesis
    unfolding s set_agent_state_to_eq
    by (cases "pending_action (state_core env target c)") (simp_all add: Let_def)
qed

lemma set_agent_state_to_state:
  "snd (set_agent_state_to env target (w, c)) = (w', c') \<Longrightarrow> agent_state (state c') = target"
  by (auto simp: set_agent_state_to_eq Let_def split: option.splits if_splits)

lemma set_agent_state_to_history:
  "snd (set_agent_state_to env target (w, c)) = (w', c') \<Longrightarrow> history (state c') = history (state c)"
  by (auto simp: set_agent_state_to_eq Let_def split: option.splits if_splits)

end
