(* ===== verification/Delegation.thy ===== *)
theory Delegation
  imports Agent_Controller
begin

text \<open>
  The rest of the agent controller (\<open>openhands/controller/agent_controller.py\<close>): construction and
  closing, starting and ending a delegate, and the handling of the events the stream delivers.
\<close>

section \<open>Construction and closing\<close>

definition add_system_message :: "'ag env \<Rightarrow> ('ag, unit) core_op" where
  "add_system_message env = (\<lambda>(w, c).
     if list_ex (\<lambda>e. is_user_message e \<or> is_system_message e)
          (search_events (start_id (state c)) None False None None (stream w))
     then (Inr (), w, c)
     else case agent_system_message env (agent c) of
       Some a \<Rightarrow> if a_content a \<noteq> [] then emit_new env (Act a) AGENT (w, c) else (Inr (), w, c)
     | None \<Rightarrow> (Inr (), w, c))"

text \<open>
  The constructor. The arguments it stores unchanged are in \<open>args\<close>; the fields it computes are
  set here, whatever \<open>args\<close> has in them. The argument \<open>sid\<close> is given as \<open>trk_sid\<close> of the
  arguments: the tracker gets it as it is, so without a \<open>sid\<close> it saves no state. \<open>ctl_id\<close> is
  \<open>sid or event_stream.sid\<close>.
\<close>

definition init_controller ::
  "'ag env \<Rightarrow> conv_state option \<Rightarrow> event list option \<Rightarrow> 'ag core \<Rightarrow> world \<Rightarrow> 'ag core" where
  "init_controller env initial_state replays args w =
     args\<lparr>tracker_of := \<lparr>trk_sid = trk_sid (tracker_of args), trk_has_file_store = ctl_has_file_store args,
                         trk_user_id = ctl_user_id args\<rparr>,
          state := init_history (stream w)
            (set_initial_state (ctl_id args) (ctl_user_id args) initial_state
              (initial_max_iterations args) (initial_max_budget args) (ctl_confirmation_mode args)),
          stuck_analysis_of := None, pending_action := None, cached_first_user_message := None,
          replay_manager_of := new_replay_manager replays,
          closed_flag := False, subscribed := (\<not> is_delegate args)\<rparr>"

definition new_controller ::
  "'ag env \<Rightarrow> conv_state option \<Rightarrow> event list option \<Rightarrow> 'ag core \<Rightarrow> world \<Rightarrow> unit result \<times> world \<times> 'ag controller" where
  "new_controller env initial_state replays args w =
     (let (r, w', c') = add_system_message env (w, init_controller env initial_state replays args w)
      in (r, w', Controller c' None))"

definition close_controller :: "'ag env \<Rightarrow> bool \<Rightarrow> ('ag, unit) core_op" where
  "close_controller env set_stop_state =
     bindS (if set_stop_state then set_agent_state_to env STOPPED else retS ()) (\<lambda>_.
     modS (\<lambda>(w, c). (w, c\<lparr>state := close_history (stream w) (state c),
                        subscribed := (subscribed c \<and> is_delegate c), closed_flag := True\<rparr>)))"

section \<open>Delegates\<close>

definition delegate_state :: "'ag core \<Rightarrow> action \<Rightarrow> event_log \<Rightarrow> conv_state" where
  "delegate_state c a lg = new_state
     \<lparr>session_id := remove_suffix (ctl_id c) ''-delegate'', user_id := ctl_user_id c,
      inputs := a_inputs a, iteration_flag := iteration_flag (state c),
      budget_flag := budget_flag (state c), delegate_level := delegate_level (state c) + 1,
      state_metrics := state_metrics (state c), start_id := get_latest_event_id lg + 1,
      parent_metrics_snapshot := Some (state_metrics (state c)),
      parent_iteration := current_value (iteration_flag (state c))\<rparr>"

text \<open>The arguments of the delegate's constructor: confirmation mode, status callback and replay
  events are not among them and have their defaults.\<close>

definition delegate_args :: "'ag core \<Rightarrow> 'ag \<Rightarrow> string \<Rightarrow> agent_config \<Rightarrow> 'ag core" where
  "delegate_args c ag name cfg =
     c\<lparr>ctl_id := ctl_id c @ ''-delegate'',
       tracker_of := (tracker_of c)\<lparr>trk_sid := Some (ctl_id c @ ''-delegate'')\<rparr>,
       agent := ag, agent_name := name, agent_cfg := cfg,
       is_delegate := True, ctl_confirmation_mode := False, has_status_callback := False\<rparr>"

definition start_delegate :: "'ag env \<Rightarrow> action \<Rightarrow> ('ag, unit) ctl_op" where
  "start_delegate env a = (\<lambda>(w, k).
     let c = core_of k;
         cfg = (case map_of (agent_configs c) (a_agent a) of Some g \<Rightarrow> g | None \<Rightarrow> agent_cfg c)
     in case get_cls env (a_agent a) cfg of
          Inl x \<Rightarrow> (Inl x, w, k)
        | Inr (ag, name) \<Rightarrow>
            let (r, w', d) = new_controller env (Some (delegate_state c a (stream w))) None
                  (delegate_args c ag name cfg) w
            in case r of Inl x \<Rightarrow> (Inl x, w', k) | Inr _ \<Rightarrow> (Inr (), w', Controller c (Some d)))"

text \<open>The objects a parent shares with its delegate.\<close>

definition share_flags :: "'ag controller \<Rightarrow> 'ag core \<Rightarrow> 'ag core" where
  "share_flags d c = c\<lparr>state := (state c)
     \<lparr>iteration_flag := iteration_flag (state (core_of d)),
      budget_flag := budget_flag (state (core_of d))\<rparr>\<rparr>"

text \<open>An operation of the delegate.\<close>

definition on_delegate :: "('ag, unit) ctl_op \<Rightarrow> ('ag, unit) ctl_op" where
  "on_delegate m = (\<lambda>(w, k). case delegate_of k of
     None \<Rightarrow> (Inr (), w, k)
   | Some d \<Rightarrow> let (r, w', d') = m (w, d)
               in (r, w', Controller (share_flags d' (core_of k)) (Some d')))"

definition delegate_content :: "'ag env \<Rightarrow> agent_state \<Rightarrow> string \<Rightarrow> json_dict \<Rightarrow> string" where
  "delegate_content env st name outs =
     ''Delegated agent finished with result:'' @ nl @ nl @
     (if st \<in> {FINISHED, REJECTED}
      then name @ '' finishes task with '' @
           py_join '', '' (map (\<lambda>(k, v). k @ '': '' @ py_str env v) (filter (\<lambda>(k, v). k \<noteq> ''metrics'') outs))
      else name @ '' encountered an error during execution.'')"

definition end_delegate :: "'ag env \<Rightarrow> ('ag, unit) ctl_op" where
  "end_delegate env = (\<lambda>(w, k). case delegate_of k of
     None \<Rightarrow> (Inr (), w, k)
   | Some d \<Rightarrow>
       let st = agent_state (state (core_of d)) in
       bindS (on_delegate (lift_core (close_controller env True))) (\<lambda>_ (w, k).
         let outs = outputs (state (core_of d));
             action = find is_delegate_action (rev (history (state (core_of k))));
             ob = (fresh_event (Obs (AgentDelegateObservation
                     (delegate_content env st (agent_name (core_of d)) outs) outs)))
                  \<lparr>raw_tool_call_metadata :=
                     (case action of Some a \<Rightarrow> raw_tool_call_metadata a | None \<Rightarrow> None)\<rparr>
         in bindS (lift_core (bindS (emit env ob AGENT) (\<lambda>_. retS ()))) (\<lambda>_.
            modS (\<lambda>(w, k). (w, Controller (core_of k) None))) (w, k)) (w, k))"

section \<open>Events\<close>

definition should_step :: "'ag controller \<Rightarrow> event \<Rightarrow> bool" where
  "should_step k e =
     (if delegate_of k \<noteq> None then False
      else case payload e of
        Act a \<Rightarrow>
          if is_user_message e then True
          else if is_message e \<and> agent_state (state (core_of k)) \<noteq> AWAITING_USER_INPUT then True
          else is_delegate_action e \<or> is_condensation e \<or> is_condensation_request e
      | Obs ob \<Rightarrow>
          if is_null_observation e \<and> (case event_cause e of Some i \<Rightarrow> i > 0 | None \<Rightarrow> False) then True
          else if is_state_changed_observation e \<or> is_null_observation e then False
          else True)"

definition handle_observation :: "'ag env \<Rightarrow> event \<Rightarrow> ('ag, unit) core_op" where
  "handle_observation env e = (\<lambda>(w, c).
     case pending_action c of
       None \<Rightarrow> (Inr (), w, c)
     | Some p \<Rightarrow>
         if Some (event_id p) = event_cause e
         then if agent_state (state c) = AWAITING_USER_CONFIRMATION then (Inr (), w, c)
              else bindS (upd_core (\<lambda>c. c\<lparr>pending_action := None\<rparr>)) (\<lambda>_.
                   bindS (if agent_state (state c) = USER_CONFIRMED
                          then set_agent_state_to env RUNNING else retS ()) (\<lambda>_ (w, c).
                   if agent_state (state c) = USER_REJECTED
                   then set_agent_state_to env AWAITING_USER_INPUT (w, c) else (Inr (), w, c))) (w, c)
         else (Inr (), w, c))"

text \<open>The delegate action: the delegate is built, told its task and set running.\<close>

definition handle_delegate_action :: "'ag env \<Rightarrow> action \<Rightarrow> ('ag, unit) ctl_op" where
  "handle_delegate_action env a =
     bindS (start_delegate env a) (\<lambda>_.
       case map_of (a_inputs a) ''task'' of
         None \<Rightarrow> retS ()
       | Some (JStr t) \<Rightarrow>
           bindS (lift_core (emit_new env
             (Act (MessageAction (''TASK: '' @ t) None None False RISK_UNKNOWN)) USER)) (\<lambda>_.
           on_delegate (lift_core (set_agent_state_to env RUNNING)))
       | Some _ \<Rightarrow> raiseS (TypeError ''can only concatenate str to str''))"

definition handle_action :: "'ag env \<Rightarrow> event \<Rightarrow> action \<Rightarrow> ('ag, unit) ctl_op" where
  "handle_action env e a = (case a of
     ChangeAgentStateAction st _ \<Rightarrow> lift_core (set_agent_state_to env st)
   | MessageAction _ _ _ _ _ \<Rightarrow> lift_core (handle_message_action env e)
   | AgentDelegateAction _ _ _ \<Rightarrow> handle_delegate_action env a
   | AgentFinishAction _ outs _ \<Rightarrow>
       lift_core (bindS (upd_state (\<lambda>s. s\<lparr>outputs := outs\<rparr>)) (\<lambda>_. set_agent_state_to env FINISHED))
   | AgentRejectAction outs _ \<Rightarrow>
       lift_core (bindS (upd_state (\<lambda>s. s\<lparr>outputs := outs\<rparr>)) (\<lambda>_. set_agent_state_to env REJECTED))
   | LoopRecoveryAction option \<Rightarrow> lift_core (handle_loop_recovery_action env option)
   | _ \<Rightarrow> retS ())"

text \<open>\<open>_on_event\<close>.\<close>

definition on_event_inner :: "'ag env \<Rightarrow> event \<Rightarrow> ('ag, unit) ctl_op" where
  "on_event_inner env e =
     (if hidden_event e then retS ()
      else bindS (lift_core (upd_state (add_history e))) (\<lambda>_.
           bindS (case payload e of
                    Act a \<Rightarrow> handle_action env e a
                  | Obs _ \<Rightarrow> lift_core (handle_observation env e)) (\<lambda>_ (w, k).
           if should_step k e then step_with_exception_handling env (w, k) else (Inr (), w, k))))"

definition delegate_active :: "conv_state \<Rightarrow> bool" where
  "delegate_active s \<longleftrightarrow> agent_state s \<notin> {FINISHED, ERROR, REJECTED} \<or>
     occurs_in ''RuntimeError: Agent reached maximum iteration.'' (last_error s) \<or>
     occurs_in ''RuntimeError:Agent reached maximum budget for conversation'' (last_error s)"

text \<open>The callback the stream calls, on the root controller only.\<close>

definition on_event :: "'ag env \<Rightarrow> event \<Rightarrow> ('ag, unit) ctl_op" where
  "on_event env e = (\<lambda>(w, k). case delegate_of k of
     Some d \<Rightarrow>
       if delegate_active (state (core_of d))
       then on_delegate (on_event_inner env e) (w, k)
       else end_delegate env (w, k)
   | None \<Rightarrow> on_event_inner env e (w, k))"

section \<open>The running system\<close>

text \<open>
  The stream delivers its events one by one to the callback; an exception that leaves the callback
  is caught by the stream's worker. Others may add events (the user, the runtime that executes
  actions), and the command line may ask for loop recovery.
\<close>

inductive system_step :: "'ag env \<Rightarrow> world \<times> 'ag controller \<Rightarrow> world \<times> 'ag controller \<Rightarrow> bool"
  for env :: "'ag env" where
  deliver: "subscribed (core_of k) \<Longrightarrow> queued (stream w) = e # q \<Longrightarrow>
     on_event env e (w\<lparr>stream := (stream w)\<lparr>queued := q\<rparr>\<rparr>, k) = (r, w', k') \<Longrightarrow>
     system_step env (w, k) (w', k')"
| external: "add_event now e src (stream w) = Inr (e', lg) \<Longrightarrow>
     system_step env (w, k) (w\<lparr>stream := lg\<rparr>, k)"
| recovery: "lift_core (attempt_loop_recovery env) (w, k) = (r, w', k') \<Longrightarrow>
     system_step env (w, k) (w', k')"
| close: "lift_core (close_controller env b) (w, k) = (r, w', k') \<Longrightarrow>
     system_step env (w, k) (w', k')"

inductive reachable :: "'ag env \<Rightarrow> world \<times> 'ag controller \<Rightarrow> world \<times> 'ag controller \<Rightarrow> bool"
  for env :: "'ag env" where
  start: "reachable env s s"
| more: "reachable env s t \<Longrightarrow> system_step env t u \<Longrightarrow> reachable env s u"

inductive_cases system_stepE: "system_step env s t"

end
