(* ===== verification/Controller_Frames.thy ===== *)
theory Controller_Frames
  imports Delegation
begin

text \<open>
  Frames of the controller's operations: a relation between the states before and after that the
  primitive changes keep is kept by every method, every delivered event and every run. Four
  interpretations follow: the bound on iterations, the filtered history, the growing stream and
  the fields that a controller keeps from its construction on.
\<close>

section \<open>What the operations leave alone\<close>

text \<open>
  A step of the controller that touches neither the stream nor what the invariants below are
  about is quiet.
\<close>

definition constants :: "'ag core \<Rightarrow> 'ag core \<Rightarrow> bool" where
  "constants c d \<longleftrightarrow> ctl_id d = ctl_id c \<and> headless_mode d = headless_mode c \<and>
     is_delegate d = is_delegate c \<and> ctl_confirmation_mode d = ctl_confirmation_mode c \<and>
     security_analyzer d = security_analyzer c \<and> tracker_of d = tracker_of c \<and>
     has_status_callback d = has_status_callback c \<and> agent_cfg d = agent_cfg c \<and>
     confirmation_mode (state d) = confirmation_mode (state c)"

definition quiet :: "world \<times> 'ag core \<Rightarrow> world \<times> 'ag core \<Rightarrow> bool" where
  "quiet s t \<longleftrightarrow> stream (fst t) = stream (fst s) \<and>
     history (state (snd t)) = history (state (snd s)) \<and>
     iteration_flag (state (snd t)) = iteration_flag (state (snd s)) \<and> constants (snd s) (snd t)"

text \<open>
  A relation between the states before and after an operation that every operation of the
  controller respects, if the few steps it is made of do.
\<close>

locale core_frame = op_relation R for R :: "world \<times> 'ag core \<Rightarrow> world \<times> 'ag core \<Rightarrow> bool" +
  fixes env :: "'ag env"
  assumes quiet: "quiet s t \<Longrightarrow> R s t"
    and send: "R (w, c) (pushed env e src w, c)"
    and raise_limits: "R (w, c) (w, c\<lparr>state := maybe_increase_control_flags_limits (headless_mode c) (state c)\<rparr>)"
    and count: "R (w, c) (w, c\<lparr>state := snd (run_control_flags (state c))\<rparr>)"
    and shorten: "R (w, c) (w, c\<lparr>state := (state c)\<lparr>history := slice_to (history (state c)) n, end_id := i\<rparr>\<rparr>)"
    and rebuild: "R (w, c) (w, c\<lparr>state := close_history (stream w) (state c)\<rparr>)"
    and extend: "R (w, c) (w, c\<lparr>state := add_history e (state c)\<rparr>)"
begin

lemma keeps_pairI: "(\<And>w c. R (w, c) (snd (m (w, c)))) \<Longrightarrow> keeps m"
  by (rule keepsI) auto

lemma keeps_upd: "(\<And>w c. quiet (w, c) (w, f c)) \<Longrightarrow> keeps (upd_core f)"
  by (rule keeps_pairI) (simp add: upd_core_def quiet)

lemma keeps_emit: "keeps (emit env e src)"
proof (rule keeps_pairI)
  fix w c
  show "R (w, c) (snd (emit env e src (w, c)))"
  proof (cases "event_id e = INVALID_ID")
    case True
    then show ?thesis by (simp add: emit_fresh send)
  next
    case False
    then have "emit env e src (w, c) = (Inl (ValueError (''Event already has an ID:'' @ str_of_int (event_id e) @
        ''. It was probably added back to the EventStream from inside a handler, triggering a loop.'')), (w, c))"
      by (simp add: emit_def add_event_def)
    then show ?thesis by (simp add: same)
  qed
qed

lemma keeps_emit_new: "keeps (emit_new env p src)"
  unfolding emit_new_def by (intro keeps_bind keeps_emit keeps_ret)

lemma keeps_reset: "keeps (reset env)"
proof (rule keeps_pairI)
  fix w c
  have "R (w, c) (reset_world env w c, c)"
    by (auto simp: reset_world_def same send split: option.splits)
  moreover have "R (reset_world env w c, c)
      (reset_world env w c, c\<lparr>pending_action := None, agent := agent_reset env (agent c)\<rparr>)"
    by (rule quiet) (simp add: quiet_def constants_def)
  ultimately show "R (w, c) (snd (reset env (w, c)))"
    by (auto simp: reset_eq intro: trans)
qed

lemma keeps_answer: "keeps (answer_pending env target)"
proof (rule keeps_pairI)
  fix w and c :: "'ag core"
  have q: "quiet (x, c) (x, c\<lparr>pending_action := p\<rparr>)" for x p
    by (simp add: quiet_def constants_def)
  show "R (w, c) (snd (answer_pending env target (w, c)))"
    by (auto simp: answer_pending_eq same split: option.splits intro: trans [OF send quiet [OF q]])
qed

lemma keeps_save: "keeps save_controller"
  unfolding save_controller_def
  by (rule keeps_mod) (auto intro!: quiet simp: quiet_def constants_def)

lemma keeps_set_state: "keeps (set_agent_state_to env target)"
proof (rule keeps_pairI)
  fix w c
  have k: "keeps (bindS (upd_state (\<lambda>s. s\<lparr>agent_state := target\<rparr>)) (\<lambda>_.
       bindS (if target = STOPPED \<or> target = ERROR then reset env else retS ()) (\<lambda>_.
       bindS (if old = ERROR \<and> target = RUNNING
              then upd_core (\<lambda>c. c\<lparr>state := maybe_increase_control_flags_limits (headless_mode c) (state c)\<rparr>)
              else retS ()) (\<lambda>_.
       bindS (answer_pending env target) (\<lambda>_.
       bindS (\<lambda>(w, c). emit_new env (Obs (AgentStateChangedObservation [] (agent_state (state c))
                (if target = ERROR then last_error (state c) else []))) ENVIRONMENT (w, c)) (\<lambda>_.
       save_controller))))))" for old
    unfolding upd_state_def
    by (intro keeps_bind keeps_if keeps_reset keeps_ret keeps_answer keeps_save keeps_upd keeps_pairI)
      (auto simp: quiet_def constants_def upd_core_def raise_limits intro: keepsD [OF keeps_emit_new])
  show "R (w, c) (snd (set_agent_state_to env target (w, c)))"
    using keepsD [OF k, of "(w, c)" "agent_state (state c)"] same by (auto simp: set_agent_state_to_def Let_def)
qed

lemma keeps_last_error: "keeps (set_last_error m)"
  unfolding set_last_error_def upd_state_def by (rule keeps_upd) (simp add: quiet_def constants_def)

lemma keeps_notify: "keeps (notify m)"
  unfolding notify_def by (rule keeps_mod) (auto intro!: quiet simp: quiet_def constants_def)

lemma keeps_react: "keeps (react_to_exception env e)"
  unfolding react_to_exception_def
  by (intro keeps_bind keeps_last_error keeps_pairI)
    (auto split: option.splits intro!: keepsD [OF keeps_bind] keepsD [OF keeps_set_state]
      keeps_bind keeps_last_error keeps_notify keeps_set_state)

lemma quiet_upd: "constants c (f c) \<Longrightarrow> history (state (f c)) = history (state c) \<Longrightarrow>
    iteration_flag (state (f c)) = iteration_flag (state c) \<Longrightarrow> quiet (w, c) (w, f c)"
  by (simp add: quiet_def)

lemma keeps_pending: "keeps (upd_core (\<lambda>c. c\<lparr>pending_action := p\<rparr>))"
  by (rule keeps_upd) (simp add: quiet_def constants_def)

lemma keeps_send_action: "keeps (send_action env e)"
proof (rule keeps_pairI)
  fix w and c :: "'ag core"
  define run where "run = (case payload e of Act a \<Rightarrow> runnable a | Obs _ \<Rightarrow> False)"
  define e1 where "e1 = (if run then guard_action c e else e)"
  define keep where "keep = (\<lambda>e. if run then upd_core (\<lambda>c :: 'ag core. c\<lparr>pending_action := Some e\<rparr>) else retS ())"
  have k: "keeps (keep e)" for e
    by (simp add: keep_def keeps_pending keeps_ret)
  have tail: "keeps (\<lambda>(w, c). case frontend_metrics (stats w) (budget_flag (state c)) of
            Inl x \<Rightarrow> (Inl x, w, c)
          | Inr m \<Rightarrow>
              let e2 = e1\<lparr>raw_llm_metrics := Some m\<rparr> in
              bindS (keep e2) (\<lambda>_.
              case raw_source e2 of
                None \<Rightarrow> raiseS (AttributeError ''_source'')
              | Some src \<Rightarrow> bindS (emit env e2 src) keep) (w, c))"
  proof (rule keeps_pairI)
    fix w and c :: "'ag core"
    show "R (w, c) (snd ((\<lambda>(w, c). case frontend_metrics (stats w) (budget_flag (state c)) of
            Inl x \<Rightarrow> (Inl x, w, c)
          | Inr m \<Rightarrow>
              let e2 = e1\<lparr>raw_llm_metrics := Some m\<rparr> in
              bindS (keep e2) (\<lambda>_.
              case raw_source e2 of
                None \<Rightarrow> raiseS (AttributeError ''_source'')
              | Some src \<Rightarrow> bindS (emit env e2 src) keep) (w, c)) (w, c)))"
      by (auto simp: same Let_def split: sum.splits
          intro!: keepsD keeps_bind k keeps_ret keeps_emit split: option.splits)
  qed
  have "keeps (bindS (keep e1) (\<lambda>_.
        if is_null_action e1 then retS ()
        else
          bindS (if confirmation_of e1 = Some AWAITING_CONFIRMATION
                 then set_agent_state_to env AWAITING_USER_CONFIRMATION else retS ()) (\<lambda>_ (w, c).
          case frontend_metrics (stats w) (budget_flag (state c)) of
            Inl x \<Rightarrow> (Inl x, w, c)
          | Inr m \<Rightarrow>
              let e2 = e1\<lparr>raw_llm_metrics := Some m\<rparr> in
              bindS (keep e2) (\<lambda>_.
              case raw_source e2 of
                None \<Rightarrow> raiseS (AttributeError ''_source'')
              | Some src \<Rightarrow> bindS (emit env e2 src) keep) (w, c))))"
    by (intro keeps_bind keeps_if keeps_ret keeps_set_state k tail)
  from keepsD [OF this, of "(w, c)"] show "R (w, c) (snd (send_action env e (w, c)))"
    unfolding send_action_def prod.case Let_def run_def e1_def keep_def .
qed

lemma keeps_step_error: "keeps (handle_step_error env e)"
proof (rule keeps_pairI)
  fix w c
  show "R (w, c) (snd (handle_step_error env e (w, c)))"
    by (simp add: handle_step_error_def same keepsD [OF keeps_emit_new])
qed

lemma keeps_ask: "keeps (ask_agent env)"
  by (rule keeps_pairI) (auto simp: ask_agent_def Let_def quiet_def constants_def intro!: quiet)

lemma keeps_take_action: "keeps (take_action env)"
proof (rule keeps_pairI)
  fix w and c :: "'ag core"
  have rep: "quiet (x, c) (x, c\<lparr>replay_manager_of := m\<rparr>)" for x m and c :: "'ag core"
    by (simp add: quiet_def constants_def)
  obtain b rm where sr: "should_replay (replay_manager_of c) = (b, rm)" by fastforce
  have "keeps (\<lambda>(w, c). if b
       then (case replay_step rm of
               (Inl x, rm') \<Rightarrow> (Inl x, w, c\<lparr>replay_manager_of := rm'\<rparr>)
             | (Inr e, rm') \<Rightarrow> send_action env e (w, c\<lparr>replay_manager_of := rm'\<rparr>))
       else bindS (ask_agent env) (\<lambda>answer.
              case answer of Inl e \<Rightarrow> handle_step_error env e | Inr e \<Rightarrow> send_action env e) (w, c))"
  proof (cases b)
    case True
    have "R (x, d) (x, d\<lparr>replay_manager_of := m\<rparr>)" for x m and d :: "'ag core"
      by (rule quiet [OF rep])
    with True show ?thesis
      by (auto intro!: keeps_pairI trans [OF _ keepsD [OF keeps_send_action]] split: prod.splits sum.splits)
  next
    case False
    have "keeps (bindS (ask_agent env) (\<lambda>answer.
              case answer of Inl e \<Rightarrow> handle_step_error env e | Inr e \<Rightarrow> send_action env e))"
      by (intro keeps_bind keeps_ask) (simp add: keeps_step_error keeps_send_action split: sum.splits)
    with False show ?thesis by (auto intro!: keeps_pairI dest: keepsD)
  qed
  then have "keeps (bindS (upd_core (\<lambda>c. c\<lparr>replay_manager_of := rm\<rparr>)) (\<lambda>_ (w, c). if b
       then (case replay_step rm of
               (Inl x, rm') \<Rightarrow> (Inl x, w, c\<lparr>replay_manager_of := rm'\<rparr>)
             | (Inr e, rm') \<Rightarrow> send_action env e (w, c\<lparr>replay_manager_of := rm'\<rparr>))
       else bindS (ask_agent env) (\<lambda>answer.
              case answer of Inl e \<Rightarrow> handle_step_error env e | Inr e \<Rightarrow> send_action env e) (w, c)))"
    by (intro keeps_bind keeps_upd rep)
  from keepsD [OF this, of "(w, c)"] show "R (w, c) (snd (take_action env (w, c)))"
    by (simp add: take_action_def sr)
qed

lemma keeps_within_limits: "keeps (within_limits env)"
proof (rule keeps_pairI)
  fix w and c :: "'ag core"
  obtain r s where rc: "run_control_flags (state c) = (r, s)" by fastforce
  have c: "R (w, c) (w, c\<lparr>state := s\<rparr>)"
    using count [of w c] rc by simp
  show "R (w, c) (snd (within_limits env (w, c)))"
    using trans [OF c keepsD [OF keeps_react]] trans [OF c keepsD [OF keeps_take_action]]
    by (cases r) (simp_all add: within_limits_def rc)
qed

lemma keeps_first_user_message: "keeps first_user_message"
  by (rule keeps_pairI)
    (auto simp: first_user_message_def same Let_def quiet_def constants_def split: option.splits intro!: quiet)

lemma keeps_run_if: "keeps (\<lambda>(w, c). if P w c then set_agent_state_to env st (w, c) else (Inr (), w, c))"
  by (rule keeps_pairI) (simp add: same keepsD [OF keeps_set_state])

lemma keeps_message: "keeps (handle_message_action env e)"
  unfolding handle_message_action_def Let_def
  using keeps_run_if [of "\<lambda>w c. agent_state (state c) \<noteq> RUNNING" RUNNING]
  by (intro keeps_if keeps_bind keeps_first_user_message keeps_pending keeps_emit keeps_ret keeps_set_state)

lemma keeps_truncate: "keeps (truncate_memory_to_point n)"
proof (rule keeps_pairI)
  fix w and c :: "'ag core"
  let ?kept = "slice_to (history (state c)) n"
  let ?i = "if ?kept \<noteq> [] then event_id (last ?kept) else -1"
  have "quiet (w, c\<lparr>state := (state c)\<lparr>history := ?kept, end_id := ?i\<rparr>\<rparr>)
      (w, c\<lparr>state := (state c)\<lparr>history := ?kept, end_id := ?i\<rparr>, cached_first_user_message := None\<rparr>)"
    by (simp add: quiet_def constants_def)
  from trans [OF shorten quiet [OF this]] show "R (w, c) (snd (truncate_memory_to_point n (w, c)))"
    by (simp add: truncate_memory_to_point_def upd_core_def Let_def same)
qed

lemma keeps_recovery: "keeps (perform_loop_recovery env a)"
  unfolding perform_loop_recovery_def
  by (intro keeps_bind keeps_truncate keeps_set_state keeps_emit_new)

lemma keeps_restart: "keeps (restart_with_last_user_message env a)"
proof (rule keeps_pairI)
  fix w c
  show "R (w, c) (snd (restart_with_last_user_message env a (w, c)))"
    unfolding restart_with_last_user_message_def Let_def prod.case
    by (cases "find is_user_message (rev (history (state c)))")
      (simp_all add: keepsD [OF keeps_recovery] keepsD keeps_bind keeps_truncate keeps_set_state
        keeps_emit_new keeps_message)
qed

lemma keeps_loop_action: "keeps (handle_loop_recovery_action env n)"
proof (rule keeps_pairI)
  fix w c
  show "R (w, c) (snd (handle_loop_recovery_action env n (w, c)))"
    unfolding handle_loop_recovery_action_def prod.case
    by (cases "stuck_analysis_of c")
      (simp_all add: same keepsD [OF keeps_recovery] keepsD [OF keeps_restart] keepsD [OF keeps_set_state])
qed

lemma keeps_attempt: "keeps (attempt_loop_recovery env)"
proof (rule keeps_pairI)
  fix w c
  have "keeps (bindS (emit_new env p ENVIRONMENT) (\<lambda>_. bindS (emit_new env q ENVIRONMENT) (\<lambda>_. retS True)))"
    for p q
    by (intro keeps_bind keeps_emit_new keeps_ret)
  from keepsD [OF this, of "(w, c)"] show "R (w, c) (snd (attempt_loop_recovery env (w, c)))"
    by (cases "stuck_analysis_of c") (simp_all add: attempt_loop_recovery_def same)
qed

lemma keeps_close: "keeps (close_controller env b)"
proof -
  have q: "quiet (w, d) (w, d\<lparr>subscribed := x, closed_flag := y\<rparr>)" for w x y and d :: "'ag core"
    by (simp add: quiet_def constants_def)
  have "R (w, c) (w, c\<lparr>state := close_history (stream w) (state c),
      subscribed := (subscribed c \<and> is_delegate c), closed_flag := True\<rparr>)" for w and c :: "'ag core"
    by (rule trans [OF rebuild quiet [OF q]])
  then show ?thesis
    unfolding close_controller_def
    by (intro keeps_bind keeps_if keeps_set_state keeps_ret keeps_mod) (simp only: split_paired_all prod.case)
qed

lemma keeps_observation: "keeps (handle_observation env e)"
proof (rule keeps_pairI)
  fix w and c :: "'ag core"
  have k: "keeps (bindS (upd_core (\<lambda>c. c\<lparr>pending_action := None\<rparr>)) (\<lambda>_.
                   bindS (if st = USER_CONFIRMED then set_agent_state_to env RUNNING else retS ()) (\<lambda>_ (w, c).
                   if agent_state (state c) = USER_REJECTED
                   then set_agent_state_to env AWAITING_USER_INPUT (w, c) else (Inr (), w, c))))" for st
    using keeps_run_if [of "\<lambda>w c. agent_state (state c) = USER_REJECTED" AWAITING_USER_INPUT]
    by (intro keeps_bind keeps_pending keeps_if keeps_set_state keeps_ret)
  show "R (w, c) (snd (handle_observation env e (w, c)))"
    using keepsD [OF k, of "(w, c)"] by (cases "pending_action c") (simp_all add: handle_observation_def same)
qed

lemma keeps_add_history: "keeps (upd_state (add_history e))"
  by (rule keeps_pairI) (simp add: upd_state_def upd_core_def extend)

lemma keeps_outputs: "keeps (upd_state (\<lambda>s. s\<lparr>outputs := x\<rparr>))"
  unfolding upd_state_def by (rule keeps_upd) (simp add: quiet_def constants_def)

lemma keeps_finish: "keeps (bindS (upd_state (\<lambda>s. s\<lparr>outputs := x\<rparr>)) (\<lambda>_. set_agent_state_to env st))"
  by (intro keeps_bind keeps_outputs keeps_set_state)

lemma keeps_system_message: "keeps (add_system_message env)"
  by (rule keeps_pairI)
    (auto simp: add_system_message_def same split: option.splits intro: keepsD [OF keeps_emit_new])

end

text \<open>
  The same for a controller with its delegates: \<open>RK\<close> holds when the controller's own fields change
  by \<open>R\<close>, when the shared flags then reach its delegates, when a delegate's change and the flags
  are copied up, and when a delegate comes or goes.
\<close>

locale controller_frame = core: core_frame R env + op_relation RK
  for R :: "world \<times> 'ag core \<Rightarrow> world \<times> 'ag core \<Rightarrow> bool"
    and env :: "'ag env"
    and RK :: "world \<times> 'ag controller \<Rightarrow> world \<times> 'ag controller \<Rightarrow> bool" +
  assumes own: "R (w, c) (w', c') \<Longrightarrow> RK (w, Controller c d) (w', Controller c' d)"
    and theirs: "RK (w, k) (w', k') \<Longrightarrow>
      RK (w, Controller c (Some k)) (w', Controller (share_flags k' c) (Some k'))"
    and starts: "RK (w, Controller c d) (w, Controller c (Some (Controller
      (init_controller env (Some (delegate_state c a (stream w))) None (delegate_args c ag name cfg) w) None)))"
    and shared: "RK (w, Controller c d) (w, Controller c (map_option (push_flags (state c)) d))"
    and ends: "RK (w, Controller c d) (w, Controller c None)"
    and stuck: "RK (w, k) (w, snd (controller_is_stuck k))"
begin

lemma keeps_lift: "core.keeps m \<Longrightarrow> keeps (lift_core m)"
proof (rule keepsI)
  fix s :: "world \<times> 'ag controller"
  assume k: "core.keeps m"
  obtain w c d where s: "s = (w, Controller c d)" by (metis controller.exhaust prod.exhaust)
  obtain r w' c' where m: "m (w, c) = (r, (w', c'))" by (cases "m (w, c)") auto
  have "R (w, c) (w', c')" using core.keepsD [OF k, of "(w, c)"] m by simp
  then have "RK s (w', Controller c' d)" by (simp add: s own)
  from trans [OF this shared] show "RK s (snd (lift_core m s))"
    by (simp add: s lift_core_def with_core_def m)
qed

lemma keeps_on_delegate: "keeps m \<Longrightarrow> keeps (on_delegate m)"
proof (rule keepsI)
  fix s :: "world \<times> 'ag controller"
  assume k: "keeps m"
  obtain w c d where s: "s = (w, Controller c d)" by (metis controller.exhaust prod.exhaust)
  show "RK s (snd (on_delegate m s))"
  proof (cases d)
    case None
    then show ?thesis by (simp add: s on_delegate_def same)
  next
    case (Some k)
    obtain r w' k' where m: "m (w, k) = (r, (w', k'))" by (cases "m (w, k)") auto
    have "RK (w, k) (w', k')" using keepsD [OF \<open>keeps m\<close>, of "(w, k)"] m by simp
    then show ?thesis by (simp add: s Some on_delegate_def m theirs)
  qed
qed

lemma keeps_step: "keeps (step env)"
proof (rule keepsI)
  fix s :: "world \<times> 'ag controller"
  obtain w c d where s: "s = (w, Controller c d)" by (metis controller.exhaust prod.exhaust)
  let ?c1 = "c\<lparr>state := sync_budget_flag_with_metrics (stats w) (state c)\<rparr>"
  have "quiet (w, c) (w, ?c1)"
    by (simp add: quiet_def constants_def sync_budget_flag_with_metrics_def)
  then have "RK s (w, Controller ?c1 d)" by (simp add: s own core.quiet)
  from trans [OF this shared] have 1: "RK s (w, with_core ?c1 (Controller c d))" by (simp add: with_core_def)
  have 2: "RK s (w, snd (controller_is_stuck (with_core ?c1 (Controller c d))))"
    by (rule trans [OF 1 stuck])
  obtain b k2 where st: "(if enable_stuck_detection (agent_cfg ?c1)
      then controller_is_stuck (with_core ?c1 (Controller c d))
      else (False, with_core ?c1 (Controller c d))) = (b, k2)" by fastforce
  have 3: "RK s (w, k2)"
    using st 1 2 by (auto split: if_splits)
  have "RK s (snd (if b then lift_core (react_to_exception env (AgentStuckInLoopError ''Agent got stuck in a loop'')) (w, k2)
      else lift_core (within_limits env) (w, k2)))"
    using trans [OF 3 keepsD [OF keeps_lift [OF core.keeps_react]]]
      trans [OF 3 keepsD [OF keeps_lift [OF core.keeps_within_limits]]] by simp
  then show "RK s (snd (step env s))"
    using st by (simp add: s step_def Let_def same split: prod.splits)
qed

lemma keeps_safe_step: "keeps (step_with_exception_handling env)"
  unfolding step_with_exception_handling_def
  by (intro keeps_try keeps_step keeps_lift core.keeps_react)

lemma share_own_flags:
  "iteration_flag (state (core_of k)) = iteration_flag (state c) \<Longrightarrow>
     budget_flag (state (core_of k)) = budget_flag (state c) \<Longrightarrow> share_flags k c = c"
  by (simp add: share_flags_def)

lemma keeps_start_delegate: "keeps (start_delegate env a)"
proof (rule keepsI)
  fix s :: "world \<times> 'ag controller"
  obtain w c d where s: "s = (w, Controller c d)" by (metis controller.exhaust prod.exhaust)
  define cfg where "cfg = (case map_of (agent_configs c) (a_agent a) of Some g \<Rightarrow> g | None \<Rightarrow> agent_cfg c)"
  show "RK s (snd (start_delegate env a s))"
  proof (cases "get_cls env (a_agent a) cfg")
    case (Inl x)
    then show ?thesis
      unfolding s start_delegate_def prod.case controller.sel Let_def cfg_def [symmetric] by (simp add: same)
  next
    case (Inr p)
    obtain ag name where p: "p = (ag, name)" by fastforce
    define i where "i = init_controller env (Some (delegate_state c a (stream w))) None (delegate_args c ag name cfg) w"
    obtain r w' c' where m: "add_system_message env (w, i) = (r, (w', c'))"
      by (cases "add_system_message env (w, i)") auto
    have c': "c' = i"
      using m by (auto simp: add_system_message_def emit_new_eq split: if_splits option.splits)
    have r: "r = Inr ()"
      using m by (auto simp: add_system_message_def emit_new_eq split: if_splits option.splits)
    have "R (w, i) (w', i)"
      using core.keepsD [OF core.keeps_system_message, of "(w, i)"] m c' by simp
    then have 2: "RK (w, Controller c (Some (Controller i None)))
        (w', Controller (share_flags (Controller i None) c) (Some (Controller i None)))"
      by (intro theirs own)
    have "history_bounds s lg = b \<Longrightarrow> iteration_flag (init_history lg s) = iteration_flag s \<and>
        budget_flag (init_history lg s) = budget_flag s" for s lg b
      by (simp add: init_history_def Let_def split: prod.splits)
    then have "share_flags (Controller i None) c = c"
      by (intro share_own_flags) (simp_all add: i_def init_controller_def set_initial_state_def delegate_state_def)
    with 2 have 2: "RK (w, Controller c (Some (Controller i None))) (w', Controller c (Some (Controller i None)))"
      by simp
    have "RK s (w, Controller c (Some (Controller i None)))"
      unfolding s i_def by (rule starts)
    from trans [OF this 2] show ?thesis
      unfolding s start_delegate_def prod.case controller.sel Let_def cfg_def [symmetric] Inr p sum.case
        new_controller_def i_def [symmetric]
      using m c' r by simp
  qed
qed

lemma keeps_delegate_action: "keeps (handle_delegate_action env a)"
proof -
  have "keeps (bindS (lift_core (emit_new env p USER)) (\<lambda>_. on_delegate (lift_core (set_agent_state_to env RUNNING))))"
    for p
    by (intro keeps_bind keeps_lift keeps_on_delegate core.keeps_emit_new core.keeps_set_state)
  then show ?thesis
    unfolding handle_delegate_action_def
    by (intro keeps_bind keeps_start_delegate) (auto simp: keeps_ret split: option.splits json.splits)
qed

lemma keeps_handle_action: "keeps (handle_action env e a)"
  by (cases a)
    (simp_all add: handle_action_def keeps_ret keeps_delegate_action keeps_lift core.keeps_set_state
      core.keeps_message core.keeps_finish core.keeps_loop_action)

lemma keeps_event_inner: "keeps (on_event_inner env e)"
proof -
  have k: "keeps (\<lambda>(w, k). if should_step k e then step_with_exception_handling env (w, k) else (Inr (), w, k))"
    by (rule keepsI) (auto simp: same intro: keepsD [OF keeps_safe_step])
  show ?thesis
    unfolding on_event_inner_def
    by (intro keeps_if keeps_ret keeps_bind keeps_lift core.keeps_add_history k)
      (auto simp: keeps_handle_action keeps_lift core.keeps_observation split: payload.splits)
qed

lemma keeps_end_delegate: "keeps (end_delegate env)"
proof (rule keepsI)
  fix s :: "world \<times> 'ag controller"
  obtain w c d where s: "s = (w, Controller c d)" by (metis controller.exhaust prod.exhaust)
  show "RK s (snd (end_delegate env s))"
  proof (cases d)
    case None
    then show ?thesis by (simp add: s end_delegate_def same)
  next
    case (Some k)
    have e: "keeps (modS (\<lambda>(w, k). (w, Controller (core_of k) None)))"
    proof (rule keeps_mod)
      fix s :: "world \<times> 'ag controller"
      obtain w c d where "s = (w, Controller c d)" by (metis controller.exhaust prod.exhaust)
      then show "RK s (case s of (w, k) \<Rightarrow> (w, Controller (core_of k) None))" by (simp add: ends)
    qed
    have "keeps (bindS (on_delegate (lift_core (close_controller env True))) (\<lambda>_ (w, k').
         let outs = outputs (state (core_of k));
             action = find is_delegate_action (rev (history (state (core_of k'))));
             ob = (fresh_event (Obs (AgentDelegateObservation
                     (delegate_content env (agent_state (state (core_of k))) (agent_name (core_of k)) outs) outs)))
                  \<lparr>raw_tool_call_metadata :=
                     (case action of Some a \<Rightarrow> raw_tool_call_metadata a | None \<Rightarrow> None)\<rparr>
         in bindS (lift_core (bindS (emit env ob AGENT) (\<lambda>_. retS ()))) (\<lambda>_.
            modS (\<lambda>(w, k). (w, Controller (core_of k) None))) (w, k')))"
    proof (intro keeps_bind keeps_on_delegate keeps_lift core.keeps_close)
      show "keeps (\<lambda>(w, k'). let outs = outputs (state (core_of k));
             action = find is_delegate_action (rev (history (state (core_of k'))));
             ob = (fresh_event (Obs (AgentDelegateObservation
                     (delegate_content env (agent_state (state (core_of k))) (agent_name (core_of k)) outs) outs)))
                  \<lparr>raw_tool_call_metadata :=
                     (case action of Some a \<Rightarrow> raw_tool_call_metadata a | None \<Rightarrow> None)\<rparr>
         in bindS (lift_core (bindS (emit env ob AGENT) (\<lambda>_. retS ()))) (\<lambda>_.
            modS (\<lambda>(w, k). (w, Controller (core_of k) None))) (w, k'))"
      proof (rule keepsI)
        fix t :: "world \<times> 'ag controller"
        have "keeps (bindS (lift_core (bindS (emit env ob AGENT) (\<lambda>_. retS ()))) (\<lambda>_.
            modS (\<lambda>(w, k). (w, Controller (core_of k) None))))" for ob
          by (intro keeps_bind keeps_lift core.keeps_bind core.keeps_emit core.keeps_ret e)
        then show "RK t (snd ((\<lambda>(w, k'). let outs = outputs (state (core_of k));
             action = find is_delegate_action (rev (history (state (core_of k'))));
             ob = (fresh_event (Obs (AgentDelegateObservation
                     (delegate_content env (agent_state (state (core_of k))) (agent_name (core_of k)) outs) outs)))
                  \<lparr>raw_tool_call_metadata :=
                     (case action of Some a \<Rightarrow> raw_tool_call_metadata a | None \<Rightarrow> None)\<rparr>
         in bindS (lift_core (bindS (emit env ob AGENT) (\<lambda>_. retS ()))) (\<lambda>_.
            modS (\<lambda>(w, k). (w, Controller (core_of k) None))) (w, k')) t))"
          by (cases t) (simp add: Let_def keepsD)
      qed
    qed
    from keepsD [OF this, of s] show ?thesis
      by (simp add: s Some end_delegate_def Let_def)
  qed
qed

lemma keeps_event: "keeps (on_event env e)"
proof (rule keepsI)
  fix s :: "world \<times> 'ag controller"
  show "RK s (snd (on_event env e s))"
    by (cases s)
      (auto simp: on_event_def split: option.splits
        intro: keepsD [OF keeps_event_inner] keepsD [OF keeps_on_delegate [OF keeps_event_inner]]
          keepsD [OF keeps_end_delegate])
qed

end

text \<open>A whole run: the stream delivers, others add events.\<close>

locale system_frame = controller_frame R env RK
  for R :: "world \<times> 'ag core \<Rightarrow> world \<times> 'ag core \<Rightarrow> bool"
    and env :: "'ag env"
    and RK :: "world \<times> 'ag controller \<Rightarrow> world \<times> 'ag controller \<Rightarrow> bool" +
  assumes dequeues: "queued (stream w) = e # q \<Longrightarrow> RK (w, k) (w\<lparr>stream := (stream w)\<lparr>queued := q\<rparr>\<rparr>, k)"
    and others: "add_event now e src (stream w) = Inr (e', lg) \<Longrightarrow> RK (w, k) (w\<lparr>stream := lg\<rparr>, k)"
begin

lemma system_step_keeps: "system_step env s t \<Longrightarrow> RK s t"
proof (induction rule: system_step.induct)
  case (deliver k w e q r w' k')
  with trans [OF dequeues keepsD [OF keeps_event, of _ e]] show ?case by (metis snd_conv)
next
  case (external now e src w e' lg k)
  then show ?case by (rule others)
next
  case (recovery w k r w' k')
  with keepsD [OF keeps_lift [OF core.keeps_attempt], of "(w, k)"] show ?case by simp
next
  case (close b w k r w' k')
  with keepsD [OF keeps_lift [OF core.keeps_close [of b]], of "(w, k)"] show ?case by simp
qed

lemma reachable_keeps: "reachable env s t \<Longrightarrow> RK s t"
  by (induction rule: reachable.induct) (auto intro: same trans system_step_keeps)

end

section \<open>A property of every controller of the tree\<close>

fun all_cores :: "('ag core \<Rightarrow> bool) \<Rightarrow> 'ag controller \<Rightarrow> bool" where
  "all_cores P (Controller c d) \<longleftrightarrow> P c \<and> (case d of None \<Rightarrow> True | Some k \<Rightarrow> all_cores P k)"

lemma all_cores_core: "all_cores P k \<Longrightarrow> P (core_of k)"
  by (cases k) simp

lemma all_cores_stuck:
  assumes "\<And>c a. P (c\<lparr>stuck_analysis_of := a\<rparr>) = P c"
  shows "all_cores P (snd (controller_is_stuck k)) = all_cores P k"
proof (induction k rule: controller_is_stuck.induct)
  case (1 c d)
  then show ?case
    by (cases d) (auto simp: assms case_prod_unfold Let_def)
qed

lemma all_cores_push:
  assumes "\<And>c. Q c \<Longrightarrow>
      Q (c\<lparr>state := (state c)\<lparr>iteration_flag := iteration_flag s, budget_flag := budget_flag s\<rparr>\<rparr>)"
  shows "all_cores Q k \<Longrightarrow> all_cores Q (push_flags s k)"
proof (induction k)
  case (Controller c d)
  then show ?case using assms by (cases d) auto
qed

text \<open>
  A set of core states that the primitive steps stay in gives a system relation: if every
  controller of the tree is in it before, every one is after.
\<close>

locale core_invariant =
  fixes env :: "'ag env" and P :: "conv_state \<Rightarrow> bool"
  assumes by_fields: "history s' = history s \<Longrightarrow> iteration_flag s' = iteration_flag s \<Longrightarrow> P s \<Longrightarrow> P s'"
    and by_raise: "P s \<Longrightarrow> P (maybe_increase_control_flags_limits h s)"
    and by_count: "P s \<Longrightarrow> P (snd (run_control_flags s))"
    and by_shorten: "P s \<Longrightarrow> P (s\<lparr>history := slice_to (history s) n, end_id := i\<rparr>)"
    and by_rebuild: "P s \<Longrightarrow> P (close_history lg s)"
    and by_extend: "P s \<Longrightarrow> P (add_history e s)"
    and by_share: "P s \<Longrightarrow> P t \<Longrightarrow> P (s\<lparr>iteration_flag := iteration_flag t, budget_flag := b\<rparr>)"
    and by_start: "P s \<Longrightarrow> iteration_flag t = iteration_flag s \<Longrightarrow> P (init_history lg t)"

sublocale core_invariant \<subseteq> inv: system_frame
  "\<lambda>s t. P (state (snd s)) \<longrightarrow> P (state (snd t))" env
  "\<lambda>s t. all_cores (\<lambda>c. P (state c)) (snd s) \<longrightarrow> all_cores (\<lambda>c. P (state c)) (snd t)"
proof unfold_locales
  fix s t :: "world \<times> 'ag core"
  assume "quiet s t"
  then show "P (state (snd s)) \<longrightarrow> P (state (snd t))"
    using by_fields by (auto simp: quiet_def)
next
  fix w :: world and k k' :: "'ag controller" and c :: "'ag core" and w' :: world
  assume k: "all_cores (\<lambda>c. P (state c)) (snd (w, k)) \<longrightarrow> all_cores (\<lambda>c. P (state c)) (snd (w', k'))"
  show "all_cores (\<lambda>c. P (state c)) (snd (w, Controller c (Some k))) \<longrightarrow>
      all_cores (\<lambda>c. P (state c)) (snd (w', Controller (share_flags k' c) (Some k')))"
    using k by (auto simp: share_flags_def intro: by_share dest: all_cores_core)
next
  fix w :: world and c :: "'ag core" and d a ag name cfg
  show "all_cores (\<lambda>c. P (state c)) (snd (w, Controller c d)) \<longrightarrow>
      all_cores (\<lambda>c. P (state c)) (snd (w, Controller c (Some (Controller
        (init_controller env (Some (delegate_state c a (stream w))) None (delegate_args c ag name cfg) w) None))))"
    by (auto simp: init_controller_def set_initial_state_def delegate_state_def intro: by_start)
next
  fix w :: world and c :: "'ag core" and d :: "'ag controller option"
  have "all_cores (\<lambda>c. P (state c)) (push_flags (state c) k)"
    if "P (state c)" "all_cores (\<lambda>c. P (state c)) k" for k
    using that by (intro all_cores_push) (simp_all add: by_share)
  then show "all_cores (\<lambda>c. P (state c)) (snd (w, Controller c d)) \<longrightarrow>
      all_cores (\<lambda>c. P (state c)) (snd (w, Controller c (map_option (push_flags (state c)) d)))"
    by (cases d) auto
next
  fix w :: world and k :: "'ag controller"
  show "all_cores (\<lambda>c. P (state c)) (snd (w, k)) \<longrightarrow>
      all_cores (\<lambda>c. P (state c)) (snd (w, snd (controller_is_stuck k)))"
    by (simp add: all_cores_stuck)
qed (auto intro: by_raise by_count by_shorten by_rebuild by_extend)

text \<open>The iteration counter never passes its maximum.\<close>

definition iterations_ok :: "conv_state \<Rightarrow> bool" where
  "iterations_ok s \<longleftrightarrow> current_value (iteration_flag s) \<le> max_value (iteration_flag s) \<and>
     0 \<le> limit_increase_amount (iteration_flag s)"

lemma init_history_flags:
  "iteration_flag (init_history lg s) = iteration_flag s" "budget_flag (init_history lg s) = budget_flag s"
  by (simp_all add: init_history_def Let_def split: prod.splits)

lemma run_control_flags_amount:
  "limit_increase_amount (iteration_flag (snd (run_control_flags s))) = limit_increase_amount (iteration_flag s)"
proof -
  have "iteration_flag (snd (run_control_flags s)) = snd (iteration_step (iteration_flag s))"
    by (cases "iteration_step (iteration_flag s)"; cases "budget_flag s")
      (auto simp: run_control_flags_def case_prod_unfold Let_def split: sum.splits)
  with iter.step_result [of "iteration_flag s"] show ?thesis by auto
qed

interpretation iterations: core_invariant env iterations_ok for env :: "'ag env"
proof unfold_locales
  show "iterations_ok s \<Longrightarrow> iterations_ok (snd (run_control_flags s))" for s
    by (auto simp: iterations_ok_def run_control_flags_values run_control_flags_amount)
qed (auto simp: iterations_ok_def maybe_increase_control_flags_limits_def iteration_increase_limit_def
    close_history_def add_history_def init_history_flags Let_def split: prod.splits)

text \<open>The history holds only what its filter includes.\<close>

definition history_filtered :: "conv_state \<Rightarrow> bool" where
  "history_filtered s \<longleftrightarrow> (\<forall>e \<in> set (history s). in_history e)"

lemma skip_ranges_subset: "set (skip_ranges es n rs) \<subseteq> set es"
  by (induction es n rs rule: skip_ranges.induct) (auto dest: in_set_dropD)

lemma search_in_history: "e \<in> set (search_events a b False (Some in_history) None lg) \<Longrightarrow> in_history e"
  using search_in_range by blast

lemma init_history_filtered: "history_filtered (init_history lg s)"
  using skip_ranges_subset
  by (fastforce simp: history_filtered_def init_history_def Let_def split: prod.splits
      dest: search_in_history)

interpretation filtered: core_invariant env history_filtered for env :: "'ag env"
proof unfold_locales
  show "history_filtered s \<Longrightarrow> history_filtered (snd (run_control_flags s))" for s
    by (subst run_control_flags_frame) (simp add: history_filtered_def)
  show "history_filtered s \<Longrightarrow> history_filtered (s\<lparr>history := slice_to (history s) n, end_id := i\<rparr>)" for s n i
    by (auto simp: history_filtered_def slice_to_def dest: in_set_takeD)
  show "history_filtered (init_history lg t)" for lg t by (rule init_history_filtered)
qed (auto simp: history_filtered_def maybe_increase_control_flags_limits_def add_history_def close_history_def
    Let_def split: prod.splits dest: search_in_history)

section \<open>The stream only grows\<close>

definition grows :: "event_log \<Rightarrow> event_log \<Rightarrow> bool" where
  "grows lg lg' \<longleftrightarrow> prefix (logged lg) (logged lg') \<and> (log_ok lg \<longrightarrow> log_ok lg')"

lemma grows_refl: "grows lg lg" and grows_trans: "grows a b \<Longrightarrow> grows b c \<Longrightarrow> grows a c"
  by (auto simp: grows_def)

lemma add_event_grows: "add_event now e src lg = Inr (e', lg') \<Longrightarrow> grows lg lg'"
  using add_event_Inr(3) add_event_ok by (fastforce simp: grows_def)

lemma pushed_grows: "grows (stream w) (stream (pushed env e src w))"
proof -
  have "add_event (clock env (cur_id (stream w))) (e\<lparr>raw_id := None\<rparr>) src (stream w) =
      Inr (stamped env e src w, stream (pushed env e src w))"
    by (simp add: add_event_fresh stamped_def pushed_def Let_def)
  then show ?thesis by (rule add_event_grows)
qed

interpretation growing: system_frame "\<lambda>s t. grows (stream (fst s)) (stream (fst t))" env
  "\<lambda>s t. grows (stream (fst s)) (stream (fst t))" for env :: "'ag env"
proof unfold_locales
  show "quiet s t \<Longrightarrow> grows (stream (fst s)) (stream (fst t))" for s t :: "world \<times> 'ag core"
    by (simp add: quiet_def grows_refl)
  show "queued (stream w) = e # q \<Longrightarrow>
      grows (stream (fst (w, k))) (stream (fst (w\<lparr>stream := (stream w)\<lparr>queued := q\<rparr>\<rparr>, k)))"
    for w e q and k :: "'ag controller"
    by (simp add: grows_def log_ok_def)
  show "add_event now e src (stream w) = Inr (e', lg) \<Longrightarrow>
      grows (stream (fst (w, k))) (stream (fst (w\<lparr>stream := lg\<rparr>, k)))"
    for now e src w e' lg and k :: "'ag controller"
    by (simp add: add_event_grows)
qed (auto simp: grows_refl pushed_grows intro: grows_trans)

section \<open>What a controller is constructed with stays\<close>

lemma constants_refl: "constants c c" and constants_trans: "constants a b \<Longrightarrow> constants b c \<Longrightarrow> constants a c"
  by (simp_all add: constants_def)

lemma constants_stuck: "constants (core_of k) (core_of (snd (controller_is_stuck k)))"
  by (cases k; cases "delegate_of k") (simp_all add: constants_def case_prod_unfold Let_def)

interpretation fixed: system_frame "\<lambda>s t. constants (snd s) (snd t)" env
  "\<lambda>s t. constants (core_of (snd s)) (core_of (snd t))" for env :: "'ag env"
proof unfold_locales
  show "constants (snd (w, c)) (snd (w, c\<lparr>state := snd (run_control_flags (state c))\<rparr>))"
    for w and c :: "'ag core"
    by (subst run_control_flags_frame) (simp add: constants_def)
  show "constants (core_of (snd (w, k))) (core_of (snd (w, snd (controller_is_stuck k))))"
    for w and k :: "'ag controller"
    using constants_stuck [of k] by simp
qed (auto simp: quiet_def constants_def maybe_increase_control_flags_limits_def close_history_def add_history_def
    share_flags_def Let_def split: prod.splits)

end
