(* ===== verification/Runtime.thy ===== *)
theory Runtime
  imports Event_Log Storage
begin

text \<open>
  How a runtime answers the actions of the stream (\<open>openhands/runtime/base.py\<close>): the gate in front
  of execution (confirmation, rejection, unsupported actions), the task list, and the observation
  that goes back to the stream.

  What executes an action is an argument: \<open>perform\<close> for the sandbox's methods, \<open>call_tool_mcp\<close>
  for MCP tools. Either gives an observation or raises. The refresh of git provider tokens, which
  touches nothing of this, is left out.
\<close>

datatype runtime_failure = PermissionFailure string | Disconnected string | OtherFailure string

record runtime =
  rt_sid :: string
  rt_user_id :: "string option"
  sandbox_timeout :: rat
  supports :: "action \<Rightarrow> bool"
  perform :: "event \<Rightarrow> runtime_failure + observation"
  call_tool_mcp :: "event \<Rightarrow> runtime_failure + observation"
  rt_py_str :: "json \<Rightarrow> string"

definition hourglass :: string where "hourglass = [CHR 0xE2, CHR 0x8F, CHR 0xB3]"
definition arrows :: string where "arrows = [CHR 0xF0, CHR 0x9F, CHR 0x94, CHR 0x84]"
definition check_mark :: string where "check_mark = [CHR 0xE2, CHR 0x9C, CHR 0x85]"
definition line_end :: string where "line_end = [CHR 0x0A]"

definition rt_text :: "runtime \<Rightarrow> json \<Rightarrow> string" where
  "rt_text rt v = (case v of JStr s \<Rightarrow> s | _ \<Rightarrow> rt_py_str rt v)"

definition status_icon :: "json \<Rightarrow> string option" where
  "status_icon v = (case v of
     JStr s \<Rightarrow> Some (if s = ''in_progress'' then arrows else if s = ''done'' then check_mark else hourglass)
   | JList _ \<Rightarrow> None | JDict _ \<Rightarrow> None | _ \<Rightarrow> Some hourglass)"

text \<open>One line of the task list; a task that is no dictionary, or whose status cannot be a
  dictionary key, raises.\<close>

definition task_line :: "runtime \<Rightarrow> nat \<Rightarrow> json \<Rightarrow> string option" where
  "task_line rt i task = (case task of
     JDict d \<Rightarrow>
       map_option (\<lambda>icon. str_of_int (int i) @ ''. '' @ icon @ '' '' @
           rt_text rt (case map_of d ''title'' of Some t \<Rightarrow> t | None \<Rightarrow> JStr []) @ line_end @
           rt_text rt (case map_of d ''notes'' of Some t \<Rightarrow> t | None \<Rightarrow> JStr []) @ line_end)
         (status_icon (case map_of d ''status'' of Some s \<Rightarrow> s | None \<Rightarrow> JStr ''todo''))
   | _ \<Rightarrow> None)"

fun task_lines :: "runtime \<Rightarrow> nat \<Rightarrow> json list \<Rightarrow> string option" where
  "task_lines rt i [] = Some []"
| "task_lines rt i (t # ts) =
     (case task_line rt i t of None \<Rightarrow> None
      | Some l \<Rightarrow> map_option ((@) l) (task_lines rt (Suc i) ts))"

definition task_file_path :: "runtime \<Rightarrow> string" where
  "task_file_path rt = get_conversation_dir (rt_sid rt) (rt_user_id rt) @ ''TASKS.md''"

text \<open>The task tracking branch; the store's write does not raise.\<close>

definition run_task_tracking ::
  "runtime \<Rightarrow> string \<Rightarrow> json list \<Rightarrow> string mem_store \<Rightarrow> (runtime_failure + observation) \<times> string mem_store" where
  "run_task_tracking rt command tasks store =
     (if command = ''plan'' then
        (case task_lines rt 1 tasks of
           None \<Rightarrow> (Inl (OtherFailure ''task''), store)
         | Some ls \<Rightarrow>
             (Inr (TaskTrackingObservation
                (''Task list has been updated with '' @ str_of_int (int (length tasks)) @
                 '' items. Stored in session directory: '' @ task_file_path rt) command tasks),
              mem_write (task_file_path rt) (''# Task List'' @ line_end @ line_end @ ls) store))
      else if command = ''view'' then
        (case mem_read (task_file_path rt) store of
           Inr content \<Rightarrow> (Inr (TaskTrackingObservation content command []), store)
         | Inl _ \<Rightarrow> (Inr (TaskTrackingObservation
             (''No task list found. Use the '' @ [CHR 0x22] @ ''plan'' @ [CHR 0x22] @ '' command to create one.'') command []), store))
      else (Inr (TaskTrackingObservation (''Unknown command: '' @ command) command []), store))"

definition action_name :: "action \<Rightarrow> string" where
  "action_name a = (case a of
     CmdRunAction _ _ _ _ _ _ _ _ _ \<Rightarrow> ''run'' | IPythonRunCellAction _ _ _ _ _ _ \<Rightarrow> ''run_ipython''
   | BrowseURLAction _ _ _ _ \<Rightarrow> ''browse'' | BrowseInteractiveAction _ _ _ _ _ \<Rightarrow> ''browse_interactive''
   | FileReadAction _ _ _ _ _ _ _ \<Rightarrow> ''read'' | FileWriteAction _ _ _ _ _ _ \<Rightarrow> ''write''
   | FileEditAction _ _ _ _ _ _ _ _ _ _ _ _ \<Rightarrow> ''edit'' | MCPAction _ _ _ _ \<Rightarrow> ''call_tool_mcp''
   | _ \<Rightarrow> [])"

text \<open>\<open>run_action\<close>.\<close>

definition run_action ::
  "runtime \<Rightarrow> event \<Rightarrow> string mem_store \<Rightarrow> (runtime_failure + observation) \<times> string mem_store" where
  "run_action rt e store = (case payload e of
     Obs _ \<Rightarrow> (Inl (OtherFailure ''not an action''), store)
   | Act a \<Rightarrow>
       if \<not> runnable a then
         (case a of
            AgentThinkAction _ \<Rightarrow> (Inr (AgentThinkObservation ''Your thought has been logged.''), store)
          | TaskTrackingAction command tasks _ \<Rightarrow> run_task_tracking rt command tasks store
          | _ \<Rightarrow> (Inr (NullObservation []), store))
       else if confirmation_of e = Some AWAITING_CONFIRMATION then (Inr (NullObservation []), store)
       else if \<not> supports rt a then
         (Inr (ErrorObservation (''Action '' @ action_name a @
            '' is not supported in the current runtime.'') []), store)
       else if confirmation_of e = Some CONF_REJECTED then
         (Inr (UserRejectObservation
            ''Action has been rejected by the user! Waiting for further user input.''), store)
       else (perform rt e, store))"

definition is_mcp :: "event \<Rightarrow> bool" where
  "is_mcp e = (case payload e of Act (MCPAction _ _ _ _) \<Rightarrow> True | _ \<Rightarrow> False)"

text \<open>
  \<open>on_event\<close> with \<open>_handle_action\<close>: the observation added to the stream, if any, with the source it
  is added under. Failures other than a refused permission set the runtime's status instead.
\<close>

definition runtime_response ::
  "runtime \<Rightarrow> event \<Rightarrow> string mem_store \<Rightarrow> (event \<times> event_source) option \<times> string mem_store" where
  "runtime_response rt e store =
     (if \<not> is_action e then (None, store)
      else let e1 = (if raw_timeout e = None then set_hard_timeout (Some (sandbox_timeout rt)) False e else e);
               (r, store') = (if is_mcp e1 then (call_tool_mcp rt e1, store) else run_action rt e1 store);
               answer = (\<lambda>ob. case ob of NullObservation _ \<Rightarrow> None
                 | _ \<Rightarrow> Some ((fresh_event (Obs ob))\<lparr>raw_cause := Some (event_id e1),
                            raw_tool_call_metadata := raw_tool_call_metadata e1\<rparr>,
                          case event_source e1 of Some s \<Rightarrow> s | None \<Rightarrow> AGENT))
           in (case r of
                 Inr ob \<Rightarrow> answer ob
               | Inl (PermissionFailure m) \<Rightarrow> answer (ErrorObservation m [])
               | Inl _ \<Rightarrow> None, store'))"

section \<open>The gate\<close>

lemma set_hard_timeout_frame [simp]:
  "raw_tool_call_metadata (set_hard_timeout v b e) = raw_tool_call_metadata e"
  "raw_source (set_hard_timeout v b e) = raw_source e" "event_id (set_hard_timeout v b e) = event_id e"
  "confirmation_of (set_hard_timeout v b e) = confirmation_of e"
  "is_mcp (set_hard_timeout v b e) = is_mcp e"
  by (auto simp: set_hard_timeout_def event_id_def confirmation_of_def is_mcp_def
      split: payload.splits action.splits)

lemma runnable_set_hard_timeout:
  "payload e = Act a \<Longrightarrow> \<exists>b. payload (set_hard_timeout v w e) = Act b \<and> runnable b = runnable a"
  by (cases a) (auto simp: set_hard_timeout_def runnable_def)

text \<open>The event the runtime works on: with the sandbox's timeout if it has none.\<close>

definition timed :: "runtime \<Rightarrow> event \<Rightarrow> event" where
  "timed rt e = (if raw_timeout e = None then set_hard_timeout (Some (sandbox_timeout rt)) False e else e)"

lemma timed_frame [simp]:
  "raw_tool_call_metadata (timed rt e) = raw_tool_call_metadata e" "event_id (timed rt e) = event_id e"
  "confirmation_of (timed rt e) = confirmation_of e" "is_mcp (timed rt e) = is_mcp e"
  "raw_source (timed rt e) = raw_source e"
  by (simp_all add: timed_def)

lemma timed_payload:
  "payload e = Act a \<Longrightarrow> \<exists>b. payload (timed rt e) = Act b \<and> runnable b = runnable a"
  using runnable_set_hard_timeout by (auto simp: timed_def)

text \<open>An action that awaits confirmation gets no answer and is not performed.\<close>

lemma awaiting_blocked:
  assumes "payload e = Act a" and "runnable a" and "\<not> is_mcp e"
    and "confirmation_of e = Some AWAITING_CONFIRMATION"
  shows "runtime_response rt e store = (None, store)"
proof -
  obtain b where "payload (timed rt e) = Act b" "runnable b"
    using timed_payload [OF assms(1), of rt] assms(2) by auto
  with assms show ?thesis
    by (simp add: runtime_response_def timed_def [symmetric] run_action_def is_action_def Let_def)
qed

text \<open>A rejected one gets an answer and is not performed either.\<close>

lemma rejected_answered:
  assumes "payload e = Act a" and "runnable a" and "\<not> is_mcp e"
    and "confirmation_of e = Some CONF_REJECTED" and "\<And>b. supports rt b" and "event_source e = Some src"
  shows "runtime_response rt e store =
    (Some ((fresh_event (Obs (UserRejectObservation
        ''Action has been rejected by the user! Waiting for further user input.'')))
      \<lparr>raw_cause := Some (event_id e), raw_tool_call_metadata := raw_tool_call_metadata e\<rparr>, src), store)"
proof -
  obtain b where "payload (timed rt e) = Act b" "runnable b"
    using timed_payload [OF assms(1), of rt] assms(2) by auto
  with assms show ?thesis
    by (simp add: runtime_response_def timed_def [symmetric] run_action_def is_action_def Let_def)
qed

text \<open>Without a confirmation state the action is performed.\<close>

lemma unmarked_performed:
  assumes "payload e = Act a" and "runnable a" and "confirmation_of e = None \<or> confirmation_of e = Some CONFIRMED"
    and "\<And>b. supports rt b" and "event_source e = Some src"
  shows "runtime_response rt e store =
    (case (if is_mcp e then call_tool_mcp rt (timed rt e) else perform rt (timed rt e)) of
       Inr (NullObservation _) \<Rightarrow> None
     | Inr ob \<Rightarrow> Some ((fresh_event (Obs ob))\<lparr>raw_cause := Some (event_id e),
                 raw_tool_call_metadata := raw_tool_call_metadata e\<rparr>, src)
     | Inl (PermissionFailure m) \<Rightarrow> Some ((fresh_event (Obs (ErrorObservation m [])))
                 \<lparr>raw_cause := Some (event_id e), raw_tool_call_metadata := raw_tool_call_metadata e\<rparr>, src)
     | Inl _ \<Rightarrow> None, store)"
proof -
  obtain b where "payload (timed rt e) = Act b" "runnable b"
    using timed_payload [OF assms(1), of rt] assms(2) by auto
  with assms show ?thesis
    by (cases "is_mcp e"; cases "confirmation_of e")
      (auto simp: runtime_response_def timed_def [symmetric] run_action_def is_action_def Let_def
        split: sum.splits observation.splits runtime_failure.splits)
qed

end
