(* ===== verification/Controller_Facts.thy ===== *)
theory Controller_Facts
  imports Controller_Frames Runtime
begin

text \<open>
  Facts about single operations of the controller: the reaction to an exception, when a step asks
  the agent at all, and what the confirmation gate does to an action.
\<close>

section \<open>Reacting to an exception\<close>

text \<open>The message that is stored, the status that is sent and the state that is entered.\<close>

definition reaction_error :: "'ag core \<Rightarrow> exn \<Rightarrow> string" where
  "reaction_error c e =
     (if \<not> has_status_callback c then exn_name e @ '': '' @ exn_str e
      else case runtime_status_of e of
        Some status \<Rightarrow> status
      | None \<Rightarrow> if instance_of e RateLimitError \<and> retries_exhausted e
          then ''CHAT_INTERFACE$AGENT_RATE_LIMITED_STOPPED_MESSAGE''
          else exn_name e @ '': '' @ exn_str e)"

definition reaction_status :: "'ag core \<Rightarrow> exn \<Rightarrow> string option" where
  "reaction_status c e =
     (if \<not> has_status_callback c then None
      else case runtime_status_of e of
        Some status \<Rightarrow> Some status
      | None \<Rightarrow> if instance_of e RateLimitError then None else Some ''STATUS$ERROR'')"

definition reaction_state :: "'ag core \<Rightarrow> exn \<Rightarrow> agent_state" where
  "reaction_state c e =
     (if has_status_callback c \<and> runtime_status_of e = None \<and> instance_of e RateLimitError \<and>
         \<not> retries_exhausted e then RATE_LIMITED else ERROR)"

lemma react_to_exception_eq:
  "react_to_exception env e (w, c) =
     set_agent_state_to env (reaction_state c e)
       (w\<lparr>notified := notified w @ (case reaction_status c e of
            None \<Rightarrow> [] | Some st \<Rightarrow> [(st, reaction_error c e)])\<rparr>,
        c\<lparr>state := (state c)\<lparr>last_error := reaction_error c e\<rparr>\<rparr>)"
proof (cases "has_status_callback c")
  case False
  then show ?thesis
    by (simp add: react_to_exception_def bindS_def set_last_error_def upd_state_def upd_core_def
        reaction_state_def reaction_status_def reaction_error_def)
next
  case True
  show ?thesis
  proof (cases "runtime_status_of e")
    case None
    with True show ?thesis
      by (cases "instance_of e RateLimitError"; cases "retries_exhausted e")
        (simp_all add: react_to_exception_def bindS_def set_last_error_def upd_state_def upd_core_def
          reaction_state_def reaction_status_def reaction_error_def notify_def)
  next
    case (Some st)
    with True show ?thesis
      by (simp add: react_to_exception_def bindS_def set_last_error_def upd_state_def upd_core_def
          reaction_state_def reaction_status_def reaction_error_def notify_def)
  qed
qed

lemma react_total: "fst (react_to_exception env e s) = Inr ()"
  by (cases s) (simp add: react_to_exception_eq set_agent_state_to_total)

lemma set_agent_state_to_last_error:
  "snd (set_agent_state_to env st (w, c)) = (w', c') \<Longrightarrow> last_error (state c') = last_error (state c)"
  by (auto simp: set_agent_state_to_eq Let_def split: option.splits if_splits)

lemma react_outcome:
  assumes "snd (react_to_exception env e (w, c)) = (w', c')"
  shows "agent_state (state c') = reaction_state c e" "last_error (state c') = reaction_error c e"
  using set_agent_state_to_state [OF assms [unfolded react_to_exception_eq]]
    set_agent_state_to_last_error [OF assms [unfolded react_to_exception_eq]] by simp_all

lemma safe_step_total: "fst (step_with_exception_handling env s) = Inr ()"
proof -
  have lift: "fst (lift_core (react_to_exception env e) t) = Inr ()" for e t
    using react_total [of env e "(fst t, core_of (snd t))"]
    by (auto simp: lift_core_def case_prod_unfold Let_def)
  obtain r t where s: "step env s = (r, t)" by (cases "step env s")
  show ?thesis
    by (cases r) (simp_all add: step_with_exception_handling_def tryS_def s lift)
qed

section \<open>When the agent is asked\<close>

lemma other_agent_step:
  "stamped (env\<lparr>agent_step := f\<rparr>) e src w = stamped env e src w"
  "pushed (env\<lparr>agent_step := f\<rparr>) e src w = pushed env e src w"
  "reset_world (env\<lparr>agent_step := f\<rparr>) w c = reset_world env w c"
  "state_core (env\<lparr>agent_step := f\<rparr>) st c = state_core env st c"
  "after_reset (env\<lparr>agent_step := f\<rparr>) st w c = after_reset env st w c"
proof -
  show 1: "stamped (env\<lparr>agent_step := f\<rparr>) e src w = stamped env e src w" for e src w
    by (simp add: stamped_def)
  show 2: "pushed (env\<lparr>agent_step := f\<rparr>) e src w = pushed env e src w" for e src w
    by (simp add: pushed_def 1)
  show 3: "reset_world (env\<lparr>agent_step := f\<rparr>) w c = reset_world env w c" for w c
    by (cases "pending_action c") (auto simp: reset_world_def 2)
  show "state_core (env\<lparr>agent_step := f\<rparr>) st c = state_core env st c"
    by (simp add: state_core_def Let_def)
  show "after_reset (env\<lparr>agent_step := f\<rparr>) st w c = after_reset env st w c"
    by (simp add: after_reset_def 3)
qed

lemma set_state_agent_step: "set_agent_state_to (env\<lparr>agent_step := f\<rparr>) st s = set_agent_state_to env st s"
  by (cases s) (simp only: set_agent_state_to_eq other_agent_step)

lemma react_agent_step: "react_to_exception (env\<lparr>agent_step := f\<rparr>) e s = react_to_exception env e s"
  by (cases s) (simp only: react_to_exception_eq set_state_agent_step)

lemma lift_react_agent_step:
  "lift_core (react_to_exception (env\<lparr>agent_step := f\<rparr>) e) s = lift_core (react_to_exception env e) s"
  by (simp add: lift_core_def react_agent_step)

text \<open>What must hold for the agent to be asked.\<close>

definition ready :: "world \<Rightarrow> 'ag controller \<Rightarrow> bool" where
  "ready w k \<longleftrightarrow> agent_state (state (core_of k)) = RUNNING \<and> pending_action (core_of k) = None \<and>
     current_value (iteration_flag (state (core_of k))) < max_value (iteration_flag (state (core_of k))) \<and>
     (\<forall>b. budget_flag (state (core_of k)) = Some b \<and> has_conversation_stats (state (core_of k)) \<longrightarrow>
        accumulated_cost (get_combined_metrics (stats w)) < max_value b) \<and>
     (enable_stuck_detection (agent_cfg (core_of k)) \<longrightarrow> \<not> fst (controller_is_stuck k))"

lemma sync_frame:
  "sync_budget_flag_with_metrics cs s = s\<lparr>budget_flag := budget_flag (sync_budget_flag_with_metrics cs s)\<rparr>"
  by (simp add: sync_budget_flag_with_metrics_def)

lemma stuck_other_fields:
  assumes "history s = history (state c)"
  shows "fst (controller_is_stuck (Controller (c\<lparr>state := s\<rparr>) d)) = fst (controller_is_stuck (Controller c d))"
  using assms by (simp add: case_prod_unfold Let_def split: option.splits)

lemma stuck_push: "fst (controller_is_stuck (push_flags s k)) = fst (controller_is_stuck k)"
proof (induction k)
  case (Controller c d)
  then show ?case by (cases d) (simp_all add: case_prod_unfold Let_def)
qed

lemma stuck_with_core:
  assumes "history s = history (state c)"
  shows "fst (controller_is_stuck (with_core (c\<lparr>state := s\<rparr>) (Controller c d))) =
    fst (controller_is_stuck (Controller c d))"
  using assms by (cases d) (simp_all add: with_core_def case_prod_unfold Let_def stuck_push)

lemma with_core_core [simp]: "core_of (with_core c k) = c"
  and with_core_alone [simp]: "delegate_of k = None \<Longrightarrow> with_core c k = Controller c None"
  by (simp_all add: with_core_def)

lemma stuck_core:
  "state (core_of (snd (controller_is_stuck k))) = state (core_of k)"
  by (cases k; cases "delegate_of k") (simp_all add: case_prod_unfold Let_def)

lemma not_ready_agent:
  assumes "\<not> ready w k"
  shows "step (env\<lparr>agent_step := f\<rparr>) (w, k) = step env (w, k)"
proof -
  obtain c d where k: "k = Controller c d" by (cases k)
  define c1 where "c1 = c\<lparr>state := sync_budget_flag_with_metrics (stats w) (state c)\<rparr>"
  define k1 where "k1 = with_core c1 (Controller c d)"
  obtain b k2 where b: "(if enable_stuck_detection (agent_cfg c1) then controller_is_stuck k1
      else (False, k1)) = (b, k2)" by fastforce
  have hist: "history (sync_budget_flag_with_metrics (stats w) (state c)) = history (state c)"
    by (subst sync_frame) simp
  have st2: "state (core_of k2) = state c1"
    using b stuck_core [of k1] by (auto simp: k1_def split: if_splits)
  have it: "iteration_flag (state c1) = iteration_flag (state c)"
    unfolding c1_def by (simp, subst sync_frame, simp)
  show ?thesis
  proof (cases "agent_state (state c) = RUNNING \<and> pending_action c = None \<and> \<not> b")
    case False
    then show ?thesis
      using b by (auto simp: step_def k Let_def c1_def [symmetric] k1_def [symmetric] lift_react_agent_step)
  next
    case True
    have "enable_stuck_detection (agent_cfg c) \<longrightarrow> \<not> fst (controller_is_stuck (Controller c d))"
      using b True stuck_with_core [OF hist, of d] by (auto simp: c1_def k1_def split: if_splits)
    then have limit: "\<not> (current_value (iteration_flag (state c)) < max_value (iteration_flag (state c)) \<and>
        (\<forall>x. budget_flag (state c) = Some x \<and> has_conversation_stats (state c) \<longrightarrow>
          accumulated_cost (get_combined_metrics (stats w)) < max_value x))"
      using assms True by (auto simp: ready_def k)
    have "fst (run_control_flags (state c1)) \<noteq> Inr ()"
      using limit by (auto simp: run_control_flags_result it c1_def sync_budget_flag_with_metrics_def)
    then obtain x s where rc: "run_control_flags (state c1) = (Inl x, s)"
      by (cases "run_control_flags (state c1)"; cases "fst (run_control_flags (state c1))") auto
    have "lift_core (within_limits (env\<lparr>agent_step := f\<rparr>)) (w, k2) = lift_core (within_limits env) (w, k2)"
      by (simp add: lift_core_def within_limits_def st2 rc react_agent_step)
    with True show ?thesis
      using b by (auto simp: step_def k Let_def c1_def [symmetric] k1_def [symmetric] lift_react_agent_step)
  qed
qed

text \<open>A limit that is reached ends in the error state with the limit's message.\<close>

lemma limit_reached:
  assumes "run_control_flags (state c) = (Inl x, s)"
    and "snd (within_limits env (w, c)) = (w', c')"
  shows "agent_state (state c') = reaction_state c x" "last_error (state c') = reaction_error c x"
proof -
  have "snd (react_to_exception env x (w, c\<lparr>state := s\<rparr>)) = (w', c')"
    using assms by (simp add: within_limits_def)
  from react_outcome [OF this] show "agent_state (state c') = reaction_state c x"
    "last_error (state c') = reaction_error c x"
    by (simp_all add: reaction_state_def reaction_error_def)
qed

section \<open>The confirmation gate\<close>

text \<open>The classes whose dictionary form carries the confirmation state.\<close>

definition declares_confirmation :: "action \<Rightarrow> bool" where
  "declares_confirmation a = (case a of
     CmdRunAction _ _ _ _ _ _ _ _ _ \<Rightarrow> True | IPythonRunCellAction _ _ _ _ _ _ \<Rightarrow> True | _ \<Rightarrow> False)"

lemma confirmation_of_declared:
  "payload e = Act a \<Longrightarrow> declares_confirmation a \<Longrightarrow> payload f = payload e \<Longrightarrow> confirmation_of f = confirmation_of e"
  by (auto simp: declares_confirmation_def confirmation_of_def split: action.splits)

lemma confirmation_of_undeclared:
  "payload e = Act a \<Longrightarrow> \<not> declares_confirmation a \<Longrightarrow> confirmation_of e = raw_confirmation e"
  by (auto simp: declares_confirmation_def confirmation_of_def split: action.splits)

lemma stored_confirmation:
  assumes "payload e = Act a"
  shows "confirmation_of (stored_form e) = (if declares_confirmation a then confirmation_of e else None)"
proof (cases "declares_confirmation a")
  case True
  with confirmation_of_declared [OF assms True, of "stored_form e"] show ?thesis by simp
next
  case False
  with confirmation_of_undeclared [of "stored_form e" a] assms show ?thesis
    by (simp add: stored_form_def)
qed

lemma set_confirmation_declares:
  "payload e = Act a \<Longrightarrow> \<exists>b. payload (set_confirmation f e) = Act b \<and> runnable b = runnable a \<and>
     declares_confirmation b = declares_confirmation a"
  by (cases a) (auto simp: set_confirmation_def runnable_def declares_confirmation_def)

lemma set_risk_declares [simp]: "declares_confirmation (set_risk r a) = declares_confirmation a"
  by (cases a) (simp_all add: set_risk_def declares_confirmation_def)

lemma set_thought_declares [simp]: "declares_confirmation (set_thought t a) = declares_confirmation a"
  by (cases a) (simp_all add: set_thought_def declares_confirmation_def)

lemma analyze_risk_frame [simp]:
  "runnable (analyze_risk f a) = runnable a" "declares_confirmation (analyze_risk f a) = declares_confirmation a"
  by (auto simp: analyze_risk_def split: option.splits sum.splits)

lemma set_confirmation_id [simp]: "event_id (set_confirmation f e) = event_id e"
  by (simp add: event_id_def)

lemma confirmation_metrics [simp]:
  "confirmation_of (e\<lparr>raw_llm_metrics := m\<rparr>) = confirmation_of e"
  "confirmation_of (stamped env e src w) = confirmation_of e"
  by (simp_all add: confirmation_of_def stamped_def cong: payload.case_cong action.case_cong)

text \<open>An action of the agent that needs confirmation: the controller waits, the action is pending,
  and the stream has been sent the change of state and then the action.\<close>

lemma send_awaiting:
  assumes a: "payload e = Act a" "runnable a" and e: "raw_id e = None" "raw_source e = Some src"
    and mode: "confirmation_mode (state c)" "needs_confirmation c (analyze_risk (security_analyzer c) a)"
    and st: "agent_state (state c) \<noteq> AWAITING_USER_CONFIRMATION" "agent_state (state c) \<noteq> ERROR"
    and cost: "0 \<le> accumulated_cost (get_combined_metrics (stats w))"
  shows "\<exists>w' c' p x b. send_action env e (w, c) = (Inr (), (w', c')) \<and>
    agent_state (state c') = AWAITING_USER_CONFIRMATION \<and> pending_action c' = Some p \<and>
    payload p = Act b \<and> runnable b \<and> declares_confirmation b = declares_confirmation a \<and>
    confirmation_of p = Some AWAITING_CONFIRMATION \<and> raw_source p = Some src \<and>
    logged (stream w') = logged (stream w) @ [x, stored_form p] \<and>
    payload x = Obs (AgentStateChangedObservation [] AWAITING_USER_CONFIRMATION [])"
proof -
  define e1 where "e1 = guard_action c e"
  have e1: "e1 = set_confirmation AWAITING_CONFIRMATION (e\<lparr>payload := Act (analyze_risk (security_analyzer c) a)\<rparr>)"
    using a(1) mode by (simp add: e1_def guard_action_def Let_def)
  obtain b where b: "payload e1 = Act b" "runnable b" "declares_confirmation b = declares_confirmation a"
    using set_confirmation_declares [of "e\<lparr>payload := Act (analyze_risk (security_analyzer c) a)\<rparr>"
        "analyze_risk (security_analyzer c) a" AWAITING_CONFIRMATION] a(2) by (auto simp: e1)
  have conf: "confirmation_of e1 = Some AWAITING_CONFIRMATION" by (simp add: e1)
  have nn: "\<not> is_null_action e1"
    using b(1,2) by (auto simp: is_null_action_def runnable_def)
  define c1 where "c1 = c\<lparr>pending_action := Some e1\<rparr>"
  define c2 where "c2 = state_core env AWAITING_USER_CONFIRMATION c1"
  define w2 where "w2 = saved c2 (pushed env (state_changed AWAITING_USER_CONFIRMATION []) ENVIRONMENT w)"
  have s1: "set_agent_state_to env AWAITING_USER_CONFIRMATION (w, c1) = (Inr (), (w2, c2))"
    using st by (simp add: set_agent_state_to_eq c1_def c2_def w2_def Let_def after_reset_def)
  have stats2: "stats w2 = stats w" by (simp add: w2_def saved_def)
  obtain m where m: "frontend_metrics (stats w2) (budget_flag (state c2)) = Inr m"
    using cost by (auto simp: frontend_metrics_def Let_def set_accumulated_cost_def stats2)
  define e2 where "e2 = e1\<lparr>raw_llm_metrics := Some m\<rparr>"
  have src: "raw_source e2 = Some src" by (simp add: e2_def e1 e(2))
  have id2: "event_id e2 = INVALID_ID"
  proof -
    have "raw_id e2 = None" by (simp add: e2_def e1 e(1))
    then show ?thesis by (simp add: event_id_def)
  qed
  define p where "p = stamped env e2 src w2"
  define c3 where "c3 = c2\<lparr>pending_action := Some p\<rparr>"
  have "send_action env e (w, c) = (Inr (), (pushed env e2 src w2, c3))"
    using a nn conf
    by (simp add: send_action_def Let_def e1_def [symmetric] bindS_def upd_core_def c1_def [symmetric] s1 m
        e2_def [symmetric] src emit_fresh [OF id2] p_def c3_def)
  moreover have "agent_state (state c3) = AWAITING_USER_CONFIRMATION"
    by (simp add: c3_def c2_def)
  moreover have "payload p = Act b" "confirmation_of p = Some AWAITING_CONFIRMATION" "raw_source p = Some src"
    using b(1) conf by (simp_all add: p_def e2_def)
  moreover have "logged (stream (pushed env e2 src w2)) = logged (stream w) @
      [stored_form (stamped env (state_changed AWAITING_USER_CONFIRMATION []) ENVIRONMENT w), stored_form p]"
    by (simp add: p_def w2_def saved_def)
  moreover have "payload (stored_form (stamped env (state_changed AWAITING_USER_CONFIRMATION []) ENVIRONMENT w)) =
      Obs (AgentStateChangedObservation [] AWAITING_USER_CONFIRMATION [])"
    by (simp add: state_changed_def fresh_event_def)
  moreover have "pending_action c3 = Some p" by (simp add: c3_def)
  ultimately show ?thesis
    using b(2,3)
    by (intro exI [of _ "pushed env e2 src w2"] exI [of _ c3] exI [of _ p]
        exI [of _ "stored_form (stamped env (state_changed AWAITING_USER_CONFIRMATION []) ENVIRONMENT w)"]
        exI [of _ b] conjI)
qed

text \<open>The user's answer: the pending action is sent again, marked, under a new id.\<close>

lemma answer_resends:
  assumes p: "pending_action c = Some p" "payload p = Act a" "runnable a"
    and target: "target = USER_CONFIRMED \<or> target = USER_REJECTED" "agent_state (state c) \<noteq> target"
  shows "\<exists>w' c' q x b. set_agent_state_to env target (w, c) = (Inr (), (w', c')) \<and>
    agent_state (state c') = target \<and> pending_action c' = Some q \<and>
    payload q = Act b \<and> runnable b \<and> declares_confirmation b = declares_confirmation a \<and>
    confirmation_of q = Some (if target = USER_CONFIRMED then CONFIRMED else CONF_REJECTED) \<and>
    event_id q = cur_id (stream w) \<and>
    raw_source q = Some AGENT \<and> logged (stream w') = logged (stream w) @ [stored_form q, x] \<and>
    payload x = Obs (AgentStateChangedObservation [] target [])"
proof -
  define a1 where "a1 = set_thought [] a"
  define p1 where "p1 = p\<lparr>payload := Act a1\<rparr>"
  define f where "f = (if target = USER_CONFIRMED then CONFIRMED else CONF_REJECTED)"
  have ans: "answered target p = (set_confirmation f p1)\<lparr>raw_id := None\<rparr>"
    by (simp add: answered_def p(2) p1_def a1_def f_def)
  obtain b where b: "payload (set_confirmation f p1) = Act b" "runnable b"
      "declares_confirmation b = declares_confirmation a"
    using set_confirmation_declares [of p1 a1 f] p(3) by (auto simp: p1_def a1_def)
  define q where "q = stamped env (answered target p) AGENT w"
  have conf: "confirmation_of ((set_confirmation f p1)\<lparr>raw_id := None\<rparr>) = confirmation_of (set_confirmation f p1)"
    by (simp add: confirmation_of_def cong: payload.case_cong action.case_cong)
  have q: "payload q = Act b" "confirmation_of q = Some f" "raw_source q = Some AGENT" "event_id q = cur_id (stream w)"
    using b(1) conf by (simp_all add: q_def ans event_id_def)
  define c2 where "c2 = state_core env target c"
  define c3 where "c3 = c2\<lparr>pending_action := Some q\<rparr>"
  define w1 where "w1 = pushed env (answered target p) AGENT w"
  define w' where "w' = saved c3 (pushed env (state_changed target []) ENVIRONMENT w1)"
  define x where "x = stored_form (stamped env (state_changed target []) ENVIRONMENT w1)"
  have not_stop: "\<not> (target = STOPPED \<or> target = ERROR)" "target \<noteq> ERROR" using target(1) by auto
  have pend: "pending_action c2 = Some p" using p(1) not_stop by (simp add: c2_def)
  have aft: "after_reset env target w c = w" using not_stop(1) by (simp add: after_reset_def)
  have "set_agent_state_to env target (w, c) = (Inr (), (w', c3))"
    unfolding set_agent_state_to_eq c2_def [symmetric] aft Let_def if_not_P [OF target(2) [symmetric]] pend
      option.case if_P [OF target(1)] if_not_P [OF not_stop(2)]
    by (simp only: w'_def w1_def c3_def q_def)
  moreover have "agent_state (state c3) = target" by (simp add: c3_def c2_def)
  moreover have "pending_action c3 = Some q" by (simp add: c3_def)
  moreover have "payload x = Obs (AgentStateChangedObservation [] target [])"
    by (simp add: x_def state_changed_def fresh_event_def)
  moreover have "logged (stream w') = logged (stream w) @ [stored_form q, x]"
    by (simp add: w'_def w1_def x_def q_def saved_def)
  ultimately show ?thesis
    using q b(2,3) unfolding f_def
    by (intro exI [of _ w'] exI [of _ c3] exI [of _ q] exI [of _ x] exI [of _ b] conjI)
qed

end
