(* ===== verification/Controller_Scenarios.thy ===== *)
theory Controller_Scenarios
  imports Controller_Facts
begin

text \<open>
  Longer pieces of the controller's behaviour, each as the lemma a property rests on: what is
  persisted and announced by a change of state, observations and messages, delegates (their
  confirmation mode, their end, delegates of delegates, unknown ones), loop recovery and limits.
\<close>

section \<open>Persistence\<close>

lemma state_change_saved:
  assumes "target \<noteq> agent_state (state c)" and "set_agent_state_to env target (w, c) = (r, (w', c'))"
  shows "\<exists>fs. files w' = save_state (tracker_of c') (stats w') (state c') fs"
  using assms by (auto simp: set_agent_state_to_eq saved_def Let_def split: option.splits if_splits)

lemma save_state_read:
  assumes "trk_sid trk = Some sid" and "sid \<noteq> []" and "trk_has_file_store trk"
    and "metrics_path cs \<noteq> get_conversation_agent_state_filename sid (trk_user_id trk)"
  shows "restore_from_session sid (trk_user_id trk) (save_state trk cs s fs) = Inr (restored s)"
proof -
  obtain a as where sid: "sid = a # as" using assms(2) by (cases sid) auto
  show ?thesis
  proof (rule restore_read)
    show "mem_read (get_conversation_agent_state_filename sid (trk_user_id trk)) (save_state trk cs s fs) =
      Inr (StateFile (getstate (s\<lparr>has_conversation_stats := False\<rparr>)))"
      using assms(1,3,4) read_saved [of sid "trk_user_id trk" s fs]
      by (simp add: save_state_def sid save_metrics_def Let_def mem.read_write)
  qed
qed

lemma state_change_tracker:
  "set_agent_state_to env target (w, c) = (r, (w', c')) \<Longrightarrow> tracker_of c' = tracker_of c"
  by (auto simp: set_agent_state_to_eq Let_def split: option.splits if_splits)

lemma state_change_restored:
  assumes "target \<noteq> agent_state (state c)" and "set_agent_state_to env target (w, c) = (r, (w', c'))"
    and "trk_sid (tracker_of c) = Some sid" and "sid \<noteq> []" and "trk_has_file_store (tracker_of c)"
    and "metrics_path (stats w') \<noteq> get_conversation_agent_state_filename sid (trk_user_id (tracker_of c))"
  shows "restore_from_session sid (trk_user_id (tracker_of c)) (files w') = Inr (restored (state c'))"
proof -
  have t: "tracker_of c' = tracker_of c" by (rule state_change_tracker [OF assms(2)])
  obtain fs where "files w' = save_state (tracker_of c) (stats w') (state c') fs"
    using state_change_saved [OF assms(1,2)] unfolding t by blast
  with save_state_read [OF assms(3-6)] show ?thesis by simp
qed

section \<open>What a change of state sends\<close>

lemma state_change_logged:
  assumes "target \<noteq> agent_state (state c)" and "set_agent_state_to env target (w, c) = (r, (w', c'))"
  shows "\<exists>mid x. logged (stream w') = logged (stream w) @ mid @ [x] \<and> length mid \<le> 1 \<and>
    payload x = Obs (AgentStateChangedObservation [] target (if target = ERROR then last_error (state c) else []))"
proof -
  have x: "payload (stored_form (stamped env (state_changed t m) ENVIRONMENT u)) =
      Obs (AgentStateChangedObservation [] t m)" for t m u
    by (simp add: state_changed_def fresh_event_def)
  have a: "\<exists>mid. logged (stream (after_reset env target w c)) = logged (stream w) @ mid \<and> length mid \<le> 1"
    by (auto simp: after_reset_def reset_world_def split: option.splits)
  show ?thesis
  proof (cases "pending_action (state_core env target c) = None \<or> \<not> (target = USER_CONFIRMED \<or> target = USER_REJECTED)")
    case True
    define m where "m = (if target = ERROR then last_error (state c) else [])"
    obtain mid where mid: "logged (stream (after_reset env target w c)) = logged (stream w) @ mid" "length mid \<le> 1"
      using a by blast
    have "w' = saved (state_core env target c) (pushed env (state_changed target m) ENVIRONMENT (after_reset env target w c))"
      using assms True unfolding set_agent_state_to_eq m_def [symmetric] Let_def
      by (auto split: option.splits if_splits)
    then have "logged (stream w') = logged (stream w) @ mid @
        [stored_form (stamped env (state_changed target m) ENVIRONMENT (after_reset env target w c))]"
      by (simp add: saved_def mid(1))
    with mid(2) x show ?thesis unfolding m_def by blast
  next
    case False
    then obtain p where p: "pending_action (state_core env target c) = Some p" by auto
    have t: "target = USER_CONFIRMED \<or> target = USER_REJECTED" using False by blast
    then have ne: "\<not> (target = STOPPED \<or> target = ERROR)" "target \<noteq> ERROR" by auto
    have aft: "after_reset env target w c = w" using ne(1) by (simp add: after_reset_def)
    define w2 where "w2 = pushed env (answered target p) AGENT w"
    have "files w' = files w' \<and> stream w' = stream (pushed env (state_changed target []) ENVIRONMENT w2)"
      using assms t ne unfolding set_agent_state_to_eq aft Let_def p w2_def
      by (auto simp: saved_def split: if_splits)
    then have "logged (stream w') = logged (stream w) @ [stored_form (stamped env (answered target p) AGENT w)] @
        [stored_form (stamped env (state_changed target []) ENVIRONMENT w2)]"
      by (simp add: w2_def)
    with x [of target "[]" w2] ne(2) show ?thesis
      by (intro exI [of _ "[stored_form (stamped env (answered target p) AGENT w)]"]
          exI [of _ "stored_form (stamped env (state_changed target []) ENVIRONMENT w2)"]) simp
  qed
qed

lemma state_change_pending:
  assumes "target \<noteq> agent_state (state c)" and "set_agent_state_to env target (w, c) = (r, (w', c'))"
    and "target = STOPPED \<or> target = ERROR"
  shows "pending_action c' = None"
  using assms by (auto simp: set_agent_state_to_eq Let_def)

text \<open>An action that is cut off gets an observation: the tool call it came from stays answered.\<close>

lemma stop_answers_pending:
  assumes "target = STOPPED \<or> target = ERROR" "target \<noteq> agent_state (state c)"
    and "pending_action c = Some p"
    and "\<not> list_ex (\<lambda>e. is_observation e \<and>
           same_tool_call (raw_tool_call_metadata e) (raw_tool_call_metadata p)) (history (state c))"
    and "set_agent_state_to env target (w, c) = (r, (w', c'))"
  shows "\<exists>ob x. logged (stream w') = logged (stream w) @ [ob, x] \<and>
     raw_cause ob = Some (event_id p) \<and> raw_tool_call_metadata ob = raw_tool_call_metadata p \<and>
     is_observation ob"
proof -
  have rw: "reset_world env w (c\<lparr>state := (state c)\<lparr>agent_state := target\<rparr>\<rparr>) =
      pushed env (not_executed_observation target p) AGENT w"
    using assms(3,4) by (simp add: reset_world_def)
  have aft: "after_reset env target w c = pushed env (not_executed_observation target p) AGENT w"
    using rw assms(1) by (simp only: after_reset_def if_True simp_thms)
  have pend: "pending_action (state_core env target c) = None" using assms(1) by simp
  have "stream w' = stream (pushed env (state_changed target (if target = ERROR then last_error (state c) else []))
      ENVIRONMENT (pushed env (not_executed_observation target p) AGENT w))"
    using assms(2,5) unfolding set_agent_state_to_eq aft pend Let_def by (auto simp: saved_def)
  then show ?thesis
    by (intro exI conjI, simp)
      (simp_all add: not_executed_observation_def fresh_event_def is_observation_def)
qed

section \<open>Observations and messages\<close>

lemma set_state_same: "set_agent_state_to env (agent_state (state c)) (w, c) = (Inr (), (w, c))"
  by (simp add: set_agent_state_to_def)

lemma set_state_result:
  obtains w' c' where "set_agent_state_to env target (w, c) = (Inr (), (w', c'))"
    "agent_state (state c') = target" "history (state c') = history (state c)"
proof -
  obtain r w' c' where s: "set_agent_state_to env target (w, c) = (r, (w', c'))"
    by (cases "set_agent_state_to env target (w, c)") auto
  have "r = Inr ()" using set_agent_state_to_total [of env target "(w, c)"] s by simp
  with s set_agent_state_to_state [of env target w c w' c'] set_agent_state_to_history [of env target w c w' c'] that
  show thesis by simp
qed

lemma set_state_pending:
  assumes "set_agent_state_to env target (w, c) = (r, (w', c'))" and "target \<noteq> STOPPED" "target \<noteq> ERROR"
    "target \<noteq> USER_CONFIRMED" "target \<noteq> USER_REJECTED"
  shows "pending_action c' = pending_action c"
  using assms by (auto simp: set_agent_state_to_eq Let_def split: option.splits if_splits)

lemma observation_ignored:
  assumes "pending_action c = None \<or> (\<exists>p. pending_action c = Some p \<and> event_cause e \<noteq> Some (event_id p)) \<or>
    agent_state (state c) = AWAITING_USER_CONFIRMATION"
  shows "handle_observation env e (w, c) = (Inr (), (w, c))"
  using assms by (auto simp: handle_observation_def split: option.splits)

lemma observation_resumes:
  assumes p: "pending_action c = Some p" "event_cause e = Some (event_id p)"
    and st: "agent_state (state c) \<noteq> AWAITING_USER_CONFIRMATION"
  shows "\<exists>w' c'. handle_observation env e (w, c) = (Inr (), (w', c')) \<and> pending_action c' = None \<and>
    history (state c') = history (state c) \<and>
    agent_state (state c') = (case agent_state (state c) of
        USER_CONFIRMED \<Rightarrow> RUNNING | USER_REJECTED \<Rightarrow> AWAITING_USER_INPUT | s \<Rightarrow> s)"
proof -
  define c1 where "c1 = c\<lparr>pending_action := None\<rparr>"
  have c1: "agent_state (state c1) = agent_state (state c)" "history (state c1) = history (state c)"
    "pending_action c1 = None" by (simp_all add: c1_def)
  have run: "handle_observation env e (w, c) =
      bindS (if agent_state (state c) = USER_CONFIRMED then set_agent_state_to env RUNNING else retS ()) (\<lambda>_ (w, c).
        if agent_state (state c) = USER_REJECTED
        then set_agent_state_to env AWAITING_USER_INPUT (w, c) else (Inr (), w, c)) (w, c1)"
    using p st by (simp add: handle_observation_def bindS_def upd_core_def c1_def)
  show ?thesis
  proof (cases "agent_state (state c) = USER_CONFIRMED \<or> agent_state (state c) = USER_REJECTED")
    case False
    with run c1 show ?thesis
      by (auto simp: bindS_def split: agent_state.splits)
  next
    case True
    define target where "target = (if agent_state (state c) = USER_CONFIRMED then RUNNING else AWAITING_USER_INPUT)"
    obtain w' c' where s: "set_agent_state_to env target (w, c1) = (Inr (), (w', c'))"
      "agent_state (state c') = target" "history (state c') = history (state c1)"
      by (rule set_state_result)
    have "pending_action c' = None"
      using set_state_pending [OF s(1)] c1 by (auto simp: target_def split: if_splits)
    moreover have "handle_observation env e (w, c) = (Inr (), (w', c'))"
      using run True s c1 by (auto simp: bindS_def target_def)
    ultimately show ?thesis
      using s True c1 by (auto simp: target_def)
  qed
qed

text \<open>A message of the user: the agent first recalls, and runs.\<close>

definition recall_for :: "event \<Rightarrow> event option \<Rightarrow> event" where
  "recall_for e first = fresh_event (Act (RecallAction
     (if (case first of Some f \<Rightarrow> event_id e = event_id f | None \<Rightarrow> False) then WORKSPACE_CONTEXT else KNOWLEDGE)
     (a_content (act_of (payload e))) []))"

lemma recall_for_id [simp]: "event_id (recall_for e f) = INVALID_ID"
  by (simp add: recall_for_def)

lemma user_message_recalls:
  assumes "event_source e = Some USER"
  shows "\<exists>w' c' first r rest. handle_message_action env e (w, c) = (Inr (), (w', c')) \<and>
    agent_state (state c') = RUNNING \<and> pending_action c' = Some r \<and>
    payload r = payload (recall_for e first) \<and> raw_source r = Some USER \<and> event_id r = cur_id (stream w) \<and>
    logged (stream w') = logged (stream w) @ stored_form r # rest"
proof -
  obtain first c1 where f: "first_user_message (w, c) = (Inr first, (w, c1))" "agent_state (state c1) = agent_state (state c)"
    by (cases "cached_first_user_message c") (auto simp: first_user_message_def Let_def)
  define r where "r = stamped env (recall_for e first) USER w"
  define w1 where "w1 = pushed env (recall_for e first) USER w"
  define c2 where "c2 = c1\<lparr>pending_action := Some r\<rparr>"
  have run: "handle_message_action env e (w, c) =
      (if agent_state (state c2) \<noteq> RUNNING then set_agent_state_to env RUNNING (w1, c2) else (Inr (), w1, c2))"
    using assms f(1)
    by (simp add: handle_message_action_def bindS_def Let_def upd_core_def recall_for_def [symmetric]
        emit_fresh r_def w1_def c2_def)
  have r: "payload r = payload (recall_for e first)" "raw_source r = Some USER" "event_id r = cur_id (stream w)"
    by (simp_all add: r_def)
  have log: "logged (stream w1) = logged (stream w) @ stored_form r # []" by (simp add: w1_def r_def)
  show ?thesis
  proof (cases "agent_state (state c2) = RUNNING")
    case True
    with run have "handle_message_action env e (w, c) = (Inr (), w1, c2)" by simp
    moreover have "pending_action c2 = Some r" by (simp add: c2_def)
    ultimately show ?thesis using True r log
      by (intro exI [of _ w1] exI [of _ c2] exI [of _ first] exI [of _ r] exI [of _ "[]"]) simp
  next
    case False
    obtain w' c' where s: "set_agent_state_to env RUNNING (w1, c2) = (Inr (), (w', c'))"
      "agent_state (state c') = RUNNING" "history (state c') = history (state c2)"
      by (rule set_state_result)
    obtain mid x where "logged (stream w') = logged (stream w1) @ mid @ [x]"
      using state_change_logged [OF _ s(1)] False by metis
    then have "logged (stream w') = logged (stream w) @ stored_form r # mid @ [x]" using log by simp
    moreover have "pending_action c' = Some r"
      using set_state_pending [OF s(1)] by (simp add: c2_def)
    moreover have "handle_message_action env e (w, c) = (Inr (), w', c')" using run False s(1) by simp
    ultimately show ?thesis using s(2) r
      by (intro exI [of _ w'] exI [of _ c'] exI [of _ first] exI [of _ r] exI [of _ "mid @ [x]"]) simp
  qed
qed

section \<open>Delegates\<close>

text \<open>A delegate of any depth runs without confirmation mode.\<close>

fun delegates_open :: "'ag controller \<Rightarrow> bool" where
  "delegates_open (Controller c d) = (case d of None \<Rightarrow> True
     | Some k \<Rightarrow> \<not> confirmation_mode (state (core_of k)) \<and> delegates_open k)"

lemma delegates_open_stuck: "delegates_open (snd (controller_is_stuck k)) = delegates_open k"
proof (induction k rule: controller_is_stuck.induct)
  case (1 c d)
  show ?case
  proof (cases d)
    case (Some k)
    have "state (core_of (snd (controller_is_stuck k))) = state (core_of k)" by (rule stuck_core)
    with 1 Some show ?thesis by (auto simp: case_prod_unfold Let_def)
  qed (auto simp: case_prod_unfold Let_def)
qed

lemma init_history_mode: "confirmation_mode (init_history lg s) = confirmation_mode s"
  by (simp add: init_history_def Let_def split: prod.splits)

lemma delegate_mode:
  "confirmation_mode (state (init_controller env (Some (delegate_state c a lg)) None (delegate_args c ag name cfg) w)) = False"
  by (simp add: init_controller_def init_history_mode set_initial_state_def delegate_state_def new_state_def)

lemma push_mode: "confirmation_mode (state (core_of (push_flags s k))) = confirmation_mode (state (core_of k))"
  by (cases k) simp

lemma delegates_open_push: "delegates_open (push_flags s k) = delegates_open k"
proof (induction k)
  case (Controller c d)
  then show ?case by (cases d) (simp_all add: push_mode)
qed

interpretation opened: system_frame "\<lambda>s t. constants (snd s) (snd t)" env
  "\<lambda>s t. constants (core_of (snd s)) (core_of (snd t)) \<and> (delegates_open (snd s) \<longrightarrow> delegates_open (snd t))"
  for env :: "'ag env"
proof unfold_locales
  show "constants (core_of (snd (w, k))) (core_of (snd (w, snd (controller_is_stuck k)))) \<and>
      (delegates_open (snd (w, k)) \<longrightarrow> delegates_open (snd (w, snd (controller_is_stuck k))))"
    for w and k :: "'ag controller"
    using constants_stuck [of k] by (simp add: delegates_open_stuck)
  show "constants (core_of (snd (w, Controller c d)))
      (core_of (snd (w, Controller c (map_option (push_flags (state c)) d)))) \<and>
      (delegates_open (snd (w, Controller c d)) \<longrightarrow>
       delegates_open (snd (w, Controller c (map_option (push_flags (state c)) d))))"
    for w and c :: "'ag core" and d
    by (cases d) (simp_all add: constants_def delegates_open_push push_mode)
qed (auto simp: quiet_def constants_def maybe_increase_control_flags_limits_def close_history_def add_history_def
    share_flags_def delegate_mode Let_def split: prod.splits)

text \<open>Such a controller sends its actions as they are.\<close>

lemma open_guard: "\<not> confirmation_mode (state c) \<Longrightarrow> guard_action c e = e"
  by (simp add: guard_action_def split: payload.splits)

section \<open>A delegate of a delegate\<close>

text \<open>The delegate is the given one, as it was or with its controller's flags.\<close>

definition only_flags_of :: "'ag controller \<Rightarrow> 'ag controller \<Rightarrow> bool" where
  "only_flags_of g k \<longleftrightarrow> (\<exists>g'. delegate_of k = Some g' \<and> g' \<in> {g, push_flags (state (core_of k)) g})"

lemma push_push [simp]: "push_flags s (push_flags t k) = push_flags s k"
proof (induction k)
  case (Controller c d)
  then show ?case by (cases d) simp_all
qed

lemma lift_core_flags: "only_flags_of g k \<Longrightarrow> only_flags_of g (snd (snd (lift_core m (w, k))))"
  by (auto simp: lift_core_def with_core_def only_flags_of_def case_prod_unfold Let_def)

text \<open>Handling an event that starts no delegation leaves the delegate alone, and a controller with
  a delegate does not step.\<close>

lemma handle_action_flags:
  assumes "payload e = Act a" and "\<not> is_delegate_action e" and "only_flags_of g k"
  shows "only_flags_of g (snd (snd (handle_action env e a (w, k))))"
  using assms by (cases a) (simp_all add: handle_action_def lift_core_flags is_delegate_action_def)

lemma event_inner_flags:
  assumes "only_flags_of g k" and "\<not> is_delegate_action e"
  shows "only_flags_of g (snd (snd (on_event_inner env e (w, k))))"
proof (cases "hidden_event e")
  case True
  with assms show ?thesis by (simp add: on_event_inner_def)
next
  case False
  define k1 where "k1 = with_core ((core_of k)\<lparr>state := add_history e (state (core_of k))\<rparr>) k"
  have first: "lift_core (upd_state (add_history e)) (w, k) = (Inr (), (w, k1))"
    by (simp add: lift_core_def upd_state_def upd_core_def k1_def)
  have "only_flags_of g k1" using lift_core_flags [OF assms(1), of "upd_state (add_history e)" w] first by simp
  define m where "m = (case payload e of Act a \<Rightarrow> handle_action env e a
      | Obs _ \<Rightarrow> lift_core (handle_observation env e))"
  have keep: "only_flags_of g (snd (snd (m (w, k1))))"
    using handle_action_flags [OF _ assms(2) \<open>only_flags_of g k1\<close>] lift_core_flags [OF \<open>only_flags_of g k1\<close>]
    by (cases "payload e") (simp_all add: m_def)
  have run: "on_event_inner env e (w, k) =
      bindS m (\<lambda>_ (w, k). if should_step k e then step_with_exception_handling env (w, k) else (Inr (), w, k)) (w, k1)"
    using False by (simp add: on_event_inner_def bindS_def first m_def)
  obtain r w2 k2 where m2: "m (w, k1) = (r, (w2, k2))" by (cases "m (w, k1)") auto
  have k2: "only_flags_of g k2" using keep m2 by simp
  then have "\<not> should_step k2 e" by (auto simp: should_step_def only_flags_of_def)
  with k2 show ?thesis
    by (cases r) (simp_all add: run bindS_def m2)
qed

lemma grandchild_starved:
  assumes "delegate_of k = Some d" and "delegate_active (state (core_of d))" and "delegate_of d = Some g"
    and "\<not> is_delegate_action e" and "on_event env e (w, k) = (r, (w', k'))"
  shows "\<exists>d' g'. delegate_of k' = Some d' \<and> delegate_of d' = Some g' \<and>
    g' \<in> {g, push_flags (state (core_of d')) g}"
proof -
  have "only_flags_of g d" using assms(3) by (simp add: only_flags_of_def)
  from event_inner_flags [OF this assms(4), of env w] assms(1,2,5) show ?thesis
    by (auto simp: on_event_def on_delegate_def only_flags_of_def Let_def case_prod_unfold)
qed

section \<open>The end of a delegate\<close>

lemma set_state_frame:
  assumes "set_agent_state_to env target (w, c) = (r, (w', c'))"
  shows "outputs (state c') = outputs (state c)" "agent_name c' = agent_name c"
    "target \<noteq> RUNNING \<Longrightarrow> iteration_flag (state c') = iteration_flag (state c) \<and>
       budget_flag (state c') = budget_flag (state c)"
proof -
  have core: "outputs (state (state_core env target c)) = outputs (state c)"
    "agent_name (state_core env target c) = agent_name c"
    "target \<noteq> RUNNING \<Longrightarrow> iteration_flag (state (state_core env target c)) = iteration_flag (state c) \<and>
       budget_flag (state (state_core env target c)) = budget_flag (state c)"
    by (auto simp: state_core_def maybe_increase_control_flags_limits_def Let_def)
  have "c' = c \<or> (\<exists>p. c' = (state_core env target c)\<lparr>pending_action := p\<rparr>) \<or> c' = state_core env target c"
    using assms by (auto simp: set_agent_state_to_eq Let_def split: option.splits if_splits)
  with core show "outputs (state c') = outputs (state c)" "agent_name c' = agent_name c"
    "target \<noteq> RUNNING \<Longrightarrow> iteration_flag (state c') = iteration_flag (state c) \<and>
       budget_flag (state c') = budget_flag (state c)"
    by auto
qed

lemma close_result:
  obtains w' c' mid where "close_controller env True (w, c) = (Inr (), (w', c'))"
    "outputs (state c') = outputs (state c)" "agent_name c' = agent_name c"
    "iteration_flag (state c') = iteration_flag (state c)" "budget_flag (state c') = budget_flag (state c)"
    "logged (stream w') = logged (stream w) @ mid" "length mid \<le> 2" "closed_flag c'"
proof -
  obtain w1 c1 where s: "set_agent_state_to env STOPPED (w, c) = (Inr (), (w1, c1))"
    using set_state_result [of env STOPPED w c] by metis
  define c2 where "c2 = c1\<lparr>state := close_history (stream w1) (state c1),
      subscribed := (subscribed c1 \<and> is_delegate c1), closed_flag := True\<rparr>"
  have run: "close_controller env True (w, c) = (Inr (), (w1, c2))"
    by (simp add: close_controller_def bindS_def s c2_def)
  have c2: "outputs (state c2) = outputs (state c1)" "agent_name c2 = agent_name c1" "closed_flag c2"
    "iteration_flag (state c2) = iteration_flag (state c1)" "budget_flag (state c2) = budget_flag (state c1)"
    by (simp_all add: c2_def close_history_def case_prod_unfold Let_def)
  have "\<exists>mid. logged (stream w1) = logged (stream w) @ mid \<and> length mid \<le> 2"
  proof (cases "STOPPED = agent_state (state c)")
    case True
    then show ?thesis using s set_state_same [of env c w] by auto
  next
    case False
    obtain mid x where "logged (stream w1) = logged (stream w) @ mid @ [x]" "length mid \<le> 1"
      using state_change_logged [OF False s] by metis
    then show ?thesis by (intro exI [of _ "mid @ [x]"]) simp
  qed
  then obtain mid where "logged (stream w1) = logged (stream w) @ mid" "length mid \<le> 2" by blast
  with that run c2 set_state_frame [OF s] show thesis by simp
qed

text \<open>What the parent makes of a delegate that is done: one observation, with the tool call of the
  delegation; the event that was being delivered is not looked at any more.\<close>

lemma delegate_ended:
  assumes d: "delegate_of k = Some d" and over: "\<not> delegate_active (state (core_of d))"
  shows "\<exists>w' k' mid x. on_event env e (w, k) = (Inr (), (w', k')) \<and> delegate_of k' = None \<and>
    core_of k' = share_flags d (core_of k) \<and>
    logged (stream w') = logged (stream w) @ mid @ [x] \<and> length mid \<le> 2 \<and>
    payload x = Obs (AgentDelegateObservation
      (delegate_content env (agent_state (state (core_of d))) (agent_name (core_of d)) (outputs (state (core_of d))))
      (outputs (state (core_of d)))) \<and> raw_source x = Some AGENT \<and>
    raw_tool_call_metadata x = (case find is_delegate_action (rev (history (state (core_of k)))) of
      Some a \<Rightarrow> raw_tool_call_metadata a | None \<Rightarrow> None)"
proof -
  obtain w1 c1 mid where cl: "close_controller env True (w, core_of d) = (Inr (), (w1, c1))"
    "outputs (state c1) = outputs (state (core_of d))" "agent_name c1 = agent_name (core_of d)"
    "iteration_flag (state c1) = iteration_flag (state (core_of d))"
    "budget_flag (state c1) = budget_flag (state (core_of d))"
    "logged (stream w1) = logged (stream w) @ mid" "length mid \<le> 2"
    by (rule close_result)
  define p where "p = share_flags d (core_of k)"
  define tc where "tc = (case find is_delegate_action (rev (history (state (core_of k)))) of
      Some a \<Rightarrow> raw_tool_call_metadata a | None \<Rightarrow> None)"
  define ob where "ob = (fresh_event (Obs (AgentDelegateObservation
      (delegate_content env (agent_state (state (core_of d))) (agent_name (core_of d)) (outputs (state (core_of d))))
      (outputs (state (core_of d))))))\<lparr>raw_tool_call_metadata := tc\<rparr>"
  have id: "event_id ob = INVALID_ID" by (simp add: ob_def event_id_def fresh_event_def)
  have p: "share_flags (with_core c1 d) (core_of k) = p" "history (state p) = history (state (core_of k))"
    using cl(4,5) by (simp_all add: share_flags_def p_def)
  have "on_event env e (w, k) = (Inr (), (pushed env ob AGENT w1, Controller p None))"
    using d over cl(1-3)
    by (simp add: on_event_def end_delegate_def bindS_def on_delegate_def lift_core_def p Let_def
        tc_def [symmetric] ob_def [symmetric] emit_fresh [OF id])
  moreover have "logged (stream (pushed env ob AGENT w1)) = logged (stream w) @ mid @ [stored_form (stamped env ob AGENT w1)]"
    by (simp add: cl(6))
  ultimately show ?thesis
    using cl(7) unfolding tc_def [symmetric]
    by (intro exI [of _ "pushed env ob AGENT w1"] exI [of _ "Controller p None"] exI [of _ mid]
        exI [of _ "stored_form (stamped env ob AGENT w1)"] conjI)
      (simp_all add: p_def ob_def fresh_event_def)
qed

section \<open>Starting a delegate that does not exist\<close>

lemma unknown_delegate:
  assumes "payload e = Act (AgentDelegateAction name ins th)" and "delegate_of k = None"
    and "\<And>cfg. get_cls env name cfg = Inl x"
  shows "on_event env e (w, k) =
    (Inl x, (w, Controller ((core_of k)\<lparr>state := add_history e (state (core_of k))\<rparr>) None))"
  using assms
  by (simp add: on_event_def on_event_inner_def hidden_event_def bindS_def lift_core_def upd_state_def
      upd_core_def handle_action_def handle_delegate_action_def start_delegate_def Let_def)

section \<open>Loop recovery\<close>

lemma close_history_end:
  "0 \<le> end_id s \<Longrightarrow> e \<in> set (history (close_history lg s)) \<Longrightarrow> event_id e \<le> end_id s"
  using search_in_range [of e _ "Some (end_id s)" False "Some in_history" None lg]
  by (auto simp: close_history_def history_bounds_def Let_def)

lemma init_history_end:
  assumes "0 \<le> end_id s" and "e \<in> set (history (init_history lg s))"
  shows "event_id e \<le> end_id s"
proof -
  obtain first final where b: "history_bounds s lg = (first, final)" by fastforce
  then have fin: "final = end_id s" using assms(1) by (simp add: history_bounds_def)
  have "e \<in> set (search_events first (Some final) False (Some in_history) None lg)"
    using assms(2) b skip_ranges_subset by (auto simp: init_history_def Let_def split: if_splits)
  from search_in_range [OF this] fin show ?thesis by simp
qed

lemma set_state_end_id:
  assumes "set_agent_state_to env target (w, c) = (r, (w', c'))"
  shows "end_id (state c') = end_id (state c)"
proof -
  have core: "end_id (state (state_core env target c)) = end_id (state c)"
    by (auto simp: state_core_def maybe_increase_control_flags_limits_def Let_def)
  have "c' = c \<or> (\<exists>p. c' = (state_core env target c)\<lparr>pending_action := p\<rparr>) \<or> c' = state_core env target c"
    using assms by (auto simp: set_agent_state_to_eq Let_def split: option.splits if_splits)
  with core show ?thesis by auto
qed

text \<open>What is left of the history, and the bound that is set with it and never raised again.\<close>

lemma recovery_truncates:
  assumes idx: "0 \<le> loop_start_idx a" "loop_start_idx a < int (length (history (state c)))"
  shows "\<exists>w' c'. perform_loop_recovery env a (w, c) = (Inr (), (w', c')) \<and>
    agent_state (state c') = AWAITING_USER_INPUT \<and>
    history (state c') = take (nat (loop_start_idx a)) (history (state c)) \<and>
    end_id (state c') = (if loop_start_idx a = 0 then -1
      else event_id (history (state c) ! (nat (loop_start_idx a) - 1)))"
proof -
  define n where "n = nat (loop_start_idx a)"
  have n: "loop_start_idx a = int n" "n < length (history (state c))" using idx by (simp_all add: n_def)
  define c1 where "c1 = c\<lparr>state := (state c)\<lparr>history := take n (history (state c)),
      end_id := (if take n (history (state c)) \<noteq> [] then event_id (last (take n (history (state c)))) else -1)\<rparr>,
      cached_first_user_message := None\<rparr>"
  have t: "truncate_memory_to_point (loop_start_idx a) (w, c) = (Inr (), (w, c1))"
    using n by (simp add: truncate_memory_to_point_def upd_core_def c1_def Let_def)
  obtain w2 c2 where s: "set_agent_state_to env AWAITING_USER_INPUT (w, c1) = (Inr (), (w2, c2))"
    "agent_state (state c2) = AWAITING_USER_INPUT" "history (state c2) = history (state c1)"
    by (rule set_state_result)
  have "\<exists>w3. perform_loop_recovery env a (w, c) = (Inr (), (w3, c2))"
    by (simp add: perform_loop_recovery_def bindS_def t s(1) emit_new_eq)
  moreover have "end_id (state c2) = (if n = 0 then -1 else event_id (history (state c) ! (n - 1)))"
  proof (cases n)
    case 0
    then show ?thesis using set_state_end_id [OF s(1)] by (simp add: c1_def)
  next
    case (Suc m)
    then have "take n (history (state c)) \<noteq> []" "last (take n (history (state c))) = history (state c) ! m"
      using n(2) by (auto simp: take_Suc_conv_app_nth)
    then show ?thesis using set_state_end_id [OF s(1)] Suc by (simp add: c1_def)
  qed
  ultimately show ?thesis
    using s(2,3) n(1) by (auto simp: c1_def)
qed

text \<open>A controller built from a state with such a bound does not see what came after it.\<close>

lemma restart_bounded:
  assumes "0 \<le> end_id s" and "e \<in> set (history (state (init_controller env (Some (restored s)) replays args w)))"
  shows "event_id e \<le> end_id s"
proof -
  define t where "t = set_initial_state (ctl_id args) (ctl_user_id args) (Some (restored s))
      (initial_max_iterations args) (initial_max_budget args) (ctl_confirmation_mode args)"
  have t: "end_id t = end_id s"
    by (simp add: t_def set_initial_state_def restored_def)
  have "e \<in> set (history (init_history (stream w) t))"
    using assms(2) by (simp add: init_controller_def t_def)
  with init_history_end [of t] t assms(1) show ?thesis by simp
qed

section \<open>Limits\<close>

lemma runtime_error_reaction:
  "reaction_state c (RuntimeError m) = ERROR" "reaction_error c (RuntimeError m) = ''RuntimeError: '' @ m"
  by (simp_all add: reaction_state_def reaction_error_def runtime_status_of_def instance_of_def exn_name_def exn_str_def)

lemma iteration_limit_raises:
  assumes "max_value (iteration_flag s) \<le> current_value (iteration_flag s)"
  shows "run_control_flags s = (Inl (RuntimeError (iteration_limit_text (iteration_flag s))),
    s\<lparr>iteration_flag := (iteration_flag s)\<lparr>hit_limit := True\<rparr>\<rparr>)"
  using assms by (simp add: run_control_flags_def iteration_step_def iteration_reached_limit_def bindS_def
      iteration_limit_text_def Let_def)

lemma budget_limit_raises:
  assumes "current_value (iteration_flag s) < max_value (iteration_flag s)" "budget_flag s = Some b"
    and "max_value b \<le> current_value b"
  shows "fst (run_control_flags s) = Inl (RuntimeError (budget_limit_text b))"
  using assms by (simp add: run_control_flags_def iteration_step_def iteration_reached_limit_def bindS_def
      budget_step_def budget_reached_limit_def budget_limit_text_def Let_def)

text \<open>Why a delegate that was stopped counts as active or not.\<close>

lemma iteration_stop_active:
  "occurs_in ''RuntimeError: Agent reached maximum iteration.'' (''RuntimeError: '' @ iteration_limit_text f)"
  by (simp add: iteration_limit_text_def)

lemma digits_no_letter: "c \<in> set (digits n) \<Longrightarrow> c \<noteq> CHR ''R''"
proof (induction n rule: digits.induct)
  case (1 n)
  have d: "char_of (48 + m) \<noteq> CHR ''R''" if "m < 10" for m :: nat
  proof
    assume "char_of (48 + m) = CHR ''R''"
    then have "of_char (char_of (48 + m) :: char) = (of_char CHR ''R'' :: nat)" by (rule arg_cong)
    with that show False by (simp add: of_char_of)
  qed
  show ?case
    using 1 d [of n] d [of "n mod 10"] by (subst (asm) (2) digits.simps) (auto split: if_splits)
qed

lemma fixed2_no_letter: "CHR ''R'' \<notin> set (fixed2 q)"
proof -
  have d: "char_of (48 + m) \<noteq> CHR ''R''" if "m < 10" for m :: nat
  proof
    assume "char_of (48 + m) = CHR ''R''"
    then have "of_char (char_of (48 + m) :: char) = (of_char CHR ''R'' :: nat)" by (rule arg_cong)
    with that show False by (simp add: of_char_of)
  qed
  define h where "h = round_half_even (\<bar>q\<bar> * 100)"
  define m where "m = nat (h mod 100)"
  have m: "m div 10 < 10" "m mod 10 < 10" unfolding m_def by (simp_all add: nat_less_iff div_less_iff_less_mult)
  have s: "CHR ''R'' \<notin> set (str_of_int i)" for i
    using digits_no_letter by (auto simp: str_of_int_def)
  show ?thesis
    unfolding fixed2_def Let_def h_def [symmetric] m_def [symmetric]
    using d [OF m(1)] d [OF m(2)] s by (auto dest: sym)
qed

lemma occurs_in_head:
  "occurs_in (c # p) (c' # s) \<Longrightarrow> c \<notin> set s \<Longrightarrow> prefix (c # p) (c' # s)"
  by (auto simp: occurs_in_iff Cons_eq_append_conv prefix_def)

lemma budget_stop_inactive:
  "\<not> occurs_in ''RuntimeError:Agent reached maximum budget for conversation'' (''RuntimeError: '' @ budget_limit_text b)"
  "\<not> occurs_in ''RuntimeError: Agent reached maximum iteration.'' (''RuntimeError: '' @ budget_limit_text b)"
  using occurs_in_head [of "CHR ''R''" _ "CHR ''R''" "''untimeError: '' @ budget_limit_text b"] fixed2_no_letter
  by (fastforce simp: budget_limit_text_def)+

lemma sync_iteration [simp]:
  "iteration_flag (sync_budget_flag_with_metrics cs s) = iteration_flag s"
  "history (sync_budget_flag_with_metrics cs s) = history s"
  "agent_state (sync_budget_flag_with_metrics cs s) = agent_state s"
  by (simp_all add: sync_budget_flag_with_metrics_def)

lemma stuck_headless: "headless_mode (core_of (snd (controller_is_stuck k))) = headless_mode (core_of k)"
  using constants_stuck [of k] by (simp add: constants_def)

text \<open>A step with no iterations left: the agent stops with an error, the counter stays, and the flag
  remembers that its limit was hit.\<close>

lemma limit_stops:
  assumes run: "agent_state (state (core_of k)) = RUNNING" "pending_action (core_of k) = None"
    and stuck: "enable_stuck_detection (agent_cfg (core_of k)) \<Longrightarrow> \<not> fst (controller_is_stuck k)"
    and lim: "max_value (iteration_flag (state (core_of k))) \<le> current_value (iteration_flag (state (core_of k)))"
  shows "\<exists>w' k'. step env (w, k) = (Inr (), (w', k')) \<and> agent_state (state (core_of k')) = ERROR \<and>
    last_error (state (core_of k')) = ''RuntimeError: '' @ iteration_limit_text (iteration_flag (state (core_of k))) \<and>
    iteration_flag (state (core_of k')) = (iteration_flag (state (core_of k)))\<lparr>hit_limit := True\<rparr> \<and>
    headless_mode (core_of k') = headless_mode (core_of k)"
proof -
  obtain c d where k: "k = Controller c d" by (cases k)
  define c1 where "c1 = c\<lparr>state := sync_budget_flag_with_metrics (stats w) (state c)\<rparr>"
  define k1 where "k1 = with_core c1 (Controller c d)"
  obtain b k2 where b: "(if enable_stuck_detection (agent_cfg c1) then controller_is_stuck k1
      else (False, k1)) = (b, k2)" by fastforce
  have st2: "state (core_of k2) = state c1" "headless_mode (core_of k2) = headless_mode c"
    using b stuck_core [of k1] stuck_headless [of k1]
    by (auto simp: c1_def k1_def split: if_splits)
  have nb: "\<not> b"
    using b stuck stuck_with_core [of "sync_budget_flag_with_metrics (stats w) (state c)" c d]
    by (auto simp: c1_def k1_def k split: if_splits)
  define f where "f = iteration_flag (state c)"
  define s where "s = (state c1)\<lparr>iteration_flag := f\<lparr>hit_limit := True\<rparr>\<rparr>"
  have rc: "run_control_flags (state (core_of k2)) = (Inl (RuntimeError (iteration_limit_text f)), s)"
    unfolding st2 s_def f_def using iteration_limit_raises [of "state c1"] lim by (simp add: c1_def k)
  define c3 where "c3 = (core_of k2)\<lparr>state := s\<rparr>"
  have run3: "step env (w, k) = lift_core (react_to_exception env (RuntimeError (iteration_limit_text f)))
      (w, Controller c3 (delegate_of k2))"
  proof -
    have "step env (w, k) = lift_core (within_limits env) (w, k2)"
      using run b nb by (auto simp: step_def k Let_def c1_def [symmetric] k1_def [symmetric])
    then show ?thesis
      using rc by (simp add: lift_core_def within_limits_def c3_def with_core_def)
  qed
  obtain r w' c' where re: "react_to_exception env (RuntimeError (iteration_limit_text f)) (w, c3) = (r, (w', c'))"
    by (cases "react_to_exception env (RuntimeError (iteration_limit_text f)) (w, c3)") auto
  have r: "r = Inr ()" using react_total [of env "RuntimeError (iteration_limit_text f)" "(w, c3)"] re by simp
  have out: "agent_state (state c') = ERROR" "last_error (state c') = ''RuntimeError: '' @ iteration_limit_text f"
    using react_outcome [of env "RuntimeError (iteration_limit_text f)" w c3 w' c'] re runtime_error_reaction by auto
  have "iteration_flag (state c') = iteration_flag s \<and> headless_mode c' = headless_mode c3"
  proof -
    let ?c = "c3\<lparr>state := (state c3)\<lparr>last_error := reaction_error c3 (RuntimeError (iteration_limit_text f))\<rparr>\<rparr>"
    obtain w0 where w0: "set_agent_state_to env ERROR (w0, ?c) = (r, (w', c'))"
      using re unfolding react_to_exception_eq runtime_error_reaction by blast
    have "iteration_flag (state c') = iteration_flag (state ?c)"
      using set_state_frame(3) [OF w0] by simp
    moreover have "constants (snd (w0, ?c)) (snd (snd (set_agent_state_to env ERROR (w0, ?c))))"
      by (rule fixed.core.keepsD [OF fixed.core.keeps_set_state])
    then have "constants ?c c'" using w0 by simp
    ultimately show ?thesis by (simp add: c3_def constants_def)
  qed
  with out r re run3 st2 show ?thesis
    by (intro exI [of _ w'] exI [of _ "with_core c' (Controller c3 (delegate_of k2))"])
      (simp add: lift_core_def k f_def s_def c3_def)
qed

text \<open>A message of the user sets it running again, with room for more iterations unless headless.\<close>

lemma message_extends:
  assumes "event_source e = Some USER" and "agent_state (state c) = ERROR"
    and "handle_message_action env e (w, c) = (r, (w', c'))"
  shows "iteration_flag (state c') = iteration_increase_limit (headless_mode c) (iteration_flag (state c))"
proof -
  obtain first c1 where f: "first_user_message (w, c) = (Inr first, (w, c1))" "state c1 = state c"
      "headless_mode c1 = headless_mode c"
    by (cases "cached_first_user_message c") (auto simp: first_user_message_def Let_def)
  define x where "x = stamped env (recall_for e first) USER w"
  define w1 where "w1 = pushed env (recall_for e first) USER w"
  define c2 where "c2 = c1\<lparr>pending_action := Some x\<rparr>"
  have st2: "state c2 = state c" "headless_mode c2 = headless_mode c" by (simp_all add: c2_def f)
  have run: "handle_message_action env e (w, c) = set_agent_state_to env RUNNING (w1, c2)"
    using assms(1,2) f
    by (simp add: handle_message_action_def bindS_def Let_def upd_core_def recall_for_def [symmetric]
        emit_fresh x_def w1_def c2_def)
  have "state c' = state (state_core env RUNNING c2)"
    using assms(2,3) unfolding run set_agent_state_to_eq Let_def
    by (auto simp: st2 split: option.splits)
  then show ?thesis
    by (simp add: state_core_def st2 assms(2) Let_def maybe_increase_control_flags_limits_def)
qed

end
