(* ===== verification/Controller_Properties.thy ===== *)
theory Controller_Properties
  imports Controller_Scenarios
begin

text \<open>
  The properties of the agent controller, with the small conversation their witnesses run on: an
  agent that always answers with the same command, an empty stream and an in-memory store.
\<close>

definition demo_command :: event where
  "demo_command = fresh_event (Act (CmdRunAction ''ls'' False [] False False None False CONFIRMED RISK_HIGH))"

definition demo_read :: event where
  "demo_read = fresh_event (Act (FileReadAction ''a.txt'' 0 (-1) [] RISK_HIGH READ_DEFAULT None))"

definition demo_stats :: conversation_stats where
  "demo_stats = \<lparr>metrics_path = ''stats'', has_file_store = True, conversation_id = ''c'',
     service_to_metrics = [], restored_metrics = []\<rparr>"

definition demo_env :: "unit env" where
  "demo_env = \<lparr>clock = (\<lambda>_. ''now''),
     agent_step = (\<lambda>a s cs. \<lparr>reply_action = Inr (Some demo_command), reply_agent = a,
        reply_extra_data = extra_data s, reply_stats = cs\<rparr>),
     agent_reset = (\<lambda>a. a), agent_system_message = (\<lambda>a. None),
     get_cls = (\<lambda>n g. Inl (KeyError n)), py_str = (\<lambda>v. [])\<rparr>"

definition demo_world :: world where
  "demo_world = \<lparr>stream = empty_log, files = [], stats = demo_stats, notified = []\<rparr>"

definition demo_core :: "unit core" where
  "demo_core = \<lparr>ctl_id = ''c'', ctl_user_id = None, ctl_has_file_store = True, agent = (),
     agent_name = ''demo'', agent_cfg = \<lparr>enable_stuck_detection = True,
       enable_history_truncation = True, cli_mode = False\<rparr>,
     agent_configs = [], headless_mode = False, is_delegate = False, ctl_confirmation_mode = True,
     has_status_callback = False, security_analyzer = None,
     tracker_of = \<lparr>trk_sid = Some ''c'', trk_has_file_store = True, trk_user_id = None\<rparr>,
     state = new_state\<lparr>confirmation_mode := True\<rparr>, stuck_analysis_of = None, pending_action = None,
     cached_first_user_message = None, replay_manager_of = new_replay_manager None,
     initial_max_iterations = 10, initial_max_budget = None, closed_flag = False, subscribed = True\<rparr>"

text \<open>The same core in a given state of the agent, with a pending action.\<close>

definition demo_in :: "agent_state \<Rightarrow> event option \<Rightarrow> unit core" where
  "demo_in st p = demo_core\<lparr>state := (state demo_core)\<lparr>agent_state := st\<rparr>, pending_action := p\<rparr>"

definition demo_message :: event where
  "demo_message = (fresh_event (Act (MessageAction ''hello'' None None False RISK_UNKNOWN)))
     \<lparr>raw_source := Some USER\<rparr>"

lemma demo_in_simps [simp]:
  "agent_state (state (demo_in st p)) = st" "pending_action (demo_in st p) = p"
  "confirmation_mode (state (demo_in st p)) = True" "agent_cfg (demo_in st p) = agent_cfg demo_core"
  "tracker_of (demo_in st p) = tracker_of demo_core" "history (state (demo_in st p)) = []"
  "security_analyzer (demo_in st p) = None" "ctl_confirmation_mode (demo_in st p) = True"
  "has_status_callback (demo_in st p) = False" "headless_mode (demo_in st p) = False"
  "iteration_flag (state (demo_in st p)) = new_iteration_flag 100"
  by (simp_all add: demo_in_def demo_core_def new_state_def)

section \<open>Whole runs\<close>

lemma all_cores_mono: "all_cores P k \<Longrightarrow> (\<And>c. P c \<Longrightarrow> Q c) \<Longrightarrow> all_cores Q k"
proof (induction k)
  case (Controller c d)
  then show ?case by (cases d) auto
qed

lemma new_controller_bounded:
  assumes "new_controller env None replays args w = (r, w0, k0)" and "0 \<le> initial_max_iterations args"
  shows "all_cores (\<lambda>c. iterations_ok (state c)) k0"
proof -
  let ?c = "init_controller env None replays args w"
  have ok: "iterations_ok (state ?c)"
    using assms(2) by (simp add: init_controller_def iterations_ok_def init_history_flags set_initial_state_def
        new_iteration_flag_def)
  have "iterations_ok (state (snd (w, ?c))) \<longrightarrow> iterations_ok (state (snd (snd (add_system_message env (w, ?c)))))"
    by (rule iterations.inv.core.keepsD [OF iterations.inv.core.keeps_system_message])
  with ok assms(1) show ?thesis
    by (auto simp: new_controller_def case_prod_unfold Let_def)
qed

lemma bounded_from_start:
  assumes "new_controller env None replays args w = (r, w0, k0)" and "0 \<le> initial_max_iterations args"
    and "reachable env (w0, k0) (w', k')"
  shows "all_cores (\<lambda>c. iterations_ok (state c)) k'"
  using iterations.inv.reachable_keeps [OF assms(3)] new_controller_bounded [OF assms(1,2)] by simp

text \<open>
  C1. The iteration limit holds in every run: from the construction of a controller with a
  non-negative iteration limit on, whatever the stream delivers and whoever adds events, no
  controller (the root or a delegate of any depth, which shares the counter) ever has counted
  more iterations than its limit allows at that moment.
\<close>

theorem iterations_bounded:
  assumes "new_controller env None replays args w = (r, w0, k0)" and "0 \<le> initial_max_iterations args"
    and "reachable env (w0, k0) (w', k')"
  shows "all_cores (\<lambda>c. current_value (iteration_flag (state c)) \<le> max_value (iteration_flag (state c))) k'"
  using bounded_from_start [OF assms] by (rule all_cores_mono) (simp add: iterations_ok_def)

lemma demo_new:
  "\<exists>k0. new_controller demo_env None None demo_core demo_world = (Inr (), demo_world, k0)"
  by (simp add: new_controller_def add_system_message_def demo_env_def demo_world_def Let_def case_prod_unfold)

lemma external_reached:
  assumes "event_id e = INVALID_ID"
  obtains lg where "reachable env (w, k) (w\<lparr>stream := lg\<rparr>, k)" "length (logged lg) = Suc (length (logged (stream w)))"
proof -
  obtain e' lg where add: "add_event ''now'' e USER (stream w) = Inr (e', lg)"
    using assms by (simp add: add_event_def Let_def)
  have "system_step env (w, k) (w\<lparr>stream := lg\<rparr>, k)" by (rule external [OF add])
  then have "reachable env (w, k) (w\<lparr>stream := lg\<rparr>, k)" by (rule reachable.more [OF reachable.start])
  moreover have "length (logged lg) = Suc (length (logged (stream w)))"
    by (simp add: add_event_Inr(3) [OF add])
  ultimately show thesis by (rule that)
qed

lemma demo_message_id: "event_id demo_message = INVALID_ID"
  by (simp add: demo_message_def event_id_def fresh_event_def)

theorem iterations_bounded_witness:
  "\<exists>k0 t. reachable demo_env (demo_world, k0) t \<and> logged (stream (fst t)) \<noteq> [] \<and>
     all_cores (\<lambda>c. current_value (iteration_flag (state c)) \<le> max_value (iteration_flag (state c))) (snd t)"
proof -
  obtain k0 where k0: "new_controller demo_env None None demo_core demo_world = (Inr (), demo_world, k0)"
    using demo_new by blast
  obtain lg where r: "reachable demo_env (demo_world, k0) (demo_world\<lparr>stream := lg\<rparr>, k0)"
    "length (logged lg) = Suc (length (logged (stream demo_world)))"
    by (rule external_reached [OF demo_message_id])
  have "0 \<le> initial_max_iterations demo_core" by (simp add: demo_core_def)
  from iterations_bounded [OF k0 this r(1)] r show ?thesis
    by (intro exI [of _ k0] exI [of _ "(demo_world\<lparr>stream := lg\<rparr>, k0)"]) auto
qed

text \<open>
  The conversation's log is only ever appended to, and the ids of its events stay their
  positions, whatever the controller does and whoever else adds events.
\<close>

theorem log_only_grows:
  assumes "reachable env (w, k) (w', k')" and "log_ok (stream w)"
  shows "prefix (logged (stream w)) (logged (stream w')) \<and> log_ok (stream w')"
  using growing.reachable_keeps [OF assms(1)] assms(2) by (simp add: grows_def)

theorem log_only_grows_witness:
  "\<exists>t. reachable demo_env (demo_world, Controller demo_core None) t \<and> logged (stream (fst t)) \<noteq> [] \<and>
     log_ok (stream (fst t))"
proof -
  obtain lg where r: "reachable demo_env (demo_world, Controller demo_core None)
      (demo_world\<lparr>stream := lg\<rparr>, Controller demo_core None)"
    "length (logged lg) = Suc (length (logged (stream demo_world)))"
    by (rule external_reached [OF demo_message_id])
  have "log_ok (stream demo_world)" by (simp add: demo_world_def)
  from log_only_grows [OF r(1) this] r(2) show ?thesis
    by (intro exI [of _ "(demo_world\<lparr>stream := lg\<rparr>, Controller demo_core None)"] conjI r(1)) auto
qed

text \<open>
  C26. Confirmation mode does not reach delegates: in every run of a controller that was built
  without one, a delegate of any depth has confirmation mode off, so every action it sends leaves
  its guard unchanged, whatever the confirmation mode of the root, which itself never changes.
\<close>

theorem delegates_unconfirmed:
  assumes "reachable env (w, Controller c None) (w', k')" and "delegate_of k' = Some d"
  shows "delegates_open d \<and> guard_action (core_of d) e = e \<and>
    confirmation_mode (state (core_of k')) = confirmation_mode (state c)"
proof -
  have "constants c (core_of k') \<and> delegates_open k'"
    using opened.reachable_keeps [OF assms(1)] by simp
  with assms(2) show ?thesis
    by (cases k') (simp add: open_guard constants_def)
qed

lemma known_delegate:
  assumes "payload e = Act (AgentDelegateAction name [] th)" and "delegate_of k = None"
    and "\<And>cfg. get_cls env name cfg = Inr (ag, nm)" and "agent_system_message env ag = None"
  shows "\<exists>k' d. on_event env e (w, k) = (Inr (), (w, k')) \<and> delegate_of k' = Some d"
proof -
  obtain c where k: "k = Controller c None" using assms(2) by (cases k) simp
  have sys: "add_system_message env (w, x) = (Inr (), (w, x))" if "agent x = ag" for x
    using assms(4) that by (simp add: add_system_message_def)
  have ag: "agent (init_controller env st None (delegate_args c' ag nm cfg) w) = ag" for st c' cfg
    by (simp add: init_controller_def delegate_args_def)
  have new: "new_controller env st None (delegate_args c' ag nm cfg) w =
      (Inr (), w, Controller (init_controller env st None (delegate_args c' ag nm cfg) w) None)" for st c' cfg
    by (simp add: new_controller_def sys ag)
  show ?thesis
    using assms(1,3)
    by (simp add: k on_event_def on_event_inner_def hidden_event_def bindS_def lift_core_def upd_state_def
      upd_core_def handle_action_def handle_delegate_action_def start_delegate_def Let_def new should_step_def)
qed

definition delegating_env :: "unit env" where
  "delegating_env = demo_env\<lparr>get_cls := \<lambda>n g. Inr ((), n)\<rparr>"

theorem delegates_unconfirmed_witness:
  "\<exists>w' k' d. reachable delegating_env (demo_world, Controller demo_core None) (w', k') \<and>
     delegate_of k' = Some d \<and> confirmation_mode (state (core_of k')) \<and>
     guard_action (core_of d) demo_command = demo_command"
proof -
  define e where "e = fresh_event (Act (AgentDelegateAction ''sub'' [] []))"
  obtain e' lg where add: "add_event ''now'' e AGENT (stream demo_world) = Inr (e', lg)"
    by (simp add: add_event_def e_def Let_def)
  define w1 where "w1 = demo_world\<lparr>stream := lg\<rparr>"
  have q: "queued (stream w1) = [stored_form e']" "payload (stored_form e') = Act (AgentDelegateAction ''sub'' [] [])"
    using add_event_Inr(2,3) [OF add] by (simp_all add: w1_def demo_world_def empty_log_def e_def fresh_event_def)
  let ?w = "w1\<lparr>stream := (stream w1)\<lparr>queued := []\<rparr>\<rparr>" and ?k = "Controller demo_core None"
  obtain k' d where on: "on_event delegating_env (stored_form e') (?w, ?k) = (Inr (), (?w, k'))" "delegate_of k' = Some d"
    using known_delegate [OF q(2), of ?k delegating_env "()" "''sub''" ?w]
    by (auto simp: delegating_env_def demo_env_def)
  have "system_step delegating_env (demo_world, ?k) (w1, ?k)"
    unfolding w1_def by (rule external [OF add])
  moreover have "system_step delegating_env (w1, ?k) (?w, k')"
    by (rule deliver [OF _ q(1) on(1)]) (simp add: demo_core_def)
  ultimately have run: "reachable delegating_env (demo_world, ?k) (?w, k')"
    by (blast intro: reachable.intros)
  have "confirmation_mode (state demo_core)" by (simp add: demo_core_def)
  with delegates_unconfirmed [OF run on(2), of demo_command] run on(2) show ?thesis by blast
qed

section \<open>Steps\<close>

text \<open>
  C6. The agent is asked only by a ready controller: if the controller is not running, waits for a
  pending action, has no iterations left, has spent its budget, or is found stuck, then a step
  does the same for every agent, so it cannot depend on what the agent would have answered.
\<close>

theorem agent_asked_only_if_ready:
  assumes "\<not> ready w k"
  shows "step (env\<lparr>agent_step := f\<rparr>) (w, k) = step env (w, k)"
  by (rule not_ready_agent [OF assms])

theorem agent_asked_only_if_ready_witness:
  "step (demo_env\<lparr>agent_step := \<lambda>a s cs. \<lparr>reply_action = Inl IndexError, reply_agent = a,
      reply_extra_data = [], reply_stats = cs\<rparr>\<rparr>) (demo_world, Controller (demo_in PAUSED None) None) =
   step demo_env (demo_world, Controller (demo_in PAUSED None) None)"
  by (rule agent_asked_only_if_ready) (simp add: ready_def)

text \<open>
  A step never lets an exception out: whatever the agent or the limits raise, the guarded step
  returns, having turned the exception into a state of the controller.
\<close>

theorem step_never_raises: "fst (step_with_exception_handling env s) = Inr ()"
  by (rule safe_step_total)

text \<open>
  C17. Running out of iterations stops the agent and a message of the user lets it go on: a step
  without iterations left ends in the error state with the limit's message and counts nothing; a
  user message then sets the agent running, and the limit has grown by the increment, unless the
  controller is headless.
\<close>

theorem limit_stops_and_message_extends:
  assumes "agent_state (state (core_of k)) = RUNNING" and "pending_action (core_of k) = None"
    and "enable_stuck_detection (agent_cfg (core_of k)) \<Longrightarrow> \<not> fst (controller_is_stuck k)"
    and "max_value (iteration_flag (state (core_of k))) \<le> current_value (iteration_flag (state (core_of k)))"
    and "event_source e = Some USER"
  shows "\<exists>w' k' w2 c2. step env (w, k) = (Inr (), (w', k')) \<and> agent_state (state (core_of k')) = ERROR \<and>
    last_error (state (core_of k')) = ''RuntimeError: '' @ iteration_limit_text (iteration_flag (state (core_of k))) \<and>
    current_value (iteration_flag (state (core_of k'))) = current_value (iteration_flag (state (core_of k))) \<and>
    handle_message_action env e (w', core_of k') = (Inr (), (w2, c2)) \<and> agent_state (state c2) = RUNNING \<and>
    current_value (iteration_flag (state c2)) = current_value (iteration_flag (state (core_of k))) \<and>
    max_value (iteration_flag (state c2)) = max_value (iteration_flag (state (core_of k))) +
      (if headless_mode (core_of k) then 0 else limit_increase_amount (iteration_flag (state (core_of k))))"
proof -
  obtain w' k' where st: "step env (w, k) = (Inr (), (w', k'))" "agent_state (state (core_of k')) = ERROR"
    "last_error (state (core_of k')) = ''RuntimeError: '' @ iteration_limit_text (iteration_flag (state (core_of k)))"
    "iteration_flag (state (core_of k')) = (iteration_flag (state (core_of k)))\<lparr>hit_limit := True\<rparr>"
    "headless_mode (core_of k') = headless_mode (core_of k)"
    using limit_stops [OF assms(1-4)] by blast
  obtain w2 c2 where m: "handle_message_action env e (w', core_of k') = (Inr (), (w2, c2))" "agent_state (state c2) = RUNNING"
    using user_message_recalls [OF assms(5)] by blast
  have "iteration_flag (state c2) = iteration_increase_limit (headless_mode (core_of k)) ((iteration_flag (state (core_of k)))\<lparr>hit_limit := True\<rparr>)"
    using message_extends [OF assms(5) st(2) m(1)] st(4,5) by simp
  with st m show ?thesis
    by (intro exI [of _ w'] exI [of _ k'] exI [of _ w2] exI [of _ c2]) (simp add: iteration_increase_limit_def)
qed

definition tired_core :: "unit core" where
  "tired_core = (demo_in RUNNING None)\<lparr>state := (state (demo_in RUNNING None))
     \<lparr>iteration_flag := (new_iteration_flag 7)\<lparr>current_value := 7\<rparr>\<rparr>\<rparr>"

theorem limit_stops_and_message_extends_witness:
  "\<exists>w' k' w2 c2. step demo_env (demo_world, Controller tired_core None) = (Inr (), (w', k')) \<and>
     agent_state (state (core_of k')) = ERROR \<and>
     handle_message_action demo_env demo_message (w', core_of k') = (Inr (), (w2, c2)) \<and>
     max_value (iteration_flag (state c2)) = 14"
proof -
  have "fst (is_stuck False [] None) = False"
    by (simp add: is_stuck_found filtered_history_slice Let_def)
  then have "\<not> fst (controller_is_stuck (Controller tired_core None))"
    by (simp add: tired_core_def case_prod_unfold Let_def demo_in_def demo_core_def new_state_def)
  then show ?thesis
    using limit_stops_and_message_extends [of "Controller tired_core None" demo_message demo_env demo_world]
    by (auto simp: tired_core_def new_iteration_flag_def demo_message_def)
qed

section \<open>Changing the state\<close>

text \<open>
  C15. Every change of the agent's state is announced and complete: the operation returns, the
  state is the target, the history is unchanged, and the last event of the log says so, with the
  last error as the reason if the target is the error state; at most one event goes before it.
  Stopping and failing drop the pending action.
\<close>

theorem state_change_announced:
  assumes "target \<noteq> agent_state (state c)"
  shows "\<exists>w' c' mid x. set_agent_state_to env target (w, c) = (Inr (), (w', c')) \<and>
    agent_state (state c') = target \<and> history (state c') = history (state c) \<and>
    logged (stream w') = logged (stream w) @ mid @ [x] \<and> length mid \<le> 1 \<and>
    payload x = Obs (AgentStateChangedObservation [] target (if target = ERROR then last_error (state c) else [])) \<and>
    (target \<in> {STOPPED, ERROR} \<longrightarrow> pending_action c' = None)"
proof -
  obtain w' c' where s: "set_agent_state_to env target (w, c) = (Inr (), (w', c'))"
    "agent_state (state c') = target" "history (state c') = history (state c)"
    by (rule set_state_result)
  obtain mid x where "logged (stream w') = logged (stream w) @ mid @ [x]" "length mid \<le> 1"
    "payload x = Obs (AgentStateChangedObservation [] target (if target = ERROR then last_error (state c) else []))"
    using state_change_logged [OF assms s(1)] by blast
  moreover have "target \<in> {STOPPED, ERROR} \<longrightarrow> pending_action c' = None"
    using state_change_pending [OF assms s(1)] by blast
  ultimately show ?thesis using s by blast
qed

theorem state_change_announced_witness:
  "\<exists>w' c'. set_agent_state_to demo_env STOPPED (demo_world, demo_in RUNNING None) = (Inr (), (w', c')) \<and>
     agent_state (state c') = STOPPED \<and> logged (stream w') \<noteq> []"
  using state_change_announced [of STOPPED "demo_in RUNNING None" demo_env demo_world] by auto

text \<open>
  C16. Every change of the agent's state is saved: what a later session restores is the new state,
  as \<^theory_text>\<open>restored\<close> describes it: without history, loading, and remembering the state
  if it can be resumed.
\<close>

theorem state_change_survives:
  assumes "target \<noteq> agent_state (state c)" and "set_agent_state_to env target (w, c) = (r, (w', c'))"
    and "trk_sid (tracker_of c) = Some sid" and "sid \<noteq> []" and "trk_has_file_store (tracker_of c)"
    and "metrics_path (stats w') \<noteq> get_conversation_agent_state_filename sid (trk_user_id (tracker_of c))"
  shows "restore_from_session sid (trk_user_id (tracker_of c)) (files w') = Inr (restored (state c')) \<and>
    resume_state (restored (state c')) =
      (if target \<in> {RUNNING, PAUSED, AWAITING_USER_INPUT, FINISHED} then Some target else None)"
  using state_change_restored [OF assms]
    set_agent_state_to_state [of env target w c w' c'] assms(2) by (simp add: restored_def)

lemma saved_stats [simp]: "stats (saved c w) = stats w"
  by (simp add: saved_def)

theorem state_change_survives_witness:
  "\<exists>w' c'. set_agent_state_to demo_env PAUSED (demo_world, demo_in RUNNING None) = (Inr (), (w', c')) \<and>
     restore_from_session ''c'' None (files w') = Inr (restored (state c'))"
proof -
  obtain w' c' where s: "set_agent_state_to demo_env PAUSED (demo_world, demo_in RUNNING None) = (Inr (), (w', c'))"
    by (rule set_state_result)
  have "stats w' = demo_stats"
    using s by (auto simp: set_agent_state_to_eq Let_def after_reset_def demo_world_def)
  then have "metrics_path (stats w') \<noteq> get_conversation_agent_state_filename ''c'' None"
    by (simp add: demo_stats_def get_conversation_agent_state_filename_def get_conversation_dir_def)
  with state_change_survives [OF _ s, of "''c''"] s show ?thesis
    by (auto simp: demo_core_def)
qed

text \<open>
  C21. An action that is cut off is answered: when a controller with a pending action is stopped
  or fails, and the history holds no observation for its tool call yet, an error observation for
  that action and that tool call goes to the log, right before the change of state.
\<close>

theorem cut_off_action_answered:
  assumes "target = STOPPED \<or> target = ERROR" and "target \<noteq> agent_state (state c)"
    and "pending_action c = Some p"
    and "\<not> list_ex (\<lambda>e. is_observation e \<and>
           same_tool_call (raw_tool_call_metadata e) (raw_tool_call_metadata p)) (history (state c))"
    and "set_agent_state_to env target (w, c) = (r, (w', c'))"
  shows "\<exists>ob x. logged (stream w') = logged (stream w) @ [ob, x] \<and>
     raw_cause ob = Some (event_id p) \<and> raw_tool_call_metadata ob = raw_tool_call_metadata p \<and>
     is_observation ob"
  by (rule stop_answers_pending [OF assms])

theorem cut_off_action_answered_witness:
  "\<exists>w' c' ob x. set_agent_state_to demo_env ERROR (demo_world, demo_in RUNNING (Some demo_command)) =
      (Inr (), (w', c')) \<and> logged (stream w') = [ob, x] \<and> is_observation ob"
proof -
  obtain w' c' where s: "set_agent_state_to demo_env ERROR (demo_world, demo_in RUNNING (Some demo_command)) = (Inr (), (w', c'))"
    by (rule set_state_result)
  obtain ob x where "logged (stream w') = logged (stream demo_world) @ [ob, x]" "is_observation ob"
    using cut_off_action_answered [OF _ _ _ _ s, of demo_command] by auto
  then show ?thesis using s by (auto simp: demo_world_def empty_log_def)
qed

section \<open>Confirmation\<close>

text \<open>
  C2. The confirmation gate holds for commands and code cells: in confirmation mode, sending such
  an action whose risk needs confirmation makes the controller wait for the user, with the action
  pending; the log gets the change of state and then the action, and no runtime, whatever it can
  perform, does anything with the action as it is delivered.
\<close>

theorem gate_blocks_commands:
  assumes "payload e = Act a" and "runnable a" and "declares_confirmation a"
    and "raw_id e = None" and "raw_source e = Some src"
    and "confirmation_mode (state c)" and "needs_confirmation c (analyze_risk (security_analyzer c) a)"
    and "agent_state (state c) \<noteq> AWAITING_USER_CONFIRMATION" and "agent_state (state c) \<noteq> ERROR"
    and "0 \<le> accumulated_cost (get_combined_metrics (stats w))"
  shows "\<exists>w' c' p x. send_action env e (w, c) = (Inr (), (w', c')) \<and>
    agent_state (state c') = AWAITING_USER_CONFIRMATION \<and> pending_action c' = Some p \<and>
    logged (stream w') = logged (stream w) @ [x, stored_form p] \<and>
    payload x = Obs (AgentStateChangedObservation [] AWAITING_USER_CONFIRMATION []) \<and>
    (\<forall>rt store. runtime_response rt (stored_form p) store = (None, store))"
proof -
  obtain w' c' p x b where s: "send_action env e (w, c) = (Inr (), (w', c'))"
    "agent_state (state c') = AWAITING_USER_CONFIRMATION" "pending_action c' = Some p" "payload p = Act b" "runnable b"
    "declares_confirmation b = declares_confirmation a" "confirmation_of p = Some AWAITING_CONFIRMATION"
    "logged (stream w') = logged (stream w) @ [x, stored_form p]"
    "payload x = Obs (AgentStateChangedObservation [] AWAITING_USER_CONFIRMATION [])"
    using send_awaiting [OF assms(1,2,4-10), of env] by (elim exE conjE) (rule that, assumption+)
  have "confirmation_of (stored_form p) = Some AWAITING_CONFIRMATION"
    using stored_confirmation [OF s(4)] s(6,7) assms(3) by simp
  moreover have "\<not> is_mcp (stored_form p)"
    using s(4,6) assms(3) by (auto simp: is_mcp_def declares_confirmation_def split: action.splits)
  ultimately have "runtime_response rt (stored_form p) store = (None, store)" for rt store
    using awaiting_blocked [of "stored_form p" b] s(4,5) by simp
  with s show ?thesis by blast
qed

lemma no_costs: "accumulated_cost (get_combined_metrics (stats demo_world)) = 0"
  by (simp add: combined_cost demo_world_def demo_stats_def)

lemma demo_needs: "risk_of a \<noteq> None \<Longrightarrow>
    needs_confirmation (demo_in st p) (analyze_risk (security_analyzer (demo_in st p)) a)"
  by (cases "risk_of a") (simp_all add: needs_confirmation_def analyze_risk_def risk_of_set_risk Let_def demo_core_def)

theorem gate_blocks_commands_witness:
  "\<exists>w' c' p. send_action demo_env (demo_command\<lparr>raw_source := Some AGENT\<rparr>) (demo_world, demo_in RUNNING None) =
      (Inr (), (w', c')) \<and> pending_action c' = Some p \<and>
     (\<forall>rt store. runtime_response rt (stored_form p) store = (None, store))"
proof -
  let ?a = "CmdRunAction ''ls'' False [] False False None False CONFIRMED RISK_HIGH"
  have "payload (demo_command\<lparr>raw_source := Some AGENT\<rparr>) = Act ?a"
    by (simp add: demo_command_def fresh_event_def)
  then show ?thesis
    using gate_blocks_commands [of "demo_command\<lparr>raw_source := Some AGENT\<rparr>" ?a AGENT "demo_in RUNNING None"
        demo_world demo_env] demo_needs [of ?a] no_costs
    by (auto simp: runnable_def declares_confirmation_def demo_command_def fresh_event_def risk_of_def)
qed

text \<open>What a runtime that supports the action answers when it performs it.\<close>

definition performs :: "runtime \<Rightarrow> event \<Rightarrow> string mem_store \<Rightarrow> bool" where
  "performs rt e store \<longleftrightarrow> runtime_response rt e store =
     (case (if is_mcp e then call_tool_mcp rt (timed rt e) else perform rt (timed rt e)) of
       Inr (NullObservation _) \<Rightarrow> None
     | Inr ob \<Rightarrow> Some ((fresh_event (Obs ob))\<lparr>raw_cause := Some (event_id e),
                 raw_tool_call_metadata := raw_tool_call_metadata e\<rparr>, AGENT)
     | Inl (PermissionFailure m) \<Rightarrow> Some ((fresh_event (Obs (ErrorObservation m [])))
                 \<lparr>raw_cause := Some (event_id e), raw_tool_call_metadata := raw_tool_call_metadata e\<rparr>, AGENT)
     | Inl _ \<Rightarrow> None, store)"

lemma unmarked_performs:
  assumes "payload e = Act a" and "runnable a" and "confirmation_of e = None \<or> confirmation_of e = Some CONFIRMED"
    and "\<And>b. supports rt b" and "event_source e = Some AGENT"
  shows "performs rt e store"
  unfolding performs_def by (rule unmarked_performed [OF assms])

text \<open>
  C25. The gate does not hold for the other runnable actions (reading, writing and editing files,
  browsing, MCP tools): the controller waits for the user's confirmation just the same, but the
  event that is delivered has lost the mark, so every runtime that supports the action performs it
  and answers at once.
\<close>

theorem gate_leaks_others:
  assumes "payload e = Act a" and "runnable a" and "\<not> declares_confirmation a"
    and "raw_id e = None" and "raw_source e = Some AGENT"
    and "confirmation_mode (state c)" and "needs_confirmation c (analyze_risk (security_analyzer c) a)"
    and "agent_state (state c) \<noteq> AWAITING_USER_CONFIRMATION" and "agent_state (state c) \<noteq> ERROR"
    and "0 \<le> accumulated_cost (get_combined_metrics (stats w))"
  shows "\<exists>w' c' p x. send_action env e (w, c) = (Inr (), (w', c')) \<and>
    agent_state (state c') = AWAITING_USER_CONFIRMATION \<and> pending_action c' = Some p \<and>
    confirmation_of p = Some AWAITING_CONFIRMATION \<and>
    logged (stream w') = logged (stream w) @ [x, stored_form p] \<and>
    (\<forall>rt store. (\<forall>b. supports rt b) \<longrightarrow> performs rt (stored_form p) store)"
proof -
  obtain w' c' p x b where s: "send_action env e (w, c) = (Inr (), (w', c'))"
    "agent_state (state c') = AWAITING_USER_CONFIRMATION" "pending_action c' = Some p" "payload p = Act b" "runnable b"
    "declares_confirmation b = declares_confirmation a" "confirmation_of p = Some AWAITING_CONFIRMATION"
    "raw_source p = Some AGENT" "logged (stream w') = logged (stream w) @ [x, stored_form p]"
    using send_awaiting [OF assms(1,2,4-10), of env] by (elim exE conjE) (rule that, assumption+)
  have "confirmation_of (stored_form p) = None"
    using stored_confirmation [OF s(4)] s(6) assms(3) by simp
  then have "performs rt (stored_form p) store" if "\<forall>b. supports rt b" for rt store
    using unmarked_performs [of "stored_form p" b rt store] s(4,5,8) that by simp
  with s show ?thesis by blast
qed

theorem gate_leaks_others_witness:
  "\<exists>w' c' p. send_action demo_env (demo_read\<lparr>raw_source := Some AGENT\<rparr>) (demo_world, demo_in RUNNING None) =
      (Inr (), (w', c')) \<and> agent_state (state c') = AWAITING_USER_CONFIRMATION \<and> pending_action c' = Some p \<and>
     (\<forall>rt store. (\<forall>b. supports rt b) \<longrightarrow> performs rt (stored_form p) store)"
proof -
  let ?a = "FileReadAction ''a.txt'' 0 (-1) [] RISK_HIGH READ_DEFAULT None"
  have "payload (demo_read\<lparr>raw_source := Some AGENT\<rparr>) = Act ?a"
    by (simp add: demo_read_def fresh_event_def)
  then show ?thesis
    using gate_leaks_others [of "demo_read\<lparr>raw_source := Some AGENT\<rparr>" ?a "demo_in RUNNING None"
        demo_world demo_env] demo_needs [of ?a] no_costs
    by (auto simp: runnable_def declares_confirmation_def demo_read_def fresh_event_def risk_of_def)
qed

text \<open>
  C20. The user's answer decides over commands and code cells: it sends the pending action again,
  under a new id, before the change of state; confirmed, every runtime that supports it performs
  it; rejected, the runtime performs nothing and answers that the user rejected it.
\<close>

theorem answer_decides_commands:
  assumes "pending_action c = Some p" and "payload p = Act a" and "runnable a" and "declares_confirmation a"
    and "target = USER_CONFIRMED \<or> target = USER_REJECTED" and "agent_state (state c) \<noteq> target"
  shows "\<exists>w' c' q x. set_agent_state_to env target (w, c) = (Inr (), (w', c')) \<and>
    agent_state (state c') = target \<and> pending_action c' = Some q \<and> event_id q = cur_id (stream w) \<and>
    logged (stream w') = logged (stream w) @ [stored_form q, x] \<and>
    (\<forall>rt store. (\<forall>b. supports rt b) \<longrightarrow>
      (if target = USER_CONFIRMED then performs rt (stored_form q) store
       else runtime_response rt (stored_form q) store = (Some ((fresh_event (Obs (UserRejectObservation
             ''Action has been rejected by the user! Waiting for further user input.'')))
           \<lparr>raw_cause := Some (event_id q), raw_tool_call_metadata := raw_tool_call_metadata q\<rparr>, AGENT), store)))"
proof -
  obtain w' c' q x b where s: "set_agent_state_to env target (w, c) = (Inr (), (w', c'))"
    "agent_state (state c') = target" "pending_action c' = Some q" "payload q = Act b" "runnable b"
    "declares_confirmation b = declares_confirmation a"
    "confirmation_of q = Some (if target = USER_CONFIRMED then CONFIRMED else CONF_REJECTED)"
    "event_id q = cur_id (stream w)" "raw_source q = Some AGENT"
    "logged (stream w') = logged (stream w) @ [stored_form q, x]"
    using answer_resends [OF assms(1-3,5,6), of env w] by (elim exE conjE) (rule that, assumption+)
  have conf: "confirmation_of (stored_form q) = Some (if target = USER_CONFIRMED then CONFIRMED else CONF_REJECTED)"
    using stored_confirmation [OF s(4)] s(6,7) assms(4) by simp
  have id: "event_id (stored_form q) = event_id q" by (simp add: event_id_def)
  have mcp: "\<not> is_mcp (stored_form q)"
    using s(4,6) assms(4) by (auto simp: is_mcp_def declares_confirmation_def split: action.splits)
  have "if target = USER_CONFIRMED then performs rt (stored_form q) store
       else runtime_response rt (stored_form q) store = (Some ((fresh_event (Obs (UserRejectObservation
             ''Action has been rejected by the user! Waiting for further user input.'')))
           \<lparr>raw_cause := Some (event_id q), raw_tool_call_metadata := raw_tool_call_metadata q\<rparr>, AGENT), store)"
    if sup: "\<forall>b. supports rt b" for rt store
  proof (cases "target = USER_CONFIRMED")
    case True
    then show ?thesis
      using unmarked_performs [of "stored_form q" b rt store] s(4,5,9) conf sup by simp
  next
    case False
    then show ?thesis
      using rejected_answered [of "stored_form q" b rt AGENT store] s(4,5,9) conf sup mcp by (simp add: id)
  qed
  with s show ?thesis by blast
qed

theorem answer_decides_commands_witness:
  "\<exists>w' c' q. set_agent_state_to demo_env USER_REJECTED (demo_world, demo_in AWAITING_USER_CONFIRMATION (Some demo_command)) =
      (Inr (), (w', c')) \<and> pending_action c' = Some q \<and>
     (\<forall>rt store. (\<forall>b. supports rt b) \<longrightarrow> fst (runtime_response rt (stored_form q) store) \<noteq> None)"
proof -
  let ?c = "demo_in AWAITING_USER_CONFIRMATION (Some demo_command)"
  have a: "payload demo_command = Act (CmdRunAction ''ls'' False [] False False None False CONFIRMED RISK_HIGH)"
    by (simp add: demo_command_def fresh_event_def)
  show ?thesis
    using answer_decides_commands [of ?c demo_command _ USER_REJECTED demo_env demo_world, OF _ a]
    by (auto simp: runnable_def declares_confirmation_def)
qed

text \<open>
  A rejection has no effect on the other runnable actions: the rejected action is sent again
  under a new id, and every runtime that supports it performs it once more.
\<close>

theorem rejection_ignored_by_others:
  assumes "pending_action c = Some p" and "payload p = Act a" and "runnable a" and "\<not> declares_confirmation a"
    and "agent_state (state c) \<noteq> USER_REJECTED"
  shows "\<exists>w' c' q x. set_agent_state_to env USER_REJECTED (w, c) = (Inr (), (w', c')) \<and>
    confirmation_of q = Some CONF_REJECTED \<and> event_id q = cur_id (stream w) \<and>
    logged (stream w') = logged (stream w) @ [stored_form q, x] \<and>
    (\<forall>rt store. (\<forall>b. supports rt b) \<longrightarrow> performs rt (stored_form q) store)"
proof -
  obtain w' c' q x b where s: "set_agent_state_to env USER_REJECTED (w, c) = (Inr (), (w', c'))"
    "pending_action c' = Some q" "payload q = Act b" "runnable b"
    "declares_confirmation b = declares_confirmation a"
    "confirmation_of q = Some (if USER_REJECTED = USER_CONFIRMED then CONFIRMED else CONF_REJECTED)"
    "event_id q = cur_id (stream w)" "raw_source q = Some AGENT"
    "logged (stream w') = logged (stream w) @ [stored_form q, x]"
    using answer_resends [OF assms(1-3) disjI2 [OF refl] assms(5), of env w]
    by (elim exE conjE) (rule that, assumption+)
  have "confirmation_of (stored_form q) = None"
    using stored_confirmation [OF s(3)] s(5) assms(4) by simp
  then have "performs rt (stored_form q) store" if "\<forall>b. supports rt b" for rt store
    using unmarked_performs [of "stored_form q" b rt store] s(3,4,8) that by simp
  with s show ?thesis by auto
qed

theorem rejection_ignored_by_others_witness:
  "\<exists>w' c' q. set_agent_state_to demo_env USER_REJECTED (demo_world, demo_in AWAITING_USER_CONFIRMATION (Some demo_read)) =
      (Inr (), (w', c')) \<and> confirmation_of q = Some CONF_REJECTED \<and>
     (\<forall>rt store. (\<forall>b. supports rt b) \<longrightarrow> performs rt (stored_form q) store)"
proof -
  have a: "payload demo_read = Act (FileReadAction ''a.txt'' 0 (-1) [] RISK_HIGH READ_DEFAULT None)"
    by (simp add: demo_read_def fresh_event_def)
  show ?thesis
    using rejection_ignored_by_others [of "demo_in AWAITING_USER_CONFIRMATION (Some demo_read)" demo_read _ demo_env demo_world, OF _ a]
    by (auto simp: runnable_def declares_confirmation_def)
qed

section \<open>Observations and messages\<close>

text \<open>
  The observation of the pending action lets the agent go on: it clears the pending action,
  keeps the history, and takes the agent from the user's answer to running (confirmed) or to
  waiting for input (rejected); in every other state the state stays. An observation with another
  cause, or while the user has not answered yet, changes nothing.
\<close>

theorem observation_resumes_agent:
  assumes "pending_action c = Some p"
  shows "if event_cause e = Some (event_id p) \<and> agent_state (state c) \<noteq> AWAITING_USER_CONFIRMATION
    then \<exists>w' c'. handle_observation env e (w, c) = (Inr (), (w', c')) \<and> pending_action c' = None \<and>
      history (state c') = history (state c) \<and>
      agent_state (state c') = (case agent_state (state c) of
          USER_CONFIRMED \<Rightarrow> RUNNING | USER_REJECTED \<Rightarrow> AWAITING_USER_INPUT | s \<Rightarrow> s)
    else handle_observation env e (w, c) = (Inr (), (w, c))"
  using observation_resumes [OF assms, of e env w] observation_ignored [of c e env w] assms by auto

theorem observation_resumes_agent_witness:
  "\<exists>w' c'. handle_observation demo_env ((fresh_event (Obs (SuccessObservation []))) \<lparr>raw_cause := Some (-1)\<rparr>)
      (demo_world, demo_in USER_CONFIRMED (Some demo_command)) = (Inr (), (w', c')) \<and>
     pending_action c' = None \<and> agent_state (state c') = RUNNING"
proof -
  have "event_id demo_command = -1"
    by (simp add: demo_command_def fresh_event_def event_id_def INVALID_ID_def)
  then show ?thesis
    using observation_resumes_agent [of "demo_in USER_CONFIRMED (Some demo_command)" demo_command
        "(fresh_event (Obs (SuccessObservation []))) \<lparr>raw_cause := Some (-1)\<rparr>" demo_env demo_world]
    by auto
qed

text \<open>
  A message of the user sets the agent running behind a recall: a recall action with the
  message's text is pending and is the next event of the log, so the agent is not asked before
  the recall has been answered.
\<close>

theorem user_message_runs_behind_recall:
  assumes "event_source e = Some USER"
  shows "\<exists>w' c' first r rest. handle_message_action env e (w, c) = (Inr (), (w', c')) \<and>
    agent_state (state c') = RUNNING \<and> pending_action c' = Some r \<and>
    payload r = Act (RecallAction (if (case first of Some f \<Rightarrow> event_id e = event_id f | None \<Rightarrow> False)
      then WORKSPACE_CONTEXT else KNOWLEDGE) (a_content (act_of (payload e))) []) \<and>
    raw_source r = Some USER \<and> event_id r = cur_id (stream w) \<and>
    logged (stream w') = logged (stream w) @ stored_form r # rest \<and>
    (\<forall>f d. step (env\<lparr>agent_step := f\<rparr>) (w', Controller c' d) = step env (w', Controller c' d))"
proof -
  obtain w' c' first r rest where s: "handle_message_action env e (w, c) = (Inr (), (w', c'))"
    "agent_state (state c') = RUNNING" "pending_action c' = Some r" "payload r = payload (recall_for e first)"
    "raw_source r = Some USER" "event_id r = cur_id (stream w)"
    "logged (stream w') = logged (stream w) @ stored_form r # rest"
    using user_message_recalls [OF assms, of env w c] by (elim exE conjE) (rule that, assumption+)
  have "\<not> ready w' (Controller c' d)" for d using s(3) by (simp add: ready_def)
  then have "step (env\<lparr>agent_step := f\<rparr>) (w', Controller c' d) = step env (w', Controller c' d)" for f d
    by (rule not_ready_agent)
  with s show ?thesis
    by (intro exI [of _ w'] exI [of _ c'] exI [of _ first] exI [of _ r] exI [of _ rest])
      (simp add: recall_for_def fresh_event_def)
qed

theorem user_message_runs_behind_recall_witness:
  "\<exists>w' c' r. handle_message_action demo_env demo_message (demo_world, demo_in LOADING None) = (Inr (), (w', c')) \<and>
     agent_state (state c') = RUNNING \<and> pending_action c' = Some r \<and> event_id r = 0"
proof -
  have "event_source demo_message = Some USER" by (simp add: demo_message_def)
  from user_message_runs_behind_recall [OF this, of demo_env demo_world "demo_in LOADING None"]
  show ?thesis by (auto simp: cur_id_def demo_world_def empty_log_def)
qed

section \<open>Delegates\<close>

text \<open>
  C27. A delegate that is done is ended by the next event: its parent has no delegate any more and
  shares its flags, and the log gets (after what stopping the delegate sends, at most two events)
  one delegate observation with the delegate's outcome under the tool call of the last delegate
  action in the parent's history. The event that was delivered is dropped: the parent's core is
  unchanged but for the flags, so not even its history has the event.
\<close>

theorem finished_delegate_ended:
  assumes "delegate_of k = Some d" and "\<not> delegate_active (state (core_of d))"
  shows "\<exists>w' k' mid x. on_event env e (w, k) = (Inr (), (w', k')) \<and> delegate_of k' = None \<and>
    core_of k' = share_flags d (core_of k) \<and>
    logged (stream w') = logged (stream w) @ mid @ [x] \<and> length mid \<le> 2 \<and>
    payload x = Obs (AgentDelegateObservation
      (delegate_content env (agent_state (state (core_of d))) (agent_name (core_of d)) (outputs (state (core_of d))))
      (outputs (state (core_of d)))) \<and> raw_source x = Some AGENT \<and>
    raw_tool_call_metadata x = (case find is_delegate_action (rev (history (state (core_of k)))) of
      Some a \<Rightarrow> raw_tool_call_metadata a | None \<Rightarrow> None)"
  by (rule delegate_ended [OF assms])

lemma new_state_error [simp]: "last_error new_state = []"
  by (simp add: new_state_def)

lemma demo_in_error [simp]: "last_error (state (demo_in st p)) = []"
  by (simp add: demo_in_def demo_core_def)

theorem finished_delegate_ended_witness:
  "\<exists>w' k'. on_event demo_env demo_message
      (demo_world, Controller demo_core (Some (Controller (demo_in FINISHED None) None))) = (Inr (), (w', k')) \<and>
     delegate_of k' = None \<and> logged (stream w') \<noteq> []"
proof -
  have "\<not> delegate_active (state (core_of (Controller (demo_in FINISHED None) None)))"
    by (simp add: delegate_active_def)
  from finished_delegate_ended [of "Controller demo_core (Some (Controller (demo_in FINISHED None) None))", OF _ this,
      of demo_env demo_message demo_world]
  show ?thesis by auto
qed

text \<open>
  A delegate stopped by its iteration limit still counts as active and is never ended, one
  stopped by its budget is not active: of the two texts that are looked for in its last error,
  the second lacks the blank the error has after its class name, so it never occurs.
\<close>

theorem stopped_delegate_activity:
  assumes "agent_state s = ERROR"
  shows "(last_error s = ''RuntimeError: '' @ iteration_limit_text f \<longrightarrow> delegate_active s) \<and>
    (last_error s = ''RuntimeError: '' @ budget_limit_text b \<longrightarrow> \<not> delegate_active s)"
  using iteration_stop_active [of f] budget_stop_inactive [of b] assms by (simp add: delegate_active_def)

theorem stopped_delegate_activity_witness:
  "delegate_active (new_state\<lparr>agent_state := ERROR,
      last_error := ''RuntimeError: '' @ iteration_limit_text (new_iteration_flag 3)\<rparr>) \<and>
   \<not> delegate_active (new_state\<lparr>agent_state := ERROR,
      last_error := ''RuntimeError: '' @ budget_limit_text (new_budget_flag 5)\<rparr>)"
  using stopped_delegate_activity [of "new_state\<lparr>agent_state := ERROR,
      last_error := ''RuntimeError: '' @ iteration_limit_text (new_iteration_flag 3)\<rparr>" "new_iteration_flag 3"]
    stopped_delegate_activity [of "new_state\<lparr>agent_state := ERROR,
      last_error := ''RuntimeError: '' @ budget_limit_text (new_budget_flag 5)\<rparr>" _ "new_budget_flag 5"]
  by simp

text \<open>
  C28. A delegate's delegate is starved: while the delegate of the root is active and has itself a
  delegate, an event that starts no delegation leaves that second delegate as it was, but for the
  iteration and budget flags, which it and its own delegates share with its parent: its state,
  history, pending action and everything else stay, so the events it waits for never reach it and it
  never receives the task it was created for.
\<close>

theorem nested_delegate_starved:
  assumes "delegate_of k = Some d" and "delegate_active (state (core_of d))" and "delegate_of d = Some g"
    and "\<not> is_delegate_action e" and "on_event env e (w, k) = (r, (w', k'))"
  shows "\<exists>d' g'. delegate_of k' = Some d' \<and> delegate_of d' = Some g' \<and>
    g' \<in> {g, push_flags (state (core_of d')) g}"
  by (rule grandchild_starved [OF assms])

theorem nested_delegate_starved_witness:
  "\<exists>r w' k' d' g'. on_event demo_env demo_message (demo_world, Controller demo_core
      (Some (Controller (demo_in RUNNING None) (Some (Controller (demo_in LOADING None) None))))) = (r, (w', k')) \<and>
     delegate_of k' = Some d' \<and> delegate_of d' = Some g' \<and>
     agent_state (state (core_of g')) = LOADING \<and> history (state (core_of g')) = []"
proof -
  let ?g = "Controller (demo_in LOADING None) None"
  let ?d = "Controller (demo_in RUNNING None) (Some ?g)"
  let ?k = "Controller demo_core (Some ?d)"
  obtain r w' k' where on: "on_event demo_env demo_message (demo_world, ?k) = (r, (w', k'))"
    by (cases "on_event demo_env demo_message (demo_world, ?k)") auto
  have "delegate_active (state (core_of ?d))" "\<not> is_delegate_action demo_message"
    by (simp_all add: delegate_active_def demo_message_def fresh_event_def is_delegate_action_def)
  from nested_delegate_starved [of ?k ?d ?g, OF _ this(1) _ this(2) on] on show ?thesis by auto
qed

text \<open>
  Delegating to an agent that is not registered stops the conversation silently: the exception
  leaves the callback, nothing goes to the log, and the controller has no delegate, no error and
  the same state as before, with only the delegate action in its history.
\<close>

theorem unknown_delegate_silent:
  assumes "payload e = Act (AgentDelegateAction name ins th)" and "delegate_of k = None"
    and "\<And>cfg. get_cls env name cfg = Inl x"
  shows "on_event env e (w, k) =
    (Inl x, (w, Controller ((core_of k)\<lparr>state := add_history e (state (core_of k))\<rparr>) None)) \<and>
    agent_state (add_history e (state (core_of k))) = agent_state (state (core_of k)) \<and>
    last_error (add_history e (state (core_of k))) = last_error (state (core_of k))"
  using unknown_delegate [OF assms] by (simp add: add_history_def)

theorem unknown_delegate_silent_witness:
  "\<exists>k'. on_event demo_env (fresh_event (Act (AgentDelegateAction ''nobody'' [] [])))
      (demo_world, Controller (demo_in RUNNING None) None) = (Inl (KeyError ''nobody''), (demo_world, k'))"
proof -
  have "payload (fresh_event (Act (AgentDelegateAction ''nobody'' [] []))) = Act (AgentDelegateAction ''nobody'' [] [])"
    by (simp add: fresh_event_def)
  from unknown_delegate_silent [OF this, of "Controller (demo_in RUNNING None) None" demo_env "KeyError ''nobody''" demo_world]
  show ?thesis by (simp add: demo_env_def)
qed

section \<open>Loop recovery\<close>

text \<open>
  C29. Loop recovery cuts the history before the loop, and for good: the operation returns with the
  agent waiting for input and the history cut at the loop's start. If anything is left, a
  controller that is later built from the saved state shows no event newer than the last one left,
  however much has been added to the log since.
\<close>

theorem recovery_cuts_for_good:
  assumes "0 \<le> loop_start_idx a" and "loop_start_idx a < int (length (history (state c)))"
  shows "\<exists>w' c'. perform_loop_recovery env a (w, c) = (Inr (), (w', c')) \<and>
    agent_state (state c') = AWAITING_USER_INPUT \<and>
    history (state c') = take (nat (loop_start_idx a)) (history (state c)) \<and>
    (0 < loop_start_idx a \<and> 0 \<le> event_id (history (state c) ! (nat (loop_start_idx a) - 1)) \<longrightarrow>
      (\<forall>replays args later. \<forall>e \<in> set (history (state (init_controller env (Some (restored (state c'))) replays args later))).
         event_id e \<le> event_id (history (state c) ! (nat (loop_start_idx a) - 1))))"
proof -
  obtain w' c' where r: "perform_loop_recovery env a (w, c) = (Inr (), (w', c'))"
    "agent_state (state c') = AWAITING_USER_INPUT"
    "history (state c') = take (nat (loop_start_idx a)) (history (state c))"
    "end_id (state c') = (if loop_start_idx a = 0 then -1
      else event_id (history (state c) ! (nat (loop_start_idx a) - 1)))"
    using recovery_truncates [OF assms, of env w] by blast
  have "event_id e \<le> event_id (history (state c) ! (nat (loop_start_idx a) - 1))"
    if "0 < loop_start_idx a" "0 \<le> event_id (history (state c) ! (nat (loop_start_idx a) - 1))"
      "e \<in> set (history (state (init_controller env (Some (restored (state c'))) replays args later)))"
    for replays args later e
    using restart_bounded [OF _ that(3)] r(4) that(1,2) by simp
  with r(1-3) show ?thesis by blast
qed

theorem recovery_cuts_for_good_witness:
  "\<exists>w' c'. perform_loop_recovery demo_env \<lparr>loop_type = ''monologue'', loop_repeat_times = 3, loop_start_idx = 1\<rparr>
      (demo_world, demo_core\<lparr>state := (state demo_core)\<lparr>history := [demo_message\<lparr>raw_id := Some 0\<rparr>, demo_command]\<rparr>\<rparr>) =
      (Inr (), (w', c')) \<and> history (state c') = [demo_message\<lparr>raw_id := Some 0\<rparr>] \<and>
     (\<forall>later. \<forall>e \<in> set (history (state (init_controller demo_env (Some (restored (state c'))) None demo_core later))).
        event_id e \<le> 0)"
  using recovery_cuts_for_good [of "\<lparr>loop_type = ''monologue'', loop_repeat_times = 3, loop_start_idx = 1\<rparr>"
      "demo_core\<lparr>state := (state demo_core)\<lparr>history := [demo_message\<lparr>raw_id := Some 0\<rparr>, demo_command]\<rparr>\<rparr>"
      demo_env demo_world]
  by (auto simp: event_id_def)

end
