(* ===== verification/Serialization.thy ===== *)
theory Serialization
  imports Event_Log
begin

text \<open>
  Events as dictionaries (\<open>openhands/events/serialization\<close>): \<open>event_to_dict\<close>, \<open>event_from_dict\<close> and
  the constructors they go through, with the defaults and the deprecated keys of the sources, and
  the \<open>message\<close> of each class. \<open>json.dumps\<close> followed by \<open>json.loads\<close> is the identity on these
  dictionaries.

  A dataclass keeps an argument of another type than the declared one as it is, and pydantic
  has rules of its own for converting values. Neither gives an event of this model: decoding such
  a dictionary is \<open>Outside\<close>, as opposed to an exception the sources raise. The texts of
  exceptions that print a dictionary are shortened.
\<close>

section \<open>Decoding\<close>

datatype decode_failure = Raised exn | Outside

type_synonym 'a decoded = "decode_failure + 'a"

definition bindD :: "'a decoded \<Rightarrow> ('a \<Rightarrow> 'b decoded) \<Rightarrow> 'b decoded" where
  "bindD m f = (case m of Inl x \<Rightarrow> Inl x | Inr y \<Rightarrow> f y)"

lemma bindD_simps [simp]:
  "bindD (Inl x) f = Inl x"
  "bindD (Inr y) f = f y"
  by (simp_all add: bindD_def)

lemma bindD_Inr_iff: "bindD m f = Inr y \<longleftrightarrow> (\<exists>x. m = Inr x \<and> f x = Inr y)"
  by (cases m) simp_all

fun traverse :: "('a \<Rightarrow> 'b decoded) \<Rightarrow> 'a list \<Rightarrow> 'b list decoded" where
  "traverse f [] = Inr []"
| "traverse f (x # xs) = bindD (f x) (\<lambda>y. bindD (traverse f xs) (\<lambda>ys. Inr (y # ys)))"

lemma traverse_map: "(\<And>x. x \<in> set xs \<Longrightarrow> f (g x) = Inr x) \<Longrightarrow> traverse f (map g xs) = Inr xs"
  by (induction xs) simp_all

fun dstr :: "json \<Rightarrow> string decoded" where
  "dstr (JStr s) = Inr s"
| "dstr _ = Inl Outside"

fun dbool :: "json \<Rightarrow> bool decoded" where
  "dbool (JBool b) = Inr b"
| "dbool _ = Inl Outside"

fun dint :: "json \<Rightarrow> int decoded" where
  "dint (JInt i) = Inr i"
| "dint _ = Inl Outside"

fun dnum :: "json \<Rightarrow> rat decoded" where
  "dnum (JInt i) = Inr (of_int i)"
| "dnum (JFloat q) = Inr q"
| "dnum _ = Inl Outside"

fun ddict :: "json \<Rightarrow> json_dict decoded" where
  "ddict (JDict d) = Inr d"
| "ddict _ = Inl Outside"

fun dlist :: "(json \<Rightarrow> 'a decoded) \<Rightarrow> json \<Rightarrow> 'a list decoded" where
  "dlist f (JList xs) = traverse f xs"
| "dlist f _ = Inl Outside"

definition dopt :: "(json \<Rightarrow> 'a decoded) \<Rightarrow> json \<Rightarrow> 'a option decoded" where
  "dopt f v = (if v = JNull then Inr None else bindD (f v) (\<lambda>x. Inr (Some x)))"

definition dvalues :: "(json \<Rightarrow> 'a decoded) \<Rightarrow> json \<Rightarrow> (string \<times> 'a) list decoded" where
  "dvalues f v = bindD (ddict v) (traverse (\<lambda>(k, w). bindD (f w) (\<lambda>x. Inr (k, x))))"

definition enc_opt :: "('a \<Rightarrow> json) \<Rightarrow> 'a option \<Rightarrow> json" where
  "enc_opt f x = (case x of None \<Rightarrow> JNull | Some y \<Rightarrow> f y)"

lemma dopt_enc [simp]:
  assumes "\<And>y. x = Some y \<Longrightarrow> f (g y) = Inr y \<and> g y \<noteq> JNull"
  shows "dopt f (enc_opt g x) = Inr x"
  using assms by (cases x) (simp_all add: dopt_def enc_opt_def)

lemma dlist_map [simp]:
  "(\<And>x. x \<in> set xs \<Longrightarrow> f (g x) = Inr x) \<Longrightarrow> dlist f (JList (map g xs)) = Inr xs"
  by (simp add: traverse_map)

lemma dlist_Inr [simp]: "dlist Inr (JList xs) = Inr xs"
  using traverse_map [of xs Inr "\<lambda>x. x"] by simp

lemma dvalues_map [simp]:
  assumes "\<And>k x. (k, x) \<in> set xs \<Longrightarrow> f (g x) = Inr x"
  shows "dvalues f (JDict (map (\<lambda>(k, x). (k, g x)) xs)) = Inr xs"
  using assms by (auto simp: dvalues_def intro!: traverse_map)

text \<open>An enumeration: the member whose value is the given string.\<close>

definition denum :: "('a \<Rightarrow> string) \<Rightarrow> 'a list \<Rightarrow> json \<Rightarrow> 'a option" where
  "denum value members v = find (\<lambda>x. v = JStr (value x)) members"

text \<open>A dataclass field that is declared as an enumeration but not converted: the string is kept,
  and equals the member.\<close>

definition kept_enum :: "('a \<Rightarrow> string) \<Rightarrow> 'a list \<Rightarrow> json \<Rightarrow> 'a decoded" where
  "kept_enum value members v =
     (case denum value members v of Some x \<Rightarrow> Inr x | None \<Rightarrow> Inl Outside)"

text \<open>Arguments of a constructor.\<close>

definition arg :: "json_dict \<Rightarrow> string \<Rightarrow> (json \<Rightarrow> 'a decoded) \<Rightarrow> 'a decoded" where
  "arg d k f = (case map_of d k of None \<Rightarrow> Inl (Raised (TypeError ''missing argument'')) | Some v \<Rightarrow> f v)"

definition opt :: "json_dict \<Rightarrow> string \<Rightarrow> 'a \<Rightarrow> (json \<Rightarrow> 'a decoded) \<Rightarrow> 'a decoded" where
  "opt d k x f = (case map_of d k of None \<Rightarrow> Inr x | Some v \<Rightarrow> f v)"

text \<open>The call of a constructor with keyword arguments: missing and unknown ones first. The field
  \<open>tag\<close> holds the name of the class and may be given too.\<close>

definition construct ::
  "string \<times> string \<Rightarrow> string list \<Rightarrow> string list \<Rightarrow> json_dict \<Rightarrow> 'a decoded \<Rightarrow> 'a decoded" where
  "construct tag required optional d body =
     (if \<not> set required \<subseteq> fst ` set d then Inl (Raised (TypeError ''missing argument''))
      else if \<not> fst ` set d \<subseteq> set (fst tag # required @ optional)
      then Inl (Raised (TypeError ''unexpected keyword argument''))
      else if map_of d (fst tag) \<noteq> None \<and> map_of d (fst tag) \<noteq> Some (JStr (snd tag))
      then Inl Outside
      else body)"

section \<open>Enumerations\<close>

fun agent_state_value :: "agent_state \<Rightarrow> string" where
  "agent_state_value LOADING = ''loading''"
| "agent_state_value RUNNING = ''running''"
| "agent_state_value AWAITING_USER_INPUT = ''awaiting_user_input''"
| "agent_state_value PAUSED = ''paused''"
| "agent_state_value STOPPED = ''stopped''"
| "agent_state_value FINISHED = ''finished''"
| "agent_state_value REJECTED = ''rejected''"
| "agent_state_value ERROR = ''error''"
| "agent_state_value AWAITING_USER_CONFIRMATION = ''awaiting_user_confirmation''"
| "agent_state_value USER_CONFIRMED = ''user_confirmed''"
| "agent_state_value USER_REJECTED = ''user_rejected''"
| "agent_state_value RATE_LIMITED = ''rate_limited''"

definition agent_states :: "agent_state list" where
  "agent_states = [LOADING, RUNNING, AWAITING_USER_INPUT, PAUSED, STOPPED, FINISHED, REJECTED, ERROR,
     AWAITING_USER_CONFIRMATION, USER_CONFIRMED, USER_REJECTED, RATE_LIMITED]"

fun edit_source_value :: "file_edit_source \<Rightarrow> string" where
  "edit_source_value LLM_BASED_EDIT = ''llm_based_edit''"
| "edit_source_value EDIT_OH_ACI = ''oh_aci''"

fun read_source_value :: "file_read_source \<Rightarrow> string" where
  "read_source_value READ_OH_ACI = ''oh_aci''"
| "read_source_value READ_DEFAULT = ''default''"

fun recall_value :: "recall_type \<Rightarrow> string" where
  "recall_value WORKSPACE_CONTEXT = ''workspace_context''"
| "recall_value KNOWLEDGE = ''knowledge''"

fun confirmation_value :: "confirmation_status \<Rightarrow> string" where
  "confirmation_value CONFIRMED = ''confirmed''"
| "confirmation_value CONF_REJECTED = ''rejected''"
| "confirmation_value AWAITING_CONFIRMATION = ''awaiting_confirmation''"

definition dstate :: "json \<Rightarrow> agent_state decoded" where
  "dstate = kept_enum agent_state_value agent_states"

definition dedit :: "json \<Rightarrow> file_edit_source decoded" where
  "dedit = kept_enum edit_source_value [LLM_BASED_EDIT, EDIT_OH_ACI]"

definition dread :: "json \<Rightarrow> file_read_source decoded" where
  "dread = kept_enum read_source_value [READ_OH_ACI, READ_DEFAULT]"

definition drecall :: "json \<Rightarrow> recall_type decoded" where
  "drecall = kept_enum recall_value [WORKSPACE_CONTEXT, KNOWLEDGE]"

definition dconfirm :: "json \<Rightarrow> confirmation_status decoded" where
  "dconfirm = kept_enum confirmation_value [CONFIRMED, CONF_REJECTED, AWAITING_CONFIRMATION]"

lemmas enum_defs = kept_enum_def denum_def dstate_def agent_states_def dedit_def dread_def
  drecall_def dconfirm_def

lemma dstate_value [simp]: "dstate (JStr (agent_state_value s)) = Inr s"
  by (cases s) (simp_all add: enum_defs)

lemma dedit_value [simp]: "dedit (JStr (edit_source_value e)) = Inr e"
  by (cases e) (simp_all add: enum_defs)

lemma dread_value [simp]: "dread (JStr (read_source_value r)) = Inr r"
  by (cases r) (simp_all add: enum_defs)

lemma drecall_value [simp]: "drecall (JStr (recall_value t)) = Inr t"
  by (cases t) (simp_all add: enum_defs)

lemma dconfirm_value [simp]: "dconfirm (JStr (confirmation_value c)) = Inr c"
  by (cases c) (simp_all add: enum_defs)

text \<open>\<open>ActionSecurityRisk(v)\<close>: any number equal to a member's value.\<close>

definition risks :: "security_risk list" where
  "risks = [RISK_UNKNOWN, RISK_LOW, RISK_MEDIUM, RISK_HIGH]"

definition convert_risk :: "json \<Rightarrow> security_risk option" where
  "convert_risk v = find (\<lambda>r. json_number v = Some (of_int (risk_value r))) risks"

lemma convert_risk_value [simp]: "convert_risk (JInt (risk_value r)) = Some r"
  by (cases r) (simp_all add: convert_risk_def risks_def)

text \<open>The argument of the constructor after that conversion: a number stands for the member.\<close>

definition drisk :: "json \<Rightarrow> security_risk decoded" where
  "drisk v = (case convert_risk v of Some r \<Rightarrow> Inr r | None \<Rightarrow> Inl Outside)"

lemma drisk_value [simp]: "drisk (JInt (risk_value r)) = Inr r"
  by (simp add: drisk_def)

section \<open>Actions\<close>

text \<open>The class attribute \<open>action\<close>.\<close>

fun action_type :: "action \<Rightarrow> string" where
  "action_type NullAction = ''null''"
| "action_type (CmdRunAction _ _ _ _ _ _ _ _ _) = ''run''"
| "action_type (IPythonRunCellAction _ _ _ _ _ _) = ''run_ipython''"
| "action_type (BrowseURLAction _ _ _ _) = ''browse''"
| "action_type (BrowseInteractiveAction _ _ _ _ _) = ''browse_interactive''"
| "action_type (FileReadAction _ _ _ _ _ _ _) = ''read''"
| "action_type (FileWriteAction _ _ _ _ _ _) = ''write''"
| "action_type (FileEditAction _ _ _ _ _ _ _ _ _ _ _ _) = ''edit''"
| "action_type (AgentThinkAction _) = ''think''"
| "action_type (AgentFinishAction _ _ _) = ''finish''"
| "action_type (AgentRejectAction _ _) = ''reject''"
| "action_type (AgentDelegateAction _ _ _) = ''delegate''"
| "action_type (RecallAction _ _ _) = ''recall''"
| "action_type (ChangeAgentStateAction _ _) = ''change_agent_state''"
| "action_type (MessageAction _ _ _ _ _) = ''message''"
| "action_type (SystemMessageAction _ _ _ _) = ''system''"
| "action_type (CondensationAction _ _ _ _ _) = ''condensation''"
| "action_type CondensationRequestAction = ''condensation_request''"
| "action_type (MCPAction _ _ _ _) = ''call_tool_mcp''"
| "action_type (TaskTrackingAction _ _ _) = ''task_tracking''"
| "action_type (LoopRecoveryAction _) = ''loop_recovery''"

abbreviation strings :: "string list \<Rightarrow> json" where
  "strings xs \<equiv> JList (map JStr xs)"

abbreviation ints :: "int list \<Rightarrow> json" where
  "ints xs \<equiv> JList (map JInt xs)"

text \<open>The dictionary \<open>args\<close>: the fields in their order, enumerations by value.\<close>

fun action_args :: "action \<Rightarrow> json_dict" where
  "action_args NullAction = []"
| "action_args (CmdRunAction c i t b s w h f r) =
     [(''command'', JStr c), (''is_input'', JBool i), (''thought'', JStr t), (''blocking'', JBool b),
      (''is_static'', JBool s), (''cwd'', enc_opt JStr w), (''hidden'', JBool h),
      (''confirmation_state'', JStr (confirmation_value f)), (''security_risk'', JInt (risk_value r))]"
| "action_args (IPythonRunCellAction c t x f r k) =
     [(''code'', JStr c), (''thought'', JStr t), (''include_extra'', JBool x),
      (''confirmation_state'', JStr (confirmation_value f)), (''security_risk'', JInt (risk_value r)),
      (''kernel_init_code'', JStr k)]"
| "action_args (BrowseURLAction u t r x) =
     [(''url'', JStr u), (''thought'', JStr t), (''security_risk'', JInt (risk_value r)),
      (''return_axtree'', JBool x)]"
| "action_args (BrowseInteractiveAction b t m r x) =
     [(''browser_actions'', JStr b), (''thought'', JStr t), (''browsergym_send_msg_to_user'', JStr m),
      (''security_risk'', JInt (risk_value r)), (''return_axtree'', JBool x)]"
| "action_args (FileReadAction p s e t r i v) =
     [(''path'', JStr p), (''start'', JInt s), (''end'', JInt e), (''thought'', JStr t),
      (''security_risk'', JInt (risk_value r)), (''impl_source'', JStr (read_source_value i)),
      (''view_range'', enc_opt ints v)]"
| "action_args (FileWriteAction p c s e t r) =
     [(''path'', JStr p), (''content'', JStr c), (''start'', JInt s), (''end'', JInt e),
      (''thought'', JStr t), (''security_risk'', JInt (risk_value r))]"
| "action_args (FileEditAction p c ft os ns il x s e t r i) =
     [(''path'', JStr p), (''command'', JStr c), (''file_text'', enc_opt JStr ft),
      (''old_str'', enc_opt JStr os), (''new_str'', enc_opt JStr ns), (''insert_line'', enc_opt JInt il),
      (''content'', JStr x), (''start'', JInt s), (''end'', JInt e), (''thought'', JStr t),
      (''security_risk'', JInt (risk_value r)), (''impl_source'', JStr (edit_source_value i))]"
| "action_args (AgentThinkAction t) = [(''thought'', JStr t)]"
| "action_args (AgentFinishAction f x t) =
     [(''final_thought'', JStr f), (''outputs'', JDict x), (''thought'', JStr t)]"
| "action_args (AgentRejectAction x t) = [(''outputs'', JDict x), (''thought'', JStr t)]"
| "action_args (AgentDelegateAction g x t) =
     [(''agent'', JStr g), (''inputs'', JDict x), (''thought'', JStr t)]"
| "action_args (RecallAction y q t) =
     [(''recall_type'', JStr (recall_value y)), (''query'', JStr q), (''thought'', JStr t)]"
| "action_args (ChangeAgentStateAction s t) =
     [(''agent_state'', JStr (agent_state_value s)), (''thought'', JStr t)]"
| "action_args (MessageAction c f i w r) =
     [(''content'', JStr c), (''file_urls'', enc_opt strings f), (''image_urls'', enc_opt strings i),
      (''wait_for_response'', JBool w), (''security_risk'', JInt (risk_value r))]"
| "action_args (SystemMessageAction c ts v g) =
     [(''content'', JStr c), (''tools'', enc_opt JList ts), (''openhands_version'', enc_opt JStr v),
      (''agent_class'', enc_opt JStr g)]"
| "action_args (CondensationAction is s e m off) =
     [(''forgotten_event_ids'', enc_opt ints is), (''forgotten_events_start_id'', enc_opt JInt s),
      (''forgotten_events_end_id'', enc_opt JInt e), (''summary'', enc_opt JStr m),
      (''summary_offset'', enc_opt JInt off)]"
| "action_args CondensationRequestAction = []"
| "action_args (MCPAction n x t r) =
     [(''name'', JStr n), (''arguments'', JDict x), (''thought'', JStr t),
      (''security_risk'', JInt (risk_value r))]"
| "action_args (TaskTrackingAction c l t) =
     [(''command'', JStr c), (''task_list'', JList l), (''thought'', JStr t)]"
| "action_args (LoopRecoveryAction n) = [(''option'', JInt n)]"

text \<open>The constructors. \<open>version\<close> is the default of \<open>openhands_version\<close>.\<close>

definition make_null :: "json_dict \<Rightarrow> action decoded" where
  "make_null d = construct (''action'', ''null'') [] [] d (Inr NullAction)"

definition make_run :: "json_dict \<Rightarrow> action decoded" where
  "make_run d =
     construct (''action'', ''run'') [''command'']
       [''is_input'', ''thought'', ''blocking'', ''is_static'', ''cwd'', ''hidden'',
        ''confirmation_state'', ''security_risk''] d
     (bindD (arg d ''command'' dstr) (\<lambda>c. bindD (opt d ''is_input'' False dbool) (\<lambda>i.
      bindD (opt d ''thought'' [] dstr) (\<lambda>t. bindD (opt d ''blocking'' False dbool) (\<lambda>b.
      bindD (opt d ''is_static'' False dbool) (\<lambda>s. bindD (opt d ''cwd'' None (dopt dstr)) (\<lambda>w.
      bindD (opt d ''hidden'' False dbool) (\<lambda>h.
      bindD (opt d ''confirmation_state'' CONFIRMED dconfirm) (\<lambda>f.
      bindD (opt d ''security_risk'' RISK_UNKNOWN drisk) (\<lambda>r.
      Inr (CmdRunAction c i t b s w h f r)))))))))))"

definition make_run_ipython :: "json_dict \<Rightarrow> action decoded" where
  "make_run_ipython d =
     construct (''action'', ''run_ipython'') [''code'']
       [''thought'', ''include_extra'', ''confirmation_state'', ''security_risk'', ''kernel_init_code''] d
     (bindD (arg d ''code'' dstr) (\<lambda>c. bindD (opt d ''thought'' [] dstr) (\<lambda>t.
      bindD (opt d ''include_extra'' True dbool) (\<lambda>x.
      bindD (opt d ''confirmation_state'' CONFIRMED dconfirm) (\<lambda>f.
      bindD (opt d ''security_risk'' RISK_UNKNOWN drisk) (\<lambda>r.
      bindD (opt d ''kernel_init_code'' [] dstr) (\<lambda>k.
      Inr (IPythonRunCellAction c t x f r k))))))))"

definition make_browse :: "json_dict \<Rightarrow> action decoded" where
  "make_browse d =
     construct (''action'', ''browse'') [''url''] [''thought'', ''security_risk'', ''return_axtree''] d
     (bindD (arg d ''url'' dstr) (\<lambda>u. bindD (opt d ''thought'' [] dstr) (\<lambda>t.
      bindD (opt d ''security_risk'' RISK_UNKNOWN drisk) (\<lambda>r.
      bindD (opt d ''return_axtree'' False dbool) (\<lambda>x. Inr (BrowseURLAction u t r x))))))"

definition make_browse_interactive :: "json_dict \<Rightarrow> action decoded" where
  "make_browse_interactive d =
     construct (''action'', ''browse_interactive'') [''browser_actions'']
       [''thought'', ''browsergym_send_msg_to_user'', ''security_risk'', ''return_axtree''] d
     (bindD (arg d ''browser_actions'' dstr) (\<lambda>b. bindD (opt d ''thought'' [] dstr) (\<lambda>t.
      bindD (opt d ''browsergym_send_msg_to_user'' [] dstr) (\<lambda>m.
      bindD (opt d ''security_risk'' RISK_UNKNOWN drisk) (\<lambda>r.
      bindD (opt d ''return_axtree'' False dbool) (\<lambda>x. Inr (BrowseInteractiveAction b t m r x)))))))"

definition make_read :: "json_dict \<Rightarrow> action decoded" where
  "make_read d =
     construct (''action'', ''read'') [''path'']
       [''start'', ''end'', ''thought'', ''security_risk'', ''impl_source'', ''view_range''] d
     (bindD (arg d ''path'' dstr) (\<lambda>p. bindD (opt d ''start'' 0 dint) (\<lambda>s.
      bindD (opt d ''end'' (-1) dint) (\<lambda>e. bindD (opt d ''thought'' [] dstr) (\<lambda>t.
      bindD (opt d ''security_risk'' RISK_UNKNOWN drisk) (\<lambda>r.
      bindD (opt d ''impl_source'' READ_DEFAULT dread) (\<lambda>i.
      bindD (opt d ''view_range'' None (dopt (dlist dint))) (\<lambda>v.
      Inr (FileReadAction p s e t r i v)))))))))"

definition make_write :: "json_dict \<Rightarrow> action decoded" where
  "make_write d =
     construct (''action'', ''write'') [''path'', ''content'']
       [''start'', ''end'', ''thought'', ''security_risk''] d
     (bindD (arg d ''path'' dstr) (\<lambda>p. bindD (arg d ''content'' dstr) (\<lambda>c.
      bindD (opt d ''start'' 0 dint) (\<lambda>s. bindD (opt d ''end'' (-1) dint) (\<lambda>e.
      bindD (opt d ''thought'' [] dstr) (\<lambda>t.
      bindD (opt d ''security_risk'' RISK_UNKNOWN drisk) (\<lambda>r. Inr (FileWriteAction p c s e t r))))))))"

definition make_edit :: "json_dict \<Rightarrow> action decoded" where
  "make_edit d =
     construct (''action'', ''edit'') [''path'']
       [''command'', ''file_text'', ''old_str'', ''new_str'', ''insert_line'', ''content'', ''start'',
        ''end'', ''thought'', ''security_risk'', ''impl_source''] d
     (bindD (arg d ''path'' dstr) (\<lambda>p. bindD (opt d ''command'' [] dstr) (\<lambda>c.
      bindD (opt d ''file_text'' None (dopt dstr)) (\<lambda>ft.
      bindD (opt d ''old_str'' None (dopt dstr)) (\<lambda>os.
      bindD (opt d ''new_str'' None (dopt dstr)) (\<lambda>ns.
      bindD (opt d ''insert_line'' None (dopt dint)) (\<lambda>il.
      bindD (opt d ''content'' [] dstr) (\<lambda>x. bindD (opt d ''start'' 1 dint) (\<lambda>s.
      bindD (opt d ''end'' (-1) dint) (\<lambda>e. bindD (opt d ''thought'' [] dstr) (\<lambda>t.
      bindD (opt d ''security_risk'' RISK_UNKNOWN drisk) (\<lambda>r.
      bindD (opt d ''impl_source'' EDIT_OH_ACI dedit) (\<lambda>i.
      Inr (FileEditAction p c ft os ns il x s e t r i))))))))))))))"

definition make_think :: "json_dict \<Rightarrow> action decoded" where
  "make_think d = construct (''action'', ''think'') [] [''thought''] d
     (bindD (opt d ''thought'' [] dstr) (\<lambda>t. Inr (AgentThinkAction t)))"

definition make_finish :: "json_dict \<Rightarrow> action decoded" where
  "make_finish d =
     construct (''action'', ''finish'') [] [''final_thought'', ''outputs'', ''thought''] d
     (bindD (opt d ''final_thought'' [] dstr) (\<lambda>f. bindD (opt d ''outputs'' [] ddict) (\<lambda>x.
      bindD (opt d ''thought'' [] dstr) (\<lambda>t. Inr (AgentFinishAction f x t)))))"

definition make_reject :: "json_dict \<Rightarrow> action decoded" where
  "make_reject d =
     construct (''action'', ''reject'') [] [''outputs'', ''thought''] d
     (bindD (opt d ''outputs'' [] ddict) (\<lambda>x. bindD (opt d ''thought'' [] dstr) (\<lambda>t.
      Inr (AgentRejectAction x t))))"

definition make_delegate :: "json_dict \<Rightarrow> action decoded" where
  "make_delegate d =
     construct (''action'', ''delegate'') [''agent'', ''inputs''] [''thought''] d
     (bindD (arg d ''agent'' dstr) (\<lambda>g. bindD (arg d ''inputs'' ddict) (\<lambda>x.
      bindD (opt d ''thought'' [] dstr) (\<lambda>t. Inr (AgentDelegateAction g x t)))))"

definition make_recall :: "json_dict \<Rightarrow> action decoded" where
  "make_recall d =
     construct (''action'', ''recall'') [''recall_type''] [''query'', ''thought''] d
     (bindD (arg d ''recall_type'' drecall) (\<lambda>y. bindD (opt d ''query'' [] dstr) (\<lambda>q.
      bindD (opt d ''thought'' [] dstr) (\<lambda>t. Inr (RecallAction y q t)))))"

definition make_change_agent_state :: "json_dict \<Rightarrow> action decoded" where
  "make_change_agent_state d =
     construct (''action'', ''change_agent_state'') [''agent_state''] [''thought''] d
     (bindD (arg d ''agent_state'' dstate) (\<lambda>s. bindD (opt d ''thought'' [] dstr) (\<lambda>t.
      Inr (ChangeAgentStateAction s t))))"

definition make_message :: "json_dict \<Rightarrow> action decoded" where
  "make_message d =
     construct (''action'', ''message'') [''content'']
       [''file_urls'', ''image_urls'', ''wait_for_response'', ''security_risk''] d
     (bindD (arg d ''content'' dstr) (\<lambda>c. bindD (opt d ''file_urls'' None (dopt (dlist dstr))) (\<lambda>f.
      bindD (opt d ''image_urls'' None (dopt (dlist dstr))) (\<lambda>i.
      bindD (opt d ''wait_for_response'' False dbool) (\<lambda>w.
      bindD (opt d ''security_risk'' RISK_UNKNOWN drisk) (\<lambda>r. Inr (MessageAction c f i w r)))))))"

definition make_system :: "string \<Rightarrow> json_dict \<Rightarrow> action decoded" where
  "make_system version d =
     construct (''action'', ''system'') [''content''] [''tools'', ''openhands_version'', ''agent_class''] d
     (bindD (arg d ''content'' dstr) (\<lambda>c. bindD (opt d ''tools'' None (dopt (dlist Inr))) (\<lambda>ts.
      bindD (opt d ''openhands_version'' (Some version) (dopt dstr)) (\<lambda>v.
      bindD (opt d ''agent_class'' None (dopt dstr)) (\<lambda>g. Inr (SystemMessageAction c ts v g))))))"

definition make_condensation :: "json_dict \<Rightarrow> action decoded" where
  "make_condensation d =
     construct (''action'', ''condensation'') []
       [''forgotten_event_ids'', ''forgotten_events_start_id'', ''forgotten_events_end_id'',
        ''summary'', ''summary_offset''] d
     (bindD (opt d ''forgotten_event_ids'' None (dopt (dlist dint))) (\<lambda>is.
      bindD (opt d ''forgotten_events_start_id'' None (dopt dint)) (\<lambda>s.
      bindD (opt d ''forgotten_events_end_id'' None (dopt dint)) (\<lambda>e.
      bindD (opt d ''summary'' None (dopt dstr)) (\<lambda>m.
      bindD (opt d ''summary_offset'' None (dopt dint)) (\<lambda>off.
      case new_condensation is s e m off of Inl x \<Rightarrow> Inl (Raised x) | Inr a \<Rightarrow> Inr a))))))"

definition make_condensation_request :: "json_dict \<Rightarrow> action decoded" where
  "make_condensation_request d =
     construct (''action'', ''condensation_request'') [] [] d (Inr CondensationRequestAction)"

definition make_mcp :: "json_dict \<Rightarrow> action decoded" where
  "make_mcp d =
     construct (''action'', ''call_tool_mcp'') [''name''] [''arguments'', ''thought'', ''security_risk''] d
     (bindD (arg d ''name'' dstr) (\<lambda>n. bindD (opt d ''arguments'' [] ddict) (\<lambda>x.
      bindD (opt d ''thought'' [] dstr) (\<lambda>t.
      bindD (opt d ''security_risk'' RISK_UNKNOWN drisk) (\<lambda>r. Inr (MCPAction n x t r))))))"

definition make_task_tracking :: "json_dict \<Rightarrow> action decoded" where
  "make_task_tracking d =
     construct (''action'', ''task_tracking'') [] [''command'', ''task_list'', ''thought''] d
     (bindD (opt d ''command'' ''view'' dstr) (\<lambda>c. bindD (opt d ''task_list'' [] (dlist Inr)) (\<lambda>l.
      bindD (opt d ''thought'' [] dstr) (\<lambda>t. Inr (TaskTrackingAction c l t)))))"

definition make_loop_recovery :: "json_dict \<Rightarrow> action decoded" where
  "make_loop_recovery d = construct (''action'', ''loop_recovery'') [] [''option''] d
     (bindD (opt d ''option'' 1 dint) (\<lambda>n. Inr (LoopRecoveryAction n)))"

definition ACTION_TYPE_TO_CLASS :: "string \<Rightarrow> (string \<times> (json_dict \<Rightarrow> action decoded)) list" where
  "ACTION_TYPE_TO_CLASS version =
     [(''null'', make_null), (''run'', make_run), (''run_ipython'', make_run_ipython),
      (''browse'', make_browse), (''browse_interactive'', make_browse_interactive),
      (''read'', make_read), (''write'', make_write), (''edit'', make_edit), (''think'', make_think),
      (''finish'', make_finish), (''reject'', make_reject), (''delegate'', make_delegate),
      (''recall'', make_recall), (''change_agent_state'', make_change_agent_state),
      (''message'', make_message), (''system'', make_system version),
      (''condensation'', make_condensation), (''condensation_request'', make_condensation_request),
      (''call_tool_mcp'', make_mcp), (''task_tracking'', make_task_tracking),
      (''loop_recovery'', make_loop_recovery)]"

text \<open>\<open>if v:\<close> on a value of a dictionary.\<close>

fun json_truthy :: "json \<Rightarrow> bool" where
  "json_truthy JNull = False"
| "json_truthy (JBool b) = b"
| "json_truthy (JInt i) = (i \<noteq> 0)"
| "json_truthy (JFloat q) = (q \<noteq> 0)"
| "json_truthy (JStr s) = (s \<noteq> [])"
| "json_truthy (JList xs) = (xs \<noteq> [])"
| "json_truthy (JDict d) = (d \<noteq> [])"

definition dict_pop :: "string \<Rightarrow> json_dict \<Rightarrow> json option \<times> json_dict" where
  "dict_pop k d = (map_of d k, AList.delete k d)"

text \<open>\<open>literal_eval\<close> is \<open>ast.literal_eval\<close>: the value of a Python literal, nothing when it raises.\<close>

definition FILE_EDITOR_PREFIX :: string where
  "FILE_EDITOR_PREFIX = ''print(file_editor(**''"

definition handle_action_deprecated_args ::
  "(string \<Rightarrow> json option) \<Rightarrow> json_dict \<Rightarrow> json_dict decoded" where
  "handle_action_deprecated_args literal_eval args =
     (let args = AList.delete ''task_completed'' (AList.delete ''keep_prompt'' args);
          (code, rest) = dict_pop ''translated_ipython_code'' args
      in case code of
           None \<Rightarrow> Inr args
         | Some v \<Rightarrow>
             bindD
               (case v of
                  JStr c \<Rightarrow>
                    if prefix FILE_EDITOR_PREFIX c \<and> suffix ''))'' c
                    then (case literal_eval (drop (length FILE_EDITOR_PREFIX) (take (length c - 2) c)) of
                            None \<Rightarrow> Inr rest
                          | Some (JDict file_args) \<Rightarrow> Inr (dict_update rest file_args)
                          | Some _ \<Rightarrow> Inl Outside)
                    else Inr rest
                | JNull \<Rightarrow> Inr rest
                | _ \<Rightarrow> Inl (Raised (AttributeError ''startswith'')))
               (\<lambda>args. Inr (if map_of args ''command'' = Some (JStr ''view'')
                            then AList.delete ''command'' args else args)))"

text \<open>The renamed keys, and the risk as a member (its number) or dropped.\<close>

definition rename_args :: "json_dict \<Rightarrow> json_dict" where
  "rename_args args =
     (let (is_confirmed, args) = dict_pop ''is_confirmed'' args;
          args = (case is_confirmed of
                    None \<Rightarrow> args | Some JNull \<Rightarrow> args
                  | Some v \<Rightarrow> AList.update ''confirmation_state'' v args);
          (images_urls, rest) = dict_pop ''images_urls'' args;
          args = (case images_urls of None \<Rightarrow> args | Some v \<Rightarrow> AList.update ''image_urls'' v rest)
      in case map_of args ''security_risk'' of
           None \<Rightarrow> args | Some JNull \<Rightarrow> args
         | Some v \<Rightarrow> (case convert_risk v of
               Some r \<Rightarrow> AList.update ''security_risk'' (JInt (risk_value r)) args
             | None \<Rightarrow> AList.delete ''security_risk'' args))"

text \<open>\<open>except TypeError\<close> around the constructor.\<close>

fun malformed_args :: "'a decoded \<Rightarrow> 'a decoded" where
  "malformed_args (Inl (Raised (TypeError t))) =
     Inl (Raised (LLMMalformedActionError (''action has the wrong arguments: '' @ t)))"
| "malformed_args r = r"

definition set_timeout_key :: "json_dict \<Rightarrow> json_dict \<Rightarrow> action \<Rightarrow> event decoded" where
  "set_timeout_key d args a = (case map_of d ''timeout'' of
     None \<Rightarrow> Inr (fresh_event (Act a))
   | Some v \<Rightarrow> bindD (dopt dnum v) (\<lambda>t. bindD (opt args ''blocking'' False dbool) (\<lambda>b.
       Inr (set_hard_timeout t b (fresh_event (Act a))))))"

definition set_arg_timestamp :: "json option \<Rightarrow> event \<Rightarrow> event decoded" where
  "set_arg_timestamp timestamp e = (case timestamp of
     None \<Rightarrow> Inr e
   | Some v \<Rightarrow> if \<not> json_truthy v then Inr e
       else bindD (dstr v) (\<lambda>ts. Inr (e\<lparr>raw_timestamp := Some ts\<rparr>)))"

definition action_from_dict ::
  "string \<Rightarrow> (string \<Rightarrow> json option) \<Rightarrow> json_dict \<Rightarrow> event decoded" where
  "action_from_dict version literal_eval d =
     (case map_of d ''action'' of
        None \<Rightarrow> Inl (Raised (LLMMalformedActionError ''action key is not found''))
      | Some (JStr name) \<Rightarrow>
          (case map_of (ACTION_TYPE_TO_CLASS version) name of
             None \<Rightarrow> Inl (Raised (LLMMalformedActionError ''action is not defined''))
           | Some cls \<Rightarrow>
               bindD (opt d ''args'' [] ddict) (\<lambda>args0.
               let (timestamp, args1) = dict_pop ''timestamp'' args0 in
               bindD (handle_action_deprecated_args literal_eval (rename_args args1)) (\<lambda>args.
               bindD (malformed_args (cls args)) (\<lambda>a.
               bindD (set_timeout_key d args a) (set_arg_timestamp timestamp)))))
      | Some _ \<Rightarrow> Inl (Raised (LLMMalformedActionError ''action is not defined'')))"

section \<open>Observations\<close>

fun observation_type :: "observation \<Rightarrow> string" where
  "observation_type (NullObservation _) = ''null''"
| "observation_type (CmdOutputObservation _ _ _ _) = ''run''"
| "observation_type (IPythonRunCellObservation _ _ _) = ''run_ipython''"
| "observation_type (BrowserOutputObservation _ _) = ''browse''"
| "observation_type (FileReadObservation _ _ _) = ''read''"
| "observation_type (FileWriteObservation _ _) = ''write''"
| "observation_type (FileEditObservation _ _ _ _ _ _ _ _) = ''edit''"
| "observation_type (AgentDelegateObservation _ _) = ''delegate''"
| "observation_type (SuccessObservation _) = ''success''"
| "observation_type (ErrorObservation _ _) = ''error''"
| "observation_type (AgentStateChangedObservation _ _ _) = ''agent_state_changed''"
| "observation_type (UserRejectObservation _) = ''user_rejected''"
| "observation_type (AgentCondensationObservation _) = ''condense''"
| "observation_type (AgentThinkObservation _) = ''think''"
| "observation_type (RecallObservation _ _) = ''recall''"
| "observation_type (MCPObservation _ _ _) = ''mcp''"
| "observation_type (FileDownloadObservation _ _) = ''download''"
| "observation_type (TaskTrackingObservation _ _ _) = ''task_tracking''"
| "observation_type (LoopDetectionObservation _) = ''loop_detection''"

definition metadata_dump :: "cmd_metadata \<Rightarrow> json_dict" where
  "metadata_dump m =
     [(''exit_code'', JInt (md_exit_code m)), (''pid'', JInt (md_pid m)),
      (''username'', enc_opt JStr (md_username m)), (''hostname'', enc_opt JStr (md_hostname m)),
      (''working_dir'', enc_opt JStr (md_working_dir m)),
      (''py_interpreter_path'', enc_opt JStr (md_py_interpreter_path m)),
      (''prefix'', JStr (md_prefix m)), (''suffix'', JStr (md_suffix m))]"

text \<open>Unknown keys are ignored by pydantic.\<close>

definition make_metadata :: "json_dict \<Rightarrow> cmd_metadata decoded" where
  "make_metadata d =
     bindD (opt d ''exit_code'' (-1) dint) (\<lambda>x. bindD (opt d ''pid'' (-1) dint) (\<lambda>p.
     bindD (opt d ''username'' None (dopt dstr)) (\<lambda>u. bindD (opt d ''hostname'' None (dopt dstr)) (\<lambda>h.
     bindD (opt d ''working_dir'' None (dopt dstr)) (\<lambda>w.
     bindD (opt d ''py_interpreter_path'' None (dopt dstr)) (\<lambda>i.
     bindD (opt d ''prefix'' [] dstr) (\<lambda>a. bindD (opt d ''suffix'' [] dstr) (\<lambda>b.
     Inr \<lparr>md_exit_code = x, md_pid = p, md_username = u, md_hostname = h, md_working_dir = w,
          md_py_interpreter_path = i, md_prefix = a, md_suffix = b\<rparr>))))))))"

definition knowledge_dict :: "microagent_knowledge \<Rightarrow> json" where
  "knowledge_dict k = JDict [(''name'', JStr (mk_name k)), (''trigger'', JStr (mk_trigger k)),
     (''content'', JStr (mk_content k))]"

fun make_knowledge :: "json \<Rightarrow> microagent_knowledge decoded" where
  "make_knowledge (JDict d) =
     (if fst ` set d \<noteq> {''name'', ''trigger'', ''content''}
      then Inl (Raised (TypeError ''MicroagentKnowledge''))
      else bindD (arg d ''name'' dstr) (\<lambda>n. bindD (arg d ''trigger'' dstr) (\<lambda>t.
           bindD (arg d ''content'' dstr) (\<lambda>c. Inr \<lparr>mk_name = n, mk_trigger = t, mk_content = c\<rparr>))))"
| "make_knowledge _ = Inl Outside"

definition recall_extras :: "recall_fields \<Rightarrow> json_dict" where
  "recall_extras r =
     [(''recall_type'', JStr (recall_value (rc_recall_type r))), (''repo_name'', JStr (rc_repo_name r)),
      (''repo_directory'', JStr (rc_repo_directory r)), (''repo_branch'', JStr (rc_repo_branch r)),
      (''repo_instructions'', JStr (rc_repo_instructions r)),
      (''runtime_hosts'', JDict (map (\<lambda>(k, i). (k, JInt i)) (rc_runtime_hosts r))),
      (''additional_agent_instructions'', JStr (rc_additional_agent_instructions r)),
      (''date'', JStr (rc_date r)),
      (''custom_secrets_descriptions'', JDict (map (\<lambda>(k, v). (k, JStr v)) (rc_custom_secrets_descriptions r))),
      (''conversation_instructions'', JStr (rc_conversation_instructions r)),
      (''working_dir'', JStr (rc_working_dir r)),
      (''microagent_knowledge'', JList (map knowledge_dict (rc_microagent_knowledge r)))]"

definition browser_extras :: "browser_fields \<Rightarrow> json_dict" where
  "browser_extras b =
     [(''url'', JStr (br_url b)), (''trigger_by_action'', JStr (br_trigger_by_action b)),
      (''screenshot'', JStr (br_screenshot b)), (''screenshot_path'', enc_opt JStr (br_screenshot_path b)),
      (''set_of_marks'', JStr (br_set_of_marks b)), (''error'', JBool (br_error b)),
      (''goal_image_urls'', strings (br_goal_image_urls b)), (''open_pages_urls'', strings (br_open_pages_urls b)),
      (''active_page_index'', JInt (br_active_page_index b)), (''dom_object'', JDict (br_dom_object b)),
      (''axtree_object'', JDict (br_axtree_object b)),
      (''extra_element_properties'', JDict (br_extra_element_properties b)),
      (''last_browser_action'', JStr (br_last_browser_action b)),
      (''last_browser_action_error'', JStr (br_last_browser_action_error b)),
      (''focused_element_bid'', JStr (br_focused_element_bid b)),
      (''filter_visible_only'', JBool (br_filter_visible_only b))]"

fun observation_extras :: "observation \<Rightarrow> json_dict" where
  "observation_extras (NullObservation _) = []"
| "observation_extras (CmdOutputObservation _ k m h) =
     [(''command'', JStr k), (''metadata'', JDict (metadata_dump m)), (''hidden'', JBool h)]"
| "observation_extras (IPythonRunCellObservation _ k i) =
     [(''code'', JStr k), (''image_urls'', enc_opt strings i)]"
| "observation_extras (BrowserOutputObservation _ b) = browser_extras b"
| "observation_extras (FileReadObservation _ p i) =
     [(''path'', JStr p), (''impl_source'', JStr (read_source_value i))]"
| "observation_extras (FileWriteObservation _ p) = [(''path'', JStr p)]"
| "observation_extras (FileEditObservation _ p x old new i diff cache) =
     [(''path'', JStr p), (''prev_exist'', JBool x), (''old_content'', enc_opt JStr old),
      (''new_content'', enc_opt JStr new), (''impl_source'', JStr (edit_source_value i)),
      (''diff'', enc_opt JStr diff), (''_diff_cache'', enc_opt JStr cache)]"
| "observation_extras (AgentDelegateObservation _ x) = [(''outputs'', JDict x)]"
| "observation_extras (SuccessObservation _) = []"
| "observation_extras (ErrorObservation _ i) = [(''error_id'', JStr i)]"
| "observation_extras (AgentStateChangedObservation _ s r) =
     [(''agent_state'', JStr (agent_state_value s)), (''reason'', JStr r)]"
| "observation_extras (UserRejectObservation _) = []"
| "observation_extras (AgentCondensationObservation _) = []"
| "observation_extras (AgentThinkObservation _) = []"
| "observation_extras (RecallObservation _ r) = recall_extras r"
| "observation_extras (MCPObservation _ n x) = [(''name'', JStr n), (''arguments'', JDict x)]"
| "observation_extras (FileDownloadObservation _ p) = [(''file_path'', JStr p)]"
| "observation_extras (TaskTrackingObservation _ k l) = [(''command'', JStr k), (''task_list'', JList l)]"
| "observation_extras (LoopDetectionObservation _) = []"

text \<open>What \<open>CmdOutputObservation\<close> does to long output.\<close>

definition MAX_CMD_OUTPUT_SIZE :: nat where
  "MAX_CMD_OUTPUT_SIZE = 30000"

definition LF :: string where
  "LF = [CHR 0x0A]"

definition TRUNCATED :: string where
  "TRUNCATED = LF @ ''[... Observation truncated due to length ...]'' @ LF"

definition maybe_truncate :: "string \<Rightarrow> string" where
  "maybe_truncate content =
     (if length content \<le> MAX_CMD_OUTPUT_SIZE then content
      else let half = MAX_CMD_OUTPUT_SIZE div 2
           in take half content @ TRUNCATED @ drop (length content - half) content)"

text \<open>A constructor of an observation: \<open>content\<close> is given first.\<close>

definition make_simple :: "string \<Rightarrow> (string \<Rightarrow> observation) \<Rightarrow> string \<Rightarrow> json_dict \<Rightarrow> observation decoded" where
  "make_simple name f c d = construct (''observation'', name) [] [] d (Inr (f c))"

text \<open>\<open>CmdOutputObservation.__init__\<close> takes any further keyword arguments, but not one that is given
  already.\<close>

definition is_given :: "string \<Rightarrow> bool" where
  "is_given k \<longleftrightarrow> k \<in> {''self'', ''content''}"

lemma not_given [simp]: "\<not> is_given ''command''" "\<not> is_given ''hidden''" "\<not> is_given ''metadata''"
  by (simp_all add: is_given_def)

definition make_cmd_output :: "string \<Rightarrow> json_dict \<Rightarrow> observation decoded" where
  "make_cmd_output c d =
     construct (''observation'', ''run'') [''command''] (filter (\<lambda>k. \<not> is_given k) (map fst d)) d
     (bindD (arg d ''command'' dstr) (\<lambda>k. bindD (opt d ''hidden'' False dbool) (\<lambda>h.
      bindD (case map_of d ''metadata'' of
               Some (JDict m) \<Rightarrow> make_metadata m | _ \<Rightarrow> make_metadata []) (\<lambda>m.
      Inr (CmdOutputObservation (if h then c else maybe_truncate c) k m h)))))"

definition make_ipython_output :: "string \<Rightarrow> json_dict \<Rightarrow> observation decoded" where
  "make_ipython_output c d = construct (''observation'', ''run_ipython'') [''code''] [''image_urls''] d
     (bindD (arg d ''code'' dstr) (\<lambda>k. bindD (opt d ''image_urls'' None (dopt (dlist dstr))) (\<lambda>i.
      Inr (IPythonRunCellObservation c k i))))"

definition make_browser_output :: "string \<Rightarrow> json_dict \<Rightarrow> observation decoded" where
  "make_browser_output c d =
     construct (''observation'', ''browse'') [''url'', ''trigger_by_action'']
       [''screenshot'', ''screenshot_path'', ''set_of_marks'', ''error'', ''goal_image_urls'',
        ''open_pages_urls'', ''active_page_index'', ''dom_object'', ''axtree_object'',
        ''extra_element_properties'', ''last_browser_action'', ''last_browser_action_error'',
        ''focused_element_bid'', ''filter_visible_only''] d
     (bindD (arg d ''url'' dstr) (\<lambda>u. bindD (arg d ''trigger_by_action'' dstr) (\<lambda>t.
      bindD (opt d ''screenshot'' [] dstr) (\<lambda>s. bindD (opt d ''screenshot_path'' None (dopt dstr)) (\<lambda>sp.
      bindD (opt d ''set_of_marks'' [] dstr) (\<lambda>m. bindD (opt d ''error'' False dbool) (\<lambda>e.
      bindD (opt d ''goal_image_urls'' [] (dlist dstr)) (\<lambda>g.
      bindD (opt d ''open_pages_urls'' [] (dlist dstr)) (\<lambda>os.
      bindD (opt d ''active_page_index'' (-1) dint) (\<lambda>ap. bindD (opt d ''dom_object'' [] ddict) (\<lambda>dom.
      bindD (opt d ''axtree_object'' [] ddict) (\<lambda>ax.
      bindD (opt d ''extra_element_properties'' [] ddict) (\<lambda>ex.
      bindD (opt d ''last_browser_action'' [] dstr) (\<lambda>la.
      bindD (opt d ''last_browser_action_error'' [] dstr) (\<lambda>le.
      bindD (opt d ''focused_element_bid'' [] dstr) (\<lambda>fb.
      bindD (opt d ''filter_visible_only'' False dbool) (\<lambda>fv.
      Inr (BrowserOutputObservation c
        \<lparr>br_url = u, br_trigger_by_action = t, br_screenshot = s, br_screenshot_path = sp,
         br_set_of_marks = m, br_error = e, br_goal_image_urls = g, br_open_pages_urls = os,
         br_active_page_index = ap, br_dom_object = dom, br_axtree_object = ax,
         br_extra_element_properties = ex, br_last_browser_action = la,
         br_last_browser_action_error = le, br_focused_element_bid = fb,
         br_filter_visible_only = fv\<rparr>))))))))))))))))))"

definition make_file_read :: "string \<Rightarrow> json_dict \<Rightarrow> observation decoded" where
  "make_file_read c d = construct (''observation'', ''read'') [''path''] [''impl_source''] d
     (bindD (arg d ''path'' dstr) (\<lambda>p. bindD (opt d ''impl_source'' READ_DEFAULT dread) (\<lambda>i.
      Inr (FileReadObservation c p i))))"

definition make_file_write :: "string \<Rightarrow> json_dict \<Rightarrow> observation decoded" where
  "make_file_write c d = construct (''observation'', ''write'') [''path''] [] d
     (bindD (arg d ''path'' dstr) (\<lambda>p. Inr (FileWriteObservation c p)))"

definition make_file_edit :: "string \<Rightarrow> json_dict \<Rightarrow> observation decoded" where
  "make_file_edit c d =
     construct (''observation'', ''edit'') []
       [''path'', ''prev_exist'', ''old_content'', ''new_content'', ''impl_source'', ''diff'', ''_diff_cache''] d
     (bindD (opt d ''path'' [] dstr) (\<lambda>p. bindD (opt d ''prev_exist'' False dbool) (\<lambda>x.
      bindD (opt d ''old_content'' None (dopt dstr)) (\<lambda>old.
      bindD (opt d ''new_content'' None (dopt dstr)) (\<lambda>new.
      bindD (opt d ''impl_source'' LLM_BASED_EDIT dedit) (\<lambda>i.
      bindD (opt d ''diff'' None (dopt dstr)) (\<lambda>diff.
      bindD (opt d ''_diff_cache'' None (dopt dstr)) (\<lambda>cache.
      Inr (FileEditObservation c p x old new i diff cache)))))))))"

definition make_delegate_output :: "string \<Rightarrow> json_dict \<Rightarrow> observation decoded" where
  "make_delegate_output c d = construct (''observation'', ''delegate'') [''outputs''] [] d
     (bindD (arg d ''outputs'' ddict) (\<lambda>x. Inr (AgentDelegateObservation c x)))"

definition make_error :: "string \<Rightarrow> json_dict \<Rightarrow> observation decoded" where
  "make_error c d = construct (''observation'', ''error'') [] [''error_id''] d
     (bindD (opt d ''error_id'' [] dstr) (\<lambda>i. Inr (ErrorObservation c i)))"

definition make_state_changed :: "string \<Rightarrow> json_dict \<Rightarrow> observation decoded" where
  "make_state_changed c d =
     construct (''observation'', ''agent_state_changed'') [''agent_state''] [''reason''] d
     (bindD (arg d ''agent_state'' dstate) (\<lambda>s. bindD (opt d ''reason'' [] dstr) (\<lambda>r.
      Inr (AgentStateChangedObservation c s r))))"

definition make_mcp_output :: "string \<Rightarrow> json_dict \<Rightarrow> observation decoded" where
  "make_mcp_output c d = construct (''observation'', ''mcp'') [] [''name'', ''arguments''] d
     (bindD (opt d ''name'' [] dstr) (\<lambda>n. bindD (opt d ''arguments'' [] ddict) (\<lambda>x.
      Inr (MCPObservation c n x))))"

definition make_download :: "string \<Rightarrow> json_dict \<Rightarrow> observation decoded" where
  "make_download c d = construct (''observation'', ''download'') [''file_path''] [] d
     (bindD (arg d ''file_path'' dstr) (\<lambda>p. Inr (FileDownloadObservation c p)))"

definition make_tasks :: "string \<Rightarrow> json_dict \<Rightarrow> observation decoded" where
  "make_tasks c d = construct (''observation'', ''task_tracking'') [] [''command'', ''task_list''] d
     (bindD (opt d ''command'' [] dstr) (\<lambda>k. bindD (opt d ''task_list'' [] (dlist Inr)) (\<lambda>l.
      Inr (TaskTrackingObservation c k l))))"

text \<open>The recall type is converted before the constructor sees it.\<close>

definition convert_recall :: "json_dict \<Rightarrow> recall_type option decoded" where
  "convert_recall d = (case map_of d ''recall_type'' of
     None \<Rightarrow> Inr None
   | Some v \<Rightarrow> (case denum recall_value [WORKSPACE_CONTEXT, KNOWLEDGE] v of
       Some t \<Rightarrow> Inr (Some t)
     | None \<Rightarrow> Inl (Raised (ValueError ''not a valid RecallType''))))"

definition make_recall_output :: "string \<Rightarrow> json_dict \<Rightarrow> observation decoded" where
  "make_recall_output c d =
     bindD (convert_recall d) (\<lambda>y.
     bindD (opt d ''microagent_knowledge'' [] (dlist make_knowledge)) (\<lambda>mk.
     construct (''observation'', ''recall'') [''recall_type'']
       [''repo_name'', ''repo_directory'', ''repo_branch'', ''repo_instructions'', ''runtime_hosts'',
        ''additional_agent_instructions'', ''date'', ''custom_secrets_descriptions'',
        ''conversation_instructions'', ''working_dir'', ''microagent_knowledge''] d
     (bindD (opt d ''repo_name'' [] dstr) (\<lambda>rn. bindD (opt d ''repo_directory'' [] dstr) (\<lambda>rd.
      bindD (opt d ''repo_branch'' [] dstr) (\<lambda>rb. bindD (opt d ''repo_instructions'' [] dstr) (\<lambda>ri.
      bindD (opt d ''runtime_hosts'' [] (dvalues dint)) (\<lambda>rh.
      bindD (opt d ''additional_agent_instructions'' [] dstr) (\<lambda>ai.
      bindD (opt d ''date'' [] dstr) (\<lambda>dt.
      bindD (opt d ''custom_secrets_descriptions'' [] (dvalues dstr)) (\<lambda>cs.
      bindD (opt d ''conversation_instructions'' [] dstr) (\<lambda>ci.
      bindD (opt d ''working_dir'' [] dstr) (\<lambda>wd.
      Inr (RecallObservation c
        \<lparr>rc_recall_type = the y, rc_repo_name = rn, rc_repo_directory = rd, rc_repo_branch = rb,
         rc_repo_instructions = ri, rc_runtime_hosts = rh, rc_additional_agent_instructions = ai,
         rc_date = dt, rc_custom_secrets_descriptions = cs, rc_conversation_instructions = ci,
         rc_working_dir = wd, rc_microagent_knowledge = mk\<rparr>))))))))))))))"

definition OBSERVATION_TYPE_TO_CLASS :: "(string \<times> (string \<Rightarrow> json_dict \<Rightarrow> observation decoded)) list" where
  "OBSERVATION_TYPE_TO_CLASS =
     [(''null'', make_simple ''null'' NullObservation), (''run'', make_cmd_output),
      (''run_ipython'', make_ipython_output), (''browse'', make_browser_output),
      (''read'', make_file_read), (''write'', make_file_write), (''edit'', make_file_edit),
      (''delegate'', make_delegate_output), (''success'', make_simple ''success'' SuccessObservation),
      (''error'', make_error), (''agent_state_changed'', make_state_changed),
      (''user_rejected'', make_simple ''user_rejected'' UserRejectObservation),
      (''condense'', make_simple ''condense'' AgentCondensationObservation),
      (''think'', make_simple ''think'' AgentThinkObservation), (''recall'', make_recall_output),
      (''mcp'', make_mcp_output), (''download'', make_download), (''task_tracking'', make_tasks),
      (''loop_detection'', make_simple ''loop_detection'' LoopDetectionObservation)]"

end
