(* ===== verification/Event_Dict.thy ===== *)
theory Event_Dict
  imports Serialization
begin

text \<open>
  An event and its dictionary (\<open>openhands/events/serialization/event.py\<close>): the text every class
  describes itself with, the attributes of the stream, \<open>event_to_dict\<close>, \<open>event_from_dict\<close> and the
  round trips between them.

  \<open>py_repr\<close> is Python's \<open>str()\<close> of a dictionary, \<open>version\<close> the version of the package,
  \<open>literal_eval\<close> is \<open>ast.literal_eval\<close>.
\<close>

section \<open>Messages\<close>

definition fence :: string where
  "fence = ''```''"

fun action_message :: "(json \<Rightarrow> string) \<Rightarrow> action \<Rightarrow> string result" where
  "action_message py_repr NullAction = Inr ''No action''"
| "action_message py_repr (CmdRunAction c _ _ _ _ _ _ _ _) = Inr (''Running command: '' @ c)"
| "action_message py_repr (IPythonRunCellAction c _ _ _ _ _) =
     Inr (''Running Python code interactively: '' @ c)"
| "action_message py_repr (BrowseURLAction u _ _ _) = Inr (''I am browsing the URL: '' @ u)"
| "action_message py_repr (BrowseInteractiveAction b _ _ _ _) =
     Inr (''I am interacting with the browser:'' @ LF @ fence @ LF @ b @ LF @ fence)"
| "action_message py_repr (FileReadAction p _ _ _ _ _ _) = Inr (''Reading file: '' @ p)"
| "action_message py_repr (FileWriteAction p _ _ _ _ _) = Inr (''Writing file: '' @ p)"
| "action_message py_repr (FileEditAction _ _ _ _ _ _ _ _ _ _ _ _) = Inr []"
| "action_message py_repr (AgentThinkAction t) = Inr (''I am thinking...: '' @ t)"
| "action_message py_repr (AgentFinishAction _ _ t) =
     Inr (if t \<noteq> [] then t else ''All done! What'' @ [CHR 0x27] @ ''s next on the agenda?'')"
| "action_message py_repr (AgentRejectAction outs _) =
     (case map_of outs ''reason'' of
        None \<Rightarrow> Inr ''Task is rejected by the agent.''
      | Some (JStr s) \<Rightarrow> Inr (''Task is rejected by the agent.'' @ '' Reason: '' @ s)
      | Some _ \<Rightarrow> Inl (TypeError ''can only concatenate str to str''))"
| "action_message py_repr (AgentDelegateAction g _ _) =
     Inr (''I'' @ [CHR 0x27] @ ''m asking '' @ g @ '' for help with this task.'')"
| "action_message py_repr (RecallAction _ q _) = Inr (''Retrieving content for: '' @ take 50 q)"
| "action_message py_repr (ChangeAgentStateAction s _) =
     Inr (''Agent state changed to '' @ agent_state_value s)"
| "action_message py_repr (MessageAction c _ _ _ _) = Inr c"
| "action_message py_repr (SystemMessageAction c _ _ _) = Inr c"
| "action_message py_repr (CondensationAction is s e m off) =
     (case m of
        Some (x # xs) \<Rightarrow> Inr (''Summary: '' @ x # xs)
      | _ \<Rightarrow> bindE (forgotten (CondensationAction is s e m off)) (\<lambda>ids.
          Inr (''Condenser is dropping the events: ['' @ py_join '', '' (map str_of_int ids) @ ''].'')))"
| "action_message py_repr CondensationRequestAction =
     Inr ''Requesting a condensation of the conversation history.''"
| "action_message py_repr (MCPAction n x _ _) =
     Inr (''I am interacting with the MCP server with name:'' @ LF @ fence @ LF @ n @ LF @ fence @ LF @
       ''and arguments:'' @ LF @ fence @ LF @ py_repr (JDict x) @ LF @ fence)"
| "action_message py_repr (TaskTrackingAction _ l _) =
     Inr (if length l = 0 then ''Clearing the task list.''
          else if length l = 1 then ''Managing 1 task item.''
          else ''Managing '' @ str_of_int (int (length l)) @ '' task items.'')"
| "action_message py_repr (LoopRecoveryAction _) = Inr []"

fun observation_message :: "observation \<Rightarrow> string" where
  "observation_message (NullObservation _) = ''No observation''"
| "observation_message (CmdOutputObservation _ k m _) =
     ''Command `'' @ k @ ''` executed with exit code '' @ str_of_int (md_exit_code m) @ ''.''"
| "observation_message (IPythonRunCellObservation _ _ _) = ''Code executed in IPython cell.''"
| "observation_message (BrowserOutputObservation _ b) = ''Visited '' @ br_url b"
| "observation_message (FileReadObservation _ p _) = ''I read the file '' @ p @ ''.''"
| "observation_message (FileWriteObservation _ p) = ''I wrote to the file '' @ p @ ''.''"
| "observation_message (FileEditObservation _ p _ _ _ _ _ _) = ''I edited the file '' @ p @ ''.''"
| "observation_message (AgentDelegateObservation _ _) = []"
| "observation_message (AgentStateChangedObservation _ _ _) = []"
| "observation_message (RecallObservation _ r) =
     (if rc_recall_type r = WORKSPACE_CONTEXT then ''Added workspace context''
      else ''Added microagent knowledge'')"
| "observation_message (FileDownloadObservation _ p) = ''Downloaded the file at location: '' @ p"
| "observation_message (LoopDetectionObservation _) = []"
| "observation_message ob = o_content ob"

definition event_message :: "(json \<Rightarrow> string) \<Rightarrow> event \<Rightarrow> string result" where
  "event_message py_repr e =
     (case payload e of Act a \<Rightarrow> action_message py_repr a | Obs ob \<Rightarrow> Inr (observation_message ob))"

section \<open>Metrics and tool calls\<close>

definition cost_dict :: "cost \<Rightarrow> json" where
  "cost_dict c = JDict [(''model'', JStr (cost_model c)), (''cost'', JFloat (cost_value c)),
     (''timestamp'', JFloat (cost_timestamp c))]"

definition latency_dict :: "response_latency \<Rightarrow> json" where
  "latency_dict l = JDict [(''model'', JStr (latency_model l)), (''latency'', JFloat (latency l)),
     (''response_id'', JStr (latency_response_id l))]"

definition usage_dict :: "token_usage \<Rightarrow> json" where
  "usage_dict u = JDict [(''model'', JStr (usage_model u)), (''prompt_tokens'', JInt (prompt_tokens u)),
     (''completion_tokens'', JInt (completion_tokens u)),
     (''cache_read_tokens'', JInt (cache_read_tokens u)),
     (''cache_write_tokens'', JInt (cache_write_tokens u)),
     (''context_window'', JInt (context_window u)), (''per_turn_token'', JInt (per_turn_token u)),
     (''response_id'', JStr (usage_response_id u))]"

text \<open>\<open>Metrics.get\<close>.\<close>

definition metrics_dict :: "metrics \<Rightarrow> json_dict" where
  "metrics_dict m =
     [(''accumulated_cost'', JFloat (accumulated_cost m)),
      (''max_budget_per_task'', enc_opt JFloat (max_budget_per_task m)),
      (''accumulated_token_usage'', usage_dict (accumulated_token_usage m)),
      (''costs'', JList (map cost_dict (costs m))),
      (''response_latencies'', JList (map latency_dict (response_latencies m))),
      (''token_usages'', JList (map usage_dict (token_usages m)))]"

text \<open>A missing field fails pydantic's validation; the default of a cost's time is the clock.\<close>

definition field :: "json_dict \<Rightarrow> string \<Rightarrow> (json \<Rightarrow> 'a decoded) \<Rightarrow> 'a decoded" where
  "field d k f = (case map_of d k of None \<Rightarrow> Inl Outside | Some v \<Rightarrow> f v)"

definition make_cost :: "json \<Rightarrow> cost decoded" where
  "make_cost v = bindD (ddict v) (\<lambda>d.
     bindD (field d ''model'' dstr) (\<lambda>m. bindD (field d ''cost'' dnum) (\<lambda>c.
     bindD (field d ''timestamp'' dnum) (\<lambda>t.
     Inr \<lparr>cost_model = m, cost_value = c, cost_timestamp = t\<rparr>))))"

definition make_latency :: "json \<Rightarrow> response_latency decoded" where
  "make_latency v = bindD (ddict v) (\<lambda>d.
     bindD (field d ''model'' dstr) (\<lambda>m. bindD (field d ''latency'' dnum) (\<lambda>l.
     bindD (field d ''response_id'' dstr) (\<lambda>r.
     Inr \<lparr>latency_model = m, latency = l, latency_response_id = r\<rparr>))))"

definition make_usage :: "json \<Rightarrow> token_usage decoded" where
  "make_usage v = bindD (ddict v) (\<lambda>d.
     bindD (opt d ''model'' [] dstr) (\<lambda>m. bindD (opt d ''prompt_tokens'' 0 dint) (\<lambda>p.
     bindD (opt d ''completion_tokens'' 0 dint) (\<lambda>c. bindD (opt d ''cache_read_tokens'' 0 dint) (\<lambda>cr.
     bindD (opt d ''cache_write_tokens'' 0 dint) (\<lambda>cw. bindD (opt d ''context_window'' 0 dint) (\<lambda>w.
     bindD (opt d ''per_turn_token'' 0 dint) (\<lambda>pt. bindD (opt d ''response_id'' [] dstr) (\<lambda>r.
     Inr \<lparr>usage_model = m, prompt_tokens = p, completion_tokens = c, cache_read_tokens = cr,
          cache_write_tokens = cw, context_window = w, per_turn_token = pt, usage_response_id = r\<rparr>)))))))))"

definition make_metrics :: "json \<Rightarrow> metrics decoded" where
  "make_metrics v = (case v of
     JDict d \<Rightarrow>
       bindD (opt d ''accumulated_cost'' 0 dnum) (\<lambda>c.
       bindD (case set_accumulated_cost c default_metrics of
                Inl x \<Rightarrow> Inl (Raised x) | Inr m \<Rightarrow> Inr m) (\<lambda>m.
       bindD (opt d ''max_budget_per_task'' None (dopt dnum)) (\<lambda>b.
       bindD (opt d ''costs'' [] (dlist make_cost)) (\<lambda>cs.
       bindD (opt d ''response_latencies'' [] (dlist make_latency)) (\<lambda>ls.
       bindD (opt d ''token_usages'' [] (dlist make_usage)) (\<lambda>us.
       bindD (opt d ''accumulated_token_usage'' (accumulated_token_usage m) make_usage) (\<lambda>au.
       Inr (m\<lparr>max_budget_per_task := b, costs := cs, response_latencies := ls, token_usages := us,
              accumulated_token_usage := au\<rparr>))))))))
   | _ \<Rightarrow> Inr default_metrics)"

definition tool_call_dict :: "tool_call_metadata \<Rightarrow> json" where
  "tool_call_dict t = JDict [(''function_name'', JStr (function_name t)),
     (''tool_call_id'', JStr (tool_call_id t)), (''model_response'', model_response t),
     (''total_calls_in_response'', JInt (total_calls_in_response t))]"

definition make_tool_call :: "json \<Rightarrow> tool_call_metadata decoded" where
  "make_tool_call v = bindD (ddict v) (\<lambda>d.
     bindD (field d ''function_name'' dstr) (\<lambda>f. bindD (field d ''tool_call_id'' dstr) (\<lambda>i.
     bindD (field d ''model_response'' Inr) (\<lambda>r. bindD (field d ''total_calls_in_response'' dint) (\<lambda>n.
     Inr \<lparr>function_name = f, tool_call_id = i, model_response = r, total_calls_in_response = n\<rparr>)))))"

section \<open>Events\<close>

definition some_key :: "string \<Rightarrow> ('a \<Rightarrow> json) \<Rightarrow> 'a option \<Rightarrow> json_dict" where
  "some_key k f x = (case x of None \<Rightarrow> [] | Some y \<Rightarrow> [(k, f y)])"

text \<open>The top keys that hold attributes of the stream; an id of \<open>-1\<close> is taken out again.\<close>

definition event_to_dict :: "(json \<Rightarrow> string) \<Rightarrow> event \<Rightarrow> json_dict result" where
  "event_to_dict py_repr e =
     bindE (event_message py_repr e) (\<lambda>msg.
     let head =
           (if event_id e = INVALID_ID then [] else [(''id'', JInt (event_id e))]) @
           some_key ''timestamp'' JStr (raw_timestamp e) @
           some_key ''source'' (\<lambda>s. JStr (source_value s)) (raw_source e) @
           [(''message'', JStr msg)] @
           some_key ''cause'' JInt (raw_cause e);
         kind = (case payload e of
             Act a \<Rightarrow> [(''action'', JStr (action_type a))]
           | Obs ob \<Rightarrow> [(''observation'', JStr (observation_type ob))]);
         calls = some_key ''tool_call_metadata'' tool_call_dict (raw_tool_call_metadata e) @
           some_key ''llm_metrics'' (\<lambda>m. JDict (metrics_dict m)) (raw_llm_metrics e);
         rest = (case payload e of
             Act a \<Rightarrow> (''args'', JDict (action_args a)) # some_key ''timeout'' JFloat (raw_timeout e)
           | Obs ob \<Rightarrow> [(''content'', JStr (o_content ob)), (''extras'', JDict (observation_extras ob))] @
               (case ob of
                  CmdOutputObservation _ _ m _ \<Rightarrow> [(''success'', JBool (md_exit_code m = 0))]
                | IPythonRunCellObservation _ _ _ \<Rightarrow> [(''success'', JBool True)]
                | _ \<Rightarrow> []))
     in Inr (head @ kind @ calls @ rest))"

definition update_cmd_output_metadata :: "json option \<Rightarrow> string \<Rightarrow> json \<Rightarrow> json" where
  "update_cmd_output_metadata metadata k v = (case metadata of
     None \<Rightarrow> JDict [(k, v)]
   | Some JNull \<Rightarrow> JDict [(k, v)]
   | Some (JDict m) \<Rightarrow> JDict (AList.update k v m)
   | Some x \<Rightarrow> x)"

definition handle_observation_deprecated_extras :: "json_dict \<Rightarrow> json_dict" where
  "handle_observation_deprecated_extras extras =
     (let move = (\<lambda>old new d. case map_of d old of
            None \<Rightarrow> d
          | Some v \<Rightarrow> AList.update ''metadata''
              (update_cmd_output_metadata (map_of d ''metadata'') new v) (AList.delete old d))
      in AList.delete ''formatted_output_and_error''
           (move ''command_id'' ''pid'' (move ''exit_code'' ''exit_code'' extras)))"

definition observation_from_dict :: "json_dict \<Rightarrow> event decoded" where
  "observation_from_dict d =
     (case map_of d ''observation'' of
        None \<Rightarrow> Inl (Raised (KeyError ''observation''))
      | Some (JStr name) \<Rightarrow>
          (case map_of OBSERVATION_TYPE_TO_CLASS name of
             None \<Rightarrow> Inl (Raised (KeyError name))
           | Some cls \<Rightarrow>
               bindD (opt d ''content'' [] dstr) (\<lambda>content.
               bindD (opt d ''extras'' [] ddict) (\<lambda>extras.
               bindD (cls content (handle_observation_deprecated_extras extras)) (\<lambda>ob.
               Inr (fresh_event (Obs ob))))))
      | Some (JList _) \<Rightarrow> Inl (Raised (TypeError ''unhashable type''))
      | Some (JDict _) \<Rightarrow> Inl (Raised (TypeError ''unhashable type''))
      | Some _ \<Rightarrow> Inl (Raised (KeyError ''not defined'')))"

definition dsource :: "json \<Rightarrow> event_source decoded" where
  "dsource v = (case denum source_value [AGENT, USER, ENVIRONMENT] v of
     Some s \<Rightarrow> Inr s | None \<Rightarrow> Inl (Raised (ValueError ''not a valid EventSource'')))"

text \<open>The loop over \<open>UNDERSCORE_KEYS\<close>.\<close>

definition set_underscore_keys :: "json_dict \<Rightarrow> event \<Rightarrow> event decoded" where
  "set_underscore_keys d e =
     bindD (opt d ''id'' (raw_id e) (dopt dint)) (\<lambda>i.
     bindD (opt d ''timestamp'' (raw_timestamp e) (dopt dstr)) (\<lambda>ts.
     bindD (opt d ''source'' (raw_source e) (\<lambda>v. bindD (dsource v) (\<lambda>s. Inr (Some s)))) (\<lambda>s.
     bindD (opt d ''cause'' (raw_cause e) (dopt dint)) (\<lambda>c.
     bindD (opt d ''tool_call_metadata'' (raw_tool_call_metadata e)
              (\<lambda>v. bindD (make_tool_call v) (\<lambda>t. Inr (Some t)))) (\<lambda>t.
     bindD (opt d ''llm_metrics'' (raw_llm_metrics e)
              (\<lambda>v. bindD (make_metrics v) (\<lambda>m. Inr (Some m)))) (\<lambda>m.
     Inr (e\<lparr>raw_id := i, raw_timestamp := ts, raw_source := s, raw_cause := c,
            raw_tool_call_metadata := t, raw_llm_metrics := m\<rparr>)))))))"

definition event_from_dict ::
  "string \<Rightarrow> (string \<Rightarrow> json option) \<Rightarrow> json_dict \<Rightarrow> event decoded" where
  "event_from_dict version literal_eval d =
     bindD (if has_key d ''action'' then action_from_dict version literal_eval d
            else if has_key d ''observation'' then observation_from_dict d
            else Inl (Raised (ValueError ''Unknown event type'')))
       (set_underscore_keys d)"

section \<open>Every class decodes what it encodes\<close>

lemmas decoding = construct_def arg_def opt_def field_def dict_pop_def enc_opt_def dopt_def

lemmas action_makers = make_null_def make_run_def make_run_ipython_def make_browse_def
  make_browse_interactive_def make_read_def make_write_def make_edit_def make_think_def
  make_finish_def make_reject_def make_delegate_def make_recall_def make_change_agent_state_def
  make_message_def make_system_def make_condensation_def make_condensation_request_def make_mcp_def
  make_task_tracking_def make_loop_recovery_def

definition valid_action :: "action \<Rightarrow> bool" where
  "valid_action a = (case a of
     CondensationAction is s e m off \<Rightarrow> condensation_valid is s e m off | _ \<Rightarrow> True)"

lemma traverse_JStr [simp]: "traverse dstr (map JStr xs) = Inr xs"
  by (rule traverse_map) simp

lemma traverse_JInt [simp]: "traverse dint (map JInt xs) = Inr xs"
  by (rule traverse_map) simp

lemma traverse_Inr [simp]: "traverse Inr xs = Inr xs"
  by (induction xs) simp_all

lemma dopt_enc_simps [simp]:
  "dopt dstr (enc_opt JStr s) = Inr s" "dopt dint (enc_opt JInt i) = Inr i"
  "dopt dnum (enc_opt JFloat q) = Inr q"
  "dopt (dlist dstr) (enc_opt strings ss) = Inr ss" "dopt (dlist dint) (enc_opt ints is) = Inr is"
  "dopt (dlist Inr) (enc_opt JList js) = Inr js"
  by (rule dopt_enc; simp)+

lemma make_action:
  assumes "valid_action a"
  shows "\<exists>cls. map_of (ACTION_TYPE_TO_CLASS version) (action_type a) = Some cls \<and>
    cls (action_args a) = Inr a"
  using assms
  by (cases a)
    (simp_all add: ACTION_TYPE_TO_CLASS_def action_makers construct_def arg_def opt_def
      valid_action_def new_condensation_def)

lemma no_deprecated_args:
  "rename_args (action_args a) = action_args a"
  "AList.delete ''timestamp'' (action_args a) = action_args a"
  "map_of (action_args a) ''timestamp'' = None"
  "handle_action_deprecated_args literal_eval (action_args a) = Inr (action_args a)"
  by (cases a; simp add: rename_args_def handle_action_deprecated_args_def dict_pop_def)+

lemma malformed_args_Inr [simp]: "malformed_args (Inr a) = Inr a"
  by simp

text \<open>The flag that comes with a time limit is the one the command has already.\<close>

lemma set_own_timeout:
  assumes "opt (action_args a) ''blocking'' False dbool = Inr b"
  shows "set_hard_timeout t b (fresh_event (Act a)) = (fresh_event (Act a))\<lparr>raw_timeout := t\<rparr>"
  using assms by (cases a) (simp_all add: set_hard_timeout_def fresh_event_def opt_def)

lemma blocking_decodes: "\<exists>b. opt (action_args a) ''blocking'' False dbool = Inr b"
  by (cases a) (auto simp: opt_def intro: exI [of _ False])

lemma action_from_dict_args:
  assumes "valid_action a" and "map_of d ''action'' = Some (JStr (action_type a))"
    and "map_of d ''args'' = Some (JDict (action_args a))"
    and "map_of d ''timeout'' = map_option JFloat t"
  shows "action_from_dict version literal_eval d = Inr ((fresh_event (Act a))\<lparr>raw_timeout := t\<rparr>)"
proof -
  obtain cls where cls: "map_of (ACTION_TYPE_TO_CLASS version) (action_type a) = Some cls"
      "cls (action_args a) = Inr a"
    using make_action [OF assms(1)] by blast
  obtain b where b: "opt (action_args a) ''blocking'' False dbool = Inr b"
    using blocking_decodes by blast
  have args: "opt d ''args'' [] ddict = Inr (action_args a)"
    by (simp add: opt_def assms(3))
  have pop: "dict_pop ''timestamp'' (action_args a) = (None, action_args a)"
    by (simp add: dict_pop_def no_deprecated_args)
  have timed: "set_timeout_key d (action_args a) a = Inr ((fresh_event (Act a))\<lparr>raw_timeout := t\<rparr>)"
    by (cases t) (simp_all add: set_timeout_key_def assms(4) b dopt_def set_own_timeout [OF b],
        simp add: fresh_event_def)
  show ?thesis
    by (simp add: action_from_dict_def assms(2) cls args pop no_deprecated_args timed set_arg_timestamp_def)
qed

lemmas observation_makers = make_simple_def make_cmd_output_def make_ipython_output_def
  make_browser_output_def make_file_read_def make_file_write_def make_file_edit_def
  make_delegate_output_def make_error_def make_state_changed_def make_mcp_output_def
  make_download_def make_tasks_def make_recall_output_def

definition valid_observation :: "observation \<Rightarrow> bool" where
  "valid_observation ob = (case ob of
     CmdOutputObservation c _ _ h \<Rightarrow> h \<or> maybe_truncate c = c | _ \<Rightarrow> True)"

lemma make_metadata_dump [simp]: "make_metadata (metadata_dump m) = Inr m"
  by (simp add: make_metadata_def metadata_dump_def opt_def)

lemma make_knowledge_dict [simp]: "make_knowledge (knowledge_dict k) = Inr k"
  by (auto simp: knowledge_dict_def arg_def)

lemma traverse_knowledge [simp]: "traverse make_knowledge (map knowledge_dict ks) = Inr ks"
  by (rule traverse_map) simp

lemma convert_recall_extras:
  "convert_recall (recall_extras r) = Inr (Some (rc_recall_type r))"
  by (cases "rc_recall_type r") (simp_all add: convert_recall_def recall_extras_def denum_def)

lemma make_recall_extras: "make_recall_output c (recall_extras r) = Inr (RecallObservation c r)"
  unfolding make_recall_output_def convert_recall_extras
  by (simp add: recall_extras_def construct_def opt_def)

lemma make_browser_extras: "make_browser_output c (browser_extras b) = Inr (BrowserOutputObservation c b)"
  by (simp add: make_browser_output_def browser_extras_def construct_def opt_def arg_def)

lemma make_observation:
  assumes "valid_observation ob"
  shows "\<exists>cls. map_of OBSERVATION_TYPE_TO_CLASS (observation_type ob) = Some cls \<and>
    cls (o_content ob) (observation_extras ob) = Inr ob"
proof (cases "(\<exists>c r. ob = RecallObservation c r) \<or> (\<exists>c b. ob = BrowserOutputObservation c b)")
  case True
  then show ?thesis
    by (auto simp: OBSERVATION_TYPE_TO_CLASS_def make_recall_extras make_browser_extras)
next
  case False
  with assms show ?thesis
    by (cases ob)
      (auto simp: OBSERVATION_TYPE_TO_CLASS_def observation_makers construct_def arg_def opt_def
        valid_observation_def)
qed

lemma no_deprecated_extras:
  "handle_observation_deprecated_extras (observation_extras ob) = observation_extras ob"
  by (cases ob) (simp_all add: handle_observation_deprecated_extras_def recall_extras_def browser_extras_def)

lemma observation_from_dict_extras:
  assumes "valid_observation ob" and "map_of d ''observation'' = Some (JStr (observation_type ob))"
    and "map_of d ''content'' = Some (JStr (o_content ob))"
    and "map_of d ''extras'' = Some (JDict (observation_extras ob))"
  shows "observation_from_dict d = Inr (fresh_event (Obs ob))"
proof -
  obtain cls where cls: "map_of OBSERVATION_TYPE_TO_CLASS (observation_type ob) = Some cls"
      "cls (o_content ob) (observation_extras ob) = Inr ob"
    using make_observation [OF assms(1)] by blast
  then show ?thesis
    using assms(2-4) by (simp add: observation_from_dict_def opt_def no_deprecated_extras)
qed

section \<open>Attributes of the stream\<close>

lemma make_cost_dict [simp]: "make_cost (cost_dict c) = Inr c"
  by (simp add: make_cost_def cost_dict_def field_def)

lemma make_latency_dict [simp]: "make_latency (latency_dict l) = Inr l"
  by (simp add: make_latency_def latency_dict_def field_def)

lemma make_usage_dict [simp]: "make_usage (usage_dict u) = Inr u"
  by (simp add: make_usage_def usage_dict_def opt_def)

lemma traverse_dicts [simp]:
  "traverse make_cost (map cost_dict cs) = Inr cs"
  "traverse make_latency (map latency_dict ls) = Inr ls"
  "traverse make_usage (map usage_dict us) = Inr us"
  by (rule traverse_map; simp)+

lemma make_metrics_dict:
  "0 \<le> accumulated_cost m \<Longrightarrow>
     make_metrics (JDict (metrics_dict m)) = Inr (m\<lparr>metrics_model_name := ''default''\<rparr>)"
  by (simp add: make_metrics_def metrics_dict_def opt_def set_accumulated_cost_def
      default_metrics_def new_metrics_def)

lemma make_tool_call_dict [simp]: "make_tool_call (tool_call_dict t) = Inr t"
  by (simp add: make_tool_call_def tool_call_dict_def field_def)

lemma dsource_value [simp]: "dsource (JStr (source_value s)) = Inr s"
  by (cases s) (simp_all add: dsource_def denum_def)

lemma map_of_some_key:
  "map_of (some_key k f x) q = (if q = k then map_option f x else None)"
  by (cases x) (simp_all add: some_key_def)

definition storable :: "event \<Rightarrow> bool" where
  "storable e \<longleftrightarrow> raw_id e \<noteq> Some INVALID_ID \<and>
     (\<forall>m. raw_llm_metrics e = Some m \<longrightarrow> 0 \<le> accumulated_cost m) \<and>
     (case payload e of Act a \<Rightarrow> valid_action a | Obs ob \<Rightarrow> valid_observation ob)"

lemma event_id_key:
  "raw_id e \<noteq> Some INVALID_ID \<Longrightarrow>
     (if event_id e = INVALID_ID then [] else [(''id'', JInt (event_id e))]) = some_key ''id'' JInt (raw_id e)"
  by (cases "raw_id e") (auto simp: event_id_def some_key_def)

text \<open>The shape of the dictionary, and where each key comes from.\<close>

definition dict_of :: "string \<Rightarrow> string \<times> json \<Rightarrow> json_dict \<Rightarrow> event \<Rightarrow> json_dict" where
  "dict_of msg kind rest e =
     some_key ''id'' JInt (raw_id e) @ some_key ''timestamp'' JStr (raw_timestamp e) @
     some_key ''source'' (\<lambda>s. JStr (source_value s)) (raw_source e) @ [(''message'', JStr msg)] @
     some_key ''cause'' JInt (raw_cause e) @ [kind] @
     some_key ''tool_call_metadata'' tool_call_dict (raw_tool_call_metadata e) @
     some_key ''llm_metrics'' (\<lambda>m. JDict (metrics_dict m)) (raw_llm_metrics e) @ rest"

definition success_of :: "observation \<Rightarrow> bool option" where
  "success_of ob = (case ob of CmdOutputObservation _ _ m _ \<Rightarrow> Some (md_exit_code m = 0)
     | IPythonRunCellObservation _ _ _ \<Rightarrow> Some True | _ \<Rightarrow> None)"

lemma event_to_dict_Act:
  "payload e = Act a \<Longrightarrow> raw_id e \<noteq> Some INVALID_ID \<Longrightarrow> event_to_dict py_repr e =
     bindE (action_message py_repr a) (\<lambda>msg. Inr (dict_of msg (''action'', JStr (action_type a))
       ((''args'', JDict (action_args a)) # some_key ''timeout'' JFloat (raw_timeout e)) e))"
  by (simp add: event_to_dict_def dict_of_def event_message_def Let_def event_id_key)

lemma event_to_dict_Obs:
  "payload e = Obs ob \<Longrightarrow> raw_id e \<noteq> Some INVALID_ID \<Longrightarrow> event_to_dict py_repr e =
     Inr (dict_of (observation_message ob) (''observation'', JStr (observation_type ob))
       ((''content'', JStr (o_content ob)) # (''extras'', JDict (observation_extras ob)) #
        some_key ''success'' JBool (success_of ob)) e)"
  by (cases ob)
    (simp_all add: event_to_dict_def dict_of_def event_message_def Let_def event_id_key success_of_def
      some_key_def)

lemma dict_of_kind:
  "fst kind = k \<Longrightarrow> k \<notin> {''id'', ''timestamp'', ''source'', ''message'', ''cause''} \<Longrightarrow>
     map_of (dict_of msg kind rest e) k = Some (snd kind)"
  by (cases kind) (simp add: dict_of_def map_add_def map_of_some_key)

lemma dict_of_rest:
  "k \<notin> {''id'', ''timestamp'', ''source'', ''message'', ''cause'', fst kind, ''tool_call_metadata'',
         ''llm_metrics''} \<Longrightarrow> map_of (dict_of msg kind rest e) k = map_of rest k"
  by (cases kind) (simp add: dict_of_def map_add_def map_of_some_key split: option.splits)

lemma dict_of_attributes:
  assumes "fst kind \<in> {''action'', ''observation''}"
    and "fst ` set rest \<subseteq> {''args'', ''timeout'', ''content'', ''extras'', ''success''}"
  shows "map_of (dict_of msg kind rest e) ''id'' = map_option JInt (raw_id e)"
    and "map_of (dict_of msg kind rest e) ''timestamp'' = map_option JStr (raw_timestamp e)"
    and "map_of (dict_of msg kind rest e) ''source'' = map_option (\<lambda>s. JStr (source_value s)) (raw_source e)"
    and "map_of (dict_of msg kind rest e) ''cause'' = map_option JInt (raw_cause e)"
    and "map_of (dict_of msg kind rest e) ''tool_call_metadata'' =
      map_option tool_call_dict (raw_tool_call_metadata e)"
    and "map_of (dict_of msg kind rest e) ''llm_metrics'' =
      map_option (\<lambda>m. JDict (metrics_dict m)) (raw_llm_metrics e)"
proof -
  have none: "map_of rest ''id'' = None" "map_of rest ''timestamp'' = None"
      "map_of rest ''source'' = None" "map_of rest ''cause'' = None"
      "map_of rest ''tool_call_metadata'' = None" "map_of rest ''llm_metrics'' = None"
    using assms(2) by (auto simp: map_of_eq_None_iff)
  obtain n v where kind: "kind = (n, v)" by (cases kind)
  with assms(1) consider "n = ''action''" | "n = ''observation''" by auto
  then show "map_of (dict_of msg kind rest e) ''id'' = map_option JInt (raw_id e)"
    and "map_of (dict_of msg kind rest e) ''timestamp'' = map_option JStr (raw_timestamp e)"
    and "map_of (dict_of msg kind rest e) ''source'' = map_option (\<lambda>s. JStr (source_value s)) (raw_source e)"
    and "map_of (dict_of msg kind rest e) ''cause'' = map_option JInt (raw_cause e)"
    and "map_of (dict_of msg kind rest e) ''tool_call_metadata'' =
      map_option tool_call_dict (raw_tool_call_metadata e)"
    and "map_of (dict_of msg kind rest e) ''llm_metrics'' =
      map_option (\<lambda>m. JDict (metrics_dict m)) (raw_llm_metrics e)"
    by (cases; simp add: dict_of_def kind map_add_def map_of_some_key none split: option.split)+
qed

lemma set_underscore_keys_dict:
  assumes "map_of d ''id'' = map_option JInt (raw_id e)"
    and "map_of d ''timestamp'' = map_option JStr (raw_timestamp e)"
    and "map_of d ''source'' = map_option (\<lambda>s. JStr (source_value s)) (raw_source e)"
    and "map_of d ''cause'' = map_option JInt (raw_cause e)"
    and "map_of d ''tool_call_metadata'' = map_option tool_call_dict (raw_tool_call_metadata e)"
    and "map_of d ''llm_metrics'' = map_option (\<lambda>m. JDict (metrics_dict m)) (raw_llm_metrics e)"
    and "\<And>m. raw_llm_metrics e = Some m \<Longrightarrow> 0 \<le> accumulated_cost m"
    and "payload e = p"
  shows "set_underscore_keys d ((fresh_event p)\<lparr>raw_timeout := t\<rparr>) =
    Inr (e\<lparr>raw_timeout := t, raw_response_id := None, raw_confirmation := None,
           raw_llm_metrics := map_option (\<lambda>m. m\<lparr>metrics_model_name := ''default''\<rparr>) (raw_llm_metrics e)\<rparr>)"
proof -
  have i: "opt d ''id'' None (dopt dint) = Inr (raw_id e)"
    using assms(1) by (cases "raw_id e") (simp_all add: opt_def dopt_def)
  have ts: "opt d ''timestamp'' None (dopt dstr) = Inr (raw_timestamp e)"
    using assms(2) by (cases "raw_timestamp e") (simp_all add: opt_def dopt_def)
  have s: "opt d ''source'' None (\<lambda>v. bindD (dsource v) (\<lambda>s. Inr (Some s))) = Inr (raw_source e)"
    using assms(3) by (cases "raw_source e") (simp_all add: opt_def)
  have c: "opt d ''cause'' None (dopt dint) = Inr (raw_cause e)"
    using assms(4) by (cases "raw_cause e") (simp_all add: opt_def dopt_def)
  have tc: "opt d ''tool_call_metadata'' None (\<lambda>v. bindD (make_tool_call v) (\<lambda>t. Inr (Some t))) =
      Inr (raw_tool_call_metadata e)"
    using assms(5) by (cases "raw_tool_call_metadata e") (simp_all add: opt_def)
  have m: "opt d ''llm_metrics'' None (\<lambda>v. bindD (make_metrics v) (\<lambda>m. Inr (Some m))) =
      Inr (map_option (\<lambda>m. m\<lparr>metrics_model_name := ''default''\<rparr>) (raw_llm_metrics e))"
    using assms(6,7) by (cases "raw_llm_metrics e") (simp_all add: opt_def make_metrics_dict)
  show ?thesis
    using assms(8) by (simp add: set_underscore_keys_def fresh_event_def i ts s c tc m)
qed

section \<open>The round trip\<close>

text \<open>Writing an event and reading it again gives its stored form.\<close>

lemma from_dict_to_dict:
  assumes "storable e" and "event_to_dict py_repr e = Inr d"
  shows "event_from_dict version literal_eval d = Inr (stored_form e)"
proof -
  have id: "raw_id e \<noteq> Some INVALID_ID"
    and cost: "\<And>m. raw_llm_metrics e = Some m \<Longrightarrow> 0 \<le> accumulated_cost m"
    using assms(1) by (auto simp: storable_def)
  show ?thesis
  proof (cases "payload e")
    case (Act a)
    with assms(1) have a: "valid_action a" by (simp add: storable_def)
    let ?rest = "(''args'', JDict (action_args a)) # some_key ''timeout'' JFloat (raw_timeout e)"
    obtain msg where d: "d = dict_of msg (''action'', JStr (action_type a)) ?rest e"
      using assms(2) by (auto simp: event_to_dict_Act [OF Act id] bindE_Inr_iff)
    have k: "map_of d ''action'' = Some (JStr (action_type a))"
      by (simp add: d dict_of_kind)
    have act: "action_from_dict version literal_eval d = Inr ((fresh_event (Act a))\<lparr>raw_timeout := raw_timeout e\<rparr>)"
      by (rule action_from_dict_args [OF a k]) (simp_all add: d dict_of_rest map_of_some_key)
    have keys: "set_underscore_keys d ((fresh_event (Act a))\<lparr>raw_timeout := raw_timeout e\<rparr>) = Inr (stored_form e)"
      unfolding d
      by (subst set_underscore_keys_dict [OF dict_of_attributes cost])
        (auto simp: Act stored_form_def is_action_def some_key_def split: option.splits)
    from k have "has_key d ''action''" by (simp add: has_key_map_of)
    then show ?thesis by (simp add: event_from_dict_def act keys)
  next
    case (Obs ob)
    with assms(1) have ob: "valid_observation ob" by (simp add: storable_def)
    let ?rest = "(''content'', JStr (o_content ob)) # (''extras'', JDict (observation_extras ob)) #
        some_key ''success'' JBool (success_of ob)"
    have d: "d = dict_of (observation_message ob) (''observation'', JStr (observation_type ob)) ?rest e"
      using assms(2) by (simp add: event_to_dict_Obs [OF Obs id])
    have k: "map_of d ''observation'' = Some (JStr (observation_type ob))"
      by (simp add: d dict_of_kind)
    have n: "map_of d ''action'' = None"
      by (simp add: d dict_of_rest map_of_some_key)
    have act: "observation_from_dict d = Inr (fresh_event (Obs ob))"
      by (rule observation_from_dict_extras [OF ob k]) (simp_all add: d dict_of_rest)
    have fresh: "fresh_event (Obs ob) = (fresh_event (Obs ob))\<lparr>raw_timeout := None\<rparr>"
      by (simp add: fresh_event_def)
    have keys: "set_underscore_keys d (fresh_event (Obs ob)) = Inr (stored_form e)"
      unfolding d
      by (subst fresh, subst set_underscore_keys_dict [OF dict_of_attributes cost])
        (auto simp: Obs stored_form_def is_action_def some_key_def split: option.splits)
    from k n have "has_key d ''observation''" "\<not> has_key d ''action''" by (simp_all add: has_key_map_of)
    then show ?thesis by (simp add: event_from_dict_def act keys)
  qed
qed

section \<open>What decoding guarantees\<close>

lemma maybe_truncate_idem [simp]: "maybe_truncate (maybe_truncate c) = maybe_truncate c"
proof (cases "length c \<le> MAX_CMD_OUTPUT_SIZE")
  case True
  then show ?thesis by (simp add: maybe_truncate_def)
next
  case False
  define h where "h = MAX_CMD_OUTPUT_SIZE div 2"
  have h: "h \<le> length c" "h + h = MAX_CMD_OUTPUT_SIZE" "0 < length TRUNCATED"
    using False by (simp_all add: h_def MAX_CMD_OUTPUT_SIZE_def TRUNCATED_def)
  have cut: "maybe_truncate c = take h c @ TRUNCATED @ drop (length c - h) c"
    using False by (simp add: maybe_truncate_def h_def Let_def)
  have len: "length (maybe_truncate c) = h + length TRUNCATED + h"
    using h by (simp add: cut)
  have "maybe_truncate (maybe_truncate c) =
      take h (maybe_truncate c) @ TRUNCATED @ drop (length (maybe_truncate c) - h) (maybe_truncate c)"
  proof -
    have "\<not> length (maybe_truncate c) \<le> MAX_CMD_OUTPUT_SIZE" using h(2,3) len by linarith
    then show ?thesis unfolding maybe_truncate_def [of "maybe_truncate c"] by (simp add: h_def Let_def)
  qed
  also have "\<dots> = maybe_truncate c"
    using h by (simp add: len) (simp add: cut)
  finally show ?thesis .
qed

lemma made_action_valid:
  assumes "map_of (ACTION_TYPE_TO_CLASS version) name = Some cls" and "cls d = Inr a"
  shows "valid_action a"
proof (cases "cls = make_condensation")
  case True
  with assms(2) show ?thesis
    by (auto simp: make_condensation_def construct_def bindD_Inr_iff new_condensation_def valid_action_def
        split: if_splits)
next
  case False
  have "(name, cls) \<in> set (ACTION_TYPE_TO_CLASS version)"
    using assms(1) by (rule map_of_SomeD)
  with False have "cls \<in> {make_null, make_run, make_run_ipython, make_browse, make_browse_interactive,
      make_read, make_write, make_edit, make_think, make_finish, make_reject, make_delegate,
      make_recall, make_change_agent_state, make_message, make_system version,
      make_condensation_request, make_mcp, make_task_tracking, make_loop_recovery}"
    by (auto simp: ACTION_TYPE_TO_CLASS_def)
  with assms(2) show ?thesis
    by (elim insertE emptyE; clarsimp simp: action_makers construct_def bindD_Inr_iff valid_action_def
        split: if_splits)
qed

lemma valid_after_timeout:
  "payload e = Act a \<Longrightarrow> valid_action a \<Longrightarrow> \<exists>b. payload (set_hard_timeout t f e) = Act b \<and> valid_action b"
  by (cases a) (auto simp: set_hard_timeout_def valid_action_def)

lemma malformed_args_InrD: "malformed_args r = Inr a \<Longrightarrow> r = Inr a"
  by (cases r rule: malformed_args.cases) simp_all

lemma malformed_args_Inr_iff: "malformed_args r = Inr a \<longleftrightarrow> r = Inr a"
  by (metis malformed_args_InrD malformed_args_Inr)

text \<open>An event as it comes out of a constructor.\<close>

definition newly_made :: "event \<Rightarrow> bool" where
  "newly_made e \<longleftrightarrow> raw_id e = None \<and> raw_llm_metrics e = None \<and> raw_response_id e = None \<and>
     raw_confirmation e = None \<and> (is_observation e \<longrightarrow> raw_timeout e = None) \<and>
     (case payload e of Act a \<Rightarrow> valid_action a | Obs ob \<Rightarrow> valid_observation ob)"

lemma newly_made_timeout:
  assumes "valid_action a"
  shows "newly_made (set_hard_timeout t b (fresh_event (Act a)))"
proof -
  obtain c where "payload (set_hard_timeout t b (fresh_event (Act a))) = Act c" "valid_action c"
    using valid_after_timeout [of "fresh_event (Act a)" a t b] assms by (auto simp: fresh_event_def)
  then show ?thesis
    by (simp add: newly_made_def is_observation_def) (simp add: set_hard_timeout_def fresh_event_def)
qed

lemma action_from_dict_made:
  assumes "action_from_dict version literal_eval d = Inr e"
  shows "newly_made e"
proof -
  obtain name cls where name: "map_of (ACTION_TYPE_TO_CLASS version) name = Some cls"
      "map_of d ''action'' = Some (JStr name)"
    using assms by (auto simp: action_from_dict_def split: option.splits json.splits)
  obtain args timestamp a e1 where a: "cls args = Inr a" and e1: "set_timeout_key d args a = Inr e1"
    and e: "set_arg_timestamp timestamp e1 = Inr e"
    using assms by (auto simp: action_from_dict_def name bindD_Inr_iff malformed_args_Inr_iff dict_pop_def)
  have v: "valid_action a" using made_action_valid [OF name(1) a] .
  have "newly_made e1"
  proof (cases "map_of d ''timeout''")
    case None
    with e1 v show ?thesis
      by (auto simp: set_timeout_key_def newly_made_def fresh_event_def is_observation_def)
  next
    case (Some w)
    with e1 v show ?thesis by (auto simp: set_timeout_key_def bindD_Inr_iff newly_made_timeout)
  qed
  moreover have "e = e1 \<or> (\<exists>ts. e = e1\<lparr>raw_timestamp := Some ts\<rparr>)"
    using e by (auto simp: set_arg_timestamp_def bindD_Inr_iff split: option.splits if_splits)
  ultimately show ?thesis by (auto simp: newly_made_def is_observation_def)
qed

lemma made_observation_valid:
  assumes "map_of OBSERVATION_TYPE_TO_CLASS name = Some cls" and "cls c d = Inr ob"
  shows "valid_observation ob"
proof (cases "cls = make_cmd_output")
  case True
  with assms(2) show ?thesis
    by (auto simp: make_cmd_output_def construct_def bindD_Inr_iff valid_observation_def split: if_splits)
next
  case False
  have "(name, cls) \<in> set OBSERVATION_TYPE_TO_CLASS"
    using assms(1) by (rule map_of_SomeD)
  with False have "cls \<in> {make_simple ''null'' NullObservation, make_ipython_output, make_browser_output,
      make_file_read, make_file_write, make_file_edit, make_delegate_output,
      make_simple ''success'' SuccessObservation, make_error, make_state_changed,
      make_simple ''user_rejected'' UserRejectObservation,
      make_simple ''condense'' AgentCondensationObservation, make_simple ''think'' AgentThinkObservation,
      make_recall_output, make_mcp_output, make_download, make_tasks,
      make_simple ''loop_detection'' LoopDetectionObservation}"
    by (auto simp: OBSERVATION_TYPE_TO_CLASS_def)
  with assms(2) show ?thesis
    by (elim insertE emptyE; clarsimp simp: observation_makers construct_def bindD_Inr_iff
        valid_observation_def split: if_splits)
qed

lemma observation_from_dict_made:
  assumes "observation_from_dict d = Inr e"
  shows "newly_made e"
proof -
  obtain name cls c x ob where "map_of OBSERVATION_TYPE_TO_CLASS name = Some cls" "cls c x = Inr ob"
      and e: "e = fresh_event (Obs ob)"
    using assms by (auto simp: observation_from_dict_def bindD_Inr_iff split: option.splits json.splits)
  then have "valid_observation ob" by (blast intro: made_observation_valid)
  with e show ?thesis by (simp add: newly_made_def fresh_event_def)
qed

lemma make_metrics_ok:
  "make_metrics v = Inr m \<Longrightarrow> 0 \<le> accumulated_cost m \<and> metrics_model_name m = ''default''"
  by (auto simp: make_metrics_def bindD_Inr_iff set_accumulated_cost_def default_metrics_def
      new_metrics_def split: json.splits if_splits sum.splits)

text \<open>Every decoded event can be stored, and is its own stored form.\<close>

lemma decoded_storable:
  assumes "event_from_dict version literal_eval d = Inr e" and "raw_id e \<noteq> Some INVALID_ID"
  shows "storable e" and "stored_form e = e"
proof -
  obtain e0 where e0: "newly_made e0" and e: "set_underscore_keys d e0 = Inr e"
    using assms(1)
    by (auto simp: event_from_dict_def bindD_Inr_iff dest: action_from_dict_made observation_from_dict_made
        split: if_splits)
  obtain i ts s c t m where m: "opt d ''llm_metrics'' (raw_llm_metrics e0)
       (\<lambda>v. bindD (make_metrics v) (\<lambda>m. Inr (Some m))) = Inr m"
    and e': "e = e0\<lparr>raw_id := i, raw_timestamp := ts, raw_source := s, raw_cause := c,
            raw_tool_call_metadata := t, raw_llm_metrics := m\<rparr>"
    using e by (auto simp: set_underscore_keys_def bindD_Inr_iff)
  have m_ok: "\<forall>x. m = Some x \<longrightarrow> 0 \<le> accumulated_cost x \<and> metrics_model_name x = ''default''"
    using m e0 by (auto simp: opt_def newly_made_def bindD_Inr_iff make_metrics_ok split: option.splits)
  show "storable e"
    using e0 assms(2) m_ok by (simp add: storable_def e' newly_made_def)
  show "stored_form e = e"
    using e0 m_ok
    by (cases m) (auto simp: stored_form_def e' newly_made_def is_action_def is_observation_def
        intro: event.equality)
qed

text \<open>Only two classes have a message that can raise.\<close>

lemma event_to_dict_total:
  assumes "storable e" and "\<And>outs t v. payload e = Act (AgentRejectAction outs t) \<Longrightarrow>
      map_of outs ''reason'' = Some v \<Longrightarrow> \<exists>s. v = JStr s"
  obtains d where "event_to_dict py_repr e = Inr d"
proof (cases "payload e")
  case (Act a)
  have id: "raw_id e \<noteq> Some INVALID_ID" using assms(1) by (simp add: storable_def)
  have "\<exists>msg. action_message py_repr a = Inr msg"
  proof (cases a)
    case (AgentRejectAction outs t)
    show ?thesis
    proof (cases "map_of outs ''reason''")
      case None
      then show ?thesis by (simp add: AgentRejectAction)
    next
      case (Some v)
      then obtain s where "v = JStr s" using assms(2) Act AgentRejectAction by blast
      with Some show ?thesis by (simp add: AgentRejectAction)
    qed
  next
    case (CondensationAction "is" s e' m off)
    with assms(1) Act have "condensation_valid is s e' m off"
      by (simp add: storable_def valid_action_def)
    then have "new_condensation is s e' m off = Inr a"
      by (simp add: new_condensation_def CondensationAction)
    then obtain ids where "forgotten a = Inr ids" using forgotten_new by blast
    then show ?thesis
      by (auto simp: CondensationAction simp del: forgotten.simps split: option.split list.split)
  qed simp_all
  then show thesis using that by (auto simp: event_to_dict_Act [OF Act id])
next
  case (Obs ob)
  have "raw_id e \<noteq> Some INVALID_ID" using assms(1) by (simp add: storable_def)
  then show thesis using that by (simp add: event_to_dict_Obs [OF Obs])
qed

text \<open>The dictionary of an event that has an id names it.\<close>

lemma event_dict_id:
  assumes "event_to_dict py_repr e = Inr d" and "raw_id e = Some i" and "i \<noteq> INVALID_ID"
  shows "map_of d ''id'' = Some (JInt i)"
proof -
  have id: "raw_id e \<noteq> Some INVALID_ID" using assms(2,3) by simp
  show ?thesis
  proof (cases "payload e")
    case (Act a)
    with assms(1,2) show ?thesis
      by (auto simp: event_to_dict_Act [OF Act id] bindE_Inr_iff dict_of_def some_key_def)
  next
    case (Obs ob)
    with assms(1,2) show ?thesis
      by (auto simp: event_to_dict_Obs [OF Obs id] dict_of_def some_key_def)
  qed
qed

section \<open>Trajectories and long content\<close>

text \<open>\<open>remove_fields\<close>: at every depth.\<close>

fun remove_fields :: "string list \<Rightarrow> json \<Rightarrow> json" where
  "remove_fields names (JDict d) =
     JDict (filter (\<lambda>(k, v). k \<notin> set names) (map (\<lambda>(k, v). (k, remove_fields names v)) d))"
| "remove_fields names (JList xs) = JList (map (remove_fields names) xs)"
| "remove_fields names v = v"

definition DELETE_FROM_TRAJECTORY_EXTRAS :: "string list" where
  "DELETE_FROM_TRAJECTORY_EXTRAS =
     [''dom_object'', ''axtree_object'', ''active_page_index'', ''last_browser_action'',
      ''last_browser_action_error'', ''focused_element_bid'', ''extra_element_properties'']"

definition event_to_trajectory :: "(json \<Rightarrow> string) \<Rightarrow> bool \<Rightarrow> event \<Rightarrow> json_dict result" where
  "event_to_trajectory py_repr include_screenshots e =
     bindE (event_to_dict py_repr e) (\<lambda>d. Inr (map (\<lambda>(k, v).
       (k, if k = ''extras''
           then remove_fields (DELETE_FROM_TRAJECTORY_EXTRAS @
                  (if include_screenshots then [] else [''screenshot'', ''set_of_marks''])) v
           else v)) d))"

text \<open>The keys of a value, at every depth.\<close>

fun all_keys :: "json \<Rightarrow> string set" where
  "all_keys (JDict d) = (\<Union>(k, v) \<in> set d. insert k (all_keys v))"
| "all_keys (JList xs) = (\<Union>v \<in> set xs. all_keys v)"
| "all_keys v = {}"

lemma remove_fields_gone: "all_keys (remove_fields names v) \<inter> set names = {}"
proof (induction names v rule: remove_fields.induct)
  case (1 names d)
  then show ?case by (auto split: prod.splits) blast
next
  case (2 names xs)
  then show ?case by auto
qed auto

definition truncate_content :: "int option \<Rightarrow> string \<Rightarrow> string" where
  "truncate_content max_chars content = (case max_chars of
     None \<Rightarrow> content
   | Some n \<Rightarrow>
       if int (length content) \<le> n \<or> n < 0 then content
       else let half = n div 2
            in slice_to content half @ TRUNCATED @ slice_from content (- half))"

text \<open>Never longer than the limit and the marker, unless the limit is 0 or 1: then \<open>-half\<close> is 0
  and the whole content follows the marker.\<close>

lemma truncate_content_length:
  assumes "max_chars = Some n" and "2 \<le> n"
  shows "int (length (truncate_content max_chars content)) \<le> n + int (length TRUNCATED)"
proof -
  define h where "h = nat (n div 2)"
  have n: "n div 2 = int h" "0 < h" "int h + int h \<le> n" using assms(2) by (simp_all add: h_def)
  show ?thesis
  proof (cases "int (length content) \<le> n")
    case True
    then show ?thesis by (simp add: truncate_content_def assms(1))
  next
    case False
    with assms n(3) show ?thesis
      by (simp add: truncate_content_def n(1) slice_from_neg [OF n(2)])
  qed
qed

lemma truncate_content_tiny:
  assumes "n = 0 \<or> n = 1" and "n < int (length content)"
  shows "truncate_content (Some n) content = TRUNCATED @ content"
  using assms by (auto simp: truncate_content_def slice_to_def slice_index_def)

end
