(* ===== verification/Event_Store.thy ===== *)
theory Event_Store
  imports Event_Dict Storage
begin

text \<open>
  The files behind the event stream (\<open>openhands/events/stream.py\<close>, \<open>event_store.py\<close>): one file per
  event, pages of \<open>cache_size\<close> events as a cache, the next id, the masking of secrets, and the
  search that reads them. It refines the list of events of Event_Log.

  A file holds the JSON value its text stands for. Events are decoded by \<open>event_from_dict\<close>; the
  parameters of decoding and encoding are collected in a record. The process is not shutting down
  (\<open>should_continue()\<close>), and a search is evaluated as a whole.
\<close>

section \<open>Masking secrets\<close>

text \<open>\<open>s.replace(old, new)\<close>.\<close>

function replace_found :: "string \<Rightarrow> string \<Rightarrow> string \<Rightarrow> string" where
  "replace_found old new [] = []"
| "replace_found old new (c # s) =
     (if old \<noteq> [] \<and> prefix old (c # s) then new @ replace_found old new (drop (length old) (c # s))
      else c # replace_found old new s)"
  by pat_completeness auto

termination by (relation "measure (\<lambda>(old, new, s). length s)") auto

definition py_replace :: "string \<Rightarrow> string \<Rightarrow> string \<Rightarrow> string" where
  "py_replace old new s =
     (if old = [] then new @ concat (map (\<lambda>c. c # new) s) else replace_found old new s)"

definition SECRET_HIDDEN :: string where
  "SECRET_HIDDEN = ''<secret_hidden>''"

definition mask_text :: "string list \<Rightarrow> string \<Rightarrow> string" where
  "mask_text secrets s = fold (\<lambda>secret t. py_replace secret SECRET_HIDDEN t) secrets s"

text \<open>\<open>_replace_secrets\<close> below the top level: dictionaries and strings, not lists.\<close>

fun mask_value :: "string list \<Rightarrow> json \<Rightarrow> json" where
  "mask_value secrets (JDict d) = JDict (map (\<lambda>(k, v). (k, mask_value secrets v)) d)"
| "mask_value secrets (JStr s) = JStr (mask_text secrets s)"
| "mask_value secrets v = v"

definition TOP_LEVEL_PROTECTED_FIELDS :: "string list" where
  "TOP_LEVEL_PROTECTED_FIELDS =
     [''timestamp'', ''id'', ''source'', ''cause'', ''action'', ''observation'', ''message'']"

definition replace_secrets :: "string list \<Rightarrow> json_dict \<Rightarrow> json_dict" where
  "replace_secrets secrets d =
     map (\<lambda>(k, v). (k, if k \<in> set TOP_LEVEL_PROTECTED_FIELDS then v else mask_value secrets v)) d"

section \<open>The stream\<close>

record codec =
  py_repr :: "json \<Rightarrow> string"
  version :: string
  literal_eval :: "string \<Rightarrow> json option"

abbreviation encode :: "codec \<Rightarrow> event \<Rightarrow> json_dict result" where
  "encode cd \<equiv> event_to_dict (py_repr cd)"

abbreviation decode :: "codec \<Rightarrow> json_dict \<Rightarrow> event decoded" where
  "decode cd \<equiv> event_from_dict (version cd) (literal_eval cd)"

record event_stream =
  es_sid :: string
  es_user_id :: "string option"
  es_files :: "json mem_store"
  es_cur_id :: "int option"
  es_write_page :: "json_dict list"
  es_secrets :: "(string, string) dict"
  es_queue :: "event list"
  es_cache_size :: nat

definition new_event_stream :: "string \<Rightarrow> string option \<Rightarrow> json mem_store \<Rightarrow> event_stream" where
  "new_event_stream sid uid files =
     \<lparr>es_sid = sid, es_user_id = uid, es_files = files, es_cur_id = None, es_write_page = [],
      es_secrets = [], es_queue = [], es_cache_size = 25\<rparr>"

definition event_file :: "event_stream \<Rightarrow> int \<Rightarrow> string" where
  "event_file st i = get_conversation_event_filename (es_sid st) i (es_user_id st)"

definition cache_file :: "event_stream \<Rightarrow> int \<Rightarrow> int \<Rightarrow> string" where
  "cache_file st a b = get_conversation_dir (es_sid st) (es_user_id st) @ ''event_cache/'' @
     str_of_int a @ ''-'' @ str_of_int b @ ''.json''"

text \<open>\<open>int(s)\<close>: blanks around it, a sign, digits with single underscores between them.\<close>

definition digit_value :: "char \<Rightarrow> nat option" where
  "digit_value c = (let n = of_char c :: nat in if 48 \<le> n \<and> n \<le> 57 then Some (n - 48) else None)"

fun number_value :: "nat \<Rightarrow> string \<Rightarrow> nat option" where
  "number_value acc [] = Some acc"
| "number_value acc (c # cs) =
     (case digit_value c of None \<Rightarrow> None | Some n \<Rightarrow> number_value (10 * acc + n) cs)"

definition unsigned_value :: "string \<Rightarrow> int option" where
  "unsigned_value s =
     (if [] \<in> set (split_on CHR ''_'' s) then None
      else map_option int (number_value 0 (concat (split_on CHR ''_'' s))))"

definition py_int :: "string \<Rightarrow> int option" where
  "py_int s = (case py_strip s of
     [] \<Rightarrow> None
   | c # cs \<Rightarrow> if c = CHR ''-'' then map_option uminus (unsigned_value cs)
       else if c = CHR ''+'' then unsigned_value cs else unsigned_value (c # cs))"

definition get_id_from_filename :: "string \<Rightarrow> int" where
  "get_id_from_filename filename =
     (case py_int (hd (split_on CHR ''.'' (last (split_on CHR ''/'' filename)))) of
        Some i \<Rightarrow> i | None \<Rightarrow> -1)"

definition calculate_cur_id :: "event_stream \<Rightarrow> int result" where
  "calculate_cur_id st =
     (case mem_list (get_conversation_events_dir (es_sid st) (es_user_id st)) (es_files st) of
        Inl (FileNotFoundError _) \<Rightarrow> Inr 0
      | Inl e \<Rightarrow> Inl e
      | Inr [] \<Rightarrow> Inr 0
      | Inr fs \<Rightarrow> Inr (fold (\<lambda>f m. if get_id_from_filename f \<ge> m then get_id_from_filename f else m)
          fs (-1) + 1))"

definition current_id :: "(event_stream, int) op" where
  "current_id st = (case es_cur_id st of
     Some i \<Rightarrow> (Inr i, st)
   | None \<Rightarrow> (case calculate_cur_id st of
       Inl e \<Rightarrow> (Inl e, st) | Inr i \<Rightarrow> (Inr i, st\<lparr>es_cur_id := Some i\<rparr>)))"

text \<open>\<open>_store_cache_page\<close>: a full page is written under the id of its first event.\<close>

definition store_cache_page :: "json_dict list \<Rightarrow> event_stream \<Rightarrow> event_stream" where
  "store_cache_page page st =
     (if length page < es_cache_size st then st
      else case map_of (hd page) ''id'' of
        Some (JInt start) \<Rightarrow>
          st\<lparr>es_files := mem_write (cache_file st start (start + int (es_cache_size st)))
               (JList (map JDict page)) (es_files st)\<rparr>
      | _ \<Rightarrow> st)"

text \<open>
  \<open>add_event\<close>. The id is taken before the event is encoded: if that raises, the id is gone. The
  first component is the event object with its attributes set.
\<close>

definition add_to_stream ::
  "codec \<Rightarrow> string \<Rightarrow> event \<Rightarrow> event_source \<Rightarrow> event_stream \<Rightarrow> event decoded \<times> event_stream" where
  "add_to_stream cd now e src st0 =
     (if event_id e \<noteq> INVALID_ID
      then (Inl (Raised (ValueError (''Event already has an ID:'' @ str_of_int (event_id e) @
        ''. It was probably added back to the EventStream from inside a handler, triggering a loop.''))), st0)
      else case current_id st0 of
        (Inl x, st) \<Rightarrow> (Inl (Raised x), st)
      | (Inr i, st1) \<Rightarrow>
          let e1 = e\<lparr>raw_timestamp := Some now, raw_source := Some src, raw_id := Some i\<rparr>;
              st = st1\<lparr>es_cur_id := Some (i + 1)\<rparr>
          in case encode cd e1 of
               Inl x \<Rightarrow> (Inl (Raised x), st)
             | Inr d0 \<Rightarrow>
                 let d = replace_secrets (map snd (es_secrets st)) d0
                 in case decode cd d of
                      Inl x \<Rightarrow> (Inl x, st)
                    | Inr e2 \<Rightarrow>
                        let page = es_write_page st @ [d];
                            st2 = st\<lparr>es_write_page := (if length page = es_cache_size st then [] else page),
                                     es_files := mem_write (event_file st (event_id e2)) (JDict d) (es_files st)\<rparr>;
                            st3 = store_cache_page page st2
                        in (Inr e1, st3\<lparr>es_queue := es_queue st3 @ [e2]\<rparr>))"

definition update_secrets :: "(string, string) dict \<Rightarrow> event_stream \<Rightarrow> event_stream" where
  "update_secrets new st = st\<lparr>es_secrets := dict_update (es_secrets st) new\<rparr>"

definition set_secrets :: "(string, string) dict \<Rightarrow> event_stream \<Rightarrow> event_stream" where
  "set_secrets new st = st\<lparr>es_secrets := new\<rparr>"

section \<open>Reading\<close>

definition get_event :: "codec \<Rightarrow> event_stream \<Rightarrow> int \<Rightarrow> event decoded" where
  "get_event cd st i = (case mem_read (event_file st i) (es_files st) of
     Inl x \<Rightarrow> Inl (Raised x)
   | Inr v \<Rightarrow> bindD (ddict v) (decode cd))"

record cache_page =
  pg_events :: "json list option"
  pg_start :: int
  pg_end :: int

definition DUMMY_PAGE :: cache_page where
  "DUMMY_PAGE = \<lparr>pg_events = None, pg_start = 1, pg_end = -1\<rparr>"

definition covers :: "cache_page \<Rightarrow> int \<Rightarrow> bool" where
  "covers p i = (if i < pg_start p then False else if i \<ge> pg_end p then False else True)"

definition page_event :: "codec \<Rightarrow> cache_page \<Rightarrow> int \<Rightarrow> event option decoded" where
  "page_event cd p i = (case pg_events p of
     None \<Rightarrow> Inr None
   | Some [] \<Rightarrow> Inr None
   | Some es \<Rightarrow> (case py_get es (i - pg_start p) of
       Inl x \<Rightarrow> Inl (Raised x)
     | Inr v \<Rightarrow> bindD (bindD (ddict v) (decode cd)) (\<lambda>e. Inr (Some e))))"

text \<open>A page that is not a list of dictionaries has not been written by the stream.\<close>

definition load_cache_page :: "event_stream \<Rightarrow> int \<Rightarrow> int \<Rightarrow> cache_page decoded" where
  "load_cache_page st a b = (case mem_read (cache_file st a b) (es_files st) of
     Inl _ \<Rightarrow> Inr \<lparr>pg_events = None, pg_start = a, pg_end = b\<rparr>
   | Inr (JList es) \<Rightarrow> Inr \<lparr>pg_events = Some es, pg_start = a, pg_end = b\<rparr>
   | Inr JNull \<Rightarrow> Inr \<lparr>pg_events = None, pg_start = a, pg_end = b\<rparr>
   | Inr _ \<Rightarrow> Inl Outside)"

definition load_cache_page_for_index :: "event_stream \<Rightarrow> int \<Rightarrow> cache_page decoded" where
  "load_cache_page_for_index st i =
     (let offset = i mod int (es_cache_size st); first = i - offset
      in load_cache_page st first (first + int (es_cache_size st)))"

text \<open>The event at an index: from the page, or else from its file; nothing if that is missing.\<close>

definition event_at :: "codec \<Rightarrow> event_stream \<Rightarrow> cache_page \<Rightarrow> int \<Rightarrow> (event option \<times> cache_page) decoded" where
  "event_at cd st page i =
     bindD (if covers page i then Inr page else load_cache_page_for_index st i) (\<lambda>page.
     bindD (page_event cd page i) (\<lambda>found.
     case found of
       Some e \<Rightarrow> Inr (Some e, page)
     | None \<Rightarrow> (case get_event cd st i of
         Inr e \<Rightarrow> Inr (Some e, page)
       | Inl (Raised (FileNotFoundError _)) \<Rightarrow> Inr (None, page)
       | Inl x \<Rightarrow> Inl x)))"

text \<open>The loop of \<open>search_events\<close>; \<open>found\<close> counts the results so far.\<close>

fun search_loop ::
  "codec \<Rightarrow> event_stream \<Rightarrow> (event \<Rightarrow> bool) option \<Rightarrow> nat option \<Rightarrow> nat \<Rightarrow> cache_page \<Rightarrow> int list \<Rightarrow>
     event list decoded" where
  "search_loop cd st flt limit found page [] = Inr []"
| "search_loop cd st flt limit found page (i # is) =
     bindD (event_at cd st page i) (\<lambda>(ev, page).
       case ev of
         None \<Rightarrow> search_loop cd st flt limit found page is
       | Some e \<Rightarrow>
           if (case flt of None \<Rightarrow> True | Some p \<Rightarrow> p e)
           then if limit \<noteq> None \<and> limit \<noteq> Some 0 \<and> the limit \<le> found + 1
                then Inr [e]
                else bindD (search_loop cd st flt limit (found + 1) page is) (\<lambda>es. Inr (e # es))
           else search_loop cd st flt limit found page is)"

definition search_stream ::
  "codec \<Rightarrow> int \<Rightarrow> int option \<Rightarrow> bool \<Rightarrow> (event \<Rightarrow> bool) option \<Rightarrow> nat option \<Rightarrow> event_stream \<Rightarrow>
     event list decoded" where
  "search_stream cd start_id end_id rev_order flt limit st0 =
     (case (case end_id of None \<Rightarrow> current_id st0 | Some i \<Rightarrow> (Inr (i + 1), st0)) of
        (Inl x, st) \<Rightarrow> Inl (Raised x)
      | (Inr stop, st) \<Rightarrow>
          search_loop cd st flt limit 0 DUMMY_PAGE
            (if rev_order then rev [start_id..stop - 1] else [start_id..stop - 1]))"

definition latest_event :: "codec \<Rightarrow> event_stream \<Rightarrow> event decoded" where
  "latest_event cd st0 = (case current_id st0 of
     (Inl x, st) \<Rightarrow> Inl (Raised x) | (Inr i, st) \<Rightarrow> get_event cd st (i - 1))"

definition filtered_events_by_source :: "codec \<Rightarrow> event_source \<Rightarrow> event_stream \<Rightarrow> event list decoded" where
  "filtered_events_by_source cd src st =
     bindD (search_stream cd 0 None False None None st) (\<lambda>es.
       Inr (filter (\<lambda>e. raw_source e = Some src) es))"

section \<open>File names\<close>

definition is_digit :: "char \<Rightarrow> bool" where
  "is_digit c \<longleftrightarrow> digit_value c \<noteq> None"

lemma digit_value_char: "k < 10 \<Longrightarrow> digit_value (char_of (48 + k)) = Some k"
  by (simp add: digit_value_def)

lemma digits_are_digits: "c \<in> set (digits n) \<Longrightarrow> is_digit c"
proof (induction n rule: digits.induct)
  case (1 n)
  show ?case
  proof (cases "n < 10")
    case True
    with 1(2) show ?thesis by (subst (asm) digits.simps) (simp add: is_digit_def digit_value_char)
  next
    case False
    with 1 show ?thesis
      by (subst (asm) (2) digits.simps) (auto simp: is_digit_def digit_value_char)
  qed
qed

lemma digits_nonempty [simp]: "digits n \<noteq> []"
  by (subst digits.simps) simp

lemma number_value_append:
  "number_value acc (xs @ ys) = (case number_value acc xs of None \<Rightarrow> None | Some m \<Rightarrow> number_value m ys)"
  by (induction xs arbitrary: acc) (auto split: option.splits)

lemma number_value_digits: "number_value 0 (digits n) = Some n"
proof (induction n rule: digits.induct)
  case (1 n)
  show ?case
  proof (cases "n < 10")
    case True
    then show ?thesis by (subst digits.simps) (simp add: digit_value_char)
  next
    case False
    with 1 show ?thesis
      by (subst digits.simps) (simp add: number_value_append digit_value_char)
  qed
qed

lemma not_digits [simp]:
  "\<not> is_digit CHR ''/''" "\<not> is_digit CHR ''.''" "\<not> is_digit CHR ''_''" "\<not> is_digit CHR ''-''"
  "\<not> is_digit CHR ''+''"
  by (simp_all add: is_digit_def digit_value_def)

lemma digit_not_space: "is_digit c \<Longrightarrow> \<not> is_space c"
  by (auto simp: is_digit_def digit_value_def is_space_def Let_def split: if_splits)

lemma str_of_int_chars: "c \<in> set (str_of_int i) \<Longrightarrow> is_digit c \<or> c = CHR ''-''"
  by (auto simp: str_of_int_def digits_are_digits split: if_splits)

lemma str_of_int_no_space: "c \<in> set (str_of_int i) \<Longrightarrow> \<not> is_space c"
  using str_of_int_chars [of c i] digit_not_space by (auto simp: is_space_def)

lemma str_of_int_nonempty [simp]: "str_of_int i \<noteq> []"
  by (simp add: str_of_int_def)

lemma py_strip_id:
  assumes "\<And>c. c \<in> set s \<Longrightarrow> \<not> is_space c"
  shows "py_strip s = s"
proof -
  have d: "dropWhile is_space s = s"
    using assms by (cases s) auto
  have "dropWhile is_space (rev s) = rev s"
  proof (cases "rev s")
    case (Cons c cs)
    then have "c \<in> set s" by (metis list.set_intros(1) set_rev)
    with Cons assms show ?thesis by simp
  qed simp
  with d show ?thesis by (simp add: py_strip_def)
qed

lemma unsigned_value_digits: "unsigned_value (digits n) = Some (int n)"
proof -
  have "CHR ''_'' \<notin> set (digits n)"
    using digits_are_digits [of "CHR ''_''" n] by auto
  then show ?thesis
    by (simp add: unsigned_value_def split_on_absent number_value_digits digits_nonempty [symmetric])
qed

lemma py_int_str: "py_int (str_of_int i) = Some i"
proof -
  have strip: "py_strip (str_of_int i) = str_of_int i"
    by (rule py_strip_id) (rule str_of_int_no_space)
  show ?thesis
  proof (cases "i < 0")
    case True
    then show ?thesis
      unfolding py_int_def strip by (simp add: str_of_int_def unsigned_value_digits)
  next
    case False
    obtain c cs where c: "digits (nat i) = c # cs"
      by (cases "digits (nat i)") auto
    have "is_digit c"
      using digits_are_digits [of c "nat i"] c by simp
    then have "c \<noteq> CHR ''-''" "c \<noteq> CHR ''+''" by auto
    with False c show ?thesis
      unfolding py_int_def strip using unsigned_value_digits [of "nat i"] by (simp add: str_of_int_def)
  qed
qed

lemma split_on_append: "split_on c (xs @ c # ys) = split_on c xs @ split_on c ys"
proof (induction xs)
  case (Cons x xs)
  obtain z zs where "split_on c xs = z # zs" by (cases "split_on c xs") auto
  with Cons show ?case by simp
qed simp

lemma last_split_on: "last (split_on c (xs @ c # ys)) = last (split_on c ys)"
  by (simp add: split_on_append)

lemma hd_split_on: "c \<notin> set xs \<Longrightarrow> hd (split_on c (xs @ c # ys)) = xs"
  by (induction xs) (auto split: list.splits)

lemma id_from_event_file: "get_id_from_filename (event_file st i) = i"
proof -
  have f: "event_file st i =
      (get_conversation_dir (es_sid st) (es_user_id st) @ ''events'') @ CHR ''/'' # str_of_int i @ ''.json''"
    by (simp add: event_file_def get_conversation_event_filename_def get_conversation_events_dir_def)
  have no: "CHR ''/'' \<notin> set (str_of_int i)" "CHR ''.'' \<notin> set (str_of_int i)"
    using str_of_int_chars [of _ i] by fastforce+
  then have name: "last (split_on CHR ''/'' (event_file st i)) = str_of_int i @ CHR ''.'' # ''json''"
    unfolding f last_split_on by (simp add: split_on_absent)
  show ?thesis
    unfolding get_id_from_filename_def name hd_split_on [OF no(2)] py_int_str by simp
qed

lemma event_file_inj [simp]: "event_file st i = event_file st j \<longleftrightarrow> i = j"
  by (metis id_from_event_file)

lemma digits_before:
  assumes "digits m @ c # r = digits n @ d # t" and "\<not> is_digit c" and "\<not> is_digit d"
  shows "m = n"
proof -
  have "takeWhile is_digit (digits k @ e # u) = digits k" if "\<not> is_digit e" for k e u
    using that digits_are_digits by (subst takeWhile_append2) auto
  with assms have "digits m = digits n" by metis
  then show ?thesis by (metis number_value_digits option.inject)
qed

lemma cache_file_inj: "cache_file st a b = cache_file st a' b' \<Longrightarrow> a = a'"
proof -
  assume "cache_file st a b = cache_file st a' b'"
  then have eq: "str_of_int a @ ''-'' @ str_of_int b @ ''.json'' = str_of_int a' @ ''-'' @ str_of_int b' @ ''.json''"
    by (simp add: cache_file_def)
  have hd: "hd (digits n @ xs) \<noteq> CHR ''-''" for n xs
    using digits_are_digits [of "hd (digits n)" n] by auto
  show "a = a'"
  proof (cases "a < 0"; cases "a' < 0")
    assume "a < 0" "a' < 0"
    with eq have "digits (nat (- a)) @ CHR ''-'' # str_of_int b @ ''.json'' =
        digits (nat (- a')) @ CHR ''-'' # str_of_int b' @ ''.json''"
      by (simp add: str_of_int_def)
    from digits_before [OF this] \<open>a < 0\<close> \<open>a' < 0\<close> show ?thesis by simp
  next
    assume "\<not> a < 0" "\<not> a' < 0"
    with eq have "digits (nat a) @ CHR ''-'' # str_of_int b @ ''.json'' =
        digits (nat a') @ CHR ''-'' # str_of_int b' @ ''.json''"
      by (simp add: str_of_int_def)
    from digits_before [OF this] \<open>\<not> a < 0\<close> \<open>\<not> a' < 0\<close> show ?thesis by simp
  next
    assume "a < 0" "\<not> a' < 0"
    with eq have "hd (digits (nat a') @ ''-'' @ str_of_int b' @ ''.json'') = CHR ''-''"
      by (metis append_Cons list.sel(1) str_of_int_def)
    with hd show ?thesis by blast
  next
    assume "\<not> a < 0" "a' < 0"
    with eq have "hd (digits (nat a) @ ''-'' @ str_of_int b @ ''.json'') = CHR ''-''"
      by (metis append_Cons list.sel(1) str_of_int_def)
    with hd show ?thesis by blast
  qed
qed

lemma cache_not_event [simp]: "cache_file st a b \<noteq> event_file st i" "event_file st i \<noteq> cache_file st a b"
  by (simp_all add: cache_file_def event_file_def get_conversation_event_filename_def
      get_conversation_events_dir_def)

lemma cache_not_listed: "\<not> prefix (get_conversation_events_dir (es_sid st) (es_user_id st)) (cache_file st a b)"
  by (simp add: cache_file_def get_conversation_events_dir_def)

lemma event_file_child:
  "direct_child (get_conversation_events_dir (es_sid st) (es_user_id st)) (event_file st i)"
proof -
  have "CHR ''/'' \<notin> set (str_of_int i)"
    using str_of_int_chars [of "CHR ''/''" i] by auto
  then show ?thesis
    by (simp add: direct_child_def event_file_def get_conversation_event_filename_def)
qed

section \<open>The files represent a log\<close>

text \<open>
  \<open>ds\<close> are the dictionaries of the events, in order. Each is the content of its event file; no
  other file lies in the directory of events; a page found at a multiple of the page size holds
  the events it should; the page being filled is a final part of \<open>ds\<close>.
\<close>

definition pages_right :: "event_stream \<Rightarrow> json_dict list \<Rightarrow> bool" where
  "pages_right st ds \<longleftrightarrow>
     (\<forall>a v. a mod int (es_cache_size st) = 0 \<longrightarrow>
        mem_read (cache_file st a (a + int (es_cache_size st))) (es_files st) = Inr v \<longrightarrow>
        (\<exists>k. a = int k \<and> k + es_cache_size st \<le> length ds \<and>
             v = JList (map JDict (take (es_cache_size st) (drop k ds)))))"

definition events_right :: "codec \<Rightarrow> event_stream \<Rightarrow> json_dict list \<Rightarrow> event list \<Rightarrow> bool" where
  "events_right cd st ds es \<longleftrightarrow> length es = length ds \<and>
     (\<forall>i < length ds. decode cd (ds ! i) = Inr (es ! i) \<and> map_of (ds ! i) ''id'' = Some (JInt (int i)) \<and>
        mem_read (event_file st (int i)) (es_files st) = Inr (JDict (ds ! i))) \<and>
     (\<forall>f \<in> fst ` set (es_files st).
        prefix (get_conversation_events_dir (es_sid st) (es_user_id st)) f \<longrightarrow>
        (\<exists>i < length ds. f = event_file st (int i)))"

definition represents_by :: "codec \<Rightarrow> event_stream \<Rightarrow> json_dict list \<Rightarrow> event_log \<Rightarrow> bool" where
  "represents_by cd st ds lg \<longleftrightarrow> 0 < es_cache_size st \<and>
     events_right cd st ds (logged lg) \<and> pages_right st ds \<and>
     es_cur_id st \<in> {None, Some (int (length ds))} \<and>
     (\<exists>k \<le> length ds. es_write_page st = drop k ds \<and> length ds - k < es_cache_size st) \<and>
     es_queue st = queued lg"

definition represents :: "codec \<Rightarrow> event_stream \<Rightarrow> event_log \<Rightarrow> bool" where
  "represents cd st lg \<longleftrightarrow> (\<exists>ds. represents_by cd st ds lg)"

lemma opt_some: "opt d k x f = Inr y \<Longrightarrow> map_of d k = Some v \<Longrightarrow> f v = Inr y"
  by (simp add: opt_def)

lemma decode_id:
  assumes "decode cd d = Inr e" and "map_of d ''id'' = Some (JInt i)"
  shows "raw_id e = Some i"
  using assms by (auto simp: event_from_dict_def set_underscore_keys_def bindD_Inr_iff opt_def dopt_def)

lemma represents_log_ok: "represents_by cd st ds lg \<Longrightarrow> log_ok lg"
  by (auto simp: represents_by_def events_right_def log_ok_def intro: decode_id)

lemma represents_length: "represents_by cd st ds lg \<Longrightarrow> length ds = length (logged lg)"
  by (simp add: represents_by_def events_right_def)

lemma no_other_event_file:
  assumes "events_right cd st ds es" and "\<not> (0 \<le> i \<and> i < int (length ds))"
  shows "mem_read (event_file st i) (es_files st) = Inl (FileNotFoundError (event_file st i))"
proof (cases "map_of (es_files st) (event_file st i)")
  case None
  then show ?thesis by (simp add: mem_read_def)
next
  case (Some v)
  have "prefix (get_conversation_events_dir (es_sid st) (es_user_id st)) (event_file st i)"
    by (simp add: event_file_def get_conversation_event_filename_def)
  moreover have "event_file st i \<in> fst ` set (es_files st)"
    using map_of_SomeD [OF Some] by force
  ultimately obtain j where "j < length ds" "event_file st i = event_file st (int j)"
    using assms(1) by (auto simp: events_right_def)
  with assms(2) show ?thesis by simp
qed

section \<open>The next id\<close>

lemma fold_max_ids:
  "fold (\<lambda>f m. if get_id_from_filename f \<ge> m then get_id_from_filename f else m) fs m =
     fold max (map get_id_from_filename fs) m"
  by (induction fs arbitrary: m) (auto simp: max_def)

lemma fold_max_least:
  "(\<And>x. x \<in> set xs \<Longrightarrow> x \<le> (b :: int)) \<Longrightarrow> m \<le> b \<Longrightarrow> b \<in> insert m (set xs) \<Longrightarrow> fold max xs m = b"
proof (induction xs arbitrary: m)
  case (Cons x xs)
  then show ?case by (cases "x = b") (auto simp: max_def intro!: Cons.IH)
qed simp

lemma calculate_cur_id_right:
  assumes "events_right cd st ds es"
  shows "calculate_cur_id st = Inr (int (length ds))"
proof -
  let ?dir = "get_conversation_events_dir (es_sid st) (es_user_id st)"
  define fs where "fs = filter (direct_child ?dir) (map fst (es_files st))"
  have only: "f = event_file st (int i) \<Longrightarrow> direct_child ?dir f" for f i
    by (simp add: event_file_child)
  have list: "mem_list ?dir (es_files st) = Inr fs"
    unfolding mem_list_def fs_def using assms only
    by (subst list_entries_children) (auto simp: events_right_def)
  have "set fs = {f \<in> fst ` set (es_files st). direct_child ?dir f}"
    by (simp add: fs_def)
  also have "\<dots> = event_file st ` int ` {..<length ds}"
  proof
    show "{f \<in> fst ` set (es_files st). direct_child ?dir f} \<subseteq> event_file st ` int ` {..<length ds}"
      using assms by (auto simp: events_right_def direct_child_def)
    show "event_file st ` int ` {..<length ds} \<subseteq> {f \<in> fst ` set (es_files st). direct_child ?dir f}"
    proof
      fix f
      assume "f \<in> event_file st ` int ` {..<length ds}"
      then obtain i where i: "i < length ds" "f = event_file st (int i)" by auto
      with assms have "mem_read f (es_files st) = Inr (JDict (ds ! i))"
        by (simp add: events_right_def)
      then have "map_of (es_files st) f = Some (JDict (ds ! i))"
        by (simp add: mem_read_def split: option.splits)
      from map_of_SomeD [OF this] have "f \<in> fst ` set (es_files st)" by force
      with i show "f \<in> {f \<in> fst ` set (es_files st). direct_child ?dir f}"
        by (simp add: event_file_child)
    qed
  qed
  finally have ids: "get_id_from_filename ` set fs = int ` {..<length ds}"
    by (simp add: image_image id_from_event_file)
  show ?thesis
  proof (cases "length ds")
    case 0
    with ids have "fs = []" by simp
    with list 0 show ?thesis by (simp add: calculate_cur_id_def)
  next
    case (Suc n)
    have "fold max (map get_id_from_filename fs) (-1) = int n"
    proof (rule fold_max_least)
      show "x \<le> int n" if "x \<in> set (map get_id_from_filename fs)" for x
        using that ids Suc by auto
      show "int n \<in> insert (- 1) (set (map get_id_from_filename fs))"
        using ids Suc by auto
    qed simp
    moreover obtain g gs where fs: "fs = g # gs" using ids Suc by (cases fs) auto
    have "calculate_cur_id st =
        Inr (fold (\<lambda>f m. if get_id_from_filename f \<ge> m then get_id_from_filename f else m) fs (-1) + 1)"
      unfolding calculate_cur_id_def list by (simp only: fs sum.case list.case)
    ultimately show ?thesis by (simp add: fold_max_ids Suc)
  qed
qed

lemma current_id_right:
  assumes "represents_by cd st ds lg"
  shows "current_id st = (Inr (int (length ds)), st\<lparr>es_cur_id := Some (int (length ds))\<rparr>)"
proof (cases "es_cur_id st")
  case None
  have "calculate_cur_id st = Inr (int (length ds))"
    using assms by (intro calculate_cur_id_right [of cd st ds "logged lg"]) (simp add: represents_by_def)
  with None show ?thesis by (simp add: current_id_def)
next
  case (Some i)
  then have "i = int (length ds)" using assms by (simp add: represents_by_def)
  with Some show ?thesis by (simp add: current_id_def)
qed

section \<open>Searching\<close>

text \<open>A page in hand is what would be loaded for any index it covers.\<close>

definition page_fits :: "event_stream \<Rightarrow> cache_page \<Rightarrow> bool" where
  "page_fits st p \<longleftrightarrow> (\<forall>i. covers p i \<longrightarrow> load_cache_page_for_index st i = Inr p)"

lemma dummy_fits [simp]: "page_fits st DUMMY_PAGE"
  by (auto simp: page_fits_def covers_def DUMMY_PAGE_def split: if_splits)

lemma same_page:
  assumes "0 < n" and "i - i mod n \<le> j" and "j < i - i mod n + n"
  shows "j - j mod n = i - i mod (n :: int)"
proof -
  have "i - i mod n = n * (i div n)" by (simp add: minus_mod_eq_mult_div)
  with assms have "j div n = i div n"
    by (intro int_div_pos_eq [of _ _ _ "j - n * (i div n)"]) auto
  then show ?thesis by (simp add: minus_mod_eq_mult_div)
qed

lemma loaded_fits:
  assumes "0 < es_cache_size st" and "load_cache_page_for_index st i = Inr p"
  shows "page_fits st p"
proof -
  let ?n = "int (es_cache_size st)"
  have p: "pg_start p = i - i mod ?n" "pg_end p = i - i mod ?n + ?n"
    using assms(2)
    by (auto simp: load_cache_page_for_index_def load_cache_page_def Let_def split: sum.splits json.splits)
  show ?thesis
    unfolding page_fits_def
  proof (intro allI impI)
    fix j
    assume "covers p j"
    then have "j - j mod ?n = i - i mod ?n"
      using assms(1) p by (intro same_page) (auto simp: covers_def split: if_splits)
    with assms(2) show "load_cache_page_for_index st j = Inr p"
      by (simp add: load_cache_page_for_index_def Let_def)
  qed
qed

lemma load_page_right:
  assumes "represents_by cd st ds lg"
  obtains p where "load_cache_page_for_index st i = Inr p" and "page_fits st p"
    and "page_event cd p i = Inr None \<or>
      (0 \<le> i \<and> i < int (length ds) \<and> page_event cd p i = Inr (Some (logged lg ! nat i)))"
proof -
  let ?n = "int (es_cache_size st)" and ?a = "i - i mod int (es_cache_size st)"
  have n: "0 < es_cache_size st" and ev: "events_right cd st ds (logged lg)" and pg: "pages_right st ds"
    using assms by (simp_all add: represents_by_def)
  have a: "?a mod ?n = 0" by (simp add: minus_mod_eq_mult_div)
  have a2: "0 \<le> i - ?a" "i - ?a < ?n" using n by simp_all
  show thesis
  proof (cases "mem_read (cache_file st ?a (?a + ?n)) (es_files st)")
    case (Inl x)
    then have "load_cache_page_for_index st i = Inr \<lparr>pg_events = None, pg_start = ?a, pg_end = ?a + ?n\<rparr>"
      by (simp add: load_cache_page_for_index_def load_cache_page_def Let_def)
    from that [OF this loaded_fits [OF n this]] show thesis by (simp add: page_event_def)
  next
    case (Inr v)
    obtain k where k: "?a = int k" "k + es_cache_size st \<le> length ds"
        "v = JList (map JDict (take (es_cache_size st) (drop k ds)))"
      using pg [unfolded pages_right_def, rule_format, OF a Inr] by blast
    let ?page = "take (es_cache_size st) (drop k ds)"
    have load: "load_cache_page_for_index st i =
        Inr \<lparr>pg_events = Some (map JDict ?page), pg_start = ?a, pg_end = ?a + ?n\<rparr>"
      using Inr k(3) by (simp add: load_cache_page_for_index_def load_cache_page_def Let_def)
    define m where "m = nat (i - ?a)"
    have m: "m < es_cache_size st" "i = int (k + m)" "i - ?a = int m"
      using a2 k(1) by (simp_all add: m_def)
    have ne: "map JDict ?page \<noteq> []" using n k(2) by auto
    have get: "py_get (map JDict ?page) (i - ?a) = Inr (JDict (ds ! (k + m)))"
      using m k(2) by (simp add: py_get_def)
    have "decode cd (ds ! (k + m)) = Inr (logged lg ! (k + m))"
      using ev m k(2) by (simp add: events_right_def)
    with get ne have "page_event cd \<lparr>pg_events = Some (map JDict ?page), pg_start = ?a, pg_end = ?a + ?n\<rparr> i =
        Inr (Some (logged lg ! nat i))"
      using m by (cases "map JDict ?page") (simp_all add: page_event_def nat_int_add)
    with that [OF load loaded_fits [OF n load]] m k(2) show thesis by simp
  qed
qed

lemma event_at_right:
  assumes "represents_by cd st ds lg" and "page_fits st p"
  shows "\<exists>q. page_fits st q \<and> event_at cd st p i =
    Inr (if 0 \<le> i \<and> i < int (length ds) then Some (logged lg ! nat i) else None, q)"
proof -
  obtain q where load: "load_cache_page_for_index st i = Inr q" and fits: "page_fits st q"
    and pe: "page_event cd q i = Inr None \<or>
      (0 \<le> i \<and> i < int (length ds) \<and> page_event cd q i = Inr (Some (logged lg ! nat i)))"
    using load_page_right [OF assms(1)] .
  have page: "(if covers p i then Inr p else load_cache_page_for_index st i) = Inr q"
    using load assms(2) by (auto simp: page_fits_def)
  have ev: "events_right cd st ds (logged lg)"
    using assms(1) by (simp add: represents_by_def)
  have stored: "get_event cd st i = Inr (logged lg ! nat i)" if "0 \<le> i" "i < int (length ds)"
  proof -
    obtain n where "i = int n" "n < length ds" using \<open>0 \<le> i\<close> \<open>i < int (length ds)\<close> by (metis nat_0_le of_nat_less_iff)
    with ev show ?thesis by (simp add: get_event_def events_right_def)
  qed
  show ?thesis
    using pe
  proof
    assume none: "page_event cd q i = Inr None"
    show ?thesis
    proof (cases "0 \<le> i \<and> i < int (length ds)")
      case True
      then show ?thesis
        using fits by (intro exI [of _ q]) (simp add: event_at_def page none stored)
    next
      case False
      then have "get_event cd st i = Inl (Raised (FileNotFoundError (event_file st i)))"
        using no_other_event_file [OF ev] by (simp add: get_event_def)
      with False show ?thesis
        using fits by (intro exI [of _ q]) (auto simp: event_at_def page none)
    qed
  next
    assume "0 \<le> i \<and> i < int (length ds) \<and> page_event cd q i = Inr (Some (logged lg ! nat i))"
    then show ?thesis
      using fits by (intro exI [of _ q]) (simp add: event_at_def page)
  qed
qed

definition limited :: "nat option \<Rightarrow> nat \<Rightarrow> 'a list \<Rightarrow> 'a list" where
  "limited limit found xs = (case limit of None \<Rightarrow> xs | Some 0 \<Rightarrow> xs | Some (Suc n) \<Rightarrow> take (Suc n - found) xs)"

lemma search_loop_right:
  assumes "represents_by cd st ds lg" and "page_fits st p"
    and "\<And>n. limit = Some n \<Longrightarrow> n \<noteq> 0 \<Longrightarrow> found < n"
  shows "search_loop cd st flt limit found p is =
    Inr (limited limit found (filter (case flt of None \<Rightarrow> (\<lambda>_. True) | Some q \<Rightarrow> q)
      (map (\<lambda>i. logged lg ! nat i) (filter (\<lambda>i. 0 \<le> i \<and> i < int (length ds)) is))))"
  using assms(2,3)
proof (induction "is" arbitrary: p found)
  case Nil
  then show ?case by (simp add: limited_def split: option.splits nat.splits)
next
  case (Cons i "is")
  obtain q where q: "page_fits st q" and at: "event_at cd st p i =
      Inr (if 0 \<le> i \<and> i < int (length ds) then Some (logged lg ! nat i) else None, q)"
    using event_at_right [OF assms(1) Cons.prems(1)] by blast
  note IH = Cons.IH [OF q]
  show ?case
  proof (cases "0 \<le> i \<and> i < int (length ds) \<and> (case flt of None \<Rightarrow> True | Some q \<Rightarrow> q (logged lg ! nat i))")
    case False
    with IH [of found] Cons.prems(2) show ?thesis
      by (auto simp: at split: option.splits)
  next
    case True
    then have hit: "(case flt of None \<Rightarrow> (\<lambda>_. True) | Some q \<Rightarrow> q) (logged lg ! nat i)"
      by (auto split: option.splits)
    show ?thesis
    proof (cases "limit \<noteq> None \<and> limit \<noteq> Some 0 \<and> the limit \<le> found + 1")
      case stop: True
      then obtain n where n: "limit = Some (Suc n)" by (cases limit; cases "the limit") auto
      with Cons.prems(2) stop have "Suc n - found = 1" by fastforce
      with True hit n stop show ?thesis by (auto simp: at limited_def split: option.splits)
    next
      case go: False
      then have "\<And>n. limit = Some n \<Longrightarrow> n \<noteq> 0 \<Longrightarrow> found + 1 < n" by auto
      from IH [OF this] True hit go Cons.prems(2) show ?thesis
        by (auto simp: at limited_def Suc_diff_le less_Suc_eq_le split: option.splits nat.splits)
    qed
  qed
qed

text \<open>The indices in range and the events with ids in range.\<close>

lemma events_in_range:
  assumes "log_ok lg"
  shows "map (\<lambda>i. logged lg ! nat i) (filter (\<lambda>i. 0 \<le> i \<and> i < int (length (logged lg))) [s..t - 1]) =
    filter (\<lambda>e. s \<le> event_id e \<and> event_id e < t) (logged lg)"
proof -
  let ?n = "length (logged lg)"
  have "filter (\<lambda>i. 0 \<le> i \<and> i < int ?n) [s..t - 1] = map int (filter (\<lambda>i. s \<le> int i \<and> int i < t) [0..<?n])"
  proof (rule sorted_distinct_set_unique)
    show "sorted (filter (\<lambda>i. 0 \<le> i \<and> i < int ?n) [s..t - 1])"
      by (intro sorted_wrt_filter) simp
    show "sorted (map int (filter (\<lambda>i. s \<le> int i \<and> int i < t) [0..<?n]))"
      by (simp add: sorted_map sorted_wrt_filter)
    show "distinct (map int (filter (\<lambda>i. s \<le> int i \<and> int i < t) [0..<?n]))"
      by (simp add: distinct_map inj_on_def)
    show "set (filter (\<lambda>i. 0 \<le> i \<and> i < int ?n) [s..t - 1]) =
        set (map int (filter (\<lambda>i. s \<le> int i \<and> int i < t) [0..<?n]))"
      by (auto intro!: image_eqI [of _ int "nat _"])
  qed simp
  then have "map (\<lambda>i. logged lg ! nat i) (filter (\<lambda>i. 0 \<le> i \<and> i < int ?n) [s..t - 1]) =
      map ((!) (logged lg)) (filter (\<lambda>i. s \<le> int i \<and> int i < t) [0..<?n])"
    by simp
  also have "\<dots> = map ((!) (logged lg)) (filter (\<lambda>i. s \<le> event_id (logged lg ! i) \<and> event_id (logged lg ! i) < t) [0..<?n])"
    using assms by (intro arg_cong [of _ _ "map _"] filter_cong) (auto simp: log_ok_def)
  also have "\<dots> = filter (\<lambda>e. s \<le> event_id e \<and> event_id e < t) (map ((!) (logged lg)) [0..<?n])"
    by (simp add: filter_map o_def)
  finally show ?thesis by (simp add: map_nth)
qed

lemma search_stream_right:
  assumes "represents_by cd st ds lg"
  shows "search_stream cd s t r flt limit st = Inr (search_events s t r flt limit lg)"
proof -
  define stop where "stop = (case t of None \<Rightarrow> cur_id lg | Some i \<Rightarrow> i + 1)"
  have len: "length ds = length (logged lg)" by (rule represents_length [OF assms])
  obtain st' where start: "(case t of None \<Rightarrow> current_id st | Some i \<Rightarrow> (Inr (i + 1), st)) = (Inr stop, st')"
    and st': "represents_by cd st' ds lg"
  proof (cases t)
    case None
    have "represents_by cd (st\<lparr>es_cur_id := Some (int (length ds))\<rparr>) ds lg"
      using assms
      by (simp add: represents_by_def events_right_def pages_right_def event_file_def cache_file_def)
    with None show thesis
      by (intro that) (simp_all add: current_id_right [OF assms] stop_def cur_id_def len)
  next
    case (Some i)
    with assms show thesis by (intro that) (simp_all add: stop_def)
  qed
  let ?q = "case flt of None \<Rightarrow> (\<lambda>_. True) | Some p \<Rightarrow> p"
  let ?range = "filter (\<lambda>e. s \<le> event_id e \<and> event_id e < stop) (logged lg)"
  have range: "map (\<lambda>i. logged lg ! nat i) (filter (\<lambda>i. 0 \<le> i \<and> i < int (length ds))
      (if r then rev [s..stop - 1] else [s..stop - 1])) = (if r then rev ?range else ?range)"
    using events_in_range [OF represents_log_ok [OF assms], of s stop]
    by (simp add: len rev_map [symmetric] rev_filter [symmetric])
  have "search_stream cd s t r flt limit st =
      Inr (limited limit 0 (filter ?q (if r then rev ?range else ?range)))"
    unfolding search_stream_def start prod.case sum.case
    by (subst search_loop_right [OF st' dummy_fits]) (simp_all add: range)
  then show ?thesis
    by (simp add: search_events_def Let_def stop_def limited_def split: option.splits nat.splits)
qed

section \<open>Adding\<close>

lemma protected_kept:
  "k \<in> set TOP_LEVEL_PROTECTED_FIELDS \<Longrightarrow> map_of (replace_secrets ss d) k = map_of d k"
  by (induction d) (auto simp: replace_secrets_def)

lemma mem_write_keys: "fst ` set (mem_write p v fs) = insert p (fst ` set fs)"
  by (simp add: mem_write_def dom_update)

lemma mem_read_write: "mem_read q (mem_write p v fs) = (if q = p then Inr v else mem_read q fs)"
  by (rule mem.read_write)

lemma events_right_add:
  assumes "events_right cd st ds es" and "decode cd d = Inr e"
    and "map_of d ''id'' = Some (JInt (int (length ds)))"
    and "es_files st' = mem_write (event_file st (int (length ds))) (JDict d) (es_files st)"
    and "es_sid st' = es_sid st" and "es_user_id st' = es_user_id st"
  shows "events_right cd st' (ds @ [d]) (es @ [e])"
proof -
  have names: "event_file st' i = event_file st i" for i
    using assms(5,6) by (simp add: event_file_def)
  show ?thesis
    using assms
    by (auto simp: events_right_def names mem_read_write mem_write_keys nth_append less_Suc_eq)
qed

lemma events_right_cache:
  assumes "events_right cd st ds es" and "es_files st' = mem_write (cache_file st a b) v (es_files st)"
    and "es_sid st' = es_sid st" and "es_user_id st' = es_user_id st"
  shows "events_right cd st' ds es"
proof -
  have names: "event_file st' i = event_file st i" for i
    using assms(3,4) by (simp add: event_file_def)
  show ?thesis
    using assms cache_not_listed [of st a b]
    by (auto simp: events_right_def names mem_read_write mem_write_keys)
qed

lemma pages_right_add:
  assumes "pages_right st ds"
    and "es_files st' = mem_write (event_file st i) v (es_files st)"
    and "es_sid st' = es_sid st" and "es_user_id st' = es_user_id st" and "es_cache_size st' = es_cache_size st"
  shows "pages_right st' (ds @ [d])"
proof -
  have names: "cache_file st' a b = cache_file st a b" for a b
    using assms(3,4) by (simp add: cache_file_def)
  show ?thesis
    unfolding pages_right_def assms(2,5) names
  proof (intro allI impI)
    fix a w
    assume a: "a mod int (es_cache_size st) = 0"
      and "mem_read (cache_file st a (a + int (es_cache_size st)))
             (mem_write (event_file st i) v (es_files st)) = Inr w"
    then have "mem_read (cache_file st a (a + int (es_cache_size st))) (es_files st) = Inr w"
      by (simp add: mem_read_write)
    from assms(1) [unfolded pages_right_def, rule_format, OF a this]
    show "\<exists>k. a = int k \<and> k + es_cache_size st \<le> length (ds @ [d]) \<and>
        w = JList (map JDict (take (es_cache_size st) (drop k (ds @ [d]))))"
      by (auto simp: le_diff_conv)
  qed
qed

lemma pages_right_cache:
  assumes "pages_right st ds" and "k + es_cache_size st \<le> length ds"
    and "es_files st' = mem_write (cache_file st (int k) (int k + int (es_cache_size st)))
           (JList (map JDict (take (es_cache_size st) (drop k ds)))) (es_files st)"
    and "es_sid st' = es_sid st" and "es_user_id st' = es_user_id st" and "es_cache_size st' = es_cache_size st"
  shows "pages_right st' ds"
proof -
  have names: "cache_file st' a b = cache_file st a b" for a b
    using assms(4,5) by (simp add: cache_file_def)
  show ?thesis
    unfolding pages_right_def assms(3,6) names mem_read_write
  proof (intro allI impI)
    fix a w
    assume a: "a mod int (es_cache_size st) = 0"
      and w: "(if cache_file st a (a + int (es_cache_size st)) =
             cache_file st (int k) (int k + int (es_cache_size st))
           then Inr (JList (map JDict (take (es_cache_size st) (drop k ds))))
           else mem_read (cache_file st a (a + int (es_cache_size st))) (es_files st)) = Inr w"
    show "\<exists>k. a = int k \<and> k + es_cache_size st \<le> length ds \<and>
        w = JList (map JDict (take (es_cache_size st) (drop k ds)))"
    proof (cases "a = int k")
      case True
      with w assms(2) show ?thesis by auto
    next
      case False
      with w have "mem_read (cache_file st a (a + int (es_cache_size st))) (es_files st) = Inr w"
        using cache_file_inj by (auto split: if_splits)
      from assms(1) [unfolded pages_right_def, rule_format, OF a this] show ?thesis .
    qed
  qed
qed

text \<open>What an addition that succeeds does to the files; \<open>page_start\<close> is the id the page begins at.\<close>

definition page_start :: "event_stream \<Rightarrow> json_dict list \<Rightarrow> nat" where
  "page_start st ds = length ds - length (es_write_page st)"

lemma represents_page:
  "represents_by cd st ds lg \<Longrightarrow> es_write_page st = drop (page_start st ds) ds \<and>
     page_start st ds \<le> length ds \<and> length ds - page_start st ds < es_cache_size st"
  by (auto simp: represents_by_def page_start_def)

lemma add_represents:
  assumes rep: "represents_by cd st ds lg" and new: "event_id e = INVALID_ID"
    and e1: "e1 = e\<lparr>raw_timestamp := Some now, raw_source := Some src, raw_id := Some (int (length ds))\<rparr>"
    and d0: "encode cd e1 = Inr d0" and d: "d = replace_secrets (map snd (es_secrets st)) d0"
    and e2: "decode cd d = Inr e2"
  obtains st' where "add_to_stream cd now e src st = (Inr e1, st')"
    and "represents_by cd st' (ds @ [d])
          (lg\<lparr>logged := logged lg @ [e2], queued := queued lg @ [e2]\<rparr>)"
    and "page_start st' (ds @ [d]) mod es_cache_size st = page_start st ds mod es_cache_size st"
    and "es_cache_size st' = es_cache_size st" and "es_secrets st' = es_secrets st"
    and "es_sid st' = es_sid st" and "es_user_id st' = es_user_id st"
    and "\<forall>q. q \<noteq> cache_file st (int (page_start st ds)) (int (page_start st ds) + int (es_cache_size st)) \<and>
          q \<noteq> event_file st (int (length ds)) \<longrightarrow> mem_read q (es_files st') = mem_read q (es_files st)"
proof -
  define k where "k = page_start st ds"
  have k: "es_write_page st = drop k ds" "k \<le> length ds" "length ds - k < es_cache_size st"
    using represents_page [OF rep] by (simp_all add: k_def)
  have n: "0 < es_cache_size st" and ev: "events_right cd st ds (logged lg)" and pg: "pages_right st ds"
    and q: "es_queue st = queued lg"
    using rep by (simp_all add: represents_by_def)
  have id: "map_of d ''id'' = Some (JInt (int (length ds)))"
  proof -
    have "map_of d0 ''id'' = Some (JInt (int (length ds)))"
      by (rule event_dict_id [OF d0]) (simp_all add: e1 INVALID_ID_def)
    then show ?thesis
      unfolding d by (subst protected_kept) (simp_all add: TOP_LEVEL_PROTECTED_FIELDS_def)
  qed
  then have e2_id: "event_id e2 = int (length ds)"
    using decode_id [OF e2] by simp
  let ?page = "drop k (ds @ [d])"
  let ?full = "length ?page = es_cache_size st"
  define st2 where "st2 = st\<lparr>es_cur_id := Some (int (length ds) + 1),
      es_write_page := (if ?full then [] else ?page),
      es_files := mem_write (event_file st (int (length ds))) (JDict d) (es_files st)\<rparr>"
  define st3 where "st3 = store_cache_page ?page st2"
  define st' where "st' = st3\<lparr>es_queue := es_queue st3 @ [e2]\<rparr>"
  have ev2: "events_right cd st2 (ds @ [d]) (logged lg @ [e2])"
    by (rule events_right_add [OF ev e2 id]) (simp_all add: st2_def)
  have pg2: "pages_right st2 (ds @ [d])"
    by (rule pages_right_add [OF pg]) (simp_all add: st2_def)
  have st3: "st3 = (if ?full then st2\<lparr>es_files := mem_write (cache_file st2 (int k) (int k + int (es_cache_size st2)))
         (JList (map JDict (take (es_cache_size st2) (drop k (ds @ [d]))))) (es_files st2)\<rparr> else st2)"
  proof (cases ?full)
    case True
    have "hd ?page = (ds @ [d]) ! k" using k(2) by (intro hd_drop_conv_nth) simp
    then have "map_of (hd ?page) ''id'' = Some (JInt (int k))"
      using ev2 k(2) by (simp add: events_right_def)
    with True show ?thesis by (simp add: st3_def store_cache_page_def st2_def)
  next
    case False
    with k have "length ?page < es_cache_size st" by simp
    with False show ?thesis by (simp add: st3_def store_cache_page_def st2_def)
  qed
  have ev3: "events_right cd st3 (ds @ [d]) (logged lg @ [e2])"
  proof (cases ?full)
    case True
    then show ?thesis
      by (intro events_right_cache [OF ev2, of st3 "int k" "int k + int (es_cache_size st2)"
            "JList (map JDict (take (es_cache_size st2) (drop k (ds @ [d]))))"])
        (simp_all add: st3)
  next
    case False
    with ev2 show ?thesis by (simp add: st3)
  qed
  have pg3: "pages_right st3 (ds @ [d])"
  proof (cases ?full)
    case True
    with k have "k + es_cache_size st2 \<le> length (ds @ [d])" by (simp add: st2_def)
    from pages_right_cache [OF pg2 this, of st3] True show ?thesis by (simp add: st3)
  next
    case False
    with pg2 show ?thesis by (simp add: st3)
  qed
  have frame: "es_cache_size st' = es_cache_size st" "es_secrets st' = es_secrets st"
      "es_sid st' = es_sid st" "es_user_id st' = es_user_id st"
      "es_write_page st' = (if ?full then [] else ?page)" "es_queue st' = es_queue st @ [e2]"
      "es_cur_id st' = Some (int (length ds) + 1)" "es_files st' = es_files st3"
    by (simp_all add: st'_def st3 st2_def)
  have add: "add_to_stream cd now e src st = (Inr e1, st')"
    using new d0 e2 k(2)
    by (simp add: add_to_stream_def current_id_right [OF rep] e1 [symmetric] d [symmetric] e2_id Let_def
        k(1) st'_def st3_def st2_def event_file_def)
  have "represents_by cd st' (ds @ [d]) (lg\<lparr>logged := logged lg @ [e2], queued := queued lg @ [e2]\<rparr>)"
  proof -
    have names: "event_file st' = event_file st3" "cache_file st' = cache_file st3"
      by (simp_all add: fun_eq_iff event_file_def cache_file_def st'_def)
    have "events_right cd st' (ds @ [d]) (logged lg @ [e2])" "pages_right st' (ds @ [d])"
      using ev3 pg3 by (simp_all add: events_right_def pages_right_def names) (simp_all add: st'_def)
    moreover have "\<exists>j \<le> length (ds @ [d]). es_write_page st' = drop j (ds @ [d]) \<and>
        length (ds @ [d]) - j < es_cache_size st'"
      using k n by (intro exI [of _ "if ?full then length (ds @ [d]) else k"]) (auto simp: frame)
    ultimately show ?thesis
      using n q by (simp add: represents_by_def frame)
  qed
  moreover have "page_start st' (ds @ [d]) mod es_cache_size st = page_start st ds mod es_cache_size st"
  proof (cases ?full)
    case True
    with k have "page_start st' (ds @ [d]) = k + es_cache_size st" by (simp add: page_start_def frame)
    then show ?thesis by (simp add: k_def)
  next
    case False
    with k have "page_start st' (ds @ [d]) = k" by (simp add: page_start_def frame)
    then show ?thesis by (simp add: k_def)
  qed
  moreover have "mem_read q (es_files st') = mem_read q (es_files st)"
    if "q \<noteq> cache_file st (int (page_start st ds)) (int (page_start st ds) + int (es_cache_size st))"
      "q \<noteq> event_file st (int (length ds))" for q
    using that by (simp add: frame st3 st2_def mem_read_write k_def cache_file_def)
  ultimately show thesis
    by (intro that [OF add]) (simp_all add: frame)
qed

lemma mask_value_none [simp]: "mask_value [] v = v"
proof (induction "[] :: string list" v rule: mask_value.induct)
  case (1 d)
  then show ?case by (auto intro!: map_idI)
qed (simp_all add: mask_text_def)

lemma replace_no_secrets [simp]: "replace_secrets [] d = d"
  by (induction d) (auto simp: replace_secrets_def)

text \<open>A stream over the same files begins where the other one ended.\<close>

lemma reopened_represents:
  assumes "represents_by cd st ds lg" and "es_cache_size st = 25"
  shows "represents_by cd (new_event_stream (es_sid st) (es_user_id st) (es_files st)) ds (lg\<lparr>queued := []\<rparr>)"
proof -
  let ?st = "new_event_stream (es_sid st) (es_user_id st) (es_files st)"
  have names: "event_file ?st i = event_file st i" "cache_file ?st a b = cache_file st a b" for i a b
    by (simp_all add: new_event_stream_def event_file_def cache_file_def)
  have "events_right cd ?st ds (logged lg)" "pages_right ?st ds"
    using assms by (simp_all add: represents_by_def events_right_def pages_right_def names)
      (simp_all add: new_event_stream_def)
  moreover have "\<exists>k \<le> length ds. es_write_page ?st = drop k ds \<and> length ds - k < es_cache_size ?st"
    by (intro exI [of _ "length ds"]) (simp add: new_event_stream_def)
  ultimately show ?thesis
    by (simp add: represents_by_def) (simp add: new_event_stream_def)
qed

lemma fresh_represents: "represents_by cd (new_event_stream sid uid []) [] empty_log"
  by (simp add: represents_by_def events_right_def pages_right_def new_event_stream_def empty_log_def
      mem_read_def)

end
