(* ===== verification/Event_Store_Facts.thy ===== *)
theory Event_Store_Facts
  imports Event_Store
begin

text \<open>
  Facts about the event store that go beyond the refinement: what the masking of secrets reaches
  and what it does not, the cache pages of a stream that is opened again, and the event that cannot
  be encoded.
\<close>

section \<open>Secrets\<close>

text \<open>
  A text keeps apart from a replacement if it does not occur in it and has neither its first nor its
  last character: an occurrence then cannot reach into a replacement from either side.
\<close>

definition apart :: "string \<Rightarrow> string \<Rightarrow> bool" where
  "apart p new \<longleftrightarrow> new \<noteq> [] \<and> hd new \<notin> set p \<and> last new \<notin> set p \<and> \<not> occurs_in p new"

lemma apart_nonempty: "apart p new \<Longrightarrow> p \<noteq> []"
  by (cases new) (auto simp: apart_def)

lemma prefix_replace_found:
  assumes "prefix p (replace_found old new s)" and "hd new \<notin> set p" and "new \<noteq> []"
  shows "prefix p s"
  using assms
proof (induction old new s arbitrary: p rule: replace_found.induct)
  case (1 old new)
  then show ?case by simp
next
  case (2 old new c s)
  show ?case
  proof (cases p)
    case Nil
    then show ?thesis by simp
  next
    case (Cons x xs)
    show ?thesis
    proof (cases "old \<noteq> [] \<and> prefix old (c # s)")
      case True
      with 2(3) Cons 2(5) have "x = hd new" by (cases new) auto
      with 2(4) Cons show ?thesis by simp
    next
      case False
      with 2(3) Cons have x: "x = c" "prefix xs (replace_found old new s)" by auto
      have "prefix xs s" by (rule 2(2) [OF False x(2)]) (use 2(4,5) Cons in auto)
      with x Cons show ?thesis by simp
    qed
  qed
qed

lemma prefix_before_char: "prefix p (xs @ c # ys) \<Longrightarrow> c \<notin> set p \<Longrightarrow> prefix p xs"
  by (induction xs arbitrary: p) (auto simp: prefix_Cons)

lemma occurs_in_beside:
  assumes "occurs_in p (xs @ c # ys)" and "c \<notin> set p"
  shows "occurs_in p xs \<or> occurs_in p ys"
  using assms(1)
proof (induction xs)
  case Nil
  with assms(2) show ?case by (auto simp: prefix_Cons)
next
  case (Cons x xs)
  then show ?case using prefix_before_char [of p "x # xs" c ys] assms(2) by auto
qed

lemma occurs_in_append:
  assumes "occurs_in p (new @ ys)" and "apart p new"
  shows "occurs_in p ys"
proof -
  have new: "new = butlast new @ [last new]" using assms(2) by (simp add: apart_def)
  have "occurs_in p (butlast new @ last new # ys)"
    using assms(1) by (subst (asm) new) simp
  moreover have "\<not> occurs_in p (butlast new)"
    using assms(2) new unfolding apart_def occurs_in_iff by (metis append.assoc)
  ultimately show ?thesis
    using occurs_in_beside assms(2) unfolding apart_def by blast
qed

lemma occurs_in_drop: "occurs_in p (drop n s) \<Longrightarrow> occurs_in p s"
  unfolding occurs_in_iff by (metis append_assoc append_take_drop_id)

text \<open>Replacing makes no new occurrence of a text that keeps apart from the replacement.\<close>

lemma occurs_replace_found:
  assumes "occurs_in p (replace_found old new s)" and "apart p new"
  shows "occurs_in p s"
  using assms
proof (induction old new s rule: replace_found.induct)
  case (1 old new)
  then show ?case by simp
next
  case (2 old new c s)
  show ?case
  proof (cases "old \<noteq> [] \<and> prefix old (c # s)")
    case True
    with 2(3) have "occurs_in p (new @ replace_found old new (drop (length old) (c # s)))"
      by (simp only: replace_found.simps if_True simp_thms)
    from occurs_in_append [OF this 2(4)]
    have "occurs_in p (drop (length old) (c # s))" using 2(1) True 2(4) by blast
    then show ?thesis by (rule occurs_in_drop)
  next
    case False
    then have "replace_found old new (c # s) = c # replace_found old new s" by auto
    with 2(3) consider "prefix p (c # replace_found old new s)" | "occurs_in p (replace_found old new s)"
      by auto
    then show ?thesis
    proof cases
      case 1
      obtain y zs where p: "p = y # zs" using apart_nonempty [OF 2(4)] by (cases p) auto
      with 1 have "y = c" "prefix zs (replace_found old new s)" by auto
      moreover have "prefix zs s"
        by (rule prefix_replace_found [OF calculation(2)]) (use 2(4) p in \<open>auto simp: apart_def\<close>)
      ultimately show ?thesis using p by simp
    next
      case rest: 2
      from 2(2) [OF False rest 2(4)] show ?thesis by simp
    qed
  qed
qed

lemma replaced_gone:
  assumes "apart old new"
  shows "\<not> occurs_in old (replace_found old new s)"
  using assms
proof (induction old new s rule: replace_found.induct)
  case (1 old new)
  then show ?case using apart_nonempty by simp
next
  case (2 old new c s)
  show ?case
  proof (cases "prefix old (c # s)")
    case True
    then have "replace_found old new (c # s) = new @ replace_found old new (drop (length old) (c # s))"
      using apart_nonempty [OF 2(3)] by simp
    moreover have "\<not> occurs_in old (replace_found old new (drop (length old) (c # s)))"
      using 2(1) True apart_nonempty [OF 2(3)] 2(3) by blast
    ultimately show ?thesis
      using occurs_in_append [OF _ 2(3)] by metis
  next
    case False
    then have eq: "replace_found old new (c # s) = c # replace_found old new s" by simp
    have "\<not> prefix old (c # replace_found old new s)"
    proof
      assume a: "prefix old (c # replace_found old new s)"
      obtain y zs where o: "old = y # zs" using apart_nonempty [OF 2(3)] by (cases old) auto
      with a have y: "y = c" "prefix zs (replace_found old new s)" by auto
      have "prefix zs s" by (rule prefix_replace_found [OF y(2)]) (use 2(3) o in \<open>auto simp: apart_def\<close>)
      with y o False show False by simp
    qed
    with 2(2) False 2(3) show ?thesis by (simp add: eq)
  qed
qed

text \<open>A secret the mask can hide: not empty, without angle brackets and not a part of the words in
  the replacement.\<close>

definition maskable :: "string \<Rightarrow> bool" where
  "maskable secret \<longleftrightarrow> secret \<noteq> [] \<and> CHR ''<'' \<notin> set secret \<and> CHR ''>'' \<notin> set secret \<and>
     \<not> occurs_in secret ''secret_hidden''"

lemma maskable_apart: "maskable secret \<Longrightarrow> apart secret SECRET_HIDDEN"
proof -
  assume m: "maskable secret"
  have h: "SECRET_HIDDEN = [] @ CHR ''<'' # ''secret_hidden'' @ [CHR ''>'']" by (simp add: SECRET_HIDDEN_def)
  have "\<not> occurs_in secret SECRET_HIDDEN"
    using m occurs_in_beside [of secret "[]" "CHR ''<''" "''secret_hidden'' @ [CHR ''>'']"]
      occurs_in_beside [of secret "''secret_hidden''" "CHR ''>''" "[]"]
    unfolding h maskable_def by (metis occurs_in.simps(1))
  with m show ?thesis by (simp add: apart_def maskable_def SECRET_HIDDEN_def)
qed

lemma mask_keeps_out:
  assumes "\<not> occurs_in k s" and "maskable k" and "\<And>x. x \<in> set ss \<Longrightarrow> x \<noteq> []"
  shows "\<not> occurs_in k (mask_text ss s)"
  using assms(1,3)
proof (induction ss arbitrary: s)
  case Nil
  then show ?case by (simp add: mask_text_def)
next
  case (Cons x xs)
  have "\<not> occurs_in k (py_replace x SECRET_HIDDEN s)"
    using Cons.prems occurs_replace_found [of k x SECRET_HIDDEN s] maskable_apart [OF assms(2)]
    by (auto simp: py_replace_def)
  with Cons show ?case by (simp add: mask_text_def)
qed

lemma masked_text:
  assumes "\<And>x. x \<in> set ss \<Longrightarrow> maskable x" and "k \<in> set ss"
  shows "\<not> occurs_in k (mask_text ss s)"
  using assms
proof (induction ss arbitrary: s)
  case (Cons x xs)
  show ?case
  proof (cases "k \<in> set xs")
    case True
    with Cons show ?thesis by (simp add: mask_text_def)
  next
    case False
    with Cons.prems have "k = x" by simp
    have "maskable x" using Cons.prems(1) by simp
    then have "\<not> occurs_in x (py_replace x SECRET_HIDDEN s)"
      using replaced_gone [OF maskable_apart, of x s] by (auto simp: py_replace_def maskable_def)
    moreover have "mask_text (x # xs) s = mask_text xs (py_replace x SECRET_HIDDEN s)"
      by (simp add: mask_text_def)
    ultimately show ?thesis
      using mask_keeps_out [of x _ xs] Cons.prems(1) \<open>k = x\<close> by (auto simp: maskable_def)
  qed
qed simp

text \<open>No text reached through dictionaries shows a secret.\<close>

fun hides :: "string list \<Rightarrow> json \<Rightarrow> bool" where
  "hides ss (JDict d) = (\<forall>kv \<in> set d. hides ss (snd kv))"
| "hides ss (JStr s) = (\<forall>k \<in> set ss. \<not> occurs_in k s)"
| "hides ss v = True"

lemma mask_hides:
  assumes "\<And>x. x \<in> set ss \<Longrightarrow> maskable x"
  shows "hides ss (mask_value ss v)"
  using assms
proof (induction ss v rule: mask_value.induct)
  case (1 ss d)
  then show ?case by fastforce
qed (simp_all add: masked_text)

lemma replaced_hides:
  assumes "\<And>x. x \<in> set ss \<Longrightarrow> maskable x" and "(k, v) \<in> set (replace_secrets ss d)"
    and "k \<notin> set TOP_LEVEL_PROTECTED_FIELDS"
  shows "hides ss v"
  using assms(2,3) mask_hides [OF assms(1)] by (auto simp: replace_secrets_def split: if_splits)

section \<open>An addition, step by step\<close>

lemma add_success:
  assumes "add_to_stream cd now e src st = (Inr e1, st')"
  obtains i d0 d e2 where "fst (current_id st) = Inr i"
    and "e1 = e\<lparr>raw_timestamp := Some now, raw_source := Some src, raw_id := Some i\<rparr>"
    and "encode cd e1 = Inr d0" and "d = replace_secrets (map snd (es_secrets st)) d0"
    and "decode cd d = Inr e2"
    and "st' = (let page = es_write_page st @ [d]; st3 = store_cache_page page (st\<lparr>es_cur_id := Some (i + 1),
            es_write_page := (if length page = es_cache_size st then [] else page),
            es_files := mem_write (event_file st (event_id e2)) (JDict d) (es_files st)\<rparr>)
          in st3\<lparr>es_queue := es_queue st3 @ [e2]\<rparr>)"
proof -
  have same: "snd (current_id st) = st\<lparr>es_cur_id := c\<rparr>" if "fst (current_id st) = Inr i" "c = Some i" for i c
    using that by (auto simp: current_id_def split: option.splits sum.splits)
  show thesis
  proof (cases "current_id st")
    case (Pair r s)
    with assms obtain i where r: "r = Inr i"
      by (cases r) (auto simp: add_to_stream_def split: if_splits)
    with Pair same have s: "s = st\<lparr>es_cur_id := Some i\<rparr>" by simp
    let ?e1 = "e\<lparr>raw_timestamp := Some now, raw_source := Some src, raw_id := Some i\<rparr>"
    obtain d0 where d0: "encode cd ?e1 = Inr d0"
      using assms by (auto simp: add_to_stream_def Pair r Let_def split: if_splits sum.splits)
    obtain e2 where e2: "decode cd (replace_secrets (map snd (es_secrets st)) d0) = Inr e2"
      using assms by (auto simp: add_to_stream_def Pair r s d0 Let_def split: if_splits sum.splits)
    show thesis
      using assms
      by (intro that [of i d0 "replace_secrets (map snd (es_secrets st)) d0" e2])
        (auto simp: add_to_stream_def Pair r s d0 e2 Let_def event_file_def split: if_splits)
  qed
qed

lemma store_cache_page_event_file:
  "mem_read (event_file st i) (es_files (store_cache_page page s)) = mem_read (event_file st i) (es_files s)"
  if "es_sid s = es_sid st" "es_user_id s = es_user_id st"
proof -
  have "event_file s = event_file st" using that by (simp add: fun_eq_iff event_file_def)
  then have "event_file st i \<noteq> cache_file s a b" for a b
    by (metis cache_not_event(2))
  then show ?thesis
    by (auto simp: store_cache_page_def mem_read_write split: option.split json.split)
qed

text \<open>The file of an added event hides the secrets, but for the keys that are protected.\<close>

lemma added_file:
  assumes "add_to_stream cd now e src st = (Inr e1, st')" and "0 \<le> event_id e1"
  obtains d0 d where "encode cd e1 = Inr d0" and "d = replace_secrets (map snd (es_secrets st)) d0"
    and "mem_read (event_file st (event_id e1)) (es_files st') = Inr (JDict d)"
proof -
  obtain i d0 d e2 where i: "e1 = e\<lparr>raw_timestamp := Some now, raw_source := Some src, raw_id := Some i\<rparr>"
    and d0: "encode cd e1 = Inr d0" and d: "d = replace_secrets (map snd (es_secrets st)) d0"
    and e2: "decode cd d = Inr e2"
    and st': "st' = (let page = es_write_page st @ [d]; st3 = store_cache_page page (st\<lparr>es_cur_id := Some (i + 1),
            es_write_page := (if length page = es_cache_size st then [] else page),
            es_files := mem_write (event_file st (event_id e2)) (JDict d) (es_files st)\<rparr>)
          in st3\<lparr>es_queue := es_queue st3 @ [e2]\<rparr>)"
    using add_success [OF assms(1)] .
  have id: "event_id e1 = i" by (simp add: i)
  have "map_of d0 ''id'' = Some (JInt i)"
    by (rule event_dict_id [OF d0]) (use assms(2) id in \<open>simp_all add: i INVALID_ID_def\<close>)
  then have "map_of d ''id'' = Some (JInt i)"
    unfolding d by (subst protected_kept) (simp_all add: TOP_LEVEL_PROTECTED_FIELDS_def)
  with e2 have "event_id e2 = i" by (simp add: decode_id)
  then have "mem_read (event_file st (event_id e1)) (es_files st') = Inr (JDict d)"
    by (simp add: st' Let_def id store_cache_page_event_file mem_read_write)
  with that d0 d show thesis by blast
qed

section \<open>Pages of a stream that is opened again\<close>

fun add_all :: "codec \<Rightarrow> (string \<times> event_source \<times> event) list \<Rightarrow> event_stream \<Rightarrow> event_stream decoded" where
  "add_all cd [] st = Inr st"
| "add_all cd ((now, src, e) # es) st =
     (case add_to_stream cd now e src st of (Inl x, st') \<Rightarrow> Inl x | (Inr e1, st') \<Rightarrow> add_all cd es st')"

text \<open>No page exists from \<open>a\<close> on at a multiple of the page size, and the one being filled begins
  elsewhere.\<close>

definition no_page_from :: "nat \<Rightarrow> event_stream \<Rightarrow> json_dict list \<Rightarrow> bool" where
  "no_page_from a st ds \<longleftrightarrow> page_start st ds mod es_cache_size st \<noteq> 0 \<and>
     (\<forall>b. int a \<le> b \<and> b mod int (es_cache_size st) = 0 \<longrightarrow>
        (\<exists>x. mem_read (cache_file st b (b + int (es_cache_size st))) (es_files st) = Inl x))"

lemma no_page_add:
  assumes rep: "represents_by cd st ds lg" and "no_page_from a st ds"
    and add: "add_to_stream cd now e src st = (Inr e1, st')"
  obtains d lg' where "represents_by cd st' (ds @ [d]) lg'" and "no_page_from a st' (ds @ [d])"
    and "es_cache_size st' = es_cache_size st"
proof -
  obtain i d0 d e2 where i: "fst (current_id st) = Inr i"
    and e1: "e1 = e\<lparr>raw_timestamp := Some now, raw_source := Some src, raw_id := Some i\<rparr>"
    and d0: "encode cd e1 = Inr d0" and d: "d = replace_secrets (map snd (es_secrets st)) d0"
    and e2: "decode cd d = Inr e2"
    and "st' = (let page = es_write_page st @ [d]; st3 = store_cache_page page (st\<lparr>es_cur_id := Some (i + 1),
            es_write_page := (if length page = es_cache_size st then [] else page),
            es_files := mem_write (event_file st (event_id e2)) (JDict d) (es_files st)\<rparr>)
          in st3\<lparr>es_queue := es_queue st3 @ [e2]\<rparr>)"
    using add_success [OF add] .
  have new: "event_id e = INVALID_ID"
    using add by (simp add: add_to_stream_def split: if_splits)
  have "i = int (length ds)"
    using i current_id_right [OF rep] by simp
  with e1 have e1': "e1 = e\<lparr>raw_timestamp := Some now, raw_source := Some src, raw_id := Some (int (length ds))\<rparr>"
    by simp
  from add_represents [OF rep new e1' d0 d e2] obtain st2 where st2:
      "add_to_stream cd now e src st = (Inr e1, st2)"
      "represents_by cd st2 (ds @ [d]) (lg\<lparr>logged := logged lg @ [e2], queued := queued lg @ [e2]\<rparr>)"
      "page_start st2 (ds @ [d]) mod es_cache_size st = page_start st ds mod es_cache_size st"
      "es_cache_size st2 = es_cache_size st" "es_secrets st2 = es_secrets st"
      "es_sid st2 = es_sid st" "es_user_id st2 = es_user_id st"
    and files: "\<forall>q. q \<noteq> cache_file st (int (page_start st ds)) (int (page_start st ds) + int (es_cache_size st)) \<and>
          q \<noteq> event_file st (int (length ds)) \<longrightarrow> mem_read q (es_files st2) = mem_read q (es_files st)" .
  have "no_page_from a st2 (ds @ [d])"
    unfolding no_page_from_def st2(3,4)
  proof (intro conjI allI impI)
    show "page_start st ds mod es_cache_size st \<noteq> 0" using assms(2) by (simp add: no_page_from_def)
  next
    fix b
    assume b: "int a \<le> b \<and> b mod int (es_cache_size st) = 0"
    have "b \<noteq> int (page_start st ds)"
    proof
      assume "b = int (page_start st ds)"
      with b have "int (page_start st ds mod es_cache_size st) = 0" by (simp add: of_nat_mod)
      with assms(2) show False by (simp add: no_page_from_def)
    qed
    then have "cache_file st b (b + int (es_cache_size st)) \<noteq>
        cache_file st (int (page_start st ds)) (int (page_start st ds) + int (es_cache_size st))"
      using cache_file_inj by blast
    then have "mem_read (cache_file st b (b + int (es_cache_size st))) (es_files st2) =
        mem_read (cache_file st b (b + int (es_cache_size st))) (es_files st)"
      using files by simp
    with assms(2) b show "\<exists>x. mem_read (cache_file st2 b (b + int (es_cache_size st))) (es_files st2) = Inl x"
      using st2(6,7) by (simp add: no_page_from_def cache_file_def)
  qed
  with st2 add show thesis by (intro that) simp_all
qed

lemma no_page_all:
  assumes "represents_by cd st ds lg" and "no_page_from a st ds" and "add_all cd es st = Inr st'"
  shows "\<exists>ds'. no_page_from a st' ds' \<and> es_cache_size st' = es_cache_size st"
  using assms
proof (induction es arbitrary: st ds lg)
  case Nil
  then show ?case by auto
next
  case (Cons x es)
  obtain now src e where x: "x = (now, src, e)" by (cases x)
  with Cons.prems(3) obtain e1 st1 where add: "add_to_stream cd now e src st = (Inr e1, st1)"
      and rest: "add_all cd es st1 = Inr st'"
    by (auto split: prod.splits sum.splits)
  from no_page_add [OF Cons.prems(1,2) add] obtain d lg' where
    "represents_by cd st1 (ds @ [d]) lg'" "no_page_from a st1 (ds @ [d])" "es_cache_size st1 = es_cache_size st" .
  with Cons.IH rest show ?case by metis
qed

lemma reopened_no_page:
  assumes rep: "represents_by cd st ds lg" and size: "es_cache_size st = 25"
    and odd: "length ds mod 25 \<noteq> 0"
  shows "no_page_from (length ds - length ds mod 25) (new_event_stream (es_sid st) (es_user_id st) (es_files st)) ds"
proof -
  let ?st = "new_event_stream (es_sid st) (es_user_id st) (es_files st)"
  have names: "cache_file ?st b c = cache_file st b c" for b c
    by (simp add: new_event_stream_def cache_file_def)
  have "\<exists>x. mem_read (cache_file st b (b + 25)) (es_files st) = Inl x"
    if b: "int (length ds - length ds mod 25) \<le> b" "b mod 25 = 0" for b
  proof (rule ccontr)
    assume "\<not> ?thesis"
    then obtain v where v: "mem_read (cache_file st b (b + 25)) (es_files st) = Inr v"
      by (cases "mem_read (cache_file st b (b + 25)) (es_files st)") auto
    have "pages_right st ds" using rep by (simp add: represents_by_def)
    with v b(2) obtain k where "b = int k" "k + 25 \<le> length ds"
      unfolding pages_right_def size by force
    with b(1) have "length ds - length ds mod 25 + 25 \<le> length ds" by simp
    moreover have "length ds mod 25 < 25" by simp
    ultimately show False by simp
  qed
  with odd show ?thesis
    by (simp add: no_page_from_def names page_start_def) (simp add: new_event_stream_def)
qed

section \<open>An id that is lost\<close>

text \<open>
  After event 0 was added and the encoding of event 1 failed: \<open>ds\<close> are the dictionaries of the
  events added since. They follow the first one in the page, one place too early.
\<close>

definition gap :: "codec \<Rightarrow> nat \<Rightarrow> event_stream \<Rightarrow> json_dict \<Rightarrow> json_dict list \<Rightarrow> bool" where
  "gap cd n st d0 ds \<longleftrightarrow> es_cache_size st = n \<and> es_cur_id st = Some (2 + int (length ds)) \<and>
     Suc (length ds) \<le> n \<and> (\<exists>f. decode cd d0 = Inr f) \<and> map_of d0 ''id'' = Some (JInt 0) \<and>
     (\<forall>j < length ds. (\<exists>f. decode cd (ds ! j) = Inr f) \<and> map_of (ds ! j) ''id'' = Some (JInt (2 + int j)) \<and>
        mem_read (event_file st (2 + int j)) (es_files st) = Inr (JDict (ds ! j))) \<and>
     (if Suc (length ds) = n
      then mem_read (cache_file st 0 (int n)) (es_files st) = Inr (JList (map JDict (d0 # ds)))
      else es_write_page st = d0 # ds) \<and>
     (\<exists>x. mem_read (cache_file st (int n) (int n + int n)) (es_files st) = Inl x)"

lemma added_id:
  assumes "encode cd (e\<lparr>raw_timestamp := t, raw_source := s, raw_id := Some i\<rparr>) = Inr d0" and "0 \<le> i"
  shows "map_of (replace_secrets ss d0) ''id'' = Some (JInt i)"
proof -
  have "map_of d0 ''id'' = Some (JInt i)"
    by (rule event_dict_id [OF assms(1)]) (use assms(2) in \<open>simp_all add: INVALID_ID_def\<close>)
  then show ?thesis by (subst protected_kept) (simp_all add: TOP_LEVEL_PROTECTED_FIELDS_def)
qed

lemma gap_step:
  assumes gap: "gap cd n st d0 ds" and room: "Suc (Suc (length ds)) \<le> n"
    and add: "add_to_stream cd now e src st = (Inr e1, st')"
  shows "\<exists>d. gap cd n st' d0 (ds @ [d])"
proof -
  obtain i d1 d e2 where i: "fst (current_id st) = Inr i"
    and e1: "e1 = e\<lparr>raw_timestamp := Some now, raw_source := Some src, raw_id := Some i\<rparr>"
    and d1: "encode cd e1 = Inr d1" and d: "d = replace_secrets (map snd (es_secrets st)) d1"
    and e2: "decode cd d = Inr e2"
    and st': "st' = (let page = es_write_page st @ [d]; st3 = store_cache_page page (st\<lparr>es_cur_id := Some (i + 1),
            es_write_page := (if length page = es_cache_size st then [] else page),
            es_files := mem_write (event_file st (event_id e2)) (JDict d) (es_files st)\<rparr>)
          in st3\<lparr>es_queue := es_queue st3 @ [e2]\<rparr>)"
    using add_success [OF add] .
  have n: "es_cache_size st = n" and cur: "i = 2 + int (length ds)" and page: "es_write_page st = d0 # ds"
    using gap i room by (simp_all add: gap_def current_id_def)
  have id: "map_of d ''id'' = Some (JInt (2 + int (length ds)))"
    unfolding d using d1 e1 cur by (intro added_id) simp_all
  then have e2_id: "event_id e2 = 2 + int (length ds)" using decode_id [OF e2] by simp
  define st2 where "st2 = st\<lparr>es_cur_id := Some (3 + int (length ds)),
      es_write_page := (if Suc (Suc (length ds)) = n then [] else d0 # ds @ [d]),
      es_files := mem_write (event_file st (2 + int (length ds))) (JDict d) (es_files st)\<rparr>"
  define fs where "fs = (if Suc (Suc (length ds)) = n
      then mem_write (cache_file st 0 (int n)) (JList (map JDict (d0 # ds @ [d]))) (es_files st2)
      else es_files st2)"
  have st'_eq: "st' = st2\<lparr>es_files := fs, es_queue := es_queue st @ [e2]\<rparr>"
  proof (cases "Suc (Suc (length ds)) = n")
    case True
    have "map_of (hd (d0 # ds @ [d])) ''id'' = Some (JInt 0)" using gap by (simp add: gap_def)
    with True show ?thesis
      by (simp add: st' page n cur e2_id Let_def store_cache_page_def st2_def fs_def cache_file_def)
  next
    case False
    with room show ?thesis
      by (simp add: st' page n cur e2_id Let_def store_cache_page_def st2_def fs_def)
  qed
  have names: "event_file st' = event_file st" "cache_file st' = cache_file st"
    by (simp_all add: fun_eq_iff event_file_def cache_file_def st'_eq st2_def)
  have ev: "mem_read (event_file st j) (es_files st') =
      (if j = 2 + int (length ds) then Inr (JDict d) else mem_read (event_file st j) (es_files st))" for j
    by (simp add: st'_eq fs_def st2_def mem_read_write)
  have "cache_file st (int n) (int n + int n) \<noteq> cache_file st 0 (int n)"
    using cache_file_inj [of st "int n" "int n + int n" 0 "int n"] room by auto
  then have ca: "mem_read (cache_file st (int n) (int n + int n)) (es_files st') =
      mem_read (cache_file st (int n) (int n + int n)) (es_files st)"
    by (simp add: st'_eq fs_def st2_def mem_read_write)
  have full: "if Suc (Suc (length ds)) = n
      then mem_read (cache_file st 0 (int n)) (es_files st') = Inr (JList (map JDict (d0 # ds @ [d])))
      else es_write_page st' = d0 # ds @ [d]"
    by (simp add: st'_eq fs_def st2_def mem_read_write)
  have each: "(\<exists>f. decode cd ((ds @ [d]) ! j) = Inr f) \<and>
      map_of ((ds @ [d]) ! j) ''id'' = Some (JInt (2 + int j)) \<and>
      mem_read (event_file st' (2 + int j)) (es_files st') = Inr (JDict ((ds @ [d]) ! j))"
    if "j < length (ds @ [d])" for j
    using that gap e2 id by (cases "j = length ds") (auto simp: names ev nth_append gap_def)
  have size: "es_cache_size st' = n" "es_cur_id st' = Some (2 + int (length (ds @ [d])))"
    by (simp_all add: st'_eq st2_def n)
  show ?thesis
    using gap room each full ca by (intro exI [of _ d]) (simp add: gap_def size names)
qed

lemma gap_all:
  assumes "gap cd n st d0 ds" and "length ds + length es < n" and "add_all cd es st = Inr st'"
  shows "\<exists>ds'. length ds' = length ds + length es \<and> gap cd n st' d0 ds'"
  using assms
proof (induction es arbitrary: st ds)
  case Nil
  then show ?case by auto
next
  case (Cons x es)
  obtain now src e where x: "x = (now, src, e)" by (cases x)
  with Cons.prems(3) obtain e1 st1 where add: "add_to_stream cd now e src st = (Inr e1, st1)"
      and rest: "add_all cd es st1 = Inr st'"
    by (auto split: prod.splits sum.splits)
  from gap_step [OF Cons.prems(1) _ add] Cons.prems(2) obtain d where "gap cd n st1 d0 (ds @ [d])" by auto
  from Cons.IH [OF this _ rest] Cons.prems(2) show ?case by auto
qed

lemma search_in_page:
  assumes "\<And>i. i \<in> set is \<Longrightarrow> covers page i \<and> page_event cd page i = Inr (Some (g i))"
  shows "search_loop cd st None None found page (is @ js) =
    bindD (search_loop cd st None None (found + length is) page js) (\<lambda>es. Inr (map g is @ es))"
  using assms
proof (induction "is" arbitrary: found)
  case Nil
  then show ?case by (cases "search_loop cd st None None found page js") simp_all
next
  case (Cons i "is")
  then have "event_at cd st page i = Inr (Some (g i), page)" by (simp add: event_at_def)
  with Cons show ?case
    by (cases "search_loop cd st None None (found + length (i # is)) page js") simp_all
qed

lemma shifted_ids:
  assumes ids: "\<And>i. i < n \<Longrightarrow> event_id (g i) = (if i = 0 then 0 else int i + 1)" and "2 \<le> n"
  shows "map event_id (map (\<lambda>i. g (nat i)) [0..int n - 1] @ [g (n - 1)]) = 0 # [2..int n] @ [int n]"
proof (rule nth_equalityI)
  show "length (map event_id (map (\<lambda>i. g (nat i)) [0..int n - 1] @ [g (n - 1)])) = length (0 # [2..int n] @ [int n])"
    using assms(2) by simp
next
  fix i
  assume "i < length (map event_id (map (\<lambda>i. g (nat i)) [0..int n - 1] @ [g (n - 1)]))"
  then have "i \<le> n" using assms(2) by simp
  then consider "i = 0" | "0 < i" "i < n" | "i = n" by linarith
  then show "map event_id (map (\<lambda>i. g (nat i)) [0..int n - 1] @ [g (n - 1)]) ! i = (0 # [2..int n] @ [int n]) ! i"
    using assms(2) ids [of i] ids [of "n - 1"]
    by cases (auto simp: nth_append nth_Cons')
qed

lemma gap_event:
  assumes "gap cd n st d0 ds" and "i \<le> length ds"
  shows "\<exists>f. decode cd ((d0 # ds) ! i) = Inr f \<and> event_id f = (if i = 0 then 0 else int i + 1)"
proof -
  have "\<exists>f. decode cd ((d0 # ds) ! i) = Inr f"
    using assms by (cases i) (simp_all add: gap_def)
  moreover have "map_of ((d0 # ds) ! i) ''id'' = Some (JInt (if i = 0 then 0 else int i + 1))"
    using assms by (cases i) (simp_all add: gap_def)
  ultimately show ?thesis using decode_id by fastforce
qed

lemma gap_last_file:
  assumes "gap cd n st d0 ds" and "ds \<noteq> []"
  shows "mem_read (event_file st (int (length ds) + 1)) (es_files st) = Inr (JDict (last ds))"
proof -
  have "\<forall>j < length ds. mem_read (event_file st (2 + int j)) (es_files st) = Inr (JDict (ds ! j))"
    using assms(1) by (simp add: gap_def)
  moreover have "2 + int (length ds - 1) = int (length ds) + 1" "length ds - 1 < length ds"
    using assms(2) by (cases ds; simp)+
  ultimately show ?thesis using assms(2) last_conv_nth [of ds] by metis
qed

lemma gap_search:
  assumes gap: "gap cd n st d0 ds" and full: "Suc (length ds) = n" and "2 \<le> n"
  shows "\<exists>r. search_stream cd 0 None False None None st = Inr r \<and>
    map event_id r = 0 # [2..int n] @ [int n]"
proof -
  define ps where "ps = d0 # ds"
  define page where "page = \<lparr>pg_events = Some (map JDict ps), pg_start = 0, pg_end = int n\<rparr>"
  have n: "es_cache_size st = n" "es_cur_id st = Some (int n + 1)"
    and c0: "mem_read (cache_file st 0 (int n)) (es_files st) = Inr (JList (map JDict ps))"
    and c1: "\<exists>x. mem_read (cache_file st (int n) (int n + int n)) (es_files st) = Inl x"
    using gap full by (simp_all add: gap_def ps_def)
  have len: "length ps = n" using full by (simp add: ps_def)
  have "\<forall>i. \<exists>f. i < n \<longrightarrow> decode cd (ps ! i) = Inr f \<and> event_id f = (if i = 0 then 0 else int i + 1)"
    using gap_event [OF gap] full unfolding ps_def by auto
  then obtain g where
    "\<forall>i. i < n \<longrightarrow> decode cd (ps ! i) = Inr (g i) \<and> event_id (g i) = (if i = 0 then 0 else int i + 1)"
    by (rule choice [THEN exE])
  then have g: "\<And>i. i < n \<Longrightarrow> decode cd (ps ! i) = Inr (g i)"
    and ids: "\<And>i. i < n \<Longrightarrow> event_id (g i) = (if i = 0 then 0 else int i + 1)"
    by blast+
  have in_page: "covers page i \<and> page_event cd page i = Inr (Some (g (nat i)))" if "0 \<le> i" "i < int n" for i
  proof -
    have "py_get (map JDict ps) i = Inr (JDict (ps ! nat i))"
      using that len by (simp add: py_get_def)
    moreover have "map JDict ps \<noteq> []" by (simp add: ps_def)
    ultimately show ?thesis
      using that g [of "nat i"] by (cases "map JDict ps") (simp_all add: covers_def page_def page_event_def)
  qed
  have load0: "load_cache_page_for_index st 0 = Inr page"
    using c0 by (simp add: load_cache_page_for_index_def load_cache_page_def Let_def n page_def)
  have first: "search_loop cd st None None 0 DUMMY_PAGE (0 # js) = search_loop cd st None None 0 page (0 # js)" for js
    using in_page [of 0] \<open>2 \<le> n\<close> load0
    by (simp add: event_at_def covers_def DUMMY_PAGE_def)
  obtain x where "mem_read (cache_file st (int n) (int n + int n)) (es_files st) = Inl x" using c1 by blast
  then have "load_cache_page_for_index st (int n) = Inr \<lparr>pg_events = None, pg_start = int n, pg_end = int n + int n\<rparr>"
    by (simp add: load_cache_page_for_index_def load_cache_page_def Let_def n)
  moreover have "\<not> covers page (int n)" by (simp add: covers_def page_def)
  moreover have "get_event cd st (int n) = Inr (g (n - 1))"
  proof -
    have "ds \<noteq> []" using full \<open>2 \<le> n\<close> by auto
    moreover from this have "ps ! (n - 1) = last ds"
      using full last_conv_nth [of ps] by (simp add: ps_def)
    moreover have "int (length ds) + 1 = int n" using full by simp
    ultimately show ?thesis
      using gap_last_file [OF gap] g [of "n - 1"] \<open>2 \<le> n\<close> by (simp add: get_event_def)
  qed
  ultimately have last: "event_at cd st page (int n) =
      Inr (Some (g (n - 1)), \<lparr>pg_events = None, pg_start = int n, pg_end = int n + int n\<rparr>)"
    by (simp add: event_at_def page_event_def)
  have range: "[0..int n] = [0..int n - 1] @ [int n]"
    by (rule upto_rec2) simp
  have start: "[0..int n] = 0 # [1..int n]" 
    by (subst upto_rec1) simp_all
  have "search_stream cd 0 None False None None st = search_loop cd st None None 0 page [0..int n]"
    unfolding start by (simp add: search_stream_def current_id_def n start first del: search_loop.simps)
  also have "\<dots> = Inr (map (\<lambda>i. g (nat i)) [0..int n - 1] @ [g (n - 1)])"
    unfolding range by (subst search_in_page [where g = "\<lambda>i. g (nat i)"]) (simp_all add: in_page last)
  finally have r: "search_stream cd 0 None False None None st = \<dots>" .
  show ?thesis
    by (rule exI, rule conjI, rule r, rule shifted_ids [OF ids \<open>2 \<le> n\<close>])
qed

lemma gap_start:
  assumes first: "add_to_stream cd now e src (new_event_stream sid uid []) = (Inr e1, st1)"
    and "event_id e' = INVALID_ID" and failed: "add_to_stream cd now' e' src' st1 = (Inl x, st2)"
  shows "\<exists>d0. gap cd 25 st2 d0 []"
proof -
  let ?st = "new_event_stream sid uid []"
  obtain i d1 d e2 where i: "fst (current_id ?st) = Inr i"
    and e1: "e1 = e\<lparr>raw_timestamp := Some now, raw_source := Some src, raw_id := Some i\<rparr>"
    and d1: "encode cd e1 = Inr d1" and d: "d = replace_secrets (map snd (es_secrets ?st)) d1"
    and e2: "decode cd d = Inr e2"
    and st1: "st1 = (let page = es_write_page ?st @ [d]; st3 = store_cache_page page (?st\<lparr>es_cur_id := Some (i + 1),
            es_write_page := (if length page = es_cache_size ?st then [] else page),
            es_files := mem_write (event_file ?st (event_id e2)) (JDict d) (es_files ?st)\<rparr>)
          in st3\<lparr>es_queue := es_queue st3 @ [e2]\<rparr>)"
    using add_success [OF first] .
  have i0: "i = 0" using i current_id_right [OF fresh_represents] by simp
  have id: "map_of d ''id'' = Some (JInt 0)"
    unfolding d using d1 e1 i0 by (intro added_id) simp_all
  have e2_id: "event_id e2 = 0" using decode_id [OF e2 id] by simp
  have st1': "st1 = ?st\<lparr>es_cur_id := Some 1, es_write_page := [d],
      es_files := mem_write (event_file ?st 0) (JDict d) [], es_queue := [e2]\<rparr>"
    unfolding st1 e2_id i0
    by (simp add: Let_def store_cache_page_def) (simp add: new_event_stream_def)
  have st2: "st2 = st1\<lparr>es_cur_id := Some 2\<rparr>"
  proof -
    have cur: "current_id st1 = (Inr 1, st1)"
      by (simp add: st1' current_id_def)
    show ?thesis
      using failed assms(2)
      by (auto simp: add_to_stream_def cur Let_def split: sum.splits)
  qed
  have other: "cache_file st2 25 50 \<noteq> event_file ?st 0"
  proof -
    have "event_file ?st = event_file st2"
      by (simp add: fun_eq_iff event_file_def st2 st1')
    then show ?thesis by (metis cache_not_event(2))
  qed
  show ?thesis
    using e2 id other
    by (intro exI [of _ d]) (simp add: gap_def st2 st1' new_event_stream_def mem_read_write, simp add: mem_read_def)
qed

end
