(* ===== verification/Event_Properties.thy ===== *)
theory Event_Properties
  imports Event_Store_Facts
begin

text \<open>
  The properties of the serialization of events and of the files behind the event stream, with
  the streams their witnesses run on.
\<close>

section \<open>Additions that succeed\<close>

lemma event_message_stamped [simp]:
  "event_message r (e\<lparr>raw_timestamp := t, raw_source := s, raw_id := i\<rparr>) = event_message r e"
  by (simp add: event_message_def)

lemma storable_stamped:
  "storable e \<Longrightarrow> 0 \<le> i \<Longrightarrow> storable (e\<lparr>raw_timestamp := t, raw_source := s, raw_id := Some i\<rparr>)"
  by (simp add: storable_def INVALID_ID_def)

lemma encodable:
  assumes "event_message r e = Inr m"
  obtains d where "event_to_dict r e = Inr d"
  using assms by (simp add: event_to_dict_def Let_def)

lemma refined_add:
  assumes rep: "represents_by cd st ds lg" and "es_secrets st = []" and "storable e"
    and new: "event_id e = INVALID_ID" and "event_message (py_repr cd) e = Inr m"
  shows "\<exists>e1 lg' st' d. add_event now e src lg = Inr (e1, lg') \<and>
    add_to_stream cd now e src st = (Inr e1, st') \<and> represents_by cd st' (ds @ [d]) lg' \<and>
    es_secrets st' = [] \<and> es_cache_size st' = es_cache_size st"
proof -
  define e1 where "e1 = e\<lparr>raw_timestamp := Some now, raw_source := Some src, raw_id := Some (int (length ds))\<rparr>"
  have e1: "storable e1" "event_message (py_repr cd) e1 = Inr m"
    using assms(3,5) by (simp_all add: e1_def storable_stamped)
  obtain d where d: "encode cd e1 = Inr d" using encodable [OF e1(2)] .
  have dec: "decode cd d = Inr (stored_form e1)" by (rule from_dict_to_dict [OF e1(1) d])
  have "d = replace_secrets (map snd (es_secrets st)) d"
    using assms(2) by (simp add: replace_no_secrets)
  from add_represents [OF rep new e1_def d this dec] obtain st' where st':
      "add_to_stream cd now e src st = (Inr e1, st')"
      "represents_by cd st' (ds @ [d]) (lg\<lparr>logged := logged lg @ [stored_form e1],
         queued := queued lg @ [stored_form e1]\<rparr>)"
      "es_cache_size st' = es_cache_size st" "es_secrets st' = es_secrets st" .
  moreover have "add_event now e src lg = Inr (e1, lg\<lparr>logged := logged lg @ [stored_form e1],
      queued := queued lg @ [stored_form e1]\<rparr>)"
    using new by (simp add: add_event_def Let_def e1_def cur_id_def represents_length [OF rep])
  ultimately show ?thesis using assms(2) by auto
qed

lemma stored_form_storable: "storable e \<Longrightarrow> storable (stored_form e)"
  by (auto simp: storable_def stored_form_def split: payload.splits)

text \<open>Adding goes through whatever the files hold, if the next id is known.\<close>

lemma add_goes_through:
  assumes "fst (current_id st) = Inr i" and "0 \<le> i" and "es_secrets st = []" and "storable e"
    and new: "event_id e = INVALID_ID" and "event_message (py_repr cd) e = Inr m"
  shows "\<exists>e1 st'. add_to_stream cd now e src st = (Inr e1, st') \<and> es_secrets st' = [] \<and>
    es_cur_id st' = Some (i + 1)"
proof -
  define e1 where "e1 = e\<lparr>raw_timestamp := Some now, raw_source := Some src, raw_id := Some i\<rparr>"
  have e1: "storable e1" "event_message (py_repr cd) e1 = Inr m"
    using assms(2,4,6) by (simp_all add: e1_def storable_stamped)
  obtain d where d: "encode cd e1 = Inr d" using encodable [OF e1(2)] .
  have dec: "decode cd d = Inr (stored_form e1)" by (rule from_dict_to_dict [OF e1(1) d])
  obtain s where s: "current_id st = (Inr i, s)" "es_secrets s = []"
    using assms(1,3) by (auto simp: current_id_def split: option.splits sum.splits)
  show ?thesis
    using new d dec
    by (simp add: add_to_stream_def s e1_def [symmetric] replace_no_secrets Let_def store_cache_page_def
        split: option.split json.split)
qed

lemma add_all_goes_through:
  assumes "fst (current_id st) = Inr i" and "0 \<le> i" and "es_secrets st = []"
    and "\<forall>(now, src, e) \<in> set es. storable e \<and> event_id e = INVALID_ID \<and>
      (\<exists>m. event_message (py_repr cd) e = Inr m)"
  shows "\<exists>st'. add_all cd es st = Inr st'"
  using assms
proof (induction es arbitrary: st i)
  case Nil
  then show ?case by simp
next
  case (Cons x es)
  obtain now src e where x: "x = (now, src, e)" by (cases x)
  then obtain m where e: "storable e" "event_id e = INVALID_ID" "event_message (py_repr cd) e = Inr m"
    using Cons.prems(4) by auto
  obtain e1 st' where st': "add_to_stream cd now e src st = (Inr e1, st')" "es_secrets st' = []"
      "es_cur_id st' = Some (i + 1)"
    using add_goes_through [OF Cons.prems(1-3) e] by blast
  have "fst (current_id st') = Inr (i + 1)" using st'(3) by (simp add: current_id_def)
  with Cons.IH [of st' "i + 1"] st' Cons.prems(2,4) x show ?case by auto
qed

lemma page_below:
  fixes a i :: int
  assumes "a - a mod 25 \<le> i"
  shows "a - a mod 25 \<le> i - i mod 25"
proof -
  have "a - a mod 25 = 25 * (a div 25)" "i - i mod 25 = 25 * (i div 25)"
    by (simp_all add: minus_mod_eq_mult_div)
  moreover have "(25 * (a div 25)) div 25 \<le> i div 25"
    using assms calculation(1) by (intro zdiv_mono1) simp_all
  ultimately show ?thesis by simp
qed

lemma added_id_nonneg:
  assumes "represents cd st lg" and "add_to_stream cd now e src st = (Inr e1, st')"
  shows "0 \<le> event_id e1"
proof -
  obtain i where "fst (current_id st) = Inr i"
    and "e1 = e\<lparr>raw_timestamp := Some now, raw_source := Some src, raw_id := Some i\<rparr>"
    using add_success [OF assms(2)] .
  moreover obtain ds where "represents_by cd st ds lg" using assms(1) by (auto simp: represents_def)
  ultimately show ?thesis using current_id_right [of cd st ds lg] by simp
qed

lemma added_payload:
  assumes "add_to_stream cd now e src st = (Inr e1, st')"
  shows "payload e1 = payload e"
proof -
  obtain i where "e1 = e\<lparr>raw_timestamp := Some now, raw_source := Some src, raw_id := Some i\<rparr>"
    using add_success [OF assms] .
  then show ?thesis by simp
qed

lemma occurs_in_prepend: "occurs_in p s \<Longrightarrow> occurs_in p (xs @ s)"
  unfolding occurs_in_iff by (metis append_assoc)

lemma event_dict_message:
  assumes "event_to_dict r e = Inr d" and "event_message r e = Inr m"
  shows "map_of d ''message'' = Some (JStr m)"
  using assms by (auto simp: event_to_dict_def Let_def some_key_def split: option.splits)

section \<open>Streams for the witnesses\<close>

definition plain_codec :: codec where
  "plain_codec = \<lparr>py_repr = (\<lambda>_. []), version = ''0'', literal_eval = (\<lambda>_. None)\<rparr>"

definition command :: "string \<Rightarrow> event" where
  "command c = fresh_event (Act (CmdRunAction c False [] False False None False CONFIRMED RISK_UNKNOWN))"

text \<open>An action whose message cannot be built: the reason is not a text.\<close>

definition odd_rejection :: event where
  "odd_rejection = fresh_event (Act (AgentRejectAction [(''reason'', JInt 1)] []))"

lemma command_facts [simp]:
  "storable (command c)" "event_id (command c) = INVALID_ID" "raw_id (command c) = None"
  "event_message r (command c) = Inr (''Running command: '' @ c)"
  by (simp_all add: command_def fresh_event_def storable_def valid_action_def event_id_def event_message_def)

lemma odd_rejection_facts [simp]:
  "event_id odd_rejection = INVALID_ID"
  "event_message r odd_rejection = Inl (TypeError ''can only concatenate str to str'')"
  by (simp_all add: odd_rejection_def fresh_event_def event_id_def event_message_def)

lemma first_command:
  obtains e1 lg st d where "add_to_stream plain_codec ''t'' (command c) AGENT (new_event_stream ''s'' None []) = (Inr e1, st)"
    and "represents_by plain_codec st [d] lg" and "es_secrets st = []" and "es_cache_size st = 25"
proof -
  have new: "es_secrets (new_event_stream ''s'' None []) = []" "es_cache_size (new_event_stream ''s'' None []) = 25"
    by (simp_all add: new_event_stream_def)
  from refined_add [OF fresh_represents this(1) command_facts(1,2,4)] new(2) that show thesis
    by fastforce
qed

lemma odd_rejection_fails:
  assumes "fst (current_id st) = Inr i"
  shows "fst (add_to_stream cd now odd_rejection src st) = Inl (Raised (TypeError ''can only concatenate str to str''))"
proof -
  obtain s where s: "current_id st = (Inr i, s)" using assms by (cases "current_id st") simp
  show ?thesis
    by (simp add: add_to_stream_def s event_to_dict_def Let_def)
qed

text \<open>A stream with a secret, and the command that shows it.\<close>

definition secret_stream :: event_stream where
  "secret_stream = set_secrets [(''K'', ''ghp_tok3n'')] (new_event_stream ''s'' None [])"

lemma secret_stream_facts:
  "represents cd secret_stream empty_log" "es_secrets secret_stream = [(''K'', ''ghp_tok3n'')]"
  "maskable ''ghp_tok3n''"
proof -
  have "represents_by cd secret_stream [] empty_log"
    using fresh_represents [of cd "''s''" None]
    by (simp add: secret_stream_def set_secrets_def represents_by_def events_right_def pages_right_def
        event_file_def cache_file_def)
  then show "represents cd secret_stream empty_log" by (auto simp: represents_def)
qed (simp_all add: secret_stream_def set_secrets_def maskable_def SECRET_HIDDEN_def)

lemma secret_command_added:
  "\<exists>e1 st'. add_to_stream plain_codec ''t'' (command ''a ghp_tok3n'') AGENT secret_stream = (Inr e1, st')"
proof -
  define e1 where "e1 = (command ''a ghp_tok3n'')\<lparr>raw_timestamp := Some ''t'', raw_source := Some AGENT, raw_id := Some 0\<rparr>"
  have "event_message (py_repr plain_codec) e1 = Inr ''Running command: a ghp_tok3n''" by (simp add: e1_def)
  then obtain d where d: "encode plain_codec e1 = Inr d" by (rule encodable)
  have "\<exists>f. decode plain_codec (replace_secrets [''ghp_tok3n''] (case encode plain_codec e1 of Inr d \<Rightarrow> d)) = Inr f"
    unfolding e1_def command_def fresh_event_def by (rule exI) code_simp
  then obtain f where f: "decode plain_codec (replace_secrets [''ghp_tok3n''] d) = Inr f"
    by (auto simp: d)
  have "current_id secret_stream = (Inr 0, secret_stream\<lparr>es_cur_id := Some 0\<rparr>)"
  proof -
    obtain ds where ds: "represents_by plain_codec secret_stream ds empty_log"
      using secret_stream_facts(1) by (auto simp: represents_def)
    have "ds = []" using represents_length [OF ds] by (simp add: empty_log_def)
    then show ?thesis using current_id_right [OF ds] by simp
  qed
  then show ?thesis
    using d f by (simp add: add_to_stream_def e1_def secret_stream_facts(2) Let_def)
qed

section \<open>Properties\<close>

text \<open>
  C9. What is written to a file is read back: the dictionary of an event that its class accepts
  (no id that means "none", a consistent condensation, output short enough or hidden, no negative
  cost) decodes without error to the event with everything equal but the response id, the
  confirmation mark, the timeout of an observation and the model name of the metrics, whatever
  the version and the parser of old observations are.
\<close>

theorem event_roundtrip:
  assumes "storable e" and "encode cd e = Inr d"
  shows "decode cd d = Inr (stored_form e)"
  using assms by (rule from_dict_to_dict)

theorem event_roundtrip_witness:
  "\<exists>d. encode plain_codec (command ''ls'') = Inr d \<and> decode plain_codec d = Inr (stored_form (command ''ls''))"
proof -
  obtain d where "encode plain_codec (command ''ls'') = Inr d"
    using encodable [OF command_facts(4)] .
  with event_roundtrip [OF command_facts(1) this] show ?thesis by blast
qed

text \<open>
  C33. Decoding gives well-formed events only, from any dictionary, old formats included: the
  event passes the checks of its class, its command output respects the size limit unless it is
  hidden, its cost is not negative, and storing it again loses nothing.
\<close>

theorem decoded_event_stable:
  assumes "decode cd d = Inr e" and "raw_id e \<noteq> Some INVALID_ID"
  shows "(case payload e of
      Act (CondensationAction is s t m off) \<Rightarrow> condensation_valid is s t m off
    | Obs (CmdOutputObservation c _ _ hidden) \<Rightarrow> hidden \<or> maybe_truncate c = c
    | _ \<Rightarrow> True) \<and>
    (case raw_llm_metrics e of None \<Rightarrow> True | Some m \<Rightarrow> 0 \<le> accumulated_cost m) \<and>
    (\<forall>d'. encode cd e = Inr d' \<longrightarrow> decode cd d' = Inr e)"
proof (intro conjI)
  have e: "storable e" "stored_form e = e" by (rule decoded_storable [OF assms])+
  then show "case payload e of
      Act (CondensationAction is s t m off) \<Rightarrow> condensation_valid is s t m off
    | Obs (CmdOutputObservation c _ _ hidden) \<Rightarrow> hidden \<or> maybe_truncate c = c
    | _ \<Rightarrow> True"
    by (auto simp: storable_def valid_action_def valid_observation_def
        split: payload.split action.split observation.split)
  show "case raw_llm_metrics e of None \<Rightarrow> True | Some m \<Rightarrow> 0 \<le> accumulated_cost m"
    using e(1) by (simp add: storable_def split: option.split)
  show "\<forall>d'. encode cd e = Inr d' \<longrightarrow> decode cd d' = Inr e"
    using from_dict_to_dict [OF e(1)] e(2) by simp
qed

theorem decoded_event_stable_witness:
  "\<exists>d. encode plain_codec (command ''ls'') = Inr d \<and>
     decode plain_codec d = Inr (stored_form (command ''ls'')) \<and>
     (\<forall>d'. encode plain_codec (stored_form (command ''ls'')) = Inr d' \<longrightarrow>
        decode plain_codec d' = Inr (stored_form (command ''ls'')))"
proof -
  obtain d where d: "encode plain_codec (command ''ls'') = Inr d"
    using encodable [OF command_facts(4)] .
  have dec: "decode plain_codec d = Inr (stored_form (command ''ls''))"
    by (rule from_dict_to_dict [OF command_facts(1) d])
  have "raw_id (stored_form (command ''ls'')) \<noteq> Some INVALID_ID" by simp
  from decoded_event_stable [OF dec this] d dec show ?thesis by blast
qed

text \<open>
  C4. The files implement the stream as its clients see it: if the files represent a log, no
  secrets are set and the event is acceptable with a message, then adding it to the stream gives
  what adding it to the log gives (the same event object, or the same error and an unchanged
  stream for an event that has an id already), and the files represent the new log.
\<close>

theorem store_refines_log:
  assumes "represents cd st lg" and "es_secrets st = []" and "storable e"
    and "event_message (py_repr cd) e = Inr m"
  shows "case add_event now e src lg of
      Inl x \<Rightarrow> add_to_stream cd now e src st = (Inl (Raised x), st)
    | Inr (e1, lg') \<Rightarrow> \<exists>st'. add_to_stream cd now e src st = (Inr e1, st') \<and> represents cd st' lg'"
proof (cases "event_id e = INVALID_ID")
  case True
  obtain ds where "represents_by cd st ds lg" using assms(1) by (auto simp: represents_def)
  from refined_add [OF this assms(2,3) True assms(4), of now src] obtain e1 lg' st' d where
    "add_event now e src lg = Inr (e1, lg')" "add_to_stream cd now e src st = (Inr e1, st')"
    "represents_by cd st' (ds @ [d]) lg'" by blast
  then show ?thesis by (auto simp: represents_def)
next
  case False
  then show ?thesis by (simp add: add_event_def add_to_stream_def)
qed

theorem store_refines_log_witness:
  "\<exists>e1 st' lg'. add_event ''t'' (command ''ls'') AGENT empty_log = Inr (e1, lg') \<and>
     add_to_stream plain_codec ''t'' (command ''ls'') AGENT (new_event_stream ''s'' None []) = (Inr e1, st') \<and>
     represents plain_codec st' lg'"
proof -
  have "represents plain_codec (new_event_stream ''s'' None []) empty_log"
    using fresh_represents by (auto simp: represents_def)
  moreover have "es_secrets (new_event_stream ''s'' None []) = []" by (simp add: new_event_stream_def)
  ultimately show ?thesis
    using store_refines_log [OF _ _ command_facts(1,4), of plain_codec "new_event_stream ''s'' None []" empty_log "''t''" "''ls''" AGENT]
    by (simp add: add_event_def Let_def)
qed

text \<open>
  C8. Reading the files gives what the log holds: for every range, order, filter and limit the
  search through the cache pages and event files returns exactly what the search of the log
  returns, the next id is the length of the log, and a second stream opened on the same files
  (another process, a restart) agrees.
\<close>

theorem search_reads_log:
  assumes "represents cd st lg" and "es_cache_size st = 25"
  shows "search_stream cd s t r flt limit st = Inr (search_events s t r flt limit lg) \<and>
    fst (current_id st) = Inr (cur_id lg) \<and>
    search_stream cd s t r flt limit (new_event_stream (es_sid st) (es_user_id st) (es_files st)) =
      Inr (search_events s t r flt limit lg) \<and>
    fst (current_id (new_event_stream (es_sid st) (es_user_id st) (es_files st))) = Inr (cur_id lg)"
proof -
  obtain ds where rep: "represents_by cd st ds lg" using assms(1) by (auto simp: represents_def)
  note again = reopened_represents [OF rep assms(2)]
  have "cur_id lg = int (length ds)" by (simp add: cur_id_def represents_length [OF rep])
  moreover have "search_events s t r flt limit (lg\<lparr>queued := []\<rparr>) = search_events s t r flt limit lg"
    by (cases t) (simp_all add: search_events_def cur_id_def)
  ultimately show ?thesis
    by (simp add: search_stream_right [OF rep] search_stream_right [OF again]
        current_id_right [OF rep] current_id_right [OF again])
qed

theorem search_reads_log_witness:
  "search_stream plain_codec 0 None False None None (new_event_stream ''s'' None []) = Inr []"
proof -
  have "represents plain_codec (new_event_stream ''s'' None []) empty_log"
    using fresh_represents by (auto simp: represents_def)
  moreover have "es_cache_size (new_event_stream ''s'' None []) = 25" by (simp add: new_event_stream_def)
  ultimately have "search_stream plain_codec 0 None False None None (new_event_stream ''s'' None []) =
      Inr (search_events 0 None False None None empty_log)"
    using search_reads_log by blast
  then show ?thesis by (simp add: search_events_def empty_log_def)
qed

text \<open>
  C23. Secrets do not reach the file of an event, except where the code lets them: below every key
  but the seven protected ones, no text that is reached through dictionaries contains a secret. The
  secrets may share characters with each other and with the mask; the condition on them is that
  none is empty, has an angle bracket or is a part of the mask's own words \<open>secret_hidden\<close>
  (\<open>maskable\<close>): the mask itself would show the last, and next to a mask the second could appear anew.
\<close>

theorem secrets_hidden:
  assumes "represents cd st lg" and "add_to_stream cd now e src st = (Inr e1, st')"
    and "\<forall>x \<in> set (map snd (es_secrets st)). maskable x"
  shows "\<exists>d. mem_read (event_file st (event_id e1)) (es_files st') = Inr (JDict d) \<and>
    (\<forall>(k, v) \<in> set d. k \<notin> set TOP_LEVEL_PROTECTED_FIELDS \<longrightarrow> hides (map snd (es_secrets st)) v)"
proof -
  have "0 \<le> event_id e1" using added_id_nonneg [OF assms(1,2)] .
  from added_file [OF assms(2) this] obtain d0 d where "d = replace_secrets (map snd (es_secrets st)) d0"
    "mem_read (event_file st (event_id e1)) (es_files st') = Inr (JDict d)" .
  moreover have "hides (map snd (es_secrets st)) v"
    if "(k, v) \<in> set (replace_secrets (map snd (es_secrets st)) d0)" "k \<notin> set TOP_LEVEL_PROTECTED_FIELDS" for k v
    by (rule replaced_hides [OF _ that]) (use assms(3) in blast)
  ultimately show ?thesis by blast
qed

theorem secrets_hidden_witness:
  "\<exists>e1 st' d. add_to_stream plain_codec ''t'' (command ''a ghp_tok3n'') AGENT secret_stream = (Inr e1, st') \<and>
     mem_read (event_file secret_stream (event_id e1)) (es_files st') = Inr (JDict d) \<and>
     (\<forall>(k, v) \<in> set d. k \<notin> set TOP_LEVEL_PROTECTED_FIELDS \<longrightarrow> hides [''ghp_tok3n''] v)"
proof -
  obtain e1 st' where "add_to_stream plain_codec ''t'' (command ''a ghp_tok3n'') AGENT secret_stream = (Inr e1, st')"
    using secret_command_added by blast
  with secrets_hidden [OF secret_stream_facts(1) this] secret_stream_facts(2,3) show ?thesis by auto
qed

text \<open>
  The message is one of the protected keys, and the message of a command or code cell quotes
  it: whatever secrets are set, the file of such an event holds the whole command under
  \<open>message\<close>, with every secret in it readable.
\<close>

theorem message_shows_secret:
  assumes "represents cd st lg" and "add_to_stream cd now e src st = (Inr e1, st')"
    and "payload e = Act (CmdRunAction c is_in th bl stat cwd hid conf risk) \<or>
      payload e = Act (IPythonRunCellAction c th inc conf risk kern)"
    and "occurs_in secret c"
  shows "\<exists>d t. mem_read (event_file st (event_id e1)) (es_files st') = Inr (JDict d) \<and>
    map_of d ''message'' = Some (JStr t) \<and> occurs_in secret t"
proof -
  have "0 \<le> event_id e1" using added_id_nonneg [OF assms(1,2)] .
  from added_file [OF assms(2) this] obtain d0 d where d0: "encode cd e1 = Inr d0"
    and d: "d = replace_secrets (map snd (es_secrets st)) d0"
    and "mem_read (event_file st (event_id e1)) (es_files st') = Inr (JDict d)" .
  moreover obtain t where t: "event_message (py_repr cd) e1 = Inr t" "occurs_in secret t"
  proof -
    have "payload e1 = payload e" using added_payload [OF assms(2)] .
    with assms(3,4) that show thesis
      by (auto simp: event_message_def occurs_in_prepend)
  qed
  moreover have "map_of d ''message'' = Some (JStr t)"
    unfolding d using event_dict_message [OF d0 t(1)]
    by (subst protected_kept) (simp_all add: TOP_LEVEL_PROTECTED_FIELDS_def)
  ultimately show ?thesis by blast
qed

theorem message_shows_secret_witness:
  "\<exists>e1 st' d t. add_to_stream plain_codec ''t'' (command ''a ghp_tok3n'') AGENT secret_stream = (Inr e1, st') \<and>
     mem_read (event_file secret_stream (event_id e1)) (es_files st') = Inr (JDict d) \<and>
     map_of d ''message'' = Some (JStr t) \<and> occurs_in ''ghp_tok3n'' t"
proof -
  obtain e1 st' where add: "add_to_stream plain_codec ''t'' (command ''a ghp_tok3n'') AGENT secret_stream = (Inr e1, st')"
    using secret_command_added by blast
  have "payload (command ''a ghp_tok3n'') = Act (CmdRunAction ''a ghp_tok3n'' False [] False False None False CONFIRMED RISK_UNKNOWN)"
    by (simp add: command_def fresh_event_def)
  moreover have "occurs_in ''ghp_tok3n'' ''a ghp_tok3n''" by simp
  ultimately show ?thesis
    using message_shows_secret [OF secret_stream_facts(1) add] add by blast
qed

text \<open>
  A stream that is opened again in the middle of a page never writes a page that a search
  uses: whatever is added after reopening, no index from the beginning of that page on has a
  cached page, so every such event is read from its own file.
\<close>

theorem reopened_cache_unused:
  assumes "represents cd st lg" and "es_cache_size st = 25" and "cur_id lg mod 25 \<noteq> 0"
    and "add_all cd es (new_event_stream (es_sid st) (es_user_id st) (es_files st)) = Inr st'"
    and "cur_id lg - cur_id lg mod 25 \<le> i"
  shows "\<exists>page. load_cache_page_for_index st' i = Inr page \<and> pg_events page = None"
proof -
  obtain ds where rep: "represents_by cd st ds lg" using assms(1) by (auto simp: represents_def)
  have len: "cur_id lg = int (length ds)" by (simp add: cur_id_def represents_length [OF rep])
  have odd: "length ds mod 25 \<noteq> 0" using assms(3) unfolding len by presburger
  obtain ds' where none: "no_page_from (length ds - length ds mod 25) st' ds'" "es_cache_size st' = 25"
    using no_page_all [OF reopened_represents [OF rep assms(2)] reopened_no_page [OF rep assms(2) odd] assms(4)]
    by (auto simp: new_event_stream_def)
  have "int (length ds - length ds mod 25) = cur_id lg - cur_id lg mod 25"
    unfolding len by (simp add: of_nat_diff of_nat_mod)
  with page_below [OF assms(5)] have "int (length ds - length ds mod 25) \<le> i - i mod 25" by simp
  moreover have "(i - i mod 25) mod 25 = 0" by simp
  ultimately obtain x where "mem_read (cache_file st' (i - i mod 25) (i - i mod 25 + 25)) (es_files st') = Inl x"
    using none by (auto simp: no_page_from_def)
  then show ?thesis
    by (simp add: load_cache_page_for_index_def load_cache_page_def none(2) Let_def)
qed

theorem reopened_cache_unused_witness:
  "\<exists>(st :: event_stream) st' page. add_all plain_codec [(''t'', AGENT, command ''ls'')]
       (new_event_stream (es_sid st) (es_user_id st) (es_files st)) = Inr st' \<and>
     load_cache_page_for_index st' 1 = Inr page \<and> pg_events page = None"
proof -
  obtain e1 lg st d where "add_to_stream plain_codec ''t'' (command ''ls'') AGENT (new_event_stream ''s'' None []) = (Inr e1, st)"
    and rep: "represents_by plain_codec st [d] lg" and size: "es_cache_size st = 25"
    using first_command .
  let ?again = "new_event_stream (es_sid st) (es_user_id st) (es_files st)"
  let ?es = "[(''t'', AGENT, command ''ls'')]"
  have "fst (current_id ?again) = Inr 1"
    using current_id_right [OF reopened_represents [OF rep size]] by simp
  moreover have "es_secrets ?again = []" by (simp add: new_event_stream_def)
  ultimately obtain st' where st': "add_all plain_codec ?es ?again = Inr st'"
    using add_all_goes_through [of ?again 1 ?es plain_codec] by auto
  have lg: "cur_id lg = 1" using represents_length [OF rep] by (simp add: cur_id_def)
  have "represents plain_codec st lg" using rep by (auto simp: represents_def)
  from reopened_cache_unused [OF this size _ st', of 1] lg
  obtain page where "load_cache_page_for_index st' 1 = Inr page" "pg_events page = None" by auto
  with st' show ?thesis by (intro exI conjI)
qed

text \<open>
  An event whose dictionary cannot be built takes an id with it: if the second event of a new
  stream fails to be added, then after 24 more events the page in the cache is shifted against
  its ids, and a search of the whole stream returns the last event twice.
\<close>

theorem lost_id_repeats_event:
  assumes "add_to_stream cd now e src (new_event_stream sid uid []) = (Inr e1, st1)"
    and "add_to_stream cd now' e' src' st1 = (Inl x, st2)" and "event_id e' = INVALID_ID"
    and "length es = 24" and "add_all cd es st2 = Inr st3"
  shows "\<exists>r. search_stream cd 0 None False None None st3 = Inr r \<and>
    map event_id r = 0 # [2..25] @ [25]"
proof -
  obtain d0 where "gap cd 25 st2 d0 []" using gap_start [OF assms(1,3,2)] by blast
  from gap_all [OF this _ assms(5)] assms(4) obtain ds where "length ds = 24" "gap cd 25 st3 d0 ds" by auto
  then show ?thesis using gap_search [of cd 25 st3 d0 ds] by simp
qed

theorem lost_id_repeats_event_witness:
  "\<exists>st r. search_stream plain_codec 0 None False None None st = Inr r \<and>
     map event_id r = 0 # [2..25] @ [25]"
proof -
  obtain e1 lg st d where add: "add_to_stream plain_codec ''t'' (command ''ls'') AGENT (new_event_stream ''s'' None []) = (Inr e1, st)"
    and rep: "represents_by plain_codec st [d] lg" and st: "es_secrets st = []"
    using first_command .
  have cur: "current_id st = (Inr 1, st\<lparr>es_cur_id := Some 1\<rparr>)" using current_id_right [OF rep] by simp
  obtain x st2 where failed: "add_to_stream plain_codec ''t'' odd_rejection AGENT st = (Inl x, st2)"
    using odd_rejection_fails [of st 1] cur by (metis fst_conv prod.collapse)
  have st2: "es_cur_id st2 = Some 2" "es_secrets st2 = []"
    using failed st by (auto simp: add_to_stream_def cur Let_def split: sum.splits)
  let ?es = "replicate 24 (''t'', AGENT, command ''ls'')"
  have "fst (current_id st2) = Inr 2" using st2 by (simp add: current_id_def)
  then obtain st3 where all: "add_all plain_codec ?es st2 = Inr st3"
    using add_all_goes_through [of st2 2 ?es plain_codec] st2(2) by auto
  have "length ?es = 24" by simp
  from lost_id_repeats_event [OF add failed odd_rejection_facts(1) this all] show ?thesis by (rule exI)
qed

end
