(* ===== verification/Messages.thy ===== *)
theory Messages
  imports Events
begin

text \<open>
  The messages sent to a language model (\<open>openhands/core/message.py\<close>) and what is read of its
  response: content items, tool calls, and the two serializers. A response object of the client
  library is read through a parameter that gives its id, its choices and their tool calls.
\<close>

section \<open>Messages\<close>

datatype content =
    TextContent (text_of: string) (cache_prompt: bool)
  | ImageContent (image_urls_of: "string list") (cache_prompt: bool)

datatype role = User_Role | System_Role | Assistant_Role | Tool_Role

fun role_value :: "role \<Rightarrow> string" where
  "role_value User_Role = ''user''"
| "role_value System_Role = ''system''"
| "role_value Assistant_Role = ''assistant''"
| "role_value Tool_Role = ''tool''"

text \<open>The validation of the field \<open>role\<close>.\<close>

definition role_of_value :: "string \<Rightarrow> role result" where
  "role_of_value s =
     (case find (\<lambda>r. role_value r = s) [User_Role, System_Role, Assistant_Role, Tool_Role] of
        Some r \<Rightarrow> Inr r | None \<Rightarrow> Inl (ValueError ''role''))"

record tool_call =
  tc_id :: string
  tc_name :: "string option"
  tc_arguments :: string

record message =
  msg_role :: role
  msg_content :: "content list"
  cache_enabled :: bool
  vision_enabled :: bool
  function_calling_enabled :: bool
  msg_tool_calls :: "tool_call list option"
  msg_tool_call_id :: "string option"
  msg_name :: "string option"
  force_string_serializer :: bool

definition new_message :: "role \<Rightarrow> content list \<Rightarrow> message" where
  "new_message r cs =
     \<lparr>msg_role = r, msg_content = cs, cache_enabled = False, vision_enabled = False,
      function_calling_enabled = False, msg_tool_calls = None, msg_tool_call_id = None,
      msg_name = None, force_string_serializer = False\<rparr>"

definition text_content :: "string \<Rightarrow> content" where
  "text_content s = TextContent s False"

definition image_content :: "string list \<Rightarrow> content" where
  "image_content urls = ImageContent urls False"

definition contains_image :: "message \<Rightarrow> bool" where
  "contains_image m = list_ex (\<lambda>item. \<not> is_TextContent item) (msg_content m)"

section \<open>Serialization\<close>

definition EPHEMERAL :: "string \<times> json" where
  "EPHEMERAL = (''cache_control'', JDict [(''type'', JStr ''ephemeral'')])"

text \<open>The dictionaries of one item: one for a text, one per image.\<close>

fun serialize_content :: "content \<Rightarrow> json_dict list" where
  "serialize_content (TextContent s cache) =
     [[(''type'', JStr ''text''), (''text'', JStr s)] @ (if cache then [EPHEMERAL] else [])]"
| "serialize_content (ImageContent urls cache) =
     (let images = map (\<lambda>u. [(''type'', JStr ''image_url''), (''image_url'', JDict [(''url'', JStr u)])]) urls
      in if cache \<and> images \<noteq> [] then butlast images @ [last images @ [EPHEMERAL]] else images)"

definition tool_call_entry :: "tool_call \<Rightarrow> json" where
  "tool_call_entry tc = JDict
     [(''id'', JStr (tc_id tc)), (''type'', JStr ''function''),
      (''function'', JDict [(''name'', case tc_name tc of None \<Rightarrow> JNull | Some n \<Rightarrow> JStr n),
         (''arguments'', JStr (tc_arguments tc))])]"

definition add_tool_call_keys :: "message \<Rightarrow> json_dict \<Rightarrow> json_dict result" where
  "add_tool_call_keys m d =
     (let d1 = (case msg_tool_calls m of
          None \<Rightarrow> d
        | Some tcs \<Rightarrow> AList.update ''tool_calls'' (JList (map tool_call_entry tcs)) d)
      in case msg_tool_call_id m of
           None \<Rightarrow> Inr d1
         | Some i \<Rightarrow> (case msg_name m of
             None \<Rightarrow> Inl AssertionError
           | Some n \<Rightarrow> Inr (AList.update ''name'' (JStr n) (AList.update ''tool_call_id'' (JStr i) d1))))"

text \<open>The marker of a cached item of a tool message goes to the message itself.\<close>

definition string_serializer :: "message \<Rightarrow> json_dict result" where
  "string_serializer m = add_tool_call_keys m
     [(''content'', JStr (py_join [CHR 0x0A] (map text_of (filter is_TextContent (msg_content m))))),
      (''role'', JStr (role_value (msg_role m)))]"

definition list_item :: "message \<Rightarrow> content \<Rightarrow> json_dict list" where
  "list_item m item =
     (let ds = serialize_content item;
          ds1 = (if msg_role m = Tool_Role \<and> cache_prompt item
                 then map (AList.delete ''cache_control'') ds else ds)
      in if is_TextContent item then ds1 else if vision_enabled m then ds1 else [])"

definition list_serializer :: "message \<Rightarrow> json_dict result" where
  "list_serializer m =
     (let content = concat (map (list_item m) (msg_content m));
          cached = list_ex (\<lambda>item. msg_role m = Tool_Role \<and> cache_prompt item) (msg_content m);
          d = [(''content'', JList (map JDict content)), (''role'', JStr (role_value (msg_role m)))]
      in add_tool_call_keys m (if cached then d @ [EPHEMERAL] else d))"

definition serialize_message :: "message \<Rightarrow> json_dict result" where
  "serialize_message m =
     (if \<not> force_string_serializer m \<and> (cache_enabled m \<or> vision_enabled m \<or> function_calling_enabled m)
      then list_serializer m else string_serializer m)"

text \<open>A message is only refused if it answers a tool call without naming the tool.\<close>

lemma serialize_message_Inr:
  "(\<exists>d. serialize_message m = Inr d) \<longleftrightarrow> (msg_tool_call_id m = None \<or> msg_name m \<noteq> None)"
  by (auto simp: serialize_message_def list_serializer_def string_serializer_def add_tool_call_keys_def
      Let_def split: option.split)

section \<open>Responses\<close>

record assistant_message =
  am_role :: string
  am_content :: "string option"
  am_tool_calls :: "tool_call list option"

record llm_response =
  response_id :: string
  choices :: "assistant_message list"

definition first_choice :: "llm_response \<Rightarrow> assistant_message result" where
  "first_choice r = (case choices r of [] \<Rightarrow> Inl IndexError | m # _ \<Rightarrow> Inr m)"

end
