(* ===== verification/Conversation_Memory.thy ===== *)
theory Conversation_Memory
  imports Messages Event_Dict
begin

text \<open>
  The conversation shown to the model (\<open>openhands/memory/conversation_memory.py\<close>): a list of
  events becomes a list of messages. In function calling mode an action is held back until every
  tool call of its response has a result.

  The lists and events are changed in place by the code, so processing returns the messages (or
  the exception) together with the events as they are left behind. The prompt templates, the
  difference display of an edit and the text of an action are parameters, as is the reading of
  the response object of the client library.
\<close>

section \<open>Parameters\<close>

record memory_config =
  enable_som_visual_browsing :: bool
  enable_prompt_extensions :: bool
  disabled_microagents :: "string list"

record repository_info =
  ri_name :: string
  ri_directory :: string
  ri_branch :: "string option"

record runtime_info =
  rt_available_hosts :: "(string \<times> int) list"
  rt_additional_agent_instructions :: string
  rt_date :: string
  rt_custom_secrets_descriptions :: "(string \<times> string) list"
  rt_working_dir :: string

record prompts =
  system_prompt :: string
  agent_version :: string
  build_workspace_context ::
    "repository_info option \<Rightarrow> runtime_info \<Rightarrow> string option \<Rightarrow> string \<Rightarrow> string"
  build_microagent_info :: "microagent_knowledge list \<Rightarrow> string"
  visualize_diff :: "observation \<Rightarrow> string result"
  action_text :: "action \<Rightarrow> string"
  read_response :: "json \<Rightarrow> llm_response"

definition is_valid_image_url :: "string \<Rightarrow> bool" where
  "is_valid_image_url url \<longleftrightarrow> url \<noteq> [] \<and> py_strip url \<noteq> []"

section \<open>Actions\<close>

text \<open>The actions that stand for tool calls.\<close>

definition tool_action :: "action \<Rightarrow> event_source option \<Rightarrow> bool" where
  "tool_action a src = (case a of
     AgentDelegateAction _ _ _ \<Rightarrow> True
   | AgentThinkAction _ \<Rightarrow> True
   | IPythonRunCellAction _ _ _ _ _ _ \<Rightarrow> True
   | FileEditAction _ _ _ _ _ _ _ _ _ _ _ _ \<Rightarrow> True
   | FileReadAction _ _ _ _ _ _ _ \<Rightarrow> True
   | BrowseInteractiveAction _ _ _ _ _ \<Rightarrow> True
   | BrowseURLAction _ _ _ _ \<Rightarrow> True
   | MCPAction _ _ _ _ \<Rightarrow> True
   | TaskTrackingAction _ _ _ \<Rightarrow> True
   | CmdRunAction _ _ _ _ _ _ _ _ _ \<Rightarrow> src = Some AGENT
   | _ \<Rightarrow> False)"

definition call_message :: "assistant_message \<Rightarrow> message result" where
  "call_message am = bindE (role_of_value (am_role am)) (\<lambda>r.
     Inr ((new_message r
        (case am_content am of
           Some c \<Rightarrow> if c \<noteq> [] \<and> py_strip c \<noteq> [] then [text_content c] else []
         | None \<Rightarrow> []))\<lparr>msg_tool_calls := am_tool_calls am\<rparr>))"

definition finish_thought :: "string \<Rightarrow> string \<Rightarrow> string" where
  "finish_thought thought content =
     (if thought \<noteq> [] then if thought \<noteq> content then thought @ LF @ content else thought else content)"

definition image_items :: "bool \<Rightarrow> string list \<Rightarrow> content list" where
  "image_items vision urls = concat (map (\<lambda>(idx, u).
     (if vision then [text_content (''Image '' @ str_of_int (int idx + 1) @ '':'')] else []) @
     [image_content [u]]) (enumerate 0 urls))"

definition process_action ::
  "prompts \<Rightarrow> bool \<Rightarrow> action \<Rightarrow> event \<Rightarrow> (string, message) dict \<Rightarrow>
     (message list \<times> (string, message) dict \<times> event) result" where
  "process_action pr vision a e pending =
     (let src = event_source e;
          r = (if src = Some USER then User_Role else Assistant_Role)
      in if tool_action a src then
           (case raw_tool_call_metadata e of
              None \<Rightarrow>
                if src = Some USER
                then Inr ([new_message User_Role [text_content (''User requested to read file: '' @ action_text pr a)]],
                  pending, e)
                else Inl AssertionError
            | Some md \<Rightarrow>
                let response = read_response pr (model_response md)
                in bindE (first_choice response) (\<lambda>am.
                   bindE (call_message am) (\<lambda>msg.
                   Inr ([], AList.update (response_id response) msg pending, e))))
         else case a of
           AgentFinishAction f outs thought \<Rightarrow>
             (case raw_tool_call_metadata e of
                None \<Rightarrow> Inr ([new_message r [text_content thought]], pending, e)
              | Some md \<Rightarrow>
                  bindE (first_choice (read_response pr (model_response md))) (\<lambda>am.
                  let t = finish_thought thought (case am_content am of Some c \<Rightarrow> c | None \<Rightarrow> [])
                  in Inr ([new_message r [text_content t]], pending,
                       e\<lparr>payload := Act (AgentFinishAction f outs t), raw_tool_call_metadata := None\<rparr>)))
         | MessageAction c fs urls w sr \<Rightarrow>
             Inr ([new_message r (text_content c #
               (case urls of
                  None \<Rightarrow> []
                | Some [] \<Rightarrow> []
                | Some us \<Rightarrow> if r = User_Role then image_items vision us else [image_content us]))], pending, e)
         | CmdRunAction c i th b s w h f sr \<Rightarrow>
             if src = Some USER
             then Inr ([new_message User_Role [text_content (''User executed the command:'' @ LF @ c)]], pending, e)
             else Inr ([], pending, e)
         | SystemMessageAction c ts v g \<Rightarrow> Inr ([new_message System_Role [text_content c]], pending, e)
         | _ \<Rightarrow> Inr ([], pending, e))"

section \<open>Observations\<close>

definition to_agent_observation :: "cmd_metadata \<Rightarrow> string \<Rightarrow> string" where
  "to_agent_observation m content =
     md_prefix m @ content @ md_suffix m @
     (case md_working_dir m of
        Some (c # cs) \<Rightarrow> LF @ ''[Current working directory: '' @ c # cs @ '']'' | _ \<Rightarrow> []) @
     (case md_py_interpreter_path m of
        Some (c # cs) \<Rightarrow> LF @ ''[Python interpreter: '' @ c # cs @ '']'' | _ \<Rightarrow> []) @
     (if md_exit_code m \<noteq> -1
      then LF @ ''[Command finished with exit code '' @ str_of_int (md_exit_code m) @ '']'' else [])"

definition hide_images :: "string \<Rightarrow> string" where
  "hide_images text = py_join LF (map (\<lambda>line.
     if occurs_in ''![image](data:image/png;base64,'' line
     then ''![image](data:image/png;base64, ...) already displayed to user'' else line)
     (split_on (CHR 0x0A) text))"

definition ipython_content :: "bool \<Rightarrow> string \<Rightarrow> string list option \<Rightarrow> content list" where
  "ipython_content vision text urls = (case urls of
     None \<Rightarrow> [text_content text]
   | Some [] \<Rightarrow> [text_content text]
   | Some us \<Rightarrow>
       (let valid = filter is_valid_image_url us; invalid_count = length us - length valid
        in if valid \<noteq> []
           then [text_content (text @ (if vision \<and> 0 < invalid_count
               then LF @ LF @ ''Note: '' @ str_of_int (int invalid_count) @
                 '' invalid or empty image(s) were filtered from this output. The agent may need to use alternative methods to access visual information.''
               else [])), image_content valid]
           else [text_content (text @ (if vision
               then LF @ LF @ ''Note: All '' @ str_of_int (int (length us)) @
                 '' image(s) in this output were invalid or empty and have been filtered. The agent should use alternative methods to access visual information.''
               else []))]))"

definition file_edit_str :: "prompts \<Rightarrow> observation \<Rightarrow> string result" where
  "file_edit_str pr ob =
     (if o_edit_source ob = EDIT_OH_ACI then Inr (o_content ob)
      else if \<not> o_prev_exist ob
      then if o_old_content ob = Some [] then Inr (''[New file '' @ o_path ob @ '' is created with the provided content.]'' @ LF)
           else Inl AssertionError
      else bindE (visualize_diff pr ob) (\<lambda>s. Inr (rev (dropWhile is_space (rev s)) @ LF)))"

definition SCREENSHOT_TEXT :: string where
  "SCREENSHOT_TEXT = ''Image: Current webpage screenshot (Note that only visible portion of webpage is present in the screenshot. However, the Accessibility tree contains information from the entire webpage.)''"

definition FILTERED_TEXT :: string where
  "FILTERED_TEXT = '' for this webpage was invalid or empty and has been filtered. The agent should use alternative methods to access visual information about the webpage.''"

definition NO_IMAGE_TEXT :: string where
  "NO_IMAGE_TEXT = ''Note: No visual information (screenshot or set of marks) is available for this webpage. The agent should rely on the text content above.''"

definition browser_content :: "memory_config \<Rightarrow> bool \<Rightarrow> string \<Rightarrow> browser_fields \<Rightarrow> content list" where
  "browser_content cfg vision text b =
     (if br_trigger_by_action b = ''browse_interactive'' \<and> enable_som_visual_browsing cfg
      then let t1 = text @ (if vision
             then SCREENSHOT_TEXT @ LF
             else []);
               (url, kind) = (if br_set_of_marks b \<noteq> [] then (br_set_of_marks b, ''set of marks'')
                 else if br_screenshot b \<noteq> [] then (br_screenshot b, ''screenshot'') else ([], []))
           in if is_valid_image_url url then [text_content t1, image_content [url]]
              else if vision \<and> url \<noteq> []
              then [text_content (t1 @ LF @ LF @ ''Note: The '' @ kind @
                FILTERED_TEXT)]
              else if vision
              then [text_content (t1 @ LF @ LF @
                NO_IMAGE_TEXT)]
              else [text_content t1]
      else [text_content text])"

text \<open>The text of a delegate's result; anything but a text is refused on the way, last by the
  validation of the message.\<close>

definition delegate_text :: "int option \<Rightarrow> json_dict \<Rightarrow> string \<Rightarrow> string result" where
  "delegate_text max_chars outs content =
     (case map_of outs ''content'' of
        None \<Rightarrow> Inr (truncate_content max_chars content)
      | Some (JStr s) \<Rightarrow> Inr (truncate_content max_chars s)
      | Some (JList xs) \<Rightarrow>
          (case max_chars of
             None \<Rightarrow> Inl (ValueError ''text'')
           | Some n \<Rightarrow> if int (length xs) \<le> n \<or> n < 0 then Inl (ValueError ''text'') else Inl (TypeError ''list''))
      | Some (JDict d) \<Rightarrow>
          (case max_chars of
             None \<Rightarrow> Inl (ValueError ''text'')
           | Some n \<Rightarrow> if int (length d) \<le> n \<or> n < 0 then Inl (ValueError ''text'') else Inl (KeyError ''slice''))
      | Some _ \<Rightarrow> (case max_chars of None \<Rightarrow> Inl (ValueError ''text'') | Some n \<Rightarrow> Inl (TypeError ''len'')))"

text \<open>
  Recall observations. A microagent is shown once: the ones an earlier recall observation holds
  are left out of a knowledge recall.
\<close>

definition recall_names :: "event \<Rightarrow> string list" where
  "recall_names e = (case payload e of
     Obs (RecallObservation c r) \<Rightarrow> map mk_name (rc_microagent_knowledge r) | _ \<Rightarrow> [])"

definition has_agent_in_earlier_events :: "string \<Rightarrow> event list \<Rightarrow> bool" where
  "has_agent_in_earlier_events name earlier = list_ex (\<lambda>e. name \<in> set (recall_names e)) earlier"

definition filter_agents_in_microagent_obs :: "recall_fields \<Rightarrow> event list \<Rightarrow> microagent_knowledge list" where
  "filter_agents_in_microagent_obs r earlier =
     (if rc_recall_type r \<noteq> KNOWLEDGE then rc_microagent_knowledge r
      else filter (\<lambda>k. \<not> has_agent_in_earlier_events (mk_name k) earlier) (rc_microagent_knowledge r))"

definition not_disabled :: "memory_config \<Rightarrow> microagent_knowledge list \<Rightarrow> microagent_knowledge list" where
  "not_disabled cfg ks = filter (\<lambda>k. mk_name k \<notin> set (disabled_microagents cfg)) ks"

definition workspace_content :: "memory_config \<Rightarrow> prompts \<Rightarrow> recall_fields \<Rightarrow> content list" where
  "workspace_content cfg pr r =
     (let repo = (if rc_repo_name r \<noteq> [] \<or> rc_repo_directory r \<noteq> []
            then Some \<lparr>ri_name = rc_repo_name r, ri_directory = rc_repo_directory r,
              ri_branch = (if rc_repo_branch r = [] then None else Some (rc_repo_branch r))\<rparr>
            else None);
          given = (rc_runtime_hosts r \<noteq> [] \<or> rc_additional_agent_instructions r \<noteq> []);
          runtime = \<lparr>rt_available_hosts = (if given then rc_runtime_hosts r else []),
            rt_additional_agent_instructions = (if given then rc_additional_agent_instructions r else []),
            rt_date = rc_date r, rt_custom_secrets_descriptions = rc_custom_secrets_descriptions r,
            rt_working_dir = rc_working_dir r\<rparr>;
          instructions = (if rc_conversation_instructions r = [] then None
            else Some (rc_conversation_instructions r));
          repo_instructions = rc_repo_instructions r;
          has_repo = (case repo of None \<Rightarrow> False | Some i \<Rightarrow> ri_name i \<noteq> [] \<or> ri_directory i \<noteq> []);
          has_runtime = (rt_date runtime \<noteq> [] \<or> rt_custom_secrets_descriptions runtime \<noteq> []);
          has_repo_instructions = (py_strip repo_instructions \<noteq> []);
          agents = not_disabled cfg (rc_microagent_knowledge r)
      in (if has_repo \<or> has_runtime \<or> has_repo_instructions \<or> instructions \<noteq> None
          then [text_content (build_workspace_context pr repo runtime instructions repo_instructions)]
          else []) @
         (if agents \<noteq> [] then [text_content (build_microagent_info pr agents)] else []))"

text \<open>An observation is either rendered to a message that may become a tool result, or its
  messages are returned at once.\<close>

datatype rendered = Returned "message list" | Built message

definition user_text :: "string \<Rightarrow> rendered" where
  "user_text s = Built (new_message User_Role [text_content s])"

definition render_recall :: "memory_config \<Rightarrow> prompts \<Rightarrow> event list \<Rightarrow> recall_fields \<Rightarrow> rendered" where
  "render_recall cfg pr earlier r =
     (if \<not> enable_prompt_extensions cfg then Returned []
      else case rc_recall_type r of
        WORKSPACE_CONTEXT \<Rightarrow>
          (case workspace_content cfg pr r of
             [] \<Rightarrow> Returned [] | c # cs \<Rightarrow> Built (new_message User_Role (c # cs)))
      | KNOWLEDGE \<Rightarrow>
          (case not_disabled cfg (filter_agents_in_microagent_obs r earlier) of
             [] \<Rightarrow> Returned []
           | k # ks \<Rightarrow> Returned [new_message User_Role [text_content (build_microagent_info pr (k # ks))]]))"

definition render_observation ::
  "memory_config \<Rightarrow> prompts \<Rightarrow> int option \<Rightarrow> bool \<Rightarrow> event list \<Rightarrow> bool \<Rightarrow> observation \<Rightarrow> rendered result" where
  "render_observation cfg pr max_chars vision earlier called ob =
     (let cut = truncate_content max_chars in case ob of
        CmdOutputObservation c cmd m h \<Rightarrow>
          Inr (user_text (if \<not> called
            then cut (LF @ ''Observed result of command executed by user:'' @ LF @ to_agent_observation m c)
            else cut (to_agent_observation m c)))
      | MCPObservation c n x \<Rightarrow> Inr (user_text (cut c))
      | IPythonRunCellObservation c code urls \<Rightarrow>
          Inr (Built (new_message User_Role (ipython_content vision (cut (hide_images c)) urls)))
      | FileEditObservation c p pe old new s d dc \<Rightarrow>
          bindE (file_edit_str pr ob) (\<lambda>t. Inr (user_text (cut t)))
      | FileReadObservation c p s \<Rightarrow> Inr (user_text c)
      | BrowserOutputObservation c b \<Rightarrow> Inr (Built (new_message User_Role (browser_content cfg vision c b)))
      | AgentDelegateObservation c outs \<Rightarrow>
          bindE (delegate_text max_chars outs c) (\<lambda>t. Inr (user_text t))
      | AgentThinkObservation c \<Rightarrow> Inr (user_text (cut c))
      | TaskTrackingObservation c cmd l \<Rightarrow> Inr (user_text (cut c))
      | ErrorObservation c i \<Rightarrow>
          Inr (user_text (cut c @ LF @ ''[Error occurred in processing last action]''))
      | UserRejectObservation c \<Rightarrow>
          Inr (user_text (''OBSERVATION:'' @ LF @ cut c @ LF @ ''[Last action has been rejected by the user]''))
      | AgentCondensationObservation c \<Rightarrow> Inr (user_text (cut c))
      | FileDownloadObservation c p \<Rightarrow> Inr (user_text (cut c))
      | LoopDetectionObservation c \<Rightarrow> Inr (Returned [])
      | RecallObservation c r \<Rightarrow> Inr (render_recall cfg pr earlier r)
      | _ \<Rightarrow> Inl (ValueError ''Unknown observation type''))"

definition tool_message :: "tool_call_metadata \<Rightarrow> content list \<Rightarrow> message" where
  "tool_message md cs =
     (new_message Tool_Role cs)\<lparr>msg_tool_call_id := Some (tool_call_id md), msg_name := Some (function_name md)\<rparr>"

definition process_observation ::
  "memory_config \<Rightarrow> prompts \<Rightarrow> int option \<Rightarrow> bool \<Rightarrow> event list \<Rightarrow> observation \<Rightarrow> event \<Rightarrow> (string, message) dict \<Rightarrow>
     (message list \<times> (string, message) dict) result" where
  "process_observation cfg pr max_chars vision earlier ob e results =
     bindE (render_observation cfg pr max_chars vision earlier (raw_tool_call_metadata e \<noteq> None) ob) (\<lambda>r.
     case r of
       Returned ms \<Rightarrow> Inr (ms, results)
     | Built m \<Rightarrow> (case raw_tool_call_metadata e of
         Some md \<Rightarrow> Inr ([], AList.update (tool_call_id md) (tool_message md (msg_content m)) results)
       | None \<Rightarrow> Inr ([m], results)))"

section \<open>The loop\<close>

text \<open>The results of the calls of a pending message, taken out one by one.\<close>

fun take_results :: "tool_call list \<Rightarrow> (string, message) dict \<Rightarrow> (message list \<times> (string, message) dict) result" where
  "take_results [] results = Inr ([], results)"
| "take_results (tc # tcs) results =
     (case map_of results (tc_id tc) of
        None \<Rightarrow> Inl (KeyError (tc_id tc))
      | Some m \<Rightarrow> bindE (take_results tcs (AList.delete (tc_id tc) results)) (\<lambda>(ms, rs). Inr (m # ms, rs)))"

text \<open>Pending messages whose calls all have results: their messages, the ones that stay pending
  and the results left.\<close>

fun flush_pending ::
  "(string, message) dict \<Rightarrow> (string, message) dict \<Rightarrow>
     (message list \<times> (string, message) dict \<times> (string, message) dict) result" where
  "flush_pending [] results = Inr ([], [], results)"
| "flush_pending ((rid, m) # pending) results =
     (case msg_tool_calls m of
        None \<Rightarrow> Inl AssertionError
      | Some tcs \<Rightarrow>
          if list_all (\<lambda>tc. has_key results (tc_id tc)) tcs
          then bindE (take_results tcs results) (\<lambda>(ms, rs).
               bindE (flush_pending pending rs) (\<lambda>(out, rest, rs'). Inr (m # ms @ out, rest, rs')))
          else bindE (flush_pending pending results) (\<lambda>(out, rest, rs'). Inr (out, (rid, m) # rest, rs')))"

definition process_event ::
  "memory_config \<Rightarrow> prompts \<Rightarrow> int option \<Rightarrow> bool \<Rightarrow> event list \<Rightarrow> event \<Rightarrow> (string, message) dict \<Rightarrow>
     (string, message) dict \<Rightarrow> (message list \<times> (string, message) dict \<times> (string, message) dict \<times> event) result" where
  "process_event cfg pr max_chars vision earlier e pending results =
     bindE (case payload e of
         Act a \<Rightarrow> bindE (process_action pr vision a e pending) (\<lambda>(ms, p, e'). Inr (ms, p, results, e'))
       | Obs ob \<Rightarrow> bindE (process_observation cfg pr max_chars vision earlier ob e results)
           (\<lambda>(ms, rs). Inr (ms, pending, rs, e))) (\<lambda>(ms, p, rs, e').
     bindE (flush_pending p rs) (\<lambda>(out, p', rs'). Inr (ms @ out, p', rs', e')))"

text \<open>\<open>earlier\<close> are the events before the current one, as they are after their processing.\<close>

fun process_loop ::
  "memory_config \<Rightarrow> prompts \<Rightarrow> int option \<Rightarrow> bool \<Rightarrow> event list \<Rightarrow> event list \<Rightarrow> (string, message) dict \<Rightarrow>
     (string, message) dict \<Rightarrow> message list result \<times> event list" where
  "process_loop cfg pr max_chars vision earlier [] pending results = (Inr [], earlier)"
| "process_loop cfg pr max_chars vision earlier (e # es) pending results =
     (case process_event cfg pr max_chars vision earlier e pending results of
        Inl x \<Rightarrow> (Inl x, earlier @ e # es)
      | Inr (ms, p, rs, e') \<Rightarrow>
          (case process_loop cfg pr max_chars vision (earlier @ [e']) es p rs of
             (Inl x, evs) \<Rightarrow> (Inl x, evs)
           | (Inr out, evs) \<Rightarrow> (Inr (ms @ out), evs)))"

section \<open>Filtering and formatting\<close>

definition call_ids :: "message list \<Rightarrow> string list" where
  "call_ids ms = concat (map (\<lambda>m. case msg_tool_calls m of
     None \<Rightarrow> []
   | Some tcs \<Rightarrow> if msg_role m = Assistant_Role then filter (\<lambda>i. i \<noteq> []) (map tc_id tcs) else []) ms)"

definition response_ids :: "message list \<Rightarrow> string list" where
  "response_ids ms = concat (map (\<lambda>m. case msg_tool_call_id m of
     None \<Rightarrow> []
   | Some i \<Rightarrow> if msg_role m = Tool_Role \<and> i \<noteq> [] then [i] else []) ms)"

definition filter_one :: "string list \<Rightarrow> string list \<Rightarrow> message \<Rightarrow> message list" where
  "filter_one calls responses m =
     (if msg_role m = Tool_Role \<and> msg_tool_call_id m \<notin> {None, Some []}
      then if the (msg_tool_call_id m) \<in> set calls then [m] else []
      else if msg_role m = Assistant_Role \<and> msg_tool_calls m \<notin> {None, Some []}
      then let tcs = the (msg_tool_calls m)
           in if list_all (\<lambda>tc. tc_id tc \<in> set responses) tcs then [m]
              else (case filter (\<lambda>tc. tc_id tc \<in> set responses) tcs of
                [] \<Rightarrow> [] | t # ts \<Rightarrow> [m\<lparr>msg_tool_calls := Some (t # ts)\<rparr>])
      else [m])"

definition filter_unmatched_tool_calls :: "message list \<Rightarrow> message list" where
  "filter_unmatched_tool_calls ms = concat (map (filter_one (call_ids ms) (response_ids ms)) ms)"

text \<open>Two line feeds before the first text of a user message that follows a user message.\<close>

fun separate_text :: "content list \<Rightarrow> content list" where
  "separate_text [] = []"
| "separate_text (TextContent t c # cs) = TextContent (LF @ LF @ t) c # cs"
| "separate_text (ImageContent u c # cs) = ImageContent u c # separate_text cs"

fun format_from :: "role option \<Rightarrow> message list \<Rightarrow> message list" where
  "format_from prev [] = []"
| "format_from prev (m # ms) =
     (if msg_role m = User_Role \<and> prev = Some User_Role
      then m\<lparr>msg_content := separate_text (msg_content m)\<rparr> else m) # format_from (Some (msg_role m)) ms"

definition apply_user_message_formatting :: "message list \<Rightarrow> message list" where
  "apply_user_message_formatting ms = format_from None ms"

section \<open>The beginning of the conversation\<close>

definition ensure_system_message :: "prompts \<Rightarrow> event list \<Rightarrow> event list" where
  "ensure_system_message pr events =
     (if list_ex is_system_message events \<or> system_prompt pr = [] then events
      else fresh_event (Act (SystemMessageAction (system_prompt pr) None (Some (agent_version pr)) None)) # events)"

definition ensure_initial_user_message :: "event \<Rightarrow> int list \<Rightarrow> event list \<Rightarrow> event list" where
  "ensure_initial_user_message initial forgotten_ids events =
     (if events = [] then events
      else if event_id initial \<in> set forgotten_ids then events
      else if length events = 1 then py_insert events 1 initial
      else if \<not> is_message (events ! 1) \<or> event_source (events ! 1) \<noteq> Some USER
      then py_insert events 1 initial
      else events)"

definition process_events ::
  "memory_config \<Rightarrow> prompts \<Rightarrow> event list \<Rightarrow> event \<Rightarrow> int list \<Rightarrow> int option \<Rightarrow> bool \<Rightarrow>
     message list result \<times> event list" where
  "process_events cfg pr history initial forgotten_ids max_chars vision =
     (let events = ensure_initial_user_message initial forgotten_ids (ensure_system_message pr history)
      in case process_loop cfg pr max_chars vision [] events [] [] of
           (Inl x, evs) \<Rightarrow> (Inl x, evs)
         | (Inr ms, evs) \<Rightarrow>
             (Inr (apply_user_message_formatting (filter_unmatched_tool_calls ms)), evs))"

section \<open>Cache marks\<close>

fun set_cache :: "content \<Rightarrow> content" where
  "set_cache (TextContent t c) = TextContent t True"
| "set_cache (ImageContent u c) = ImageContent u True"

definition mark_last :: "message \<Rightarrow> message result" where
  "mark_last m = (case msg_content m of
     [] \<Rightarrow> Inl IndexError
   | cs \<Rightarrow> Inr (m\<lparr>msg_content := butlast cs @ [set_cache (last cs)]\<rparr>))"

definition takes_cache_mark :: "message \<Rightarrow> bool" where
  "takes_cache_mark m \<longleftrightarrow> msg_role m \<in> {User_Role, Tool_Role}"

fun mark_last_of_user :: "message list \<Rightarrow> message list result" where
  "mark_last_of_user [] = Inr []"
| "mark_last_of_user (m # ms) =
     (if takes_cache_mark m \<and> \<not> list_ex takes_cache_mark ms
      then bindE (mark_last m) (\<lambda>m'. Inr (m' # ms))
      else bindE (mark_last_of_user ms) (\<lambda>ms'. Inr (m # ms')))"

definition apply_prompt_caching :: "message list \<Rightarrow> message list result" where
  "apply_prompt_caching ms =
     bindE (case ms of
         m # rest \<Rightarrow> if msg_role m = System_Role then bindE (mark_last m) (\<lambda>m'. Inr (m' # rest)) else Inr ms
       | [] \<Rightarrow> Inr ms)
       mark_last_of_user"

end
