(* ===== verification/Conversation_Facts.thy ===== *)
theory Conversation_Facts
  imports Conversation_Memory
begin

text \<open>
  Facts about the conversation shown to the model: the shape of the list of messages, the final
  filter, the histories that are rendered without an exception, cache marks and serialization.
\<close>

section \<open>Shapes\<close>

text \<open>
  What the interface of a model asks of a list of messages: a message with tool calls comes from
  the assistant and is directly followed by exactly the results of its calls, in order, and there
  are no other tool messages.
\<close>

definition shape :: "message \<Rightarrow> role \<times> tool_call list option \<times> string option" where
  "shape m = (msg_role m, msg_tool_calls m, msg_tool_call_id m)"

function answered :: "(role \<times> tool_call list option \<times> string option) list \<Rightarrow> bool" where
  "answered [] = True"
| "answered ((r, None, i) # ms) = (r \<noteq> Tool_Role \<and> i = None \<and> answered ms)"
| "answered ((r, Some tcs, i) # ms) =
     (r = Assistant_Role \<and> i = None \<and>
      take (length tcs) ms = map (\<lambda>tc. (Tool_Role, None, Some (tc_id tc))) tcs \<and>
      answered (drop (length tcs) ms))"
  by pat_completeness auto

termination by (relation "measure length") auto

definition sound_tool_calls :: "tool_call list \<Rightarrow> bool" where
  "sound_tool_calls tcs \<longleftrightarrow> distinct (map tc_id tcs) \<and> (\<forall>tc \<in> set tcs. tc_id tc \<noteq> [])"

definition unmarked :: "content list \<Rightarrow> bool" where
  "unmarked cs = list_all (\<lambda>c. \<not> cache_prompt c) cs"

lemma unmarked_simps [simp]:
  "unmarked []" "unmarked (text_content t # cs) = unmarked cs" "unmarked (image_content us # cs) = unmarked cs"
  "unmarked (cs @ ds) \<longleftrightarrow> unmarked cs \<and> unmarked ds"
  by (simp_all add: unmarked_def text_content_def image_content_def)

lemma unmarked_images [simp]: "unmarked (image_items vision us)"
  by (auto simp: unmarked_def image_items_def list_all_iff text_content_def image_content_def)

definition plain_message :: "message \<Rightarrow> bool" where
  "plain_message m \<longleftrightarrow> msg_role m \<noteq> Tool_Role \<and> msg_tool_calls m = None \<and>
     msg_tool_call_id m = None \<and> msg_content m \<noteq> [] \<and> unmarked (msg_content m)"

definition call_of :: "message \<Rightarrow> tool_call list \<Rightarrow> bool" where
  "call_of m tcs \<longleftrightarrow> msg_role m = Assistant_Role \<and> msg_tool_calls m = Some tcs \<and>
     msg_tool_call_id m = None \<and> sound_tool_calls tcs \<and> unmarked (msg_content m)"

definition result_of :: "string \<Rightarrow> message \<Rightarrow> bool" where
  "result_of i m \<longleftrightarrow> msg_role m = Tool_Role \<and> msg_tool_calls m = None \<and>
     msg_tool_call_id m = Some i \<and> msg_name m \<noteq> None \<and> msg_content m \<noteq> [] \<and> unmarked (msg_content m)"

inductive blocks :: "message list \<Rightarrow> bool" where
  none: "blocks []"
| plain: "plain_message m \<Longrightarrow> blocks ms \<Longrightarrow> blocks (m # ms)"
| calls: "call_of m tcs \<Longrightarrow> list_all2 (\<lambda>tc r. result_of (tc_id tc) r) tcs rs \<Longrightarrow> blocks ms \<Longrightarrow>
     blocks (m # rs @ ms)"

lemma blocks_append: "blocks ms \<Longrightarrow> blocks ms' \<Longrightarrow> blocks (ms @ ms')"
  by (induction rule: blocks.induct) (auto intro: blocks.intros)

lemma results_shape:
  "list_all2 (\<lambda>tc r. result_of (tc_id tc) r) tcs rs \<Longrightarrow>
     map shape rs = map (\<lambda>tc. (Tool_Role, None, Some (tc_id tc))) tcs"
  by (induction rule: list_all2_induct) (simp_all add: shape_def result_of_def)

lemma list_all2_rightD: "list_all2 P xs ys \<Longrightarrow> y \<in> set ys \<Longrightarrow> \<exists>x \<in> set xs. P x y"
  by (induction rule: list_all2_induct) auto

lemma list_all2_leftD: "list_all2 P xs ys \<Longrightarrow> x \<in> set xs \<Longrightarrow> \<exists>y \<in> set ys. P x y"
  by (induction rule: list_all2_induct) auto

lemma blocks_answered: "blocks ms \<Longrightarrow> answered (map shape ms)"
proof (induction rule: blocks.induct)
  case (calls m tcs rs ms)
  have "length rs = length tcs" using calls(2) by (simp add: list_all2_lengthD)
  moreover have "shape m = (Assistant_Role, Some tcs, None)"
    using calls(1) by (simp add: shape_def call_of_def)
  ultimately show ?case
    using calls(4) results_shape [OF calls(2)] by simp
qed (simp_all add: shape_def plain_message_def)

section \<open>The final filter\<close>

lemma blocks_no_orphan:
  assumes "blocks ms"
  shows "m \<in> set ms \<Longrightarrow> msg_tool_call_id m = Some i \<Longrightarrow> i \<in> set (call_ids ms)"
    and "m \<in> set ms \<Longrightarrow> msg_tool_calls m = Some tcs \<Longrightarrow> tc \<in> set tcs \<Longrightarrow> tc_id tc \<in> set (response_ids ms)"
  using assms
proof (induction arbitrary: m tcs rule: blocks.induct)
  case (calls m' tcs' rs ms)
  {
    case 1
    consider "m = m'" | "m \<in> set rs" | "m \<in> set ms" using 1 by auto
    then show ?case
    proof cases
      case 1
      with calls(1) \<open>msg_tool_call_id m = Some i\<close> show ?thesis by (simp add: call_of_def)
    next
      case 2
      then obtain tc where "tc \<in> set tcs'" "result_of (tc_id tc) m"
        using list_all2_rightD [OF calls(2)] by blast
      with calls(1) \<open>msg_tool_call_id m = Some i\<close> show ?thesis
        by (auto simp: call_ids_def call_of_def result_of_def sound_tool_calls_def)
    next
      case 3
      with calls(4) \<open>msg_tool_call_id m = Some i\<close> show ?thesis by (simp add: call_ids_def)
    qed
  next
    case 2
    consider "m = m'" | "m \<in> set rs" | "m \<in> set ms" using 2 by auto
    then show ?case
    proof cases
      case 1
      with calls(1) 2 have "tc \<in> set tcs'" by (simp add: call_of_def)
      then obtain r where "r \<in> set rs" "result_of (tc_id tc) r"
        using list_all2_leftD [OF calls(2)] by blast
      moreover have "tc_id tc \<noteq> []" using calls(1) \<open>tc \<in> set tcs'\<close> by (auto simp: call_of_def sound_tool_calls_def)
      ultimately show ?thesis by (force simp: response_ids_def result_of_def)
    next
      case 2
      from list_all2_rightD [OF calls(2) this] have "msg_tool_calls m = None" by (auto simp: result_of_def)
      with \<open>msg_tool_calls m = Some tcs\<close> show ?thesis by simp
    next
      case 3
      with calls(5) 2 show ?thesis by (simp add: response_ids_def)
    qed
  }
qed (auto simp: call_ids_def response_ids_def plain_message_def)

lemma filter_blocks:
  assumes "blocks ms"
  shows "filter_unmatched_tool_calls ms = ms"
proof -
  have "filter_one (call_ids ms) (response_ids ms) m = [m]" if "m \<in> set ms" for m
    using blocks_no_orphan [OF assms that]
    by (auto simp: filter_one_def list_all_iff Let_def)
  then have "map (filter_one (call_ids ms) (response_ids ms)) ms = map (\<lambda>m. [m]) ms"
    by simp
  then show ?thesis by (simp only: filter_unmatched_tool_calls_def concat_map_singleton map_ident)
qed

section \<open>Formatting\<close>

lemma shape_format [simp]: "map shape (format_from p ms) = map shape ms"
  by (induction ms arbitrary: p) (auto simp: shape_def)

lemma length_format [simp]: "length (format_from p ms) = length ms"
  by (induction ms arbitrary: p) auto

lemma separate_text_nonempty [simp]: "separate_text cs = [] \<longleftrightarrow> cs = []"
  by (cases cs rule: separate_text.cases) auto

section \<open>The loop\<close>

text \<open>The response an action or observation belongs to is one the client library gives for tool
  calls: from the assistant, with calls whose ids are not empty and differ.\<close>

definition sound_response :: "llm_response \<Rightarrow> bool" where
  "sound_response r = (case choices r of
     [] \<Rightarrow> False
   | am # _ \<Rightarrow> am_role am = ''assistant'' \<and>
       (case am_tool_calls am of None \<Rightarrow> False | Some tcs \<Rightarrow> sound_tool_calls tcs))"

definition sound_event :: "prompts \<Rightarrow> event \<Rightarrow> bool" where
  "sound_event pr e = (case raw_tool_call_metadata e of
     None \<Rightarrow> True | Some md \<Rightarrow> sound_response (read_response pr (model_response md)))"

definition pending_ok :: "(string, message) dict \<Rightarrow> bool" where
  "pending_ok pending \<longleftrightarrow> (\<forall>(rid, m) \<in> set pending. \<exists>tcs. call_of m tcs)"

definition results_ok :: "(string, message) dict \<Rightarrow> bool" where
  "results_ok results \<longleftrightarrow> (\<forall>i m. map_of results i = Some m \<longrightarrow> result_of i m)"

lemma results_ok_delete: "results_ok rs \<Longrightarrow> results_ok (AList.delete i rs)"
  by (auto simp: results_ok_def delete_conv' split: if_splits)

lemma take_results_total:
  assumes "distinct (map tc_id tcs)" and "list_all (\<lambda>tc. has_key results (tc_id tc)) tcs"
  shows "\<exists>ms rs. take_results tcs results = Inr (ms, rs)"
  using assms
proof (induction tcs arbitrary: results)
  case (Cons tc tcs)
  then obtain m where m: "map_of results (tc_id tc) = Some m" by (auto simp: has_key_map_of)
  have other: "tc_id t \<noteq> tc_id tc" if "t \<in> set tcs" for t
    using Cons.prems(1) imageI [OF that, of tc_id] by auto
  have "list_all (\<lambda>t. has_key (AList.delete (tc_id tc) results) (tc_id t)) tcs"
    using other Cons.prems(2) by (simp add: list_all_iff has_key_map_of delete_conv')
  with Cons m show ?case by fastforce
qed simp

lemma take_results_right:
  assumes "take_results tcs results = Inr (ms, rs)" and "results_ok results"
  shows "list_all2 (\<lambda>tc r. result_of (tc_id tc) r) tcs ms \<and> results_ok rs"
  using assms
proof (induction tcs arbitrary: results ms)
  case (Cons tc tcs)
  then obtain m ms' where m: "map_of results (tc_id tc) = Some m" "ms = m # ms'"
      "take_results tcs (AList.delete (tc_id tc) results) = Inr (ms', rs)"
    by (auto split: option.splits simp: bindE_Inr_iff)
  have "result_of (tc_id tc) m" using m(1) Cons.prems(2) by (simp add: results_ok_def)
  moreover have "list_all2 (\<lambda>tc r. result_of (tc_id tc) r) tcs ms' \<and> results_ok rs"
    by (rule Cons.IH [OF m(3) results_ok_delete [OF Cons.prems(2)]])
  ultimately show ?case by (simp add: m(2))
qed simp

lemma flush_pending_total:
  assumes "pending_ok pending" and "results_ok results"
  shows "\<exists>out p rs. flush_pending pending results = Inr (out, p, rs)"
  using assms
proof (induction pending arbitrary: results)
  case (Cons x pending)
  obtain rid m where x: "x = (rid, m)" by (cases x)
  with Cons.prems obtain tcs where tcs: "call_of m tcs" by (auto simp: pending_ok_def)
  have rest: "pending_ok pending" using Cons.prems(1) by (simp add: pending_ok_def)
  show ?case
  proof (cases "list_all (\<lambda>tc. has_key results (tc_id tc)) tcs")
    case True
    have "distinct (map tc_id tcs)" using tcs by (simp add: call_of_def sound_tool_calls_def)
    from take_results_total [OF this True] obtain ms rs where ms: "take_results tcs results = Inr (ms, rs)"
      by blast
    with Cons.IH [OF rest] take_results_right [OF ms Cons.prems(2)] True tcs x show ?thesis
      by (fastforce simp: call_of_def)
  next
    case False
    with Cons.IH [OF rest Cons.prems(2)] tcs x show ?thesis by (fastforce simp: call_of_def)
  qed
qed simp

lemma flush_pending_blocks:
  assumes "flush_pending pending results = Inr (out, p, rs)" and "pending_ok pending" and "results_ok results"
  shows "blocks out \<and> pending_ok p \<and> results_ok rs"
  using assms
proof (induction pending arbitrary: results out p)
  case Nil
  then show ?case by (simp add: blocks.none)
next
  case (Cons x pending)
  obtain rid m where x: "x = (rid, m)" by (cases x)
  with Cons.prems obtain tcs where tcs: "call_of m tcs" by (auto simp: pending_ok_def)
  have rest: "pending_ok pending" using Cons.prems(2) by (simp add: pending_ok_def)
  have calls: "msg_tool_calls m = Some tcs" using tcs by (simp add: call_of_def)
  show ?case
  proof (cases "list_all (\<lambda>tc. has_key results (tc_id tc)) tcs")
    case True
    with Cons.prems(1) obtain ms rs1 out1 where ms: "take_results tcs results = Inr (ms, rs1)"
      and "flush_pending pending rs1 = Inr (out1, p, rs)" and "out = m # ms @ out1"
      by (auto simp: x calls bindE_Inr_iff)
    with Cons.IH [OF _ rest] take_results_right [OF ms Cons.prems(3)] tcs show ?thesis
      by (auto intro: blocks.calls)
  next
    case False
    with Cons.prems(1) obtain p1 where "flush_pending pending results = Inr (out, p1, rs)" "p = (rid, m) # p1"
      by (auto simp: x calls bindE_Inr_iff)
    with Cons.IH [OF _ rest Cons.prems(3)] tcs show ?thesis by (auto simp: pending_ok_def)
  qed
qed

section \<open>One event\<close>

lemma update_member: "x \<in> set (AList.update k v d) \<Longrightarrow> x = (k, v) \<or> x \<in> set d"
  by (induction d) (auto split: if_splits)

lemma pending_ok_update: "pending_ok p \<Longrightarrow> call_of m tcs \<Longrightarrow> pending_ok (AList.update rid m p)"
  by (fastforce simp: pending_ok_def dest: update_member)

lemma results_ok_update: "results_ok rs \<Longrightarrow> result_of i m \<Longrightarrow> results_ok (AList.update i m rs)"
  by (simp add: results_ok_def update_conv')

lemma call_message_sound:
  assumes "sound_response r"
  obtains am msg tcs where "first_choice r = Inr am" "call_message am = Inr msg" "call_of msg tcs"
proof -
  obtain am rest tcs where am: "choices r = am # rest" "am_role am = ''assistant''"
      "am_tool_calls am = Some tcs" "sound_tool_calls tcs"
    using assms by (auto simp: sound_response_def split: list.splits option.splits)
  have "role_of_value ''assistant'' = Inr Assistant_Role" by (simp add: role_of_value_def)
  then obtain msg where "call_message am = Inr msg" "call_of msg tcs"
    using am(2-4) by (cases "am_content am") (auto simp: call_message_def call_of_def new_message_def)
  with am(1) that show thesis by (simp add: first_choice_def)
qed

lemma plain_new_message [simp]:
  "plain_message (new_message r cs) \<longleftrightarrow> r \<noteq> Tool_Role \<and> cs \<noteq> [] \<and> unmarked cs"
  by (simp add: plain_message_def new_message_def)

lemma blocks_plain: "list_all plain_message ms \<Longrightarrow> blocks ms"
  by (induction ms) (auto intro: blocks.intros)

lemma process_action_sound:
  assumes "process_action pr vision a e pending = Inr (ms, p, e')" and "pending_ok pending" and "sound_event pr e"
  shows "list_all plain_message ms \<and> pending_ok p"
proof (cases "tool_action a (event_source e) \<and> raw_tool_call_metadata e \<noteq> None")
  case True
  then obtain md where md: "raw_tool_call_metadata e = Some md" by auto
  have "sound_response (read_response pr (model_response md))" using assms(3) md by (simp add: sound_event_def)
  from call_message_sound [OF this] obtain am msg tcs where
    "first_choice (read_response pr (model_response md)) = Inr am" "call_message am = Inr msg" "call_of msg tcs" .
  with assms(1,2) True md show ?thesis by (auto simp: process_action_def pending_ok_update)
next
  case False
  with assms(1,2) show ?thesis
    by (cases a) (auto simp: process_action_def Let_def bindE_Inr_iff split: if_splits option.splits list.splits)
qed

lemma ipython_content_fresh:
  "ipython_content vision t urls \<noteq> []" "unmarked (ipython_content vision t urls)"
  by (auto simp: ipython_content_def Let_def split: option.split list.split)

lemma browser_content_fresh:
  "browser_content cfg vision t b \<noteq> []" "unmarked (browser_content cfg vision t b)"
  by (simp_all add: browser_content_def Let_def split: prod.split)

lemma workspace_content_fresh: "unmarked (workspace_content cfg pr r)"
  by (simp add: workspace_content_def Let_def del: not_None_eq)

lemmas rendered_content = ipython_content_fresh browser_content_fresh

lemma render_recall_content:
  "render_recall cfg pr earlier r = Built m \<Longrightarrow> plain_message m"
  "render_recall cfg pr earlier r = Returned ms \<Longrightarrow> list_all plain_message ms"
  using workspace_content_fresh [of cfg pr r]
  by (auto simp: render_recall_def split: if_splits recall_type.splits list.splits)

lemma render_observation_content:
  assumes "render_observation cfg pr max_chars vision earlier called ob = Inr r"
  shows "case r of Returned ms \<Rightarrow> list_all plain_message ms | Built m \<Rightarrow> plain_message m"
  using assms
  by (cases ob) (auto simp: render_observation_def Let_def user_text_def bindE_Inr_iff rendered_content
      render_recall_content split: rendered.splits)

lemma process_observation_sound:
  assumes "process_observation cfg pr max_chars vision earlier ob e results = Inr (ms, rs)" and "results_ok results"
  shows "list_all plain_message ms \<and> results_ok rs"
proof -
  obtain r where r: "render_observation cfg pr max_chars vision earlier (raw_tool_call_metadata e \<noteq> None) ob = Inr r"
    using assms(1) by (auto simp: process_observation_def bindE_Inr_iff)
  show ?thesis
  proof (cases r)
    case (Returned ms')
    with assms r render_observation_content [OF r] show ?thesis by (simp add: process_observation_def)
  next
    case (Built m)
    have "result_of (tool_call_id md) (tool_message md (msg_content m))" for md
      using render_observation_content [OF r] Built
      by (simp add: result_of_def tool_message_def new_message_def plain_message_def)
    with assms r render_observation_content [OF r] Built show ?thesis
      by (auto simp: process_observation_def results_ok_update split: option.splits)
  qed
qed

lemma process_event_sound:
  assumes "process_event cfg pr max_chars vision earlier e pending results = Inr (ms, p, rs, e')"
    and "pending_ok pending" and "results_ok results" and "sound_event pr e"
  shows "blocks ms \<and> pending_ok p \<and> results_ok rs"
proof -
  obtain ms1 p1 rs1 out where mid: "list_all plain_message ms1" "pending_ok p1" "results_ok rs1"
    and flush: "flush_pending p1 rs1 = Inr (out, p, rs)" and ms: "ms = ms1 @ out"
  proof (cases "payload e")
    case (Act a)
    with assms(1) obtain ms1 p1 e1 out where "process_action pr vision a e pending = Inr (ms1, p1, e1)"
      "flush_pending p1 results = Inr (out, p, rs)" "ms = ms1 @ out"
      by (auto simp: process_event_def bindE_Inr_iff)
    with that process_action_sound [OF _ assms(2,4)] assms(3) show thesis by blast
  next
    case (Obs ob)
    with assms(1) obtain ms1 rs1 out where
      "process_observation cfg pr max_chars vision earlier ob e results = Inr (ms1, rs1)"
      "flush_pending pending rs1 = Inr (out, p, rs)" "ms = ms1 @ out"
      by (auto simp: process_event_def bindE_Inr_iff)
    with that process_observation_sound [OF _ assms(3)] assms(2) show thesis by blast
  qed
  from flush_pending_blocks [OF flush mid(2,3)] mid(1) ms show ?thesis
    by (auto intro: blocks_append blocks_plain)
qed

lemma process_loop_blocks:
  assumes "process_loop cfg pr max_chars vision earlier es pending results = (Inr ms, evs)"
    and "pending_ok pending" and "results_ok results" and "\<forall>e \<in> set es. sound_event pr e"
  shows "blocks ms"
  using assms
proof (induction es arbitrary: earlier pending results ms)
  case Nil
  then show ?case by (simp add: blocks.none)
next
  case (Cons e es)
  obtain ms1 p rs e' out where e: "process_event cfg pr max_chars vision earlier e pending results = Inr (ms1, p, rs, e')"
    and rest: "process_loop cfg pr max_chars vision (earlier @ [e']) es p rs = (Inr out, evs)" and ms: "ms = ms1 @ out"
    using Cons.prems(1) by (auto split: sum.splits prod.splits)
  have "sound_event pr e" using Cons.prems(4) by simp
  from process_event_sound [OF e Cons.prems(2,3) this] Cons.IH [OF rest] Cons.prems(4) ms show ?case
    by (auto intro: blocks_append)
qed

section \<open>Histories that are rendered\<close>

text \<open>Every class the code has a text for, with what the text is built from.\<close>

definition renderable :: "prompts \<Rightarrow> event \<Rightarrow> bool" where
  "renderable pr e = (case payload e of
     Act a \<Rightarrow> tool_action a (event_source e) \<longrightarrow>
       raw_tool_call_metadata e \<noteq> None \<or> event_source e = Some USER
   | Obs ob \<Rightarrow> (case ob of
       NullObservation _ \<Rightarrow> False
     | FileWriteObservation _ _ \<Rightarrow> False
     | SuccessObservation _ \<Rightarrow> False
     | AgentStateChangedObservation _ _ _ \<Rightarrow> False
     | FileEditObservation _ _ _ _ _ _ _ _ \<Rightarrow> (case file_edit_str pr ob of Inl _ \<Rightarrow> False | Inr _ \<Rightarrow> True)
     | AgentDelegateObservation _ outs \<Rightarrow>
         (case map_of outs ''content'' of None \<Rightarrow> True | Some (JStr _) \<Rightarrow> True | _ \<Rightarrow> False)
     | _ \<Rightarrow> True))"

lemma process_action_total:
  assumes "renderable pr e" and "sound_event pr e" and a: "payload e = Act a"
  shows "\<exists>ms p e'. process_action pr vision a e pending = Inr (ms, p, e')"
proof (cases "raw_tool_call_metadata e")
  case None
  with assms(1) show ?thesis
    by (cases a) (auto simp: process_action_def renderable_def a Let_def)
next
  case (Some md)
  have "sound_response (read_response pr (model_response md))" using assms(2) Some by (simp add: sound_event_def)
  from call_message_sound [OF this] obtain am msg tcs where
    "first_choice (read_response pr (model_response md)) = Inr am" "call_message am = Inr msg" "call_of msg tcs" .
  with Some show ?thesis
    by (cases a) (auto simp: process_action_def Let_def)
qed

lemma process_observation_total:
  assumes "renderable pr e" and ob: "payload e = Obs ob"
  shows "\<exists>ms rs. process_observation cfg pr max_chars vision earlier ob e results = Inr (ms, rs)"
proof -
  have "\<exists>r. render_observation cfg pr max_chars vision earlier (raw_tool_call_metadata e \<noteq> None) ob = Inr r"
    using assms(1) by (cases ob) (auto simp: render_observation_def renderable_def ob delegate_text_def Let_def
        split: sum.splits option.splits json.splits)
  then show ?thesis
    by (auto simp: process_observation_def split: rendered.splits option.splits)
qed

lemma process_event_total:
  assumes "renderable pr e" and "sound_event pr e" and "pending_ok pending" and "results_ok results"
  shows "\<exists>ms p rs e'. process_event cfg pr max_chars vision earlier e pending results = Inr (ms, p, rs, e')"
proof (cases "payload e")
  case (Act a)
  obtain ms p e' where step: "process_action pr vision a e pending = Inr (ms, p, e')"
    using process_action_total [OF assms(1,2) Act] by blast
  then have "pending_ok p" using process_action_sound assms(2,3) by blast
  from flush_pending_total [OF this assms(4)] step Act show ?thesis
    by (fastforce simp: process_event_def)
next
  case (Obs ob)
  obtain ms rs where step: "process_observation cfg pr max_chars vision earlier ob e results = Inr (ms, rs)"
    using process_observation_total [OF assms(1) Obs] by blast
  then have "results_ok rs" using process_observation_sound assms(4) by blast
  from flush_pending_total [OF assms(3) this] step Obs show ?thesis
    by (fastforce simp: process_event_def)
qed

lemma process_loop_total:
  assumes "\<forall>e \<in> set es. renderable pr e \<and> sound_event pr e" and "pending_ok pending" and "results_ok results"
  shows "\<exists>ms evs. process_loop cfg pr max_chars vision earlier es pending results = (Inr ms, evs)"
  using assms
proof (induction es arbitrary: earlier pending results)
  case (Cons e es)
  have e: "renderable pr e" "sound_event pr e" using Cons.prems(1) by simp_all
  obtain ms p rs e' where step:
      "process_event cfg pr max_chars vision earlier e pending results = Inr (ms, p, rs, e')"
    using process_event_total [OF e Cons.prems(2,3)] by blast
  from process_event_sound [OF step Cons.prems(2,3) e(2)] have "pending_ok p" "results_ok rs" by auto
  with Cons.IH [of p rs "earlier @ [e']"] Cons.prems(1) obtain out evs where
    "process_loop cfg pr max_chars vision (earlier @ [e']) es p rs = (Inr out, evs)" by auto
  with step show ?case by auto
qed simp

text \<open>The events that are inserted at the beginning bring nothing new.\<close>

lemma set_beginning:
  "e \<in> set (ensure_initial_user_message i f (ensure_system_message pr es)) \<Longrightarrow>
     e \<in> set es \<or> e = i \<or> (is_system_message e \<and> raw_tool_call_metadata e = None)"
  by (auto simp: ensure_initial_user_message_def ensure_system_message_def is_system_message_def fresh_event_def
      split: if_splits)

lemma system_message_renderable:
  "is_system_message e \<Longrightarrow> raw_tool_call_metadata e = None \<Longrightarrow> renderable pr e \<and> sound_event pr e"
  by (auto simp: is_system_message_def renderable_def sound_event_def tool_action_def
      split: payload.splits action.splits)

lemma process_events_result:
  assumes "process_events cfg pr history initial f max_chars vision = (Inr ms, evs)"
    and "\<forall>e \<in> set (initial # history). sound_event pr e"
  obtains raw where "process_loop cfg pr max_chars vision []
      (ensure_initial_user_message initial f (ensure_system_message pr history)) [] [] = (Inr raw, evs)"
    and "blocks raw" and "ms = apply_user_message_formatting raw"
proof -
  let ?es = "ensure_initial_user_message initial f (ensure_system_message pr history)"
  obtain raw where raw: "process_loop cfg pr max_chars vision [] ?es [] [] = (Inr raw, evs)"
    and ms: "ms = apply_user_message_formatting (filter_unmatched_tool_calls raw)"
    using assms(1) by (auto simp: process_events_def Let_def split: prod.splits sum.splits)
  have "\<forall>e \<in> set ?es. sound_event pr e"
    using assms(2) set_beginning system_message_renderable by (metis list.set_intros(1,2))
  with process_loop_blocks [OF raw] have "blocks raw" by (simp add: pending_ok_def results_ok_def)
  with that raw ms show thesis by (simp add: filter_blocks)
qed

section \<open>What can be done with the messages\<close>

text \<open>Every message has content where a cache mark may go, and names its tool if it has to.\<close>

definition sendable :: "message \<Rightarrow> bool" where
  "sendable m \<longleftrightarrow> (msg_role m \<noteq> Assistant_Role \<longrightarrow> msg_content m \<noteq> []) \<and>
     (msg_tool_call_id m \<noteq> None \<longrightarrow> msg_name m \<noteq> None)"

lemma blocks_sendable: "blocks ms \<Longrightarrow> \<forall>m \<in> set ms. sendable m"
proof (induction rule: blocks.induct)
  case (calls m tcs rs ms)
  then have "sendable m" "\<forall>r \<in> set rs. sendable r"
    by (auto simp: sendable_def call_of_def result_of_def dest: list_all2_rightD)
  with calls show ?case by auto
qed (auto simp: sendable_def plain_message_def)

lemma sendable_format: "\<forall>m \<in> set ms. sendable m \<Longrightarrow> \<forall>m \<in> set (format_from p ms). sendable m"
  by (induction ms arbitrary: p) (auto simp: sendable_def)

lemma mark_last_of_user_total:
  "\<forall>m \<in> set ms. sendable m \<Longrightarrow> \<exists>ms'. mark_last_of_user ms = Inr ms' \<and> (\<forall>m \<in> set ms'. sendable m) \<and>
     length ms' = length ms"
proof (induction ms)
  case (Cons m ms)
  show ?case
  proof (cases "takes_cache_mark m \<and> \<not> list_ex takes_cache_mark ms")
    case True
    with Cons.prems obtain c cs where "msg_content m = c # cs"
      by (cases "msg_content m") (auto simp: sendable_def takes_cache_mark_def)
    with True Cons.prems show ?thesis by (auto simp: mark_last_def sendable_def)
  next
    case False
    with Cons show ?thesis by auto
  qed
qed simp

lemma apply_prompt_caching_total:
  assumes "\<forall>m \<in> set ms. sendable m"
  shows "\<exists>ms'. apply_prompt_caching ms = Inr ms' \<and> (\<forall>m \<in> set ms'. sendable m) \<and> length ms' = length ms"
proof (cases ms)
  case Nil
  then show ?thesis by (simp add: apply_prompt_caching_def)
next
  case (Cons m rest)
  show ?thesis
  proof (cases "msg_role m = System_Role")
    case True
    with assms Cons obtain c cs where c: "msg_content m = c # cs"
      by (cases "msg_content m") (auto simp: sendable_def)
    obtain m' where m': "mark_last m = Inr m'" "sendable m'"
      using c assms Cons by (auto simp: mark_last_def sendable_def)
    with mark_last_of_user_total [of "m' # rest"] assms Cons True show ?thesis
      by (simp add: apply_prompt_caching_def del: mark_last_of_user.simps)
  next
    case False
    with mark_last_of_user_total [of ms] assms Cons show ?thesis
      by (simp add: apply_prompt_caching_def del: mark_last_of_user.simps)
  qed
qed

section \<open>Cache marks\<close>

definition marks :: "message list \<Rightarrow> nat" where
  "marks ms = length (filter cache_prompt (concat (map msg_content ms)))"

lemma marks_simps [simp]:
  "marks [] = 0" "marks (m # ms) = length (filter cache_prompt (msg_content m)) + marks ms"
  "marks (xs @ ys) = marks xs + marks ys"
  by (simp_all add: marks_def)

lemma unmarked_marks: "unmarked cs \<longleftrightarrow> length (filter cache_prompt cs) = 0"
  by (simp add: unmarked_def list_all_iff filter_empty_conv)

lemma blocks_marks: "blocks ms \<Longrightarrow> marks ms = 0"
proof (induction rule: blocks.induct)
  case (calls m tcs rs ms)
  have "\<forall>r \<in> set rs. unmarked (msg_content r)"
    using list_all2_rightD [OF calls(2)] by (auto simp: result_of_def)
  then have "marks rs = 0" by (induction rs) (simp_all add: unmarked_marks)
  with calls show ?case by (simp add: call_of_def unmarked_marks)
qed (simp_all add: plain_message_def unmarked_marks)

lemma separate_text_marks [simp]:
  "length (filter cache_prompt (separate_text cs)) = length (filter cache_prompt cs)"
  by (induction cs rule: separate_text.induct) auto

lemma format_marks [simp]: "marks (format_from p ms) = marks ms"
  by (induction ms arbitrary: p) auto

lemma set_cache_marked [simp]: "cache_prompt (set_cache c)"
  by (cases c) auto

lemma mark_last_marks:
  assumes "mark_last m = Inr m'" and "unmarked (msg_content m)"
  shows "length (filter cache_prompt (msg_content m')) = 1" and "cache_prompt (last (msg_content m'))"
    and "msg_role m' = msg_role m"
proof -
  obtain c cs where c: "msg_content m = c # cs" "m' = m\<lparr>msg_content := butlast (c # cs) @ [set_cache (last (c # cs))]\<rparr>"
    using assms(1) by (cases "msg_content m") (auto simp: mark_last_def)
  have "filter cache_prompt (butlast (c # cs)) = []"
    using assms(2) c(1) by (auto simp: unmarked_def list_all_iff filter_empty_conv dest!: in_set_butlastD)
  then show "length (filter cache_prompt (msg_content m')) = 1" by (simp only: c(2) filter_append) simp
  show "cache_prompt (last (msg_content m'))" "msg_role m' = msg_role m" using c by simp_all
qed

lemma mark_last_of_user_marks:
  assumes "mark_last_of_user ms = Inr ms'" and "\<forall>m \<in> set ms. takes_cache_mark m \<longrightarrow> unmarked (msg_content m)"
  shows "marks ms' = marks ms + (if list_ex takes_cache_mark ms then 1 else 0) \<and>
    map msg_role ms' = map msg_role ms"
  using assms
proof (induction ms arbitrary: ms')
  case (Cons m ms)
  show ?case
  proof (cases "takes_cache_mark m \<and> \<not> list_ex takes_cache_mark ms")
    case True
    with Cons.prems obtain m' where m': "mark_last m = Inr m'" "ms' = m' # ms" by (auto simp: bindE_Inr_iff)
    have "unmarked (msg_content m)" using Cons.prems(2) True by simp
    with mark_last_marks [OF m'(1) this] m' True show ?thesis by (simp add: unmarked_marks)
  next
    case False
    with Cons.prems(1) obtain ms1 where ms1: "mark_last_of_user ms = Inr ms1" "ms' = m # ms1"
      by (auto simp: bindE_Inr_iff)
    with Cons.IH [OF ms1(1)] Cons.prems(2) False show ?thesis by auto
  qed
qed simp

definition has_system_head :: "message list \<Rightarrow> bool" where
  "has_system_head ms = (case ms of [] \<Rightarrow> False | m # _ \<Rightarrow> msg_role m = System_Role)"

lemma apply_prompt_caching_marks:
  assumes "apply_prompt_caching ms = Inr ms'" and "marks ms = 0"
  shows "marks ms' = (if has_system_head ms then 1 else 0) + (if list_ex takes_cache_mark ms then 1 else 0)"
    and "map msg_role ms' = map msg_role ms"
proof -
  have un: "unmarked (msg_content m)" if "m \<in> set ms" for m
    using that assms(2) by (induction ms) (auto simp: unmarked_marks)
  obtain ms1 where ms1: "mark_last_of_user ms1 = Inr ms'"
    "marks ms1 = (if has_system_head ms then 1 else 0)" "map msg_role ms1 = map msg_role ms"
    "list_ex takes_cache_mark ms1 = list_ex takes_cache_mark ms"
    "\<forall>m \<in> set ms1. takes_cache_mark m \<longrightarrow> unmarked (msg_content m)"
  proof (cases "has_system_head ms")
    case False
    then have "apply_prompt_caching ms = mark_last_of_user ms"
      by (cases ms) (simp_all add: apply_prompt_caching_def has_system_head_def del: mark_last_of_user.simps(2))
    with that [of ms] assms un False show thesis by simp
  next
    case True
    then obtain m rest where m: "ms = m # rest" "msg_role m = System_Role"
      by (auto simp: has_system_head_def split: list.splits)
    with assms(1) obtain m' where m': "mark_last m = Inr m'" "mark_last_of_user (m' # rest) = Inr ms'"
      by (auto simp: apply_prompt_caching_def bindE_Inr_iff simp del: mark_last_of_user.simps)
    have "unmarked (msg_content m)" using un m(1) by simp
    note head = mark_last_marks [OF m'(1) this]
    have "marks (m' # rest) = 1" using head(1) assms(2) m(1) by simp
    moreover have "takes_cache_mark m' = takes_cache_mark m" "\<not> takes_cache_mark m'"
      using head(3) m(2) by (simp_all add: takes_cache_mark_def)
    ultimately show thesis
      using that [OF m'(2)] True head(3) m un by simp
  qed
  show "marks ms' = (if has_system_head ms then 1 else 0) + (if list_ex takes_cache_mark ms then 1 else 0)"
    using mark_last_of_user_marks [OF ms1(1,5)] ms1(2,4) by simp
  show "map msg_role ms' = map msg_role ms"
    using mark_last_of_user_marks [OF ms1(1,5)] ms1(3) by simp
qed

text \<open>The messages whose last part gets a mark: a leading system message, and the last message of the
  user or a tool.\<close>

definition last_taker :: "message list \<Rightarrow> nat \<Rightarrow> bool" where
  "last_taker ms i \<longleftrightarrow> msg_role (ms ! i) \<in> {User_Role, Tool_Role} \<and>
     (\<forall>j < length ms. i < j \<longrightarrow> msg_role (ms ! j) \<notin> {User_Role, Tool_Role})"

definition cache_point :: "message list \<Rightarrow> nat \<Rightarrow> bool" where
  "cache_point ms i \<longleftrightarrow> (i = 0 \<and> msg_role (ms ! 0) = System_Role) \<or> last_taker ms i"

definition last_marked :: "message \<Rightarrow> message" where
  "last_marked m = m\<lparr>msg_content := butlast (msg_content m) @ [set_cache (last (msg_content m))]\<rparr>"

lemma mark_last_marked: "mark_last m = Inr m' \<Longrightarrow> m' = last_marked m"
  by (cases "msg_content m") (auto simp: mark_last_def last_marked_def)

lemma last_taker_Cons:
  "last_taker (m # ms) 0 \<longleftrightarrow> takes_cache_mark m \<and> \<not> list_ex takes_cache_mark ms"
  "last_taker (m # ms) (Suc i) \<longleftrightarrow> last_taker ms i"
proof -
  show "last_taker (m # ms) 0 \<longleftrightarrow> takes_cache_mark m \<and> \<not> list_ex takes_cache_mark ms"
    by (auto simp: last_taker_def takes_cache_mark_def list_ex_length nth_Cons split: nat.splits)
  have "(\<forall>j < length (m # ms). Suc i < j \<longrightarrow> msg_role ((m # ms) ! j) \<notin> {User_Role, Tool_Role}) \<longleftrightarrow>
      (\<forall>j < length ms. i < j \<longrightarrow> msg_role (ms ! j) \<notin> {User_Role, Tool_Role})"
    by (metis Suc_less_eq gr_implies_not0 length_Cons nat.exhaust nth_Cons_Suc)
  then show "last_taker (m # ms) (Suc i) \<longleftrightarrow> last_taker ms i"
    by (simp add: last_taker_def)
qed

lemma mark_last_of_user_places:
  assumes "mark_last_of_user ms = Inr ms'"
  shows "length ms' = length ms"
    and "i < length ms \<Longrightarrow> ms' ! i = (if last_taker ms i then last_marked (ms ! i) else ms ! i)"
proof -
  have "length ms' = length ms \<and>
      (i < length ms \<longrightarrow> ms' ! i = (if last_taker ms i then last_marked (ms ! i) else ms ! i))"
    using assms
  proof (induction ms arbitrary: ms' i)
    case (Cons m ms)
    show ?case
    proof (cases "takes_cache_mark m \<and> \<not> list_ex takes_cache_mark ms")
      case True
      with Cons.prems obtain m' where m': "mark_last m = Inr m'" "ms' = m' # ms" by (auto simp: bindE_Inr_iff)
      have "\<not> last_taker ms j" if "j < length ms" for j
        using True that by (auto simp: last_taker_def takes_cache_mark_def list_ex_length)
      with m' True show ?thesis
        by (cases i) (simp_all add: last_taker_Cons mark_last_marked)
    next
      case False
      with Cons.prems obtain ms1 where ms1: "mark_last_of_user ms = Inr ms1" "ms' = m # ms1"
        by (auto simp: bindE_Inr_iff)
      with Cons.IH [OF ms1(1)] False show ?thesis
        by (cases i) (auto simp: last_taker_Cons)
    qed
  qed simp
  then show "length ms' = length ms"
    and "i < length ms \<Longrightarrow> ms' ! i = (if last_taker ms i then last_marked (ms ! i) else ms ! i)" by auto
qed

lemma cache_places:
  assumes "apply_prompt_caching ms = Inr ms'"
  shows "length ms' = length ms \<and>
    (\<forall>i < length ms. ms' ! i = (if cache_point ms i then last_marked (ms ! i) else ms ! i))"
proof (cases "has_system_head ms")
  case False
  then have "apply_prompt_caching ms = mark_last_of_user ms"
    by (cases ms) (simp_all add: apply_prompt_caching_def has_system_head_def del: mark_last_of_user.simps(2))
  moreover from False have "ms = [] \<or> msg_role (ms ! 0) \<noteq> System_Role"
    by (cases ms) (simp_all add: has_system_head_def)
  ultimately show ?thesis
    using mark_last_of_user_places [of ms ms'] assms by (auto simp: cache_point_def)
next
  case True
  then obtain m rest where m: "ms = m # rest" "msg_role m = System_Role"
    by (auto simp: has_system_head_def split: list.splits)
  with assms obtain m' where m': "mark_last m = Inr m'" "mark_last_of_user (m' # rest) = Inr ms'"
    by (auto simp: apply_prompt_caching_def bindE_Inr_iff simp del: mark_last_of_user.simps)
  have head: "m' = last_marked m" "\<not> takes_cache_mark m" "\<not> takes_cache_mark m'"
    using mark_last_marked [OF m'(1)] m(2) by (simp_all add: takes_cache_mark_def last_marked_def)
  have "ms' ! i = (if cache_point ms i then last_marked (ms ! i) else ms ! i)" if "i < length ms" for i
    using mark_last_of_user_places(2) [OF m'(2), of i] that head m
    by (cases i) (simp_all add: cache_point_def last_taker_Cons)
  with mark_last_of_user_places(1) [OF m'(2)] m(1) show ?thesis by simp
qed

end
