(* ===== verification/Conversation_Properties.thy ===== *)
theory Conversation_Properties
  imports Conversation_Facts View
begin

text \<open>
  The properties of the conversation shown to the model, with the histories their witnesses run on.
\<close>

section \<open>What processing leaves of the events\<close>

text \<open>Only finish actions are changed.\<close>

definition is_finish :: "event \<Rightarrow> bool" where
  "is_finish e = (case payload e of Act (AgentFinishAction _ _ _) \<Rightarrow> True | _ \<Rightarrow> False)"

lemma process_action_event:
  assumes "process_action pr vision a e pending = Inr (ms, p, e')" and a: "payload e = Act a"
  shows "e' = e \<or> (is_finish e \<and> is_finish e')"
  using assms(1)
  by (cases a) (auto simp: process_action_def Let_def bindE_Inr_iff is_finish_def a
      split: if_splits option.splits list.splits)

lemma process_event_event:
  assumes "process_event cfg pr max_chars vision earlier e pending results = Inr (ms, p, rs, e')"
  shows "e' = e \<or> (is_finish e \<and> is_finish e')"
  using assms
  by (cases "payload e") (auto simp: process_event_def bindE_Inr_iff dest: process_action_event)

lemma process_loop_events:
  "process_loop cfg pr max_chars vision earlier es pending results = (r, evs) \<Longrightarrow>
     \<exists>es'. evs = earlier @ es' \<and> list_all2 (\<lambda>e e'. e' = e \<or> (is_finish e \<and> is_finish e')) es es'"
proof (induction es arbitrary: earlier pending results r evs)
  case Nil
  then show ?case by simp
next
  case (Cons e es)
  show ?case
  proof (cases "process_event cfg pr max_chars vision earlier e pending results")
    case (Inl x)
    with Cons.prems show ?thesis by (auto intro!: list_all2_refl)
  next
    case (Inr y)
    obtain ms p rs e' where y: "y = (ms, p, rs, e')" by (cases y)
    obtain r1 evs1 where rest: "process_loop cfg pr max_chars vision (earlier @ [e']) es p rs = (r1, evs1)"
      by (cases "process_loop cfg pr max_chars vision (earlier @ [e']) es p rs")
    have "evs = evs1" using Cons.prems Inr y rest by (cases r1) auto
    moreover from Cons.IH [OF rest] obtain es' where
      "evs1 = (earlier @ [e']) @ es'" "list_all2 (\<lambda>e e'. e' = e \<or> (is_finish e \<and> is_finish e')) es es'" by blast
    moreover have "e' = e \<or> (is_finish e \<and> is_finish e')" using process_event_event Inr y by blast
    ultimately show ?thesis by (intro exI [of _ "e' # es'"]) simp
  qed
qed

text \<open>Processing an event that has been processed gives the same messages and changes nothing.\<close>

lemma process_action_again:
  assumes "process_action pr vision a e pending = Inr (ms, p, e')" and a: "payload e = Act a"
  shows "\<exists>a'. payload e' = Act a' \<and> process_action pr vision a' e' pending = Inr (ms, p, e')"
proof (cases "is_finish e \<and> raw_tool_call_metadata e \<noteq> None")
  case True
  with a obtain f outs t md where a': "a = AgentFinishAction f outs t" "raw_tool_call_metadata e = Some md"
    by (auto simp: is_finish_def split: action.splits)
  with assms(1) show ?thesis
    by (auto simp: process_action_def Let_def bindE_Inr_iff tool_action_def)
next
  case False
  then have "e' = e"
    using assms by (cases a) (auto simp: process_action_def Let_def bindE_Inr_iff is_finish_def
        split: if_splits option.splits list.splits)
  with assms show ?thesis by blast
qed

lemma process_event_again:
  assumes "process_event cfg pr max_chars vision earlier e pending results = Inr (ms, p, rs, e')"
  shows "process_event cfg pr max_chars vision earlier e' pending results = Inr (ms, p, rs, e')"
proof (cases "payload e")
  case (Act a)
  with assms obtain ms1 p1 out where step: "process_action pr vision a e pending = Inr (ms1, p1, e')"
    and "flush_pending p1 results = Inr (out, p, rs)" "ms = ms1 @ out"
    by (auto simp: process_event_def bindE_Inr_iff)
  moreover from process_action_again [OF step Act] obtain a' where
    "payload e' = Act a'" "process_action pr vision a' e' pending = Inr (ms1, p1, e')" by blast
  ultimately show ?thesis by (simp add: process_event_def)
next
  case (Obs ob)
  with assms have "e' = e" by (auto simp: process_event_def bindE_Inr_iff)
  with assms show ?thesis by simp
qed

lemma process_loop_again:
  "process_loop cfg pr max_chars vision earlier es pending results = (Inr ms, earlier @ es') \<Longrightarrow>
     process_loop cfg pr max_chars vision earlier es' pending results = (Inr ms, earlier @ es')"
proof (induction es arbitrary: earlier pending results ms es')
  case Nil
  then show ?case by auto
next
  case (Cons e es)
  obtain ms1 p rs e' out where e: "process_event cfg pr max_chars vision earlier e pending results = Inr (ms1, p, rs, e')"
    and rest: "process_loop cfg pr max_chars vision (earlier @ [e']) es p rs = (Inr out, earlier @ es')"
    and ms: "ms = ms1 @ out"
    using Cons.prems by (auto split: sum.splits prod.splits)
  from process_loop_events [OF rest] obtain es1 where es1: "es' = e' # es1" by auto
  with rest have "process_loop cfg pr max_chars vision (earlier @ [e']) es p rs = (Inr out, (earlier @ [e']) @ es1)"
    by simp
  from Cons.IH [OF this] process_event_again [OF e] show ?case by (simp add: es1 ms)
qed

lemma finish_not_message:
  "is_finish e \<Longrightarrow> \<not> is_message e \<and> \<not> is_system_message e"
  by (auto simp: is_finish_def is_message_def is_system_message_def split: payload.splits action.splits)

lemma same_classes:
  assumes "e' = e \<or> (is_finish e \<and> is_finish e')"
  shows "is_system_message e' = is_system_message e" and "is_message e \<Longrightarrow> e' = e"
  using assms finish_not_message by blast+

lemma beginning_settled:
  assumes "list_all2 (\<lambda>e e'. e' = e \<or> (is_finish e \<and> is_finish e'))
      (ensure_initial_user_message i f (ensure_system_message pr es)) es'"
    and i: "is_message i" "event_source i = Some USER"
  shows "ensure_initial_user_message i f (ensure_system_message pr es') = es'"
proof -
  let ?es = "ensure_initial_user_message i f (ensure_system_message pr es)"
  have len: "length es' = length ?es" using assms(1) by (simp add: list_all2_lengthD)
  have sys: "list_ex is_system_message es' = list_ex is_system_message ?es"
    using assms(1) by (induction rule: list_all2_induct) (auto simp: same_classes(1))
  have "list_ex is_system_message ?es \<or> system_prompt pr = []"
    by (auto simp: ensure_initial_user_message_def ensure_system_message_def list_ex_iff fresh_event_def
        is_system_message_def)
  then have start: "ensure_system_message pr es' = es'" by (auto simp: ensure_system_message_def sys)
  show ?thesis
  proof (cases "?es = [] \<or> event_id i \<in> set f")
    case True
    then show ?thesis using len by (auto simp: start ensure_initial_user_message_def)
  next
    case False
    have second: "2 \<le> length ?es \<and> is_message (?es ! 1) \<and> event_source (?es ! 1) = Some USER"
    proof -
      define xs where "xs = ensure_system_message pr es"
      have "xs \<noteq> []" using False by (auto simp: xs_def [symmetric] ensure_initial_user_message_def)
      then obtain x ys where xs: "xs = x # ys" by (cases xs) auto
      have ins: "py_insert xs 1 i = x # i # ys"
        using xs by (simp add: py_insert_def slice_index_def)
      show ?thesis
        using False i unfolding xs_def [symmetric] ensure_initial_user_message_def ins
        by (cases ys) (auto simp: xs)
    qed
    then have "es' ! 1 = ?es ! 1"
      using same_classes(2) [of "es' ! 1" "?es ! 1"] list_all2_nthD [OF assms(1), of 1] by auto
    with second False len show ?thesis
      unfolding start by (simp add: ensure_initial_user_message_def [of i f es'])
  qed
qed

lemma process_events_total:
  assumes "\<forall>e \<in> set (initial # history). renderable pr e \<and> sound_event pr e"
  obtains raw evs where "process_events cfg pr history initial f max_chars vision =
      (Inr (apply_user_message_formatting raw), evs)" and "blocks raw"
proof -
  let ?es = "ensure_initial_user_message initial f (ensure_system_message pr history)"
  have "\<forall>e \<in> set ?es. renderable pr e \<and> sound_event pr e"
    using assms set_beginning system_message_renderable by (metis list.set_intros(1,2))
  from process_loop_total [OF this, of "[]" "[]" cfg max_chars vision "[]"] obtain raw evs where
    "process_loop cfg pr max_chars vision [] ?es [] [] = (Inr raw, evs)"
    by (auto simp: pending_ok_def results_ok_def)
  then have "process_events cfg pr history initial f max_chars vision =
      (Inr (apply_user_message_formatting (filter_unmatched_tool_calls raw)), evs)"
    by (simp add: process_events_def Let_def)
  from process_events_result [OF this] assms that show thesis
    using \<open>process_loop cfg pr max_chars vision [] ?es [] [] = (Inr raw, evs)\<close>
    by (auto simp: process_events_def Let_def)
qed

section \<open>A history for the witnesses\<close>

definition one_call :: "prompts" where
  "one_call = \<lparr>system_prompt = ''be kind'', agent_version = ''0'',
     build_workspace_context = (\<lambda>_ _ _ _. []), build_microagent_info = (\<lambda>_. []),
     visualize_diff = (\<lambda>_. Inr []), action_text = (\<lambda>_. []),
     read_response = (\<lambda>_. \<lparr>response_id = ''r'',
       choices = [\<lparr>am_role = ''assistant'', am_content = Some ''listing'',
         am_tool_calls = Some [\<lparr>tc_id = ''c1'', tc_name = Some ''execute_bash'', tc_arguments = ''{}''\<rparr>]\<rparr>]\<rparr>)\<rparr>"

definition plain_config :: memory_config where
  "plain_config = \<lparr>enable_som_visual_browsing = False, enable_prompt_extensions = True, disabled_microagents = []\<rparr>"

definition called :: "event \<Rightarrow> event" where
  "called e = e\<lparr>raw_source := Some AGENT, raw_tool_call_metadata :=
     Some \<lparr>function_name = ''execute_bash'', tool_call_id = ''c1'', model_response = JNull, total_calls_in_response = 1\<rparr>\<rparr>"

definition task :: event where
  "task = (fresh_event (Act (MessageAction ''hi'' None None False RISK_UNKNOWN)))\<lparr>raw_source := Some USER, raw_id := Some 0\<rparr>"

definition one_round :: "event list" where
  "one_round = [task,
     called (fresh_event (Act (CmdRunAction ''ls'' False [] False False None False CONFIRMED RISK_UNKNOWN))),
     called (fresh_event (Obs (ErrorObservation ''no shell'' [])))]"

lemma one_round_facts:
  "\<forall>e \<in> set (task # one_round). renderable one_call e \<and> sound_event one_call e"
  "is_message task" "event_source task = Some USER" "event_id task = 0" "raw_id task = Some 0"
  by (auto simp: one_round_def task_def called_def fresh_event_def renderable_def sound_event_def one_call_def
      sound_response_def sound_tool_calls_def tool_action_def is_message_def event_id_def)

section \<open>Properties\<close>

text \<open>
  C3. The messages always have the form the model interface asks for: every message with tool
  calls comes from the assistant and is directly followed by exactly the results of its calls, in
  order, and no other message is a tool message. This is achieved by holding calls back until
  they are answered; the final filter for unmatched calls removes nothing. (The responses named
  by the events are from the assistant, with distinct call ids that are not empty.)
\<close>

theorem tool_calls_answered:
  assumes "process_events cfg pr history initial f max_chars vision = (Inr ms, evs)"
    and "\<forall>e \<in> set (initial # history). sound_event pr e"
  shows "answered (map shape ms) \<and>
    (\<exists>raw. process_loop cfg pr max_chars vision []
       (ensure_initial_user_message initial f (ensure_system_message pr history)) [] [] = (Inr raw, evs) \<and>
       ms = apply_user_message_formatting raw)"
proof -
  obtain raw where raw: "process_loop cfg pr max_chars vision []
      (ensure_initial_user_message initial f (ensure_system_message pr history)) [] [] = (Inr raw, evs)"
    "blocks raw" "ms = apply_user_message_formatting raw"
    using process_events_result [OF assms] .
  have "answered (map shape ms)"
    using blocks_answered [OF raw(2)] by (simp add: raw(3) apply_user_message_formatting_def)
  with raw show ?thesis by blast
qed

theorem tool_calls_answered_witness:
  "\<exists>ms evs. process_events plain_config one_call one_round task [] None False = (Inr ms, evs) \<and>
     answered (map shape ms)"
proof -
  obtain raw evs where run: "process_events plain_config one_call one_round task [] None False =
      (Inr (apply_user_message_formatting raw), evs)"
    by (rule process_events_total [OF one_round_facts(1)])
  have "\<forall>e \<in> set (task # one_round). sound_event one_call e" using one_round_facts(1) by blast
  with tool_calls_answered [OF run this] run show ?thesis by blast
qed

text \<open>
  C19. Every history made of events that have a text (all classes but the null, write, success and
  state-change observations; tool actions of the agent with the metadata of their call; edits of
  new files without old content; delegate results that are texts) is turned into messages without
  an exception, cache marks can be set on them, and each is serialized whatever options the model
  sets on it.
\<close>

theorem renderable_history_shown:
  assumes "\<forall>e \<in> set (initial # history). renderable pr e \<and> sound_event pr e"
  shows "\<exists>ms evs ms'. process_events cfg pr history initial f max_chars vision = (Inr ms, evs) \<and>
    apply_prompt_caching ms = Inr ms' \<and>
    (\<forall>m \<in> set ms'. \<forall>c v t s. \<exists>d. serialize_message (m\<lparr>cache_enabled := c, vision_enabled := v,
       function_calling_enabled := t, force_string_serializer := s\<rparr>) = Inr d)"
proof -
  obtain raw evs where run: "process_events cfg pr history initial f max_chars vision =
      (Inr (apply_user_message_formatting raw), evs)" and "blocks raw"
    by (rule process_events_total [OF assms])
  then have "\<forall>m \<in> set (apply_user_message_formatting raw). sendable m"
    unfolding apply_user_message_formatting_def by (intro sendable_format blocks_sendable)
  from apply_prompt_caching_total [OF this] obtain ms' where
    "apply_prompt_caching (apply_user_message_formatting raw) = Inr ms'" "\<forall>m \<in> set ms'. sendable m" by blast
  with run show ?thesis by (auto simp: serialize_message_Inr sendable_def)
qed

theorem renderable_history_shown_witness:
  "\<exists>ms evs ms'. process_events plain_config one_call one_round task [] None False = (Inr ms, evs) \<and>
     apply_prompt_caching ms = Inr ms'"
  using renderable_history_shown [OF one_round_facts(1), of plain_config "[]" None False] by blast

text \<open>
  Asking again for the same prompt gives the same prompt: the events a call leaves behind (with
  the messages it inserted at the beginning and the thoughts it completed) give the same messages
  and stay as they are.
\<close>

theorem processing_again_same:
  assumes "process_events cfg pr history initial f max_chars vision = (Inr ms, evs)"
    and "is_message initial" and "event_source initial = Some USER"
  shows "process_events cfg pr evs initial f max_chars vision = (Inr ms, evs)"
proof -
  let ?es = "ensure_initial_user_message initial f (ensure_system_message pr history)"
  obtain raw where raw: "process_loop cfg pr max_chars vision [] ?es [] [] = (Inr raw, [] @ evs)"
    and ms: "ms = apply_user_message_formatting (filter_unmatched_tool_calls raw)"
    using assms(1) by (auto simp: process_events_def Let_def split: prod.splits sum.splits)
  have "ensure_initial_user_message initial f (ensure_system_message pr evs) = evs"
    using process_loop_events [OF raw] beginning_settled assms(2,3) by simp
  with process_loop_again [OF raw] ms show ?thesis by (simp add: process_events_def)
qed

theorem processing_again_same_witness:
  "\<exists>ms evs. process_events plain_config one_call one_round task [] None False = (Inr ms, evs) \<and>
     process_events plain_config one_call evs task [] None False = (Inr ms, evs)"
proof -
  obtain raw evs where run: "process_events plain_config one_call one_round task [] None False =
      (Inr (apply_user_message_formatting raw), evs)"
    by (rule process_events_total [OF one_round_facts(1)])
  from processing_again_same [OF run one_round_facts(2,3)] run show ?thesis by blast
qed

text \<open>
  C32. The cache marks go where they are meant to: of the messages made of a history, none of which
  has a mark, the last part of the first message gets one if it is a system message, the last part of
  the last message of the user or a tool gets one, and nothing else changes in any message; so at
  most two marks are sent, the limit of the service being four.
\<close>

theorem cache_marks_placed:
  assumes "process_events cfg pr history initial f max_chars vision = (Inr ms, evs)"
    and "\<forall>e \<in> set (initial # history). sound_event pr e"
    and "apply_prompt_caching ms = Inr ms'"
  shows "marks ms = 0 \<and> marks ms' \<le> 2 \<and> length ms' = length ms \<and>
    (\<forall>i < length ms. ms' ! i = (if cache_point ms i then last_marked (ms ! i) else ms ! i))"
proof -
  obtain raw where raw: "blocks raw" "ms = apply_user_message_formatting raw"
    using process_events_result [OF assms(1,2)] .
  then have none: "marks ms = 0" by (simp add: apply_user_message_formatting_def blocks_marks)
  have "marks ms' \<le> 2" using apply_prompt_caching_marks(1) [OF assms(3) none] by simp
  with none cache_places [OF assms(3)] show ?thesis by blast
qed

theorem cache_marks_placed_witness:
  "\<exists>ms evs ms'. process_events plain_config one_call one_round task [] None False = (Inr ms, evs) \<and>
     apply_prompt_caching ms = Inr ms' \<and> marks ms' \<le> 2 \<and>
     (\<forall>i < length ms. ms' ! i = (if cache_point ms i then last_marked (ms ! i) else ms ! i))"
proof -
  obtain raw evs where run: "process_events plain_config one_call one_round task [] None False =
      (Inr (apply_user_message_formatting raw), evs)" and "blocks raw"
    by (rule process_events_total [OF one_round_facts(1)])
  then have "\<forall>m \<in> set (apply_user_message_formatting raw). sendable m"
    unfolding apply_user_message_formatting_def by (intro sendable_format blocks_sendable)
  from apply_prompt_caching_total [OF this] obtain ms' where
    cached: "apply_prompt_caching (apply_user_message_formatting raw) = Inr ms'" by blast
  have "\<forall>e \<in> set (task # one_round). sound_event one_call e" using one_round_facts(1) by blast
  from cache_marks_placed [OF run this cached] run cached show ?thesis by blast
qed

text \<open>
  What the condenser forgot is not asked for again: if the initial message of the user is in
  the history and the view of the history is processed, the message is among the events shown
  exactly if the view has not forgotten it.
\<close>

theorem initial_task_shown_unless_forgotten:
  assumes "from_events history = Inr v" and "initial \<in> set history"
    and "is_message initial" and "event_source initial = Some USER"
    and "process_events cfg pr (view_events v) initial (forgotten_event_ids v) max_chars vision = (r, evs)"
  shows "initial \<in> set evs \<longleftrightarrow> event_id initial \<notin> set (forgotten_event_ids v)"
proof -
  let ?es = "ensure_initial_user_message initial (forgotten_event_ids v) (ensure_system_message pr (view_events v))"
  have "process_loop cfg pr max_chars vision [] ?es [] [] = (fst (process_loop cfg pr max_chars vision [] ?es [] []), evs)"
    using assms(5) by (auto simp: process_events_def Let_def split: prod.splits sum.splits)
  from process_loop_events [OF this] have
    rel: "list_all2 (\<lambda>e e'. e' = e \<or> (is_finish e \<and> is_finish e')) ?es evs" by simp
  have "initial \<in> set evs \<longleftrightarrow> initial \<in> set ?es"
    using list_all2_leftD [OF rel, of initial] list_all2_rightD [OF rel, of initial]
      finish_not_message [of initial] assms(3) by blast
  also have "\<dots> \<longleftrightarrow> event_id initial \<notin> set (forgotten_event_ids v)"
  proof (cases "event_id initial \<in> set (forgotten_event_ids v)")
    case True
    have "initial \<notin> set (view_events v)"
    proof
      assume "initial \<in> set (view_events v)"
      from view_event_origin [OF assms(1) this] True assms(3) show False
        by (auto simp: summary_event_def fresh_event_def is_message_def)
    qed
    with True assms(3) show ?thesis
      by (auto simp: ensure_initial_user_message_def ensure_system_message_def is_message_def fresh_event_def)
  next
    case False
    then have "initial \<in> set (view_events v)" by (rule view_keeps [OF assms(1,2)])
    then show ?thesis using False
      by (auto simp: ensure_initial_user_message_def ensure_system_message_def)
  qed
  finally show ?thesis .
qed

theorem initial_task_shown_unless_forgotten_witness:
  "\<exists>r evs. process_events plain_config one_call one_round task [] None False = (r, evs) \<and> task \<in> set evs"
proof -
  have "from_events one_round = Inr (plain_view one_round)"
    by (rule from_events_plain) (auto simp: one_round_def task_def called_def fresh_event_def
        is_condensation_def is_condensation_request_def)
  moreover have "task \<in> set one_round" by (simp add: one_round_def)
  moreover have "view_events (plain_view one_round) = one_round" "forgotten_event_ids (plain_view one_round) = []"
    by (simp_all add: plain_view_def)
  ultimately show ?thesis
    using initial_task_shown_unless_forgotten [of one_round "plain_view one_round" task] one_round_facts(2,3)
    by (metis empty_iff list.set(1) surj_pair)
qed

end
