(* ===== verification/Function_Calling.thy ===== *)
theory Function_Calling
  imports Messages Serialization
begin

text \<open>
  From a response of the model to actions
  (\<open>openhands/agenthub/codeact_agent/function_calling.py\<close>).

  Parsing a text as JSON, Python's \<open>float\<close> of a text and \<open>str\<close> of a dictionary are parameters,
  as is the JSON form of the response that is kept in the metadata of the calls. Arguments that
  are not a dictionary, or not of the type the dataclass declares (which Python does not check),
  are \<open>Outside\<close> the model.
\<close>

section \<open>Parameters and constants\<close>

record response_codec =
  json_loads :: "string \<Rightarrow> json option"
  float_of_text :: "string \<Rightarrow> rat option"
  repr_of :: "json \<Rightarrow> string"
  response_dict :: "llm_response \<Rightarrow> json"

definition EXECUTE_BASH :: string where "EXECUTE_BASH = ''execute_bash''"
definition EXECUTE_IPYTHON :: string where "EXECUTE_IPYTHON = ''execute_ipython_cell''"
definition STR_REPLACE_EDITOR :: string where "STR_REPLACE_EDITOR = ''str_replace_editor''"
definition BROWSER :: string where "BROWSER = ''browser''"
definition FINISH :: string where "FINISH = ''finish''"
definition EDIT_FILE :: string where "EDIT_FILE = ''edit_file''"
definition THINK :: string where "THINK = ''think''"
definition REQUEST_CONDENSATION :: string where "REQUEST_CONDENSATION = ''request_condensation''"
definition TASK_TRACKER :: string where "TASK_TRACKER = ''task_tracker''"
definition GENERATE_IMAGE :: string where "GENERATE_IMAGE = ''generate_image''"
definition GENERATE_VIDEO :: string where "GENERATE_VIDEO = ''generate_video''"

lemmas tool_name_defs = EXECUTE_BASH_def EXECUTE_IPYTHON_def STR_REPLACE_EDITOR_def BROWSER_def
  FINISH_def EDIT_FILE_def THINK_def REQUEST_CONDENSATION_def TASK_TRACKER_def
  GENERATE_IMAGE_def GENERATE_VIDEO_def

definition RISK_LEVELS :: "(string \<times> security_risk) list" where
  "RISK_LEVELS = [(''LOW'', RISK_LOW), (''MEDIUM'', RISK_MEDIUM), (''HIGH'', RISK_HIGH)]"

section \<open>Helpers\<close>

text \<open>The attribute \<open>thought\<close>, of the classes that have it.\<close>

definition thought_of :: "action \<Rightarrow> string option" where
  "thought_of a = (case a of
     CmdRunAction _ _ t _ _ _ _ _ _ \<Rightarrow> Some t
   | IPythonRunCellAction _ t _ _ _ _ \<Rightarrow> Some t
   | BrowseURLAction _ t _ _ \<Rightarrow> Some t
   | BrowseInteractiveAction _ t _ _ _ \<Rightarrow> Some t
   | FileReadAction _ _ _ t _ _ _ \<Rightarrow> Some t
   | FileWriteAction _ _ _ _ t _ \<Rightarrow> Some t
   | FileEditAction _ _ _ _ _ _ _ _ _ t _ _ \<Rightarrow> Some t
   | AgentThinkAction t \<Rightarrow> Some t
   | AgentFinishAction _ _ t \<Rightarrow> Some t
   | AgentRejectAction _ t \<Rightarrow> Some t
   | AgentDelegateAction _ _ t \<Rightarrow> Some t
   | RecallAction _ _ t \<Rightarrow> Some t
   | ChangeAgentStateAction _ t \<Rightarrow> Some t
   | MCPAction _ _ t _ \<Rightarrow> Some t
   | TaskTrackingAction _ _ t \<Rightarrow> Some t
   | _ \<Rightarrow> None)"

definition combine_thought :: "action \<Rightarrow> string \<Rightarrow> action" where
  "combine_thought a thought = (case thought_of a of
     None \<Rightarrow> a
   | Some t \<Rightarrow> if thought \<noteq> [] \<and> t \<noteq> [] then set_thought (thought @ LF @ t) a
       else if thought \<noteq> [] then set_thought thought a else a)"

definition set_security_risk :: "json_dict \<Rightarrow> action \<Rightarrow> action" where
  "set_security_risk args a = (case map_of args ''security_risk'' of
     Some (JStr s) \<Rightarrow> (case map_of RISK_LEVELS s of
         Some r \<Rightarrow> if risk_of a \<noteq> None then set_risk r a else a | None \<Rightarrow> a)
   | _ \<Rightarrow> a)"

definition missing :: "string \<Rightarrow> string \<Rightarrow> 'a decoded" where
  "missing k name = Inl (Raised (FunctionCallValidationError
     (''Missing required argument '' @ [CHR 0x22] @ k @ [CHR 0x22] @ '' in tool call '' @ name)))"

definition need :: "json_dict \<Rightarrow> string \<Rightarrow> string \<Rightarrow> json decoded" where
  "need args k name = (case map_of args k of None \<Rightarrow> missing k name | Some v \<Rightarrow> Inr v)"

text \<open>\<open>float(v)\<close>, with the \<open>ValueError\<close> of a text turned into a validation error.\<close>

definition timeout_of :: "response_codec \<Rightarrow> json \<Rightarrow> rat decoded" where
  "timeout_of rc v = (case v of
     JStr s \<Rightarrow> (case float_of_text rc s of
         Some q \<Rightarrow> Inr q
       | None \<Rightarrow> Inl (Raised (FunctionCallValidationError
           (''Invalid float passed to '' @ [CHR 0x27] @ ''timeout'' @ [CHR 0x27] @ '' argument: '' @ s))))
   | _ \<Rightarrow> (case json_number v of Some q \<Rightarrow> Inr q | None \<Rightarrow> Inl (Raised (TypeError ''float''))))"

definition normalized_task :: "nat \<Rightarrow> json \<Rightarrow> json decoded" where
  "normalized_task i task = (case task of
     JDict d \<Rightarrow>
       let get = (\<lambda>k v. case map_of d k of Some x \<Rightarrow> x | None \<Rightarrow> v)
       in Inr (JDict [(''id'', get ''id'' (JStr (''task-'' @ str_of_int (int i + 1)))),
            (''title'', get ''title'' (JStr ''Untitled task'')), (''status'', get ''status'' (JStr ''todo'')),
            (''notes'', get ''notes'' (JStr []))])
   | _ \<Rightarrow> Inl (Raised (FunctionCallValidationError ''Unexpected task format in task_list'')))"

section \<open>The tools\<close>

definition run_tool :: "response_codec \<Rightarrow> string \<Rightarrow> json_dict \<Rightarrow> event decoded" where
  "run_tool rc name args =
     bindD (need args ''command'' name) (\<lambda>c.
     bindD (dstr c) (\<lambda>command.
     let is_input = (case map_of args ''is_input'' of None \<Rightarrow> False | Some v \<Rightarrow> json_eq v (JStr ''true''));
         a = CmdRunAction command is_input [] False False None False CONFIRMED RISK_UNKNOWN
     in bindD (case map_of args ''timeout'' of
           None \<Rightarrow> Inr (fresh_event (Act a))
         | Some v \<Rightarrow> bindD (timeout_of rc v) (\<lambda>q. Inr (set_hard_timeout (Some q) True (fresh_event (Act a)))))
        (\<lambda>e. Inr (e\<lparr>payload := Act (set_security_risk args (act_of (payload e)))\<rparr>))))"

definition ipython_tool :: "string \<Rightarrow> json_dict \<Rightarrow> action decoded" where
  "ipython_tool name args =
     bindD (need args ''code'' name) (\<lambda>c. bindD (dstr c) (\<lambda>code.
     Inr (set_security_risk args (IPythonRunCellAction code [] True CONFIRMED RISK_UNKNOWN []))))"

definition edit_file_tool :: "string \<Rightarrow> json_dict \<Rightarrow> action decoded" where
  "edit_file_tool name args =
     bindD (need args ''path'' name) (\<lambda>p. bindD (need args ''content'' name) (\<lambda>c.
     bindD (dstr p) (\<lambda>path. bindD (dstr c) (\<lambda>content.
     bindD (opt args ''start'' 1 dint) (\<lambda>start. bindD (opt args ''end'' (-1) dint) (\<lambda>end_line.
     bindD (opt args ''impl_source'' LLM_BASED_EDIT dedit) (\<lambda>src.
     Inr (FileEditAction path [] None None None None content start end_line [] RISK_UNKNOWN src))))))))"

definition EDITOR_PARAMS :: "string list" where
  "EDITOR_PARAMS = [''command'', ''path'', ''file_text'', ''old_str'', ''new_str'', ''insert_line'',
     ''view_range'', ''security_risk'']"

definition editor_tool :: "string \<Rightarrow> json_dict \<Rightarrow> action decoded" where
  "editor_tool name args =
     bindD (need args ''command'' name) (\<lambda>c. bindD (need args ''path'' name) (\<lambda>p.
     bindD (dstr p) (\<lambda>path. bindD (dstr c) (\<lambda>command.
     bindD
       (if command = ''view''
        then bindD (opt args ''view_range'' None (dopt (dlist dint))) (\<lambda>range.
             Inr (FileReadAction path 0 (-1) [] RISK_UNKNOWN READ_OH_ACI range))
        else case find (\<lambda>k. k \<notin> set EDITOR_PARAMS) (map fst args) of
          Some k \<Rightarrow> Inl (Raised (FunctionCallValidationError
            (''Unexpected argument '' @ k @ '' in tool call '' @ name)))
        | None \<Rightarrow>
            bindD (opt args ''file_text'' None (dopt dstr)) (\<lambda>file_text.
            bindD (opt args ''old_str'' None (dopt dstr)) (\<lambda>old_str.
            bindD (opt args ''new_str'' None (dopt dstr)) (\<lambda>new_str.
            bindD (opt args ''insert_line'' None (dopt dint)) (\<lambda>insert_line.
            Inr (FileEditAction path command file_text old_str new_str insert_line [] 1 (-1) []
              RISK_UNKNOWN EDIT_OH_ACI))))))
     (\<lambda>a. Inr (set_security_risk args a))))))"

definition browser_tool :: "string \<Rightarrow> json_dict \<Rightarrow> action decoded" where
  "browser_tool name args =
     bindD (need args ''code'' name) (\<lambda>c. bindD (dstr c) (\<lambda>code.
     Inr (set_security_risk args (BrowseInteractiveAction code [] [] RISK_UNKNOWN False))))"

text \<open>The loop over the tasks reuses the variable \<open>i\<close> of the loop over the calls: the second
  component is its value afterwards.\<close>

fun normalized_tasks :: "nat \<Rightarrow> json list \<Rightarrow> json list decoded" where
  "normalized_tasks i [] = Inr []"
| "normalized_tasks i (t # ts) =
     bindD (normalized_task i t) (\<lambda>n. bindD (normalized_tasks (Suc i) ts) (\<lambda>ns. Inr (n # ns)))"

definition task_tool :: "string \<Rightarrow> json_dict \<Rightarrow> nat \<Rightarrow> (action \<times> nat) decoded" where
  "task_tool name args i =
     bindD (need args ''command'' name) (\<lambda>c.
     if json_eq c (JStr ''plan'') \<and> \<not> has_key args ''task_list''
     then Inl (Raised (FunctionCallValidationError
       (''Missing required argument '' @ [CHR 0x22] @ ''task_list'' @ [CHR 0x22] @ '' for '' @ [CHR 0x22] @
        ''plan'' @ [CHR 0x22] @ '' command in tool call '' @ name)))
     else (case (case map_of args ''task_list'' of None \<Rightarrow> JList [] | Some v \<Rightarrow> v) of
       JList raw \<Rightarrow>
         bindD (normalized_tasks 0 raw) (\<lambda>tasks.
         bindD (dstr c) (\<lambda>command.
         Inr (TaskTrackingAction command tasks [], if raw = [] then i else length raw - 1)))
     | _ \<Rightarrow> Inl (Raised (FunctionCallValidationError
         ''Invalid format for \"task_list\". Expected a list.''))))"

text \<open>One call: its action and the index after it.\<close>

definition plain_tool :: "response_codec \<Rightarrow> string list \<Rightarrow> string \<Rightarrow> json_dict \<Rightarrow> action decoded" where
  "plain_tool rc mcp name args =
     (if name = EXECUTE_IPYTHON then ipython_tool name args
      else if name = ''delegate_to_browsing_agent'' then Inr (AgentDelegateAction ''BrowsingAgent'' args [])
      else if name = FINISH
      then bindD (opt args ''message'' [] dstr) (\<lambda>m. Inr (AgentFinishAction m [] []))
      else if name = EDIT_FILE then edit_file_tool name args
      else if name = STR_REPLACE_EDITOR then editor_tool name args
      else if name = THINK then bindD (opt args ''thought'' [] dstr) (\<lambda>t. Inr (AgentThinkAction t))
      else if name = REQUEST_CONDENSATION then Inr CondensationRequestAction
      else if name = BROWSER then browser_tool name args
      else if name \<in> set mcp then Inr (MCPAction name args [] RISK_UNKNOWN)
      else Inl (Raised (FunctionCallNotExistsError (''Tool '' @ name @ '' is not registered. (arguments: '' @
        repr_of rc (JDict args) @ ''). Please check the tool name and retry with an existing tool.''))))"

definition call_action ::
  "response_codec \<Rightarrow> string list \<Rightarrow> nat \<Rightarrow> tool_call \<Rightarrow> (event \<times> nat) decoded" where
  "call_action rc mcp i tc =
     (case json_loads rc (tc_arguments tc) of
        None \<Rightarrow> Inl (Raised (FunctionCallValidationError
          (''Failed to parse tool call arguments: '' @ tc_arguments tc)))
      | Some (JDict args) \<Rightarrow>
          (case tc_name tc of
             None \<Rightarrow> Inl (Raised (FunctionCallNotExistsError (''Tool None is not registered. (arguments: '' @
               repr_of rc (JDict args) @ ''). Please check the tool name and retry with an existing tool.'')))
           | Some name \<Rightarrow>
               if name = EXECUTE_BASH then bindD (run_tool rc name args) (\<lambda>e. Inr (e, i))
               else if name = TASK_TRACKER
               then bindD (task_tool name args i) (\<lambda>(a, j). Inr (fresh_event (Act a), j))
               else bindD (plain_tool rc mcp name args) (\<lambda>a. Inr (fresh_event (Act a), i)))
      | Some _ \<Rightarrow> Inl Outside)"

definition tool_metadata :: "response_codec \<Rightarrow> llm_response \<Rightarrow> nat \<Rightarrow> tool_call \<Rightarrow> tool_call_metadata" where
  "tool_metadata rc r n_calls tc =
     \<lparr>function_name = (case tc_name tc of Some n \<Rightarrow> n | None \<Rightarrow> []), tool_call_id = tc_id tc,
      model_response = response_dict rc r, total_calls_in_response = int n_calls\<rparr>"

fun calls_to_actions ::
  "response_codec \<Rightarrow> string list \<Rightarrow> llm_response \<Rightarrow> string \<Rightarrow> nat \<Rightarrow> nat \<Rightarrow> tool_call list \<Rightarrow> event list decoded" where
  "calls_to_actions rc mcp r thought n_calls i [] = Inr []"
| "calls_to_actions rc mcp r thought n_calls i (tc # tcs) =
     bindD (call_action rc mcp i tc) (\<lambda>(e, j).
     let a = (if j = 0 then combine_thought (act_of (payload e)) thought else act_of (payload e));
         e' = e\<lparr>payload := Act a, raw_tool_call_metadata := Some (tool_metadata rc r n_calls tc)\<rparr>
     in bindD (calls_to_actions rc mcp r thought n_calls (Suc i) tcs) (\<lambda>es. Inr (e' # es)))"

definition response_to_actions :: "response_codec \<Rightarrow> string list \<Rightarrow> llm_response \<Rightarrow> event list decoded" where
  "response_to_actions rc mcp r =
     (case choices r of
        [am] \<Rightarrow>
          let content = (case am_content am of Some c \<Rightarrow> c | None \<Rightarrow> [])
          in bindD (case am_tool_calls am of
               Some (tc # tcs) \<Rightarrow> calls_to_actions rc mcp r content (length (tc # tcs)) 0 (tc # tcs)
             | _ \<Rightarrow> Inr [fresh_event (Act (MessageAction content None None True RISK_UNKNOWN))])
             (\<lambda>es. Inr (map (\<lambda>e. e\<lparr>raw_response_id := Some (response_id r)\<rparr>) es))
      | _ \<Rightarrow> Inl (Raised AssertionError))"

section \<open>The tools on offer\<close>

record tool_config =
  enable_cmd :: bool
  enable_think :: bool
  enable_finish :: bool
  enable_condensation_request :: bool
  enable_browsing :: bool
  enable_jupyter :: bool
  enable_plan_mode :: bool
  enable_llm_editor :: bool
  enable_editor :: bool
  enable_image_generation :: bool
  enable_video_generation :: bool

text \<open>\<open>_get_tools\<close>, by name.\<close>

definition get_tools :: "bool \<Rightarrow> tool_config \<Rightarrow> string list" where
  "get_tools windows cfg =
     (if enable_cmd cfg then [EXECUTE_BASH] else []) @
     (if enable_think cfg then [THINK] else []) @
     (if enable_finish cfg then [FINISH] else []) @
     (if enable_condensation_request cfg then [REQUEST_CONDENSATION] else []) @
     (if enable_browsing cfg \<and> \<not> windows then [BROWSER] else []) @
     (if enable_jupyter cfg then [EXECUTE_IPYTHON] else []) @
     (if enable_plan_mode cfg then [TASK_TRACKER] else []) @
     (if enable_llm_editor cfg then [EDIT_FILE] else if enable_editor cfg then [STR_REPLACE_EDITOR] else []) @
     (if enable_image_generation cfg then [GENERATE_IMAGE] else []) @
     (if enable_video_generation cfg then [GENERATE_VIDEO] else [])"

section \<open>Facts\<close>

definition not_registered :: "event list decoded \<Rightarrow> bool" where
  "not_registered x = (case x of Inl (Raised (FunctionCallNotExistsError _)) \<Rightarrow> True | _ \<Rightarrow> False)"

lemma bindD_Inl_iff: "bindD m f = Inl x \<longleftrightarrow> m = Inl x \<or> (\<exists>y. m = Inr y \<and> f y = Inl x)"
  by (cases m) auto

text \<open>Every action carries the id of its call, in the order of the calls.\<close>

lemma calls_to_actions_metadata:
  "calls_to_actions rc mcp r thought n_calls i tcs = Inr es \<Longrightarrow>
     map raw_tool_call_metadata es = map (\<lambda>tc. Some (tool_metadata rc r n_calls tc)) tcs"
  by (induction tcs arbitrary: i es) (auto simp: bindD_Inr_iff Let_def)

end
