(* ===== verification/Codeact_Agent.thy ===== *)
theory Codeact_Agent
  imports Function_Calling Conversation_Facts Condensers State
begin

text \<open>
  The CodeAct agent (\<open>openhands/agenthub/codeact_agent/codeact_agent.py\<close>): one step takes a queued
  action, or condenses the history, builds the prompt, asks the model and queues the actions of
  its response. The model is a function of the messages. That building the prompt changes events
  in place is left out here; it does not change what is built the next time.
\<close>

section \<open>The step\<close>

record codeact_env =
  ca_memory :: memory_config
  ca_prompts :: prompts
  ca_codec :: response_codec
  ca_condenser :: condenser
  ca_oracle :: llm_oracle
  ca_mcp_tools :: "string list"
  ca_max_message_chars :: "int option"
  ca_vision :: bool
  ca_caching :: bool
  completion :: "message list \<Rightarrow> llm_response result"

definition get_initial_user_message :: "event list \<Rightarrow> event result" where
  "get_initial_user_message events = (case find is_user_message events of
     None \<Rightarrow> Inl (ValueError ''Initial user message not found in history. Please report this issue.'')
   | Some e \<Rightarrow> Inr e)"

definition get_messages :: "codeact_env \<Rightarrow> event list \<Rightarrow> event \<Rightarrow> int list \<Rightarrow> message list result" where
  "get_messages env events initial ids =
     bindE (fst (process_events (ca_memory env) (ca_prompts env) events initial ids
       (ca_max_message_chars env) (ca_vision env))) (\<lambda>ms.
     if ca_caching env then apply_prompt_caching ms else Inr ms)"

text \<open>What a response becomes is \<open>self.response_to_actions\<close>, which other agents override.\<close>

definition ask_model ::
  "(llm_response \<Rightarrow> event list decoded) \<Rightarrow> codeact_env \<Rightarrow> event list \<Rightarrow> view \<Rightarrow> event list decoded" where
  "ask_model to_actions env events w =
     (case bindE (get_initial_user_message events) (\<lambda>initial.
           bindE (get_messages env (view_events w) initial (forgotten_event_ids w)) (completion env)) of
        Inl x \<Rightarrow> Inl (Raised x)
      | Inr r \<Rightarrow> to_actions r)"

definition says_exit :: "event option \<Rightarrow> bool" where
  "says_exit m = (case m of
     Some e \<Rightarrow> (case payload e of Act (MessageAction c _ _ _ _) \<Rightarrow> py_strip c = ''/exit'' | _ \<Rightarrow> False)
   | None \<Rightarrow> False)"

definition agent_step ::
  "(llm_response \<Rightarrow> event list decoded) \<Rightarrow> codeact_env \<Rightarrow> event list \<Rightarrow> conv_state \<Rightarrow>
   event decoded \<times> event list \<times> conv_state" where
  "agent_step to_actions env pending st =
     (case pending of
        e # es \<Rightarrow> (Inr e, es, st)
      | [] \<Rightarrow>
          (case get_last_user_message st of
             (Inl x, st1) \<Rightarrow> (Inl (Raised x), [], st1)
           | (Inr m, st1) \<Rightarrow>
               if says_exit m then (Inr (fresh_event (Act (AgentFinishAction [] [] []))), [], st1)
               else (case view_of st1 of
                 (Inl x, st2) \<Rightarrow> (Inl (Raised x), [], st2)
               | (Inr v, st2) \<Rightarrow>
                   let (r, extra) = condensed_history (ca_oracle env) (ca_condenser env) (extra_data st2) v;
                       st3 = st2\<lparr>extra_data := extra\<rparr>
                   in case r of
                        Inl x \<Rightarrow> (Inl (Raised x), [], st3)
                      | Inr (Condensed a) \<Rightarrow> (Inr (fresh_event (Act a)), [], st3)
                      | Inr (Kept w) \<Rightarrow> (case ask_model to_actions env (history st3) w of
                          Inl x \<Rightarrow> (Inl x, [], st3)
                        | Inr [] \<Rightarrow> (Inl (Raised IndexError), [], st3)
                        | Inr (e # es) \<Rightarrow> (Inr e, es, st3)))))"

definition codeact_step ::
  "codeact_env \<Rightarrow> event list \<Rightarrow> conv_state \<Rightarrow> event decoded \<times> event list \<times> conv_state" where
  "codeact_step env = agent_step (response_to_actions (ca_codec env) (ca_mcp_tools env)) env"

section \<open>Facts\<close>

text \<open>The actions of a response, recorded as the agent's, can be shown to the model again.\<close>

lemma combine_thought_kind:
  "tool_action (combine_thought a t) src = tool_action a src"
  by (cases a) (auto simp: combine_thought_def thought_of_def set_thought_def tool_action_def)

lemma renderable_with_metadata:
  "payload e = Act a \<Longrightarrow> raw_tool_call_metadata e \<noteq> None \<Longrightarrow> renderable pr e"
  by (simp add: renderable_def)

lemma calls_to_actions_Act:
  "calls_to_actions rc mcp r thought n i tcs = Inr es \<Longrightarrow> e \<in> set es \<Longrightarrow> \<exists>a. payload e = Act a"
  by (induction tcs arbitrary: i es) (auto simp: bindD_Inr_iff Let_def)

lemma response_actions_renderable:
  assumes "response_to_actions rc mcp r = Inr es" and "e \<in> set es"
    and "sound_response r \<or> (\<exists>am. choices r = [am] \<and> am_tool_calls am \<in> {None, Some []})"
    and "read_response pr (response_dict rc r) = r"
  shows "renderable pr (e\<lparr>raw_source := Some AGENT, raw_id := i, raw_timestamp := t\<rparr>) \<and>
    sound_event pr (e\<lparr>raw_source := Some AGENT, raw_id := i, raw_timestamp := t\<rparr>)"
proof -
  obtain am where am: "choices r = [am]"
    using assms(1) by (auto simp: response_to_actions_def split: list.splits)
  show ?thesis
  proof (cases "am_tool_calls am \<in> {None, Some []}")
    case True
    with assms(1,2) am show ?thesis
      by (auto simp: response_to_actions_def renderable_def sound_event_def fresh_event_def tool_action_def)
  next
    case False
    then obtain tc tcs where tcs: "am_tool_calls am = Some (tc # tcs)"
      by (cases "am_tool_calls am") (auto simp: neq_Nil_conv)
    have sound: "sound_response r" using assms(3) am False by auto
    obtain content es0 where es0: "calls_to_actions rc mcp r content (length (tc # tcs)) 0 (tc # tcs) = Inr es0"
      and es: "es = map (\<lambda>e. e\<lparr>raw_response_id := Some (response_id r)\<rparr>) es0"
      using assms(1) am tcs
      by (auto simp: response_to_actions_def Let_def bindD_Inr_iff simp del: calls_to_actions.simps)
    then obtain e0 where e0: "e0 \<in> set es0" "e = e0\<lparr>raw_response_id := Some (response_id r)\<rparr>"
      using assms(2) by auto
    obtain a where a: "payload e0 = Act a" using calls_to_actions_Act [OF es0 e0(1)] by blast
    have "raw_tool_call_metadata e0 \<in> (\<lambda>tc'. Some (tool_metadata rc r (length (tc # tcs)) tc')) ` set (tc # tcs)"
      using calls_to_actions_metadata [OF es0] e0(1) by (metis imageI list.set_map)
    then obtain tc' where "raw_tool_call_metadata e0 = Some (tool_metadata rc r (length (tc # tcs)) tc')" by blast
    with sound assms(4) a show ?thesis
      by (simp add: e0(2) renderable_def sound_event_def tool_metadata_def)
  qed
qed

end
