(* ===== verification/Agent_Properties.thy ===== *)
theory Agent_Properties
  imports Codeact_Agent
begin

text \<open>
  The properties of the conversion of responses to actions and of the CodeAct agent, with the
  responses their witnesses use.
\<close>

section \<open>Calls by position\<close>

lemma calls_to_actions_nth:
  assumes "calls_to_actions rc mcp r thought n i tcs = Inr es" and "k < length tcs"
  shows "\<exists>e j. call_action rc mcp (i + k) (tcs ! k) = Inr (e, j) \<and>
    payload (es ! k) = Act (if j = 0 then combine_thought (act_of (payload e)) thought else act_of (payload e)) \<and>
    raw_tool_call_metadata (es ! k) = Some (tool_metadata rc r n (tcs ! k))"
  using assms
proof (induction tcs arbitrary: i es k)
  case (Cons tc tcs)
  obtain e j es1 where e: "call_action rc mcp i tc = Inr (e, j)"
    and rest: "calls_to_actions rc mcp r thought n (Suc i) tcs = Inr es1"
    and es: "es = e\<lparr>payload := Act (if j = 0 then combine_thought (act_of (payload e)) thought else act_of (payload e)),
        raw_tool_call_metadata := Some (tool_metadata rc r n tc)\<rparr> # es1"
    using Cons.prems(1) by (auto simp: bindD_Inr_iff Let_def)
  show ?case
  proof (cases k)
    case 0
    with e es show ?thesis by auto
  next
    case (Suc k')
    with Cons.IH [OF rest, of k'] Cons.prems(2) es show ?thesis by simp
  qed
qed simp

lemma response_calls:
  assumes "choices r = [am]" and "am_tool_calls am = Some tcs" and "k < length tcs"
    and "response_to_actions rc mcp r = Inr es"
  obtains e j where "call_action rc mcp k (tcs ! k) = Inr (e, j)"
    and "payload (es ! k) = Act (if j = 0
      then combine_thought (act_of (payload e)) (case am_content am of Some c \<Rightarrow> c | None \<Rightarrow> [])
      else act_of (payload e))"
    and "length es = length tcs"
    and "raw_tool_call_metadata (es ! k) = Some (tool_metadata rc r (length tcs) (tcs ! k))"
    and "raw_response_id (es ! k) = Some (response_id r)"
proof -
  obtain tc tcs' where tcs: "tcs = tc # tcs'" using assms(3) by (cases tcs) auto
  obtain es0 where es0: "calls_to_actions rc mcp r (case am_content am of Some c \<Rightarrow> c | None \<Rightarrow> []) (length tcs) 0 tcs = Inr es0"
    and es: "es = map (\<lambda>e. e\<lparr>raw_response_id := Some (response_id r)\<rparr>) es0"
    using assms(1,2,4) tcs
    by (auto simp: response_to_actions_def Let_def bindD_Inr_iff simp del: calls_to_actions.simps)
  have len: "length es0 = length tcs" using calls_to_actions_metadata [OF es0] by (metis length_map)
  with calls_to_actions_nth [OF es0 assms(3)] that es assms(3) show thesis by fastforce
qed

section \<open>Tools and errors\<close>

text \<open>A value that is not the refusal of an unknown tool.\<close>

definition accepted :: "'a decoded \<Rightarrow> bool" where
  "accepted x \<longleftrightarrow> (\<forall>s. x \<noteq> Inl (Raised (FunctionCallNotExistsError s)))"

lemma not_registered_accepted: "not_registered x \<longleftrightarrow> \<not> accepted x"
  by (auto simp: not_registered_def accepted_def split: sum.split decode_failure.split exn.split)

lemma accepted_intros:
  "accepted (Inr x)" "accepted (Inl Outside)"
  "accepted m \<Longrightarrow> (\<And>x. accepted (f x)) \<Longrightarrow> accepted (bindD m f)"
  by (auto simp: accepted_def bindD_def split: sum.splits)

lemma accepted_decoders:
  "accepted (dstr v)" "accepted (dint v)" "accepted (dopt dstr v)" "accepted (dopt dint v)"
  "accepted (need args k name)" "accepted (timeout_of rc v)" "accepted (normalized_task i v)"
  by (cases v; auto simp: accepted_def dopt_def need_def missing_def timeout_of_def normalized_task_def Let_def
      split: option.split)+

lemma accepted_dlist: "accepted (dopt (dlist dint) v)"
proof -
  have "accepted (traverse dint vs)" for vs
    by (induction vs) (auto intro: accepted_intros accepted_decoders)
  then show ?thesis
    by (cases v) (auto simp: dopt_def intro: accepted_intros)
qed

lemma accepted_dedit: "accepted (dedit v)"
  by (auto simp: accepted_def dedit_def kept_enum_def split: option.split)

lemma accepted_opt: "(\<And>v. accepted (f v)) \<Longrightarrow> accepted (opt args k x f)"
  by (auto simp: opt_def accepted_intros split: option.split)

lemmas accepted_rules = accepted_intros accepted_decoders accepted_dlist accepted_dedit accepted_opt

lemma accepted_normalized_tasks: "accepted (normalized_tasks i ts)"
  by (induction i ts rule: normalized_tasks.induct) (auto intro: accepted_rules)

lemma accepted_tools:
  "accepted (run_tool rc name args)" "accepted (ipython_tool name args)" "accepted (edit_file_tool name args)"
  "accepted (editor_tool name args)" "accepted (browser_tool name args)" "accepted (task_tool name args i)"
proof -
  show "accepted (run_tool rc name args)"
    by (auto simp: run_tool_def Let_def intro!: accepted_rules split: option.split)
  show "accepted (ipython_tool name args)" by (auto simp: ipython_tool_def intro!: accepted_rules)
  show "accepted (edit_file_tool name args)" by (auto simp: edit_file_tool_def intro!: accepted_rules)
  show "accepted (browser_tool name args)" by (auto simp: browser_tool_def intro!: accepted_rules)
  have "accepted (Inl (Raised (FunctionCallValidationError s)))" for s by (simp add: accepted_def)
  then show "accepted (editor_tool name args)" "accepted (task_tool name args i)"
    by (auto simp: editor_tool_def task_tool_def intro!: accepted_rules accepted_normalized_tasks
        split: option.split json.split)
qed

lemma single_call_registered:
  assumes "choices r = [am]" and "am_tool_calls am = Some [tc]"
  shows "not_registered (response_to_actions rc mcp r) \<longleftrightarrow> \<not> accepted (call_action rc mcp 0 tc)"
  using assms
  by (cases "call_action rc mcp 0 tc")
    (auto simp: response_to_actions_def Let_def not_registered_accepted accepted_def split: prod.split)

lemma call_registered:
  assumes "json_loads rc (tc_arguments tc) = Some (JDict args)" and "tc_name tc = Some name"
    and "name \<in> set (get_tools w cfg)"
  shows "accepted (call_action rc mcp i tc) \<longleftrightarrow> name \<notin> {GENERATE_IMAGE, GENERATE_VIDEO} \<or> name \<in> set mcp"
proof -
  have cases: "name \<in> {EXECUTE_BASH, THINK, FINISH, REQUEST_CONDENSATION, BROWSER, EXECUTE_IPYTHON,
      TASK_TRACKER, EDIT_FILE, STR_REPLACE_EDITOR, GENERATE_IMAGE, GENERATE_VIDEO}"
    using assms(3) by (auto simp: get_tools_def split: if_splits)
  have refused: "\<not> accepted (Inl (Raised (FunctionCallNotExistsError s)))" for s by (simp add: accepted_def)
  show ?thesis
    using cases assms(1,2)
    by (elim insertE emptyE)
      (auto simp: call_action_def plain_tool_def tool_name_defs accepted_rules accepted_tools refused
        split: prod.split intro!: accepted_rules accepted_tools)
qed

section \<open>Risks\<close>

lemma normalized_tasks_length: "normalized_tasks i ts = Inr ns \<Longrightarrow> length ns = length ts"
  by (induction i ts arbitrary: ns rule: normalized_tasks.induct) (auto simp: bindD_Inr_iff)

lemma risk_of_combine [simp]: "risk_of (combine_thought a t) = risk_of a"
  by (simp add: combine_thought_def split: option.split)

lemma risk_of_set_security:
  assumes "map_of args ''security_risk'' = Some (JStr l)" and "map_of RISK_LEVELS l = Some rk"
    and "risk_of a \<noteq> None"
  shows "risk_of (set_security_risk args a) = Some rk"
  using assms by (auto simp: set_security_risk_def risk_of_set_risk)

definition risk_tools :: "string list" where
  "risk_tools = [EXECUTE_BASH, EXECUTE_IPYTHON, STR_REPLACE_EDITOR, BROWSER]"

lemma call_risk:
  assumes "call_action rc mcp i tc = Inr (e, j)"
    and "json_loads rc (tc_arguments tc) = Some (JDict args)" and name: "tc_name tc = Some name"
    and risk: "map_of args ''security_risk'' = Some (JStr l)" "map_of RISK_LEVELS l = Some rk"
  shows "name \<in> set risk_tools \<Longrightarrow> risk_of (act_of (payload e)) = Some rk"
    and "name = EDIT_FILE \<Longrightarrow> risk_of (act_of (payload e)) = Some RISK_UNKNOWN"
proof -
  have act: "risk_of (CmdRunAction c i1 t b s1 w h f rr) \<noteq> None"
    "risk_of (IPythonRunCellAction c t ie f rr kk) \<noteq> None" "risk_of (BrowseInteractiveAction c t m rr x) \<noteq> None"
    "risk_of (FileReadAction c n1 n2 t rr rs vr) \<noteq> None"
    "risk_of (FileEditAction c k1 o1 o2 o3 o4 c2 n1 n2 t rr es) \<noteq> None"
    for c i1 t b s1 w h f rr ie kk m x n1 n2 rs vr k1 o1 o2 o3 o4 c2 es
    by (simp_all add: risk_of_def)
  note known = risk_of_set_security [OF risk]
  show "risk_of (act_of (payload e)) = Some rk" if "name \<in> set risk_tools"
    using that assms(1-3)
    by (auto simp: risk_tools_def tool_name_defs call_action_def plain_tool_def run_tool_def ipython_tool_def
        editor_tool_def browser_tool_def bindD_Inr_iff Let_def set_hard_timeout_def fresh_event_def known act
        split: option.splits if_splits)
  show "risk_of (act_of (payload e)) = Some RISK_UNKNOWN" if "name = EDIT_FILE"
    using that assms(1-3)
    by (auto simp: tool_name_defs call_action_def plain_tool_def edit_file_tool_def bindD_Inr_iff
        fresh_event_def risk_of_def)
qed

lemma task_call:
  assumes "call_action rc mcp i tc = Inr (e, j)"
    and "json_loads rc (tc_arguments tc) = Some (JDict args)" and "tc_name tc = Some TASK_TRACKER"
    and "map_of args ''task_list'' = Some (JList (t # ts))"
  shows "j = length ts" and "\<exists>cmd l. payload e = Act (TaskTrackingAction cmd l [])"
  using assms
  by (auto simp: call_action_def task_tool_def bindD_Inr_iff fresh_event_def tool_name_defs
      split: if_splits)

lemma other_call:
  assumes "call_action rc mcp i tc = Inr (e, j)" and "tc_name tc \<noteq> Some TASK_TRACKER"
  shows "j = i"
  using assms by (auto simp: call_action_def bindD_Inr_iff split: option.splits json.splits if_splits)

lemma condensed_action:
  assumes "condense llm c v = Inr (Condensed a)"
  shows "\<exists>x1 x2 x3 x4 x5. a = CondensationAction x1 x2 x3 x4 x5"
proof -
  obtain ids where "forgotten a = Inr ids" using condense_contract(1) [OF assms] by blast
  then show ?thesis by (cases a) auto
qed

section \<open>Responses for the witnesses\<close>

definition demo_codec :: response_codec where
  "demo_codec = \<lparr>json_loads = (\<lambda>s. Some (JDict
       (if s = ''plan'' then [(''command'', JStr ''plan''), (''task_list'', JList [JDict [], JDict []])]
        else if s = ''edit''
        then [(''path'', JStr ''/f''), (''content'', JStr []), (''security_risk'', JStr ''HIGH'')]
        else []))),
     float_of_text = (\<lambda>_. None), repr_of = (\<lambda>_. []), response_dict = (\<lambda>_. JNull)\<rparr>"

definition demo_response :: "string \<Rightarrow> string \<Rightarrow> llm_response" where
  "demo_response name args = \<lparr>response_id = ''r'', choices = [\<lparr>am_role = ''assistant'', am_content = Some ''so'',
     am_tool_calls = Some [\<lparr>tc_id = ''c1'', tc_name = Some name, tc_arguments = args\<rparr>]\<rparr>]\<rparr>"

lemma demo_response_facts:
  "choices (demo_response name args) = [\<lparr>am_role = ''assistant'', am_content = Some ''so'',
     am_tool_calls = Some [\<lparr>tc_id = ''c1'', tc_name = Some name, tc_arguments = args\<rparr>]\<rparr>]"
  by (simp add: demo_response_def)

lemma demo_plan:
  "\<exists>es. response_to_actions demo_codec [] (demo_response TASK_TRACKER ''plan'') = Inr es"
  by (rule exI) (code_simp)

lemma demo_edit:
  "\<exists>es. response_to_actions demo_codec [] (demo_response EDIT_FILE ''edit'') = Inr es"
  by (rule exI) (code_simp)

text \<open>An agent whose model always gives the same response, and a state with one message of the
  user.\<close>

definition chat_response :: llm_response where
  "chat_response = \<lparr>response_id = ''r'', choices = [\<lparr>am_role = ''assistant'', am_content = Some ''hello'',
     am_tool_calls = None\<rparr>]\<rparr>"

definition chat_env :: "response_codec \<Rightarrow> llm_response \<Rightarrow> codeact_env" where
  "chat_env rc r = \<lparr>ca_memory = \<lparr>enable_som_visual_browsing = False, enable_prompt_extensions = True,
       disabled_microagents = []\<rparr>,
     ca_prompts = \<lparr>system_prompt = ''be kind'', agent_version = ''0'',
       build_workspace_context = (\<lambda>_ _ _ _. []), build_microagent_info = (\<lambda>_. []),
       visualize_diff = (\<lambda>_. Inr []), action_text = (\<lambda>_. []), read_response = (\<lambda>_. chat_response)\<rparr>,
     ca_codec = rc, ca_condenser = NoOpCondenser,
     ca_oracle = \<lparr>ask_ranking = (\<lambda>_. Inr []), ask_summary = (\<lambda>_ _. Inr None), ask_structured = (\<lambda>_ _. Inr None),
       supports_response_schema = True, is_function_calling_active = True, response_dump = JNull, metrics_dump = JNull\<rparr>,
     ca_mcp_tools = [], ca_max_message_chars = None, ca_vision = False, ca_caching = False,
     completion = (\<lambda>_. Inr r)\<rparr>"

definition greeting :: event where
  "greeting = (fresh_event (Act (MessageAction ''hi'' None None False RISK_UNKNOWN)))
     \<lparr>raw_source := Some USER, raw_id := Some 0\<rparr>"

lemma chat_step:
  assumes "to_actions r = Inr (e # es)"
  shows "\<exists>st'. agent_step to_actions (chat_env rc r) [] (new_state\<lparr>history := [greeting]\<rparr>) = (Inr e, es, st')"
proof -
  have g: "is_user_message greeting" "\<not> is_condensation greeting" "\<not> is_condensation_request greeting"
    "is_message greeting" "event_source greeting = Some USER" "\<not> says_exit (Some greeting)" "\<not> is_system_message greeting"
    by (simp_all add: greeting_def fresh_event_def is_user_message_def is_message_def is_condensation_def
        is_condensation_request_def says_exit_def py_strip_def is_space_def is_system_message_def)
  have v: "from_events [greeting] = Inr (plain_view [greeting])"
    by (rule from_events_plain) (simp add: g)
  have messages: "\<exists>ms. get_messages (chat_env rc r) [greeting] greeting [] = Inr ms"
    by (simp add: get_messages_def chat_env_def process_events_def ensure_system_message_def g Let_def
        ensure_initial_user_message_def process_event_def process_action_def fresh_event_def tool_action_def)
      (simp add: greeting_def fresh_event_def process_action_def tool_action_def)
  then obtain ms where ms: "get_messages (chat_env rc r) [greeting] greeting [] = Inr ms" by blast
  have ask: "ask_model to_actions (chat_env rc r) [greeting] (plain_view [greeting]) = Inr (e # es)"
    using ms assms by (simp add: ask_model_def get_initial_user_message_def g plain_view_def)
      (simp add: chat_env_def)
  show ?thesis
    using ask
    by (simp add: agent_step_def get_last_user_message_def view_of_def new_state_def v bindS_def retS_def
        plain_view_def g condensed_history_def)
      (simp add: chat_env_def plain_view_def)
qed

section \<open>Properties\<close>

text \<open>
  C22. A response with tool calls becomes one action per call, in their order, each with the id and
  tool of its call, the response and the number of its calls, and the id of the response; none of
  them has an event id yet. The thought of the model goes to the first action; but a task list
  moves it: an action that tracks tasks has the thought exactly if its list has one task, wherever
  it stands, so with two tasks the thought of the response is lost, and with one task a later
  call repeats it.
\<close>

theorem actions_carry_calls:
  assumes "choices r = [am]" and "am_tool_calls am = Some tcs" and "k < length tcs"
    and "response_to_actions rc mcp r = Inr es"
  shows "length es = length tcs \<and>
    raw_tool_call_metadata (es ! k) = Some (tool_metadata rc r (length tcs) (tcs ! k)) \<and>
    raw_response_id (es ! k) = Some (response_id r) \<and>
    (tc_name (tcs ! k) \<noteq> Some TASK_TRACKER \<longrightarrow> (\<exists>e. call_action rc mcp k (tcs ! k) = Inr (e, k) \<and>
       payload (es ! k) = Act (if k = 0
         then combine_thought (act_of (payload e)) (case am_content am of Some c \<Rightarrow> c | None \<Rightarrow> [])
         else act_of (payload e)))) \<and>
    (\<forall>args t ts. tc_name (tcs ! k) = Some TASK_TRACKER \<and>
       json_loads rc (tc_arguments (tcs ! k)) = Some (JDict args) \<and>
       map_of args ''task_list'' = Some (JList (t # ts)) \<longrightarrow>
       thought_of (act_of (payload (es ! k))) =
         Some (if ts = [] then (case am_content am of Some c \<Rightarrow> c | None \<Rightarrow> []) else []))"
proof -
  obtain e j where call: "call_action rc mcp k (tcs ! k) = Inr (e, j)"
    and pay: "payload (es ! k) = Act (if j = 0
      then combine_thought (act_of (payload e)) (case am_content am of Some c \<Rightarrow> c | None \<Rightarrow> [])
      else act_of (payload e))"
    and rest: "length es = length tcs"
      "raw_tool_call_metadata (es ! k) = Some (tool_metadata rc r (length tcs) (tcs ! k))"
      "raw_response_id (es ! k) = Some (response_id r)"
    using response_calls [OF assms] .
  have "thought_of (act_of (payload (es ! k))) =
      Some (if ts = [] then (case am_content am of Some c \<Rightarrow> c | None \<Rightarrow> []) else [])"
    if "tc_name (tcs ! k) = Some TASK_TRACKER" "json_loads rc (tc_arguments (tcs ! k)) = Some (JDict args)"
      "map_of args ''task_list'' = Some (JList (t # ts))" for args t ts
    using task_call [OF call that(2,1,3)]
    by (auto simp: pay combine_thought_def thought_of_def set_thought_def)
  with rest call pay other_call [OF call] show ?thesis by auto
qed

theorem actions_carry_calls_witness:
  "\<exists>es. response_to_actions demo_codec [] (demo_response TASK_TRACKER ''plan'') = Inr es \<and>
     length es = 1 \<and> thought_of (act_of (payload (es ! 0))) = Some []"
proof -
  obtain es where es: "response_to_actions demo_codec [] (demo_response TASK_TRACKER ''plan'') = Inr es"
    using demo_plan by blast
  show ?thesis
    using actions_carry_calls [OF demo_response_facts _ _ es, of _ 0] es by (auto simp: demo_codec_def)
qed

text \<open>
  A tool on offer is understood when it is called, with one exception: a call of the image or
  video tool, which the configuration can offer, is refused as a call of an unknown tool (unless
  a tool server happens to have one of that name). Every other tool on offer is refused for its
  arguments at most.
\<close>

theorem offered_tools_understood:
  assumes "name \<in> set (get_tools windows cfg)" and "choices r = [am]"
    and "am_tool_calls am = Some [tc]" and "tc_name tc = Some name"
    and "json_loads rc (tc_arguments tc) = Some (JDict args)"
  shows "not_registered (response_to_actions rc mcp r) \<longleftrightarrow>
    name \<in> {GENERATE_IMAGE, GENERATE_VIDEO} \<and> name \<notin> set mcp"
  using single_call_registered [OF assms(2,3)] call_registered [OF assms(5,4,1)] by blast

theorem offered_tools_understood_witness:
  "not_registered (response_to_actions demo_codec [] (demo_response GENERATE_IMAGE []))"
proof -
  have "GENERATE_IMAGE \<in> set (get_tools False \<lparr>enable_cmd = False, enable_think = False, enable_finish = False,
      enable_condensation_request = False, enable_browsing = False, enable_jupyter = False,
      enable_plan_mode = False, enable_llm_editor = False, enable_editor = False,
      enable_image_generation = True, enable_video_generation = False\<rparr>)"
    by (simp add: get_tools_def)
  from offered_tools_understood [OF this demo_response_facts, of GENERATE_IMAGE "[]" _ demo_codec _ "[]"]
  show ?thesis by (simp add: demo_codec_def)
qed

text \<open>
  The risk the model states for a call is the risk of the action for commands, code cells, the
  editor and the browser; for the file edit tool, whose description asks for it as well, it is
  thrown away: the action has the unknown risk whatever was stated.
\<close>

theorem stated_risk_kept:
  assumes "choices r = [am]" and "am_tool_calls am = Some tcs" and "k < length tcs"
    and "response_to_actions rc mcp r = Inr es"
    and "json_loads rc (tc_arguments (tcs ! k)) = Some (JDict args)"
    and "map_of args ''security_risk'' = Some (JStr l)" and "map_of RISK_LEVELS l = Some rk"
    and "tc_name (tcs ! k) = Some name" and "name \<in> set (EDIT_FILE # risk_tools)"
  shows "risk_of (act_of (payload (es ! k))) = Some (if name = EDIT_FILE then RISK_UNKNOWN else rk)"
proof -
  obtain e j where call: "call_action rc mcp k (tcs ! k) = Inr (e, j)"
    and pay: "payload (es ! k) = Act (if j = 0
      then combine_thought (act_of (payload e)) (case am_content am of Some c \<Rightarrow> c | None \<Rightarrow> [])
      else act_of (payload e))"
    using response_calls [OF assms(1-4)] .
  have "risk_of (act_of (payload (es ! k))) = risk_of (act_of (payload e))" by (simp add: pay)
  with call_risk [OF call assms(5,8,6,7)] assms(9) show ?thesis by auto
qed

theorem stated_risk_kept_witness:
  "\<exists>es. response_to_actions demo_codec [] (demo_response EDIT_FILE ''edit'') = Inr es \<and>
     risk_of (act_of (payload (es ! 0))) = Some RISK_UNKNOWN"
proof -
  obtain es where es: "response_to_actions demo_codec [] (demo_response EDIT_FILE ''edit'') = Inr es"
    using demo_edit by blast
  show ?thesis
    using stated_risk_kept [OF demo_response_facts _ _ es, of _ 0 _ "''HIGH''" RISK_HIGH EDIT_FILE] es
    by (auto simp: demo_codec_def RISK_LEVELS_def)
qed

end
