(* ===== verification/Recall.thy ===== *)
theory Recall
  imports Conversation_Memory Event_Log
begin

text \<open>
  What answers a recall (\<open>openhands/memory/memory.py\<close>): microagents by trigger, the instructions of
  the repository and what is known of repository and runtime, sent back as one observation.
  Reading microagents from files is left out: they enter as values.
\<close>

section \<open>Microagents\<close>

record knowledge_microagent =
  km_name :: string
  km_triggers :: "string list"
  km_content :: string

text \<open>\<open>match_trigger\<close>: the first trigger that occurs in the message, letters compared in lower case.\<close>

definition match_trigger :: "knowledge_microagent \<Rightarrow> string \<Rightarrow> string option" where
  "match_trigger k message = find (\<lambda>t. occurs_in (py_lower t) (py_lower message)) (km_triggers k)"

datatype microagent = Knowledge_Microagent knowledge_microagent | Repo_Microagent string string

record memory =
  repo_microagents :: "(string, string) dict"
  knowledge_microagents :: "(string, knowledge_microagent) dict"
  mem_repository_info :: "repository_info option"
  mem_runtime_info :: "runtime_info option"
  mem_conversation_instructions :: "string option"

definition load_microagent :: "microagent \<Rightarrow> memory \<Rightarrow> memory" where
  "load_microagent m mem = (case m of
     Knowledge_Microagent k \<Rightarrow>
       mem\<lparr>knowledge_microagents := AList.update (km_name k) k (knowledge_microagents mem)\<rparr>
   | Repo_Microagent name content \<Rightarrow>
       mem\<lparr>repo_microagents := AList.update name content (repo_microagents mem)\<rparr>)"

definition load_user_workspace_microagents :: "microagent list \<Rightarrow> memory \<Rightarrow> memory" where
  "load_user_workspace_microagents ms mem = fold load_microagent ms mem"

definition set_repository_info :: "string \<Rightarrow> string \<Rightarrow> string option \<Rightarrow> memory \<Rightarrow> memory" where
  "set_repository_info name dir branch mem =
     mem\<lparr>mem_repository_info :=
       (if name \<noteq> [] \<or> dir \<noteq> [] then Some \<lparr>ri_name = name, ri_directory = dir, ri_branch = branch\<rparr> else None)\<rparr>"

definition set_runtime_info ::
  "(string \<times> int) list \<Rightarrow> string \<Rightarrow> string \<Rightarrow> (string \<times> string) list \<Rightarrow> string \<Rightarrow> memory \<Rightarrow> memory" where
  "set_runtime_info hosts instructions date secrets dir mem =
     (let given = (hosts \<noteq> [] \<or> instructions \<noteq> [])
      in mem\<lparr>mem_runtime_info := Some
           \<lparr>rt_available_hosts = (if given then hosts else []),
            rt_additional_agent_instructions = (if given then instructions else []),
            rt_date = date, rt_custom_secrets_descriptions = secrets, rt_working_dir = dir\<rparr>\<rparr>)"

definition set_conversation_instructions :: "string option \<Rightarrow> memory \<Rightarrow> memory" where
  "set_conversation_instructions s mem =
     mem\<lparr>mem_conversation_instructions := Some (case s of Some t \<Rightarrow> t | None \<Rightarrow> [])\<rparr>"

section \<open>Recalling\<close>

definition find_microagent_knowledge :: "memory \<Rightarrow> string \<Rightarrow> microagent_knowledge list" where
  "find_microagent_knowledge mem q =
     (if q = [] then []
      else concat (map (\<lambda>(name, k). case match_trigger k q of
          Some (t # ts) \<Rightarrow> [\<lparr>mk_name = km_name k, mk_trigger = t # ts, mk_content = km_content k\<rparr>]
        | _ \<Rightarrow> []) (knowledge_microagents mem)))"

definition on_workspace_context_recall :: "memory \<Rightarrow> string \<Rightarrow> observation option" where
  "on_workspace_context_recall mem q =
     (let instructions = fold (\<lambda>(name, c) acc. (if acc \<noteq> [] then acc @ LF @ LF else acc) @ c) (repo_microagents mem) [];
          knowledge = find_microagent_knowledge mem q;
          repo = mem_repository_info mem; runtime = mem_runtime_info mem
      in if repo \<noteq> None \<or> runtime \<noteq> None \<or> instructions \<noteq> [] \<or> knowledge \<noteq> [] \<or>
            mem_conversation_instructions mem \<noteq> None
         then Some (RecallObservation ''Added workspace context''
           \<lparr>rc_recall_type = WORKSPACE_CONTEXT,
            rc_repo_name = (case repo of Some r \<Rightarrow> ri_name r | None \<Rightarrow> []),
            rc_repo_directory = (case repo of Some r \<Rightarrow> ri_directory r | None \<Rightarrow> []),
            rc_repo_branch = (case repo of Some r \<Rightarrow> (case ri_branch r of Some b \<Rightarrow> b | None \<Rightarrow> []) | None \<Rightarrow> []),
            rc_repo_instructions = instructions,
            rc_runtime_hosts = (case runtime of Some r \<Rightarrow> rt_available_hosts r | None \<Rightarrow> []),
            rc_additional_agent_instructions =
              (case runtime of Some r \<Rightarrow> rt_additional_agent_instructions r | None \<Rightarrow> []),
            rc_date = (case runtime of Some r \<Rightarrow> rt_date r | None \<Rightarrow> []),
            rc_custom_secrets_descriptions =
              (case runtime of Some r \<Rightarrow> rt_custom_secrets_descriptions r | None \<Rightarrow> []),
            rc_conversation_instructions =
              (case mem_conversation_instructions mem of Some s \<Rightarrow> s | None \<Rightarrow> []),
            rc_working_dir = (case runtime of Some r \<Rightarrow> rt_working_dir r | None \<Rightarrow> []),
            rc_microagent_knowledge = knowledge\<rparr>)
         else None)"

definition on_microagent_recall :: "memory \<Rightarrow> string \<Rightarrow> observation option" where
  "on_microagent_recall mem q =
     (case find_microagent_knowledge mem q of
        [] \<Rightarrow> None
      | k # ks \<Rightarrow> Some (RecallObservation ''Retrieved knowledge from microagents''
          \<lparr>rc_recall_type = KNOWLEDGE, rc_repo_name = [], rc_repo_directory = [], rc_repo_branch = [],
           rc_repo_instructions = [], rc_runtime_hosts = [], rc_additional_agent_instructions = [],
           rc_date = [], rc_custom_secrets_descriptions = [], rc_conversation_instructions = [],
           rc_working_dir = [], rc_microagent_knowledge = k # ks\<rparr>))"

text \<open>The answer to an event, if there is one: its observation under the id of the recall.\<close>

definition recall_answer :: "memory \<Rightarrow> event \<Rightarrow> event option" where
  "recall_answer mem e = (case payload e of
     Act (RecallAction ty q th) \<Rightarrow>
       let answer = (\<lambda>found. Some ((fresh_event (Obs (case found of Some ob \<Rightarrow> ob | None \<Rightarrow> NullObservation [])))
             \<lparr>raw_cause := Some (event_id e)\<rparr>))
       in if event_source e = Some USER \<and> ty = WORKSPACE_CONTEXT
          then answer (on_workspace_context_recall mem q)
          else if event_source e \<in> {Some USER, Some AGENT} \<and> ty = KNOWLEDGE
          then answer (on_microagent_recall mem q)
          else None
   | _ \<Rightarrow> None)"

text \<open>\<open>on_event\<close>: an exception of the stream would only be reported.\<close>

definition memory_on_event :: "string \<Rightarrow> memory \<Rightarrow> event \<Rightarrow> event_log \<Rightarrow> event_log" where
  "memory_on_event now mem e lg = (case recall_answer mem e of
     None \<Rightarrow> lg
   | Some ob \<Rightarrow> (case add_event now ob ENVIRONMENT lg of Inl x \<Rightarrow> lg | Inr (_, lg') \<Rightarrow> lg'))"

lemma recall_answer_user:
  assumes "payload e = Act (RecallAction ty q th)" and "event_source e = Some USER"
  shows "\<exists>ob. recall_answer mem e = Some ob \<and> raw_cause ob = Some (event_id e) \<and> raw_id ob = None \<and>
    \<not> is_action ob"
  using assms by (cases ty) (auto simp: recall_answer_def Let_def fresh_event_def is_action_def)

end
