(* ===== verification/Recall_Properties.thy ===== *)
theory Recall_Properties
  imports Recall Controller_Properties
begin

text \<open>
  A property that spans the controller, the stream and the memory: a message of the user is
  always followed by an answered recall.
\<close>

section \<open>Witness data\<close>

definition empty_memory :: memory where
  "empty_memory = \<lparr>repo_microagents = [], knowledge_microagents = [], mem_repository_info = None,
     mem_runtime_info = None, mem_conversation_instructions = None\<rparr>"

section \<open>Properties\<close>

text \<open>
  C7. A user message always gets the agent going again: the controller logs a recall and waits for
  it; the memory, whatever microagents and instructions it has, answers the logged recall with
  exactly one observation under its id; and when the controller sees that observation as it was
  logged, nothing is pending any more and the agent runs.
\<close>

theorem user_message_answered:
  assumes "event_source e = Some USER"
  shows "\<exists>w' c' r lg ob w2 c2. handle_message_action env e (w, c) = (Inr (), (w', c')) \<and>
    pending_action c' = Some r \<and> stored_form r \<in> set (logged (stream w')) \<and>
    memory_on_event now mem (stored_form r) (stream w') = lg \<and>
    logged lg = logged (stream w') @ [ob] \<and> event_cause ob = Some (event_id r) \<and>
    handle_observation env ob (w'\<lparr>stream := lg\<rparr>, c') = (Inr (), (w2, c2)) \<and>
    pending_action c2 = None \<and> agent_state (state c2) = RUNNING"
proof -
  obtain w' c' first r rest where s: "handle_message_action env e (w, c) = (Inr (), (w', c'))"
    "agent_state (state c') = RUNNING" "pending_action c' = Some r" "payload r = payload (recall_for e first)"
    "raw_source r = Some USER" "event_id r = cur_id (stream w)"
    "logged (stream w') = logged (stream w) @ stored_form r # rest"
    using user_message_recalls [OF assms, of env w c] by (elim exE conjE) (rule that, assumption+)
  have id: "event_id (stored_form r) = event_id r" by (rule event_id_cong) simp
  obtain ty q th where p: "payload (stored_form r) = Act (RecallAction ty q th)"
    using s(4) by (simp add: recall_for_def fresh_event_def)
  have "event_source (stored_form r) = Some USER" using s(5) by simp
  from recall_answer_user [OF p this, of mem] id
  obtain answer where answer: "recall_answer mem (stored_form r) = Some answer"
    "raw_cause answer = Some (event_id r)" "raw_id answer = None" by auto
  define ob where "ob = stored_form (answer\<lparr>raw_timestamp := Some now, raw_source := Some ENVIRONMENT,
    raw_id := Some (cur_id (stream w'))\<rparr>)"
  define lg where "lg = (stream w')\<lparr>logged := logged (stream w') @ [ob], queued := queued (stream w') @ [ob]\<rparr>"
  have lg: "memory_on_event now mem (stored_form r) (stream w') = lg"
    by (simp add: memory_on_event_def answer add_event_fresh lg_def ob_def Let_def)
  have cause: "event_cause ob = Some (event_id r)" by (simp add: ob_def answer)
  have "agent_state (state c') \<noteq> AWAITING_USER_CONFIRMATION" by (simp add: s(2))
  from observation_resumes [OF s(3) cause this, of env "w'\<lparr>stream := lg\<rparr>"] obtain w2 c2 where
    "handle_observation env ob (w'\<lparr>stream := lg\<rparr>, c') = (Inr (), (w2, c2))" "pending_action c2 = None"
    "agent_state (state c2) = RUNNING" by (auto simp: s(2))
  moreover have "stored_form r \<in> set (logged (stream w'))" by (simp add: s(7))
  moreover have "logged lg = logged (stream w') @ [ob]" by (simp add: lg_def)
  ultimately show ?thesis using s(1,3) lg cause by blast
qed

theorem user_message_answered_witness:
  "\<exists>w' c' r ob w2 c2. handle_message_action demo_env demo_message (demo_world, demo_in LOADING None) = (Inr (), (w', c')) \<and>
     pending_action c' = Some r \<and> event_cause ob = Some (event_id r) \<and>
     logged (memory_on_event ''t'' empty_memory (stored_form r) (stream w')) = logged (stream w') @ [ob] \<and>
     handle_observation demo_env ob
       (w'\<lparr>stream := memory_on_event ''t'' empty_memory (stored_form r) (stream w')\<rparr>, c') = (Inr (), (w2, c2)) \<and>
     pending_action c2 = None \<and> agent_state (state c2) = RUNNING"
proof -
  have "event_source demo_message = Some USER" by (simp add: demo_message_def)
  from user_message_answered [OF this, of demo_env demo_world "demo_in LOADING None" "''t''" empty_memory]
  show ?thesis by (elim exE conjE) (intro exI conjI, assumption+, simp_all)
qed

end
