(* ===== verification/Fn_Call_Text.thy ===== *)
theory Fn_Call_Text
  imports Serialization
begin

text \<open>
  The constant texts of \<open>openhands/llm/fn_call_converter.py\<close>: the description of the call format
  that is added to the system prompt, and the example conversation shown before the first message
  of the user. They are never unfolded in a proof.
\<close>

definition SQUOTE :: string where
  "SQUOTE = [CHR 0x27]"

definition STOP_WORDS :: "string list" where
  "STOP_WORDS = [''</function'']"

definition SYSTEM_PROMPT_SUFFIX :: "string \<Rightarrow> string" where
  "SYSTEM_PROMPT_SUFFIX description =
     py_join LF [
      [],
      ''You have access to the following functions:'',
      [],
      []] @ description @
     py_join LF [
      [],
      [],
      ''If you choose to call a function ONLY reply in the following format with NO suffix:'',
      [],
      ''<function=example_function_name>'',
      ''<parameter=example_parameter_1>value_1</parameter>'',
      ''<parameter=example_parameter_2>'',
      ''This is the value for the second parameter'',
      ''that can span'',
      ''multiple lines'',
      ''</parameter>'',
      ''</function>'',
      [],
      ''<IMPORTANT>'',
      ''Reminder:'',
      ''- Function calls MUST follow the specified format, start with <function= and end with </function>'',
      ''- Required parameters MUST be specified'',
      ''- Only call one function at a time'',
      ''- You may provide optional reasoning for your function call in natural language BEFORE the function call, but NOT after.'',
      ''- If there is no function call available, answer the question like normal with your current knowledge and do not tell the user about function calls'',
      ''</IMPORTANT>'',
      []]"

definition EXAMPLE_EXECUTE_BASH_CHECK_DIR :: string where
  "EXAMPLE_EXECUTE_BASH_CHECK_DIR =
     py_join LF [
      [],
      ''ASSISTANT: Sure! Let me first check the current directory:'',
      ''<function=execute_bash>'',
      ''<parameter=command>'',
      ''pwd && ls'',
      ''</parameter>'',
      ''</function>'',
      [],
      ''USER: EXECUTION RESULT of [execute_bash]:'',
      ''/workspace'',
      ''openhands@runtime:~/workspace$'',
      []]"

definition EXAMPLE_EXECUTE_BASH_RUN_SERVER :: string where
  "EXAMPLE_EXECUTE_BASH_RUN_SERVER =
     py_join LF [
      [],
      ''ASSISTANT:'',
      ''Let me run the Python file for you:'',
      ''<function=execute_bash>'',
      ''<parameter=command>'',
      ''python3 app.py > server.log 2>&1 &'',
      ''</parameter>'',
      ''</function>'',
      [],
      ''USER: EXECUTION RESULT of [execute_bash]:'',
      ''[1] 121'',
      ''[1]+  Exit 1                  python3 app.py > server.log 2>&1'',
      [],
      ''ASSISTANT:'',
      ''Looks like the server was running with PID 121 then crashed. Let me check the server log:'',
      ''<function=execute_bash>'',
      ''<parameter=command>'',
      ''cat server.log'',
      ''</parameter>'',
      ''</function>'',
      [],
      ''USER: EXECUTION RESULT of [execute_bash]:'',
      ''Traceback (most recent call last):'',
      ''  File \"/workspace/app.py\", line 2, in <module>'',
      ''    from flask import Flask'',
      ''ModuleNotFoundError: No module named '' @ SQUOTE @ ''flask'' @ SQUOTE,
      [],
      ''ASSISTANT:'',
      ''Looks like the server crashed because the `flask` module is not installed. Let me install the `flask` module for you:'',
      ''<function=execute_bash>'',
      ''<parameter=command>'',
      ''pip3 install flask'',
      ''</parameter>'',
      ''</function>'',
      [],
      ''USER: EXECUTION RESULT of [execute_bash]:'',
      ''Defaulting to user installation because normal site-packages is not writeable'',
      ''Collecting flask'',
      ''  Using cached flask-3.0.3-py3-none-any.whl (101 kB)'',
      ''Collecting blinker>=1.6.2'',
      ''  Using cached blinker-1.7.0-py3-none-any.whl (13 kB)'',
      ''Collecting Werkzeug>=3.0.0'',
      ''  Using cached werkzeug-3.0.2-py3-none-any.whl (226 kB)'',
      ''Collecting click>=8.1.3'',
      ''  Using cached click-8.1.7-py3-none-any.whl (97 kB)'',
      ''Collecting itsdangerous>=2.1.2'',
      ''  Using cached itsdangerous-2.2.0-py3-none-any.whl (16 kB)'',
      ''Requirement already satisfied: Jinja2>=3.1.2 in /home/openhands/.local/lib/python3.10/site-packages (from flask) (3.1.3)'',
      ''Requirement already satisfied: MarkupSafe>=2.0 in /home/openhands/.local/lib/python3.10/site-packages (from Jinja2>=3.1.2->flask) (2.1.5)'',
      ''Installing collected packages: Werkzeug, itsdangerous, click, blinker, flask'',
      ''Successfully installed Werkzeug-3.0.2 blinker-1.7.0 click-8.1.7 flask-3.0.3 itsdangerous-2.2.0'',
      [],
      ''ASSISTANT:'',
      ''The `flask` module is installed successfully. Let me run the Python file again:'',
      ''<function=execute_bash>'',
      ''<parameter=command>'',
      ''python3 app.py > server.log 2>&1 &'',
      ''</parameter>'',
      ''</function>'',
      [],
      ''USER: EXECUTION RESULT of [execute_bash]:'',
      ''[1] 124'',
      [],
      ''ASSISTANT:'',
      ''Let me check the server log again:'',
      ''<function=execute_bash>'',
      ''<parameter=command>'',
      ''cat server.log'',
      ''</parameter>'',
      ''</function>'',
      [],
      ''USER: EXECUTION RESULT of [execute_bash]:'',
      ''* Serving Flask app '' @ SQUOTE @ ''app'' @ SQUOTE,
      '' * Debug mode: off'',
      ''WARNING: This is a development server. Do not use it in a production deployment. Use a production WSGI server instead.'',
      '' * Running on http://127.0.0.1:5000'',
      ''Press CTRL+C to quit'',
      [],
      ''ASSISTANT:'',
      ''The server is running on port 5000 with PID 124. You can access the list of numbers by visiting http://127.0.0.1:5000. If you have any further questions, feel free to ask!'',
      []]"

definition EXAMPLE_EXECUTE_BASH_KILL_SERVER :: string where
  "EXAMPLE_EXECUTE_BASH_KILL_SERVER =
     py_join LF [
      [],
      ''USER: Now kill the server, make it display the numbers in a table format.'',
      [],
      ''ASSISTANT:'',
      ''Sure! Let me stop the server first:'',
      ''<function=execute_bash>'',
      ''<parameter=command>'',
      ''kill 124'',
      ''</parameter>'',
      ''</function>'',
      [],
      ''USER: EXECUTION RESULT of [execute_bash]:'',
      ''[1]+  Terminated              python3 app.py > server.log 2>&1'',
      []]"

definition EXAMPLE_EXECUTE_BASH_RUN_SERVER_AGAIN :: string where
  "EXAMPLE_EXECUTE_BASH_RUN_SERVER_AGAIN =
     py_join LF [
      [],
      ''ASSISTANT:'',
      ''Running the updated file:'',
      ''<function=execute_bash>'',
      ''<parameter=command>'',
      ''python3 app.py > server.log 2>&1 &'',
      ''</parameter>'',
      ''</function>'',
      [],
      ''USER: EXECUTION RESULT of [execute_bash]:'',
      ''[1] 126'',
      [],
      ''ASSISTANT:'',
      ''The server is running on port 5000 with PID 126. You can access the list of numbers in a table format by visiting http://127.0.0.1:5000.'',
      []]"

definition EXAMPLE_STR_REPLACE_EDITOR_CREATE_FILE :: string where
  "EXAMPLE_STR_REPLACE_EDITOR_CREATE_FILE =
     py_join LF [
      [],
      ''ASSISTANT:'',
      ''There is no `app.py` file in the current directory. Let me create a Python file `app.py`:'',
      ''<function=str_replace_editor>'',
      ''<parameter=command>create</parameter>'',
      ''<parameter=path>/workspace/app.py</parameter>'',
      ''<parameter=file_text>'',
      ''from flask import Flask'',
      ''app = Flask(__name__)'',
      [],
      ''@app.route('' @ SQUOTE @ ''/'' @ SQUOTE @ '')'',
      ''def index():'',
      ''    numbers = list(range(1, 11))'',
      ''    return str(numbers)'',
      [],
      ''if __name__ == '' @ SQUOTE @ ''__main__'' @ SQUOTE @ '':'',
      ''    app.run(port=5000)'',
      ''</parameter>'',
      ''</function>'',
      [],
      ''USER: EXECUTION RESULT of [str_replace_editor]:'',
      ''File created successfully at: /workspace/app.py'',
      []]"

definition EXAMPLE_STR_REPLACE_EDITOR_EDIT_FILE :: string where
  "EXAMPLE_STR_REPLACE_EDITOR_EDIT_FILE =
     py_join LF [
      [],
      ''ASSISTANT:'',
      ''Now let me display the numbers in a table format:'',
      ''<function=str_replace_editor>'',
      ''<parameter=command>str_replace</parameter>'',
      ''<parameter=path>/workspace/app.py</parameter>'',
      ''<parameter=old_str>return str(numbers)</parameter>'',
      ''<parameter=new_str>return '' @ SQUOTE @ ''<table>'' @ SQUOTE @ '' + '' @ SQUOTE @ SQUOTE @ ''.join([f'' @ SQUOTE @ ''<tr><td>{i}</td></tr>'' @ SQUOTE @ '' for i in numbers]) + '' @ SQUOTE @ ''</table>'' @ SQUOTE @ ''</parameter>'',
      ''</function>'',
      [],
      ''USER: EXECUTION RESULT of [str_replace_editor]:'',
      ''The file /workspace/app.py has been edited. Here'' @ SQUOTE @ ''s the result of running `cat -n` on a snippet of /workspace/app.py:'',
      ''     3'',
      ''     4  @app.route('' @ SQUOTE @ ''/'' @ SQUOTE @ '')'',
      ''     5  def index():'',
      ''     6      numbers = list(range(1, 11))'',
      ''     7      return '' @ SQUOTE @ ''<table>'' @ SQUOTE @ '' + '' @ SQUOTE @ SQUOTE @ ''.join([f'' @ SQUOTE @ ''<tr><td>{i}</td></tr>'' @ SQUOTE @ '' for i in numbers]) + '' @ SQUOTE @ ''</table>'' @ SQUOTE,
      ''     8'',
      ''     9  if __name__ == '' @ SQUOTE @ ''__main__'' @ SQUOTE @ '':'',
      ''    10      app.run(port=5000)'',
      ''Review the changes and make sure they are as expected. Edit the file again if necessary.'',
      [],
      []]"

definition EXAMPLE_BROWSER_VIEW_PAGE :: string where
  "EXAMPLE_BROWSER_VIEW_PAGE =
     py_join LF [
      [],
      ''ASSISTANT:'',
      ''Let me check how the page looks in the browser:'',
      ''<function=browser>'',
      ''<parameter=code>'',
      ''goto('' @ SQUOTE @ ''http://127.0.0.1:5000'' @ SQUOTE @ '')'',
      ''noop(1000)  # Wait for page to load'',
      ''</parameter>'',
      ''</function>'',
      [],
      ''USER: EXECUTION RESULT of [browser]:'',
      ''[Browser shows the numbers in a table format]'',
      []]"

definition EXAMPLE_EDIT_FILE_CREATE_FILE :: string where
  "EXAMPLE_EDIT_FILE_CREATE_FILE =
     py_join LF [
      [],
      ''ASSISTANT: There is no `app.py` file in the current directory. Let me create a Python file `app.py`:'',
      ''<function=edit_file>'',
      ''<parameter=path>/workspace/app.py</parameter>'',
      ''<parameter=start>1</parameter>'',
      ''<parameter=end>-1</parameter>'',
      ''<parameter=content>'',
      ''from flask import Flask'',
      ''app = Flask(__name__)'',
      [],
      ''@app.route('' @ SQUOTE @ ''/'' @ SQUOTE @ '')'',
      ''def index():'',
      ''    numbers = list(range(1, 11))'',
      ''    return str(numbers)'',
      [],
      ''if __name__ == '' @ SQUOTE @ ''__main__'' @ SQUOTE @ '':'',
      ''    app.run(port=5000)'',
      ''</parameter>'',
      ''</function>'',
      [],
      ''USER: EXECUTION RESULT of [edit_file]:'',
      ''File created successfully at: /workspace/app.py'',
      []]"

definition EXAMPLE_EDIT_FILE_EDIT_FILE :: string where
  "EXAMPLE_EDIT_FILE_EDIT_FILE =
     py_join LF [
      [],
      ''ASSISTANT:'',
      ''Now let me display the numbers in a table format:'',
      ''<function=edit_file>'',
      ''<parameter=path>/workspace/app.py</parameter>'',
      ''<parameter=start>6</parameter>'',
      ''<parameter=end>9</parameter>'',
      ''<parameter=content>'',
      ''    numbers = list(range(1, 11))'',
      ''    return '' @ SQUOTE @ ''<table>'' @ SQUOTE @ '' + '' @ SQUOTE @ SQUOTE @ ''.join([f'' @ SQUOTE @ ''<tr><td>{i}</td></tr>'' @ SQUOTE @ '' for i in numbers]) + '' @ SQUOTE @ ''</table>'' @ SQUOTE,
      ''    # ... existing code ...'',
      ''if __name__ == '' @ SQUOTE @ ''__main__'' @ SQUOTE @ '':'',
      ''</parameter>'',
      ''</function>'',
      [],
      ''USER: EXECUTION RESULT of [edit_file]:'',
      ''The file /workspace/app.py has been edited. Here'' @ SQUOTE @ ''s the result of running `cat -n` on a snippet of /workspace/app.py:'',
      ''     3'',
      ''     4  @app.route('' @ SQUOTE @ ''/'' @ SQUOTE @ '')'',
      ''     5  def index():'',
      ''     6      numbers = list(range(1, 11))'',
      ''     7      return '' @ SQUOTE @ ''<table>'' @ SQUOTE @ '' + '' @ SQUOTE @ SQUOTE @ ''.join([f'' @ SQUOTE @ ''<tr><td>{i}</td></tr>'' @ SQUOTE @ '' for i in numbers]) + '' @ SQUOTE @ ''</table>'' @ SQUOTE,
      ''     8'',
      ''     9  if __name__ == '' @ SQUOTE @ ''__main__'' @ SQUOTE @ '':'',
      ''    10      app.run(port=5000)'',
      ''Review the changes and make sure they are as expected. Edit the file again if necessary.'',
      []]"

definition EXAMPLE_FINISH_EXAMPLE :: string where
  "EXAMPLE_FINISH_EXAMPLE =
     py_join LF [
      [],
      ''ASSISTANT:'',
      ''The server is running on port 5000 with PID 126. You can access the list of numbers in a table format by visiting http://127.0.0.1:5000. Let me know if you have any further requests!'',
      ''<function=finish>'',
      ''<parameter=message>The task has been completed. The web server is running and displaying numbers 1-10 in a table format at http://127.0.0.1:5000.</parameter>'',
      ''</function>'',
      []]"

definition EXAMPLE_SUFFIX :: string where
  "EXAMPLE_SUFFIX =
     py_join LF [
      [],
      ''--------------------- END OF NEW TASK DESCRIPTION ---------------------'',
      [],
      ''PLEASE follow the format strictly! PLEASE EMIT ONE AND ONLY ONE FUNCTION CALL PER MESSAGE.'',
      []]"

definition EXAMPLE_START :: string where
  "EXAMPLE_START =
     py_join LF [
      ''Here'' @ SQUOTE @ ''s a running example of how to perform a task with the provided tools.'',
      [],
      ''--------------------- START OF EXAMPLE ---------------------'',
      [],
      ''USER: Create a list of numbers from 1 to 10, and display them in a web page at port 5000.'',
      [],
      []]"

definition EXAMPLE_END :: string where
  "EXAMPLE_END =
     py_join LF [
      [],
      ''--------------------- END OF EXAMPLE ---------------------'',
      [],
      ''Do NOT assume the environment is the same as in the example above.'',
      [],
      ''--------------------- NEW TASK DESCRIPTION ---------------------'',
      []]"

end
