(* ===== verification/Text_Patterns.thy ===== *)
theory Text_Patterns
  imports Prelude
begin

text \<open>
  Searching in strings: the first occurrence of a text, and with it \<open>split(sep)[0]\<close>,
  \<open>replace(old, new, 1)\<close> and \<open>count\<close>. A text whose first character does not come back later (as
  the tags of the function call format, which start with \<open><\<close>) has no overlapping occurrences,
  and its first occurrence is easy to find.
\<close>

definition py_lstrip :: "string \<Rightarrow> string" where
  "py_lstrip s = dropWhile is_space s"

definition py_rstrip :: "string \<Rightarrow> string" where
  "py_rstrip s = rev (dropWhile is_space (rev s))"

definition after_prefix :: "string \<Rightarrow> string \<Rightarrow> string option" where
  "after_prefix p s = (if prefix p s then Some (drop (length p) s) else None)"

text \<open>The text before and after the first occurrence.\<close>

fun split_first :: "string \<Rightarrow> string \<Rightarrow> (string \<times> string) option" where
  "split_first sub [] = (if sub = [] then Some ([], []) else None)"
| "split_first sub (c # s) =
     (if prefix sub (c # s) then Some ([], drop (length sub) (c # s))
      else map_option (\<lambda>(a, b). (c # a, b)) (split_first sub s))"

definition before_first :: "string \<Rightarrow> string \<Rightarrow> string" where
  "before_first sub s = (case split_first sub s of Some (a, _) \<Rightarrow> a | None \<Rightarrow> s)"

definition remove_first :: "string \<Rightarrow> string \<Rightarrow> string" where
  "remove_first sub s = (case split_first sub s of Some (a, b) \<Rightarrow> a @ b | None \<Rightarrow> s)"

lemma split_first_Some: "split_first sub s = Some (a, b) \<Longrightarrow> s = a @ sub @ b"
proof (induction s arbitrary: a)
  case Nil
  then show ?case by (simp split: if_splits)
next
  case (Cons c s)
  show ?case
  proof (cases "prefix sub (c # s)")
    case True
    with Cons.prems show ?thesis by (auto elim: prefixE)
  next
    case False
    with Cons.prems obtain a' where "a = c # a'" "split_first sub s = Some (a', b)" by auto
    with Cons.IH show ?thesis by simp
  qed
qed

lemma split_first_None: "split_first sub s = None \<longleftrightarrow> \<not> occurs_in sub s"
  by (induction s) auto

lemma split_first_length: "split_first sub s = Some (a, b) \<Longrightarrow> length b + length sub \<le> length s"
  by (drule split_first_Some) simp

function count_of :: "string \<Rightarrow> string \<Rightarrow> nat" where
  "count_of sub s =
     (if sub = [] then Suc (length s)
      else case split_first sub s of None \<Rightarrow> 0 | Some (a, b) \<Rightarrow> Suc (count_of sub b))"
  by pat_completeness auto

termination
proof (relation "measure (\<lambda>(sub, s). length s)")
  fix sub s and p and a b :: string
  assume "sub \<noteq> []" "split_first sub s = Some p" "(a, b) = p"
  then have "length b + length sub \<le> length s" "0 < length sub" using split_first_length by auto
  then have "length b < length s" by linarith
  then show "((sub, b), sub, s) \<in> measure (\<lambda>(sub, s). length s)" by simp
qed simp

declare count_of.simps [simp del]

lemma count_of_0 [simp]: "sub \<noteq> [] \<Longrightarrow> count_of sub s = 0 \<longleftrightarrow> \<not> occurs_in sub s"
  by (subst count_of.simps) (auto simp: split_first_None [symmetric] split: option.split)

section \<open>Tags\<close>

text \<open>The first character of a tag is not in the rest of it.\<close>

definition is_tag :: "string \<Rightarrow> bool" where
  "is_tag t \<longleftrightarrow> t \<noteq> [] \<and> hd t \<notin> set (tl t)"

lemma tag_prefix_append:
  assumes "is_tag t" and "prefix t (v @ t @ r)" and "\<not> prefix t v"
  shows "v = []"
proof (rule ccontr)
  assume "v \<noteq> []"
  from assms(1) obtain x xs where t: "t = x # xs" "x \<notin> set xs" by (cases t) (auto simp: is_tag_def)
  from assms(2) obtain z where z: "v @ t @ r = t @ z" by (auto elim: prefixE)
  show False
  proof (cases "length t \<le> length v")
    case True
    with z have "prefix t v" by (metis append_eq_append_conv_if prefix_def append_take_drop_id)
    with assms(3) show False by simp
  next
    case False
    then have "(v @ t @ r) ! length v = x" by (simp add: t nth_append)
    moreover have "(t @ z) ! length v = xs ! (length v - 1)"
      using False \<open>v \<noteq> []\<close> by (cases v) (auto simp: nth_append t)
    ultimately have "x = xs ! (length v - 1)" using z by simp
    moreover have "length v - 1 < length xs" using False \<open>v \<noteq> []\<close> by (cases v) (auto simp: t)
    ultimately show False using t(2) by simp
  qed
qed

lemma occurs_in_Cons_D: "\<not> occurs_in sub (c # s) \<Longrightarrow> \<not> prefix sub (c # s) \<and> \<not> occurs_in sub s"
  by simp

lemma split_first_tag:
  assumes "is_tag t" and "\<not> occurs_in t v"
  shows "split_first t (v @ t @ r) = Some (v, r)"
  using assms(2)
proof (induction v)
  case Nil
  from assms(1) obtain x xs where "t = x # xs" by (cases t) (auto simp: is_tag_def)
  then show ?case by simp
next
  case (Cons c v)
  then have no: "\<not> prefix t (c # v)" "\<not> occurs_in t v" by auto
  have "\<not> prefix t ((c # v) @ t @ r)" using tag_prefix_append [OF assms(1) _ no(1)] by blast
  with Cons.IH [OF no(2)] show ?case by simp
qed

lemma before_first_tag: "is_tag t \<Longrightarrow> \<not> occurs_in t v \<Longrightarrow> before_first t (v @ t @ r) = v"
  by (simp add: before_first_def split_first_tag)

lemma before_first_absent: "\<not> occurs_in t v \<Longrightarrow> before_first t v = v"
  by (simp add: before_first_def split_first_None [symmetric])

lemma remove_first_prefix: "remove_first p (p @ s) = s"
proof (cases "p @ s")
  case Nil
  then show ?thesis by (simp add: remove_first_def)
next
  case (Cons c r)
  then have "prefix p (c # r)" "drop (length p) (c # r) = s"
    by (simp_all add: Cons [symmetric])
  then show ?thesis unfolding Cons by (simp add: remove_first_def)
qed

lemma occurs_in_either_part: "occurs_in t a \<or> occurs_in t b \<Longrightarrow> occurs_in t (a @ b)"
  by (auto simp: occurs_in_iff) (metis append.assoc)+

text \<open>A tag cannot lie across the border of two texts if the second starts with none of its
  later characters.\<close>

lemma tag_append:
  assumes "is_tag t" and "\<not> occurs_in t a" and "\<not> occurs_in t b"
    and "b = [] \<or> hd b \<notin> set (tl t)"
  shows "\<not> occurs_in t (a @ b)"
  using assms(2)
proof (induction a)
  case Nil
  with assms(3) show ?case by simp
next
  case (Cons c a)
  then have no: "\<not> prefix t (c # a)" "\<not> occurs_in t a" by auto
  have "\<not> prefix t ((c # a) @ b)"
  proof
    assume "prefix t ((c # a) @ b)"
    then obtain z where z: "c # a @ b = t @ z" by (auto elim: prefixE)
    show False
    proof (cases "length t \<le> length (c # a)")
      case True
      with z have "prefix t (c # a)"
        by (metis append_Cons append_eq_append_conv_if append_take_drop_id prefix_def)
      with no(1) show False by simp
    next
      case False
      then have "(t @ z) ! length (c # a) = tl t ! length a"
        by (cases t) (auto simp: nth_append)
      moreover have "length a < length (tl t)" using False by (cases t) auto
      moreover have "b \<noteq> []"
      proof
        assume "b = []"
        with z have "length (c # a) = length t + length z" by (metis append_Nil2 length_append)
        with False show False by simp
      qed
      then have "(c # a @ b) ! length (c # a) = hd b" by (cases b) (auto simp: nth_append)
      ultimately have "tl t ! length a = hd b" "length a < length (tl t)" using z by simp_all
      then have "hd b \<in> set (tl t)" by (metis nth_mem)
      with assms(4) \<open>b \<noteq> []\<close> show False by simp
    qed
  qed
  with Cons.IH [OF no(2)] show ?case by simp
qed

end
