(* ===== verification/Fn_Call_Converter.thy ===== *)
theory Fn_Call_Converter
  imports Fn_Call_Text Text_Patterns Event_Store Function_Calling
begin

text \<open>
  Function calls for models that only write text (\<open>openhands/llm/fn_call_converter.py\<close>): messages
  with tool calls become messages with the calls written out, and the text of the model is read
  back as calls. The dictionaries of messages, items and tools are records of the keys the code
  reads; a key that may be missing is an option. Each regular expression is a function that
  gives its groups; none of the four can match in two ways at one position.

  The JSON printer and parser, and the texts Python gives for a float and for a list or
  dictionary of names in an exception, are parameters.
\<close>

section \<open>Data\<close>

datatype item = TextItem string bool | ImageItem string bool

datatype body = No_Content | Text string | Items "item list"

record raw_call =
  call_index :: "int option"
  call_id :: "string option"
  call_type :: "string option"
  call_function :: "(string \<times> string) option"

record chat =
  chat_role :: string
  chat_body :: body
  chat_calls :: "raw_call list option"
  chat_call_id :: "string option"
  chat_name :: "string option"
  chat_cached :: bool

record param_info =
  pi_type :: "string option"
  pi_description :: "string option"
  pi_enum :: "json list option"

record param_spec =
  ps_properties :: "(string \<times> param_info) list option"
  ps_required :: "string list option"

record tool_def =
  td_type :: string
  td_name :: string
  td_description :: string
  td_parameters :: "param_spec option"

record fn_codec =
  fc_loads :: "string \<Rightarrow> json option"
  fc_dumps :: "json \<Rightarrow> string"
  fc_float :: "rat \<Rightarrow> string"
  fc_repr :: "json \<Rightarrow> string"

definition plain_chat :: "string \<Rightarrow> body \<Rightarrow> chat" where
  "plain_chat r b = \<lparr>chat_role = r, chat_body = b, chat_calls = None, chat_call_id = None,
     chat_name = None, chat_cached = False\<rparr>"

fun item_text :: "item \<Rightarrow> string option" where
  "item_text (TextItem s _) = Some s"
| "item_text (ImageItem _ _) = None"

fun map_text :: "(string \<Rightarrow> string) \<Rightarrow> item \<Rightarrow> item" where
  "map_text f (TextItem s c) = TextItem (f s) c"
| "map_text f (ImageItem u c) = ImageItem u c"

fun mark_item :: "item \<Rightarrow> item" where
  "mark_item (TextItem s _) = TextItem s True"
| "mark_item (ImageItem u _) = ImageItem u True"

definition ends_with_text :: "item list \<Rightarrow> bool" where
  "ends_with_text xs \<longleftrightarrow> xs \<noteq> [] \<and> item_text (last xs) \<noteq> None"

definition map_last :: "('a \<Rightarrow> 'a) \<Rightarrow> 'a list \<Rightarrow> 'a list" where
  "map_last f xs = (if xs = [] then [] else butlast xs @ [f (last xs)])"

section \<open>Writing calls and tools\<close>

text \<open>\<open>f'{value}'\<close>.\<close>

fun format_value :: "fn_codec \<Rightarrow> json \<Rightarrow> string" where
  "format_value fc (JStr s) = s"
| "format_value fc (JInt i) = str_of_int i"
| "format_value fc (JBool b) = (if b then ''True'' else ''False'')"
| "format_value fc JNull = ''None''"
| "format_value fc (JFloat q) = fc_float fc q"
| "format_value fc (JList vs) = fc_repr fc (JList vs)"
| "format_value fc (JDict d) = fc_repr fc (JDict d)"

definition param_text :: "fn_codec \<Rightarrow> string \<times> json \<Rightarrow> string" where
  "param_text fc kv =
     ''<parameter='' @ fst kv @ ''>'' @
     (case snd kv of JList vs \<Rightarrow> fc_dumps fc (JList vs) | JDict d \<Rightarrow> fc_dumps fc (JDict d)
      | v \<Rightarrow> format_value fc v) @ ''</parameter>'' @ LF"

definition call_text :: "fn_codec \<Rightarrow> string \<Rightarrow> json_dict \<Rightarrow> string" where
  "call_text fc name args =
     ''<function='' @ name @ ''>'' @ LF @ concat (map (param_text fc) args) @ ''</function>''"

definition convert_tool_call_to_string :: "fn_codec \<Rightarrow> raw_call \<Rightarrow> string result" where
  "convert_tool_call_to_string fc call =
     (case call_function call of
        None \<Rightarrow> Inl (FunctionCallConversionError (''Tool call must contain '' @ SQUOTE @ ''function'' @ SQUOTE @ '' key.''))
      | Some (name, arguments) \<Rightarrow>
          if call_id call = None
          then Inl (FunctionCallConversionError (''Tool call must contain '' @ SQUOTE @ ''id'' @ SQUOTE @ '' key.''))
          else if call_type call = None
          then Inl (FunctionCallConversionError (''Tool call must contain '' @ SQUOTE @ ''type'' @ SQUOTE @ '' key.''))
          else if call_type call \<noteq> Some ''function''
          then Inl (FunctionCallConversionError (''Tool call type must be '' @ SQUOTE @ ''function'' @ SQUOTE @ ''.''))
          else case fc_loads fc arguments of
                 None \<Rightarrow> Inl (FunctionCallConversionError (''Failed to parse arguments as JSON. Arguments: '' @ arguments))
               | Some (JDict args) \<Rightarrow> Inr (call_text fc name args)
               | Some _ \<Rightarrow> Inl (AttributeError ''items''))"

definition param_line :: "fn_codec \<Rightarrow> string list \<Rightarrow> nat \<times> string \<times> param_info \<Rightarrow> string" where
  "param_line fc required jp =
     (case jp of (j, name, info) \<Rightarrow>
        let desc = (case pi_description info of Some d \<Rightarrow> d | None \<Rightarrow> ''No description provided'');
            desc' = (case pi_enum info of
                None \<Rightarrow> desc
              | Some vs \<Rightarrow> desc @ LF @ ''Allowed values: ['' @
                  py_join '', '' (map (\<lambda>v. ''`'' @ format_value fc v @ ''`'') vs) @ '']'')
        in ''  ('' @ str_of_int (int j + 1) @ '') '' @ name @ '' ('' @
           (case pi_type info of Some t \<Rightarrow> t | None \<Rightarrow> ''string'') @ '', '' @
           (if name \<in> set required then ''required'' else ''optional'') @ ''): '' @ desc' @ LF)"

definition tool_text :: "fn_codec \<Rightarrow> nat \<times> tool_def \<Rightarrow> string" where
  "tool_text fc it =
     (case it of (i, fn) \<Rightarrow>
        (if i > 0 then LF else []) @
        ''---- BEGIN FUNCTION #'' @ str_of_int (int i + 1) @ '': '' @ td_name fn @ '' ----'' @ LF @
        ''Description: '' @ td_description fn @ LF @
        (case td_parameters fn of
           None \<Rightarrow> ''No parameters are required for this function.'' @ LF
         | Some ps \<Rightarrow> ''Parameters:'' @ LF @
             concat (map (param_line fc (case ps_required ps of Some r \<Rightarrow> r | None \<Rightarrow> []))
               (List.enumerate 0 (case ps_properties ps of Some d \<Rightarrow> d | None \<Rightarrow> [])))) @
        ''---- END FUNCTION #'' @ str_of_int (int i + 1) @ '' ----'' @ LF)"

definition convert_tools_to_description :: "fn_codec \<Rightarrow> tool_def list \<Rightarrow> string result" where
  "convert_tools_to_description fc tools =
     (if list_all (\<lambda>t. td_type t = ''function'') tools
      then Inr (concat (map (tool_text fc) (List.enumerate 0 tools)))
      else Inl AssertionError)"

text \<open>\<open>refine_prompt\<close>: on Windows the shell has another name.\<close>

definition refine_prompt :: "bool \<Rightarrow> string \<Rightarrow> string" where
  "refine_prompt windows prompt = (if windows then py_replace ''bash'' ''powershell'' prompt else prompt)"

definition get_example_for_tools :: "bool \<Rightarrow> tool_def list \<Rightarrow> string" where
  "get_example_for_tools windows tools =
     (let has = (\<lambda>n. list_ex (\<lambda>t. td_type t = ''function'' \<and> td_name t = n) tools);
          when = (\<lambda>b s. if b then s else [])
      in if \<not> (has EXECUTE_BASH \<or> has STR_REPLACE_EDITOR \<or> has BROWSER \<or> has FINISH \<or> has EDIT_FILE) then []
         else refine_prompt windows (py_lstrip
           (EXAMPLE_START @
            when (has EXECUTE_BASH) EXAMPLE_EXECUTE_BASH_CHECK_DIR @
            (if has STR_REPLACE_EDITOR then EXAMPLE_STR_REPLACE_EDITOR_CREATE_FILE
             else when (has EDIT_FILE) EXAMPLE_EDIT_FILE_CREATE_FILE) @
            when (has EXECUTE_BASH) EXAMPLE_EXECUTE_BASH_RUN_SERVER @
            when (has BROWSER) EXAMPLE_BROWSER_VIEW_PAGE @
            when (has EXECUTE_BASH) EXAMPLE_EXECUTE_BASH_KILL_SERVER @
            (if has STR_REPLACE_EDITOR then EXAMPLE_STR_REPLACE_EDITOR_EDIT_FILE
             else when (has EDIT_FILE) EXAMPLE_EDIT_FILE_EDIT_FILE) @
            when (has EXECUTE_BASH) EXAMPLE_EXECUTE_BASH_RUN_SERVER_AGAIN @
            when (has FINISH) EXAMPLE_FINISH_EXAMPLE @
            EXAMPLE_END)))"

section \<open>To messages without calls\<close>

definition unexpected_content :: "'a result" where
  "unexpected_content = Inl (FunctionCallConversionError ''Unexpected content type. Expected str or list.'')"

fun map_first_text :: "(string \<Rightarrow> string) \<Rightarrow> item list \<Rightarrow> item list" where
  "map_first_text f [] = []"
| "map_first_text f (TextItem s c # xs) = TextItem (f s) c # xs"
| "map_first_text f (ImageItem u c # xs) = ImageItem u c # map_first_text f xs"

definition system_body :: "string \<Rightarrow> body \<Rightarrow> body result" where
  "system_body suff b = (case b of
     Text s \<Rightarrow> Inr (Text (s @ suff))
   | Items xs \<Rightarrow> Inr (Items (if ends_with_text xs then map_last (map_text (\<lambda>s. s @ suff)) xs
       else xs @ [TextItem suff False]))
   | No_Content \<Rightarrow> unexpected_content)"

definition first_user_body :: "string \<Rightarrow> body \<Rightarrow> body result" where
  "first_user_body example b =
     (if example = [] then Inr b
      else case b of
        Text s \<Rightarrow> Inr (Text (example @ s @ EXAMPLE_SUFFIX))
      | Items (TextItem s c # xs) \<Rightarrow> Inr (Items (TextItem (example @ s @ EXAMPLE_SUFFIX) c # xs))
      | Items xs \<Rightarrow> Inr (Items ([TextItem example False] @ xs @ [TextItem EXAMPLE_SUFFIX False]))
      | No_Content \<Rightarrow> unexpected_content)"

definition call_body :: "string \<Rightarrow> body \<Rightarrow> body result" where
  "call_body written b = (case b of
     Text s \<Rightarrow> Inr (Text (py_lstrip (s @ LF @ LF @ written)))
   | Items xs \<Rightarrow> Inr (Items
       (if ends_with_text xs then map_last (map_text (\<lambda>s. py_lstrip (s @ LF @ LF @ written))) xs
        else xs @ [TextItem written False]))
   | No_Content \<Rightarrow> unexpected_content)"

definition assistant_body :: "fn_codec \<Rightarrow> raw_call list option \<Rightarrow> body \<Rightarrow> body result" where
  "assistant_body fc calls b = (case calls of
     None \<Rightarrow> Inr b
   | Some [call] \<Rightarrow> (case convert_tool_call_to_string fc call of
         Inl (FunctionCallConversionError _) \<Rightarrow>
           Inl (FunctionCallConversionError ''Failed to convert tool call to string.'')
       | Inl x \<Rightarrow> Inl x
       | Inr written \<Rightarrow> call_body written b)
   | Some _ \<Rightarrow> Inl (FunctionCallConversionError
       ''Expected exactly one tool call in the message. More than one tool call is not supported.''))"

definition result_prefix :: "string \<Rightarrow> string" where
  "result_prefix name = ''EXECUTION RESULT of ['' @ name @ '']:'' @ LF"

definition tool_body :: "string option \<Rightarrow> bool \<Rightarrow> body \<Rightarrow> body result" where
  "tool_body name cached b =
     (let pre = result_prefix (case name of Some n \<Rightarrow> n | None \<Rightarrow> ''function'')
      in case b of
           Text s \<Rightarrow> if cached then Inl (TypeError ''item assignment'') else Inr (Text (pre @ s))
         | Items xs \<Rightarrow>
             let ys = (if list_ex (\<lambda>x. item_text x \<noteq> None) xs then map_first_text (\<lambda>s. pre @ s) xs
                       else TextItem pre False # xs)
             in Inr (Items (if cached then map_last mark_item ys else ys))
         | No_Content \<Rightarrow> unexpected_content)"

text \<open>One message, with the flag that the first message of the user has been seen.\<close>

definition to_plain_message ::
  "fn_codec \<Rightarrow> string \<Rightarrow> string \<Rightarrow> bool \<Rightarrow> bool \<Rightarrow> chat \<Rightarrow> (chat \<times> bool) result" where
  "to_plain_message fc suff example add seen m =
     (if chat_role m = ''system''
      then bindE (system_body suff (chat_body m)) (\<lambda>b. Inr (plain_chat ''system'' b, seen))
      else if chat_role m = ''user''
      then if \<not> seen \<and> add
           then bindE (first_user_body example (chat_body m)) (\<lambda>b. Inr (plain_chat ''user'' b, True))
           else Inr (plain_chat ''user'' (chat_body m), seen)
      else if chat_role m = ''assistant''
      then bindE (assistant_body fc (chat_calls m) (chat_body m)) (\<lambda>b. Inr (plain_chat ''assistant'' b, seen))
      else if chat_role m = ''tool''
      then bindE (tool_body (chat_name m) (chat_cached m) (chat_body m)) (\<lambda>b. Inr (plain_chat ''user'' b, seen))
      else Inl (FunctionCallConversionError (''Unexpected role '' @ chat_role m @
        ''. Expected system, user, assistant or tool.'')))"

fun to_plain_messages ::
  "fn_codec \<Rightarrow> string \<Rightarrow> string \<Rightarrow> bool \<Rightarrow> bool \<Rightarrow> chat list \<Rightarrow> chat list result" where
  "to_plain_messages fc suff example add seen [] = Inr []"
| "to_plain_messages fc suff example add seen (m # ms) =
     bindE (to_plain_message fc suff example add seen m) (\<lambda>(p, seen').
     bindE (to_plain_messages fc suff example add seen' ms) (\<lambda>ps. Inr (p # ps)))"

definition convert_fncall_messages_to_non_fncall_messages ::
  "fn_codec \<Rightarrow> bool \<Rightarrow> bool \<Rightarrow> chat list \<Rightarrow> tool_def list \<Rightarrow> chat list result" where
  "convert_fncall_messages_to_non_fncall_messages fc windows add ms tools =
     bindE (convert_tools_to_description fc tools) (\<lambda>d.
       to_plain_messages fc (SYSTEM_PROMPT_SUFFIX d) (get_example_for_tools windows tools) add False ms)"

section \<open>Reading calls\<close>

text \<open>\<open><function=([^>]+)>\n(.*?)</function>\<close>, at one position and the leftmost.\<close>

definition match_call :: "string \<Rightarrow> (string \<times> string) option" where
  "match_call s = (case after_prefix ''<function='' s of
     None \<Rightarrow> None
   | Some t \<Rightarrow>
       let name = takeWhile (\<lambda>c. c \<noteq> CHR ''>'') t
       in if name = [] then None
          else case after_prefix (''>'' @ LF) (drop (length name) t) of
                 None \<Rightarrow> None
               | Some r \<Rightarrow> map_option (\<lambda>(b, _). (name, b)) (split_first ''</function>'' r))"

fun search_call :: "string \<Rightarrow> (string \<times> string) option" where
  "search_call [] = None"
| "search_call (c # s) = (case match_call (c # s) of Some r \<Rightarrow> Some r | None \<Rightarrow> search_call s)"

text \<open>\<open><parameter=([^>]+)>(.*?)</parameter>\<close>: the groups and the text after the match.\<close>

definition match_param :: "string \<Rightarrow> (string \<times> string \<times> string) option" where
  "match_param s = (case after_prefix ''<parameter='' s of
     None \<Rightarrow> None
   | Some t \<Rightarrow>
       let name = takeWhile (\<lambda>c. c \<noteq> CHR ''>'') t
       in if name = [] then None
          else case after_prefix ''>'' (drop (length name) t) of
                 None \<Rightarrow> None
               | Some r \<Rightarrow> map_option (\<lambda>(v, rest). (name, v, rest)) (split_first ''</parameter>'' r))"

lemma after_prefix_length: "after_prefix p s = Some t \<Longrightarrow> length t + length p = length s"
  by (auto simp: after_prefix_def prefix_def split: if_splits)

lemma match_param_length: "match_param s = Some (n, v, rest) \<Longrightarrow> length rest < length s"
  by (auto simp: match_param_def Let_def split: option.splits if_splits
      dest!: after_prefix_length split_first_length)

function find_params :: "string \<Rightarrow> (string \<times> string) list" where
  "find_params [] = []"
| "find_params (c # s) = (case match_param (c # s) of
     Some (n, v, rest) \<Rightarrow> (n, v) # find_params rest
   | None \<Rightarrow> find_params s)"
  by pat_completeness auto

termination
  by (relation "measure length") (auto dest!: match_param_length)

text \<open>\<open>re.sub(r'<parameter=([a-zA-Z0-9_]+)=([^<]*)</parameter>', r'<parameter=\1>\2</parameter>', s)\<close>.\<close>

definition is_word_char :: "char \<Rightarrow> bool" where
  "is_word_char c = (let n = of_char c :: nat in
     (48 \<le> n \<and> n \<le> 57) \<or> (65 \<le> n \<and> n \<le> 90) \<or> (97 \<le> n \<and> n \<le> 122) \<or> n = 95)"

definition match_malformed :: "string \<Rightarrow> (string \<times> string \<times> string) option" where
  "match_malformed s = (case after_prefix ''<parameter='' s of
     None \<Rightarrow> None
   | Some t \<Rightarrow>
       let name = takeWhile is_word_char t
       in if name = [] then None
          else case after_prefix ''='' (drop (length name) t) of
                 None \<Rightarrow> None
               | Some r \<Rightarrow>
                   let v = takeWhile (\<lambda>c. c \<noteq> CHR ''<'') r
                   in map_option (\<lambda>rest. (name, v, rest)) (after_prefix ''</parameter>'' (drop (length v) r)))"

lemma match_malformed_length: "match_malformed s = Some (n, v, rest) \<Longrightarrow> length rest < length s"
  by (auto simp: match_malformed_def Let_def split: option.splits if_splits dest!: after_prefix_length)

function normalize_parameter_tags :: "string \<Rightarrow> string" where
  "normalize_parameter_tags [] = []"
| "normalize_parameter_tags (c # s) = (case match_malformed (c # s) of
     Some (n, v, rest) \<Rightarrow>
       ''<parameter='' @ n @ ''>'' @ v @ ''</parameter>'' @ normalize_parameter_tags rest
   | None \<Rightarrow> c # normalize_parameter_tags s)"
  by pat_completeness auto

termination
  by (relation "measure length") (auto dest!: match_malformed_length)

text \<open>\<open>EXECUTION RESULT of \[(.*?)\]:\n(.*)\<close>.\<close>

definition match_result :: "string \<Rightarrow> (string \<times> string) option" where
  "match_result s = (case after_prefix ''EXECUTION RESULT of ['' s of
     None \<Rightarrow> None | Some t \<Rightarrow> split_first ('']:'' @ LF) t)"

fun search_result :: "string \<Rightarrow> (string \<times> string) option" where
  "search_result [] = None"
| "search_result (c # s) = (case match_result (c # s) of Some r \<Rightarrow> Some r | None \<Rightarrow> search_result s)"

definition fix_stopword :: "string \<Rightarrow> string" where
  "fix_stopword s =
     (if count_of ''<function='' s = 1
      then if suffix ''</'' s then py_rstrip s @ ''function>'' else s @ LF @ ''</function>''
      else s)"

section \<open>Checking the parameters of a call\<close>

definition tool_properties :: "tool_def \<Rightarrow> (string \<times> param_info) list" where
  "tool_properties t = (case td_parameters t of
     None \<Rightarrow> [] | Some ps \<Rightarrow> (case ps_properties ps of None \<Rightarrow> [] | Some d \<Rightarrow> d))"

definition tool_required :: "tool_def \<Rightarrow> string list" where
  "tool_required t = (case td_parameters t of
     None \<Rightarrow> [] | Some ps \<Rightarrow> (case ps_required ps of None \<Rightarrow> [] | Some r \<Rightarrow> r))"

definition info_type :: "param_info \<Rightarrow> string" where
  "info_type info = (case pi_type info of Some t \<Rightarrow> t | None \<Rightarrow> ''string'')"

definition convert_param :: "fn_codec \<Rightarrow> param_info \<Rightarrow> string \<Rightarrow> string \<Rightarrow> json result" where
  "convert_param fc info name v =
     (if info_type info = ''integer''
      then case py_int v of
             Some i \<Rightarrow> Inr (JInt i)
           | None \<Rightarrow> Inl (FunctionCallValidationError (''Parameter '' @ SQUOTE @ name @ SQUOTE @ '' is expected to be an integer.''))
      else if info_type info = ''array''
      then case fc_loads fc v of
             Some j \<Rightarrow> Inr j
           | None \<Rightarrow> Inl (FunctionCallValidationError (''Parameter '' @ SQUOTE @ name @ SQUOTE @ '' is expected to be an array.''))
      else Inr (JStr v))"

definition enum_allows :: "param_info \<Rightarrow> json \<Rightarrow> bool" where
  "enum_allows info v = (case pi_enum info of None \<Rightarrow> True | Some vs \<Rightarrow> list_ex (\<lambda>w. json_eq v w) vs)"

text \<open>The key whose lookup in \<open>tool['parameters']['properties'][name]\<close> fails.\<close>

definition missing_key :: "tool_def \<Rightarrow> string \<Rightarrow> string" where
  "missing_key t name = (case td_parameters t of
     None \<Rightarrow> ''parameters''
   | Some ps \<Rightarrow> (case ps_properties ps of None \<Rightarrow> ''properties'' | Some _ \<Rightarrow> name))"

fun collect_params :: "fn_codec \<Rightarrow> tool_def \<Rightarrow> (string \<times> string) list \<Rightarrow> json_dict \<Rightarrow> json_dict result" where
  "collect_params fc t [] params = Inr params"
| "collect_params fc t ((name, v) # matches) params =
     (case map_of (tool_properties t) name of
        None \<Rightarrow>
          if tool_properties t \<noteq> []
          then Inl (FunctionCallValidationError (''Parameter '' @ SQUOTE @ name @ SQUOTE @
            '' is not allowed for function '' @ SQUOTE @ td_name t @ SQUOTE @ ''. ''))
          else Inl (KeyError (missing_key t name))
      | Some info \<Rightarrow>
          bindE (convert_param fc info name v) (\<lambda>w.
            if enum_allows info w then collect_params fc t matches (AList.update name w params)
            else Inl (FunctionCallValidationError (''Parameter '' @ SQUOTE @ name @ SQUOTE @
              '' is expected to be one of the allowed values.''))))"

definition extract_and_validate_params ::
  "fn_codec \<Rightarrow> tool_def \<Rightarrow> (string \<times> string) list \<Rightarrow> json_dict result" where
  "extract_and_validate_params fc t matches =
     bindE (collect_params fc t matches []) (\<lambda>params.
       if list_all (has_key params) (tool_required t) then Inr params
       else Inl (FunctionCallValidationError (''Missing required parameters for function '' @ SQUOTE @ td_name t @ SQUOTE)))"

definition matching_tool :: "tool_def list \<Rightarrow> string \<Rightarrow> tool_def option" where
  "matching_tool tools name = find (\<lambda>t. td_type t = ''function'' \<and> td_name t = name) tools"

section \<open>Back to messages with calls\<close>

text \<open>\<open>f'toolu_{n:02d}'\<close>.\<close>

definition tool_call_number :: "nat \<Rightarrow> string" where
  "tool_call_number n = ''toolu_'' @ (if n < 10 then ''0'' else []) @ digits n"

definition read_call :: "fn_codec \<Rightarrow> tool_def list \<Rightarrow> nat \<Rightarrow> string \<times> string \<Rightarrow> raw_call result" where
  "read_call fc tools n nb = (case nb of (name, fn_body) \<Rightarrow>
     (case matching_tool tools name of
        None \<Rightarrow> Inl (FunctionCallValidationError (''Function '' @ SQUOTE @ name @ SQUOTE @ '' not found in available tools: ''))
      | Some t \<Rightarrow>
          bindE (extract_and_validate_params fc t (find_params (normalize_parameter_tags fn_body))) (\<lambda>params.
            Inr \<lparr>call_index = Some 1, call_id = Some (tool_call_number n), call_type = Some ''function'',
                 call_function = Some (name, fc_dumps fc (JDict params))\<rparr>)))"

text \<open>\<open>content or ''\<close>: an empty list becomes the empty text as well.\<close>

definition some_content :: "body \<Rightarrow> body" where
  "some_content b = (case b of No_Content \<Rightarrow> Text [] | Items [] \<Rightarrow> Text [] | _ \<Rightarrow> b)"

definition without_suffix :: "string \<Rightarrow> body \<Rightarrow> body" where
  "without_suffix suff b = (case b of
     Text s \<Rightarrow> Text (before_first suff s)
   | Items xs \<Rightarrow> Items (if ends_with_text xs then map_last (map_text (before_first suff)) xs else xs)
   | No_Content \<Rightarrow> No_Content)"

definition without_example :: "string \<Rightarrow> string \<Rightarrow> string" where
  "without_example example s =
     (let s1 = (if prefix example s then remove_first example s else s)
      in if suffix EXAMPLE_SUFFIX s1 then remove_first EXAMPLE_SUFFIX s1 else s1)"

definition body_without_example :: "string \<Rightarrow> body \<Rightarrow> body" where
  "body_without_example example b = (case b of
     Text s \<Rightarrow> Text (without_example example s)
   | Items xs \<Rightarrow> Items (map (map_text (without_example example)) xs)
   | No_Content \<Rightarrow> No_Content)"

fun first_result :: "item list \<Rightarrow> (string \<times> string) option" where
  "first_result [] = None"
| "first_result (TextItem s _ # xs) = (case search_result s of Some r \<Rightarrow> Some r | None \<Rightarrow> first_result xs)"
| "first_result (ImageItem _ _ # xs) = first_result xs"

definition body_result :: "body \<Rightarrow> (string \<times> string) option" where
  "body_result b = (case b of Text s \<Rightarrow> search_result s | Items xs \<Rightarrow> first_result xs | No_Content \<Rightarrow> None)"

definition from_user_body :: "nat \<Rightarrow> body \<Rightarrow> chat" where
  "from_user_body n b = (case body_result b of
     None \<Rightarrow> plain_chat ''user'' b
   | Some (name, r) \<Rightarrow>
       (plain_chat ''tool'' (case b of Items _ \<Rightarrow> Items [TextItem (py_strip r) False] | _ \<Rightarrow> Text (py_strip r)))
         \<lparr>chat_name := Some name, chat_call_id := Some (tool_call_number (n - 1))\<rparr>)"

text \<open>A text up to the call in it.\<close>

definition before_call :: "string \<Rightarrow> string" where
  "before_call s = py_strip (before_first ''<function='' s)"

definition from_assistant_message :: "fn_codec \<Rightarrow> tool_def list \<Rightarrow> nat \<Rightarrow> chat \<Rightarrow> (chat \<times> nat) result" where
  "from_assistant_message fc tools n m =
     (let with_call = (\<lambda>b nb. bindE (read_call fc tools n nb) (\<lambda>call.
            Inr ((plain_chat ''assistant'' b)\<lparr>chat_calls := Some [call]\<rparr>, Suc n)))
      in case some_content (chat_body m) of
           Text s \<Rightarrow>
             let s' = fix_stopword s
             in (case search_call s' of
                   None \<Rightarrow> Inr (m, n)
                 | Some nb \<Rightarrow> with_call (Text (before_call s')) nb)
         | Items xs \<Rightarrow>
             let xs' = (if ends_with_text xs then map_last (map_text fix_stopword) xs else xs);
                 found = (if ends_with_text xs
                          then Option.bind (item_text (last xs')) search_call else None)
             in (case found of
                   Some nb \<Rightarrow> with_call (Items (map_last (map_text before_call) xs')) nb
                 | None \<Rightarrow>
                     if list_ex (\<lambda>x. Option.bind (item_text x) search_call \<noteq> None) xs'
                     then Inl (FunctionCallConversionError ''Expecting function call in the LAST index of content list.'')
                     else Inr (m\<lparr>chat_body := Items xs'\<rparr>, n))
         | No_Content \<Rightarrow> Inr (m, n))"

text \<open>One message, with the number of the next call and the flag for the first user message.\<close>

definition from_plain_message ::
  "fn_codec \<Rightarrow> tool_def list \<Rightarrow> string \<Rightarrow> string \<Rightarrow> nat \<Rightarrow> bool \<Rightarrow> chat \<Rightarrow> (chat \<times> nat \<times> bool) result" where
  "from_plain_message fc tools suff example n seen m =
     (let b = some_content (chat_body m)
      in if chat_role m = ''system'' then Inr (plain_chat ''system'' (without_suffix suff b), n, seen)
         else if chat_role m = ''user''
         then Inr (from_user_body n (if seen then b else body_without_example example b), n, True)
         else if chat_role m = ''assistant''
         then bindE (from_assistant_message fc tools n m) (\<lambda>(c, n'). Inr (c, n', seen))
         else Inl (FunctionCallConversionError (''Unexpected role '' @ chat_role m @
           ''. Expected system, user, or assistant in non-function calling messages.'')))"

fun from_plain_messages ::
  "fn_codec \<Rightarrow> tool_def list \<Rightarrow> string \<Rightarrow> string \<Rightarrow> nat \<Rightarrow> bool \<Rightarrow> chat list \<Rightarrow> chat list result" where
  "from_plain_messages fc tools suff example n seen [] = Inr []"
| "from_plain_messages fc tools suff example n seen (m # ms) =
     bindE (from_plain_message fc tools suff example n seen m) (\<lambda>(c, n', seen').
     bindE (from_plain_messages fc tools suff example n' seen' ms) (\<lambda>cs. Inr (c # cs)))"

definition convert_non_fncall_messages_to_fncall_messages ::
  "fn_codec \<Rightarrow> bool \<Rightarrow> chat list \<Rightarrow> tool_def list \<Rightarrow> chat list result" where
  "convert_non_fncall_messages_to_fncall_messages fc windows ms tools =
     bindE (convert_tools_to_description fc tools) (\<lambda>d.
       from_plain_messages fc tools (SYSTEM_PROMPT_SUFFIX d) (get_example_for_tools windows tools) 1 False ms)"

section \<open>One call per message\<close>

text \<open>The first call keeps the content of the message.\<close>

definition split_calls :: "chat \<Rightarrow> raw_call list \<Rightarrow> (string \<times> chat) list" where
  "split_calls m calls =
     map (\<lambda>(i, call). (case call_id call of Some k \<Rightarrow> k | None \<Rightarrow> [],
        (plain_chat ''assistant'' (if i = 0 then chat_body m else Text []))\<lparr>chat_calls := Some [call]\<rparr>))
       (List.enumerate 0 calls)"

fun one_call_each :: "chat list \<Rightarrow> (string, chat) dict \<Rightarrow> (chat list \<times> (string, chat) dict) result" where
  "one_call_each [] pending = Inr ([], pending)"
| "one_call_each (m # ms) pending =
     (let go_on = (\<lambda>out pending'. bindE (one_call_each ms pending') (\<lambda>(rest, p). Inr (out @ rest, p)))
      in if chat_role m = ''assistant''
         then (case chat_calls m of
             Some calls \<Rightarrow> if length calls > 1
               then (if list_all (\<lambda>c. call_id c \<noteq> None) calls then go_on [] (dict_update pending (split_calls m calls))
                     else Inl (KeyError ''id''))
               else go_on [m] pending
           | None \<Rightarrow> go_on [m] pending)
         else if chat_role m = ''tool''
         then (case chat_call_id m of
             None \<Rightarrow> Inl (KeyError ''tool_call_id'')
           | Some i \<Rightarrow> (case map_of pending i of
               Some call_message \<Rightarrow> go_on [call_message, m] (AList.delete i pending)
             | None \<Rightarrow> if pending \<noteq> [] then Inl AssertionError else go_on [m] pending))
         else if pending \<noteq> [] then Inl AssertionError
         else go_on [m] pending)"

definition convert_from_multiple_tool_calls_to_single_tool_call_messages ::
  "bool \<Rightarrow> chat list \<Rightarrow> chat list result" where
  "convert_from_multiple_tool_calls_to_single_tool_call_messages ignore_final ms =
     bindE (one_call_each ms []) (\<lambda>(out, pending).
       if \<not> ignore_final \<and> pending \<noteq> []
       then Inl (FunctionCallConversionError ''Found pending tool calls but no tool result'')
       else Inr out)"

end
