(* ===== verification/Model_Features.thy ===== *)
theory Model_Features
  imports Serialization
begin

text \<open>
  What a model supports, by its name (\<open>openhands/llm/model_features.py\<close>): tables of patterns that
  are matched against the full name if they name a provider, and against the last part of the
  name otherwise. The only wildcard in the tables is the star.
\<close>

section \<open>Names and patterns\<close>

definition normalize_model_name :: "string \<Rightarrow> string" where
  "normalize_model_name model =
     (let raw = py_lower (py_strip model);
          name = (if CHR ''/'' \<in> set raw then hd (split_on CHR '':'' (last (split_on CHR ''/'' raw))) else raw)
      in if suffix ''-gguf'' name then take (length name - 5) name else name)"

text \<open>\<open>fnmatch\<close> for patterns whose only special character is the star.\<close>

fun fnmatch :: "string \<Rightarrow> string \<Rightarrow> bool" where
  "fnmatch s [] = (s = [])"
| "fnmatch [] (p # ps) = (p = CHR ''*'' \<and> fnmatch [] ps)"
| "fnmatch (c # t) (p # ps) =
     (if p = CHR ''*'' then fnmatch (c # t) ps \<or> fnmatch t (p # ps) else c = p \<and> fnmatch t ps)"

definition model_matches :: "string \<Rightarrow> string list \<Rightarrow> bool" where
  "model_matches model patterns =
     list_ex (\<lambda>pat. let p = py_lower pat
        in if CHR ''/'' \<in> set p then fnmatch (py_lower (py_strip model)) p
           else fnmatch (normalize_model_name model) p) patterns"

record model_features =
  supports_function_calling :: bool
  supports_reasoning_effort :: bool
  supports_prompt_cache :: bool
  supports_stop_words :: bool

section \<open>The tables\<close>

definition FUNCTION_CALLING_PATTERNS :: "string list" where
  "FUNCTION_CALLING_PATTERNS =
    [''claude-3-7-sonnet*'', ''claude-3.7-sonnet*'', ''claude-sonnet-3-7-latest'',
     ''claude-3-5-sonnet*'', ''claude-3.5-sonnet*'', ''claude-3.5-haiku*'',
     ''claude-3-5-haiku*'', ''claude-sonnet-4*'', ''claude-opus-4*'', ''gpt-4o*'',
     ''gpt-4.1'', ''gpt-5*'', ''o1-2024-12-17'', ''o3*'', ''o4-mini*'', ''gemini-2.5-pro*'',
     ''gemini-3*'', ''groq/*'', ''kimi-k2-0711-preview'', ''kimi-k2-instruct'', ''kimi-k2.5'',
     ''qwen3-coder*'', ''qwen3-coder-480b-a35b-instruct'', ''deepseek-chat'',
     ''grok-code-fast-1'', ''glm-4*'', ''glm-5*'']"

definition REASONING_EFFORT_PATTERNS :: "string list" where
  "REASONING_EFFORT_PATTERNS =
    [''o1-2024-12-17'', ''o1'', ''o3'', ''o3-2025-04-16'', ''o3-mini-2025-01-31'',
     ''o3-mini'', ''o4-mini'', ''o4-mini-2025-04-16'', ''gemini-2.5-flash'',
     ''gemini-2.5-pro'', ''gemini-3.1-pro*'', ''gpt-5*'', ''deepseek-r1-0528*'',
     ''claude-sonnet-4-5*'', ''claude-sonnet-4-6*'', ''claude-haiku-4-5*'', ''kimi-k2.5'',
     ''glm-4*'', ''glm-5*'']"

definition PROMPT_CACHE_PATTERNS :: "string list" where
  "PROMPT_CACHE_PATTERNS =
    [''claude-3-7-sonnet*'', ''claude-3.7-sonnet*'', ''claude-sonnet-3-7-latest'',
     ''claude-3-5-sonnet*'', ''claude-3-5-haiku*'', ''claude-3.5-haiku*'',
     ''claude-3-haiku-20240307'', ''claude-3-opus-20240229'', ''claude-sonnet-4*'',
     ''claude-opus-4*'', ''gemini-3.1-pro*'', ''kimi-k2.5'', ''glm-4*'', ''glm-5*'']"

definition SUPPORTS_STOP_WORDS_FALSE_PATTERNS :: "string list" where
  "SUPPORTS_STOP_WORDS_FALSE_PATTERNS =
    [''o1*'', ''grok-4-0709'', ''grok-code-fast-1'', ''deepseek-r1-0528*'', ''azure/gpt-5*'']"

definition get_features :: "string \<Rightarrow> model_features" where
  "get_features model =
     \<lparr>supports_function_calling = model_matches model FUNCTION_CALLING_PATTERNS,
      supports_reasoning_effort = model_matches model REASONING_EFFORT_PATTERNS,
      supports_prompt_cache = model_matches model PROMPT_CACHE_PATTERNS,
      supports_stop_words = \<not> model_matches model SUPPORTS_STOP_WORDS_FALSE_PATTERNS\<rparr>"

lemma fnmatch_star: "fnmatch s [CHR ''*'']"
  by (induction s) simp_all

text \<open>A pattern that ends in its only star is a prefix test, and one without a star an equality.\<close>

lemma fnmatch_plain: "CHR ''*'' \<notin> set p \<Longrightarrow> fnmatch s p \<longleftrightarrow> s = p"
proof (induction p arbitrary: s)
  case (Cons c p)
  then show ?case by (cases s) auto
qed simp

lemma fnmatch_prefix: "CHR ''*'' \<notin> set p \<Longrightarrow> fnmatch s (p @ [CHR ''*'']) \<longleftrightarrow> prefix p s"
proof (induction p arbitrary: s)
  case Nil
  then show ?case using fnmatch_star by simp
next
  case (Cons c p)
  then show ?case by (cases s) auto
qed

end
