(* ===== verification/Llm.thy ===== *)
theory Llm
  imports Agent_Controller Fn_Call_Converter Model_Features
begin

text \<open>
  The language model client (\<open>openhands/llm/llm.py\<close>, \<open>openhands/llm/retry_mixin.py\<close>): what a client
  is built from, the wrapper of a completion with the mocked function calling, the accounting of
  a response, and the retries.

  \<open>litellm\<close>, \<open>httpx\<close>, \<open>pydantic\<close>, \<open>tenacity\<close> and the process environment are third-party code or
  services and appear as parameters. A request is its messages, its tools and its other keyword
  arguments; \<open>messages\<close> given by position are the same request. Logging of prompts keeps the
  requests in order; the writing of completion logs to files is left out.
\<close>

section \<open>Data\<close>

record llm_config =
  lc_model :: string
  lc_api_key :: "string option"
  lc_base_url :: "string option"
  lc_api_version :: "string option"
  lc_provider :: "string option"
  lc_timeout :: "int option"
  lc_drop_params :: bool
  lc_seed :: "int option"
  lc_temperature :: rat
  lc_top_p :: "rat option"
  lc_top_k :: "rat option"
  lc_max_input_tokens :: "int option"
  lc_max_output_tokens :: "int option"
  lc_input_cost :: "rat option"
  lc_output_cost :: "rat option"
  lc_reasoning_effort :: "string option"
  lc_safety_settings :: "json list"
  lc_aws_region :: "string option"
  lc_aws_key :: "string option"
  lc_aws_secret :: "string option"
  lc_completion_kwargs :: "json_dict option"
  lc_num_retries :: int
  lc_disable_stop_word :: bool
  lc_disable_vision :: bool
  lc_caching_prompt :: bool
  lc_native_tool_calling :: "bool option"

record llm_call =
  lq_messages :: "chat list"
  lq_tools :: "tool_def list option"
  lq_options :: json_dict

record usage_info =
  ui_prompt :: int
  ui_completion :: int
  ui_cached :: "int option"
  ui_cache_write :: int

record completion_response =
  cp_id :: "string option"
  cp_choices :: "chat list"
  cp_usage :: "usage_info option"
  cp_cost_header :: "string option"

record llm =
  lm_config :: llm_config
  lm_service_id :: string
  lm_metrics :: metrics
  lm_model_info :: json_dict
  lm_function_calling :: bool
  lm_cost_supported :: bool
  lm_kwargs :: json_dict
  lm_sent :: "llm_call list"
  lm_logged :: "exn list"
  lm_notices :: "(int \<times> int) list option"

text \<open>What the client takes from outside.\<close>

record 'w llm_env =
  le_send :: "llm_call \<Rightarrow> 'w \<Rightarrow> completion_response result \<times> 'w"
  le_clock :: "'w \<Rightarrow> rat"
  le_should_exit :: "'w \<Rightarrow> bool"
  le_codec :: fn_codec
  le_windows :: bool
  le_cost :: "completion_response \<Rightarrow> string option \<Rightarrow> (rat \<times> rat) option \<Rightarrow> rat result"
  le_float :: "string \<Rightarrow> rat option"
  le_int :: "json \<Rightarrow> int option"
  le_invalid :: llm_exn
  le_show :: "completion_response \<Rightarrow> string"
  le_stop_attributes :: "int option list"

record llm_setup =
  su_env :: "string \<Rightarrow> string option"
  su_model_info :: "string \<Rightarrow> json_dict option"
  su_proxy_models :: "string \<Rightarrow> json_dict list result"
  su_supports_vision :: "string \<Rightarrow> bool"

section \<open>Building a client\<close>

definition get_openhands_llm_base_url :: "(string \<Rightarrow> string option) \<Rightarrow> string" where
  "get_openhands_llm_base_url env =
     (case env ''LITE_LLM_API_URL'' of
        Some (c # s) \<Rightarrow> c # s
      | _ \<Rightarrow> (case env ''WEB_HOST'' of
          Some h \<Rightarrow> if h \<noteq> [] \<and> (occurs_in ''.staging.'' h \<or> prefix ''staging'' h)
            then ''https://llm-proxy.staging.all-hands.dev/''
            else ''https://llm-proxy.app.all-hands.dev/''
        | None \<Rightarrow> ''https://llm-proxy.app.all-hands.dev/''))"

definition rewrite_model :: "llm_setup \<Rightarrow> llm_config \<Rightarrow> llm_config" where
  "rewrite_model su c =
     (if prefix ''openhands/'' (lc_model c)
      then c\<lparr>lc_model := ''litellm_proxy/'' @ drop 10 (lc_model c),
             lc_base_url := Some (get_openhands_llm_base_url (su_env su))\<rparr>
      else c)"

fun info_int :: "json option \<Rightarrow> int option" where
  "info_int (Some (JInt i)) = Some i"
| "info_int (Some (JBool b)) = Some (if b then 1 else 0)"
| "info_int _ = None"

definition proxy_base_url :: "string option \<Rightarrow> string" where
  "proxy_base_url u =
     (let b = (case u of None \<Rightarrow> [] | Some s \<Rightarrow> py_strip s)
      in if prefix ''http://'' b \<or> prefix ''https://'' b then b else ''http://'' @ b)"

text \<open>The first entry of the proxy with the name of the model; an entry without name or info is
  a \<open>KeyError\<close>, and an empty one is passed over.\<close>

fun find_proxy_model :: "string \<Rightarrow> json_dict list \<Rightarrow> json_dict option result" where
  "find_proxy_model name [] = Inr None"
| "find_proxy_model name (d # ds) =
     (case map_of d ''model_name'' of
        None \<Rightarrow> Inl (KeyError ''model_name'')
      | Some n \<Rightarrow> if n = JStr name then Inr (Some d) else find_proxy_model name ds)"

definition info_or :: "json_dict option \<Rightarrow> json_dict \<Rightarrow> json_dict" where
  "info_or x d = (if d \<noteq> [] then d else case x of None \<Rightarrow> [] | Some i \<Rightarrow> i)"

text \<open>\<open>model_info\<close> is the empty dictionary where the code has \<open>None\<close>: it is only tested for its
  truth and for keys. The initial lookup of the proxy replaces what OpenRouter gave.\<close>

definition find_model_info :: "llm_setup \<Rightarrow> llm_config \<Rightarrow> json_dict result" where
  "find_model_info su c =
     (let m = lc_model c;
          start = (if prefix ''openrouter'' m then info_or (su_model_info su m) [] else [])
      in bindE
        (if prefix ''litellm_proxy/'' m
         then bindE (su_proxy_models su (proxy_base_url (lc_base_url c))) (\<lambda>models.
              bindE (find_proxy_model (drop 14 m) models) (\<lambda>found.
              case found of
                None \<Rightarrow> Inr start
              | Some d \<Rightarrow> (case map_of d ''model_info'' of
                  None \<Rightarrow> Inl (KeyError ''model_info'')
                | Some (JDict i) \<Rightarrow> Inr i
                | Some _ \<Rightarrow> Inr [])))
         else Inr start)
        (\<lambda>info. Inr (info_or (su_model_info su (last (split_on CHR ''/'' m)))
           (info_or (su_model_info su (hd (split_on CHR '':'' m))) info))))"

definition SONNET_MODELS :: "string list" where
  "SONNET_MODELS =
     [''claude-3-7-sonnet'', ''claude-3.7-sonnet'', ''claude-sonnet-4'',
      ''claude-sonnet-4-5-20250929'', ''claude-haiku-4-5-20251001'']"

definition output_tokens :: "llm_config \<Rightarrow> json_dict \<Rightarrow> int option" where
  "output_tokens c info =
     (case lc_max_output_tokens c of
        Some n \<Rightarrow> Some n
      | None \<Rightarrow>
          if list_ex (\<lambda>k. occurs_in k (lc_model c)) SONNET_MODELS then Some 64000
          else case info_int (map_of info ''max_output_tokens'') of
                 Some n \<Rightarrow> Some n
               | None \<Rightarrow> info_int (map_of info ''max_tokens''))"

definition set_limits :: "json_dict \<Rightarrow> llm_config \<Rightarrow> llm_config" where
  "set_limits info c =
     (let c1 = (if prefix ''huggingface'' (lc_model c) \<and> lc_top_p c = Some 1
                then c\<lparr>lc_top_p := Some (9 / 10)\<rparr> else c);
          c2 = (if lc_max_input_tokens c1 = None
                then c1\<lparr>lc_max_input_tokens := info_int (map_of info ''max_input_tokens'')\<rparr> else c1)
      in c2\<lparr>lc_max_output_tokens := output_tokens c2 info\<rparr>)"

definition calls_functions :: "llm_config \<Rightarrow> bool" where
  "calls_functions c = (case lc_native_tool_calling c of
     None \<Rightarrow> supports_function_calling (get_features (lc_model c)) | Some b \<Rightarrow> b)"

definition init_model_info :: "llm_setup \<Rightarrow> llm_config \<Rightarrow> (llm_config \<times> json_dict \<times> bool) result" where
  "init_model_info su c =
     bindE (find_model_info su c) (\<lambda>info. Inr (set_limits info c, info, calls_functions c))"

section \<open>The keyword arguments of every request\<close>

definition opt_json :: "('a \<Rightarrow> json) \<Rightarrow> 'a option \<Rightarrow> json" where
  "opt_json f x = (case x of None \<Rightarrow> JNull | Some v \<Rightarrow> f v)"

definition set_opt :: "string \<Rightarrow> ('a \<Rightarrow> json) \<Rightarrow> 'a option \<Rightarrow> json_dict \<Rightarrow> json_dict" where
  "set_opt k f x d = (case x of None \<Rightarrow> d | Some v \<Rightarrow> AList.update k (f v) d)"

definition THINKING_BUDGET :: json where
  "THINKING_BUDGET = JDict [(''budget_tokens'', JInt 128)]"

definition reasoning_kwargs :: "llm_config \<Rightarrow> json_dict \<Rightarrow> json_dict" where
  "reasoning_kwargs c d =
     (if occurs_in ''gemini-2.5-pro'' (lc_model c)
      then if lc_reasoning_effort c \<in> {None, Some ''low'', Some ''none''}
           then AList.delete ''reasoning_effort''
             (AList.update ''allowed_openai_params'' (JList [JStr ''thinking''])
               (AList.update ''thinking'' THINKING_BUDGET d))
           else AList.update ''reasoning_effort'' (opt_json JStr (lc_reasoning_effort c)) d
      else if list_ex (\<lambda>k. occurs_in k (lc_model c))
                [''claude-sonnet-4-5'', ''claude-haiku-4-5-20251001'', ''claude-opus-4-6'']
      then AList.delete ''reasoning_effort'' d
      else set_opt ''reasoning_effort'' JStr (lc_reasoning_effort c) d)"

text \<open>\<open>kwargs.pop(k)\<close> without a default.\<close>

definition pop_key :: "string \<Rightarrow> json_dict \<Rightarrow> json_dict result" where
  "pop_key k d = (if has_key d k then Inr (AList.delete k d) else Inl (KeyError k))"

definition base_kwargs :: "llm_config \<Rightarrow> json_dict" where
  "base_kwargs c =
     set_opt ''top_p'' JFloat (lc_top_p c) (set_opt ''top_k'' JFloat (lc_top_k c)
       [(''temperature'', JFloat (lc_temperature c)),
        (''max_completion_tokens'', opt_json JInt (lc_max_output_tokens c))])"

definition one_sampling_parameter :: "string \<Rightarrow> bool" where
  "one_sampling_parameter m = list_ex (\<lambda>k. occurs_in k m)
     [''claude-opus-4-1'', ''claude-opus-4-5'', ''claude-opus-4-6'', ''claude-sonnet-4'']"

definition safety_kwargs :: "llm_config \<Rightarrow> json_dict \<Rightarrow> json_dict" where
  "safety_kwargs c d =
     (if (occurs_in ''mistral'' (py_lower (lc_model c)) \<or> occurs_in ''gemini'' (py_lower (lc_model c))) \<and>
         lc_safety_settings c \<noteq> []
      then AList.update ''safety_settings'' (JList (lc_safety_settings c)) d else d)"

definition set_secret :: "string \<Rightarrow> string option \<Rightarrow> json_dict \<Rightarrow> json_dict" where
  "set_secret k x d = (if x = Some [] then d else set_opt k JStr x d)"

definition aws_kwargs :: "llm_config \<Rightarrow> json_dict \<Rightarrow> json_dict" where
  "aws_kwargs c d =
     set_secret ''aws_secret_access_key'' (lc_aws_secret c)
       (set_secret ''aws_access_key_id'' (lc_aws_key c)
         (AList.update ''aws_region_name'' (opt_json JStr (lc_aws_region c)) d))"

definition thinking_kwargs :: "llm_config \<Rightarrow> json_dict \<Rightarrow> json_dict" where
  "thinking_kwargs c d =
     (if occurs_in ''claude-opus-4-1'' (py_lower (lc_model c))
      then AList.update ''thinking'' (JDict [(''type'', JStr ''disabled'')]) d else d)"

definition sampling_kwargs :: "llm_config \<Rightarrow> json_dict \<Rightarrow> json_dict" where
  "sampling_kwargs c d =
     (if one_sampling_parameter (py_lower (lc_model c)) \<and> has_key d ''temperature'' \<and> has_key d ''top_p''
      then AList.delete ''top_p'' d else d)"

definition provider_kwargs :: "llm_config \<Rightarrow> json_dict \<Rightarrow> json_dict" where
  "provider_kwargs c d = sampling_kwargs c (thinking_kwargs c (aws_kwargs c (safety_kwargs c d)))"

definition build_kwargs :: "llm_config \<Rightarrow> json_dict result" where
  "build_kwargs c =
     bindE (if supports_reasoning_effort (get_features (lc_model c))
            then bindE (pop_key ''temperature'' (reasoning_kwargs c (base_kwargs c))) (pop_key ''top_p'')
            else Inr (base_kwargs c)) (\<lambda>d.
     bindE (if prefix ''azure'' (lc_model c)
            then pop_key ''max_completion_tokens''
                   (AList.update ''max_tokens'' (opt_json JInt (lc_max_output_tokens c)) d)
            else Inr d) (\<lambda>d.
     Inr (dict_update (provider_kwargs c d)
       (case lc_completion_kwargs c of None \<Rightarrow> [] | Some kw \<Rightarrow> kw))))"

definition fixed_kwargs :: "llm_config \<Rightarrow> json_dict" where
  "fixed_kwargs c =
     [(''model'', JStr (lc_model c)),
      (''api_key'', if lc_api_key c = Some [] then JNull else opt_json JStr (lc_api_key c)),
      (''base_url'', opt_json JStr (lc_base_url c)),
      (''api_version'', opt_json JStr (lc_api_version c)),
      (''custom_llm_provider'', opt_json JStr (lc_provider c)),
      (''timeout'', opt_json JInt (lc_timeout c)),
      (''drop_params'', JBool (lc_drop_params c)),
      (''seed'', opt_json JInt (lc_seed c))]"

text \<open>A keyword argument given twice is refused by Python.\<close>

definition completion_kwargs :: "llm_config \<Rightarrow> json_dict result" where
  "completion_kwargs c =
     bindE (build_kwargs c) (\<lambda>d.
       if list_ex (has_key d) (map fst (fixed_kwargs c))
       then Inl (TypeError ''got multiple values for keyword argument'')
       else Inr (fixed_kwargs c @ d))"

definition new_llm ::
  "llm_setup \<Rightarrow> string \<Rightarrow> llm_config \<Rightarrow> metrics option \<Rightarrow> bool \<Rightarrow> llm result" where
  "new_llm su service_id config ms listener =
     bindE (init_model_info su config) (\<lambda>(c, info, native).
     let c' = rewrite_model su c in
     bindE (completion_kwargs c') (\<lambda>kw.
       Inr \<lparr>lm_config = c', lm_service_id = service_id,
            lm_metrics = (case ms of None \<Rightarrow> new_metrics (lc_model config) | Some m \<Rightarrow> m),
            lm_model_info = info, lm_function_calling = native, lm_cost_supported = True,
            lm_kwargs = kw, lm_sent = [], lm_logged = [],
            lm_notices = (if listener then Some [] else None)\<rparr>))"

section \<open>Flags\<close>

definition force_vision :: "(string \<Rightarrow> string option) \<Rightarrow> bool" where
  "force_vision env = (py_lower (case env ''OPENHANDS_FORCE_VISION'' of None \<Rightarrow> [] | Some s \<Rightarrow> s)
     \<in> {''1'', ''true'', ''yes'', ''on''})"

definition supports_vision :: "llm_setup \<Rightarrow> llm \<Rightarrow> bool" where
  "supports_vision su m =
     (force_vision (su_env su) \<or> su_supports_vision su (lc_model (lm_config m)) \<or>
      su_supports_vision su (last (split_on CHR ''/'' (lc_model (lm_config m)))) \<or>
      (case map_of (lm_model_info m) ''supports_vision'' of None \<Rightarrow> False | Some v \<Rightarrow> json_truthy v))"

definition vision_is_active :: "llm_setup \<Rightarrow> llm \<Rightarrow> bool" where
  "vision_is_active su m = (\<not> lc_disable_vision (lm_config m) \<and> supports_vision su m)"

definition is_caching_prompt_active :: "llm \<Rightarrow> bool" where
  "is_caching_prompt_active m =
     (lc_caching_prompt (lm_config m) \<and> supports_prompt_cache (get_features (lc_model (lm_config m))))"

definition is_local :: "llm \<Rightarrow> bool" where
  "is_local m = (case lc_base_url (lm_config m) of
     Some u \<Rightarrow> list_ex (\<lambda>s. occurs_in s u) [''localhost'', ''127.0.0.1'', ''0.0.0.0'']
   | None \<Rightarrow> prefix ''ollama'' (lc_model (lm_config m)))"

end
