(* ===== verification/Llm_Completion.thy ===== *)
theory Llm_Completion
  imports Llm Messages
begin

text \<open>
  One completion and its retries (\<open>LLM.wrapper\<close>, \<open>LLM._post_completion\<close> and
  \<open>LLM._completion_cost\<close> of \<open>openhands/llm/llm.py\<close>, \<open>RetryMixin\<close> of
  \<open>openhands/llm/retry_mixin.py\<close>). The state is the outside world and the client; an exception
  leaves what was recorded before it recorded.
\<close>

section \<open>Accounting\<close>

definition charge :: "'w llm_env \<Rightarrow> rat \<Rightarrow> ('w \<times> llm, rat) op" where
  "charge env cost = (\<lambda>(w, m).
     case add_cost (le_clock env w) cost (lm_metrics m) of
       Inl _ \<Rightarrow> (Inr 0, (w, m\<lparr>lm_cost_supported := False\<rparr>))
     | Inr ms \<Rightarrow> (Inr cost, (w, m\<lparr>lm_metrics := ms\<rparr>)))"

definition custom_cost :: "llm_config \<Rightarrow> (rat \<times> rat) option" where
  "custom_cost c = (case (lc_input_cost c, lc_output_cost c) of
     (Some i, Some out) \<Rightarrow> Some (i, out) | _ \<Rightarrow> None)"

definition fallback_model :: "llm_config \<Rightarrow> string" where
  "fallback_model c = py_join ''/'' (tl (split_on CHR ''/'' (lc_model c)))"

definition completion_cost :: "'w llm_env \<Rightarrow> completion_response \<Rightarrow> ('w \<times> llm, rat) op" where
  "completion_cost env r = (\<lambda>(w, m).
     if \<not> lm_cost_supported m then (Inr 0, (w, m))
     else case cp_cost_header r of
       Some h \<Rightarrow> (case le_float env h of
           None \<Rightarrow> (Inl (ValueError ''could not convert string to float''), (w, m))
         | Some cost \<Rightarrow> charge env cost (w, m))
     | None \<Rightarrow> (case le_cost env r None (custom_cost (lm_config m)) of
           Inr cost \<Rightarrow> charge env cost (w, m)
         | Inl _ \<Rightarrow> (case le_cost env r (Some (fallback_model (lm_config m))) (custom_cost (lm_config m)) of
               Inr cost \<Rightarrow> charge env cost (w, m)
             | Inl _ \<Rightarrow> (Inr 0, (w, m\<lparr>lm_cost_supported := False\<rparr>)))))"

definition response_name :: "completion_response \<Rightarrow> string" where
  "response_name r = (case cp_id r of None \<Rightarrow> ''unknown'' | Some i \<Rightarrow> i)"

text \<open>The context window of the model as the metrics take it: a missing entry is 0.\<close>

definition window_value :: "llm \<Rightarrow> json" where
  "window_value m = (case map_of (lm_model_info m) ''max_input_tokens'' of None \<Rightarrow> JInt 0 | Some v \<Rightarrow> v)"

definition record_usage :: "'w llm_env \<Rightarrow> completion_response \<Rightarrow> usage_info \<Rightarrow> ('w \<times> llm, unit) op" where
  "record_usage env r u = (\<lambda>(w, m).
     case le_int env (window_value m) of
       None \<Rightarrow> (Inl (LLMExn (le_invalid env)), (w, m))
     | Some win \<Rightarrow> (Inr (), (w, m\<lparr>lm_metrics := add_token_usage (ui_prompt u) (ui_completion u)
           (case ui_cached u of None \<Rightarrow> 0 | Some n \<Rightarrow> n) (ui_cache_write u) win (response_name r)
           (lm_metrics m)\<rparr>)))"

definition post_completion :: "'w llm_env \<Rightarrow> completion_response \<Rightarrow> ('w \<times> llm, rat) op" where
  "post_completion env r =
     bindS (tryS (completion_cost env r) (\<lambda>_. retS 0)) (\<lambda>cost.
     bindS (case cp_usage r of None \<Rightarrow> retS () | Some u \<Rightarrow> record_usage env r u) (\<lambda>_. retS cost))"

section \<open>One completion\<close>

text \<open>What the wrapper makes of the request, and the tools that were taken out of it to be mocked.\<close>

definition mocked_options :: "llm_config \<Rightarrow> json_dict \<Rightarrow> json_dict" where
  "mocked_options c d =
     (let d1 = (if supports_stop_words (get_features (lc_model c)) \<and> \<not> lc_disable_stop_word c
                then AList.update ''stop'' (JList (map JStr STOP_WORDS)) d else d)
      in if occurs_in ''openhands-lm'' (lc_model c)
         then AList.update ''tool_choice'' (JStr ''none'') d1
         else AList.delete ''tool_choice'' d1)"

definition mock_request ::
  "'w llm_env \<Rightarrow> llm \<Rightarrow> llm_call \<Rightarrow> (llm_call \<times> tool_def list option) result" where
  "mock_request env m call =
     (case lq_tools call of
        Some tools \<Rightarrow>
          if lm_function_calling m then Inr (call, None)
          else bindE (convert_fncall_messages_to_non_fncall_messages (le_codec env) (le_windows env)
               (\<not> occurs_in ''openhands-lm'' (lc_model (lm_config m)) \<and>
                \<not> occurs_in ''devstral'' (lc_model (lm_config m)))
               (lq_messages call) tools) (\<lambda>ms.
             Inr (call\<lparr>lq_messages := ms, lq_tools := None,
                       lq_options := mocked_options (lm_config m) (lq_options call)\<rparr>, Some tools))
      | None \<Rightarrow> Inr (call, None))"

definition prepare ::
  "'w llm_env \<Rightarrow> llm \<Rightarrow> llm_call \<Rightarrow> (llm_call \<times> tool_def list option) result" where
  "prepare env m call =
     bindE (mock_request env m call) (\<lambda>(rq, mocked).
       if lq_messages rq = []
       then Inl (ValueError ''The messages list is empty. At least one message is required.'')
       else Inr (if occurs_in ''litellm_proxy'' (lc_model (lm_config m)) then rq
                 else rq\<lparr>lq_options := AList.delete ''extra_body'' (lq_options rq)\<rparr>, mocked))"

text \<open>The keyword arguments of the call override those of the client.\<close>

definition wire_request :: "llm \<Rightarrow> llm_call \<Rightarrow> llm_call" where
  "wire_request m rq = rq\<lparr>lq_options := dict_update (lm_kwargs m) (lq_options rq)\<rparr>"

definition no_choices :: "'w llm_env \<Rightarrow> completion_response \<Rightarrow> exn" where
  "no_choices env r = LLMNoResponseError
     (''Response choices is less than 1 - This is only seen in Gemini models so far. Response: '' @ le_show env r)"

definition restore_calls ::
  "'w llm_env \<Rightarrow> chat list \<Rightarrow> tool_def list option \<Rightarrow> completion_response \<Rightarrow> completion_response result" where
  "restore_calls env ms mocked r =
     (case mocked of
        None \<Rightarrow> Inr r
      | Some tools \<Rightarrow> (case cp_choices r of
          [] \<Rightarrow> Inl (no_choices env r)
        | m # rest \<Rightarrow>
            bindE (convert_non_fncall_messages_to_fncall_messages (le_codec env) (le_windows env) (ms @ [m]) tools)
              (\<lambda>back. Inr (r\<lparr>cp_choices := last back # rest\<rparr>))))"

definition record_latency :: "'w llm_env \<Rightarrow> 'w \<Rightarrow> 'w \<Rightarrow> completion_response \<Rightarrow> llm \<Rightarrow> llm" where
  "record_latency env before after r m =
     m\<lparr>lm_metrics := add_response_latency (le_clock env after - le_clock env before) (response_name r)
        (lm_metrics m)\<rparr>"

definition handle_response ::
  "'w llm_env \<Rightarrow> chat list \<Rightarrow> tool_def list option \<Rightarrow> completion_response \<Rightarrow>
   ('w \<times> llm, completion_response) op" where
  "handle_response env ms mocked r s =
     (case restore_calls env ms mocked r of
        Inl e \<Rightarrow> (Inl e, s)
      | Inr r' \<Rightarrow> if cp_choices r' = [] then (Inl (no_choices env r'), s)
          else bindS (post_completion env r') (\<lambda>_. retS r') s)"

definition completion_once :: "'w llm_env \<Rightarrow> llm_call \<Rightarrow> ('w \<times> llm, completion_response) op" where
  "completion_once env call = (\<lambda>(w, m).
     case prepare env m call of
       Inl e \<Rightarrow> (Inl e, (w, m))
     | Inr (rq, mocked) \<Rightarrow>
         (let full = wire_request m rq;
              (answer, w') = le_send env full w;
              m1 = m\<lparr>lm_sent := lm_sent m @ [full]\<rparr>
          in case answer of
               Inl e \<Rightarrow> (Inl e, (w', m1))
             | Inr r \<Rightarrow> handle_response env (lq_messages rq) mocked r (w', record_latency env w w' r m1)))"

section \<open>Retries\<close>

definition LLM_RETRY_CLASSES :: "llm_class list" where
  "LLM_RETRY_CLASSES =
     [APIConnectionError, RateLimitError, ServiceUnavailableError, BadGatewayError, Timeout,
      InternalServerError]"

definition is_retried :: "exn \<Rightarrow> bool" where
  "is_retried e = (list_ex (instance_of e) LLM_RETRY_CLASSES \<or>
     (case e of LLMNoResponseError _ \<Rightarrow> True | _ \<Rightarrow> False))"

text \<open>\<open>kwargs.get('temperature', 0) == 0\<close>.\<close>

fun is_zero :: "json option \<Rightarrow> bool" where
  "is_zero None = True"
| "is_zero (Some (JInt i)) = (i = 0)"
| "is_zero (Some (JFloat q)) = (q = 0)"
| "is_zero (Some (JBool b)) = (\<not> b)"
| "is_zero (Some _) = False"

definition raise_temperature :: "exn \<Rightarrow> json_dict \<Rightarrow> json_dict" where
  "raise_temperature e d =
     (case e of
        LLMNoResponseError _ \<Rightarrow>
          if is_zero (map_of d ''temperature'') then AList.update ''temperature'' (JFloat 1) d else d
      | _ \<Rightarrow> d)"

text \<open>The attributes are set on the exception object of the attempt that is repeated; the object is
  kept in the log. The attempts of the stop condition are read as \<open>max_attempts\<close>.\<close>

fun annotate :: "int \<Rightarrow> int \<Rightarrow> exn \<Rightarrow> exn" where
  "annotate k n (LLMExn x) = LLMExn (x\<lparr>llm_retry_attempt := Some k, llm_max_retries := Some n\<rparr>)"
| "annotate k n e = e"

fun log_retry_attempt :: "int option list \<Rightarrow> int \<Rightarrow> exn \<Rightarrow> exn" where
  "log_retry_attempt [] k e = e"
| "log_retry_attempt (None # stops) k e = log_retry_attempt stops k e"
| "log_retry_attempt (Some n # stops) k e = annotate k n e"

type_synonym 'w attempt_state = "'w \<times> llm \<times> llm_call"

definition before_sleep :: "'w llm_env \<Rightarrow> int \<Rightarrow> exn \<Rightarrow> 'w attempt_state \<Rightarrow> 'w attempt_state" where
  "before_sleep env k e = (\<lambda>(w, m, call).
     (w, m\<lparr>lm_logged := lm_logged m @ [log_retry_attempt (le_stop_attributes env) k e],
           lm_notices := map_option (\<lambda>ns. ns @ [(k, lc_num_retries (lm_config m))]) (lm_notices m)\<rparr>,
      call\<lparr>lq_options := raise_temperature e (lq_options call)\<rparr>))"

definition attempt :: "'w llm_env \<Rightarrow> ('w attempt_state, completion_response) op" where
  "attempt env = (\<lambda>(w, m, call).
     case completion_once env call (w, m) of (r, (w', m')) \<Rightarrow> (r, (w', m', call)))"

text \<open>
  \<open>tenacity.retry\<close> with \<open>reraise=True\<close>, as its documentation describes it: an attempt that returns,
  or raises what is not retried, or is the last one the stop condition allows, ends the call with
  its own outcome; otherwise \<open>before_sleep\<close> runs and the next attempt begins. The arguments are
  the number of \<open>stop_after_attempt\<close>, the condition it is joined with, the retried exceptions,
  \<open>before_sleep\<close>, the attempt and its number.
\<close>

type_synonym ('s, 'a) retrying =
  "int \<Rightarrow> ('s \<Rightarrow> bool) \<Rightarrow> (exn \<Rightarrow> bool) \<Rightarrow> (int \<Rightarrow> exn \<Rightarrow> 's \<Rightarrow> 's) \<Rightarrow> ('s, 'a) op \<Rightarrow> int \<Rightarrow> ('s, 'a) op"

definition retries_as_documented :: "('s, 'a) retrying \<Rightarrow> bool" where
  "retries_as_documented rt \<longleftrightarrow>
     (\<forall>n stop retried sleep f k s.
        rt n stop retried sleep f k s =
          (case f s of
             (Inr x, t) \<Rightarrow> (Inr x, t)
           | (Inl e, t) \<Rightarrow>
               if \<not> retried e \<or> k \<ge> n \<or> stop t then (Inl e, t)
               else rt n stop retried sleep f (k + 1) (sleep k e t)))"

definition llm_completion ::
  "('w attempt_state, completion_response) retrying \<Rightarrow> 'w llm_env \<Rightarrow> llm_call \<Rightarrow>
   ('w \<times> llm, completion_response) op" where
  "llm_completion rt env call = (\<lambda>(w, m).
     case rt (lc_num_retries (lm_config m)) (\<lambda>(w, _). le_should_exit env w) is_retried
            (before_sleep env) (attempt env) 1 (w, m, call) of
       (r, (w', m', _)) \<Rightarrow> (r, (w', m')))"

text \<open>A loop that behaves as documented.\<close>

function retry_loop :: "('s, 'a) retrying" where
  "retry_loop n stop retried sleep f k s =
     (case f s of
        (Inr x, t) \<Rightarrow> (Inr x, t)
      | (Inl e, t) \<Rightarrow>
          if \<not> retried e \<or> k \<ge> n \<or> stop t then (Inl e, t)
          else retry_loop n stop retried sleep f (k + 1) (sleep k e t))"
  by pat_completeness auto
termination
  by (relation "measure (\<lambda>(n, stop, retried, sleep, f, k, s). nat (n - k))") auto

declare retry_loop.simps [simp del]

lemma retry_loop_documented: "retries_as_documented retry_loop"
  unfolding retries_as_documented_def by (intro allI) (rule retry_loop.simps)

section \<open>Formatting messages\<close>

definition forces_strings :: "string \<Rightarrow> bool" where
  "forces_strings m =
     (occurs_in ''deepseek'' m \<or> (occurs_in ''kimi-k2-instruct'' m \<and> occurs_in ''groq'' m) \<or>
      list_ex (\<lambda>k. occurs_in k m)
        [''openrouter/anthropic/claude-sonnet-4'', ''openrouter/anthropic/claude-opus-4-6'',
         ''openrouter/anthropic/claude-sonnet-4-5-20250929'',
         ''openrouter/anthropic/claude-haiku-4-5-20251001''])"

definition set_flags :: "llm_setup \<Rightarrow> llm \<Rightarrow> message \<Rightarrow> message" where
  "set_flags su m msg =
     msg\<lparr>cache_enabled := is_caching_prompt_active m, vision_enabled := vision_is_active su m,
         function_calling_enabled := lm_function_calling m,
         force_string_serializer := (forces_strings (lc_model (lm_config m)) \<or> force_string_serializer msg)\<rparr>"

fun serialize_all :: "message list \<Rightarrow> json_dict list result" where
  "serialize_all [] = Inr []"
| "serialize_all (m # ms) = bindE (serialize_message m) (\<lambda>d. bindE (serialize_all ms) (\<lambda>ds. Inr (d # ds)))"

definition format_messages_for_llm :: "llm_setup \<Rightarrow> llm \<Rightarrow> message list \<Rightarrow> json_dict list result" where
  "format_messages_for_llm su m msgs = serialize_all (map (set_flags su m) msgs)"

end
