(* ===== verification/Llm_Registry.thy ===== *)
theory Llm_Registry
  imports Llm_Completion Conversation_Stats
begin

text \<open>
  The registry of language models (\<open>openhands/llm/llm_registry.py\<close>) with its subscriber, the
  conversation's statistics, and the multimodal router (\<open>openhands/llm/router\<close>).

  A client is one object: the registry holds it by service, and the statistics hold its metrics.
  Both are updated together here. The only subscriber of the sources is
  \<open>ConversationStats.register_llm\<close>, which does not raise. Two configurations are compared by the
  fields the client reads.
\<close>

section \<open>The registry\<close>

record registry =
  rg_llms :: "(string, llm) dict"
  rg_stats :: "conversation_stats option"
  rg_listener :: bool

text \<open>A new client and what registering it leaves as its metrics.\<close>

definition notify_registered :: "string \<Rightarrow> llm \<Rightarrow> registry \<Rightarrow> registry" where
  "notify_registered service_id m rg =
     (case rg_stats rg of
        None \<Rightarrow> rg
      | Some cs \<Rightarrow>
          let (ms, cs') = register_llm service_id (lm_metrics m) cs
          in rg\<lparr>rg_llms := AList.update service_id (m\<lparr>lm_metrics := ms\<rparr>) (rg_llms rg), rg_stats := Some cs'\<rparr>)"

definition create_new_llm ::
  "llm_setup \<Rightarrow> string \<Rightarrow> llm_config \<Rightarrow> bool \<Rightarrow> registry \<Rightarrow> registry result" where
  "create_new_llm su service_id config with_listener rg =
     bindE (new_llm su service_id config None (with_listener \<and> rg_listener rg)) (\<lambda>m.
       Inr (notify_registered service_id m (rg\<lparr>rg_llms := AList.update service_id m (rg_llms rg)\<rparr>)))"

definition get_llm ::
  "llm_setup \<Rightarrow> string \<Rightarrow> llm_config option \<Rightarrow> registry \<Rightarrow> registry result" where
  "get_llm su service_id config rg =
     (case map_of (rg_llms rg) service_id of
        Some m \<Rightarrow>
          if config \<noteq> Some (lm_config m)
          then Inl (ValueError (''Requesting same service ID '' @ service_id @
            '' with different config, use a new service ID''))
          else Inr rg
      | None \<Rightarrow> (case config of
          None \<Rightarrow> Inl (ValueError ''Requesting new LLM without specifying LLM config'')
        | Some c \<Rightarrow> create_new_llm su service_id c True rg))"

definition get_llm_from_agent_config :: "llm_setup \<Rightarrow> string \<Rightarrow> llm_config \<Rightarrow> registry \<Rightarrow> registry result" where
  "get_llm_from_agent_config su service_id config rg =
     (if has_key (rg_llms rg) service_id then Inr rg else create_new_llm su service_id config True rg)"

definition new_registry :: "llm_setup \<Rightarrow> llm_config \<Rightarrow> bool \<Rightarrow> registry result" where
  "new_registry su config listener =
     get_llm su ''agent'' (Some config) \<lparr>rg_llms = [], rg_stats = None, rg_listener = listener\<rparr>"

definition subscribe_stats :: "conversation_stats \<Rightarrow> registry \<Rightarrow> registry result" where
  "subscribe_stats cs rg =
     (case map_of (rg_llms rg) ''agent'' of
        None \<Rightarrow> Inl (KeyError ''agent'')
      | Some m \<Rightarrow> Inr (notify_registered ''agent'' m (rg\<lparr>rg_stats := Some cs\<rparr>)))"

text \<open>A completion of a service: the client changes, and with it its metrics in the statistics.\<close>

definition put_back :: "string \<Rightarrow> llm \<Rightarrow> registry \<Rightarrow> registry" where
  "put_back service_id m rg =
     rg\<lparr>rg_llms := AList.update service_id m (rg_llms rg),
        rg_stats := map_option (\<lambda>cs. cs\<lparr>service_to_metrics :=
          AList.update service_id (lm_metrics m) (service_to_metrics cs)\<rparr>) (rg_stats rg)\<rparr>"

definition complete_service ::
  "('w attempt_state, completion_response) retrying \<Rightarrow> 'w llm_env \<Rightarrow> string \<Rightarrow> llm_call \<Rightarrow>
   ('w \<times> registry, completion_response) op" where
  "complete_service rt env service_id call = (\<lambda>(w, rg).
     case map_of (rg_llms rg) service_id of
       None \<Rightarrow> (Inl (KeyError service_id), (w, rg))
     | Some m \<Rightarrow> (case llm_completion rt env call (w, m) of
         (r, (w', m')) \<Rightarrow> (r, (w', put_back service_id m' rg))))"

definition answer_text :: "completion_response \<Rightarrow> string result" where
  "answer_text r = (case cp_choices r of
     [] \<Rightarrow> Inl IndexError
   | c # _ \<Rightarrow> (case chat_body c of
       Text s \<Rightarrow> Inr (py_strip s)
     | _ \<Rightarrow> Inl (AttributeError ''strip'')))"

definition request_extraneous_completion ::
  "('w attempt_state, completion_response) retrying \<Rightarrow> 'w llm_env \<Rightarrow> llm_setup \<Rightarrow> string \<Rightarrow> llm_config \<Rightarrow>
   chat list \<Rightarrow> ('w \<times> registry, string) op" where
  "request_extraneous_completion rt env su service_id config ms = (\<lambda>(w, rg).
     case (if has_key (rg_llms rg) service_id then Inr rg else create_new_llm su service_id config False rg) of
       Inl e \<Rightarrow> (Inl e, (w, rg))
     | Inr rg' \<Rightarrow> bindS (complete_service rt env service_id \<lparr>lq_messages = ms, lq_tools = None, lq_options = []\<rparr>)
         (\<lambda>r s. (answer_text r, s)) (w, rg'))"

text \<open>\<open>LLMSummarizingCondenser.from_config\<close> and the other condensers that ask a model.\<close>

definition condenser_llm :: "llm_setup \<Rightarrow> llm_config \<Rightarrow> registry \<Rightarrow> registry result" where
  "condenser_llm su config rg = get_llm su ''condenser'' (Some (config\<lparr>lc_caching_prompt := False\<rparr>)) rg"

section \<open>The multimodal router\<close>

record router =
  ro_max_token_exceeded :: bool
  ro_current :: string

definition SECONDARY :: string where "SECONDARY = ''secondary_model''"

definition router_model_name :: "llm_config \<Rightarrow> (string \<times> llm_config) list \<Rightarrow> string" where
  "router_model_name primary routed =
     ''router('' @ py_join '','' (lc_model primary # map (lc_model \<circ> snd) routed) @ '')''"

fun register_routed :: "llm_setup \<Rightarrow> (string \<times> llm_config) list \<Rightarrow> registry \<Rightarrow> registry result" where
  "register_routed su [] rg = Inr rg"
| "register_routed su ((name, c) # cs) rg =
     bindE (get_llm su (''llm_for_routing.'' @ name) (Some c) rg) (register_routed su cs)"

definition new_router ::
  "llm_setup \<Rightarrow> llm_config \<Rightarrow> (string \<times> llm_config) list \<Rightarrow> registry \<Rightarrow> (router \<times> registry) result" where
  "new_router su config routed rg =
     bindE (get_llm_from_agent_config su ''agent'' config rg) (\<lambda>rg1.
     bindE (register_routed su routed rg1) (\<lambda>rg2.
     case map_of (rg_llms rg2) ''agent'' of
       None \<Rightarrow> Inl (KeyError ''agent'')
     | Some primary \<Rightarrow>
         bindE (new_llm su ''router_llm'' ((lm_config primary)\<lparr>lc_model := router_model_name (lm_config primary) routed\<rparr>)
             None (rg_listener rg)) (\<lambda>_.
           if SECONDARY \<in> fst ` set routed
           then Inr (\<lparr>ro_max_token_exceeded = False, ro_current = ''primary''\<rparr>, rg2)
           else Inl (ValueError (''Secondary LLM config '' @ SECONDARY @ '' not found.'')))))"

text \<open>The count of the tokens is that of the secondary model's tokenizer.\<close>

definition select_llm :: "int \<Rightarrow> llm option \<Rightarrow> message list \<Rightarrow> router \<Rightarrow> string \<times> router" where
  "select_llm tokens secondary ms ro =
     (let exceeds = (case secondary of None \<Rightarrow> False | Some m \<Rightarrow>
            (case lc_max_input_tokens (lm_config m) of None \<Rightarrow> False | Some n \<Rightarrow> n \<noteq> 0 \<and> tokens > n));
          ro' = (if exceeds then ro\<lparr>ro_max_token_exceeded := True\<rparr> else ro);
          key = (if list_ex contains_image ms \<or> ro_max_token_exceeded ro' then ''primary'' else SECONDARY)
      in (key, ro'\<lparr>ro_current := key\<rparr>))"

definition routed_service :: "string \<Rightarrow> string" where
  "routed_service key = (if key = ''primary'' then ''agent'' else ''llm_for_routing.'' @ key)"

end
