(* ===== verification/Llm_Clients.thy ===== *)
theory Llm_Clients
  imports Llm
begin

text \<open>
  Which configurations a client can be built from, and which keyword arguments its requests have.
\<close>

section \<open>Keys\<close>

lemma keys_update: "fst ` set (AList.update k v d) = insert k (fst ` set d)"
  using dom_update [of k v d] by simp

lemma keys_delete: "fst ` set (AList.delete k d) = fst ` set d - {k}"
  using arg_cong [OF delete_keys [of k d], of set] by auto

lemma keys_set_opt: "fst ` set (set_opt k f x d) = (if x = None then {} else {k}) \<union> fst ` set d"
  by (auto simp: set_opt_def keys_update split: option.split)

lemma keys_dict_update: "fst ` set (dict_update d e) = fst ` set d \<union> fst ` set e"
proof (induction e arbitrary: d)
  case (Cons kv e)
  obtain k v where kv: "kv = (k, v)" by (cases kv)
  have "dict_update d (kv # e) = dict_update (AList.update k v d) e" by (simp add: dict_update_def kv)
  with Cons.IH [of "AList.update k v d"] show ?case by (simp add: kv keys_update)
qed (simp add: dict_update_def)

lemmas key_rules = keys_update keys_delete keys_set_opt keys_dict_update

text \<open>The keys a client sends beside those of \<open>completion_kwargs\<close>.\<close>

definition OPTION_KEYS :: "string set" where
  "OPTION_KEYS = {''temperature'', ''max_completion_tokens'', ''max_tokens'', ''top_k'', ''top_p'', ''reasoning_effort'',
     ''thinking'', ''allowed_openai_params'', ''safety_settings'', ''aws_region_name'', ''aws_access_key_id'',
     ''aws_secret_access_key''}"

lemma option_keys [simp]:
  "''temperature'' \<in> OPTION_KEYS" "''max_completion_tokens'' \<in> OPTION_KEYS" "''max_tokens'' \<in> OPTION_KEYS"
  "''top_k'' \<in> OPTION_KEYS" "''top_p'' \<in> OPTION_KEYS" "''reasoning_effort'' \<in> OPTION_KEYS"
  "''thinking'' \<in> OPTION_KEYS" "''allowed_openai_params'' \<in> OPTION_KEYS" "''safety_settings'' \<in> OPTION_KEYS"
  "''aws_region_name'' \<in> OPTION_KEYS" "''aws_access_key_id'' \<in> OPTION_KEYS"
  "''aws_secret_access_key'' \<in> OPTION_KEYS"
  by (simp_all only: OPTION_KEYS_def insert_iff simp_thms)

definition sends_options :: "json_dict \<Rightarrow> bool" where
  "sends_options d \<longleftrightarrow> fst ` set d \<subseteq> OPTION_KEYS"

lemma sends_options_rules [simp]:
  "sends_options (AList.update k v d) \<longleftrightarrow> k \<in> OPTION_KEYS \<and> sends_options (AList.delete k d)"
  "sends_options d \<Longrightarrow> sends_options (AList.delete k d)"
  "sends_options d \<Longrightarrow> k \<in> OPTION_KEYS \<Longrightarrow> sends_options (set_opt k f x d)"
  "sends_options d \<Longrightarrow> k \<in> OPTION_KEYS \<Longrightarrow> sends_options (set_secret k y d)"
  by (auto simp: sends_options_def set_secret_def key_rules)

lemma base_keys: "sends_options (base_kwargs c)" "has_key (base_kwargs c) ''temperature''"
  "has_key (base_kwargs c) ''max_completion_tokens''" "lc_top_p c \<noteq> None \<Longrightarrow> has_key (base_kwargs c) ''top_p''"
  by (auto simp: base_kwargs_def has_key_def key_rules) (simp_all add: sends_options_def key_rules)

lemma reasoning_keys:
  "sends_options d \<Longrightarrow> sends_options (reasoning_kwargs c d)"
  "has_key d k \<Longrightarrow> k \<noteq> ''reasoning_effort'' \<Longrightarrow> has_key (reasoning_kwargs c d) k"
  by (simp_all add: reasoning_kwargs_def has_key_def key_rules)

lemma provider_keys: "sends_options d \<Longrightarrow> sends_options (provider_kwargs c d)"
  by (simp add: provider_kwargs_def sampling_kwargs_def thinking_kwargs_def aws_kwargs_def safety_kwargs_def)

section \<open>Building a client\<close>

lemma reasoning_popped:
  assumes "lc_top_p c \<noteq> None"
  obtains d where "bindE (pop_key ''temperature'' (reasoning_kwargs c (base_kwargs c))) (pop_key ''top_p'') = Inr d"
    and "sends_options d" and "has_key d ''max_completion_tokens''"
proof -
  let ?d = "reasoning_kwargs c (base_kwargs c)"
  have "has_key ?d ''temperature''" "has_key ?d ''top_p''" "has_key ?d ''max_completion_tokens''" "sends_options ?d"
    by (rule reasoning_keys base_keys | use assms in simp)+
  then show thesis
    by (intro that [of "AList.delete ''top_p'' (AList.delete ''temperature'' ?d)"])
      (simp_all add: pop_key_def has_key_def key_rules)
qed

lemma build_kwargs_keys:
  assumes "lc_top_p c \<noteq> None" and "lc_completion_kwargs c = None"
  obtains d where "build_kwargs c = Inr d" and "sends_options d"
proof -
  let ?s = "if supports_reasoning_effort (get_features (lc_model c))
    then bindE (pop_key ''temperature'' (reasoning_kwargs c (base_kwargs c))) (pop_key ''top_p'')
    else Inr (base_kwargs c)"
  obtain d where d: "?s = Inr d" "sends_options d" "has_key d ''max_completion_tokens''"
  proof (cases "supports_reasoning_effort (get_features (lc_model c))")
    case True
    with reasoning_popped [OF assms(1)] that show thesis by auto
  next
    case False
    with that base_keys show thesis by simp
  qed
  let ?t = "if prefix ''azure'' (lc_model c)
    then pop_key ''max_completion_tokens'' (AList.update ''max_tokens'' (opt_json JInt (lc_max_output_tokens c)) d)
    else Inr d"
  obtain e where e: "?t = Inr e" "sends_options e"
  proof (cases "prefix ''azure'' (lc_model c)")
    case True
    let ?u = "AList.update ''max_tokens'' (opt_json JInt (lc_max_output_tokens c)) d"
    have "has_key ?u ''max_completion_tokens''" using d(3) by (simp add: has_key_def key_rules)
    moreover have "sends_options (AList.delete ''max_completion_tokens'' ?u)" using d(2) by simp
    ultimately show thesis using True that by (simp add: pop_key_def)
  next
    case False
    with d(2) that show thesis by simp
  qed
  have "build_kwargs c = Inr (provider_kwargs c e)"
    unfolding build_kwargs_def d(1) bindE_simps e(1) by (simp add: assms(2) dict_update_def)
  with provider_keys [OF e(2)] that show thesis by blast
qed

lemma completion_kwargs_built:
  assumes "lc_top_p c \<noteq> None" and "lc_completion_kwargs c = None"
  obtains d where "completion_kwargs c = Inr (fixed_kwargs c @ d)" and "sends_options d"
proof -
  obtain d where d: "build_kwargs c = Inr d" "sends_options d" using assms by (rule build_kwargs_keys)
  have "\<forall>k \<in> set (map fst (fixed_kwargs c)). k \<notin> OPTION_KEYS"
    by (simp add: fixed_kwargs_def OPTION_KEYS_def)
  with d(2) have "\<not> list_ex (has_key d) (map fst (fixed_kwargs c))"
    by (auto simp: list_ex_iff has_key_def sends_options_def)
  with d that show thesis by (simp add: completion_kwargs_def)
qed

lemma set_limits_keeps:
  "lc_model (set_limits info c) = lc_model c"
  "lc_completion_kwargs (set_limits info c) = lc_completion_kwargs c"
  "lc_top_p (set_limits info c) =
     (if prefix ''huggingface'' (lc_model c) \<and> lc_top_p c = Some 1 then Some (9 / 10) else lc_top_p c)"
  by (simp_all add: set_limits_def Let_def)

lemma rewrite_keeps:
  "lc_completion_kwargs (rewrite_model su c) = lc_completion_kwargs c"
  "lc_top_p (rewrite_model su c) = lc_top_p c"
  by (simp_all add: rewrite_model_def)

text \<open>A client is built whenever its model's information can be looked up.\<close>

lemma new_llm_built:
  assumes "find_model_info su c = Inr info" and "lc_top_p c \<noteq> None" and "lc_completion_kwargs c = None"
  obtains m where "new_llm su sid c ms l = Inr m"
proof -
  let ?c = "rewrite_model su (set_limits info c)"
  have "lc_top_p ?c \<noteq> None"
    unfolding rewrite_keeps set_limits_keeps using assms(2)
    by (cases "prefix ''huggingface'' (lc_model c) \<and> lc_top_p c = Some 1") (simp_all only: if_True if_False option.distinct simp_thms)
  moreover have "lc_completion_kwargs ?c = None" using assms(3) by (simp add: set_limits_keeps rewrite_keeps)
  ultimately obtain d where "completion_kwargs ?c = Inr (fixed_kwargs ?c @ d)" by (rule completion_kwargs_built)
  with assms(1) that show thesis by (simp add: new_llm_def init_model_info_def Let_def)
qed

text \<open>The models that refuse it are never sent both sampling parameters.\<close>

lemma one_sampling_parameter_sent:
  assumes "one_sampling_parameter (py_lower (lc_model c))"
  shows "\<not> (has_key (provider_kwargs c d) ''temperature'' \<and> has_key (provider_kwargs c d) ''top_p'')"
  using assms by (simp add: provider_kwargs_def sampling_kwargs_def has_key_def key_rules)

end
