(* ===== verification/Fn_Call_Facts.thy ===== *)
theory Fn_Call_Facts
  imports Fn_Call_Converter
begin

text \<open>
  What is written is read back: the calls of the converter go through text without loss, as long
  as the texts in them do not contain the tags of the format.
\<close>

section \<open>Tags of the format\<close>

lemma tags [simp]:
  "is_tag ''<function=''" "is_tag ''</function>''" "is_tag ''<parameter=''" "is_tag ''</parameter>''"
  by (simp_all add: is_tag_def)

lemma LF_simps [simp]: "LF = [CHR 0x0A]"
  by (simp add: LF_def)

text \<open>A tag does not begin in a text that does not contain it and ends before the next \<open><\<close>.\<close>

lemma not_tag_at:
  assumes "is_tag t" and "\<not> prefix t x" and "x \<noteq> []" and "b = [] \<or> hd b \<notin> set (tl t)"
  shows "\<not> prefix t (x @ b)"
proof
  assume "prefix t (x @ b)"
  then obtain z where z: "x @ b = t @ z" by (auto elim: prefixE)
  show False
  proof (cases "length t \<le> length x")
    case True
    with z have "prefix t x" by (metis append_eq_append_conv_if append_take_drop_id prefix_def)
    with assms(2) show False by simp
  next
    case False
    have "b \<noteq> []"
    proof
      assume "b = []"
      with z have "length x = length t + length z" by (metis append_Nil2 length_append)
      with False show False by simp
    qed
    from False assms(3) have "(t @ z) ! length x = tl t ! (length x - 1)" "length x - 1 < length (tl t)"
      by (cases t; cases x; simp add: nth_append)+
    moreover have "(x @ b) ! length x = hd b" using \<open>b \<noteq> []\<close> by (cases b) (auto simp: nth_append)
    ultimately have "hd b \<in> set (tl t)" using z by (metis nth_mem)
    with assms(4) \<open>b \<noteq> []\<close> show False by simp
  qed
qed

lemma after_prefix_append [simp]: "after_prefix p (p @ s) = Some s"
  by (simp add: after_prefix_def)

lemma after_prefix_None: "\<not> prefix p s \<Longrightarrow> after_prefix p s = None"
  by (simp add: after_prefix_def)

lemma match_NoneI:
  "\<not> prefix ''<function='' s \<Longrightarrow> match_call s = None"
  "\<not> prefix ''<parameter='' s \<Longrightarrow> match_param s = None"
  "\<not> prefix ''<parameter='' s \<Longrightarrow> match_malformed s = None"
  by (simp_all add: match_call_def match_param_def match_malformed_def after_prefix_None)

section \<open>Scanning past texts without tags\<close>

lemma search_call_skip:
  assumes "\<not> occurs_in ''<function='' x" and "b = [] \<or> hd b \<notin> set ''function=''"
  shows "search_call (x @ b) = search_call b"
  using assms(1)
proof (induction x)
  case (Cons c x)
  then have "\<not> prefix ''<function='' (c # x)" "\<not> occurs_in ''<function='' x" by auto
  moreover from not_tag_at [OF tags(1) this(1) _ , of b] assms(2)
  have "\<not> prefix ''<function='' ((c # x) @ b)" by simp
  ultimately show ?case using Cons.IH by (simp add: match_NoneI del: prefix_code)
qed simp

lemma find_params_skip:
  assumes "\<not> occurs_in ''<parameter='' x" and "b = [] \<or> hd b \<notin> set ''parameter=''"
  shows "find_params (x @ b) = find_params b"
  using assms(1)
proof (induction x)
  case (Cons c x)
  then have "\<not> prefix ''<parameter='' (c # x)" "\<not> occurs_in ''<parameter='' x" by auto
  moreover from not_tag_at [OF tags(3) this(1) _ , of b] assms(2)
  have "\<not> prefix ''<parameter='' ((c # x) @ b)" by simp
  ultimately show ?case using Cons.IH by (simp add: match_NoneI del: prefix_code)
qed simp

lemma normalize_skip:
  assumes "\<not> occurs_in ''<parameter='' x" and "b = [] \<or> hd b \<notin> set ''parameter=''"
  shows "normalize_parameter_tags (x @ b) = x @ normalize_parameter_tags b"
  using assms(1)
proof (induction x)
  case (Cons c x)
  then have "\<not> prefix ''<parameter='' (c # x)" "\<not> occurs_in ''<parameter='' x" by auto
  moreover from not_tag_at [OF tags(3) this(1) _ , of b] assms(2)
  have "\<not> prefix ''<parameter='' ((c # x) @ b)" by simp
  ultimately show ?case using Cons.IH by (simp add: match_NoneI del: prefix_code)
qed simp

lemma normalize_plain:
  "CHR ''<'' \<notin> set x \<Longrightarrow> normalize_parameter_tags (x @ b) = x @ normalize_parameter_tags b"
  by (induction x) (auto simp: match_NoneI)

lemma scan_Cons:
  "match_param s = Some (n, v, rest) \<Longrightarrow> find_params s = (n, v) # find_params rest"
  "match_malformed s = None \<Longrightarrow> s = c # t \<Longrightarrow> normalize_parameter_tags s = c # normalize_parameter_tags t"
  by (cases s; simp add: match_param_def after_prefix_def)
    (simp only: normalize_parameter_tags.simps option.case)

section \<open>Written parameters are found again\<close>

definition arg_text :: "fn_codec \<Rightarrow> json \<Rightarrow> string" where
  "arg_text fc v = (case v of JList vs \<Rightarrow> fc_dumps fc v | JDict d \<Rightarrow> fc_dumps fc v | _ \<Rightarrow> format_value fc v)"

lemma param_text_eq:
  "param_text fc (k, v) = ''<parameter='' @ k @ ''>'' @ arg_text fc v @ ''</parameter>'' @ LF"
  by (cases v) (simp_all add: param_text_def arg_text_def)

text \<open>A name of word characters, and a value without tags.\<close>

definition readable_arg :: "fn_codec \<Rightarrow> string \<times> json \<Rightarrow> bool" where
  "readable_arg fc kv \<longleftrightarrow> fst kv \<noteq> [] \<and> list_all is_word_char (fst kv) \<and>
     \<not> occurs_in ''<parameter='' (arg_text fc (snd kv)) \<and>
     \<not> occurs_in ''</parameter>'' (arg_text fc (snd kv)) \<and>
     \<not> occurs_in ''</function>'' (arg_text fc (snd kv))"

lemma word_char_facts [simp]:
  "\<not> is_word_char CHR ''>''" "\<not> is_word_char CHR ''<''" "\<not> is_word_char CHR ''=''"
  by (simp_all add: is_word_char_def)

lemma word_no:
  assumes "list_all is_word_char k"
  shows "CHR ''>'' \<notin> set k" and "CHR ''<'' \<notin> set k"
  using assms by (auto simp: list_all_iff)

lemma take_word: "list_all is_word_char k \<Longrightarrow> takeWhile is_word_char (k @ CHR ''>'' # r) = k"
  by (subst takeWhile_append2) (auto simp: list_all_iff)

lemma take_name: "CHR ''>'' \<notin> set k \<Longrightarrow> takeWhile (\<lambda>c. c \<noteq> CHR ''>'') (k @ CHR ''>'' # r) = k"
  by (subst takeWhile_append2) auto

lemma match_param_written:
  assumes "readable_arg fc (k, v)"
  shows "match_param (param_text fc (k, v) @ rest) = Some (k, arg_text fc v, LF @ rest)"
proof -
  have k: "k \<noteq> []" "CHR ''>'' \<notin> set k" using assms word_no by (auto simp: readable_arg_def)
  have "split_first ''</parameter>'' (arg_text fc v @ ''</parameter>'' @ (LF @ rest)) = Some (arg_text fc v, LF @ rest)"
    using assms by (intro split_first_tag) (auto simp: readable_arg_def)
  then show ?thesis
    using k unfolding match_param_def param_text_eq append_assoc after_prefix_append
    by (simp add: take_name Let_def after_prefix_def del: LF_simps)
qed

lemma match_malformed_written:
  assumes "readable_arg fc (k, v)"
  shows "match_malformed (param_text fc (k, v) @ rest) = None"
proof -
  have k: "list_all is_word_char k" using assms by (auto simp: readable_arg_def)
  show ?thesis
    using k unfolding match_malformed_def param_text_eq append_assoc after_prefix_append
    by (simp add: take_word Let_def after_prefix_def)
qed

definition body_text :: "fn_codec \<Rightarrow> json_dict \<Rightarrow> string" where
  "body_text fc args = concat (map (param_text fc) args)"

lemma body_text_simps [simp]:
  "body_text fc [] = []"
  "body_text fc (kv # args) = param_text fc kv @ body_text fc args"
  by (simp_all add: body_text_def)

lemma body_text_start: "body_text fc args = [] \<or> hd (body_text fc args) = CHR ''<''"
  by (cases args) (auto simp: param_text_eq)

lemma param_text_hd: "param_text fc kv = CHR ''<'' # tl (param_text fc kv)"
  by (cases kv) (simp add: param_text_eq)

lemma find_params_body:
  "list_all (readable_arg fc) args \<Longrightarrow> find_params (body_text fc args) = map (\<lambda>(k, v). (k, arg_text fc v)) args"
proof (induction args)
  case (Cons kv args)
  obtain k v where kv: "kv = (k, v)" by (cases kv)
  from Cons.prems have r: "readable_arg fc (k, v)" by (simp add: kv)
  have "find_params (param_text fc kv @ body_text fc args) =
      (k, arg_text fc v) # find_params (LF @ body_text fc args)"
    unfolding kv by (rule scan_Cons(1) [OF match_param_written [OF r]])
  also have "find_params (LF @ body_text fc args) = find_params (body_text fc args)"
    using body_text_start [of fc args] by (intro find_params_skip) auto
  finally show ?case using Cons by (simp add: kv)
qed simp

lemma normalize_body:
  "list_all (readable_arg fc) args \<Longrightarrow> normalize_parameter_tags (body_text fc args) = body_text fc args"
proof (induction args)
  case (Cons kv args)
  obtain k v where kv: "kv = (k, v)" by (cases kv)
  from Cons.prems have r: "readable_arg fc (k, v)" by (simp add: kv)
  let ?rest = "body_text fc args"
  let ?inner = "''parameter='' @ k @ ''>''"
  let ?after = "''</parameter>'' @ LF"
  have start: "?rest = [] \<or> hd ?rest \<notin> set ''parameter=''" using body_text_start [of fc args] by auto
  have no: "CHR ''<'' \<notin> set ?inner" using r word_no by (auto simp: readable_arg_def)
  have whole: "param_text fc kv @ ?rest = CHR ''<'' # ?inner @ (arg_text fc v @ (?after @ ?rest))"
    by (simp add: kv param_text_eq)
  have "normalize_parameter_tags (param_text fc kv @ ?rest) =
      CHR ''<'' # normalize_parameter_tags (?inner @ (arg_text fc v @ (?after @ ?rest)))"
    by (rule scan_Cons(2) [OF _ whole]) (simp only: kv match_malformed_written [OF r])
  also have "normalize_parameter_tags (?inner @ (arg_text fc v @ (?after @ ?rest))) =
      ?inner @ normalize_parameter_tags (arg_text fc v @ (?after @ ?rest))"
    using no by (rule normalize_plain)
  also have "normalize_parameter_tags (arg_text fc v @ (?after @ ?rest)) =
      arg_text fc v @ normalize_parameter_tags (?after @ ?rest)"
    using r by (intro normalize_skip) (auto simp: readable_arg_def)
  also have "normalize_parameter_tags (?after @ ?rest) = ?after @ normalize_parameter_tags ?rest"
    using start by (intro normalize_skip) auto
  finally show ?case using Cons whole by (simp add: kv)
qed simp

text \<open>The closing tag of a call is not in the parameters.\<close>

lemma no_suffix_append:
  assumes "\<forall>i < length a. \<not> prefix (drop i a) t" and "\<not> occurs_in t a" and "\<not> occurs_in t b" and "t \<noteq> []"
  shows "\<not> occurs_in t (a @ b)"
proof
  assume "occurs_in t (a @ b)"
  then obtain x y where e: "a @ b = x @ t @ y" by (auto simp: occurs_in_iff)
  show False
  proof (cases "length a \<le> length x")
    case True
    with e have "b = drop (length a) x @ t @ y"
      by (metis append_eq_append_conv_if append_eq_conv_conj drop_append)
    with assms(3) show False by (auto simp: occurs_in_iff)
  next
    case False
    then have i: "length x < length a" by simp
    have d: "drop (length x) a @ b = t @ y"
      using e i by (metis append_eq_conv_conj drop_append diff_is_0_eq drop0 less_imp_le_nat)
    show False
    proof (cases "length t \<le> length (drop (length x) a)")
      case True
      with d have "prefix t (drop (length x) a)"
        by (metis append_eq_append_conv_if append_take_drop_id prefix_def)
      then obtain z where "drop (length x) a = t @ z" by (auto elim: prefixE)
      then have "a = take (length x) a @ t @ z" by (metis append_take_drop_id)
      with assms(2) show False by (auto simp: occurs_in_iff)
    next
      case False
      with d have "prefix (drop (length x) a) t"
        by (metis append_eq_append_conv_if append_take_drop_id linear prefix_def)
      with assms(1) i show False by blast
    qed
  qed
qed

lemma no_lt_no_tag: "CHR ''<'' \<notin> set x \<Longrightarrow> t = CHR ''<'' # u \<Longrightarrow> \<not> occurs_in t x"
  by (auto simp: occurs_in_iff)

lemma open_param_no_close:
  assumes "list_all is_word_char k"
  shows "\<not> occurs_in ''</function>'' (''<parameter='' @ k @ ''>'')"
    and "\<forall>i < length (''<parameter='' @ k @ ''>''). \<not> prefix (drop i (''<parameter='' @ k @ ''>'')) ''</function>''"
proof -
  let ?inner = "''parameter='' @ k @ ''>''"
  have no: "CHR ''<'' \<notin> set ?inner" using word_no(2) [OF assms] by auto
  have whole: "''<parameter='' @ k @ ''>'' = CHR ''<'' # ?inner" by simp
  show "\<not> occurs_in ''</function>'' (''<parameter='' @ k @ ''>'')"
    using no_lt_no_tag [OF no] by simp
  show "\<forall>i < length (''<parameter='' @ k @ ''>''). \<not> prefix (drop i (''<parameter='' @ k @ ''>'')) ''</function>''"
  proof (intro allI impI)
    fix i
    assume i: "i < length (''<parameter='' @ k @ ''>'')"
    show "\<not> prefix (drop i (''<parameter='' @ k @ ''>'')) ''</function>''"
    proof (cases i)
      case 0
      then show ?thesis by simp
    next
      case (Suc j)
      with i have "j < length ?inner" by simp
      then have d: "drop j ?inner = ?inner ! j # drop (Suc j) ?inner" by (rule Cons_nth_drop_Suc [symmetric])
      have "?inner ! j \<noteq> CHR ''<''" using no nth_mem [OF \<open>j < length ?inner\<close>] by metis
      with d show ?thesis unfolding whole Suc by simp
    qed
  qed
qed

lemma body_no_close: "list_all (readable_arg fc) args \<Longrightarrow> \<not> occurs_in ''</function>'' (body_text fc args)"
proof (induction args)
  case (Cons kv args)
  obtain k v where kv: "kv = (k, v)" by (cases kv)
  from Cons.prems have r: "readable_arg fc (k, v)" by (simp add: kv)
  let ?rest = "body_text fc args"
  have rest: "\<not> occurs_in ''</function>'' ?rest" using Cons by simp
  have start: "?rest = [] \<or> hd ?rest \<notin> set (tl ''</function>'')" using body_text_start [of fc args] by auto
  have k: "list_all is_word_char k" and v: "\<not> occurs_in ''</function>'' (arg_text fc v)"
    using r by (simp_all add: readable_arg_def)
  have after: "\<not> occurs_in ''</function>'' ((''</parameter>'' @ LF) @ ?rest)"
    by (rule tag_append [OF tags(2) _ rest start]) simp
  have "\<not> occurs_in ''</function>'' (arg_text fc v @ (''</parameter>'' @ LF) @ ?rest)"
    by (rule tag_append [OF tags(2) v after]) simp
  then have "\<not> occurs_in ''</function>'' ((''<parameter='' @ k @ ''>'') @ arg_text fc v @ (''</parameter>'' @ LF) @ ?rest)"
    by (rule no_suffix_append [OF open_param_no_close(2) [OF k] open_param_no_close(1) [OF k]]) simp
  then show ?case by (simp add: kv param_text_eq)
qed simp

lemma call_text_eq: "call_text fc name args = ''<function='' @ name @ ''>'' @ LF @ body_text fc args @ ''</function>''"
  by (simp add: call_text_def body_text_def)

lemma match_call_written:
  assumes "list_all (readable_arg fc) args" and "name \<noteq> []" and "CHR ''>'' \<notin> set name"
  shows "match_call (call_text fc name args @ rest) = Some (name, body_text fc args)"
proof -
  have "split_first ''</function>'' (body_text fc args @ ''</function>'' @ rest) = Some (body_text fc args, rest)"
    by (intro split_first_tag tags body_no_close assms(1))
  then show ?thesis
    using assms(2,3) unfolding match_call_def call_text_eq append_assoc after_prefix_append
    by (simp add: take_name Let_def after_prefix_def)
qed

text \<open>The call is found behind any text without an opening tag.\<close>

lemma search_call_written:
  assumes "\<not> occurs_in ''<function='' c" and "list_all (readable_arg fc) args" and "name \<noteq> []" and "CHR ''>'' \<notin> set name"
  shows "search_call (c @ call_text fc name args @ rest) = Some (name, body_text fc args)"
proof -
  have "search_call (c @ call_text fc name args @ rest) = search_call (call_text fc name args @ rest)"
    by (rule search_call_skip [OF assms(1)]) (simp add: call_text_eq)
  also have "\<dots> = Some (name, body_text fc args)"
    using match_call_written [OF assms(2-4), of rest]
    by (cases "call_text fc name args @ rest") (simp_all add: call_text_eq)
  finally show ?thesis .
qed

section \<open>Checked parameters are the arguments\<close>

text \<open>A value is of the type its tool declares, and an array is one that JSON preserves.\<close>

definition exact_json :: "fn_codec \<Rightarrow> json \<Rightarrow> bool" where
  "exact_json fc v \<longleftrightarrow> fc_loads fc (fc_dumps fc v) = Some v"

fun is_JInt :: "json \<Rightarrow> bool" where
  "is_JInt (JInt _) = True"
| "is_JInt _ = False"

fun is_JStr :: "json \<Rightarrow> bool" where
  "is_JStr (JStr _) = True"
| "is_JStr _ = False"

fun is_JList :: "json \<Rightarrow> bool" where
  "is_JList (JList _) = True"
| "is_JList _ = False"

lemma json_kinds:
  "is_JInt v \<longleftrightarrow> (\<exists>i. v = JInt i)" "is_JStr v \<longleftrightarrow> (\<exists>s. v = JStr s)" "is_JList v \<longleftrightarrow> (\<exists>vs. v = JList vs)"
  by (cases v; simp)+

definition fits :: "fn_codec \<Rightarrow> param_info \<Rightarrow> json \<Rightarrow> bool" where
  "fits fc info v \<longleftrightarrow>
     (if info_type info = ''integer'' then is_JInt v
      else if info_type info = ''array'' then is_JList v \<and> exact_json fc v
      else is_JStr v) \<and> enum_allows info v"

definition acceptable_args :: "fn_codec \<Rightarrow> tool_def \<Rightarrow> json_dict \<Rightarrow> bool" where
  "acceptable_args fc t args \<longleftrightarrow> distinct (map fst args) \<and> list_all (readable_arg fc) args \<and>
     list_all (\<lambda>(k, v). case map_of (tool_properties t) k of None \<Rightarrow> False | Some info \<Rightarrow> fits fc info v) args \<and>
     list_all (has_key args) (tool_required t)"

lemma convert_param_fits:
  assumes "fits fc info v"
  shows "convert_param fc info k (arg_text fc v) = Inr v"
  using assms by (auto simp: convert_param_def fits_def json_kinds arg_text_def exact_json_def py_int_str split: if_splits)

lemma update_new: "k \<notin> fst ` set d \<Longrightarrow> AList.update k v d = d @ [(k, v)]"
  by (induction d) auto

lemma collect_params_args:
  assumes "list_all (\<lambda>(k, v). case map_of (tool_properties t) k of None \<Rightarrow> False | Some info \<Rightarrow> fits fc info v) args"
    and "distinct (map fst (acc @ args))"
  shows "collect_params fc t (map (\<lambda>(k, v). (k, arg_text fc v)) args) acc = Inr (acc @ args)"
  using assms
proof (induction args arbitrary: acc)
  case (Cons kv args)
  obtain k v where kv: "kv = (k, v)" by (cases kv)
  from Cons.prems(1) obtain info where info: "map_of (tool_properties t) k = Some info" "fits fc info v"
    by (auto simp: kv split: option.splits)
  have new: "k \<notin> fst ` set acc" using Cons.prems(2) by (auto simp: kv)
  have ok: "enum_allows info v" using info(2) by (simp add: fits_def)
  have "collect_params fc t (map (\<lambda>(k, v). (k, arg_text fc v)) args) (acc @ [(k, v)]) = Inr ((acc @ [(k, v)]) @ args)"
    using Cons.prems by (intro Cons.IH) (auto simp: kv)
  with info new ok show ?case
    by (simp add: kv convert_param_fits update_new)
qed simp

lemma read_call_written:
  assumes "matching_tool tools name = Some t" and "acceptable_args fc t args"
  shows "read_call fc tools n (name, body_text fc args) =
    Inr \<lparr>call_index = Some 1, call_id = Some (tool_call_number n), call_type = Some ''function'',
         call_function = Some (name, fc_dumps fc (JDict args))\<rparr>"
proof -
  have a: "distinct (map fst args)" "list_all (readable_arg fc) args"
    "list_all (\<lambda>(k, v). case map_of (tool_properties t) k of None \<Rightarrow> False | Some info \<Rightarrow> fits fc info v) args"
    "list_all (has_key args) (tool_required t)"
    using assms(2) by (simp_all add: acceptable_args_def)
  have "extract_and_validate_params fc t (find_params (normalize_parameter_tags (body_text fc args))) = Inr args"
    using collect_params_args [OF a(3), of "[]"] a
    by (simp add: extract_and_validate_params_def normalize_body find_params_body)
  with assms(1) show ?thesis by (simp add: read_call_def)
qed

section \<open>Texts around calls and results\<close>

text \<open>The line that begins the description of the tools, and the one that ends the task.\<close>

definition SYSTEM_MARK :: string where
  "SYSTEM_MARK = LF @ ''You have access to the following functions:''"

definition EXAMPLE_MARK :: string where
  "EXAMPLE_MARK = LF @ ''--------------------- END OF NEW TASK DESCRIPTION ---------------------''"

lemma marks [simp]: "is_tag SYSTEM_MARK" "is_tag EXAMPLE_MARK"
  by (simp_all add: is_tag_def SYSTEM_MARK_def EXAMPLE_MARK_def)

lemma system_suffix_mark: "\<exists>r. SYSTEM_PROMPT_SUFFIX d = SYSTEM_MARK @ r"
  unfolding SYSTEM_PROMPT_SUFFIX_def SYSTEM_MARK_def py_join.simps append_assoc append_Nil
  by (rule exI) (rule refl)

lemma example_suffix_mark: "\<exists>r. EXAMPLE_SUFFIX = EXAMPLE_MARK @ r"
  unfolding EXAMPLE_SUFFIX_def EXAMPLE_MARK_def py_join.simps append_assoc append_Nil
  by (rule exI) (rule refl)

lemma split_first_marked:
  assumes "is_tag a" and "\<not> occurs_in a s"
  shows "split_first (a @ r) (s @ (a @ r) @ z) = Some (s, z)"
  using assms(2)
proof (induction s)
  case Nil
  from assms(1) obtain x xs where "a = x # xs" by (cases a) (auto simp: is_tag_def)
  then show ?case by simp
next
  case (Cons c s)
  then have no: "\<not> prefix a (c # s)" "\<not> occurs_in a s" by auto
  have "\<not> prefix (a @ r) ((c # s) @ (a @ r) @ z)"
  proof
    assume "prefix (a @ r) ((c # s) @ (a @ r) @ z)"
    then have "prefix a ((c # s) @ a @ (r @ z))" by (auto elim: append_prefixD)
    with tag_prefix_append [OF assms(1) _ no(1)] show False by blast
  qed
  with Cons.IH [OF no(2)] show ?case by simp
qed

lemma without_system_suffix:
  "\<not> occurs_in SYSTEM_MARK s \<Longrightarrow> before_first (SYSTEM_PROMPT_SUFFIX d) (s @ SYSTEM_PROMPT_SUFFIX d) = s"
  using system_suffix_mark [of d] split_first_marked [OF marks(1), of s _ "[]"]
  by (auto simp: before_first_def)

lemma no_mark_no_suffix: "\<not> occurs_in EXAMPLE_MARK s \<Longrightarrow> \<not> suffix EXAMPLE_SUFFIX s"
  using example_suffix_mark by (auto simp: occurs_in_iff suffix_def)

lemma without_example_absent:
  assumes "\<not> occurs_in EXAMPLE_MARK s" and "example = [] \<or> \<not> prefix example s"
  shows "without_example example s = s"
proof -
  have "remove_first [] s = s" by (cases s) (simp_all add: remove_first_def)
  with assms no_mark_no_suffix [OF assms(1)] show ?thesis
    by (auto simp: without_example_def Let_def)
qed

lemma without_example_present:
  assumes "\<not> occurs_in EXAMPLE_MARK s"
  shows "without_example example (example @ s @ EXAMPLE_SUFFIX) = s"
proof -
  obtain r where r: "EXAMPLE_SUFFIX = EXAMPLE_MARK @ r" using example_suffix_mark by blast
  have "split_first EXAMPLE_SUFFIX (s @ EXAMPLE_SUFFIX) = Some (s, [])"
    using split_first_marked [OF marks(2) assms, of r "[]"] by (simp add: r)
  then have "remove_first EXAMPLE_SUFFIX (s @ EXAMPLE_SUFFIX) = s" by (simp add: remove_first_def)
  then show ?thesis
    by (simp add: without_example_def Let_def remove_first_prefix suffix_def)
qed

lemma py_strip_shorter: "length (py_strip s) \<le> length s"
  unfolding py_strip_def length_rev
  by (rule order_trans [OF length_dropWhile_le]) (simp add: length_dropWhile_le)

lemma py_strip_Nil [simp]: "py_strip [] = []"
  by (simp add: py_strip_def)

lemma stripped_head:
  assumes "py_strip s = s" and "s \<noteq> []"
  shows "\<not> is_space (hd s)"
proof
  assume "is_space (hd s)"
  with assms(2) have "py_strip s = py_strip (tl s)" by (cases s) (simp_all add: py_strip_def)
  with assms(1) have "length (py_strip (tl s)) = length s" by simp
  with py_strip_shorter [of "tl s"] assms(2) show False by (cases s) simp_all
qed

lemma strip_spaces:
  assumes "py_strip s = s" and "\<forall>c \<in> set ws. is_space c"
  shows "py_strip (s @ ws) = s"
proof (cases s)
  case Nil
  have "dropWhile is_space ws = []" using assms(2) by simp
  with Nil show ?thesis unfolding py_strip_def by (simp del: dropWhile_eq_Nil_conv)
next
  case (Cons c cs)
  have "\<not> is_space c" using stripped_head [OF assms(1)] by (simp add: Cons)
  then have d: "dropWhile is_space (s @ ws) = s @ ws" "dropWhile is_space s = s" by (simp_all add: Cons)
  have "dropWhile is_space (rev ws @ rev s) = dropWhile is_space (rev s)"
    using assms(2) by (intro dropWhile_append2) auto
  with d assms(1) show ?thesis by (simp add: py_strip_def)
qed

lemma lstrip_stripped:
  assumes "py_strip s = s" and "s \<noteq> []"
  shows "py_lstrip (s @ r) = s @ r"
  using stripped_head [OF assms] assms(2) by (cases s) (simp_all add: py_lstrip_def)

text \<open>A stripped text, the written call behind it, and back.\<close>

definition lead :: "string \<Rightarrow> string" where
  "lead s = (if s = [] then [] else s @ LF @ LF)"

lemma lead_text:
  assumes "py_strip s = s"
  shows "py_lstrip (s @ LF @ LF @ call_text fc name args) = lead s @ call_text fc name args"
proof (cases "s = []")
  case True
  then show ?thesis by (simp add: lead_def py_lstrip_def is_space_def call_text_eq)
next
  case False
  from lstrip_stripped [OF assms False, of "LF @ LF @ call_text fc name args"] False
  show ?thesis by (simp add: lead_def)
qed

lemma lead_facts:
  assumes "py_strip s = s" and "\<not> occurs_in ''<function='' s"
  shows "\<not> occurs_in ''<function='' (lead s)" and "py_strip (lead s) = s"
proof -
  have "\<not> occurs_in ''<function='' (s @ LF @ LF)"
    using assms(2) by (intro tag_append tags) auto
  then show "\<not> occurs_in ''<function='' (lead s)" by (simp add: lead_def)
  show "py_strip (lead s) = s"
    using strip_spaces [OF assms(1), of "LF @ LF"] by (auto simp: lead_def is_space_def assms(1))
qed

lemma fix_stopword_written:
  "\<exists>rest. fix_stopword (c @ call_text fc name args) = c @ call_text fc name args @ rest"
proof -
  have "\<not> suffix ''</'' (c @ call_text fc name args)"
  proof
    assume "suffix ''</'' (c @ call_text fc name args)"
    then obtain z where "c @ call_text fc name args = z @ ''</''" by (auto simp: suffix_def)
    then have "last (c @ call_text fc name args) = last (z @ ''</'')" by simp
    then show False by (simp add: call_text_eq)
  qed
  then show ?thesis by (auto simp: fix_stopword_def)
qed

lemma written_call_read:
  assumes "py_strip s = s" and "\<not> occurs_in ''<function='' s"
    and "list_all (readable_arg fc) args" and "name \<noteq> []" and "CHR ''>'' \<notin> set name"
  defines "w \<equiv> fix_stopword (py_lstrip (s @ LF @ LF @ call_text fc name args))"
  shows "search_call w = Some (name, body_text fc args)" and "before_call w = s"
proof -
  obtain rest where w: "w = lead s @ call_text fc name args @ rest"
    using fix_stopword_written unfolding w_def lead_text [OF assms(1)] by blast
  note lead = lead_facts [OF assms(1,2)]
  show "search_call w = Some (name, body_text fc args)"
    unfolding w by (rule search_call_written [OF lead(1) assms(3-5)])
  have "before_first ''<function='' w = lead s"
    using before_first_tag [OF tags(1) lead(1)] by (simp add: w call_text_eq)
  with lead(2) show "before_call w = s" by (simp add: before_call_def)
qed

lemma search_result_written:
  assumes "\<not> occurs_in ('']:'' @ LF) name"
  shows "search_result (result_prefix name @ r) = Some (name, r)"
proof -
  have "is_tag ('']:'' @ LF)" by (simp add: is_tag_def)
  from split_first_tag [OF this assms, of r]
  have "match_result (result_prefix name @ r) = Some (name, r)"
    unfolding match_result_def result_prefix_def append_assoc after_prefix_append by simp
  then show ?thesis
    by (cases "result_prefix name @ r") (simp_all add: result_prefix_def)
qed

lemma search_result_absent: "\<not> occurs_in ''EXECUTION RESULT of ['' s \<Longrightarrow> search_result s = None"
  by (induction s) (auto simp: match_result_def after_prefix_def)

lemma search_call_absent: "\<not> occurs_in ''<function='' s \<Longrightarrow> search_call s = None"
  using search_call_skip [of s "[]"] by simp

lemma fix_stopword_absent: "\<not> occurs_in ''<function='' s \<Longrightarrow> fix_stopword s = s"
  by (simp add: fix_stopword_def count_of.simps [of "''<function=''" s] split_first_None [symmetric])

section \<open>Conversations that survive the way through text\<close>

definition body_texts :: "body \<Rightarrow> string list" where
  "body_texts b = (case b of Text s \<Rightarrow> [s] | Items xs \<Rightarrow> List.map_filter item_text xs | No_Content \<Rightarrow> [])"

text \<open>The text a call is written behind: the body or its last item.\<close>

definition last_text :: "body \<Rightarrow> string option" where
  "last_text b = (case b of Text s \<Rightarrow> Some s
     | Items xs \<Rightarrow> (if ends_with_text xs then item_text (last xs) else None) | No_Content \<Rightarrow> None)"

definition system_ok :: "body \<Rightarrow> bool" where
  "system_ok b \<longleftrightarrow> (case last_text b of None \<Rightarrow> False | Some s \<Rightarrow> \<not> occurs_in SYSTEM_MARK s)"

definition user_text_ok :: "string \<Rightarrow> string \<Rightarrow> bool" where
  "user_text_ok example s \<longleftrightarrow> \<not> occurs_in EXAMPLE_MARK s \<and> \<not> occurs_in ''EXECUTION RESULT of ['' s \<and>
     (example = [] \<or> \<not> prefix example s)"

definition user_ok :: "string \<Rightarrow> bool \<Rightarrow> body \<Rightarrow> bool" where
  "user_ok example first b \<longleftrightarrow> b \<noteq> No_Content \<and> b \<noteq> Items [] \<and>
     list_all (user_text_ok example) (body_texts b) \<and>
     (first \<and> example \<noteq> [] \<longrightarrow> (case b of Items xs \<Rightarrow> item_text (hd xs) \<noteq> None | _ \<Rightarrow> True))"

definition no_call_ok :: "body \<Rightarrow> bool" where
  "no_call_ok b \<longleftrightarrow> list_all (\<lambda>s. \<not> occurs_in ''<function='' s) (body_texts b)"

definition call_ok :: "fn_codec \<Rightarrow> tool_def list \<Rightarrow> raw_call \<Rightarrow> bool" where
  "call_ok fc tools call \<longleftrightarrow> call_id call \<noteq> None \<and> call_type call = Some ''function'' \<and>
     (case call_function call of None \<Rightarrow> False
      | Some (name, arguments) \<Rightarrow> name \<noteq> [] \<and> CHR ''>'' \<notin> set name \<and>
          (case (fc_loads fc arguments, matching_tool tools name) of
             (Some (JDict args), Some t) \<Rightarrow> acceptable_args fc t args | _ \<Rightarrow> False))"

definition call_body_ok :: "body \<Rightarrow> bool" where
  "call_body_ok b \<longleftrightarrow> (case last_text b of None \<Rightarrow> False
     | Some s \<Rightarrow> py_strip s = s \<and> \<not> occurs_in ''<function='' s)"

definition result_name :: "chat \<Rightarrow> string" where
  "result_name m = (case chat_name m of Some n \<Rightarrow> n | None \<Rightarrow> ''function'')"

definition result_ok :: "chat \<Rightarrow> bool" where
  "result_ok m \<longleftrightarrow> \<not> occurs_in ('']:'' @ LF) (result_name m) \<and>
     (case chat_body m of Text _ \<Rightarrow> \<not> chat_cached m | Items _ \<Rightarrow> True | No_Content \<Rightarrow> False)"

definition message_ok :: "fn_codec \<Rightarrow> tool_def list \<Rightarrow> string \<Rightarrow> bool \<Rightarrow> bool \<Rightarrow> chat \<Rightarrow> bool" where
  "message_ok fc tools example add seen m \<longleftrightarrow>
     (if chat_role m = ''system'' then system_ok (chat_body m)
      else if chat_role m = ''user'' then user_ok example (add \<and> \<not> seen) (chat_body m)
      else if chat_role m = ''assistant''
      then (case chat_calls m of None \<Rightarrow> no_call_ok (chat_body m)
            | Some [call] \<Rightarrow> call_ok fc tools call \<and> call_body_ok (chat_body m) | _ \<Rightarrow> False)
      else chat_role m = ''tool'' \<and> seen \<and> result_ok m)"

fun convertible :: "fn_codec \<Rightarrow> tool_def list \<Rightarrow> string \<Rightarrow> bool \<Rightarrow> bool \<Rightarrow> chat list \<Rightarrow> bool" where
  "convertible fc tools example add seen [] = True"
| "convertible fc tools example add seen (m # ms) \<longleftrightarrow>
     message_ok fc tools example add seen m \<and>
     convertible fc tools example add (seen \<or> chat_role m = ''user'') ms"

text \<open>
  What comes back: the same messages, with the calls numbered in order, each result under the
  number of the last call, its text stripped, and only that text.
\<close>

definition numbered :: "fn_codec \<Rightarrow> nat \<Rightarrow> raw_call \<Rightarrow> raw_call" where
  "numbered fc n call = \<lparr>call_index = Some 1, call_id = Some (tool_call_number n),
     call_type = Some ''function'',
     call_function = (case call_function call of None \<Rightarrow> None
       | Some (name, arguments) \<Rightarrow> (case fc_loads fc arguments of None \<Rightarrow> None
           | Some v \<Rightarrow> Some (name, fc_dumps fc v)))\<rparr>"

definition result_text :: "body \<Rightarrow> string" where
  "result_text b = (case body_texts b of [] \<Rightarrow> [] | s # _ \<Rightarrow> py_strip s)"

definition canonical :: "fn_codec \<Rightarrow> nat \<Rightarrow> chat \<Rightarrow> chat" where
  "canonical fc n m =
     (if chat_role m = ''assistant''
      then (plain_chat ''assistant'' (chat_body m))
        \<lparr>chat_calls := map_option (map (numbered fc n)) (chat_calls m)\<rparr>
      else if chat_role m = ''tool''
      then (plain_chat ''tool'' (case chat_body m of Items _ \<Rightarrow> Items [TextItem (result_text (chat_body m)) False]
              | _ \<Rightarrow> Text (result_text (chat_body m))))
        \<lparr>chat_name := Some (result_name m), chat_call_id := Some (tool_call_number (n - 1))\<rparr>
      else plain_chat (chat_role m) (chat_body m))"

definition calls_made :: "chat \<Rightarrow> nat" where
  "calls_made m = (if chat_role m = ''assistant'' \<and> chat_calls m \<noteq> None then 1 else 0)"

fun canonical_all :: "fn_codec \<Rightarrow> nat \<Rightarrow> chat list \<Rightarrow> chat list" where
  "canonical_all fc n [] = []"
| "canonical_all fc n (m # ms) = canonical fc n m # canonical_all fc (n + calls_made m) ms"

subsection \<open>One message\<close>

lemma snoc_simps [simp]:
  "map_last f (ys @ [x]) = ys @ [f x]"
  "ends_with_text (ys @ [x]) \<longleftrightarrow> item_text x \<noteq> None"
  by (simp_all add: map_last_def ends_with_text_def)

lemma last_text_cases:
  assumes "last_text b = Some s"
  obtains "b = Text s" | ys c where "b = Items (ys @ [TextItem s c])"
proof (cases b)
  case (Text t)
  with assms that(1) show thesis by (simp add: last_text_def)
next
  case (Items xs)
  with assms have "xs \<noteq> []" "item_text (last xs) = Some s"
    by (auto simp: last_text_def ends_with_text_def split: if_splits)
  then obtain c where "last xs = TextItem s c" by (cases "last xs") auto
  with \<open>xs \<noteq> []\<close> have "xs = butlast xs @ [TextItem s c]" by (metis append_butlast_last_id)
  with Items that(2) show thesis by blast
qed (use assms in \<open>simp add: last_text_def\<close>)

lemma some_content_snoc [simp]: "some_content (Items (ys @ [x])) = Items (ys @ [x])"
  by (cases ys) (simp_all add: some_content_def)

lemma some_content_simps [simp]:
  "some_content (Text s) = Text s" "some_content (Items (x # xs)) = Items (x # xs)"
  by (simp_all add: some_content_def)

lemma system_back:
  assumes "system_ok b"
  shows "\<exists>b'. system_body (SYSTEM_PROMPT_SUFFIX d) b = Inr b' \<and>
    without_suffix (SYSTEM_PROMPT_SUFFIX d) (some_content b') = b"
proof -
  from assms obtain s where s: "last_text b = Some s" "\<not> occurs_in SYSTEM_MARK s"
    by (auto simp: system_ok_def split: option.splits)
  from s(1) show ?thesis
    by (rule last_text_cases) (simp_all add: system_body_def without_suffix_def without_system_suffix [OF s(2)])
qed

lemma first_result_absent:
  "list_all (\<lambda>s. search_result s = None) (List.map_filter item_text xs) \<Longrightarrow> first_result xs = None"
proof (induction xs)
  case (Cons x xs)
  then show ?case by (cases x) (auto simp: List.map_filter_def)
qed simp

lemma user_text_okD:
  assumes "user_text_ok example s"
  shows "search_result s = None" and "without_example example s = s"
    and "without_example example (example @ s @ EXAMPLE_SUFFIX) = s"
  using assms search_result_absent without_example_absent without_example_present
  by (auto simp: user_text_ok_def)

lemma user_items_kept:
  "list_all (user_text_ok example) (List.map_filter item_text xs) \<Longrightarrow>
     map (map_text (without_example example)) xs = xs \<and>
     list_all (\<lambda>s. search_result s = None) (List.map_filter item_text xs)"
proof (induction xs)
  case (Cons x xs)
  then show ?case by (cases x) (auto simp: List.map_filter_def user_text_okD)
qed (simp add: List.map_filter_def)

lemma user_kept:
  assumes "user_ok example first b"
  shows "some_content b = b" and "body_without_example example b = b" and "body_result b = None"
proof -
  show "some_content b = b" using assms by (auto simp: user_ok_def some_content_def split: body.splits list.splits)
  have "body_without_example example b = b \<and> body_result b = None"
  proof (cases b)
    case (Items xs)
    with assms have "list_all (user_text_ok example) (List.map_filter item_text xs)"
      by (simp add: user_ok_def body_texts_def)
    from user_items_kept [OF this] first_result_absent Items
    show ?thesis by (auto simp: body_without_example_def body_result_def)
  qed (use assms in \<open>auto simp: user_ok_def body_texts_def body_without_example_def body_result_def user_text_okD\<close>)
  then show "body_without_example example b = b" and "body_result b = None" by simp_all
qed

lemma first_user_back:
  assumes "user_ok example True b"
  shows "\<exists>b'. first_user_body example b = Inr b' \<and> body_without_example example (some_content b') = b"
proof (cases "example = []")
  case True
  with user_kept [OF assms] show ?thesis by (simp add: first_user_body_def)
next
  case False
  show ?thesis
  proof (cases b)
    case (Text s)
    with assms have "user_text_ok example s" by (simp add: user_ok_def body_texts_def)
    with Text False user_text_okD show ?thesis
      by (simp add: first_user_body_def body_without_example_def)
  next
    case (Items xs)
    with assms False obtain s c ys where xs: "xs = TextItem s c # ys"
      by (cases xs; cases "hd xs") (auto simp: user_ok_def)
    with assms Items have "user_text_ok example s" "list_all (user_text_ok example) (List.map_filter item_text ys)"
      by (auto simp: user_ok_def body_texts_def List.map_filter_def)
    with Items xs False user_text_okD user_items_kept show ?thesis
      by (simp add: first_user_body_def body_without_example_def)
  qed (use assms in \<open>simp add: user_ok_def\<close>)
qed

lemma no_call_kept:
  assumes "no_call_ok (chat_body m)"
  shows "from_assistant_message fc tools n m = Inr (m, n)"
proof (cases "some_content (chat_body m)")
  case (Text s)
  with assms have "\<not> occurs_in ''<function='' s"
    by (auto simp: no_call_ok_def body_texts_def some_content_def split: body.splits list.splits)
  with Text show ?thesis
    by (simp add: from_assistant_message_def fix_stopword_absent search_call_absent)
next
  case (Items xs)
  then have b: "chat_body m = Items xs" by (auto simp: some_content_def split: body.splits list.splits)
  have no: "\<not> occurs_in ''<function='' s" if "TextItem s c \<in> set xs" for s c
  proof -
    have "s \<in> set (List.map_filter item_text xs)"
      using that by (force simp: List.map_filter_def)
    with assms b show ?thesis by (auto simp: no_call_ok_def body_texts_def list_all_iff)
  qed
  have same: "(if ends_with_text xs then map_last (map_text fix_stopword) xs else xs) = xs"
  proof (cases "ends_with_text xs")
    case True
    then have "last_text (chat_body m) = Some (the (item_text (last xs)))"
      by (simp add: last_text_def b ends_with_text_def)
    then show ?thesis
    proof (rule last_text_cases)
      fix ys c
      assume "chat_body m = Items (ys @ [TextItem (the (item_text (last xs))) c])"
      then have xs: "xs = ys @ [TextItem (the (item_text (last xs))) c]" by (simp add: b)
      then have "fix_stopword (the (item_text (last xs))) = the (item_text (last xs))"
        by (intro fix_stopword_absent no [of _ c]) (metis in_set_conv_decomp)
      with True show ?thesis by (subst (1 2) xs) simp
    qed (simp add: b)
  qed simp
  have none: "Option.bind (item_text x) search_call = None" if "x \<in> set xs" for x
  proof (cases x)
    case (TextItem s c)
    with no that have "search_call s = None" by (blast intro: search_call_absent)
    with TextItem show ?thesis by simp
  qed simp
  have "\<not> list_ex (\<lambda>x. Option.bind (item_text x) search_call \<noteq> None) xs"
    using none by (auto simp: list_ex_iff)
  moreover have "(if ends_with_text xs then Option.bind (item_text (last xs)) search_call else None) = None"
    using none [of "last xs"] by (auto simp: ends_with_text_def)
  ultimately show ?thesis
    unfolding from_assistant_message_def Items body.case Let_def same by (simp add: b [symmetric])
next
  case No_Content
  then show ?thesis by (auto simp: some_content_def split: body.splits list.splits)
qed

lemma result_back:
  assumes "result_ok m"
  shows "\<exists>b'. tool_body (chat_name m) (chat_cached m) (chat_body m) = Inr b' \<and>
    (some_content b' = b') \<and> body_result b' = Some (result_name m, case body_texts (chat_body m) of [] \<Rightarrow> [] | s # _ \<Rightarrow> s) \<and>
    ((\<exists>xs. b' = Items xs) \<longleftrightarrow> (\<exists>xs. chat_body m = Items xs))"
proof -
  have name: "\<not> occurs_in ('']:'' @ LF) (result_name m)" using assms by (simp add: result_ok_def)
  note found = search_result_written [OF name]
  show ?thesis
  proof (cases "chat_body m")
    case (Text s)
    with assms have "\<not> chat_cached m" by (simp add: result_ok_def)
    with Text found [of s] show ?thesis
      by (simp add: tool_body_def body_result_def body_texts_def result_name_def)
  next
    case (Items xs)
    let ?pre = "result_prefix (result_name m)"
    let ?ys = "if list_ex (\<lambda>x. item_text x \<noteq> None) xs then map_first_text (\<lambda>s. ?pre @ s) xs
      else TextItem ?pre False # xs"
    have first: "first_result (map_first_text (\<lambda>s. ?pre @ s) xs) = Some (result_name m, hd (List.map_filter item_text xs))"
      if "list_ex (\<lambda>x. item_text x \<noteq> None) xs" using that
    proof (induction xs)
      case (Cons x xs)
      with found show ?case by (cases x) (auto simp: List.map_filter_def)
    qed simp
    have texts: "List.map_filter item_text xs = [] \<longleftrightarrow> \<not> list_ex (\<lambda>x. item_text x \<noteq> None) xs"
      by (induction xs) (auto simp: List.map_filter_def)
    have ys: "first_result ?ys = Some (result_name m, case body_texts (chat_body m) of [] \<Rightarrow> [] | s # _ \<Rightarrow> s)"
      using first texts found [of "[]"]
      by (cases "List.map_filter item_text xs") (auto simp: Items body_texts_def)
    have marked: "first_result (map_last mark_item zs) = first_result zs" for zs
    proof (cases zs rule: rev_cases)
      case (snoc us u)
      have "first_result (us @ [mark_item u]) = first_result (us @ [u])"
      proof (induction us)
        case Nil
        then show ?case by (cases u) simp_all
      next
        case (Cons v vs)
        then show ?case by (cases v) (simp_all split: option.split)
      qed
      with snoc show ?thesis by simp
    qed (simp add: map_last_def)
    define zs where "zs = ?ys"
    have "zs \<noteq> []" unfolding zs_def by (cases xs; cases "hd xs") auto
    then have "some_content (Items zs) = Items zs"
      "some_content (Items (map_last mark_item zs)) = Items (map_last mark_item zs)"
      by (cases zs rule: rev_cases; simp)+
    moreover have "tool_body (chat_name m) (chat_cached m) (chat_body m) =
        Inr (Items (if chat_cached m then map_last mark_item zs else zs))"
      by (simp add: tool_body_def Items result_name_def [symmetric] Let_def zs_def)
    ultimately show ?thesis
      using ys [folded zs_def] marked [of zs] by (simp add: body_result_def Items)
  qed (use assms in \<open>simp add: result_ok_def\<close>)
qed

lemma written_call:
  assumes "call_ok fc tools call"
  obtains name args where "convert_tool_call_to_string fc call = Inr (call_text fc name args)"
    and "list_all (readable_arg fc) args" and "name \<noteq> []" and "CHR ''>'' \<notin> set name"
    and "\<And>n. read_call fc tools n (name, body_text fc args) = Inr (numbered fc n call)"
proof -
  obtain name arguments where f: "call_function call = Some (name, arguments)"
    using assms by (cases "call_function call") (auto simp: call_ok_def)
  obtain v where v: "fc_loads fc arguments = Some v"
    using assms by (cases "fc_loads fc arguments") (simp_all add: call_ok_def f)
  obtain args where args: "v = JDict args" using assms by (cases v) (simp_all add: call_ok_def f v)
  obtain t where t: "matching_tool tools name = Some t"
    using assms by (cases "matching_tool tools name") (simp_all add: call_ok_def f v args)
  have c: "call_id call \<noteq> None" "call_type call = Some ''function''" "call_function call = Some (name, arguments)"
    "name \<noteq> []" "CHR ''>'' \<notin> set name" "fc_loads fc arguments = Some (JDict args)"
    "matching_tool tools name = Some t" "acceptable_args fc t args"
    using assms by (simp_all add: call_ok_def f v args t)
  show thesis
  proof (rule that)
    show "convert_tool_call_to_string fc call = Inr (call_text fc name args)"
      using c by (auto simp: convert_tool_call_to_string_def)
    show "read_call fc tools n (name, body_text fc args) = Inr (numbered fc n call)" for n
      using read_call_written [OF c(7,8)] c by (simp add: numbered_def)
  qed (use c in \<open>auto simp: acceptable_args_def\<close>)
qed

lemma call_back:
  assumes "call_ok fc tools call" and "call_body_ok b"
  shows "\<exists>b'. assistant_body fc (Some [call]) b = Inr b' \<and>
    from_assistant_message fc tools n (plain_chat ''assistant'' b') =
      Inr ((plain_chat ''assistant'' b)\<lparr>chat_calls := Some [numbered fc n call]\<rparr>, Suc n)"
proof -
  obtain name args where w: "convert_tool_call_to_string fc call = Inr (call_text fc name args)"
    "list_all (readable_arg fc) args" "name \<noteq> []" "CHR ''>'' \<notin> set name"
    "\<And>n. read_call fc tools n (name, body_text fc args) = Inr (numbered fc n call)"
    using written_call [OF assms(1)] by metis
  from assms(2) obtain s where s: "last_text b = Some s" "py_strip s = s" "\<not> occurs_in ''<function='' s"
    by (auto simp: call_body_ok_def split: option.splits)
  note again = written_call_read [OF s(2,3) w(2-4)]
  from s(1) show ?thesis
  proof (rule last_text_cases)
    assume "b = Text s"
    then show ?thesis
      using again w(1) w(5) [of n]
      by (simp add: assistant_body_def call_body_def from_assistant_message_def plain_chat_def Let_def)
  next
    fix ys c
    assume "b = Items (ys @ [TextItem s c])"
    then show ?thesis
      using again w(1) w(5) [of n]
      by (simp add: assistant_body_def call_body_def from_assistant_message_def plain_chat_def Let_def)
  qed
qed

lemma message_back:
  assumes "message_ok fc tools example add seen m"
  shows "\<exists>p. to_plain_message fc (SYSTEM_PROMPT_SUFFIX d) example add (add \<and> seen) m =
      Inr (p, add \<and> (seen \<or> chat_role m = ''user'')) \<and>
    from_plain_message fc tools (SYSTEM_PROMPT_SUFFIX d) example n seen p =
      Inr (canonical fc n m, n + calls_made m, seen \<or> chat_role m = ''user'')"
proof -
  consider "chat_role m = ''system''" | "chat_role m = ''user''" | "chat_role m = ''assistant''" "chat_calls m = None"
    | call where "chat_role m = ''assistant''" "chat_calls m = Some [call]" | "chat_role m = ''tool''"
  proof (cases "chat_role m = ''assistant''")
    case True
    with assms show thesis
      using that(3,4) by (auto simp: message_ok_def split: option.splits list.splits)
  next
    case False
    with assms show thesis
      using that(1,2,5) by (cases "chat_role m = ''system''"; cases "chat_role m = ''user''") (simp_all add: message_ok_def)
  qed
  then show ?thesis
  proof cases
    case 1
    with assms have "system_ok (chat_body m)" by (simp add: message_ok_def)
    from system_back [OF this, of d] 1 show ?thesis
      by (auto simp: to_plain_message_def from_plain_message_def canonical_def calls_made_def plain_chat_def Let_def)
  next
    case 2
    with assms have u: "user_ok example (add \<and> \<not> seen) (chat_body m)" by (simp add: message_ok_def)
    note kept = user_kept [OF u]
    show ?thesis
    proof (cases "add \<and> \<not> seen")
      case True
      with u have "user_ok example True (chat_body m)" by simp
      from first_user_back [OF this] obtain b' where b': "first_user_body example (chat_body m) = Inr b'"
        "body_without_example example (some_content b') = chat_body m" by blast
      with 2 True kept show ?thesis
        by (simp add: to_plain_message_def from_plain_message_def canonical_def calls_made_def
            plain_chat_def from_user_body_def Let_def)
    next
      case False
      with 2 kept show ?thesis
        by (auto simp: to_plain_message_def from_plain_message_def canonical_def calls_made_def
            plain_chat_def from_user_body_def Let_def)
    qed
  next
    case 3
    with assms have "no_call_ok (chat_body m)" by (simp add: message_ok_def)
    then have "no_call_ok (chat_body (plain_chat ''assistant'' (chat_body m)))" by (simp add: plain_chat_def)
    from no_call_kept [OF this] 3 show ?thesis
      by (simp add: to_plain_message_def from_plain_message_def canonical_def calls_made_def
          assistant_body_def Let_def) (simp add: plain_chat_def)
  next
    case 4
    with assms have "call_ok fc tools call" "call_body_ok (chat_body m)" by (simp_all add: message_ok_def)
    from call_back [OF this, of n] obtain b' where b': "assistant_body fc (Some [call]) (chat_body m) = Inr b'"
      "from_assistant_message fc tools n (plain_chat ''assistant'' b') =
        Inr ((plain_chat ''assistant'' (chat_body m))\<lparr>chat_calls := Some [numbered fc n call]\<rparr>, Suc n)" by blast
    have "chat_role (plain_chat ''assistant'' b') = ''assistant''" by (simp add: plain_chat_def)
    with b' 4 show ?thesis
      by (intro exI [of _ "plain_chat ''assistant'' b'"])
        (simp add: to_plain_message_def from_plain_message_def canonical_def calls_made_def Let_def)
  next
    case 5
    with assms have r: "seen" "result_ok m" by (simp_all add: message_ok_def)
    from result_back [OF r(2)] obtain b' where b': "tool_body (chat_name m) (chat_cached m) (chat_body m) = Inr b'"
      "some_content b' = b'" "body_result b' = Some (result_name m, case body_texts (chat_body m) of [] \<Rightarrow> [] | s # _ \<Rightarrow> s)"
      "(\<exists>xs. b' = Items xs) \<longleftrightarrow> (\<exists>xs. chat_body m = Items xs)" by blast
    have "py_strip (case body_texts (chat_body m) of [] \<Rightarrow> [] | s # _ \<Rightarrow> s) = result_text (chat_body m)"
      by (simp add: result_text_def split: list.split)
    with 5 r(1) b' show ?thesis
      by (cases b'; cases "chat_body m")
        (simp_all add: to_plain_message_def from_plain_message_def canonical_def calls_made_def
          plain_chat_def from_user_body_def Let_def)
  qed
qed

text \<open>The whole conversation.\<close>

lemma messages_back:
  assumes "convertible fc tools example add seen ms"
  shows "\<exists>ps. to_plain_messages fc (SYSTEM_PROMPT_SUFFIX d) example add (add \<and> seen) ms = Inr ps \<and>
    from_plain_messages fc tools (SYSTEM_PROMPT_SUFFIX d) example n seen ps = Inr (canonical_all fc n ms)"
  using assms
proof (induction ms arbitrary: n seen)
  case (Cons m ms)
  let ?seen = "seen \<or> chat_role m = ''user''"
  from Cons.prems have m: "message_ok fc tools example add seen m" and ms: "convertible fc tools example add ?seen ms"
    by simp_all
  from message_back [OF m, of d n] obtain p where
    p: "to_plain_message fc (SYSTEM_PROMPT_SUFFIX d) example add (add \<and> seen) m = Inr (p, add \<and> ?seen)"
      "from_plain_message fc tools (SYSTEM_PROMPT_SUFFIX d) example n seen p = Inr (canonical fc n m, n + calls_made m, ?seen)"
    by blast
  from Cons.IH [OF ms, of "n + calls_made m"] obtain ps where
    "to_plain_messages fc (SYSTEM_PROMPT_SUFFIX d) example add (add \<and> ?seen) ms = Inr ps"
    "from_plain_messages fc tools (SYSTEM_PROMPT_SUFFIX d) example (n + calls_made m) ?seen ps =
      Inr (canonical_all fc (n + calls_made m) ms)" by blast
  with p show ?case by (intro exI [of _ "p # ps"]) simp
qed simp

section \<open>Every call that is read is valid\<close>

text \<open>A parameter as the tool declares it: of its type, and one of the values it allows.\<close>

definition valid_param :: "tool_def \<Rightarrow> string \<times> json \<Rightarrow> bool" where
  "valid_param t kv \<longleftrightarrow> (case map_of (tool_properties t) (fst kv) of
     None \<Rightarrow> False
   | Some info \<Rightarrow> enum_allows info (snd kv) \<and>
       (info_type info = ''integer'' \<longrightarrow> is_JInt (snd kv)) \<and>
       (info_type info \<notin> {''integer'', ''array''} \<longrightarrow> is_JStr (snd kv)))"

definition valid_call :: "fn_codec \<Rightarrow> tool_def list \<Rightarrow> raw_call \<Rightarrow> bool" where
  "valid_call fc tools call \<longleftrightarrow> call_type call = Some ''function'' \<and>
     (\<exists>t \<in> set tools. \<exists>args. td_type t = ''function'' \<and>
        call_function call = Some (td_name t, fc_dumps fc (JDict args)) \<and>
        list_all (valid_param t) args \<and> list_all (has_key args) (tool_required t))"

lemma valid_param_update:
  assumes "list_all (valid_param t) d" and "valid_param t (k, v)"
  shows "list_all (valid_param t) (AList.update k v d)"
  using assms by (induction d) auto

lemma collect_params_valid:
  "collect_params fc t matches acc = Inr args \<Longrightarrow> list_all (valid_param t) acc \<Longrightarrow> list_all (valid_param t) args"
proof (induction matches arbitrary: acc)
  case (Cons nv matches)
  obtain name v where nv: "nv = (name, v)" by (cases nv)
  from Cons.prems(1) obtain info where info: "map_of (tool_properties t) name = Some info"
    by (auto simp: nv split: option.splits if_splits)
  with Cons.prems(1) obtain w where w: "convert_param fc info name v = Inr w"
    by (cases "convert_param fc info name v") (auto simp: nv)
  with Cons.prems(1) info have ok: "enum_allows info w"
    and rest: "collect_params fc t matches (AList.update name w acc) = Inr args"
    by (auto simp: nv split: if_splits)
  have "valid_param t (name, w)"
    using info w ok by (auto simp: valid_param_def convert_param_def split: if_splits option.splits)
  from Cons.IH [OF rest valid_param_update [OF Cons.prems(2) this]] show ?case .
qed simp

lemma read_call_valid:
  assumes "read_call fc tools n nb = Inr call"
  shows "valid_call fc tools call \<and> call_id call = Some (tool_call_number n)"
proof -
  obtain name fn_body where nb: "nb = (name, fn_body)" by (cases nb)
  from assms obtain t where t: "matching_tool tools name = Some t" by (auto simp: nb read_call_def split: option.splits)
  then have tool: "t \<in> set tools" "td_type t = ''function''" "td_name t = name"
    by (auto simp: matching_tool_def find_Some_iff)
  let ?ms = "find_params (normalize_parameter_tags fn_body)"
  from assms t obtain args where args: "collect_params fc t ?ms [] = Inr args" "list_all (has_key args) (tool_required t)"
    and call: "call = \<lparr>call_index = Some 1, call_id = Some (tool_call_number n), call_type = Some ''function'',
      call_function = Some (name, fc_dumps fc (JDict args))\<rparr>"
    by (auto simp: nb read_call_def extract_and_validate_params_def bindE_Inr_iff split: if_splits)
  from collect_params_valid [OF args(1)] args(2) tool call show ?thesis
    by (auto simp: valid_call_def)
qed

text \<open>The calls of a list of messages are numbered one after the other, and each result names
  the last call before it.\<close>

fun in_order :: "nat \<Rightarrow> chat list \<Rightarrow> bool" where
  "in_order n [] = True"
| "in_order n (c # cs) \<longleftrightarrow> (case chat_calls c of
     Some [call] \<Rightarrow> call_id call = Some (tool_call_number n) \<and> in_order (Suc n) cs
   | None \<Rightarrow> (chat_role c = ''tool'' \<longrightarrow> chat_call_id c = Some (tool_call_number (n - 1))) \<and> in_order n cs
   | _ \<Rightarrow> False)"

lemma from_assistant_cases:
  assumes "from_assistant_message fc tools n m = Inr (c, n')"
  obtains "n' = n" "chat_calls c = chat_calls m" "chat_role c = chat_role m"
    | b nb call where "n' = Suc n" "c = (plain_chat ''assistant'' b)\<lparr>chat_calls := Some [call]\<rparr>"
        "read_call fc tools n nb = Inr call"
proof (cases "some_content (chat_body m)")
  case (Text s)
  with assms show thesis
    by (auto simp: from_assistant_message_def Let_def bindE_Inr_iff intro: that split: option.splits)
next
  case (Items xs)
  with assms show thesis
    by (auto simp: from_assistant_message_def Let_def bindE_Inr_iff intro: that split: option.splits if_splits)
next
  case No_Content
  with assms show thesis by (simp add: from_assistant_message_def that(1))
qed

lemma from_plain_message_cases:
  assumes "from_plain_message fc tools suff example n seen m = Inr (c, n', seen')" and "chat_calls m = None"
  obtains "n' = n" "chat_calls c = None" "chat_role c = ''tool'' \<longrightarrow> chat_call_id c = Some (tool_call_number (n - 1))"
    | call where "n' = Suc n" "chat_calls c = Some [call]" "valid_call fc tools call"
        "call_id call = Some (tool_call_number n)"
proof -
  consider "chat_role m = ''system''" | "chat_role m = ''user''" | "chat_role m = ''assistant''"
    using assms by (auto simp: from_plain_message_def Let_def split: if_splits)
  then show thesis
  proof cases
    case 1
    with assms that(1) show thesis by (auto simp: from_plain_message_def plain_chat_def Let_def)
  next
    case 2
    with assms that(1) show thesis
      by (auto simp: from_plain_message_def from_user_body_def plain_chat_def Let_def split: option.splits prod.splits)
  next
    case 3
    with assms(1) have "from_assistant_message fc tools n m = Inr (c, n')"
      by (auto simp: from_plain_message_def bindE_Inr_iff)
    then show thesis
    proof (cases rule: from_assistant_cases)
      case 1
      with assms 3 that(1) show thesis by simp
    next
      case (2 b nb call)
      with read_call_valid [OF 2(3)] that(2) show thesis by simp
    qed
  qed
qed

lemma from_plain_messages_valid:
  assumes "from_plain_messages fc tools suff example n seen ms = Inr cs" and "\<forall>m \<in> set ms. chat_calls m = None"
  shows "in_order n cs \<and> (\<forall>c \<in> set cs. \<forall>calls. chat_calls c = Some calls \<longrightarrow>
    (\<exists>call. calls = [call] \<and> valid_call fc tools call))"
  using assms
proof (induction ms arbitrary: n seen cs)
  case (Cons m ms)
  from Cons.prems(1) obtain c n' seen' cs' where
    c: "from_plain_message fc tools suff example n seen m = Inr (c, n', seen')"
    and rest: "from_plain_messages fc tools suff example n' seen' ms = Inr cs'" and cs: "cs = c # cs'"
    by (auto simp: bindE_Inr_iff)
  have ih: "in_order n' cs' \<and> (\<forall>c \<in> set cs'. \<forall>calls. chat_calls c = Some calls \<longrightarrow>
      (\<exists>call. calls = [call] \<and> valid_call fc tools call))"
    using Cons.prems(2) by (intro Cons.IH [OF rest]) simp
  from Cons.prems(2) have "chat_calls m = None" by simp
  from c this show ?case
    by (cases rule: from_plain_message_cases) (use ih in \<open>auto simp: cs\<close>)
qed simp

section \<open>A tool without parameters\<close>

lemma no_properties_fails:
  assumes "tool_properties t = []" and "matches \<noteq> []"
  shows "\<exists>k. extract_and_validate_params fc t matches = Inl (KeyError k)"
  using assms by (cases matches) (auto simp: extract_and_validate_params_def)

lemma read_call_no_properties:
  assumes "matching_tool tools name = Some t" and "tool_properties t = []"
    and "find_params (normalize_parameter_tags fn_body) \<noteq> []"
  shows "\<exists>k. read_call fc tools n (name, fn_body) = Inl (KeyError k)"
  using no_properties_fails [OF assms(2,3), of fc] assms(1) by (auto simp: read_call_def)

end
