(* ===== verification/Fn_Call_Properties.thy ===== *)
theory Fn_Call_Properties
  imports Fn_Call_Facts
begin

text \<open>
  The properties of the function call converter: a conversation that is written for a text-only
  model is read back, what is read from the text of a model is a valid call, and the one case in
  which a malformed call is not reported as such.
\<close>

section \<open>Messages written for a model carry no calls\<close>

lemma to_plain_message_calls:
  "to_plain_message fc suff example add seen m = Inr (p, seen') \<Longrightarrow> chat_calls p = None"
  by (auto simp: to_plain_message_def bindE_Inr_iff plain_chat_def split: if_splits)

lemma to_plain_messages_calls:
  "to_plain_messages fc suff example add seen ms = Inr ps \<Longrightarrow> \<forall>p \<in> set ps. chat_calls p = None"
proof (induction ms arbitrary: seen ps)
  case (Cons m ms)
  then obtain p seen' qs where "to_plain_message fc suff example add seen m = Inr (p, seen')"
    "to_plain_messages fc suff example add seen' ms = Inr qs" "ps = p # qs"
    by (auto simp: bindE_Inr_iff)
  with Cons.IH to_plain_message_calls show ?case by auto
qed simp

lemma to_plain_messages_roles:
  "to_plain_messages fc suff example add seen ms = Inr ps \<Longrightarrow> \<forall>p \<in> set ps. chat_role p \<noteq> ''tool''"
proof (induction ms arbitrary: seen ps)
  case (Cons m ms)
  then obtain p seen' qs where p: "to_plain_message fc suff example add seen m = Inr (p, seen')"
    and "to_plain_messages fc suff example add seen' ms = Inr qs" "ps = p # qs"
    by (auto simp: bindE_Inr_iff)
  moreover from p have "chat_role p \<noteq> ''tool''"
    by (auto simp: to_plain_message_def bindE_Inr_iff plain_chat_def split: if_splits)
  ultimately show ?case using Cons.IH by auto
qed simp

lemma to_plain_messages_length:
  "to_plain_messages fc suff example add seen ms = Inr ps \<Longrightarrow> length ps = length ms"
proof (induction ms arbitrary: seen ps)
  case (Cons m ms)
  then show ?case by (auto simp: bindE_Inr_iff)
qed simp

lemma from_plain_messages_length:
  "from_plain_messages fc tools suff example n seen ms = Inr cs \<Longrightarrow> length cs = length ms"
proof (induction ms arbitrary: n seen cs)
  case (Cons m ms)
  then show ?case by (auto simp: bindE_Inr_iff)
qed simp

lemma written_without_calls:
  assumes "convert_fncall_messages_to_non_fncall_messages fc windows add ms tools = Inr ps"
  shows "(\<forall>p \<in> set ps. chat_calls p = None) \<and> length ps = length ms"
  using assms to_plain_messages_calls to_plain_messages_length
  by (auto simp: convert_fncall_messages_to_non_fncall_messages_def bindE_Inr_iff)

lemma read_is_valid:
  assumes "convert_non_fncall_messages_to_fncall_messages fc windows ps tools = Inr cs"
    and "\<forall>p \<in> set ps. chat_calls p = None"
  shows "length cs = length ps \<and> in_order 1 cs \<and>
    (\<forall>c \<in> set cs. \<forall>calls. chat_calls c = Some calls \<longrightarrow> (\<exists>call. calls = [call] \<and> valid_call fc tools call))"
proof -
  from assms(1) obtain d where
    d: "from_plain_messages fc tools (SYSTEM_PROMPT_SUFFIX d) (get_example_for_tools windows tools) 1 False ps = Inr cs"
    by (auto simp: convert_non_fncall_messages_to_fncall_messages_def bindE_Inr_iff)
  show ?thesis using from_plain_messages_valid [OF d assms(2)] from_plain_messages_length [OF d] by blast
qed

section \<open>A concrete conversation\<close>

definition demo_tool :: tool_def where
  "demo_tool = \<lparr>td_type = ''function'', td_name = ''lookup'', td_description = ''Look up'',
     td_parameters = Some \<lparr>ps_properties = Some [(''key'', \<lparr>pi_type = Some ''string'', pi_description = None, pi_enum = None\<rparr>)],
       ps_required = Some [''key'']\<rparr>\<rparr>"

definition demo_fc :: fn_codec where
  "demo_fc = \<lparr>fc_loads = (\<lambda>s. if s = ''a'' then Some (JDict [(''key'', JStr ''x'')]) else None),
     fc_dumps = (\<lambda>_. ''a''), fc_float = (\<lambda>_. []), fc_repr = (\<lambda>_. [])\<rparr>"

definition demo_call :: raw_call where
  "demo_call = \<lparr>call_index = None, call_id = Some ''c'', call_type = Some ''function'',
     call_function = Some (''lookup'', ''a'')\<rparr>"

definition demo_chat :: "chat list" where
  "demo_chat =
     [plain_chat ''system'' (Text ''You help.''), plain_chat ''user'' (Text ''Hi''),
      (plain_chat ''assistant'' (Text []))\<lparr>chat_calls := Some [demo_call]\<rparr>,
      (plain_chat ''tool'' (Text ''found''))\<lparr>chat_name := Some ''lookup'', chat_call_id := Some ''c''\<rparr>]"

lemma demo_example: "get_example_for_tools w [demo_tool] = []"
  by (simp add: get_example_for_tools_def demo_tool_def EXECUTE_BASH_def STR_REPLACE_EDITOR_def BROWSER_def
      FINISH_def EDIT_FILE_def)

lemma demo_convertible: "convertible demo_fc [demo_tool] [] True False demo_chat"
proof -
  have "call_ok demo_fc [demo_tool] demo_call" by code_simp
  moreover have "system_ok (Text ''You help.'')" "user_ok [] True (Text ''Hi'')" "call_body_ok (Text [])"
    by code_simp+
  moreover have "result_ok ((plain_chat ''tool'' (Text ''found''))\<lparr>chat_name := Some ''lookup'', chat_call_id := Some ''c''\<rparr>)"
    by code_simp
  ultimately show ?thesis
    by (simp add: demo_chat_def message_ok_def plain_chat_def)
qed

section \<open>Properties\<close>

text \<open>
  C5. A conversation written for a model that only writes text is read back: every message keeps
  its content, every call its function and arguments (numbered in order), and every result its
  tool. It holds for one call per message whose arguments are of the declared types and do not
  contain the tags, and for texts that do not look like the added ones.
\<close>

theorem calls_written_and_read_back:
  assumes "convertible fc tools (get_example_for_tools windows tools) add False ms"
    and "list_all (\<lambda>t. td_type t = ''function'') tools"
  shows "\<exists>ps. convert_fncall_messages_to_non_fncall_messages fc windows add ms tools = Inr ps \<and>
    (\<forall>p \<in> set ps. chat_calls p = None \<and> chat_role p \<noteq> ''tool'') \<and>
    convert_non_fncall_messages_to_fncall_messages fc windows ps tools = Inr (canonical_all fc 1 ms)"
proof -
  obtain d where d: "convert_tools_to_description fc tools = Inr d"
    using assms(2) by (simp add: convert_tools_to_description_def)
  from messages_back [OF assms(1), of d 1] obtain ps where
    w: "to_plain_messages fc (SYSTEM_PROMPT_SUFFIX d) (get_example_for_tools windows tools) add False ms = Inr ps"
    and r: "from_plain_messages fc tools (SYSTEM_PROMPT_SUFFIX d) (get_example_for_tools windows tools) 1 False ps
      = Inr (canonical_all fc 1 ms)" by auto
  show ?thesis
    using w r d to_plain_messages_calls [OF w] to_plain_messages_roles [OF w]
    by (auto simp: convert_fncall_messages_to_non_fncall_messages_def convert_non_fncall_messages_to_fncall_messages_def)
qed

theorem calls_written_and_read_back_witness:
  "\<exists>ps. convert_fncall_messages_to_non_fncall_messages demo_fc False True demo_chat [demo_tool] = Inr ps \<and>
    (\<forall>p \<in> set ps. chat_calls p = None \<and> chat_role p \<noteq> ''tool'') \<and>
    convert_non_fncall_messages_to_fncall_messages demo_fc False ps [demo_tool] = Inr (canonical_all demo_fc 1 demo_chat)"
  by (rule calls_written_and_read_back) (simp_all add: demo_example demo_convertible, simp add: demo_tool_def)

text \<open>
  Whatever a text-only model answers, a call that is read from its text names a tool that was
  offered and carries all its required parameters, only declared ones, of the declared type
  (arrays apart) and of the allowed values; a message has at most one call, and the calls are
  numbered in order.
\<close>

theorem read_calls_valid:
  assumes "convert_non_fncall_messages_to_fncall_messages fc windows ps tools = Inr cs"
    and "\<forall>p \<in> set ps. chat_calls p = None"
  shows "in_order 1 cs \<and> (\<forall>c \<in> set cs. \<forall>calls. chat_calls c = Some calls \<longrightarrow>
    (\<exists>call. calls = [call] \<and> valid_call fc tools call))"
  using read_is_valid [OF assms] by blast

theorem read_calls_valid_witness:
  "\<exists>cs. convert_non_fncall_messages_to_fncall_messages demo_fc False
      [plain_chat ''assistant'' (Text (''<function=lookup>'' @ LF @ ''<parameter=key>x</parameter>''))] [demo_tool] = Inr cs \<and>
    chat_calls (hd cs) \<noteq> None \<and> in_order 1 cs \<and>
    (\<forall>c \<in> set cs. \<forall>calls. chat_calls c = Some calls \<longrightarrow> (\<exists>call. calls = [call] \<and> valid_call demo_fc [demo_tool] call))"
proof -
  let ?ps = "[plain_chat ''assistant'' (Text (''<function=lookup>'' @ LF @ ''<parameter=key>x</parameter>''))]"
  have none: "\<forall>p \<in> set ?ps. chat_calls p = None" by (simp add: plain_chat_def)
  obtain d where d: "convert_tools_to_description demo_fc [demo_tool] = Inr d"
    by (simp add: convert_tools_to_description_def demo_tool_def)
  have a: "from_assistant_message demo_fc [demo_tool] 1 (hd ?ps) =
      Inr ((plain_chat ''assistant'' (Text []))\<lparr>chat_calls := Some [\<lparr>call_index = Some 1, call_id = Some ''toolu_01'',
        call_type = Some ''function'', call_function = Some (''lookup'', ''a'')\<rparr>]\<rparr>, 2)"
    by code_simp
  have "\<exists>cs. convert_non_fncall_messages_to_fncall_messages demo_fc False ?ps [demo_tool] = Inr cs \<and>
      chat_calls (hd cs) \<noteq> None"
    using a by (simp add: convert_non_fncall_messages_to_fncall_messages_def d demo_example from_plain_message_def
        plain_chat_def some_content_def)
  with read_calls_valid [OF _ none, of demo_fc False "[demo_tool]"] show ?thesis by blast
qed

text \<open>
  A call that gives a parameter to a tool without parameters is not reported as a malformed
  call: the lookup of the parameter is a \<open>KeyError\<close>, which ends the step of the agent.
\<close>

definition CONDENSATION_REQUEST_TOOL :: tool_def where
  "CONDENSATION_REQUEST_TOOL =
     \<lparr>td_type = ''function'', td_name = REQUEST_CONDENSATION,
      td_description = ''Request a condensation of the conversation history when the context becomes too long or when you need to focus on the most relevant information.'',
      td_parameters = Some \<lparr>ps_properties = Some [], ps_required = Some []\<rparr>\<rparr>"

theorem parameterless_tool_fails:
  assumes "matching_tool tools REQUEST_CONDENSATION = Some CONDENSATION_REQUEST_TOOL"
    and "find_params (normalize_parameter_tags fn_body) \<noteq> []"
  shows "\<exists>k. read_call fc tools n (REQUEST_CONDENSATION, fn_body) = Inl (KeyError k)"
  by (rule read_call_no_properties [OF assms(1) _ assms(2)])
    (simp add: CONDENSATION_REQUEST_TOOL_def tool_properties_def)

theorem parameterless_tool_fails_witness:
  "\<exists>k. read_call demo_fc [CONDENSATION_REQUEST_TOOL] 1
     (REQUEST_CONDENSATION, ''<parameter=reason>long</parameter>'') = Inl (KeyError k)"
proof (rule parameterless_tool_fails)
  show "matching_tool [CONDENSATION_REQUEST_TOOL] REQUEST_CONDENSATION = Some CONDENSATION_REQUEST_TOOL"
    by (simp add: matching_tool_def CONDENSATION_REQUEST_TOOL_def)
  show "find_params (normalize_parameter_tags ''<parameter=reason>long</parameter>'') \<noteq> []" by code_simp
qed

end
