(* ===== verification/Llm_Facts.thy ===== *)
theory Llm_Facts
  imports Llm_Completion Fn_Call_Properties Controller_Facts
begin

text \<open>
  Lemmas on the client: what the retries add to one attempt, what an attempt records, and what
  comes back from a model that only writes text.
\<close>

section \<open>Retries\<close>

text \<open>Whatever implements the documented loop computes the same.\<close>

locale documented_retries =
  fixes rt :: "('s, 'a) retrying"
  assumes documented: "retries_as_documented rt"
begin

lemma step:
  "rt n stop retried sleep f k s =
     (case f s of
        (Inr x, t) \<Rightarrow> (Inr x, t)
      | (Inl e, t) \<Rightarrow>
          if \<not> retried e \<or> k \<ge> n \<or> stop t then (Inl e, t)
          else rt n stop retried sleep f (k + 1) (sleep k e t))"
  using documented unfolding retries_as_documented_def by blast

lemma step_cases:
  assumes "rt n stop retried sleep f k s = (r, t)"
  obtains "f s = (r, t)" "\<And>e. r = Inl e \<Longrightarrow> \<not> retried e \<or> k \<ge> n \<or> stop t"
  | e u where "f s = (Inl e, u)" "retried e" "k < n" "rt n stop retried sleep f (k + 1) (sleep k e u) = (r, t)"
proof -
  obtain r1 u where f: "f s = (r1, u)" by (cases "f s")
  show thesis
  proof (cases "\<exists>e. r1 = Inl e \<and> retried e \<and> k < n \<and> \<not> stop u")
    case True
    then obtain e where "r1 = Inl e" "retried e" "k < n" "\<not> stop u" by blast
    with assms f that(2) [of e u] show thesis by (simp add: step [of _ _ _ _ _ k])
  next
    case False
    with assms f have "r = r1" "t = u"
      by (auto simp: step [of _ _ _ _ _ k] split: sum.splits if_splits)
    with f False that(1) show thesis by force
  qed
qed

text \<open>A condition that the pauses keep holds before every attempt, and the outcome is that of an attempt.\<close>

lemma outcome:
  assumes "rt n stop retried sleep f k s = (r, t)" and "I s"
    and "\<And>s r t. I s \<Longrightarrow> f s = (r, t) \<Longrightarrow> J r t"
    and "\<And>s e t k. I s \<Longrightarrow> f s = (Inl e, t) \<Longrightarrow> retried e \<Longrightarrow> I (sleep k e t)"
  shows "J r t"
  using assms(1,2)
proof (induction "nat (n - k)" arbitrary: k s rule: less_induct)
  case less
  from less.prems(1) show ?case
  proof (cases rule: step_cases)
    case 1
    then show ?thesis using assms(3) less.prems(2) by blast
  next
    case (2 e u)
    have "I (sleep k e u)" using assms(4) less.prems(2) 2 by blast
    with less.hyps [of "k + 1" "sleep k e u"] 2 show ?thesis by simp
  qed
qed

text \<open>What an attempt does at most once is done at most as often as there are attempts.\<close>

lemma bounded:
  fixes c :: "'s \<Rightarrow> nat"
  assumes "rt n stop retried sleep f k s = (r, t)"
    and "\<And>s r t. f s = (r, t) \<Longrightarrow> c t \<le> Suc (c s)"
    and "\<And>k e s. c (sleep k e s) = c s"
  shows "int (c t) \<le> int (c s) + max 1 (n - k + 1)"
  using assms(1)
proof (induction "nat (n - k)" arbitrary: k s rule: less_induct)
  case less
  from less.prems show ?case
  proof (cases rule: step_cases)
    case 1
    then show ?thesis using assms(2) [of s r t] by linarith
  next
    case (2 e u)
    have "int (c t) \<le> int (c (sleep k e u)) + max 1 (n - (k + 1) + 1)"
      using less.hyps [of "k + 1" "sleep k e u"] 2 by simp
    with assms(2) [OF 2(1)] assms(3) [of k e u] 2(3) show ?thesis by linarith
  qed
qed

text \<open>A call whose every attempt fails ends with the last exception, after all attempts.\<close>

lemma exhausts:
  fixes c :: "'s \<Rightarrow> nat"
  assumes "I s" and "retried e"
    and "\<And>s. I s \<Longrightarrow> \<exists>t. f s = (Inl e, t) \<and> \<not> stop t \<and> c t = Suc (c s) \<and>
      (\<forall>k. I (sleep k e t) \<and> c (sleep k e t) = c t)"
  shows "\<exists>t. rt n stop retried sleep f k s = (Inl e, t) \<and> int (c t) = int (c s) + max 1 (n - k + 1)"
  using assms(1)
proof (induction "nat (n - k)" arbitrary: k s rule: less_induct)
  case less
  from assms(3) [OF less.prems] obtain t where t: "f s = (Inl e, t)" "\<not> stop t" "c t = Suc (c s)"
    and go: "\<And>k. I (sleep k e t)" "\<And>k. c (sleep k e t) = c t" by blast
  show ?case
  proof (cases "k < n")
    case True
    with less.hyps [of "k + 1" "sleep k e t"] go(1) obtain u where
      u: "rt n stop retried sleep f (k + 1) (sleep k e t) = (Inl e, u)"
        "int (c u) = int (c (sleep k e t)) + max 1 (n - (k + 1) + 1)" by auto
    have "rt n stop retried sleep f k s = (Inl e, u)"
      using t(1,2) True assms(2) u(1) by (simp add: step [of _ _ _ _ _ k])
    moreover have "int (c u) = int (c s) + max 1 (n - k + 1)" using u(2) go(2) t(3) True by simp
    ultimately show ?thesis by blast
  next
    case False
    then have "rt n stop retried sleep f k s = (Inl e, t)" using t(1) by (simp add: step [of _ _ _ _ _ k])
    with False t(3) show ?thesis by auto
  qed
qed

text \<open>A call succeeds with the first attempt that does, if that is one of the allowed ones.\<close>

lemma succeeds:
  assumes "I es s" and "list_all retried es" and "k + int (length es) \<le> n"
    and "\<And>e es s k. I (e # es) s \<Longrightarrow> \<exists>t. f s = (Inl e, t) \<and> \<not> stop t \<and> I es (sleep k e t)"
    and "\<And>s. I [] s \<Longrightarrow> \<exists>t. f s = (Inr x, t) \<and> Q t"
  shows "\<exists>t. rt n stop retried sleep f k s = (Inr x, t) \<and> Q t"
  using assms(1-3)
proof (induction es arbitrary: k s)
  case Nil
  from assms(5) [OF Nil(1)] show ?case by (auto simp: step [of _ _ _ _ _ k])
next
  case (Cons e es)
  from assms(4) [OF Cons.prems(1)] obtain t where t: "f s = (Inl e, t)" "\<not> stop t" "I es (sleep k e t)" by blast
  with Cons.IH [of "sleep k e t" "k + 1"] Cons.prems(2,3) obtain u where
    "rt n stop retried sleep f (k + 1) (sleep k e t) = (Inr x, u)" "Q u" by auto
  moreover have "k < n" using Cons.prems(3) by simp
  ultimately show ?case using t(1,2) Cons.prems(2) by (auto simp: step [of _ _ _ _ _ k])
qed

lemma is_loop: "rt n stop retried sleep f k s = retry_loop n stop retried sleep f k s"
proof (induction "nat (n - k)" arbitrary: k s rule: less_induct)
  case less
  show ?case
    by (subst step, subst retry_loop.simps) (auto split: sum.splits prod.splits intro!: less.hyps)
qed

end

interpretation loop: documented_retries retry_loop
  by unfold_locales (rule retry_loop_documented)

section \<open>What an attempt records\<close>

text \<open>The log of requests grows by at most one.\<close>

lemma charge_frame:
  "charge env cost (w, m) = (r, (w', m')) \<Longrightarrow> w' = w \<and> lm_sent m' = lm_sent m \<and> lm_config m' = lm_config m \<and>
     response_latencies (lm_metrics m') = response_latencies (lm_metrics m)"
  by (auto simp: charge_def add_cost_def split: sum.splits if_splits)

lemma completion_cost_frame:
  "completion_cost env x (w, m) = (r, (w', m')) \<Longrightarrow> w' = w \<and> lm_sent m' = lm_sent m \<and> lm_config m' = lm_config m \<and>
     response_latencies (lm_metrics m') = response_latencies (lm_metrics m)"
  by (auto simp: completion_cost_def dest: charge_frame split: if_splits option.splits sum.splits)

lemma record_usage_frame:
  "record_usage env x u (w, m) = (r, (w', m')) \<Longrightarrow> w' = w \<and> lm_sent m' = lm_sent m \<and> lm_config m' = lm_config m \<and>
     response_latencies (lm_metrics m') = response_latencies (lm_metrics m)"
  by (auto simp: record_usage_def add_token_usage_def Let_def split: option.splits)

lemma post_completion_cases:
  assumes "post_completion env x (w, m) = (r, s')"
  obtains r1 w1 m1 where "completion_cost env x (w, m) = (r1, (w1, m1))"
    and "(cp_usage x = None \<and> s' = (w1, m1) \<and> (\<exists>c. r = Inr c)) \<or>
      (\<exists>u r2. cp_usage x = Some u \<and> record_usage env x u (w1, m1) = (r2, s') \<and>
        (case r2 of Inl e \<Rightarrow> r = Inl e | Inr _ \<Rightarrow> \<exists>c. r = Inr c))"
proof -
  obtain r1 w1 m1 where c: "completion_cost env x (w, m) = (r1, (w1, m1))"
    by (cases "completion_cost env x (w, m)") auto
  show thesis
  proof (rule that [OF c])
    show "(cp_usage x = None \<and> s' = (w1, m1) \<and> (\<exists>c. r = Inr c)) \<or>
      (\<exists>u r2. cp_usage x = Some u \<and> record_usage env x u (w1, m1) = (r2, s') \<and>
        (case r2 of Inl e \<Rightarrow> r = Inl e | Inr _ \<Rightarrow> \<exists>c. r = Inr c))"
      using assms c
      by (cases r1; cases "cp_usage x") (auto simp: post_completion_def bindS_def tryS_def split: sum.splits prod.splits)
  qed
qed

lemma post_completion_frame:
  assumes "post_completion env x (w, m) = (r, (w', m'))"
  shows "w' = w \<and> lm_sent m' = lm_sent m \<and> lm_config m' = lm_config m \<and>
     response_latencies (lm_metrics m') = response_latencies (lm_metrics m)"
  using assms
proof (cases rule: post_completion_cases)
  case (1 r1 w1 m1)
  then show ?thesis using completion_cost_frame [OF 1(1)] by (auto dest: record_usage_frame)
qed

lemma handle_response_cases:
  assumes "handle_response env ms mocked x s = (r, s')"
  obtains e where "restore_calls env ms mocked x = Inl e" "r = Inl e" "s' = s"
  | x' where "restore_calls env ms mocked x = Inr x'" "cp_choices x' = []" "r = Inl (no_choices env x')" "s' = s"
  | x' r1 where "restore_calls env ms mocked x = Inr x'" "cp_choices x' \<noteq> []" "post_completion env x' s = (r1, s')"
      "r = (case r1 of Inl e \<Rightarrow> Inl e | Inr _ \<Rightarrow> Inr x')"
proof (cases "restore_calls env ms mocked x")
  case (Inr x')
  then show thesis
  proof (cases "cp_choices x' = []")
    case False
    obtain r1 t where p: "post_completion env x' s = (r1, t)" by (cases "post_completion env x' s")
    with Inr False assms have "s' = t" "r = (case r1 of Inl e \<Rightarrow> Inl e | Inr _ \<Rightarrow> Inr x')"
      by (auto simp: handle_response_def bindS_def split: sum.splits)
    with that(3) Inr False p show thesis by blast
  qed (use that assms in \<open>auto simp: handle_response_def\<close>)
qed (use that assms in \<open>auto simp: handle_response_def\<close>)

lemma handle_response_frame:
  assumes "handle_response env ms mocked x (w, m) = (r, (w', m'))"
  shows "w' = w \<and> lm_sent m' = lm_sent m \<and> lm_config m' = lm_config m \<and>
     response_latencies (lm_metrics m') = response_latencies (lm_metrics m)"
  using assms by (cases rule: handle_response_cases) (auto dest: post_completion_frame)

lemma completion_once_cases:
  assumes "completion_once env call (w, m) = (r, s')"
  obtains e where "prepare env m call = Inl e" "r = Inl e" "s' = (w, m)"
  | rq mocked e w' where "prepare env m call = Inr (rq, mocked)"
      "le_send env (wire_request m rq) w = (Inl e, w')" "r = Inl e"
      "s' = (w', m\<lparr>lm_sent := lm_sent m @ [wire_request m rq]\<rparr>)"
  | rq mocked x w' where "prepare env m call = Inr (rq, mocked)"
      "le_send env (wire_request m rq) w = (Inr x, w')"
      "handle_response env (lq_messages rq) mocked x
         (w', record_latency env w w' x (m\<lparr>lm_sent := lm_sent m @ [wire_request m rq]\<rparr>)) = (r, s')"
proof (cases "prepare env m call")
  case (Inl e)
  with assms that(1) show thesis by (auto simp: completion_once_def)
next
  case (Inr p)
  obtain rq mocked where p: "p = (rq, mocked)" by (cases p)
  obtain a w' where s: "le_send env (wire_request m rq) w = (a, w')" by (cases "le_send env (wire_request m rq) w")
  show thesis
  proof (cases a)
    case Inl
    with Inr p s assms that(2) show thesis by (auto simp: completion_once_def Let_def)
  next
    case (Inr x)
    with \<open>prepare env m call = Inr p\<close> p s assms that(3) show thesis by (auto simp: completion_once_def Let_def)
  qed
qed

lemma record_latency_simps [simp]:
  "lm_sent (record_latency env w w' x m) = lm_sent m"
  "lm_config (record_latency env w w' x m) = lm_config m"
  "lm_metrics (record_latency env w w' x m) =
     add_response_latency (le_clock env w' - le_clock env w) (response_name x) (lm_metrics m)"
  by (simp_all add: record_latency_def)

lemma completion_once_frame:
  assumes "completion_once env call (w, m) = (r, (w', m'))"
  shows "length (lm_sent m') \<le> Suc (length (lm_sent m)) \<and> lm_config m' = lm_config m"
  using assms by (cases rule: completion_once_cases) (auto dest: handle_response_frame)

text \<open>The totals stay those of the recorded calls.\<close>

lemma charge_consistent:
  "charge env cost (w, m) = (r, (w', m')) \<Longrightarrow> metrics_consistent (lm_metrics m) \<Longrightarrow> metrics_consistent (lm_metrics m')"
  by (auto simp: charge_def dest: consistent_add_cost split: sum.splits)

lemma completion_cost_consistent:
  "completion_cost env x (w, m) = (r, (w', m')) \<Longrightarrow> metrics_consistent (lm_metrics m) \<Longrightarrow>
     metrics_consistent (lm_metrics m')"
  by (auto simp: completion_cost_def dest: charge_consistent split: if_splits option.splits sum.splits)

definition natural_window :: "'w llm_env \<Rightarrow> llm \<Rightarrow> bool" where
  "natural_window env m \<longleftrightarrow> (case le_int env (window_value m) of None \<Rightarrow> True | Some n \<Rightarrow> 0 \<le> n)"

lemma window_frame:
  "charge env cost (w, m) = (r, (w', m')) \<Longrightarrow> lm_model_info m' = lm_model_info m"
  "completion_cost env x (w, m) = (r, (w', m')) \<Longrightarrow> lm_model_info m' = lm_model_info m"
  by (auto simp: charge_def completion_cost_def split: if_splits option.splits sum.splits)

lemma post_completion_consistent:
  assumes "post_completion env x (w, m) = (r, (w', m'))" and "metrics_consistent (lm_metrics m)"
    and "natural_window env m"
  shows "metrics_consistent (lm_metrics m')"
  using assms(1)
proof (cases rule: post_completion_cases)
  case (1 r1 w1 m1)
  have m1: "metrics_consistent (lm_metrics m1)" "lm_model_info m1 = lm_model_info m"
    using completion_cost_consistent [OF 1(1) assms(2)] window_frame(2) [OF 1(1)] by simp_all
  from 1(2) show ?thesis
  proof (elim disjE exE conjE)
    fix u r2
    assume u: "record_usage env x u (w1, m1) = (r2, (w', m'))"
    show ?thesis
    proof (cases "le_int env (window_value m1)")
      case None
      with u m1 show ?thesis by (auto simp: record_usage_def)
    next
      case (Some n)
      moreover have "0 \<le> n" using assms(3) Some m1(2) by (simp add: natural_window_def window_value_def)
      ultimately show ?thesis using u m1(1) by (auto simp: record_usage_def intro: consistent_add_token_usage)
    qed
  qed (use m1 in simp)
qed

lemma natural_window_frame:
  "lm_model_info m' = lm_model_info m \<Longrightarrow> natural_window env m' = natural_window env m"
  by (simp add: natural_window_def window_value_def)


lemma post_completion_info:
  assumes "post_completion env x (w, m) = (r, (w', m'))"
  shows "lm_model_info m' = lm_model_info m"
  using assms
proof (cases rule: post_completion_cases)
  case (1 r1 w1 m1)
  then show ?thesis using window_frame(2) [OF 1(1)] by (auto simp: record_usage_def split: option.splits)
qed

text \<open>The accumulated cost never falls.\<close>

lemma charge_cost:
  "charge env cost (w, m) = (r, (w', m')) \<Longrightarrow> accumulated_cost (lm_metrics m) \<le> accumulated_cost (lm_metrics m')"
  by (auto simp: charge_def add_cost_def split: sum.splits if_splits)

lemma completion_cost_cost:
  "completion_cost env x (w, m) = (r, (w', m')) \<Longrightarrow>
     accumulated_cost (lm_metrics m) \<le> accumulated_cost (lm_metrics m')"
  by (auto simp: completion_cost_def dest: charge_cost split: if_splits option.splits sum.splits)

lemma post_completion_cost:
  assumes "post_completion env x (w, m) = (r, (w', m'))"
  shows "accumulated_cost (lm_metrics m) \<le> accumulated_cost (lm_metrics m')"
  using assms
proof (cases rule: post_completion_cases)
  case (1 r1 w1 m1)
  then show ?thesis using completion_cost_cost [OF 1(1)]
    by (auto simp: record_usage_def add_token_usage_def Let_def split: option.splits)
qed

text \<open>The condition on the client that every attempt keeps.\<close>

definition accounts_ok :: "'w llm_env \<Rightarrow> rat \<Rightarrow> llm \<Rightarrow> bool" where
  "accounts_ok env a m \<longleftrightarrow> metrics_consistent (lm_metrics m) \<and> natural_window env m \<and>
     a \<le> accumulated_cost (lm_metrics m)"

lemma post_completion_accounts:
  "post_completion env x (w, m) = (r, (w', m')) \<Longrightarrow> accounts_ok env a m \<Longrightarrow> accounts_ok env a m'"
  using post_completion_consistent [of env x w m r w' m'] natural_window_frame [OF post_completion_info, of env x w m r w' m' env]
    post_completion_cost [of env x w m r w' m']
  by (auto simp: accounts_ok_def)

lemma accounts_ok_update [simp]:
  "accounts_ok env a (m\<lparr>lm_sent := rqs\<rparr>) = accounts_ok env a m"
  "accounts_ok env a (m\<lparr>lm_logged := es, lm_notices := ns\<rparr>) = accounts_ok env a m"
  by (simp_all add: accounts_ok_def natural_window_def window_value_def)

lemma accounts_ok_latency: "accounts_ok env a m \<Longrightarrow> accounts_ok env a (record_latency env w w' x m)"
  by (simp add: accounts_ok_def consistent_add_response_latency natural_window_def window_value_def
      record_latency_def) (simp add: add_response_latency_def)

lemma completion_once_accounts:
  assumes "completion_once env call (w, m) = (r, (w', m'))" and "accounts_ok env a m"
  shows "accounts_ok env a m'"
  using assms(1)
proof (cases rule: completion_once_cases)
  case (3 rq mocked x v)
  have "accounts_ok env a (record_latency env w v x (m\<lparr>lm_sent := lm_sent m @ [wire_request m rq]\<rparr>))"
    by (rule accounts_ok_latency) (simp add: assms(2))
  with 3(3) show ?thesis
    by (cases rule: handle_response_cases) (auto dest: post_completion_accounts)
qed (use assms(2) in auto)

section \<open>From the attempt to the call\<close>

lemma llm_completion_eq:
  assumes "llm_completion rt env call (w, m) = (r, (w', m'))"
  obtains call' where
    "rt (lc_num_retries (lm_config m)) (\<lambda>(w, _). le_should_exit env w) is_retried (before_sleep env)
       (attempt env) 1 (w, m, call) = (r, (w', m', call'))"
  using assms by (auto simp: llm_completion_def split: prod.splits)

lemma attempt_eq:
  "attempt env (w, m, call) = (r, (w', m', call')) \<longleftrightarrow>
     completion_once env call (w, m) = (r, (w', m')) \<and> call' = call"
  by (auto simp: attempt_def split: prod.splits)

lemma before_sleep_eq:
  "before_sleep env k e (w, m, call) =
     (w, m\<lparr>lm_logged := lm_logged m @ [log_retry_attempt (le_stop_attributes env) k e],
           lm_notices := map_option (\<lambda>ns. ns @ [(k, lc_num_retries (lm_config m))]) (lm_notices m)\<rparr>,
      call\<lparr>lq_options := raise_temperature e (lq_options call)\<rparr>)"
  by (simp add: before_sleep_def)

text \<open>A property of the client, and of the call up to its options, that every attempt keeps.\<close>

lemma completion_outcome:
  assumes rt: "retries_as_documented rt"
    and run: "llm_completion rt env call (w, m) = (r, (w', m'))"
    and start: "P m"
    and keep: "\<And>call v m v' m' e. P m \<Longrightarrow> completion_once env call (v, m) = (Inl e, (v', m')) \<Longrightarrow> P m'"
    and pause: "\<And>m es ns. P m \<Longrightarrow> P (m\<lparr>lm_logged := es, lm_notices := ns\<rparr>)"
    and last: "\<And>opts v m v' m' r. P m \<Longrightarrow>
      completion_once env (call\<lparr>lq_options := opts\<rparr>) (v, m) = (r, (v', m')) \<Longrightarrow> Q r (v', m')"
  shows "Q r (w', m')"
proof -
  from run obtain call' where loop: "rt (lc_num_retries (lm_config m)) (\<lambda>(w, _). le_should_exit env w) is_retried
      (before_sleep env) (attempt env) 1 (w, m, call) = (r, (w', m', call'))"
    by (rule llm_completion_eq)
  let ?I = "\<lambda>(v, n, c). P n \<and> (\<exists>opts. c = call\<lparr>lq_options := opts\<rparr>)"
  let ?J = "\<lambda>r (v, n, c). Q r (v, n)"
  have "?J r (w', m', call')"
  proof (rule documented_retries.outcome [where I = ?I and J = ?J, OF documented_retries.intro [OF rt], OF loop])
    show "?I (w, m, call)" unfolding prod.case
      by (intro conjI exI [of _ "lq_options call"]) (simp_all add: start)
  next
    fix s r t
    assume i: "?I s" and a: "attempt env s = (r, t)"
    obtain v n c v' n' c' where s: "s = (v, n, c)" and t: "t = (v', n', c')" by (cases s, cases t)
    from i obtain opts where n: "P n" and c: "c = call\<lparr>lq_options := opts\<rparr>"
      unfolding s prod.case by (elim conjE exE)
    from a have "completion_once env (call\<lparr>lq_options := opts\<rparr>) (v, n) = (r, (v', n'))"
      unfolding s t attempt_eq c by (elim conjE)
    from last [OF n this] show "?J r t" unfolding t prod.case .
  next
    fix s e t k
    assume i: "?I s" and a: "attempt env s = (Inl e, t)"
    obtain v n c v' n' c' where s: "s = (v, n, c)" and t: "t = (v', n', c')" by (cases s, cases t)
    from i obtain opts where n: "P n" and c: "c = call\<lparr>lq_options := opts\<rparr>"
      unfolding s prod.case by (elim conjE exE)
    from a have o: "completion_once env c (v, n) = (Inl e, (v', n'))" and c': "c' = c"
      unfolding s t attempt_eq by simp_all
    show "?I (before_sleep env k e t)"
      unfolding t before_sleep_eq prod.case
      by (intro conjI exI [of _ "raise_temperature e opts"] pause [OF keep [OF n o]]) (simp add: c' c)
  qed
  then show ?thesis unfolding prod.case .
qed


section \<open>What a completion leaves alone\<close>

definition client :: "llm \<Rightarrow> llm_config \<times> string \<times> json_dict \<times> bool \<times> json_dict" where
  "client m = (lm_config m, lm_service_id m, lm_model_info m, lm_function_calling m, lm_kwargs m)"

lemma client_update [simp]:
  "client (m\<lparr>lm_sent := rqs\<rparr>) = client m"
  "client (m\<lparr>lm_logged := es\<rparr>) = client m"
  "client (m\<lparr>lm_notices := ns\<rparr>) = client m"
  "client (m\<lparr>lm_metrics := ms\<rparr>) = client m"
  "client (m\<lparr>lm_cost_supported := b\<rparr>) = client m"
  "client (record_latency env w w' x m) = client m"
  by (simp_all add: client_def record_latency_def)

lemma charge_client: "charge env cost (w, m) = (r, (w', m')) \<Longrightarrow> client m' = client m"
  by (auto simp: charge_def split: sum.splits)

lemma completion_cost_client: "completion_cost env x (w, m) = (r, (w', m')) \<Longrightarrow> client m' = client m"
  by (auto simp: completion_cost_def dest: charge_client split: if_splits option.splits sum.splits)

lemma post_completion_client:
  assumes "post_completion env x (w, m) = (r, (w', m'))"
  shows "client m' = client m"
  using assms
proof (cases rule: post_completion_cases)
  case (1 r1 w1 m1)
  then show ?thesis using completion_cost_client [OF 1(1)] by (auto simp: record_usage_def split: option.splits)
qed

lemma handle_response_client:
  assumes "handle_response env ms mocked x (w, m) = (r, (w', m'))"
  shows "client m' = client m"
  using assms by (cases rule: handle_response_cases) (auto dest: post_completion_client)

lemma completion_once_client:
  assumes "completion_once env call (w, m) = (r, (w', m'))"
  shows "client m' = client m"
  using assms by (cases rule: completion_once_cases) (auto dest: handle_response_client)

lemma client_eqD:
  assumes "client m' = client m"
  shows "lm_config m' = lm_config m" "lm_model_info m' = lm_model_info m"
    "lm_function_calling m' = lm_function_calling m" "lm_kwargs m' = lm_kwargs m"
  using assms by (simp_all add: client_def)

lemma window_value_client: "client m' = client m \<Longrightarrow> window_value m' = window_value m"
  by (drule client_eqD(2)) (simp add: window_value_def)

section \<open>The request\<close>

text \<open>Whether a request can be prepared does not depend on its options, nor on the accounts.\<close>

lemma mock_request_client:
  "client m' = client m \<Longrightarrow> mock_request env m' call = mock_request env m call"
  by (frule client_eqD(1), drule client_eqD(3)) (simp add: mock_request_def split: option.split)

lemma prepare_client: "client m' = client m \<Longrightarrow> prepare env m' call = prepare env m call"
  unfolding prepare_def by (frule client_eqD(1), drule mock_request_client [of _ _ env call]) (simp only:)

lemma prepare_native:
  assumes "lm_function_calling m \<or> lq_tools call = None" and "lq_messages call \<noteq> []"
  shows "prepare env m call = Inr (if occurs_in ''litellm_proxy'' (lc_model (lm_config m)) then call
    else call\<lparr>lq_options := AList.delete ''extra_body'' (lq_options call)\<rparr>, None)"
  using assms by (auto simp: prepare_def mock_request_def split: option.split)

lemma prepare_mocked:
  assumes "prepare env m call = Inr (rq, mocked)" and "lq_tools call = Some tools" and "\<not> lm_function_calling m"
  obtains add where "mocked = Some tools" and "lq_tools rq = None"
    and "convert_fncall_messages_to_non_fncall_messages (le_codec env) (le_windows env) add (lq_messages call) tools
      = Inr (lq_messages rq)"
proof -
  from assms obtain ms where c: "convert_fncall_messages_to_non_fncall_messages (le_codec env) (le_windows env)
      (\<not> occurs_in ''openhands-lm'' (lc_model (lm_config m)) \<and> \<not> occurs_in ''devstral'' (lc_model (lm_config m)))
      (lq_messages call) tools = Inr ms"
    and rq: "lq_messages rq = ms" "mocked = Some tools" "lq_tools rq = None"
    by (auto simp: prepare_def mock_request_def bindE_Inr_iff split: if_splits)
  with that show thesis by simp
qed

lemma mock_request_options:
  assumes "mock_request env m call = Inr (rq, mocked)"
  obtains rq' where "mock_request env m (call\<lparr>lq_options := opts\<rparr>) = Inr (rq', mocked)"
    and "lq_messages rq' = lq_messages rq"
proof (cases "lq_tools call = None \<or> lm_function_calling m")
  case True
  with assms that [of "call\<lparr>lq_options := opts\<rparr>"] show thesis
    by (auto simp: mock_request_def split: option.splits)
next
  case False
  then obtain tools where t: "lq_tools call = Some tools" "\<not> lm_function_calling m" by auto
  let ?c = "convert_fncall_messages_to_non_fncall_messages (le_codec env) (le_windows env)
      (\<not> occurs_in ''openhands-lm'' (lc_model (lm_config m)) \<and> \<not> occurs_in ''devstral'' (lc_model (lm_config m)))
      (lq_messages call) tools"
  from assms t obtain ms where "?c = Inr ms" "lq_messages rq = ms" "mocked = Some tools"
    by (cases ?c) (auto simp: mock_request_def)
  with t that [of "call\<lparr>lq_messages := ms, lq_tools := None, lq_options := mocked_options (lm_config m) opts\<rparr>"]
  show thesis by (simp add: mock_request_def)
qed

lemma prepare_options:
  assumes "prepare env m call = Inr p"
  obtains p' where "prepare env m (call\<lparr>lq_options := opts\<rparr>) = Inr p'"
proof -
  from assms obtain rq mocked where m: "mock_request env m call = Inr (rq, mocked)" and ne: "lq_messages rq \<noteq> []"
    by (cases "mock_request env m call") (auto simp: prepare_def split: if_splits)
  from mock_request_options [OF m] obtain rq' where
    "mock_request env m (call\<lparr>lq_options := opts\<rparr>) = Inr (rq', mocked)" "lq_messages rq' = lq_messages rq" .
  with ne that show thesis by (simp add: prepare_def)
qed

text \<open>What is read from the text of an answer.\<close>

definition carries_valid_call :: "fn_codec \<Rightarrow> tool_def list \<Rightarrow> completion_response \<Rightarrow> bool" where
  "carries_valid_call fc tools x \<longleftrightarrow> (case cp_choices x of [] \<Rightarrow> False
     | c # _ \<Rightarrow> (case chat_calls c of None \<Rightarrow> True | Some [call] \<Rightarrow> valid_call fc tools call | Some _ \<Rightarrow> False))"

lemma restored_valid:
  assumes "\<forall>p \<in> set ms. chat_calls p = None" and "restore_calls env ms (Some tools) y = Inr x"
    and "\<forall>c \<in> set (cp_choices y). chat_calls c = None"
  shows "carries_valid_call (le_codec env) tools x"
proof (cases "cp_choices y")
  case Nil
  with assms(2) show ?thesis by (simp add: restore_calls_def)
next
  case (Cons m rest)
  with assms(2) obtain cs where
    c: "convert_non_fncall_messages_to_fncall_messages (le_codec env) (le_windows env) (ms @ [m]) tools = Inr cs"
    and x: "x = y\<lparr>cp_choices := last cs # rest\<rparr>"
    by (auto simp: restore_calls_def bindE_Inr_iff)
  have "\<forall>p \<in> set (ms @ [m]). chat_calls p = None" using assms(1,3) Cons by simp
  from read_is_valid [OF c this] have len: "length cs = Suc (length ms)"
    and valid: "\<forall>c \<in> set cs. \<forall>calls. chat_calls c = Some calls \<longrightarrow>
      (\<exists>call. calls = [call] \<and> valid_call (le_codec env) tools call)" by simp_all
  from len have "last cs \<in> set cs" by (cases cs) auto
  with valid show ?thesis by (auto simp: carries_valid_call_def x split: option.split list.split)
qed

section \<open>Failing and succeeding attempts\<close>

text \<open>A native request that is sent, with what the provider answers.\<close>

lemma completion_once_fails:
  assumes "prepare env m call = Inr p" and "\<And>rq. \<exists>v'. le_send env rq v = (Inl e, v')"
  obtains v' rq where "completion_once env call (v, m) = (Inl e, (v', m\<lparr>lm_sent := lm_sent m @ [rq]\<rparr>))"
proof -
  obtain rq mocked where p: "p = (rq, mocked)" by (cases p)
  obtain v' where "le_send env (wire_request m rq) v = (Inl e, v')" using assms(2) by blast
  with assms(1) p have "completion_once env call (v, m) = (Inl e, (v', m\<lparr>lm_sent := lm_sent m @ [wire_request m rq]\<rparr>))"
    by (simp add: completion_once_def)
  with that show thesis .
qed

lemma native_response:
  assumes "lm_function_calling m \<or> lq_tools call = None" and "lq_messages call \<noteq> []"
    and "\<And>rq. le_send env rq v = (Inr x, v')" and "cp_choices x \<noteq> []"
  obtains rq where "completion_once env call (v, m) =
    bindS (post_completion env x) (\<lambda>_. retS x)
      (v', record_latency env v v' x (m\<lparr>lm_sent := lm_sent m @ [rq]\<rparr>))"
proof -
  obtain rq where p: "prepare env m call = Inr (rq, None)" using prepare_native [OF assms(1,2)] by blast
  have "completion_once env call (v, m) =
    bindS (post_completion env x) (\<lambda>_. retS x)
      (v', record_latency env v v' x (m\<lparr>lm_sent := lm_sent m @ [wire_request m rq]\<rparr>))"
    by (simp add: completion_once_def p assms(3,4) handle_response_def restore_calls_def)
  with that show thesis .
qed

lemma post_completion_succeeds:
  assumes "cp_usage x = None \<or> le_int env (window_value m) \<noteq> None"
  obtains cost v' m' where "post_completion env x (v, m) = (Inr cost, (v', m'))"
proof -
  obtain r s' where p: "post_completion env x (v, m) = (r, s')" by (cases "post_completion env x (v, m)")
  then show thesis
  proof (cases rule: post_completion_cases)
    case (1 r1 w1 m1)
    have w: "window_value m1 = window_value m"
      using completion_cost_client [OF 1(1)] by (rule window_value_client)
    from 1(2) have "\<exists>cost. r = Inr cost"
    proof (elim disjE exE conjE)
      fix u r2
      assume u: "cp_usage x = Some u" "record_usage env x u (w1, m1) = (r2, s')"
        and r: "case r2 of Inl e \<Rightarrow> r = Inl e | Inr _ \<Rightarrow> \<exists>c. r = Inr c"
      from assms u(1) obtain n where "le_int env (window_value m1) = Some n" using w by auto
      with u(2) have "r2 = Inr ()" by (auto simp: record_usage_def)
      with r show ?thesis by simp
    qed blast
    with p that show thesis by (metis prod.exhaust)
  qed
qed

text \<open>After an answer without choices the next request asks with temperature 1, whatever is configured.\<close>

lemma temperature_overridden:
  assumes "map_of (lq_options call) ''temperature'' = None" and "distinct (map fst (lq_options call))"
  shows "map_of (lq_options (wire_request m (call\<lparr>lq_options :=
    raise_temperature (LLMNoResponseError s) (lq_options call)\<rparr>))) ''temperature'' = Some (JFloat 1)"
proof -
  let ?d = "AList.update ''temperature'' (JFloat 1) (lq_options call)"
  have "distinct (map fst ?d)" using assms(2) by (rule distinct_update)
  then have "map_of (rev ?d) ''temperature'' = map_of ?d ''temperature''" by (simp only: map_of_rev)
  then have "map_of (rev ?d) ''temperature'' = Some (JFloat 1)" by (simp add: update_conv')
  with assms(1) show ?thesis by (simp add: wire_request_def raise_temperature_def map_of_dict_update)
qed

end
