(* ===== verification/Llm_Properties.thy ===== *)
theory Llm_Properties
  imports Llm_Facts Controller_Properties
begin

text \<open>
  The properties of the language model client: how often it asks, when it succeeds, what it
  accounts for, what comes back from a model that only writes text, and how a failure that was
  retried in vain reaches the agent controller.
\<close>

section \<open>A concrete client\<close>

definition client_config :: llm_config where
  "client_config =
     \<lparr>lc_model = ''m'', lc_api_key = None, lc_base_url = None, lc_api_version = None, lc_provider = None,
      lc_timeout = None, lc_drop_params = True, lc_seed = None, lc_temperature = 0, lc_top_p = Some 1,
      lc_top_k = None, lc_max_input_tokens = None, lc_max_output_tokens = None, lc_input_cost = None,
      lc_output_cost = None, lc_reasoning_effort = None, lc_safety_settings = [], lc_aws_region = None,
      lc_aws_key = None, lc_aws_secret = None, lc_completion_kwargs = None, lc_num_retries = 3,
      lc_disable_stop_word = False, lc_disable_vision = False, lc_caching_prompt = True,
      lc_native_tool_calling = None\<rparr>"

definition demo_client :: "json_dict \<Rightarrow> llm" where
  "demo_client info =
     \<lparr>lm_config = client_config, lm_service_id = ''agent'', lm_metrics = new_metrics ''m'',
      lm_model_info = info, lm_function_calling = False, lm_cost_supported = True, lm_kwargs = [],
      lm_sent = [], lm_logged = [], lm_notices = None\<rparr>"

text \<open>The world is the list of the provider's answers; the last one is repeated.\<close>

definition provider_env :: "completion_response result list llm_env" where
  "provider_env =
     \<lparr>le_send = (\<lambda>_ w. (hd w, if tl w = [] then w else tl w)), le_clock = (\<lambda>_. 0),
      le_should_exit = (\<lambda>_. False), le_codec = demo_fc, le_windows = False,
      le_cost = (\<lambda>_ _ _. Inr 1), le_float = (\<lambda>_. None),
      le_int = (\<lambda>v. case v of JInt i \<Rightarrow> Some i | _ \<Rightarrow> None),
      le_invalid = \<lparr>llm_name = ''ValidationError'', llm_text = [], llm_instance_of = [],
        llm_retry_attempt = None, llm_max_retries = None\<rparr>,
      le_show = (\<lambda>_. []), le_stop_attributes = []\<rparr>"

definition hello_request :: llm_call where
  "hello_request = \<lparr>lq_messages = [plain_chat ''user'' (Text ''Hi'')], lq_tools = None, lq_options = []\<rparr>"

definition text_answer :: "usage_info option \<Rightarrow> string \<Rightarrow> completion_response" where
  "text_answer u s = \<lparr>cp_id = Some ''r'', cp_choices = [plain_chat ''assistant'' (Text s)], cp_usage = u,
     cp_cost_header = None\<rparr>"

definition rate_limit :: llm_exn where
  "rate_limit = \<lparr>llm_name = ''RateLimitError'', llm_text = ''slow down'', llm_instance_of = [RateLimitError],
     llm_retry_attempt = None, llm_max_retries = None\<rparr>"

section \<open>Requests\<close>

text \<open>
  C11. Every completion ends after at most as many requests as retries are configured (and one if
  fewer than one is), whatever the provider answers.
\<close>

theorem completion_requests_bounded:
  assumes "retries_as_documented rt" and "llm_completion rt env call (w, m) = (r, (w', m'))"
  shows "int (length (lm_sent m')) \<le> int (length (lm_sent m)) + max 1 (lc_num_retries (lm_config m))"
proof -
  let ?c = "\<lambda>s :: 'a attempt_state. length (lm_sent (fst (snd s)))"
  from assms(2) obtain call' where loop: "rt (lc_num_retries (lm_config m)) (\<lambda>(w, _). le_should_exit env w)
      is_retried (before_sleep env) (attempt env) 1 (w, m, call) = (r, (w', m', call'))"
    by (rule llm_completion_eq)
  have "int (?c (w', m', call')) \<le> int (?c (w, m, call)) + max 1 (lc_num_retries (lm_config m) - 1 + 1)"
  proof (rule documented_retries.bounded [where c = ?c, OF documented_retries.intro [OF assms(1)], OF loop])
    fix s t :: "'a attempt_state" and r
    assume a: "attempt env s = (r, t)"
    obtain v n c v' n' c' where s: "s = (v, n, c)" and t: "t = (v', n', c')" by (cases s, cases t)
    from a have "completion_once env c (v, n) = (r, (v', n'))" by (simp add: s t attempt_eq)
    from completion_once_frame [OF this] show "?c t \<le> Suc (?c s)" by (simp add: s t)
  next
    fix k e and s :: "'a attempt_state"
    show "?c (before_sleep env k e s) = ?c s" by (cases s) (simp add: before_sleep_eq)
  qed
  then show ?thesis by simp
qed

theorem completion_requests_bounded_witness:
  "case llm_completion retry_loop provider_env hello_request ([Inl (LLMExn rate_limit)], demo_client []) of
     (_, (_, m')) \<Rightarrow> int (length (lm_sent m')) \<le> int (length (lm_sent (demo_client []))) + max 1 3"
proof -
  obtain r w' m' where c: "llm_completion retry_loop provider_env hello_request ([Inl (LLMExn rate_limit)], demo_client []) = (r, (w', m'))"
    by (metis prod.exhaust)
  from completion_requests_bounded [OF retry_loop_documented c] show ?thesis
    unfolding c prod.case by (simp add: demo_client_def client_config_def)
qed

text \<open>
  C12. A completion succeeds as soon as the provider does: if the first answers are failures that
  are retried, fewer than there are attempts, and the next one is usable, the call returns that
  answer after exactly that many requests. (The client calls functions natively or no tools are
  given, so that the answer is not converted, and no shutdown is requested.)
\<close>

theorem completion_succeeds_eventually:
  assumes rt: "retries_as_documented rt"
    and provider: "\<forall>rq a v. le_send env rq (a # v) = (a, v)" and exit: "\<forall>v. \<not> le_should_exit env v"
    and native: "lm_function_calling m \<or> lq_tools call = None" and ne: "lq_messages call \<noteq> []"
    and usable: "cp_choices x \<noteq> []" "cp_usage x = None \<or> le_int env (window_value m) \<noteq> None"
    and es: "list_all is_retried es" "int (length es) < lc_num_retries (lm_config m)"
  shows "\<exists>m'. llm_completion rt env call (map Inl es @ Inr x # rest, m) = (Inr x, (rest, m')) \<and>
    length (lm_sent m') = length (lm_sent m) + length es + 1"
proof -
  let ?N = "length (lm_sent m) + length es"
  let ?I = "\<lambda>es (v, n, c). v = map Inl es @ Inr x # rest \<and> client n = client m \<and>
     (\<exists>opts. c = call\<lparr>lq_options := opts\<rparr>) \<and> length (lm_sent n) + length es = ?N"
  let ?Q = "\<lambda>(v, n, c :: llm_call). v = rest \<and> length (lm_sent n) = ?N + 1"
  have nat': "lm_function_calling n \<or> lq_tools c = None" "lq_messages c \<noteq> []"
    if "client n = client m" "c = call\<lparr>lq_options := opts\<rparr>" for n c opts
    using that native ne client_eqD(3) [OF that(1)] by auto
  have "\<exists>t. rt (lc_num_retries (lm_config m)) (\<lambda>(w, _). le_should_exit env w) is_retried (before_sleep env)
      (attempt env) 1 (map Inl es @ Inr x # rest, m, call) = (Inr x, t) \<and> ?Q t"
  proof (rule documented_retries.succeeds [where I = ?I and Q = ?Q, OF documented_retries.intro [OF rt]])
    show "?I es (map Inl es @ Inr x # rest, m, call)"
      unfolding prod.case by (intro conjI exI [of _ "lq_options call"]) simp_all
    show "list_all is_retried es" "1 + int (length es) \<le> lc_num_retries (lm_config m)" using es by simp_all
  next
    fix e fs k and s :: "completion_response result list attempt_state"
    assume i: "?I (e # fs) s"
    obtain v n c where s: "s = (v, n, c)" by (cases s)
    from i obtain opts where v: "v = Inl e # map Inl fs @ Inr x # rest" and n: "client n = client m"
      and c: "c = call\<lparr>lq_options := opts\<rparr>" and len: "Suc (length (lm_sent n) + length fs) = ?N"
      unfolding s by auto
    let ?v' = "map Inl fs @ Inr x # rest"
    obtain rq where "prepare env n c = Inr (rq, None)" using prepare_native [OF nat' [OF n c]] by blast
    then have once: "completion_once env c (v, n) = (Inl e, (?v', n\<lparr>lm_sent := lm_sent n @ [wire_request n rq]\<rparr>))"
      using provider v by (simp add: completion_once_def)
    let ?t = "(?v', n\<lparr>lm_sent := lm_sent n @ [wire_request n rq]\<rparr>, c)"
    have "attempt env s = (Inl e, ?t)" using once unfolding s attempt_eq by simp
    moreover have "?I fs (before_sleep env k e ?t)"
      unfolding before_sleep_eq prod.case
      by (intro conjI exI [of _ "raise_temperature e opts"]) (use n len in \<open>simp_all add: c\<close>)
    ultimately show "\<exists>t. attempt env s = (Inl e, t) \<and> \<not> (case t of (w, _) \<Rightarrow> le_should_exit env w) \<and>
        ?I fs (before_sleep env k e t)"
      using exit by (intro exI [of _ ?t] conjI) simp_all
  next
    fix s :: "completion_response result list attempt_state"
    assume i: "?I [] s"
    obtain v n c where s: "s = (v, n, c)" by (cases s)
    from i obtain opts where v: "v = Inr x # rest" and n: "client n = client m"
      and c: "c = call\<lparr>lq_options := opts\<rparr>" and len: "length (lm_sent n) = ?N" unfolding s by auto
    have send: "le_send env rq v = (Inr x, rest)" for rq using provider v by simp
    from native_response [OF nat' [OF n c] send usable(1)] obtain rq where
      once: "completion_once env c (v, n) = bindS (post_completion env x) (\<lambda>_. retS x)
        (rest, record_latency env v rest x (n\<lparr>lm_sent := lm_sent n @ [rq]\<rparr>))" .
    let ?n = "record_latency env v rest x (n\<lparr>lm_sent := lm_sent n @ [rq]\<rparr>)"
    have "window_value ?n = window_value m" by (rule window_value_client) (simp add: n)
    with usable(2) have "cp_usage x = None \<or> le_int env (window_value ?n) \<noteq> None" by simp
    then obtain cost v' n' where p: "post_completion env x (rest, ?n) = (Inr cost, (v', n'))"
      by (rule post_completion_succeeds)
    from post_completion_frame [OF p] have "v' = rest" "length (lm_sent n') = ?N + 1" by (simp_all add: len)
    moreover have "attempt env s = (Inr x, (v', n', c))" unfolding s attempt_eq once by (simp add: bindS_def p)
    ultimately show "\<exists>t. attempt env s = (Inr x, t) \<and> ?Q t"
      by (intro exI [of _ "(v', n', c)"]) simp
  qed
  then show ?thesis by (auto simp: llm_completion_def)
qed

definition queue_env :: "completion_response result list llm_env" where
  "queue_env = provider_env\<lparr>le_send := (\<lambda>_ w. (hd w, tl w))\<rparr>"

theorem completion_succeeds_eventually_witness:
  "\<exists>m'. llm_completion retry_loop queue_env hello_request
      (map Inl [LLMExn rate_limit, LLMNoResponseError []] @ Inr (text_answer None ''ok'') # [], demo_client []) =
      (Inr (text_answer None ''ok''), ([], m')) \<and> length (lm_sent m') = length (lm_sent (demo_client [])) + 2 + 1"
  using completion_succeeds_eventually [OF retry_loop_documented, of queue_env "demo_client []" hello_request
      "text_answer None ''ok''" "[LLMExn rate_limit, LLMNoResponseError []]" "[]"]
  by (simp add: queue_env_def provider_env_def hello_request_def text_answer_def demo_client_def client_config_def
      is_retried_def LLM_RETRY_CLASSES_def instance_of_def rate_limit_def)

section \<open>Accounting\<close>

text \<open>
  C34. Whatever the provider answers and however often the client retries, its metrics stay
  consistent: the accumulated cost is the sum of the recorded costs and never falls, and the
  accumulated usage is that of the recorded usages.
\<close>

theorem completion_keeps_accounts:
  assumes "retries_as_documented rt" and "llm_completion rt env call (w, m) = (r, (w', m'))"
    and "metrics_consistent (lm_metrics m)" and "natural_window env m"
  shows "metrics_consistent (lm_metrics m') \<and>
    accumulated_cost (lm_metrics m) \<le> accumulated_cost (lm_metrics m')"
proof -
  let ?P = "accounts_ok env (accumulated_cost (lm_metrics m))"
  have "?P (snd (w', m'))"
  proof (rule completion_outcome [where P = ?P and Q = "\<lambda>r s. ?P (snd s)", OF assms(1), OF assms(2)])
    show "?P m" using assms(3,4) by (simp add: accounts_ok_def)
  next
    fix call :: llm_call and v n v' n' e
    assume "?P n" and "completion_once env call (v, n) = (Inl e, (v', n'))"
    then show "?P n'" by (rule completion_once_accounts [rotated])
  next
    fix opts v n v' n' r
    assume "?P n" and "completion_once env (call\<lparr>lq_options := opts\<rparr>) (v, n) = (r, (v', n'))"
    then have "?P n'" by (rule completion_once_accounts [rotated])
    then show "?P (snd (v', n'))" by simp
  qed simp
  then show ?thesis by (simp add: accounts_ok_def)
qed

theorem completion_keeps_accounts_witness:
  "\<exists>r w' m'. llm_completion retry_loop provider_env hello_request ([Inr (text_answer None ''ok'')], demo_client []) = (r, (w', m')) \<and>
    metrics_consistent (lm_metrics m') \<and> 0 \<le> accumulated_cost (lm_metrics m')"
proof -
  obtain r w' m' where c: "llm_completion retry_loop provider_env hello_request
      ([Inr (text_answer None ''ok'')], demo_client []) = (r, (w', m'))" by (metis prod.exhaust)
  have "metrics_consistent (lm_metrics (demo_client []))" "natural_window provider_env (demo_client [])"
    "accumulated_cost (lm_metrics (demo_client [])) = 0"
    by (simp_all add: demo_client_def consistent_new natural_window_def window_value_def provider_env_def)
      (simp add: new_metrics_def)
  with completion_keeps_accounts [OF retry_loop_documented c] c show ?thesis by auto
qed

text \<open>
  An answer of a text-only model whose call is malformed is not accounted for: its latency is
  recorded before the text is read, its cost and its tokens after, so the exception leaves them
  out although the provider has charged for them.
\<close>

theorem unreadable_answer_not_charged:
  assumes rt: "retries_as_documented rt" and p: "prepare env m call = Inr (rq, mocked)"
    and send: "le_send env (wire_request m rq) w = (Inr x, w')"
    and bad: "restore_calls env (lq_messages rq) mocked x = Inl e" and "\<not> is_retried e"
  shows "\<exists>m'. llm_completion rt env call (w, m) = (Inl e, (w', m')) \<and>
    accumulated_cost (lm_metrics m') = accumulated_cost (lm_metrics m) \<and>
    token_usages (lm_metrics m') = token_usages (lm_metrics m) \<and>
    length (response_latencies (lm_metrics m')) = Suc (length (response_latencies (lm_metrics m)))"
proof -
  let ?m = "record_latency env w w' x (m\<lparr>lm_sent := lm_sent m @ [wire_request m rq]\<rparr>)"
  have "completion_once env call (w, m) = (Inl e, (w', ?m))"
    by (simp add: completion_once_def p send handle_response_def bad)
  then have "attempt env (w, m, call) = (Inl e, (w', ?m, call))" by (simp add: attempt_eq)
  then have "llm_completion rt env call (w, m) = (Inl e, (w', ?m))"
    using assms(5)
    by (simp add: llm_completion_def documented_retries.step [OF documented_retries.intro [OF rt]])
  then show ?thesis by (simp add: add_response_latency_def)
qed

definition mocked_request :: llm_call where
  "mocked_request = hello_request\<lparr>lq_tools := Some [demo_tool]\<rparr>"

definition wrong_answer :: completion_response where
  "wrong_answer = text_answer None (''<function=delete>'' @ LF @ ''</function>'')"

lemma mocked_request_written:
  obtains rq where "prepare provider_env (demo_client []) mocked_request = Inr (rq, Some [demo_tool])"
    and "\<forall>p \<in> set (lq_messages rq). chat_calls p = None" and "lq_messages rq = [plain_chat ''user'' (Text ''Hi'')]"
proof -
  let ?rq = "mocked_request\<lparr>lq_tools := None, lq_options := mocked_options client_config []\<rparr>"
  have c: "convert_fncall_messages_to_non_fncall_messages demo_fc False add [plain_chat ''user'' (Text ''Hi'')] [demo_tool]
      = Inr [plain_chat ''user'' (Text ''Hi'')]" for add
    by (cases add)
      (simp_all add: convert_fncall_messages_to_non_fncall_messages_def convert_tools_to_description_def demo_example
        to_plain_message_def first_user_body_def plain_chat_def, simp_all add: demo_tool_def)
  show thesis
  proof (rule that)
    show "prepare provider_env (demo_client []) mocked_request =
        Inr (if occurs_in ''litellm_proxy'' (lc_model client_config) then ?rq
          else ?rq\<lparr>lq_options := AList.delete ''extra_body'' (lq_options ?rq)\<rparr>, Some [demo_tool])"
      using c by (simp add: prepare_def mock_request_def mocked_request_def hello_request_def demo_client_def provider_env_def)
  qed (simp_all add: mocked_request_def hello_request_def plain_chat_def)
qed

lemma demo_user_kept:
  "from_plain_message demo_fc [demo_tool] suff [] 1 False (plain_chat ''user'' (Text ''Hi'')) =
     Inr (plain_chat ''user'' (Text ''Hi''), 1, True)"
proof -
  have "from_user_body 1 (body_without_example [] (Text ''Hi'')) = plain_chat ''user'' (Text ''Hi'')" by code_simp
  then show ?thesis by (simp add: from_plain_message_def plain_chat_def some_content_def)
qed

theorem unreadable_answer_not_charged_witness:
  "\<exists>e m'. llm_completion retry_loop provider_env mocked_request ([Inr wrong_answer], demo_client []) =
      (Inl e, ([Inr wrong_answer], m')) \<and>
    accumulated_cost (lm_metrics m') = accumulated_cost (lm_metrics (demo_client [])) \<and>
    token_usages (lm_metrics m') = token_usages (lm_metrics (demo_client [])) \<and>
    length (response_latencies (lm_metrics m')) = Suc (length (response_latencies (lm_metrics (demo_client []))))"
proof -
  obtain rq where p: "prepare provider_env (demo_client []) mocked_request = Inr (rq, Some [demo_tool])"
    and ms: "lq_messages rq = [plain_chat ''user'' (Text ''Hi'')]" by (rule mocked_request_written)
  have send: "le_send provider_env (wire_request (demo_client []) rq) [Inr wrong_answer] = (Inr wrong_answer, [Inr wrong_answer])"
    by (simp add: provider_env_def)
  have fn: "from_assistant_message demo_fc [demo_tool] 1 (plain_chat ''assistant'' (Text (''<function=delete>'' @ LF @ ''</function>'')))
      = Inl (FunctionCallValidationError (''Function '' @ SQUOTE @ ''delete'' @ SQUOTE @ '' not found in available tools: ''))"
    by code_simp
  have "restore_calls provider_env (lq_messages rq) (Some [demo_tool]) wrong_answer =
      Inl (FunctionCallValidationError (''Function '' @ SQUOTE @ ''delete'' @ SQUOTE @ '' not found in available tools: ''))"
  proof -
    obtain d where d: "convert_tools_to_description demo_fc [demo_tool] = Inr d"
      by (simp add: convert_tools_to_description_def demo_tool_def)
    have a: "from_plain_message demo_fc [demo_tool] suff [] 1 True
        (plain_chat ''assistant'' (Text (''<function=delete>'' @ LF @ ''</function>''))) =
        Inl (FunctionCallValidationError (''Function '' @ SQUOTE @ ''delete'' @ SQUOTE @ '' not found in available tools: ''))" for suff
      using fn by (simp add: from_plain_message_def plain_chat_def)
    show ?thesis
      using demo_user_kept [unfolded plain_chat_def] a [unfolded plain_chat_def]
      by (simp add: restore_calls_def wrong_answer_def text_answer_def ms provider_env_def plain_chat_def
          convert_non_fncall_messages_to_fncall_messages_def d demo_example)
  qed
  then obtain e where e: "restore_calls provider_env (lq_messages rq) (Some [demo_tool]) wrong_answer = Inl e"
    and "\<not> is_retried e"
    by (simp add: is_retried_def LLM_RETRY_CLASSES_def instance_of_def)
  from unreadable_answer_not_charged [OF retry_loop_documented p send this] show ?thesis by (rule exI)
qed

text \<open>
  If the model information has an entry for the context window without a value, every answer
  that reports its usage is lost: its cost is recorded, then the metrics refuse the value, and the
  exception is not retried.
\<close>

theorem null_context_window_fails:
  assumes rt: "retries_as_documented rt" and native: "lm_function_calling m \<or> lq_tools call = None"
    and ne: "lq_messages call \<noteq> []" and send: "\<forall>rq. le_send env rq w = (Inr x, w')"
    and x: "cp_choices x \<noteq> []" "cp_usage x = Some u" "cp_cost_header x = None"
    and cost: "le_cost env x None (custom_cost (lm_config m)) = Inr c" "0 \<le> c" "lm_cost_supported m"
    and window: "map_of (lm_model_info m) ''max_input_tokens'' = Some JNull" "le_int env JNull = None"
    and final: "\<not> is_retried (LLMExn (le_invalid env))"
  shows "\<exists>m'. llm_completion rt env call (w, m) = (Inl (LLMExn (le_invalid env)), (w', m')) \<and>
    accumulated_cost (lm_metrics m') = accumulated_cost (lm_metrics m) + c \<and>
    token_usages (lm_metrics m') = token_usages (lm_metrics m)"
proof -
  obtain rq where once: "completion_once env call (w, m) = bindS (post_completion env x) (\<lambda>_. retS x)
      (w', record_latency env w w' x (m\<lparr>lm_sent := lm_sent m @ [rq]\<rparr>))"
    using native_response [OF native ne _ x(1), of env w w'] send by blast
  let ?m = "record_latency env w w' x (m\<lparr>lm_sent := lm_sent m @ [rq]\<rparr>)"
  obtain ms where ms: "add_cost (le_clock env w') c (lm_metrics ?m) = Inr ms"
    "accumulated_cost ms = accumulated_cost (lm_metrics m) + c" "token_usages ms = token_usages (lm_metrics m)"
    using cost(2) by (simp add: add_cost_def add_response_latency_def)
  have supported: "lm_cost_supported ?m" using cost(3) by (simp add: record_latency_def)
  have charged: "completion_cost env x (w', ?m) = (Inr c, (w', ?m\<lparr>lm_metrics := ms\<rparr>))"
    using supported x(3) cost(1) ms(1) by (simp add: completion_cost_def charge_def)
  have "window_value (?m\<lparr>lm_metrics := ms\<rparr>) = window_value m" by (rule window_value_client) simp
  then have "le_int env (window_value (?m\<lparr>lm_metrics := ms\<rparr>)) = None"
    using window by (simp add: window_value_def)
  then have refused: "record_usage env x u (w', ?m\<lparr>lm_metrics := ms\<rparr>) =
      (Inl (LLMExn (le_invalid env)), (w', ?m\<lparr>lm_metrics := ms\<rparr>))" by (simp add: record_usage_def)
  have "completion_once env call (w, m) = (Inl (LLMExn (le_invalid env)), (w', ?m\<lparr>lm_metrics := ms\<rparr>))"
    unfolding once by (simp add: bindS_def post_completion_def tryS_def charged x(2) refused)
  then have "attempt env (w, m, call) = (Inl (LLMExn (le_invalid env)), (w', ?m\<lparr>lm_metrics := ms\<rparr>, call))"
    by (simp add: attempt_eq)
  then have "llm_completion rt env call (w, m) = (Inl (LLMExn (le_invalid env)), (w', ?m\<lparr>lm_metrics := ms\<rparr>))"
    using final by (simp add: llm_completion_def documented_retries.step [OF documented_retries.intro [OF rt]])
  with ms show ?thesis by simp
qed

definition hello_usage :: usage_info where
  "hello_usage = \<lparr>ui_prompt = 10, ui_completion = 2, ui_cached = None, ui_cache_write = 0\<rparr>"

theorem null_context_window_fails_witness:
  "\<exists>m'. llm_completion retry_loop provider_env hello_request
      ([Inr (text_answer (Some hello_usage) ''ok'')], demo_client [(''max_input_tokens'', JNull)]) =
      (Inl (LLMExn (le_invalid provider_env)), ([Inr (text_answer (Some hello_usage) ''ok'')], m')) \<and>
    accumulated_cost (lm_metrics m') = accumulated_cost (lm_metrics (demo_client [(''max_input_tokens'', JNull)])) + 1 \<and>
    token_usages (lm_metrics m') = token_usages (lm_metrics (demo_client [(''max_input_tokens'', JNull)]))"
  by (rule null_context_window_fails [where x = "text_answer (Some hello_usage) ''ok''" and u = hello_usage,
        OF retry_loop_documented])
    (simp_all add: provider_env_def hello_request_def text_answer_def demo_client_def is_retried_def
      LLM_RETRY_CLASSES_def instance_of_def)

section \<open>Answers of text-only models\<close>

text \<open>
  C10. A completion with tools for a model that only writes text returns an answer whose first
  message has at most one call, and that call is of an offered tool with valid arguments.
\<close>

theorem mocked_answer_valid:
  assumes rt: "retries_as_documented rt"
    and run: "llm_completion rt env call (w, m) = (Inr x, (w', m'))"
    and tools: "lq_tools call = Some tools" and mock: "\<not> lm_function_calling m"
    and plain: "\<forall>rq v y v'. lq_tools rq = None \<longrightarrow> le_send env rq v = (Inr y, v') \<longrightarrow>
      (\<forall>c \<in> set (cp_choices y). chat_calls c = None)"
  shows "carries_valid_call (le_codec env) tools x"
proof -
  let ?V = "\<lambda>r :: completion_response result. case r of Inl _ \<Rightarrow> True | Inr x \<Rightarrow> carries_valid_call (le_codec env) tools x"
  have "?V (Inr x)"
  proof (rule completion_outcome [where P = "\<lambda>n. client n = client m" and Q = "\<lambda>r s. ?V r", OF rt, OF run])
    fix call' :: llm_call and v n v' n' e
    assume n: "client n = client m" and once: "completion_once env call' (v, n) = (Inl e, (v', n'))"
    from completion_once_client [OF once] n show "client n' = client m" by simp
  next
    fix opts v n v' n' r
    assume n: "client n = client m"
      and once: "completion_once env (call\<lparr>lq_options := opts\<rparr>) (v, n) = (r, (v', n'))"
    have mock': "\<not> lm_function_calling n" using mock client_eqD(3) [OF n] by simp
    from once show "?V r"
    proof (cases rule: completion_once_cases)
      case (3 rq mocked y u)
      have "lq_tools (call\<lparr>lq_options := opts\<rparr>) = Some tools" using tools by simp
      from prepare_mocked [OF 3(1) this mock'] obtain add where mk: "mocked = Some tools" "lq_tools rq = None"
        and w: "convert_fncall_messages_to_non_fncall_messages (le_codec env) (le_windows env) add
          (lq_messages (call\<lparr>lq_options := opts\<rparr>)) tools = Inr (lq_messages rq)" .
      have "lq_tools (wire_request n rq) = None" using mk(2) by (simp add: wire_request_def)
      with plain 3(2) have y: "\<forall>c \<in> set (cp_choices y). chat_calls c = None" by blast
      have ms: "\<forall>p \<in> set (lq_messages rq). chat_calls p = None" using written_without_calls [OF w] by simp
      from 3(3) show ?thesis
      proof (cases rule: handle_response_cases)
        case (3 z r1)
        have "carries_valid_call (le_codec env) tools z" by (rule restored_valid [OF ms _ y]) (use 3(1) mk(1) in simp)
        with 3(4) show ?thesis by (cases r1) simp_all
      qed simp_all
    qed simp_all
  qed simp_all
  then show ?thesis by simp
qed

definition right_answer :: completion_response where
  "right_answer = text_answer None (''<function=lookup>'' @ LF @ ''<parameter=key>x</parameter>'')"

lemma right_answer_read:
  assumes "lq_messages rq = [plain_chat ''user'' (Text ''Hi'')]"
  shows "\<exists>x. restore_calls provider_env (lq_messages rq) (Some [demo_tool]) right_answer = Inr x \<and> cp_usage x = None \<and>
    cp_choices x \<noteq> [] \<and> chat_calls (hd (cp_choices x)) \<noteq> None"
proof -
  obtain d where d: "convert_tools_to_description demo_fc [demo_tool] = Inr d"
    by (simp add: convert_tools_to_description_def demo_tool_def)
  have fn: "from_assistant_message demo_fc [demo_tool] 1
      (plain_chat ''assistant'' (Text (''<function=lookup>'' @ LF @ ''<parameter=key>x</parameter>''))) =
      Inr ((plain_chat ''assistant'' (Text []))\<lparr>chat_calls := Some [\<lparr>call_index = Some 1, call_id = Some ''toolu_01'',
        call_type = Some ''function'', call_function = Some (''lookup'', ''a'')\<rparr>]\<rparr>, 2)"
    by code_simp
  have a: "from_plain_message demo_fc [demo_tool] suff [] 1 True
      (plain_chat ''assistant'' (Text (''<function=lookup>'' @ LF @ ''<parameter=key>x</parameter>''))) =
      Inr ((plain_chat ''assistant'' (Text []))\<lparr>chat_calls := Some [\<lparr>call_index = Some 1, call_id = Some ''toolu_01'',
        call_type = Some ''function'', call_function = Some (''lookup'', ''a'')\<rparr>]\<rparr>, 2, True)" for suff
    using fn by (simp add: from_plain_message_def plain_chat_def)
  show ?thesis
    using demo_user_kept [unfolded plain_chat_def] a [unfolded plain_chat_def]
    by (simp add: restore_calls_def right_answer_def text_answer_def assms provider_env_def plain_chat_def
        convert_non_fncall_messages_to_fncall_messages_def d demo_example)
qed

definition fixed_env :: "completion_response result list llm_env" where
  "fixed_env = provider_env\<lparr>le_send := (\<lambda>_ w. (Inr right_answer, w))\<rparr>"

lemma fixed_env_same:
  "prepare fixed_env m call = prepare provider_env m call"
  "restore_calls fixed_env ms mocked x = restore_calls provider_env ms mocked x"
  by (simp_all add: prepare_def mock_request_def restore_calls_def fixed_env_def no_choices_def
      split: option.split list.split)

theorem mocked_answer_valid_witness:
  "\<exists>x w' m'. llm_completion retry_loop fixed_env mocked_request ([], demo_client []) = (Inr x, (w', m')) \<and>
    chat_calls (hd (cp_choices x)) \<noteq> None \<and> carries_valid_call (le_codec fixed_env) [demo_tool] x"
proof -
  obtain rq where p: "prepare fixed_env (demo_client []) mocked_request = Inr (rq, Some [demo_tool])"
    and ms: "lq_messages rq = [plain_chat ''user'' (Text ''Hi'')]"
    unfolding fixed_env_same by (rule mocked_request_written)
  obtain x where x: "restore_calls fixed_env (lq_messages rq) (Some [demo_tool]) right_answer = Inr x"
    "cp_usage x = None" "cp_choices x \<noteq> []" "chat_calls (hd (cp_choices x)) \<noteq> None"
    using right_answer_read [OF ms] unfolding fixed_env_same by blast
  let ?m = "record_latency fixed_env [] [] right_answer ((demo_client [])\<lparr>lm_sent := [wire_request (demo_client []) rq]\<rparr>)"
  obtain cost v' m' where post: "post_completion fixed_env x ([], ?m) = (Inr cost, (v', m'))"
    by (rule post_completion_succeeds [of x fixed_env ?m "[]"]) (simp add: x(2))
  have "completion_once fixed_env mocked_request ([], demo_client []) = (Inr x, (v', m'))"
  proof -
    have "le_send fixed_env rq' [] = (Inr right_answer, [])" "lm_sent (demo_client []) = []" for rq'
      by (simp_all add: fixed_env_def demo_client_def)
    with x(1,3) post show ?thesis by (simp add: completion_once_def p handle_response_def bindS_def)
  qed
  then have "attempt fixed_env ([], demo_client [], mocked_request) = (Inr x, (v', m', mocked_request))"
    by (simp add: attempt_eq)
  then have run: "llm_completion retry_loop fixed_env mocked_request ([], demo_client []) = (Inr x, (v', m'))"
    by (simp add: llm_completion_def loop.step)
  have "carries_valid_call (le_codec fixed_env) [demo_tool] x"
    by (rule mocked_answer_valid [OF retry_loop_documented run])
      (simp_all add: mocked_request_def demo_client_def fixed_env_def right_answer_def text_answer_def plain_chat_def)
  with run x(4) show ?thesis by blast
qed

section \<open>Failures that were retried in vain\<close>

text \<open>
  If the provider keeps refusing with a rate limit, the client gives up after all its attempts
  and the controller reports that it is still rate limited: the attributes that would tell it that
  the retries are exhausted are only set on failures that are retried.
\<close>

theorem exhausted_retries_reported_as_rate_limited:
  assumes rt: "retries_as_documented rt" and p: "prepare env m call = Inr p"
    and send: "\<forall>rq v. \<exists>v'. le_send env rq v = (Inl (LLMExn x), v')" and exit: "\<forall>v. \<not> le_should_exit env v"
    and x: "llm_instance_of x = [RateLimitError]" "llm_retry_attempt x = None"
    and callback: "has_status_callback c"
  shows "\<exists>w' m'. llm_completion rt env call (w, m) = (Inl (LLMExn x), (w', m')) \<and>
    int (length (lm_sent m')) = int (length (lm_sent m)) + max 1 (lc_num_retries (lm_config m)) \<and>
    react_to_exception cenv (LLMExn x) (cw, c) =
      set_agent_state_to cenv RATE_LIMITED
        (cw, c\<lparr>state := (state c)\<lparr>last_error := llm_name x @ '': '' @ llm_text x\<rparr>\<rparr>)"
proof -
  let ?c = "\<lambda>s :: 'a attempt_state. length (lm_sent (fst (snd s)))"
  let ?I = "\<lambda>(v :: 'a, n, c). client n = client m \<and> (\<exists>opts. c = call\<lparr>lq_options := opts\<rparr>)"
  have retried: "is_retried (LLMExn x)" by (simp add: is_retried_def LLM_RETRY_CLASSES_def instance_of_def x)
  have "\<exists>t. rt (lc_num_retries (lm_config m)) (\<lambda>(w, _). le_should_exit env w) is_retried (before_sleep env)
      (attempt env) 1 (w, m, call) = (Inl (LLMExn x), t) \<and>
      int (?c t) = int (?c (w, m, call)) + max 1 (lc_num_retries (lm_config m) - 1 + 1)"
  proof (rule documented_retries.exhausts [where I = ?I and c = ?c and e = "LLMExn x" and retried = is_retried,
        OF documented_retries.intro [OF rt]])
    show "?I (w, m, call)" unfolding prod.case by (intro conjI exI [of _ "lq_options call"]) simp_all
    show "is_retried (LLMExn x)" by (rule retried)
  next
    fix s :: "'a attempt_state"
    assume i: "?I s"
    obtain v n c where s: "s = (v, n, c)" by (cases s)
    from i obtain opts where n: "client n = client m" and c: "c = call\<lparr>lq_options := opts\<rparr>" unfolding s by auto
    obtain p' where "prepare env n c = Inr p'" using prepare_options [OF p] prepare_client [OF n] c by metis
    then obtain v' rq where once: "completion_once env c (v, n) = (Inl (LLMExn x), (v', n\<lparr>lm_sent := lm_sent n @ [rq]\<rparr>))"
      using completion_once_fails send by metis
    let ?t = "(v', n\<lparr>lm_sent := lm_sent n @ [rq]\<rparr>, c)"
    have a: "attempt env s = (Inl (LLMExn x), ?t)" using once unfolding s attempt_eq by simp
    have b: "?I (before_sleep env k (LLMExn x) ?t) \<and> ?c (before_sleep env k (LLMExn x) ?t) = ?c ?t" for k
      unfolding before_sleep_eq prod.case
      by (intro conjI exI [of _ "raise_temperature (LLMExn x) opts"]) (simp_all add: n c)
    show "\<exists>t. attempt env s = (Inl (LLMExn x), t) \<and> \<not> (case t of (w, _) \<Rightarrow> le_should_exit env w) \<and>
        ?c t = Suc (?c s) \<and> (\<forall>k. ?I (before_sleep env k (LLMExn x) t) \<and> ?c (before_sleep env k (LLMExn x) t) = ?c t)"
      using a b exit by (intro exI [of _ ?t] conjI allI) (simp_all add: s)
  qed
  then obtain w' m' call' where "llm_completion rt env call (w, m) = (Inl (LLMExn x), (w', m'))"
    "int (length (lm_sent m')) = int (length (lm_sent m)) + max 1 (lc_num_retries (lm_config m))"
    by (auto simp: llm_completion_def)
  moreover have "react_to_exception cenv (LLMExn x) (cw, c) =
      set_agent_state_to cenv RATE_LIMITED
        (cw, c\<lparr>state := (state c)\<lparr>last_error := llm_name x @ '': '' @ llm_text x\<rparr>\<rparr>)"
    unfolding react_to_exception_eq
    by (simp add: reaction_state_def reaction_status_def reaction_error_def callback runtime_status_of_def
        instance_of_def retries_exhausted_def x exn_name_def exn_str_def)
  ultimately show ?thesis by blast
qed

definition refusing_env :: "completion_response result list llm_env" where
  "refusing_env = provider_env\<lparr>le_send := (\<lambda>_ w. (Inl (LLMExn rate_limit), w))\<rparr>"

theorem exhausted_retries_reported_as_rate_limited_witness:
  "\<exists>w' m'. llm_completion retry_loop refusing_env hello_request ([], demo_client []) = (Inl (LLMExn rate_limit), (w', m')) \<and>
    int (length (lm_sent m')) = int (length (lm_sent (demo_client []))) + max 1 (lc_num_retries (lm_config (demo_client []))) \<and>
    react_to_exception Controller_Properties.demo_env (LLMExn rate_limit)
        (demo_world, demo_core\<lparr>has_status_callback := True\<rparr>) =
      set_agent_state_to Controller_Properties.demo_env RATE_LIMITED
        (demo_world, demo_core\<lparr>has_status_callback := True,
           state := (state (demo_core\<lparr>has_status_callback := True\<rparr>))
             \<lparr>last_error := llm_name rate_limit @ '': '' @ llm_text rate_limit\<rparr>\<rparr>)"
proof -
  have "lm_function_calling (demo_client []) \<or> lq_tools hello_request = None" "lq_messages hello_request \<noteq> []"
    by (simp_all add: hello_request_def)
  then obtain p where p: "prepare refusing_env (demo_client []) hello_request = Inr p" using prepare_native by blast
  show ?thesis
    by (rule exhausted_retries_reported_as_rate_limited [OF retry_loop_documented p])
      (simp_all add: refusing_env_def provider_env_def rate_limit_def)
qed

end
