(* ===== verification/Registry_Properties.thy ===== *)
theory Registry_Properties
  imports Llm_Registry Llm_Clients Llm_Properties
begin

text \<open>
  The registry and the statistics of its conversation stay in step whatever is requested and
  completed, and what a second request for a service gives.
\<close>

section \<open>In step\<close>

definition registry_metrics :: "registry \<Rightarrow> (string, metrics) dict" where
  "registry_metrics rg = map (\<lambda>(k, m). (k, lm_metrics m)) (rg_llms rg)"

definition in_step :: "registry \<Rightarrow> bool" where
  "in_step rg \<longleftrightarrow> (case rg_stats rg of None \<Rightarrow> False
     | Some cs \<Rightarrow> service_to_metrics cs = registry_metrics rg)"

lemma map_update:
  "map (\<lambda>(k, m). (k, g m)) (AList.update k v xs) = AList.update k (g v) (map (\<lambda>(k, m). (k, g m)) xs)"
  by (induction xs) auto

lemma update_again: "AList.update k v (AList.update k u xs) = AList.update k v xs"
  by (induction xs) auto

lemma notify_in_step:
  assumes "rg_stats rg = Some cs" and "rg_llms rg = AList.update sid m xs"
    and "service_to_metrics cs = map (\<lambda>(k, m). (k, lm_metrics m)) xs"
  shows "in_step (notify_registered sid m rg)"
  using assms
  by (auto simp: notify_registered_def in_step_def registry_metrics_def register_llm_def map_update update_again
      Let_def split: option.split)

lemma create_in_step:
  assumes "create_new_llm su sid c l rg = Inr rg'" and "in_step rg"
  shows "in_step rg'"
proof -
  obtain cs where cs: "rg_stats rg = Some cs" "service_to_metrics cs = registry_metrics rg"
    using assms(2) by (cases "rg_stats rg") (simp_all add: in_step_def)
  from assms(1) obtain m where "rg' = notify_registered sid m (rg\<lparr>rg_llms := AList.update sid m (rg_llms rg)\<rparr>)"
    by (auto simp: create_new_llm_def bindE_Inr_iff)
  moreover have "in_step (notify_registered sid m (rg\<lparr>rg_llms := AList.update sid m (rg_llms rg)\<rparr>))"
    by (rule notify_in_step [of _ cs _ _ "rg_llms rg"]) (use cs in \<open>simp_all add: registry_metrics_def\<close>)
  ultimately show ?thesis by simp
qed

lemma put_back_in_step: "in_step rg \<Longrightarrow> in_step (put_back sid m rg)"
  by (auto simp: put_back_def in_step_def registry_metrics_def map_update split: option.splits)

lemma get_llm_in_step: "get_llm su sid c rg = Inr rg' \<Longrightarrow> in_step rg \<Longrightarrow> in_step rg'"
  by (auto simp: get_llm_def split: option.splits if_splits intro: create_in_step)

lemma complete_in_step:
  "complete_service rt env sid call (w, rg) = (r, (w', rg')) \<Longrightarrow> in_step rg \<Longrightarrow> in_step rg'"
  by (auto simp: complete_service_def split: option.splits prod.splits intro: put_back_in_step)

lemma extraneous_in_step:
  assumes "request_extraneous_completion rt env su sid c ms (w, rg) = (r, (w', rg'))" and "in_step rg"
  shows "in_step rg'"
proof -
  let ?start = "if has_key (rg_llms rg) sid then Inr rg else create_new_llm su sid c False rg"
  show ?thesis
  proof (cases ?start)
    case Inl
    with assms show ?thesis by (simp add: request_extraneous_completion_def)
  next
    case (Inr rg1)
    then have "in_step rg1" using assms(2) create_in_step by (auto split: if_splits)
    moreover obtain r1 w1 rg2 where c: "complete_service rt env sid \<lparr>lq_messages = ms, lq_tools = None, lq_options = []\<rparr>
        (w, rg1) = (r1, (w1, rg2))" by (metis prod.exhaust)
    ultimately have "in_step rg2" by (rule complete_in_step [rotated])
    moreover have "rg' = rg2"
      using assms(1) Inr c by (auto simp: request_extraneous_completion_def bindS_def split: sum.splits)
    ultimately show ?thesis by simp
  qed
qed

section \<open>Runs\<close>

text \<open>The states of a conversation's registry, with the world of the provider.\<close>

inductive registry_reached ::
  "llm_setup \<Rightarrow> ('w attempt_state, completion_response) retrying \<Rightarrow> 'w llm_env \<Rightarrow> 'w \<Rightarrow> registry \<Rightarrow> bool"
  for su rt env where
  registry_start: "registry_reached su rt env w rg'"
    if "new_registry su c l = Inr rg" and "service_to_metrics cs = []" and "subscribe_stats cs rg = Inr rg'"
| registry_request: "registry_reached su rt env w rg'"
    if "registry_reached su rt env w rg" and "get_llm su sid c rg = Inr rg'"
| registry_agent: "registry_reached su rt env w rg'"
    if "registry_reached su rt env w rg" and "get_llm_from_agent_config su sid d rg = Inr rg'"
| registry_complete: "registry_reached su rt env w' rg'"
    if "registry_reached su rt env w rg" and "complete_service rt env sid call (w, rg) = (r, (w', rg'))"
| registry_extraneous: "registry_reached su rt env w' rg'"
    if "registry_reached su rt env w rg"
      and "request_extraneous_completion rt env su sid d ms (w, rg) = (s, (w', rg'))"

lemma new_registry_llms:
  assumes "new_registry su c l = Inr rg"
  obtains m where "rg_llms rg = [(''agent'', m)]" and "rg_stats rg = None"
  using assms
  by (auto simp: new_registry_def get_llm_def create_new_llm_def notify_registered_def bindE_Inr_iff)

lemma start_in_step:
  assumes "new_registry su c l = Inr rg" and "service_to_metrics cs = []" and "subscribe_stats cs rg = Inr rg'"
  shows "in_step rg'"
proof -
  obtain m where m: "rg_llms rg = [(''agent'', m)]" using assms(1) by (rule new_registry_llms)
  then have "rg' = notify_registered ''agent'' m (rg\<lparr>rg_stats := Some cs\<rparr>)"
    using assms(3) by (simp add: subscribe_stats_def)
  moreover have "in_step (notify_registered ''agent'' m (rg\<lparr>rg_stats := Some cs\<rparr>))"
    by (rule notify_in_step [of _ cs _ _ "[]"]) (simp_all add: m assms(2))
  ultimately show ?thesis by simp
qed

lemma reached_in_step: "registry_reached su rt env w rg \<Longrightarrow> in_step rg"
proof (induction rule: registry_reached.induct)
  case (registry_start c l rg cs rg' w)
  then show ?case by (rule start_in_step)
next
  case (registry_request w rg sid c rg')
  show ?case by (rule get_llm_in_step [OF registry_request.hyps(2) registry_request.IH])
next
  case (registry_agent w rg sid d rg')
  then show ?case using create_in_step by (auto simp: get_llm_from_agent_config_def split: if_splits)
next
  case (registry_complete w rg sid call r w' rg')
  show ?case by (rule complete_in_step [OF registry_complete.hyps(2) registry_complete.IH])
next
  case (registry_extraneous w rg sid d ms s w' rg')
  show ?case by (rule extraneous_in_step [OF registry_extraneous.hyps(2) registry_extraneous.IH])
qed

text \<open>
  C13. Whatever clients are requested and whatever they complete, the statistics of the
  conversation hold exactly the metrics of the registered clients, so the cost they report is the
  sum of what the clients have spent.
\<close>

theorem statistics_follow_registry:
  assumes "registry_reached su rt env w rg"
  shows "\<exists>cs. rg_stats rg = Some cs \<and> service_to_metrics cs = registry_metrics rg \<and>
    accumulated_cost (get_combined_metrics cs) = (\<Sum>(k, m) \<leftarrow> rg_llms rg. accumulated_cost (lm_metrics m))"
proof -
  from reached_in_step [OF assms] obtain cs where "rg_stats rg = Some cs" "service_to_metrics cs = registry_metrics rg"
    by (auto simp: in_step_def split: option.splits)
  then show ?thesis by (simp add: combined_cost registry_metrics_def o_def case_prod_unfold)
qed

definition plain_setup :: llm_setup where
  "plain_setup = \<lparr>su_env = (\<lambda>_. None), su_model_info = (\<lambda>_. None),
     su_proxy_models = (\<lambda>_. Inr []), su_supports_vision = (\<lambda>_. False)\<rparr>"

lemma plain_llm:
  assumes "\<not> prefix ''openrouter'' (lc_model c)" and "\<not> prefix ''litellm_proxy/'' (lc_model c)"
    and "lc_top_p c = Some 1" and "lc_completion_kwargs c = None"
  obtains m where "new_llm plain_setup sid c None False = Inr m"
proof -
  have "find_model_info plain_setup c = Inr []"
    using assms(1,2) by (simp add: find_model_info_def plain_setup_def info_or_def)
  with assms(3,4) show thesis by (rule_tac new_llm_built [OF _ _ _ that]) simp_all
qed

theorem statistics_follow_registry_witness:
  "\<exists>rg cs. registry_reached plain_setup retry_loop provider_env [] rg \<and> rg_stats rg = Some cs \<and>
    service_to_metrics cs = registry_metrics rg \<and> rg_llms rg \<noteq> [] \<and>
    accumulated_cost (get_combined_metrics cs) = (\<Sum>(k, m) \<leftarrow> rg_llms rg. accumulated_cost (lm_metrics m))"
proof -
  obtain m where m: "new_llm plain_setup ''agent'' client_config None False = Inr m"
    by (rule plain_llm [of client_config]) (simp_all add: client_config_def)
  let ?rg = "\<lparr>rg_llms = [(''agent'', m)], rg_stats = None, rg_listener = False\<rparr>"
  let ?cs = "\<lparr>metrics_path = [], has_file_store = False, conversation_id = [], service_to_metrics = [],
    restored_metrics = []\<rparr>"
  have new: "new_registry plain_setup client_config False = Inr ?rg"
    by (simp add: new_registry_def get_llm_def create_new_llm_def m notify_registered_def)
  obtain rg where sub: "subscribe_stats ?cs ?rg = Inr rg" by (simp add: subscribe_stats_def)
  have reached: "registry_reached plain_setup retry_loop provider_env [] rg"
    by (rule registry_start [OF new _ sub]) simp
  have "rg_llms rg \<noteq> []" using sub by (auto simp: subscribe_stats_def notify_registered_def Let_def split: prod.splits)
  with statistics_follow_registry [OF reached] reached show ?thesis by blast
qed

section \<open>A second request\<close>

lemma new_llm_config:
  assumes "new_llm su sid c ms l = Inr m" and "prefix ''openhands/'' (lc_model c)"
  shows "prefix ''litellm_proxy/'' (lc_model (lm_config m))"
proof -
  have "lc_model (set_limits info c) = lc_model c" for info by (simp add: set_limits_def Let_def)
  with assms show ?thesis
    by (auto simp: new_llm_def bindE_Inr_iff init_model_info_def Let_def rewrite_model_def)
qed

lemma create_lookup:
  assumes "create_new_llm su sid c l rg = Inr rg'"
  obtains m m0 where "map_of (rg_llms rg') sid = Some m" and "new_llm su sid c None (l \<and> rg_listener rg) = Inr m0"
    and "lm_config m = lm_config m0"
proof -
  from assms obtain m0 where m0: "new_llm su sid c None (l \<and> rg_listener rg) = Inr m0"
    and rg': "rg' = notify_registered sid m0 (rg\<lparr>rg_llms := AList.update sid m0 (rg_llms rg)\<rparr>)"
    by (auto simp: create_new_llm_def bindE_Inr_iff)
  have "\<exists>m. map_of (rg_llms rg') sid = Some m \<and> lm_config m = lm_config m0"
    by (auto simp: rg' notify_registered_def register_llm_def Let_def update_conv' split: option.splits prod.splits)
  with m0 that show thesis by blast
qed

text \<open>
  C38. The registry refuses a second request for a service with the same configuration if the client
  has completed its configuration in between. With an OpenHands model it always has: the condenser
  of a delegate agent cannot be built once the condenser of its parent is.
\<close>

theorem second_request_refused:
  assumes "get_llm su sid (Some c) rg = Inr rg1" and "map_of (rg_llms rg) sid = None"
    and "prefix ''openhands/'' (lc_model c)"
  shows "get_llm su sid (Some c) rg1 = Inl (ValueError (''Requesting same service ID '' @ sid @
    '' with different config, use a new service ID''))"
proof -
  from assms(1,2) have "create_new_llm su sid c True rg = Inr rg1" by (simp add: get_llm_def)
  then obtain m m0 where m: "map_of (rg_llms rg1) sid = Some m" and new: "new_llm su sid c None (True \<and> rg_listener rg) = Inr m0"
    and same: "lm_config m = lm_config m0" by (rule create_lookup)
  have "prefix ''litellm_proxy/'' (lc_model (lm_config m))" using new_llm_config [OF new assms(3)] same by simp
  with assms(3) have "c \<noteq> lm_config m" by (cases "lc_model c") (auto simp: prefix_def)
  with m show ?thesis by (simp add: get_llm_def)
qed

theorem second_request_refused_witness:
  "\<exists>rg1. condenser_llm plain_setup (client_config\<lparr>lc_model := ''openhands/m''\<rparr>)
      \<lparr>rg_llms = [], rg_stats = None, rg_listener = False\<rparr> = Inr rg1 \<and>
    condenser_llm plain_setup (client_config\<lparr>lc_model := ''openhands/m''\<rparr>) rg1 =
      Inl (ValueError (''Requesting same service ID '' @ ''condenser'' @ '' with different config, use a new service ID''))"
proof -
  let ?c = "client_config\<lparr>lc_model := ''openhands/m''\<rparr>\<lparr>lc_caching_prompt := False\<rparr>"
  let ?rg = "\<lparr>rg_llms = [], rg_stats = None, rg_listener = False\<rparr>"
  obtain m where "new_llm plain_setup ''condenser'' ?c None False = Inr m"
    by (rule plain_llm [of ?c]) (simp_all add: client_config_def)
  then obtain rg1 where rg1: "get_llm plain_setup ''condenser'' (Some ?c) ?rg = Inr rg1"
    by (simp add: get_llm_def create_new_llm_def)
  have "get_llm plain_setup ''condenser'' (Some ?c) rg1 =
      Inl (ValueError (''Requesting same service ID '' @ ''condenser'' @ '' with different config, use a new service ID''))"
    by (rule second_request_refused [OF rg1]) simp_all
  with rg1 show ?thesis by (simp add: condenser_llm_def)
qed

text \<open>With a configuration that the client leaves as it is, the service is found again.\<close>

lemma get_llm_again:
  assumes "get_llm su sid (Some c) rg = Inr rg1" and "map_of (rg_llms rg1) sid = Some m" and "lm_config m = c"
  shows "get_llm su sid (Some c) rg1 = Inr rg1"
  using assms(2,3) by (simp add: get_llm_def)

section \<open>The router\<close>

text \<open>Once the secondary model's window was exceeded, every later request goes to the primary one.\<close>

lemma router_stays_primary:
  "ro_max_token_exceeded ro \<Longrightarrow>
     fst (select_llm tokens secondary ms ro) = ''primary'' \<and>
     ro_max_token_exceeded (snd (select_llm tokens secondary ms ro))"
  by (simp add: select_llm_def Let_def)

end
