(* ===== verification/Other_Agents.thy ===== *)
theory Other_Agents
  imports Codeact_Agent
begin

text \<open>
  The agents that reuse the CodeAct agent with tools of their own: the read-only agent
  (\<open>openhands/agenthub/readonly_agent\<close>), whose searches become shell commands, and the
  localization agent (\<open>openhands/agenthub/loc_agent\<close>), whose searches become Python code.
\<close>

section \<open>Quoting for the shell\<close>

text \<open>\<open>shlex.quote\<close>: a text of safe characters is left as it is.\<close>

definition SQ :: char where "SQ = CHR 0x27"
definition DQ :: char where "DQ = CHR 0x22"

definition is_ascii_word :: "char \<Rightarrow> bool" where
  "is_ascii_word c = (let n = of_char c :: nat in
     48 \<le> n \<and> n \<le> 57 \<or> 65 \<le> n \<and> n \<le> 90 \<or> n = 95 \<or> 97 \<le> n \<and> n \<le> 122)"

definition is_shell_safe :: "char \<Rightarrow> bool" where
  "is_shell_safe c \<longleftrightarrow> is_ascii_word c \<or> c \<in> set ''@%+=:,./-''"

fun escape_quotes :: "string \<Rightarrow> string" where
  "escape_quotes [] = []"
| "escape_quotes (c # s) = (if c = SQ then [SQ, DQ, SQ, DQ, SQ] else [c]) @ escape_quotes s"

definition shlex_quote :: "string \<Rightarrow> string" where
  "shlex_quote s =
     (if s = [] then [SQ, SQ]
      else if list_all is_shell_safe s then s
      else [SQ] @ escape_quotes s @ [SQ])"

text \<open>The argument is what the model gave: only a text or a false value can be quoted.\<close>

definition quote_json :: "json \<Rightarrow> string decoded" where
  "quote_json v = (case v of
     JStr s \<Rightarrow> Inr (shlex_quote s)
   | _ \<Rightarrow> if json_truthy v then Inl (Raised (TypeError ''expected string or bytes-like object''))
          else Inr [SQ, SQ])"

section \<open>The searches of the read-only agent\<close>

definition with_header :: "string \<Rightarrow> string \<Rightarrow> string" where
  "with_header kind cmd =
     ''echo '' @ [DQ] @ ''Below are the execution results of the '' @ kind @ '' command: '' @ cmd @ LF @ [DQ] @
     ''; '' @ cmd"

definition grep_command :: "string \<Rightarrow> string option \<Rightarrow> string \<Rightarrow> string" where
  "grep_command quoted_pattern quoted_include path_arg =
     ''rg -li '' @ quoted_pattern @ '' --sortr=modified'' @
     (case quoted_include of None \<Rightarrow> [] | Some q \<Rightarrow> '' --glob '' @ q) @ '' '' @ path_arg @ '' | head -n 100''"

definition glob_command :: "string \<Rightarrow> string \<Rightarrow> string" where
  "glob_command quoted_pattern quoted_path =
     ''rg --files '' @ quoted_path @ '' -g '' @ quoted_pattern @ '' --sortr=modified'' @ '' | head -n 100''"

definition grep_to_cmdrun :: "json \<Rightarrow> json \<Rightarrow> json \<Rightarrow> string decoded" where
  "grep_to_cmdrun pattern path include =
     bindD (quote_json pattern) (\<lambda>p.
     bindD (if json_truthy path then quote_json path else Inr ''.'') (\<lambda>d.
     bindD (if json_truthy include then bindD (quote_json include) (\<lambda>i. Inr (Some i)) else Inr None) (\<lambda>i.
     Inr (with_header ''search'' (grep_command p i d)))))"

definition glob_to_cmdrun :: "json \<Rightarrow> json \<Rightarrow> string decoded" where
  "glob_to_cmdrun pattern path =
     bindD (quote_json path) (\<lambda>d. bindD (quote_json pattern) (\<lambda>p.
     Inr (with_header ''glob'' (glob_command p d))))"

section \<open>The read-only agent\<close>

definition VIEW :: string where "VIEW = ''view''"
definition GREP :: string where "GREP = ''grep''"
definition GLOB :: string where "GLOB = ''glob''"

definition key_or :: "json \<Rightarrow> string \<Rightarrow> json_dict \<Rightarrow> json" where
  "key_or v k args = (case map_of args k of None \<Rightarrow> v | Some x \<Rightarrow> x)"

definition search_action :: "string \<Rightarrow> action" where
  "search_action cmd = CmdRunAction cmd False [] False False None False CONFIRMED RISK_UNKNOWN"

definition unregistered :: "response_codec \<Rightarrow> string \<Rightarrow> json_dict \<Rightarrow> 'a decoded" where
  "unregistered rc name args = Inl (Raised (FunctionCallNotExistsError (''Tool '' @ name @
     '' is not registered. (arguments: '' @ repr_of rc (JDict args) @
     ''). Please check the tool name and retry with an existing tool.'')))"

definition readonly_tool :: "response_codec \<Rightarrow> string list \<Rightarrow> string option \<Rightarrow> json_dict \<Rightarrow> action decoded" where
  "readonly_tool rc mcp tool args =
     (case tool of
        None \<Rightarrow> unregistered rc ''None'' args
      | Some name \<Rightarrow>
          if name = FINISH
          then bindD (opt args ''message'' [] dstr) (\<lambda>m. Inr (AgentFinishAction m [] []))
          else if name = VIEW
          then bindD (need args ''path'' name) (\<lambda>p. bindD (dstr p) (\<lambda>path.
               bindD (opt args ''view_range'' None (dopt (dlist dint))) (\<lambda>range.
               Inr (FileReadAction path 0 (-1) [] RISK_UNKNOWN READ_OH_ACI range))))
          else if name = THINK
          then bindD (opt args ''thought'' [] dstr) (\<lambda>t. Inr (AgentThinkAction t))
          else if name = GREP
          then bindD (need args ''pattern'' name) (\<lambda>p.
               bindD (grep_to_cmdrun p (key_or JNull ''path'' args) (key_or JNull ''include'' args)) (\<lambda>cmd.
               Inr (search_action cmd)))
          else if name = GLOB
          then bindD (need args ''pattern'' name) (\<lambda>p.
               bindD (glob_to_cmdrun p (key_or (JStr ''.'') ''path'' args)) (\<lambda>cmd. Inr (search_action cmd)))
          else if name \<in> set mcp then Inr (MCPAction name args [] RISK_UNKNOWN)
          else unregistered rc name args)"

text \<open>The loop over the calls, with what a tool gives and the exception of unreadable arguments.\<close>

definition tool_event ::
  "response_codec \<Rightarrow> llm_response \<Rightarrow> string \<Rightarrow> nat \<Rightarrow> nat \<Rightarrow> tool_call \<Rightarrow> action \<Rightarrow> event" where
  "tool_event rc r thought n_calls i tc a =
     (fresh_event (Act (if i = 0 then combine_thought a thought else a)))
       \<lparr>raw_tool_call_metadata := Some (tool_metadata rc r n_calls tc)\<rparr>"

fun tool_events ::
  "(string option \<Rightarrow> json_dict \<Rightarrow> action decoded) \<Rightarrow> (string \<Rightarrow> exn) \<Rightarrow> response_codec \<Rightarrow> llm_response \<Rightarrow>
   string \<Rightarrow> nat \<Rightarrow> nat \<Rightarrow> tool_call list \<Rightarrow> event list decoded" where
  "tool_events tool bad rc r thought n_calls i [] = Inr []"
| "tool_events tool bad rc r thought n_calls i (tc # tcs) =
     (case json_loads rc (tc_arguments tc) of
        None \<Rightarrow> Inl (Raised (bad (''Failed to parse tool call arguments: '' @ tc_arguments tc)))
      | Some (JDict args) \<Rightarrow>
          bindD (tool (tc_name tc) args) (\<lambda>a.
          bindD (tool_events tool bad rc r thought n_calls (Suc i) tcs) (\<lambda>es.
          Inr (tool_event rc r thought n_calls i tc a # es)))
      | Some _ \<Rightarrow> Inl Outside)"

definition assistant_events ::
  "(string option \<Rightarrow> json_dict \<Rightarrow> action decoded) \<Rightarrow> (string \<Rightarrow> exn) \<Rightarrow> response_codec \<Rightarrow> llm_response \<Rightarrow>
   assistant_message \<Rightarrow> event list decoded" where
  "assistant_events tool bad rc r am =
     (let content = (case am_content am of Some c \<Rightarrow> c | None \<Rightarrow> [])
      in case am_tool_calls am of
           Some (tc # tcs) \<Rightarrow> tool_events tool bad rc r content (length (tc # tcs)) 0 (tc # tcs)
         | _ \<Rightarrow> Inr [fresh_event (Act (MessageAction content None None True RISK_UNKNOWN))])"

definition tools_response ::
  "(string option \<Rightarrow> json_dict \<Rightarrow> action decoded) \<Rightarrow> (string \<Rightarrow> exn) \<Rightarrow> response_codec \<Rightarrow> llm_response \<Rightarrow>
   event list decoded" where
  "tools_response tool bad rc r =
     (case choices r of
        [am] \<Rightarrow> bindD (assistant_events tool bad rc r am)
          (\<lambda>es. Inr (map (\<lambda>e. e\<lparr>raw_response_id := Some (response_id r)\<rparr>) es))
      | _ \<Rightarrow> Inl (Raised AssertionError))"

definition readonly_response_to_actions ::
  "response_codec \<Rightarrow> string list \<Rightarrow> llm_response \<Rightarrow> event list decoded" where
  "readonly_response_to_actions rc mcp r =
     tools_response (readonly_tool rc mcp) FunctionCallValidationError rc r"

definition readonly_tools :: "string list" where
  "readonly_tools = [THINK, FINISH, GREP, GLOB, VIEW]"

text \<open>\<open>set_mcp_tools\<close> of the read-only agent only warns.\<close>

definition readonly_set_mcp_tools :: "string list \<Rightarrow> string list \<Rightarrow> string list" where
  "readonly_set_mcp_tools new mcp = mcp"

text \<open>The step is inherited and calls this agent's \<open>response_to_actions\<close>. A run is the actions (or
  exceptions) of successive steps, each on the state the controller has at that time; what a
  step queues is left for the following ones.\<close>

definition readonly_step ::
  "codeact_env \<Rightarrow> event list \<Rightarrow> conv_state \<Rightarrow> event decoded \<times> event list \<times> conv_state" where
  "readonly_step env = agent_step (readonly_response_to_actions (ca_codec env) (ca_mcp_tools env)) env"

fun readonly_run :: "codeact_env \<Rightarrow> event list \<Rightarrow> conv_state list \<Rightarrow> event decoded list" where
  "readonly_run env pending [] = []"
| "readonly_run env pending (st # sts) =
     (let (r, pending', st') = readonly_step env pending st in r # readonly_run env pending' sts)"

section \<open>The localization agent\<close>

definition LOC_FUNCTIONS :: "string list" where
  "LOC_FUNCTIONS = [''explore_tree_structure'', ''search_code_snippets'', ''get_entity_contents'']"

definition loc_tool :: "response_codec \<Rightarrow> string option \<Rightarrow> json_dict \<Rightarrow> action decoded" where
  "loc_tool rc tool args =
     (case tool of
        None \<Rightarrow> unregistered rc ''None'' args
      | Some name \<Rightarrow>
          if name \<in> set LOC_FUNCTIONS
          then Inr (IPythonRunCellAction (''print('' @ name @ ''(**'' @ repr_of rc (JDict args) @ ''))'')
                 [] True CONFIRMED RISK_UNKNOWN [])
          else if name = FINISH
          then bindD (opt args ''message'' [] dstr) (\<lambda>m. Inr (AgentFinishAction m [] []))
          else unregistered rc name args)"

definition loc_response_to_actions :: "response_codec \<Rightarrow> llm_response \<Rightarrow> event list decoded" where
  "loc_response_to_actions rc r = tools_response (loc_tool rc) RuntimeError rc r"

definition loc_tools :: "string list" where
  "loc_tools = [FINISH, ''search_code_snippets'', ''get_entity_contents'', ''explore_tree_structure'']"

end
