(* ===== verification/Other_Agents_Properties.thy ===== *)
theory Other_Agents_Properties
  imports Other_Agents Agent_Properties
begin

text \<open>
  What the read-only agent can do: its actions, and the exact form of its search commands.
\<close>

section \<open>The actions\<close>

text \<open>The two search commands, written out: the search itself, and before it the header that prints
  the same text. Whatever the model gave as pattern, path and file pattern is in it only as
  \<open>shlex.quote\<close> of a text. The path \<open>.\<close> that stands for none is its own quotation.\<close>

definition grep_text :: "string \<Rightarrow> string option \<Rightarrow> string \<Rightarrow> string" where
  "grep_text pattern include path =
     ''rg -li '' @ shlex_quote pattern @ '' --sortr=modified'' @
     (case include of None \<Rightarrow> [] | Some g \<Rightarrow> '' --glob '' @ shlex_quote g) @
     '' '' @ shlex_quote path @ '' | head -n 100''"

definition glob_text :: "string \<Rightarrow> string \<Rightarrow> string" where
  "glob_text pattern path =
     ''rg --files '' @ shlex_quote path @ '' -g '' @ shlex_quote pattern @ '' --sortr=modified | head -n 100''"

definition echo_of :: "string \<Rightarrow> string \<Rightarrow> string" where
  "echo_of kind cmd = ''echo '' @ [DQ] @ ''Below are the execution results of the '' @ kind @ '' command: '' @
     cmd @ LF @ [DQ] @ ''; ''"

definition is_search :: "string \<Rightarrow> bool" where
  "is_search cmd \<longleftrightarrow>
     (\<exists>p i d. cmd = echo_of ''search'' (grep_text p i d) @ grep_text p i d) \<or>
     (\<exists>p d. cmd = echo_of ''glob'' (glob_text p d) @ glob_text p d)"

text \<open>An action that looks at files, searches, thinks, talks or condenses the history.\<close>

definition only_reads :: "action \<Rightarrow> bool" where
  "only_reads a = (case a of
     AgentFinishAction _ _ _ \<Rightarrow> True
   | AgentThinkAction _ \<Rightarrow> True
   | MessageAction _ _ _ _ _ \<Rightarrow> True
   | FileReadAction _ _ _ _ _ _ _ \<Rightarrow> True
   | CondensationAction _ _ _ _ _ \<Rightarrow> True
   | CmdRunAction cmd _ _ _ _ _ _ _ _ \<Rightarrow> is_search cmd
   | _ \<Rightarrow> False)"

definition reads :: "event \<Rightarrow> bool" where
  "reads e \<longleftrightarrow> (\<exists>a. payload e = Act a \<and> only_reads a)"

lemma only_reads_thought: "only_reads a \<Longrightarrow> only_reads (combine_thought a t)"
  by (cases a) (auto simp: only_reads_def combine_thought_def thought_of_def set_thought_def)

lemma quoted_text: "quote_json v = Inr q \<Longrightarrow> \<exists>s. q = shlex_quote s"
proof (cases v)
  case (JStr s)
  then show "quote_json v = Inr q \<Longrightarrow> \<exists>s. q = shlex_quote s" by (auto simp: quote_json_def)
qed (auto simp: quote_json_def shlex_quote_def split: if_splits intro: exI [of _ "[]"])

lemma quote_dot: "shlex_quote ''.'' = ''.''"
  by code_simp

lemma grep_is_search:
  assumes "grep_to_cmdrun p d i = Inr cmd"
  shows "is_search cmd"
proof -
  obtain qp qd qi where q: "quote_json p = Inr qp" "(if json_truthy d then quote_json d else Inr ''.'') = Inr qd"
    "(if json_truthy i then bindD (quote_json i) (\<lambda>i. Inr (Some i)) else Inr None) = Inr qi"
    and cmd: "cmd = with_header ''search'' (grep_command qp qi qd)"
    using assms unfolding grep_to_cmdrun_def bindD_Inr_iff by blast
  obtain tp where tp: "qp = shlex_quote tp" using quoted_text [OF q(1)] by blast
  obtain td where td: "qd = shlex_quote td"
    using q(2) quoted_text [of d qd] quote_dot by (metis Inr_inject)
  obtain ti where ti: "qi = map_option shlex_quote ti"
  proof (cases "json_truthy i")
    case True
    then obtain x where "quote_json i = Inr x" "qi = Some x" using q(3) by (auto simp: bindD_Inr_iff)
    then show thesis using quoted_text [of i x] that [of "Some _"] by auto
  next
    case False
    then show thesis using q(3) that [of None] by simp
  qed
  have "grep_command qp qi qd = grep_text tp ti td"
    by (cases ti) (simp_all add: grep_command_def grep_text_def tp td ti)
  then have "cmd = echo_of ''search'' (grep_text tp ti td) @ grep_text tp ti td"
    by (simp add: cmd with_header_def echo_of_def)
  then show ?thesis unfolding is_search_def by blast
qed

lemma glob_is_search:
  assumes "glob_to_cmdrun p d = Inr cmd"
  shows "is_search cmd"
proof -
  obtain qp qd where q: "quote_json d = Inr qd" "quote_json p = Inr qp"
    and cmd: "cmd = with_header ''glob'' (glob_command qp qd)"
    using assms unfolding glob_to_cmdrun_def bindD_Inr_iff by blast
  obtain tp td where t: "qp = shlex_quote tp" "qd = shlex_quote td" using q quoted_text by metis
  have "cmd = echo_of ''glob'' (glob_text tp td) @ glob_text tp td"
    by (simp add: cmd with_header_def echo_of_def glob_command_def glob_text_def t)
  then show ?thesis unfolding is_search_def by blast
qed

lemma readonly_tool_reads:
  assumes "readonly_tool rc [] tool args = Inr a"
  shows "only_reads a"
  using assms
  by (auto simp: readonly_tool_def unregistered_def bindD_Inr_iff only_reads_def search_action_def grep_is_search
      glob_is_search split: option.splits if_splits)

lemma tool_events_read:
  assumes "tool_events tool bad rc r t n i tcs = Inr es" and "\<And>name args a. tool name args = Inr a \<Longrightarrow> only_reads a"
  shows "\<forall>e \<in> set es. reads e"
  using assms(1)
proof (induction tcs arbitrary: i es)
  case (Cons tc tcs)
  from Cons.prems obtain args a fs where a: "tool (tc_name tc) args = Inr a"
    and fs: "tool_events tool bad rc r t n (Suc i) tcs = Inr fs" and es: "es = tool_event rc r t n i tc a # fs"
    by (auto simp: bindD_Inr_iff split: option.splits json.splits)
  have "only_reads a" using a by (rule assms(2))
  then have "reads (tool_event rc r t n i tc a)"
    by (simp add: reads_def tool_event_def fresh_event_def only_reads_thought)
  with Cons.IH [OF fs] show ?case by (simp add: es)
qed simp

lemma assistant_events_read:
  assumes "assistant_events (readonly_tool rc []) bad rc r am = Inr es"
  shows "\<forall>e \<in> set es. reads e"
proof -
  let ?content = "case am_content am of Some c \<Rightarrow> c | None \<Rightarrow> []"
  have talks: "reads (fresh_event (Act (MessageAction ?content None None True RISK_UNKNOWN)))"
    by (simp add: reads_def fresh_event_def only_reads_def)
  show ?thesis
  proof (cases "am_tool_calls am")
    case None
    with assms talks show ?thesis by (auto simp: assistant_events_def Let_def)
  next
    case (Some tcs)
    show ?thesis
    proof (cases tcs)
      case Nil
      with Some assms talks show ?thesis by (auto simp: assistant_events_def Let_def)
    next
      case (Cons tc rest)
      with Some assms have e: "tool_events (readonly_tool rc []) bad rc r ?content (length tcs) 0 tcs = Inr es"
        unfolding assistant_events_def Let_def by (simp only: option.case list.case)
      show ?thesis by (rule tool_events_read [OF e]) (rule readonly_tool_reads)
    qed
  qed
qed

lemma response_reads:
  assumes "readonly_response_to_actions rc [] r = Inr es"
  shows "\<forall>e \<in> set es. reads e"
proof -
  have r: "tools_response (readonly_tool rc []) FunctionCallValidationError rc r = Inr es"
    using assms by (simp add: readonly_response_to_actions_def)
  then obtain am where am: "choices r = [am]" by (auto simp: tools_response_def split: list.splits)
  with r obtain fs where fs: "assistant_events (readonly_tool rc []) FunctionCallValidationError rc r am = Inr fs"
    and es: "es = map (\<lambda>e. e\<lparr>raw_response_id := Some (response_id r)\<rparr>) fs"
    by (auto simp: tools_response_def bindD_Inr_iff)
  from fs have "\<forall>e \<in> set fs. reads e" by (rule assistant_events_read)
  then show ?thesis by (auto simp: es reads_def)
qed

lemma ask_model_response: "ask_model to_actions env evs w = Inr es \<Longrightarrow> \<exists>r. to_actions r = Inr es"
  by (auto simp: ask_model_def split: sum.splits)

lemma step_reads:
  assumes "readonly_step env pending st = (r, pending', st')" and "ca_mcp_tools env = []"
    and "\<forall>e \<in> set pending. reads e"
  shows "\<forall>e \<in> set pending'. reads e" and "r = Inr e \<Longrightarrow> reads e"
proof -
  let ?act = "readonly_response_to_actions (ca_codec env) []"
  have step: "agent_step ?act env pending st = (r, pending', st')"
    using assms(1,2) by (simp add: readonly_step_def)
  have "(\<forall>e \<in> set pending'. reads e) \<and> (\<forall>e. r = Inr e \<longrightarrow> reads e)"
  proof (cases pending)
    case (Cons p ps)
    with step assms(3) show ?thesis by (auto simp: agent_step_def)
  next
    case Nil
    consider x where "r = Inl x" "pending' = []"
      | "r = Inr (fresh_event (Act (AgentFinishAction [] [] [])))" "pending' = []"
      | a v where "r = Inr (fresh_event (Act a))" "pending' = []"
          "condense (ca_oracle env) (ca_condenser env) v = Inr (Condensed a)"
      | evs w e where "r = Inr e" "ask_model ?act env evs w = Inr (e # pending')"
      using step Nil
      by (auto simp: agent_step_def condensed_history_def Let_def
          split: prod.splits sum.splits if_splits condense_result.splits list.splits)
    then show ?thesis
    proof cases
      case (3 a v)
      from condensed_action [OF 3(3)] have "only_reads a" by (auto simp: only_reads_def)
      with 3(1,2) show ?thesis by (simp add: reads_def fresh_event_def)
    next
      case (4 evs w e)
      from ask_model_response [OF 4(2)] obtain x where "?act x = Inr (e # pending')" by blast
      from response_reads [OF this] 4(1) show ?thesis by simp
    qed (simp_all add: reads_def fresh_event_def only_reads_def)
  qed
  then show "\<forall>e \<in> set pending'. reads e" and "r = Inr e \<Longrightarrow> reads e" by blast+
qed

lemma run_reads:
  assumes "ca_mcp_tools env = []"
  shows "\<forall>e \<in> set pending. reads e \<Longrightarrow> Inr e \<in> set (readonly_run env pending sts) \<Longrightarrow> reads e"
proof (induction sts arbitrary: pending)
  case (Cons st sts)
  obtain r pending' st' where s: "readonly_step env pending st = (r, pending', st')" by (metis surj_pair)
  from Cons.prems(2) s consider "r = Inr e" | "Inr e \<in> set (readonly_run env pending' sts)" by auto
  then show ?case
    using step_reads [OF s assms Cons.prems(1)] Cons.IH by cases blast+
qed simp

section \<open>The property\<close>

text \<open>
  C39. Whatever the model answers, on whatever states it is asked to step and whatever MCP tools were
  set, every action the read-only agent returns finishes, thinks, talks, views a file, condenses the
  history (a condensation of its condenser, the step being inherited), or runs one of two search
  commands, in which every text the model gave is quoted for the shell: the command is exactly
  \<open>rg -li\<close> or \<open>rg --files\<close> with these quotations, after an \<open>echo\<close> of the same text.
\<close>

theorem readonly_agent_only_reads:
  assumes "ca_mcp_tools env = foldr readonly_set_mcp_tools mcp_sets []"
    and "Inr e \<in> set (readonly_run env [] states)"
  shows "\<exists>a. payload e = Act a \<and> only_reads a"
proof -
  have "foldr readonly_set_mcp_tools mcp_sets [] = []"
    by (induction mcp_sets) (simp_all add: readonly_set_mcp_tools_def)
  with assms(1) have "ca_mcp_tools env = []" by simp
  from run_reads [OF this _ assms(2)] show ?thesis by (simp add: reads_def)
qed

text \<open>A model that asks for a search of a pattern with blanks and quotes.\<close>

definition search_response :: llm_response where
  "search_response = \<lparr>response_id = ''r'', choices = [\<lparr>am_role = ''assistant'', am_content = None,
     am_tool_calls = Some [\<lparr>tc_id = ''c'', tc_name = Some ''grep'', tc_arguments = ''a''\<rparr>]\<rparr>]\<rparr>"

definition search_codec :: response_codec where
  "search_codec = \<lparr>json_loads = (\<lambda>_. Some (JDict [(''pattern'', JStr ''x; rm y'')])), float_of_text = (\<lambda>_. None),
     repr_of = (\<lambda>_. []), response_dict = (\<lambda>_. JNull)\<rparr>"

theorem readonly_agent_only_reads_witness:
  "\<exists>e cmd. readonly_run (chat_env search_codec search_response) [] [new_state\<lparr>history := [greeting]\<rparr>] = [Inr e] \<and>
     payload e = Act (search_action cmd) \<and> is_search cmd"
proof -
  let ?env = "chat_env search_codec search_response"
  have tools: "ca_mcp_tools ?env = foldr readonly_set_mcp_tools [[''delete'']] []" "ca_codec ?env = search_codec"
    by (simp_all add: chat_env_def readonly_set_mcp_tools_def)
  obtain e cmd where e: "readonly_response_to_actions search_codec [] search_response = Inr [e]"
    "payload e = Act (search_action cmd)"
    by (simp add: readonly_response_to_actions_def tools_response_def assistant_events_def search_response_def
        search_codec_def readonly_tool_def FINISH_def VIEW_def THINK_def GREP_def need_def grep_to_cmdrun_def
        quote_json_def key_or_def tool_event_def fresh_event_def combine_thought_def search_action_def
        thought_of_def set_thought_def)
  obtain st' where "agent_step (readonly_response_to_actions search_codec []) ?env []
      (new_state\<lparr>history := [greeting]\<rparr>) = (Inr e, [], st')"
    using chat_step [where to_actions = "readonly_response_to_actions search_codec []", OF e(1), of search_codec] by blast
  then have run: "readonly_run ?env [] [new_state\<lparr>history := [greeting]\<rparr>] = [Inr e]"
    using tools by (simp add: readonly_step_def readonly_set_mcp_tools_def)
  have "\<exists>a. payload e = Act a \<and> only_reads a"
    by (rule readonly_agent_only_reads [OF tools(1), of e "[new_state\<lparr>history := [greeting]\<rparr>]"]) (subst run, simp)
  with e(2) run show ?thesis by (auto simp: only_reads_def search_action_def)
qed

end
