(* ===== verification/Ps1.thy ===== *)
theory Ps1
  imports Serialization Text_Patterns Event_Store
begin

text \<open>
  The prompt of the sandbox shell (\<open>events/observation/commands.py\<close>). The shell prints a block of
  JSON between two markers whenever a command has ended. This theory has the text of the prompt,
  the search for such blocks in the contents of a terminal and the metadata read from a block.
  \<open>json.loads\<close> is an argument; the conversion of numbers that are written as text is modelled.
\<close>

section \<open>The markers\<close>

definition PS1_BEGIN_MARK :: string where
  "PS1_BEGIN_MARK = ''###PS1JSON###''"

definition PS1_END_MARK :: string where
  "PS1_END_MARK = ''###PS1END###''"

definition CMD_OUTPUT_PS1_BEGIN :: string where
  "CMD_OUTPUT_PS1_BEGIN = LF @ PS1_BEGIN_MARK @ LF"

definition CMD_OUTPUT_PS1_END :: string where
  "CMD_OUTPUT_PS1_END = LF @ PS1_END_MARK"

section \<open>The text of the prompt\<close>

text \<open>A string as \<open>json.dumps\<close> writes it, and a dictionary of strings with \<open>indent=2\<close>.\<close>

fun json_escape :: "string \<Rightarrow> string" where
  "json_escape [] = []"
| "json_escape (c # s) =
     (if c = CHR 0x22 \<or> c = CHR 0x5C then CHR 0x5C # c # json_escape s else c # json_escape s)"

definition json_quote :: "string \<Rightarrow> string" where
  "json_quote s = [CHR 0x22] @ json_escape s @ [CHR 0x22]"

definition dumps_indented :: "(string \<times> string) list \<Rightarrow> string" where
  "dumps_indented d =
     ''{'' @ LF @
     py_join ('','' @ LF) (map (\<lambda>(k, v). ''  '' @ json_quote k @ '': '' @ json_quote v) d) @
     LF @ ''}''"

fun escape_double_quotes :: "string \<Rightarrow> string" where
  "escape_double_quotes [] = []"
| "escape_double_quotes (c # s) =
     (if c = CHR 0x22 then CHR 0x5C # c # escape_double_quotes s else c # escape_double_quotes s)"

definition to_ps1_prompt :: string where
  "to_ps1_prompt =
     CMD_OUTPUT_PS1_BEGIN @
     escape_double_quotes (dumps_indented
       [(''pid'', ''$!''), (''exit_code'', ''$?''), (''username'', [CHR 0x5C] @ ''u''),
        (''hostname'', [CHR 0x5C] @ ''h''), (''working_dir'', ''$(pwd)''),
        (''py_interpreter_path'',
         ''$(which python 2>/dev/null || echo '' @ [CHR 0x22, CHR 0x22] @ '')'')]) @
     CMD_OUTPUT_PS1_END @ LF"

section \<open>Blocks in a terminal\<close>

text \<open>
  A match of the regular expression: its position, its end, and the text between the markers. A
  block starts at the beginning of a line and reaches to the first end marker after it; the
  search goes on behind the block.
\<close>

record ps1_match =
  pm_start :: nat
  pm_end :: nat
  pm_text :: string

lemma PS1_BEGIN_MARK_length [simp]: "length PS1_BEGIN_MARK = 13"
  by (simp add: PS1_BEGIN_MARK_def)

lemma PS1_END_MARK_length [simp]: "length PS1_END_MARK = 12"
  by (simp add: PS1_END_MARK_def)

function ps1_blocks :: "nat \<Rightarrow> bool \<Rightarrow> string \<Rightarrow> ps1_match list" where
  "ps1_blocks i bol [] = []"
| "ps1_blocks i bol (c # s) =
     (case (if bol \<and> prefix PS1_BEGIN_MARK (c # s)
            then split_first PS1_END_MARK (drop (length PS1_BEGIN_MARK) (c # s)) else None) of
        Some (g, r) \<Rightarrow>
          (let e = i + length PS1_BEGIN_MARK + length g + length PS1_END_MARK
           in \<lparr>pm_start = i, pm_end = e, pm_text = g\<rparr> # ps1_blocks e False r)
      | None \<Rightarrow> ps1_blocks (Suc i) (c = CHR 0x0A) s)"
  by pat_completeness auto

termination
proof (relation "measure (\<lambda>(i, bol, s). length s)")
  fix i bol c s p g r e
  assume a: "(if bol \<and> prefix PS1_BEGIN_MARK (c # s)
      then split_first PS1_END_MARK (drop (length PS1_BEGIN_MARK) (c # s)) else None) = Some p"
    "(g, r) = p"
  then have "split_first PS1_END_MARK (drop (length PS1_BEGIN_MARK) (c # s)) = Some (g, r)"
    by (metis option.distinct(1))
  from split_first_length [OF this] show
    "((e, False, r), (i, bol, c # s)) \<in> measure (\<lambda>(i, bol, s). length s)" by simp
qed auto

text \<open>Blocks that are not JSON are skipped.\<close>

definition matches_ps1_metadata :: "(string \<Rightarrow> json option) \<Rightarrow> string \<Rightarrow> ps1_match list" where
  "matches_ps1_metadata loads s =
     filter (\<lambda>m. loads (py_strip (pm_text m)) \<noteq> None) (ps1_blocks 0 True s)"

section \<open>Numbers written as text\<close>

text \<open>\<open>float(s)\<close>, with the exact value of a decimal text.\<close>

datatype py_float = Finite rat | Infinite | NaN

fun digit_part :: "string \<Rightarrow> string \<times> string" where
  "digit_part [] = ([], [])"
| "digit_part [c] = (if is_digit c then ([c], []) else ([], [c]))"
| "digit_part (c # d # s) =
     (if \<not> is_digit c then ([], c # d # s)
      else if d = CHR ''_'' \<and> s \<noteq> [] \<and> is_digit (hd s)
      then (let (x, y) = digit_part s in (c # x, y))
      else (let (x, y) = digit_part (d # s) in (c # x, y)))"

definition digits_value :: "string \<Rightarrow> int" where
  "digits_value ds = foldl (\<lambda>n c. 10 * n + int (the (digit_value c))) 0 ds"

fun split_sign :: "string \<Rightarrow> bool \<times> string" where
  "split_sign (c # s) =
     (if c = CHR ''-'' then (True, s) else if c = CHR ''+'' then (False, s) else (False, c # s))"
| "split_sign [] = (False, [])"

definition exponent_part :: "string \<Rightarrow> int option" where
  "exponent_part s =
     (case s of [] \<Rightarrow> Some 0
      | c # t \<Rightarrow>
          (let (neg, u) = split_sign t; (ds, rest) = digit_part u
           in if c = CHR ''e'' \<and> ds \<noteq> [] \<and> rest = []
              then Some (if neg then - digits_value ds else digits_value ds) else None))"

definition power_of_ten :: "int \<Rightarrow> rat" where
  "power_of_ten e = (if e < 0 then 1 / 10 ^ nat (- e) else 10 ^ nat e)"

definition parse_float :: "string \<Rightarrow> py_float option" where
  "parse_float text =
     (let (neg, s) = split_sign (py_lower (py_strip text));
          (a, r) = digit_part s;
          (b, r') = (if r \<noteq> [] \<and> hd r = CHR ''.'' then digit_part (tl r) else ([], r))
      in if s = ''inf'' \<or> s = ''infinity'' then Some Infinite
         else if s = ''nan'' then Some NaN
         else if a = [] \<and> b = [] then None
         else (case exponent_part r' of None \<Rightarrow> None
               | Some e \<Rightarrow>
                   (let q = of_int (digits_value (a @ b)) * power_of_ten (e - int (length b))
                    in Some (Finite (if neg then - q else q)))))"

definition truncate_rat :: "rat \<Rightarrow> int" where
  "truncate_rat q = (if q < 0 then - \<lfloor>- q\<rfloor> else \<lfloor>q\<rfloor>)"

text \<open>
  \<open>int(float(str(v)))\<close>, with \<open>-1\<close> for \<open>ValueError\<close> and \<open>TypeError\<close>. An infinite value raises
  \<open>OverflowError\<close>, which nobody catches. The text of a constant, a list or a dictionary is not a
  number.
\<close>

fun int_field :: "json \<Rightarrow> int decoded" where
  "int_field (JInt i) = Inr i"
| "int_field (JFloat q) = Inr (truncate_rat q)"
| "int_field (JStr s) =
     (case parse_float s of
        None \<Rightarrow> Inr (-1)
      | Some NaN \<Rightarrow> Inr (-1)
      | Some Infinite \<Rightarrow> Inl (Raised (OtherException ''OverflowError'' ''cannot convert float infinity to integer''))
      | Some (Finite q) \<Rightarrow> Inr (truncate_rat q))"
| "int_field _ = Inr (-1)"

section \<open>The metadata of a block\<close>

definition convert_field :: "string \<Rightarrow> json_dict \<Rightarrow> json_dict decoded" where
  "convert_field k d =
     (case map_of d k of None \<Rightarrow> Inr d
      | Some v \<Rightarrow> bindD (int_field v) (\<lambda>i. Inr (AList.update k (JInt i) d)))"

text \<open>JSON that is not an object has no \<open>copy\<close> or cannot be unpacked into keyword arguments.\<close>

definition from_ps1_match :: "(string \<Rightarrow> json option) \<Rightarrow> ps1_match \<Rightarrow> cmd_metadata decoded" where
  "from_ps1_match loads m =
     (case loads (pm_text m) of
        None \<Rightarrow> Inl (Raised (ValueError ''JSONDecodeError''))
      | Some (JDict d) \<Rightarrow>
          bindD (convert_field ''pid'' d) (\<lambda>d1. bindD (convert_field ''exit_code'' d1) make_metadata)
      | Some (JList _) \<Rightarrow> Inl (Raised (TypeError ''argument after ** must be a mapping''))
      | Some _ \<Rightarrow> Inl (Raised (AttributeError ''copy'')))"

definition empty_metadata :: cmd_metadata where
  "empty_metadata =
     \<lparr>md_exit_code = -1, md_pid = -1, md_username = None, md_hostname = None,
      md_working_dir = None, md_py_interpreter_path = None, md_prefix = [], md_suffix = []\<rparr>"

text \<open>The constructor truncates the content of an observation that is not hidden.\<close>

definition cmd_output :: "string \<Rightarrow> string \<Rightarrow> cmd_metadata \<Rightarrow> bool \<Rightarrow> observation" where
  "cmd_output content command md hidden =
     CmdOutputObservation (if hidden then content else maybe_truncate content) command md hidden"

end
