(* ===== verification/Bash_Session.thy ===== *)
theory Bash_Session
  imports Ps1
begin

text \<open>
  The shell session of the sandbox (\<open>runtime/utils/bash.py\<close>): commands are typed into a pane of
  \<open>tmux\<close>, whose contents are read again and again until a new prompt appears or a limit of time is
  reached. The state of the session is the record \<open>bash_session\<close>. The pane, the clock and the
  signal to shut down belong to a world of a type that is left open; the record \<open>tmux\<close> says what
  can be done to it, and nothing is assumed about the answers. The parser \<open>bashlex\<close>, reading JSON,
  the text of a number and absolute paths are the record \<open>shell_lib\<close>.
\<close>

section \<open>Surroundings\<close>

datatype bash_node =
  Bash_Node (node_kind: string) (node_pos: "nat \<times> nat") (node_heredoc: "(nat \<times> nat) option")
    (node_parts: "bash_node list")

datatype parse_error =
  BashParsingError | BashNotImplementedError | BashTypeError | BashAttributeError | BashOtherError exn

record shell_lib =
  sl_loads :: "string \<Rightarrow> json option"
  sl_parse :: "string \<Rightarrow> parse_error + bash_node list"
  sl_str :: "rat \<Rightarrow> string"
  sl_abspath :: "string \<Rightarrow> string"

record 'w tmux =
  tm_open :: "string option \<Rightarrow> string \<Rightarrow> string \<Rightarrow> 'w \<Rightarrow> 'w"
  tm_kill :: "'w \<Rightarrow> 'w"
  tm_capture :: "'w \<Rightarrow> string list \<times> 'w"
  tm_send_keys :: "string \<Rightarrow> bool \<Rightarrow> 'w \<Rightarrow> 'w"
  tm_clear_history :: "'w \<Rightarrow> 'w"
  tm_sleep :: "rat \<Rightarrow> 'w \<Rightarrow> 'w"
  tm_time :: "'w \<Rightarrow> rat \<times> 'w"
  tm_should_continue :: "'w \<Rightarrow> bool \<times> 'w"

definition text_between :: "string \<Rightarrow> nat \<Rightarrow> nat \<Rightarrow> string" where
  "text_between s a b = take (b - a) (drop a s)"

section \<open>Splitting a command\<close>

text \<open>Text between two commands goes to the one before.\<close>

definition append_last :: "string list \<Rightarrow> string \<Rightarrow> string list" where
  "append_last rs t = butlast rs @ [last rs @ t]"

fun split_nodes :: "string \<Rightarrow> bash_node list \<Rightarrow> string list \<times> nat \<Rightarrow> string list \<times> nat" where
  "split_nodes s [] st = st"
| "split_nodes s (n # ns) (rs, last_end) =
     (let (start, stop) = node_pos n; between = text_between s last_end start;
          rs' = (if last_end < start
                 then if rs \<noteq> [] then append_last rs (py_rstrip between)
                      else if py_strip between \<noteq> [] then rs @ [py_rstrip between] else rs
                 else rs)
      in split_nodes s ns (rs' @ [py_rstrip (text_between s start stop)], stop))"

definition split_bash_commands ::
  "(string \<Rightarrow> parse_error + bash_node list) \<Rightarrow> string \<Rightarrow> string list result" where
  "split_bash_commands parse s =
     (if py_strip s = [] then Inr [[]]
      else case parse s of
        Inl (BashOtherError x) \<Rightarrow> Inl x
      | Inl _ \<Rightarrow> Inr [s]
      | Inr nodes \<Rightarrow>
          (let (rs, last_end) = split_nodes s nodes ([], 0); remaining = py_rstrip (drop last_end s)
           in Inr (if last_end < length s
                   then if rs \<noteq> [] then append_last rs remaining
                        else if remaining \<noteq> [] then rs @ [remaining] else rs
                   else rs)))"

section \<open>Escaping\<close>

definition SPECIAL_CHARS :: string where
  "SPECIAL_CHARS = '';&|><''"

text \<open>\<open>re.sub(r'\\([;&|><])', r'\\\\\1', s)\<close>.\<close>

fun escape_special :: "string \<Rightarrow> string" where
  "escape_special (c # d # s) =
     (if c = CHR 0x5C \<and> d \<in> set SPECIAL_CHARS then CHR 0x5C # CHR 0x5C # d # escape_special s
      else c # escape_special (d # s))"
| "escape_special s = s"

definition enclosed :: "string \<Rightarrow> string \<Rightarrow> string \<Rightarrow> bool" where
  "enclosed a b s \<longleftrightarrow> prefix a s \<and> suffix b s"

definition preserved_word :: "string \<Rightarrow> bool" where
  "preserved_word s \<longleftrightarrow>
     enclosed [CHR 0x22] [CHR 0x22] s \<or> enclosed [CHR 0x27] [CHR 0x27] s \<or>
     enclosed ''$('' '')'' s \<or> enclosed [CHR 0x60] [CHR 0x60] s"

text \<open>The state of the visitor: the parts joined so far and the last position.\<close>

fun visit_node :: "string \<Rightarrow> bash_node \<Rightarrow> string \<times> nat \<Rightarrow> string \<times> nat" where
  "visit_node s (Bash_Node kind (start, stop) heredoc parts) (out, last_pos) =
     (case (if kind = ''redirect'' then heredoc else None) of
        Some (hstart, hstop) \<Rightarrow>
          (out @ text_between s last_pos start @ text_between s start hstart @
           text_between s hstart hstop, stop)
      | None \<Rightarrow>
          if kind = ''word''
          then (out @ escape_special (text_between s last_pos start) @
                (let w = text_between s start stop
                 in if preserved_word w then w else escape_special w), stop)
          else fold (visit_node s) parts (out, last_pos))"

fun visit_top :: "string \<Rightarrow> bash_node list \<Rightarrow> string \<times> nat \<Rightarrow> string \<times> nat" where
  "visit_top s [] st = st"
| "visit_top s (n # ns) (out, last_pos) =
     (let start = fst (node_pos n)
      in visit_top s ns
           (visit_node s n (out @ escape_special (text_between s last_pos start), start)))"

definition escape_bash_special_chars ::
  "(string \<Rightarrow> parse_error + bash_node list) \<Rightarrow> string \<Rightarrow> string result" where
  "escape_bash_special_chars parse s =
     (if py_strip s = [] then Inr []
      else case parse s of
        Inl (BashOtherError x) \<Rightarrow> Inl x
      | Inl BashAttributeError \<Rightarrow> Inl (AttributeError ''kind'')
      | Inl _ \<Rightarrow> Inr s
      | Inr nodes \<Rightarrow> (let (out, last_pos) = visit_top s nodes ([], 0) in Inr (out @ drop last_pos s)))"

section \<open>The session\<close>

datatype bash_status = CONTINUE | COMPLETED | NO_CHANGE_TIMEOUT | HARD_TIMEOUT

record bash_session =
  bs_no_change_timeout :: int
  bs_work_dir :: string
  bs_username :: "string option"
  bs_initialized :: bool
  bs_closed :: "bool option"
  bs_cwd :: string
  bs_prev_status :: "bash_status option"
  bs_prev_output :: string

definition POLL_INTERVAL :: rat where
  "POLL_INTERVAL = 1/2"

definition new_session :: "string \<Rightarrow> string option \<Rightarrow> int \<Rightarrow> bash_session" where
  "new_session dir user no_change =
     \<lparr>bs_no_change_timeout = no_change, bs_work_dir = dir, bs_username = user, bs_initialized = False,
      bs_closed = None, bs_cwd = [], bs_prev_status = None, bs_prev_output = []\<rparr>"

definition clear_screen :: "'w tmux \<Rightarrow> 'w \<Rightarrow> 'w" where
  "clear_screen tm w = tm_clear_history tm (tm_sleep tm (1/10) (tm_send_keys tm ''C-l'' False w))"

definition shell_command :: "bool \<Rightarrow> string option \<Rightarrow> string option \<Rightarrow> string" where
  "shell_command su_to_user runtime_username user =
     (case user of
        Some u \<Rightarrow>
          if su_to_user \<and> (\<exists>v \<in> set [runtime_username, Some ''root'', Some ''openhands'']. v = Some u \<and> v \<noteq> Some [])
          then ''su '' @ u @ '' -'' else ''/bin/bash''
      | None \<Rightarrow> ''/bin/bash'')"

definition prompt_setup :: string where
  "prompt_setup =
     ''export PROMPT_COMMAND='' @ [CHR 0x27] @ ''export PS1='' @ [CHR 0x22] @ to_ps1_prompt @
     [CHR 0x22, CHR 0x27] @ ''; export PS2='' @ [CHR 0x22, CHR 0x22]"

definition initialize ::
  "shell_lib \<Rightarrow> 'w tmux \<Rightarrow> bool \<Rightarrow> string option \<Rightarrow> bash_session \<Rightarrow> 'w \<Rightarrow> bash_session \<times> 'w" where
  "initialize lib tm su_to_user runtime_username s w =
     (let w1 = tm_open tm (bs_username s) (bs_work_dir s)
                 (shell_command su_to_user runtime_username (bs_username s)) w;
          w2 = clear_screen tm (tm_sleep tm (1/10) (tm_send_keys tm prompt_setup True w1))
      in (s\<lparr>bs_prev_status := None, bs_prev_output := [], bs_closed := Some False,
            bs_cwd := sl_abspath lib (bs_work_dir s), bs_initialized := True\<rparr>, w2))"

text \<open>The attribute is only there once the session has been initialised.\<close>

definition close_session ::
  "'w tmux \<Rightarrow> bash_session \<Rightarrow> 'w \<Rightarrow> unit result \<times> bash_session \<times> 'w" where
  "close_session tm s w =
     (case bs_closed s of
        None \<Rightarrow> (Inl (AttributeError ''_closed''), s, w)
      | Some True \<Rightarrow> (Inr (), s, w)
      | Some False \<Rightarrow> (Inr (), s\<lparr>bs_closed := Some True\<rparr>, tm_kill tm w))"

definition get_pane_content :: "'w tmux \<Rightarrow> 'w \<Rightarrow> string \<times> 'w" where
  "get_pane_content tm w =
     (let (ls, w') = tm_capture tm w in (py_join LF (map py_rstrip ls), w'))"

definition is_special_key :: "string \<Rightarrow> bool" where
  "is_special_key s \<longleftrightarrow> prefix ''C-'' (py_strip s) \<and> length (py_strip s) = 3"

section \<open>The output of a command\<close>

definition remove_prefix :: "string \<Rightarrow> string \<Rightarrow> string" where
  "remove_prefix s p = (case after_prefix p s of Some r \<Rightarrow> r | None \<Rightarrow> s)"

definition remove_command_prefix :: "string \<Rightarrow> string \<Rightarrow> string" where
  "remove_command_prefix out command =
     py_lstrip (remove_prefix (py_lstrip out) (py_lstrip command))"

definition get_command_output ::
  "string \<Rightarrow> string \<Rightarrow> cmd_metadata \<Rightarrow> string \<Rightarrow> bash_session \<Rightarrow> string \<times> cmd_metadata \<times> bash_session" where
  "get_command_output command raw md continue_prefix s =
     (let (out, md') = (if bs_prev_output s \<noteq> []
                        then (remove_prefix raw (bs_prev_output s), md\<lparr>md_prefix := continue_prefix\<rparr>)
                        else (raw, md))
      in (py_rstrip (remove_command_prefix out command), md', s\<lparr>bs_prev_output := raw\<rparr>))"

fun outputs_between :: "string \<Rightarrow> ps1_match list \<Rightarrow> string" where
  "outputs_between pane (m # n # ms) =
     text_between pane (pm_end m + 1) (pm_start n) @ LF @ outputs_between pane (n # ms)"
| "outputs_between pane [m] = drop (pm_end m + 1) pane"
| "outputs_between pane [] = []"

definition combine_outputs_between_matches :: "string \<Rightarrow> ps1_match list \<Rightarrow> bool \<Rightarrow> string" where
  "combine_outputs_between_matches pane ms before_last =
     (case ms of
        [] \<Rightarrow> pane
      | [m] \<Rightarrow> if before_last then take (pm_start m) pane else drop (pm_end m + 1) pane
      | _ \<Rightarrow> outputs_between pane ms)"

text \<open>\<open>len(s.splitlines())\<close>: a line ends with one of seven characters, or with the pair CR LF.\<close>

definition ends_line :: "char \<Rightarrow> bool" where
  "ends_line c \<longleftrightarrow> (let n = of_char c :: nat in (10 \<le> n \<and> n \<le> 13) \<or> (28 \<le> n \<and> n \<le> 30))"

fun line_count :: "string \<Rightarrow> nat" where
  "line_count [] = 0"
| "line_count [c] = 1"
| "line_count (c # d # s) =
     (if c = CHR 0x0D \<and> d = CHR 0x0A then Suc (line_count s)
      else if ends_line c then Suc (line_count (d # s)) else line_count (d # s))"

section \<open>Answers\<close>

type_synonym 'w outcome = "observation decoded \<times> bash_session \<times> 'w"

definition TIMEOUT_MESSAGE_TEMPLATE :: string where
  "TIMEOUT_MESSAGE_TEMPLATE =
     ''You may wait longer to see additional output by sending empty command '' @ [CHR 0x27, CHR 0x27] @
     '', send other commands to interact with the current process, send keys ('' @
     json_quote ''C-c'' @ '', '' @ json_quote ''C-z'' @ '', '' @ json_quote ''C-d'' @
     '') to interrupt/kill the previous command before sending your new command, '' @
     ''or use the timeout parameter in execute_bash for future commands.''"

definition BELOW_IS_PREVIOUS :: string where
  "BELOW_IS_PREVIOUS = ''[Below is the output of the previous command.]'' @ LF"

definition py_upper_char :: "char \<Rightarrow> char" where
  "py_upper_char c = (let n = of_char c :: nat in if 97 \<le> n \<and> n \<le> 122 then char_of (n - 32) else c)"

definition completed_suffix :: "int \<Rightarrow> string \<Rightarrow> string" where
  "completed_suffix code command =
     LF @ ''[The command completed with exit code '' @ str_of_int code @ ''.'' @
     (if is_special_key command then '' CTRL+'' @ [py_upper_char (last command)] @ '' was sent.]'' else '']'')"

definition handle_completed_command ::
  "shell_lib \<Rightarrow> 'w tmux \<Rightarrow> string \<Rightarrow> string \<Rightarrow> ps1_match list \<Rightarrow> bool \<Rightarrow> bash_session \<Rightarrow> 'w \<Rightarrow> 'w outcome" where
  "handle_completed_command lib tm command pane ms hidden s w =
     (if ms = [] then (Inl (Raised AssertionError), s, w)
      else case from_ps1_match (sl_loads lib) (last ms) of
        Inl x \<Rightarrow> (Inl x, s, w)
      | Inr md \<Rightarrow>
          (let alone = (length ms = 1);
               s1 = (case md_working_dir md of
                       Some d \<Rightarrow> if d \<noteq> bs_cwd s \<and> d \<noteq> [] then s\<lparr>bs_cwd := d\<rparr> else s
                     | None \<Rightarrow> s);
               raw = combine_outputs_between_matches pane ms alone;
               md1 = (if alone
                      then md\<lparr>md_prefix := ''[Previous command outputs are truncated. Showing the last '' @
                             str_of_int (int (line_count raw)) @ '' lines of the output below.]'' @ LF\<rparr>
                      else md);
               md2 = md1\<lparr>md_suffix := completed_suffix (md_exit_code md) command\<rparr>;
               (out, md3, s2) = get_command_output command raw md2 [] s1
           in (Inr (cmd_output out command md3 hidden),
               s2\<lparr>bs_prev_status := Some COMPLETED, bs_prev_output := []\<rparr>, clear_screen tm w)))"

definition no_change_suffix :: "int \<Rightarrow> string" where
  "no_change_suffix seconds =
     LF @ ''[The command has no new output after '' @ str_of_int seconds @ '' seconds. '' @
     TIMEOUT_MESSAGE_TEMPLATE @ '']''"

definition hard_timeout_suffix :: "string \<Rightarrow> string" where
  "hard_timeout_suffix seconds =
     LF @ ''[The command timed out after '' @ seconds @ '' seconds. '' @ TIMEOUT_MESSAGE_TEMPLATE @ '']''"

definition not_executed_suffix :: "string \<Rightarrow> string" where
  "not_executed_suffix command =
     LF @ ''[Your command '' @ [CHR 0x22] @ command @ [CHR 0x22] @ '' is NOT executed. '' @
     ''The previous command is still running - You CANNOT send new commands until the previous command is completed. '' @
     ''By setting `is_input` to `true`, you can interact with the current process: '' @
     TIMEOUT_MESSAGE_TEMPLATE @ '']''"

text \<open>What the two timeouts and the refused command share: the output so far, without what was
  reported before.\<close>

definition report_running ::
  "string \<Rightarrow> string \<Rightarrow> ps1_match list \<Rightarrow> string \<Rightarrow> bool \<Rightarrow> bash_session \<Rightarrow> observation \<times> bash_session" where
  "report_running command pane ms sfx hidden s =
     (let (out, md, s') = get_command_output command (combine_outputs_between_matches pane ms False)
                            (empty_metadata\<lparr>md_suffix := sfx\<rparr>) BELOW_IS_PREVIOUS s
      in (cmd_output out command md hidden, s'))"

definition handle_nochange_timeout_command ::
  "string \<Rightarrow> string \<Rightarrow> ps1_match list \<Rightarrow> bash_session \<Rightarrow> observation \<times> bash_session" where
  "handle_nochange_timeout_command command pane ms s =
     report_running command pane ms (no_change_suffix (bs_no_change_timeout s)) False
       (s\<lparr>bs_prev_status := Some NO_CHANGE_TIMEOUT\<rparr>)"

definition handle_hard_timeout_command ::
  "shell_lib \<Rightarrow> string \<Rightarrow> string \<Rightarrow> ps1_match list \<Rightarrow> rat \<Rightarrow> bash_session \<Rightarrow> observation \<times> bash_session" where
  "handle_hard_timeout_command lib command pane ms seconds s =
     report_running command pane ms (hard_timeout_suffix (sl_str lib seconds)) False
       (s\<lparr>bs_prev_status := Some HARD_TIMEOUT\<rparr>)"

section \<open>Executing a command\<close>

text \<open>The fields of a \<open>CmdRunAction\<close> that are read, with the time limit of the event.\<close>

record shell_request =
  rq_command :: string
  rq_is_input :: bool
  rq_blocking :: bool
  rq_hidden :: bool
  rq_timeout :: "rat option"

definition request_of :: "event \<Rightarrow> shell_request option" where
  "request_of e = (case payload e of
     Act (CmdRunAction c i _ b _ _ h _ _) \<Rightarrow>
       Some \<lparr>rq_command = c, rq_is_input = i, rq_blocking = b, rq_hidden = h, rq_timeout = raw_timeout e\<rparr>
   | _ \<Rightarrow> None)"

definition at_prompt :: "string \<Rightarrow> bool" where
  "at_prompt pane \<longleftrightarrow> suffix CMD_OUTPUT_PS1_END (py_rstrip pane)"

definition hard_limit_reached :: "shell_request \<Rightarrow> rat \<Rightarrow> bool" where
  "hard_limit_reached rq elapsed =
     (case rq_timeout rq of None \<Rightarrow> False | Some t \<Rightarrow> t \<noteq> 0 \<and> t \<le> elapsed)"

text \<open>
  One round of the loop: an answer, or the time of the last change, the contents and the world
  for the next round.
\<close>

definition poll_once ::
  "shell_lib \<Rightarrow> 'w tmux \<Rightarrow> shell_request \<Rightarrow> string \<Rightarrow> nat \<Rightarrow> rat \<Rightarrow> bash_session \<Rightarrow> rat \<times> string \<Rightarrow> 'w \<Rightarrow>
   'w outcome + (rat \<times> string) \<times> 'w" where
  "poll_once lib tm rq command initial_count start s seen w =
     (let (go, w1) = tm_should_continue tm w in
      if \<not> go then Inl (Inl (Raised (RuntimeError ''Bash session was likely interrupted...'')), s, w1)
      else
       (let (pane, w2) = get_pane_content tm w1;
            ms = matches_ps1_metadata (sl_loads lib) pane;
            (changed, w3) = (if pane \<noteq> snd seen then tm_time tm w2 else (fst seen, w2))
        in if initial_count < length ms \<or> at_prompt pane
           then Inl (handle_completed_command lib tm command pane ms (rq_hidden rq) s w3)
           else
            (let (now, w4) = tm_time tm w3 in
             if \<not> rq_blocking rq \<and> of_int (bs_no_change_timeout s) \<le> now - changed
             then (let (ob, s') = handle_nochange_timeout_command command pane ms s in Inl (Inr ob, s', w4))
             else
              (let (now', w5) = tm_time tm w4 in
               if hard_limit_reached rq (now' - start)
               then (let (ob, s') = handle_hard_timeout_command lib command pane ms (the (rq_timeout rq)) s
                     in Inl (Inr ob, s', w5))
               else Inr ((changed, pane), tm_sleep tm POLL_INTERVAL w5)))))"

text \<open>The loop may run forever, so that its result is optional.\<close>

partial_function (option) poll ::
  "shell_lib \<Rightarrow> 'w tmux \<Rightarrow> shell_request \<Rightarrow> string \<Rightarrow> nat \<Rightarrow> rat \<Rightarrow> bash_session \<Rightarrow> rat \<times> string \<Rightarrow> 'w \<Rightarrow>
   'w outcome option" where
  "poll lib tm rq command initial_count start s seen w =
     (case poll_once lib tm rq command initial_count start s seen w of
        Inl r \<Rightarrow> Some r
      | Inr (seen', w') \<Rightarrow> poll lib tm rq command initial_count start s seen' w')"

definition still_running :: "bash_session \<Rightarrow> bool" where
  "still_running s \<longleftrightarrow>
     bs_prev_status s \<in> {Some CONTINUE, Some NO_CHANGE_TIMEOUT, Some HARD_TIMEOUT}"

definition timed_out :: "bash_session \<Rightarrow> bool" where
  "timed_out s \<longleftrightarrow> bs_prev_status s \<in> {Some HARD_TIMEOUT, Some NO_CHANGE_TIMEOUT}"

definition multiple_commands :: "string list \<Rightarrow> string" where
  "multiple_commands cmds =
     ''ERROR: Cannot execute multiple commands at once.'' @ LF @
     ''Please run each command separately OR chain them into a single command via && or ;'' @ LF @
     ''Provided commands:'' @ LF @
     py_join LF (map (\<lambda>(i, c). ''('' @ str_of_int (int i + 1) @ '') '' @ c) (List.enumerate 0 cmds))"

definition NO_LOGS :: string where
  "NO_LOGS = ''ERROR: No previous running command to retrieve logs from.''"

definition NO_INTERACTION :: string where
  "NO_INTERACTION = ''ERROR: No previous running command to interact with.''"

text \<open>The command is typed, in its escaped form unless it is input, and the loop is entered.\<close>

definition type_and_wait ::
  "shell_lib \<Rightarrow> 'w tmux \<Rightarrow> shell_request \<Rightarrow> string \<Rightarrow> nat \<Rightarrow> rat \<Rightarrow> string \<Rightarrow> bash_session \<Rightarrow> 'w \<Rightarrow>
   'w outcome option" where
  "type_and_wait lib tm rq command initial_count start pane s w =
     (case (if command = [] \<or> rq_is_input rq then Inr command
            else escape_bash_special_chars (sl_parse lib) command) of
        Inl x \<Rightarrow> Some (Inl (Raised x), s, w)
      | Inr keys \<Rightarrow>
          poll lib tm rq keys initial_count start s (start, pane)
            (if command = [] then w else tm_send_keys tm keys (\<not> is_special_key command) w))"

definition execute ::
  "shell_lib \<Rightarrow> 'w tmux \<Rightarrow> shell_request \<Rightarrow> bash_session \<Rightarrow> 'w \<Rightarrow> 'w outcome option" where
  "execute lib tm rq s w =
     (let command = py_strip (rq_command rq) in
      if \<not> bs_initialized s then Some (Inl (Raised (RuntimeError ''Bash session is not initialized'')), s, w)
      else if \<not> still_running s \<and> command = []
      then Some (Inr (cmd_output NO_LOGS [] empty_metadata False), s, w)
      else if \<not> still_running s \<and> rq_is_input rq
      then Some (Inr (cmd_output NO_INTERACTION [] empty_metadata False), s, w)
      else case split_bash_commands (sl_parse lib) command of
        Inl x \<Rightarrow> Some (Inl (Raised x), s, w)
      | Inr cmds \<Rightarrow>
          if 1 < length cmds then Some (Inr (ErrorObservation (multiple_commands cmds) []), s, w)
          else
           (let (pane, w1) = get_pane_content tm w;
                ms = matches_ps1_metadata (sl_loads lib) pane;
                (start, w2) = tm_time tm w1
            in if timed_out s \<and> \<not> at_prompt pane \<and> \<not> rq_is_input rq \<and> command \<noteq> []
               then (let (ob, s') = report_running command pane ms (not_executed_suffix command)
                                      (rq_hidden rq) s
                     in Some (Inr ob, s', w2))
               else type_and_wait lib tm rq command (length ms) start pane s w2))"

end
