(* ===== verification/Bash_Facts.thy ===== *)
theory Bash_Facts
  imports Bash_Session
begin

text \<open>
  Facts on the shell session: what splitting and escaping keep of a command, how prompts are found
  in a terminal, how the outputs reported in pieces fit together, when the loop ends, and the
  invariant of the session.
\<close>

section \<open>Text up to white space\<close>

definition letters :: "string \<Rightarrow> string" where
  "letters s = filter (\<lambda>c. \<not> is_space c) s"

lemma letters_append [simp]: "letters (a @ b) = letters a @ letters b"
  by (simp add: letters_def)

lemma letters_dropWhile [simp]: "letters (dropWhile is_space s) = letters s"
  by (induction s) (simp_all add: letters_def)

lemma letters_rev [simp]: "letters (rev s) = rev (letters s)"
  by (simp add: letters_def rev_filter)

lemma letters_strip [simp]:
  "letters (py_lstrip s) = letters s" "letters (py_rstrip s) = letters s"
  "letters (py_strip s) = letters s"
  by (simp_all add: py_lstrip_def py_rstrip_def py_strip_def)

lemma letters_Nil [simp]: "letters [] = []"
  by (simp add: letters_def)

lemma strip_empty: "py_strip s = [] \<Longrightarrow> letters s = []"
  by (metis letters_Nil letters_strip(3))

lemma rstrip_empty: "py_rstrip s = [] \<Longrightarrow> letters s = []"
  by (metis letters_Nil letters_strip(2))

lemma letters_concat_append_last:
  "rs \<noteq> [] \<Longrightarrow> letters (concat (append_last rs t)) = letters (concat rs) @ letters t"
  by (cases rs rule: rev_cases) (simp_all add: append_last_def)

lemma text_between_join:
  "a \<le> b \<Longrightarrow> take a s @ text_between s a b = take b s"
  using take_add [of a "b - a" s] by (simp add: text_between_def)

lemma text_between_joins:
  "l \<le> a \<Longrightarrow> a \<le> b \<Longrightarrow> take l s @ text_between s l a @ text_between s a b = take b s"
  "l \<le> a \<Longrightarrow> a \<le> x \<Longrightarrow> x \<le> b \<Longrightarrow>
   take l s @ text_between s l a @ text_between s a x @ text_between s x b = take b s"
  by (metis append.assoc text_between_join)+

section \<open>Splitting and escaping\<close>

text \<open>The commands the parser finds lie one after the other.\<close>

fun in_sequence :: "nat \<Rightarrow> nat \<Rightarrow> bash_node list \<Rightarrow> bool" where
  "in_sequence n last_end [] = (last_end \<le> n)"
| "in_sequence n last_end (p # ps) =
     (last_end \<le> fst (node_pos p) \<and> fst (node_pos p) \<le> snd (node_pos p) \<and>
      in_sequence n (snd (node_pos p)) ps)"

lemma split_nodes_letters:
  assumes "in_sequence (length s) e ns" and "letters (concat rs) = letters (take e s)"
    and "split_nodes s ns (rs, e) = (rs', e')"
  shows "letters (concat rs') = letters (take e' s) \<and> e' \<le> length s"
  using assms
proof (induction ns arbitrary: rs e)
  case Nil
  then show ?case by simp
next
  case (Cons n ns)
  obtain a b where p: "node_pos n = (a, b)" by (cases "node_pos n")
  define rs1 where "rs1 = (if e < a
      then if rs \<noteq> [] then append_last rs (py_rstrip (text_between s e a))
           else if py_strip (text_between s e a) \<noteq> [] then rs @ [py_rstrip (text_between s e a)] else rs
      else rs)"
  have ord: "e \<le> a" "a \<le> b" "in_sequence (length s) b ns" using Cons.prems(1) by (simp_all add: p)
  have "letters (concat rs1) = letters (concat rs) @ letters (text_between s e a)"
    using ord(1) by (auto simp: rs1_def letters_concat_append_last strip_empty text_between_def)
  also have "\<dots> = letters (take a s)"
    using text_between_join [OF ord(1), of s] Cons.prems(2) by (metis letters_append)
  finally have "letters (concat (rs1 @ [py_rstrip (text_between s a b)])) = letters (take b s)"
    using text_between_join [OF ord(2), of s]
    by (metis concat.simps concat_append append_Nil2 letters_append letters_strip(2))
  moreover have "split_nodes s ns (rs1 @ [py_rstrip (text_between s a b)], b) = (rs', e')"
    using Cons.prems(3) by (simp add: p rs1_def Let_def)
  ultimately show ?case using Cons.IH [OF ord(3)] by blast
qed

lemma split_keeps_letters:
  assumes "\<And>ns. parse s = Inr ns \<Longrightarrow> in_sequence (length s) 0 ns"
    and "split_bash_commands parse s = Inr cmds"
  shows "letters (concat cmds) = letters s"
proof (cases "parse s")
  case (Inl x)
  with assms(2) show ?thesis
    by (cases x) (auto simp: split_bash_commands_def strip_empty split: if_splits)
next
  case (Inr ns)
  obtain rs e where sp: "split_nodes s ns ([], 0) = (rs, e)" by (cases "split_nodes s ns ([], 0)")
  have "letters (concat rs) = letters (take e s)" "e \<le> length s"
    using split_nodes_letters [OF assms(1) [OF Inr] _ sp] by simp_all
  moreover have "letters (take e s) @ letters (drop e s) = letters s"
    by (simp flip: letters_append)
  ultimately have "letters (concat rs) @ letters (py_rstrip (drop e s)) = letters s" by simp
  then show ?thesis
    using assms(2) Inr sp
    by (auto simp: split_bash_commands_def letters_concat_append_last strip_empty rstrip_empty Let_def
        split: if_splits)
qed

text \<open>No backslash stands before one of the special characters.\<close>

definition unescaped :: "string \<Rightarrow> bool" where
  "unescaped s \<longleftrightarrow> (\<forall>c \<in> set SPECIAL_CHARS. \<not> occurs_in [CHR 0x5C, c] s)"

lemma escape_special_same: "unescaped s \<Longrightarrow> escape_special s = s"
  by (induction s rule: escape_special.induct) (auto simp: unescaped_def)

lemma unescaped_part: "unescaped (a @ b @ c) \<Longrightarrow> unescaped b"
  by (auto simp: unescaped_def occurs_in_iff) (metis append.assoc)

lemma unescaped_between: "unescaped s \<Longrightarrow> unescaped (text_between s a b)"
proof -
  assume "unescaped s"
  moreover have "s = take a s @ text_between s a b @ drop (b - a) (drop a s)"
    unfolding text_between_def by (metis append_take_drop_id)
  ultimately show ?thesis using unescaped_part by metis
qed

text \<open>The words and here-documents of a command, in the order they are visited, lie one after the
  other; the position after the last one.\<close>

fun placed :: "bash_node \<Rightarrow> nat \<Rightarrow> nat option" where
  "placed (Bash_Node kind (a, b) heredoc parts) l =
     (case (if kind = ''redirect'' then heredoc else None) of
        Some (x, y) \<Rightarrow> if l \<le> a \<and> a \<le> x \<and> x \<le> y \<and> b = y then Some b else None
      | None \<Rightarrow>
          if kind = ''word'' then (if l \<le> a \<and> a \<le> b then Some b else None)
          else fold (\<lambda>p r. case r of None \<Rightarrow> None | Some l \<Rightarrow> placed p l) parts (Some l))"

fun all_placed :: "bash_node list \<Rightarrow> nat \<Rightarrow> bool" where
  "all_placed [] l = True"
| "all_placed (n # ns) l =
     (l \<le> fst (node_pos n) \<and>
      (case placed n (fst (node_pos n)) of None \<Rightarrow> False | Some l' \<Rightarrow> all_placed ns l'))"

lemma fold_None: "fold (\<lambda>p r. case r of None \<Rightarrow> None | Some l \<Rightarrow> f p l) ps None = None"
  by (induction ps) simp_all

lemma visit_node_same:
  assumes "unescaped s" and "placed n l = Some l'"
  shows "visit_node s n (take l s, l) = (take l' s, l')"
  using assms(2)
proof (induction n arbitrary: l l')
  case (Bash_Node kind pos heredoc parts)
  obtain a b where pos: "pos = (a, b)" by (cases pos)
  consider x y where "kind = ''redirect''" "heredoc = Some (x, y)"
    | "(if kind = ''redirect'' then heredoc else None) = None" "kind = ''word''"
    | "(if kind = ''redirect'' then heredoc else None) = None" "kind \<noteq> ''word''"
    by (cases heredoc; cases "kind = ''redirect''") auto
  then show ?case
  proof cases
    case 1
    then show ?thesis using Bash_Node.prems by (simp add: pos text_between_joins split: if_splits)
  next
    case 2
    then show ?thesis using Bash_Node.prems assms(1)
      by (simp add: pos escape_special_same unescaped_between text_between_joins Let_def split: if_splits)
  next
    case 3
    have "fold (visit_node s) ps (take l s, l) = (take l' s, l')"
      if "set ps \<subseteq> set parts"
        "fold (\<lambda>p r. case r of None \<Rightarrow> None | Some l \<Rightarrow> placed p l) ps (Some l) = Some l'" for ps l
      using that
    proof (induction ps arbitrary: l)
      case Nil
      then show ?case by simp
    next
      case (Cons p ps)
      then obtain m where "placed p l = Some m" by (cases "placed p l") (simp_all add: fold_None)
      with Cons Bash_Node.IH [of p l m] show ?case by simp
    qed
    from this [of parts l] 3 Bash_Node.prems show ?thesis by (simp add: pos)
  qed
qed

lemma visit_top_same:
  assumes "unescaped s" and "all_placed ns l"
  shows "\<exists>l'. visit_top s ns (take l s, l) = (take l' s, l')"
  using assms(2)
proof (induction ns arbitrary: l)
  case Nil
  then show ?case by auto
next
  case (Cons n ns)
  then obtain l' where "l \<le> fst (node_pos n)" "placed n (fst (node_pos n)) = Some l'" "all_placed ns l'"
    by (auto split: option.splits)
  with Cons.IH visit_node_same [OF assms(1)] show ?case
    by (simp add: Let_def escape_special_same assms(1) unescaped_between text_between_join)
qed

lemma escape_same:
  assumes "unescaped s" and "\<And>ns. parse s = Inr ns \<Longrightarrow> all_placed ns 0"
    and "escape_bash_special_chars parse s = Inr t"
  shows "t = (if py_strip s = [] then [] else s)"
proof (cases "parse s")
  case (Inl x)
  with assms(3) show ?thesis by (cases x) (auto simp: escape_bash_special_chars_def split: if_splits)
next
  case (Inr ns)
  with visit_top_same [OF assms(1) assms(2)] assms(3) show ?thesis
    by (auto simp: escape_bash_special_chars_def split: if_splits)
qed

section \<open>Prompts in a terminal\<close>

lemma prefix_before: "c \<notin> set t \<Longrightarrow> prefix t (a @ c # r) \<Longrightarrow> prefix t a"
proof -
  assume c: "c \<notin> set t" and "prefix t (a @ c # r)"
  then obtain z where "a @ c # r = t @ z" by (auto elim: prefixE)
  with c show "prefix t a" by (auto simp: append_eq_append_conv2 Cons_eq_append_conv)
qed

lemma split_first_line:
  assumes "t \<noteq> []" and "c \<notin> set t" and "\<not> occurs_in t j"
  shows "split_first t (j @ c # t @ r) = Some (j @ [c], r)"
  using assms(3)
proof (induction j)
  case Nil
  have "\<not> prefix t (c # t @ r)" using assms by (cases t) auto
  moreover have "split_first t (t @ r) = Some ([], r)" using assms(1) by (cases t) auto
  ultimately show ?case by simp
next
  case (Cons x j)
  moreover have "\<not> prefix t ((x # j) @ c # t @ r)"
    using prefix_before [OF assms(2)] Cons.prems by fastforce
  ultimately show ?case by simp
qed

abbreviation newline :: char where "newline \<equiv> CHR 0x0A"

lemma marks_in_line: "newline \<notin> set PS1_BEGIN_MARK" "newline \<notin> set PS1_END_MARK"
  by (simp_all add: PS1_BEGIN_MARK_def PS1_END_MARK_def)

lemma mark_not_at_newline:
  "\<not> prefix PS1_BEGIN_MARK (newline # s)" "\<not> prefix PS1_END_MARK (newline # s)"
  by (simp_all add: PS1_BEGIN_MARK_def PS1_END_MARK_def)

lemma blocks_skip:
  assumes "\<not> occurs_in PS1_BEGIN_MARK a"
  shows "ps1_blocks i bol (a @ newline # r) = ps1_blocks (i + length a + 1) True r"
  using assms
proof (induction a arbitrary: i bol)
  case Nil
  then show ?case by (simp add: mark_not_at_newline)
next
  case (Cons c a)
  have "\<not> prefix PS1_BEGIN_MARK ((c # a) @ newline # r)"
    using prefix_before [OF marks_in_line(1)] Cons.prems by fastforce
  with Cons show ?case by simp
qed

lemma blocks_none: "\<not> occurs_in PS1_BEGIN_MARK a \<Longrightarrow> ps1_blocks i bol a = []"
  by (induction a arbitrary: i bol) simp_all

definition prompt_block :: "string \<Rightarrow> string" where
  "prompt_block j = PS1_BEGIN_MARK @ LF @ j @ CMD_OUTPUT_PS1_END"

lemma prompt_block_length [simp]: "length (prompt_block j) = 27 + length j"
  by (simp add: prompt_block_def CMD_OUTPUT_PS1_END_def LF_def)

lemma blocks_found:
  assumes "split_first PS1_END_MARK s = Some (g, r)"
  shows "ps1_blocks i True (PS1_BEGIN_MARK @ s) =
    \<lparr>pm_start = i, pm_end = i + 13 + length g + 12, pm_text = g\<rparr> #
    ps1_blocks (i + 13 + length g + 12) False r"
proof -
  have d: "drop 13 (PS1_BEGIN_MARK @ s) = s" by (simp add: PS1_BEGIN_MARK_def)
  obtain x xs where x: "PS1_BEGIN_MARK @ s = x # xs"
    by (cases "PS1_BEGIN_MARK @ s") (simp_all add: PS1_BEGIN_MARK_def)
  then have "prefix PS1_BEGIN_MARK (x # xs)" by (metis prefixI)
  with d assms show ?thesis unfolding x by (simp add: Let_def)
qed

lemma blocks_at_prompt:
  assumes "\<not> occurs_in PS1_END_MARK j"
  shows "ps1_blocks i True (prompt_block j @ r) =
    \<lparr>pm_start = i, pm_end = i + length (prompt_block j), pm_text = LF @ j @ LF\<rparr> #
    ps1_blocks (i + length (prompt_block j)) False r"
proof -
  have "\<not> occurs_in PS1_END_MARK (newline # j)" using assms mark_not_at_newline by simp
  from split_first_line [OF _ marks_in_line(2) this, of r]
  have s: "split_first PS1_END_MARK (newline # j @ newline # PS1_END_MARK @ r) =
      Some (newline # j @ [newline], r)" by (simp add: PS1_END_MARK_def)
  have "prompt_block j @ r = PS1_BEGIN_MARK @ newline # j @ newline # PS1_END_MARK @ r"
    by (simp add: prompt_block_def CMD_OUTPUT_PS1_END_def LF_def)
  moreover have "i + 13 + length (newline # j @ [newline]) + 12 = i + length (prompt_block j)" by simp
  ultimately show ?thesis using blocks_found [OF s, of i] by (simp add: LF_def add.commute add.left_commute)
qed

text \<open>The terminal while a command runs, and after it has ended.\<close>

definition running_screen :: "string \<Rightarrow> string \<Rightarrow> string \<Rightarrow> string" where
  "running_screen a j out = a @ LF @ prompt_block j @ LF @ out"

definition ended_screen :: "string \<Rightarrow> string \<Rightarrow> string \<Rightarrow> string \<Rightarrow> string" where
  "ended_screen a j out j' = running_screen a j out @ LF @ prompt_block j'"

definition idle_screen :: "string \<Rightarrow> string \<Rightarrow> string" where
  "idle_screen a j = a @ LF @ prompt_block j"

definition block_at :: "nat \<Rightarrow> string \<Rightarrow> ps1_match" where
  "block_at i j = \<lparr>pm_start = i, pm_end = i + length (prompt_block j), pm_text = LF @ j @ LF\<rparr>"

definition readable :: "(string \<Rightarrow> json option) \<Rightarrow> string \<Rightarrow> bool" where
  "readable loads j \<longleftrightarrow> \<not> occurs_in PS1_END_MARK j \<and> loads (py_strip (LF @ j @ LF)) \<noteq> None"

lemma mark_before_newline: "occurs_in PS1_BEGIN_MARK (newline # s) \<longleftrightarrow> occurs_in PS1_BEGIN_MARK s"
  by (simp add: mark_not_at_newline)

lemma matches_idle:
  assumes "\<not> occurs_in PS1_BEGIN_MARK a" and "readable loads j"
  shows "matches_ps1_metadata loads (idle_screen a j) = [block_at (length a + 1) j]"
  using assms blocks_at_prompt [of j "length a + 1" "[]"] blocks_skip [of a 0 True "prompt_block j"]
  by (simp add: matches_ps1_metadata_def idle_screen_def readable_def block_at_def LF_def)

lemma matches_running:
  assumes "\<not> occurs_in PS1_BEGIN_MARK a" and "readable loads j" and "\<not> occurs_in PS1_BEGIN_MARK out"
  shows "matches_ps1_metadata loads (running_screen a j out) = [block_at (length a + 1) j]"
  using assms blocks_at_prompt [of j "length a + 1" "newline # out"]
    blocks_skip [of a 0 True "prompt_block j @ newline # out"] blocks_none [of "newline # out"]
  by (simp add: matches_ps1_metadata_def running_screen_def readable_def block_at_def LF_def
      mark_before_newline del: ps1_blocks.simps occurs_in.simps)

lemma ended_screen_eq:
  "ended_screen a j out j' =
     a @ newline # prompt_block j @ (newline # out) @ newline # prompt_block j' @ []"
  by (simp add: ended_screen_def running_screen_def LF_def)

lemma blocks_ended:
  assumes "\<not> occurs_in PS1_BEGIN_MARK a" and "\<not> occurs_in PS1_END_MARK j" "\<not> occurs_in PS1_END_MARK j'"
    and "\<not> occurs_in PS1_BEGIN_MARK out"
  shows "ps1_blocks 0 True (ended_screen a j out j') =
    [block_at (length a + 1) j, block_at (length a + length j + length out + 30) j']"
proof -
  have out: "\<not> occurs_in PS1_BEGIN_MARK (newline # out)"
    using assms(4) mark_before_newline by blast
  have n: "length a + 1 + length (prompt_block j) + length (newline # out) + 1 =
      length a + length j + length out + 30" by simp
  have e: "ps1_blocks i False [] = []" for i by simp
  show ?thesis
    unfolding ended_screen_eq blocks_skip [OF assms(1)] blocks_at_prompt [OF assms(2)]
      blocks_skip [OF out] blocks_at_prompt [OF assms(3)] e
    unfolding block_at_def n by simp
qed

lemma matches_ended:
  assumes "\<not> occurs_in PS1_BEGIN_MARK a" and "readable loads j" "readable loads j'"
    and "\<not> occurs_in PS1_BEGIN_MARK out"
  shows "matches_ps1_metadata loads (ended_screen a j out j') =
    [block_at (length a + 1) j, block_at (length a + length j + length out + 30) j']"
  using blocks_ended [of a j j' out] assms
  by (simp add: matches_ps1_metadata_def readable_def block_at_def)

section \<open>The invariant of the session\<close>

definition session_ok :: "bash_session \<Rightarrow> bool" where
  "session_ok s \<longleftrightarrow> bs_initialized s \<and> bs_prev_status s \<noteq> Some CONTINUE \<and>
     (\<not> timed_out s \<longrightarrow> bs_prev_output s = [])"

inductive session_reached :: "shell_lib \<Rightarrow> 'w tmux \<Rightarrow> bash_session \<Rightarrow> bool" for lib tm where
  started: "session_reached lib tm (fst (initialize lib tm su user (new_session dir name limit) w))"
| executed: "session_reached lib tm s \<Longrightarrow> execute lib tm rq s w = Some (r, s', w') \<Longrightarrow>
    session_reached lib tm s'"

lemma completed_ok:
  assumes "handle_completed_command lib tm command pane ms hidden s w = (r, s', w')" and "session_ok s"
  shows "session_ok s'"
  using assms
  by (auto simp: handle_completed_command_def get_command_output_def session_ok_def Let_def timed_out_def
      split: if_splits sum.splits option.splits prod.splits)

lemma report_running_session:
  "report_running command pane ms sfx hidden s = (ob, s') \<Longrightarrow>
   s' = s\<lparr>bs_prev_output := combine_outputs_between_matches pane ms False\<rparr>"
  by (auto simp: report_running_def get_command_output_def split: prod.splits if_splits)

lemma timeouts_ok:
  "handle_nochange_timeout_command command pane ms s = (ob, s') \<Longrightarrow> session_ok s \<Longrightarrow>
   session_ok s' \<and> timed_out s'"
  "handle_hard_timeout_command lib command pane ms t s = (ob, s') \<Longrightarrow> session_ok s \<Longrightarrow>
   session_ok s' \<and> timed_out s'"
  unfolding handle_nochange_timeout_command_def handle_hard_timeout_command_def
  by (auto dest!: report_running_session simp: session_ok_def timed_out_def)

lemma poll_once_ok:
  assumes "poll_once lib tm rq command n start s seen w = Inl (r, s', w')" and "session_ok s"
  shows "session_ok s'"
  using assms
  by (auto simp: poll_once_def Let_def dest: completed_ok timeouts_ok split: prod.splits if_splits)

text \<open>What holds of every answer of a round holds of every answer of the loop.\<close>

lemma poll_answer:
  assumes "poll lib tm rq command n start s seen w = Some out"
    and "\<And>seen w out. poll_once lib tm rq command n start s seen w = Inl out \<Longrightarrow> Q out"
  shows "Q out"
proof -
  let ?P = "\<lambda>lib tm rq command n start s (seen :: rat \<times> string) w out.
    (\<forall>seen w out. poll_once lib tm rq command n start s seen w = Inl out \<longrightarrow> Q out) \<longrightarrow> Q out"
  have "?P lib tm rq command n start s seen w out"
  proof (rule poll.raw_induct [where P = ?P, OF _ assms(1)])
    fix f lib tm rq command n start s and seen :: "rat \<times> string" and w out
    assume ih: "\<And>lib tm rq command n start s seen w out.
        f lib tm rq command n start s seen w = Some out \<Longrightarrow> ?P lib tm rq command n start s seen w out"
      and r: "(case poll_once lib tm rq command n start s seen w of Inl r \<Rightarrow> Some r
          | Inr (seen', w') \<Rightarrow> f lib tm rq command n start s seen' w') = Some out"
    show "?P lib tm rq command n start s seen w out"
    proof (cases "poll_once lib tm rq command n start s seen w")
      case (Inl x)
      with r have "poll_once lib tm rq command n start s seen w = Inl out" by simp
      then show ?thesis by blast
    next
      case (Inr x)
      obtain seen' w' where "x = (seen', w')" by (cases x)
      with Inr r have "f lib tm rq command n start s seen' w' = Some out" by simp
      then show ?thesis by (rule ih)
    qed
  qed
  with assms(2) show ?thesis by blast
qed

lemma poll_ok:
  assumes "poll lib tm rq command n start s seen w = Some (r, s', w')" and "session_ok s"
  shows "session_ok s'"
proof -
  have "case (r, s', w') of (r, s', w') \<Rightarrow> session_ok s'"
    by (rule poll_answer [OF assms(1)]) (auto dest: poll_once_ok [OF _ assms(2)])
  then show ?thesis by simp
qed

lemma execute_ok:
  assumes "execute lib tm rq s w = Some (r, s', w')" and "session_ok s"
  shows "session_ok s'"
  using assms
  by (auto simp: execute_def type_and_wait_def Let_def session_ok_def timed_out_def
      dest!: report_running_session split: if_splits sum.splits prod.splits)
    (auto dest!: poll_ok simp: session_ok_def timed_out_def)

lemma session_reached_ok: "session_reached lib tm s \<Longrightarrow> session_ok s"
proof (induction rule: session_reached.induct)
  case (started su user dir name limit w)
  then show ?case by (simp add: initialize_def session_ok_def Let_def new_session_def)
next
  case (executed s rq w r s' w')
  show ?case by (rule execute_ok [OF executed(2,3)])
qed

section \<open>The loop ends\<close>

text \<open>\<open>T\<close> is the time in a state of the world; it does not go back, and sleeping takes the time it
  says.\<close>

definition steady :: "'w tmux \<Rightarrow> ('w \<Rightarrow> rat) \<Rightarrow> bool" where
  "steady tm T \<longleftrightarrow>
     (\<forall>w. fst (tm_time tm w) = T w \<and> T w \<le> T (snd (tm_time tm w)) \<and>
          T w \<le> T (snd (tm_capture tm w)) \<and> T w \<le> T (snd (tm_should_continue tm w))) \<and>
     (\<forall>d w. T w + d \<le> T (tm_sleep tm d w))"

lemma steadyD:
  assumes "steady tm T"
  shows "fst (tm_time tm w) = T w" "T w \<le> T (snd (tm_time tm w))"
    "T w \<le> T (snd (tm_capture tm w))" "T w \<le> T (snd (tm_should_continue tm w))"
    "T w + d \<le> T (tm_sleep tm d w)"
  using assms by (simp_all add: steady_def)

text \<open>A round that does not end takes at least half a second, and neither limit is reached in it.\<close>

lemma poll_once_continues:
  assumes st: "steady tm T" and r: "poll_once lib tm rq command n start s seen w = Inr (seen', w')"
  shows "T w + 1/2 \<le> T w'"
    and "hard_limit_reached rq (T w - start + d) \<Longrightarrow> d \<le> 0 \<Longrightarrow> False"
    and "\<exists>w1. T w \<le> T w1 \<and> snd seen' = fst (get_pane_content tm w1) \<and>
      (snd seen' = snd seen \<longrightarrow> fst seen' = fst seen) \<and>
      (\<not> rq_blocking rq \<longrightarrow> T w - fst seen' < of_int (bs_no_change_timeout s))"
proof -
  let ?w1 = "snd (tm_should_continue tm w)"
  let ?w2 = "snd (get_pane_content tm ?w1)"
  let ?pane = "fst (get_pane_content tm ?w1)"
  let ?c = "if ?pane \<noteq> snd seen then tm_time tm ?w2 else (fst seen, ?w2)"
  let ?w4 = "snd (tm_time tm (snd ?c))" and ?w5 = "snd (tm_time tm (snd (tm_time tm (snd ?c))))"
  from r have go: "\<not> (\<not> rq_blocking rq \<and> of_int (bs_no_change_timeout s) \<le> fst (tm_time tm (snd ?c)) - fst ?c)"
      "\<not> hard_limit_reached rq (fst (tm_time tm ?w4) - start)"
    and seen': "seen' = (fst ?c, ?pane)" and w': "w' = tm_sleep tm POLL_INTERVAL ?w5"
    by (auto simp: poll_once_def Let_def split: prod.splits if_splits)
  have g: "snd (get_pane_content tm v) = snd (tm_capture tm v)" for v
    by (simp add: get_pane_content_def Let_def split: prod.split)
  note t = steadyD [OF st]
  have 1: "T w \<le> T ?w1" "T ?w1 \<le> T ?w2" unfolding g by (rule t)+
  have 2: "T ?w2 \<le> T (snd ?c)" using t(2) [of ?w2] by simp
  have 3: "T (snd ?c) \<le> T ?w4" "T ?w4 \<le> T ?w5" by (rule t(2))+
  show "T w + 1/2 \<le> T w'"
    using 1 2 3 t(5) [of ?w5 POLL_INTERVAL] unfolding w' POLL_INTERVAL_def by linarith
  show False if "hard_limit_reached rq (T w - start + d)" "d \<le> 0"
  proof -
    have "T w - start + d \<le> fst (tm_time tm ?w4) - start" using 1 2 3 that(2) unfolding t(1) by linarith
    with that(1) have "hard_limit_reached rq (fst (tm_time tm ?w4) - start)"
      by (auto simp: hard_limit_reached_def split: option.splits)
    with go(2) show False ..
  qed
  have "T w - fst seen' < of_int (bs_no_change_timeout s)" if "\<not> rq_blocking rq"
    using go(1) that 1 2 unfolding seen' t(1) by (simp add: t(1) split: if_splits)
  then show "\<exists>w1. T w \<le> T w1 \<and> snd seen' = fst (get_pane_content tm w1) \<and>
      (snd seen' = snd seen \<longrightarrow> fst seen' = fst seen) \<and>
      (\<not> rq_blocking rq \<longrightarrow> T w - fst seen' < of_int (bs_no_change_timeout s))"
    using 1(1) by (intro exI [of _ ?w1]) (auto simp: seen')
qed

lemma poll_step:
  assumes "\<And>seen' w'. poll_once lib tm rq command n start s seen w = Inr (seen', w') \<Longrightarrow>
    \<exists>r. poll lib tm rq command n start s seen' w' = Some r"
  shows "\<exists>r. poll lib tm rq command n start s seen w = Some r"
  by (subst poll.simps) (use assms in \<open>auto split: sum.split prod.split\<close>)

lemma rat_countdown: "\<exists>k. (x :: rat) \<le> of_nat k / 2"
proof -
  obtain k where "2 * x \<le> of_nat k" using real_arch_simple [of "2 * x"] by blast
  then show ?thesis by (intro exI [of _ k]) simp
qed

lemma poll_hard_limit:
  assumes st: "steady tm T" and t: "rq_timeout rq = Some t" "0 < t"
  shows "\<exists>r. poll lib tm rq command n start s seen w = Some r"
proof -
  have "start + t - T w \<le> of_nat k / 2 \<Longrightarrow> \<exists>r. poll lib tm rq command n start s seen w = Some r" for k
  proof (induction k arbitrary: seen w)
    case 0
    show ?case
    proof (rule poll_step)
      fix seen' w'
      assume r: "poll_once lib tm rq command n start s seen w = Inr (seen', w')"
      have "hard_limit_reached rq (T w - start + 0)" using 0 t by (simp add: hard_limit_reached_def)
      with poll_once_continues(2) [OF st r this] show "\<exists>r. poll lib tm rq command n start s seen' w' = Some r"
        by simp
    qed
  next
    case (Suc k)
    show ?case
    proof (rule poll_step)
      fix seen' w'
      assume r: "poll_once lib tm rq command n start s seen w = Inr (seen', w')"
      from poll_once_continues(1) [OF st r] Suc.prems
      have "start + t - T w' \<le> of_nat k / 2" by simp
      then show "\<exists>r. poll lib tm rq command n start s seen' w' = Some r" by (rule Suc.IH)
    qed
  qed
  with rat_countdown [of "start + t - T w"] show ?thesis by blast
qed

lemma poll_quiet:
  assumes st: "steady tm T" and nb: "\<not> rq_blocking rq"
    and quiet: "\<And>w. b \<le> T w \<Longrightarrow> fst (tm_capture tm w) = ls"
  shows "\<exists>r. poll lib tm rq command n start s seen w = Some r"
proof -
  let ?P = "py_join LF (map py_rstrip ls)" and ?limit = "of_int (bs_no_change_timeout s) :: rat"
  have pane: "fst (get_pane_content tm v) = ?P" if "b \<le> T v" for v
    using quiet [OF that] by (auto simp: get_pane_content_def split: prod.split)
  have unchanged: "fst seen + ?limit - T w \<le> of_nat k / 2 \<Longrightarrow> snd seen = ?P \<Longrightarrow> b \<le> T w \<Longrightarrow>
      \<exists>r. poll lib tm rq command n start s seen w = Some r" for k seen w
  proof (induction k arbitrary: w)
    case 0
    show ?case
    proof (rule poll_step)
      fix seen' w'
      assume "poll_once lib tm rq command n start s seen w = Inr (seen', w')"
      from poll_once_continues(3) [OF st this] obtain w1 where w1: "T w \<le> T w1"
        "snd seen' = fst (get_pane_content tm w1)" "snd seen' = snd seen \<longrightarrow> fst seen' = fst seen"
        "T w - fst seen' < ?limit" using nb by auto
      have "snd seen' = ?P" using pane [of w1] w1(1,2) 0(3) by simp
      then have "fst seen' = fst seen" using w1(3) 0(2) by simp
      with w1(4) 0(1) show "\<exists>r. poll lib tm rq command n start s seen' w' = Some r" by simp
    qed
  next
    case (Suc k)
    show ?case
    proof (rule poll_step)
      fix seen' w'
      assume r: "poll_once lib tm rq command n start s seen w = Inr (seen', w')"
      from poll_once_continues(3) [OF st r] obtain w1 where w1: "T w \<le> T w1"
        "snd seen' = fst (get_pane_content tm w1)" "snd seen' = snd seen \<longrightarrow> fst seen' = fst seen" by blast
      have "snd seen' = ?P" using pane [of w1] w1(1,2) Suc.prems(3) by simp
      then have "seen' = seen" using w1(3) Suc.prems(2) by (simp add: prod_eq_iff)
      with Suc poll_once_continues(1) [OF st r]
      show "\<exists>r. poll lib tm rq command n start s seen' w' = Some r" by simp
    qed
  qed
  have late: "\<exists>r. poll lib tm rq command n start s seen w = Some r" if "b \<le> T w" for seen w
  proof (rule poll_step)
    fix seen' w'
    assume r: "poll_once lib tm rq command n start s seen w = Inr (seen', w')"
    from poll_once_continues(3) [OF st r] obtain w1 where "T w \<le> T w1"
      "snd seen' = fst (get_pane_content tm w1)" by blast
    then have "snd seen' = ?P" using pane [of w1] that by simp
    moreover have "b \<le> T w'" using poll_once_continues(1) [OF st r] that by simp
    ultimately show "\<exists>r. poll lib tm rq command n start s seen' w' = Some r"
      using rat_countdown unchanged by blast
  qed
  have "b - T w \<le> of_nat k / 2 \<Longrightarrow> \<exists>r. poll lib tm rq command n start s seen w = Some r" for k
  proof (induction k arbitrary: seen w)
    case 0
    then show ?case using late by simp
  next
    case (Suc k)
    show ?case
    proof (rule poll_step)
      fix seen' w'
      assume r: "poll_once lib tm rq command n start s seen w = Inr (seen', w')"
      from poll_once_continues(1) [OF st r] Suc.prems have "b - T w' \<le> of_nat k / 2" by simp
      then show "\<exists>r. poll lib tm rq command n start s seen' w' = Some r" by (rule Suc.IH)
    qed
  qed
  with rat_countdown [of "b - T w"] show ?thesis by blast
qed

text \<open>A blocking command without a limit that never gives its prompt back is waited for forever.\<close>

lemma poll_blocks:
  assumes "rq_blocking rq" and "rq_timeout rq = None"
    and "\<And>w. fst (tm_should_continue tm w)"
    and "\<And>w. \<not> at_prompt (fst (get_pane_content tm w)) \<and>
      length (matches_ps1_metadata (sl_loads lib) (fst (get_pane_content tm w))) \<le> n"
  shows "poll lib tm rq command n start s seen w = None"
proof (cases "poll lib tm rq command n start s seen w")
  case (Some out)
  have False
  proof (rule poll_answer [OF Some])
    fix seen w out
    assume "poll_once lib tm rq command n start s seen w = Inl out"
    then show False
      using assms(3) [of w] assms(4) [of "snd (tm_should_continue tm w)"] assms(1,2)
      by (auto simp: poll_once_def hard_limit_reached_def Let_def not_less
          split: prod.splits if_splits)
  qed
  then show ?thesis ..
qed simp

end
