(* ===== verification/Bash_Properties.thy ===== *)
theory Bash_Properties
  imports Bash_Facts
begin

text \<open>
  The properties of the shell session, with witnesses on a terminal that shows one screen after
  the other.
\<close>

section \<open>What one execution does\<close>

lemma not_running: "session_ok s \<Longrightarrow> \<not> timed_out s \<Longrightarrow> \<not> still_running s"
  by (auto simp: session_ok_def timed_out_def still_running_def)

text \<open>The execution of a command by an idle session, up to its first round.\<close>

lemma execute_typed:
  fixes tm :: "'w tmux" and w :: 'w
  assumes ok: "session_ok s" and idle: "\<not> timed_out s"
    and cmd: "py_strip (rq_command rq) \<noteq> []" "\<not> rq_is_input rq"
    and split: "split_bash_commands (sl_parse lib) (py_strip (rq_command rq)) = Inr cmds" "length cmds \<le> 1"
    and esc: "escape_bash_special_chars (sl_parse lib) (py_strip (rq_command rq)) = Inr keys"
  defines "w2 \<equiv> snd (tm_time tm (snd (get_pane_content tm w)))"
  shows "execute lib tm rq s w =
    poll lib tm rq keys (length (matches_ps1_metadata (sl_loads lib) (fst (get_pane_content tm w))))
      (fst (tm_time tm (snd (get_pane_content tm w)))) s
      (fst (tm_time tm (snd (get_pane_content tm w))), fst (get_pane_content tm w))
      (tm_send_keys tm keys (\<not> is_special_key (py_strip (rq_command rq))) w2)"
  using ok idle cmd split esc
  by (simp add: execute_def not_running Let_def session_ok_def type_and_wait_def w2_def split: prod.split)

lemma poll_finds_prompt:
  assumes "fst (tm_should_continue tm w)"
    and "fst (get_pane_content tm (snd (tm_should_continue tm w))) = pane"
    and "n < length (matches_ps1_metadata (sl_loads lib) pane) \<or> at_prompt pane"
  shows "\<exists>w'. poll lib tm rq command n start s seen w =
    Some (handle_completed_command lib tm command pane (matches_ps1_metadata (sl_loads lib) pane)
            (rq_hidden rq) s w')"
proof -
  let ?ms = "matches_ps1_metadata (sl_loads lib) pane"
  obtain w1 w2 where "tm_should_continue tm w = (True, w1)" "get_pane_content tm w1 = (pane, w2)"
    using assms(1,2) by (metis prod.collapse)
  then have "poll_once lib tm rq command n start s seen w =
      Inl (handle_completed_command lib tm command pane ?ms (rq_hidden rq) s
            (snd (if pane \<noteq> snd seen then tm_time tm w2 else (fst seen, w2))))"
    using assms(3) by (simp add: poll_once_def Let_def split: prod.split)
  then show ?thesis by (subst poll.simps) auto
qed

lemma lstrip_head: "s \<noteq> [] \<Longrightarrow> \<not> is_space (hd s) \<Longrightarrow> py_lstrip s = s"
  by (cases s) (simp_all add: py_lstrip_def)

lemma rstrip_newline: "py_rstrip (s @ LF) = py_rstrip s"
  by (simp add: py_rstrip_def LF_def is_space_def)

lemma strip_newline: "py_rstrip (py_lstrip (s @ LF)) = py_strip s"
proof (cases "\<forall>c \<in> set s. is_space c")
  case True
  moreover have "is_space newline" by (simp add: is_space_def)
  ultimately show ?thesis
    by (auto simp: py_lstrip_def py_rstrip_def py_strip_def LF_def dropWhile_append dest: set_dropWhileD)
next
  case False
  then have "py_lstrip (s @ LF) = py_lstrip s @ LF"
    by (auto simp: py_lstrip_def dropWhile_append)
  then show ?thesis using rstrip_newline by (simp add: py_strip_def py_rstrip_def py_lstrip_def)
qed

lemma ended_output:
  assumes "keys \<noteq> []" and "\<not> is_space (hd keys)"
  shows "py_rstrip (remove_command_prefix ((keys @ LF @ out @ LF) @ LF) keys) = py_strip out"
proof -
  have 1: "py_lstrip keys = keys" by (rule lstrip_head [OF assms])
  have 2: "py_lstrip ((keys @ LF @ out @ LF) @ LF) = (keys @ LF @ out @ LF) @ LF"
    using assms by (intro lstrip_head) simp_all
  have 3: "remove_prefix ((keys @ LF @ out @ LF) @ LF) keys = (LF @ out @ LF) @ LF"
    by (simp add: remove_prefix_def after_prefix_def)
  have "py_lstrip ((LF @ out @ LF) @ LF) = py_lstrip ((out @ LF) @ LF)"
    by (simp add: py_lstrip_def LF_def is_space_def)
  then have "py_rstrip (remove_command_prefix ((keys @ LF @ out @ LF) @ LF) keys) = py_strip (out @ LF)"
    unfolding remove_command_prefix_def 1 2 3 using strip_newline by metis
  also have "\<dots> = py_strip out"
    using strip_newline [of out] by (simp add: py_strip_def py_rstrip_def py_lstrip_def)
  finally show ?thesis .
qed

lemma combined_ended:
  "combine_outputs_between_matches (ended_screen a j out j')
     [block_at (length a + 1) j, block_at (length a + length j + length out + 30) j'] b =
   (out @ LF) @ LF"
proof -
  have e: "ended_screen a j out j' = (a @ LF @ prompt_block j @ LF) @ (out @ LF) @ prompt_block j'"
    by (simp add: ended_screen_def running_screen_def)
  have "length (a @ LF @ prompt_block j @ LF) = length a + length j + 29" by (simp add: LF_def)
  moreover from this have "length (ended_screen a j out j') = length a + length j + length out + length j' + 57"
    unfolding e by (simp add: LF_def)
  ultimately show ?thesis
    by (simp add: combine_outputs_between_matches_def block_at_def text_between_def)
      (simp add: e)
qed

lemma from_block: "from_ps1_match loads (block_at i j) = from_ps1_match loads (block_at 0 j)"
  by (simp add: from_ps1_match_def block_at_def)

text \<open>
  A command that an idle session of the sandbox types into its shell, and whose prompt is back
  when the terminal is looked at, is answered with exactly its own output (without the echo of the
  command and the white space around it, and truncated if it is long) and with the metadata the
  prompt reports; the session is idle again and follows the working directory of the shell.
\<close>

theorem finished_command_answered:
  fixes tm :: "'w tmux" and w :: 'w
  assumes reached: "session_reached lib tm s" and idle: "\<not> timed_out s"
    and cmd: "py_strip (rq_command rq) \<noteq> []" "\<not> rq_is_input rq"
    and split: "split_bash_commands (sl_parse lib) (py_strip (rq_command rq)) = Inr cmds" "length cmds \<le> 1"
    and esc: "escape_bash_special_chars (sl_parse lib) (py_strip (rq_command rq)) = Inr keys"
      "keys \<noteq> []" "\<not> is_space (hd keys)"
    and before: "fst (get_pane_content tm w) = idle_screen a j"
    and sent: "w3 = tm_send_keys tm keys (\<not> is_special_key (py_strip (rq_command rq)))
                      (snd (tm_time tm (snd (get_pane_content tm w))))"
    and "fst (tm_should_continue tm w3)"
    and after: "fst (get_pane_content tm (snd (tm_should_continue tm w3))) =
                  ended_screen a j (keys @ LF @ out) j'"
    and clean: "\<not> occurs_in PS1_BEGIN_MARK a" "\<not> occurs_in PS1_BEGIN_MARK (keys @ LF @ out)"
      "readable (sl_loads lib) j" "readable (sl_loads lib) j'"
    and md: "from_ps1_match (sl_loads lib) (block_at 0 j') = Inr md"
  shows "\<exists>w'. execute lib tm rq s w =
    Some (Inr (cmd_output (py_strip out) keys
                 (md\<lparr>md_suffix := completed_suffix (md_exit_code md) keys\<rparr>) (rq_hidden rq)),
          s\<lparr>bs_cwd := (case md_working_dir md of Some d \<Rightarrow> if d = [] then bs_cwd s else d | None \<Rightarrow> bs_cwd s),
            bs_prev_status := Some COMPLETED, bs_prev_output := []\<rparr>, w')"
proof -
  let ?pane = "ended_screen a j (keys @ LF @ out) j'"
  let ?ms = "matches_ps1_metadata (sl_loads lib) ?pane"
  note ok = session_reached_ok [OF reached]
  have empty: "bs_prev_output s = []" using ok idle by (simp add: session_ok_def)
  have ms: "?ms = [block_at (length a + 1) j,
      block_at (length a + length j + length (keys @ LF @ out) + 30) j']"
    by (rule matches_ended [OF clean(1,3,4,2)])
  have n: "length (matches_ps1_metadata (sl_loads lib) (idle_screen a j)) = 1"
    using matches_idle [OF clean(1,3)] by simp
  have raw: "combine_outputs_between_matches ?pane ?ms False = (keys @ LF @ out @ LF) @ LF"
    unfolding ms combined_ended by simp
  have "from_ps1_match (sl_loads lib) (last ?ms) = Inr md"
    unfolding ms by (metis last_ConsL last_ConsR list.distinct(1) from_block md)
  moreover have "length ?ms \<noteq> 1" "?ms \<noteq> []" unfolding ms by simp_all
  ultimately have handled: "\<exists>w'. handle_completed_command lib tm keys ?pane ?ms (rq_hidden rq) s v =
      (Inr (cmd_output (py_strip out) keys
              (md\<lparr>md_suffix := completed_suffix (md_exit_code md) keys\<rparr>) (rq_hidden rq)),
       s\<lparr>bs_cwd := (case md_working_dir md of Some d \<Rightarrow> if d = [] then bs_cwd s else d | None \<Rightarrow> bs_cwd s),
         bs_prev_status := Some COMPLETED, bs_prev_output := []\<rparr>, w')" for v
    using empty raw ended_output [OF esc(2,3), of out]
    by (auto simp: handle_completed_command_def get_command_output_def Let_def split: option.split)
  have "1 < length ?ms \<or> at_prompt ?pane" unfolding ms by simp
  let ?t = "fst (tm_time tm (snd (get_pane_content tm w)))"
  obtain v where v: "poll lib tm rq keys 1 ?t s (?t, idle_screen a j) w3 =
      Some (handle_completed_command lib tm keys ?pane ?ms (rq_hidden rq) s v)"
    using poll_finds_prompt [OF assms(12) after \<open>1 < length ?ms \<or> at_prompt ?pane\<close>] by blast
  show ?thesis
    unfolding execute_typed [OF ok idle cmd split esc(1)] before n sent [symmetric] v
    using handled [of v] by auto
qed

lemma combined_running:
  "combine_outputs_between_matches (running_screen a j out) [block_at (length a + 1) j] False = out"
proof -
  have "running_screen a j out = (a @ LF @ prompt_block j @ LF) @ out" by (simp add: running_screen_def)
  moreover have "length (a @ LF @ prompt_block j @ LF) = pm_end (block_at (length a + 1) j) + 1"
    by (simp add: block_at_def LF_def)
  ultimately show ?thesis by (simp add: combine_outputs_between_matches_def)
qed

section \<open>A terminal for the witnesses\<close>

text \<open>The screens are shown one after the other, the last one for good; the clock advances while
  the session sleeps.\<close>

definition demo_tmux :: "string list \<Rightarrow> (nat \<times> rat) tmux" where
  "demo_tmux screens =
     \<lparr>tm_open = (\<lambda>_ _ _ w. w), tm_kill = (\<lambda>w. w),
      tm_capture = (\<lambda>(k, t). (split_on newline (screens ! min k (length screens - 1)), (Suc k, t))),
      tm_send_keys = (\<lambda>_ _ w. w), tm_clear_history = (\<lambda>w. w), tm_sleep = (\<lambda>d (k, t). (k, t + d)),
      tm_time = (\<lambda>(k, t). (t, (k, t))), tm_should_continue = (\<lambda>w. (True, w))\<rparr>"

text \<open>A library in which every command is one word and a prompt holds the exit code 0.\<close>

definition demo_lib :: shell_lib where
  "demo_lib =
     \<lparr>sl_loads = (\<lambda>s. Some (JDict [(''exit_code'', JStr ''0''), (''working_dir'', JStr ''/w'')])),
      sl_parse = (\<lambda>s. Inr [Bash_Node ''word'' (0, length s) None []]), sl_str = (\<lambda>_. ''1''),
      sl_abspath = (\<lambda>s. s)\<rparr>"

definition demo_request :: shell_request where
  "demo_request = \<lparr>rq_command = ''ls'', rq_is_input = False, rq_blocking = False, rq_hidden = False,
     rq_timeout = Some 1\<rparr>"

definition demo_session :: "string list \<Rightarrow> bash_session" where
  "demo_session screens =
     fst (initialize demo_lib (demo_tmux screens) True None (new_session ''/w'' None 30) (0, 0))"

lemma demo_session_facts:
  "session_reached demo_lib (demo_tmux screens) (demo_session screens)"
  "demo_session screens = (new_session ''/w'' None 30)\<lparr>bs_closed := Some False, bs_cwd := ''/w'', bs_initialized := True\<rparr>"
  unfolding demo_session_def
  by (rule started) (simp add: initialize_def demo_lib_def new_session_def Let_def)

definition demo_screens :: "string list" where
  "demo_screens = [idle_screen [] ''{}'', ended_screen [] ''{}'' (''ls'' @ LF @ ''f'') ''{}'']"

definition demo_prompt :: cmd_metadata where
  "demo_prompt = empty_metadata\<lparr>md_exit_code := 0, md_working_dir := Some ''/w''\<rparr>"

lemma demo_panes:
  "fst (get_pane_content (demo_tmux demo_screens) (0, t)) = idle_screen [] ''{}''"
  "fst (get_pane_content (demo_tmux demo_screens) (Suc 0, t)) =
     ended_screen [] ''{}'' (''ls'' @ LF @ ''f'') ''{}''"
  "snd (get_pane_content (demo_tmux demo_screens) (k, t)) = (Suc k, t)"
  by (simp_all add: get_pane_content_def demo_tmux_def demo_screens_def) code_simp+

lemma demo_conditions:
  "py_strip (rq_command demo_request) = ''ls''" "\<not> rq_is_input demo_request"
  "split_bash_commands (sl_parse demo_lib) ''ls'' = Inr [''ls'']"
  "escape_bash_special_chars (sl_parse demo_lib) ''ls'' = Inr ''ls''" "\<not> is_space (hd ''ls'')"
  "\<not> occurs_in PS1_BEGIN_MARK []" "\<not> occurs_in PS1_BEGIN_MARK (''ls'' @ LF @ ''f'')"
  "readable (sl_loads demo_lib) ''{}''"
  "from_ps1_match (sl_loads demo_lib) (block_at 0 ''{}'') = Inr demo_prompt"
  by code_simp+

lemma finished_command_answered_witness:
  "\<exists>w'. execute demo_lib (demo_tmux demo_screens) demo_request (demo_session demo_screens) (0, 0) =
    Some (Inr (cmd_output ''f'' ''ls''
                 (demo_prompt\<lparr>md_suffix := completed_suffix 0 ''ls''\<rparr>) False),
          (demo_session demo_screens)\<lparr>bs_prev_status := Some COMPLETED\<rparr>, w')"
proof -
  have idle: "\<not> timed_out (demo_session demo_screens)"
    by (simp add: demo_session_facts(2) timed_out_def new_session_def)
  have sent: "(Suc 0, 0) = tm_send_keys (demo_tmux demo_screens) ''ls''
      (\<not> is_special_key (py_strip (rq_command demo_request)))
      (snd (tm_time (demo_tmux demo_screens) (snd (get_pane_content (demo_tmux demo_screens) (0, 0)))))"
    unfolding demo_panes(3) by (simp add: demo_tmux_def)
  have go: "tm_should_continue (demo_tmux demo_screens) w = (True, w)" for w
    by (simp add: demo_tmux_def)
  show ?thesis
    using finished_command_answered [OF demo_session_facts(1) idle _ demo_conditions(2) _ _ _ _
      demo_conditions(5) demo_panes(1) sent _ _ demo_conditions(6,7,8,8,9)]
      demo_panes(2) demo_conditions(1,3,4)
    by (simp add: go demo_session_facts(2) new_session_def demo_prompt_def demo_request_def py_strip_def
        is_space_def)
qed

section \<open>Commands that keep running\<close>

text \<open>
  C40. A new command is never typed over one that is still running: after a timeout, as long as the
  terminal does not end with a prompt, a command that is not marked as input is answered at once,
  without a key being sent, with the text that it was not executed, and the session still counts
  the old command as running.
\<close>

theorem running_command_not_typed_over:
  assumes "session_reached lib tm s" and "timed_out s"
    and "\<not> at_prompt (fst (get_pane_content tm w))"
    and "py_strip (rq_command rq) \<noteq> []" "\<not> rq_is_input rq"
    and "split_bash_commands (sl_parse lib) (py_strip (rq_command rq)) = Inr cmds" "length cmds \<le> 1"
  shows "\<exists>ob s'. timed_out s' \<and>
    md_suffix (o_metadata ob) = not_executed_suffix (py_strip (rq_command rq)) \<and>
    (\<forall>keys. execute lib (tm\<lparr>tm_send_keys := keys\<rparr>) rq s w =
       Some (Inr ob, s', snd (tm_time tm (snd (get_pane_content tm w)))))"
proof -
  note ok = session_reached_ok [OF assms(1)]
  let ?pane = "fst (get_pane_content tm w)" and ?command = "py_strip (rq_command rq)"
  obtain ob s' where r: "report_running ?command ?pane (matches_ps1_metadata (sl_loads lib) ?pane)
      (not_executed_suffix ?command) (rq_hidden rq) s = (ob, s')" by fastforce
  then have "timed_out s'" using assms(2) by (auto dest: report_running_session simp: timed_out_def)
  moreover from r have "md_suffix (o_metadata ob) = not_executed_suffix ?command"
    by (auto simp: report_running_def get_command_output_def cmd_output_def split: prod.splits if_splits)
  moreover have "get_pane_content (tm\<lparr>tm_send_keys := keys\<rparr>) w = get_pane_content tm w" for keys
    by (simp add: get_pane_content_def)
  moreover have "still_running s" using assms(2) by (auto simp: timed_out_def still_running_def)
  ultimately show ?thesis using ok assms r
    by (intro exI [of _ ob] exI [of _ s'])
      (auto simp: execute_def session_ok_def Let_def split: prod.split)
qed

definition demo_out :: string where
  "demo_out = ''ls'' @ LF @ ''f''"

definition demo_busy :: "string list" where
  "demo_busy = [idle_screen [] ''{}'', running_screen [] ''{}'' demo_out]"

text \<open>A session that does not wait at all for new output.\<close>

definition demo_impatient :: bash_session where
  "demo_impatient =
     fst (initialize demo_lib (demo_tmux demo_busy) True None (new_session ''/w'' None 0) (0, 0))"

definition demo_late :: bash_session where
  "demo_late = demo_impatient\<lparr>bs_prev_status := Some NO_CHANGE_TIMEOUT,
     bs_prev_output := demo_out\<rparr>"

lemma demo_impatient_eq:
  "demo_impatient = (new_session ''/w'' None 0)\<lparr>bs_closed := Some False, bs_cwd := ''/w'', bs_initialized := True\<rparr>"
  by (simp add: demo_impatient_def initialize_def demo_lib_def new_session_def Let_def)

lemma demo_busy_panes:
  "get_pane_content (demo_tmux demo_busy) (0, t) = (idle_screen [] ''{}'', (Suc 0, t))"
  "get_pane_content (demo_tmux demo_busy) (Suc 0, t) =
     (running_screen [] ''{}'' demo_out, (Suc (Suc 0), t))"
  by (simp_all add: get_pane_content_def demo_tmux_def demo_busy_def) code_simp+

lemma demo_busy_facts:
  "matches_ps1_metadata (sl_loads demo_lib) (idle_screen [] ''{}'') = [block_at 1 ''{}'']"
  "matches_ps1_metadata (sl_loads demo_lib) (running_screen [] ''{}'' demo_out) = [block_at 1 ''{}'']"
  "\<not> at_prompt (running_screen [] ''{}'' demo_out)"
  "running_screen [] ''{}'' demo_out \<noteq> idle_screen [] ''{}''"
proof -
  have out: "\<not> occurs_in PS1_BEGIN_MARK demo_out" by code_simp
  show "matches_ps1_metadata (sl_loads demo_lib) (idle_screen [] ''{}'') = [block_at 1 ''{}'']"
    "matches_ps1_metadata (sl_loads demo_lib) (running_screen [] ''{}'' demo_out) = [block_at 1 ''{}'']"
    using matches_idle [OF demo_conditions(6,8)] matches_running [OF demo_conditions(6,8) out] by simp_all
  show "\<not> at_prompt (running_screen [] ''{}'' demo_out)"
    "running_screen [] ''{}'' demo_out \<noteq> idle_screen [] ''{}''" by code_simp+
qed

lemma demo_times_out:
  "\<exists>r w. execute demo_lib (demo_tmux demo_busy) demo_request demo_impatient (0, 0) = Some (r, demo_late, w)"
proof -
  have combined: "combine_outputs_between_matches (running_screen [] ''{}'' out) [block_at 1 ''{}''] False = out"
    for out using combined_running [of "[]"] by simp
  have ok: "session_ok demo_impatient" "\<not> timed_out demo_impatient"
    by (simp_all add: demo_impatient_eq session_ok_def timed_out_def new_session_def)
  have clock: "tm_time (demo_tmux demo_busy) (k, t) = (t, (k, t))"
    "tm_should_continue (demo_tmux demo_busy) w = (True, w)"
    "tm_send_keys (demo_tmux demo_busy) keys b w = w" for k t w keys b
    by (simp_all add: demo_tmux_def)
  have "\<exists>r w. poll_once demo_lib (demo_tmux demo_busy) demo_request ''ls'' 1 0 demo_impatient (0, idle_screen [] ''{}'') (Suc 0, 0) =
      Inl (r, demo_late, w)"
    using combined
    by (simp add: poll_once_def clock demo_busy_panes demo_busy_facts handle_nochange_timeout_command_def
        report_running_def get_command_output_def demo_request_def demo_impatient_eq demo_late_def
        new_session_def Let_def)
  then have "\<exists>r w. poll demo_lib (demo_tmux demo_busy) demo_request ''ls'' 1 0 demo_impatient
      (0, idle_screen [] ''{}'') (Suc 0, 0) = Some (r, demo_late, w)"
    by (subst poll.simps) auto
  then show ?thesis
    using execute_typed [OF ok _ demo_conditions(2), where lib = demo_lib and cmds = "[''ls'']"
        and keys = "''ls''" and tm = "demo_tmux demo_busy" and w = "(0, 0)"] demo_conditions(1,3,4)
    by (simp add: demo_busy_panes demo_busy_facts clock)
qed

lemma demo_late_reached: "session_reached demo_lib (demo_tmux demo_busy) demo_late"
  using demo_times_out executed started unfolding demo_impatient_def by metis

lemma running_command_not_typed_over_witness:
  "\<exists>ob s'. timed_out s' \<and> md_suffix (o_metadata ob) = not_executed_suffix ''ls'' \<and>
    (\<forall>keys. execute demo_lib ((demo_tmux demo_busy)\<lparr>tm_send_keys := keys\<rparr>) demo_request demo_late (1, 1) =
       Some (Inr ob, s', (2, 1)))"
proof -
  have "timed_out demo_late" by (simp add: demo_late_def timed_out_def)
  moreover have "get_pane_content (demo_tmux demo_busy) (1, 1) = (running_screen [] ''{}'' demo_out, (2, 1))"
    using demo_busy_panes(2) [of 1] by (simp add: numeral_2_eq_2)
  moreover have "snd (tm_time (demo_tmux demo_busy) (2, 1)) = (2, 1)" by (simp add: demo_tmux_def)
  ultimately show ?thesis
    using running_command_not_typed_over [OF demo_late_reached, of "(1, 1)" demo_request] demo_conditions(1-3)
      demo_busy_facts(3) by simp
qed

lemma execute_returns_if:
  assumes "\<And>command n start seen w. \<exists>r. poll lib tm rq command n start s seen w = Some r"
  shows "\<exists>r. execute lib tm rq s w = Some r"
  using assms
  by (simp add: execute_def type_and_wait_def Let_def split: sum.split prod.split)

text \<open>
  Executing a command returns if the clock advances while the session sleeps, provided that the
  action has a time limit, or that it is not blocking and the terminal at some time stops changing.
  (A blocking action without a limit is waited for until its prompt appears: \<open>poll_blocks\<close>.)
\<close>

theorem bounded_execution_returns:
  assumes "steady tm T"
    and "(\<exists>t. rq_timeout rq = Some t \<and> 0 < t) \<or>
      \<not> rq_blocking rq \<and> (\<exists>b ls. \<forall>w. b \<le> T w \<longrightarrow> fst (tm_capture tm w) = ls)"
  shows "\<exists>r. execute lib tm rq s w = Some r"
proof (rule execute_returns_if)
  fix command n start seen w
  show "\<exists>r. poll lib tm rq command n start s seen w = Some r"
    using assms(2) poll_hard_limit [OF assms(1)] poll_quiet [OF assms(1)] by metis
qed

lemma demo_steady: "steady (demo_tmux screens) snd"
  by (simp add: steady_def demo_tmux_def split: prod.split)

lemma bounded_execution_returns_witness:
  "\<exists>r. execute demo_lib (demo_tmux [''$'']) demo_request (demo_session [''$'']) (0, 0) = Some r"
  by (rule bounded_execution_returns [OF demo_steady]) (simp add: demo_request_def)

section \<open>Output in pieces\<close>

text \<open>
  What the session answers while a command runs: the command is answered by the timeout of one of
  the two kinds, then it is asked for more (an empty command) any number of times, and in the end
  the prompt is back. \<open>outs\<close> is what the command has written at each of these times.
\<close>

fun watch ::
  "shell_lib \<Rightarrow> string \<Rightarrow> string \<Rightarrow> string \<Rightarrow> (rat option \<times> string) list \<Rightarrow> bash_session \<Rightarrow>
   observation list \<times> bash_session" where
  "watch lib a j command [] s = ([], s)"
| "watch lib a j command ((limit, out) # outs) s =
     (let pane = running_screen a j out; ms = matches_ps1_metadata (sl_loads lib) pane;
          (ob, s') = (case limit of
             None \<Rightarrow> handle_nochange_timeout_command command pane ms s
           | Some t \<Rightarrow> handle_hard_timeout_command lib command pane ms t s);
          (obs, s'') = watch lib a j [] outs s'
      in (ob # obs, s''))"

lemma lstrip_drop: "\<exists>k. py_lstrip s = drop k s"
  by (metis dropWhile_eq_drop py_lstrip_def)

lemma length_rstrip: "length (py_rstrip s) \<le> length s"
  by (metis length_rev length_dropWhile_le py_rstrip_def)

lemma length_lstrip: "length (py_lstrip s) \<le> length s"
  by (simp add: py_lstrip_def length_dropWhile_le)

lemma length_remove_prefix: "length (remove_prefix s p) \<le> length s"
  by (simp add: remove_prefix_def after_prefix_def)

lemma length_remove_command: "length (py_rstrip (remove_command_prefix out command)) \<le> length out"
  unfolding remove_command_prefix_def
  by (meson length_rstrip length_lstrip length_remove_prefix order_trans)

lemma remove_known_prefix: "prefix p s \<Longrightarrow> remove_prefix s p = drop (length p) s"
  by (simp add: remove_prefix_def after_prefix_def)

lemma remove_no_command: "letters (remove_command_prefix out []) = letters out"
  by (simp add: remove_command_prefix_def remove_prefix_def after_prefix_def py_lstrip_def)

lemma piece:
  assumes "prefix (bs_prev_output s) raw" and "length raw \<le> MAX_CMD_OUTPUT_SIZE"
    and "get_command_output command raw md pre s = (out, md', s')"
  shows "letters out = letters (remove_command_prefix (drop (length (bs_prev_output s)) raw) command)"
    "length out \<le> MAX_CMD_OUTPUT_SIZE" "bs_prev_output s' = raw"
proof -
  let ?new = "drop (length (bs_prev_output s)) raw"
  have out: "out = py_rstrip (remove_command_prefix ?new command)" "bs_prev_output s' = raw"
    using assms(1,3) by (auto simp: get_command_output_def remove_known_prefix split: if_splits)
  then show "letters out = letters (remove_command_prefix ?new command)" "bs_prev_output s' = raw"
    by simp_all
  have "length out \<le> length ?new" unfolding out by (rule length_remove_command)
  with assms(2) show "length out \<le> MAX_CMD_OUTPUT_SIZE" by simp
qed

lemma short_content: "length c \<le> MAX_CMD_OUTPUT_SIZE \<Longrightarrow> o_content (cmd_output c k m h) = c"
  by (simp add: cmd_output_def maybe_truncate_def)

lemma watch_answer:
  assumes "\<not> occurs_in PS1_BEGIN_MARK a" "readable (sl_loads lib) j" "\<not> occurs_in PS1_BEGIN_MARK out"
    and "prefix (bs_prev_output s) out" "length out \<le> MAX_CMD_OUTPUT_SIZE"
    and "(case limit of
        None \<Rightarrow> handle_nochange_timeout_command command (running_screen a j out)
          (matches_ps1_metadata (sl_loads lib) (running_screen a j out)) s
      | Some t \<Rightarrow> handle_hard_timeout_command lib command (running_screen a j out)
          (matches_ps1_metadata (sl_loads lib) (running_screen a j out)) t s) = (ob, s')"
  shows "letters (o_content ob) =
      letters (remove_command_prefix (drop (length (bs_prev_output s)) out) command)"
    "bs_prev_output s' = out"
proof -
  obtain sfx st where r: "report_running command (running_screen a j out) [block_at (length a + 1) j] sfx
      False (s\<lparr>bs_prev_status := st\<rparr>) = (ob, s')"
    using assms(6) matches_running [OF assms(1-3)]
    by (cases limit) (auto simp: handle_nochange_timeout_command_def handle_hard_timeout_command_def)
  then obtain c md md' where g: "get_command_output command out md BELOW_IS_PREVIOUS (s\<lparr>bs_prev_status := st\<rparr>) = (c, md', s')"
    and ob: "ob = cmd_output c command md' False"
    by (auto simp: report_running_def combined_running [simplified] split: prod.splits)
  note p = piece [OF _ assms(5) g]
  show "letters (o_content ob) =
      letters (remove_command_prefix (drop (length (bs_prev_output s)) out) command)" "bs_prev_output s' = out"
    using p assms(4) by (simp_all add: ob short_content)
qed

lemma watch_rest:
  assumes "\<not> occurs_in PS1_BEGIN_MARK a" "readable (sl_loads lib) j"
    and "\<forall>out \<in> set (map snd outs). \<not> occurs_in PS1_BEGIN_MARK out"
    and "sorted_wrt prefix (bs_prev_output s # map snd outs @ [final])"
    and "length final \<le> MAX_CMD_OUTPUT_SIZE"
    and "watch lib a j [] outs s = (obs, s')"
  shows "letters (concat (map o_content obs)) =
      letters (drop (length (bs_prev_output s)) (bs_prev_output s')) \<and>
    prefix (bs_prev_output s) (bs_prev_output s') \<and> prefix (bs_prev_output s') final"
  using assms(3,4,6)
proof (induction outs arbitrary: s obs)
  case Nil
  then show ?case by simp
next
  case (Cons p outs)
  obtain limit out where p: "p = (limit, out)" by (cases p)
  obtain ob s1 where first: "(case limit of
      None \<Rightarrow> handle_nochange_timeout_command [] (running_screen a j out)
        (matches_ps1_metadata (sl_loads lib) (running_screen a j out)) s
    | Some t \<Rightarrow> handle_hard_timeout_command lib [] (running_screen a j out)
        (matches_ps1_metadata (sl_loads lib) (running_screen a j out)) t s) = (ob, s1)" by fastforce
  obtain obs1 where rest: "watch lib a j [] outs s1 = (obs1, s')" and obs: "obs = ob # obs1"
    using Cons.prems(3) first by (auto simp: p Let_def split: prod.splits)
  have out: "\<not> occurs_in PS1_BEGIN_MARK out" "prefix (bs_prev_output s) out" "length out \<le> MAX_CMD_OUTPUT_SIZE"
    using Cons.prems(1,2) assms(5) by (auto simp: p dest: prefix_length_le)
  note 1 = watch_answer [OF assms(1,2) out first]
  have 2: "letters (concat (map o_content obs1)) = letters (drop (length out) (bs_prev_output s'))"
    "prefix out (bs_prev_output s')" "prefix (bs_prev_output s') final"
    using Cons.IH [OF _ _ rest] Cons.prems(1,2) by (auto simp: 1(2) p)
  obtain u v where "out = bs_prev_output s @ u" "bs_prev_output s' = out @ v"
    using out(2) 2(2) by (auto elim!: prefixE)
  with 1 2 show ?case unfolding obs by (simp add: remove_no_command)
qed

lemma ended_answer:
  assumes clean: "\<not> occurs_in PS1_BEGIN_MARK a" "readable (sl_loads lib) j" "readable (sl_loads lib) j'"
      "\<not> occurs_in PS1_BEGIN_MARK final"
    and before: "prefix (bs_prev_output s) final" and short: "length final + 2 \<le> MAX_CMD_OUTPUT_SIZE"
    and md: "from_ps1_match (sl_loads lib) (block_at 0 j') = Inr md"
    and ended: "handle_completed_command lib tm [] (ended_screen a j final j')
        (matches_ps1_metadata (sl_loads lib) (ended_screen a j final j')) hidden s w = (Inr ob, s', w')"
  shows "letters (o_content ob) = letters (drop (length (bs_prev_output s)) final)"
proof -
  let ?raw = "(final @ LF) @ LF"
  obtain c md' md'' s1 s2 where g: "get_command_output [] ?raw md' [] s1 = (c, md'', s2)"
    and s1: "bs_prev_output s1 = bs_prev_output s" and ob: "ob = cmd_output c [] md'' hidden"
    using ended md from_block [of "sl_loads lib" _ j']
    unfolding matches_ended [OF clean(1-4)]
    by (auto simp: handle_completed_command_def combined_ended [simplified] Let_def split: prod.splits option.splits if_splits)
  have "prefix (bs_prev_output s1) ?raw" "length ?raw \<le> MAX_CMD_OUTPUT_SIZE"
    using before short by (auto simp: s1 LF_def)
  note p = piece [OF this g]
  have "letters LF = []" by (simp add: letters_def LF_def is_space_def)
  moreover have "length (bs_prev_output s) \<le> length final" using before by (rule prefix_length_le)
  ultimately show ?thesis
    using p by (simp add: ob short_content s1 remove_no_command)
qed

text \<open>
  Output that is reported in pieces is neither lost nor repeated: the answers given while a
  command runs, and the answer when its prompt is back, together hold exactly what the command has
  written, up to white space and without the echo of the command.
\<close>

theorem outputs_reported_once:
  assumes clean: "\<not> occurs_in PS1_BEGIN_MARK a" "readable (sl_loads lib) j" "readable (sl_loads lib) j'"
      "\<forall>out \<in> set (map snd outs @ [final]). \<not> occurs_in PS1_BEGIN_MARK out"
    and grows: "sorted_wrt prefix (map snd outs @ [final])" and some: "outs \<noteq> []"
    and short: "length final + 2 \<le> MAX_CMD_OUTPUT_SIZE"
    and md: "from_ps1_match (sl_loads lib) (block_at 0 j') = Inr md"
    and start: "bs_prev_output s = []"
    and watched: "watch lib a j command outs s = (obs, s')"
    and ended: "handle_completed_command lib tm [] (ended_screen a j final j')
        (matches_ps1_metadata (sl_loads lib) (ended_screen a j final j')) hidden s' w = (Inr ob, s'', w')"
  shows "letters (concat (map o_content (obs @ [ob]))) =
    letters (remove_command_prefix (snd (hd outs)) command) @ letters (drop (length (snd (hd outs))) final)"
proof -
  obtain limit out1 rest where outs: "outs = (limit, out1) # rest" using some by (cases outs) auto
  obtain ob1 s1 where first: "(case limit of
      None \<Rightarrow> handle_nochange_timeout_command command (running_screen a j out1)
        (matches_ps1_metadata (sl_loads lib) (running_screen a j out1)) s
    | Some t \<Rightarrow> handle_hard_timeout_command lib command (running_screen a j out1)
        (matches_ps1_metadata (sl_loads lib) (running_screen a j out1)) t s) = (ob1, s1)" by fastforce
  obtain obs1 where rest: "watch lib a j [] rest s1 = (obs1, s')" and obs: "obs = ob1 # obs1"
    using watched first by (auto simp: outs Let_def split: prod.splits)
  have out1: "\<not> occurs_in PS1_BEGIN_MARK out1" "prefix out1 final" "length out1 \<le> MAX_CMD_OUTPUT_SIZE"
    using clean(4) grows short by (auto simp: outs sorted_wrt_append dest: prefix_length_le)
  have 1: "letters (o_content ob1) = letters (remove_command_prefix out1 command)" "bs_prev_output s1 = out1"
    using watch_answer [OF clean(1,2) out1(1) _ out1(3) first] start by simp_all
  have 2: "letters (concat (map o_content obs1)) = letters (drop (length out1) (bs_prev_output s'))"
    "prefix out1 (bs_prev_output s')" "prefix (bs_prev_output s') final"
    using watch_rest [OF clean(1,2) _ _ _ rest, of final] clean(4) grows short by (simp_all add: outs 1(2))
  have 3: "letters (o_content ob) = letters (drop (length (bs_prev_output s')) final)"
    by (rule ended_answer [OF clean(1-3) _ 2(3) short md ended]) (use clean(4) in simp)
  from 2(2,3) obtain u v where "bs_prev_output s' = out1 @ u" "final = (out1 @ u) @ v" by (auto elim!: prefixE)
  then show ?thesis unfolding obs using 1 2(1) 3 by (simp add: outs)
qed

lemma completed_returns:
  "ms \<noteq> [] \<Longrightarrow> from_ps1_match (sl_loads lib) (last ms) = Inr md \<Longrightarrow>
   \<exists>ob s' w'. handle_completed_command lib tm command pane ms hidden s w = (Inr ob, s', w')"
  by (simp add: handle_completed_command_def Let_def split: prod.split)

definition demo_outs :: "(rat option \<times> string) list" where
  "demo_outs = [(None, ''ls'' @ LF @ ''f''), (Some 1, ''ls'' @ LF @ ''f'' @ LF @ ''g'')]"

definition demo_final :: string where
  "demo_final = ''ls'' @ LF @ ''f'' @ LF @ ''g'' @ LF @ ''h''"

lemma outputs_reported_once_witness:
  "\<exists>obs s' ob s'' w. watch demo_lib [] ''{}'' ''ls'' demo_outs (demo_session []) = (obs, s') \<and>
    handle_completed_command demo_lib (demo_tmux []) [] (ended_screen [] ''{}'' demo_final ''{}'')
      (matches_ps1_metadata (sl_loads demo_lib) (ended_screen [] ''{}'' demo_final ''{}'')) False s' (0, 0) =
      (Inr ob, s'', w) \<and>
    letters (concat (map o_content (obs @ [ob]))) = ''fgh''"
proof -
  obtain obs s' where w: "watch demo_lib [] ''{}'' ''ls'' demo_outs (demo_session []) = (obs, s')" by fastforce
  have marks: "\<forall>out \<in> set (map snd demo_outs @ [demo_final]). \<not> occurs_in PS1_BEGIN_MARK out" by code_simp
  have grows: "sorted_wrt prefix (map snd demo_outs @ [demo_final])" by code_simp
  have final: "\<not> occurs_in PS1_BEGIN_MARK demo_final" using marks by simp
  let ?pane = "ended_screen [] ''{}'' demo_final ''{}''"
  let ?ms = "matches_ps1_metadata (sl_loads demo_lib) ?pane"
  have "?ms \<noteq> []" "from_ps1_match (sl_loads demo_lib) (last ?ms) = Inr demo_prompt"
    unfolding matches_ended [OF demo_conditions(6,8,8) final]
    using from_block [of _ "length [] + length ''{}'' + length demo_final + 30"] demo_conditions(9) by simp_all
  from completed_returns [OF this, of "demo_tmux []" "[]" ?pane False s' "(0, 0)"]
  obtain ob s'' v where
    e: "handle_completed_command demo_lib (demo_tmux []) [] ?pane ?ms False s' (0, 0) = (Inr ob, s'', v)"
    by blast
  have "length demo_final + 2 \<le> MAX_CMD_OUTPUT_SIZE"
    by (simp add: demo_final_def LF_def MAX_CMD_OUTPUT_SIZE_def)
  moreover have "bs_prev_output (demo_session []) = []" by (simp add: demo_session_facts(2) new_session_def)
  moreover have "letters (remove_command_prefix (snd (hd demo_outs)) ''ls'') @
      letters (drop (length (snd (hd demo_outs))) demo_final) = ''fgh''" by code_simp
  ultimately show ?thesis
    using outputs_reported_once [OF demo_conditions(6,8,8) marks grows _ _ demo_conditions(9) _ w e] w e
    by (auto simp: demo_outs_def)
qed

section \<open>What goes wrong\<close>

text \<open>
  A prompt that is still the old one is taken for the end of the new command: if the terminal
  shows the same prompt when it is first looked at after the keys were sent, because the shell has
  not echoed them yet, the command is reported as completed with the exit code of the command
  before, although it has only begun.
\<close>

theorem unechoed_command_reported_completed:
  fixes tm :: "'w tmux" and w :: 'w
  assumes reached: "session_reached lib tm s" and idle: "\<not> timed_out s"
    and cmd: "py_strip (rq_command rq) \<noteq> []" "\<not> rq_is_input rq"
    and split: "split_bash_commands (sl_parse lib) (py_strip (rq_command rq)) = Inr cmds" "length cmds \<le> 1"
    and esc: "escape_bash_special_chars (sl_parse lib) (py_strip (rq_command rq)) = Inr keys"
    and before: "fst (get_pane_content tm w) = idle_screen a j"
    and sent: "w3 = tm_send_keys tm keys (\<not> is_special_key (py_strip (rq_command rq)))
                      (snd (tm_time tm (snd (get_pane_content tm w))))"
    and go: "fst (tm_should_continue tm w3)"
    and after: "fst (get_pane_content tm (snd (tm_should_continue tm w3))) = idle_screen a j"
    and clean: "\<not> occurs_in PS1_BEGIN_MARK a" "readable (sl_loads lib) j"
    and md: "from_ps1_match (sl_loads lib) (block_at 0 j) = Inr md"
  shows "\<exists>ob s' w'. execute lib tm rq s w = Some (Inr ob, s', w') \<and>
    md_exit_code (o_metadata ob) = md_exit_code md \<and>
    md_suffix (o_metadata ob) = completed_suffix (md_exit_code md) keys \<and>
    bs_prev_status s' = Some COMPLETED"
proof -
  note ok = session_reached_ok [OF reached]
  let ?pane = "idle_screen a j"
  have ms: "matches_ps1_metadata (sl_loads lib) ?pane = [block_at (length a + 1) j]"
    by (rule matches_idle [OF clean])
  have "py_rstrip ?pane = ?pane"
    by (simp add: idle_screen_def prompt_block_def CMD_OUTPUT_PS1_END_def PS1_END_MARK_def py_rstrip_def is_space_def)
  then have "at_prompt ?pane"
    by (auto simp: at_prompt_def idle_screen_def prompt_block_def suffix_def)
  then have found: "length (matches_ps1_metadata (sl_loads lib) ?pane) < length (matches_ps1_metadata (sl_loads lib) ?pane)
      \<or> at_prompt ?pane" by blast
  let ?t = "fst (tm_time tm (snd (get_pane_content tm w)))"
  obtain v where v: "execute lib tm rq s w = Some (handle_completed_command lib tm keys ?pane
      (matches_ps1_metadata (sl_loads lib) ?pane) (rq_hidden rq) s v)"
    using poll_finds_prompt [OF go after found] unfolding execute_typed [OF ok idle cmd split esc] before sent
    by blast
  show ?thesis
    unfolding v ms using md from_block [of "sl_loads lib" "length a + 1" j]
    by (auto simp: handle_completed_command_def get_command_output_def cmd_output_def Let_def
        split: option.split prod.split)
qed

lemma unechoed_command_reported_completed_witness:
  "\<exists>ob s' w'. execute demo_lib (demo_tmux [idle_screen [] ''{}'']) demo_request
      (demo_session [idle_screen [] ''{}'']) (0, 0) = Some (Inr ob, s', w') \<and>
    md_exit_code (o_metadata ob) = 0 \<and>
    md_suffix (o_metadata ob) = completed_suffix 0 ''ls'' \<and> bs_prev_status s' = Some COMPLETED"
proof -
  let ?tm = "demo_tmux [idle_screen [] ''{}'']"
  have idle: "\<not> timed_out (demo_session [idle_screen [] ''{}''])"
    by (simp add: demo_session_facts(2) timed_out_def new_session_def)
  have panes: "get_pane_content ?tm (k, t) = (idle_screen [] ''{}'', (Suc k, t))" for k t
    by (simp add: get_pane_content_def demo_tmux_def) code_simp
  have world: "tm_should_continue ?tm w = (True, w)" "tm_send_keys ?tm keys b w = w"
    "tm_time ?tm (k, t) = (t, (k, t))" for w keys b k t
    by (simp_all add: demo_tmux_def)
  show ?thesis
    using unechoed_command_reported_completed [OF demo_session_facts(1) idle _ demo_conditions(2) _ _ _ _ refl
        _ _ demo_conditions(6,8,9), where w = "(0, 0)" and cmds = "[''ls'']" and keys = "''ls''"]
      demo_conditions(1,3,4)
    by (simp add: panes world demo_prompt_def)
qed

text \<open>
  Nothing of a command is lost when it is split: for a parser whose commands lie one after the
  other the parts are, up to white space, the command; a command that splits into several is
  refused without a key being sent and without a change of the session.
\<close>

theorem split_command_refused:
  assumes "session_reached lib tm s"
    and "\<not> timed_out s \<longrightarrow> \<not> rq_is_input rq"
    and "\<And>ns. sl_parse lib (py_strip (rq_command rq)) = Inr ns \<Longrightarrow>
      in_sequence (length (py_strip (rq_command rq))) 0 ns"
    and "split_bash_commands (sl_parse lib) (py_strip (rq_command rq)) = Inr cmds" and "1 < length cmds"
  shows "letters (concat cmds) = letters (rq_command rq) \<and>
    execute lib tm rq s w = Some (Inr (ErrorObservation (multiple_commands cmds) []), s, w)"
proof
  show "letters (concat cmds) = letters (rq_command rq)"
    using split_keeps_letters [OF assms(3,4)] by simp
  have "py_strip [] = []" by (simp add: py_strip_def)
  then have "py_strip (rq_command rq) \<noteq> []" using assms(4,5) by (auto simp: split_bash_commands_def)
  then show "execute lib tm rq s w = Some (Inr (ErrorObservation (multiple_commands cmds) []), s, w)"
    using session_reached_ok [OF assms(1)] assms(2,4,5)
    by (auto simp: execute_def session_ok_def Let_def still_running_def timed_out_def)
qed

end
