(* ===== verification/Mcp_Config.thy ===== *)
theory Mcp_Config
  imports Serialization Text_Patterns
begin

text \<open>
  The configuration of MCP servers (\<open>core/config/mcp_config.py\<close>): the validators of the three kinds
  of servers, the reading of arguments and environment variables from text, and the section of a
  configuration file. \<open>shlex.split\<close> and the part of \<open>urlparse\<close> that is used are modelled; the texts
  of errors are shortened to their first line.
\<close>

section \<open>URLs\<close>

definition is_ascii_letter :: "char \<Rightarrow> bool" where
  "is_ascii_letter c \<longleftrightarrow>
     (let n = of_char c :: nat in (65 \<le> n \<and> n \<le> 90) \<or> (97 \<le> n \<and> n \<le> 122))"

definition is_ascii_digit :: "char \<Rightarrow> bool" where
  "is_ascii_digit c \<longleftrightarrow> (let n = of_char c :: nat in 48 \<le> n \<and> n \<le> 57)"

definition scheme_char :: "char \<Rightarrow> bool" where
  "scheme_char c \<longleftrightarrow> is_ascii_letter c \<or> is_ascii_digit c \<or> c \<in> set ''+-.''"

text \<open>Scheme and network location of a URL; the brackets of an address have to match.\<close>

definition url_scheme :: "string \<Rightarrow> string \<times> string" where
  "url_scheme url =
     (case split_first '':'' url of
        Some (a, b) \<Rightarrow>
          if a \<noteq> [] \<and> is_ascii_letter (hd a) \<and> list_all scheme_char a then (py_lower a, b) else ([], url)
      | None \<Rightarrow> ([], url))"

definition urlparse :: "string \<Rightarrow> (string \<times> string) result" where
  "urlparse text =
     (let url = filter (\<lambda>c. c \<notin> {CHR 0x09, CHR 0x0A, CHR 0x0D})
                  (dropWhile (\<lambda>c. (of_char c :: nat) \<le> 32) text);
          (scheme, rest) = url_scheme url
      in case after_prefix ''//'' rest of
           None \<Rightarrow> Inr (scheme, [])
         | Some r \<Rightarrow>
             (let netloc = takeWhile (\<lambda>c. c \<notin> set ''/?#'') r
              in if (CHR ''['' \<in> set netloc) \<noteq> (CHR '']'' \<in> set netloc)
                 then Inl (ValueError ''Invalid IPv6 URL'') else Inr (scheme, netloc)))"

definition URL_SCHEMES :: "string list" where
  "URL_SCHEMES = [''http'', ''https'', ''ws'', ''wss'']"

definition validate_mcp_url :: "string \<Rightarrow> string result" where
  "validate_mcp_url text =
     (let url = py_strip text in
      if url = [] then Inl (ValueError ''URL cannot be empty'')
      else bindE (urlparse url) (\<lambda>(scheme, netloc).
        if scheme = [] then Inl (ValueError ''URL must include a scheme (http:// or https://)'')
        else if netloc = [] then Inl (ValueError ''URL must include a valid domain/host'')
        else if scheme \<notin> set URL_SCHEMES
        then Inl (ValueError ''URL scheme must be http, https, ws, or wss'')
        else Inr url))"

section \<open>Shell-like splitting\<close>

text \<open>
  \<open>shlex.split\<close> as a machine that reads one character at a time: between words, in a word, inside
  quotes, or behind a backslash in one of the last two.
\<close>

datatype shlex_state = Between | In_Word | In_Quotes char | Escaped shlex_state

definition shlex_space :: "char \<Rightarrow> bool" where
  "shlex_space c \<longleftrightarrow> c \<in> {CHR '' '', CHR 0x09, CHR 0x0D, CHR 0x0A}"

definition shlex_quote_char :: "char \<Rightarrow> bool" where
  "shlex_quote_char c \<longleftrightarrow> c = CHR 0x22 \<or> c = CHR 0x27"

definition word_step :: "char \<Rightarrow> string \<Rightarrow> shlex_state \<times> string" where
  "word_step c token =
     (if shlex_quote_char c then (In_Quotes c, token)
      else if c = CHR 0x5C then (Escaped In_Word, token)
      else (In_Word, token @ [c]))"

fun shlex_loop :: "shlex_state \<Rightarrow> string \<Rightarrow> bool \<Rightarrow> string \<Rightarrow> string list result" where
  "shlex_loop (In_Quotes q) token quoted [] = Inl (ValueError ''No closing quotation'')"
| "shlex_loop (Escaped st) token quoted [] = Inl (ValueError ''No escaped character'')"
| "shlex_loop Between token quoted [] = Inr []"
| "shlex_loop In_Word token quoted [] = Inr (if token \<noteq> [] \<or> quoted then [token] else [])"
| "shlex_loop Between token quoted (c # s) =
     (if shlex_space c then shlex_loop Between [] False s
      else (let (st, t) = word_step c [] in shlex_loop st t False s))"
| "shlex_loop In_Word token quoted (c # s) =
     (if shlex_space c
      then if token \<noteq> [] \<or> quoted then bindE (shlex_loop Between [] False s) (\<lambda>ts. Inr (token # ts))
           else shlex_loop Between [] False s
      else (let (st, t) = word_step c token in shlex_loop st t quoted s))"
| "shlex_loop (In_Quotes q) token quoted (c # s) =
     (if c = q then shlex_loop In_Word token True s
      else if c = CHR 0x5C \<and> q = CHR 0x22 then shlex_loop (Escaped (In_Quotes q)) token True s
      else shlex_loop (In_Quotes q) (token @ [c]) True s)"
| "shlex_loop (Escaped st) token quoted (c # s) =
     shlex_loop st
       (token @ (case st of In_Quotes q \<Rightarrow> if c \<noteq> CHR 0x5C \<and> c \<noteq> q then [CHR 0x5C] else [] | _ \<Rightarrow> []) @ [c])
       quoted s"

definition shlex_split :: "string \<Rightarrow> string list result" where
  "shlex_split s = shlex_loop Between [] False s"

section \<open>The servers\<close>

record sse_server =
  sse_url :: string
  sse_api_key :: "string option"

record stdio_server =
  io_name :: string
  io_command :: string
  io_args :: "string list"
  io_env :: "(string, string) dict"

record shttp_server =
  sh_url :: string
  sh_api_key :: "string option"
  sh_timeout :: "int option"

record mcp_config =
  mc_sse_servers :: "sse_server list"
  mc_stdio_servers :: "stdio_server list"
  mc_shttp_servers :: "shttp_server list"

definition name_char :: "char \<Rightarrow> bool" where
  "name_char c \<longleftrightarrow> is_ascii_letter c \<or> is_ascii_digit c \<or> c = CHR ''_''"

definition validate_server_name :: "string \<Rightarrow> string result" where
  "validate_server_name text =
     (let v = py_strip text in
      if v = [] then Inl (ValueError ''Server name cannot be empty'')
      else if \<not> list_all (\<lambda>c. name_char c \<or> c = CHR ''-'') v
      then Inl (ValueError ''Server name can only contain letters, numbers, hyphens, and underscores'')
      else Inr v)"

definition validate_command :: "string \<Rightarrow> string result" where
  "validate_command text =
     (let v = py_strip text in
      if v = [] then Inl (ValueError ''Command cannot be empty'')
      else if CHR '' '' \<in> set v
      then Inl (ValueError ''Command should be a single executable without spaces (use arguments field for parameters)'')
      else Inr v)"

definition parse_args_text :: "string \<Rightarrow> string list result" where
  "parse_args_text text =
     (if py_strip text = [] then Inr []
      else case shlex_split (py_strip text) of
        Inl (ValueError e) \<Rightarrow> Inl (ValueError (''Invalid argument format: '' @ e))
      | r \<Rightarrow> r)"

definition env_name :: "string \<Rightarrow> bool" where
  "env_name s \<longleftrightarrow> s \<noteq> [] \<and> (is_ascii_letter (hd s) \<or> hd s = CHR ''_'') \<and> list_all name_char s"

fun parse_env_pairs :: "string list \<Rightarrow> (string, string) dict \<Rightarrow> (string, string) dict result" where
  "parse_env_pairs [] env = Inr env"
| "parse_env_pairs (p # ps) env =
     (let pair = py_strip p in
      if pair = [] then parse_env_pairs ps env
      else case split_first ''='' pair of
        None \<Rightarrow> Inl (ValueError (''Environment variable '' @ pair @ '' must be in KEY=VALUE format''))
      | Some (k, v) \<Rightarrow>
          (let key = py_strip k in
           if key = [] then Inl (ValueError ''Environment variable key cannot be empty'')
           else if \<not> env_name key then Inl (ValueError (''Invalid environment variable name '' @ key))
           else parse_env_pairs ps (AList.update key v env)))"

definition parse_env_text :: "string \<Rightarrow> (string, string) dict result" where
  "parse_env_text text =
     (if py_strip text = [] then Inr [] else parse_env_pairs (split_on CHR '','' text) [])"

section \<open>Reading a configuration\<close>

text \<open>
  pydantic collects failing validators in a \<open>ValidationError\<close>, which is a \<open>ValueError\<close>. A validator
  that runs before the type check is applied to whatever value is given, and calls \<open>strip\<close> on it.
\<close>

abbreviation validation_error :: "string \<Rightarrow> 'a result" where
  "validation_error text \<equiv> Inl (ValueError text)"

definition required :: "json_dict \<Rightarrow> string \<Rightarrow> json result" where
  "required d k = (case map_of d k of None \<Rightarrow> validation_error (''Field required: '' @ k) | Some v \<Rightarrow> Inr v)"

fun as_string :: "json \<Rightarrow> string result" where
  "as_string (JStr s) = Inr s"
| "as_string _ = validation_error ''Input should be a valid string''"

fun stripped_string :: "json \<Rightarrow> string result" where
  "stripped_string (JStr s) = Inr s"
| "stripped_string _ = Inl (AttributeError ''strip'')"

fun map_result :: "('a \<Rightarrow> 'b result) \<Rightarrow> 'a list \<Rightarrow> 'b list result" where
  "map_result f [] = Inr []"
| "map_result f (x # xs) = bindE (f x) (\<lambda>y. bindE (map_result f xs) (\<lambda>ys. Inr (y # ys)))"

definition optional_string :: "json_dict \<Rightarrow> string \<Rightarrow> string option result" where
  "optional_string d k =
     (case map_of d k of None \<Rightarrow> Inr None | Some JNull \<Rightarrow> Inr None
      | Some v \<Rightarrow> bindE (as_string v) (\<lambda>s. Inr (Some s)))"

text \<open>\<open>v or []\<close> and \<open>v or {}\<close>: false values become empty.\<close>

definition falsy :: "json \<Rightarrow> bool" where
  "falsy v \<longleftrightarrow> v \<in> {JNull, JBool False, JInt 0, JFloat 0, JStr [], JList [], JDict []}"

fun strings_of :: "json \<Rightarrow> string list result" where
  "strings_of (JList xs) = map_result as_string xs"
| "strings_of _ = validation_error ''Input should be a valid list''"

fun string_dict_of :: "json \<Rightarrow> (string, string) dict result" where
  "string_dict_of (JDict d) = map_result (\<lambda>(k, v). bindE (as_string v) (\<lambda>s. Inr (k, s))) d"
| "string_dict_of _ = validation_error ''Input should be a valid dictionary''"

definition parse_args :: "json \<Rightarrow> string list result" where
  "parse_args v =
     (case v of JStr s \<Rightarrow> parse_args_text s | _ \<Rightarrow> if falsy v then Inr [] else strings_of v)"

definition parse_env :: "json \<Rightarrow> (string, string) dict result" where
  "parse_env v =
     (case v of JStr s \<Rightarrow> parse_env_text s | _ \<Rightarrow> if falsy v then Inr [] else string_dict_of v)"

text \<open>A default is not validated.\<close>

definition with_default :: "json_dict \<Rightarrow> string \<Rightarrow> 'a \<Rightarrow> (json \<Rightarrow> 'a result) \<Rightarrow> 'a result" where
  "with_default d k x f = (case map_of d k of None \<Rightarrow> Inr x | Some v \<Rightarrow> f v)"

definition make_sse :: "json_dict \<Rightarrow> sse_server result" where
  "make_sse d =
     bindE (bindE (bindE (required d ''url'') as_string) validate_mcp_url) (\<lambda>u.
     bindE (optional_string d ''api_key'') (\<lambda>k. Inr \<lparr>sse_url = u, sse_api_key = k\<rparr>))"

definition make_stdio :: "json_dict \<Rightarrow> stdio_server result" where
  "make_stdio d =
     bindE (bindE (bindE (required d ''name'') stripped_string) validate_server_name) (\<lambda>n.
     bindE (bindE (bindE (required d ''command'') stripped_string) validate_command) (\<lambda>c.
     bindE (with_default d ''args'' [] parse_args) (\<lambda>a.
     bindE (with_default d ''env'' [] parse_env) (\<lambda>e.
     Inr \<lparr>io_name = n, io_command = c, io_args = a, io_env = e\<rparr>))))"

definition MAX_MCP_TIMEOUT :: int where
  "MAX_MCP_TIMEOUT = 3600"

text \<open>The values pydantic takes for an integer.\<close>

definition digits_to_int :: "string \<Rightarrow> int" where
  "digits_to_int ds = foldl (\<lambda>n c. 10 * n + (int (of_char c) - 48)) 0 ds"

definition int_text :: "string \<Rightarrow> int option" where
  "int_text text =
     (let s = py_strip text; neg = (s \<noteq> [] \<and> hd s = CHR ''-'');
          ds = (if s \<noteq> [] \<and> hd s \<in> set ''+-'' then tl s else s)
      in if ds \<noteq> [] \<and> list_all is_ascii_digit ds
         then Some (if neg then - digits_to_int ds else digits_to_int ds) else None)"

fun lax_int :: "json \<Rightarrow> int option" where
  "lax_int (JInt t) = Some t"
| "lax_int (JBool b) = Some (if b then 1 else 0)"
| "lax_int (JFloat q) = (if q = of_int \<lfloor>q\<rfloor> then Some \<lfloor>q\<rfloor> else None)"
| "lax_int (JStr s) = int_text s"
| "lax_int _ = None"

definition validate_timeout :: "json \<Rightarrow> int option result" where
  "validate_timeout v =
     (if v = JNull then Inr None
      else case lax_int v of
        None \<Rightarrow> validation_error ''Input should be a valid integer''
      | Some t \<Rightarrow>
          if t \<le> 0 then Inl (ValueError ''Timeout must be positive'')
          else if MAX_MCP_TIMEOUT < t then Inl (ValueError ''Timeout cannot exceed 3600 seconds'')
          else Inr (Some t))"

definition make_shttp :: "json_dict \<Rightarrow> shttp_server result" where
  "make_shttp d =
     bindE (bindE (bindE (required d ''url'') stripped_string) validate_mcp_url) (\<lambda>u.
     bindE (optional_string d ''api_key'') (\<lambda>k.
     bindE (with_default d ''timeout'' (Some 60) validate_timeout) (\<lambda>t.
     Inr \<lparr>sh_url = u, sh_api_key = k, sh_timeout = t\<rparr>)))"

text \<open>A server given by its URL alone.\<close>

fun normalize_server :: "json \<Rightarrow> json" where
  "normalize_server (JStr url) = JDict [(''url'', JStr url)]"
| "normalize_server v = v"

fun server_list :: "(json \<Rightarrow> json) \<Rightarrow> (json_dict \<Rightarrow> 'a result) \<Rightarrow> json \<Rightarrow> 'a list result" where
  "server_list prep mk (JList xs) =
     map_result (\<lambda>v. case prep v of JDict d \<Rightarrow> mk d
                     | _ \<Rightarrow> validation_error ''Input should be a valid dictionary'') xs"
| "server_list prep mk _ = validation_error ''Input should be a valid list''"

text \<open>\<open>MCPConfig.model_validate\<close>; other keys are forbidden.\<close>

definition make_mcp_config :: "json_dict \<Rightarrow> mcp_config result" where
  "make_mcp_config d =
     (if \<not> fst ` set d \<subseteq> {''sse_servers'', ''stdio_servers'', ''shttp_servers''}
      then validation_error ''Extra inputs are not permitted''
      else
       bindE (with_default d ''sse_servers'' [] (server_list normalize_server make_sse)) (\<lambda>a.
       bindE (with_default d ''stdio_servers'' [] (server_list id make_stdio)) (\<lambda>b.
       bindE (with_default d ''shttp_servers'' [] (server_list normalize_server make_shttp)) (\<lambda>c.
       Inr \<lparr>mc_sse_servers = a, mc_stdio_servers = b, mc_shttp_servers = c\<rparr>))))"

definition validate_servers :: "mcp_config \<Rightarrow> unit result" where
  "validate_servers c =
     (let urls = map sse_url (mc_sse_servers c) in
      if \<not> distinct urls then Inl (ValueError ''Duplicate MCP server URLs are not allowed'')
      else bindE (map_result (\<lambda>url. case urlparse url of
                    Inr (scheme, netloc) \<Rightarrow>
                      if scheme = [] \<or> netloc = [] then Inl (ValueError (''Invalid URL '' @ url)) else Inr ()
                  | Inl x \<Rightarrow> Inl (ValueError (''Invalid URL '' @ url))) urls) (\<lambda>_. Inr ()))"

definition from_toml_section :: "json_dict \<Rightarrow> mcp_config result" where
  "from_toml_section d = bindE (make_mcp_config d) (\<lambda>c. bindE (validate_servers c) (\<lambda>_. Inr c))"

definition merge_mcp :: "mcp_config \<Rightarrow> mcp_config \<Rightarrow> mcp_config" where
  "merge_mcp a b =
     \<lparr>mc_sse_servers = mc_sse_servers a @ mc_sse_servers b,
      mc_stdio_servers = mc_stdio_servers a @ mc_stdio_servers b,
      mc_shttp_servers = mc_shttp_servers a @ mc_shttp_servers b\<rparr>"

definition add_search_engine :: "string option \<Rightarrow> stdio_server option" where
  "add_search_engine key =
     (case key of
        Some k \<Rightarrow>
          if prefix ''tvly-'' k
          then Some \<lparr>io_name = ''tavily'', io_command = ''npx'', io_args = [''-y'', ''tavily-mcp@0.2.1''],
                     io_env = [(''TAVILY_API_KEY'', k)]\<rparr>
          else None
      | None \<Rightarrow> None)"

definition create_default_mcp_server_config ::
  "string \<Rightarrow> string option \<Rightarrow> (shttp_server \<times> stdio_server list) result" where
  "create_default_mcp_server_config host key =
     bindE (make_shttp [(''url'', JStr (''http://'' @ host @ ''/mcp/mcp'')), (''api_key'', JNull)]) (\<lambda>s.
       Inr (s, case add_search_engine key of Some e \<Rightarrow> [e] | None \<Rightarrow> []))"

section \<open>What a configuration guarantees\<close>

definition stdio_ok :: "stdio_server \<Rightarrow> bool" where
  "stdio_ok s \<longleftrightarrow> io_name s \<noteq> [] \<and> list_all (\<lambda>c. name_char c \<or> c = CHR ''-'') (io_name s) \<and>
     io_command s \<noteq> [] \<and> CHR '' '' \<notin> set (io_command s)"

definition url_ok :: "string \<Rightarrow> bool" where
  "url_ok url \<longleftrightarrow> (\<exists>scheme netloc. urlparse url = Inr (scheme, netloc) \<and> scheme \<in> set URL_SCHEMES \<and> netloc \<noteq> [])"

definition timeout_ok :: "int option \<Rightarrow> bool" where
  "timeout_ok t \<longleftrightarrow> (case t of None \<Rightarrow> True | Some n \<Rightarrow> 0 < n \<and> n \<le> MAX_MCP_TIMEOUT)"

definition mcp_ok :: "mcp_config \<Rightarrow> bool" where
  "mcp_ok c \<longleftrightarrow> list_all (\<lambda>s. url_ok (sse_url s)) (mc_sse_servers c) \<and>
     list_all stdio_ok (mc_stdio_servers c) \<and>
     list_all (\<lambda>s. url_ok (sh_url s) \<and> timeout_ok (sh_timeout s)) (mc_shttp_servers c)"

lemma map_result_all:
  "map_result f xs = Inr ys \<Longrightarrow> (\<And>x y. f x = Inr y \<Longrightarrow> P y) \<Longrightarrow> list_all P ys"
  by (induction xs arbitrary: ys) (auto simp: bindE_Inr_iff)

lemma server_list_all:
  assumes "server_list prep mk v = Inr ys" and "\<And>d y. mk d = Inr y \<Longrightarrow> P y"
  shows "list_all P ys"
proof (cases v)
  case (JList xs)
  with assms(1) have "map_result (\<lambda>v. case prep v of JDict d \<Rightarrow> mk d
      | _ \<Rightarrow> validation_error ''Input should be a valid dictionary'') xs = Inr ys" by simp
  then show ?thesis by (rule map_result_all) (auto split: json.splits intro: assms(2))
qed (use assms(1) in simp_all)

lemma validate_mcp_url_ok: "validate_mcp_url text = Inr url \<Longrightarrow> url_ok url"
  by (auto simp: validate_mcp_url_def url_ok_def Let_def bindE_Inr_iff split: if_splits)

lemma make_sse_ok: "make_sse d = Inr s \<Longrightarrow> url_ok (sse_url s)"
  by (auto simp: make_sse_def bindE_Inr_iff dest: validate_mcp_url_ok)

lemma make_stdio_ok: "make_stdio d = Inr s \<Longrightarrow> stdio_ok s"
  by (auto simp: make_stdio_def bindE_Inr_iff stdio_ok_def validate_server_name_def validate_command_def
      Let_def split: if_splits)

lemma make_shttp_ok: "make_shttp d = Inr s \<Longrightarrow> url_ok (sh_url s) \<and> timeout_ok (sh_timeout s)"
  by (auto simp: make_shttp_def bindE_Inr_iff with_default_def timeout_ok_def MAX_MCP_TIMEOUT_def
      validate_timeout_def dest: validate_mcp_url_ok split: option.splits if_splits)

lemma make_mcp_config_ok:
  assumes "make_mcp_config d = Inr c"
  shows "mcp_ok c"
proof -
  from assms obtain as1 bs1 cs1 where
    a: "with_default d ''sse_servers'' [] (server_list normalize_server make_sse) = Inr as1" and
    b: "with_default d ''stdio_servers'' [] (server_list id make_stdio) = Inr bs1" and
    c: "with_default d ''shttp_servers'' [] (server_list normalize_server make_shttp) = Inr cs1" and
    eq: "c = \<lparr>mc_sse_servers = as1, mc_stdio_servers = bs1, mc_shttp_servers = cs1\<rparr>"
    by (auto simp: make_mcp_config_def bindE_Inr_iff split: if_splits)
  have "list_all (\<lambda>s. url_ok (sse_url s)) as1"
    using a server_list_all [OF _ make_sse_ok] by (auto simp: with_default_def split: option.splits)
  moreover have "list_all stdio_ok bs1"
    using b server_list_all [OF _ make_stdio_ok] by (auto simp: with_default_def split: option.splits)
  moreover have "list_all (\<lambda>s. url_ok (sh_url s) \<and> timeout_ok (sh_timeout s)) cs1"
    using c server_list_all [OF _ make_shttp_ok] by (auto simp: with_default_def split: option.splits)
  ultimately show ?thesis by (simp add: mcp_ok_def eq)
qed

lemma mcp_ok_merge: "mcp_ok a \<Longrightarrow> mcp_ok b \<Longrightarrow> mcp_ok (merge_mcp a b)"
  by (simp add: mcp_ok_def merge_mcp_def)

end
