(* ===== verification/Microagents.thy ===== *)
theory Microagents
  imports Recall Mcp_Config
begin

text \<open>
  The loading of microagents from files (\<open>microagent/microagent.py\<close>, \<open>microagent/types.py\<close>) and into
  the memory (\<open>memory/memory.py\<close>). A path is the list of its parts. The file system and the parser
  of front matter are arguments. pydantic's messages are shortened.
\<close>

section \<open>Metadata\<close>

datatype microagent_type = KNOWLEDGE | REPO_KNOWLEDGE | TASK

fun microagent_type_value :: "microagent_type \<Rightarrow> string" where
  "microagent_type_value KNOWLEDGE = ''knowledge''"
| "microagent_type_value REPO_KNOWLEDGE = ''repo''"
| "microagent_type_value TASK = ''task''"

record input_metadata =
  in_name :: string
  in_description :: string

record microagent_metadata =
  mm_name :: string
  mm_type :: microagent_type
  mm_version :: string
  mm_agent :: string
  mm_triggers :: "string list"
  mm_inputs :: "input_metadata list"
  mm_mcp_tools :: "mcp_config option"

definition default_metadata :: "string \<Rightarrow> microagent_metadata" where
  "default_metadata name =
     \<lparr>mm_name = name, mm_type = REPO_KNOWLEDGE, mm_version = ''1.0.0'', mm_agent = ''CodeActAgent'',
      mm_triggers = [], mm_inputs = [], mm_mcp_tools = None\<rparr>"

fun make_input :: "json \<Rightarrow> input_metadata result" where
  "make_input (JDict d) =
     bindE (bindE (required d ''name'') as_string) (\<lambda>n.
     bindE (bindE (required d ''description'') as_string) (\<lambda>x. Inr \<lparr>in_name = n, in_description = x\<rparr>))"
| "make_input _ = validation_error ''Input should be a valid dictionary''"

fun make_inputs :: "json \<Rightarrow> input_metadata list result" where
  "make_inputs (JList xs) = map_result make_input xs"
| "make_inputs _ = validation_error ''Input should be a valid list''"

definition make_type :: "json \<Rightarrow> microagent_type result" where
  "make_type v =
     (case denum microagent_type_value [KNOWLEDGE, REPO_KNOWLEDGE, TASK] v of
        Some t \<Rightarrow> Inr t | None \<Rightarrow> validation_error ''Input should be knowledge, repo or task'')"

fun make_mcp_tools :: "json \<Rightarrow> mcp_config option result" where
  "make_mcp_tools JNull = Inr None"
| "make_mcp_tools (JDict d) = bindE (make_mcp_config d) (\<lambda>c. Inr (Some c))"
| "make_mcp_tools _ = validation_error ''Input should be a valid dictionary''"

text \<open>\<open>MicroagentMetadata(**d)\<close>; other keys are ignored.\<close>

definition make_microagent_metadata :: "json_dict \<Rightarrow> microagent_metadata result" where
  "make_microagent_metadata d =
     bindE (with_default d ''name'' ''default'' as_string) (\<lambda>n.
     bindE (with_default d ''type'' REPO_KNOWLEDGE make_type) (\<lambda>t.
     bindE (with_default d ''version'' ''1.0.0'' as_string) (\<lambda>v.
     bindE (with_default d ''agent'' ''CodeActAgent'' as_string) (\<lambda>a.
     bindE (with_default d ''triggers'' [] strings_of) (\<lambda>tr.
     bindE (with_default d ''inputs'' [] make_inputs) (\<lambda>i.
     bindE (with_default d ''mcp_tools'' None make_mcp_tools) (\<lambda>m.
     Inr \<lparr>mm_name = n, mm_type = t, mm_version = v, mm_agent = a, mm_triggers = tr, mm_inputs = i,
          mm_mcp_tools = m\<rparr>)))))))"

section \<open>Paths\<close>

type_synonym path = "string list"

definition file_name :: "path \<Rightarrow> string" where
  "file_name p = (if p = [] then [] else last p)"

definition path_text :: "path \<Rightarrow> string" where
  "path_text p = py_join ''/'' p"

text \<open>\<open>with_suffix('')\<close>: the name up to its last dot, unless the dot is the first or last character.\<close>

definition without_suffix :: "string \<Rightarrow> string" where
  "without_suffix name =
     (let ext = takeWhile (\<lambda>c. c \<noteq> CHR ''.'') (rev name); i = length name - length ext - 1
      in if CHR ''.'' \<in> set name \<and> 0 < i \<and> ext \<noteq> [] then take i name else name)"

definition relative_to :: "path \<Rightarrow> path \<Rightarrow> path result" where
  "relative_to p dir =
     (if prefix dir p then Inr (drop (length dir) p)
      else Inl (ValueError (path_text p @ '' is not in the subpath of '' @ path_text dir)))"

definition PATH_TO_THIRD_PARTY_MICROAGENT_NAME :: "(string \<times> string) list" where
  "PATH_TO_THIRD_PARTY_MICROAGENT_NAME =
     [(''.cursorrules'', ''cursorrules''), (''agents.md'', ''agents''), (''agent.md'', ''agents'')]"

definition third_party_name :: "path \<Rightarrow> string option" where
  "third_party_name p = map_of PATH_TO_THIRD_PARTY_MICROAGENT_NAME (py_lower (file_name p))"

text \<open>The derived name of a file in a directory of microagents; an empty relative path has no
  suffix to replace.\<close>

definition derived_name :: "path \<Rightarrow> path \<Rightarrow> string result" where
  "derived_name p dir =
     (case third_party_name p of
        Some n \<Rightarrow> Inr n
      | None \<Rightarrow> bindE (relative_to p dir) (\<lambda>r.
          if r = [] then Inl (ValueError ''empty name'')
          else Inr (path_text (butlast r @ [without_suffix (last r)]))))"

section \<open>Microagents\<close>

record loaded_microagent =
  lm_name :: string
  lm_content :: string
  lm_metadata :: microagent_metadata
  lm_source :: string
  lm_type :: microagent_type

definition repo_agent :: "string \<Rightarrow> string \<Rightarrow> path \<Rightarrow> loaded_microagent" where
  "repo_agent name content p =
     \<lparr>lm_name = name, lm_content = content, lm_metadata = default_metadata name,
      lm_source = path_text p, lm_type = REPO_KNOWLEDGE\<rparr>"

text \<open>\<open>re.findall(r'\$\{([a-zA-Z_][a-zA-Z0-9_]*)\}', content)\<close>.\<close>

function extract_variables :: "string \<Rightarrow> string list" where
  "extract_variables [] = []"
| "extract_variables (c # s) =
     (case after_prefix ''${'' (c # s) of
        None \<Rightarrow> extract_variables s
      | Some t \<Rightarrow>
          (let v = takeWhile name_char t; r = drop (length v) t
           in if env_name v \<and> r \<noteq> [] \<and> hd r = CHR ''}'' then v # extract_variables (tl r)
              else extract_variables s))"
  by pat_completeness auto
termination
  by (relation "measure length")
    (auto simp: after_prefix_def split: if_splits intro: le_imp_less_Suc diff_le_self)

definition MISSING_VARIABLES_PROMPT :: string where
  "MISSING_VARIABLES_PROMPT = LF @ LF @
     ''If the user didn't provide any of these variables, ask the user to provide them first before the agent can proceed with the task.''"

text \<open>The constructor of a task microagent appends the request for missing variables.\<close>

definition make_task_agent :: "loaded_microagent \<Rightarrow> loaded_microagent" where
  "make_task_agent m =
     (if extract_variables (lm_content m) = [] \<and> mm_inputs (lm_metadata m) = [] then m
      else m\<lparr>lm_content := lm_content m @ MISSING_VARIABLES_PROMPT\<rparr>)"

text \<open>The type that follows from inputs and triggers, with the trigger a task gets.\<close>

definition task_trigger :: "microagent_metadata \<Rightarrow> string" where
  "task_trigger md = ''/'' @ mm_name md"

definition infer_type :: "microagent_metadata \<Rightarrow> microagent_type \<times> microagent_metadata" where
  "infer_type md =
     (if mm_inputs md \<noteq> []
      then (TASK, if task_trigger md \<in> set (mm_triggers md) then md
                  else md\<lparr>mm_triggers := mm_triggers md @ [task_trigger md]\<rparr>)
      else if mm_triggers md \<noteq> [] then (KNOWLEDGE, md)
      else (REPO_KNOWLEDGE, md))"

text \<open>What loading uses: reading files, the parser of front matter, \<open>str\<close> of a value.\<close>

record microagent_lib =
  ml_read :: "path \<Rightarrow> string result"
  ml_front_matter :: "string \<Rightarrow> (json_dict \<times> string) result"
  ml_str :: "json \<Rightarrow> string"
  ml_exists :: "path \<Rightarrow> bool"
  ml_rglob :: "path \<Rightarrow> path list"

definition version_as_string :: "microagent_lib \<Rightarrow> json_dict \<Rightarrow> json_dict" where
  "version_as_string lib d =
     (case map_of d ''version'' of
        Some (JStr _) \<Rightarrow> d | None \<Rightarrow> d
      | Some v \<Rightarrow> AList.update ''version'' (JStr (ml_str lib v)) d)"

definition microagent_error :: "string \<Rightarrow> exn" where
  "microagent_error text = OtherException ''MicroagentValidationError'' text"

definition validated_metadata :: "microagent_lib \<Rightarrow> path \<Rightarrow> json_dict \<Rightarrow> microagent_metadata result" where
  "validated_metadata lib p d =
     (case bindE (make_microagent_metadata d) (\<lambda>md.
             case mm_mcp_tools md of
               Some c \<Rightarrow>
                 if mc_stdio_servers c = []
                 then Inl (microagent_error (''Microagent '' @ mm_name md @
                        '' has MCP tools configuration but no stdio servers. Only stdio servers are currently supported.''))
                 else Inr md
             | None \<Rightarrow> Inr md) of
        Inr md \<Rightarrow> Inr md
      | Inl x \<Rightarrow> Inl (microagent_error (''Error validating microagent metadata in '' @ file_name p @
          (case map_of d ''type'' of
             Some v \<Rightarrow>
               if denum microagent_type_value [KNOWLEDGE, REPO_KNOWLEDGE, TASK] v = None
               then ''. Invalid type value: '' @ ml_str lib v @ ''. Valid types are: knowledge, repo, task'' else []
           | None \<Rightarrow> []))))"

definition base_microagent_load ::
  "microagent_lib \<Rightarrow> path \<Rightarrow> path option \<Rightarrow> string option \<Rightarrow> loaded_microagent result" where
  "base_microagent_load lib p dir file_content =
     bindE (case dir of None \<Rightarrow> Inr None | Some d \<Rightarrow> bindE (derived_name p d) (\<lambda>n. Inr (Some n))) (\<lambda>derived.
     bindE (case file_content of None \<Rightarrow> ml_read lib p | Some t \<Rightarrow> Inr t) (\<lambda>text.
     if file_name p = ''.openhands_instructions'' then Inr (repo_agent ''repo_legacy'' text p)
     else case third_party_name p of
       Some n \<Rightarrow> Inr (repo_agent n text p)
     | None \<Rightarrow>
       bindE (ml_front_matter lib text) (\<lambda>(d, content).
       bindE (validated_metadata lib p (version_as_string lib d)) (\<lambda>md.
       let (type, md') = infer_type md;
           m = \<lparr>lm_name = (case derived of Some n \<Rightarrow> n | None \<Rightarrow> mm_name md'), lm_content = content,
                lm_metadata = md', lm_source = path_text p, lm_type = type\<rparr>
       in Inr (if type = TASK then make_task_agent m else m)))))"

section \<open>A directory of microagents\<close>

type_synonym agent_dict = "(string, loaded_microagent) dict"

definition AGENTS_FILENAMES :: "string list" where
  "AGENTS_FILENAMES = [''AGENTS.md'', ''agents.md'', ''AGENT.md'', ''agent.md'']"

definition special_files :: "microagent_lib \<Rightarrow> path \<Rightarrow> path list" where
  "special_files lib repo_root =
     (if ml_exists lib (repo_root @ [''.cursorrules'']) then [repo_root @ [''.cursorrules'']] else []) @
     (case find (\<lambda>n. ml_exists lib (repo_root @ [n])) AGENTS_FILENAMES of
        Some n \<Rightarrow> [repo_root @ [n]] | None \<Rightarrow> [])"

definition microagent_files :: "microagent_lib \<Rightarrow> path \<Rightarrow> path list" where
  "microagent_files lib dir =
     special_files lib (butlast (butlast dir)) @
     (if ml_exists lib dir then filter (\<lambda>f. file_name f \<noteq> ''README.md'') (ml_rglob lib dir) else [])"

definition add_agent :: "loaded_microagent \<Rightarrow> agent_dict \<times> agent_dict \<Rightarrow> agent_dict \<times> agent_dict" where
  "add_agent m ds =
     (case ds of (repo, knowledge) \<Rightarrow>
        if lm_type m = REPO_KNOWLEDGE then (AList.update (lm_name m) m repo, knowledge)
        else (repo, AList.update (lm_name m) m knowledge))"

definition load_failure :: "path \<Rightarrow> exn \<Rightarrow> exn" where
  "load_failure f x =
     (case x of
        OtherException c e \<Rightarrow>
          if c = ''MicroagentValidationError''
          then microagent_error (''Error loading microagent from '' @ path_text f @ '': '' @ e)
          else ValueError (''Error loading microagent from '' @ path_text f)
      | _ \<Rightarrow> ValueError (''Error loading microagent from '' @ path_text f))"

fun load_files :: "microagent_lib \<Rightarrow> path \<Rightarrow> path list \<Rightarrow> agent_dict \<times> agent_dict \<Rightarrow> (agent_dict \<times> agent_dict) result" where
  "load_files lib dir [] ds = Inr ds"
| "load_files lib dir (f # fs) ds =
     (case base_microagent_load lib f (Some dir) None of
        Inr m \<Rightarrow> load_files lib dir fs (add_agent m ds)
      | Inl x \<Rightarrow> Inl (load_failure f x))"

definition load_microagents_from_dir :: "microagent_lib \<Rightarrow> path \<Rightarrow> (agent_dict \<times> agent_dict) result" where
  "load_microagents_from_dir lib dir = load_files lib dir (microagent_files lib dir) ([], [])"

section \<open>Into the memory\<close>

text \<open>What the memory uses of a microagent.\<close>

definition for_memory :: "loaded_microagent \<Rightarrow> microagent" where
  "for_memory m =
     (if lm_type m = REPO_KNOWLEDGE then Repo_Microagent (lm_name m) (lm_content m)
      else Knowledge_Microagent \<lparr>km_name = lm_name m, km_triggers = mm_triggers (lm_metadata m),
                                 km_content = lm_content m\<rparr>)"

definition take_agents :: "agent_dict \<times> agent_dict \<Rightarrow> memory \<Rightarrow> memory" where
  "take_agents ds mem =
     (case ds of (repo, knowledge) \<Rightarrow>
        load_user_workspace_microagents (map (\<lambda>(n, m). for_memory m) (knowledge @ repo)) mem)"

definition load_global_microagents :: "microagent_lib \<Rightarrow> path \<Rightarrow> memory \<Rightarrow> memory result" where
  "load_global_microagents lib dir mem =
     bindE (load_microagents_from_dir lib dir) (\<lambda>ds. Inr (take_agents ds mem))"

text \<open>An exception is logged and nothing is loaded.\<close>

definition load_user_microagents :: "microagent_lib \<Rightarrow> path \<Rightarrow> memory \<Rightarrow> memory" where
  "load_user_microagents lib dir mem =
     (case load_microagents_from_dir lib dir of Inl _ \<Rightarrow> mem | Inr ds \<Rightarrow> take_agents ds mem)"

definition get_microagent_mcp_tools :: "agent_dict \<Rightarrow> mcp_config list" where
  "get_microagent_mcp_tools repo =
     concat (map (\<lambda>(n, m). case mm_mcp_tools (lm_metadata m) of Some c \<Rightarrow> [c] | None \<Rightarrow> []) repo)"

end
