(* ===== verification/Microagent_Properties.thy ===== *)
theory Microagent_Properties
  imports Microagents
begin

text \<open>
  The properties of loading microagents and of the configuration of MCP servers.
\<close>

section \<open>MCP servers\<close>

lemma validate_servers_distinct:
  "validate_servers c = Inr u \<Longrightarrow> distinct (map sse_url (mc_sse_servers c))"
  by (auto simp: validate_servers_def Let_def split: if_splits)

text \<open>
  Every configuration of MCP servers that is read from the section of a configuration file has
  only servers that can be used: URLs with an http or websocket scheme and a host, the URLs of the
  event servers pairwise different, names of letters, digits, hyphens and underscores, commands
  without blanks, and timeouts between one second and an hour; merging two such configurations
  keeps this but for the different URLs.
\<close>

theorem mcp_section_valid:
  assumes "from_toml_section d = Inr a" and "from_toml_section e = Inr b"
  shows "mcp_ok a \<and> distinct (map sse_url (mc_sse_servers a)) \<and> mcp_ok (merge_mcp a b)"
proof -
  have "mcp_ok a \<and> distinct (map sse_url (mc_sse_servers a))" "mcp_ok b"
    using assms by (auto simp: from_toml_section_def bindE_Inr_iff
        dest: make_mcp_config_ok validate_servers_distinct)
  then show ?thesis using mcp_ok_merge by blast
qed

definition demo_mcp :: json_dict where
  "demo_mcp =
     [(''sse_servers'', JList [JStr ''http://a.b/c'']),
      (''stdio_servers'', JList [JDict [(''name'', JStr ''f''), (''command'', JStr ''npx''),
         (''args'', JStr ''-y x''), (''env'', JStr ''K=v'')]])]"

definition demo_mcp_config :: mcp_config where
  "demo_mcp_config =
     \<lparr>mc_sse_servers = [\<lparr>sse_url = ''http://a.b/c'', sse_api_key = None\<rparr>],
      mc_stdio_servers = [\<lparr>io_name = ''f'', io_command = ''npx'', io_args = [''-y'', ''x''],
                           io_env = [(''K'', ''v'')]\<rparr>],
      mc_shttp_servers = []\<rparr>"

lemma mcp_section_valid_witness:
  "mcp_ok demo_mcp_config \<and> distinct (map sse_url (mc_sse_servers demo_mcp_config)) \<and>
   mcp_ok (merge_mcp demo_mcp_config demo_mcp_config)"
proof -
  have "from_toml_section demo_mcp = Inr demo_mcp_config" by code_simp
  from mcp_section_valid [OF this this] show ?thesis .
qed

section \<open>A loaded microagent\<close>

definition well_typed :: "loaded_microagent \<Rightarrow> bool" where
  "well_typed m \<longleftrightarrow>
     (case lm_type m of
        TASK \<Rightarrow> mm_inputs (lm_metadata m) \<noteq> [] \<and>
          task_trigger (lm_metadata m) \<in> set (mm_triggers (lm_metadata m)) \<and>
          suffix MISSING_VARIABLES_PROMPT (lm_content m)
      | KNOWLEDGE \<Rightarrow> mm_inputs (lm_metadata m) = [] \<and> mm_triggers (lm_metadata m) \<noteq> []
      | REPO_KNOWLEDGE \<Rightarrow> mm_inputs (lm_metadata m) = [] \<and> mm_triggers (lm_metadata m) = []) \<and>
     (\<forall>c. mm_mcp_tools (lm_metadata m) = Some c \<longrightarrow> mcp_ok c \<and> mc_stdio_servers c \<noteq> [])"

lemma make_mcp_tools_ok: "make_mcp_tools v = Inr (Some c) \<Longrightarrow> mcp_ok c"
  by (cases v) (auto simp: bindE_Inr_iff dest: make_mcp_config_ok)

lemma metadata_mcp:
  assumes "make_microagent_metadata d = Inr md" and "mm_mcp_tools md = Some c"
  shows "mcp_ok c"
proof -
  from assms have "with_default d ''mcp_tools'' None make_mcp_tools = Inr (Some c)"
    by (auto simp: make_microagent_metadata_def bindE_Inr_iff)
  then show ?thesis by (auto simp: with_default_def dest: make_mcp_tools_ok split: option.splits)
qed

lemma validated_mcp:
  assumes "validated_metadata lib p d = Inr md" and "mm_mcp_tools md = Some c"
  shows "mcp_ok c \<and> mc_stdio_servers c \<noteq> []"
proof -
  from assms(1) have "bindE (make_microagent_metadata d) (\<lambda>md. case mm_mcp_tools md of
      Some c \<Rightarrow> if mc_stdio_servers c = []
         then Inl (microagent_error (''Microagent '' @ mm_name md @
            '' has MCP tools configuration but no stdio servers. Only stdio servers are currently supported.''))
         else Inr md
    | None \<Rightarrow> Inr md) = Inr md"
    unfolding validated_metadata_def by (auto split: sum.splits)
  with assms(2) show ?thesis
    by (auto simp: bindE_Inr_iff dest: metadata_mcp split: option.splits if_splits)
qed

text \<open>The two ways a file is loaded: as instructions for the repository whatever it holds, or by its
  front matter.\<close>

lemma base_load_cases:
  assumes "base_microagent_load lib p dir file_content = Inr m"
  obtains (instructions) n t where "m = repo_agent n t p"
  | (front_matter) t d content md derived where
    "ml_front_matter lib t = Inr (d, content)"
    "validated_metadata lib p (version_as_string lib d) = Inr md"
    "\<forall>dd. dir = Some dd \<longrightarrow> derived_name p dd = Inr derived"
    "lm_name m = (if dir = None then mm_name (lm_metadata m) else derived)"
    "lm_type m = fst (infer_type md)" "lm_metadata m = snd (infer_type md)"
    "lm_type m \<noteq> TASK \<longrightarrow> lm_content m = content"
    "lm_type m = TASK \<longrightarrow> lm_content m = content @ MISSING_VARIABLES_PROMPT"
proof -
  from assms obtain derived t where
    d: "(case dir of None \<Rightarrow> Inr None | Some d \<Rightarrow> bindE (derived_name p d) (\<lambda>n. Inr (Some n))) = Inr derived"
    and r: "(case file_content of None \<Rightarrow> ml_read lib p | Some u \<Rightarrow> Inr u) = Inr t"
    by (auto simp: base_microagent_load_def bindE_Inr_iff)
  show thesis
  proof (cases "file_name p = ''.openhands_instructions'' \<or> third_party_name p \<noteq> None")
    case True
    then obtain n where "m = repo_agent n t p"
      using assms d r by (auto simp: base_microagent_load_def split: if_splits)
    then show thesis by (rule instructions)
  next
    case False
    with assms d r obtain dct content md where
      1: "ml_front_matter lib t = Inr (dct, content)"
      "validated_metadata lib p (version_as_string lib dct) = Inr md"
      and m: "m = (let (type, md') = infer_type md;
           m = \<lparr>lm_name = (case derived of Some n \<Rightarrow> n | None \<Rightarrow> mm_name md'), lm_content = content,
                lm_metadata = md', lm_source = path_text p, lm_type = type\<rparr>
         in if type = TASK then make_task_agent m else m)"
      by (auto simp: base_microagent_load_def bindE_Inr_iff Let_def case_prod_unfold)
    obtain type md' where i: "infer_type md = (type, md')" by (cases "infer_type md")
    have task: "type = TASK \<Longrightarrow> mm_inputs md' \<noteq> []"
      using i by (auto simp: infer_type_def split: if_splits)
    show thesis
    proof (rule front_matter [OF 1])
      show "\<forall>dd. dir = Some dd \<longrightarrow> derived_name p dd = Inr (the derived)"
        using d by (auto simp: bindE_Inr_iff)
      show "lm_name m = (if dir = None then mm_name (lm_metadata m) else the derived)"
        using d by (auto simp: m i make_task_agent_def bindE_Inr_iff Let_def split: option.splits)
      show "lm_type m = fst (infer_type md)" "lm_metadata m = snd (infer_type md)"
        "lm_type m \<noteq> TASK \<longrightarrow> lm_content m = content"
        by (auto simp: m i make_task_agent_def Let_def)
      show "lm_type m = TASK \<longrightarrow> lm_content m = content @ MISSING_VARIABLES_PROMPT"
        using task by (auto simp: m i make_task_agent_def Let_def)
    qed
  qed
qed

text \<open>
  A microagent that is loaded from a file is of the kind its front matter calls for: a task has
  inputs, can be triggered by its name and asks for missing variables; one that knows something has
  triggers; one that is always active has neither; and the MCP tools it brings are valid and have
  a server that can be started.
\<close>

theorem loaded_microagent_well_typed:
  assumes "base_microagent_load lib p dir file_content = Inr m"
  shows "well_typed m"
  using assms
proof (cases rule: base_load_cases)
  case (instructions n t)
  then show ?thesis by (simp add: well_typed_def repo_agent_def default_metadata_def)
next
  case (front_matter t d content md derived)
  have "mm_mcp_tools (lm_metadata m) = mm_mcp_tools md"
    unfolding front_matter(6) by (simp add: infer_type_def)
  then show ?thesis
    using front_matter(5-8) validated_mcp [OF front_matter(2)]
    by (auto simp: well_typed_def infer_type_def task_trigger_def suffix_def split: if_splits)
qed

definition demo_files :: microagent_lib where
  "demo_files =
     \<lparr>ml_read = (\<lambda>p. if file_name p = ''t.md'' then Inr ''T'' else Inl (FileNotFoundError [])),
      ml_front_matter = (\<lambda>s. Inr ([(''inputs'', JList [JDict [(''name'', JStr ''v''),
         (''description'', JStr ''d'')]])], s)),
      ml_str = (\<lambda>_. []), ml_exists = (\<lambda>p. p = [''r'', ''.openhands'', ''microagents'']),
      ml_rglob = (\<lambda>_. [[''r'', ''.openhands'', ''microagents'', ''t.md'']])\<rparr>"

abbreviation demo_dir :: path where
  "demo_dir \<equiv> [''r'', ''.openhands'', ''microagents'']"

definition demo_task :: loaded_microagent where
  "demo_task =
     \<lparr>lm_name = ''t'', lm_content = ''T'' @ MISSING_VARIABLES_PROMPT,
      lm_metadata = (default_metadata ''default'')\<lparr>mm_triggers := [''/default''],
        mm_inputs := [\<lparr>in_name = ''v'', in_description = ''d''\<rparr>]\<rparr>,
      lm_source = ''r/.openhands/microagents/t.md'', lm_type = TASK\<rparr>"

lemma demo_task_loaded:
  "base_microagent_load demo_files (demo_dir @ [''t.md'']) (Some demo_dir) None = Inr demo_task"
  by code_simp

lemma loaded_microagent_well_typed_witness: "well_typed demo_task"
  by (rule loaded_microagent_well_typed [OF demo_task_loaded])

text \<open>
  A task microagent is meant to be triggered by its own name. It is triggered by the name in its
  front matter, and if that gives none, by the word \<open>/default\<close>: the name that is derived from the
  file, under which it is listed, does not trigger it.
\<close>

theorem unnamed_task_triggered_by_default:
  assumes "base_microagent_load lib p (Some dir) file_content = Inr m" and "lm_type m = TASK"
    and "\<And>text d content. ml_front_matter lib text = Inr (d, content) \<Longrightarrow>
      map_of d ''name'' = None \<and> map_of d ''triggers'' = None"
  shows "derived_name p dir = Inr (lm_name m) \<and> mm_triggers (lm_metadata m) = [''/default''] \<and>
    (\<not> occurs_in ''/default'' (py_lower message) \<longrightarrow>
       (\<forall>k. for_memory m = Knowledge_Microagent k \<longrightarrow> match_trigger k message = None))"
  using assms(1)
proof (cases rule: base_load_cases)
  case (instructions n t)
  with assms(2) show ?thesis by (simp add: repo_agent_def)
next
  case (front_matter t d content md derived)
  let ?d = "version_as_string lib d"
  have no: "map_of ?d ''name'' = None" "map_of ?d ''triggers'' = None"
    using assms(3) [OF front_matter(1)]
    by (auto simp: version_as_string_def update_conv' split: option.splits json.splits)
  have "make_microagent_metadata ?d = Inr md"
    using front_matter(2) by (auto simp: validated_metadata_def bindE_Inr_iff
        split: sum.splits option.splits if_splits)
  then have "mm_name md = ''default''" "mm_triggers md = []"
    using no by (auto simp: make_microagent_metadata_def bindE_Inr_iff with_default_def)
  then have t: "mm_triggers (lm_metadata m) = [''/default'']"
    using front_matter(5,6) assms(2) by (auto simp: infer_type_def task_trigger_def split: if_splits)
  have "py_lower ''/default'' = ''/default''" by code_simp
  then show ?thesis
    using front_matter(3,4) t by (auto simp: for_memory_def match_trigger_def)
qed

lemma unnamed_task_triggered_by_default_witness:
  "derived_name (demo_dir @ [''t.md'']) demo_dir = Inr ''t'' \<and>
   mm_triggers (lm_metadata demo_task) = [''/default''] \<and>
   (\<forall>k. for_memory demo_task = Knowledge_Microagent k \<longrightarrow> match_trigger k ''/t'' = None)"
proof -
  have "\<not> occurs_in ''/default'' (py_lower ''/t'')" by code_simp
  then show ?thesis
    using unnamed_task_triggered_by_default [OF demo_task_loaded, of "''/t''"]
    by (simp add: demo_task_def demo_files_def)
qed

section \<open>A directory\<close>

definition dict_of :: "loaded_microagent \<Rightarrow> agent_dict \<times> agent_dict \<Rightarrow> agent_dict" where
  "dict_of m ds = (if lm_type m = REPO_KNOWLEDGE then fst ds else snd ds)"

lemma add_agent_keys:
  "has_key (dict_of m ds) n \<Longrightarrow> has_key (dict_of m (add_agent m' ds)) n"
  "has_key (dict_of m (add_agent m ds)) (lm_name m)"
  by (cases ds; auto simp: add_agent_def dict_of_def has_key_map_of update_conv')+

lemma load_files_keys:
  "load_files lib dir fs ds = Inr ds' \<Longrightarrow> has_key (dict_of m ds) n \<Longrightarrow> has_key (dict_of m ds') n"
proof (induction fs arbitrary: ds)
  case (Cons f fs)
  then show ?case by (simp split: sum.splits) (meson add_agent_keys(1))
qed simp

lemma load_files_complete:
  "load_files lib dir fs ds = Inr ds' \<Longrightarrow> f \<in> set fs \<Longrightarrow>
   \<exists>m. base_microagent_load lib f (Some dir) None = Inr m \<and> has_key (dict_of m ds') (lm_name m)"
proof (induction fs arbitrary: ds)
  case (Cons g fs)
  then obtain m where m: "base_microagent_load lib g (Some dir) None = Inr m"
    "load_files lib dir fs (add_agent m ds) = Inr ds'"
    by (cases "base_microagent_load lib g (Some dir) None") simp_all
  with Cons.IH [OF m(2)] Cons.prems(2) load_files_keys [OF m(2) add_agent_keys(2)]
  show ?case by (cases "f = g") simp_all
qed simp

text \<open>Every entry of the dictionaries comes from a file.\<close>

definition from_files :: "microagent_lib \<Rightarrow> path \<Rightarrow> path set \<Rightarrow> agent_dict \<times> agent_dict \<Rightarrow> bool" where
  "from_files lib dir fs ds \<longleftrightarrow>
     (\<forall>n m. map_of (fst ds) n = Some m \<or> map_of (snd ds) n = Some m \<longrightarrow>
        lm_name m = n \<and> (\<exists>f \<in> fs. base_microagent_load lib f (Some dir) None = Inr m))"

lemma add_agent_from_files:
  "from_files lib dir fs ds \<Longrightarrow> f \<in> fs \<Longrightarrow> base_microagent_load lib f (Some dir) None = Inr m \<Longrightarrow>
   from_files lib dir fs (add_agent m ds)"
  by (cases ds) (auto simp: from_files_def add_agent_def update_conv' split: if_splits)

lemma load_files_from:
  "load_files lib dir fs ds = Inr ds' \<Longrightarrow> set fs \<subseteq> all \<Longrightarrow> from_files lib dir all ds \<Longrightarrow>
   from_files lib dir all ds'"
proof (induction fs arbitrary: ds)
  case (Cons f fs)
  then show ?case by (simp split: sum.splits) (meson add_agent_from_files)
qed simp

lemma load_files_fails:
  "f \<in> set fs \<Longrightarrow> base_microagent_load lib f (Some dir) None = Inl x \<Longrightarrow>
   \<exists>y. load_files lib dir fs ds = Inl y"
proof (induction fs arbitrary: ds)
  case (Cons g fs)
  then show ?case by (cases "f = g") (simp_all split: sum.split)
qed simp

text \<open>
  The microagents of a user are loaded all or not at all: if one file of the directory cannot be
  loaded the memory stays as it is; otherwise every file is loaded, each has its entry under its
  name, and every entry is a file loaded under that name.
\<close>

theorem user_microagents_all_or_nothing:
  "((\<exists>f \<in> set (microagent_files lib dir). \<exists>x. base_microagent_load lib f (Some dir) None = Inl x) \<longrightarrow>
      load_user_microagents lib dir mem = mem) \<and>
   (\<forall>ds. load_microagents_from_dir lib dir = Inr ds \<longrightarrow>
      load_user_microagents lib dir mem = take_agents ds mem \<and>
      (\<forall>f \<in> set (microagent_files lib dir). \<exists>m.
         base_microagent_load lib f (Some dir) None = Inr m \<and> has_key (dict_of m ds) (lm_name m)) \<and>
      from_files lib dir (set (microagent_files lib dir)) ds)"
proof (intro conjI impI allI)
  assume "\<exists>f \<in> set (microagent_files lib dir). \<exists>x. base_microagent_load lib f (Some dir) None = Inl x"
  then obtain f x where "f \<in> set (microagent_files lib dir)"
    "base_microagent_load lib f (Some dir) None = Inl x" by blast
  from load_files_fails [OF this, of "([], [])"] show "load_user_microagents lib dir mem = mem"
    by (auto simp: load_user_microagents_def load_microagents_from_dir_def)
next
  fix ds assume l: "load_microagents_from_dir lib dir = Inr ds"
  then show "load_user_microagents lib dir mem = take_agents ds mem"
    by (simp add: load_user_microagents_def)
  note l = l [unfolded load_microagents_from_dir_def]
  show "\<forall>f \<in> set (microagent_files lib dir). \<exists>m.
      base_microagent_load lib f (Some dir) None = Inr m \<and> has_key (dict_of m ds) (lm_name m)"
    using load_files_complete [OF l] by blast
  show "from_files lib dir (set (microagent_files lib dir)) ds"
    by (rule load_files_from [OF l order_refl]) (simp add: from_files_def)
qed

lemma user_microagents_all_or_nothing_witness:
  "load_user_microagents demo_files demo_dir mem = take_agents ([], [(''t'', demo_task)]) mem"
proof -
  have "load_microagents_from_dir demo_files demo_dir = Inr ([], [(''t'', demo_task)])" by code_simp
  with user_microagents_all_or_nothing show ?thesis by blast
qed

end
