(* ===== verification/Uuids.thy ===== *)
theory Uuids
  imports Event_Store "HOL-Library.Word"
begin

text \<open>
  Universally unique identifiers as Python's \<open>uuid\<close> module has them: numbers of 128 bits, with the
  text \<open>str(u)\<close> and the reading \<open>UUID(s)\<close>.
\<close>

type_synonym uuid = "128 word"

definition hex_char :: "int \<Rightarrow> char" where
  "hex_char n = (if n < 10 then char_of (48 + n) else char_of (87 + n))"

text \<open>The \<open>n\<close> lowest hexadecimal digits of a number.\<close>

fun hex_text :: "nat \<Rightarrow> int \<Rightarrow> string" where
  "hex_text 0 k = []"
| "hex_text (Suc n) k = hex_text n (k div 16) @ [hex_char (k mod 16)]"

definition uuid_str :: "uuid \<Rightarrow> string" where
  "uuid_str u =
     (let h = hex_text 32 (uint u)
      in take 8 h @ ''-'' @ take 4 (drop 8 h) @ ''-'' @ take 4 (drop 12 h) @ ''-'' @
         take 4 (drop 16 h) @ ''-'' @ drop 20 h)"

text \<open>
  \<open>int(s)\<close> and \<open>int(s, 16)\<close>: blanks around, a sign, with base 16 the prefix \<open>0x\<close>, and single
  underscores between digits.
\<close>

definition digit_value :: "char \<Rightarrow> int option" where
  "digit_value c =
     (let n = of_char (lower_char c) :: int
      in if 48 \<le> n \<and> n \<le> 57 then Some (n - 48)
         else if 97 \<le> n \<and> n \<le> 122 then Some (n - 87) else None)"

fun base_digits :: "int \<Rightarrow> bool \<Rightarrow> int \<Rightarrow> string \<Rightarrow> int option" where
  "base_digits b digit_before acc [] = (if digit_before then Some acc else None)"
| "base_digits b digit_before acc (c # s) =
     (if c = CHR ''_'' then (if digit_before then base_digits b False acc s else None)
      else case digit_value c of
        None \<Rightarrow> None
      | Some v \<Rightarrow> if v < b then base_digits b True (b * acc + v) s else None)"

definition unsigned_hex :: "string \<Rightarrow> int option" where
  "unsigned_hex s =
     (if prefix ''0x'' (py_lower s)
      then base_digits 16 False 0 (if prefix ''_'' (drop 2 s) then drop 3 s else drop 2 s)
      else base_digits 16 False 0 s)"

definition signed :: "(string \<Rightarrow> int option) \<Rightarrow> string \<Rightarrow> int option" where
  "signed f s =
     (let t = py_strip s
      in if prefix ''-'' t then map_option (\<lambda>n. - n) (f (tl t))
         else f (if prefix ''+'' t then tl t else t))"

definition py_int :: "string \<Rightarrow> int option" where
  "py_int = signed (base_digits 10 False 0)"

definition int_16 :: "string \<Rightarrow> int option" where
  "int_16 = signed unsigned_hex"

definition strip_braces :: "string \<Rightarrow> string" where
  "strip_braces s =
     (let brace = (\<lambda>c. c = CHR ''{'' \<or> c = CHR ''}'')
      in rev (dropWhile brace (rev (dropWhile brace s))))"

definition parse_uuid :: "string \<Rightarrow> uuid result" where
  "parse_uuid s =
     (let h = py_replace ''-'' [] (strip_braces (py_replace ''uuid:'' [] (py_replace ''urn:'' [] s)))
      in if length h \<noteq> 32 then Inl (ValueError ''badly formed hexadecimal UUID string'')
         else case int_16 h of
           None \<Rightarrow> Inl (ValueError (''invalid literal for int() with base 16: '' @ h))
         | Some i \<Rightarrow> if i < 0 then Inl (ValueError ''int is out of range (need a 128-bit value)'')
                     else Inr (of_int i))"

end
