(* ===== verification/Org_Store.thy ===== *)
theory Org_Store
  imports Mcp_Config Uuids
begin

text \<open>
  The tables of the hosted product that hold organisations, their members and roles
  (\<open>enterprise/storage/org.py\<close>, \<open>org_member.py\<close>, \<open>role.py\<close>, \<open>user.py\<close>, \<open>org_invitation.py\<close>) and the
  stores over them. A table is the list of its rows. A transaction that breaks a constraint of a
  table raises and leaves the tables as they were; the constraints are those the columns declare.
  The state of an operation is the tables together with the outside world, whose type is left open;
  the service for language models, the identity provider and the mailer are the record \<open>outside\<close>.
  Users of older versions, whose settings have not been moved to these tables, are not modelled.
\<close>

section \<open>Rows\<close>

record role =
  r_id :: int
  r_name :: string
  r_rank :: int

record org_member =
  m_org :: uuid
  m_user :: uuid
  m_role :: int
  m_llm_api_key :: "string option"
  m_max_iterations :: "int option"
  m_llm_model :: "string option"
  m_byor_key :: "string option"
  m_llm_base_url :: "string option"
  m_status :: "string option"

text \<open>The columns of an organisation other than its id, by name; secrets in the clear.\<close>

record org =
  o_id :: uuid
  o_attrs :: json_dict

record user =
  u_id :: uuid
  u_current_org :: uuid
  u_email :: "string option"

record invitation =
  i_id :: int
  i_token :: string
  i_org :: uuid
  i_email :: string
  i_role :: int
  i_inviter :: uuid
  i_status :: string
  i_expires_at :: int
  i_accepted_at :: "int option"
  i_accepted_by :: "uuid option"

text \<open>
  Rows of the tables that are only emptied when an organisation is deleted are reduced to what
  that needs: the conversations of organisations, the general tables of conversations and of start
  tasks by conversation, and rows with the id of their organisation by the name of their table.
\<close>

record org_db =
  db_roles :: "role list"
  db_orgs :: "org list"
  db_members :: "org_member list"
  db_users :: "user list"
  db_invitations :: "invitation list"
  db_conversations :: "(string \<times> uuid) list"
  db_conversation_metadata :: "string list"
  db_start_tasks :: "string list"
  db_owned :: "(string \<times> uuid) list"

record 'w outside =
  out_create_entries :: "string \<Rightarrow> string \<Rightarrow> bool \<Rightarrow> 'w \<Rightarrow> json_dict option result \<times> 'w"
  out_delete_team :: "string \<Rightarrow> 'w \<Rightarrow> unit result \<times> 'w"
  out_remove_from_team :: "string \<Rightarrow> string \<Rightarrow> 'w \<Rightarrow> unit result \<times> 'w"
  out_user_info :: "string \<Rightarrow> 'w \<Rightarrow> json_dict option result \<times> 'w"
  out_send_invitation :: "string \<Rightarrow> string \<Rightarrow> string \<Rightarrow> string \<Rightarrow> string \<Rightarrow> int \<Rightarrow> 'w \<Rightarrow> unit result \<times> 'w"

record org_config =
  cf_default_model :: string
  cf_api_url :: string

type_synonym ('w, 'a) db_op = "(org_db \<times> 'w, 'a) op"

definition readD :: "(org_db \<Rightarrow> 'a) \<Rightarrow> ('w, 'a) db_op" where
  "readD f s = (Inr (f (fst s)), s)"

definition changeD :: "(org_db \<Rightarrow> org_db result) \<Rightarrow> ('w, unit) db_op" where
  "changeD f s = (case f (fst s) of Inl e \<Rightarrow> (Inl e, s) | Inr d \<Rightarrow> (Inr (), (d, snd s)))"

definition outD :: "('w \<Rightarrow> 'a result \<times> 'w) \<Rightarrow> ('w, 'a) db_op" where
  "outD f s = (let (r, w) = f (snd s) in (r, (fst s, w)))"

lemma db_op_simps [simp, py_simps]:
  "readD f (d, w) = (Inr (f d), (d, w))"
  "changeD g (d, w) = (case g d of Inl e \<Rightarrow> (Inl e, (d, w)) | Inr d' \<Rightarrow> (Inr (), (d', w)))"
  "outD h (d, w) = (fst (h w), (d, snd (h w)))"
  by (simp_all add: readD_def changeD_def outD_def case_prod_beta Let_def split: sum.splits)

definition integrity_error :: exn where
  "integrity_error = OtherException ''IntegrityError'' []"

text \<open>\<open>str(e)\<close>.\<close>

fun exn_str :: "exn \<Rightarrow> string" where
  "exn_str (KeyError k) = [CHR 0x27] @ k @ [CHR 0x27]"
| "exn_str IndexError = ''list index out of range''"
| "exn_str AssertionError = []"
| "exn_str (ValueError t) = t"
| "exn_str (TypeError t) = t"
| "exn_str (AttributeError t) = t"
| "exn_str (FileNotFoundError t) = t"
| "exn_str (RuntimeError t) = t"
| "exn_str (PlainException t) = t"
| "exn_str (OtherException c t) = t"
| "exn_str e = []"

section \<open>Roles\<close>

definition ROLE_OWNER :: string where
  "ROLE_OWNER = ''owner''"

definition ROLE_ADMIN :: string where
  "ROLE_ADMIN = ''admin''"

definition ROLE_MEMBER :: string where
  "ROLE_MEMBER = ''member''"

definition find_role_by_id :: "int \<Rightarrow> org_db \<Rightarrow> role option" where
  "find_role_by_id i d = find (\<lambda>r. r_id r = i) (db_roles d)"

definition find_role_by_name :: "string \<Rightarrow> org_db \<Rightarrow> role option" where
  "find_role_by_name n d = find (\<lambda>r. r_name r = n) (db_roles d)"

definition get_role_by_id :: "int \<Rightarrow> ('w, role option) db_op" where
  "get_role_by_id i = readD (find_role_by_id i)"

definition get_role_by_name :: "string \<Rightarrow> ('w, role option) db_op" where
  "get_role_by_name n = readD (find_role_by_name n)"

definition list_roles :: "('w, role list) db_op" where
  "list_roles = readD (\<lambda>d. sort_key r_rank (db_roles d))"

section \<open>Organisations\<close>

definition ORG_SETTINGS_VERSION :: int where
  "ORG_SETTINGS_VERSION = 5"

definition org_attr :: "string \<Rightarrow> org \<Rightarrow> json" where
  "org_attr k o1 = (case map_of (o_attrs o1) k of Some v \<Rightarrow> v | None \<Rightarrow> JNull)"

definition org_version :: "org \<Rightarrow> int" where
  "org_version o1 = (case org_attr ''org_version'' o1 of JInt n \<Rightarrow> n | _ \<Rightarrow> 0)"

definition ORG_COLUMNS :: "string list" where
  "ORG_COLUMNS =
     [''id'', ''name'', ''contact_name'', ''contact_email'', ''agent'', ''default_max_iterations'',
      ''security_analyzer'', ''confirmation_mode'', ''default_llm_model'', ''default_llm_base_url'',
      ''remote_runtime_resource_factor'', ''enable_default_condenser'', ''billing_margin'',
      ''enable_proactive_conversation_starters'', ''sandbox_base_container_image'',
      ''sandbox_runtime_container_image'', ''org_version'', ''mcp_config'', ''_search_api_key'',
      ''_sandbox_api_key'', ''max_budget_per_task'', ''enable_solvability_analysis'', ''v1_enabled'',
      ''conversation_expiration'', ''condenser_max_size'', ''byor_export_enabled'']"

definition ORG_SECRETS :: "string list" where
  "ORG_SECRETS = [''search_api_key'', ''sandbox_api_key'']"

text \<open>\<open>hasattr(org, key)\<close> for the keys the program uses: columns, and secrets by their property.\<close>

definition org_has_attr :: "string \<Rightarrow> bool" where
  "org_has_attr k \<longleftrightarrow> k \<in> set ORG_COLUMNS \<or> k \<in> set ORG_SECRETS"

fun falsy_secret :: "json \<Rightarrow> bool" where
  "falsy_secret JNull = True"
| "falsy_secret (JStr s) = (s = [])"
| "falsy_secret v = False"

definition set_org_attr :: "string \<times> json \<Rightarrow> org \<Rightarrow> org" where
  "set_org_attr kv o1 =
     (let (k, v) = kv
      in if \<not> org_has_attr k then o1
         else o1\<lparr>o_attrs := AList.update k (if k \<in> set ORG_SECRETS \<and> falsy_secret v then JNull else v)
                               (o_attrs o1)\<rparr>)"

definition set_org_attrs :: "json_dict \<Rightarrow> org \<Rightarrow> org" where
  "set_org_attrs kvs o1 = fold set_org_attr kvs o1"

text \<open>Values that the table fills in when a new row leaves them open.\<close>

definition ORG_DEFAULTS :: json_dict where
  "ORG_DEFAULTS =
     [(''confirmation_mode'', JBool False), (''enable_default_condenser'', JBool True),
      (''billing_margin'', JFloat 1), (''enable_proactive_conversation_starters'', JBool True),
      (''org_version'', JInt 0), (''enable_solvability_analysis'', JBool False),
      (''byor_export_enabled'', JBool False)]"

definition with_defaults :: "org \<Rightarrow> org" where
  "with_defaults o1 =
     o1\<lparr>o_attrs := o_attrs o1 @ filter (\<lambda>(k, _). \<not> has_key (o_attrs o1) k) ORG_DEFAULTS\<rparr>"

definition find_org :: "uuid \<Rightarrow> org_db \<Rightarrow> org option" where
  "find_org i d = find (\<lambda>r. o_id r = i) (db_orgs d)"

definition same_name :: "org \<Rightarrow> org \<Rightarrow> bool" where
  "same_name a b \<longleftrightarrow> org_attr ''name'' a = org_attr ''name'' b"

definition replace_org :: "org \<Rightarrow> org_db \<Rightarrow> org_db result" where
  "replace_org o1 d =
     (if \<exists>r \<in> set (db_orgs d). o_id r \<noteq> o_id o1 \<and> same_name r o1 then Inl integrity_error
      else Inr (d\<lparr>db_orgs := map (\<lambda>r. if o_id r = o_id o1 then o1 else r) (db_orgs d)\<rparr>))"

definition update_org :: "uuid \<Rightarrow> json_dict \<Rightarrow> ('w, org option) db_op" where
  "update_org i kvs =
     bindS (readD (find_org i)) (\<lambda>r. case r of
       None \<Rightarrow> retS None
     | Some o1 \<Rightarrow>
         (let o2 = set_org_attrs (filter (\<lambda>(k, _). k \<noteq> ''id'') kvs) o1
          in bindS (changeD (replace_org o2)) (\<lambda>_. retS (Some o2))))"

text \<open>An organisation of an older version is brought up to date when it is read.\<close>

definition validate_org_version :: "org_config \<Rightarrow> org option \<Rightarrow> ('w, org option) db_op" where
  "validate_org_version cf r =
     (case r of
        Some o1 \<Rightarrow>
          if org_version o1 < ORG_SETTINGS_VERSION
          then update_org (o_id o1)
                 [(''org_version'', JInt ORG_SETTINGS_VERSION),
                  (''default_llm_model'', JStr (cf_default_model cf)),
                  (''llm_base_url'', JStr (cf_api_url cf))]
          else retS (Some o1)
      | None \<Rightarrow> retS None)"

definition get_org_by_id :: "org_config \<Rightarrow> uuid \<Rightarrow> ('w, org option) db_op" where
  "get_org_by_id cf i = bindS (readD (find_org i)) (validate_org_version cf)"

definition get_org_by_name :: "org_config \<Rightarrow> string \<Rightarrow> ('w, org option) db_op" where
  "get_org_by_name cf n =
     bindS (readD (\<lambda>d. find (\<lambda>r. org_attr ''name'' r = JStr n) (db_orgs d))) (validate_org_version cf)"

text \<open>\<open>c.name.removeprefix('_default_').removeprefix('default_').lstrip('_')\<close>.\<close>

definition normalized_column :: "string \<Rightarrow> string" where
  "normalized_column c =
     (let a = (case after_prefix ''_default_'' c of Some r \<Rightarrow> r | None \<Rightarrow> c);
          b = (case after_prefix ''default_'' a of Some r \<Rightarrow> r | None \<Rightarrow> a)
      in dropWhile (\<lambda>x. x = CHR ''_'') b)"

definition org_kwargs_from_settings :: "json_dict \<Rightarrow> json_dict" where
  "org_kwargs_from_settings st =
     concat (map (\<lambda>c. case map_of st (normalized_column c) of
         Some v \<Rightarrow> [(if prefix ''_'' c then tl c else c, v)] | None \<Rightarrow> []) ORG_COLUMNS)"

section \<open>Members\<close>

definition find_member :: "uuid \<Rightarrow> uuid \<Rightarrow> org_db \<Rightarrow> org_member option" where
  "find_member oid uid d = find (\<lambda>m. m_org m = oid \<and> m_user m = uid) (db_members d)"

definition find_user :: "uuid \<Rightarrow> org_db \<Rightarrow> user option" where
  "find_user uid d = find (\<lambda>u. u_id u = uid) (db_users d)"

definition get_org_member :: "uuid \<Rightarrow> uuid \<Rightarrow> ('w, org_member option) db_op" where
  "get_org_member oid uid = readD (find_member oid uid)"

definition get_org_member_for_current_org :: "uuid \<Rightarrow> ('w, org_member option) db_op" where
  "get_org_member_for_current_org uid =
     readD (\<lambda>d. case find_user uid d of
              Some u \<Rightarrow> find_member (u_current_org u) uid d
            | None \<Rightarrow> None)"

definition get_user_orgs :: "uuid \<Rightarrow> ('w, org_member list) db_op" where
  "get_user_orgs uid = readD (\<lambda>d. filter (\<lambda>m. m_user m = uid) (db_members d))"

definition members_of :: "uuid \<Rightarrow> org_db \<Rightarrow> org_member list" where
  "members_of oid d = filter (\<lambda>m. m_org m = oid) (db_members d)"

definition get_org_members :: "uuid \<Rightarrow> ('w, org_member list) db_op" where
  "get_org_members oid = readD (members_of oid)"

text \<open>The key of a membership is unique, and its organisation, user and role exist.\<close>

definition insert_member :: "org_member \<Rightarrow> org_db \<Rightarrow> org_db result" where
  "insert_member m d =
     (if find_member (m_org m) (m_user m) d \<noteq> None \<or> find_org (m_org m) d = None \<or>
         find_user (m_user m) d = None \<or> find_role_by_id (m_role m) d = None
      then Inl integrity_error
      else Inr (d\<lparr>db_members := db_members d @ [m]\<rparr>))"

definition add_user_to_org ::
  "uuid \<Rightarrow> uuid \<Rightarrow> int \<Rightarrow> string \<Rightarrow> string option \<Rightarrow> string option \<Rightarrow> string option \<Rightarrow> int option \<Rightarrow>
   ('w, org_member) db_op" where
  "add_user_to_org oid uid role key status model base_url iterations =
     (let m = \<lparr>m_org = oid, m_user = uid, m_role = role, m_llm_api_key = Some key,
               m_max_iterations = iterations, m_llm_model = model, m_byor_key = None,
               m_llm_base_url = base_url, m_status = status\<rparr>
      in bindS (changeD (insert_member m)) (\<lambda>_. retS m))"

definition set_member_role :: "uuid \<Rightarrow> uuid \<Rightarrow> int \<Rightarrow> org_db \<Rightarrow> org_db" where
  "set_member_role oid uid role d =
     d\<lparr>db_members := map (\<lambda>m. if m_org m = oid \<and> m_user m = uid then m\<lparr>m_role := role\<rparr> else m)
                        (db_members d)\<rparr>"

definition update_user_role_in_org ::
  "uuid \<Rightarrow> uuid \<Rightarrow> int \<Rightarrow> ('w, org_member option) db_op" where
  "update_user_role_in_org oid uid role =
     bindS (get_org_member oid uid) (\<lambda>r. case r of
       None \<Rightarrow> retS None
     | Some m \<Rightarrow>
         bindS (changeD (\<lambda>d. if find_role_by_id role d = None then Inl integrity_error
                             else Inr (set_member_role oid uid role d)))
           (\<lambda>_. retS (Some (m\<lparr>m_role := role\<rparr>))))"

definition delete_member :: "uuid \<Rightarrow> uuid \<Rightarrow> org_db \<Rightarrow> org_db" where
  "delete_member oid uid d =
     d\<lparr>db_members := filter (\<lambda>m. \<not> (m_org m = oid \<and> m_user m = uid)) (db_members d)\<rparr>"

definition remove_user_from_org :: "uuid \<Rightarrow> uuid \<Rightarrow> ('w, bool) db_op" where
  "remove_user_from_org oid uid =
     bindS (get_org_member oid uid) (\<lambda>r. case r of
       None \<Rightarrow> retS False
     | Some _ \<Rightarrow> bindS (changeD (\<lambda>d. Inr (delete_member oid uid d))) (\<lambda>_. retS True))"

text \<open>
  \<open>x ILIKE p\<close>: letters compare without case, \<open>%\<close> stands for any text, \<open>_\<close> for any character, and
  a backslash takes the next character as it is.
\<close>

fun like :: "string \<Rightarrow> string \<Rightarrow> bool" where
  "like [] x = (x = [])"
| "like (c # p) x =
     (if c = CHR ''%'' then like p x \<or> (case x of [] \<Rightarrow> False | _ # x' \<Rightarrow> like (c # p) x')
      else if c = CHR ''_'' then (case x of [] \<Rightarrow> False | _ # x' \<Rightarrow> like p x')
      else if c = CHR 0x5C
           then (case (p, x) of (e # p', y # x') \<Rightarrow> lower_char e = lower_char y \<and> like p' x' | _ \<Rightarrow> False)
           else (case x of [] \<Rightarrow> False | y # x' \<Rightarrow> lower_char c = lower_char y \<and> like p x'))"

definition email_matches :: "string option \<Rightarrow> uuid \<Rightarrow> org_db \<Rightarrow> bool" where
  "email_matches email_filter uid d =
     (case email_filter of
        None \<Rightarrow> True
      | Some f \<Rightarrow> f = [] \<or>
          (case find_user uid d of
             Some u \<Rightarrow> (case u_email u of Some e \<Rightarrow> like (''%'' @ f @ ''%'') e | None \<Rightarrow> False)
           | None \<Rightarrow> False))"

definition get_org_members_count :: "uuid \<Rightarrow> string option \<Rightarrow> ('w, nat) db_op" where
  "get_org_members_count oid email_filter =
     readD (\<lambda>d. length (filter (\<lambda>m. email_matches email_filter (m_user m) d) (members_of oid d)))"

definition matching_members :: "uuid \<Rightarrow> string option \<Rightarrow> org_db \<Rightarrow> org_member list" where
  "matching_members oid email_filter d =
     sort_key m_user
       (filter (\<lambda>m. find_user (m_user m) d \<noteq> None \<and> email_matches email_filter (m_user m) d)
         (members_of oid d))"

definition get_org_members_paginated ::
  "uuid \<Rightarrow> nat \<Rightarrow> nat \<Rightarrow> string option \<Rightarrow> ('w, org_member list \<times> bool) db_op" where
  "get_org_members_paginated oid offset limit email_filter =
     readD (\<lambda>d. let ms = take (limit + 1) (drop offset (matching_members oid email_filter d))
                 in (take limit ms, limit < length ms))"

section \<open>Users\<close>

definition get_user_by_id :: "uuid \<Rightarrow> ('w, user option) db_op" where
  "get_user_by_id uid = readD (find_user uid)"

definition get_user_by_email :: "string \<Rightarrow> ('w, user option) db_op" where
  "get_user_by_email email =
     (if email = [] then retS None
      else readD (\<lambda>d. find (\<lambda>u. u_email u = Some (py_strip (py_lower email))) (db_users d)))"

definition set_current_org :: "uuid \<Rightarrow> uuid \<Rightarrow> org_db \<Rightarrow> org_db" where
  "set_current_org uid oid d =
     d\<lparr>db_users := map (\<lambda>u. if u_id u = uid then u\<lparr>u_current_org := oid\<rparr> else u) (db_users d)\<rparr>"

definition update_current_org :: "uuid \<Rightarrow> uuid \<Rightarrow> ('w, user option) db_op" where
  "update_current_org uid oid =
     bindS (get_user_by_id uid) (\<lambda>r. case r of
       None \<Rightarrow> retS None
     | Some u \<Rightarrow>
         bindS (changeD (\<lambda>d. if find_org oid d = None then Inl integrity_error
                             else Inr (set_current_org uid oid d)))
           (\<lambda>_. retS (Some (u\<lparr>u_current_org := oid\<rparr>))))"

end
