(* ===== verification/Authorization.thy ===== *)
theory Authorization
  imports Org_Store
begin

text \<open>
  Permissions and roles (\<open>enterprise/server/auth/authorization.py\<close>): what each role may do, and the
  check that guards the routes of an organisation.
\<close>

section \<open>Permissions\<close>

datatype permission =
  MANAGE_SECRETS | MANAGE_MCP | MANAGE_INTEGRATIONS | MANAGE_APPLICATION_SETTINGS | MANAGE_API_KEYS |
  VIEW_LLM_SETTINGS | EDIT_LLM_SETTINGS | VIEW_BILLING | ADD_CREDITS |
  INVITE_USER_TO_ORGANIZATION | CHANGE_USER_ROLE_MEMBER | CHANGE_USER_ROLE_ADMIN |
  CHANGE_USER_ROLE_OWNER | VIEW_ORG_SETTINGS | CHANGE_ORGANIZATION_NAME | DELETE_ORGANIZATION |
  EDIT_ORG_SETTINGS

fun permission_value :: "permission \<Rightarrow> string" where
  "permission_value MANAGE_SECRETS = ''manage_secrets''"
| "permission_value MANAGE_MCP = ''manage_mcp''"
| "permission_value MANAGE_INTEGRATIONS = ''manage_integrations''"
| "permission_value MANAGE_APPLICATION_SETTINGS = ''manage_application_settings''"
| "permission_value MANAGE_API_KEYS = ''manage_api_keys''"
| "permission_value VIEW_LLM_SETTINGS = ''view_llm_settings''"
| "permission_value EDIT_LLM_SETTINGS = ''edit_llm_settings''"
| "permission_value VIEW_BILLING = ''view_billing''"
| "permission_value ADD_CREDITS = ''add_credits''"
| "permission_value INVITE_USER_TO_ORGANIZATION = ''invite_user_to_organization''"
| "permission_value CHANGE_USER_ROLE_MEMBER = ''change_user_role:member''"
| "permission_value CHANGE_USER_ROLE_ADMIN = ''change_user_role:admin''"
| "permission_value CHANGE_USER_ROLE_OWNER = ''change_user_role:owner''"
| "permission_value VIEW_ORG_SETTINGS = ''view_org_settings''"
| "permission_value CHANGE_ORGANIZATION_NAME = ''change_organization_name''"
| "permission_value DELETE_ORGANIZATION = ''delete_organization''"
| "permission_value EDIT_ORG_SETTINGS = ''edit_org_settings''"

datatype role_name = OWNER | ADMIN | MEMBER

definition role_name_of :: "string \<Rightarrow> role_name option" where
  "role_name_of n =
     (if n = ROLE_OWNER then Some OWNER else if n = ROLE_ADMIN then Some ADMIN
      else if n = ROLE_MEMBER then Some MEMBER else None)"

fun ROLE_PERMISSIONS :: "role_name \<Rightarrow> permission list" where
  "ROLE_PERMISSIONS OWNER =
     [MANAGE_SECRETS, MANAGE_MCP, MANAGE_INTEGRATIONS, MANAGE_APPLICATION_SETTINGS, MANAGE_API_KEYS,
      VIEW_LLM_SETTINGS, EDIT_LLM_SETTINGS, VIEW_BILLING, ADD_CREDITS,
      INVITE_USER_TO_ORGANIZATION, CHANGE_USER_ROLE_MEMBER, CHANGE_USER_ROLE_ADMIN,
      CHANGE_USER_ROLE_OWNER, VIEW_ORG_SETTINGS, EDIT_ORG_SETTINGS, CHANGE_ORGANIZATION_NAME,
      DELETE_ORGANIZATION]"
| "ROLE_PERMISSIONS ADMIN =
     [MANAGE_SECRETS, MANAGE_MCP, MANAGE_INTEGRATIONS, MANAGE_APPLICATION_SETTINGS, MANAGE_API_KEYS,
      VIEW_LLM_SETTINGS, EDIT_LLM_SETTINGS, VIEW_BILLING, ADD_CREDITS,
      INVITE_USER_TO_ORGANIZATION, CHANGE_USER_ROLE_MEMBER, CHANGE_USER_ROLE_ADMIN,
      VIEW_ORG_SETTINGS, EDIT_ORG_SETTINGS]"
| "ROLE_PERMISSIONS MEMBER =
     [MANAGE_SECRETS, MANAGE_MCP, MANAGE_INTEGRATIONS, MANAGE_APPLICATION_SETTINGS, MANAGE_API_KEYS,
      VIEW_ORG_SETTINGS, VIEW_LLM_SETTINGS]"

definition get_role_permissions :: "string \<Rightarrow> permission list" where
  "get_role_permissions n = (case role_name_of n of Some r \<Rightarrow> ROLE_PERMISSIONS r | None \<Rightarrow> [])"

definition has_permission :: "role \<Rightarrow> permission \<Rightarrow> bool" where
  "has_permission r p \<longleftrightarrow> p \<in> set (get_role_permissions (r_name r))"

section \<open>The check of a route\<close>

definition http_exception :: "int \<Rightarrow> string \<Rightarrow> exn" where
  "http_exception code detail =
     OtherException ''HTTPException'' (str_of_int code @ '': '' @ detail)"

definition liftE :: "'a result \<Rightarrow> ('w, 'a) db_op" where
  "liftE r = (case r of Inl e \<Rightarrow> raiseS e | Inr x \<Rightarrow> retS x)"

lemma liftE_simps [simp, py_simps]:
  "liftE (Inl e) = raiseS e"
  "liftE (Inr x) = retS x"
  by (simp_all add: liftE_def)

definition get_user_org_role :: "string \<Rightarrow> uuid option \<Rightarrow> ('w, role option) db_op" where
  "get_user_org_role user_id org_id =
     bindS (liftE (parse_uuid user_id)) (\<lambda>uid.
     bindS (case org_id of
              None \<Rightarrow> get_org_member_for_current_org uid
            | Some oid \<Rightarrow> get_org_member oid uid) (\<lambda>r. case r of
       None \<Rightarrow> retS None
     | Some m \<Rightarrow> get_role_by_id (m_role m)))"

definition require_permission ::
  "permission \<Rightarrow> uuid option \<Rightarrow> string option \<Rightarrow> ('w, string) db_op" where
  "require_permission p org_id user_id =
     (case user_id of
        None \<Rightarrow> raiseS (http_exception 401 ''User not authenticated'')
      | Some uid \<Rightarrow>
          if uid = [] then raiseS (http_exception 401 ''User not authenticated'')
          else bindS (get_user_org_role uid org_id) (\<lambda>r. case r of
            None \<Rightarrow> raiseS (http_exception 403 ''User is not a member of this organization'')
          | Some role1 \<Rightarrow>
              if has_permission role1 p then retS uid
              else raiseS (http_exception 403
                     (''Requires '' @ permission_value p @ '' permission''))))"

end
