(* ===== verification/Org_Members.thy ===== *)
theory Org_Members
  imports Authorization
begin

text \<open>
  The members of an organisation (\<open>enterprise/server/services/org_member_service.py\<close>): reading,
  removing and changing the role of a member, and the routes over the latter two
  (\<open>enterprise/server/routes/orgs.py\<close>), which turn errors into responses.
\<close>

section \<open>Errors and answers\<close>

definition OrgMemberNotFoundError :: "uuid \<Rightarrow> uuid \<Rightarrow> exn" where
  "OrgMemberNotFoundError oid uid =
     OtherException ''OrgMemberNotFoundError''
       (''Member '' @ [CHR 0x22] @ uuid_str uid @ [CHR 0x22] @ '' not found in organization '' @
        [CHR 0x22] @ uuid_str oid @ [CHR 0x22])"

definition RoleNotFoundError :: "int \<Rightarrow> exn" where
  "RoleNotFoundError i =
     OtherException ''RoleNotFoundError''
       (''Role with id '' @ [CHR 0x22] @ str_of_int i @ [CHR 0x22] @ '' not found'')"

definition InvalidRoleError :: "string \<Rightarrow> exn" where
  "InvalidRoleError n =
     OtherException ''InvalidRoleError'' (''Invalid role: '' @ [CHR 0x22] @ n @ [CHR 0x22])"

definition InsufficientPermissionError :: "string \<Rightarrow> exn" where
  "InsufficientPermissionError t = OtherException ''InsufficientPermissionError'' t"

definition CannotModifySelfError :: "string \<Rightarrow> exn" where
  "CannotModifySelfError action =
     OtherException ''CannotModifySelfError'' (''Cannot '' @ action @ '' your own membership'')"

definition LastOwnerError :: "string \<Rightarrow> exn" where
  "LastOwnerError action =
     OtherException ''LastOwnerError''
       (''Cannot '' @ action @ '' the last owner of an organization'')"

definition MemberUpdateError :: "string \<Rightarrow> exn" where
  "MemberUpdateError t = OtherException ''MemberUpdateError'' t"

record member_response =
  mr_user :: uuid
  mr_email :: "string option"
  mr_role_id :: int
  mr_role :: string
  mr_rank :: int
  mr_status :: "string option"

record me_response =
  me_org :: uuid
  me_user :: uuid
  me_email :: string
  me_role :: string
  me_key :: string
  me_iterations :: "int option"
  me_model :: "string option"
  me_byor_key :: "string option"
  me_base_url :: "string option"
  me_status :: "string option"

definition mask_key :: "string option \<Rightarrow> string" where
  "mask_key secret =
     (case secret of
        None \<Rightarrow> []
      | Some raw \<Rightarrow> if raw = [] then [] else if length raw \<le> 4 then ''****''
                    else ''****'' @ slice_from raw (-4))"

definition from_org_member :: "org_member \<Rightarrow> role \<Rightarrow> string \<Rightarrow> me_response" where
  "from_org_member m r email =
     \<lparr>me_org = m_org m, me_user = m_user m, me_email = email, me_role = r_name r,
      me_key = mask_key (m_llm_api_key m), me_iterations = m_max_iterations m,
      me_model = m_llm_model m,
      me_byor_key = (let k = mask_key (m_byor_key m) in if k = [] then None else Some k),
      me_base_url = m_llm_base_url m, me_status = m_status m\<rparr>"

definition user_email :: "user option \<Rightarrow> string option" where
  "user_email u = (case u of Some u1 \<Rightarrow> u_email u1 | None \<Rightarrow> None)"

section \<open>Reading\<close>

definition get_me :: "uuid \<Rightarrow> uuid \<Rightarrow> ('w, me_response) db_op" where
  "get_me oid uid =
     bindS (get_org_member oid uid) (\<lambda>m. case m of
       None \<Rightarrow> raiseS (OrgMemberNotFoundError oid uid)
     | Some m1 \<Rightarrow>
         bindS (get_role_by_id (m_role m1)) (\<lambda>r. case r of
           None \<Rightarrow> raiseS (RoleNotFoundError (m_role m1))
         | Some r1 \<Rightarrow>
             bindS (get_user_by_id uid) (\<lambda>u.
               retS (from_org_member m1 r1
                      (case user_email u of Some e \<Rightarrow> e | None \<Rightarrow> [])))))"

definition member_response_of :: "org_db \<Rightarrow> org_member \<Rightarrow> member_response" where
  "member_response_of d m =
     (let r = find_role_by_id (m_role m) d
      in \<lparr>mr_user = m_user m, mr_email = user_email (find_user (m_user m) d), mr_role_id = m_role m,
          mr_role = (case r of Some r1 \<Rightarrow> r_name r1 | None \<Rightarrow> []),
          mr_rank = (case r of Some r1 \<Rightarrow> r_rank r1 | None \<Rightarrow> 0), mr_status = m_status m\<rparr>)"

type_synonym member_page = "member_response list \<times> int \<times> nat"

definition get_org_members_page ::
  "uuid \<Rightarrow> uuid \<Rightarrow> string option \<Rightarrow> nat \<Rightarrow> string option \<Rightarrow>
   ('w, bool \<times> string option \<times> member_page option) db_op" where
  "get_org_members_page oid uid page_id limit email_filter =
     bindS (get_org_member oid uid) (\<lambda>m.
       if m = None then retS (False, Some ''not_a_member'', None)
       else case (case page_id of None \<Rightarrow> Some 0 | Some p \<Rightarrow> py_int p) of
         None \<Rightarrow> retS (False, Some ''invalid_page_id'', None)
       | Some offset \<Rightarrow>
           if offset < 0 then retS (False, Some ''invalid_page_id'', None)
           else bindS (get_org_members_paginated oid (nat offset) limit email_filter) (\<lambda>(ms, _).
             bindS (readD (\<lambda>d. map (member_response_of d) ms)) (\<lambda>items.
               if limit = 0 then raiseS (OtherException ''ZeroDivisionError'' [])
               else retS (True, None, Some (items, offset div int limit + 1, limit)))))"

definition count_org_members ::
  "uuid \<Rightarrow> uuid \<Rightarrow> string option \<Rightarrow> ('w, nat) db_op" where
  "count_org_members oid uid email_filter =
     bindS (get_org_member oid uid) (\<lambda>m.
       if m = None then raiseS (OrgMemberNotFoundError oid uid)
       else get_org_members_count oid email_filter)"

section \<open>Who may change whom\<close>

definition can_update_member_role :: "string \<Rightarrow> string \<Rightarrow> string \<Rightarrow> bool" where
  "can_update_member_role requester target new =
     (if requester = ROLE_OWNER then True
      else if requester = ROLE_ADMIN
      then (if target = ROLE_OWNER then False else new \<noteq> ROLE_OWNER)
      else False)"

definition can_remove_member :: "string \<Rightarrow> string \<Rightarrow> bool" where
  "can_remove_member requester target =
     (if requester = ROLE_OWNER then True
      else if requester = ROLE_ADMIN then target \<noteq> ROLE_OWNER else False)"

definition is_owner_row :: "org_db \<Rightarrow> org_member \<Rightarrow> bool" where
  "is_owner_row d m \<longleftrightarrow>
     (case find_role_by_id (m_role m) d of Some r \<Rightarrow> r_name r = ROLE_OWNER | None \<Rightarrow> False)"

definition owner_rows :: "uuid \<Rightarrow> org_db \<Rightarrow> org_member list" where
  "owner_rows oid d = filter (is_owner_row d) (members_of oid d)"

definition is_last_owner :: "uuid \<Rightarrow> uuid \<Rightarrow> ('w, bool) db_op" where
  "is_last_owner oid uid =
     readD (\<lambda>d. let os = owner_rows oid d in length os = 1 \<and> m_user (hd os) = uid)"

section \<open>Removing a member\<close>

text \<open>The checks: the reason for a refusal, if there is one.\<close>

definition check_removal :: "uuid \<Rightarrow> uuid \<Rightarrow> uuid \<Rightarrow> ('w, string option) db_op" where
  "check_removal oid target current =
     bindS (get_org_member oid current) (\<lambda>rm. case rm of
       None \<Rightarrow> retS (Some ''not_a_member'')
     | Some rm1 \<Rightarrow>
         if current = target then retS (Some ''cannot_remove_self'')
         else bindS (get_org_member oid target) (\<lambda>tm. case tm of
           None \<Rightarrow> retS (Some ''member_not_found'')
         | Some tm1 \<Rightarrow>
             bindS (get_role_by_id (m_role rm1)) (\<lambda>rr.
             bindS (get_role_by_id (m_role tm1)) (\<lambda>tr.
               case (rr, tr) of
                 (Some rr1, Some tr1) \<Rightarrow>
                   if \<not> can_remove_member (r_name rr1) (r_name tr1)
                   then retS (Some ''insufficient_permission'')
                   else if r_name tr1 = ROLE_OWNER
                   then bindS (is_last_owner oid target) (\<lambda>b.
                          retS (if b then Some ''cannot_remove_last_owner'' else None))
                   else retS None
               | _ \<Rightarrow> retS (Some ''role_not_found'')))))"

text \<open>What follows the removal; a failure of the service for language models is only logged.\<close>

definition after_removal :: "'w outside \<Rightarrow> uuid \<Rightarrow> uuid \<Rightarrow> ('w, bool \<times> string option) db_op" where
  "after_removal ext oid target =
     bindS (get_user_by_id target) (\<lambda>u.
     bindS (case u of
              Some u1 \<Rightarrow> if u_current_org u1 = oid
                         then bindS (update_current_org target target) (\<lambda>_. retS ()) else retS ()
            | None \<Rightarrow> retS ()) (\<lambda>_.
     bindS (tryS (outD (out_remove_from_team ext (uuid_str target) (uuid_str oid))) (\<lambda>_. retS ()))
       (\<lambda>_. retS (True, None))))"

definition finish_removal :: "'w outside \<Rightarrow> uuid \<Rightarrow> uuid \<Rightarrow> ('w, bool \<times> string option) db_op" where
  "finish_removal ext oid target =
     bindS (remove_user_from_org oid target) (\<lambda>ok.
       if \<not> ok then retS (False, Some ''removal_failed'') else after_removal ext oid target)"

definition remove_org_member ::
  "'w outside \<Rightarrow> uuid \<Rightarrow> uuid \<Rightarrow> uuid \<Rightarrow> ('w, bool \<times> string option) db_op" where
  "remove_org_member ext oid target current =
     bindS (check_removal oid target current) (\<lambda>r. case r of
       Some reason \<Rightarrow> retS (False, Some reason)
     | None \<Rightarrow> finish_removal ext oid target)"

section \<open>Changing a role\<close>

text \<open>The checks: nothing to do, with the answer, or the new role.\<close>

definition check_update ::
  "uuid \<Rightarrow> uuid \<Rightarrow> uuid \<Rightarrow> string option \<Rightarrow> ('w, member_response + role) db_op" where
  "check_update oid target current new_name =
     bindS (get_org_member oid current) (\<lambda>rm. case rm of
       None \<Rightarrow> raiseS (OrgMemberNotFoundError oid current)
     | Some rm1 \<Rightarrow>
         if current = target then raiseS (CannotModifySelfError ''modify'')
         else bindS (get_org_member oid target) (\<lambda>tm. case tm of
           None \<Rightarrow> raiseS (OrgMemberNotFoundError oid target)
         | Some tm1 \<Rightarrow>
             bindS (get_role_by_id (m_role rm1)) (\<lambda>rr.
             bindS (get_role_by_id (m_role tm1)) (\<lambda>tr.
               case rr of
                 None \<Rightarrow> raiseS (RoleNotFoundError (m_role rm1))
               | Some rr1 \<Rightarrow> (case tr of
                   None \<Rightarrow> raiseS (RoleNotFoundError (m_role tm1))
                 | Some tr1 \<Rightarrow> (case new_name of
                     None \<Rightarrow> bindS (readD (\<lambda>d. member_response_of d tm1)) (\<lambda>x. retS (Inl x))
                   | Some n \<Rightarrow>
                       bindS (get_role_by_name (py_lower n)) (\<lambda>nr. case nr of
                         None \<Rightarrow> raiseS (InvalidRoleError n)
                       | Some nr1 \<Rightarrow>
                           if \<not> can_update_member_role (r_name rr1) (r_name tr1) (r_name nr1)
                           then raiseS (InsufficientPermissionError
                                  ''You do not have permission to modify this member'')
                           else bindS (if r_name tr1 = ROLE_OWNER \<and> r_name nr1 \<noteq> ROLE_OWNER
                                       then is_last_owner oid target else retS False) (\<lambda>b.
                             if b then raiseS (LastOwnerError ''demote'')
                             else retS (Inr nr1)))))))))"

definition finish_update :: "uuid \<Rightarrow> uuid \<Rightarrow> role \<Rightarrow> ('w, member_response) db_op" where
  "finish_update oid target new_role =
     bindS (update_user_role_in_org oid target (r_id new_role)) (\<lambda>m. case m of
       None \<Rightarrow> raiseS (MemberUpdateError ''Failed to update member'')
     | Some m1 \<Rightarrow>
         bindS (get_user_by_id target) (\<lambda>u.
           retS \<lparr>mr_user = m_user m1, mr_email = user_email u, mr_role_id = m_role m1,
                 mr_role = r_name new_role, mr_rank = r_rank new_role, mr_status = m_status m1\<rparr>))"

definition update_org_member ::
  "uuid \<Rightarrow> uuid \<Rightarrow> uuid \<Rightarrow> string option \<Rightarrow> ('w, member_response) db_op" where
  "update_org_member oid target current new_name =
     bindS (check_update oid target current new_name) (\<lambda>r. case r of
       Inl answer \<Rightarrow> retS answer
     | Inr new_role \<Rightarrow> finish_update oid target new_role)"

section \<open>The routes\<close>

definition removal_error :: "string option \<Rightarrow> exn" where
  "removal_error reason =
     (if reason = Some ''not_a_member''
      then http_exception 403 ''You are not a member of this organization''
      else if reason = Some ''cannot_remove_self''
      then http_exception 403 ''Cannot remove yourself from an organization''
      else if reason = Some ''member_not_found''
      then http_exception 404 ''Member not found in this organization''
      else if reason = Some ''insufficient_permission''
      then http_exception 403 ''You do not have permission to remove this member''
      else if reason = Some ''cannot_remove_last_owner''
      then http_exception 400 ''Cannot remove the last owner of an organization''
      else if reason = Some ''removal_failed''
      then http_exception 500 ''Failed to remove member''
      else http_exception 500 ''An error occurred'')"

fun is_value_error :: "exn \<Rightarrow> bool" where
  "is_value_error (ValueError t) = True"
| "is_value_error e = False"

fun exn_class :: "exn \<Rightarrow> string" where
  "exn_class (OtherException c t) = c"
| "exn_class e = []"

definition remove_member_route ::
  "'w outside \<Rightarrow> uuid \<Rightarrow> string \<Rightarrow> string \<Rightarrow> ('w, string) db_op" where
  "remove_member_route ext oid user_id current_user_id =
     tryS
       (bindS (liftE (parse_uuid user_id)) (\<lambda>target.
        bindS (liftE (parse_uuid current_user_id)) (\<lambda>current.
        bindS (remove_org_member ext oid target current) (\<lambda>(success, reason).
          if success then retS ''Member removed successfully'' else raiseS (removal_error reason)))))
       (\<lambda>e. if exn_class e = ''HTTPException'' then raiseS e
            else if is_value_error e
            then raiseS (http_exception 400 ''Invalid organization or user ID format'')
            else raiseS (http_exception 500 ''Failed to remove member''))"

definition update_error :: "string \<Rightarrow> exn \<Rightarrow> exn" where
  "update_error current_user_id e =
     (if exn_class e = ''OrgMemberNotFoundError''
      then (if occurs_in current_user_id (exn_str e)
            then http_exception 403 ''You are not a member of this organization''
            else http_exception 404 ''Member not found in this organization'')
      else if exn_class e = ''CannotModifySelfError''
      then http_exception 403 ''Cannot modify your own role''
      else if exn_class e = ''RoleNotFoundError''
      then http_exception 500 ''Role configuration error''
      else if exn_class e = ''InvalidRoleError''
      then http_exception 400 ''Invalid role specified''
      else if exn_class e = ''InsufficientPermissionError''
      then http_exception 403 ''You do not have permission to modify this member''
      else if exn_class e = ''LastOwnerError''
      then http_exception 400 ''Cannot demote the last owner of an organization''
      else if exn_class e = ''MemberUpdateError''
      then http_exception 500 ''Failed to update member''
      else if is_value_error e
      then http_exception 400 ''Invalid organization or user ID format''
      else http_exception 500 ''Failed to update member'')"

definition update_member_route ::
  "uuid \<Rightarrow> string \<Rightarrow> string option \<Rightarrow> string \<Rightarrow> ('w, member_response) db_op" where
  "update_member_route oid user_id new_name current_user_id =
     tryS
       (bindS (liftE (parse_uuid user_id)) (\<lambda>target.
        bindS (liftE (parse_uuid current_user_id)) (\<lambda>current.
          update_org_member oid target current new_name)))
       (\<lambda>e. raiseS (update_error current_user_id e))"

end
