(* ===== verification/Org_Invitations.thy ===== *)
theory Org_Invitations
  imports Org_Members
begin

text \<open>
  Organisations as a whole and the invitations into them (\<open>enterprise/storage/org_service.py\<close>,
  \<open>org_store.py\<close>, \<open>user_store.py\<close>, \<open>org_invitation_store.py\<close> and
  \<open>enterprise/server/services/org_invitation_service.py\<close>). New identifiers, random tokens and the
  clock are arguments of the operations that draw them.
\<close>

section \<open>Errors\<close>

definition OrgNameExistsError :: "string \<Rightarrow> exn" where
  "OrgNameExistsError n =
     OtherException ''OrgNameExistsError''
       (''Organization with name '' @ [CHR 0x22] @ n @ [CHR 0x22] @ '' already exists'')"

definition LiteLLMIntegrationError :: "string \<Rightarrow> exn" where
  "LiteLLMIntegrationError t = OtherException ''LiteLLMIntegrationError'' t"

definition OrgDatabaseError :: "string \<Rightarrow> exn" where
  "OrgDatabaseError t = OtherException ''OrgDatabaseError'' t"

definition OrgAuthorizationError :: "string \<Rightarrow> exn" where
  "OrgAuthorizationError t = OtherException ''OrgAuthorizationError'' t"

definition OrgNotFoundError :: "uuid \<Rightarrow> exn" where
  "OrgNotFoundError oid =
     OtherException ''OrgNotFoundError''
       (''Organization with id '' @ [CHR 0x22] @ uuid_str oid @ [CHR 0x22] @ '' not found'')"

definition OrphanedUserError :: "uuid list \<Rightarrow> exn" where
  "OrphanedUserError us =
     OtherException ''OrphanedUserError''
       (''Cannot delete organization: '' @ str_of_int (int (length us)) @
        '' user(s) would have no remaining organization'')"

section \<open>Creating\<close>

definition create_default_settings ::
  "'w outside \<Rightarrow> string \<Rightarrow> string \<Rightarrow> bool \<Rightarrow> ('w, json_dict option) db_op" where
  "create_default_settings ext oid uid create_user =
     (if oid = [] then retS None else outD (out_create_entries ext oid uid create_user))"

definition create_litellm_integration ::
  "'w outside \<Rightarrow> uuid \<Rightarrow> string \<Rightarrow> ('w, json_dict) db_op" where
  "create_litellm_integration ext oid uid =
     tryS
       (bindS (create_default_settings ext (uuid_str oid) uid False) (\<lambda>st. case st of
          None \<Rightarrow> raiseS (LiteLLMIntegrationError ''Failed to create LiteLLM settings'')
        | Some s \<Rightarrow> retS s))
       (\<lambda>e. if exn_class e = ''LiteLLMIntegrationError'' then raiseS e
            else raiseS (LiteLLMIntegrationError (''LiteLLM integration failed: '' @ exn_str e)))"

definition new_org :: "uuid \<Rightarrow> json_dict \<Rightarrow> org" where
  "new_org oid attrs = \<lparr>o_id = oid, o_attrs = attrs\<rparr>"

definition create_org_entity :: "org_config \<Rightarrow> uuid \<Rightarrow> string \<Rightarrow> string \<Rightarrow> string \<Rightarrow> org" where
  "create_org_entity cf oid name contact_name contact_email =
     new_org oid
       [(''name'', JStr name), (''contact_name'', JStr contact_name),
        (''contact_email'', JStr contact_email), (''org_version'', JInt ORG_SETTINGS_VERSION),
        (''default_llm_model'', JStr (cf_default_model cf))]"

definition apply_litellm_settings_to_org :: "json_dict \<Rightarrow> org \<Rightarrow> org" where
  "apply_litellm_settings_to_org st = set_org_attrs (org_kwargs_from_settings st)"

definition setting_text :: "json_dict \<Rightarrow> string \<Rightarrow> string option" where
  "setting_text st k = (case map_of st k of Some (JStr v) \<Rightarrow> Some v | _ \<Rightarrow> None)"

definition setting_int :: "json_dict \<Rightarrow> string \<Rightarrow> int option" where
  "setting_int st k = (case map_of st k of Some (JInt v) \<Rightarrow> Some v | _ \<Rightarrow> None)"

definition member_from_settings :: "uuid \<Rightarrow> uuid \<Rightarrow> int \<Rightarrow> json_dict \<Rightarrow> org_member" where
  "member_from_settings oid uid role st =
     \<lparr>m_org = oid, m_user = uid, m_role = role, m_llm_api_key = setting_text st ''llm_api_key'',
      m_max_iterations = setting_int st ''max_iterations'', m_llm_model = setting_text st ''llm_model'',
      m_byor_key = None, m_llm_base_url = setting_text st ''llm_base_url'', m_status = Some ''active''\<rparr>"

definition create_org_member_entity ::
  "uuid \<Rightarrow> string \<Rightarrow> int \<Rightarrow> json_dict \<Rightarrow> org_member result" where
  "create_org_member_entity oid uid role st =
     bindE (parse_uuid uid) (\<lambda>u. Inr (member_from_settings oid u role st))"

definition get_owner_role :: "('w, role) db_op" where
  "get_owner_role =
     bindS (get_role_by_name ''owner'') (\<lambda>r. case r of
       None \<Rightarrow> raiseS (PlainException ''Owner role not found in database'')
     | Some r1 \<Rightarrow> retS r1)"

definition insert_org :: "org \<Rightarrow> org_db \<Rightarrow> org_db result" where
  "insert_org o1 d =
     (if find_org (o_id o1) d \<noteq> None \<or> (\<exists>r \<in> set (db_orgs d). same_name r o1)
      then Inl integrity_error
      else Inr (d\<lparr>db_orgs := db_orgs d @ [with_defaults o1]\<rparr>))"

definition persist_org_with_owner :: "org \<Rightarrow> org_member \<Rightarrow> ('w, org) db_op" where
  "persist_org_with_owner o1 m =
     bindS (changeD (\<lambda>d. bindE (insert_org o1 d) (insert_member m)))
       (\<lambda>_. retS (with_defaults o1))"

definition cleanup_litellm_resources :: "'w outside \<Rightarrow> uuid \<Rightarrow> ('w, exn option) db_op" where
  "cleanup_litellm_resources ext oid =
     tryS (bindS (outD (out_delete_team ext (uuid_str oid))) (\<lambda>_. retS None)) (\<lambda>e. retS (Some e))"

definition handle_failure_with_cleanup ::
  "'w outside \<Rightarrow> uuid \<Rightarrow> exn \<Rightarrow> string \<Rightarrow> ('w, 'a) db_op" where
  "handle_failure_with_cleanup ext oid original message =
     bindS (cleanup_litellm_resources ext oid) (\<lambda>c. case c of
       Some e \<Rightarrow> raiseS (OrgDatabaseError (message @ '': '' @ exn_str original @
                   ''. Cleanup also failed: '' @ exn_str e))
     | None \<Rightarrow> raiseS (OrgDatabaseError (message @ '': '' @ exn_str original)))"

definition persist_with_compensation ::
  "'w outside \<Rightarrow> org \<Rightarrow> org_member \<Rightarrow> uuid \<Rightarrow> ('w, org) db_op" where
  "persist_with_compensation ext o1 m oid =
     tryS (persist_org_with_owner o1 m)
       (\<lambda>e. handle_failure_with_cleanup ext oid e ''Failed to create organization'')"

definition validate_name_uniqueness :: "org_config \<Rightarrow> string \<Rightarrow> ('w, unit) db_op" where
  "validate_name_uniqueness cf name =
     bindS (get_org_by_name cf name) (\<lambda>r.
       if r \<noteq> None then raiseS (OrgNameExistsError name) else retS ())"

definition create_org_with_owner ::
  "'w outside \<Rightarrow> org_config \<Rightarrow> uuid \<Rightarrow> string \<Rightarrow> string \<Rightarrow> string \<Rightarrow> string \<Rightarrow> ('w, org) db_op" where
  "create_org_with_owner ext cf new_id name contact_name contact_email uid =
     bindS (validate_name_uniqueness cf name) (\<lambda>_.
     bindS (create_litellm_integration ext new_id uid) (\<lambda>st.
       tryS
         (let o1 = apply_litellm_settings_to_org st
                     (create_org_entity cf new_id name contact_name contact_email)
          in bindS get_owner_role (\<lambda>r.
             bindS (liftE (create_org_member_entity new_id uid (r_id r) st)) (\<lambda>m.
               persist_with_compensation ext o1 m new_id)))
         (\<lambda>e. if exn_class e = ''OrgDatabaseError'' then raiseS e
              else handle_failure_with_cleanup ext new_id e ''Failed to create organization'')))"

text \<open>The personal workspace of a new user; display names are taken from the identity provider.\<close>

definition stripped_claim :: "json_dict \<Rightarrow> string \<Rightarrow> string" where
  "stripped_claim info k = py_strip (case map_of info k of Some (JStr s) \<Rightarrow> s | _ \<Rightarrow> [])"

definition resolve_display_name :: "json_dict \<Rightarrow> string option" where
  "resolve_display_name info =
     (let name = stripped_claim info ''name'';
          combined = py_strip (stripped_claim info ''given_name'' @ '' '' @ stripped_claim info ''family_name'')
      in if name \<noteq> [] then Some name else if combined \<noteq> [] then Some combined else None)"

definition insert_user :: "user \<Rightarrow> org_db \<Rightarrow> org_db result" where
  "insert_user u d =
     (if find_user (u_id u) d \<noteq> None \<or> find_org (u_current_org u) d = None then Inl integrity_error
      else Inr (d\<lparr>db_users := db_users d @ [u]\<rparr>))"

definition personal_org :: "uuid \<Rightarrow> string \<Rightarrow> json_dict \<Rightarrow> org result" where
  "personal_org uid user_id info =
     (case map_of info ''email'' of
        None \<Rightarrow> Inl (KeyError ''email'')
      | Some email \<Rightarrow>
          Inr (new_org uid
            [(''name'', JStr (''user_'' @ user_id @ ''_org'')),
             (''contact_name'',
               case resolve_display_name info of
                 Some n \<Rightarrow> JStr n
               | None \<Rightarrow> (case map_of info ''preferred_username'' of Some v \<Rightarrow> v | None \<Rightarrow> JStr [])),
             (''contact_email'', email), (''v1_enabled'', JBool True)]))"

definition create_user :: "'w outside \<Rightarrow> string \<Rightarrow> json_dict \<Rightarrow> ('w, user option) db_op" where
  "create_user ext user_id info =
     bindS (liftE (parse_uuid user_id)) (\<lambda>uid.
     bindS (liftE (personal_org uid user_id info)) (\<lambda>o1.
     bindS (create_default_settings ext (uuid_str uid) user_id True) (\<lambda>r. case r of
       None \<Rightarrow> retS None
     | Some st \<Rightarrow>
         (let o2 = set_org_attrs (org_kwargs_from_settings st) o1;
              u = \<lparr>u_id = uid, u_current_org = uid, u_email = setting_text info ''email''\<rparr>
          in bindS (get_role_by_name ''owner'') (\<lambda>role1. case role1 of
               None \<Rightarrow> raiseS (ValueError ''Owner role not found in database'')
             | Some r1 \<Rightarrow>
                 bindS (changeD (\<lambda>d. bindE (insert_org o2 d) (\<lambda>d1. bindE (insert_user u d1)
                          (insert_member ((member_from_settings uid uid (r_id r1) st)
                             \<lparr>m_llm_model := None, m_llm_base_url := None\<rparr>)))))
                   (\<lambda>_. retS (Some u)))))))"

section \<open>Reading and changing\<close>

definition has_admin_or_owner_role :: "string \<Rightarrow> uuid \<Rightarrow> ('w, bool) db_op" where
  "has_admin_or_owner_role uid oid =
     tryS
       (bindS (liftE (parse_uuid uid)) (\<lambda>u.
        bindS (get_org_member oid u) (\<lambda>m. case m of
          None \<Rightarrow> retS False
        | Some m1 \<Rightarrow> bindS (get_role_by_id (m_role m1)) (\<lambda>r. case r of
            None \<Rightarrow> retS False
          | Some r1 \<Rightarrow> retS (r_name r1 \<in> {''admin'', ''owner''})))))
       (\<lambda>_. retS False)"

definition is_org_member :: "string \<Rightarrow> uuid \<Rightarrow> ('w, bool) db_op" where
  "is_org_member uid oid =
     tryS
       (bindS (liftE (parse_uuid uid)) (\<lambda>u. bindS (get_org_member oid u) (\<lambda>m. retS (m \<noteq> None))))
       (\<lambda>_. retS False)"

definition LLM_SETTINGS_FIELDS :: "string list" where
  "LLM_SETTINGS_FIELDS =
     [''default_llm_model'', ''default_llm_api_key_for_byor'', ''default_llm_base_url'',
      ''search_api_key'', ''security_analyzer'', ''agent'', ''confirmation_mode'',
      ''enable_default_condenser'', ''condenser_max_size'']"

text \<open>\<open>model_dump(exclude_none=True)\<close>.\<close>

definition dump_update :: "json_dict \<Rightarrow> json_dict" where
  "dump_update upd = filter (\<lambda>(_, v). v \<noteq> JNull) upd"

definition has_llm_settings_updates :: "json_dict \<Rightarrow> bool" where
  "has_llm_settings_updates upd = list_ex (\<lambda>(k, _). k \<in> set LLM_SETTINGS_FIELDS) (dump_update upd)"

definition update_org_with_permissions ::
  "org_config \<Rightarrow> uuid \<Rightarrow> json_dict \<Rightarrow> string \<Rightarrow> ('w, org) db_op" where
  "update_org_with_permissions cf oid upd uid =
     bindS (get_org_by_id cf oid) (\<lambda>existing. case existing of
       None \<Rightarrow> raiseS (ValueError (''Organization with ID '' @ uuid_str oid @ '' not found''))
     | Some o1 \<Rightarrow>
         bindS (is_org_member uid oid) (\<lambda>member1.
         if \<not> member1
         then raiseS (OtherException ''PermissionError''
                ''User must be a member of the organization to update it'')
         else bindS (case map_of (dump_update upd) ''name'' of
                Some (JStr n) \<Rightarrow> bindS (get_org_by_name cf n) (\<lambda>other. case other of
                    Some o2 \<Rightarrow> if o_id o2 \<noteq> oid then raiseS (OrgNameExistsError n) else retS ()
                  | None \<Rightarrow> retS ())
              | _ \<Rightarrow> retS ()) (\<lambda>_.
         bindS (if has_llm_settings_updates upd
                then bindS (has_admin_or_owner_role uid oid) (\<lambda>b.
                  if b then retS ()
                  else raiseS (OtherException ''PermissionError''
                         ''Admin or owner role required to update LLM settings''))
                else retS ()) (\<lambda>_.
         if dump_update upd = [] then retS o1
         else tryS
                (bindS (update_org oid (dump_update upd)) (\<lambda>r. case r of
                   None \<Rightarrow> raiseS (OrgDatabaseError ''Failed to update organization in database'')
                 | Some o2 \<Rightarrow> retS o2))
                (\<lambda>e. raiseS (OrgDatabaseError (''Failed to update organization: '' @ exn_str e)))))))"

definition get_org_of_member :: "org_config \<Rightarrow> uuid \<Rightarrow> string \<Rightarrow> ('w, org) db_op" where
  "get_org_of_member cf oid uid =
     bindS (liftE (parse_uuid uid)) (\<lambda>u.
     bindS (get_org_member oid u) (\<lambda>m.
       if m = None then raiseS (OrgNotFoundError oid)
       else bindS (get_org_by_id cf oid) (\<lambda>r. case r of
         None \<Rightarrow> raiseS (OrgNotFoundError oid)
       | Some o1 \<Rightarrow> retS o1)))"

definition switch_org :: "org_config \<Rightarrow> string \<Rightarrow> uuid \<Rightarrow> ('w, org) db_op" where
  "switch_org cf uid oid =
     bindS (get_org_by_id cf oid) (\<lambda>r. case r of
       None \<Rightarrow> raiseS (OrgNotFoundError oid)
     | Some o1 \<Rightarrow>
         bindS (is_org_member uid oid) (\<lambda>b.
         if \<not> b then raiseS (OrgAuthorizationError
                       ''User must be a member of the organization to switch to it'')
         else tryS
                (bindS (liftE (parse_uuid uid)) (\<lambda>u.
                 bindS (update_current_org u oid) (\<lambda>r1.
                   if r1 = None then raiseS (OrgDatabaseError ''User not found'') else retS o1)))
                (\<lambda>e. if exn_class e = ''OrgDatabaseError'' then raiseS e
                     else raiseS (OrgDatabaseError
                            (''Failed to switch organization: '' @ exn_str e)))))"

section \<open>Deleting\<close>

definition verify_owner_authorization :: "org_config \<Rightarrow> string \<Rightarrow> uuid \<Rightarrow> ('w, unit) db_op" where
  "verify_owner_authorization cf uid oid =
     bindS (get_org_by_id cf oid) (\<lambda>r.
       if r = None then raiseS (OrgNotFoundError oid)
       else bindS (liftE (parse_uuid uid)) (\<lambda>u.
         bindS (get_org_member oid u) (\<lambda>m. case m of
           None \<Rightarrow> raiseS (OrgAuthorizationError ''User is not a member of this organization'')
         | Some m1 \<Rightarrow> bindS (get_role_by_id (m_role m1)) (\<lambda>r1.
             if (case r1 of Some r2 \<Rightarrow> r_name r2 \<noteq> ''owner'' | None \<Rightarrow> True)
             then raiseS (OrgAuthorizationError
                    ''Only organization owners can delete organizations'')
             else retS ()))))"

definition OWNED_TABLES :: "string list" where
  "OWNED_TABLES =
     [''billing_sessions'', ''custom_secrets'', ''api_keys'', ''slack_conversation'', ''slack_users'',
      ''stripe_customers'']"

definition orphaned_users :: "uuid \<Rightarrow> org_db \<Rightarrow> uuid list" where
  "orphaned_users oid d =
     map u_id (filter (\<lambda>u. u_current_org u = oid \<and>
                          \<not> list_ex (\<lambda>m. m_user m = u_id u \<and> m_org m \<noteq> oid) (db_members d))
                (db_users d))"

definition other_org :: "uuid \<Rightarrow> uuid \<Rightarrow> org_db \<Rightarrow> uuid" where
  "other_org oid uid d =
     (case find (\<lambda>m. m_user m = uid \<and> m_org m \<noteq> oid) (db_members d) of
        Some m \<Rightarrow> m_org m | None \<Rightarrow> oid)"

text \<open>
  The statements of the transaction. The last of them, \<open>session.delete(org)\<close>, only makes a coroutine
  that is never awaited, so that the row of the organisation stays.
\<close>

definition cascade :: "uuid \<Rightarrow> org_db \<Rightarrow> org_db result" where
  "cascade oid d =
     (let convs = map fst (filter (\<lambda>(_, i). i = oid) (db_conversations d));
          d1 = d\<lparr>db_conversation_metadata := filter (\<lambda>c. c \<notin> set convs) (db_conversation_metadata d),
                 db_start_tasks := filter (\<lambda>c. c \<notin> set convs) (db_start_tasks d),
                 db_conversations := filter (\<lambda>(_, i). i \<noteq> oid) (db_conversations d),
                 db_owned := filter (\<lambda>(t, i). \<not> (t \<in> set OWNED_TABLES \<and> i = oid)) (db_owned d)\<rparr>
      in if orphaned_users oid d1 \<noteq> [] then Inl (OrphanedUserError (orphaned_users oid d1))
         else Inr (d1\<lparr>db_users := map (\<lambda>u. if u_current_org u = oid
                                        then u\<lparr>u_current_org := other_org oid (u_id u) d1\<rparr> else u)
                                    (db_users d1),
                      db_members := filter (\<lambda>m. m_org m \<noteq> oid) (db_members d1)\<rparr>))"

text \<open>Changes are kept only if the service for language models has dropped the team as well.\<close>

definition delete_org_cascade :: "'w outside \<Rightarrow> uuid \<Rightarrow> ('w, org option) db_op" where
  "delete_org_cascade ext oid s =
     (case find_org oid (fst s) of
        None \<Rightarrow> (Inr None, s)
      | Some o1 \<Rightarrow>
          (case cascade oid (fst s) of
             Inl e \<Rightarrow> (Inl e, s)
           | Inr d \<Rightarrow>
               (case out_delete_team ext (uuid_str oid) (snd s) of
                  (Inl e, w) \<Rightarrow> (Inl e, (fst s, w))
                | (Inr _, w) \<Rightarrow> (Inr (Some o1), (d, w)))))"

definition delete_org_with_cleanup ::
  "'w outside \<Rightarrow> org_config \<Rightarrow> string \<Rightarrow> uuid \<Rightarrow> ('w, org) db_op" where
  "delete_org_with_cleanup ext cf uid oid =
     bindS (verify_owner_authorization cf uid oid) (\<lambda>_.
       tryS
         (bindS (delete_org_cascade ext oid) (\<lambda>r. case r of
            None \<Rightarrow> raiseS (OrgDatabaseError ''Organization not found during deletion'')
          | Some o1 \<Rightarrow> retS o1))
         (\<lambda>e. raiseS (OrgDatabaseError (''Failed to delete organization: '' @ exn_str e))))"

text \<open>The route: the answer shows the organisation that was deleted.\<close>

definition deletion_error :: "exn \<Rightarrow> exn" where
  "deletion_error e =
     (if exn_class e = ''OrgNotFoundError'' then http_exception 404 (exn_str e)
      else if exn_class e = ''OrgAuthorizationError'' then http_exception 403 (exn_str e)
      else if exn_class e = ''OrphanedUserError'' then http_exception 400 (exn_str e)
      else if exn_class e = ''OrgDatabaseError''
      then http_exception 500 ''Failed to delete organization''
      else http_exception 500 ''An unexpected error occurred'')"

definition delete_org_route ::
  "'w outside \<Rightarrow> org_config \<Rightarrow> uuid \<Rightarrow> string option \<Rightarrow> ('w, org) db_op" where
  "delete_org_route ext cf oid user_id =
     bindS (require_permission DELETE_ORGANIZATION (Some oid) user_id) (\<lambda>uid.
       tryS (delete_org_with_cleanup ext cf uid oid) (\<lambda>e. raiseS (deletion_error e)))"

definition org_update_error :: "exn \<Rightarrow> exn" where
  "org_update_error e =
     (if is_value_error e then http_exception 404 (exn_str e)
      else if exn_class e = ''OrgNameExistsError'' then http_exception 409 (exn_str e)
      else if exn_class e = ''PermissionError'' then http_exception 403 (exn_str e)
      else if exn_class e = ''OrgDatabaseError''
      then http_exception 500 ''Failed to update organization''
      else http_exception 500 ''An unexpected error occurred'')"

definition update_org_route ::
  "org_config \<Rightarrow> uuid \<Rightarrow> json_dict \<Rightarrow> string option \<Rightarrow> ('w, org) db_op" where
  "update_org_route cf oid upd user_id =
     bindS (require_permission EDIT_ORG_SETTINGS (Some oid) user_id) (\<lambda>uid.
       tryS (update_org_with_permissions cf oid upd uid) (\<lambda>e. raiseS (org_update_error e)))"

section \<open>Invitations\<close>

definition STATUS_PENDING :: string where "STATUS_PENDING = ''pending''"
definition STATUS_ACCEPTED :: string where "STATUS_ACCEPTED = ''accepted''"
definition STATUS_REVOKED :: string where "STATUS_REVOKED = ''revoked''"
definition STATUS_EXPIRED :: string where "STATUS_EXPIRED = ''expired''"

definition UserAlreadyMemberError :: "string \<Rightarrow> exn" where
  "UserAlreadyMemberError t = OtherException ''UserAlreadyMemberError'' t"

definition InvitationInvalidError :: "string \<Rightarrow> exn" where
  "InvitationInvalidError t = OtherException ''InvitationInvalidError'' t"

definition InvitationExpiredError :: "string \<Rightarrow> exn" where
  "InvitationExpiredError t = OtherException ''InvitationExpiredError'' t"

definition EmailMismatchError :: "string \<Rightarrow> exn" where
  "EmailMismatchError t = OtherException ''EmailMismatchError'' t"

text \<open>Times are seconds.\<close>

definition DEFAULT_EXPIRATION_DAYS :: int where
  "DEFAULT_EXPIRATION_DAYS = 7"

definition invitation_token :: "string \<Rightarrow> string" where
  "invitation_token random_part = ''inv-'' @ random_part"

definition next_invitation_id :: "org_db \<Rightarrow> int" where
  "next_invitation_id d = fold (\<lambda>i n. max n (i_id i + 1)) (db_invitations d) 1"

definition insert_invitation :: "invitation \<Rightarrow> org_db \<Rightarrow> org_db result" where
  "insert_invitation i d =
     (if list_ex (\<lambda>j. i_token j = i_token i) (db_invitations d) \<or> find_org (i_org i) d = None \<or>
         find_role_by_id (i_role i) d = None \<or> find_user (i_inviter i) d = None
      then Inl integrity_error
      else Inr (d\<lparr>db_invitations := db_invitations d @ [i]\<rparr>))"

definition store_invitation ::
  "string \<Rightarrow> int \<Rightarrow> uuid \<Rightarrow> string \<Rightarrow> int \<Rightarrow> uuid \<Rightarrow> ('w, invitation) db_op" where
  "store_invitation random_part now oid email role inviter =
     bindS (readD next_invitation_id) (\<lambda>n.
       let i = \<lparr>i_id = n, i_token = invitation_token random_part, i_org = oid,
                i_email = py_strip (py_lower email), i_role = role, i_inviter = inviter,
                i_status = STATUS_PENDING, i_expires_at = now + DEFAULT_EXPIRATION_DAYS * 86400,
                i_accepted_at = None, i_accepted_by = None\<rparr>
       in bindS (changeD (insert_invitation i)) (\<lambda>_. retS i))"

definition get_invitation_by_token :: "string \<Rightarrow> ('w, invitation option) db_op" where
  "get_invitation_by_token token =
     readD (\<lambda>d. find (\<lambda>i. i_token i = token) (db_invitations d))"

definition get_pending_invitation :: "uuid \<Rightarrow> string \<Rightarrow> ('w, invitation option) db_op" where
  "get_pending_invitation oid email =
     readD (\<lambda>d. find (\<lambda>i. i_org i = oid \<and> i_email i = py_strip (py_lower email) \<and>
                          i_status i = STATUS_PENDING) (db_invitations d))"

definition update_invitation_status ::
  "int \<Rightarrow> int \<Rightarrow> string \<Rightarrow> uuid option \<Rightarrow> ('w, invitation option) db_op" where
  "update_invitation_status now n status accepted_by =
     bindS (readD (\<lambda>d. find (\<lambda>i. i_id i = n) (db_invitations d))) (\<lambda>r. case r of
       None \<Rightarrow> retS None
     | Some i \<Rightarrow>
         (let j = i\<lparr>i_status := status\<rparr>;
              k = (if status = STATUS_ACCEPTED \<and> accepted_by \<noteq> None
                   then j\<lparr>i_accepted_at := Some now, i_accepted_by := accepted_by\<rparr> else j)
          in bindS (changeD (\<lambda>d. Inr (d\<lparr>db_invitations :=
                        map (\<lambda>x. if i_id x = n then k else x) (db_invitations d)\<rparr>)))
               (\<lambda>_. retS (Some k))))"

definition is_token_expired :: "int \<Rightarrow> invitation \<Rightarrow> bool" where
  "is_token_expired now i \<longleftrightarrow> i_expires_at i < now"

definition mark_expired_if_needed :: "int \<Rightarrow> invitation \<Rightarrow> ('w, bool) db_op" where
  "mark_expired_if_needed now i =
     (if i_status i = STATUS_PENDING \<and> is_token_expired now i
      then bindS (update_invitation_status now (i_id i) STATUS_EXPIRED None) (\<lambda>_. retS True)
      else retS False)"

text \<open>The checks that one invitation and a batch of them share.\<close>

definition assignable_role :: "uuid \<Rightarrow> string \<Rightarrow> uuid \<Rightarrow> ('w, role) db_op" where
  "assignable_role oid role inviter =
     (if oid = inviter
      then raiseS (InsufficientPermissionError ''Cannot invite users to a personal workspace'')
      else bindS (get_org_member oid inviter) (\<lambda>m. case m of
        None \<Rightarrow> raiseS (InsufficientPermissionError ''You are not a member of this organization'')
      | Some m1 \<Rightarrow>
          bindS (get_role_by_id (m_role m1)) (\<lambda>ir. case ir of
            None \<Rightarrow> raiseS (InsufficientPermissionError ''Only owners and admins can invite users'')
          | Some ir1 \<Rightarrow>
              if r_name ir1 \<noteq> ROLE_OWNER \<and> r_name ir1 \<noteq> ROLE_ADMIN
              then raiseS (InsufficientPermissionError ''Only owners and admins can invite users'')
              else if py_lower role = ROLE_OWNER \<and> r_name ir1 \<noteq> ROLE_OWNER
              then raiseS (InsufficientPermissionError ''Only owners can invite with owner role'')
              else bindS (get_role_by_name (py_lower role)) (\<lambda>tr. case tr of
                None \<Rightarrow> raiseS (ValueError (''Invalid role: '' @ role))
              | Some tr1 \<Rightarrow> retS tr1))))"

definition check_inviter ::
  "org_config \<Rightarrow> uuid \<Rightarrow> string \<Rightarrow> uuid \<Rightarrow> ('w, org \<times> role) db_op" where
  "check_inviter cf oid role inviter =
     bindS (get_org_by_id cf oid) (\<lambda>r. case r of
       None \<Rightarrow> raiseS (ValueError (''Organization '' @ uuid_str oid @ '' not found''))
     | Some o1 \<Rightarrow> bindS (assignable_role oid role inviter) (\<lambda>tr. retS (o1, tr)))"

text \<open>\<open>email.split('@')[0]\<close> of the inviter; a failure of the mailer is only logged.\<close>

definition mail_invitation ::
  "'w outside \<Rightarrow> string \<Rightarrow> org \<Rightarrow> uuid \<Rightarrow> role \<Rightarrow> invitation \<Rightarrow> ('w, unit) db_op" where
  "mail_invitation ext email o1 inviter r i =
     tryS
       (bindS (get_user_by_id inviter) (\<lambda>u.
          let name = (case user_email u of
                        Some e \<Rightarrow> if e = [] then ''A team member'' else hd (split_on (CHR ''@'') e)
                      | None \<Rightarrow> ''A team member'')
          in outD (out_send_invitation ext email
                     (case org_attr ''name'' o1 of JStr n \<Rightarrow> n | _ \<Rightarrow> []) name (r_name r)
                     (i_token i) (i_id i))))
       (\<lambda>_. retS ())"

definition refuse_member :: "uuid \<Rightarrow> string \<Rightarrow> ('w, unit) db_op" where
  "refuse_member oid address =
     bindS (get_user_by_email address) (\<lambda>u. case u of
       None \<Rightarrow> retS ()
     | Some u1 \<Rightarrow> bindS (get_org_member oid (u_id u1)) (\<lambda>m.
         if m = None then retS ()
         else raiseS (UserAlreadyMemberError ''User is already a member of this organization'')))"

definition send_invitation ::
  "'w outside \<Rightarrow> string \<Rightarrow> int \<Rightarrow> uuid \<Rightarrow> string \<Rightarrow> uuid \<Rightarrow> org \<times> role \<Rightarrow> ('w, invitation) db_op" where
  "send_invitation ext random_part now oid address inviter = (\<lambda>(o1, r).
     bindS (refuse_member oid address) (\<lambda>_.
     bindS (store_invitation random_part now oid address (r_id r) inviter) (\<lambda>i.
     bindS (mail_invitation ext address o1 inviter r i) (\<lambda>_. retS i))))"

definition create_invitation ::
  "'w outside \<Rightarrow> org_config \<Rightarrow> string \<Rightarrow> int \<Rightarrow> uuid \<Rightarrow> string \<Rightarrow> string \<Rightarrow> uuid \<Rightarrow>
   ('w, invitation) db_op" where
  "create_invitation ext cf random_part now oid email role inviter =
     bindS (check_inviter cf oid role inviter)
       (send_invitation ext random_part now oid (py_strip (py_lower email)) inviter)"

text \<open>
  A batch; each address comes with the random part drawn for it. The invitations are made one after
  the other, and all of them are made even if one fails. Two kinds of failure are collected; any
  other is raised.
\<close>

definition collected :: "exn \<Rightarrow> bool" where
  "collected e \<longleftrightarrow> exn_class e = ''UserAlreadyMemberError'' \<or> is_value_error e"

fun create_each ::
  "'w outside \<Rightarrow> org_config \<Rightarrow> int \<Rightarrow> uuid \<Rightarrow> (string \<times> string) list \<Rightarrow> string \<Rightarrow> uuid \<Rightarrow>
   ('w, (string \<times> invitation result) list) db_op" where
  "create_each ext cf now oid [] role inviter = retS []"
| "create_each ext cf now oid ((email, random_part) # es) role inviter =
     bindS (tryS
              (bindS (create_invitation ext cf random_part now oid email role inviter)
                 (\<lambda>i. retS (email, Inr i)))
              (\<lambda>e. retS (email, Inl e))) (\<lambda>x.
     bindS (create_each ext cf now oid es role inviter) (\<lambda>xs. retS (x # xs)))"

definition first_uncollected :: "(string \<times> invitation result) list \<Rightarrow> exn option" where
  "first_uncollected xs =
     (case List.map_filter (\<lambda>(_, r). case r of Inl e \<Rightarrow> if collected e then None else Some e
                                      | Inr _ \<Rightarrow> None) xs of [] \<Rightarrow> None | e # _ \<Rightarrow> Some e)"

definition create_invitations_batch ::
  "'w outside \<Rightarrow> org_config \<Rightarrow> int \<Rightarrow> uuid \<Rightarrow> (string \<times> string) list \<Rightarrow> string \<Rightarrow> uuid \<Rightarrow>
   ('w, invitation list \<times> (string \<times> string) list) db_op" where
  "create_invitations_batch ext cf now oid es role inviter =
     bindS (check_inviter cf oid role inviter) (\<lambda>_.
     bindS (create_each ext cf now oid es role inviter) (\<lambda>xs.
       case first_uncollected xs of
         Some e \<Rightarrow> raiseS e
       | None \<Rightarrow>
           retS (List.map_filter (\<lambda>(_, r). case r of Inr i \<Rightarrow> Some i | Inl _ \<Rightarrow> None) xs,
                 List.map_filter (\<lambda>(e, r). case r of
                     Inl x \<Rightarrow> if exn_str x = [] then None else Some (e, exn_str x)
                   | Inr _ \<Rightarrow> None) xs)))"

definition check_status :: "invitation \<Rightarrow> ('w, unit) db_op" where
  "check_status i =
     (if i_status i = STATUS_PENDING then retS ()
      else if i_status i = STATUS_ACCEPTED
      then raiseS (InvitationInvalidError ''Invitation has already been accepted'')
      else if i_status i = STATUS_REVOKED
      then raiseS (InvitationInvalidError ''Invitation has been revoked'')
      else raiseS (InvitationInvalidError ''Invitation is no longer valid''))"

text \<open>The address of an account, from the tables or else from the identity provider.\<close>

definition account_email :: "'w outside \<Rightarrow> user \<Rightarrow> ('w, string option) db_op" where
  "account_email ext u =
     (case u_email u of
        Some e \<Rightarrow> if e \<noteq> [] then retS (Some e)
                  else bindS (outD (out_user_info ext (uuid_str (u_id u)))) (\<lambda>info.
                    retS (case info of Some x \<Rightarrow> setting_text x ''email'' | None \<Rightarrow> None))
      | None \<Rightarrow> bindS (outD (out_user_info ext (uuid_str (u_id u)))) (\<lambda>info.
                    retS (case info of Some x \<Rightarrow> setting_text x ''email'' | None \<Rightarrow> None)))"

definition check_email :: "invitation \<Rightarrow> string option \<Rightarrow> ('w, unit) db_op" where
  "check_email i email =
     (case email of
        None \<Rightarrow> raiseS (EmailMismatchError ''Your account does not have an email address'')
      | Some e \<Rightarrow>
          if e = [] then raiseS (EmailMismatchError ''Your account does not have an email address'')
          else if py_strip (py_lower e) \<noteq> py_strip (py_lower (i_email i))
          then raiseS (EmailMismatchError ''Your email does not match the invitation'')
          else retS ())"

definition attr_text :: "string \<Rightarrow> org \<Rightarrow> string option" where
  "attr_text k o1 = (case org_attr k o1 of JStr s \<Rightarrow> Some s | _ \<Rightarrow> None)"

definition attr_int :: "string \<Rightarrow> org \<Rightarrow> int option" where
  "attr_int k o1 = (case org_attr k o1 of JInt n \<Rightarrow> Some n | _ \<Rightarrow> None)"

text \<open>Joining the organisation once all checks have passed.\<close>

definition join_org ::
  "'w outside \<Rightarrow> org_config \<Rightarrow> int \<Rightarrow> invitation \<Rightarrow> uuid \<Rightarrow> ('w, invitation) db_op" where
  "join_org ext cf now i uid =
     bindS (tryS (create_litellm_integration ext (i_org i) (uuid_str uid))
              (\<lambda>_. raiseS (InvitationInvalidError
                     ''Failed to set up organization access. Please try again.''))) (\<lambda>st.
     bindS (get_org_by_id cf (i_org i)) (\<lambda>r. case r of
       None \<Rightarrow> raiseS (InvitationInvalidError ''Organization not found'')
     | Some o1 \<Rightarrow>
         bindS (add_user_to_org (i_org i) uid (i_role i)
                  (case setting_text st ''llm_api_key'' of Some k \<Rightarrow> k | None \<Rightarrow> [])
                  (Some ''active'') (attr_text ''default_llm_model'' o1)
                  (attr_text ''default_llm_base_url'' o1) (attr_int ''default_max_iterations'' o1)) (\<lambda>_.
         bindS (update_invitation_status now (i_id i) STATUS_ACCEPTED (Some uid)) (\<lambda>j. case j of
           None \<Rightarrow> raiseS (InvitationInvalidError ''Failed to update invitation status'')
         | Some j1 \<Rightarrow> retS j1))))"

definition admit ::
  "'w outside \<Rightarrow> org_config \<Rightarrow> int \<Rightarrow> invitation \<Rightarrow> uuid \<Rightarrow> user \<Rightarrow> ('w, invitation) db_op" where
  "admit ext cf now i uid u =
     bindS (account_email ext u) (\<lambda>email.
     bindS (check_email i email) (\<lambda>_.
     bindS (get_org_member (i_org i) uid) (\<lambda>m.
       if m \<noteq> None
       then raiseS (UserAlreadyMemberError ''You are already a member of this organization'')
       else join_org ext cf now i uid)))"

definition accept_invitation ::
  "'w outside \<Rightarrow> org_config \<Rightarrow> int \<Rightarrow> string \<Rightarrow> uuid \<Rightarrow> ('w, invitation) db_op" where
  "accept_invitation ext cf now token uid =
     bindS (get_invitation_by_token token) (\<lambda>r. case r of
       None \<Rightarrow> raiseS (InvitationInvalidError ''Invalid invitation token'')
     | Some i \<Rightarrow>
         bindS (check_status i) (\<lambda>_.
         if is_token_expired now i
         then bindS (update_invitation_status now (i_id i) STATUS_EXPIRED None)
                (\<lambda>_. raiseS (InvitationExpiredError ''Invitation has expired''))
         else bindS (get_user_by_id uid) (\<lambda>u. case u of
           None \<Rightarrow> raiseS (InvitationInvalidError ''User not found'')
         | Some u1 \<Rightarrow> admit ext cf now i uid u1)))"

text \<open>Where the browser is sent after a link from an email.\<close>

definition accept_redirect ::
  "'w outside \<Rightarrow> org_config \<Rightarrow> int \<Rightarrow> string \<Rightarrow> string \<Rightarrow> string option \<Rightarrow> ('w, string) db_op" where
  "accept_redirect ext cf now base_url token user_id =
     (case user_id of
        None \<Rightarrow> retS (base_url @ ''/login?invitation_token='' @ token)
      | Some uid \<Rightarrow>
          if uid = [] then retS (base_url @ ''/login?invitation_token='' @ token)
          else tryS
                 (bindS (liftE (parse_uuid uid)) (\<lambda>u.
                  bindS (accept_invitation ext cf now token u) (\<lambda>_. retS (base_url @ ''/''))))
                 (\<lambda>e. retS (base_url @
                    (if exn_class e = ''InvitationExpiredError'' then ''/?invitation_expired=true''
                     else if exn_class e = ''InvitationInvalidError'' then ''/?invitation_invalid=true''
                     else if exn_class e = ''UserAlreadyMemberError'' then ''/?already_member=true''
                     else if exn_class e = ''EmailMismatchError'' then ''/?email_mismatch=true''
                     else ''/?invitation_error=true''))))"

end
