(* ===== verification/Org_Facts.thy ===== *)
theory Org_Facts
  imports Org_Invitations
begin

text \<open>
  Facts about the tables of organisations: which operations leave which tables alone, and the
  invariants of the tables. Relations between tables are carried through operations by the locale
  \<open>db_relation\<close>, which gives one of \<open>op_relation\<close> on the states of operations.
\<close>

section \<open>Relations through operations\<close>

context op_relation
begin

lemma keeps_option: "keeps a \<Longrightarrow> (\<And>x. keeps (b x)) \<Longrightarrow> keeps (case r of None \<Rightarrow> a | Some x \<Rightarrow> b x)"
  by (cases r) simp_all

lemma keeps_prod: "(\<And>x y. keeps (f x y)) \<Longrightarrow> keeps (case p of (x, y) \<Rightarrow> f x y)"
  by (cases p) simp

lemma keeps_sum:
  "(\<And>x. keeps (f x)) \<Longrightarrow> (\<And>y. keeps (g y)) \<Longrightarrow> keeps (case r of Inl x \<Rightarrow> f x | Inr y \<Rightarrow> g y)"
  by (cases r) simp_all

lemma keeps_let: "keeps (f t) \<Longrightarrow> keeps (let x = t in f x)"
  by simp

lemmas keeps_rules = keeps_ret keeps_bind keeps_try keeps_if keeps_option keeps_prod keeps_sum keeps_let

end

locale db_relation =
  fixes Q :: "org_db \<Rightarrow> org_db \<Rightarrow> bool"
  assumes Q_same: "Q d d" and Q_trans: "Q a b \<Longrightarrow> Q b c \<Longrightarrow> Q a c"

sublocale db_relation \<subseteq> op: op_relation "\<lambda>s s'. Q (fst s) (fst s')"
  by unfold_locales (blast intro: Q_same Q_trans)+

context db_relation
begin

lemma keeps_read: "op.keeps (readD f)"
  by (rule op.keepsI) (simp add: readD_def Q_same)

lemma keeps_out: "op.keeps (outD h)"
  by (rule op.keepsI) (simp add: outD_def Q_same case_prod_beta Let_def)

lemma keeps_change: "(\<And>d d'. f d = Inr d' \<Longrightarrow> Q d d') \<Longrightarrow> op.keeps (changeD f)"
  by (rule op.keepsI) (auto simp: changeD_def Q_same split: sum.splits)

lemma keeps_lift: "op.keeps (liftE r)"
  by (cases r) (simp_all add: op.keeps_ret)

lemma keeps_reads:
  "op.keeps (get_org_member oid uid)" "op.keeps (get_role_by_id i)" "op.keeps (get_role_by_name n)"
  "op.keeps (get_user_by_id uid)" "op.keeps (get_user_by_email e)" "op.keeps (get_org_members oid)"
  "op.keeps (get_org_member_for_current_org uid)" "op.keeps (is_last_owner oid uid)"
  "op.keeps (get_invitation_by_token t)"
  by (simp_all add: get_org_member_def get_role_by_id_def get_role_by_name_def get_user_by_id_def
      get_user_by_email_def get_org_members_def get_org_member_for_current_org_def is_last_owner_def
      get_invitation_by_token_def keeps_read op.keeps_ret)

lemmas rules = op.keeps_rules keeps_read keeps_out keeps_lift keeps_reads

lemma keeps_check_removal: "op.keeps (check_removal oid target current)"
  unfolding check_removal_def by (intro rules)

lemma keeps_check_update: "op.keeps (check_update oid target current new_name)"
  unfolding check_update_def by (intro rules)

lemma keeps_require_permission: "op.keeps (require_permission p oid uid)"
  unfolding require_permission_def get_user_org_role_def by (intro rules)

lemma keeps_integration: "op.keeps (create_litellm_integration ext oid uid)"
  unfolding create_litellm_integration_def create_default_settings_def by (intro rules)

lemma keeps_failure: "op.keeps (handle_failure_with_cleanup ext oid e t)"
  unfolding handle_failure_with_cleanup_def cleanup_litellm_resources_def by (intro rules)

lemma keeps_mail: "op.keeps (mail_invitation ext e o1 inviter r i)"
  unfolding mail_invitation_def by (intro rules)

lemma keeps_owner_role: "op.keeps get_owner_role"
  unfolding get_owner_role_def by (intro rules)

lemma keeps_member_test: "op.keeps (is_org_member uid oid)" "op.keeps (has_admin_or_owner_role uid oid)"
  unfolding is_org_member_def has_admin_or_owner_role_def by (intro rules)+

lemma keeps_invitation_checks:
  "op.keeps (check_status i)" "op.keeps (check_email i e)" "op.keeps (account_email ext u)"
  unfolding check_status_def check_email_def account_email_def by (intro rules)+

lemmas more_rules = rules keeps_check_removal keeps_check_update keeps_require_permission
  keeps_integration keeps_failure keeps_mail keeps_owner_role keeps_member_test
  keeps_invitation_checks

end

text \<open>Operations that only read leave the tables as they are.\<close>

interpretation same_db: db_relation "(=)"
  by unfold_locales simp_all

lemma check_removal_db [simp]: "fst (snd (check_removal oid t c s)) = fst s"
  by (rule same_db.op.keepsD [OF same_db.keeps_check_removal, symmetric])

section \<open>Operations that leave people alone\<close>

definition people_kept :: "org_db \<Rightarrow> org_db \<Rightarrow> bool" where
  "people_kept d d' \<longleftrightarrow>
     db_roles d' = db_roles d \<and> db_members d' = db_members d \<and> db_users d' = db_users d \<and>
     map o_id (db_orgs d') = map o_id (db_orgs d)"

interpretation people: db_relation people_kept
  by unfold_locales (simp_all add: people_kept_def)

lemma o_id_set_attr [simp]: "o_id (set_org_attr kv o1) = o_id o1"
  by (simp add: set_org_attr_def case_prod_beta Let_def)

lemma o_id_set_attrs [simp]: "o_id (set_org_attrs kvs o1) = o_id o1"
  unfolding set_org_attrs_def by (induction kvs arbitrary: o1) simp_all

lemma replace_org_people: "replace_org o1 d = Inr d' \<Longrightarrow> people_kept d d'"
  by (auto simp: replace_org_def people_kept_def split: if_splits)

lemma people_update_org: "people.op.keeps (update_org i kvs)"
  unfolding update_org_def
  by (intro people.rules people.keeps_change) (erule replace_org_people)

lemma people_get_org: "people.op.keeps (get_org_by_id cf i)" "people.op.keeps (get_org_by_name cf n)"
  unfolding get_org_by_id_def get_org_by_name_def validate_org_version_def
  by (intro people.rules people_update_org)+

lemmas people_rules = people.more_rules people_update_org people_get_org

lemma people_update: "people.op.keeps (update_org_with_permissions cf oid upd uid)"
  unfolding update_org_with_permissions_def
  by (intro people_rules, split json.split, intro allI conjI impI people_rules)

lemma people_store: "people.op.keeps (store_invitation r now oid e role inviter)"
  unfolding store_invitation_def
  by (intro people_rules people.keeps_change)
    (auto simp: insert_invitation_def people_kept_def split: if_splits)

lemma people_status: "people.op.keeps (update_invitation_status now n st by)"
  unfolding update_invitation_status_def
  by (intro people_rules people.keeps_change) (auto simp: people_kept_def)

lemma people_invite: "people.op.keeps (create_invitation ext cf r now oid e role inviter)"
  unfolding create_invitation_def check_inviter_def assignable_role_def send_invitation_def refuse_member_def
  by (intro people_rules people_store)

lemma people_invite_each: "people.op.keeps (create_each ext cf now oid es role inviter)"
proof (induction ext cf now oid es role inviter rule: create_each.induct)
  case 1
  show ?case unfolding create_each.simps by (rule people.op.keeps_ret)
next
  case (2 ext cf now oid email r es role inviter)
  show ?case unfolding create_each.simps by (intro people_rules people_invite "2.IH")
qed

lemma people_invite_batch: "people.op.keeps (create_invitations_batch ext cf now oid es role inviter)"
  unfolding create_invitations_batch_def check_inviter_def assignable_role_def by (intro people_rules people_invite_each)

section \<open>What the tables always satisfy\<close>

definition member_key :: "org_member \<Rightarrow> uuid \<times> uuid" where
  "member_key m = (m_org m, m_user m)"

definition tables_ok :: "org_db \<Rightarrow> bool" where
  "tables_ok d \<longleftrightarrow>
     distinct (map r_id (db_roles d)) \<and> distinct (map r_name (db_roles d)) \<and>
     distinct (map o_id (db_orgs d)) \<and> distinct (map u_id (db_users d)) \<and>
     distinct (map member_key (db_members d)) \<and>
     (\<forall>m \<in> set (db_members d). m_org m \<in> set (map o_id (db_orgs d)) \<and>
        m_user m \<in> set (map u_id (db_users d)) \<and> m_role m \<in> set (map r_id (db_roles d))) \<and>
     (\<forall>u \<in> set (db_users d). u_current_org u \<in> set (map o_id (db_orgs d)))"

definition has_owner :: "uuid \<Rightarrow> org_db \<Rightarrow> bool" where
  "has_owner oid d \<longleftrightarrow> owner_rows oid d \<noteq> []"

lemma has_owner_iff:
  "has_owner oid d \<longleftrightarrow> (\<exists>m \<in> set (db_members d). m_org m = oid \<and> is_owner_row d m)"
  unfolding has_owner_def owner_rows_def members_of_def by (simp add: filter_empty_conv)

lemma find_None_iff_id:
  "find_org i d = None \<longleftrightarrow> i \<notin> set (map o_id (db_orgs d))"
  "find_user uid d = None \<longleftrightarrow> uid \<notin> set (map u_id (db_users d))"
  "find_role_by_id n d = None \<longleftrightarrow> n \<notin> set (map r_id (db_roles d))"
  "find_member oid uid d = None \<longleftrightarrow> (oid, uid) \<notin> set (map member_key (db_members d))"
  by (auto simp: find_org_def find_user_def find_role_by_id_def find_member_def find_None_iff member_key_def)

lemma find_key: "distinct (map k xs) \<Longrightarrow> x \<in> set xs \<Longrightarrow> find (\<lambda>y. k y = k x) xs = Some x"
  by (induction xs) (auto simp: eq_commute)

lemma find_member_in:
  assumes "tables_ok d" "m \<in> set (db_members d)"
  shows "find_member (m_org m) (m_user m) d = Some m"
  using find_key [of member_key "db_members d" m] assms
  by (simp add: tables_ok_def find_member_def member_key_def)

lemma find_member_Some:
  "find_member oid uid d = Some m \<Longrightarrow> m \<in> set (db_members d) \<and> m_org m = oid \<and> m_user m = uid"
  by (auto simp: find_member_def find_Some_iff)

lemma find_role_Some: "find_role_by_id n d = Some r \<Longrightarrow> r \<in> set (db_roles d) \<and> r_id r = n"
  by (auto simp: find_role_by_id_def find_Some_iff)

lemma find_role_name_Some: "find_role_by_name n d = Some r \<Longrightarrow> r \<in> set (db_roles d) \<and> r_name r = n"
  by (auto simp: find_role_by_name_def find_Some_iff)

lemma find_role_in:
  "tables_ok d \<Longrightarrow> r \<in> set (db_roles d) \<Longrightarrow> find_role_by_id (r_id r) d = Some r"
  using find_key [of r_id "db_roles d" r] by (simp add: tables_ok_def find_role_by_id_def)

lemma is_owner_row_roles: "db_roles d' = db_roles d \<Longrightarrow> is_owner_row d' m = is_owner_row d m"
  by (simp add: is_owner_row_def find_role_by_id_def)

lemma people_kept_ok:
  assumes "people_kept d d'"
  shows "tables_ok d' = tables_ok d" "has_owner oid d' = has_owner oid d" "owner_rows oid d' = owner_rows oid d"
proof -
  have e: "set (map o_id (db_orgs d')) = set (map o_id (db_orgs d))"
    "map o_id (db_orgs d') = map o_id (db_orgs d)" "db_roles d' = db_roles d"
    "db_members d' = db_members d" "db_users d' = db_users d"
    using assms by (simp_all add: people_kept_def)
  show "tables_ok d' = tables_ok d" unfolding tables_ok_def e ..
  show "has_owner oid d' = has_owner oid d"
    unfolding has_owner_iff e(4) by (simp add: is_owner_row_roles [OF e(3)])
  show "owner_rows oid d' = owner_rows oid d"
    unfolding owner_rows_def members_of_def e(4) by (simp add: is_owner_row_roles [OF e(3)])
qed

text \<open>The tables stay as they have to be, and organisations outside of \<open>X\<close> keep an owner.\<close>

definition owners_kept :: "uuid set \<Rightarrow> org_db \<Rightarrow> org_db \<Rightarrow> bool" where
  "owners_kept X d d' \<longleftrightarrow>
     (tables_ok d \<longrightarrow> tables_ok d' \<and> (\<forall>oid. oid \<notin> X \<longrightarrow> has_owner oid d \<longrightarrow> has_owner oid d'))"

interpretation owned: db_relation "owners_kept X" for X
  by unfold_locales (auto simp: owners_kept_def)

lemma people_owned:
  assumes "people.op.keeps m"
  shows "owned.op.keeps X m"
  using people_kept_ok [OF people.op.keepsD [OF assms]]
  by (intro owned.op.keepsI) (simp add: owners_kept_def)

lemma insert_member_owned:
  assumes "insert_member m d = Inr d'"
  shows "owners_kept X d d'"
proof -
  have m: "find_member (m_org m) (m_user m) d = None" "find_org (m_org m) d \<noteq> None"
    "find_user (m_user m) d \<noteq> None" "find_role_by_id (m_role m) d \<noteq> None"
    and d': "d' = d\<lparr>db_members := db_members d @ [m]\<rparr>"
    using assms by (auto simp: insert_member_def split: if_splits)
  have "tables_ok d \<Longrightarrow> tables_ok d'"
    using m by (auto simp: tables_ok_def d' find_None_iff_id member_key_def)
  moreover have "has_owner oid d \<Longrightarrow> has_owner oid d'" for oid
    unfolding has_owner_iff d' by (auto simp: is_owner_row_def find_role_by_id_def)
  ultimately show ?thesis by (simp add: owners_kept_def)
qed

lemma owned_update_current_org: "owned.op.keeps X (update_current_org uid oid)"
proof -
  have "owners_kept X d (set_current_org uid oid d)" if "find_org oid d \<noteq> None" for d
  proof -
    have e: "map u_id (db_users (set_current_org uid oid d)) = map u_id (db_users d)"
      by (simp add: set_current_org_def)
    have "tables_ok d \<Longrightarrow> tables_ok (set_current_org uid oid d)"
      using that unfolding tables_ok_def e
      by (auto simp: set_current_org_def find_None_iff_id split: if_splits)
    moreover have "has_owner i (set_current_org uid oid d) = has_owner i d" for i
      unfolding has_owner_iff by (simp add: set_current_org_def is_owner_row_def find_role_by_id_def)
    ultimately show ?thesis by (simp add: owners_kept_def)
  qed
  then show ?thesis
    unfolding update_current_org_def
    by (intro owned.rules owned.keeps_change) (auto split: if_splits)
qed

lemma owned_add_user: "owned.op.keeps X (add_user_to_org oid uid role key st mo ur it)"
  unfolding add_user_to_org_def
  by (intro owned.rules owned.keeps_change) (rule insert_member_owned)

lemmas owned_rules = owned.more_rules people_owned [OF people_update_org] people_owned [OF people_get_org(1)]
  people_owned [OF people_get_org(2)] people_owned [OF people_status] owned_update_current_org
  owned_add_user

lemma owned_switch: "owned.op.keeps X (switch_org cf uid oid)"
  unfolding switch_org_def by (intro owned_rules)

lemma owned_accept: "owned.op.keeps X (accept_invitation ext cf now token uid)"
  unfolding accept_invitation_def admit_def join_org_def by (intro owned_rules)

lemma insert_org_owned:
  assumes "insert_org o1 d = Inr d'"
  shows "owners_kept X d d'"
proof -
  have o1: "find_org (o_id o1) d = None" and d': "d' = d\<lparr>db_orgs := db_orgs d @ [with_defaults o1]\<rparr>"
    using assms by (auto simp: insert_org_def split: if_splits)
  have "o_id (with_defaults o1) = o_id o1" by (simp add: with_defaults_def)
  then have "tables_ok d \<Longrightarrow> tables_ok d'"
    using o1 by (auto simp: tables_ok_def d' find_None_iff_id)
  moreover have "has_owner oid d' = has_owner oid d" for oid
    unfolding has_owner_iff d' by (auto simp: is_owner_row_def find_role_by_id_def)
  ultimately show ?thesis by (simp add: owners_kept_def)
qed

lemma insert_user_owned:
  assumes "insert_user u d = Inr d'"
  shows "owners_kept X d d'"
proof -
  have u: "find_user (u_id u) d = None" "find_org (u_current_org u) d \<noteq> None"
    and d': "d' = d\<lparr>db_users := db_users d @ [u]\<rparr>"
    using assms by (auto simp: insert_user_def split: if_splits)
  have "tables_ok d \<Longrightarrow> tables_ok d'"
    using u by (auto simp: tables_ok_def d' find_None_iff_id)
  moreover have "has_owner oid d' = has_owner oid d" for oid
    unfolding has_owner_iff d' by (auto simp: is_owner_row_def find_role_by_id_def)
  ultimately show ?thesis by (simp add: owners_kept_def)
qed

lemma bindE_owned:
  "bindE r f = Inr d' \<Longrightarrow> (\<And>d1. r = Inr d1 \<Longrightarrow> owners_kept X d d1) \<Longrightarrow>
   (\<And>d1. f d1 = Inr d' \<Longrightarrow> owners_kept X d1 d') \<Longrightarrow> owners_kept X d d'"
  unfolding bindE_Inr_iff by (blast intro: owned.Q_trans)

lemma owned_create_org: "owned.op.keeps X (create_org_with_owner ext cf i n cn ce uid)"
  unfolding create_org_with_owner_def validate_name_uniqueness_def persist_with_compensation_def
    persist_org_with_owner_def
  by (intro owned_rules owned.keeps_change)
    (elim bindE_owned, (rule insert_org_owned insert_member_owned, assumption)+)

lemma owned_create_user: "owned.op.keeps X (create_user ext uid info)"
  unfolding create_user_def create_default_settings_def
  by (intro owned_rules owned.keeps_change)
    (elim bindE_owned, (rule insert_org_owned insert_user_owned insert_member_owned, assumption)+)

section \<open>Removing members and changing roles\<close>

lemma check_removal_passed:
  assumes "check_removal oid target current s = (Inr None, s')"
  obtains rm tm rr tr where "current \<noteq> target"
    "find_member oid current (fst s) = Some rm" "find_member oid target (fst s) = Some tm"
    "find_role_by_id (m_role rm) (fst s) = Some rr" "find_role_by_id (m_role tm) (fst s) = Some tr"
    "can_remove_member (r_name rr) (r_name tr)" "s' = s"
proof -
  obtain d w where s: "s = (d, w)" by (cases s)
  show thesis
    using assms that
    unfolding check_removal_def s get_org_member_def get_role_by_id_def is_last_owner_def
    by (auto simp: bindS_def Let_def split: option.splits if_splits)
qed

lemma check_update_passed:
  assumes "check_update oid target current new_name s = (Inr (Inr new_role), s')"
  obtains rm tm rr tr where "current \<noteq> target"
    "find_member oid current (fst s) = Some rm" "find_member oid target (fst s) = Some tm"
    "find_role_by_id (m_role rm) (fst s) = Some rr" "find_role_by_id (m_role tm) (fst s) = Some tr"
    "new_role \<in> set (db_roles (fst s))"
    "can_update_member_role (r_name rr) (r_name tr) (r_name new_role)" "s' = s"
proof -
  obtain d w where s: "s = (d, w)" by (cases s)
  show thesis
    using assms that
    unfolding check_update_def s get_org_member_def get_role_by_id_def is_last_owner_def get_role_by_name_def
    by (auto simp: bindS_def Let_def split: option.splits if_splits dest: find_role_name_Some)
qed

lemma bindS_Inr_iff:
  "bindS m f s = (Inr y, s') \<longleftrightarrow> (\<exists>x t. m s = (Inr x, t) \<and> f x t = (Inr y, s'))"
  by (auto simp: bindS_def split: prod.splits sum.splits)

lemma bindS_done: "m s = (Inr x, t) \<Longrightarrow> bindS m f s = f x t"
  by (simp add: bindS_def)

lemma bindS_failed: "m s = (Inl e, t) \<Longrightarrow> bindS m f s = (Inl e, t)"
  by (simp add: bindS_def)

lemma keys_of_filter: "distinct (map k xs) \<Longrightarrow> distinct (map k (filter p xs))"
  by (simp add: distinct_map_filter)

lemma delete_member_owned:
  assumes gone: "\<And>m. m \<in> set (db_members d) \<Longrightarrow> m_org m = oid \<Longrightarrow> m_user m = target \<Longrightarrow> is_owner_row d m \<Longrightarrow>
      \<exists>m' \<in> set (db_members d). m_org m' = oid \<and> m_user m' \<noteq> target \<and> is_owner_row d m'"
  shows "owners_kept X d (delete_member oid target d)"
proof -
  let ?d = "delete_member oid target d"
  have "tables_ok d \<Longrightarrow> tables_ok ?d"
    by (auto simp: tables_ok_def delete_member_def intro: keys_of_filter)
  moreover have "has_owner i ?d" if own: "has_owner i d" for i
  proof -
    obtain m where m: "m \<in> set (db_members d)" "m_org m = i" "is_owner_row d m"
      using own unfolding has_owner_iff by blast
    then obtain m' where "m' \<in> set (db_members d)" "m_org m' = i" "is_owner_row d m'"
      "\<not> (m_org m' = oid \<and> m_user m' = target)" using gone by metis
    then show ?thesis
      unfolding has_owner_iff delete_member_def
      by (auto simp: is_owner_row_def find_role_by_id_def)
  qed
  ultimately show ?thesis by (simp add: owners_kept_def)
qed

lemma set_member_role_owned:
  assumes role: "find_role_by_id role d \<noteq> None"
    and gone: "\<And>m. m \<in> set (db_members d) \<Longrightarrow> m_org m = oid \<Longrightarrow> m_user m = target \<Longrightarrow> is_owner_row d m \<Longrightarrow>
      \<exists>m' \<in> set (db_members d). m_org m' = oid \<and> m_user m' \<noteq> target \<and> is_owner_row d m'"
  shows "owners_kept X d (set_member_role oid target role d)"
proof -
  let ?f = "\<lambda>m. if m_org m = oid \<and> m_user m = target then m\<lparr>m_role := role\<rparr> else m"
  let ?d = "set_member_role oid target role d"
  have key: "member_key (?f m) = member_key m" for m by (simp add: member_key_def)
  have d: "?d = d\<lparr>db_members := map ?f (db_members d)\<rparr>" by (simp add: set_member_role_def)
  have e: "map member_key (db_members ?d) = map member_key (db_members d)"
    by (simp add: d key)
  have "tables_ok d \<Longrightarrow> tables_ok ?d"
    using role unfolding tables_ok_def e by (auto simp: d find_None_iff_id)
  moreover have "has_owner i ?d" if own: "has_owner i d" for i
  proof -
    obtain m where m: "m \<in> set (db_members d)" "m_org m = i" "is_owner_row d m"
      using own unfolding has_owner_iff by blast
    then obtain m' where m': "m' \<in> set (db_members d)" "m_org m' = i" "is_owner_row d m'"
      "\<not> (m_org m' = oid \<and> m_user m' = target)" using gone by metis
    then have "?f m' = m'" by (metis (no_types))
    then have "m' \<in> set (db_members ?d)" using m'(1) unfolding d by force
    with m' show ?thesis
      unfolding has_owner_iff by (auto simp: d is_owner_row_def find_role_by_id_def)
  qed
  ultimately show ?thesis by (simp add: owners_kept_def)
qed

text \<open>Someone other than the target is an owner, if the target is one and the check has passed.\<close>

lemma other_owner:
  assumes ok: "tables_ok d"
    and ne: "current \<noteq> target" and rm: "find_member oid current d = Some rm"
    and tm: "find_member oid target d = Some tm"
    and rr: "find_role_by_id (m_role rm) d = Some rr" and tr: "find_role_by_id (m_role tm) d = Some tr"
    and allowed: "r_name rr = ROLE_OWNER \<or> r_name tr \<noteq> ROLE_OWNER"
    and m: "m \<in> set (db_members d)" "m_org m = oid" "m_user m = target" "is_owner_row d m"
  shows "\<exists>m' \<in> set (db_members d). m_org m' = oid \<and> m_user m' \<noteq> target \<and> is_owner_row d m'"
proof -
  have "m = tm" using find_member_in [OF ok m(1)] m(2,3) tm by simp
  then have "r_name tr = ROLE_OWNER" using m(4) tr by (simp add: is_owner_row_def)
  then have "is_owner_row d rm" using allowed rr by (simp add: is_owner_row_def)
  then show ?thesis using find_member_Some [OF rm] ne by metis
qed

lemma remove_org_member_cases:
  obtains (refused) "fst (snd (remove_org_member ext oid target current s)) = fst s"
  | (removed) rm tm rr tr where "current \<noteq> target"
    "find_member oid current (fst s) = Some rm" "find_member oid target (fst s) = Some tm"
    "find_role_by_id (m_role rm) (fst s) = Some rr" "find_role_by_id (m_role tm) (fst s) = Some tr"
    "r_name rr = ROLE_OWNER \<or> r_name rr = ROLE_ADMIN \<and> r_name tr \<noteq> ROLE_OWNER"
    "remove_org_member ext oid target current s =
       after_removal ext oid target (delete_member oid target (fst s), snd s)"
proof -
  obtain d w where s: "s = (d, w)" by (cases s)
  obtain r s' where c: "check_removal oid target current s = (r, s')" by (meson surj_pair)
  have s': "fst s' = fst s" using check_removal_db [of oid target current s] c by simp
  show thesis
  proof (cases "r = Inr None")
    case False
    then show thesis using c s'
      by (intro refused) (cases r, auto simp: remove_org_member_def bindS_def split: option.splits)
  next
    case True
    with c have passed: "check_removal oid target current s = (Inr None, s')" by simp
    then obtain rm tm rr tr where f: "current \<noteq> target" "find_member oid current d = Some rm"
      "find_member oid target d = Some tm" "find_role_by_id (m_role rm) d = Some rr"
      "find_role_by_id (m_role tm) d = Some tr" "can_remove_member (r_name rr) (r_name tr)" "s' = s"
      unfolding s by (elim check_removal_passed) simp
    have "remove_user_from_org oid target s = (Inr True, (delete_member oid target d, w))"
      using f(3) by (simp add: remove_user_from_org_def get_org_member_def s bindS_def)
    then have "finish_removal ext oid target s = after_removal ext oid target (delete_member oid target d, w)"
      unfolding finish_removal_def by (simp add: bindS_done)
    then have "remove_org_member ext oid target current s =
        after_removal ext oid target (delete_member oid target d, w)"
      using passed f(7) by (simp add: remove_org_member_def bindS_done)
    with f show thesis
      by (intro removed [of rm tm rr tr]) (auto simp: s can_remove_member_def split: if_splits)
  qed
qed

lemma update_org_member_cases:
  assumes "tables_ok (fst s)"
  obtains (refused) "fst (snd (update_org_member oid target current new_name s)) = fst s"
  | (changed) rm tm rr tr nr where "current \<noteq> target"
    "find_member oid current (fst s) = Some rm" "find_member oid target (fst s) = Some tm"
    "find_role_by_id (m_role rm) (fst s) = Some rr" "find_role_by_id (m_role tm) (fst s) = Some tr"
    "find_role_by_id (r_id nr) (fst s) = Some nr"
    "r_name rr = ROLE_OWNER \<or>
       r_name rr = ROLE_ADMIN \<and> r_name tr \<noteq> ROLE_OWNER \<and> r_name nr \<noteq> ROLE_OWNER"
    "fst (snd (update_org_member oid target current new_name s)) =
       set_member_role oid target (r_id nr) (fst s)"
proof -
  obtain d w where s: "s = (d, w)" by (cases s)
  obtain r s' where c: "check_update oid target current new_name s = (r, s')" by (meson surj_pair)
  have s': "fst s' = fst s"
    using same_db.op.keepsD [OF same_db.keeps_check_update, of s oid target current new_name] c by simp
  show thesis
  proof (cases "\<exists>nr. r = Inr (Inr nr)")
    case False
    then show thesis using c s'
      by (intro refused) (cases r, auto simp: update_org_member_def bindS_def split: sum.splits)
  next
    case True
    then obtain nr where r: "r = Inr (Inr nr)" by blast
    have passed: "check_update oid target current new_name (d, w) = (Inr (Inr nr), s')" using c r s by simp
    then obtain rm tm rr tr where f: "current \<noteq> target" "find_member oid current d = Some rm"
      "find_member oid target d = Some tm" "find_role_by_id (m_role rm) d = Some rr"
      "find_role_by_id (m_role tm) d = Some tr" "nr \<in> set (db_roles d)"
      "can_update_member_role (r_name rr) (r_name tr) (r_name nr)" "s' = s"
      unfolding s by (elim check_update_passed) simp
    have nr: "find_role_by_id (r_id nr) d = Some nr" using find_role_in [of d nr] assms f(6) s by simp
    have "fst (snd (finish_update oid target nr s)) = set_member_role oid target (r_id nr) d"
      using f(3) nr by (simp add: finish_update_def update_user_role_in_org_def get_org_member_def
          get_user_by_id_def s bindS_def)
    then have "fst (snd (update_org_member oid target current new_name s)) = set_member_role oid target (r_id nr) d"
      using c r f(8) by (simp add: update_org_member_def bindS_done)
    with f nr show thesis
      by (intro changed [of rm tm rr tr nr]) (auto simp: s can_update_member_role_def split: if_splits)
  qed
qed

lemma owned_after_removal: "owned.op.keeps X (after_removal ext oid target)"
  unfolding after_removal_def by (intro owned_rules)

lemma removal_owned: "owned.op.keeps X (remove_org_member ext oid target current)"
proof (rule owned.op.keepsI)
  fix s :: "org_db \<times> 'a"
  show "owners_kept X (fst s) (fst (snd (remove_org_member ext oid target current s)))"
  proof (cases rule: remove_org_member_cases [of ext oid target current s])
    case refused
    then show ?thesis by (simp add: owned.Q_same)
  next
    case (removed rm tm rr tr)
    have "owners_kept X (fst s) (delete_member oid target (fst s))" if "tables_ok (fst s)"
      using other_owner [OF that removed(1-5)] removed(6) by (intro delete_member_owned) auto
    then have "owners_kept X (fst s) (delete_member oid target (fst s))"
      by (auto simp: owners_kept_def)
    then show ?thesis
      unfolding removed(7)
      using owned.op.keepsD [OF owned_after_removal, of X "(delete_member oid target (fst s), snd s)"]
      by (auto intro: owned.Q_trans)
  qed
qed

lemma update_owned: "owned.op.keeps X (update_org_member oid target current new_name)"
proof (rule owned.op.keepsI)
  fix s :: "org_db \<times> 'a"
  have "owners_kept X (fst s) (fst (snd (update_org_member oid target current new_name s)))"
    if ok: "tables_ok (fst s)"
  proof (cases rule: update_org_member_cases [OF ok, of oid target current new_name])
    case 1
    then show ?thesis by (simp add: owned.Q_same)
  next
    case (2 rm tm rr tr nr)
    then show ?thesis
      using other_owner [OF ok 2(1-5)] by (simp, intro set_member_role_owned) auto
  qed
  then show "owners_kept X (fst s) (fst (snd (update_org_member oid target current new_name s)))"
    by (auto simp: owners_kept_def)
qed

section \<open>Deleting an organisation\<close>

lemma cascade_owned:
  assumes "cascade oid d = Inr d'"
  shows "owners_kept (insert oid X) d d'"
proof -
  let ?new = "\<lambda>u. if u_current_org u = oid then u\<lparr>u_current_org := other_org oid (u_id u) d\<rparr> else u"
  have same: "db_roles d' = db_roles d" "db_orgs d' = db_orgs d"
    and members: "db_members d' = filter (\<lambda>m. m_org m \<noteq> oid) (db_members d)"
    and users: "db_users d' = map ?new (db_users d)"
    and none: "orphaned_users oid d = []"
    using assms by (auto simp: cascade_def Let_def orphaned_users_def other_org_def split: if_splits)
  have ids: "map u_id (db_users d') = map u_id (db_users d)" by (simp add: users)
  have "tables_ok d'" if ok: "tables_ok d"
  proof -
    have new: "u_current_org (?new u) \<in> set (map o_id (db_orgs d))" if u: "u \<in> set (db_users d)" for u
    proof (cases "u_current_org u = oid")
      case False
      then show ?thesis using u ok by (simp add: tables_ok_def)
    next
      case True
      then have "find (\<lambda>m. m_user m = u_id u \<and> m_org m \<noteq> oid) (db_members d) \<noteq> None"
        using none u unfolding orphaned_users_def
        by (auto simp: filter_empty_conv list_ex_iff find_None_iff)
      then obtain m where "find (\<lambda>m. m_user m = u_id u \<and> m_org m \<noteq> oid) (db_members d) = Some m"
        by blast
      then have "other_org oid (u_id u) d = m_org m" "m \<in> set (db_members d)"
        by - (simp add: other_org_def, auto simp: find_Some_iff)
      then show ?thesis using True ok by (simp add: tables_ok_def)
    qed
    have "\<forall>u \<in> set (db_users d'). u_current_org u \<in> set (map o_id (db_orgs d))"
      unfolding users set_map [of ?new] using new by blast
    then show ?thesis
      using ok unfolding tables_ok_def ids same members by (auto intro: keys_of_filter)
  qed
  moreover have "has_owner i d'" if "i \<noteq> oid" "has_owner i d" for i
    using that unfolding has_owner_iff members by (auto simp: is_owner_row_roles [OF same(1)])
  ultimately show ?thesis by (simp add: owners_kept_def)
qed

lemma owned_delete: "owned.op.keeps (insert oid X) (delete_org_with_cleanup ext cf uid oid)"
proof -
  have "owned.op.keeps (insert oid X) (delete_org_cascade ext oid)"
  proof (rule owned.op.keepsI)
    fix s
    show "owners_kept (insert oid X) (fst s) (fst (snd (delete_org_cascade ext oid s)))"
      by (auto simp: delete_org_cascade_def owned.Q_same cascade_owned
          split: option.splits sum.splits prod.splits)
  qed
  then show ?thesis
    unfolding delete_org_with_cleanup_def verify_owner_authorization_def by (intro owned_rules)
qed

end
