(* ===== verification/Org_Requests.thy ===== *)
theory Org_Requests
  imports Org_Facts
begin

text \<open>
  The requests that change the tables of organisations, and who the owners are after each of them.
\<close>

datatype org_request =
    Create_User string json_dict
  | Create_Org uuid string string string string
  | Update_Org uuid json_dict "string option"
  | Delete_Org uuid "string option"
  | Switch_Org string uuid
  | Remove_Member uuid string string
  | Change_Role uuid string "string option" string
  | Invite int uuid "(string \<times> string) list" string uuid
  | Accept int string uuid

fun perform :: "'w outside \<Rightarrow> org_config \<Rightarrow> org_request \<Rightarrow> org_db \<times> 'w \<Rightarrow> org_db \<times> 'w" where
  "perform ext cf (Create_User uid info) s = snd (create_user ext uid info s)"
| "perform ext cf (Create_Org i n cn ce uid) s = snd (create_org_with_owner ext cf i n cn ce uid s)"
| "perform ext cf (Update_Org oid upd uid) s = snd (update_org_route cf oid upd uid s)"
| "perform ext cf (Delete_Org oid uid) s = snd (delete_org_route ext cf oid uid s)"
| "perform ext cf (Switch_Org uid oid) s = snd (switch_org cf uid oid s)"
| "perform ext cf (Remove_Member oid t c) s = snd (remove_member_route ext oid t c s)"
| "perform ext cf (Change_Role oid t n c) s = snd (update_member_route oid t n c s)"
| "perform ext cf (Invite now oid es role inviter) s =
     snd (create_invitations_batch ext cf now oid es role inviter s)"
| "perform ext cf (Accept now token uid) s = snd (accept_invitation ext cf now token uid s)"

fun deletes :: "uuid \<Rightarrow> org_request \<Rightarrow> bool" where
  "deletes oid (Delete_Org i uid) = (i = oid)"
| "deletes oid r = False"

section \<open>Owners are kept\<close>

lemma owned_routes:
  "owned.op.keeps X (remove_member_route ext oid t c)"
  "owned.op.keeps X (update_member_route oid t n c)"
  "owned.op.keeps X (update_org_route cf oid upd uid)"
  "owned.op.keeps (insert oid X) (delete_org_route ext cf oid uid)"
  unfolding remove_member_route_def update_member_route_def update_org_route_def delete_org_route_def
  by (intro owned_rules removal_owned update_owned people_owned [OF people_update] owned_delete)+

lemma perform_owned:
  assumes "\<And>oid. deletes oid r \<Longrightarrow> oid \<in> X"
  shows "owners_kept X (fst s) (fst (perform ext cf r s))"
proof (cases r)
  case (Delete_Org oid uid)
  then have "insert oid X = X" using assms by (simp add: insert_absorb)
  with owned.op.keepsD [OF owned_routes(4) [of oid X]] Delete_Org show ?thesis by simp
qed (auto intro!: owned.op.keepsD owned_routes owned_create_user owned_create_org owned_switch
      owned_accept people_owned people_invite_batch)

lemma run_owned:
  assumes "\<And>r oid. r \<in> set rs \<Longrightarrow> deletes oid r \<Longrightarrow> oid \<in> X"
  shows "owners_kept X (fst s) (fst (fold (perform ext cf) rs s))"
  using assms
proof (induction rs arbitrary: s)
  case Nil
  show ?case by (simp add: owned.Q_same)
next
  case (Cons r rs)
  have "owners_kept X (fst s) (fst (perform ext cf r s))" using Cons.prems by (intro perform_owned) auto
  moreover have "owners_kept X (fst (perform ext cf r s)) (fst (fold (perform ext cf) rs (perform ext cf r s)))"
    using Cons.prems by (intro Cons.IH) auto
  ultimately show ?case by (simp add: owned.Q_trans [of X])
qed

section \<open>Who the owners are\<close>

definition owners :: "uuid \<Rightarrow> org_db \<Rightarrow> uuid set" where
  "owners oid d = {m_user m | m. m \<in> set (db_members d) \<and> m_org m = oid \<and> is_owner_row d m}"

lemma has_owner_owners: "has_owner oid d \<longleftrightarrow> owners oid d \<noteq> {}"
  unfolding has_owner_iff owners_def by auto

lemma owners_people: "people_kept d d' \<Longrightarrow> owners oid d' = owners oid d"
  by (simp add: people_kept_def owners_def is_owner_row_def find_role_by_id_def)

text \<open>Memberships are only added, all of them satisfying \<open>P\<close>; none in an organisation that is there.\<close>

definition joined :: "(org_member \<Rightarrow> bool) \<Rightarrow> org_db \<Rightarrow> org_db \<Rightarrow> bool" where
  "joined P d d' \<longleftrightarrow>
     db_roles d' = db_roles d \<and> (\<exists>ms. db_members d' = db_members d @ ms \<and> (\<forall>m \<in> set ms. P m))"

interpretation joined: db_relation "joined P" for P
  by unfold_locales (fastforce simp: joined_def)+

lemma people_joined: "people.op.keeps m \<Longrightarrow> joined.op.keeps P m"
  using people.op.keepsD [of m]
  by (intro joined.op.keepsI) (fastforce simp: joined_def people_kept_def)

lemma joined_current_org: "joined.op.keeps P (update_current_org uid oid)"
  unfolding update_current_org_def
  by (intro joined.rules joined.keeps_change)
    (auto simp: joined_def set_current_org_def split: if_splits)

lemma joined_add_user:
  "(\<And>m. m_org m = oid \<Longrightarrow> m_user m = uid \<Longrightarrow> m_role m = role \<Longrightarrow> P m) \<Longrightarrow>
   joined.op.keeps P (add_user_to_org oid uid role key st mo ur it)"
  unfolding add_user_to_org_def
  by (intro joined.rules joined.keeps_change) (auto simp: joined_def insert_member_def split: if_splits)

lemma owners_joined:
  "joined P d d' \<Longrightarrow> u \<in> owners oid d' \<longleftrightarrow>
     u \<in> owners oid d \<or> (u \<in> owners oid d' \<and> (\<exists>m. P m \<and> m_org m = oid \<and> m_user m = u \<and> is_owner_row d m))"
  unfolding joined_def owners_def by (auto simp: is_owner_row_def find_role_by_id_def)

lemma joined_lift_bind:
  "(\<And>x. r = Inr x \<Longrightarrow> joined.op.keeps P (f x)) \<Longrightarrow> joined.op.keeps P (bindS (liftE r) f)"
proof (cases r)
  case (Inl e)
  then show ?thesis by (simp add: joined.op.keeps_def bindS_def joined.Q_same)
next
  case (Inr x)
  then show "(\<And>x. r = Inr x \<Longrightarrow> joined.op.keeps P (f x)) \<Longrightarrow> ?thesis"
    by (simp add: joined.op.keeps_def bindS_def)
qed

lemmas joined_rules = joined.more_rules people_joined [OF people_update_org]
  people_joined [OF people_get_org(1)] people_joined [OF people_get_org(2)]
  people_joined [OF people_status] joined_current_org

lemma joined_switch: "joined.op.keeps P (switch_org cf uid oid)"
  unfolding switch_org_def by (intro joined_rules)

lemma joined_join:
  "joined.op.keeps (\<lambda>m. m_org m = i_org i \<and> m_user m = uid \<and> m_role m = i_role i) (join_org ext cf now i uid)"
  unfolding join_org_def by (intro joined_rules joined_add_user) simp_all

text \<open>New organisations: their founder becomes a member.\<close>

lemma joined_mono: "joined P d d' \<Longrightarrow> (\<And>m. P m \<Longrightarrow> P' m) \<Longrightarrow> joined P' d d'"
  unfolding joined_def by auto

definition founded :: "uuid \<Rightarrow> uuid \<Rightarrow> org_db \<Rightarrow> org_db \<Rightarrow> bool" where
  "founded oid uid d d' \<longleftrightarrow>
     set (map o_id (db_orgs d)) \<subseteq> set (map o_id (db_orgs d')) \<and>
     joined (\<lambda>m. m_org m = oid \<and> m_user m = uid \<and> find_org oid d = None) d d'"

interpretation founded: db_relation "founded oid uid" for oid uid
proof
  fix a b c
  assume ab: "founded oid uid a b" and bc: "founded oid uid b c"
  have "find_org oid b = None \<Longrightarrow> find_org oid a = None"
    using ab unfolding founded_def find_None_iff_id by blast
  then have "joined (\<lambda>m. m_org m = oid \<and> m_user m = uid \<and> find_org oid a = None) b c"
    using bc unfolding founded_def by (auto elim!: joined_mono)
  with ab bc show "founded oid uid a c"
    unfolding founded_def by (blast intro: joined.Q_trans)
qed (simp add: founded_def joined.Q_same)

lemma people_founded: "people.op.keeps m \<Longrightarrow> founded.op.keeps oid uid m"
  using people.op.keepsD [of m]
  by (intro founded.op.keepsI) (fastforce simp: founded_def joined_def people_kept_def)

lemmas founded_rules = founded.more_rules people_founded [OF people_get_org(2)]

lemma insert_org_Some:
  "insert_org o1 d = Inr d' \<Longrightarrow> find_org (o_id o1) d = None \<and> d' = d\<lparr>db_orgs := db_orgs d @ [with_defaults o1]\<rparr>"
  by (auto simp: insert_org_def split: if_splits)

lemma insert_member_Some:
  "insert_member m d = Inr d' \<Longrightarrow> d' = d\<lparr>db_members := db_members d @ [m]\<rparr>"
  by (auto simp: insert_member_def split: if_splits)

lemma insert_user_Some:
  "insert_user u d = Inr d' \<Longrightarrow> d' = d\<lparr>db_users := db_users d @ [u]\<rparr>"
  by (auto simp: insert_user_def split: if_splits)

lemma bindS_ret: "bindS (retS x) f = f x"
  by (rule ext) (simp add: bindS_def)

lemma founded_lift_bind:
  "(\<And>x. r = Inr x \<Longrightarrow> founded.op.keeps oid uid (f x)) \<Longrightarrow> founded.op.keeps oid uid (bindS (liftE r) f)"
proof (cases r)
  case (Inl e)
  then show ?thesis by (simp add: founded.op.keeps_def bindS_def founded.Q_same)
next
  case (Inr x)
  then show "(\<And>x. r = Inr x \<Longrightarrow> founded.op.keeps oid uid (f x)) \<Longrightarrow> ?thesis"
    by (simp add: founded.op.keeps_def bindS_def)
qed

lemma founded_create_org:
  assumes "parse_uuid t = Inr uid"
  shows "founded.op.keeps oid uid (create_org_with_owner ext cf oid n cn ce t)"
  unfolding create_org_with_owner_def validate_name_uniqueness_def persist_with_compensation_def
    persist_org_with_owner_def create_org_member_entity_def assms bindE_simps
  by (intro founded_rules founded.keeps_change founded_lift_bind)
    (auto simp: bindE_Inr_iff founded_def joined_def member_from_settings_def create_org_entity_def
      new_org_def apply_litellm_settings_to_org_def with_defaults_def
      dest!: insert_org_Some insert_member_Some)

lemma founded_create_user:
  assumes "parse_uuid t = Inr uid"
  shows "founded.op.keeps uid uid (create_user ext t info)"
  unfolding create_user_def create_default_settings_def assms liftE_simps bindS_ret
  by (intro founded_rules founded.keeps_change founded_lift_bind)
    (auto simp: bindE_Inr_iff founded_def joined_def member_from_settings_def personal_org_def
      new_org_def with_defaults_def split: option.splits
      dest!: insert_org_Some insert_member_Some insert_user_Some)

lemma owners_founded:
  "founded oid uid d d' \<Longrightarrow> u \<in> owners i d' \<Longrightarrow> u \<notin> owners i d \<Longrightarrow> i = oid \<and> u = uid \<and> find_org oid d = None"
  unfolding founded_def using owners_joined by blast

lemma owners_founded_kept: "founded oid uid d d' \<Longrightarrow> owners i d \<subseteq> owners i d'"
  unfolding founded_def using owners_joined by blast

text \<open>Removals and changes of roles.\<close>

lemma owners_delete:
  "owners i (delete_member oid target d) = (if i = oid then owners i d - {target} else owners i d)"
  by (auto simp: owners_def delete_member_def is_owner_row_def find_role_by_id_def)

lemma owners_set_role:
  assumes "tables_ok d" "find_member oid target d \<noteq> None" "find_role_by_id (r_id nr) d = Some nr"
  shows "owners i (set_member_role oid target (r_id nr) d) =
    (if i \<noteq> oid then owners i d
     else if r_name nr = ROLE_OWNER then insert target (owners i d) else owners i d - {target})"
proof -
  let ?f = "\<lambda>k. if m_org k = oid \<and> m_user k = target then k\<lparr>m_role := r_id nr\<rparr> else k"
  have row: "is_owner_row (set_member_role oid target (r_id nr) d) m = is_owner_row d m" for m
    by (rule is_owner_row_roles) (simp add: set_member_role_def)
  have new: "m_user (?f k) = m_user k" "m_org (?f k) = m_org k"
    "is_owner_row d (?f k) = (if m_org k = oid \<and> m_user k = target then r_name nr = ROLE_OWNER else is_owner_row d k)" for k
    using assms(3) by (auto simp: is_owner_row_def)
  obtain t where t: "t \<in> set (db_members d)" "m_org t = oid" "m_user t = target"
    using assms(2) find_member_Some by blast
  have ms: "set (db_members (set_member_role oid target (r_id nr) d)) = ?f ` set (db_members d)"
    by (simp add: set_member_role_def)
  have in_owners: "u \<in> owners i (set_member_role oid target (r_id nr) d) \<longleftrightarrow>
      (\<exists>k \<in> set (db_members d). m_user k = u \<and> m_org k = i \<and>
         (if i = oid \<and> u = target then r_name nr = ROLE_OWNER else is_owner_row d k))" for u
  proof
    assume "u \<in> owners i (set_member_role oid target (r_id nr) d)"
    then obtain k where "k \<in> set (db_members d)" "u = m_user (?f k)" "m_org (?f k) = i" "is_owner_row d (?f k)"
      unfolding owners_def row ms by blast
    then show "\<exists>k \<in> set (db_members d). m_user k = u \<and> m_org k = i \<and>
         (if i = oid \<and> u = target then r_name nr = ROLE_OWNER else is_owner_row d k)"
      unfolding new by (intro bexI [of _ k]) simp_all
  next
    assume "\<exists>k \<in> set (db_members d). m_user k = u \<and> m_org k = i \<and>
         (if i = oid \<and> u = target then r_name nr = ROLE_OWNER else is_owner_row d k)"
    then obtain k where "k \<in> set (db_members d)" "m_user k = u" "m_org k = i"
      "if i = oid \<and> u = target then r_name nr = ROLE_OWNER else is_owner_row d k" by blast
    then have "?f k \<in> ?f ` set (db_members d)" "m_user (?f k) = u" "m_org (?f k) = i" "is_owner_row d (?f k)"
      unfolding new by (simp_all)
    then show "u \<in> owners i (set_member_role oid target (r_id nr) d)"
      unfolding owners_def row ms by blast
  qed
  show ?thesis
  proof (rule set_eqI)
    fix u
    show "u \<in> owners i (set_member_role oid target (r_id nr) d) \<longleftrightarrow>
      u \<in> (if i \<noteq> oid then owners i d
        else if r_name nr = ROLE_OWNER then insert target (owners i d) else owners i d - {target})"
      unfolding in_owners using t by (cases "i = oid"; cases "u = target"; auto simp: owners_def; metis)
  qed
qed

section \<open>The effect of each request\<close>

lemma tryS_raise_state: "snd (tryS m (\<lambda>e. raiseS (g e)) s) = snd (m s)"
  by (simp add: tryS_def split: prod.splits sum.splits)

lemma liftE_bind_state:
  "snd (bindS (liftE r) f s) = (case r of Inl e \<Rightarrow> s | Inr x \<Rightarrow> snd (f x s))"
  by (cases r) (simp_all add: bindS_def)

lemma bind_state_pure:
  "(\<And>x t. snd (f x t) = t) \<Longrightarrow> snd (bindS m f s) = snd (m s)"
  by (simp add: bindS_def split: prod.splits sum.splits)

lemma tryS_if_raise_state:
  "snd (tryS m (\<lambda>e. if p e then raiseS (g e) else if q e then raiseS (h e) else raiseS (k e)) s) = snd (m s)"
  by (simp add: tryS_def split: prod.splits sum.splits)

lemma remove_route_state:
  "snd (remove_member_route ext oid t c s) =
     (case (parse_uuid t, parse_uuid c) of
        (Inr target, Inr current) \<Rightarrow> snd (remove_org_member ext oid target current s)
      | _ \<Rightarrow> s)"
  unfolding remove_member_route_def tryS_if_raise_state liftE_bind_state
  by (auto intro!: bind_state_pure split: sum.splits)

lemma update_route_state:
  "snd (update_member_route oid t n c s) =
     (case (parse_uuid t, parse_uuid c) of
        (Inr target, Inr current) \<Rightarrow> snd (update_org_member oid target current n s)
      | _ \<Rightarrow> s)"
  unfolding update_member_route_def tryS_raise_state liftE_bind_state
  by (auto split: sum.splits)

lemma joined_after_removal: "joined.op.keeps P (after_removal ext oid target)"
  unfolding after_removal_def by (intro joined_rules)

lemma owners_joined_False: "joined (\<lambda>_. False) d d' \<Longrightarrow> owners i d' = owners i d"
  by (simp add: joined_def owners_def is_owner_row_def find_role_by_id_def)

lemma owner_found:
  assumes "tables_ok d" "find_member oid uid d = Some m" "find_role_by_id (m_role m) d = Some r"
  shows "uid \<in> owners oid d \<longleftrightarrow> r_name r = ROLE_OWNER"
proof -
  have m: "m \<in> set (db_members d)" "m_org m = oid" "m_user m = uid" using find_member_Some [OF assms(2)] by auto
  have row: "is_owner_row d m \<longleftrightarrow> r_name r = ROLE_OWNER" using assms(3) by (simp add: is_owner_row_def)
  have "k = m" if "k \<in> set (db_members d)" "m_org k = oid" "m_user k = uid" for k
    using find_member_in [OF assms(1) that(1)] that assms(2) by simp
  then show ?thesis using m row unfolding owners_def by blast
qed

lemma remove_owners:
  assumes ok: "tables_ok (fst s)"
  shows "owners i (fst (snd (remove_org_member ext oid target current s))) = owners i (fst s) \<or>
    i = oid \<and> current \<noteq> target \<and> (target \<in> owners oid (fst s) \<longrightarrow> current \<in> owners oid (fst s)) \<and>
    owners i (fst (snd (remove_org_member ext oid target current s))) = owners i (fst s) - {target}"
proof (cases rule: remove_org_member_cases [of ext oid target current s])
  case refused
  then show ?thesis by simp
next
  case (removed rm tm rr tr)
  have j: "joined (\<lambda>_. False) (delete_member oid target (fst s)) (fst (snd (remove_org_member ext oid target current s)))"
    unfolding removed(7)
    using joined.op.keepsD [OF joined_after_removal, of "\<lambda>_. False" "(delete_member oid target (fst s), snd s)"] by simp
  show ?thesis
    using removed(1,6) owner_found [OF ok removed(2,4)] owner_found [OF ok removed(3,5)]
    unfolding owners_joined_False [OF j] owners_delete by auto
qed

lemma update_owners:
  assumes ok: "tables_ok (fst s)"
  shows "owners i (fst (snd (update_org_member oid target current n s))) = owners i (fst s) \<or>
    i = oid \<and> current \<noteq> target \<and> target \<notin> owners oid (fst s) \<and> current \<in> owners oid (fst s) \<and>
      owners i (fst (snd (update_org_member oid target current n s))) = insert target (owners i (fst s)) \<or>
    i = oid \<and> current \<noteq> target \<and> current \<in> owners oid (fst s) \<and>
      owners i (fst (snd (update_org_member oid target current n s))) = owners i (fst s) - {target}"
proof (cases rule: update_org_member_cases [OF ok, of oid target current n])
  case 1
  then show ?thesis by simp
next
  case (2 rm tm rr tr nr)
  have t: "find_member oid target (fst s) \<noteq> None" using 2(3) by simp
  show ?thesis
    using 2(1,7) owner_found [OF ok 2(2,4)] owner_found [OF ok 2(3,5)]
    unfolding 2(8) owners_set_role [OF ok t 2(6)] by auto
qed

lemma require_permission_Inr:
  "require_permission p oid uid s = (Inr t, s') \<Longrightarrow> uid = Some t \<and> fst s' = fst s"
  using same_db.op.keepsD [OF same_db.keeps_require_permission, of s p oid uid]
  by (auto simp: require_permission_def bindS_Inr_iff raiseS_def retS_def split: option.splits if_splits)

lemma verify_owner_passed:
  assumes "verify_owner_authorization cf t oid s = (Inr (), s')" "tables_ok (fst s)"
  obtains u where "parse_uuid t = Inr u" "u \<in> owners oid (fst s)" "people_kept (fst s) (fst s')"
proof -
  obtain o1 s1 where g: "get_org_by_id cf oid s = (Inr (Some o1), s1)"
    and rest: "bindS (liftE (parse_uuid t)) (\<lambda>u.
         bindS (get_org_member oid u) (\<lambda>m. case m of
           None \<Rightarrow> raiseS (OrgAuthorizationError ''User is not a member of this organization'')
         | Some m1 \<Rightarrow> bindS (get_role_by_id (m_role m1)) (\<lambda>r1.
             if (case r1 of Some r2 \<Rightarrow> r_name r2 \<noteq> ''owner'' | None \<Rightarrow> True)
             then raiseS (OrgAuthorizationError
                    ''Only organization owners can delete organizations'')
             else retS ()))) s1 = (Inr (), s')"
    using assms(1) unfolding verify_owner_authorization_def
    by (auto simp: bindS_Inr_iff raiseS_def split: if_splits)
  have k: "people_kept (fst s) (fst s1)"
    using people.op.keepsD [OF people_get_org(1), of s cf oid] g by simp
  obtain u where u: "parse_uuid t = Inr u" using rest by (cases "parse_uuid t") (auto simp: bindS_def)
  obtain d w where s1: "s1 = (d, w)" by (cases s1)
  obtain m where m: "find_member oid u d = Some m"
    using rest u by (cases "find_member oid u d") (simp_all add: s1 bindS_def get_org_member_def)
  obtain r where r: "find_role_by_id (m_role m) d = Some r"
    using rest u m by (cases "find_role_by_id (m_role m) d")
      (simp_all add: s1 bindS_def get_org_member_def get_role_by_id_def)
  have n: "r_name r = ROLE_OWNER" "s' = s1"
    using rest u m r
    by (simp_all add: s1 bindS_def get_org_member_def get_role_by_id_def ROLE_OWNER_def [symmetric] split: if_splits)
  have f: "find_member oid u (fst s1) = Some m" "find_role_by_id (m_role m) (fst s1) = Some r"
    "r_name r = ROLE_OWNER" "s' = s1"
    using m r n s1 by simp_all
  have "u \<in> owners oid (fst s1)"
    using owner_found [OF _ f(1,2)] people_kept_ok(1) [OF k] assms(2) f(3) by simp
  then have "u \<in> owners oid (fst s)" using owners_people [OF k] by simp
  then show thesis using that u k f(4) by blast
qed

lemma delete_route_cases:
  assumes "tables_ok (fst s)"
  obtains (refused) "people_kept (fst s) (fst (snd (delete_org_route ext cf oid uid s)))"
      "\<nexists>o1. fst (delete_org_route ext cf oid uid s) = Inr o1"
  | (deleted) t u d1 where "uid = Some t" "parse_uuid t = Inr u" "u \<in> owners oid (fst s)"
      "people_kept (fst s) d1" "find_org oid d1 \<noteq> None" "cascade oid d1 = Inr (fst (snd (delete_org_route ext cf oid uid s)))"
proof -
  obtain r s1 where q: "require_permission DELETE_ORGANIZATION (Some oid) uid s = (r, s1)" by (meson surj_pair)
  have s1: "fst s1 = fst s"
    using same_db.op.keepsD [OF same_db.keeps_require_permission, of s DELETE_ORGANIZATION "Some oid" uid] q by simp
  show thesis
  proof (cases r)
    case (Inl e)
    then show thesis using refused q s1
      by (simp add: delete_org_route_def bindS_def people.Q_same)
  next
    case (Inr t)
    have t: "uid = Some t" using require_permission_Inr q Inr by blast
    have route: "delete_org_route ext cf oid uid s =
        tryS (delete_org_with_cleanup ext cf t oid) (\<lambda>e. raiseS (deletion_error e)) s1"
      using q Inr unfolding delete_org_route_def by (simp add: bindS_done)
    obtain v s2 where v: "verify_owner_authorization cf t oid s1 = (v, s2)" by (meson surj_pair)
    have k: "people_kept (fst s1) (fst s2)"
      using people.op.keepsD [of "verify_owner_authorization cf t oid" s1] v
      unfolding verify_owner_authorization_def by (simp add: people_rules)
    show thesis
    proof (cases v)
      case (Inl e)
      then show thesis using refused route v k s1
        by (simp add: delete_org_with_cleanup_def bindS_def tryS_def)
    next
      case (Inr _)
      then have "verify_owner_authorization cf t oid s1 = (Inr (), s2)" using v by simp
      then obtain u where u: "parse_uuid t = Inr u" "u \<in> owners oid (fst s1)"
        using verify_owner_passed assms s1 by metis
      obtain d2 w2 where s2: "s2 = (d2, w2)" by (cases s2)
      show thesis
      proof (cases "find_org oid d2")
        case None
        then show thesis using refused route v Inr k s1
          by (simp add: delete_org_with_cleanup_def bindS_def tryS_def delete_org_cascade_def s2)
      next
        case (Some o1)
        show thesis
        proof (cases "cascade oid d2")
          case (Inl e)
          then show thesis using refused route v Inr k s1 Some
            by (simp add: delete_org_with_cleanup_def bindS_def tryS_def delete_org_cascade_def s2)
        next
          case (Inr d3)
          obtain x w3 where x: "out_delete_team ext (uuid_str oid) w2 = (x, w3)" by (meson surj_pair)
          show thesis
          proof (cases x)
            case (Inl e)
            then show thesis using refused route v \<open>v = Inr _\<close> k s1 Some Inr x
              by (simp add: delete_org_with_cleanup_def bindS_def tryS_def delete_org_cascade_def s2)
          next
            case (Inr y)
            then show thesis
              using deleted [of t u d2] t u route v \<open>v = Inr _\<close> k s1 Some \<open>cascade oid d2 = Inr d3\<close> x
              by (simp add: delete_org_with_cleanup_def bindS_def tryS_def delete_org_cascade_def s2)
          qed
        qed
      qed
    qed
  qed
qed

end
