(* ===== verification/Org_Invitation_Facts.thy ===== *)
theory Org_Invitation_Facts
  imports Org_Requests
begin

text \<open>
  What sending and accepting invitations does to the tables.
\<close>

section \<open>Sending\<close>

definition invitations_kept :: "org_db \<Rightarrow> org_db \<Rightarrow> bool" where
  "invitations_kept d d' \<longleftrightarrow> db_invitations d' = db_invitations d"

interpretation inv_kept: db_relation invitations_kept
  by unfold_locales (simp_all add: invitations_kept_def)

lemma inv_kept_update: "inv_kept.op.keeps (update_org i kvs)"
  unfolding update_org_def
  by (intro inv_kept.rules inv_kept.keeps_change)
    (auto simp: replace_org_def invitations_kept_def split: if_splits)

lemma inv_kept_orgs:
  "inv_kept.op.keeps (get_org_by_id cf i)" "inv_kept.op.keeps (get_org_by_name cf n)"
  unfolding get_org_by_id_def get_org_by_name_def validate_org_version_def
  by (intro inv_kept.rules inv_kept_update)+

text \<open>Pending invitations are added, all by one inviter into one organisation.\<close>

definition sent :: "uuid \<Rightarrow> uuid \<Rightarrow> (int \<Rightarrow> bool) \<Rightarrow> org_db \<Rightarrow> org_db \<Rightarrow> bool" where
  "sent oid inviter role d d' \<longleftrightarrow>
     people_kept d d' \<and>
     (\<exists>js. db_invitations d' = db_invitations d @ js \<and>
        (\<forall>j \<in> set js. i_org j = oid \<and> i_inviter j = inviter \<and> i_status j = STATUS_PENDING \<and> role (i_role j)))"

interpretation sent: db_relation "sent oid inviter role" for oid inviter role
proof
  fix a b c
  assume "sent oid inviter role a b" "sent oid inviter role b c"
  then show "sent oid inviter role a c"
    unfolding sent_def using people.Q_trans [of a b c] by fastforce
qed (simp add: sent_def people.Q_same)

lemma sent_mono: "sent oid inviter p d d' \<Longrightarrow> (\<And>r. p r \<Longrightarrow> q r) \<Longrightarrow> sent oid inviter q d d'"
  unfolding sent_def by blast

lemma sent_store: "role r \<Longrightarrow> sent.op.keeps oid inviter role (store_invitation rp now oid e r inviter)"
  unfolding store_invitation_def Let_def
  by (intro sent.rules sent.keeps_change)
    (auto simp: insert_invitation_def sent_def people_kept_def split: if_splits)

lemma assignable_role_passed:
  assumes rest: "assignable_role oid role inviter s = (Inr r, s')"
  obtains m ir where "oid \<noteq> inviter" "find_member oid inviter (fst s) = Some m"
    "find_role_by_id (m_role m) (fst s) = Some ir" "find_role_by_name (py_lower role) (fst s) = Some r"
    "py_lower role = ROLE_OWNER \<longrightarrow> r_name ir = ROLE_OWNER" "s' = s"
proof -
  obtain d w where s: "s = (d, w)" by (cases s)
  have ne: "oid \<noteq> inviter" using rest by (auto simp: assignable_role_def)
  obtain m where m: "find_member oid inviter d = Some m"
    using rest ne by (cases "find_member oid inviter d")
      (simp_all add: s bindS_def get_org_member_def assignable_role_def)
  obtain ir where ir: "find_role_by_id (m_role m) d = Some ir"
    using rest ne m by (cases "find_role_by_id (m_role m) d")
      (simp_all add: s bindS_def get_org_member_def get_role_by_id_def assignable_role_def)
  have a: "py_lower role = ROLE_OWNER \<Longrightarrow> r_name ir = ROLE_OWNER"
    using rest ne m ir
    by (auto simp: s bindS_def get_org_member_def get_role_by_id_def assignable_role_def split: if_splits)
  obtain r1 where r1: "find_role_by_name (py_lower role) d = Some r1"
    using rest ne m ir by (cases "find_role_by_name (py_lower role) d")
      (simp_all add: s bindS_def get_org_member_def get_role_by_id_def get_role_by_name_def
        assignable_role_def split: if_splits)
  have "r1 = r \<and> s' = s"
    using rest ne m ir r1
    by (simp add: s bindS_def get_org_member_def get_role_by_id_def get_role_by_name_def
        assignable_role_def split: if_splits)
  then show thesis using that [of m ir] ne m ir a r1 s by simp
qed

lemma check_inviter_passed:
  assumes "check_inviter cf oid role inviter s = (Inr (o1, r), s')" and ok: "tables_ok (fst s)"
  shows "people_kept (fst s) (fst s')" "invitations_kept (fst s) (fst s')" "oid \<noteq> inviter"
    "r \<in> set (db_roles (fst s))" "r_name r = py_lower role"
    "r_name r = ROLE_OWNER \<Longrightarrow> inviter \<in> owners oid (fst s)"
proof -
  obtain q s1 where g: "get_org_by_id cf oid s = (Inr q, s1)"
    using assms(1) unfolding check_inviter_def bindS_Inr_iff by blast
  have k: "people_kept (fst s) (fst s1)" "invitations_kept (fst s) (fst s1)"
    using people.op.keepsD [OF people_get_org(1), of s cf oid]
      inv_kept.op.keepsD [OF inv_kept_orgs(1), of s cf oid] g by simp_all
  have "assignable_role oid role inviter s1 = (Inr r, s')"
    using assms(1) g unfolding check_inviter_def
    by (cases q) (auto simp: bindS_done bindS_Inr_iff)
  then obtain m ir where f: "oid \<noteq> inviter" "find_member oid inviter (fst s1) = Some m"
    "find_role_by_id (m_role m) (fst s1) = Some ir" "find_role_by_name (py_lower role) (fst s1) = Some r"
    "py_lower role = ROLE_OWNER \<longrightarrow> r_name ir = ROLE_OWNER" "s' = s1"
    by (rule assignable_role_passed)
  show "people_kept (fst s) (fst s')" "invitations_kept (fst s) (fst s')" "oid \<noteq> inviter"
    using k f by simp_all
  have roles: "db_roles (fst s1) = db_roles (fst s)" using k by (simp add: people_kept_def)
  show "r \<in> set (db_roles (fst s))" and name: "r_name r = py_lower role"
    using find_role_name_Some [OF f(4)] roles by auto
  assume "r_name r = ROLE_OWNER"
  then have "r_name ir = ROLE_OWNER" using f(5) name by simp
  then have "inviter \<in> owners oid (fst s1)"
    using owner_found [OF _ f(2,3)] people_kept_ok(1) [OF k(1)] ok by simp
  then show "inviter \<in> owners oid (fst s)" using owners_people [OF k(1)] by simp
qed

lemma people_check_inviter: "people.op.keeps (check_inviter cf oid role inviter)"
  unfolding check_inviter_def assignable_role_def by (intro people_rules)

lemma inv_kept_check_inviter: "inv_kept.op.keeps (check_inviter cf oid role inviter)"
  unfolding check_inviter_def assignable_role_def by (intro inv_kept.rules inv_kept_orgs)

text \<open>Only an owner makes invitations for owners.\<close>

definition owner_only :: "uuid \<Rightarrow> uuid \<Rightarrow> org_db \<Rightarrow> int \<Rightarrow> bool" where
  "owner_only oid inviter d n \<longleftrightarrow>
     (\<forall>r. find_role_by_id n d = Some r \<longrightarrow> r_name r = ROLE_OWNER \<longrightarrow> inviter \<in> owners oid d)"

lemma owner_only_people:
  assumes "people_kept d d'"
  shows "owner_only oid inviter d' = owner_only oid inviter d"
proof -
  have "find_role_by_id n d' = find_role_by_id n d" for n
    using assms by (simp add: people_kept_def find_role_by_id_def)
  then show ?thesis by (intro ext) (simp add: owner_only_def owners_people [OF assms])
qed

lemma invitation_sent:
  assumes ok: "tables_ok (fst s)"
  shows "sent oid inviter (owner_only oid inviter (fst s)) (fst s)
    (fst (snd (create_invitation ext cf rp now oid e role inviter s)))"
proof -
  obtain q s1 where c: "check_inviter cf oid role inviter s = (q, s1)" by (meson surj_pair)
  have k: "people_kept (fst s) (fst s1)" "invitations_kept (fst s) (fst s1)"
    using people.op.keepsD [OF people_check_inviter, of s cf oid role inviter]
      inv_kept.op.keepsD [OF inv_kept_check_inviter, of s cf oid role inviter] c by simp_all
  have first: "sent oid inviter p (fst s) (fst s1)" for p
    using k by (simp add: sent_def invitations_kept_def)
  show ?thesis
  proof (cases q)
    case (Inl x)
    then show ?thesis using c first by (simp add: create_invitation_def bindS_failed)
  next
    case (Inr y)
    obtain o1 r where y: "y = (o1, r)" by (cases y)
    have passed: "check_inviter cf oid role inviter s = (Inr (o1, r), s1)" using c Inr y by simp
    note facts = check_inviter_passed [OF passed ok]
    have role: "owner_only oid inviter (fst s) (r_id r)"
      using facts(4,6) find_role_in [OF ok facts(4)] by (simp add: owner_only_def)
    let ?rest = "send_invitation ext rp now oid (py_strip (py_lower e)) inviter (o1, r)"
    have "sent.op.keeps oid inviter (owner_only oid inviter (fst s)) ?rest"
      unfolding send_invitation_def refuse_member_def prod.case
      by (intro sent.more_rules sent_store role)
    then have "sent oid inviter (owner_only oid inviter (fst s)) (fst s1) (fst (snd (?rest s1)))"
      by (rule sent.op.keepsD)
    moreover have "create_invitation ext cf rp now oid e role inviter s = ?rest s1"
      using passed by (simp add: create_invitation_def bindS_done)
    ultimately show ?thesis using sent.Q_trans [OF first] by simp
  qed
qed

lemma sent_ok: "sent oid inviter p d d' \<Longrightarrow> tables_ok d' = tables_ok d"
  by (simp add: sent_def people_kept_ok(1))

lemma each_sent:
  assumes "tables_ok (fst s)"
  shows "sent oid inviter (owner_only oid inviter (fst s)) (fst s)
    (fst (snd (create_each ext cf now oid es role inviter s)))"
  using assms
proof (induction es arbitrary: s)
  case Nil
  show ?case by (simp add: sent.Q_same)
next
  case (Cons x es)
  obtain e rp where x: "x = (e, rp)" by (cases x)
  let ?one = "tryS (bindS (create_invitation ext cf rp now oid e role inviter) (\<lambda>i. retS (e, Inr i)))
     (\<lambda>err. retS (e, Inl err))"
  have state: "snd (?one s) = snd (create_invitation ext cf rp now oid e role inviter s)"
    by (simp add: tryS_def bindS_def split: prod.splits sum.splits)
  obtain c t where c: "create_invitation ext cf rp now oid e role inviter s = (c, t)" by (meson surj_pair)
  obtain y s1 where y: "?one s = (Inr y, s1)" using c by (cases c) (simp_all add: tryS_def bindS_def)
  have 1: "sent oid inviter (owner_only oid inviter (fst s)) (fst s) (fst s1)"
    using invitation_sent [OF Cons.prems] state y by (metis snd_conv)
  then have same: "owner_only oid inviter (fst s1) = owner_only oid inviter (fst s)"
    by (simp add: sent_def owner_only_people)
  have "sent oid inviter (owner_only oid inviter (fst s)) (fst s1)
      (fst (snd (create_each ext cf now oid es role inviter s1)))"
    using Cons.IH [of s1] Cons.prems sent_ok [OF 1] same by simp
  moreover have "snd (create_each ext cf now oid (x # es) role inviter s) =
      snd (create_each ext cf now oid es role inviter s1)"
    using y by (simp add: x bindS_def split: prod.splits sum.splits)
  ultimately show ?case using sent.Q_trans [OF 1] by simp
qed

lemma batch_sent:
  assumes ok: "tables_ok (fst s)"
  shows "sent oid inviter (owner_only oid inviter (fst s)) (fst s)
    (fst (snd (create_invitations_batch ext cf now oid es role inviter s)))"
proof -
  obtain q s1 where c: "check_inviter cf oid role inviter s = (q, s1)" by (meson surj_pair)
  have k: "people_kept (fst s) (fst s1)" "invitations_kept (fst s) (fst s1)"
    using people.op.keepsD [OF people_check_inviter, of s cf oid role inviter]
      inv_kept.op.keepsD [OF inv_kept_check_inviter, of s cf oid role inviter] c by simp_all
  have first: "sent oid inviter p (fst s) (fst s1)" for p
    using k by (simp add: sent_def invitations_kept_def)
  show ?thesis
  proof (cases q)
    case (Inl x)
    then show ?thesis using c first by (simp add: create_invitations_batch_def bindS_failed)
  next
    case (Inr y)
    have "tables_ok (fst s1)" using ok people_kept_ok(1) [OF k(1)] by simp
    from each_sent [OF this, of oid inviter ext cf now es role]
    have "sent oid inviter (owner_only oid inviter (fst s)) (fst s1)
        (fst (snd (create_each ext cf now oid es role inviter s1)))"
      unfolding owner_only_people [OF k(1)] .
    moreover have "snd (create_invitations_batch ext cf now oid es role inviter s) =
        snd (create_each ext cf now oid es role inviter s1)"
      using c Inr unfolding create_invitations_batch_def
      by (simp add: bindS_done) (rule bind_state_pure, simp split: option.splits)
    ultimately show ?thesis using sent.Q_trans [OF first] by simp
  qed
qed

section \<open>Accepting\<close>

lemma find_by_token: "fst (get_invitation_by_token t s) = Inr (find (\<lambda>i. i_token i = t) (db_invitations (fst s)))"
  by (simp add: get_invitation_by_token_def readD_def)

lemma check_status_refuses:
  assumes "i_status i \<noteq> STATUS_PENDING"
  obtains e where "check_status i s = (Inl e, s)"
  using assms
  by (cases "i_status i = STATUS_ACCEPTED"; cases "i_status i = STATUS_REVOKED") (simp_all add: check_status_def)

lemma joined_admit:
  "joined.op.keeps (\<lambda>m. m_org m = i_org i \<and> m_user m = uid \<and> m_role m = i_role i) (admit ext cf now i uid u)"
  unfolding admit_def by (intro joined_rules joined_join)

lemma accept_effect:
  "people_kept d (fst (snd (accept_invitation ext cf now token uid (d, w)))) \<or>
   (\<exists>i. find (\<lambda>i. i_token i = token) (db_invitations d) = Some i \<and> i_status i = STATUS_PENDING \<and>
      now \<le> i_expires_at i \<and>
      joined (\<lambda>m. m_org m = i_org i \<and> m_user m = uid \<and> m_role m = i_role i) d
        (fst (snd (accept_invitation ext cf now token uid (d, w)))))"
proof (cases "find (\<lambda>i. i_token i = token) (db_invitations d)")
  case None
  then show ?thesis
    by (simp add: accept_invitation_def get_invitation_by_token_def bindS_def people.Q_same)
next
  case (Some i)
  have start: "accept_invitation ext cf now token uid (d, w) =
      bindS (check_status i) (\<lambda>_.
         if is_token_expired now i
         then bindS (update_invitation_status now (i_id i) STATUS_EXPIRED None)
                (\<lambda>_. raiseS (InvitationExpiredError ''Invitation has expired''))
         else bindS (get_user_by_id uid) (\<lambda>u. case u of
           None \<Rightarrow> raiseS (InvitationInvalidError ''User not found'')
         | Some u1 \<Rightarrow> admit ext cf now i uid u1)) (d, w)"
    using Some by (simp add: accept_invitation_def get_invitation_by_token_def bindS_done)
  show ?thesis
  proof (cases "i_status i = STATUS_PENDING")
    case False
    then obtain e where "check_status i (d, w) = (Inl e, (d, w))" by (rule check_status_refuses)
    then show ?thesis unfolding start by (simp add: bindS_failed people.Q_same)
  next
    case True
    then have go: "bindS (check_status i) f (d, w) = f () (d, w)" for f :: "unit \<Rightarrow> ('a, invitation) db_op"
      by (simp add: check_status_def bindS_def)
    show ?thesis
    proof (cases "is_token_expired now i")
      case True
      have "people.op.keeps (bindS (update_invitation_status now (i_id i) STATUS_EXPIRED None)
                (\<lambda>_. raiseS (InvitationExpiredError ''Invitation has expired'') :: (_, invitation) db_op))"
        by (intro people_rules people_status)
      from people.op.keepsD [OF this, of "(d, w)"] show ?thesis unfolding start go using True by simp
    next
      case False
      have "joined.op.keeps (\<lambda>m. m_org m = i_org i \<and> m_user m = uid \<and> m_role m = i_role i)
         (bindS (get_user_by_id uid) (\<lambda>u. case u of
           None \<Rightarrow> raiseS (InvitationInvalidError ''User not found'')
         | Some u1 \<Rightarrow> admit ext cf now i uid u1))"
        by (intro joined_rules joined_admit)
      from joined.op.keepsD [OF this, of "(d, w)"] show ?thesis
        unfolding start go using False True Some by (simp add: is_token_expired_def)
    qed
  qed
qed

lemma join_org_success:
  assumes "join_org ext cf now i uid (d, w) = (Inr j, (d', w'))"
  obtains m where "m_org m = i_org i" "m_user m = uid" "m_role m = i_role i"
    "db_members d' = db_members d @ [m]" "db_roles d' = db_roles d"
    "i_status j = STATUS_ACCEPTED" "i_accepted_by j = Some uid"
    "db_invitations d' = map (\<lambda>x. if i_id x = i_id i then j else x) (db_invitations d)"
    "\<exists>k. find (\<lambda>x. i_id x = i_id i) (db_invitations d) = Some k \<and> i_token j = i_token k \<and> i_id j = i_id k \<and>
       i_org j = i_org k \<and> i_role j = i_role k"
proof -
  let ?lite = "tryS (create_litellm_integration ext (i_org i) (uuid_str uid))
      (\<lambda>_. raiseS (InvitationInvalidError ''Failed to set up organization access. Please try again.''))"
  obtain st w1 where a: "?lite (d, w) = (Inr st, (d, w1))"
  proof -
    obtain st s1 where "?lite (d, w) = (Inr st, s1)"
      using assms unfolding join_org_def bindS_Inr_iff by blast
    moreover have "d = fst (snd (?lite (d, w)))"
      using same_db.op.keepsD [of ?lite "(d, w)"] by (simp add: same_db.more_rules)
    ultimately show thesis using that by (cases s1) auto
  qed
  obtain q d1 w2 where g: "get_org_by_id cf (i_org i) (d, w1) = (Inr q, (d1, w2))"
    using assms a unfolding join_org_def by (auto simp: bindS_done bindS_Inr_iff)
  have k: "people_kept d d1" "invitations_kept d d1"
    using people.op.keepsD [OF people_get_org(1), of "(d, w1)" cf "i_org i"]
      inv_kept.op.keepsD [OF inv_kept_orgs(1), of "(d, w1)" cf "i_org i"] g by simp_all
  obtain o1 where q: "q = Some o1"
    using assms a g unfolding join_org_def by (cases q) (simp_all add: bindS_done)
  let ?key = "case setting_text st ''llm_api_key'' of Some k \<Rightarrow> k | None \<Rightarrow> []"
  let ?add = "add_user_to_org (i_org i) uid (i_role i) ?key (Some ''active'') (attr_text ''default_llm_model'' o1)
     (attr_text ''default_llm_base_url'' o1) (attr_int ''default_max_iterations'' o1)"
  have rest: "bindS ?add (\<lambda>_. bindS (update_invitation_status now (i_id i) STATUS_ACCEPTED (Some uid)) (\<lambda>j. case j of
           None \<Rightarrow> raiseS (InvitationInvalidError ''Failed to update invitation status'')
         | Some j1 \<Rightarrow> retS j1)) (d1, w2) = (Inr j, (d', w'))"
    using assms a g q unfolding join_org_def by (simp add: bindS_done)
  obtain m where m: "m_org m = i_org i" "m_user m = uid" "m_role m = i_role i"
    "?add (d1, w2) = (Inr m, (d1\<lparr>db_members := db_members d1 @ [m]\<rparr>, w2))"
    using rest unfolding bindS_Inr_iff add_user_to_org_def Let_def
    by (auto simp: bindS_def insert_member_def split: if_splits)
  let ?d2 = "d1\<lparr>db_members := db_members d1 @ [m]\<rparr>"
  have upd: "bindS (update_invitation_status now (i_id i) STATUS_ACCEPTED (Some uid)) (\<lambda>j. case j of
           None \<Rightarrow> raiseS (InvitationInvalidError ''Failed to update invitation status'')
         | Some j1 \<Rightarrow> retS j1) (?d2, w2) = (Inr j, (d', w'))"
    using rest m(4) by (simp add: bindS_done)
  obtain x where x: "find (\<lambda>x. i_id x = i_id i) (db_invitations d1) = Some x"
    using upd by (cases "find (\<lambda>x. i_id x = i_id i) (db_invitations d1)")
      (simp_all add: update_invitation_status_def bindS_def)
  have j: "j = x\<lparr>i_status := STATUS_ACCEPTED, i_accepted_at := Some now, i_accepted_by := Some uid\<rparr>"
    "d' = ?d2\<lparr>db_invitations := map (\<lambda>y. if i_id y = i_id i then j else y) (db_invitations d1)\<rparr>"
    using upd x by (auto simp: update_invitation_status_def bindS_done Let_def)
  show thesis
    using that [of m] m(1-3) j x k by (simp add: people_kept_def invitations_kept_def)
qed

lemma accept_success:
  assumes "accept_invitation ext cf now token uid (d, w) = (Inr j, (d', w'))"
  obtains i u e where "find (\<lambda>i. i_token i = token) (db_invitations d) = Some i"
    "i_status i = STATUS_PENDING" "now \<le> i_expires_at i" "find_user uid d = Some u"
    "fst (account_email ext u (d, w)) = Inr (Some e)" "e \<noteq> []"
    "py_strip (py_lower e) = py_strip (py_lower (i_email i))" "find_member (i_org i) uid d = None"
    "\<exists>w1. join_org ext cf now i uid (d, w1) = (Inr j, (d', w'))"
proof -
  obtain i where i: "find (\<lambda>i. i_token i = token) (db_invitations d) = Some i"
    using assms by (cases "find (\<lambda>i. i_token i = token) (db_invitations d)")
      (simp_all add: accept_invitation_def get_invitation_by_token_def bindS_done)
  have pending: "i_status i = STATUS_PENDING"
  proof (rule ccontr)
    assume "i_status i \<noteq> STATUS_PENDING"
    then obtain e where "check_status i (d, w) = (Inl e, (d, w))" by (rule check_status_refuses)
    then show False
      using assms i by (simp add: accept_invitation_def get_invitation_by_token_def bindS_done bindS_failed)
  qed
  then have status: "check_status i (d, w) = (Inr (), (d, w))" by (simp add: check_status_def)
  have fresh: "\<not> is_token_expired now i"
    using assms i status
    by (auto simp: accept_invitation_def get_invitation_by_token_def bindS_done bindS_Inr_iff)
  obtain u where u: "find_user uid d = Some u"
    using assms i status fresh by (cases "find_user uid d")
      (simp_all add: accept_invitation_def get_invitation_by_token_def bindS_done get_user_by_id_def)
  have admit: "admit ext cf now i uid u (d, w) = (Inr j, (d', w'))"
    using assms i status fresh u
    by (simp add: accept_invitation_def get_invitation_by_token_def bindS_done get_user_by_id_def)
  obtain email w1 where a: "account_email ext u (d, w) = (Inr email, (d, w1))"
  proof -
    obtain email s1 where "account_email ext u (d, w) = (Inr email, s1)"
      using admit unfolding admit_def bindS_Inr_iff by blast
    moreover have "d = fst (snd (account_email ext u (d, w)))"
      using same_db.op.keepsD [of "account_email ext u" "(d, w)"] by (simp add: same_db.more_rules)
    ultimately show thesis using that by (cases s1) auto
  qed
  obtain e where e: "email = Some e" "e \<noteq> []" "py_strip (py_lower e) = py_strip (py_lower (i_email i))"
    using admit a unfolding admit_def
    by (cases email) (auto simp: bindS_done bindS_Inr_iff check_email_def split: if_splits)
  have ok: "check_email i email (d, w1) = (Inr (), (d, w1))" using e by (simp add: check_email_def)
  have none: "find_member (i_org i) uid d = None"
    and join: "join_org ext cf now i uid (d, w1) = (Inr j, (d', w'))"
    using admit a ok unfolding admit_def
    by (auto simp: bindS_done get_org_member_def split: if_splits)
  show thesis
    using that [of i u e] i pending fresh u a e none join by (auto simp: is_token_expired_def)
qed

end
