(* ===== verification/Org_Properties.thy ===== *)
theory Org_Properties
  imports Org_Invitation_Facts
begin

text \<open>
  What holds of the organisations of the hosted product whatever is requested: they keep an owner,
  ownership changes hands only as owners decide, and invitations admit those they name, once. Also
  the cases in which less holds: two demotions at the same time, and what is left of a deleted
  organisation.
\<close>

section \<open>Who becomes an owner, and who stops being one\<close>

definition same_user :: "string \<Rightarrow> uuid \<Rightarrow> bool" where
  "same_user t u \<longleftrightarrow> parse_uuid t = Inr u"

definition acts_as_owner :: "org_db \<Rightarrow> uuid \<Rightarrow> string \<Rightarrow> bool" where
  "acts_as_owner d oid t \<longleftrightarrow> (case parse_uuid t of Inr c \<Rightarrow> c \<in> owners oid d | Inl _ \<Rightarrow> False)"

definition open_invitation :: "org_db \<Rightarrow> int \<Rightarrow> string \<Rightarrow> invitation option" where
  "open_invitation d now token =
     (case find (\<lambda>i. i_token i = token) (db_invitations d) of
        Some i \<Rightarrow> if i_status i = STATUS_PENDING \<and> now \<le> i_expires_at i then Some i else None
      | None \<Rightarrow> None)"

definition names_owner :: "org_db \<Rightarrow> int \<Rightarrow> bool" where
  "names_owner d n \<longleftrightarrow> (case find_role_by_id n d of Some r \<Rightarrow> r_name r = ROLE_OWNER | None \<Rightarrow> False)"

fun grants :: "org_db \<Rightarrow> org_request \<Rightarrow> uuid \<Rightarrow> uuid \<Rightarrow> bool" where
  "grants d (Create_User t info) oid u = (find_org oid d = None \<and> oid = u \<and> same_user t u)"
| "grants d (Create_Org i n cn ce t) oid u = (find_org oid d = None \<and> i = oid \<and> same_user t u)"
| "grants d (Change_Role i t n c) oid u = (i = oid \<and> same_user t u \<and> acts_as_owner d oid c)"
| "grants d (Accept now token v) oid u =
     (v = u \<and> (case open_invitation d now token of
        Some i \<Rightarrow> i_org i = oid \<and> names_owner d (i_role i) | None \<Rightarrow> False))"
| "grants d rq oid u = False"

fun revokes :: "org_db \<Rightarrow> org_request \<Rightarrow> uuid \<Rightarrow> uuid \<Rightarrow> bool" where
  "revokes d (Remove_Member i t c) oid u =
     (i = oid \<and> same_user t u \<and> \<not> same_user c u \<and> acts_as_owner d oid c)"
| "revokes d (Change_Role i t n c) oid u =
     (i = oid \<and> same_user t u \<and> \<not> same_user c u \<and> acts_as_owner d oid c)"
| "revokes d (Delete_Org i t) oid u =
     (i = oid \<and> (case t of Some c \<Rightarrow> acts_as_owner d oid c | None \<Rightarrow> False))"
| "revokes d rq oid u = False"

definition owner_changes :: "org_db \<Rightarrow> org_request \<Rightarrow> org_db \<Rightarrow> bool" where
  "owner_changes d rq d' \<longleftrightarrow>
     (\<forall>oid u. (u \<in> owners oid d' \<longrightarrow> u \<in> owners oid d \<or> grants d rq oid u) \<and>
              (u \<in> owners oid d \<longrightarrow> u \<in> owners oid d' \<or> revokes d rq oid u))"

lemma owner_changes_same: "(\<And>oid. owners oid d' = owners oid d) \<Longrightarrow> owner_changes d rq d'"
  by (simp add: owner_changes_def)

lemma create_user_owners:
  "owner_changes (fst s) (Create_User t info) (fst (perform ext cf (Create_User t info) s))"
proof (cases "parse_uuid t")
  case (Inl e)
  then show ?thesis by (simp add: create_user_def bindS_def owner_changes_same)
next
  case (Inr u)
  have "founded u u (fst s) (fst (snd (create_user ext t info s)))"
    by (rule founded.op.keepsD [OF founded_create_user [OF Inr]])
  then show ?thesis
    using owners_founded owners_founded_kept Inr
    unfolding owner_changes_def by (fastforce simp: same_user_def)
qed

lemma bind_lift_failed: "bindS (liftE (Inl e)) f = raiseS e"
  by (rule ext) (simp add: bindS_def)

lemma create_org_owners:
  "owner_changes (fst s) (Create_Org i n cn ce t) (fst (perform ext cf (Create_Org i n cn ce t) s))"
proof (cases "parse_uuid t")
  case (Inl e)
  have "people.op.keeps (create_org_with_owner ext cf i n cn ce t)"
    unfolding create_org_with_owner_def validate_name_uniqueness_def create_org_member_entity_def Inl bindE_simps
      bind_lift_failed by (intro people_rules)
  from people.op.keepsD [OF this, of s] show ?thesis
    by (simp add: owner_changes_same owners_people)
next
  case (Inr u)
  have "founded i u (fst s) (fst (snd (create_org_with_owner ext cf i n cn ce t s)))"
    by (rule founded.op.keepsD [OF founded_create_org [OF Inr]])
  then show ?thesis
    using owners_founded owners_founded_kept Inr
    unfolding owner_changes_def by (fastforce simp: same_user_def)
qed

lemma remove_member_owners:
  assumes "tables_ok (fst s)"
  shows "owner_changes (fst s) (Remove_Member i t c) (fst (perform ext cf (Remove_Member i t c) s))"
proof (cases "\<exists>target current. parse_uuid t = Inr target \<and> parse_uuid c = Inr current")
  case False
  then show ?thesis
    by (cases "parse_uuid t"; cases "parse_uuid c") (simp_all add: remove_route_state owner_changes_same)
next
  case True
  then obtain target current where p: "parse_uuid t = Inr target" "parse_uuid c = Inr current" by blast
  show ?thesis
    using remove_owners [OF assms, of _ ext i target current] p
    unfolding owner_changes_def by (fastforce simp: remove_route_state same_user_def acts_as_owner_def)
qed

lemma change_role_owners:
  assumes "tables_ok (fst s)"
  shows "owner_changes (fst s) (Change_Role i t n c) (fst (perform ext cf (Change_Role i t n c) s))"
proof (cases "\<exists>target current. parse_uuid t = Inr target \<and> parse_uuid c = Inr current")
  case False
  then show ?thesis
    by (cases "parse_uuid t"; cases "parse_uuid c") (simp_all add: update_route_state owner_changes_same)
next
  case True
  then obtain target current where p: "parse_uuid t = Inr target" "parse_uuid c = Inr current" by blast
  show ?thesis
    using update_owners [OF assms, of _ i target current n] p
    unfolding owner_changes_def by (fastforce simp: update_route_state same_user_def acts_as_owner_def)
qed

lemma owners_cascade:
  assumes "cascade oid d = Inr d'"
  shows "owners i d' = (if i = oid then {} else owners i d)"
proof -
  have "db_roles d' = db_roles d" "db_members d' = filter (\<lambda>m. m_org m \<noteq> oid) (db_members d)"
    using assms by (auto simp: cascade_def Let_def split: if_splits)
  then show ?thesis by (auto simp: owners_def is_owner_row_def find_role_by_id_def)
qed

lemma delete_owners:
  assumes "tables_ok (fst s)"
  shows "owner_changes (fst s) (Delete_Org i t) (fst (perform ext cf (Delete_Org i t) s))"
proof (cases rule: delete_route_cases [OF assms, of ext cf i t])
  case 1
  then show ?thesis by (simp add: owner_changes_same owners_people)
next
  case (2 tt u d1)
  have "owners j (fst (perform ext cf (Delete_Org i t) s)) = (if j = i then {} else owners j (fst s))" for j
    using owners_cascade [OF 2(6)] owners_people [OF 2(4)] by simp
  then show ?thesis using 2(1-3) by (simp add: owner_changes_def acts_as_owner_def)
qed

lemma accept_owners:
  "owner_changes (fst s) (Accept now token v) (fst (perform ext cf (Accept now token v) s))"
proof -
  obtain d w where s: "s = (d, w)" by (cases s)
  show ?thesis
    using accept_effect [of d ext cf now token v w]
  proof (elim disjE exE conjE)
    assume "people_kept d (fst (snd (accept_invitation ext cf now token v (d, w))))"
    then show ?thesis by (simp add: s owner_changes_same owners_people)
  next
    fix i
    assume i: "find (\<lambda>i. i_token i = token) (db_invitations d) = Some i" "i_status i = STATUS_PENDING"
      "now \<le> i_expires_at i"
      and j: "joined (\<lambda>m. m_org m = i_org i \<and> m_user m = v \<and> m_role m = i_role i) d
        (fst (snd (accept_invitation ext cf now token v (d, w))))"
    have "open_invitation d now token = Some i" using i by (simp add: open_invitation_def)
    moreover have "i_org i = oid \<and> u = v \<and> names_owner d (i_role i)"
      if "u \<in> owners oid (fst (snd (accept_invitation ext cf now token v (d, w))))" "u \<notin> owners oid d" for oid u
      using that owners_joined [OF j, of u oid] by (auto simp: is_owner_row_def names_owner_def)
    moreover have "u \<in> owners oid (fst (snd (accept_invitation ext cf now token v (d, w))))"
      if "u \<in> owners oid d" for oid u using that owners_joined [OF j, of u oid] by blast
    ultimately show ?thesis unfolding owner_changes_def s by fastforce
  qed
qed

lemma perform_owners:
  assumes "tables_ok (fst s)"
  shows "owner_changes (fst s) rq (fst (perform ext cf rq s))"
proof (cases rq)
  case (Update_Org oid upd uid)
  have "people.op.keeps (update_org_route cf oid upd uid)"
    unfolding update_org_route_def by (intro people_rules people_update)
  from people.op.keepsD [OF this, of s] show ?thesis by (simp add: Update_Org owner_changes_same owners_people)
next
  case (Switch_Org t oid)
  have "joined.op.keeps (\<lambda>_. False) (switch_org cf t oid)" by (rule joined_switch)
  from joined.op.keepsD [OF this, of s] show ?thesis
    by (simp add: Switch_Org owner_changes_same owners_joined_False)
next
  case (Invite now oid es role inviter)
  from people.op.keepsD [OF people_invite_batch, of s ext cf now oid es role inviter]
  show ?thesis by (simp add: Invite owner_changes_same owners_people)
qed (simp_all only: create_user_owners create_org_owners remove_member_owners [OF assms]
    change_role_owners [OF assms] delete_owners [OF assms] accept_owners)

section \<open>Demotions at the same time\<close>

lemma owner_row_of:
  assumes "u \<in> owners oid d" "tables_ok d"
  obtains m r where "find_member oid u d = Some m" "find_role_by_id (m_role m) d = Some r" "r_name r = ROLE_OWNER"
proof -
  obtain m where m: "m \<in> set (db_members d)" "m_org m = oid" "m_user m = u" "is_owner_row d m"
    using assms(1) by (auto simp: owners_def)
  then have "find_member oid u d = Some m" using find_member_in [OF assms(2)] by blast
  moreover obtain r where "find_role_by_id (m_role m) d = Some r" "r_name r = ROLE_OWNER"
    using m(4) by (auto simp: is_owner_row_def split: option.splits)
  ultimately show thesis by (rule that)
qed

lemma owners_rows: "owners oid d = m_user ` set (owner_rows oid d)"
  by (auto simp: owners_def owner_rows_def members_of_def)

lemma not_last_owner:
  assumes "a \<in> owners oid d" "b \<in> owners oid d" "a \<noteq> b"
  shows "is_last_owner oid u (d, w) = (Inr False, (d, w))"
proof -
  have "length (owner_rows oid d) \<noteq> 1"
  proof
    assume "length (owner_rows oid d) = 1"
    then obtain m where "owner_rows oid d = [m]" by (auto simp: length_Suc_conv)
    then show False using assms unfolding owners_rows by simp
  qed
  then show ?thesis by (simp add: is_last_owner_def)
qed

text \<open>What the check of a change of role answers when one owner demotes another.\<close>

lemma owner_demotes_owner:
  assumes ok: "tables_ok d" and ab: "a \<in> owners oid d" "b \<in> owners oid d" "a \<noteq> b"
    and r: "find_role_by_name (py_lower n) d = Some r"
  shows "check_update oid b a (Some n) (d, w) = (Inr (Inr r), (d, w))"
proof -
  obtain ma ra where a: "find_member oid a d = Some ma" "find_role_by_id (m_role ma) d = Some ra" "r_name ra = ROLE_OWNER"
    using ab(1) ok by (rule owner_row_of)
  obtain mb rb where b: "find_member oid b d = Some mb" "find_role_by_id (m_role mb) d = Some rb" "r_name rb = ROLE_OWNER"
    using ab(2) ok by (rule owner_row_of)
  show ?thesis
    using ab(3) a b r
    by (simp add: check_update_def bindS_done get_org_member_def get_role_by_id_def get_role_by_name_def
        can_update_member_role_def not_last_owner [OF ab])
qed

lemma finish_update_db:
  assumes "find_member oid u d \<noteq> None" "find_role_by_id (r_id r) d = Some r"
  shows "fst (snd (finish_update oid u r (d, w))) = set_member_role oid u (r_id r) d"
  using assms
  by (auto simp: finish_update_def update_user_role_in_org_def get_org_member_def get_user_by_id_def bindS_def)

lemma finish_update_done:
  assumes "find_member oid u d = Some m" "find_role_by_id (r_id r) d = Some r"
  obtains x where "finish_update oid u r (d, w) = (Inr x, (set_member_role oid u (r_id r) d, w))"
  using assms
  by (auto simp: finish_update_def update_user_role_in_org_def get_org_member_def get_user_by_id_def bindS_def)

lemma set_member_role_kept:
  assumes "tables_ok d" "find_role_by_id n d \<noteq> None"
  shows "tables_ok (set_member_role oid u n d)" "find_role_by_id k (set_member_role oid u n d) = find_role_by_id k d"
    "find_member i v (set_member_role oid u n d) = None \<longleftrightarrow> find_member i v d = None"
proof -
  have e: "map member_key (db_members (set_member_role oid u n d)) = map member_key (db_members d)"
    by (simp add: set_member_role_def member_key_def)
  show "tables_ok (set_member_role oid u n d)"
    using assms unfolding tables_ok_def e by (auto simp: set_member_role_def find_None_iff_id)
  show "find_role_by_id k (set_member_role oid u n d) = find_role_by_id k d"
    by (simp add: set_member_role_def find_role_by_id_def)
  show "find_member i v (set_member_role oid u n d) = None \<longleftrightarrow> find_member i v d = None"
    unfolding find_None_iff_id set_map e [unfolded set_map [symmetric]] by (metis e set_map)
qed

section \<open>What is left of a deleted organisation\<close>

lemma inv_kept_delete_route: "inv_kept.op.keeps (delete_org_route ext cf oid uid)"
proof -
  have "inv_kept.op.keeps (delete_org_cascade ext oid)"
    by (rule inv_kept.op.keepsI)
      (auto simp: delete_org_cascade_def inv_kept.Q_same invitations_kept_def cascade_def Let_def
        split: option.splits sum.splits prod.splits if_splits)
  then show ?thesis
    unfolding delete_org_route_def delete_org_with_cleanup_def verify_owner_authorization_def
    by (intro inv_kept.more_rules inv_kept_orgs)
qed

lemma cascade_leaves:
  assumes "cascade oid d = Inr d'"
  shows "db_orgs d' = db_orgs d" "members_of oid d' = []" "find_org i d' = find_org i d"
  using assms by (auto simp: cascade_def Let_def members_of_def filter_empty_conv find_org_def split: if_splits)

section \<open>Invitations\<close>

lemma find_replaced:
  assumes "find p xs = Some x" "\<And>y. y \<in> set xs \<Longrightarrow> p (f y) = p y"
  shows "find p (map f xs) = Some (f x)"
  using assms by (induction xs) (auto split: if_splits)

lemma accepted_marked:
  assumes ids: "distinct (map i_id is)" and i: "find (\<lambda>i. i_token i = token) is = Some i"
    and k: "find (\<lambda>x. i_id x = i_id i) is = Some k" and j: "i_token j = i_token k"
  shows "find (\<lambda>i. i_token i = token) (map (\<lambda>x. if i_id x = i_id i then j else x) is) = Some j" "k = i"
proof -
  have "i \<in> set is" using i by (auto simp: find_Some_iff)
  then show k: "k = i" using find_key [OF ids] k by simp
  have one: "y = i" if "y \<in> set is" "i_id y = i_id i" for y
    using find_key [OF ids that(1)] that(2) \<open>k = i\<close> assms(3) by simp
  have "i_token i = token" using i by (auto simp: find_Some_iff)
  then have "i_token (if i_id y = i_id i then j else y) = token \<longleftrightarrow> i_token y = token" if "y \<in> set is" for y
    using one [OF that] j k by (cases "y = i") auto
  then show "find (\<lambda>i. i_token i = token) (map (\<lambda>x. if i_id x = i_id i then j else x) is) = Some j"
    using find_replaced [OF i, of "\<lambda>x. if i_id x = i_id i then j else x"] by simp
qed

lemma accepted_refused:
  assumes "find (\<lambda>i. i_token i = token) (db_invitations d) = Some j" "i_status j = STATUS_ACCEPTED"
  shows "accept_invitation ext cf now token uid (d, w) =
    (Inl (InvitationInvalidError ''Invitation has already been accepted''), (d, w))"
proof -
  have "STATUS_ACCEPTED \<noteq> STATUS_PENDING" by (simp add: STATUS_ACCEPTED_def STATUS_PENDING_def)
  then show ?thesis
    using assms by (simp add: accept_invitation_def get_invitation_by_token_def bindS_def check_status_def)
qed

text \<open>The member that accepting an invitation adds.\<close>

definition admitted_by :: "invitation \<Rightarrow> uuid \<Rightarrow> org_member \<Rightarrow> bool" where
  "admitted_by i uid m \<longleftrightarrow> m_org m = i_org i \<and> m_user m = uid \<and> m_role m = i_role i"

definition addressed_to :: "'w outside \<Rightarrow> org_db \<times> 'w \<Rightarrow> invitation \<Rightarrow> uuid \<Rightarrow> bool" where
  "addressed_to ext s i uid \<longleftrightarrow>
     (case find_user uid (fst s) of
        Some u \<Rightarrow> (case fst (account_email ext u s) of
            Inr (Some e) \<Rightarrow> e \<noteq> [] \<and> py_strip (py_lower e) = py_strip (py_lower (i_email i))
          | _ \<Rightarrow> False)
      | None \<Rightarrow> False)"

lemma accept_admits:
  assumes acc: "accept_invitation ext cf now token uid (d, w) = (Inr j, (d', w'))"
    and ids: "distinct (map i_id (db_invitations d))"
  obtains i m where "open_invitation d now token = Some i" "addressed_to ext (d, w) i uid"
    "find_member (i_org i) uid d = None" "db_members d' = db_members d @ [m]" "admitted_by i uid m"
    "find (\<lambda>i. i_token i = token) (db_invitations d') = Some j" "i_status j = STATUS_ACCEPTED"
    "i_accepted_by j = Some uid"
proof -
  obtain i u e where i: "find (\<lambda>i. i_token i = token) (db_invitations d) = Some i"
    "i_status i = STATUS_PENDING" "now \<le> i_expires_at i" "find_user uid d = Some u"
    "fst (account_email ext u (d, w)) = Inr (Some e)" "e \<noteq> []"
    "py_strip (py_lower e) = py_strip (py_lower (i_email i))" "find_member (i_org i) uid d = None"
    "\<exists>w1. join_org ext cf now i uid (d, w1) = (Inr j, (d', w'))"
    using acc by (rule accept_success)
  then obtain w1 where "join_org ext cf now i uid (d, w1) = (Inr j, (d', w'))" by blast
  then obtain m where m: "m_org m = i_org i" "m_user m = uid" "m_role m = i_role i"
    "db_members d' = db_members d @ [m]" "i_status j = STATUS_ACCEPTED" "i_accepted_by j = Some uid"
    "db_invitations d' = map (\<lambda>x. if i_id x = i_id i then j else x) (db_invitations d)"
    "\<exists>k. find (\<lambda>x. i_id x = i_id i) (db_invitations d) = Some k \<and> i_token j = i_token k \<and> i_id j = i_id k \<and>
       i_org j = i_org k \<and> i_role j = i_role k"
    by (rule join_org_success)
  then obtain k where k: "find (\<lambda>x. i_id x = i_id i) (db_invitations d) = Some k" "i_token j = i_token k" by blast
  show thesis
    using that [of i m] i m(1-6) accepted_marked [OF ids i(1) k]
    unfolding m(7) by (simp add: open_invitation_def addressed_to_def admitted_by_def)
qed

section \<open>Tables to try the properties on\<close>

definition sample_role :: "int \<Rightarrow> string \<Rightarrow> role" where
  "sample_role i n = \<lparr>r_id = i, r_name = n, r_rank = i\<rparr>"

definition sample_org :: "uuid \<Rightarrow> string \<Rightarrow> org" where
  "sample_org i n = \<lparr>o_id = i, o_attrs = [(''name'', JStr n), (''org_version'', JInt 5)]\<rparr>"

definition sample_member :: "uuid \<times> uuid \<times> int \<Rightarrow> org_member" where
  "sample_member = (\<lambda>(oid, uid, r). \<lparr>m_org = oid, m_user = uid, m_role = r, m_llm_api_key = None,
     m_max_iterations = None, m_llm_model = None, m_byor_key = None, m_llm_base_url = None, m_status = None\<rparr>)"

text \<open>Users 1 and 2 own organisation 9 and user 3 is an admin of it; user 4 is invited as a member.\<close>

definition sample_invitation :: invitation where
  "sample_invitation = \<lparr>i_id = 1, i_token = ''inv-a'', i_org = 9, i_email = ''d@x.y'', i_role = 3, i_inviter = 1,
     i_status = ''pending'', i_expires_at = 100, i_accepted_at = None, i_accepted_by = None\<rparr>"

definition sample_tables :: org_db where
  "sample_tables = \<lparr>db_roles = [sample_role 1 ''owner'', sample_role 2 ''admin'', sample_role 3 ''member''],
     db_orgs = [sample_org 1 ''a'', sample_org 2 ''b'', sample_org 3 ''c'', sample_org 4 ''d'', sample_org 9 ''acme''],
     db_members = map sample_member [(1, 1, 1), (2, 2, 1), (3, 3, 1), (4, 4, 1), (9, 1, 1), (9, 2, 1), (9, 3, 2)],
     db_users = [\<lparr>u_id = 1, u_current_org = 9, u_email = Some ''a@x.y''\<rparr>,
       \<lparr>u_id = 2, u_current_org = 2, u_email = Some ''b@x.y''\<rparr>, \<lparr>u_id = 3, u_current_org = 9, u_email = None\<rparr>,
       \<lparr>u_id = 4, u_current_org = 4, u_email = Some ''D@x.y''\<rparr>],
     db_invitations = [sample_invitation], db_conversations = [(''c'', 9)], db_conversation_metadata = [''c''],
     db_start_tasks = [], db_owned = [(''api_keys'', 9)]\<rparr>"

definition sample_config :: org_config where
  "sample_config = \<lparr>cf_default_model = ''m'', cf_api_url = ''u''\<rparr>"

text \<open>The outside world keeps the number of calls that reached it.\<close>

definition sample_outside :: "nat outside" where
  "sample_outside = \<lparr>out_create_entries = (\<lambda>_ _ _ n. (Inr (Some [(''llm_api_key'', JStr ''k'')]), Suc n)),
     out_delete_team = (\<lambda>_ n. (Inr (), Suc n)), out_remove_from_team = (\<lambda>_ _ n. (Inr (), Suc n)),
     out_user_info = (\<lambda>_ n. (Inr None, Suc n)), out_send_invitation = (\<lambda>_ _ _ _ _ _ n. (Inr (), Suc n))\<rparr>"

lemma sample_ok: "tables_ok sample_tables"
  by code_simp

lemma sample_has_owner: "has_owner 9 sample_tables"
  by code_simp

lemma sample_owners: "owners 9 sample_tables = {1, 2}"
proof -
  have "map m_user (owner_rows 9 sample_tables) = [1, 2]" by code_simp
  then have "set (map m_user (owner_rows 9 sample_tables)) = {1, 2}" by simp
  then show ?thesis unfolding owners_rows by simp
qed

section \<open>Properties\<close>

text \<open>
  C31. As long as nobody deletes it, an organisation that has an owner has one after any sequence of
  requests, and the tables keep their keys and references: the last owner can neither leave nor be
  removed nor be given another role.
\<close>

theorem organisation_keeps_owner:
  assumes "tables_ok (fst s)" "has_owner oid (fst s)" "\<And>rq. rq \<in> set rqs \<Longrightarrow> \<not> deletes oid rq"
  shows "tables_ok (fst (fold (perform ext cf) rqs s)) \<and> has_owner oid (fst (fold (perform ext cf) rqs s))"
  using run_owned [of rqs "- {oid}" s ext cf] assms by (auto simp: owners_kept_def)

theorem organisation_keeps_owner_witness:
  "tables_ok (fst (fold (perform sample_outside sample_config)
      [Remove_Member 9 (uuid_str 2) (uuid_str 1), Change_Role 9 (uuid_str 1) (Some ''member'') (uuid_str 1),
       Accept 50 ''inv-a'' 4] (sample_tables, 0))) \<and>
   has_owner 9 (fst (fold (perform sample_outside sample_config)
      [Remove_Member 9 (uuid_str 2) (uuid_str 1), Change_Role 9 (uuid_str 1) (Some ''member'') (uuid_str 1),
       Accept 50 ''inv-a'' 4] (sample_tables, 0)))"
  by (rule organisation_keeps_owner) (auto simp: sample_ok sample_has_owner)

text \<open>
  C35. One request changes who owns an organisation only as \<open>grants\<close> and \<open>revokes\<close> say: founders own what they
  found, and otherwise an owner has to have acted, or invited the new owner, whose invitation is
  pending and has not expired. Nobody stops being an owner by an own request, save by deleting the
  organisation. Invitations that make owners are only made by owners.
\<close>

theorem ownership_changes_authorised:
  assumes "tables_ok (fst s)"
  shows "(\<forall>oid u. u \<in> owners oid (fst (perform ext cf rq s)) - owners oid (fst s) \<longrightarrow> grants (fst s) rq oid u) \<and>
    (\<forall>oid u. u \<in> owners oid (fst s) - owners oid (fst (perform ext cf rq s)) \<longrightarrow> revokes (fst s) rq oid u) \<and>
    (\<forall>now oid es role inviter. rq = Invite now oid es role inviter \<longrightarrow>
       sent oid inviter (owner_only oid inviter (fst s)) (fst s) (fst (perform ext cf rq s)))"
  using perform_owners [OF assms, of rq ext cf] batch_sent [OF assms]
  unfolding owner_changes_def by (metis DiffE perform.simps(8))

theorem ownership_changes_authorised_witness:
  "owners 9 (fst (perform sample_outside sample_config (Remove_Member 9 (uuid_str 2) (uuid_str 3)) (sample_tables, 0)))
     = {1, 2}"
proof -
  have "parse_uuid (uuid_str 3) = Inr 3" by code_simp
  then have "\<not> acts_as_owner sample_tables 9 (uuid_str 3)" by (simp add: acts_as_owner_def sample_owners)
  moreover note ownership_changes_authorised [of "(sample_tables, 0)" sample_outside sample_config
      "Remove_Member 9 (uuid_str 2) (uuid_str 3)", unfolded fst_conv, OF sample_ok]
  ultimately have "u \<in> owners 9 (fst (perform sample_outside sample_config
      (Remove_Member 9 (uuid_str 2) (uuid_str 3)) (sample_tables, 0))) \<longleftrightarrow> u \<in> {1, 2}" for u
    unfolding sample_owners [symmetric] by (metis Diff_iff grants.simps(8) revokes.simps(1))
  then show ?thesis by (intro set_eqI)
qed

text \<open>
  Checks and changes are separate transactions. Two owners who are the only ones and demote each
  other at the same time both pass the check for the last owner, and the organisation ends without
  one. (One after the other, the second is refused, as \<open>organisation_keeps_owner\<close> shows.)
\<close>

theorem concurrent_demotions_leave_no_owner:
  assumes "tables_ok d" "owners oid d = {a, b}" "a \<noteq> b" "find_role_by_name (py_lower n) d = Some r"
    "r_name r \<noteq> ROLE_OWNER"
  shows "check_update oid b a (Some n) (d, w) = (Inr (Inr r), (d, w)) \<and>
    check_update oid a b (Some n) (d, w) = (Inr (Inr r), (d, w)) \<and>
    owners oid (fst (snd (bindS (finish_update oid b r) (\<lambda>_. finish_update oid a r) (d, w)))) = {}"
proof -
  let ?d1 = "set_member_role oid b (r_id r) d"
  have ab: "a \<in> owners oid d" "b \<in> owners oid d" using assms(2) by simp_all
  have r: "find_role_by_id (r_id r) d = Some r"
    using find_role_in [OF assms(1)] find_role_name_Some [OF assms(4)] by blast
  obtain ma where ma: "find_member oid a d = Some ma" using owner_row_of [OF ab(1) assms(1)] by blast
  obtain mb where mb: "find_member oid b d = Some mb" using owner_row_of [OF ab(2) assms(1)] by blast
  have keep: "tables_ok ?d1" "find_role_by_id (r_id r) ?d1 = Some r" "find_member oid a ?d1 \<noteq> None"
  proof -
    have "find_role_by_id (r_id r) d \<noteq> None" using r by simp
    note k = set_member_role_kept [OF assms(1) this, where oid = oid and u = b]
    show "tables_ok ?d1" by (rule k(1))
    show "find_role_by_id (r_id r) ?d1 = Some r" using k(2) r by simp
    show "find_member oid a ?d1 \<noteq> None" using k(3) ma by simp
  qed
  obtain x where f: "finish_update oid b r (d, w) = (Inr x, (?d1, w))"
    using mb r by (rule finish_update_done)
  have mb2: "find_member oid b d \<noteq> None" using mb by simp
  have "owners oid ?d1 = {a}"
    unfolding owners_set_role [OF assms(1) mb2 r] using assms(2,3,5) by auto
  then have "owners oid (set_member_role oid a (r_id r) ?d1) = {}"
    unfolding owners_set_role [OF keep(1,3,2)] using assms(5) by simp
  moreover have "fst (snd (bindS (finish_update oid b r) (\<lambda>_. finish_update oid a r) (d, w))) =
      set_member_role oid a (r_id r) ?d1"
    using finish_update_db [OF keep(3,2)] by (simp add: bindS_def f)
  ultimately have "owners oid (fst (snd (bindS (finish_update oid b r) (\<lambda>_. finish_update oid a r) (d, w)))) = {}"
    by (simp only:)
  then show ?thesis
    by (intro conjI owner_demotes_owner [OF assms(1) ab assms(3,4)]
      owner_demotes_owner [OF assms(1) ab(2,1) assms(3) [symmetric] assms(4)])
qed

text \<open>
  When the deletion of an organisation has been answered with success, the organisation is still
  there: its members are gone, but its row and its name stay, so that no organisation of that name
  can be added again, and invitations into it stay as they were.
\<close>

theorem deleted_organisation_remains:
  assumes "tables_ok (fst s)" "delete_org_route ext cf oid uid s = (Inr o1, s')"
  shows "find_org oid (fst s') \<noteq> None \<and> members_of oid (fst s') = [] \<and>
    db_invitations (fst s') = db_invitations (fst s) \<and>
    (\<forall>o2 o3. find_org oid (fst s') = Some o2 \<and> same_name o2 o3 \<longrightarrow> insert_org o3 (fst s') = Inl integrity_error)"
proof -
  have "\<not> (\<nexists>o1. fst (delete_org_route ext cf oid uid s) = Inr o1)" using assms(2) by simp
  then obtain d1 where d1: "find_org oid d1 \<noteq> None" "cascade oid d1 = Inr (fst s')"
    using delete_route_cases [OF assms(1), of ext cf oid uid] assms(2) by (metis snd_conv)
  have "db_invitations (fst s') = db_invitations (fst s)"
    using inv_kept.op.keepsD [OF inv_kept_delete_route, of s ext cf oid uid] assms(2)
    by (simp add: invitations_kept_def)
  moreover have "insert_org o3 d = Inl integrity_error" if "find_org oid d = Some o2" "same_name o2 o3" for d o2 o3
    using that by (auto simp: insert_org_def find_org_def find_Some_iff)
  ultimately show ?thesis using d1 cascade_leaves [OF d1(2)] by auto
qed

lemma sample_deletion:
  "\<exists>o1 d. delete_org_route sample_outside sample_config 9 (Some (uuid_str 1)) (sample_tables, 0) = (Inr o1, (d, 1))"
proof -
  have "case delete_org_route sample_outside sample_config 9 (Some (uuid_str 1)) (sample_tables, 0) of
      (Inr _, (_, n)) \<Rightarrow> n = 1 | _ \<Rightarrow> False"
    by code_simp
  then show ?thesis by (auto split: prod.splits sum.splits)
qed

theorem deleted_organisation_remains_witness:
  "\<exists>d. snd (delete_org_route sample_outside sample_config 9 (Some (uuid_str 1)) (sample_tables, 0)) = (d, 1) \<and>
     find_org 9 d \<noteq> None \<and> members_of 9 d = []"
  using sample_deletion deleted_organisation_remains [of "(sample_tables, 0)" sample_outside sample_config 9 "Some (uuid_str 1)"]
    sample_ok by fastforce

text \<open>
  C36. An invitation is accepted only while it is pending and has not expired, by the account it was sent
  to, who is not a member yet. Accepting adds exactly one member, with the role the invitation names,
  and nobody can accept it again.
\<close>

theorem invitation_accepted_once:
  assumes "accept_invitation ext cf now token uid s = (Inr j, s')"
    "distinct (map i_id (db_invitations (fst s)))"
  shows "(\<exists>i m. open_invitation (fst s) now token = Some i \<and> addressed_to ext s i uid \<and>
       find_member (i_org i) uid (fst s) = None \<and>
       db_members (fst s') = db_members (fst s) @ [m] \<and> admitted_by i uid m) \<and>
    i_accepted_by j = Some uid \<and>
    (\<forall>later other. accept_invitation ext cf later token other s' =
       (Inl (InvitationInvalidError ''Invitation has already been accepted''), s'))"
proof -
  obtain d w d' w' where s: "s = (d, w)" "s' = (d', w')" by (cases s, cases s')
  have acc: "accept_invitation ext cf now token uid (d, w) = (Inr j, (d', w'))"
    and ids: "distinct (map i_id (db_invitations d))" using assms by (simp_all add: s)
  obtain i m where i: "open_invitation d now token = Some i" "addressed_to ext (d, w) i uid"
    "find_member (i_org i) uid d = None" "db_members d' = db_members d @ [m]" "admitted_by i uid m"
    and j: "find (\<lambda>i. i_token i = token) (db_invitations d') = Some j" "i_status j = STATUS_ACCEPTED"
    "i_accepted_by j = Some uid"
    using acc ids by (rule accept_admits)
  note again = accepted_refused [OF j(1,2), of ext cf _ _ w']
  show ?thesis
    unfolding s fst_conv by (intro conjI exI [of _ i] exI [of _ m] allI i j(3) again)
qed

lemma sample_acceptance:
  "\<exists>j s'. accept_invitation sample_outside sample_config 50 ''inv-a'' 4 (sample_tables, 0) = (Inr j, s')"
proof -
  have "case accept_invitation sample_outside sample_config 50 ''inv-a'' 4 (sample_tables, 0) of
      (Inr _, _) \<Rightarrow> True | _ \<Rightarrow> False"
    by code_simp
  then show ?thesis by (auto split: prod.splits sum.splits)
qed

theorem invitation_accepted_once_witness:
  "\<exists>j s'. accept_invitation sample_outside sample_config 50 ''inv-a'' 4 (sample_tables, 0) = (Inr j, s') \<and>
     accept_invitation sample_outside sample_config 60 ''inv-a'' 3 s' =
       (Inl (InvitationInvalidError ''Invitation has already been accepted''), s')"
proof -
  obtain j s' where a: "accept_invitation sample_outside sample_config 50 ''inv-a'' 4 (sample_tables, 0) = (Inr j, s')"
    using sample_acceptance by blast
  have "distinct (map i_id (db_invitations (fst (sample_tables, 0::nat))))" by (simp add: sample_tables_def)
  then show ?thesis using invitation_accepted_once [OF a] a by blast
qed

theorem concurrent_demotions_leave_no_owner_witness:
  "owners 9 (fst (snd (bindS (finish_update 9 2 (sample_role 2 ''admin''))
      (\<lambda>_. finish_update 9 1 (sample_role 2 ''admin'')) (sample_tables, ())))) = {}"
proof -
  have "find_role_by_name (py_lower ''admin'') sample_tables = Some (sample_role 2 ''admin'')" by code_simp
  moreover have "r_name (sample_role 2 ''admin'') \<noteq> ROLE_OWNER" by (simp add: sample_role_def ROLE_OWNER_def)
  ultimately show ?thesis
    using concurrent_demotions_leave_no_owner [OF sample_ok sample_owners, of "''admin''" "sample_role 2 ''admin''" "()"]
    by simp
qed

end
