(* ===== verification/Device_Flow.thy ===== *)
theory Device_Flow
  imports Org_Members
begin

text \<open>
  Keys for the programming interface of the hosted product (\<open>enterprise/storage/api_key.py\<close>,
  \<open>api_key_store.py\<close>, \<open>server/routes/api_keys.py\<close>) and the device flow by which a command line gets
  one (\<open>storage/device_code.py\<close>, \<open>device_code_store.py\<close>, \<open>server/routes/oauth_device.py\<close>). Every
  reading of the clock is an argument, and so are the choices of \<open>secrets.choice\<close>, as indices into
  the alphabet. Times are seconds.
\<close>

section \<open>Rows\<close>

record api_key =
  ak_id :: int
  ak_key :: string
  ak_user :: string
  ak_org :: uuid
  ak_name :: "string option"
  ak_last_used :: "rat option"
  ak_expires :: "rat option"

record device =
  dv_device_code :: string
  dv_user_code :: string
  dv_status :: string
  dv_user :: "string option"
  dv_expires :: rat
  dv_authorized_at :: "rat option"
  dv_last_poll :: "rat option"
  dv_interval :: int

record auth_db =
  ad_devices :: "device list"
  ad_keys :: "api_key list"
  ad_users :: "user list"

definition DEVICE_PENDING :: string where "DEVICE_PENDING = ''pending''"
definition DEVICE_AUTHORIZED :: string where "DEVICE_AUTHORIZED = ''authorized''"
definition DEVICE_EXPIRED :: string where "DEVICE_EXPIRED = ''expired''"
definition DEVICE_DENIED :: string where "DEVICE_DENIED = ''denied''"

section \<open>A device code\<close>

definition is_expired :: "rat \<Rightarrow> device \<Rightarrow> bool" where
  "is_expired now d \<longleftrightarrow> dv_expires d < now"

definition is_pending :: "rat \<Rightarrow> device \<Rightarrow> bool" where
  "is_pending now d \<longleftrightarrow> dv_status d = DEVICE_PENDING \<and> \<not> is_expired now d"

definition is_authorized :: "device \<Rightarrow> bool" where
  "is_authorized d \<longleftrightarrow> dv_status d = DEVICE_AUTHORIZED"

definition authorize :: "rat \<Rightarrow> string \<Rightarrow> device \<Rightarrow> device" where
  "authorize now uid d =
     d\<lparr>dv_status := DEVICE_AUTHORIZED, dv_user := Some uid, dv_authorized_at := Some now\<rparr>"

definition deny :: "device \<Rightarrow> device" where
  "deny d = d\<lparr>dv_status := DEVICE_DENIED\<rparr>"

definition expire :: "device \<Rightarrow> device" where
  "expire d = d\<lparr>dv_status := DEVICE_EXPIRED\<rparr>"

definition slower :: "int \<Rightarrow> int" where
  "slower n = min (n + 5) 60"

definition check_rate_limit :: "rat \<Rightarrow> device \<Rightarrow> bool \<times> int" where
  "check_rate_limit now d =
     (case dv_last_poll d of
        None \<Rightarrow> (False, dv_interval d)
      | Some t \<Rightarrow> if now - t < of_int (dv_interval d) then (True, slower (dv_interval d))
                  else (False, dv_interval d))"

definition update_poll :: "rat \<Rightarrow> bool \<Rightarrow> device \<Rightarrow> device" where
  "update_poll now increase d =
     (let d1 = d\<lparr>dv_last_poll := Some now\<rparr>
      in if increase then d1\<lparr>dv_interval := slower (dv_interval d)\<rparr> else d1)"

section \<open>The store of device codes\<close>

definition USER_CODE_ALPHABET :: string where
  "USER_CODE_ALPHABET = ''ABCDEFGHJKLMNPQRSTUVWXYZ23456789''"

definition LETTERS_AND_DIGITS :: string where
  "LETTERS_AND_DIGITS = ''abcdefghijklmnopqrstuvwxyzABCDEFGHIJKLMNOPQRSTUVWXYZ0123456789''"

definition drawn :: "string \<Rightarrow> nat list \<Rightarrow> string" where
  "drawn alphabet picks = map (\<lambda>n. alphabet ! (n mod length alphabet)) picks"

definition generate_user_code :: "nat list \<Rightarrow> string" where
  "generate_user_code picks = drawn USER_CODE_ALPHABET (take 8 picks)"

definition generate_device_code :: "nat list \<Rightarrow> string" where
  "generate_device_code picks = drawn LETTERS_AND_DIGITS (take 128 picks)"

definition new_device :: "string \<Rightarrow> string \<Rightarrow> rat \<Rightarrow> device" where
  "new_device device_code user_code expires_at =
     \<lparr>dv_device_code = device_code, dv_user_code = user_code, dv_status = DEVICE_PENDING, dv_user = None,
      dv_expires = expires_at, dv_authorized_at = None, dv_last_poll = None, dv_interval = 5\<rparr>"

definition insert_device :: "device \<Rightarrow> auth_db \<Rightarrow> auth_db result" where
  "insert_device d s =
     (if list_ex (\<lambda>x. dv_device_code x = dv_device_code d \<or> dv_user_code x = dv_user_code d) (ad_devices s)
      then Inl integrity_error
      else Inr (s\<lparr>ad_devices := ad_devices s @ [d]\<rparr>))"

text \<open>One element of the list per attempt: the choices for both codes and the time; the loop is given as
  many as it has attempts.\<close>

type_synonym draws = "(nat list \<times> nat list \<times> rat) list"

fun create_device_code :: "rat \<Rightarrow> nat \<Rightarrow> draws \<Rightarrow> (auth_db, device) op" where
  "create_device_code expires_in max_attempts [] s =
     (Inl (RuntimeError (''Failed to generate unique device codes after '' @
             str_of_int (int max_attempts) @ '' attempts'')), s)"
| "create_device_code expires_in max_attempts ((u, c, now) # ds) s =
     (let d = new_device (generate_device_code c) (generate_user_code u) (now + expires_in)
      in case insert_device d s of
           Inr s' \<Rightarrow> (Inr d, s')
         | Inl _ \<Rightarrow> create_device_code expires_in max_attempts ds s)"

definition get_by_device_code :: "string \<Rightarrow> auth_db \<Rightarrow> device option" where
  "get_by_device_code code s = find (\<lambda>d. dv_device_code d = code) (ad_devices s)"

definition get_by_user_code :: "string \<Rightarrow> auth_db \<Rightarrow> device option" where
  "get_by_user_code code s = find (\<lambda>d. dv_user_code d = code) (ad_devices s)"

text \<open>The changes of one row; the codes are unique.\<close>

definition change_user_code :: "string \<Rightarrow> (device \<Rightarrow> device) \<Rightarrow> auth_db \<Rightarrow> auth_db" where
  "change_user_code code f s =
     s\<lparr>ad_devices := map (\<lambda>d. if dv_user_code d = code then f d else d) (ad_devices s)\<rparr>"

definition change_device_code :: "string \<Rightarrow> (device \<Rightarrow> device) \<Rightarrow> auth_db \<Rightarrow> auth_db" where
  "change_device_code code f s =
     s\<lparr>ad_devices := map (\<lambda>d. if dv_device_code d = code then f d else d) (ad_devices s)\<rparr>"

definition authorize_device_code :: "rat \<Rightarrow> rat \<Rightarrow> string \<Rightarrow> string \<Rightarrow> auth_db \<Rightarrow> bool \<times> auth_db" where
  "authorize_device_code now1 now2 code uid s =
     (case get_by_user_code code s of
        None \<Rightarrow> (False, s)
      | Some d \<Rightarrow> if \<not> is_pending now1 d then (False, s)
                  else (True, change_user_code code (authorize now2 uid) s))"

definition deny_device_code :: "rat \<Rightarrow> string \<Rightarrow> auth_db \<Rightarrow> bool \<times> auth_db" where
  "deny_device_code now code s =
     (case get_by_user_code code s of
        None \<Rightarrow> (False, s)
      | Some d \<Rightarrow> if \<not> is_pending now d then (False, s) else (True, change_user_code code deny s))"

definition update_poll_time :: "rat \<Rightarrow> string \<Rightarrow> bool \<Rightarrow> auth_db \<Rightarrow> bool \<times> auth_db" where
  "update_poll_time now code increase s =
     (case get_by_device_code code s of
        None \<Rightarrow> (False, s)
      | Some d \<Rightarrow> (True, change_device_code code (update_poll now increase) s))"

section \<open>The store of keys\<close>

definition API_KEY_PREFIX :: string where
  "API_KEY_PREFIX = ''sk-oh-''"

definition MCP_API_KEY :: string where
  "MCP_API_KEY = ''MCP_API_KEY''"

definition generate_api_key :: "nat list \<Rightarrow> string" where
  "generate_api_key picks = API_KEY_PREFIX @ drawn LETTERS_AND_DIGITS (take 32 picks)"

definition user_row :: "string \<Rightarrow> (auth_db, user) op" where
  "user_row uid s =
     (case parse_uuid uid of
        Inl e \<Rightarrow> (Inl e, s)
      | Inr i \<Rightarrow> (case find (\<lambda>u. u_id u = i) (ad_users s) of
            None \<Rightarrow> (Inl (ValueError (''User not found: '' @ uid)), s)
          | Some u \<Rightarrow> (Inr u, s)))"

definition next_key_id :: "auth_db \<Rightarrow> int" where
  "next_key_id s = fold (\<lambda>k n. max n (ak_id k + 1)) (ad_keys s) 1"

definition insert_key :: "api_key \<Rightarrow> (auth_db, unit) op" where
  "insert_key k s =
     (if list_ex (\<lambda>x. ak_key x = ak_key k) (ad_keys s) then (Inl integrity_error, s)
      else (Inr (), s\<lparr>ad_keys := ad_keys s @ [k]\<rparr>))"

definition create_api_key ::
  "nat list \<Rightarrow> string \<Rightarrow> string option \<Rightarrow> rat option \<Rightarrow> (auth_db, string) op" where
  "create_api_key picks uid name expires_at =
     bindS (user_row uid) (\<lambda>u.
     bindS (\<lambda>s. insert_key \<lparr>ak_id = next_key_id s, ak_key = generate_api_key picks, ak_user = uid,
                            ak_org = u_current_org u, ak_name = name, ak_last_used = None,
                            ak_expires = expires_at\<rparr> s)
       (\<lambda>_. retS (generate_api_key picks)))"

definition validate_api_key :: "rat \<Rightarrow> string \<Rightarrow> auth_db \<Rightarrow> string option \<times> auth_db" where
  "validate_api_key now key s =
     (case find (\<lambda>k. ak_key k = key) (ad_keys s) of
        None \<Rightarrow> (None, s)
      | Some k \<Rightarrow>
          if (case ak_expires k of Some t \<Rightarrow> t < now | None \<Rightarrow> False) then (None, s)
          else (Some (ak_user k),
                s\<lparr>ad_keys := map (\<lambda>x. if ak_id x = ak_id k then x\<lparr>ak_last_used := Some now\<rparr> else x)
                                (ad_keys s)\<rparr>))"

text \<open>Deleting the first key with a property; the columns asked for are unique but for names.\<close>

definition delete_first :: "(api_key \<Rightarrow> bool) \<Rightarrow> auth_db \<Rightarrow> bool \<times> auth_db" where
  "delete_first p s =
     (case find p (ad_keys s) of
        None \<Rightarrow> (False, s)
      | Some k \<Rightarrow> (True, s\<lparr>ad_keys := filter (\<lambda>x. ak_id x \<noteq> ak_id k) (ad_keys s)\<rparr>))"

definition delete_api_key :: "string \<Rightarrow> auth_db \<Rightarrow> bool \<times> auth_db" where
  "delete_api_key key = delete_first (\<lambda>k. ak_key k = key)"

definition delete_api_key_by_id :: "int \<Rightarrow> auth_db \<Rightarrow> bool \<times> auth_db" where
  "delete_api_key_by_id i = delete_first (\<lambda>k. ak_id k = i)"

definition keys_in_current_org :: "string \<Rightarrow> (auth_db, api_key list) op" where
  "keys_in_current_org uid =
     bindS (user_row uid) (\<lambda>u s.
       (Inr (filter (\<lambda>k. ak_user k = uid \<and> ak_org k = u_current_org u) (ad_keys s)), s))"

definition list_api_keys :: "string \<Rightarrow> (auth_db, api_key list) op" where
  "list_api_keys uid =
     bindS (keys_in_current_org uid) (\<lambda>ks. retS (filter (\<lambda>k. ak_name k \<noteq> Some MCP_API_KEY) ks))"

definition retrieve_mcp_api_key :: "string \<Rightarrow> (auth_db, string option) op" where
  "retrieve_mcp_api_key uid =
     bindS (keys_in_current_org uid) (\<lambda>ks.
       retS (map_option ak_key (find (\<lambda>k. ak_name k = Some MCP_API_KEY) ks)))"

definition retrieve_api_key_by_name :: "string \<Rightarrow> string \<Rightarrow> auth_db \<Rightarrow> string option" where
  "retrieve_api_key_by_name uid name s =
     map_option ak_key (find (\<lambda>k. ak_user k = uid \<and> ak_name k = Some name) (ad_keys s))"

definition delete_api_key_by_name :: "string \<Rightarrow> string \<Rightarrow> auth_db \<Rightarrow> bool \<times> auth_db" where
  "delete_api_key_by_name uid name = delete_first (\<lambda>k. ak_user k = uid \<and> ak_name k = Some name)"

section \<open>The routes for keys\<close>

text \<open>The answer: the id and name of a key as it is listed, and the new key itself.\<close>

definition create_key_route ::
  "rat \<Rightarrow> nat list \<Rightarrow> string \<Rightarrow> string option \<Rightarrow> rat option \<Rightarrow> (auth_db, int \<times> string option \<times> string) op" where
  "create_key_route now picks uid name expires_at =
     (if (case expires_at of Some t \<Rightarrow> t < now | None \<Rightarrow> False)
      then raiseS (http_exception 422 ''Expiration date cannot be in the past'')
      else tryS
        (bindS (create_api_key picks uid name expires_at) (\<lambda>key.
         bindS (list_api_keys uid) (\<lambda>ks. case find (\<lambda>k. ak_name k = name) ks of
             Some k \<Rightarrow> retS (ak_id k, ak_name k, key)
           | None \<Rightarrow> raiseS (http_exception 500 ''Failed to create API key''))))
        (\<lambda>_. raiseS (http_exception 500 ''Failed to create API key'')))"

definition list_keys_route :: "string \<Rightarrow> (auth_db, (int \<times> string option) list) op" where
  "list_keys_route uid =
     tryS (bindS (list_api_keys uid) (\<lambda>ks. retS (map (\<lambda>k. (ak_id k, ak_name k)) ks)))
       (\<lambda>_. raiseS (http_exception 500 ''Failed to list API keys''))"

definition delete_key_route :: "int \<Rightarrow> string \<Rightarrow> (auth_db, string) op" where
  "delete_key_route i uid =
     tryS
       (bindS (list_api_keys uid) (\<lambda>ks.
          if find (\<lambda>k. ak_id k = i) ks = None
          then raiseS (http_exception 404 ''API key not found'')
          else bindS (\<lambda>s. let (b, s') = delete_api_key_by_id i s in (Inr b, s')) (\<lambda>b.
            if b then retS ''API key deleted successfully''
            else raiseS (http_exception 500 ''Failed to delete API key''))))
       (\<lambda>e. if exn_class e = ''HTTPException'' then raiseS e
            else raiseS (http_exception 500 ''Failed to delete API key''))"

section \<open>The routes of the device flow\<close>

definition DEVICE_CODE_EXPIRES_IN :: rat where
  "DEVICE_CODE_EXPIRES_IN = 600"

definition KEY_EXPIRATION_TIME :: rat where
  "KEY_EXPIRATION_TIME = 7 * 86400"

definition device_key_name :: "string \<Rightarrow> string" where
  "device_key_name user_code = ''Device Link Access Key ('' @ user_code @ '')''"

record device_response =
  dr_device_code :: string
  dr_user_code :: string
  dr_uri :: string
  dr_uri_complete :: string
  dr_expires_in :: rat
  dr_interval :: int

definition device_authorization :: "string \<Rightarrow> draws \<Rightarrow> (auth_db, device_response) op" where
  "device_authorization base_url ds =
     tryS
       (bindS (create_device_code DEVICE_CODE_EXPIRES_IN 10 (take 10 ds)) (\<lambda>d.
          retS \<lparr>dr_device_code = dv_device_code d, dr_user_code = dv_user_code d,
                dr_uri = base_url @ ''/oauth/device/verify'',
                dr_uri_complete = base_url @ ''/oauth/device/verify?user_code='' @ dv_user_code d,
                dr_expires_in = DEVICE_CODE_EXPIRES_IN, dr_interval = dv_interval d\<rparr>))
       (\<lambda>_. raiseS (http_exception 500 ''Internal server error''))"

datatype token_answer = Access_Token string | OAuth_Error int string string "int option"

definition slow_down :: "int \<Rightarrow> token_answer" where
  "slow_down n =
     OAuth_Error 400 ''slow_down''
       (''Polling too frequently. Wait at least '' @ str_of_int n @ '' seconds between requests.'') (Some n)"

text \<open>
  The entry that was read first is the one that is looked at until the end; the times are those of
  the check of the rate, of the update and of the check for expiry.
\<close>

definition entry_answer :: "rat \<Rightarrow> device \<Rightarrow> auth_db \<Rightarrow> token_answer" where
  "entry_answer now d s =
     (if is_expired now d then OAuth_Error 400 ''expired_token'' ''Device code has expired'' None
      else if dv_status d = DEVICE_DENIED
      then OAuth_Error 400 ''access_denied'' ''User denied the authorization request'' None
      else if dv_status d = DEVICE_PENDING
      then OAuth_Error 400 ''authorization_pending'' ''User has not yet completed authorization'' None
      else if dv_status d = DEVICE_AUTHORIZED
      then (case dv_user d of
              None \<Rightarrow> OAuth_Error 500 ''server_error'' ''API key not found'' None
            | Some uid \<Rightarrow> (case retrieve_api_key_by_name uid (device_key_name (dv_user_code d)) s of
                 Some key \<Rightarrow> if key = [] then OAuth_Error 500 ''server_error'' ''API key not found'' None
                             else Access_Token key
               | None \<Rightarrow> OAuth_Error 500 ''server_error'' ''API key not found'' None))
      else OAuth_Error 500 ''server_error'' ''Unknown device code status'' None)"

definition device_token :: "rat \<times> rat \<times> rat \<Rightarrow> string \<Rightarrow> auth_db \<Rightarrow> token_answer \<times> auth_db" where
  "device_token = (\<lambda>(t1, t2, t3) code s.
     (case get_by_device_code code s of
        None \<Rightarrow> (OAuth_Error 400 ''invalid_grant'' ''Invalid device code'' None, s)
      | Some d \<Rightarrow>
          (case check_rate_limit t1 d of
             (True, n) \<Rightarrow> (slow_down n, snd (update_poll_time t2 code True s))
           | (False, _) \<Rightarrow>
               (let s' = snd (update_poll_time t2 code False s) in (entry_answer t3 d s', s')))))"

text \<open>
  The times are those of the checks that the code is pending, of its authorization, of the key
  and of the clean-up.
\<close>

record verify_times =
  vt_check :: rat
  vt_again :: rat
  vt_authorize :: rat
  vt_key :: rat
  vt_cleanup :: rat

definition device_key :: "verify_times \<Rightarrow> nat list \<Rightarrow> string \<Rightarrow> string \<Rightarrow> (auth_db, string) op" where
  "device_key t picks user_code uid =
     create_api_key picks uid (Some (device_key_name user_code)) (Some (vt_key t + KEY_EXPIRATION_TIME))"

definition revert_authorization :: "verify_times \<Rightarrow> string \<Rightarrow> (auth_db, string) op" where
  "revert_authorization t user_code s =
     (Inl (http_exception 500 ''Failed to create API key for device access.''),
      snd (deny_device_code (vt_cleanup t) user_code s))"

definition device_verification_authenticated ::
  "verify_times \<Rightarrow> nat list \<Rightarrow> string \<Rightarrow> string \<Rightarrow> (auth_db, string) op" where
  "device_verification_authenticated t picks user_code uid s =
     (if uid = [] then (Inl (http_exception 401 ''Authentication required''), s)
      else case get_by_user_code user_code s of
        None \<Rightarrow> (Inl (http_exception 400 ''The device code is invalid or has expired.''), s)
      | Some d \<Rightarrow>
          if \<not> is_pending (vt_check t) d
          then (Inl (http_exception 400 ''This device code has already been processed.''), s)
          else (case authorize_device_code (vt_again t) (vt_authorize t) user_code uid s of
             (False, s1) \<Rightarrow>
               (Inl (http_exception 500 ''Failed to authorize the device. Please try again.''), s1)
           | (True, s1) \<Rightarrow>
               bindS (tryS (device_key t picks user_code uid) (\<lambda>_. revert_authorization t user_code))
                 (\<lambda>_. retS ''Device authorized successfully!'') s1))"

end
