(* ===== verification/Device_Properties.thy ===== *)
theory Device_Properties
  imports Device_Flow
begin

text \<open>
  What holds of the keys of the hosted product and of the device flow over any sequence of requests.
\<close>

section \<open>Runs\<close>

datatype auth_request =
    Start_Flow string draws
  | Poll "rat \<times> rat \<times> rat" string
  | Verify verify_times "nat list" string string
  | Create_Key rat "nat list" string "string option" "rat option"
  | Delete_Key int string
  | Use_Key rat string

fun serve :: "auth_request \<Rightarrow> auth_db \<Rightarrow> auth_db" where
  "serve (Start_Flow base ds) s = snd (device_authorization base ds s)"
| "serve (Poll ts code) s = snd (device_token ts code s)"
| "serve (Verify t picks code uid) s = snd (device_verification_authenticated t picks code uid s)"
| "serve (Create_Key now picks uid name e) s = snd (create_key_route now picks uid name e s)"
| "serve (Delete_Key i uid) s = snd (delete_key_route i uid s)"
| "serve (Use_Key now key) s = snd (validate_api_key now key s)"

definition run_auth :: "auth_request list \<Rightarrow> auth_db \<Rightarrow> auth_db" where
  "run_auth rqs s = fold serve rqs s"

section \<open>What each operation changes\<close>

text \<open>The keys that are added, all of one user; nothing else changes but the times of use.\<close>

definition key_fields :: "api_key \<Rightarrow> int \<times> string \<times> string \<times> uuid \<times> string option \<times> rat option" where
  "key_fields k = (ak_id k, ak_key k, ak_user k, ak_org k, ak_name k, ak_expires k)"

lemma user_row_state [simp]: "snd (user_row uid s) = s"
  by (simp add: user_row_def split: sum.splits option.splits)

lemma keys_in_current_org_state [simp]: "snd (keys_in_current_org uid s) = s"
  by (cases "user_row uid s"; cases "fst (user_row uid s)") (use user_row_state [of uid s] in \<open>auto simp: keys_in_current_org_def bindS_def\<close>)

lemma list_api_keys_state [simp]: "snd (list_api_keys uid s) = s"
  by (cases "keys_in_current_org uid s"; cases "fst (keys_in_current_org uid s)")
    (use keys_in_current_org_state [of uid s] in \<open>auto simp: list_api_keys_def bindS_def\<close>)

lemma list_api_keys_own:
  "list_api_keys uid s = (Inr ks, s') \<Longrightarrow>
   s' = s \<and> (\<exists>o1. ks = filter (\<lambda>k. ak_user k = uid \<and> ak_org k = o1 \<and> ak_name k \<noteq> Some MCP_API_KEY) (ad_keys s))"
  by (auto simp: list_api_keys_def keys_in_current_org_def user_row_def bindS_def filter_filter conj_assoc
      split: sum.splits option.splits intro!: filter_cong)

lemma create_api_key_cases:
  obtains (failed) e where "create_api_key picks uid name ex s = (Inl e, s)"
  | (made) k where "create_api_key picks uid name ex s = (Inr (generate_api_key picks), s\<lparr>ad_keys := ad_keys s @ [k]\<rparr>)"
      "ak_user k = uid" "ak_name k = name" "ak_key k = generate_api_key picks" "ak_id k = next_key_id s"
proof (cases "fst (user_row uid s)")
  case (Inl e)
  then show ?thesis using failed user_row_state [of uid s]
    by (cases "user_row uid s") (auto simp: create_api_key_def bindS_def)
next
  case (Inr u)
  then have u: "user_row uid s = (Inr u, s)" using user_row_state [of uid s] by (cases "user_row uid s") auto
  show ?thesis
    using failed made u
    by (cases "list_ex (\<lambda>x. ak_key x = generate_api_key picks) (ad_keys s)")
      (auto simp: create_api_key_def bindS_def insert_key_def)
qed

lemma create_device_cases:
  obtains "snd (create_device_code ex n ds s) = s"
  | d where "snd (create_device_code ex n ds s) = s\<lparr>ad_devices := ad_devices s @ [d]\<rparr>"
    "get_by_device_code (dv_device_code d) s = None" "get_by_user_code (dv_user_code d) s = None"
    "dv_status d = DEVICE_PENDING" "dv_interval d = 5"
proof (induction ex n ds s rule: create_device_code.induct)
  case (1 ex n s)
  then show ?case by simp
next
  case (2 ex n u c now ds s)
  let ?d = "new_device (generate_device_code c) (generate_user_code u) (now + ex)"
  show ?case
  proof (cases "insert_device ?d s")
    case (Inl e)
    then show ?thesis using 2 by (simp add: Let_def)
  next
    case (Inr s')
    then have "s' = s\<lparr>ad_devices := ad_devices s @ [?d]\<rparr>"
      "get_by_device_code (dv_device_code ?d) s = None" "get_by_user_code (dv_user_code ?d) s = None"
      by (auto simp: insert_device_def get_by_device_code_def get_by_user_code_def find_None_iff list_ex_iff split: if_splits)
    then show ?thesis
      using 2(3) [of ?d] Inr by (simp add: Let_def new_device_def)
  qed
qed

lemma device_authorization_state:
  "snd (device_authorization base ds s) = snd (create_device_code DEVICE_CODE_EXPIRES_IN 10 (take 10 ds) s)"
  by (simp add: device_authorization_def tryS_def bindS_def split: prod.splits sum.splits)

lemma create_key_state: "snd (create_key_route now picks uid name ex s) =
   (if (case ex of Some t \<Rightarrow> t < now | None \<Rightarrow> False) then s else snd (create_api_key picks uid name ex s))"
proof -
  have same: "t' = t" if "list_api_keys uid t = (r, t')" for t r t'
    using that list_api_keys_state [of uid t] by simp
  show ?thesis
    by (auto simp: create_key_route_def tryS_def bindS_def dest!: same split: prod.splits sum.splits option.splits)
qed

text \<open>Only keys of the user who asks are deleted.\<close>

lemma delete_key_cases:
  obtains "snd (delete_key_route i uid s) = s"
  | k where "k \<in> set (ad_keys s)" "ak_id k = i" "ak_user k = uid" "ak_name k \<noteq> Some MCP_API_KEY"
    "snd (delete_key_route i uid s) = s\<lparr>ad_keys := filter (\<lambda>x. ak_id x \<noteq> i) (ad_keys s)\<rparr>"
proof (cases "list_api_keys uid s")
  case (Pair r s1)
  then have s1: "s1 = s" using list_api_keys_state [of uid s] by simp
  show ?thesis
  proof (cases r)
    case (Inl e)
    then show ?thesis using that(1) Pair s1 by (simp add: delete_key_route_def tryS_def bindS_def)
  next
    case (Inr ks)
    show ?thesis
    proof (cases "find (\<lambda>k. ak_id k = i) ks")
      case None
      then show ?thesis using that(1) Pair s1 Inr by (simp add: delete_key_route_def tryS_def bindS_def)
    next
      case (Some k)
      obtain o1 where ks: "ks = filter (\<lambda>k. ak_user k = uid \<and> ak_org k = o1 \<and> ak_name k \<noteq> Some MCP_API_KEY) (ad_keys s)"
        using list_api_keys_own [of uid s ks s1] Pair Inr by blast
      have k: "k \<in> set (ad_keys s)" "ak_id k = i" "ak_user k = uid" "ak_name k \<noteq> Some MCP_API_KEY"
        using Some unfolding ks by (auto simp: find_Some_iff dest: nth_mem)
      then obtain k1 where k1: "find (\<lambda>k. ak_id k = i) (ad_keys s) = Some k1"
        by (cases "find (\<lambda>k. ak_id k = i) (ad_keys s)") (auto simp: find_None_iff)
      then have "ak_id k1 = i" by (auto simp: find_Some_iff)
      then have "snd (delete_key_route i uid s) = s\<lparr>ad_keys := filter (\<lambda>x. ak_id x \<noteq> i) (ad_keys s)\<rparr>"
        using Pair s1 Inr Some k1
        by (simp add: delete_key_route_def tryS_def bindS_def delete_api_key_by_id_def delete_first_def)
      then show ?thesis using that(2) k by blast
    qed
  qed
qed

lemma authorized_not_pending: "\<not> is_pending now (authorize t uid d)"
  by (simp add: is_pending_def authorize_def DEVICE_PENDING_def DEVICE_AUTHORIZED_def)

lemma find_mapped:
  "(\<And>x. p (f x) = p x) \<Longrightarrow> find p (map f xs) = map_option f (find p xs)"
  by (induction xs) simp_all

lemma authorized_row:
  "get_by_user_code code s = Some d \<Longrightarrow>
   get_by_user_code code (change_user_code code (authorize t uid) s) = Some (authorize t uid d)"
  unfolding get_by_user_code_def change_user_code_def
  by (simp, subst find_mapped) (auto simp: authorize_def find_Some_iff)

text \<open>The clean-up after a failure finds a code that is authorized, and changes nothing.\<close>

lemma revert_does_nothing:
  assumes "get_by_user_code code s = Some d"
  shows "revert_authorization t code (change_user_code code (authorize n uid) s) =
    (Inl (http_exception 500 ''Failed to create API key for device access.''), change_user_code code (authorize n uid) s)"
  using authorized_row [OF assms, of n uid] authorized_not_pending
  by (simp add: revert_authorization_def deny_device_code_def)

lemma verify_cases:
  obtains (refused) "snd (device_verification_authenticated t picks code uid s) = s"
  | (failed) d e where "uid \<noteq> []" "get_by_user_code code s = Some d" "is_pending (vt_again t) d"
    "device_key t picks code uid (change_user_code code (authorize (vt_authorize t) uid) s) =
       (Inl e, change_user_code code (authorize (vt_authorize t) uid) s)"
    "snd (device_verification_authenticated t picks code uid s) = change_user_code code (authorize (vt_authorize t) uid) s"
  | (authorized) d k where "uid \<noteq> []" "get_by_user_code code s = Some d" "is_pending (vt_again t) d"
    "ak_user k = uid" "ak_name k = Some (device_key_name code)" "ak_key k = generate_api_key picks"
    "ak_id k = next_key_id s"
    "snd (device_verification_authenticated t picks code uid s) =
       (let s1 = change_user_code code (authorize (vt_authorize t) uid) s in s1\<lparr>ad_keys := ad_keys s1 @ [k]\<rparr>)"
proof (cases "uid = [] \<or> get_by_user_code code s = None")
  case True
  then show ?thesis using refused by (auto simp: device_verification_authenticated_def)
next
  case False
  then obtain d where d: "uid \<noteq> []" "get_by_user_code code s = Some d" by auto
  let ?s1 = "change_user_code code (authorize (vt_authorize t) uid) s"
  show ?thesis
  proof (cases "is_pending (vt_check t) d \<and> is_pending (vt_again t) d")
    case False
    then show ?thesis using refused d
      by (auto simp: device_verification_authenticated_def authorize_device_code_def)
  next
    case True
    then have route: "device_verification_authenticated t picks code uid s =
        bindS (tryS (device_key t picks code uid) (\<lambda>_. revert_authorization t code))
          (\<lambda>_. retS ''Device authorized successfully!'') ?s1"
      using d by (simp add: device_verification_authenticated_def authorize_device_code_def)
    show ?thesis
    proof (cases rule: create_api_key_cases [of picks uid "Some (device_key_name code)"
        "Some (vt_key t + KEY_EXPIRATION_TIME)" ?s1])
      case failed
      then show ?thesis
        using that(2) d True route revert_does_nothing [OF d(2)]
        by (simp add: device_key_def tryS_def bindS_def)
    next
      case (made k)
      then show ?thesis
        using that(3) [of d k] d True route
        by (simp add: device_key_def tryS_def bindS_def Let_def next_key_id_def change_user_code_def)
    qed
  qed
qed

section \<open>Invariants of a run\<close>

text \<open>
  What is known of a row after the requests \<open>rqs\<close>: its interval has its bounds, and if it is
  authorized, then by a request of the user it names, made before the code expired.
\<close>

definition approved :: "auth_request list \<Rightarrow> device \<Rightarrow> bool" where
  "approved rqs d \<longleftrightarrow>
     (\<exists>t picks u. Verify t picks (dv_user_code d) u \<in> set rqs \<and> u \<noteq> [] \<and> dv_user d = Some u \<and>
        vt_again t \<le> dv_expires d)"

definition row_ok :: "auth_request list \<Rightarrow> device \<Rightarrow> bool" where
  "row_ok rqs d \<longleftrightarrow>
     5 \<le> dv_interval d \<and> dv_interval d \<le> 60 \<and> (dv_status d = DEVICE_AUTHORIZED \<longrightarrow> approved rqs d)"

definition flow_ok :: "auth_request list \<Rightarrow> auth_db \<Rightarrow> bool" where
  "flow_ok rqs s \<longleftrightarrow>
     distinct (map dv_device_code (ad_devices s)) \<and> distinct (map dv_user_code (ad_devices s)) \<and>
     (\<forall>d \<in> set (ad_devices s). row_ok rqs d)"

lemma row_ok_more: "row_ok rqs d \<Longrightarrow> row_ok (rqs @ [rq]) d"
  unfolding row_ok_def approved_def by auto

lemma flow_ok_same: "flow_ok rqs s \<Longrightarrow> ad_devices s' = ad_devices s \<Longrightarrow> flow_ok (rqs @ [rq]) s'"
  by (simp add: flow_ok_def row_ok_more)

lemma flow_ok_mapped:
  assumes "flow_ok rqs s" "ad_devices s' = map f (ad_devices s)"
    "\<And>d. dv_device_code (f d) = dv_device_code d" "\<And>d. dv_user_code (f d) = dv_user_code d"
    "\<And>d. d \<in> set (ad_devices s) \<Longrightarrow> row_ok rqs d \<Longrightarrow> row_ok (rqs @ [rq]) (f d)"
  shows "flow_ok (rqs @ [rq]) s'"
proof -
  have codes: "map dv_device_code (map f (ad_devices s)) = map dv_device_code (ad_devices s)"
    "map dv_user_code (map f (ad_devices s)) = map dv_user_code (ad_devices s)"
    by (simp_all add: assms(3,4))
  have "\<forall>d \<in> set (map f (ad_devices s)). row_ok (rqs @ [rq]) d"
    using assms(1,5) by (simp add: flow_ok_def)
  then show ?thesis using assms(1) unfolding flow_ok_def assms(2) codes by blast
qed

lemma flow_ok_added:
  assumes "flow_ok rqs s" "s' = s\<lparr>ad_devices := ad_devices s @ [d]\<rparr>"
    "get_by_device_code (dv_device_code d) s = None" "get_by_user_code (dv_user_code d) s = None"
    "dv_status d = DEVICE_PENDING" "dv_interval d = 5"
  shows "flow_ok (rqs @ [rq]) s'"
proof -
  have "row_ok (rqs @ [rq]) d"
    using assms(5,6) by (simp add: row_ok_def DEVICE_PENDING_def DEVICE_AUTHORIZED_def)
  then show ?thesis
    using assms(1-4) row_ok_more
    by (auto simp: flow_ok_def get_by_device_code_def get_by_user_code_def find_None_iff)
qed

lemma update_poll_row:
  "row_ok rqs d \<Longrightarrow> row_ok (rqs @ [rq]) (update_poll t b d)"
  "dv_device_code (update_poll t b d) = dv_device_code d" "dv_user_code (update_poll t b d) = dv_user_code d"
  "dv_interval d \<le> 60 \<Longrightarrow> dv_interval d \<le> dv_interval (update_poll t b d)"
  by (auto simp: update_poll_def Let_def row_ok_def approved_def slower_def)

lemma device_token_state:
  "snd (device_token ts code s) = s \<or> (\<exists>t b. snd (device_token ts code s) = change_device_code code (update_poll t b) s)"
  by (cases ts) (auto simp: device_token_def update_poll_time_def Let_def split: option.splits prod.splits bool.splits)

lemma flow_ok_serve:
  assumes "flow_ok rqs s"
  shows "flow_ok (rqs @ [rq]) (serve rq s)"
proof (cases rq)
  case (Start_Flow base ds)
  show ?thesis
    by (cases rule: create_device_cases [of DEVICE_CODE_EXPIRES_IN 10 "take 10 ds" s])
      (use assms flow_ok_same flow_ok_added in \<open>auto simp: Start_Flow device_authorization_state\<close>)
next
  case (Poll ts code)
  show ?thesis
    using device_token_state [of ts code s]
  proof (elim disjE exE)
    assume "snd (device_token ts code s) = s"
    then show ?thesis using assms by (simp add: Poll flow_ok_same)
  next
    fix t b
    assume "snd (device_token ts code s) = change_device_code code (update_poll t b) s"
    then show ?thesis
      by (intro flow_ok_mapped [OF assms, where f = "\<lambda>d. if dv_device_code d = code then update_poll t b d else d"])
        (simp_all add: Poll change_device_code_def update_poll_row row_ok_more)
  qed
next
  case (Verify t picks code uid)
  have row: "row_ok (rqs @ [rq]) (if dv_user_code d = code then authorize (vt_authorize t) uid d else d)"
    if "d \<in> set (ad_devices s)" "row_ok rqs d" "get_by_user_code code s = Some d1" "is_pending (vt_again t) d1" "uid \<noteq> []"
    for d d1
  proof (cases "dv_user_code d = code")
    case True
    have "d1 \<in> set (ad_devices s)" "dv_user_code d1 = code"
      using that(3) by (auto simp: get_by_user_code_def find_Some_iff)
    then have "d1 = d" using assms that(1) True unfolding flow_ok_def by (metis inj_on_contraD distinct_map)
    then show ?thesis
      using that(2,4,5) True
      by (auto simp: row_ok_def approved_def authorize_def Verify is_pending_def is_expired_def)
  next
    case False
    then show ?thesis using that(2) row_ok_more by simp
  qed
  let ?f = "\<lambda>d. if dv_user_code d = code then authorize (vt_authorize t) uid d else d"
  have changed: "flow_ok (rqs @ [rq]) s'"
    if "ad_devices s' = map ?f (ad_devices s)" "get_by_user_code code s = Some d1" "is_pending (vt_again t) d1" "uid \<noteq> []"
    for s' d1
    by (rule flow_ok_mapped [OF assms that(1)]) (simp_all add: row that(2-4), simp_all add: authorize_def)
  show ?thesis
  proof (cases rule: verify_cases [of t picks code uid s])
    case refused
    then show ?thesis using assms flow_ok_same Verify by simp
  next
    case (failed d e)
    then show ?thesis using changed [of "serve rq s" d] by (simp add: Verify change_user_code_def)
  next
    case (authorized d k)
    then show ?thesis using changed [of "serve rq s" d] by (simp add: Verify change_user_code_def Let_def)
  qed
next
  case (Create_Key now picks uid name ex)
  show ?thesis
    by (cases rule: create_api_key_cases [of picks uid name ex s])
      (use assms flow_ok_same in \<open>auto simp: Create_Key create_key_state split: option.splits\<close>)
next
  case (Delete_Key i uid)
  show ?thesis
    by (cases rule: delete_key_cases [of i uid s]) (use assms flow_ok_same in \<open>auto simp: Delete_Key\<close>)
next
  case (Use_Key now key)
  then show ?thesis
    using assms flow_ok_same by (auto simp: validate_api_key_def split: option.splits)
qed

lemma flow_ok_run: "ad_devices s = [] \<Longrightarrow> flow_ok rqs (run_auth rqs s)"
proof (induction rqs rule: rev_induct)
  case Nil
  then show ?case by (simp add: run_auth_def flow_ok_def)
next
  case (snoc rq rqs)
  then show ?case using flow_ok_serve by (simp add: run_auth_def)
qed

section \<open>Keys of users who ask for nothing\<close>

definition actor :: "auth_request \<Rightarrow> string option" where
  "actor rq =
     (case rq of Verify t picks code uid \<Rightarrow> Some uid | Create_Key now picks uid name ex \<Rightarrow> Some uid
        | Delete_Key i uid \<Rightarrow> Some uid | _ \<Rightarrow> None)"

definition keys_of :: "string \<Rightarrow> auth_db \<Rightarrow> (int \<times> string \<times> string \<times> uuid \<times> string option \<times> rat option) list" where
  "keys_of u s = map key_fields (filter (\<lambda>k. ak_user k = u) (ad_keys s))"

definition key_ids_ok :: "auth_db \<Rightarrow> bool" where
  "key_ids_ok s \<longleftrightarrow> distinct (map ak_id (ad_keys s))"

lemma next_key_id_fresh: "k \<in> set (ad_keys s) \<Longrightarrow> ak_id k < next_key_id s"
proof -
  have grows: "n \<le> fold (\<lambda>k n. max n (ak_id k + 1)) ks n" for ks and n :: int
  proof (induction ks arbitrary: n)
    case (Cons x ks)
    have "n \<le> max n (ak_id x + 1)" by simp
    also have "\<dots> \<le> fold (\<lambda>k n. max n (ak_id k + 1)) ks (max n (ak_id x + 1))" by (rule Cons.IH)
    finally show ?case by simp
  qed simp
  have "k \<in> set ks \<Longrightarrow> ak_id k < fold (\<lambda>k n. max n (ak_id k + 1)) ks n" for ks and n :: int
  proof (induction ks arbitrary: n)
    case (Cons x ks)
    then show ?case using grows [of "max n (ak_id x + 1)" ks] by auto
  qed simp
  then show "k \<in> set (ad_keys s) \<Longrightarrow> ak_id k < next_key_id s" by (simp add: next_key_id_def)
qed

lemma key_added:
  assumes "key_ids_ok s" "ad_keys s' = ad_keys s @ [k]" "ak_id k = next_key_id s"
  shows "key_ids_ok s'" "ak_user k \<noteq> u \<Longrightarrow> keys_of u s' = keys_of u s"
  using assms next_key_id_fresh [of _ s] by (fastforce simp: key_ids_ok_def keys_of_def)+

lemma device_token_keys [simp]: "ad_keys (snd (device_token ts code s)) = ad_keys s"
  using device_token_state [of ts code s] by (auto simp: change_device_code_def)

lemma verify_keys:
  obtains "ad_keys (snd (device_verification_authenticated t picks code uid s)) = ad_keys s"
  | k where "ad_keys (snd (device_verification_authenticated t picks code uid s)) = ad_keys s @ [k]"
    "ak_user k = uid" "ak_id k = next_key_id s"
proof (cases rule: verify_cases [of t picks code uid s])
  case refused
  then show ?thesis using that(1) by simp
next
  case (failed d e)
  then show ?thesis using that(1) by (simp add: change_user_code_def)
next
  case (authorized d k)
  then show ?thesis using that(2) [of k] by (simp add: change_user_code_def Let_def)
qed

definition mark_used :: "rat \<Rightarrow> int \<Rightarrow> api_key \<Rightarrow> api_key" where
  "mark_used now i x = (if ak_id x = i then x\<lparr>ak_last_used := Some now\<rparr> else x)"

lemma mark_used_fields:
  "ak_id (mark_used now i x) = ak_id x" "ak_user (mark_used now i x) = ak_user x"
  "key_fields (mark_used now i x) = key_fields x"
  by (simp_all add: mark_used_def key_fields_def)

lemma used_keys:
  assumes "key_ids_ok s"
  shows "key_ids_ok (snd (validate_api_key now key s)) \<and> keys_of u (snd (validate_api_key now key s)) = keys_of u s"
proof -
  have fields: "map key_fields (filter (\<lambda>k. ak_user k = u) (map (mark_used now i) ks)) = map key_fields (filter (\<lambda>k. ak_user k = u) ks)"
    "map ak_id (map (mark_used now i) ks) = map ak_id ks" for i ks
    by (induction ks) (simp_all add: mark_used_fields)
  have "ad_keys (snd (validate_api_key now key s)) = ad_keys s \<or>
      (\<exists>i. ad_keys (snd (validate_api_key now key s)) = map (mark_used now i) (ad_keys s))"
    by (auto simp: validate_api_key_def mark_used_def [abs_def] split: option.splits)
  then show ?thesis
    using assms unfolding key_ids_ok_def keys_of_def by (elim disjE exE) (simp_all only: fields simp_thms)
qed

lemma quiet_serve:
  assumes ids: "key_ids_ok s" and other: "actor rq \<noteq> Some u"
  shows "key_ids_ok (serve rq s) \<and> keys_of u (serve rq s) = keys_of u s"
proof -
  have same: "key_ids_ok s' \<and> keys_of u s' = keys_of u s" if "ad_keys s' = ad_keys s" for s'
    using ids that by (simp add: key_ids_ok_def keys_of_def)
  have added: "key_ids_ok s' \<and> keys_of u s' = keys_of u s"
    if "ad_keys s' = ad_keys s @ [k]" "ak_id k = next_key_id s" "ak_user k \<noteq> u" for s' k
    using key_added [OF ids that(1,2)] that(3) by blast
  show ?thesis
  proof (cases rq)
    case (Start_Flow base ds)
    have "ad_keys (snd (create_device_code DEVICE_CODE_EXPIRES_IN 10 (take 10 ds) s)) = ad_keys s"
      by (cases rule: create_device_cases [of DEVICE_CODE_EXPIRES_IN 10 "take 10 ds" s]) simp_all
    then show ?thesis unfolding Start_Flow serve.simps device_authorization_state by (rule same)
  next
    case (Poll ts code)
    show ?thesis unfolding Poll serve.simps by (rule same) (rule device_token_keys)
  next
    case (Verify t picks code uid)
    then have u: "uid \<noteq> u" using other by (simp add: actor_def)
    show ?thesis
    proof (cases rule: verify_keys [of t picks code uid s])
      case 1
      then show ?thesis unfolding Verify serve.simps by (rule same)
    next
      case (2 k)
      then show ?thesis unfolding Verify serve.simps using u by (intro added [of _ k]) simp_all
    qed
  next
    case (Create_Key now picks uid name ex)
    then have u: "uid \<noteq> u" using other by (simp add: actor_def)
    show ?thesis
    proof (cases rule: create_api_key_cases [of picks uid name ex s])
      case failed
      then show ?thesis unfolding Create_Key serve.simps create_key_state by (intro same) simp
    next
      case (made k)
      have "key_ids_ok (snd (create_api_key picks uid name ex s)) \<and> keys_of u (snd (create_api_key picks uid name ex s)) = keys_of u s"
        using made u by (intro added [of _ k]) simp_all
      then show ?thesis
        unfolding Create_Key serve.simps create_key_state using same [OF refl] by (simp only: split: if_split) blast
    qed
  next
    case (Delete_Key i uid)
    show ?thesis
    proof (cases rule: delete_key_cases [of i uid s])
      case 1
      then show ?thesis unfolding Delete_Key serve.simps by (intro same) simp
    next
      case (2 k)
      have "ak_id x \<noteq> i" if "x \<in> set (ad_keys s)" "ak_user x = u" for x
      proof
        assume "ak_id x = i"
        then have "x = k" using ids that(1) 2(1,2) unfolding key_ids_ok_def by (metis inj_on_contraD distinct_map)
        then show False using 2(3) that(2) other Delete_Key by (simp add: actor_def)
      qed
      then have "filter (\<lambda>x. ak_user x = u) (filter (\<lambda>x. ak_id x \<noteq> i) (ad_keys s)) = filter (\<lambda>x. ak_user x = u) (ad_keys s)"
        unfolding filter_filter by (intro filter_cong) auto
      moreover have "key_ids_ok (s\<lparr>ad_keys := filter (\<lambda>x. ak_id x \<noteq> i) (ad_keys s)\<rparr>)"
        using ids by (simp add: key_ids_ok_def distinct_map_filter)
      ultimately show ?thesis unfolding Delete_Key serve.simps 2(5) keys_of_def by simp
    qed
  next
    case (Use_Key now key)
    show ?thesis unfolding Use_Key serve.simps by (rule used_keys [OF ids])
  qed
qed

section \<open>Samples\<close>

text \<open>Two users, and a run in which the first of them approves a device.\<close>

definition sample_users :: auth_db where
  "sample_users = \<lparr>ad_devices = [], ad_keys = [],
     ad_users = [\<lparr>u_id = 1, u_current_org = 1, u_email = None\<rparr>, \<lparr>u_id = 2, u_current_org = 2, u_email = None\<rparr>]\<rparr>"

definition sample_code :: string where
  "sample_code = generate_user_code [0, 1, 2, 3, 4, 5, 6, 7]"

definition sample_times :: verify_times where
  "sample_times = \<lparr>vt_check = 20, vt_again = 21, vt_authorize = 22, vt_key = 23, vt_cleanup = 24\<rparr>"

definition sample_run :: "auth_request list" where
  "sample_run = [Start_Flow ''u'' [([0, 1, 2, 3, 4, 5, 6, 7], [8, 9], 0)], Poll (10, 10, 10) (generate_device_code [8, 9]),
     Verify sample_times [1, 2, 3] sample_code (uuid_str 1)]"

section \<open>Properties\<close>

lemma find_first_key: "distinct (map f xs) \<Longrightarrow> x \<in> set xs \<Longrightarrow> find (\<lambda>y. f y = f x) xs = Some x"
  by (induction xs) auto

lemma update_poll_time_row:
  assumes "get_by_device_code code s = Some d"
  shows "get_by_device_code code (snd (update_poll_time t code b s)) = Some (update_poll t b d)"
proof -
  have "get_by_device_code code (change_device_code code (update_poll t b) s) =
      map_option (\<lambda>d. if dv_device_code d = code then update_poll t b d else d) (get_by_device_code code s)"
    unfolding get_by_device_code_def change_device_code_def
    by (simp, rule find_mapped) (simp add: update_poll_row)
  moreover have "dv_device_code d = code"
    using assms by (auto simp: get_by_device_code_def find_Some_iff)
  ultimately show ?thesis using assms by (simp add: update_poll_time_def)
qed

lemma update_poll_time_keys [simp]: "ad_keys (snd (update_poll_time t code b s)) = ad_keys s"
  by (simp add: update_poll_time_def change_device_code_def split: option.splits)

lemma token_given:
  assumes "fst (device_token ts code s) = Access_Token key"
  obtains d u where "get_by_device_code code s = Some d" "dv_status d = DEVICE_AUTHORIZED" "dv_user d = Some u"
    "snd (snd ts) \<le> dv_expires d" "retrieve_api_key_by_name u (device_key_name (dv_user_code d)) s = Some key"
proof -
  obtain t1 t2 t3 where ts: "ts = (t1, t2, t3)" by (cases ts)
  obtain d where d: "get_by_device_code code s = Some d"
    using assms by (cases "get_by_device_code code s") (simp_all add: ts device_token_def)
  have "entry_answer t3 d (snd (update_poll_time t2 code False s)) = Access_Token key"
    using assms d by (cases "check_rate_limit t1 d"; cases "fst (check_rate_limit t1 d)")
      (simp_all add: ts device_token_def Let_def slow_down_def)
  then show thesis
    using that [of d] d ts
    by (auto simp: entry_answer_def is_expired_def retrieve_api_key_by_name_def split: if_splits option.splits)
qed

text \<open>
  C37. Starting without device codes, whoever polls with a device code gets a key only if, before, some
  user has approved the user code that was handed out with it, and before the code expired; the key
  is then a key of that user, made for this code.
\<close>

theorem token_only_after_approval:
  assumes "ad_devices s = []" "fst (device_token ts code (run_auth rqs s)) = Access_Token key"
  shows "\<exists>d t picks u k. get_by_device_code code (run_auth rqs s) = Some d \<and>
    Verify t picks (dv_user_code d) u \<in> set rqs \<and> u \<noteq> [] \<and> vt_again t \<le> dv_expires d \<and> snd (snd ts) \<le> dv_expires d \<and>
    k \<in> set (ad_keys (run_auth rqs s)) \<and> ak_key k = key \<and> ak_user k = u \<and>
    ak_name k = Some (device_key_name (dv_user_code d))"
proof -
  obtain d u where d: "get_by_device_code code (run_auth rqs s) = Some d" "dv_status d = DEVICE_AUTHORIZED"
    "dv_user d = Some u" "snd (snd ts) \<le> dv_expires d"
    "retrieve_api_key_by_name u (device_key_name (dv_user_code d)) (run_auth rqs s) = Some key"
    using assms(2) by (rule token_given)
  have "d \<in> set (ad_devices (run_auth rqs s))" using d(1) by (auto simp: get_by_device_code_def find_Some_iff)
  then have "approved rqs d" using flow_ok_run [OF assms(1), of rqs] d(2) by (auto simp: flow_ok_def row_ok_def)
  moreover obtain k where "k \<in> set (ad_keys (run_auth rqs s))" "ak_key k = key" "ak_user k = u"
    "ak_name k = Some (device_key_name (dv_user_code d))"
    using d(5) by (auto simp: retrieve_api_key_by_name_def find_Some_iff dest: nth_mem)
  ultimately show ?thesis using d(1,3,4) unfolding approved_def by auto
qed

lemma sample_token:
  "fst (device_token (30, 31, 32) (generate_device_code [8, 9]) (run_auth sample_run sample_users)) =
    Access_Token (generate_api_key [1, 2, 3])"
  by code_simp

theorem token_only_after_approval_witness:
  "\<exists>k. k \<in> set (ad_keys (run_auth sample_run sample_users)) \<and> ak_key k = generate_api_key [1, 2, 3]"
  using token_only_after_approval [OF _ sample_token] by (auto simp: sample_users_def)

text \<open>
  The interval between polls that a device code asks for stays within 5 and 60 seconds. A poll that
  comes earlier than that after the last one gets no token but is told to slow down, by 5 seconds
  more and at most to 60, and that is what is stored.
\<close>

theorem poll_interval_bounded:
  assumes "ad_devices s = []" "get_by_device_code code (run_auth rqs s) = Some d"
  shows "5 \<le> dv_interval d \<and> dv_interval d \<le> 60 \<and>
    (\<forall>t t1 t2 t3. dv_last_poll d = Some t \<and> t1 < t + of_int (dv_interval d) \<longrightarrow>
       fst (device_token (t1, t2, t3) code (run_auth rqs s)) = slow_down (min (dv_interval d + 5) 60) \<and>
       get_by_device_code code (snd (device_token (t1, t2, t3) code (run_auth rqs s))) =
         Some (d\<lparr>dv_last_poll := Some t2, dv_interval := min (dv_interval d + 5) 60\<rparr>))"
proof -
  have "d \<in> set (ad_devices (run_auth rqs s))" using assms(2) by (auto simp: get_by_device_code_def find_Some_iff)
  then have bounds: "5 \<le> dv_interval d" "dv_interval d \<le> 60"
    using flow_ok_run [OF assms(1), of rqs] by (auto simp: flow_ok_def row_ok_def)
  have "device_token (t1, t2, t3) code (run_auth rqs s) =
      (slow_down (slower (dv_interval d)), snd (update_poll_time t2 code True (run_auth rqs s)))"
    if "dv_last_poll d = Some t" "t1 < t + of_int (dv_interval d)" for t t1 t2 t3
    using that assms(2) by (simp add: device_token_def check_rate_limit_def algebra_simps)
  then show ?thesis
    using bounds update_poll_time_row [OF assms(2)] by (simp add: slower_def update_poll_def)
qed

theorem poll_interval_bounded_witness:
  "fst (device_token (14, 14, 14) (generate_device_code [8, 9]) (run_auth sample_run sample_users)) = slow_down 10"
proof -
  let ?P = "\<lambda>d. dv_last_poll d = Some 10 \<and> dv_interval d = 5"
  have "case get_by_device_code (generate_device_code [8, 9]) (run_auth sample_run sample_users) of
      Some d \<Rightarrow> ?P d | None \<Rightarrow> False"
    by code_simp
  then obtain d where "get_by_device_code (generate_device_code [8, 9]) (run_auth sample_run sample_users) = Some d" "?P d"
    by (auto split: option.splits)
  then show ?thesis using poll_interval_bounded [of sample_users] by (fastforce simp: sample_users_def)
qed

text \<open>
  When the key cannot be made after a code has been approved, the approval is meant to be taken back.
  It is not: the clean-up only denies codes that are pending. The code stays approved, cannot be
  approved again, and every poll until it expires is answered with a server error.
\<close>

theorem failed_key_leaves_code_approved:
  assumes "ad_devices s0 = []" "s = run_auth rqs s0" "get_by_user_code code s = Some d"
    "is_pending (vt_check t) d" "is_pending (vt_again t) d" "uid \<noteq> []"
    "device_key t picks code uid (change_user_code code (authorize (vt_authorize t) uid) s) = (Inl e, s1)"
    "retrieve_api_key_by_name uid (device_key_name code) s = None"
  shows "device_verification_authenticated t picks code uid s =
      (Inl (http_exception 500 ''Failed to create API key for device access.''), s1) \<and>
    get_by_user_code code s1 = Some (authorize (vt_authorize t) uid d) \<and>
    (\<forall>t' picks' other. other \<noteq> [] \<longrightarrow> device_verification_authenticated t' picks' code other s1 =
       (Inl (http_exception 400 ''This device code has already been processed.''), s1)) \<and>
    (\<forall>t1 t2 t3. \<not> fst (check_rate_limit t1 d) \<and> t3 \<le> dv_expires d \<longrightarrow>
       fst (device_token (t1, t2, t3) (dv_device_code d) s1) =
         OAuth_Error 500 ''server_error'' ''API key not found'' None)"
proof -
  let ?s1 = "change_user_code code (authorize (vt_authorize t) uid) s"
  let ?d = "authorize (vt_authorize t) uid d"
  have s1: "s1 = ?s1"
    using assms(7) by (cases rule: create_api_key_cases [of picks uid "Some (device_key_name code)"
        "Some (vt_key t + KEY_EXPIRATION_TIME)" ?s1]) (simp_all add: device_key_def)
  have code: "dv_user_code d = code" "d \<in> set (ad_devices s)"
    using assms(3) by (auto simp: get_by_user_code_def find_Some_iff)
  have user: "get_by_user_code code ?s1 = Some ?d" by (rule authorized_row [OF assms(3)])
  have unique: "distinct (map dv_device_code (ad_devices s))"
    using flow_ok_run [OF assms(1), of rqs] assms(2) by (simp add: flow_ok_def)
  have "find (\<lambda>x. dv_device_code x = dv_device_code d) (ad_devices s) = Some d"
    using unique code(2) by (rule find_first_key)
  then have device: "get_by_device_code (dv_device_code d) ?s1 = Some ?d"
    unfolding get_by_device_code_def change_user_code_def
    by (simp, subst find_mapped) (simp_all add: authorize_def code)
  have first: "device_verification_authenticated t picks code uid s =
      (Inl (http_exception 500 ''Failed to create API key for device access.''), s1)"
    using assms(3-7) revert_does_nothing [OF assms(3)] s1
    by (simp add: device_verification_authenticated_def authorize_device_code_def tryS_def bindS_def)
  have second: "device_verification_authenticated t' picks' code other s1 =
      (Inl (http_exception 400 ''This device code has already been processed.''), s1)" if "other \<noteq> []" for t' picks' other
    using that user authorized_not_pending by (simp add: s1 device_verification_authenticated_def)
  have none: "retrieve_api_key_by_name uid (device_key_name code) (snd (update_poll_time t2 c False ?s1)) = None" for t2 c
    using assms(8) by (simp add: retrieve_api_key_by_name_def change_user_code_def update_poll_time_def change_device_code_def split: option.splits)
  have poll: "fst (device_token (t1, t2, t3) (dv_device_code d) s1) = OAuth_Error 500 ''server_error'' ''API key not found'' None"
    if "\<not> fst (check_rate_limit t1 d)" "t3 \<le> dv_expires d" for t1 t2 t3
  proof -
    have "check_rate_limit t1 ?d = check_rate_limit t1 d" by (cases "dv_last_poll d") (simp_all add: check_rate_limit_def authorize_def)
    then have "check_rate_limit t1 ?d = (False, snd (check_rate_limit t1 d))" using that(1) by (simp add: prod_eq_iff)
    moreover have "entry_answer t3 ?d x = OAuth_Error 500 ''server_error'' ''API key not found'' None"
      if "retrieve_api_key_by_name uid (device_key_name code) x = None" for x
      using that \<open>t3 \<le> dv_expires d\<close>
      by (simp add: entry_answer_def is_expired_def authorize_def code(1) DEVICE_AUTHORIZED_def DEVICE_DENIED_def DEVICE_PENDING_def)
    ultimately show ?thesis using device none by (simp add: s1 device_token_def Let_def)
  qed
  have "get_by_user_code code s1 = Some ?d" using user by (simp only: s1)
  then show ?thesis
    by - (intro conjI allI impI first second poll; (assumption | erule conjunct1 | erule conjunct2))
qed

text \<open>A user who is gone from the tables approves the code.\<close>

lemma sample_failure:
  "\<exists>s d e. s = run_auth (take 2 sample_run) sample_users \<and> get_by_user_code sample_code s = Some d \<and>
     is_pending 20 d \<and> is_pending 21 d \<and>
     device_key sample_times [1] sample_code (uuid_str 7) (change_user_code sample_code (authorize 22 (uuid_str 7)) s) =
       (Inl e, change_user_code sample_code (authorize 22 (uuid_str 7)) s) \<and>
     retrieve_api_key_by_name (uuid_str 7) (device_key_name sample_code) s = None"
proof -
  let ?s = "run_auth (take 2 sample_run) sample_users"
  let ?s1 = "change_user_code sample_code (authorize 22 (uuid_str 7)) ?s"
  have "case get_by_user_code sample_code ?s of Some d \<Rightarrow> is_pending 20 d \<and> is_pending 21 d | None \<Rightarrow> False"
    by code_simp
  then obtain d where d: "get_by_user_code sample_code ?s = Some d" "is_pending 20 d" "is_pending 21 d"
    by (cases "get_by_user_code sample_code ?s") simp_all
  have "case fst (device_key sample_times [1] sample_code (uuid_str 7) ?s1) of Inl _ \<Rightarrow> True | _ \<Rightarrow> False"
    by code_simp
  then obtain e where "fst (device_key sample_times [1] sample_code (uuid_str 7) ?s1) = Inl e"
    by (cases "fst (device_key sample_times [1] sample_code (uuid_str 7) ?s1)") simp_all
  then have "device_key sample_times [1] sample_code (uuid_str 7) ?s1 = (Inl e, ?s1)"
    unfolding device_key_def
    by (cases rule: create_api_key_cases [of "[1]" "uuid_str 7" "Some (device_key_name sample_code)"
        "Some (vt_key sample_times + KEY_EXPIRATION_TIME)" ?s1]) (simp_all only: fst_conv sum.inject sum.distinct)
  moreover have "retrieve_api_key_by_name (uuid_str 7) (device_key_name sample_code) ?s = None" by code_simp
  ultimately show ?thesis using d by (intro exI [of _ ?s] exI [of _ d] exI [of _ e] conjI refl)
qed

theorem failed_key_leaves_code_approved_witness:
  "\<exists>s1 d. get_by_user_code sample_code s1 = Some d \<and> is_authorized d \<and>
     fst (device_token (20, 20, 20) (dv_device_code d) s1) = OAuth_Error 500 ''server_error'' ''API key not found'' None"
proof -
  obtain s d e where f: "s = run_auth (take 2 sample_run) sample_users" "get_by_user_code sample_code s = Some d"
    "is_pending 20 d" "is_pending 21 d"
    "device_key sample_times [1] sample_code (uuid_str 7) (change_user_code sample_code (authorize 22 (uuid_str 7)) s) =
       (Inl e, change_user_code sample_code (authorize 22 (uuid_str 7)) s)"
    "retrieve_api_key_by_name (uuid_str 7) (device_key_name sample_code) s = None"
    using sample_failure by blast
  have "case get_by_user_code sample_code (run_auth (take 2 sample_run) sample_users) of
      Some d \<Rightarrow> \<not> fst (check_rate_limit 20 d) \<and> 20 \<le> dv_expires d | None \<Rightarrow> False"
    by code_simp
  then have d: "\<not> fst (check_rate_limit 20 d)" "20 \<le> dv_expires d" using f(1,2) by simp_all
  have start: "ad_devices sample_users = []" "uuid_str 7 \<noteq> []" by code_simp+
  have times: "is_pending (vt_check sample_times) d" "is_pending (vt_again sample_times) d"
    using f(3,4) by (simp_all add: sample_times_def)
  have auth: "vt_authorize sample_times = 22" by (simp add: sample_times_def)
  let ?s1 = "change_user_code sample_code (authorize 22 (uuid_str 7)) s" and ?d = "authorize 22 (uuid_str 7) d"
  note given = failed_key_leaves_code_approved [OF start(1) f(1,2) times start(2) f(5) [folded auth] f(6), unfolded auth]
  have "fst (device_token (20, 20, 20) (dv_device_code d) ?s1) = OAuth_Error 500 ''server_error'' ''API key not found'' None"
    using given d by blast
  moreover have "dv_device_code ?d = dv_device_code d" by (simp add: authorize_def)
  ultimately have "fst (device_token (20, 20, 20) (dv_device_code ?d) ?s1) = OAuth_Error 500 ''server_error'' ''API key not found'' None"
    by (simp only:)
  moreover have "get_by_user_code sample_code ?s1 = Some ?d" using given by blast
  moreover have "is_authorized ?d" by (simp add: is_authorized_def authorize_def)
  ultimately show ?thesis by blast
qed

text \<open>
  The keys of a user, but for the times of their use, change only by requests of that user: whatever
  others create, delete or approve, the keys stay, and no key is added for the user.
\<close>

theorem keys_of_others_untouched:
  assumes "key_ids_ok s" "\<And>rq. rq \<in> set rqs \<Longrightarrow> actor rq \<noteq> Some u"
  shows "keys_of u (run_auth rqs s) = keys_of u s \<and> key_ids_ok (run_auth rqs s)"
  using assms
proof (induction rqs arbitrary: s)
  case Nil
  then show ?case by (simp add: run_auth_def)
next
  case (Cons rq rqs)
  have "key_ids_ok (serve rq s) \<and> keys_of u (serve rq s) = keys_of u s"
    using Cons.prems by (intro quiet_serve) auto
  then show ?case using Cons.IH [of "serve rq s"] Cons.prems(2) by (simp add: run_auth_def)
qed

theorem keys_of_others_untouched_witness:
  "keys_of (uuid_str 1) (run_auth [Delete_Key 1 (uuid_str 2), Create_Key 40 [4] (uuid_str 2) None None]
      (run_auth sample_run sample_users)) = keys_of (uuid_str 1) (run_auth sample_run sample_users)"
proof -
  have "key_ids_ok (run_auth sample_run sample_users)" by code_simp
  moreover have "uuid_str 1 \<noteq> uuid_str 2" by code_simp
  ultimately show ?thesis
    by (intro conjunct1 [OF keys_of_others_untouched]) (auto simp: actor_def)
qed

end
