(* ===== verification/Spec2Isabelle.thy ===== *)
theory Spec2Isabelle
  imports Memory_Properties State_Properties Controller_Properties Event_Properties
    Conversation_Properties Agent_Properties Recall_Properties Registry_Properties
    Other_Agents_Properties Bash_Properties Microagent_Properties Org_Properties Device_Properties
begin

text \<open>
  A model of the core of OpenHands (the Python package \<open>openhands\<close>): the controller that runs an
  agent in a conversation, the state it keeps, and the memory, event and storage components it
  works with, the shell session of the sandbox, and, from the hosted product (\<open>enterprise\<close>),
  organisations, invitations and the keys of the programming interface.

  The program. A conversation is a stream of events, actions and observations. The agent
  controller is called back with each event of the stream. When an event asks for a step the
  controller checks that it is running, has no action pending, is within its limits and is not in
  a loop; then it asks the agent for an action, holds the action back if it needs the user's
  confirmation, and appends it to the stream. The runtime is called back with the same stream,
  performs actions and appends their observations. The agent sees the history through a view
  from which condensers remove old events. A delegation starts a second controller on the same
  stream, that shares its parent's limits and metrics: the flag objects are one pair for a whole
  chain of delegates, so in the model a change of them through one controller is written to all. State and statistics are saved to a file
  store, and are restored when the conversation is opened again.

  The theories, with the sources they model:

  \<^item> Prelude: Python exceptions as values (\<open>exn\<close>), operations that change a state and may raise
    (\<open>('s, 'a) op\<close>, in which the changes made before an exception stay), the locale
    \<open>op_relation\<close> by which a relation between states is carried through such operations, slices
    and indices as Python has them, dictionaries in insertion order, strings.
  \<^item> Control_Flags: \<open>controller/state/control_flags.py\<close>. The locale \<open>control_flag_contract\<close>
    states what a step and an increase of a limit promise; both classes are interpretations.
  \<^item> Metrics: \<open>llm/metrics.py\<close>. Conversation_Stats: \<open>server/services/conversation_stats.py\<close>.
  \<^item> Storage: \<open>storage/locations.py\<close>, \<open>memory.py\<close>, \<open>batched_web_hook.py\<close>. The locale
    \<open>file_store\<close> is the interface; the in-memory store provides it, and the batching store
    provides it over any store that does.
  \<^item> Events: the dataclasses of \<open>events/action\<close> and \<open>events/observation\<close>, an event as its
    payload with the attributes set on the object, dataclass equality, class tests.
  \<^item> Event_Log: \<open>events/event_filter.py\<close>, and \<open>events/stream.py\<close> as its clients see it: ids
    from zero, a search over a range, the queue of undelivered events. \<open>stored_form\<close> is what is
    left of an event after it went through its dictionary (\<open>events/serialization/event.py\<close>).
  \<^item> Serialization and Event_Dict: \<open>events/serialization\<close>, an event as its dictionary and back, for
    every class of actions and observations, with the renamed and removed keys of older versions.
    A dictionary value of a type that the dataclass does not declare, which Python accepts
    unchecked, gives \<open>Outside\<close>: the model says nothing about it.
  \<^item> Event_Store and Event_Store_Facts: \<open>events/event_store.py\<close> and the storing half of
    \<open>events/stream.py\<close>: a file per event, cache pages of 25 events, ids from file names, the masking
    of secrets. \<open>represents\<close> relates the files to an \<open>event_log\<close>.
  \<^item> View: \<open>memory/view.py\<close>. Condensers: \<open>memory/condenser\<close>, every strategy and the pipeline
    (\<open>datatype condenser\<close>, \<open>condense\<close>). The locale \<open>condenser_contract\<close> says what a caller may
    rely on, \<open>rolling_contract\<close> what a rolling condenser has to provide for it; each strategy is
    an interpretation, and an induction over pipelines gives the contract for all of them.
  \<^item> Stuck: \<open>controller/stuck.py\<close>, the five loop scenarios.
  \<^item> State: \<open>controller/state/state.py\<close>. State_Tracker: \<open>controller/state/state_tracker.py\<close>.
    Replay: \<open>controller/replay.py\<close>.
  \<^item> Agent_Controller and Delegation: \<open>controller/agent_controller.py\<close>. One definition per method,
    with the record \<open>'ag core\<close> for the fields of a controller and \<open>'ag controller\<close> for a
    controller with its delegate; \<open>world\<close> holds the stream, the store, the statistics and the
    statuses sent. \<open>system_step\<close> is the running system: the stream delivers an event,
    somebody else adds one, the loop recovery is asked for, the controller is closed.
  \<^item> Runtime: \<open>run_action\<close> and the event handling of \<open>runtime/base.py\<close>, the gate in front of what
    executes an action.
  \<^item> Controller_Frames: what every operation of the controller leaves alone, by the locales
    \<open>core_frame\<close>, \<open>controller_frame\<close>, \<open>system_frame\<close> and \<open>core_invariant\<close>: a relation that the few
    primitive changes keep is kept by every method and every run. Its interpretations are the
    bound on iterations, the filtered history, the growing stream and the constant fields.
  \<^item> Controller_Facts and Controller_Scenarios: single operations, and longer pieces of behaviour.
  \<^item> Messages: \<open>core/message.py\<close>. Conversation_Memory and Conversation_Facts:
    \<open>memory/conversation_memory.py\<close>, from a list of events to the messages for the model.
    \<open>blocks\<close> is the form the messages have, as an inductive predicate.
  \<^item> Function_Calling and Codeact_Agent: \<open>agenthub/codeact_agent\<close>, the tools on offer, the reading
    of tool calls and the step of the agent (\<open>agent_step\<close>, for any reading of responses).
  \<^item> Other_Agents: \<open>agenthub/readonly_agent\<close>, which inherits that step, and \<open>agenthub/loc_agent\<close>,
    with \<open>shlex.quote\<close>.
  \<^item> Recall: \<open>memory/memory.py\<close> and the triggers of \<open>microagent/microagent.py\<close>. Microagents and
    Mcp_Config: loading microagents from files (\<open>microagent/microagent.py\<close>, \<open>microagent/types.py\<close>)
    and into the memory, and \<open>core/config/mcp_config.py\<close> with the validators of the MCP servers.
  \<^item> Ps1, Bash_Session and Bash_Facts: the prompt with its metadata
    (\<open>events/observation/commands.py\<close>) and the shell session (\<open>runtime/utils/bash.py\<close>): splitting and
    escaping commands, typing them into a pane of \<open>tmux\<close>, the loop that polls the pane, and the
    answers on completion and on both kinds of timeout. The loop is a \<open>partial_function\<close> whose value
    \<open>None\<close> means that it does not return.
  \<^item> Uuids, Org_Store, Authorization, Org_Members, Org_Invitations: the tables of organisations,
    members, roles, users and invitations with their constraints (\<open>enterprise/storage\<close>), the
    permissions (\<open>server/auth/authorization.py\<close>), and the services and routes for members,
    organisations and invitations. A table is the list of its rows. Org_Facts, Org_Requests and
    Org_Invitation_Facts: which operation leaves what alone (the locale \<open>db_relation\<close>), and the
    requests of a running server as the datatype \<open>org_request\<close> with its step \<open>perform\<close>.
  \<^item> Device_Flow: the keys of the programming interface and the device flow
    (\<open>enterprise/storage/api_key_store.py\<close>, \<open>device_code.py\<close>, \<open>device_code_store.py\<close>,
    \<open>server/routes/api_keys.py\<close>, \<open>oauth_device.py\<close>).
  \<^item> Fn_Call_Text, Text_Patterns, Fn_Call_Converter, Fn_Call_Facts: \<open>llm/fn_call_converter.py\<close>,
    tool calls for models that only write text. The regular expressions are functions that give
    the groups of the first match. \<open>convertible\<close> says which conversations survive being written,
    \<open>canonical_all\<close> what comes back.
  \<^item> Model_Features: \<open>llm/model_features.py\<close>. Llm, Llm_Clients, Llm_Completion and Llm_Facts:
    \<open>llm/llm.py\<close> and \<open>llm/retry_mixin.py\<close>, how a client is built from its configuration, what one
    completion sends, converts and records, and the retries. A client is the record \<open>llm\<close>, its
    surroundings are \<open>llm_env\<close> and \<open>llm_setup\<close>. The locale \<open>documented_retries\<close> states what the
    documentation of \<open>tenacity\<close> promises; \<open>retry_loop\<close> is a loop that keeps it.
  \<^item> Llm_Registry: \<open>llm/llm_registry.py\<close> with the statistics as its subscriber, and \<open>llm/router\<close>.
  \<^item> Controller_Properties, Memory_Properties, State_Properties, Event_Properties,
    Conversation_Properties, Agent_Properties, Recall_Properties, Fn_Call_Properties,
    Llm_Properties, Registry_Properties, Other_Agents_Properties, Bash_Properties,
    Microagent_Properties, Org_Properties, Device_Properties: the properties, with their witnesses
    on small conversations, screens and tables.

  What is shown. Controller: iterations stay within the limit in every run, whatever the
  delegates do; the agent is asked only by a controller that is ready; each change of state is
  announced, saved and restored; a cut-off action is answered; the answer of the user decides
  whether a held command is executed; errors in a step become a state and a status, never an
  exception; delegates end with one observation. Where the code does less than it means to, the
  theorem says what it does: the confirmation mark is lost for actions whose class does not
  declare it, delegates are never in confirmation mode, a delegate of a delegate gets no events (only
  the shared flags of it change),
  loop recovery and delegations leave bounds behind that cut a restored history. Memory: condensers
  condense only when they should and leave exactly the events they promise; what the summarising
  condenser removes was shown to the model; the window keeps the task and the recent half. State: a reported loop lies in the history, the cached view is the view, metrics and
  state survive a restart, the webhook hears of every file. Stream: the files implement the log,
  for adding and for searching, also after they are opened again; encoding and decoding an event
  gives its stored form; secrets that are not part of the mask's own text are masked below the
  keys that are not protected. Prompt: the messages have every tool call answered, building them
  does not fail on histories of events that have a text, and the cache marks are on a leading
  system message and the last message of the user or a tool. Agent: the actions it makes of a
  response carry its calls in their order, every tool it offers but two is understood. A user message
  gets an answer from the memory that lets the agent run. Model: a conversation written for a
  text-only model is read back, and what is read from its answers are valid calls of offered
  tools; a completion sends at most as many requests as configured and succeeds as soon as the
  provider does; the metrics stay consistent and the statistics are those of the registered
  clients. The theorems also say where an answer that was paid for is not accounted for or lost,
  that exhausted retries look like a rate limit to the controller, and that a completed
  configuration cannot be requested again. The read-only agent returns only actions that read, and
  its two search commands have everything the model gave quoted; what a shell makes of them is not
  modelled. Shell session: a command that still runs is never typed over, output reported in
  pieces is neither lost nor repeated, executing ends if there is a limit, and a prompt that is
  still the old one is taken for the end of the command. Microagents: what loads is of the kind
  its front matter calls for, a directory is loaded all or not at all. Organisations: one that
  nobody deletes keeps an owner through any sequence of requests, ownership changes only as owners
  decide, an invitation admits the account it names and once; two demotions at the same time can
  leave no owner, and a deleted organisation remains in its table. Keys: a device gets one only
  after a user approved its code in time, and nobody changes the keys of others.

  Arguments of the model. What the agent, the security analyzer, the language model, the sandbox
  and the clock answer are functions given to the definitions (\<open>'ag env\<close>, \<open>llm\<close>, \<open>perform\<close>,
  \<open>completion\<close>), and so are the prompt templates, the display of a difference, the text of an
  action (\<open>prompts\<close>), the parsing of JSON and of numbers and the objects of the model's client
  library (\<open>response_codec\<close>, \<open>fn_codec\<close>), the text Python gives for a dictionary and the version
  (\<open>codec\<close>), the provider with its prices, the information about models and the process
  environment (\<open>llm_env\<close>, \<open>llm_setup\<close>), and the retry loop (\<open>retries_as_documented\<close>); for the shell
  session the terminal and the clock (\<open>tmux\<close>, over a world of any type) and the shell parser
  (\<open>shell_lib\<close>); for microagents the file system and the front matter parser (\<open>microagent_lib\<close>); for
  organisations the LLM proxy, the identity provider and the mailer (\<open>outside\<close>). Readings of the
  clock and random choices of the device flow are arguments of its operations.
  Nothing is assumed of them but what a theorem names. \<open>pickle\<close>, \<open>base64\<close> and writing JSON text
  to a file and reading it back are the identity.

  Bounds. Integers of the program are Python's, so \<open>int\<close>; floats are rationals without rounding.
  Recursions over lists are structural; the loop of the replay manager has a termination proof.
  \<open>replay_all\<close>, which asks for replayed actions until there are none, takes fuel: more than the
  number of events is enough, and the property about it shows that the result is then the whole
  list of actions.

  Not modelled: logging, threads and the event loop (callbacks run one after the other, in
  the order of delivery), HTTP failures of the webhook (an update counts as sent once the batch is
  handed over), the streaming and asynchronous clients, the browsing agents, the sandboxes but for
  the shell session, the conversation server, and the integrations and billing of the hosted
  product. The encoding of events never fails inside the controller's model of the stream
  (\<open>Event_Log\<close>); where it fails is modelled in Event_Store.
\<close>

end
